(* ===== verification/Prelude.thy ===== *)
theory Prelude
  imports Main "HOL-Library.Char_ord" "HOL-Library.List_Lexorder"
begin

text \<open>
  Shared vocabulary of the development: the error values a thrown exception becomes, the
  result type every fallible operation returns, the sequencing operators that keep a chain of
  early returns readable, and the text operations of JavaScript strings the sources use
  (\<open>trim\<close>, \<open>padStart\<close>, \<open>padEnd\<close>, \<open>split\<close>, \<open>BigInt(text)\<close>, \<open>toString\<close>).

  Strings are byte sequences (the UTF-8 form of the text), so a character is a \<open>char\<close>;
  white space is the ASCII white space of \<open>String.prototype.trim\<close>.
\<close>

named_theorems res_simps \<open>unfolding of the result combinators\<close>
named_theorems text_simps \<open>rewriting of text operations\<close>

section \<open>Errors and results\<close>

datatype js_error =
    TypeError string
  | RangeError string
  | PlainError string
  | ConfigurationError string
  | UsageCsvError string
  | KserveSettlementInputError string string
  | KserveSettlementConflictError string string
  | KserveSettlementUnavailableError
  | MessageIntegrityError string
  | LeaseLostError string
  | AuditWorkerControlError string
  | AuditScopeError string
  | TransportError "string option"
  | CallAuditScoringError string
  | UnknownDetailedOutcomeError string
  | BillingPersistenceIntegrityError string
  | LateRecordingError string nat
  | DriverError string
  | CredentialError string
  | UserAdminError string string "string list"
  | LoginError string
  | AuthFailure nat string
  | OidcBindingInputError string string
  | OidcBindingWriteError string
  | ManualReauditError string nat
  | ImportInputError string
  | UsageImportValidationError "(nat \<times> string \<times> string) list"
  | CallAuditOutputError string string
  | CallAuditRecordError string string
  | CallAuditSourceRevisionError string
  | CallAuditPersistenceError string string
  | CallAuditPersistenceConflictError string string
  | CallAuditProcessorError string string

type_synonym 'a res = "js_error + 'a"

definition rbind :: "'a res \<Rightarrow> ('a \<Rightarrow> 'b res) \<Rightarrow> 'b res" where
  [res_simps]: "rbind m f = (case m of Inl e \<Rightarrow> Inl e | Inr x \<Rightarrow> f x)"

fun first_error :: "(bool \<times> js_error) list \<Rightarrow> unit res" where
  "first_error [] = Inr ()"
| "first_error ((bad, e) # cs) = (if bad then Inl e else first_error cs)"

fun mapM_res :: "('a \<Rightarrow> 'b res) \<Rightarrow> 'a list \<Rightarrow> 'b list res" where
  "mapM_res f [] = Inr []"
| "mapM_res f (x # xs) = rbind (f x) (\<lambda>y. rbind (mapM_res f xs) (\<lambda>ys. Inr (y # ys)))"

definition is_ok :: "'a res \<Rightarrow> bool" where
  "is_ok m = (case m of Inl _ \<Rightarrow> False | Inr _ \<Rightarrow> True)"

lemma rbind_simps [simp]:
  "rbind (Inl e) f = Inl e"
  "rbind (Inr x) f = f x"
  by (simp_all add: rbind_def)

lemma rbind_Inr_iff: "rbind m f = Inr y \<longleftrightarrow> (\<exists>x. m = Inr x \<and> f x = Inr y)"
  by (cases m) auto

lemma rbind_Inl_iff: "rbind m f = Inl e \<longleftrightarrow> m = Inl e \<or> (\<exists>x. m = Inr x \<and> f x = Inl e)"
  by (cases m) auto

lemma rbind_InrE:
  assumes "rbind m f = Inr y"
  obtains x where "m = Inr x" and "f x = Inr y"
  using assms by (auto simp: rbind_Inr_iff)

lemma rbind_assoc: "rbind (rbind m f) g = rbind m (\<lambda>x. rbind (f x) g)"
  by (cases m) simp_all

lemma is_ok_simps [simp]: "is_ok (Inr x)" "\<not> is_ok (Inl e)"
  by (simp_all add: is_ok_def)

lemma is_ok_iff: "is_ok m \<longleftrightarrow> (\<exists>x. m = Inr x)"
  by (cases m) auto

lemma is_ok_rbind: "is_ok (rbind m f) \<longleftrightarrow> (\<exists>x. m = Inr x \<and> is_ok (f x))"
  by (cases m) auto

lemma first_error_ok: "first_error cs = Inr () \<longleftrightarrow> list_all (\<lambda>c. \<not> fst c) cs"
  by (induction cs rule: first_error.induct) auto

lemma first_error_Inr: "first_error cs = Inr u \<longleftrightarrow> list_all (\<lambda>c. \<not> fst c) cs"
  using first_error_ok[of cs] by (cases u) simp

lemma first_error_append:
  "first_error (as @ bs) = rbind (first_error as) (\<lambda>_. first_error bs)"
  by (induction as rule: first_error.induct) auto

lemma first_error_Inl: "first_error cs = Inl e \<Longrightarrow> \<exists>c \<in> set cs. fst c \<and> snd c = e"
  by (induction cs rule: first_error.induct) (auto split: if_splits)

lemma mapM_res_ok: "mapM_res f xs = Inr ys \<Longrightarrow> map f xs = map Inr ys"
  by (induction xs arbitrary: ys) (auto simp: rbind_Inr_iff)

lemma mapM_res_Inr_iff: "mapM_res f xs = Inr ys \<longleftrightarrow> map f xs = map Inr ys"
  by (induction xs arbitrary: ys) (auto simp: rbind_Inr_iff)

section \<open>Untyped inputs\<close>

text \<open>A value of type \<open>unknown\<close> that a validator receives: absent or null, a text, or anything else.\<close>

datatype js_input = Missing | Text_in string | Other_in

section \<open>Optional values\<close>

text \<open>\<open>x ?? d\<close> of the sources, and the truthiness test of an optional text.\<close>

definition coalesce :: "'a option \<Rightarrow> 'a \<Rightarrow> 'a" where
  "coalesce x d = (case x of None \<Rightarrow> d | Some v \<Rightarrow> v)"

definition truthy_text :: "string option \<Rightarrow> bool" where
  "truthy_text x = (case x of None \<Rightarrow> False | Some s \<Rightarrow> s \<noteq> [])"

lemma coalesce_simps [simp]: "coalesce None d = d" "coalesce (Some v) d = v"
  by (simp_all add: coalesce_def)

lemma truthy_text_simps [simp]: "\<not> truthy_text None" "truthy_text (Some s) = (s \<noteq> [])"
  by (simp_all add: truthy_text_def)

section \<open>Unique keys\<close>

text \<open>A row found under a key that is unique is the row.\<close>

lemma distinct_key_filter: "distinct (map f xs) \<Longrightarrow> x \<in> set xs \<Longrightarrow> filter (\<lambda>y. f y = f x) xs = [x]"
  by (induction xs) (auto simp: filter_empty_conv image_iff)

lemma find_distinct_key: "distinct (map f xs) \<Longrightarrow> x \<in> set xs \<Longrightarrow> find (\<lambda>y. f y = f x) xs = Some x"
  by (induction xs) auto

section \<open>Systems that only grow\<close>

text \<open>
  The contract of a store whose steps keep an invariant and only ever extend what is recorded: then every
  history does.
\<close>

locale monotone_system =
  fixes step :: "'s \<Rightarrow> 's \<Rightarrow> bool"
    and ok :: "'s \<Rightarrow> bool"
    and grows :: "'s \<Rightarrow> 's \<Rightarrow> bool"
  assumes grows_refl: "grows s s"
    and grows_trans: "grows a b \<Longrightarrow> grows b c \<Longrightarrow> grows a c"
    and step_keeps: "step s s' \<Longrightarrow> ok s \<Longrightarrow> ok s' \<and> grows s s'"
begin

lemma run_keeps: "step\<^sup>*\<^sup>* s s' \<Longrightarrow> ok s \<Longrightarrow> ok s' \<and> grows s s'"
  by (induction rule: rtranclp_induct) (auto intro: grows_refl dest: step_keeps grows_trans)

lemma run_ok: "step\<^sup>*\<^sup>* s s' \<Longrightarrow> ok s \<Longrightarrow> ok s'"
  by (simp add: run_keeps)

lemma run_grows: "step\<^sup>*\<^sup>* s s' \<Longrightarrow> ok s \<Longrightarrow> grows s s'"
  by (simp add: run_keeps)

end

end
