(* ===== verification/JsText.thy ===== *)
theory JsText
  imports Prelude
begin

text \<open>
  The JavaScript text operations the sources use, as executable functions on byte strings,
  with the digit arithmetic the money formats rest on: printing a natural number in base ten
  (\<open>BigInt.prototype.toString\<close>), reading a digit string back (\<open>BigInt(text)\<close>), padding and
  splitting, and the anchored regular expressions as recognisers.
\<close>

section \<open>White space\<close>

definition is_ws :: "char \<Rightarrow> bool" where
  "is_ws c = (c = CHR 0x20 \<or> (CHR 0x09 \<le> c \<and> c \<le> CHR 0x0D))"

definition trim_start :: "string \<Rightarrow> string" where
  "trim_start s = dropWhile is_ws s"

definition trim :: "string \<Rightarrow> string" where
  "trim s = rev (dropWhile is_ws (rev (dropWhile is_ws s)))"

lemma dropWhile_idem: "dropWhile P (dropWhile P xs) = dropWhile P xs"
  by (induction xs) auto

lemma hd_trim: "trim s \<noteq> [] \<Longrightarrow> \<not> is_ws (hd (trim s))"
proof -
  assume ne: "trim s \<noteq> []"
  define t where "t = dropWhile is_ws s"
  have "\<exists>suf. t = trim s @ suf"
  proof -
    have "rev t = takeWhile is_ws (rev t) @ dropWhile is_ws (rev t)" by simp
    then have "t = rev (dropWhile is_ws (rev t)) @ rev (takeWhile is_ws (rev t))"
      by (metis rev_append rev_rev_ident)
    then show ?thesis by (auto simp: trim_def t_def)
  qed
  then obtain suf where suf: "t = trim s @ suf" ..
  then have "t \<noteq> []" and "hd t = hd (trim s)" using ne by auto
  then show ?thesis using hd_dropWhile[of is_ws s] by (simp add: t_def)
qed

lemma last_trim: "trim s \<noteq> [] \<Longrightarrow> \<not> is_ws (last (trim s))"
  by (auto simp: trim_def last_rev hd_dropWhile)

lemma trim_id: "(s \<noteq> [] \<Longrightarrow> \<not> is_ws (hd s) \<and> \<not> is_ws (last s)) \<Longrightarrow> trim s = s"
proof (cases s)
  case (Cons c cs)
  assume a: "s \<noteq> [] \<Longrightarrow> \<not> is_ws (hd s) \<and> \<not> is_ws (last s)"
  with Cons have h: "\<not> is_ws c" and l: "\<not> is_ws (last s)" by auto
  have "rev s \<noteq> []" "hd (rev s) = last s" using Cons by (auto simp: hd_rev)
  then obtain d ds where "rev s = d # ds" "\<not> is_ws d" using l by (cases "rev s") auto
  then have "dropWhile is_ws (rev s) = rev s" by simp
  with h Cons show ?thesis by (simp add: trim_def)
qed (simp add: trim_def)

lemma trim_trim [simp]: "trim (trim s) = trim s"
  by (rule trim_id) (simp add: hd_trim last_trim)

lemma trim_Nil [simp]: "trim [] = []"
  by (simp add: trim_def)

lemma trim_no_ws: "list_all (\<lambda>c. \<not> is_ws c) s \<Longrightarrow> trim s = s"
  by (rule trim_id) (auto simp: list_all_iff)

section \<open>Digits\<close>

definition is_digit :: "char \<Rightarrow> bool" where
  "is_digit c = (CHR ''0'' \<le> c \<and> c \<le> CHR ''9'')"

definition digit_val :: "char \<Rightarrow> nat" where
  "digit_val c = of_char c - 48"

definition digit_char :: "nat \<Rightarrow> char" where
  "digit_char n = char_of (48 + n)"

definition all_digits :: "string \<Rightarrow> bool" where
  "all_digits s = list_all is_digit s"

definition nat_of_digits :: "string \<Rightarrow> nat" where
  "nat_of_digits s = foldl (\<lambda>n c. 10 * n + digit_val c) 0 s"

fun string_of_nat :: "nat \<Rightarrow> string" where
  "string_of_nat n =
     (if n < 10 then [digit_char n] else string_of_nat (n div 10) @ [digit_char (n mod 10)])"

declare string_of_nat.simps [simp del]

definition string_of_int :: "int \<Rightarrow> string" where
  "string_of_int i =
     (if i < 0 then CHR ''-'' # string_of_nat (nat (- i)) else string_of_nat (nat i))"

lemma is_digit_alt: "is_digit c \<longleftrightarrow> 48 \<le> (of_char c :: nat) \<and> (of_char c :: nat) \<le> 57"
  by (simp add: is_digit_def less_eq_char_def)

lemma of_char_digit_char: "n < 10 \<Longrightarrow> (of_char (digit_char n) :: nat) = 48 + n"
  by (simp add: digit_char_def of_char_of)

lemma is_digit_digit_char [simp]: "n < 10 \<Longrightarrow> is_digit (digit_char n)"
  by (simp add: is_digit_alt of_char_digit_char)

lemma digit_val_digit_char [simp]: "n < 10 \<Longrightarrow> digit_val (digit_char n) = n"
  by (simp add: digit_val_def of_char_digit_char)

lemma digit_val_less: "is_digit c \<Longrightarrow> digit_val c < 10"
  by (auto simp: is_digit_alt digit_val_def)

lemma digit_char_digit_val: "is_digit c \<Longrightarrow> digit_char (digit_val c) = c"
proof -
  assume "is_digit c"
  then have "48 + digit_val c = (of_char c :: nat)" by (auto simp: is_digit_alt digit_val_def)
  then show ?thesis by (simp add: digit_char_def)
qed

lemma digit_char_inject: "m < 10 \<Longrightarrow> n < 10 \<Longrightarrow> digit_char m = digit_char n \<longleftrightarrow> m = n"
  by (metis digit_val_digit_char)

lemma digit_not_ws: "is_digit c \<Longrightarrow> \<not> is_ws c"
  by (auto simp: is_digit_alt is_ws_def less_eq_char_def)

lemma digit_neq [simp]:
  "is_digit c \<Longrightarrow> c \<noteq> CHR ''.''" "is_digit c \<Longrightarrow> c \<noteq> CHR ''-''" "is_digit c \<Longrightarrow> c \<noteq> CHR ''+''"
  "is_digit c \<Longrightarrow> c \<noteq> CHR '',''" "is_digit c \<Longrightarrow> c \<noteq> CHR 0x22"
  by (auto simp: is_digit_alt)

lemma all_digits_simps [simp]:
  "all_digits []" "all_digits (c # s) = (is_digit c \<and> all_digits s)"
  "all_digits (s @ t) = (all_digits s \<and> all_digits t)"
  by (auto simp: all_digits_def)

lemma all_digits_replicate [simp]: "all_digits (replicate n (CHR ''0''))"
  by (simp add: all_digits_def list_all_iff is_digit_def)

lemma all_digits_take_drop: "all_digits s \<Longrightarrow> all_digits (take n s) \<and> all_digits (drop n s)"
  by (auto simp: all_digits_def list_all_iff dest: in_set_takeD in_set_dropD)

lemma nat_of_digits_Nil [simp]: "nat_of_digits [] = 0"
  by (simp add: nat_of_digits_def)

lemma foldl_digits:
  "foldl (\<lambda>n c. 10 * n + digit_val c) a s = a * 10 ^ length s + nat_of_digits s"
proof (induction s arbitrary: a)
  case (Cons c s)
  have "nat_of_digits (c # s) = foldl (\<lambda>n c. 10 * n + digit_val c) (digit_val c) s"
    by (simp add: nat_of_digits_def)
  then show ?case using Cons[of "10 * a + digit_val c"] Cons[of "digit_val c"]
    by (simp add: algebra_simps)
qed (simp add: nat_of_digits_def)

lemma nat_of_digits_Cons [simp]:
  "nat_of_digits (c # s) = digit_val c * 10 ^ length s + nat_of_digits s"
  using foldl_digits[of "digit_val c" s] by (simp add: nat_of_digits_def)

lemma nat_of_digits_append:
  "nat_of_digits (s @ t) = nat_of_digits s * 10 ^ length t + nat_of_digits t"
  by (induction s) (simp_all add: algebra_simps power_add)

lemma nat_of_digits_zeros [simp]: "nat_of_digits (replicate n (CHR ''0'')) = 0"
  by (induction n) (simp_all add: digit_val_def)

lemma nat_of_digits_less: "all_digits s \<Longrightarrow> nat_of_digits s < 10 ^ length s"
proof (induction s)
  case (Cons c s)
  then have d: "digit_val c \<le> 9" and r: "nat_of_digits s < 10 ^ length s"
    using digit_val_less[of c] by auto
  have "digit_val c * 10 ^ length s \<le> 9 * 10 ^ length s" using d by simp
  with r show ?case by (simp, linarith)
qed simp

lemma string_of_nat_nonempty [simp]: "string_of_nat n \<noteq> []"
  by (subst string_of_nat.simps) simp

lemma string_of_nat_0 [simp]: "string_of_nat 0 = ''0''"
  using digit_char_digit_val[of "CHR ''0''"]
  by (simp add: string_of_nat.simps[of 0] is_digit_def digit_val_def)

lemma all_digits_string_of_nat [simp]: "all_digits (string_of_nat n)"
proof (induction n rule: string_of_nat.induct)
  case (1 n)
  then show ?case by (subst string_of_nat.simps) auto
qed

lemma nat_of_digits_string_of_nat [simp]: "nat_of_digits (string_of_nat n) = n"
proof (induction n rule: string_of_nat.induct)
  case (1 n)
  then show ?case
    by (subst string_of_nat.simps) (auto simp: nat_of_digits_append)
qed

lemma string_of_nat_inject [simp]: "string_of_nat m = string_of_nat n \<longleftrightarrow> m = n"
  by (metis nat_of_digits_string_of_nat)

lemma hd_string_of_nat: "is_digit (hd (string_of_nat n))"
  using all_digits_string_of_nat[of n] by (cases "string_of_nat n") auto

lemma string_of_int_inject: "string_of_int i = string_of_int j \<longleftrightarrow> i = j"
proof -
  have d: "string_of_nat m \<noteq> CHR ''-'' # s" for m s
    using hd_string_of_nat[of m] digit_neq(2) by fastforce
  show ?thesis
    by (auto simp: string_of_int_def d d[symmetric] split: if_splits)
qed

lemma string_of_nat_add:
  "0 < a \<Longrightarrow> b < 10 ^ k \<Longrightarrow>
   string_of_nat (a * 10 ^ k + b) = string_of_nat a @
     map (\<lambda>i. digit_char (b div 10 ^ i mod 10)) (rev [0..<k])"
proof (induction k arbitrary: b)
  case (Suc k)
  define n where "n = a * 10 ^ Suc k + b"
  have n: "n = b + 10 * (a * 10 ^ k)" by (simp add: n_def)
  have "1 \<le> a * 10 ^ k" using Suc.prems(1) by (simp add: Suc_le_eq)
  then have big: "\<not> n < 10" unfolding n by linarith
  have dv: "n div 10 = a * 10 ^ k + b div 10" and md: "n mod 10 = b mod 10"
    unfolding n by simp_all
  have "b div 10 < 10 ^ k" using Suc.prems(2) by (simp add: less_mult_imp_div_less mult.commute)
  from Suc.IH[OF Suc.prems(1) this]
  have ih: "string_of_nat (n div 10) = string_of_nat a @
      map (\<lambda>i. digit_char (b div 10 div 10 ^ i mod 10)) (rev [0..<k])" unfolding dv .
  have "map (\<lambda>i. digit_char (b div 10 div 10 ^ i mod 10)) (rev [0..<k]) =
        map (\<lambda>i. digit_char (b div 10 ^ i mod 10)) (map Suc (rev [0..<k]))"
    by (simp add: div_mult2_eq[symmetric])
  moreover have "rev [0..<Suc k] = map Suc (rev [0..<k]) @ [0]"
    by (simp add: rev_map[symmetric] map_Suc_upt upt_conv_Cons del: upt_Suc)
  ultimately have "string_of_nat n = string_of_nat a @
      map (\<lambda>i. digit_char (b div 10 ^ i mod 10)) (rev [0..<Suc k])"
    by (subst string_of_nat.simps) (simp add: big ih md del: upt_Suc)
  then show ?case by (simp only: n_def)
qed simp

section \<open>Padding, cutting and splitting\<close>

definition padStart :: "nat \<Rightarrow> char \<Rightarrow> string \<Rightarrow> string" where
  "padStart n c s = replicate (n - length s) c @ s"

definition padEnd :: "nat \<Rightarrow> char \<Rightarrow> string \<Rightarrow> string" where
  "padEnd n c s = s @ replicate (n - length s) c"

text \<open>\<open>s.slice(0, -n)\<close> and \<open>s.slice(-n)\<close>.\<close>

definition but_last :: "nat \<Rightarrow> string \<Rightarrow> string" where
  "but_last n s = take (length s - n) s"

definition last_chars :: "nat \<Rightarrow> string \<Rightarrow> string" where
  "last_chars n s = drop (length s - n) s"

text \<open>
  \<open>break_at c s\<close> cuts at the first \<open>c\<close>: the text before it and, when there is one, the text
  after it. On a text with at most one \<open>c\<close> this is \<open>s.split(c)\<close>.
\<close>

fun break_at :: "char \<Rightarrow> string \<Rightarrow> string \<times> string option" where
  "break_at c [] = ([], None)"
| "break_at c (x # xs) =
     (if x = c then ([], Some xs) else (let (a, b) = break_at c xs in (x # a, b)))"

lemma length_padStart [simp]: "length (padStart n c s) = max n (length s)"
  by (simp add: padStart_def)

lemma length_padEnd [simp]: "length (padEnd n c s) = max n (length s)"
  by (simp add: padEnd_def)

lemma all_digits_padStart [simp]: "all_digits (padStart n (CHR ''0'') s) = all_digits s"
  by (simp add: padStart_def)

lemma all_digits_padEnd [simp]: "all_digits (padEnd n (CHR ''0'') s) = all_digits s"
  by (simp add: padEnd_def)

lemma nat_of_digits_padStart [simp]: "nat_of_digits (padStart n (CHR ''0'') s) = nat_of_digits s"
  by (simp add: padStart_def nat_of_digits_append)

lemma nat_of_digits_padEnd:
  "nat_of_digits (padEnd n (CHR ''0'') s) = nat_of_digits s * 10 ^ (n - length s)"
  by (simp add: padEnd_def nat_of_digits_append)

lemma but_last_last_chars [simp]: "but_last n s @ last_chars n s = s"
  by (simp add: but_last_def last_chars_def)

lemma length_last_chars: "n \<le> length s \<Longrightarrow> length (last_chars n s) = n"
  by (simp add: last_chars_def)

lemma break_at_digits:
  "all_digits s \<Longrightarrow> break_at (CHR ''.'') s = (s, None)"
  "all_digits s \<Longrightarrow> break_at (CHR ''.'') (s @ CHR ''.'' # t) = (s, Some t)"
  by (induction s) (auto split: prod.splits)

lemma break_at_join:
  "break_at c s = (a, None) \<Longrightarrow> s = a"
  "break_at c s = (a, Some b) \<Longrightarrow> s = a @ c # b"
  by (induction s arbitrary: a) (auto split: if_splits prod.splits)

lemma string_of_nat_length_le: "n < 10 ^ k \<Longrightarrow> 0 < k \<Longrightarrow> length (string_of_nat n) \<le> k"
proof (induction k arbitrary: n)
  case (Suc k)
  show ?case
  proof (cases "n < 10")
    case True
    then show ?thesis by (subst string_of_nat.simps) simp
  next
    case False
    then have k: "0 < k" using Suc.prems(1) by (cases k) auto
    have "n div 10 < 10 ^ k" using Suc.prems(1) by (simp add: less_mult_imp_div_less mult.commute)
    from Suc.IH[OF this k] False show ?thesis by (subst string_of_nat.simps) simp
  qed
qed simp

lemma digits_eqI:
  "all_digits s \<Longrightarrow> all_digits t \<Longrightarrow> length s = length t \<Longrightarrow> nat_of_digits s = nat_of_digits t \<Longrightarrow> s = t"
proof (induction s arbitrary: t)
  case (Cons c s)
  from Cons.prems(3) obtain d u where t: "t = d # u" by (cases t) auto
  have l: "length s = length u" and ds: "all_digits s" "all_digits u" "is_digit c" "is_digit d"
    using Cons.prems t by auto
  have b: "nat_of_digits s < 10 ^ length u" "nat_of_digits u < 10 ^ length u"
    using nat_of_digits_less ds l by metis+
  have e: "digit_val c * 10 ^ length u + nat_of_digits s = digit_val d * 10 ^ length u + nat_of_digits u"
    using Cons.prems(4) t l by simp
  have "(digit_val c * 10 ^ length u + nat_of_digits s) div 10 ^ length u = digit_val c"
       "(digit_val d * 10 ^ length u + nat_of_digits u) div 10 ^ length u = digit_val d"
    using b by simp_all
  with e have "digit_val c = digit_val d" by simp
  then have "c = d" using ds digit_char_digit_val by metis
  moreover have "s = u" using Cons.IH[OF ds(1,2) l] e \<open>digit_val c = digit_val d\<close> by simp
  ultimately show ?case using t by simp
qed simp

text \<open>The eight-place split of a scaled amount: whole part and zero-padded fraction.\<close>

lemma padded_split:
  assumes n: "n = w * 10 ^ k + f" and f: "f < 10 ^ k" and k: "0 < k"
  defines "d \<equiv> padStart (Suc k) (CHR ''0'') (string_of_nat n)"
  shows "but_last k d = string_of_nat w" and "last_chars k d = padStart k (CHR ''0'') (string_of_nat f)"
proof -
  have kd: "k < length d" by (simp add: d_def)
  have fl: "length (string_of_nat f) \<le> k" by (rule string_of_nat_length_le[OF f k])
  have dd: "all_digits d" by (simp add: d_def)
  show last: "last_chars k d = padStart k (CHR ''0'') (string_of_nat f)"
  proof (rule digits_eqI)
    show "all_digits (last_chars k d)" using dd all_digits_take_drop by (simp add: last_chars_def)
    show "all_digits (padStart k (CHR ''0'') (string_of_nat f))" by simp
    show "length (last_chars k d) = length (padStart k (CHR ''0'') (string_of_nat f))"
      using kd fl by (simp add: length_last_chars)
    have "nat_of_digits d = nat_of_digits (but_last k d) * 10 ^ k + nat_of_digits (last_chars k d)"
      using nat_of_digits_append[of "but_last k d" "last_chars k d"] kd
      by (simp add: length_last_chars)
    moreover have "nat_of_digits (last_chars k d) < 10 ^ k"
      using nat_of_digits_less[of "last_chars k d"] dd kd all_digits_take_drop
      by (simp add: last_chars_def)
    ultimately have "nat_of_digits (last_chars k d) = nat_of_digits d mod 10 ^ k" by simp
    then show "nat_of_digits (last_chars k d) = nat_of_digits (padStart k (CHR ''0'') (string_of_nat f))"
      using n f by (simp add: d_def)
  qed
  show "but_last k d = string_of_nat w"
  proof (cases "w = 0")
    case True
    then have "n = f" using n by simp
    then have "d = CHR ''0'' # padStart k (CHR ''0'') (string_of_nat f)"
      using fl by (simp add: d_def padStart_def Suc_diff_le)
    then show ?thesis using fl True
      by (simp add: but_last_def string_of_nat_0)
  next
    case False
    then have s: "string_of_nat n = string_of_nat w @ map (\<lambda>i. digit_char (f div 10 ^ i mod 10)) (rev [0..<k])"
      using string_of_nat_add[of w f k] n f by simp
    then have "k < length (string_of_nat n)" by (cases "string_of_nat w") auto
    then have "d = string_of_nat n" by (simp add: d_def padStart_def)
    then show ?thesis using s by (simp add: but_last_def)
  qed
qed

section \<open>Letter case, searching and splitting\<close>

definition toLowerCase :: "string \<Rightarrow> string" where
  "toLowerCase s = map (\<lambda>c. if CHR ''A'' \<le> c \<and> c \<le> CHR ''Z'' then char_of ((of_char c :: nat) + 32) else c) s"

text \<open>ASCII case folding, which is what a case insensitive collation ignores on the characters a key may have.\<close>

definition fold_char :: "char \<Rightarrow> char" where
  "fold_char c = (if CHR ''A'' \<le> c \<and> c \<le> CHR ''Z'' then char_of ((of_char c :: nat) + 32) else c)"

definition same_key :: "string \<Rightarrow> string \<Rightarrow> bool" where
  "same_key a b = (map fold_char a = map fold_char b)"

lemma same_key_refl [simp]: "same_key a a"
  by (simp add: same_key_def)

definition startsWith :: "string \<Rightarrow> string \<Rightarrow> bool" where
  "startsWith s p = (take (length p) s = p)"

definition endsWith :: "string \<Rightarrow> string \<Rightarrow> bool" where
  "endsWith s p = (length p \<le> length s \<and> drop (length s - length p) s = p)"

definition includes_text :: "string \<Rightarrow> string \<Rightarrow> bool" where
  "includes_text s t = list_ex (\<lambda>k. startsWith (drop k s) t) [0..<Suc (length s)]"

text \<open>\<open>/[\u0000-\u001f\u007f]/\<close>.\<close>

definition has_control_character :: "string \<Rightarrow> bool" where
  "has_control_character s = list_ex (\<lambda>c. c \<le> CHR 0x1F \<or> c = CHR 0x7F) s"

text \<open>\<open>s.split(c)\<close>.\<close>

fun split_text :: "char \<Rightarrow> string \<Rightarrow> string list" where
  "split_text c [] = [[]]"
| "split_text c (x # xs) =
     (if x = c then [] # split_text c xs
      else case split_text c xs of [] \<Rightarrow> [[x]] | p # ps \<Rightarrow> (x # p) # ps)"

lemma split_text_plain: "c \<notin> set s \<Longrightarrow> split_text c s = [s]"
  by (induction s) auto

lemma split_text_append: "c \<notin> set s \<Longrightarrow> split_text c (s @ c # t) = s # split_text c t"
  by (induction s) auto

lemma split_text_nonempty [simp]: "split_text c s \<noteq> []"
  by (cases s) (auto split: list.splits)

section \<open>Text length in UTF-16 units\<close>

text \<open>A continuation byte adds nothing, a four-byte lead stands for a surrogate pair.\<close>

definition utf16_units :: "char \<Rightarrow> nat" where
  "utf16_units c =
     (if CHR 0x80 \<le> c \<and> c < CHR 0xC0 then 0 else if CHR 0xF0 \<le> c then 2 else 1)"

definition utf16_length :: "string \<Rightarrow> nat" where
  "utf16_length s = sum_list (map utf16_units s)"

fun utf16_take :: "nat \<Rightarrow> string \<Rightarrow> string" where
  "utf16_take n [] = []"
| "utf16_take n (c # s) = (if utf16_units c \<le> n then c # utf16_take (n - utf16_units c) s else [])"

lemma utf16_length_simps [simp]:
  "utf16_length [] = 0" "utf16_length (c # s) = utf16_units c + utf16_length s"
  "utf16_length (s @ t) = utf16_length s + utf16_length t"
  by (simp_all add: utf16_length_def)

lemma utf16_space [simp]: "utf16_units (CHR '' '') = 1"
  by (simp add: utf16_units_def)

section \<open>Runs of digits\<close>

text \<open>A greedy run of \<open>\d{lo,hi}\<close>, and one given separator.\<close>

definition digit_run :: "nat \<Rightarrow> nat \<Rightarrow> string \<Rightarrow> (string \<times> string) option" where
  "digit_run lo hi s = (let d = takeWhile is_digit (take hi s) in if lo \<le> length d then Some (d, drop (length d) s) else None)"

definition separator :: "string \<Rightarrow> string \<Rightarrow> string option" where
  "separator chars s = (case s of [] \<Rightarrow> None | c # r \<Rightarrow> if c \<in> set chars then Some r else None)"

definition after_separator :: "string \<Rightarrow> nat \<Rightarrow> nat \<Rightarrow> string \<Rightarrow> (string \<times> string) option" where
  "after_separator chars lo hi s = Option.bind (separator chars s) (digit_run lo hi)"

lemma digit_run_Some: "digit_run lo hi s = Some (d, r) \<Longrightarrow> lo \<le> length d \<and> length d \<le> hi \<and> all_digits d"
  using length_takeWhile_le[of is_digit "take hi s"] by (auto simp: digit_run_def Let_def all_digits_def list_all_iff split: if_splits dest: set_takeWhileD)

lemma after_separator_Some: "after_separator chars lo hi s = Some (d, r) \<Longrightarrow> lo \<le> length d \<and> length d \<le> hi \<and> all_digits d"
  by (auto simp: after_separator_def bind_eq_Some_conv dest: digit_run_Some)

end
