(* ===== verification/CanonicalJson.thy ===== *)
theory CanonicalJson
  imports JsText
begin

text \<open>
  The canonical JSON text and its SHA-256 digest (\<open>src/src/messaging/canonicalJson.ts\<close>,
  \<open>src/src/lib/hash.ts\<close>). Object keys are sorted, arrays keep their order, and strings are
  escaped the way \<open>JSON.stringify\<close> escapes them. Numbers are integers (every number the
  modelled callers hash is one) or the non-finite numbers the function refuses.

  The main lemma is that the canonical text determines the value up to the order of object
  keys, so a digest identifies the value it was computed from unless two different texts
  collide. SHA-256 itself is a parameter.
\<close>

section \<open>JSON values\<close>

datatype json =
    JNull
  | JBool bool
  | JNum int
  | JNonFinite
  | JStr string
  | JArr "json list"
  | JObj "(string \<times> json) list"

fun finite_json :: "json \<Rightarrow> bool" where
  "finite_json JNull = True"
| "finite_json (JBool b) = True"
| "finite_json (JNum i) = True"
| "finite_json JNonFinite = False"
| "finite_json (JStr s) = True"
| "finite_json (JArr xs) = list_all finite_json xs"
| "finite_json (JObj es) = list_all (\<lambda>(k, v). finite_json v) es"

section \<open>JSON.stringify of strings\<close>

definition hex_char :: "nat \<Rightarrow> char" where
  "hex_char n = (if n < 10 then char_of (48 + n) else char_of (87 + n))"

definition escape_table :: "(char \<times> char) list" where
  "escape_table =
     [(CHR 0x22, CHR 0x22), (CHR 0x5C, CHR 0x5C), (CHR 0x08, CHR ''b''), (CHR 0x0C, CHR ''f''),
      (CHR 0x0A, CHR ''n''), (CHR 0x0D, CHR ''r''), (CHR 0x09, CHR ''t'')]"

definition escape_char :: "char \<Rightarrow> string" where
  "escape_char c =
     (case map_of escape_table c of
        Some d \<Rightarrow> [CHR 0x5C, d]
      | None \<Rightarrow>
          if of_char c < (32 :: nat)
          then [CHR 0x5C, CHR ''u'', CHR ''0'', CHR ''0'', hex_char (of_char c div 16), hex_char (of_char c mod 16)]
          else [c])"

definition quote :: "string \<Rightarrow> string" where
  "quote s = CHR 0x22 # concat (map escape_char s) @ [CHR 0x22]"

section \<open>Canonical text\<close>

fun join_comma :: "string list \<Rightarrow> string" where
  "join_comma [] = []"
| "join_comma [x] = x"
| "join_comma (x # y # ys) = x @ CHR '','' # join_comma (y # ys)"

fun canonical :: "json \<Rightarrow> string" where
  "canonical JNull = ''null''"
| "canonical (JBool b) = (if b then ''true'' else ''false'')"
| "canonical (JNum i) = string_of_int i"
| "canonical JNonFinite = ''null''"
| "canonical (JStr s) = quote s"
| "canonical (JArr xs) = CHR ''['' # join_comma (map canonical xs) @ '']''"
| "canonical (JObj es) =
     CHR ''{'' # join_comma (map (\<lambda>(k, v). quote k @ CHR '':'' # canonical v) (sort_key fst es)) @ ''}''"

text \<open>The recursion throws on a non-finite number wherever it stands, always the same error.\<close>

definition canonicalJson :: "json \<Rightarrow> string res" where
  "canonicalJson v =
     (if finite_json v then Inr (canonical v)
      else Inl (TypeError ''Canonical JSON rejects non-finite numbers''))"

definition canonicalJsonSha256 :: "(string \<Rightarrow> string) \<Rightarrow> json \<Rightarrow> string res" where
  "canonicalJsonSha256 sha256Hex v = rbind (canonicalJson v) (\<lambda>t. Inr (sha256Hex t))"

lemma canonicalJson_finite [simp]: "finite_json v \<Longrightarrow> canonicalJson v = Inr (canonical v)"
  by (simp add: canonicalJson_def)

lemma canonicalJsonSha256_finite [simp]:
  "finite_json v \<Longrightarrow> canonicalJsonSha256 sha v = Inr (sha (canonical v))"
  by (simp add: canonicalJsonSha256_def)

section \<open>Key order\<close>

fun normJson :: "json \<Rightarrow> json" where
  "normJson (JArr xs) = JArr (map normJson xs)"
| "normJson (JObj es) = JObj (map (\<lambda>(k, v). (k, normJson v)) (sort_key fst es))"
| "normJson v = v"

fun render :: "json \<Rightarrow> string" where
  "render JNull = ''null''"
| "render (JBool b) = (if b then ''true'' else ''false'')"
| "render (JNum i) = string_of_int i"
| "render JNonFinite = ''null''"
| "render (JStr s) = quote s"
| "render (JArr xs) = CHR ''['' # join_comma (map render xs) @ '']''"
| "render (JObj es) = CHR ''{'' # join_comma (map (\<lambda>(k, v). quote k @ CHR '':'' # render v) es) @ ''}''"

lemma canonical_render: "canonical v = render (normJson v)"
proof (induction v rule: canonical.induct)
  case (6 xs)
  then show ?case by (auto intro!: arg_cong[where f = join_comma])
next
  case (7 es)
  then show ?case by (auto intro!: arg_cong[where f = join_comma])
qed simp_all

lemma finite_normJson: "finite_json (normJson v) = finite_json v"
proof (induction v rule: normJson.induct)
  case (2 es)
  then show ?case by (fastforce simp: list_all_iff)
qed (auto simp: list_all_iff)

section \<open>The text determines the value\<close>

lemma hex_char_inject: "m < 16 \<Longrightarrow> n < 16 \<Longrightarrow> hex_char m = hex_char n \<Longrightarrow> m = n"
proof -
  assume a: "m < 16" "n < 16" "hex_char m = hex_char n"
  have v: "(of_char (hex_char k) :: nat) = (if k < 10 then 48 + k else 87 + k)" if "k < 16" for k
    using that by (simp add: hex_char_def)
  have "(if m < 10 then 48 + m else 87 + m) = (if n < 10 then 48 + n else 87 + n)"
    unfolding v[OF a(1), symmetric] v[OF a(2), symmetric] a(3) ..
  with a(1,2) show ?thesis by presburger
qed

lemma escape_table_facts:
  "map_of escape_table c = Some d \<Longrightarrow> d \<noteq> CHR ''u''"
  "map_of escape_table c = Some d \<Longrightarrow> map_of escape_table c' = Some d \<Longrightarrow> c = c'"
  "map_of escape_table c = None \<Longrightarrow> c \<noteq> CHR 0x22 \<and> c \<noteq> CHR 0x5C"
  by (auto simp: escape_table_def split: if_splits)

lemma escape_char_cases:
  obtains (plain) "escape_char c = [c]" "c \<noteq> CHR 0x22" "c \<noteq> CHR 0x5C"
  | (short) d where "escape_char c = [CHR 0x5C, d]" "d \<noteq> CHR ''u''" "map_of escape_table c = Some d"
  | (hex) "escape_char c = [CHR 0x5C, CHR ''u'', CHR ''0'', CHR ''0'', hex_char (of_char c div 16), hex_char (of_char c mod 16)]"
      "of_char c < (32 :: nat)"
proof (cases "map_of escape_table c")
  case None
  with plain hex escape_table_facts(3)[OF None] show thesis
    by (cases "of_char c < (32 :: nat)") (simp_all add: escape_char_def)
next
  case (Some d)
  with short escape_table_facts(1)[OF Some] show thesis by (simp add: escape_char_def)
qed

lemma escape_char_prefix_free: "escape_char c @ x = escape_char d @ y \<Longrightarrow> c = d \<and> x = y"
proof (cases c rule: escape_char_cases)
  case plain
  assume "escape_char c @ x = escape_char d @ y"
  with plain show ?thesis by (cases d rule: escape_char_cases) auto
next
  case (short e)
  assume "escape_char c @ x = escape_char d @ y"
  with short show ?thesis
    by (cases d rule: escape_char_cases) (auto dest: escape_table_facts(2))
next
  case hex
  assume e: "escape_char c @ x = escape_char d @ y"
  with hex show ?thesis
  proof (cases d rule: escape_char_cases)
    case hex2: hex
    from e hex hex2 have "hex_char (of_char c div 16) = hex_char (of_char d div 16)"
      "hex_char (of_char c mod 16) = hex_char (of_char d mod 16)" and xy: "x = y" by auto
    then have "of_char c div 16 = (of_char d div 16 :: nat)" "of_char c mod 16 = (of_char d mod 16 :: nat)"
      using hex(2) hex2(2) by (auto intro!: hex_char_inject)
    then have "(of_char c :: nat) = of_char d" by (metis div_mult_mod_eq)
    with xy show ?thesis by simp
  qed auto
qed

lemma escape_char_not_quote: "escape_char c @ x \<noteq> CHR 0x22 # y"
  by (cases c rule: escape_char_cases) auto

lemma quote_prefix_free: "quote s @ x = quote t @ y \<Longrightarrow> s = t \<and> x = y"
proof -
  assume "quote s @ x = quote t @ y"
  then have "concat (map escape_char s) @ CHR 0x22 # x = concat (map escape_char t) @ CHR 0x22 # y"
    by (simp add: quote_def)
  then show ?thesis
  proof (induction s arbitrary: t)
    case Nil
    then show ?case
    proof (cases t)
      case (Cons d u)
      with Nil have "escape_char d @ concat (map escape_char u) @ CHR 0x22 # y = CHR 0x22 # x" by simp
      then show ?thesis using escape_char_not_quote by blast
    qed simp
  next
    case (Cons c s)
    then show ?case
    proof (cases t)
      case Nil
      with Cons.prems have "escape_char c @ concat (map escape_char s) @ CHR 0x22 # x = CHR 0x22 # y" by simp
      then show ?thesis using escape_char_not_quote by blast
    next
      case (Cons d u)
      with Cons.prems have "escape_char c @ concat (map escape_char s) @ CHR 0x22 # x =
          escape_char d @ concat (map escape_char u) @ CHR 0x22 # y" by simp
      then have "c = d" "concat (map escape_char s) @ CHR 0x22 # x = concat (map escape_char u) @ CHR 0x22 # y"
        using escape_char_prefix_free by blast+
      with Cons Cons.IH[of u] show ?thesis by simp
    qed
  qed
qed

text \<open>What may follow a value inside a JSON text, or end it.\<close>

definition follows :: "string \<Rightarrow> bool" where
  "follows r = (r = [] \<or> hd r \<in> {CHR '','', CHR '']'', CHR ''}''})"

lemma follows_simps [simp]:
  "follows []" "follows (CHR '','' # r)" "follows (CHR '']'' # r)" "follows (CHR ''}'' # r)"
  by (simp_all add: follows_def)

lemma digits_prefix: "all_digits a \<Longrightarrow> (r = [] \<or> \<not> is_digit (hd r)) \<Longrightarrow> takeWhile is_digit (a @ r) = a"
  by (cases r) (auto simp: all_digits_def list_all_iff takeWhile_append)

lemma follows_not_digit: "follows r \<Longrightarrow> r = [] \<or> \<not> is_digit (hd r)"
  by (auto simp: follows_def is_digit_def less_eq_char_def)

lemma string_of_nat_prefix_free:
  assumes "string_of_nat m @ r = string_of_nat n @ s" "follows r" "follows s"
  shows "m = n \<and> r = s"
proof -
  have "takeWhile is_digit (string_of_nat m @ r) = string_of_nat m"
       "takeWhile is_digit (string_of_nat n @ s) = string_of_nat n"
    using assms(2,3) follows_not_digit by (auto intro!: digits_prefix)
  with assms(1) have "string_of_nat m = string_of_nat n" by metis
  with assms(1) show ?thesis by simp
qed

lemma string_of_nat_not_minus: "string_of_nat m @ r \<noteq> CHR ''-'' # s"
  using hd_string_of_nat[of m] by (cases "string_of_nat m") (auto simp: is_digit_def less_eq_char_def)

lemma string_of_int_prefix_free:
  assumes "string_of_int i @ r = string_of_int j @ s" "follows r" "follows s"
  shows "i = j \<and> r = s"
proof -
  consider "i < 0" "j < 0" | "\<not> i < 0" "\<not> j < 0" | "i < 0" "\<not> j < 0" | "\<not> i < 0" "j < 0" by blast
  then show ?thesis
  proof cases
    case 1
    with assms(1) have "string_of_nat (nat (- i)) @ r = string_of_nat (nat (- j)) @ s"
      by (simp add: string_of_int_def)
    from string_of_nat_prefix_free[OF this assms(2,3)] 1 show ?thesis by auto
  next
    case 2
    with assms(1) have "string_of_nat (nat i) @ r = string_of_nat (nat j) @ s"
      by (simp add: string_of_int_def)
    from string_of_nat_prefix_free[OF this assms(2,3)] 2 show ?thesis by auto
  next
    case 3
    with assms(1) have "string_of_nat (nat j) @ s = CHR ''-'' # string_of_nat (nat (- i)) @ r"
      by (simp add: string_of_int_def)
    then show ?thesis using string_of_nat_not_minus by blast
  next
    case 4
    with assms(1) have "string_of_nat (nat i) @ r = CHR ''-'' # string_of_nat (nat (- j)) @ s"
      by (simp add: string_of_int_def)
    then show ?thesis using string_of_nat_not_minus by blast
  qed
qed


lemma join_comma_Cons: "join_comma (x # xs) = x @ concat (map (\<lambda>y. CHR '','' # y) xs)"
  by (induction xs arbitrary: x) simp_all

definition tail_text :: "('a \<Rightarrow> string) \<Rightarrow> 'a list \<Rightarrow> char \<Rightarrow> string \<Rightarrow> string" where
  "tail_text p xs c r = concat (map (\<lambda>x. CHR '','' # p x) xs) @ c # r"

lemma tail_text_follows: "c \<in> {CHR '']'', CHR ''}''} \<Longrightarrow> follows (tail_text p xs c r)"
  by (cases xs) (auto simp: tail_text_def)

lemma tail_text_inj:
  assumes "\<And>x y r s. x \<in> set xs \<Longrightarrow> y \<in> set ys \<Longrightarrow> p x @ r = p y @ s \<Longrightarrow> follows r \<Longrightarrow> follows s \<Longrightarrow> x = y \<and> r = s"
    and c: "c \<in> {CHR '']'', CHR ''}''}"
    and "tail_text p xs c r = tail_text p ys c s"
  shows "xs = ys \<and> r = s"
  using assms(1,3)
proof (induction xs arbitrary: ys)
  case Nil
  with c show ?case by (cases ys) (auto simp: tail_text_def)
next
  case (Cons x xs)
  show ?case
  proof (cases ys)
    case Nil
    with Cons.prems(2) c show ?thesis by (auto simp: tail_text_def)
  next
    case (Cons y zs)
    with Cons.prems(2) have "p x @ tail_text p xs c r = p y @ tail_text p zs c s"
      by (simp add: tail_text_def)
    then have "x = y \<and> tail_text p xs c r = tail_text p zs c s"
      by (intro Cons.prems(1)) (simp_all add: Cons tail_text_follows[OF c])
    then have "x = y" and "tail_text p xs c r = tail_text p zs c s" by simp_all
    moreover from this(2) have "xs = zs \<and> r = s"
      using Cons.IH[of zs] Cons.prems(1) Cons by auto
    ultimately show ?thesis using Cons by simp
  qed
qed

lemma join_comma_inj:
  assumes pf: "\<And>x y r s. x \<in> set xs \<Longrightarrow> y \<in> set ys \<Longrightarrow> p x @ r = p y @ s \<Longrightarrow> follows r \<Longrightarrow> follows s \<Longrightarrow> x = y \<and> r = s"
    and ne: "\<And>x. x \<in> set xs \<union> set ys \<Longrightarrow> p x \<noteq> [] \<and> hd (p x) \<noteq> c"
    and c: "c \<in> {CHR '']'', CHR ''}''}"
    and e: "join_comma (map p xs) @ c # r = join_comma (map p ys) @ c # s"
  shows "xs = ys \<and> r = s"
proof (cases xs; cases ys)
  fix x xs' y ys' assume xs: "xs = x # xs'" and ys: "ys = y # ys'"
  with e have "p x @ tail_text p xs' c r = p y @ tail_text p ys' c s"
    by (simp add: join_comma_Cons tail_text_def comp_def)
  then have "x = y \<and> tail_text p xs' c r = tail_text p ys' c s"
    by (intro pf) (simp_all add: xs ys tail_text_follows[OF c])
  then have "x = y" and t: "tail_text p xs' c r = tail_text p ys' c s" by simp_all
  moreover have "xs' = ys' \<and> r = s"
    by (rule tail_text_inj[OF _ c t]) (rule pf, simp_all add: xs ys)
  ultimately show ?thesis using xs ys by simp
next
  fix y ys' assume "xs = []" and ys: "ys = y # ys'"
  with e have "c # r = p y @ tail_text p ys' c s"
    by (simp add: join_comma_Cons tail_text_def comp_def)
  then show ?thesis using ne[of y] ys by (cases "p y") auto
next
  fix x xs' assume xs: "xs = x # xs'" and "ys = []"
  with e have "c # s = p x @ tail_text p xs' c r"
    by (simp add: join_comma_Cons tail_text_def comp_def)
  then show ?thesis using ne[of x] xs by (cases "p x") auto
qed (use e in simp)

lemma string_of_int_hd: "is_digit (hd (string_of_int i)) \<or> hd (string_of_int i) = CHR ''-''"
  by (simp add: string_of_int_def hd_string_of_nat)

lemma string_of_int_nonempty [simp]: "string_of_int i \<noteq> []"
  by (simp add: string_of_int_def)

lemma quote_hd [simp]: "quote s \<noteq> []" "hd (quote s) = CHR 0x22"
  by (simp_all add: quote_def)

lemma render_hd:
  "render v \<noteq> []"
  "hd (render v) = (case v of JNull \<Rightarrow> CHR ''n'' | JBool b \<Rightarrow> if b then CHR ''t'' else CHR ''f''
     | JNum i \<Rightarrow> hd (string_of_int i) | JNonFinite \<Rightarrow> CHR ''n'' | JStr s \<Rightarrow> CHR 0x22
     | JArr xs \<Rightarrow> CHR ''['' | JObj es \<Rightarrow> CHR ''{'')"
  by (cases v; simp add: quote_def)+

lemma number_hd: "hd (string_of_int i) \<notin> {CHR ''n'', CHR ''t'', CHR ''f'', CHR 0x22, CHR ''['', CHR ''{'', CHR '']'', CHR ''}''}"
  using string_of_int_hd[of i] by (auto simp: is_digit_def less_eq_char_def)

lemma render_not_close: "hd (render v) \<notin> {CHR '']'', CHR ''}''}"
  using number_hd by (cases v) (auto simp: render_hd)

lemma hd_append_eq: "a @ r = b @ s \<Longrightarrow> a \<noteq> [] \<Longrightarrow> b \<noteq> [] \<Longrightarrow> hd a = hd b"
  by (metis hd_append2)

lemma render_prefix_free:
  "finite_json v \<Longrightarrow> finite_json w \<Longrightarrow> render v @ r = render w @ s \<Longrightarrow> follows r \<Longrightarrow> follows s \<Longrightarrow> v = w \<and> r = s"
proof (induction v arbitrary: w r s)
  case (JNum i)
  have "hd (string_of_int i) = hd (render w)"
    using hd_append_eq[OF JNum.prems(3)] by (simp add: render_hd)
  then obtain j where "w = JNum j" using number_hd[of i] by (cases w) (auto simp: render_hd split: if_splits)
  with JNum.prems string_of_int_prefix_free show ?case by simp
next
  case (JArr xs)
  have "CHR ''['' = hd (render w)" using hd_append_eq[OF JArr.prems(3)] by (simp add: render_hd)
  then obtain ys where w: "w = JArr ys" using number_hd by (cases w) (auto simp: render_hd split: if_splits)
  with JArr.prems(3) have e: "join_comma (map render xs) @ CHR '']'' # r = join_comma (map render ys) @ CHR '']'' # s"
    by simp
  have "xs = ys \<and> r = s"
  proof (rule join_comma_inj[OF _ _ _ e])
    fix x y r s assume "x \<in> set xs" "y \<in> set ys" "render x @ r = render y @ s" "follows r" "follows s"
    then show "x = y \<and> r = s" using JArr.IH[of x y r s] JArr.prems(1,2) w by (auto simp: list_all_iff)
  qed (use render_hd(1) render_not_close in auto)
  with w show ?case by simp
next
  case (JObj es)
  have "CHR ''{'' = hd (render w)" using hd_append_eq[OF JObj.prems(3)] by (simp add: render_hd)
  then obtain fs where w: "w = JObj fs" using number_hd by (cases w) (auto simp: render_hd split: if_splits)
  let ?p = "\<lambda>(k, v). quote k @ CHR '':'' # render v"
  from JObj.prems(3) w have e: "join_comma (map ?p es) @ CHR ''}'' # r = join_comma (map ?p fs) @ CHR ''}'' # s"
    by simp
  have "es = fs \<and> r = s"
  proof (rule join_comma_inj[OF _ _ _ e])
    fix x y r s assume a: "x \<in> set es" "y \<in> set fs" "?p x @ r = ?p y @ s" "follows r" "follows s"
    obtain k v l u where xy: "x = (k, v)" "y = (l, u)" by fastforce
    with a(3) have "quote k @ CHR '':'' # render v @ r = quote l @ CHR '':'' # render u @ s" by simp
    then have "k = l" "render v @ r = render u @ s" using quote_prefix_free by blast+
    moreover from this(2) have "v = u \<and> r = s"
      using JObj.IH[of x v u r s] a JObj.prems(1,2) w xy by (auto simp: list_all_iff)
    ultimately show "x = y \<and> r = s" using xy by simp
  qed (auto simp: quote_def)
  with w show ?case by simp
next
  case (JStr t)
  have "CHR 0x22 = hd (render w)" using hd_append_eq[OF JStr.prems(3)] by (simp add: render_hd)
  then obtain u where w: "w = JStr u" using number_hd by (cases w) (auto simp: render_hd split: if_splits)
  with JStr.prems(3) have "quote t @ r = quote u @ s" by simp
  from quote_prefix_free[OF this] w show ?case by simp
next
  case (JBool b)
  have "(if b then CHR ''t'' else CHR ''f'') = hd (render w)"
    using hd_append_eq[OF JBool.prems(3)] by (simp only: render_hd json.case) simp
  then have "w = JBool b" using number_hd by (cases w; cases b) (auto simp: render_hd split: if_splits)
  with JBool.prems show ?case by simp
next
  case JNull
  have "CHR ''n'' = hd (render w)" using hd_append_eq[OF JNull.prems(3)] by (simp add: render_hd)
  then have "w = JNull" using number_hd JNull.prems(2) by (cases w) (auto simp: render_hd split: if_splits)
  with JNull.prems show ?case by simp
qed simp

lemma canonical_inject:
  assumes "finite_json v" "finite_json w" "canonical v = canonical w"
  shows "normJson v = normJson w"
  using assms render_prefix_free[of "normJson v" "normJson w" "[]" "[]"]
  by (simp add: canonical_render finite_normJson)

text \<open>Objects with the same normal form agree at every key.\<close>

lemma map_of_filter_key: "map_of (filter (\<lambda>e. fst e = k) es) k = map_of es k"
  by (induction es) auto

lemma map_of_sort_key: "map_of (sort_key fst es) k = map_of es k"
  by (metis map_of_filter_key sort_key_stable)

lemma normJson_field:
  assumes "normJson (JObj es) = normJson (JObj fs)"
  shows "map_option normJson (map_of es k) = map_option normJson (map_of fs k)"
proof -
  have "map_of (map (\<lambda>(k, v). (k, normJson v)) (sort_key fst es)) k =
        map_of (map (\<lambda>(k, v). (k, normJson v)) (sort_key fst fs)) k"
    using assms by simp
  then show ?thesis by (simp add: map_of_map map_of_sort_key)
qed

text \<open>
  A digest identifies its value: equal digests come from values that agree up to key order, or
  the two canonical texts are themselves a SHA-256 collision.
\<close>

definition collides :: "(string \<Rightarrow> string) \<Rightarrow> string \<Rightarrow> string \<Rightarrow> bool" where
  "collides h a b \<longleftrightarrow> a \<noteq> b \<and> h a = h b"

lemma digest_identifies:
  assumes "finite_json v" "finite_json w" and "sha (canonical v) = sha (canonical w)"
  shows "normJson v = normJson w \<or> collides sha (canonical v) (canonical w)"
  using assms canonical_inject unfolding collides_def by blast

lemma sha256_identifies:
  assumes "canonicalJsonSha256 sha v = Inr d" and "canonicalJsonSha256 sha w = Inr d"
  shows "normJson v = normJson w \<or> collides sha (canonical v) (canonical w)"
  using assms
  by (intro digest_identifies) (auto simp: canonicalJsonSha256_def canonicalJson_def split: if_splits)

end
