(* ===== verification/Decimal.thy ===== *)
theory Decimal
  imports JsText
begin

text \<open>
  The fixed-precision decimal helpers of \<open>src/src/ui/decimal.ts\<close>: amounts are decimal text,
  arithmetic is on integers scaled by \<open>10 ^ 8\<close>. The first section holds the facts every money
  format of the development shares (a natural number printed with a fixed number of places
  reads back as itself); the second models the file's operations.
\<close>

section \<open>Fixed places\<close>

definition fixed_places :: "nat \<Rightarrow> nat \<Rightarrow> string" where
  "fixed_places k n =
     string_of_nat (n div 10 ^ k) @ CHR ''.'' # padStart k (CHR ''0'') (string_of_nat (n mod 10 ^ k))"

text \<open>The recogniser of \<open>/^\d{1,w}(\.\d{1,f})?$/\<close>; a bound of \<open>None\<close> is the open \<open>+\<close>.\<close>

definition within :: "nat option \<Rightarrow> nat \<Rightarrow> bool" where
  "within b n = (case b of None \<Rightarrow> True | Some m \<Rightarrow> n \<le> m)"

definition decimal_shape :: "nat option \<Rightarrow> nat option \<Rightarrow> string \<Rightarrow> bool" where
  "decimal_shape w f s =
     (case break_at (CHR ''.'') s of
        (a, None) \<Rightarrow> a \<noteq> [] \<and> all_digits a \<and> within w (length a)
      | (a, Some b) \<Rightarrow> a \<noteq> [] \<and> all_digits a \<and> within w (length a) \<and>
                      b \<noteq> [] \<and> all_digits b \<and> within f (length b))"

definition whole_part :: "string \<Rightarrow> string" where
  "whole_part s = fst (break_at (CHR ''.'') s)"

definition fraction_part :: "string \<Rightarrow> string" where
  "fraction_part s = coalesce (snd (break_at (CHR ''.'') s)) []"

text \<open>\<open>(fraction + '00000000').slice(0, 8)\<close>.\<close>

definition eight_places :: "string \<Rightarrow> string" where
  "eight_places f = take 8 (f @ replicate 8 (CHR ''0''))"

lemma within_simps [simp]: "within None n" "within (Some m) n = (n \<le> m)"
  by (simp_all add: within_def)

lemma length_fixed_fraction: "0 < k \<Longrightarrow> length (padStart k (CHR ''0'') (string_of_nat (n mod 10 ^ k))) = k"
  using string_of_nat_length_le[of "n mod 10 ^ k" k] by (simp add: max_absorb1)

lemma break_at_fixed_places:
  "break_at (CHR ''.'') (fixed_places k n) =
     (string_of_nat (n div 10 ^ k), Some (padStart k (CHR ''0'') (string_of_nat (n mod 10 ^ k))))"
  by (simp add: fixed_places_def break_at_digits)

lemma whole_fixed_places [simp]: "whole_part (fixed_places k n) = string_of_nat (n div 10 ^ k)"
  by (simp add: whole_part_def break_at_fixed_places)

lemma fraction_fixed_places [simp]:
  "fraction_part (fixed_places k n) = padStart k (CHR ''0'') (string_of_nat (n mod 10 ^ k))"
  by (simp add: fraction_part_def break_at_fixed_places)

lemma decimal_shape_fixed_places:
  "decimal_shape w f (fixed_places k n) \<longleftrightarrow>
     within w (length (string_of_nat (n div 10 ^ k))) \<and>
     within f (length (padStart k (CHR ''0'') (string_of_nat (n mod 10 ^ k))))"
  by (auto simp: decimal_shape_def break_at_fixed_places padStart_def)

lemma eight_places_exact: "length f = 8 \<Longrightarrow> eight_places f = f"
  by (simp add: eight_places_def)

lemma eight_places_short: "length f \<le> 8 \<Longrightarrow> eight_places f = padEnd 8 (CHR ''0'') f"
  by (simp add: eight_places_def padEnd_def)

lemma length_eight_places [simp]: "length (eight_places f) = 8"
  by (simp add: eight_places_def)

lemma all_digits_eight_places [simp]: "all_digits f \<Longrightarrow> all_digits (eight_places f)"
  using all_digits_take_drop[of "f @ replicate 8 (CHR ''0'')" 8] by (simp add: eight_places_def)

lemma nat_of_fixed8:
  "nat_of_digits (string_of_nat (n div 10 ^ 8) @
     eight_places (padStart 8 (CHR ''0'') (string_of_nat (n mod 10 ^ 8)))) = n"
proof -
  have "eight_places (padStart 8 (CHR ''0'') (string_of_nat (n mod 10 ^ 8))) =
        padStart 8 (CHR ''0'') (string_of_nat (n mod 10 ^ 8))"
    by (rule eight_places_exact[OF length_fixed_fraction]) simp
  then show ?thesis using length_fixed_fraction[of 8 n] by (simp add: nat_of_digits_append)
qed

lemma fixed_places_inject: "0 < k \<Longrightarrow> fixed_places k m = fixed_places k n \<longleftrightarrow> m = n"
proof
  assume k: "0 < k" and e: "fixed_places k m = fixed_places k n"
  then have "break_at (CHR ''.'') (fixed_places k m) = break_at (CHR ''.'') (fixed_places k n)" by simp
  then have w: "m div 10 ^ k = n div 10 ^ k"
    and "nat_of_digits (padStart k (CHR ''0'') (string_of_nat (m mod 10 ^ k))) =
         nat_of_digits (padStart k (CHR ''0'') (string_of_nat (n mod 10 ^ k)))"
    by (simp_all add: break_at_fixed_places)
  then have "m mod 10 ^ k = n mod 10 ^ k" by simp
  with w show "m = n" by (metis div_mult_mod_eq)
qed simp

section \<open>ui/decimal.ts\<close>

definition strip_sign :: "string \<Rightarrow> string" where
  "strip_sign t = (case t of c # r \<Rightarrow> if c = CHR ''+'' \<or> c = CHR ''-'' then r else t | [] \<Rightarrow> [])"

definition toScaled :: "string option \<Rightarrow> int option" where
  "toScaled s =
     (case s of
        None \<Rightarrow> None
      | Some raw \<Rightarrow>
          let t = trim raw in
          if t = [] then None
          else
            let neg = (hd t = CHR ''-''); clean = strip_sign t in
            if \<not> decimal_shape None None clean then None
            else
              let v = int (nat_of_digits (whole_part clean @ eight_places (fraction_part clean)))
              in Some (if neg then - v else v))"

definition strip_trailing_zeros :: "string \<Rightarrow> string" where
  "strip_trailing_zeros f = rev (dropWhile (\<lambda>c. c = CHR ''0'') (rev f))"

definition fromScaled :: "int \<Rightarrow> string" where
  "fromScaled v =
     (let neg = v < 0;
          ab = padStart 9 (CHR ''0'') (string_of_nat (nat \<bar>v\<bar>));
          i = but_last 8 ab;
          f = strip_trailing_zeros (last_chars 8 ab)
      in (if neg then ''-'' else []) @ i @ (if f \<noteq> [] then CHR ''.'' # f else []))"

definition subtract :: "string option \<Rightarrow> string option \<Rightarrow> string option" where
  "subtract a b =
     (case (toScaled a, toScaled b) of
        (Some sa, Some sb) \<Rightarrow> Some (fromScaled (sa - sb))
      | _ \<Rightarrow> None)"

datatype Trend = Up | Down | Flat | Unknown

definition trend :: "string option \<Rightarrow> string option \<Rightarrow> Trend" where
  "trend current prior =
     (case (toScaled current, toScaled prior) of
        (Some c, Some p) \<Rightarrow> if c > p then Up else if c < p then Down else Flat
      | _ \<Rightarrow> Unknown)"

definition trendWithDeadband :: "string option \<Rightarrow> string option \<Rightarrow> int \<Rightarrow> Trend" where
  "trendWithDeadband current prior deadbandBasisPoints =
     (case (toScaled current, toScaled prior) of
        (Some c, Some p) \<Rightarrow>
          if p = 0 then (if c = 0 then Flat else if c > 0 then Up else Down)
          else
            let delta = (if c > p then c - p else p - c);
                prod = \<bar>p\<bar> * deadbandBasisPoints;
                threshold = sgn prod * (\<bar>prod\<bar> div 10000)
            in if delta \<le> threshold then Flat else if c > p then Up else Down
      | _ \<Rightarrow> Unknown)"

section \<open>Round trips\<close>

lemma strip_trailing_zeros_split:
  "\<exists>k. f = strip_trailing_zeros f @ replicate k (CHR ''0'')"
proof -
  let ?z = "takeWhile (\<lambda>c. c = CHR ''0'') (rev f)"
  have "rev f = ?z @ dropWhile (\<lambda>c. c = CHR ''0'') (rev f)" by simp
  then have "f = strip_trailing_zeros f @ rev ?z"
    by (metis rev_append rev_rev_ident strip_trailing_zeros_def)
  moreover have "rev ?z = replicate (length ?z) (CHR ''0'')"
    by (rule replicate_eqI) (auto dest: set_takeWhileD)
  ultimately show ?thesis by (metis)
qed

lemma eight_places_strip: "length f = 8 \<Longrightarrow> eight_places (strip_trailing_zeros f) = f"
proof -
  assume l: "length f = 8"
  obtain k where k: "f = strip_trailing_zeros f @ replicate k (CHR ''0'')"
    using strip_trailing_zeros_split by blast
  let ?s = "strip_trailing_zeros f"
  have k8: "k = 8 - length ?s" and le: "length ?s \<le> 8"
    using l arg_cong[OF k, of length] by simp_all
  have "eight_places ?s = ?s @ replicate (8 - length ?s) (CHR ''0'')"
    using le by (simp add: eight_places_short padEnd_def)
  then show ?thesis using k k8 by simp
qed

lemma fromScaled_shape:
  obtains f where "fromScaled v = (if v < 0 then ''-'' else []) @ string_of_nat (nat \<bar>v\<bar> div 10 ^ 8) @
      (if f \<noteq> [] then CHR ''.'' # f else [])"
    and "all_digits f"
    and "eight_places f = padStart 8 (CHR ''0'') (string_of_nat (nat \<bar>v\<bar> mod 10 ^ 8))"
proof -
  let ?n = "nat \<bar>v\<bar>"
  let ?f = "strip_trailing_zeros (padStart 8 (CHR ''0'') (string_of_nat (?n mod 10 ^ 8)))"
  have sp: "but_last 8 (padStart 9 (CHR ''0'') (string_of_nat ?n)) = string_of_nat (?n div 10 ^ 8)"
           "last_chars 8 (padStart 9 (CHR ''0'') (string_of_nat ?n)) =
            padStart 8 (CHR ''0'') (string_of_nat (?n mod 10 ^ 8))"
    using padded_split[of ?n "?n div 10 ^ 8" 8 "?n mod 10 ^ 8"] by simp_all
  have l8: "length (padStart 8 (CHR ''0'') (string_of_nat (?n mod 10 ^ 8))) = 8"
    by (rule length_fixed_fraction) simp
  have "all_digits (padStart 8 (CHR ''0'') (string_of_nat (?n mod 10 ^ 8)))" by simp
  then have "all_digits ?f"
    by (metis all_digits_simps(3) strip_trailing_zeros_split)
  moreover have "eight_places ?f = padStart 8 (CHR ''0'') (string_of_nat (?n mod 10 ^ 8))"
    by (rule eight_places_strip[OF l8])
  moreover have "fromScaled v = (if v < 0 then ''-'' else []) @ string_of_nat (?n div 10 ^ 8) @
      (if ?f \<noteq> [] then CHR ''.'' # ?f else [])"
    unfolding fromScaled_def Let_def sp ..
  ultimately show thesis using that by blast
qed

lemma trim_number_text:
  assumes "all_digits w" "w \<noteq> []" "all_digits f" and that: "p = [] \<or> p = ''-''"
  shows "trim (p @ w @ (if f \<noteq> [] then CHR ''.'' # f else [])) =
         p @ w @ (if f \<noteq> [] then CHR ''.'' # f else [])"
proof (rule trim_no_ws)
  have d: "list_all (\<lambda>c. \<not> is_ws c) w" "list_all (\<lambda>c. \<not> is_ws c) f"
    using assms digit_not_ws by (auto simp: all_digits_def list_all_iff)
  have "\<not> is_ws (CHR ''.'')" "\<not> is_ws (CHR ''-'')" by (simp_all add: is_ws_def less_eq_char_def)
  with d that show "list_all (\<lambda>c. \<not> is_ws c) (p @ w @ (if f \<noteq> [] then CHR ''.'' # f else []))"
    by auto
qed

lemma decimal_parts:
  assumes "all_digits w" "w \<noteq> []" "all_digits f"
  defines "s \<equiv> w @ (if f \<noteq> [] then CHR ''.'' # f else [])"
  shows "decimal_shape None None s" and "whole_part s = w" and "fraction_part s = f"
    and "strip_sign s = s" and "strip_sign (CHR ''-'' # s) = s" and "hd s \<noteq> CHR ''-''"
proof -
  have b: "break_at (CHR ''.'') s = (w, if f \<noteq> [] then Some f else None)"
    using assms(1) by (simp add: s_def break_at_digits)
  from b assms show "decimal_shape None None s" by (auto simp: decimal_shape_def)
  from b show "whole_part s = w" by (simp add: whole_part_def)
  from b show "fraction_part s = f" by (simp add: fraction_part_def)
  obtain c cs where w: "w = c # cs" "is_digit c" using assms(1,2) by (cases w) auto
  then show "strip_sign s = s" "strip_sign (CHR ''-'' # s) = s" "hd s \<noteq> CHR ''-''"
    by (auto simp: s_def strip_sign_def)
qed

lemma toScaled_text:
  assumes "all_digits w" "w \<noteq> []" "all_digits f"
  defines "s \<equiv> w @ (if f \<noteq> [] then CHR ''.'' # f else [])"
  shows "toScaled (Some s) = Some (int (nat_of_digits (w @ eight_places f)))"
    and "toScaled (Some (CHR ''-'' # s)) = Some (- int (nat_of_digits (w @ eight_places f)))"
proof -
  note parts = decimal_parts[OF assms(1-3), folded s_def]
  have t: "trim s = s" "trim (CHR ''-'' # s) = CHR ''-'' # s"
    using trim_number_text[OF assms(1-3), of "[]"] trim_number_text[OF assms(1-3), of "''-''"]
    by (simp_all add: s_def)
  have "s \<noteq> []" using assms(2) by (simp add: s_def)
  then show "toScaled (Some s) = Some (int (nat_of_digits (w @ eight_places f)))"
    and "toScaled (Some (CHR ''-'' # s)) = Some (- int (nat_of_digits (w @ eight_places f)))"
    using t parts by (simp_all add: toScaled_def Let_def)
qed

lemma toScaled_fromScaled: "toScaled (Some (fromScaled v)) = Some v"
proof -
  obtain f where f: "fromScaled v = (if v < 0 then ''-'' else []) @ string_of_nat (nat \<bar>v\<bar> div 10 ^ 8) @
      (if f \<noteq> [] then CHR ''.'' # f else [])" "all_digits f"
    "eight_places f = padStart 8 (CHR ''0'') (string_of_nat (nat \<bar>v\<bar> mod 10 ^ 8))"
    by (rule fromScaled_shape)
  have n: "nat_of_digits (string_of_nat (nat \<bar>v\<bar> div 10 ^ 8) @ eight_places f) = nat \<bar>v\<bar>"
    using length_fixed_fraction[of 8 "nat \<bar>v\<bar>"] by (simp add: f(3) nat_of_digits_append)
  note t = toScaled_text[OF all_digits_string_of_nat[of "nat \<bar>v\<bar> div 10 ^ 8"] string_of_nat_nonempty f(2)]
  show ?thesis
  proof (cases "v < 0")
    case True
    with t(2) n show ?thesis unfolding f(1) by simp
  next
    case False
    with t(1) n show ?thesis unfolding f(1) by simp
  qed
qed

lemma toScaled_fixed_places: "toScaled (Some (fixed_places 8 n)) = Some (int n)"
proof -
  let ?f = "padStart 8 (CHR ''0'') (string_of_nat (n mod 10 ^ 8))"
  have l: "length ?f = 8" by (rule length_fixed_fraction) simp
  then have "?f \<noteq> []" by (metis list.size(3) zero_neq_numeral)
  with toScaled_text(1)[of "string_of_nat (n div 10 ^ 8)" ?f] nat_of_fixed8[of n] show ?thesis
    by (simp add: fixed_places_def)
qed

lemma subtract_scaled:
  assumes "toScaled a = Some x" and "toScaled b = Some y"
  shows "toScaled (subtract a b) = Some (x - y)"
  using assms by (simp add: subtract_def toScaled_fromScaled)

end
