(* ===== verification/JsNumber.thy ===== *)
theory JsNumber
  imports Complex_Main Decimal "HOL-Library.Log_Nat"
begin

text \<open>
  JavaScript numbers as the sources use them. Integer quantities (milliseconds, counts) are
  \<open>int\<close>, guarded by \<open>Number.isSafeInteger\<close>. Where the code computes a quotient or a product
  of fractions, the value is a rational and every operation rounds to the nearest double with
  53 significant bits, ties to even (\<open>fl\<close>); the exponent range is left unbounded, which no
  modelled quantity comes near. \<open>toFixed\<close> is \<open>Number.prototype.toFixed\<close>.

  The main fact is that \<open>Math.ceil(x / d)\<close> computed in doubles is the exact ceiling of the
  quotient for every safe integer \<open>x\<close>.
\<close>

section \<open>Safe integers\<close>

definition MAX_SAFE_INTEGER :: int where
  "MAX_SAFE_INTEGER = 9007199254740991"

definition isSafeInteger :: "int \<Rightarrow> bool" where
  "isSafeInteger i = (\<bar>i\<bar> \<le> MAX_SAFE_INTEGER)"

lemma isSafeInteger_nonneg: "0 \<le> i \<Longrightarrow> isSafeInteger i \<longleftrightarrow> i < 2 ^ 53"
  by (auto simp: isSafeInteger_def MAX_SAFE_INTEGER_def)

section \<open>Rounding to a double\<close>

definition binary_exponent :: "rat \<Rightarrow> int" where
  "binary_exponent q =
     (case quotient_of q of (n, d) \<Rightarrow>
        let k = bitlen n - bitlen d in if 2 powi k \<le> q then k else k - 1)"

definition round_half_even :: "rat \<Rightarrow> int" where
  "round_half_even q =
     (let f = \<lfloor>q\<rfloor>; r = q - of_int f in
      if r < 1 / 2 then f else if r > 1 / 2 then f + 1 else if even f then f else f + 1)"

definition ulp :: "rat \<Rightarrow> rat" where
  "ulp q = 2 powi (binary_exponent q - 52)"

definition fl :: "rat \<Rightarrow> rat" where
  "fl q =
     (if q = 0 then 0
      else if q < 0 then - (of_int (round_half_even (- q / ulp (- q))) * ulp (- q))
      else of_int (round_half_even (q / ulp q)) * ulp q)"

definition js_div :: "rat \<Rightarrow> rat \<Rightarrow> rat" where
  "js_div a b = fl (a / b)"

definition js_mul :: "rat \<Rightarrow> rat \<Rightarrow> rat" where
  "js_mul a b = fl (a * b)"

definition toFixed :: "nat \<Rightarrow> rat \<Rightarrow> string" where
  "toFixed k x =
     (if x < 0 then CHR ''-'' # fixed_places k (nat \<lfloor>- x * 10 ^ k + 1 / 2\<rfloor>)
      else fixed_places k (nat \<lfloor>x * 10 ^ k + 1 / 2\<rfloor>))"

text \<open>
  \<open>Number(text)\<close>: \<open>None\<close> stands for \<open>NaN\<close> and for the infinities. White space around the literal
  is ignored, empty text is zero, and a radix prefix takes no sign.
\<close>

definition radix_digit :: "nat \<Rightarrow> char \<Rightarrow> nat option" where
  "radix_digit b c =
     (let v = (if is_digit c then digit_val c
               else if CHR ''a'' \<le> c \<and> c \<le> CHR ''z'' then of_char c - 87
               else if CHR ''A'' \<le> c \<and> c \<le> CHR ''Z'' then of_char c - 55 else 99)
      in if v < b then Some v else None)"

definition radix_value :: "nat \<Rightarrow> string \<Rightarrow> rat option" where
  "radix_value b s =
     (if s = [] \<or> list_ex (\<lambda>c. radix_digit b c = None) s then None
      else Some (of_nat (foldl (\<lambda>n c. b * n + the (radix_digit b c)) 0 s)))"

definition split_sign :: "string \<Rightarrow> bool \<times> string" where
  "split_sign s = (case s of c # r \<Rightarrow> if c = CHR ''-'' then (True, r) else if c = CHR ''+'' then (False, r) else (False, s)
                   | [] \<Rightarrow> (False, []))"

definition exponent_value :: "string \<Rightarrow> int option" where
  "exponent_value s =
     (case split_sign s of (neg, d) \<Rightarrow>
        if d \<noteq> [] \<and> all_digits d then Some (if neg then - int (nat_of_digits d) else int (nat_of_digits d)) else None)"

definition mantissa_value :: "string \<Rightarrow> (nat \<times> nat) option" where
  "mantissa_value s =
     (case break_at (CHR ''.'') s of (w, f) \<Rightarrow>
        let frac = coalesce f [] in
        if all_digits w \<and> all_digits frac \<and> w @ frac \<noteq> [] then Some (nat_of_digits (w @ frac), length frac) else None)"

definition decimal_literal :: "string \<Rightarrow> rat option" where
  "decimal_literal s =
     (let e = takeWhile (\<lambda>c. c \<noteq> CHR ''e'' \<and> c \<noteq> CHR ''E'') s;
          tail = drop (length e) s
      in case (mantissa_value e, if tail = [] then Some 0 else exponent_value (tl tail)) of
           (Some (n, k), Some x) \<Rightarrow> Some (of_nat n * 10 powi (x - int k))
         | _ \<Rightarrow> None)"

definition js_Number :: "string \<Rightarrow> rat option" where
  "js_Number text =
     (let s = trim text in
      if s = [] then Some 0
      else if take 2 s \<in> {''0x'', ''0X''} then map_option fl (radix_value 16 (drop 2 s))
      else if take 2 s \<in> {''0o'', ''0O''} then map_option fl (radix_value 8 (drop 2 s))
      else if take 2 s \<in> {''0b'', ''0B''} then map_option fl (radix_value 2 (drop 2 s))
      else case split_sign s of (neg, r) \<Rightarrow> map_option (\<lambda>v. fl (if neg then - v else v)) (decimal_literal r))"

lemma round_half_even_error: "\<bar>of_int (round_half_even q) - q\<bar> \<le> 1 / 2"
proof -
  have "of_int \<lfloor>q\<rfloor> \<le> q" "q < of_int \<lfloor>q\<rfloor> + 1" by linarith+
  then show ?thesis by (auto simp: round_half_even_def Let_def)
qed

lemma round_half_even_of_int [simp]: "round_half_even (of_int i) = i"
  by (simp add: round_half_even_def)

lemma ulp_pos: "0 < ulp q"
  by (simp add: ulp_def)

lemma fl_0 [simp]: "fl 0 = 0"
  by (simp add: fl_def)

lemma fl_error: "0 < q \<Longrightarrow> \<bar>fl q - q\<bar> \<le> ulp q / 2"
proof -
  assume q: "0 < q"
  have u: "0 < ulp q" by (rule ulp_pos)
  have "fl q - q = (of_int (round_half_even (q / ulp q)) - q / ulp q) * ulp q"
    using q u by (simp add: fl_def algebra_simps)
  then have "\<bar>fl q - q\<bar> = \<bar>of_int (round_half_even (q / ulp q)) - q / ulp q\<bar> * ulp q"
    using u by (simp add: abs_mult)
  also have "\<dots> \<le> (1 / 2) * ulp q"
    by (rule mult_right_mono[OF round_half_even_error]) (use u in simp)
  finally show ?thesis by simp
qed

lemma fl_exact: "0 < q \<Longrightarrow> q / ulp q = of_int i \<Longrightarrow> fl q = q"
proof -
  assume q: "0 < q" and i: "q / ulp q = of_int i"
  then have "fl q = of_int i * ulp q" by (simp add: fl_def)
  also have "\<dots> = q" using ulp_pos[of q] by (simp add: i[symmetric])
  finally show ?thesis .
qed

lemma binary_exponent_le: "0 < q \<Longrightarrow> 2 powi binary_exponent q \<le> q"
proof -
  assume q: "0 < q"
  obtain n d where nd: "quotient_of q = (n, d)" by fastforce
  have d: "0 < d" using quotient_of_denom_pos[OF nd] .
  have qe: "q = of_int n / of_int d" using quotient_of_div[OF nd] .
  then have n: "0 < n" using q d by (simp add: zero_less_divide_iff)
  have "2 powi (bitlen n - bitlen d - 1) \<le> q"
  proof -
    have b1: "1 \<le> bitlen n" using n bitlen_nonneg[of n] bitlen_eq_zero_iff[of n] by linarith
    have nb: "(2 :: rat) powi (bitlen n - 1) \<le> of_int n"
      using bitlen_bounds[OF n] b1 by (simp add: power_int_def)
    have db: "of_int d \<le> (2 :: rat) powi bitlen d"
      using bitlen_bounds[OF d] bitlen_nonneg[of d] by (simp add: power_int_def)
    have "(2 :: rat) powi (bitlen n - bitlen d - 1) = 2 powi (bitlen n - 1) / 2 powi bitlen d"
      by (simp add: power_int_diff[symmetric] algebra_simps)
    also have "\<dots> \<le> of_int n / of_int d"
      using nb db d n by (intro frac_le) auto
    finally show ?thesis by (simp add: qe)
  qed
  then show ?thesis by (simp add: binary_exponent_def nd Let_def)
qed

lemma ulp_bound: "0 < q \<Longrightarrow> ulp q * 2 ^ 52 \<le> q"
proof -
  assume q: "0 < q"
  have "ulp q * 2 ^ 52 = 2 powi (binary_exponent q - 52) * 2 powi 52" by (simp add: ulp_def)
  also have "\<dots> = 2 powi binary_exponent q" by (subst power_int_add[symmetric]) simp_all
  finally show ?thesis using binary_exponent_le[OF q] by simp
qed

lemma fl_of_int: "0 \<le> i \<Longrightarrow> i < 2 ^ 53 \<Longrightarrow> fl (of_int i) = of_int i"
proof (cases "i = 0")
  case False
  assume "0 \<le> i" and i: "i < 2 ^ 53"
  with False have pos: "0 < (of_int i :: rat)" by simp
  let ?e = "binary_exponent (of_int i)"
  have "(2 :: rat) powi ?e < 2 powi 53"
    using binary_exponent_le[OF pos] i
    by simp
  then have e: "?e \<le> 52" using power_int_increasing[of 53 ?e "2 :: rat"] by linarith
  have "of_int i / ulp (of_int i) = (of_int i :: rat) * 2 powi (52 - ?e)"
    unfolding ulp_def by (simp add: power_int_minus_divide[symmetric] divide_inverse power_int_minus[symmetric])
  also have "\<dots> = of_int (i * 2 ^ nat (52 - ?e))" using e by (simp add: power_int_def)
  finally show ?thesis by (rule fl_exact[OF pos])
qed simp


section \<open>Exact ceilings\<close>

lemma fl_quotient_error:
  assumes "0 < x" "x < 2 ^ 53" "0 < d"
  shows "\<bar>fl (of_int x / of_int d) - of_int x / of_int d\<bar> < 1 / of_int d"
proof -
  let ?q = "of_int x / of_int d :: rat"
  have q: "0 < ?q" using assms by simp
  have "ulp ?q * 2 ^ 53 \<le> 2 * ?q" using ulp_bound[OF q] by simp
  moreover have "?q < 2 ^ 53 / of_int d"
    using assms by (simp add: divide_strict_right_mono)
  ultimately have "ulp ?q / 2 < 1 / of_int d" using assms(3) by (simp add: field_simps)
  with fl_error[OF q] show ?thesis by linarith
qed

text \<open>\<open>Math.ceil(x / d)\<close> on a safe integer \<open>x\<close> and a positive integer divisor is exact.\<close>

lemma ceiling_js_div:
  assumes "0 \<le> x" "x < 2 ^ 53" "0 < d"
  shows "\<lceil>js_div (of_int x) (of_int d)\<rceil> = (x + d - 1) div d"
proof (cases "x = 0")
  case True
  then show ?thesis using assms by (simp add: js_div_def)
next
  case False
  with assms have x: "0 < x" by simp
  let ?q = "of_int x / of_int d :: rat"
  define k where "k = x div d"
  define m where "m = x mod d"
  have xk: "x = k * d + m" and m: "0 \<le> m" "m < d" using assms(3) by (simp_all add: k_def m_def)
  have k0: "0 \<le> k" using assms by (simp add: k_def pos_imp_zdiv_nonneg_iff)
  have qk: "?q = of_int k + of_int m / of_int d" using assms(3) by (simp add: xk add_divide_distrib)
  show ?thesis
  proof (cases "m = 0")
    case True
    have "k \<le> x" using xk True k0 assms(3) by (simp add: mult_le_cancel_left1)
    then have "fl ?q = of_int k" using fl_of_int[OF k0] assms(2) qk True by simp
    moreover have "(x + d - 1) div d = k"
    proof -
      have "(x + d - 1) div d = ((d - 1) + k * d) div d" by (simp add: xk True algebra_simps)
      also have "\<dots> = k" using assms(3) by simp
      finally show ?thesis .
    qed
    ultimately show ?thesis by (simp add: js_div_def)
  next
    case False
    with m have m1: "1 \<le> m" "m + 1 \<le> d" by auto
    have lo: "of_int k + 1 / of_int d \<le> ?q" and hi: "?q + 1 / of_int d \<le> of_int k + 1"
      using m1 assms(3) by (simp_all add: qk field_simps)
    have "of_int k < fl ?q" "fl ?q < of_int k + 1"
      using fl_quotient_error[OF x assms(2,3)] lo hi by linarith+
    then have "\<lceil>fl ?q\<rceil> = k + 1" by (simp add: ceiling_unique)
    moreover have "(x + d - 1) div d = k + 1"
    proof -
      have "(x + d - 1) div d = ((m - 1) + (k + 1) * d) div d" by (simp add: xk algebra_simps)
      also have "\<dots> = k + 1" using m1 m by simp
      finally show ?thesis .
    qed
    ultimately show ?thesis by (simp add: js_div_def)
  qed
qed

section \<open>toFixed\<close>

lemma toScaled_toFixed8: "0 \<le> x \<Longrightarrow> toScaled (Some (toFixed 8 x)) = Some \<lfloor>x * 10 ^ 8 + 1 / 2\<rfloor>"
  by (simp add: toFixed_def toScaled_fixed_places)

end
