(* ===== verification/Runtime.thy ===== *)
theory Runtime
  imports CanonicalJson JsNumber "HOL-Library.Sorting_Algorithms"
begin

text \<open>
  The parts of the platform the sources call and do not define, as one record of functions:
  SHA-256 (\<open>node:crypto\<close>), \<open>Date.parse\<close> (\<open>None\<close> is \<open>NaN\<close>; the formats beyond the ISO one are
  the engine's choice) and the locale's text order behind \<open>localeCompare\<close>, which is a
  comparator: total, transitive, and consistent in both directions. Every definition that uses
  one of them takes the record as an argument.
\<close>

record runtime =
  sha256Hex :: "string \<Rightarrow> string"
  date_parse :: "string \<Rightarrow> int option"
  localeCompare :: "string comparator"

text \<open>A concrete runtime on which witnesses evaluate.\<close>

definition demo_runtime :: runtime where
  "demo_runtime =
     \<lparr> sha256Hex = (\<lambda>s. replicate 64 (CHR ''a'')),
       date_parse = (\<lambda>s. if s = [] then None else Some 0),
       localeCompare = default \<rparr>"

lemma demo_runtime_simps [simp]:
  "sha256Hex demo_runtime s = replicate 64 (CHR ''a'')"
  "date_parse demo_runtime s = (if s = [] then None else Some 0)"
  "localeCompare demo_runtime = default"
  by (simp_all add: demo_runtime_def)

text \<open>The recogniser of \<open>/^[a-f0-9]{64}$/\<close>.\<close>

definition is_sha256 :: "string \<Rightarrow> bool" where
  "is_sha256 s = (length s = 64 \<and> list_all (\<lambda>c. is_digit c \<or> (CHR ''a'' \<le> c \<and> c \<le> CHR ''f'')) s)"

text \<open>The recogniser of \<open>/^(0|1)(?:\.\d{1,8})?$/\<close>.\<close>

definition decimal_0_1 :: "string \<Rightarrow> bool" where
  "decimal_0_1 v = (decimal_shape (Some 1) (Some 8) v \<and> whole_part v \<in> {''0'', ''1''})"

text \<open>JSON of the optional values the sources print as \<open>null\<close>.\<close>

definition json_str_opt :: "string option \<Rightarrow> json" where
  "json_str_opt s = (case s of None \<Rightarrow> JNull | Some t \<Rightarrow> JStr t)"

definition json_int_opt :: "int option \<Rightarrow> json" where
  "json_int_opt i = (case i of None \<Rightarrow> JNull | Some n \<Rightarrow> JNum n)"

definition json_opt_entry :: "string \<Rightarrow> ('a \<Rightarrow> json) \<Rightarrow> 'a option \<Rightarrow> (string \<times> json) list" where
  "json_opt_entry k f x = (case x of None \<Rightarrow> [] | Some v \<Rightarrow> [(k, f v)])"

lemma json_opt_inject [simp]:
  "json_str_opt s = json_str_opt t \<longleftrightarrow> s = t"
  "json_int_opt i = json_int_opt j \<longleftrightarrow> i = j"
  by (auto simp: json_str_opt_def json_int_opt_def split: option.splits)

lemma json_opt_finite [simp]: "finite_json (json_str_opt s)" "finite_json (json_int_opt i)"
  by (simp_all add: json_str_opt_def json_int_opt_def split: option.splits)

lemma json_opt_norm [simp]:
  "normJson (json_str_opt s) = json_str_opt s" "normJson (json_int_opt i) = json_int_opt i"
  by (simp_all add: json_str_opt_def json_int_opt_def split: option.splits)

lemma json_opt_entry_finite [simp]:
  "(\<And>v. finite_json (f v)) \<Longrightarrow> list_all (\<lambda>(k, v). finite_json v) (json_opt_entry k f x)"
  by (simp add: json_opt_entry_def split: option.splits)

lemma json_opt_entry_map_of:
  "map_of (json_opt_entry k f x) l = (if k = l then map_option f x else None)"
  by (simp add: json_opt_entry_def split: option.splits)

text \<open>A hash without collisions that never yields the genesis hash: the text itself, prefixed.\<close>

definition plain_runtime :: runtime where
  "plain_runtime = demo_runtime\<lparr> sha256Hex := (\<lambda>s. CHR ''x'' # s) \<rparr>"

lemma plain_runtime_injective: "\<not> collides (sha256Hex plain_runtime) a b"
  by (simp add: plain_runtime_def collides_def)

end
