(* ===== verification/KserveRules.thy ===== *)
theory KserveRules
  imports Runtime
begin

text \<open>
  The locked KServe rate and rounding rules (\<open>src/src/billing/kserveRules.ts\<close>): rate, cutoff
  and grace constants, the published ruleset document and its hash. The document is kept as
  data because its hash is what a rate card must carry.
\<close>

definition KSERVE_BILLING_ENGINE_VERSION :: string where
  "KSERVE_BILLING_ENGINE_VERSION = ''kserve-verified-billing/1.1.0''"

definition KSERVE_RULESET_VERSION :: string where
  "KSERVE_RULESET_VERSION = ''2026-07-27.1''"

definition KSERVE_RATE_PER_MINUTE_PAISE :: int where
  "KSERVE_RATE_PER_MINUTE_PAISE = 950"

definition KSERVE_SHORT_CALL_CUTOFF_MS :: int where
  "KSERVE_SHORT_CALL_CUTOFF_MS = 30000"

definition KSERVE_WRAP_UP_GRACE_MS :: int where
  "KSERVE_WRAP_UP_GRACE_MS = 60000"

definition KSERVE_ONE_WAY_TAIL_ALERT_MS :: int where
  "KSERVE_ONE_WAY_TAIL_ALERT_MS = 60000"

definition KSERVE_MINUTE_MS :: int where
  "KSERVE_MINUTE_MS = 60000"

lemmas kserve_constants =
  KSERVE_RATE_PER_MINUTE_PAISE_def KSERVE_SHORT_CALL_CUTOFF_MS_def KSERVE_WRAP_UP_GRACE_MS_def
  KSERVE_ONE_WAY_TAIL_ALERT_MS_def KSERVE_MINUTE_MS_def

definition KSERVE_RULESET_DOCUMENT :: json where
  "KSERVE_RULESET_DOCUMENT = JObj
     [(''schemaVersion'', JStr ''1''),
      (''rulesetVersion'', JStr KSERVE_RULESET_VERSION),
      (''currency'', JStr ''INR''),
      (''ratePerMinute'', JStr ''9.50000000''),
      (''shortCall'', JObj
        [(''condition'', JStr ''0 < adjusted_chargeable_ms < 30000''),
         (''billableMinutes'', JStr ''0.50000000''),
         (''amount'', JStr ''4.75000000''),
         (''ruleCode'', JStr ''SHORT_CALL_FLAT'')]),
      (''zeroDuration'', JObj
        [(''condition'', JStr ''adjusted_chargeable_ms = 0''),
         (''billableMinutes'', JStr ''0.00000000''),
         (''amount'', JStr ''0.00000000''),
         (''ruleCode'', JStr ''ZERO_DURATION_NOT_BILLED'')]),
      (''minuteRounding'', JObj
        [(''condition'', JStr ''adjusted_chargeable_ms >= 30000''),
         (''operation'', JStr ''ceil(adjusted_chargeable_ms / 60000)''),
         (''ruleCode'', JStr ''PER_MINUTE_CEIL'')]),
      (''chargeableDuration'', JObj
        [(''operation'', JStr ''min(recorded_duration_ms, last_meaningful_customer_exchange_ms + 60000)''),
         (''wrapUpGraceMs'', JNum KSERVE_WRAP_UP_GRACE_MS)]),
      (''oneWayTail'', JObj
        [(''operation'', JStr ''max(0, recorded_duration_ms - adjusted_chargeable_duration_ms)''),
         (''alertWhen'', JStr ''one_way_tail_ms > 60000''),
         (''alertThresholdMs'', JNum KSERVE_ONE_WAY_TAIL_ALERT_MS)]),
      (''tax'', JObj
        [(''scope'', JStr ''invoice''),
         (''perCallTax'', JStr ''0.00000000'')]),
      (''contractReference'',
        JStr (''KServe AI Voicebot Service Agreement '' @ [CHR 0xE2, CHR 0x80, CHR 0x94] @ '' Schedule B'')),
      (''approvedDecisionDate'', JStr ''2026-07-27'')]"

definition KSERVE_RULESET_SHA256 :: "runtime \<Rightarrow> string" where
  "KSERVE_RULESET_SHA256 rt = sha256Hex rt (canonical KSERVE_RULESET_DOCUMENT)"

lemma KSERVE_RULESET_DOCUMENT_finite [simp]: "finite_json KSERVE_RULESET_DOCUMENT"
  by (simp add: KSERVE_RULESET_DOCUMENT_def)

lemma KSERVE_RULESET_SHA256_digest:
  "canonicalJsonSha256 (sha256Hex rt) KSERVE_RULESET_DOCUMENT = Inr (KSERVE_RULESET_SHA256 rt)"
  by (simp add: KSERVE_RULESET_SHA256_def)

end
