(* ===== verification/CategoryPolicy.thy ===== *)
theory CategoryPolicy
  imports KserveRules
begin

text \<open>
  The category charge policy (\<open>src/src/billing/categoryChargePolicy.ts\<close>): which service
  endpoint and which grace each audit category is charged for. Timestamps are integer
  milliseconds. The lemmas bound what the policy can ever charge by the recording and
  characterise the one shape in which a failed agent is charged at all.
\<close>

datatype ReauditCategory =
    TIME_DURATION | AGENT_FAILURE | CONNECT_NOT_FRUITFUL | INACTIVE_CALL
  | INCORRECT_CALL_DURATION | AI_CONVERSATION_HANDLING | VOICEMAIL | AI_TO_AI
  | NETWORK_FAILURE_TELECOM | USER_SILENCE | JUNK_CALL | OK

fun category_text :: "ReauditCategory \<Rightarrow> string" where
  "category_text TIME_DURATION = ''TIME_DURATION''"
| "category_text AGENT_FAILURE = ''AGENT_FAILURE''"
| "category_text CONNECT_NOT_FRUITFUL = ''CONNECT_NOT_FRUITFUL''"
| "category_text INACTIVE_CALL = ''INACTIVE_CALL''"
| "category_text INCORRECT_CALL_DURATION = ''INCORRECT_CALL_DURATION''"
| "category_text AI_CONVERSATION_HANDLING = ''AI_CONVERSATION_HANDLING''"
| "category_text VOICEMAIL = ''VOICEMAIL''"
| "category_text AI_TO_AI = ''AI_TO_AI''"
| "category_text NETWORK_FAILURE_TELECOM = ''NETWORK_FAILURE_TELECOM''"
| "category_text USER_SILENCE = ''USER_SILENCE''"
| "category_text JUNK_CALL = ''JUNK_CALL''"
| "category_text OK = ''OK''"

definition CATEGORY_CHARGE_POLICY_VERSION :: string where
  "CATEGORY_CHARGE_POLICY_VERSION = ''management-category-charge/2026-09-30.1''"

definition VOICEMAIL_GRACE_MS :: int where
  "VOICEMAIL_GRACE_MS = 30000"

definition AGENT_FAILURE_MID_CONVERSATION_GRACE_MS :: int where
  "AGENT_FAILURE_MID_CONVERSATION_GRACE_MS = 30000"

lemmas policy_constants = kserve_constants VOICEMAIL_GRACE_MS_def AGENT_FAILURE_MID_CONVERSATION_GRACE_MS_def

definition CATEGORY_CHARGE_POLICY_DOCUMENT :: json where
  "CATEGORY_CHARGE_POLICY_DOCUMENT = JObj
     [(''schemaVersion'', JStr ''1''),
      (''version'', JStr CATEGORY_CHARGE_POLICY_VERSION),
      (''rules'', JObj
        [(''USER_SILENCE'', JStr ''first_agent_turn_plus_standard_grace''),
         (''VOICEMAIL'', JStr ''last_agent_or_voicemail_exchange_plus_30s_grace''),
         (''AI_TO_AI'', JStr ''standard_grace_only''),
         (''INACTIVE_CALL'', JStr ''zero''),
         (''OK'', JStr ''last_customer_exchange_plus_standard_grace''),
         (''CONNECT_NOT_FRUITFUL'', JStr ''last_customer_exchange_plus_standard_grace''),
         (''TIME_DURATION'', JStr ''last_customer_exchange_plus_standard_grace''),
         (''AGENT_FAILURE'', JStr ''zero unless the failure begins mid-conversation after meaningful validated service, in which case the validated service period through failureStartMs plus exactly 30s grace''),
         (''AI_CONVERSATION_HANDLING'', JStr ''zero''),
         (''NETWORK_FAILURE_TELECOM'', JStr ''zero''),
         (''JUNK_CALL'', JStr ''business_relevant_customer_exchange_plus_standard_grace''),
         (''INCORRECT_CALL_DURATION'', JStr ''last_verified_interaction_plus_standard_grace'')])]"

definition CATEGORY_CHARGE_POLICY_SHA256 :: "runtime \<Rightarrow> string" where
  "CATEGORY_CHARGE_POLICY_SHA256 rt = sha256Hex rt (canonical CATEGORY_CHARGE_POLICY_DOCUMENT)"

datatype CategoryChargePolicyCode =
    STANDARD_CUSTOMER_PLUS_GRACE
  | USER_SILENCE_INTRO_PLUS_GRACE
  | VOICEMAIL_SERVICE_PLUS_30S
  | AI_TO_AI_GRACE_ONLY
  | JUNK_BUSINESS_INTERACTION_PLUS_GRACE
  | VERIFIED_INTERACTION_PLUS_GRACE
  | MANAGEMENT_ZERO_CATEGORY
  | AGENT_FAILURE_MID_CONVERSATION_PLUS_30S
  | NO_VERIFIED_CHARGEABLE_INTERACTION

fun policy_text :: "CategoryChargePolicyCode \<Rightarrow> string" where
  "policy_text STANDARD_CUSTOMER_PLUS_GRACE = ''STANDARD_CUSTOMER_PLUS_GRACE''"
| "policy_text USER_SILENCE_INTRO_PLUS_GRACE = ''USER_SILENCE_INTRO_PLUS_GRACE''"
| "policy_text VOICEMAIL_SERVICE_PLUS_30S = ''VOICEMAIL_SERVICE_PLUS_30S''"
| "policy_text AI_TO_AI_GRACE_ONLY = ''AI_TO_AI_GRACE_ONLY''"
| "policy_text JUNK_BUSINESS_INTERACTION_PLUS_GRACE = ''JUNK_BUSINESS_INTERACTION_PLUS_GRACE''"
| "policy_text VERIFIED_INTERACTION_PLUS_GRACE = ''VERIFIED_INTERACTION_PLUS_GRACE''"
| "policy_text MANAGEMENT_ZERO_CATEGORY = ''MANAGEMENT_ZERO_CATEGORY''"
| "policy_text AGENT_FAILURE_MID_CONVERSATION_PLUS_30S = ''AGENT_FAILURE_MID_CONVERSATION_PLUS_30S''"
| "policy_text NO_VERIFIED_CHARGEABLE_INTERACTION = ''NO_VERIFIED_CHARGEABLE_INTERACTION''"

definition CATEGORY_CHARGE_POLICY_CODES :: "string list" where
  "CATEGORY_CHARGE_POLICY_CODES = map policy_text
     [STANDARD_CUSTOMER_PLUS_GRACE, USER_SILENCE_INTRO_PLUS_GRACE, VOICEMAIL_SERVICE_PLUS_30S,
      AI_TO_AI_GRACE_ONLY, JUNK_BUSINESS_INTERACTION_PLUS_GRACE, VERIFIED_INTERACTION_PLUS_GRACE,
      MANAGEMENT_ZERO_CATEGORY, AGENT_FAILURE_MID_CONVERSATION_PLUS_30S,
      NO_VERIFIED_CHARGEABLE_INTERACTION]"

datatype AgentFailureMode = Start | Mid_conversation

record CategoryChargeEvidence =
  ce_category :: ReauditCategory
  ce_recordedDurationMs :: int
  ce_lastCustomerExchangeMs :: "int option"
  ce_lastAgentExchangeMs :: "int option"
  ce_firstAgentTurnEndMs :: "int option"
  ce_lastVoicemailExchangeMs :: "int option"
  ce_lastBusinessRelevantCustomerExchangeMs :: "int option"
  ce_lastVerifiedInteractionMs :: "int option"
  ce_agentFailureMode :: "AgentFailureMode option"
  ce_meaningfulServiceBeforeFailure :: bool
  ce_failureStartMs :: "int option"

record CategoryChargeDecision =
  cd_policyCode :: CategoryChargePolicyCode
  cd_serviceEndMs :: int
  cd_graceMs :: int
  cd_adjustedChargeableDurationMs :: int

definition boundedEnd :: "int option \<Rightarrow> int \<Rightarrow> int" where
  "boundedEnd v recordedDurationMs =
     (case v of None \<Rightarrow> 0 | Some x \<Rightarrow> min recordedDurationMs (max 0 x))"

definition decision ::
  "CategoryChargeEvidence \<Rightarrow> CategoryChargePolicyCode \<Rightarrow> int option \<Rightarrow> int \<Rightarrow> CategoryChargeDecision" where
  "decision evidence policyCode rawEndMs graceMs =
     (let serviceEndMs = boundedEnd rawEndMs (ce_recordedDurationMs evidence) in
      \<lparr> cd_policyCode = policyCode,
        cd_serviceEndMs = serviceEndMs,
        cd_graceMs = graceMs,
        cd_adjustedChargeableDurationMs = min (ce_recordedDurationMs evidence) (serviceEndMs + graceMs) \<rparr>)"

definition agent_failure_chargeable :: "CategoryChargeEvidence \<Rightarrow> bool" where
  "agent_failure_chargeable evidence =
     (ce_agentFailureMode evidence = Some Mid_conversation \<and>
      ce_meaningfulServiceBeforeFailure evidence \<and>
      (case ce_failureStartMs evidence of
         None \<Rightarrow> False
       | Some f \<Rightarrow> isSafeInteger f \<and> f > 0 \<and> f \<le> ce_recordedDurationMs evidence))"

definition resolveCategoryCharge :: "CategoryChargeEvidence \<Rightarrow> CategoryChargeDecision" where
  "resolveCategoryCharge evidence =
     (if ce_category evidence = INACTIVE_CALL \<or> ce_category evidence = AI_CONVERSATION_HANDLING \<or>
         ce_category evidence = NETWORK_FAILURE_TELECOM
      then decision evidence MANAGEMENT_ZERO_CATEGORY None 0
      else if ce_category evidence = AGENT_FAILURE
      then (if \<not> agent_failure_chargeable evidence
            then decision evidence MANAGEMENT_ZERO_CATEGORY None 0
            else decision evidence AGENT_FAILURE_MID_CONVERSATION_PLUS_30S (ce_failureStartMs evidence)
                   AGENT_FAILURE_MID_CONVERSATION_GRACE_MS)
      else if ce_category evidence = AI_TO_AI
      then decision evidence AI_TO_AI_GRACE_ONLY None KSERVE_WRAP_UP_GRACE_MS
      else if ce_category evidence = USER_SILENCE
      then (case ce_firstAgentTurnEndMs evidence of
              None \<Rightarrow> decision evidence NO_VERIFIED_CHARGEABLE_INTERACTION None 0
            | Some introEndMs \<Rightarrow>
                decision evidence USER_SILENCE_INTRO_PLUS_GRACE (Some introEndMs) KSERVE_WRAP_UP_GRACE_MS)
      else if ce_category evidence = VOICEMAIL
      then (let serviceEndMs = max (coalesce (ce_lastAgentExchangeMs evidence) 0)
                                   (coalesce (ce_lastVoicemailExchangeMs evidence) 0)
            in if serviceEndMs = 0
               then decision evidence NO_VERIFIED_CHARGEABLE_INTERACTION None 0
               else decision evidence VOICEMAIL_SERVICE_PLUS_30S (Some serviceEndMs) VOICEMAIL_GRACE_MS)
      else if ce_category evidence = JUNK_CALL
      then (case ce_lastBusinessRelevantCustomerExchangeMs evidence of
              None \<Rightarrow> decision evidence NO_VERIFIED_CHARGEABLE_INTERACTION None 0
            | Some e \<Rightarrow> decision evidence JUNK_BUSINESS_INTERACTION_PLUS_GRACE (Some e) KSERVE_WRAP_UP_GRACE_MS)
      else if ce_category evidence = INCORRECT_CALL_DURATION
      then (case ce_lastVerifiedInteractionMs evidence of
              None \<Rightarrow> decision evidence NO_VERIFIED_CHARGEABLE_INTERACTION None 0
            | Some e \<Rightarrow> decision evidence VERIFIED_INTERACTION_PLUS_GRACE (Some e) KSERVE_WRAP_UP_GRACE_MS)
      else (case ce_lastCustomerExchangeMs evidence of
              None \<Rightarrow> decision evidence NO_VERIFIED_CHARGEABLE_INTERACTION None 0
            | Some e \<Rightarrow> decision evidence STANDARD_CUSTOMER_PLUS_GRACE (Some e) KSERVE_WRAP_UP_GRACE_MS))"

section \<open>What the policy can charge\<close>

definition management_zero :: "ReauditCategory \<Rightarrow> bool" where
  "management_zero c = (c \<in> {INACTIVE_CALL, AI_CONVERSATION_HANDLING, NETWORK_FAILURE_TELECOM})"

definition decision_in_bounds :: "int \<Rightarrow> CategoryChargeDecision \<Rightarrow> bool" where
  "decision_in_bounds recorded d \<longleftrightarrow>
     0 \<le> cd_serviceEndMs d \<and> cd_serviceEndMs d \<le> recorded \<and>
     cd_graceMs d \<in> {0, 30000, 60000} \<and>
     cd_serviceEndMs d \<le> cd_adjustedChargeableDurationMs d \<and>
     cd_adjustedChargeableDurationMs d \<le> recorded \<and>
     cd_adjustedChargeableDurationMs d = min recorded (cd_serviceEndMs d + cd_graceMs d)"

lemma decision_bounds:
  "0 \<le> ce_recordedDurationMs e \<Longrightarrow> g \<in> {0, 30000, 60000} \<Longrightarrow>
   decision_in_bounds (ce_recordedDurationMs e) (decision e p r g)"
  by (auto simp: decision_in_bounds_def decision_def Let_def boundedEnd_def split: option.splits)

lemma resolve_bounds:
  assumes "0 \<le> ce_recordedDurationMs e"
  shows "decision_in_bounds (ce_recordedDurationMs e) (resolveCategoryCharge e)"
  by (simp add: resolveCategoryCharge_def Let_def policy_constants decision_bounds[OF assms]
      split: option.splits)

lemma resolve_zero_category:
  "management_zero (ce_category e) \<Longrightarrow> 0 \<le> ce_recordedDurationMs e \<Longrightarrow>
   cd_adjustedChargeableDurationMs (resolveCategoryCharge e) = 0"
  by (auto simp: management_zero_def resolveCategoryCharge_def decision_def boundedEnd_def Let_def)

lemma resolve_agent_failure:
  assumes "ce_category e = AGENT_FAILURE" and "0 \<le> ce_recordedDurationMs e"
  shows "0 < cd_adjustedChargeableDurationMs (resolveCategoryCharge e) \<longleftrightarrow> agent_failure_chargeable e"
  using assms
  by (auto simp: resolveCategoryCharge_def decision_def boundedEnd_def Let_def policy_constants
      agent_failure_chargeable_def split: option.splits)

end
