(* ===== verification/BillingTypes.thy ===== *)
theory BillingTypes
  imports CategoryPolicy
begin

text \<open>
  The data of the verified-billing engine (\<open>src/src/billing/types.ts\<close>) and its JSON form. A
  field of type \<open>number | null\<close> is an \<open>int option\<close>; an optional property is an option that
  adds no JSON entry when absent. The policy code of a category charge is text because the
  engine checks at run time that it is one of the known codes.
\<close>

datatype ConversationAssessment = Established | No_meaningful_exchange | Assessment_unresolved

fun assessment_text :: "ConversationAssessment \<Rightarrow> string" where
  "assessment_text Established = ''established''"
| "assessment_text No_meaningful_exchange = ''no_meaningful_exchange''"
| "assessment_text Assessment_unresolved = ''unresolved''"

record PublishedRateCard =
  rate_id :: string
  rate_version :: string
  rate_status :: string
  rate_currency :: string
  rate_rulesetSha256 :: "string option"
  rate_approvedBy :: "string option"
  rate_approvedAt :: "string option"

datatype EvidenceKind = Audio | Transcript | Media_analysis | Call_manifest

fun kind_text :: "EvidenceKind \<Rightarrow> string" where
  "kind_text Audio = ''audio''"
| "kind_text Transcript = ''transcript''"
| "kind_text Media_analysis = ''media_analysis''"
| "kind_text Call_manifest = ''call_manifest''"

record EvidenceHashReference =
  ev_kind :: EvidenceKind
  ev_sha256 :: string
  ev_referenceId :: string

record ModelIdentity =
  model_provider :: string
  model_name :: string
  model_version :: string

record AutomationAuthority =
  au_calibrationVersion :: "string option"
  au_calibrationComplete :: bool
  au_validationMethod :: "string option"
  au_validationTraceSha256 :: "string option"
  au_confidence :: string
  au_threshold :: "string option"
  au_language :: string
  au_findingType :: string
  au_sensitivityTier :: string
  au_recheckAttempt :: int
  au_maximumRechecks :: int

record AgentFailureEvidence =
  af_mode :: "AgentFailureMode option"
  af_meaningfulServiceBeforeFailure :: bool
  af_failureStartMs :: "int option"

record CategoryCharge =
  cc_category :: ReauditCategory
  cc_serviceEndMs :: int
  cc_graceMs :: int
  cc_policyCode :: string
  cc_policyVersion :: string
  cc_policySha256 :: string
  cc_agentFailure :: "AgentFailureEvidence option"

record VerifiedBillingInput =
  in_callId :: string
  in_auditRunId :: string
  in_claimedDurationMs :: "int option"
  in_connectedDurationMs :: "int option"
  in_recordedDurationMs :: int
  in_speechDurationMs :: "int option"
  in_conversationAssessment :: ConversationAssessment
  in_lastMeaningfulCustomerExchangeMs :: "int option"
  in_categoryCharge :: "CategoryCharge option"
  in_model :: ModelIdentity
  in_classifierRulesetVersion :: string
  in_classifierRulesetSha256 :: string
  in_evidence :: "EvidenceHashReference list"
  in_authority :: AutomationAuthority
  in_calculatedAt :: string

datatype BillingReason =
    AUTOMATED_CONFIDENCE_CONFIRMED
  | CALIBRATION_NOT_COMPLETED
  | THRESHOLD_NOT_CONFIGURED
  | LOW_CONFIDENCE_RECHECK_REQUIRED
  | LOW_CONFIDENCE_RECHECK_EXHAUSTED
  | CONVERSATION_ASSESSMENT_UNRESOLVED

fun reason_text :: "BillingReason \<Rightarrow> string" where
  "reason_text AUTOMATED_CONFIDENCE_CONFIRMED = ''AUTOMATED_CONFIDENCE_CONFIRMED''"
| "reason_text CALIBRATION_NOT_COMPLETED = ''CALIBRATION_NOT_COMPLETED''"
| "reason_text THRESHOLD_NOT_CONFIGURED = ''THRESHOLD_NOT_CONFIGURED''"
| "reason_text LOW_CONFIDENCE_RECHECK_REQUIRED = ''LOW_CONFIDENCE_RECHECK_REQUIRED''"
| "reason_text LOW_CONFIDENCE_RECHECK_EXHAUSTED = ''LOW_CONFIDENCE_RECHECK_EXHAUSTED''"
| "reason_text CONVERSATION_ASSESSMENT_UNRESOLVED = ''CONVERSATION_ASSESSMENT_UNRESOLVED''"

datatype BillingNextAction =
    Await_calibration | Configure_threshold | Retry_with_secondary_model
  | Hold_unresolved_until_cycle_close | Retry_conversation_assessment

fun action_text :: "BillingNextAction \<Rightarrow> string" where
  "action_text Await_calibration = ''await_calibration''"
| "action_text Configure_threshold = ''configure_threshold''"
| "action_text Retry_with_secondary_model = ''retry_with_secondary_model''"
| "action_text Hold_unresolved_until_cycle_close = ''hold_unresolved_until_cycle_close''"
| "action_text Retry_conversation_assessment = ''retry_conversation_assessment''"

datatype ChargeRule = ZERO_DURATION_NOT_BILLED | SHORT_CALL_FLAT | PER_MINUTE_CEIL

fun rule_text :: "ChargeRule \<Rightarrow> string" where
  "rule_text ZERO_DURATION_NOT_BILLED = ''ZERO_DURATION_NOT_BILLED''"
| "rule_text SHORT_CALL_FLAT = ''SHORT_CALL_FLAT''"
| "rule_text PER_MINUTE_CEIL = ''PER_MINUTE_CEIL''"

record AuthorityDecision =
  ad_final :: bool
  ad_reasonCode :: BillingReason
  ad_nextAction :: "BillingNextAction option"

record BillingDecisionTrace =
  tr_schemaVersion :: string
  tr_engineVersion :: string
  tr_rulesetVersion :: string
  tr_rulesetSha256 :: string
  tr_rateCardId :: string
  tr_rateCardVersion :: string
  tr_callId :: string
  tr_auditRunId :: string
  tr_model :: ModelIdentity
  tr_classifierRulesetVersion :: string
  tr_classifierRulesetSha256 :: string
  tr_evidence :: "EvidenceHashReference list"
  tr_evidenceManifestSha256 :: string
  tr_inputManifestSha256 :: string
  tr_authority :: AutomationAuthority
  tr_claimedDurationMs :: "int option"
  tr_connectedDurationMs :: "int option"
  tr_recordedDurationMs :: int
  tr_speechDurationMs :: "int option"
  tr_conversationAssessment :: ConversationAssessment
  tr_lastMeaningfulCustomerExchangeMs :: "int option"
  tr_categoryCharge :: "CategoryCharge option"
  tr_calculation :: json
  tr_outcome :: AuthorityDecision
  tr_decidedAt :: string

record FinalVerifiedBilling =
  fb_adjustedChargeableDurationMs :: int
  fb_billableDurationMs :: int
  fb_billableMinutes :: string
  fb_amount :: string
  fb_amountPaise :: int
  fb_ruleCode :: ChargeRule
  fb_oneWayTailMs :: int
  fb_oneWayTailAlert :: bool
  fb_inputManifestSha256 :: string
  fb_evidenceManifestSha256 :: string
  fb_traceSha256 :: string
  fb_trace :: BillingDecisionTrace

record UnresolvedVerifiedBilling =
  ub_reasonCode :: BillingReason
  ub_nextAction :: "BillingNextAction option"
  ub_inputManifestSha256 :: string
  ub_evidenceManifestSha256 :: string
  ub_traceSha256 :: string
  ub_trace :: BillingDecisionTrace

datatype VerifiedBillingResult =
    Final FinalVerifiedBilling
  | Unresolved UnresolvedVerifiedBilling

section \<open>JSON forms\<close>

definition evidence_json :: "EvidenceHashReference \<Rightarrow> json" where
  "evidence_json e = JObj
     [(''kind'', JStr (kind_text (ev_kind e))),
      (''sha256'', JStr (ev_sha256 e)),
      (''referenceId'', JStr (ev_referenceId e))]"

definition model_json :: "ModelIdentity \<Rightarrow> json" where
  "model_json m = JObj
     [(''provider'', JStr (model_provider m)),
      (''name'', JStr (model_name m)),
      (''version'', JStr (model_version m))]"

definition authority_json :: "AutomationAuthority \<Rightarrow> json" where
  "authority_json a = JObj
     ([(''calibrationVersion'', json_str_opt (au_calibrationVersion a)),
       (''calibrationComplete'', JBool (au_calibrationComplete a))] @
      json_opt_entry ''validationMethod'' JStr (au_validationMethod a) @
      json_opt_entry ''validationTraceSha256'' JStr (au_validationTraceSha256 a) @
      [(''confidence'', JStr (au_confidence a)),
       (''threshold'', json_str_opt (au_threshold a)),
       (''language'', JStr (au_language a)),
       (''findingType'', JStr (au_findingType a)),
       (''sensitivityTier'', JStr (au_sensitivityTier a)),
       (''recheckAttempt'', JNum (au_recheckAttempt a)),
       (''maximumRechecks'', JNum (au_maximumRechecks a))])"

definition mode_json :: "AgentFailureMode option \<Rightarrow> json" where
  "mode_json m = (case m of None \<Rightarrow> JNull | Some Start \<Rightarrow> JStr ''start''
     | Some Mid_conversation \<Rightarrow> JStr ''mid_conversation'')"

definition agentFailure_json :: "AgentFailureEvidence \<Rightarrow> json" where
  "agentFailure_json f = JObj
     [(''mode'', mode_json (af_mode f)),
      (''meaningfulServiceBeforeFailure'', JBool (af_meaningfulServiceBeforeFailure f)),
      (''failureStartMs'', json_int_opt (af_failureStartMs f))]"

definition categoryCharge_json :: "CategoryCharge \<Rightarrow> json" where
  "categoryCharge_json c = JObj
     ([(''category'', JStr (category_text (cc_category c))),
       (''serviceEndMs'', JNum (cc_serviceEndMs c)),
       (''graceMs'', JNum (cc_graceMs c)),
       (''policyCode'', JStr (cc_policyCode c)),
       (''policyVersion'', JStr (cc_policyVersion c)),
       (''policySha256'', JStr (cc_policySha256 c))] @
      json_opt_entry ''agentFailure'' agentFailure_json (cc_agentFailure c))"

definition categoryCharge_json_opt :: "CategoryCharge option \<Rightarrow> json" where
  "categoryCharge_json_opt c = (case c of None \<Rightarrow> JNull | Some x \<Rightarrow> categoryCharge_json x)"

definition trace_json :: "BillingDecisionTrace \<Rightarrow> json" where
  "trace_json t = JObj
     [(''schemaVersion'', JStr (tr_schemaVersion t)),
      (''decisionType'', JStr ''verified_call_billing''),
      (''engineVersion'', JStr (tr_engineVersion t)),
      (''rulesetVersion'', JStr (tr_rulesetVersion t)),
      (''rulesetSha256'', JStr (tr_rulesetSha256 t)),
      (''rateCardId'', JStr (tr_rateCardId t)),
      (''rateCardVersion'', JStr (tr_rateCardVersion t)),
      (''callId'', JStr (tr_callId t)),
      (''auditRunId'', JStr (tr_auditRunId t)),
      (''model'', model_json (tr_model t)),
      (''classifierRulesetVersion'', JStr (tr_classifierRulesetVersion t)),
      (''classifierRulesetSha256'', JStr (tr_classifierRulesetSha256 t)),
      (''evidence'', JArr (map evidence_json (tr_evidence t))),
      (''evidenceManifestSha256'', JStr (tr_evidenceManifestSha256 t)),
      (''inputManifestSha256'', JStr (tr_inputManifestSha256 t)),
      (''authority'', authority_json (tr_authority t)),
      (''inputs'', JObj
        ([(''claimedDurationMs'', json_int_opt (tr_claimedDurationMs t)),
          (''connectedDurationMs'', json_int_opt (tr_connectedDurationMs t)),
          (''recordedDurationMs'', JNum (tr_recordedDurationMs t)),
          (''speechDurationMs'', json_int_opt (tr_speechDurationMs t)),
          (''conversationAssessment'', JStr (assessment_text (tr_conversationAssessment t))),
          (''lastMeaningfulCustomerExchangeMs'', json_int_opt (tr_lastMeaningfulCustomerExchangeMs t))] @
         json_opt_entry ''categoryCharge'' categoryCharge_json (tr_categoryCharge t))),
      (''calculation'', tr_calculation t),
      (''outcome'', JObj
        [(''status'', JStr (if ad_final (tr_outcome t) then ''final'' else ''unresolved'')),
         (''reasonCode'', JStr (reason_text (ad_reasonCode (tr_outcome t)))),
         (''nextAction'', json_str_opt (map_option action_text (ad_nextAction (tr_outcome t))))]),
      (''decidedAt'', JStr (tr_decidedAt t))]"

lemma json_finite [simp]:
  "finite_json (evidence_json e)" "finite_json (model_json m)" "finite_json (authority_json a)"
  "finite_json (mode_json md)" "finite_json (agentFailure_json f)" "finite_json (categoryCharge_json c)"
  "finite_json (categoryCharge_json_opt co)"
  by (auto simp: evidence_json_def model_json_def authority_json_def mode_json_def agentFailure_json_def
      categoryCharge_json_def categoryCharge_json_opt_def split: option.splits AgentFailureMode.splits)

lemma trace_json_finite [simp]: "finite_json (tr_calculation t) \<Longrightarrow> finite_json (trace_json t)"
  by (auto simp: trace_json_def json_opt_entry_def list_all_iff split: option.splits)

section \<open>The JSON forms determine the data\<close>

lemma text_inject [simp]:
  "assessment_text a = assessment_text b \<longleftrightarrow> a = b"
  "kind_text k = kind_text l \<longleftrightarrow> k = l"
  "category_text c = category_text d \<longleftrightarrow> c = d"
proof -
  show "assessment_text a = assessment_text b \<longleftrightarrow> a = b" by (cases a; cases b; simp)
  show "kind_text k = kind_text l \<longleftrightarrow> k = l" by (cases k; cases l; simp)
  show "category_text c = category_text d \<longleftrightarrow> c = d" by (cases c; cases d; simp)
qed
lemma mode_json_inject: "normJson (mode_json a) = normJson (mode_json b) \<longleftrightarrow> a = b"
  by (auto simp: mode_json_def split: option.splits AgentFailureMode.splits)

lemma model_json_inject: "normJson (model_json m) = normJson (model_json n) \<longleftrightarrow> m = n"
proof
  assume "normJson (model_json m) = normJson (model_json n)"
  note f = normJson_field[OF this[unfolded model_json_def]]
  show "m = n" using f[of "''provider''"] f[of "''name''"] f[of "''version''"]
    by (cases m; cases n) simp
qed simp

lemma evidence_json_inject: "normJson (evidence_json d) = normJson (evidence_json e) \<longleftrightarrow> d = e"
proof
  assume "normJson (evidence_json d) = normJson (evidence_json e)"
  note f = normJson_field[OF this[unfolded evidence_json_def]]
  show "d = e" using f[of "''kind''"] f[of "''sha256''"] f[of "''referenceId''"]
    by (cases d; cases e) simp
qed simp

lemma authority_json_inject: "normJson (authority_json a) = normJson (authority_json b) \<longleftrightarrow> a = b"
proof
  assume "normJson (authority_json a) = normJson (authority_json b)"
  note f = normJson_field[OF this[unfolded authority_json_def]]
  have "au_validationMethod a = au_validationMethod b"
    using f[of "''validationMethod''"] by (simp add: map_add_def json_opt_entry_map_of split: option.splits)
  moreover have "au_validationTraceSha256 a = au_validationTraceSha256 b"
    using f[of "''validationTraceSha256''"] by (simp add: map_add_def json_opt_entry_map_of split: option.splits)
  moreover have "au_calibrationVersion a = au_calibrationVersion b"
    "au_calibrationComplete a = au_calibrationComplete b"
    "au_confidence a = au_confidence b" "au_threshold a = au_threshold b"
    "au_language a = au_language b" "au_findingType a = au_findingType b"
    "au_sensitivityTier a = au_sensitivityTier b"
    "au_recheckAttempt a = au_recheckAttempt b" "au_maximumRechecks a = au_maximumRechecks b"
    using f[of "''calibrationVersion''"] f[of "''calibrationComplete''"]
      f[of "''confidence''"] f[of "''threshold''"] f[of "''language''"]
      f[of "''findingType''"] f[of "''sensitivityTier''"] f[of "''recheckAttempt''"] f[of "''maximumRechecks''"]
    by (simp_all add: map_add_def json_opt_entry_map_of)
  ultimately show "a = b" by (cases a; cases b) simp
qed simp

lemma agentFailure_json_inject: "normJson (agentFailure_json a) = normJson (agentFailure_json b) \<longleftrightarrow> a = b"
proof
  assume "normJson (agentFailure_json a) = normJson (agentFailure_json b)"
  note f = normJson_field[OF this[unfolded agentFailure_json_def]]
  have "af_mode a = af_mode b" "af_meaningfulServiceBeforeFailure a = af_meaningfulServiceBeforeFailure b"
    "af_failureStartMs a = af_failureStartMs b"
    using f[of "''mode''"] f[of "''meaningfulServiceBeforeFailure''"] f[of "''failureStartMs''"]
    by (simp_all add: mode_json_inject)
  then show "a = b" by (cases a; cases b) simp
qed simp

lemma categoryCharge_json_inject: "normJson (categoryCharge_json a) = normJson (categoryCharge_json b) \<longleftrightarrow> a = b"
proof
  assume "normJson (categoryCharge_json a) = normJson (categoryCharge_json b)"
  note f = normJson_field[OF this[unfolded categoryCharge_json_def]]
  have "cc_agentFailure a = cc_agentFailure b"
    using f[of "''agentFailure''"]
    by (cases "cc_agentFailure a"; cases "cc_agentFailure b")
      (simp_all add: map_add_def json_opt_entry_map_of agentFailure_json_inject)
  moreover have "cc_category a = cc_category b" "cc_serviceEndMs a = cc_serviceEndMs b"
    "cc_graceMs a = cc_graceMs b" "cc_policyCode a = cc_policyCode b"
    "cc_policyVersion a = cc_policyVersion b" "cc_policySha256 a = cc_policySha256 b"
    using f[of "''category''"] f[of "''serviceEndMs''"] f[of "''graceMs''"] f[of "''policyCode''"]
      f[of "''policyVersion''"] f[of "''policySha256''"]
    by (simp_all add: map_add_def json_opt_entry_map_of)
  ultimately show "a = b" by (cases a; cases b) simp
qed simp

lemma categoryCharge_json_opt_inject:
  "normJson (categoryCharge_json_opt a) = normJson (categoryCharge_json_opt b) \<longleftrightarrow> a = b"
  by (cases a; cases b)
    (simp_all add: categoryCharge_json_opt_def categoryCharge_json_inject, simp_all add: categoryCharge_json_def)

end
