(* ===== verification/VerifiedCharge.thy ===== *)
theory VerifiedCharge
  imports BillingTypes
begin

text \<open>
  The verified charge of one call (\<open>src/src/billing/calculateVerifiedCharge.ts\<close>): validation of
  the input and of the published rate card, the authority gate, rounding to half minutes, the
  connected-time and KServe-billed caps, and the hashed decision trace. Milliseconds are \<open>int\<close>
  guarded by \<open>Number.isSafeInteger\<close>; \<open>bigint\<close> values are \<open>int\<close>. The one double quotient,
  \<open>Math.ceil(claimedDurationMs / 30000)\<close>, is computed with rounded division.
\<close>

section \<open>Validation\<close>

definition requireText :: "string \<Rightarrow> string \<Rightarrow> bool \<times> js_error" where
  "requireText v name = (trim v = [], TypeError (name @ '' is required''))"

definition requireSha256 :: "string \<Rightarrow> string \<Rightarrow> bool \<times> js_error" where
  "requireSha256 v name = (\<not> is_sha256 v, TypeError (name @ '' must be a lowercase SHA-256 hex value''))"

definition requireMilliseconds :: "int option \<Rightarrow> string \<Rightarrow> bool \<Rightarrow> bool \<times> js_error" where
  "requireMilliseconds v name nullable =
     (case v of None \<Rightarrow> \<not> nullable | Some ms \<Rightarrow> \<not> isSafeInteger ms \<or> ms < 0,
      RangeError (name @ '' must be a non-negative safe integer''))"

definition decimalToScale8 :: "string \<Rightarrow> string \<Rightarrow> int res" where
  "decimalToScale8 v name =
     (if \<not> decimal_0_1 v then Inl (TypeError (name @ '' must be a decimal from 0 to 1''))
      else
        let scaled = int (nat_of_digits (whole_part v)) * 100000000 +
                     int (nat_of_digits (eight_places (fraction_part v)))
        in if scaled > 100000000 then Inl (TypeError (name @ '' must be a decimal from 0 to 1''))
           else Inr scaled)"

definition fixed8FromPaise :: "int \<Rightarrow> string res" where
  "fixed8FromPaise paise =
     (if paise < 0 then Inl (RangeError ''Money cannot be negative'')
      else Inr (string_of_int (paise div 100) @ CHR ''.'' #
                padStart 2 (CHR ''0'') (string_of_int (paise mod 100)) @ ''000000''))"

definition fixed8FromHalfMinutes :: "int \<Rightarrow> string" where
  "fixed8FromHalfMinutes halfMinutes =
     string_of_int (halfMinutes div 2) @ CHR ''.'' #
     (if halfMinutes mod 2 = 0 then ''00000000'' else ''50000000'')"

definition validateRateCard :: "runtime \<Rightarrow> PublishedRateCard \<Rightarrow> unit res" where
  "validateRateCard rt rateCard = first_error
     [requireText (rate_id rateCard) ''rateCard.id'',
      requireText (rate_version rateCard) ''rateCard.version'',
      (rate_status rateCard \<noteq> ''published'' \<or>
       \<not> truthy_text (map_option trim (rate_approvedBy rateCard)) \<or>
       \<not> truthy_text (map_option trim (rate_approvedAt rateCard)) \<or>
       date_parse rt (coalesce (rate_approvedAt rateCard) []) = None,
       PlainError ''D-03: billing requires a formally published rate card with approver and approval timestamp''),
      (rate_currency rateCard \<noteq> ''INR'', PlainError ''The locked KServe ruleset supports INR only''),
      (rate_rulesetSha256 rateCard \<noteq> Some (KSERVE_RULESET_SHA256 rt),
       PlainError ''Published rate-card hash does not match the locked KServe ruleset'')]"

fun evidence_checks :: "nat \<Rightarrow> EvidenceHashReference list \<Rightarrow> (bool \<times> js_error) list" where
  "evidence_checks i [] = []"
| "evidence_checks i (ref # refs) =
     requireText (ev_referenceId ref) (''evidence['' @ string_of_nat i @ ''].referenceId'') #
     requireSha256 (ev_sha256 ref) (''evidence['' @ string_of_nat i @ ''].sha256'') #
     evidence_checks (Suc i) refs"

definition validateEvidence :: "EvidenceHashReference list \<Rightarrow> (bool \<times> js_error) list" where
  "validateEvidence evidence =
     (evidence = [], TypeError ''At least one input evidence hash is required'') #
     evidence_checks 0 evidence"

definition zeroShape :: "CategoryCharge \<Rightarrow> bool" where
  "zeroShape c = (cc_policyCode c = ''MANAGEMENT_ZERO_CATEGORY'' \<and> cc_serviceEndMs c = 0 \<and> cc_graceMs c = 0)"

definition failureMode :: "CategoryCharge \<Rightarrow> AgentFailureMode option" where
  "failureMode c = (case cc_agentFailure c of None \<Rightarrow> None | Some f \<Rightarrow> af_mode f)"

definition charged_shape :: "CategoryCharge \<Rightarrow> string \<Rightarrow> int \<Rightarrow> bool" where
  "charged_shape c code grace = (cc_policyCode c = code \<and> cc_serviceEndMs c > 0 \<and> cc_graceMs c = grace)"

definition uncharged_shape :: "CategoryCharge \<Rightarrow> bool" where
  "uncharged_shape c =
     (cc_policyCode c = ''NO_VERIFIED_CHARGEABLE_INTERACTION'' \<and> cc_serviceEndMs c = 0 \<and> cc_graceMs c = 0)"

definition structurallyValid :: "CategoryCharge \<Rightarrow> bool" where
  "structurallyValid c =
     (if cc_category c \<in> {INACTIVE_CALL, AI_CONVERSATION_HANDLING, NETWORK_FAILURE_TELECOM} then zeroShape c
      else if cc_category c = AGENT_FAILURE then
        (zeroShape c \<and> failureMode c \<noteq> Some Mid_conversation) \<or>
        (cc_policyCode c = ''AGENT_FAILURE_MID_CONVERSATION_PLUS_30S'' \<and>
         (case cc_agentFailure c of
            None \<Rightarrow> False
          | Some f \<Rightarrow> af_mode f = Some Mid_conversation \<and> af_meaningfulServiceBeforeFailure f \<and>
                      cc_serviceEndMs c > 0 \<and> af_failureStartMs f = Some (cc_serviceEndMs c)) \<and>
         cc_graceMs c = AGENT_FAILURE_MID_CONVERSATION_GRACE_MS)
      else if cc_category c = AI_TO_AI then
        cc_policyCode c = ''AI_TO_AI_GRACE_ONLY'' \<and> cc_serviceEndMs c = 0 \<and>
        cc_graceMs c = KSERVE_WRAP_UP_GRACE_MS
      else if cc_category c = USER_SILENCE then
        charged_shape c ''USER_SILENCE_INTRO_PLUS_GRACE'' KSERVE_WRAP_UP_GRACE_MS
      else if cc_category c = VOICEMAIL then
        charged_shape c ''VOICEMAIL_SERVICE_PLUS_30S'' 30000
      else if cc_category c = JUNK_CALL then
        charged_shape c ''JUNK_BUSINESS_INTERACTION_PLUS_GRACE'' KSERVE_WRAP_UP_GRACE_MS \<or> uncharged_shape c
      else if cc_category c = INCORRECT_CALL_DURATION then
        charged_shape c ''VERIFIED_INTERACTION_PLUS_GRACE'' KSERVE_WRAP_UP_GRACE_MS \<or> uncharged_shape c
      else charged_shape c ''STANDARD_CUSTOMER_PLUS_GRACE'' KSERVE_WRAP_UP_GRACE_MS)"

definition category_checks :: "runtime \<Rightarrow> int \<Rightarrow> CategoryCharge option \<Rightarrow> (bool \<times> js_error) list" where
  "category_checks rt recordedDurationMs co =
     (case co of
        None \<Rightarrow> []
      | Some c \<Rightarrow>
          [requireMilliseconds (Some (cc_serviceEndMs c)) ''categoryCharge.serviceEndMs'' False,
           requireMilliseconds (Some (cc_graceMs c)) ''categoryCharge.graceMs'' False,
           (cc_serviceEndMs c > recordedDurationMs,
            PlainError ''Category service-end timestamp cannot exceed the decoded recording duration''),
           (cc_policyVersion c \<noteq> CATEGORY_CHARGE_POLICY_VERSION,
            PlainError ''Category charge policy version is not current''),
           requireSha256 (cc_policySha256 c) ''categoryCharge.policySha256'',
           (cc_policySha256 c \<noteq> CATEGORY_CHARGE_POLICY_SHA256 rt,
            PlainError ''Category charge policy hash does not match the locked policy''),
           (cc_policyCode c \<notin> set CATEGORY_CHARGE_POLICY_CODES,
            PlainError ''Category charge policy code is not recognized''),
           (\<not> structurallyValid c,
            PlainError ''Category charge decision does not match the locked category rule'')])"

definition input_checks :: "runtime \<Rightarrow> VerifiedBillingInput \<Rightarrow> (bool \<times> js_error) list" where
  "input_checks rt input =
     [requireText (in_callId input) ''callId'',
      requireText (in_auditRunId input) ''auditRunId'',
      requireText (model_provider (in_model input)) ''model.provider'',
      requireText (model_name (in_model input)) ''model.name'',
      requireText (model_version (in_model input)) ''model.version'',
      requireText (in_classifierRulesetVersion input) ''classifierRulesetVersion'',
      requireSha256 (in_classifierRulesetSha256 input) ''classifierRulesetSha256'',
      requireMilliseconds (in_claimedDurationMs input) ''claimedDurationMs'' True,
      requireMilliseconds (in_connectedDurationMs input) ''connectedDurationMs'' True,
      requireMilliseconds (Some (in_recordedDurationMs input)) ''recordedDurationMs'' False,
      requireMilliseconds (in_speechDurationMs input) ''speechDurationMs'' True,
      requireMilliseconds (in_lastMeaningfulCustomerExchangeMs input) ''lastMeaningfulCustomerExchangeMs'' True]
     @ validateEvidence (in_evidence input) @
     [(date_parse rt (in_calculatedAt input) = None, TypeError ''calculatedAt must be an ISO timestamp''),
      (in_conversationAssessment input = Established \<and>
       (case in_lastMeaningfulCustomerExchangeMs input of None \<Rightarrow> True | Some e \<Rightarrow> e \<le> 0),
       PlainError ''An established conversation requires a positive final customer-exchange timestamp'')]
     @ category_checks rt (in_recordedDurationMs input) (in_categoryCharge input) @
     [(case in_lastMeaningfulCustomerExchangeMs input of None \<Rightarrow> False | Some e \<Rightarrow> e > in_recordedDurationMs input,
       PlainError ''Final customer-exchange timestamp cannot exceed the decoded recording duration''),
      (in_conversationAssessment input = No_meaningful_exchange \<and>
       in_lastMeaningfulCustomerExchangeMs input \<noteq> None,
       PlainError ''No-meaningful-exchange assessments must not carry a customer-exchange timestamp'')]"

definition validateInput :: "runtime \<Rightarrow> VerifiedBillingInput \<Rightarrow> unit res" where
  "validateInput rt input =
     rbind (first_error (input_checks rt input)) (\<lambda>_.
     rbind (decimalToScale8 (au_confidence (in_authority input)) ''authority.confidence'') (\<lambda>_.
     rbind (case au_threshold (in_authority input) of
              None \<Rightarrow> Inr 0
            | Some t \<Rightarrow> decimalToScale8 t ''authority.threshold'') (\<lambda>_.
     first_error
       [(\<not> isSafeInteger (au_recheckAttempt (in_authority input)) \<or>
         au_recheckAttempt (in_authority input) < 0 \<or>
         \<not> isSafeInteger (au_maximumRechecks (in_authority input)) \<or>
         au_maximumRechecks (in_authority input) < 0,
         RangeError ''Automated recheck counts must be non-negative integers'')])))"

section \<open>The authority gate\<close>

definition decideAuthority :: "AutomationAuthority \<Rightarrow> ConversationAssessment \<Rightarrow> AuthorityDecision res" where
  "decideAuthority authority conversationAssessment =
     (if \<not> au_calibrationComplete authority then
        Inr \<lparr> ad_final = False, ad_reasonCode = CALIBRATION_NOT_COMPLETED,
              ad_nextAction = Some Await_calibration \<rparr>
      else if \<not> truthy_text (au_threshold authority) then
        Inr \<lparr> ad_final = False, ad_reasonCode = THRESHOLD_NOT_CONFIGURED,
              ad_nextAction = Some Configure_threshold \<rparr>
      else if conversationAssessment = Assessment_unresolved then
        Inr \<lparr> ad_final = False, ad_reasonCode = CONVERSATION_ASSESSMENT_UNRESOLVED,
              ad_nextAction = Some Retry_conversation_assessment \<rparr>
      else
        rbind (decimalToScale8 (au_confidence authority) ''authority.confidence'') (\<lambda>confidence.
        rbind (decimalToScale8 (coalesce (au_threshold authority) []) ''authority.threshold'') (\<lambda>threshold.
        if confidence < threshold then
          let exhausted = au_recheckAttempt authority \<ge> au_maximumRechecks authority in
          Inr \<lparr> ad_final = False,
                ad_reasonCode = (if exhausted then LOW_CONFIDENCE_RECHECK_EXHAUSTED
                                 else LOW_CONFIDENCE_RECHECK_REQUIRED),
                ad_nextAction = Some (if exhausted then Hold_unresolved_until_cycle_close
                                      else Retry_with_secondary_model) \<rparr>
        else
          Inr \<lparr> ad_final = True, ad_reasonCode = AUTOMATED_CONFIDENCE_CONFIRMED, ad_nextAction = None \<rparr>)))"

section \<open>Rounding\<close>

record RoundedCharge =
  rc_billableHalfMinutes :: int
  rc_billableDurationMs :: int
  rc_billableMinutes :: string
  rc_amountPaise :: int
  rc_amount :: string
  rc_ruleCode :: ChargeRule

definition chargeForHalfMinutes :: "int \<Rightarrow> RoundedCharge res" where
  "chargeForHalfMinutes halfMinutes =
     (let ruleCode = (if halfMinutes = 0 then ZERO_DURATION_NOT_BILLED
                      else if halfMinutes = 1 then SHORT_CALL_FLAT else PER_MINUTE_CEIL);
          amountPaise = (halfMinutes * KSERVE_RATE_PER_MINUTE_PAISE) div 2;
          billableDurationMs = halfMinutes * (KSERVE_MINUTE_MS div 2)
      in if \<not> isSafeInteger billableDurationMs
         then Inl (RangeError ''Rounded billable duration exceeds safe integer range'')
         else rbind (fixed8FromPaise amountPaise) (\<lambda>amount.
           Inr \<lparr> rc_billableHalfMinutes = halfMinutes,
                 rc_billableDurationMs = billableDurationMs,
                 rc_billableMinutes = fixed8FromHalfMinutes halfMinutes,
                 rc_amountPaise = amountPaise,
                 rc_amount = amount,
                 rc_ruleCode = ruleCode \<rparr>))"

definition roundKServeChargeableDuration :: "int \<Rightarrow> RoundedCharge res" where
  "roundKServeChargeableDuration adjustedChargeableDurationMs =
     rbind (first_error
       [requireMilliseconds (Some adjustedChargeableDurationMs) ''adjustedChargeableDurationMs'' False]) (\<lambda>_.
     chargeForHalfMinutes
       (if adjustedChargeableDurationMs = 0 then 0
        else if adjustedChargeableDurationMs < KSERVE_SHORT_CALL_CUTOFF_MS then 1
        else (adjustedChargeableDurationMs + KSERVE_MINUTE_MS - 1) div KSERVE_MINUTE_MS * 2))"

section \<open>Manifests and trace\<close>

definition evidence_key :: "EvidenceHashReference \<Rightarrow> string" where
  "evidence_key e = kind_text (ev_kind e) @ '':'' @ ev_referenceId e @ '':'' @ ev_sha256 e"

definition orderEvidence :: "runtime \<Rightarrow> EvidenceHashReference list \<Rightarrow> EvidenceHashReference list" where
  "orderEvidence rt evidence = Sorting_Algorithms.sort (key evidence_key (localeCompare rt)) evidence"

definition durations_json :: "VerifiedBillingInput \<Rightarrow> json" where
  "durations_json input = JObj
     [(''claimedDurationMs'', json_int_opt (in_claimedDurationMs input)),
      (''connectedDurationMs'', json_int_opt (in_connectedDurationMs input)),
      (''recordedDurationMs'', JNum (in_recordedDurationMs input)),
      (''speechDurationMs'', json_int_opt (in_speechDurationMs input)),
      (''conversationAssessment'', JStr (assessment_text (in_conversationAssessment input))),
      (''lastMeaningfulCustomerExchangeMs'', json_int_opt (in_lastMeaningfulCustomerExchangeMs input)),
      (''categoryCharge'', categoryCharge_json_opt (in_categoryCharge input))]"

definition input_manifest :: "runtime \<Rightarrow> VerifiedBillingInput \<Rightarrow> string \<Rightarrow> json" where
  "input_manifest rt input evidenceManifestSha256 = JObj
     [(''callId'', JStr (in_callId input)),
      (''auditRunId'', JStr (in_auditRunId input)),
      (''evidenceManifestSha256'', JStr evidenceManifestSha256),
      (''model'', model_json (in_model input)),
      (''classifierRulesetVersion'', JStr (in_classifierRulesetVersion input)),
      (''classifierRulesetSha256'', JStr (in_classifierRulesetSha256 input)),
      (''authority'', authority_json (in_authority input)),
      (''durations'', durations_json input),
      (''billingRulesetSha256'', JStr (KSERVE_RULESET_SHA256 rt))]"

definition manifestParts :: "runtime \<Rightarrow> VerifiedBillingInput \<Rightarrow> (string \<times> string) res" where
  "manifestParts rt input =
     rbind (canonicalJsonSha256 (sha256Hex rt) (JArr (map evidence_json (orderEvidence rt (in_evidence input)))))
       (\<lambda>evidenceManifestSha256.
     rbind (canonicalJsonSha256 (sha256Hex rt) (input_manifest rt input evidenceManifestSha256))
       (\<lambda>inputManifestSha256. Inr (evidenceManifestSha256, inputManifestSha256)))"

definition createTrace ::
  "runtime \<Rightarrow> VerifiedBillingInput \<Rightarrow> PublishedRateCard \<Rightarrow> string \<Rightarrow> string \<Rightarrow> json \<Rightarrow> AuthorityDecision \<Rightarrow>
   BillingDecisionTrace" where
  "createTrace rt input rateCard evidenceManifestSha256 inputManifestSha256 calculation outcome =
     \<lparr> tr_schemaVersion = (if in_categoryCharge input \<noteq> None then ''2'' else ''1''),
       tr_engineVersion = KSERVE_BILLING_ENGINE_VERSION,
       tr_rulesetVersion = KSERVE_RULESET_VERSION,
       tr_rulesetSha256 = KSERVE_RULESET_SHA256 rt,
       tr_rateCardId = rate_id rateCard,
       tr_rateCardVersion = rate_version rateCard,
       tr_callId = in_callId input,
       tr_auditRunId = in_auditRunId input,
       tr_model = in_model input,
       tr_classifierRulesetVersion = in_classifierRulesetVersion input,
       tr_classifierRulesetSha256 = in_classifierRulesetSha256 input,
       tr_evidence = orderEvidence rt (in_evidence input),
       tr_evidenceManifestSha256 = evidenceManifestSha256,
       tr_inputManifestSha256 = inputManifestSha256,
       tr_authority = in_authority input,
       tr_claimedDurationMs = in_claimedDurationMs input,
       tr_connectedDurationMs = in_connectedDurationMs input,
       tr_recordedDurationMs = in_recordedDurationMs input,
       tr_speechDurationMs = in_speechDurationMs input,
       tr_conversationAssessment = in_conversationAssessment input,
       tr_lastMeaningfulCustomerExchangeMs = in_lastMeaningfulCustomerExchangeMs input,
       tr_categoryCharge = in_categoryCharge input,
       tr_calculation = calculation,
       tr_outcome = outcome,
       tr_decidedAt = in_calculatedAt input \<rparr>"

section \<open>The calculation\<close>

definition finalExchangeMs :: "VerifiedBillingInput \<Rightarrow> int" where
  "finalExchangeMs input =
     (case in_categoryCharge input of
        Some c \<Rightarrow> cc_serviceEndMs c
      | None \<Rightarrow> if in_conversationAssessment input = No_meaningful_exchange then 0
                else coalesce (in_lastMeaningfulCustomerExchangeMs input) 0)"

definition configuredWrapUpGraceMs :: "VerifiedBillingInput \<Rightarrow> int" where
  "configuredWrapUpGraceMs input =
     (case in_categoryCharge input of
        Some c \<Rightarrow> cc_graceMs c
      | None \<Rightarrow> if in_conversationAssessment input = No_meaningful_exchange then 0
                else KSERVE_WRAP_UP_GRACE_MS)"

definition uncappedChargeableMs :: "VerifiedBillingInput \<Rightarrow> int" where
  "uncappedChargeableMs input =
     min (in_recordedDurationMs input) (finalExchangeMs input + configuredWrapUpGraceMs input)"

definition connectedCapMs :: "VerifiedBillingInput \<Rightarrow> int option" where
  "connectedCapMs input =
     (case in_connectedDurationMs input of
        Some c \<Rightarrow> if c > 0 then Some c else None
      | None \<Rightarrow> None)"

definition adjustedChargeableDurationMs :: "VerifiedBillingInput \<Rightarrow> int" where
  "adjustedChargeableDurationMs input =
     (case connectedCapMs input of
        None \<Rightarrow> uncappedChargeableMs input
      | Some cap \<Rightarrow> min (uncappedChargeableMs input) cap)"

definition kserveBilledHalfMinutes :: "VerifiedBillingInput \<Rightarrow> int option" where
  "kserveBilledHalfMinutes input =
     map_option (\<lambda>ms. \<lceil>js_div (of_int ms) (of_int (KSERVE_MINUTE_MS div 2))\<rceil>) (in_claimedDurationMs input)"

definition kserve_capped :: "VerifiedBillingInput \<Rightarrow> RoundedCharge \<Rightarrow> bool" where
  "kserve_capped input uncappedRounded =
     (case kserveBilledHalfMinutes input of
        None \<Rightarrow> False
      | Some cap \<Rightarrow> rc_billableHalfMinutes uncappedRounded > cap)"

definition capRounded :: "VerifiedBillingInput \<Rightarrow> RoundedCharge \<Rightarrow> RoundedCharge res" where
  "capRounded input uncappedRounded =
     (if kserve_capped input uncappedRounded
      then chargeForHalfMinutes (coalesce (kserveBilledHalfMinutes input) 0)
      else Inr uncappedRounded)"

definition oneWayTailMs :: "VerifiedBillingInput \<Rightarrow> int" where
  "oneWayTailMs input = max 0 (in_recordedDurationMs input - adjustedChargeableDurationMs input)"

definition calculation_json :: "VerifiedBillingInput \<Rightarrow> RoundedCharge \<Rightarrow> RoundedCharge \<Rightarrow> json" where
  "calculation_json input uncappedRounded rounded =
     (let hasCategory = in_categoryCharge input \<noteq> None;
          adjusted = adjustedChargeableDurationMs input;
          capApplied = (if kserve_capped input uncappedRounded then Some ''kserve_billed''
                        else if adjusted < uncappedChargeableMs input then Some ''connected'' else None)
      in JObj
       [(''basis'', JStr (if hasCategory then ''category_service_end_plus_policy_grace''
                          else ''last_meaningful_customer_exchange_plus_wrap_up_grace'')),
        (''finalMeaningfulCustomerExchangeMs'',
           json_int_opt (if hasCategory then None else Some (finalExchangeMs input))),
        (''categoryServiceEndMs'', json_int_opt (if hasCategory then Some (finalExchangeMs input) else None)),
        (''categoryChargePolicy'', categoryCharge_json_opt (in_categoryCharge input)),
        (''configuredWrapUpGraceMs'', JNum (configuredWrapUpGraceMs input)),
        (''appliedWrapUpGraceMs'', JNum (max 0 (adjusted - finalExchangeMs input))),
        (''adjustedChargeableDurationMs'', JNum adjusted),
        (''uncappedChargeableDurationMs'', JNum (uncappedChargeableMs input)),
        (''connectedDurationCapMs'', json_int_opt (connectedCapMs input)),
        (''kserveBilledCapHalfMinutes'', json_int_opt (kserveBilledHalfMinutes input)),
        (''capApplied'', json_str_opt capApplied),
        (''rounding'', JObj
          [(''ruleCode'', JStr (rule_text (rc_ruleCode rounded))),
           (''billableDurationMs'', JNum (rc_billableDurationMs rounded)),
           (''billableMinutes'', JStr (rc_billableMinutes rounded))]),
        (''ratePerMinute'', JStr ''9.50000000''),
        (''subtotalAmount'', JStr (rc_amount rounded)),
        (''taxAmount'', JStr ''0.00000000''),
        (''totalAmount'', JStr (rc_amount rounded)),
        (''oneWayTailMs'', JNum (oneWayTailMs input)),
        (''oneWayTailAlertThresholdMs'', JNum KSERVE_ONE_WAY_TAIL_ALERT_MS),
        (''oneWayTailAlert'', JBool (oneWayTailMs input > KSERVE_ONE_WAY_TAIL_ALERT_MS))])"

definition unresolvedResult ::
  "runtime \<Rightarrow> VerifiedBillingInput \<Rightarrow> PublishedRateCard \<Rightarrow> string \<Rightarrow> string \<Rightarrow> AuthorityDecision \<Rightarrow>
   VerifiedBillingResult res" where
  "unresolvedResult rt input rateCard evidenceManifestSha256 inputManifestSha256 authority =
     (let trace = createTrace rt input rateCard evidenceManifestSha256 inputManifestSha256
                    (JObj [(''status'', JStr ''not_calculated''), (''reason'', JStr ''authority_gate_unresolved'')])
                    authority
      in rbind (canonicalJsonSha256 (sha256Hex rt) (trace_json trace)) (\<lambda>traceSha256.
         Inr (Unresolved
           \<lparr> ub_reasonCode = ad_reasonCode authority,
             ub_nextAction = ad_nextAction authority,
             ub_inputManifestSha256 = inputManifestSha256,
             ub_evidenceManifestSha256 = evidenceManifestSha256,
             ub_traceSha256 = traceSha256,
             ub_trace = trace \<rparr>)))"

definition finalResult ::
  "runtime \<Rightarrow> VerifiedBillingInput \<Rightarrow> PublishedRateCard \<Rightarrow> string \<Rightarrow> string \<Rightarrow> AuthorityDecision \<Rightarrow>
   VerifiedBillingResult res" where
  "finalResult rt input rateCard evidenceManifestSha256 inputManifestSha256 authority =
     rbind (roundKServeChargeableDuration (adjustedChargeableDurationMs input)) (\<lambda>uncappedRounded.
     rbind (capRounded input uncappedRounded) (\<lambda>rounded.
     let trace = createTrace rt input rateCard evidenceManifestSha256 inputManifestSha256
                   (calculation_json input uncappedRounded rounded) authority
     in rbind (canonicalJsonSha256 (sha256Hex rt) (trace_json trace)) (\<lambda>traceSha256.
        Inr (Final
          \<lparr> fb_adjustedChargeableDurationMs = adjustedChargeableDurationMs input,
            fb_billableDurationMs = rc_billableDurationMs rounded,
            fb_billableMinutes = rc_billableMinutes rounded,
            fb_amount = rc_amount rounded,
            fb_amountPaise = rc_amountPaise rounded,
            fb_ruleCode = rc_ruleCode rounded,
            fb_oneWayTailMs = oneWayTailMs input,
            fb_oneWayTailAlert = (oneWayTailMs input > KSERVE_ONE_WAY_TAIL_ALERT_MS),
            fb_inputManifestSha256 = inputManifestSha256,
            fb_evidenceManifestSha256 = evidenceManifestSha256,
            fb_traceSha256 = traceSha256,
            fb_trace = trace \<rparr>))))"

definition calculateVerifiedKServeCharge ::
  "runtime \<Rightarrow> VerifiedBillingInput \<Rightarrow> PublishedRateCard \<Rightarrow> VerifiedBillingResult res" where
  "calculateVerifiedKServeCharge rt input rateCard =
     rbind (validateInput rt input) (\<lambda>_.
     rbind (validateRateCard rt rateCard) (\<lambda>_.
     rbind (manifestParts rt input) (\<lambda>(evidenceManifestSha256, inputManifestSha256).
     rbind (decideAuthority (in_authority input) (in_conversationAssessment input)) (\<lambda>authority.
     if \<not> ad_final authority
     then unresolvedResult rt input rateCard evidenceManifestSha256 inputManifestSha256 authority
     else finalResult rt input rateCard evidenceManifestSha256 inputManifestSha256 authority))))"

section \<open>What validation establishes\<close>

lemma decimalToScale8_threshold_text:
  "decimalToScale8 t n = Inr v \<Longrightarrow> t \<noteq> []"
  by (auto simp: decimalToScale8_def decimal_0_1_def decimal_shape_def split: if_splits)

lemma decimalToScale8_bounds:
  "decimalToScale8 t n = Inr v \<Longrightarrow> 0 \<le> v \<and> v \<le> 10 ^ 8"
  by (auto simp: decimalToScale8_def Let_def split: if_splits)

lemma decimalToScale8_name:
  "decimalToScale8 t n = Inr v \<Longrightarrow> decimalToScale8 t n' = Inr v"
  by (auto simp: decimalToScale8_def Let_def split: if_splits)

definition ms_ok :: "int \<Rightarrow> bool" where
  "ms_ok ms = (0 \<le> ms \<and> ms \<le> MAX_SAFE_INTEGER)"

lemma requireMilliseconds_ok:
  "\<not> fst (requireMilliseconds (Some ms) n b) \<longleftrightarrow> ms_ok ms"
  "\<not> fst (requireMilliseconds None n b) \<longleftrightarrow> b"
  by (auto simp: requireMilliseconds_def ms_ok_def isSafeInteger_def)

text \<open>The facts about durations the calculation rests on.\<close>

definition durations_ok :: "VerifiedBillingInput \<Rightarrow> bool" where
  "durations_ok input \<longleftrightarrow>
     ms_ok (in_recordedDurationMs input) \<and>
     (case in_claimedDurationMs input of None \<Rightarrow> True | Some c \<Rightarrow> ms_ok c) \<and>
     (case in_connectedDurationMs input of None \<Rightarrow> True | Some c \<Rightarrow> ms_ok c) \<and>
     (case in_categoryCharge input of
        None \<Rightarrow> True
      | Some c \<Rightarrow> 0 \<le> cc_serviceEndMs c \<and> cc_serviceEndMs c \<le> in_recordedDurationMs input \<and> 0 \<le> cc_graceMs c) \<and>
     (case in_lastMeaningfulCustomerExchangeMs input of
        None \<Rightarrow> in_conversationAssessment input \<noteq> Established
      | Some e \<Rightarrow> 0 \<le> e \<and> e \<le> in_recordedDurationMs input)"

lemma validateInput_checks:
  assumes "validateInput rt input = Inr u"
  shows "list_all (\<lambda>c. \<not> fst c) (input_checks rt input)"
    and "\<exists>v. decimalToScale8 (au_confidence (in_authority input)) ''authority.confidence'' = Inr v"
    and "au_threshold (in_authority input) = Some t \<Longrightarrow>
         \<exists>v. decimalToScale8 t ''authority.threshold'' = Inr v"
  using assms by (auto simp: validateInput_def rbind_Inr_iff first_error_Inr)

lemma validateInput_category:
  assumes "validateInput rt input = Inr u" and "in_categoryCharge input = Some c"
  shows "structurallyValid c" and "cc_policySha256 c = CATEGORY_CHARGE_POLICY_SHA256 rt"
    and "cc_policyVersion c = CATEGORY_CHARGE_POLICY_VERSION"
    and "0 \<le> cc_serviceEndMs c" and "cc_serviceEndMs c \<le> in_recordedDurationMs input"
    and "0 \<le> cc_graceMs c"
proof -
  have "list_all (\<lambda>c. \<not> fst c) (category_checks rt (in_recordedDurationMs input) (Some c))"
    using validateInput_checks(1)[OF assms(1)] assms(2) by (simp add: input_checks_def)
  then show "structurallyValid c" and "cc_policySha256 c = CATEGORY_CHARGE_POLICY_SHA256 rt"
    and "cc_policyVersion c = CATEGORY_CHARGE_POLICY_VERSION"
    and "0 \<le> cc_serviceEndMs c" and "cc_serviceEndMs c \<le> in_recordedDurationMs input"
    and "0 \<le> cc_graceMs c"
    by (simp_all add: category_checks_def requireMilliseconds_ok ms_ok_def)
qed

lemma validateInput_durations:
  assumes "validateInput rt input = Inr u"
  shows "durations_ok input"
proof -
  note checks = validateInput_checks(1)[OF assms]
  have "ms_ok (in_recordedDurationMs input)"
    and "\<And>c. in_claimedDurationMs input = Some c \<Longrightarrow> ms_ok c"
    and "\<And>c. in_connectedDurationMs input = Some c \<Longrightarrow> ms_ok c"
    and "\<And>e. in_lastMeaningfulCustomerExchangeMs input = Some e \<Longrightarrow> ms_ok e"
    and "\<And>e. in_lastMeaningfulCustomerExchangeMs input = Some e \<Longrightarrow> e \<le> in_recordedDurationMs input"
    and "in_conversationAssessment input = Established \<Longrightarrow> in_lastMeaningfulCustomerExchangeMs input \<noteq> None"
    using checks by (auto simp: input_checks_def requireMilliseconds_ok split: option.splits)
  with validateInput_category[OF assms] show ?thesis
    by (auto simp: durations_ok_def ms_ok_def split: option.splits)
qed

section \<open>The rounding rule\<close>

text \<open>
  The published rule: nothing for an empty duration, half a minute below thirty seconds, whole
  minutes rounded up above. Amounts are 475 paise per half minute.
\<close>

definition chargeable_half_minutes :: "int \<Rightarrow> int" where
  "chargeable_half_minutes ms =
     (if ms = 0 then 0 else if ms < 30000 then 1 else 2 * \<lceil>of_int ms / (60000 :: rat)\<rceil>)"

lemma ceiling_divide_int:
  assumes "0 < d"
  shows "\<lceil>of_int x / of_int d :: rat\<rceil> = (x + d - 1) div d"
proof -
  have "\<lceil>of_int x / of_int d :: rat\<rceil> = - ((- x) div d)"
    using floor_divide_of_int_eq[of "- x" d, where ?'a = rat] by (simp add: ceiling_def)
  also have "\<dots> = (x + d - 1) div d"
  proof -
    define q where "q = (- x) div d"
    define r where "r = (- x) mod d"
    have x: "- x = d * q + r" and r: "0 \<le> r" "r < d" using assms by (simp_all add: q_def r_def)
    have e: "x + d - 1 = (d - 1 - r) + (- q) * d" using x by (simp add: algebra_simps)
    have "(x + d - 1) div d = - q + (d - 1 - r) div d"
      unfolding e using assms by (subst div_mult_self1) simp_all
    moreover have "(d - 1 - r) div d = 0" using r by simp
    ultimately show ?thesis by (simp add: q_def)
  qed
  finally show ?thesis .
qed

lemma chargeable_half_minutes_nonneg: "0 \<le> ms \<Longrightarrow> 0 \<le> chargeable_half_minutes ms"
  by (simp add: chargeable_half_minutes_def zero_le_ceiling)

lemma chargeable_half_minutes_le:
  assumes "0 \<le> ms"
  shows "30000 * chargeable_half_minutes ms < ms + 60000"
proof -
  have "of_int \<lceil>of_int ms / (60000 :: rat)\<rceil> < of_int ms / (60000 :: rat) + 1" by linarith
  then have "60000 * \<lceil>of_int ms / (60000 :: rat)\<rceil> < ms + 60000" by linarith
  then show ?thesis using assms by (simp add: chargeable_half_minutes_def)
qed

lemma chargeable_half_minutes_ge:
  assumes "0 \<le> ms"
  shows "ms \<le> 30000 * chargeable_half_minutes ms"
proof -
  have "of_int ms / (60000 :: rat) \<le> of_int \<lceil>of_int ms / (60000 :: rat)\<rceil>" by linarith
  then have "ms \<le> 60000 * \<lceil>of_int ms / (60000 :: rat)\<rceil>" by linarith
  then show ?thesis using assms by (simp add: chargeable_half_minutes_def)
qed

lemma chargeable_half_minutes_mono:
  assumes "0 \<le> a" "a \<le> b"
  shows "chargeable_half_minutes a \<le> chargeable_half_minutes b"
proof -
  have m: "\<lceil>of_int a / (60000 :: rat)\<rceil> \<le> \<lceil>of_int b / (60000 :: rat)\<rceil>"
    using assms by (intro ceiling_mono divide_right_mono) simp_all
  have p: "1 \<le> \<lceil>of_int b / (60000 :: rat)\<rceil>" if "0 < b" using that by (simp add: one_le_ceiling)
  have "1 \<le> 2 * \<lceil>of_int b / (60000 :: rat)\<rceil>" if "0 < b" using p[OF that] by linarith
  then show ?thesis using assms m by (auto simp: chargeable_half_minutes_def)
qed

lemma chargeForHalfMinutes_cases:
  assumes "0 \<le> h"
  shows "chargeForHalfMinutes h =
    (if 30000 * h \<le> MAX_SAFE_INTEGER
     then Inr \<lparr> rc_billableHalfMinutes = h, rc_billableDurationMs = 30000 * h,
                rc_billableMinutes = fixed8FromHalfMinutes h, rc_amountPaise = 475 * h,
                rc_amount = string_of_int (475 * h div 100) @ CHR ''.'' #
                  padStart 2 (CHR ''0'') (string_of_int (475 * h mod 100)) @ ''000000'',
                rc_ruleCode = (if h = 0 then ZERO_DURATION_NOT_BILLED
                               else if h = 1 then SHORT_CALL_FLAT else PER_MINUTE_CEIL) \<rparr>
     else Inl (RangeError ''Rounded billable duration exceeds safe integer range''))"
proof -
  have "h * 950 div 2 = 475 * h" by simp
  then show ?thesis
    using assms by (simp add: chargeForHalfMinutes_def kserve_constants fixed8FromPaise_def Let_def
        isSafeInteger_def mult.commute)
qed

lemma round_is_rule:
  assumes "ms_ok ms"
  shows "roundKServeChargeableDuration ms = chargeForHalfMinutes (chargeable_half_minutes ms)"
  using assms ceiling_divide_int[of 60000 ms]
  by (auto simp: roundKServeChargeableDuration_def requireMilliseconds_def ms_ok_def isSafeInteger_def
      chargeable_half_minutes_def kserve_constants mult.commute)

section \<open>Amounts as text\<close>

lemma toScaled_eight_digits:
  assumes "all_digits f" "length f = 8"
  shows "toScaled (Some (string_of_nat n @ CHR ''.'' # f)) = Some (int (n * 10 ^ 8 + nat_of_digits f))"
proof -
  have "f \<noteq> []" using assms(2) by auto
  then show ?thesis
    using toScaled_text[of "string_of_nat n" f] assms by (simp add: eight_places_exact nat_of_digits_append)
qed

lemma fixed8FromPaise_value:
  assumes "0 \<le> p" and "fixed8FromPaise p = Inr t"
  shows "toScaled (Some t) = Some (p * 10 ^ 6)"
proof -
  let ?n = "nat p"
  let ?f = "padStart 2 (CHR ''0'') (string_of_nat (?n mod 100)) @ ''000000''"
  have "length (string_of_nat (?n mod 100)) \<le> 2" by (rule string_of_nat_length_le) simp_all
  then have l: "length ?f = 8" and d: "all_digits ?f" by (simp_all add: is_digit_def)
  have t: "t = string_of_nat (?n div 100) @ CHR ''.'' # ?f"
    using assms pos_imp_zdiv_nonneg_iff[of 100 p]
    by (auto simp: fixed8FromPaise_def string_of_int_def nat_div_distrib nat_mod_distrib linorder_not_less)
  have "nat_of_digits ?f = (?n mod 100) * 10 ^ 6" by (simp add: nat_of_digits_append digit_val_def)
  then have "toScaled (Some t) = Some (int (?n div 100 * 10 ^ 8 + (?n mod 100) * 10 ^ 6))"
    unfolding t using toScaled_eight_digits[OF d l] by simp
  also have "?n div 100 * 10 ^ 8 + (?n mod 100) * 10 ^ 6 = (?n div 100 * 100 + ?n mod 100) * 10 ^ 6"
    by (simp only: distrib_right) simp
  also have "\<dots> = ?n * 10 ^ 6" by simp
  finally show ?thesis using assms(1) by simp
qed

lemma fixed8FromHalfMinutes_value:
  assumes "0 \<le> h"
  shows "toScaled (Some (fixed8FromHalfMinutes h)) = Some (h * 50000000)"
proof -
  let ?f = "if h mod 2 = 0 then ''00000000'' else ''50000000''"
  have "toScaled (Some (fixed8FromHalfMinutes h)) = Some (int (nat (h div 2) * 10 ^ 8 + nat_of_digits ?f))"
    using toScaled_eight_digits[of ?f "nat (h div 2)"] assms
    by (simp add: fixed8FromHalfMinutes_def string_of_int_def is_digit_def)
  also have "int (nat (h div 2) * 10 ^ 8 + nat_of_digits ?f) = h * 50000000"
  proof -
    have "int (nat_of_digits ?f) = h mod 2 * 50000000" by (auto simp: digit_val_def)
    moreover have "h div 2 * 100000000 + h mod 2 * 50000000 = (h div 2 * 2 + h mod 2) * 50000000"
      by (simp only: distrib_right)
    ultimately show ?thesis using assms by simp
  qed
  finally show ?thesis by simp
qed

section \<open>The calculated charge\<close>

text \<open>
  The specification of a final charge: the rounded adjusted duration, never more than the half
  minutes KServe billed.
\<close>

definition verified_half_minutes :: "VerifiedBillingInput \<Rightarrow> int" where
  "verified_half_minutes input =
     (let own = chargeable_half_minutes (adjustedChargeableDurationMs input) in
      case in_claimedDurationMs input of
        None \<Rightarrow> own
      | Some c \<Rightarrow> min own \<lceil>of_int c / (30000 :: rat)\<rceil>)"

lemma kserveBilledHalfMinutes_exact:
  assumes "durations_ok input"
  shows "kserveBilledHalfMinutes input =
         map_option (\<lambda>c. \<lceil>of_int c / (30000 :: rat)\<rceil>) (in_claimedDurationMs input)"
proof (cases "in_claimedDurationMs input")
  case (Some c)
  with assms have "0 \<le> c" "c < 2 ^ 53" by (auto simp: durations_ok_def ms_ok_def MAX_SAFE_INTEGER_def)
  then have "\<lceil>js_div (of_int c) (of_int 30000)\<rceil> = (c + 30000 - 1) div 30000"
    by (rule ceiling_js_div) simp
  with ceiling_divide_int[of 30000 c] Some show ?thesis
    by (simp add: kserveBilledHalfMinutes_def kserve_constants)
qed (simp add: kserveBilledHalfMinutes_def)

lemma adjusted_bounds:
  assumes "durations_ok input"
  shows "0 \<le> adjustedChargeableDurationMs input"
    and "adjustedChargeableDurationMs input \<le> in_recordedDurationMs input"
    and "in_connectedDurationMs input = Some c \<Longrightarrow> 0 < c \<Longrightarrow> adjustedChargeableDurationMs input \<le> c"
  using assms
  by (auto simp: durations_ok_def ms_ok_def adjustedChargeableDurationMs_def connectedCapMs_def
      uncappedChargeableMs_def finalExchangeMs_def configuredWrapUpGraceMs_def kserve_constants
      split: option.splits if_splits)

lemma adjusted_ok: "durations_ok input \<Longrightarrow> ms_ok (adjustedChargeableDurationMs input)"
  using adjusted_bounds[of input] by (auto simp: durations_ok_def ms_ok_def)

lemma verified_half_minutes_bounds:
  assumes "durations_ok input"
  shows "0 \<le> verified_half_minutes input"
    and "verified_half_minutes input \<le> chargeable_half_minutes (adjustedChargeableDurationMs input)"
proof -
  have "0 \<le> chargeable_half_minutes (adjustedChargeableDurationMs input)"
    by (rule chargeable_half_minutes_nonneg[OF adjusted_bounds(1)[OF assms]])
  moreover have "0 \<le> \<lceil>of_int c / (30000 :: rat)\<rceil>" if "in_claimedDurationMs input = Some c" for c
    using that assms by (simp add: durations_ok_def ms_ok_def zero_le_ceiling)
  ultimately show "0 \<le> verified_half_minutes input"
    and "verified_half_minutes input \<le> chargeable_half_minutes (adjustedChargeableDurationMs input)"
    by (auto simp: verified_half_minutes_def Let_def split: option.splits)
qed

lemma capped_charge:
  assumes ok: "durations_ok input"
    and u: "roundKServeChargeableDuration (adjustedChargeableDurationMs input) = Inr u"
  shows "capRounded input u = chargeForHalfMinutes (verified_half_minutes input)"
    and "is_ok (chargeForHalfMinutes (verified_half_minutes input))"
proof -
  let ?own = "chargeable_half_minutes (adjustedChargeableDurationMs input)"
  have own: "0 \<le> ?own" by (rule chargeable_half_minutes_nonneg[OF adjusted_bounds(1)[OF ok]])
  have ou: "chargeForHalfMinutes ?own = Inr u" using u round_is_rule[OF adjusted_ok[OF ok]] by simp
  then have uh: "rc_billableHalfMinutes u = ?own" and safe: "30000 * ?own \<le> MAX_SAFE_INTEGER"
    by (auto simp: chargeForHalfMinutes_cases[OF own] split: if_splits)
  show "capRounded input u = chargeForHalfMinutes (verified_half_minutes input)"
    using ou uh
    by (auto simp: capRounded_def kserve_capped_def kserveBilledHalfMinutes_exact[OF ok]
        verified_half_minutes_def Let_def min_def split: option.splits)
  show "is_ok (chargeForHalfMinutes (verified_half_minutes input))"
    using verified_half_minutes_bounds[OF ok] safe by (simp add: chargeForHalfMinutes_cases)
qed

lemma calculateE:
  assumes "calculateVerifiedKServeCharge rt input rateCard = Inr r"
  obtains a e m where "validateInput rt input = Inr ()" "validateRateCard rt rateCard = Inr ()"
    "manifestParts rt input = Inr (e, m)"
    "decideAuthority (in_authority input) (in_conversationAssessment input) = Inr a"
    "(if \<not> ad_final a then unresolvedResult rt input rateCard e m a else finalResult rt input rateCard e m a) = Inr r"
  using assms by (auto simp: calculateVerifiedKServeCharge_def rbind_Inr_iff split: prod.splits)

lemma unresolved_not_final: "unresolvedResult rt input rateCard e m a \<noteq> Inr (Final fb)"
  by (auto simp: unresolvedResult_def rbind_Inr_iff Let_def)

lemma final_charge:
  assumes "calculateVerifiedKServeCharge rt input rateCard = Inr (Final fb)"
  obtains e m a rounded where "durations_ok input"
    "decideAuthority (in_authority input) (in_conversationAssessment input) = Inr a" "ad_final a"
    "manifestParts rt input = Inr (e, m)"
    "chargeForHalfMinutes (verified_half_minutes input) = Inr rounded"
    "fb_adjustedChargeableDurationMs fb = adjustedChargeableDurationMs input"
    "fb_billableDurationMs fb = rc_billableDurationMs rounded"
    "fb_billableMinutes fb = rc_billableMinutes rounded" "fb_amount fb = rc_amount rounded"
    "fb_amountPaise fb = rc_amountPaise rounded" "fb_ruleCode fb = rc_ruleCode rounded"
    "fb_oneWayTailMs fb = oneWayTailMs input"
    "fb_oneWayTailAlert fb = (oneWayTailMs input > KSERVE_ONE_WAY_TAIL_ALERT_MS)"
    "fb_inputManifestSha256 fb = m" "fb_evidenceManifestSha256 fb = e"
    "Inr (fb_traceSha256 fb) = canonicalJsonSha256 (sha256Hex rt) (trace_json (fb_trace fb))"
proof -
  from assms obtain a e m where v: "validateInput rt input = Inr ()"
    and m: "manifestParts rt input = Inr (e, m)"
    and a: "decideAuthority (in_authority input) (in_conversationAssessment input) = Inr a"
    and r: "(if \<not> ad_final a then unresolvedResult rt input rateCard e m a
             else finalResult rt input rateCard e m a) = Inr (Final fb)"
    by (rule calculateE)
  have ok: "durations_ok input" by (rule validateInput_durations[OF v])
  from r have f: "ad_final a" and r': "finalResult rt input rateCard e m a = Inr (Final fb)"
    by (auto simp: unresolved_not_final split: if_splits)
  from r' obtain u rounded where u: "roundKServeChargeableDuration (adjustedChargeableDurationMs input) = Inr u"
    and c: "capRounded input u = Inr rounded"
    by (auto simp: finalResult_def rbind_Inr_iff)
  show ?thesis
  proof (rule that[OF ok a f m])
    show "chargeForHalfMinutes (verified_half_minutes input) = Inr rounded"
      using capped_charge(1)[OF ok u] c by simp
  qed (use r' u c in \<open>auto simp: finalResult_def rbind_Inr_iff Let_def\<close>)
qed

text \<open>Every final result carries the specified charge, and its texts denote the same amount.\<close>

lemma final_charge_values:
  assumes "calculateVerifiedKServeCharge rt input rateCard = Inr (Final fb)"
  shows "fb_amountPaise fb = 475 * verified_half_minutes input"
    and "fb_billableDurationMs fb = 30000 * verified_half_minutes input"
    and "toScaled (Some (fb_amount fb)) = Some (fb_amountPaise fb * 10 ^ 6)"
    and "toScaled (Some (fb_billableMinutes fb)) = Some (verified_half_minutes input * 50000000)"
    and "fb_ruleCode fb = (if verified_half_minutes input = 0 then ZERO_DURATION_NOT_BILLED
           else if verified_half_minutes input = 1 then SHORT_CALL_FLAT else PER_MINUTE_CEIL)"
proof -
  from assms obtain rounded where ok: "durations_ok input"
    and c: "chargeForHalfMinutes (verified_half_minutes input) = Inr rounded"
    and eq: "fb_billableDurationMs fb = rc_billableDurationMs rounded"
    "fb_billableMinutes fb = rc_billableMinutes rounded" "fb_amount fb = rc_amount rounded"
    "fb_amountPaise fb = rc_amountPaise rounded" "fb_ruleCode fb = rc_ruleCode rounded"
    by (rule final_charge)
  let ?h = "verified_half_minutes input"
  have h: "0 \<le> ?h" by (rule verified_half_minutes_bounds(1)[OF ok])
  note fields = c[unfolded chargeForHalfMinutes_cases[OF h]]
  show p: "fb_amountPaise fb = 475 * ?h" and "fb_billableDurationMs fb = 30000 * ?h"
    and "fb_ruleCode fb = (if ?h = 0 then ZERO_DURATION_NOT_BILLED
           else if ?h = 1 then SHORT_CALL_FLAT else PER_MINUTE_CEIL)"
    using fields eq by (auto split: if_splits)
  show "toScaled (Some (fb_billableMinutes fb)) = Some (?h * 50000000)"
    using fields eq fixed8FromHalfMinutes_value[OF h] by (auto split: if_splits)
  have "fixed8FromPaise (475 * ?h) = Inr (fb_amount fb)"
    using fields eq h by (auto simp: fixed8FromPaise_def split: if_splits)
  then show "toScaled (Some (fb_amount fb)) = Some (fb_amountPaise fb * 10 ^ 6)"
    using fixed8FromPaise_value[of "475 * ?h"] h p by simp
qed

section \<open>Totality and the gate\<close>

lemma manifestParts_value:
  "manifestParts rt input =
     (let e = sha256Hex rt (canonical (JArr (map evidence_json (orderEvidence rt (in_evidence input)))))
      in Inr (e, sha256Hex rt (canonical (input_manifest rt input e))))"
proof -
  have "finite_json (JArr (map evidence_json (orderEvidence rt (in_evidence input))))"
    by (simp add: list_all_iff)
  moreover have "finite_json (input_manifest rt input e)" for e by (simp add: input_manifest_def durations_json_def)
  ultimately show ?thesis by (simp add: manifestParts_def Let_def)
qed

lemma calculation_json_finite [simp]: "finite_json (calculation_json input u r)"
  by (simp add: calculation_json_def Let_def)

lemma trace_digest:
  "finite_json calc \<Longrightarrow> canonicalJsonSha256 (sha256Hex rt) (trace_json (createTrace rt input rateCard e m calc a)) =
     Inr (sha256Hex rt (canonical (trace_json (createTrace rt input rateCard e m calc a))))"
  by (simp add: createTrace_def)

lemma unresolvedResult_ok: "is_ok (unresolvedResult rt input rateCard e m a)"
  by (simp add: unresolvedResult_def Let_def trace_digest)

lemma finalResult_ok:
  assumes ok: "durations_ok input"
  shows "is_ok (finalResult rt input rateCard e m a) \<longleftrightarrow>
         30000 * chargeable_half_minutes (adjustedChargeableDurationMs input) \<le> MAX_SAFE_INTEGER"
proof -
  let ?own = "chargeable_half_minutes (adjustedChargeableDurationMs input)"
  have own: "0 \<le> ?own" by (rule chargeable_half_minutes_nonneg[OF adjusted_bounds(1)[OF ok]])
  have r: "is_ok (roundKServeChargeableDuration (adjustedChargeableDurationMs input)) \<longleftrightarrow>
           30000 * ?own \<le> MAX_SAFE_INTEGER"
    by (simp add: round_is_rule[OF adjusted_ok[OF ok]] chargeForHalfMinutes_cases[OF own])
  show ?thesis
  proof (cases "roundKServeChargeableDuration (adjustedChargeableDurationMs input)")
    case (Inr u)
    obtain rounded where "capRounded input u = Inr rounded"
      using capped_charge[OF ok Inr] by (auto simp: is_ok_iff)
    with Inr r show ?thesis by (simp add: finalResult_def Let_def trace_digest)
  qed (use r in \<open>simp add: finalResult_def\<close>)
qed

definition authorised :: "VerifiedBillingInput \<Rightarrow> bool" where
  "authorised input \<longleftrightarrow>
     au_calibrationComplete (in_authority input) \<and>
     in_conversationAssessment input \<noteq> Assessment_unresolved \<and>
     (\<exists>t c v. au_threshold (in_authority input) = Some t \<and>
        decimalToScale8 (au_confidence (in_authority input)) ''authority.confidence'' = Inr c \<and>
        decimalToScale8 t ''authority.threshold'' = Inr v \<and> v \<le> c)"

lemma decideAuthority_total:
  assumes "validateInput rt input = Inr u"
  shows "\<exists>a. decideAuthority (in_authority input) (in_conversationAssessment input) = Inr a \<and>
             (ad_final a \<longleftrightarrow> authorised input)"
proof (cases "au_threshold (in_authority input)")
  case None
  then show ?thesis by (simp add: decideAuthority_def authorised_def)
next
  case (Some t)
  obtain v where v: "decimalToScale8 t ''authority.threshold'' = Inr v"
    using validateInput_checks(3)[OF assms Some] by blast
  obtain c where c: "decimalToScale8 (au_confidence (in_authority input)) ''authority.confidence'' = Inr c"
    using validateInput_checks(2)[OF assms] by blast
  have "t \<noteq> []" by (rule decimalToScale8_threshold_text[OF v])
  with c v Some show ?thesis by (simp add: decideAuthority_def authorised_def Let_def)
qed

lemma calculate_outcome:
  assumes v: "validateInput rt input = Inr ()" and card: "validateRateCard rt rateCard = Inr ()"
  shows "is_ok (calculateVerifiedKServeCharge rt input rateCard) \<longleftrightarrow>
           \<not> authorised input \<or>
           30000 * chargeable_half_minutes (adjustedChargeableDurationMs input) \<le> MAX_SAFE_INTEGER"
    and "calculateVerifiedKServeCharge rt input rateCard = Inr r \<Longrightarrow> (\<exists>fb. r = Final fb) \<longleftrightarrow> authorised input"
proof -
  obtain a where a: "decideAuthority (in_authority input) (in_conversationAssessment input) = Inr a"
    "ad_final a \<longleftrightarrow> authorised input"
    using decideAuthority_total[OF v] by blast
  obtain e m where m: "manifestParts rt input = Inr (e, m)" by (simp add: manifestParts_value Let_def)
  have c: "calculateVerifiedKServeCharge rt input rateCard =
      (if authorised input then finalResult rt input rateCard e m a
       else unresolvedResult rt input rateCard e m a)"
    using v card m a by (simp add: calculateVerifiedKServeCharge_def)
  show "is_ok (calculateVerifiedKServeCharge rt input rateCard) \<longleftrightarrow>
           \<not> authorised input \<or>
           30000 * chargeable_half_minutes (adjustedChargeableDurationMs input) \<le> MAX_SAFE_INTEGER"
    using finalResult_ok[OF validateInput_durations[OF v]] unresolvedResult_ok by (auto simp: c)
  show "calculateVerifiedKServeCharge rt input rateCard = Inr r \<Longrightarrow> (\<exists>fb. r = Final fb) \<longleftrightarrow> authorised input"
    by (auto simp: c unresolved_not_final finalResult_def rbind_Inr_iff Let_def split: if_splits)
qed

lemma calculation_returns:
  assumes "validateInput rt input = Inr ()" and "validateRateCard rt rateCard = Inr ()"
    and "in_recordedDurationMs input \<le> MAX_SAFE_INTEGER - 60000"
  shows "\<exists>r. calculateVerifiedKServeCharge rt input rateCard = Inr r"
proof -
  note ok = validateInput_durations[OF assms(1)]
  have "30000 * chargeable_half_minutes (adjustedChargeableDurationMs input) \<le> MAX_SAFE_INTEGER"
    using chargeable_half_minutes_le[OF adjusted_bounds(1)[OF ok]] adjusted_bounds(2)[OF ok] assms(3)
    by linarith
  then show ?thesis using calculate_outcome(1)[OF assms(1,2)] by (simp add: is_ok_iff)
qed

section \<open>A concrete call\<close>

text \<open>
  A two-minute recording whose last customer exchange ends after fifty seconds, of which KServe
  connected ninety seconds and billed one and a half minutes.
\<close>

definition demo_authority :: AutomationAuthority where
  "demo_authority =
     \<lparr> au_calibrationVersion = Some ''c1'', au_calibrationComplete = True,
       au_validationMethod = None, au_validationTraceSha256 = None,
       au_confidence = ''0.95'', au_threshold = Some ''0.9'', au_language = ''hi'',
       au_findingType = ''charge'', au_sensitivityTier = ''K2'', au_recheckAttempt = 0, au_maximumRechecks = 2 \<rparr>"

definition demo_input :: VerifiedBillingInput where
  "demo_input =
     \<lparr> in_callId = ''call'', in_auditRunId = ''run'', in_claimedDurationMs = Some 90000,
       in_connectedDurationMs = Some 90000, in_recordedDurationMs = 120000, in_speechDurationMs = None,
       in_conversationAssessment = Established, in_lastMeaningfulCustomerExchangeMs = Some 50000,
       in_categoryCharge = None,
       in_model = \<lparr> model_provider = ''p'', model_name = ''n'', model_version = ''v'' \<rparr>,
       in_classifierRulesetVersion = ''r'', in_classifierRulesetSha256 = replicate 64 (CHR ''a''),
       in_evidence = [\<lparr> ev_kind = Audio, ev_sha256 = replicate 64 (CHR ''b''), ev_referenceId = ''a1'' \<rparr>],
       in_authority = demo_authority, in_calculatedAt = ''2026-08-01T00:00:00Z'' \<rparr>"

definition demo_rate_card :: PublishedRateCard where
  "demo_rate_card =
     \<lparr> rate_id = ''rc'', rate_version = ''1'', rate_status = ''published'', rate_currency = ''INR'',
       rate_rulesetSha256 = Some (replicate 64 (CHR ''a'')),
       rate_approvedBy = Some ''cfo'', rate_approvedAt = Some ''2026-07-27'' \<rparr>"

lemma demo_confidence:
  "decimalToScale8 ''0.95'' n = Inr 95000000" "decimalToScale8 ''0.9'' n = Inr 90000000"
  by (simp_all add: decimalToScale8_def decimal_0_1_def decimal_shape_def whole_part_def fraction_part_def
      is_digit_def digit_val_def eight_places_def Let_def)

lemma demo_rate_card_valid: "validateRateCard demo_runtime demo_rate_card = Inr ()"
  by (simp add: validateRateCard_def demo_rate_card_def requireText_def trim_def is_ws_def KSERVE_RULESET_SHA256_def)

lemma demo_input_valid: "validateInput demo_runtime demo_input = Inr ()"
  by (simp add: validateInput_def demo_input_def input_checks_def requireText_def trim_def is_ws_def
      requireSha256_def is_sha256_def is_digit_def list_all_iff requireMilliseconds_def isSafeInteger_def
      MAX_SAFE_INTEGER_def validateEvidence_def category_checks_def demo_confidence demo_authority_def)

lemma demo_authorised: "authorised demo_input"
  by (simp add: authorised_def demo_input_def demo_authority_def demo_confidence)

lemma demo_figures:
  "adjustedChargeableDurationMs demo_input = 90000" "verified_half_minutes demo_input = 3"
  "in_claimedDurationMs demo_input = Some 90000" "in_recordedDurationMs demo_input = 120000"
  "in_connectedDurationMs demo_input = Some 90000"
proof -
  show a: "adjustedChargeableDurationMs demo_input = 90000"
    by (simp add: adjustedChargeableDurationMs_def connectedCapMs_def uncappedChargeableMs_def
        finalExchangeMs_def configuredWrapUpGraceMs_def demo_input_def kserve_constants)
  have "\<lceil>(3 / 2) :: rat\<rceil> = 2" by (simp add: ceiling_eq_iff)
  with a show "verified_half_minutes demo_input = 3"
    by (simp add: verified_half_minutes_def chargeable_half_minutes_def demo_input_def)
qed (simp_all add: demo_input_def)

lemma demo_final: "\<exists>fb. calculateVerifiedKServeCharge demo_runtime demo_input demo_rate_card = Inr (Final fb)"
proof -
  have "30000 * chargeable_half_minutes (adjustedChargeableDurationMs demo_input) < 150000"
    using chargeable_half_minutes_le[of 90000] by (simp add: demo_figures)
  then have "is_ok (calculateVerifiedKServeCharge demo_runtime demo_input demo_rate_card)"
    using calculate_outcome(1)[OF demo_input_valid demo_rate_card_valid]
    by (simp add: MAX_SAFE_INTEGER_def)
  then obtain r where r: "calculateVerifiedKServeCharge demo_runtime demo_input demo_rate_card = Inr r"
    by (auto simp: is_ok_iff)
  with calculate_outcome(2)[OF demo_input_valid demo_rate_card_valid r] demo_authorised show ?thesis by auto
qed

section \<open>Manifests identify their inputs\<close>

lemma durations_json_inject:
  assumes "normJson (durations_json i) = normJson (durations_json j)"
  shows "in_claimedDurationMs i = in_claimedDurationMs j" "in_connectedDurationMs i = in_connectedDurationMs j"
    "in_recordedDurationMs i = in_recordedDurationMs j" "in_speechDurationMs i = in_speechDurationMs j"
    "in_conversationAssessment i = in_conversationAssessment j"
    "in_lastMeaningfulCustomerExchangeMs i = in_lastMeaningfulCustomerExchangeMs j"
    "in_categoryCharge i = in_categoryCharge j"
proof -
  note f = normJson_field[OF assms[unfolded durations_json_def]]
  show "in_claimedDurationMs i = in_claimedDurationMs j" "in_connectedDurationMs i = in_connectedDurationMs j"
    "in_recordedDurationMs i = in_recordedDurationMs j" "in_speechDurationMs i = in_speechDurationMs j"
    "in_conversationAssessment i = in_conversationAssessment j"
    "in_lastMeaningfulCustomerExchangeMs i = in_lastMeaningfulCustomerExchangeMs j"
    "in_categoryCharge i = in_categoryCharge j"
    using f[of "''claimedDurationMs''"] f[of "''connectedDurationMs''"] f[of "''recordedDurationMs''"]
      f[of "''speechDurationMs''"] f[of "''conversationAssessment''"]
      f[of "''lastMeaningfulCustomerExchangeMs''"] f[of "''categoryCharge''"]
    by (simp_all add: categoryCharge_json_opt_inject)
qed


text \<open>What the input manifest covers: every field except the evidence and the clock.\<close>

definition same_manifest_fields :: "VerifiedBillingInput \<Rightarrow> VerifiedBillingInput \<Rightarrow> bool" where
  "same_manifest_fields i j \<longleftrightarrow>
     j \<lparr> in_evidence := in_evidence i, in_calculatedAt := in_calculatedAt i \<rparr> = i"

lemma input_manifest_inject:
  assumes "normJson (input_manifest rt i e) = normJson (input_manifest rt j e')"
  shows "e = e'" and "same_manifest_fields i j"
proof -
  note f = normJson_field[OF assms[unfolded input_manifest_def]]
  show "e = e'" using f[of "''evidenceManifestSha256''"] by simp
  have "normJson (durations_json i) = normJson (durations_json j)"
    using f[of "''durations''"] by (simp del: normJson.simps)
  note d = durations_json_inject[OF this]
  have "in_callId i = in_callId j" "in_auditRunId i = in_auditRunId j" "in_model i = in_model j"
    "in_classifierRulesetVersion i = in_classifierRulesetVersion j"
    "in_classifierRulesetSha256 i = in_classifierRulesetSha256 j" "in_authority i = in_authority j"
    using f[of "''callId''"] f[of "''auditRunId''"] f[of "''model''"]
      f[of "''classifierRulesetVersion''"] f[of "''classifierRulesetSha256''"] f[of "''authority''"]
    by (simp_all add: model_json_inject authority_json_inject)
  with d show "same_manifest_fields i j" by (cases i; cases j) (simp add: same_manifest_fields_def)
qed

lemma evidence_manifest_inject:
  assumes "normJson (JArr (map evidence_json es)) = normJson (JArr (map evidence_json fs))"
  shows "es = fs"
proof -
  have "map (\<lambda>e. normJson (evidence_json e)) es = map (\<lambda>e. normJson (evidence_json e)) fs"
    using assms by (simp add: comp_def)
  moreover have "inj (\<lambda>e. normJson (evidence_json e))" by (simp add: inj_def evidence_json_inject)
  ultimately show ?thesis by (simp add: inj_map_eq_map)
qed

fun result_inputManifest :: "VerifiedBillingResult \<Rightarrow> string" where
  "result_inputManifest (Final fb) = fb_inputManifestSha256 fb"
| "result_inputManifest (Unresolved ub) = ub_inputManifestSha256 ub"

definition evidence_manifest :: "runtime \<Rightarrow> VerifiedBillingInput \<Rightarrow> json" where
  "evidence_manifest rt input = JArr (map evidence_json (orderEvidence rt (in_evidence input)))"

lemma result_inputManifest_value:
  assumes "calculateVerifiedKServeCharge rt input rateCard = Inr r"
  shows "result_inputManifest r =
         sha256Hex rt (canonical (input_manifest rt input (sha256Hex rt (canonical (evidence_manifest rt input)))))"
proof -
  from assms obtain a e m where p: "manifestParts rt input = Inr (e, m)"
    and r: "(if \<not> ad_final a then unresolvedResult rt input rateCard e m a
             else finalResult rt input rateCard e m a) = Inr r"
    by (rule calculateE)
  from r have "result_inputManifest r = m"
    by (auto simp: unresolvedResult_def finalResult_def rbind_Inr_iff Let_def split: if_splits)
  with p show ?thesis by (auto simp: manifestParts_value evidence_manifest_def Let_def)
qed

lemma manifests_finite:
  "finite_json (input_manifest rt input e)" "finite_json (evidence_manifest rt input)"
  by (simp_all add: input_manifest_def durations_json_def evidence_manifest_def list_all_iff)

text \<open>
  Sorting by a key that separates the elements forgets the order they came in.
\<close>

lemma sort_permutation:
  assumes "mset xs = mset ys"
    and "\<And>x y. x \<in> set xs \<Longrightarrow> y \<in> set xs \<Longrightarrow> compare cmp x y = Equiv \<Longrightarrow> x = y"
  shows "Sorting_Algorithms.sort cmp xs = Sorting_Algorithms.sort cmp ys"
proof (rule sort_eqI)
  show "mset xs = mset (Sorting_Algorithms.sort cmp ys)" using assms(1) by simp
  show "Sorting_Algorithms.sorted cmp (Sorting_Algorithms.sort cmp ys)" by simp
  fix x assume x: "x \<in> set xs"
  have s: "set xs = set ys" by (rule mset_eq_setD[OF assms(1)])
  have only: "filter (\<lambda>y. compare cmp x y = Equiv) zs = replicate (count (mset zs) x) x"
    if "set zs \<subseteq> set xs" for zs
  proof -
    have "filter (\<lambda>y. compare cmp x y = Equiv) zs = filter (\<lambda>y. x = y) zs"
      using that assms(2)[OF x] by (intro filter_cong) auto
    also have "\<dots> = replicate (count (mset zs) x) x" by (induction zs) auto
    finally show ?thesis .
  qed
  show "filter (\<lambda>y. compare cmp x y = Equiv) xs =
        filter (\<lambda>y. compare cmp x y = Equiv) (Sorting_Algorithms.sort cmp ys)"
    using only[of xs] only[of "Sorting_Algorithms.sort cmp ys"] s assms(1) by simp
qed

section \<open>Properties\<close>

text \<open>
  C1. Every final result carries the specified charge: the adjusted duration is the earlier of
  the recording and the service end plus grace, cut at the connected time; the charge is 475
  paise and 30 seconds per half minute of the rounding rule, capped by what KServe billed; and
  the printed amount and minutes denote exactly those numbers.
\<close>

theorem verified_charge_refines_rule:
  assumes "calculateVerifiedKServeCharge rt input rateCard = Inr (Final fb)"
  shows "fb_adjustedChargeableDurationMs fb = adjustedChargeableDurationMs input \<and>
         fb_amountPaise fb = 475 * verified_half_minutes input \<and>
         fb_billableDurationMs fb = 30000 * verified_half_minutes input \<and>
         toScaled (Some (fb_amount fb)) = Some (fb_amountPaise fb * 10 ^ 6) \<and>
         toScaled (Some (fb_billableMinutes fb)) = Some (verified_half_minutes input * 50000000) \<and>
         fb_oneWayTailMs fb = in_recordedDurationMs input - fb_adjustedChargeableDurationMs fb"
proof -
  from assms have "fb_adjustedChargeableDurationMs fb = adjustedChargeableDurationMs input"
    and "fb_oneWayTailMs fb = in_recordedDurationMs input - adjustedChargeableDurationMs input"
    by (auto elim!: final_charge simp: oneWayTailMs_def dest: adjusted_bounds(2))
  with final_charge_values[OF assms] show ?thesis by simp
qed

theorem verified_charge_refines_rule_witness:
  "\<exists>fb. calculateVerifiedKServeCharge demo_runtime demo_input demo_rate_card = Inr (Final fb) \<and>
        fb_amountPaise fb = 1425 \<and> fb_billableDurationMs fb = 90000"
  using demo_final verified_charge_refines_rule[of demo_runtime demo_input demo_rate_card]
  by (auto simp: demo_figures)

text \<open>
  C2. Management caps: a final charge is never for more than the recording, never for more than
  a positive connected time, and never more than the half minutes KServe billed.
\<close>

theorem charge_within_caps:
  assumes "calculateVerifiedKServeCharge rt input rateCard = Inr (Final fb)"
  shows "0 \<le> fb_amountPaise fb \<and>
         fb_adjustedChargeableDurationMs fb \<le> in_recordedDurationMs input \<and>
         (\<forall>c. in_connectedDurationMs input = Some c \<and> 0 < c \<longrightarrow> fb_adjustedChargeableDurationMs fb \<le> c) \<and>
         (\<forall>c. in_claimedDurationMs input = Some c \<longrightarrow> fb_amountPaise fb \<le> 475 * \<lceil>of_int c / (30000 :: rat)\<rceil>)"
proof -
  from assms have ok: "durations_ok input"
    and a: "fb_adjustedChargeableDurationMs fb = adjustedChargeableDurationMs input"
    by (auto elim!: final_charge)
  show ?thesis
    using a adjusted_bounds[OF ok] verified_half_minutes_bounds[OF ok] final_charge_values(1)[OF assms]
    by (auto simp: verified_half_minutes_def Let_def)
qed

theorem charge_within_caps_witness:
  "\<exists>fb. calculateVerifiedKServeCharge demo_runtime demo_input demo_rate_card = Inr (Final fb) \<and>
        fb_adjustedChargeableDurationMs fb \<le> 90000 \<and> fb_amountPaise fb \<le> 1425"
proof -
  obtain fb where fb: "calculateVerifiedKServeCharge demo_runtime demo_input demo_rate_card = Inr (Final fb)"
    using demo_final by blast
  with charge_within_caps[OF fb] show ?thesis by (auto simp: demo_figures)
qed

text \<open>
  C3. A result is final exactly when calibration is complete, the assessment is resolved and the
  confidence reaches a configured threshold.
\<close>

theorem final_iff_authorised:
  assumes "calculateVerifiedKServeCharge rt input rateCard = Inr r"
  shows "(\<exists>fb. r = Final fb) \<longleftrightarrow>
         au_calibrationComplete (in_authority input) \<and>
         in_conversationAssessment input \<noteq> Assessment_unresolved \<and>
         (\<exists>t c v. au_threshold (in_authority input) = Some t \<and>
            decimalToScale8 (au_confidence (in_authority input)) ''authority.confidence'' = Inr c \<and>
            decimalToScale8 t ''authority.threshold'' = Inr v \<and> v \<le> c)"
  using assms calculate_outcome(2)[of rt input rateCard r]
  by (auto elim!: calculateE simp: authorised_def)

theorem final_iff_authorised_witness:
  "\<exists>r. calculateVerifiedKServeCharge demo_runtime demo_input demo_rate_card = Inr r \<and>
       (\<exists>fb. r = Final fb) \<and> au_calibrationComplete (in_authority demo_input)"
proof -
  obtain fb where fb: "calculateVerifiedKServeCharge demo_runtime demo_input demo_rate_card = Inr (Final fb)"
    using demo_final by blast
  with final_iff_authorised[OF fb] show ?thesis by auto
qed

text \<open>
  C25. The calculation returns for every valid input under a published rate card unless rounding
  a recording within a minute of the largest safe integer leaves the safe range.
\<close>

theorem calculation_total:
  assumes "validateInput rt input = Inr ()" and "validateRateCard rt rateCard = Inr ()"
    and "in_recordedDurationMs input \<le> MAX_SAFE_INTEGER - 60000"
  shows "\<exists>r. calculateVerifiedKServeCharge rt input rateCard = Inr r"
  by (rule calculation_returns[OF assms])

theorem calculation_total_witness:
  "\<exists>r. calculateVerifiedKServeCharge demo_runtime demo_input demo_rate_card = Inr r"
  by (rule calculation_total[OF demo_input_valid demo_rate_card_valid])
    (simp add: demo_figures MAX_SAFE_INTEGER_def)

text \<open>
  The input manifest identifies what was calculated: two results with the same input manifest
  hash come from inputs with the same ordered evidence and the same fields (the clock apart), or
  one of the two hashed texts is a SHA-256 collision.
\<close>

theorem manifest_identifies_input:
  assumes "calculateVerifiedKServeCharge rt i c = Inr r" and "calculateVerifiedKServeCharge rt j d = Inr s"
    and "result_inputManifest r = result_inputManifest s"
  defines "ei \<equiv> canonical (evidence_manifest rt i)" and "ej \<equiv> canonical (evidence_manifest rt j)"
  shows "(orderEvidence rt (in_evidence i) = orderEvidence rt (in_evidence j) \<and> same_manifest_fields i j) \<or>
         collides (sha256Hex rt) ei ej \<or>
         collides (sha256Hex rt) (canonical (input_manifest rt i (sha256Hex rt ei)))
                                 (canonical (input_manifest rt j (sha256Hex rt ej)))"
proof -
  have "sha256Hex rt (canonical (input_manifest rt i (sha256Hex rt ei))) =
        sha256Hex rt (canonical (input_manifest rt j (sha256Hex rt ej)))"
    using assms(3) result_inputManifest_value[OF assms(1)] result_inputManifest_value[OF assms(2)]
    by (simp add: ei_def ej_def)
  from digest_identifies[OF manifests_finite(1) manifests_finite(1) this] show ?thesis
  proof
    assume "normJson (input_manifest rt i (sha256Hex rt ei)) = normJson (input_manifest rt j (sha256Hex rt ej))"
    note same = input_manifest_inject[OF this]
    from digest_identifies[OF manifests_finite(2) manifests_finite(2) same(1)[unfolded ei_def ej_def]]
    show ?thesis using same(2) evidence_manifest_inject by (auto simp: evidence_manifest_def ei_def ej_def)
  qed simp
qed

theorem manifest_identifies_input_witness:
  "\<exists>r. calculateVerifiedKServeCharge demo_runtime demo_input demo_rate_card = Inr r \<and>
       same_manifest_fields demo_input demo_input"
proof -
  obtain r where r: "calculateVerifiedKServeCharge demo_runtime demo_input demo_rate_card = Inr r"
    using demo_final by blast
  with manifest_identifies_input[OF r r] show ?thesis by (auto simp: collides_def)
qed

text \<open>
  The manifests do not depend on the order the evidence references were listed in, when the
  locale's order separates their keys.
\<close>

theorem evidence_order_irrelevant:
  assumes "mset es = mset (in_evidence input)"
    and "\<And>x y. x \<in> set es \<Longrightarrow> y \<in> set es \<Longrightarrow>
           compare (localeCompare rt) (evidence_key x) (evidence_key y) = Equiv \<Longrightarrow> x = y"
  shows "manifestParts rt (input \<lparr> in_evidence := es \<rparr>) = manifestParts rt input"
proof -
  have "orderEvidence rt es = orderEvidence rt (in_evidence input)"
    unfolding orderEvidence_def using assms(2) by (intro sort_permutation[OF assms(1)]) simp
  moreover have "input_manifest rt (input \<lparr> in_evidence := es \<rparr>) e = input_manifest rt input e" for e
    by (simp add: input_manifest_def durations_json_def)
  ultimately show ?thesis by (simp add: manifestParts_value)
qed

definition demo_evidence :: "EvidenceHashReference list" where
  "demo_evidence =
     [\<lparr> ev_kind = Transcript, ev_sha256 = ''c'', ev_referenceId = ''t1'' \<rparr>,
      \<lparr> ev_kind = Audio, ev_sha256 = ''b'', ev_referenceId = ''a1'' \<rparr>]"

theorem evidence_order_irrelevant_witness:
  "manifestParts demo_runtime (demo_input \<lparr> in_evidence := rev demo_evidence \<rparr>) =
   manifestParts demo_runtime (demo_input \<lparr> in_evidence := demo_evidence \<rparr>)"
proof -
  have "x = y" if "x \<in> set (rev demo_evidence)" "y \<in> set (rev demo_evidence)"
    "compare (localeCompare demo_runtime) (evidence_key x) (evidence_key y) = Equiv" for x y
    using that by (auto simp: demo_evidence_def evidence_key_def)
  then show ?thesis
    using evidence_order_irrelevant[of "rev demo_evidence" "demo_input \<lparr> in_evidence := demo_evidence \<rparr>" demo_runtime]
    by simp
qed

end
