(* ===== verification/Classification.thy ===== *)
theory Classification
  imports CategoryPolicy BillingTypes
begin

text \<open>
  The evidence rules a model's classification has to pass (\<open>src/src/reaudit/core.ts\<close>): merging
  transcript segments into numbered blocks, the reviewed-category decision, the derivation of
  an agent failure's boundary, the strict validator and the repair step.

  A raw classification carries its category as text (the model may name an unsupported one); a
  validated one carries a category. Block numbers are integers, as the model's output schema
  requires. Decision signals are optional texts, because the validator checks them at run time.
  The regular expressions that recognise cues are one record of tests, and every statement
  holds for any choice of them. Text length is counted in UTF-16 units, as JavaScript does.
\<close>

section \<open>Data\<close>

record TranscriptSegment =
  sg_startMs :: int
  sg_endMs :: int
  sg_text :: string

record NaturalSpeechBlock =
  bl_number :: int
  bl_startMs :: int
  bl_endMs :: int
  bl_text :: string

record ClassificationDecisionSignals =
  ds_counterpartyType :: "string option"
  ds_agentHandling :: "string option"
  ds_conversationOutcome :: "string option"
  ds_durationOutcome :: "string option"
  ds_stopIntent :: "string option"
  ds_postStopBehavior :: "string option"
  ds_successfulOutcome :: "string option"
  ds_voicemailEvidence :: "string option"
  ds_automationEvidence :: "string option"
  ds_junkEvidence :: "string option"
  ds_agentFailureMode :: "string option"
  ds_meaningfulServiceBeforeFailure :: "bool option"

record 'c ClassificationOf =
  mc_model :: ModelIdentity
  mc_category :: 'c
  mc_confidence :: string
  mc_customerBlockNumbers :: "int list"
  mc_unclearBlockNumbers :: "int list"
  mc_voicemailEvidenceBlockNumbers :: "int list option"
  mc_automationEvidenceBlockNumbers :: "int list option"
  mc_junkEvidenceBlockNumbers :: "int list option"
  mc_businessRelevantCustomerBlockNumbers :: "int list option"
  mc_customerSpoke :: bool
  mc_lastMeaningfulCustomerExchangeMs :: "int option"
  mc_lastMeaningfulAgentExchangeMs :: "int option"
  mc_firstAgentTurnEndMs :: "int option"
  mc_lastVoicemailExchangeMs :: "int option"
  mc_lastBusinessRelevantCustomerExchangeMs :: "int option"
  mc_lastVerifiedInteractionMs :: "int option"
  mc_agentBlockNumbers :: "int list option"
  mc_agentFailureStartBlockNumber :: "int option"
  mc_agentFailureMode :: "AgentFailureMode option"
  mc_meaningfulServiceBeforeFailure :: "bool option"
  mc_failureStartMs :: "int option"
  mc_remarks :: string
  mc_disputeRecommended :: bool
  mc_decisionSignals :: "ClassificationDecisionSignals option"

type_synonym RawClassification = "string ClassificationOf"
type_synonym ModelClassification = "ReauditCategory ClassificationOf"

text \<open>The regular expressions of the file, as tests on block text.\<close>

record cue_tests =
  AFFIRMATIVE_VOICEMAIL_CUE :: "string \<Rightarrow> bool"
  AFFIRMATIVE_AUTOMATION_CUE :: "string \<Rightarrow> bool"
  AFFIRMATIVE_JUNK_CUE :: "string \<Rightarrow> bool"
  REPEATED_CUSTOMER_GREETING_CUE :: "string \<Rightarrow> bool"
  CUSTOMER_LANGUAGE_CHOICE_CUE :: "string \<Rightarrow> bool"
  beep_cue :: "string \<Rightarrow> bool"
  leave_message_cue :: "string \<Rightarrow> bool"
  recording_notice_cue :: "string \<Rightarrow> bool"
  mailbox_cue :: "string \<Rightarrow> bool"
  virtual_assistant_cue :: "string \<Rightarrow> bool"
  screening_cue :: "string \<Rightarrow> bool"
  test_call_cue :: "string \<Rightarrow> bool"
  spam_cue :: "string \<Rightarrow> bool"

definition REAUDIT_CATEGORIES :: "ReauditCategory list" where
  "REAUDIT_CATEGORIES =
     [TIME_DURATION, AGENT_FAILURE, CONNECT_NOT_FRUITFUL, INACTIVE_CALL, INCORRECT_CALL_DURATION,
      AI_CONVERSATION_HANDLING, VOICEMAIL, AI_TO_AI, NETWORK_FAILURE_TELECOM, USER_SILENCE, JUNK_CALL, OK]"

definition parse_category :: "string \<Rightarrow> ReauditCategory option" where
  "parse_category s = find (\<lambda>c. category_text c = s) REAUDIT_CATEGORIES"

section \<open>Merging segments\<close>

definition MERGE_GAP_MS :: int where "MERGE_GAP_MS = 1000"
definition MERGE_MAX_BLOCK_MS :: int where "MERGE_MAX_BLOCK_MS = 15000"
definition MERGE_MAX_BLOCK_CHARS :: nat where "MERGE_MAX_BLOCK_CHARS = 250"
definition DURATION_TOLERANCE_MS :: int where "DURATION_TOLERANCE_MS = 5000"

lemmas merge_constants = MERGE_GAP_MS_def MERGE_MAX_BLOCK_MS_def MERGE_MAX_BLOCK_CHARS_def

definition safeMs :: "int \<Rightarrow> string \<Rightarrow> bool \<times> js_error" where
  "safeMs v name = (\<not> isSafeInteger v \<or> v < 0, RangeError (name @ '' must be a non-negative safe integer''))"

definition check_segment :: "TranscriptSegment \<Rightarrow> unit res" where
  "check_segment segment = first_error
     [safeMs (sg_startMs segment) ''segment.startMs'',
      safeMs (sg_endMs segment) ''segment.endMs'',
      (sg_endMs segment < sg_startMs segment, RangeError ''segment.endMs precedes startMs'')]"

definition split_here :: "TranscriptSegment \<Rightarrow> TranscriptSegment \<Rightarrow> bool" where
  "split_here current segment =
     (sg_startMs segment - sg_endMs current \<ge> MERGE_GAP_MS \<or>
      sg_endMs segment - sg_startMs current > MERGE_MAX_BLOCK_MS \<or>
      utf16_length (sg_text current) + utf16_length (sg_text segment) + 1 > MERGE_MAX_BLOCK_CHARS)"

definition extend_block :: "TranscriptSegment \<Rightarrow> TranscriptSegment \<Rightarrow> TranscriptSegment" where
  "extend_block current segment =
     \<lparr> sg_startMs = sg_startMs current, sg_endMs = sg_endMs segment,
       sg_text = sg_text current @ (if sg_text segment \<noteq> [] then CHR '' '' # sg_text segment else []) \<rparr>"

definition number_block :: "NaturalSpeechBlock list \<Rightarrow> TranscriptSegment \<Rightarrow> NaturalSpeechBlock list" where
  "number_block result current =
     result @ [\<lparr> bl_number = int (length result) + 1, bl_startMs = sg_startMs current,
                 bl_endMs = sg_endMs current, bl_text = sg_text current \<rparr>]"

fun merge_loop ::
  "NaturalSpeechBlock list \<Rightarrow> TranscriptSegment option \<Rightarrow> TranscriptSegment list \<Rightarrow> NaturalSpeechBlock list res" where
  "merge_loop result current [] =
     Inr (case current of None \<Rightarrow> result | Some c \<Rightarrow> number_block result c)"
| "merge_loop result current (segment # rest) =
     rbind (check_segment segment) (\<lambda>_.
     let trimmed = segment \<lparr> sg_text := trim (sg_text segment) \<rparr> in
     case current of
       None \<Rightarrow> merge_loop result (Some trimmed) rest
     | Some c \<Rightarrow>
         if split_here c trimmed then merge_loop (number_block result c) (Some trimmed) rest
         else merge_loop result (Some (extend_block c trimmed)) rest)"

definition mergeTranscriptSegments :: "TranscriptSegment list \<Rightarrow> NaturalSpeechBlock list res" where
  "mergeTranscriptSegments segments = merge_loop [] None segments"

section \<open>The reviewed category\<close>

definition DECISION_SIGNAL_VALUES ::
  "(string \<times> (ClassificationDecisionSignals \<Rightarrow> string option) \<times> bool \<times> string list) list" where
  "DECISION_SIGNAL_VALUES =
     [(''counterpartyType'', ds_counterpartyType, False,
        [''human'', ''voicemail'', ''interactive_automation'', ''no_response'', ''unclear'']),
      (''agentHandling'', ds_agentHandling, False, [''normal'', ''failed'', ''unclear'']),
      (''conversationOutcome'', ds_conversationOutcome, False, [''successful'', ''no_outcome'', ''unclear'']),
      (''durationOutcome'', ds_durationOutcome, False,
        [''appropriate'', ''ended_too_early'', ''continued_without_value'', ''unclear'']),
      (''stopIntent'', ds_stopIntent, True,
        [''none'', ''busy_or_bad_time'', ''callback_or_defer'', ''decline_or_end'']),
      (''postStopBehavior'', ds_postStopBehavior, True,
        [''not_applicable'', ''appropriate_close'', ''administrative_extension'', ''continued_sales_flow'', ''unclear'']),
      (''successfulOutcome'', ds_successfulOutcome, True,
        [''none'', ''qualified'', ''handoff_or_transfer'', ''resolved'']),
      (''voicemailEvidence'', ds_voicemailEvidence, True,
        [''fixed_greeting'', ''leave_message_request'', ''mailbox_notice'', ''recording_notice'', ''beep'', ''none'']),
      (''automationEvidence'', ds_automationEvidence, True,
        [''menu_prompt'', ''virtual_assistant_disclosure'', ''screening_prompt'', ''none'']),
      (''junkEvidence'', ds_junkEvidence, True,
        [''test_call'', ''spam_or_scam'', ''prank_or_illegitimate_purpose'', ''none'']),
      (''agentFailureMode'', ds_agentFailureMode, True, [''none'', ''start'', ''mid_conversation''])]"

definition validateDecisionSignals :: "ClassificationDecisionSignals \<Rightarrow> unit res" where
  "validateDecisionSignals signals = first_error
     (map (\<lambda>(name, get, optional, allowed).
        (case get signals of None \<Rightarrow> \<not> optional | Some v \<Rightarrow> v \<notin> set allowed,
         PlainError (''Classifier returned an unsupported '' @ name @ '' signal'')))
      DECISION_SIGNAL_VALUES)"

record review_options =
  ro_proposedCategory :: ReauditCategory
  ro_decisionSignals :: "ClassificationDecisionSignals option"
  ro_customerBlockCount :: nat
  ro_agentBlockCount :: "nat option"
  ro_voicemailEvidenceBlockCount :: "nat option"
  ro_automationEvidenceBlockCount :: "nat option"
  ro_junkEvidenceBlockCount :: "nat option"
  ro_durationMismatch :: bool

text \<open>A signal that is present and differs from \<open>none\<close>.\<close>

definition asserted :: "string option \<Rightarrow> bool" where
  "asserted s = (s \<noteq> None \<and> s \<noteq> Some ''none'')"

definition has_counterparty_conflict :: "review_options \<Rightarrow> ClassificationDecisionSignals \<Rightarrow> unit res" where
  "has_counterparty_conflict opts signals = first_error
     [(ds_counterpartyType signals = Some ''human'' \<and> ro_customerBlockCount opts = 0,
       PlainError ''Human counterparty signal requires customer speech''),
      (ds_counterpartyType signals \<in> {Some ''voicemail'', Some ''interactive_automation'', Some ''no_response''} \<and>
       ro_customerBlockCount opts > 0,
       PlainError ''Non-human counterparty signal cannot contain customer speech'')]"

definition conversation_category :: "review_options \<Rightarrow> ClassificationDecisionSignals \<Rightarrow> ReauditCategory res" where
  "conversation_category opts signals =
     (if ds_counterpartyType signals = Some ''human'' \<and> asserted (ds_successfulOutcome signals) \<and>
         ds_agentHandling signals = Some ''normal''
      then Inr OK
      else if asserted (ds_stopIntent signals) \<and> ds_postStopBehavior signals = Some ''continued_sales_flow''
      then Inr AGENT_FAILURE
      else if asserted (ds_stopIntent signals) \<and> ds_postStopBehavior signals = Some ''administrative_extension''
      then Inr TIME_DURATION
      else if ds_agentHandling signals = Some ''failed'' then Inr AGENT_FAILURE
      else if ds_counterpartyType signals = Some ''human'' \<and>
              ds_conversationOutcome signals = Some ''successful'' \<and> ds_agentHandling signals = Some ''normal''
      then Inr OK
      else if ds_counterpartyType signals = Some ''human'' \<and> asserted (ds_stopIntent signals) \<and>
              ds_postStopBehavior signals = Some ''appropriate_close'' \<and>
              ds_conversationOutcome signals = Some ''no_outcome'' \<and> ds_agentHandling signals = Some ''normal''
      then Inr CONNECT_NOT_FRUITFUL
      else if ds_durationOutcome signals = Some ''ended_too_early'' \<or>
              ds_durationOutcome signals = Some ''continued_without_value''
      then Inr TIME_DURATION
      else if ds_counterpartyType signals = Some ''human'' \<and>
              ds_conversationOutcome signals = Some ''no_outcome'' \<and> ds_agentHandling signals = Some ''normal''
      then Inr CONNECT_NOT_FRUITFUL
      else if ro_proposedCategory opts = INCORRECT_CALL_DURATION
      then (if ro_durationMismatch opts then Inr INCORRECT_CALL_DURATION
            else Inl (PlainError ''Duration-mismatch category requires a verified duration mismatch''))
      else Inr (ro_proposedCategory opts))"

definition no_customer_or_conversation ::
  "review_options \<Rightarrow> ClassificationDecisionSignals \<Rightarrow> ReauditCategory res" where
  "no_customer_or_conversation opts signals =
     (case ro_agentBlockCount opts of
        Some n \<Rightarrow> if ro_customerBlockCount opts = 0
                  then Inr (if n > 0 then USER_SILENCE else INACTIVE_CALL)
                  else conversation_category opts signals
      | None \<Rightarrow> conversation_category opts signals)"

definition junk_or_conversation ::
  "review_options \<Rightarrow> ClassificationDecisionSignals \<Rightarrow> ReauditCategory res" where
  "junk_or_conversation opts signals =
     (let junkBlocks = coalesce (ro_junkEvidenceBlockCount opts) 0;
          explicitJunkEvidence = (asserted (ds_junkEvidence signals) \<and> junkBlocks > 0)
      in if ro_proposedCategory opts = JUNK_CALL \<and> explicitJunkEvidence then Inr JUNK_CALL
         else if ds_counterpartyType signals = Some ''human'' \<and> ro_customerBlockCount opts > 0 \<and>
                 ro_agentBlockCount opts = Some 0
         then Inr AGENT_FAILURE
         else if ro_proposedCategory opts = JUNK_CALL \<and> ds_junkEvidence signals \<noteq> None
         then Inl (PlainError ''Junk call requires affirmative junk evidence'')
         else if ro_proposedCategory opts \<noteq> JUNK_CALL \<and> (explicitJunkEvidence \<or> junkBlocks > 0)
         then Inl (PlainError ''Junk evidence requires the junk-call category'')
         else no_customer_or_conversation opts signals)"

definition resolveReviewedCategory :: "review_options \<Rightarrow> ReauditCategory res" where
  "resolveReviewedCategory opts =
     (case ro_decisionSignals opts of
        None \<Rightarrow> Inr (ro_proposedCategory opts)
      | Some signals \<Rightarrow>
          rbind (validateDecisionSignals signals) (\<lambda>_.
          rbind (has_counterparty_conflict opts signals) (\<lambda>_.
          if ds_counterpartyType signals = Some ''voicemail'' then
            Inr (if ds_voicemailEvidence signals \<noteq> None \<and>
                    (ds_voicemailEvidence signals = Some ''none'' \<or> ro_voicemailEvidenceBlockCount opts = Some 0)
                 then USER_SILENCE else VOICEMAIL)
          else if ds_voicemailEvidence signals \<noteq> None \<and>
                  (ds_voicemailEvidence signals \<noteq> Some ''none'' \<or>
                   coalesce (ro_voicemailEvidenceBlockCount opts) 0 > 0)
          then Inl (PlainError ''Voicemail evidence requires a voicemail counterparty signal'')
          else if ds_counterpartyType signals = Some ''interactive_automation'' then
            (if ds_automationEvidence signals \<noteq> None \<and>
                (ds_automationEvidence signals = Some ''none'' \<or> ro_automationEvidenceBlockCount opts = Some 0 \<or>
                 ro_agentBlockCount opts = Some 0)
             then Inl (PlainError ''AI-to-AI requires affirmative interactive-automation evidence'')
             else Inr AI_TO_AI)
          else if ds_automationEvidence signals \<noteq> None \<and>
                  (ds_automationEvidence signals \<noteq> Some ''none'' \<or>
                   coalesce (ro_automationEvidenceBlockCount opts) 0 > 0)
          then Inl (PlainError ''Automation evidence requires an interactive-automation counterparty'')
          else if ds_counterpartyType signals = Some ''no_response'' then Inr USER_SILENCE
          else junk_or_conversation opts signals)))"

section \<open>The boundary of an agent failure\<close>

definition firstAgentTurnEnd :: "NaturalSpeechBlock list \<Rightarrow> int list \<Rightarrow> int \<Rightarrow> int option" where
  "firstAgentTurnEnd blocks agentBlockNumbers recordedDurationMs =
     (case sort_key bl_number (filter (\<lambda>b. bl_number b \<in> set agentBlockNumbers) blocks) of
        [] \<Rightarrow> None
      | first # _ \<Rightarrow> Some (min (bl_endMs first) recordedDurationMs))"

record failure_evidence =
  fe_mode :: "AgentFailureMode option"
  fe_failureStartMs :: "int option"
  fe_meaningfulServiceBeforeFailure :: bool
  fe_blockNumber :: "int option"

definition failure_none :: failure_evidence where
  "failure_none = \<lparr> fe_mode = None, fe_failureStartMs = None,
     fe_meaningfulServiceBeforeFailure = False, fe_blockNumber = None \<rparr>"

definition failedFromStart :: failure_evidence where
  "failedFromStart = \<lparr> fe_mode = Some Start, fe_failureStartMs = None,
     fe_meaningfulServiceBeforeFailure = False, fe_blockNumber = None \<rparr>"

definition midConversation :: "int \<Rightarrow> int option \<Rightarrow> failure_evidence" where
  "midConversation failureStartMs blockNumber =
     \<lparr> fe_mode = Some Mid_conversation, fe_failureStartMs = Some failureStartMs,
       fe_meaningfulServiceBeforeFailure = True, fe_blockNumber = blockNumber \<rparr>"

definition ends_before :: "NaturalSpeechBlock list \<Rightarrow> int list \<Rightarrow> int \<Rightarrow> bool" where
  "ends_before blocks numbers ms = list_ex (\<lambda>b. bl_number b \<in> set numbers \<and> bl_endMs b \<le> ms) blocks"

definition servedBefore :: "NaturalSpeechBlock list \<Rightarrow> int list \<Rightarrow> int list \<Rightarrow> int \<Rightarrow> bool" where
  "servedBefore blocks customers agents failureStartMs =
     (isSafeInteger failureStartMs \<and> failureStartMs > 0 \<and>
      ends_before blocks customers failureStartMs \<and> ends_before blocks agents failureStartMs)"

definition find_block :: "NaturalSpeechBlock list \<Rightarrow> int \<Rightarrow> NaturalSpeechBlock option" where
  "find_block blocks n = find (\<lambda>b. bl_number b = n) blocks"

text \<open>The boundary the model itself names: a block, or the end of the last completed turn.\<close>

definition model_boundary ::
  "NaturalSpeechBlock list \<Rightarrow> string option \<Rightarrow> int option \<Rightarrow> int \<Rightarrow> (int \<times> int option) option" where
  "model_boundary blocks proposedMode proposedBlockNumber recordedDurationMs =
     (if proposedMode \<noteq> Some ''mid_conversation'' then None
      else if proposedBlockNumber = None \<or> proposedBlockNumber = Some 0
      then Some (min (foldl max 0 (map bl_endMs blocks)) recordedDurationMs, None)
      else case find_block blocks (coalesce proposedBlockNumber 0) of
             None \<Rightarrow> None
           | Some b \<Rightarrow> Some (min (bl_startMs b) recordedDurationMs, Some (bl_number b)))"

text \<open>The first turn after the customer's first reply, or the end of that reply.\<close>

definition reply_boundary ::
  "NaturalSpeechBlock list \<Rightarrow> int list \<Rightarrow> int list \<Rightarrow> int \<Rightarrow> (int \<times> int option) option" where
  "reply_boundary blocks customers agents recordedDurationMs =
     (let ordered = sort_key bl_number blocks in
      case find (\<lambda>b. bl_number b \<in> set agents) ordered of
        None \<Rightarrow> None
      | Some firstAgent \<Rightarrow>
          (case find (\<lambda>b. bl_number b > bl_number firstAgent \<and> bl_number b \<in> set customers \<and>
                          bl_startMs b \<ge> bl_endMs firstAgent) ordered of
             None \<Rightarrow> None
           | Some firstReply \<Rightarrow>
               (case find (\<lambda>b. bl_number b > bl_number firstReply) ordered of
                  None \<Rightarrow> Some (min (bl_endMs firstReply) recordedDurationMs, None)
                | Some nxt \<Rightarrow> Some (min (bl_startMs nxt) recordedDurationMs, Some (bl_number nxt)))))"

definition resolveAgentFailureEvidence ::
  "ReauditCategory \<Rightarrow> NaturalSpeechBlock list \<Rightarrow> int list \<Rightarrow> int list \<Rightarrow> string option \<Rightarrow> int option \<Rightarrow> int \<Rightarrow>
   failure_evidence" where
  "resolveAgentFailureEvidence category blocks customers agents proposedMode proposedBlockNumber recordedDurationMs =
     (let served = (\<lambda>boundary. case boundary of
                      None \<Rightarrow> False | Some (ms, _) \<Rightarrow> servedBefore blocks customers agents ms);
          proposed = model_boundary blocks proposedMode proposedBlockNumber recordedDurationMs;
          derived = reply_boundary blocks customers agents recordedDurationMs
      in if category \<noteq> AGENT_FAILURE then failure_none
         else if served proposed then (case proposed of Some (ms, n) \<Rightarrow> midConversation ms n | None \<Rightarrow> failedFromStart)
         else if served derived then (case derived of Some (ms, n) \<Rightarrow> midConversation ms n | None \<Rightarrow> failedFromStart)
         else failedFromStart)"

section \<open>The strict validator\<close>

definition normalizeBlocks :: "int \<Rightarrow> int list \<Rightarrow> int list" where
  "normalizeBlocks maxBlock values = sort_key (\<lambda>n. n) (filter (\<lambda>v. 1 \<le> v \<and> v \<le> maxBlock) (remdups values))"

definition max_opt :: "int list \<Rightarrow> int option" where
  "max_opt xs = (case xs of [] \<Rightarrow> None | x # r \<Rightarrow> Some (foldl max x r))"

definition block_test :: "NaturalSpeechBlock list \<Rightarrow> (string \<Rightarrow> bool) \<Rightarrow> int \<Rightarrow> bool" where
  "block_test blocks p n = (case find_block blocks n of None \<Rightarrow> False | Some b \<Rightarrow> p (bl_text b))"

definition counterparty :: "ClassificationDecisionSignals option \<Rightarrow> string option" where
  "counterparty signals = (case signals of None \<Rightarrow> None | Some s \<Rightarrow> ds_counterpartyType s)"

record block_roles =
  br_rawCustomer :: "int list"
  br_customer :: "int list"
  br_unclear :: "int list"
  br_voicemail :: "int list"
  br_automation :: "int list"
  br_junk :: "int list"
  br_business :: "int list"
  br_rawAgent :: "int list"
  br_agent :: "int list"
  br_rawUnclear :: "int list"

definition deterministicCustomerBlockNumbers ::
  "cue_tests \<Rightarrow> ReauditCategory \<Rightarrow> string option \<Rightarrow> NaturalSpeechBlock list \<Rightarrow> int list" where
  "deterministicCustomerBlockNumbers cues category counterpartyType blocks =
     map bl_number (filter (\<lambda>b.
       (category = JUNK_CALL \<and> REPEATED_CUSTOMER_GREETING_CUE cues (trim (bl_text b))) \<or>
       ((category = AI_TO_AI \<or> counterpartyType = Some ''interactive_automation'') \<and>
        CUSTOMER_LANGUAGE_CHOICE_CUE cues (trim (bl_text b)))) blocks)"

definition assign_roles ::
  "cue_tests \<Rightarrow> RawClassification \<Rightarrow> ReauditCategory \<Rightarrow> NaturalSpeechBlock list \<Rightarrow> block_roles" where
  "assign_roles cues raw category blocks =
     (let normalize = normalizeBlocks (int (length blocks));
          deterministic = deterministicCustomerBlockNumbers cues category (counterparty (mc_decisionSignals raw)) blocks;
          rawCustomer = normalize (mc_customerBlockNumbers raw);
          customer = normalize (rawCustomer @ deterministic);
          rawUnclear = normalize (mc_unclearBlockNumbers raw);
          unclear = filter (\<lambda>n. n \<notin> set deterministic) rawUnclear;
          rawAgent = remdups (coalesce (mc_agentBlockNumbers raw) [])
      in \<lparr> br_rawCustomer = rawCustomer,
           br_customer = customer,
           br_unclear = unclear,
           br_voicemail = filter (block_test blocks (AFFIRMATIVE_VOICEMAIL_CUE cues))
             (normalize (coalesce (mc_voicemailEvidenceBlockNumbers raw) [])),
           br_automation = filter (\<lambda>n. n \<notin> set customer \<and> n \<notin> set unclear \<and>
               block_test blocks (AFFIRMATIVE_AUTOMATION_CUE cues) n)
             (normalize (coalesce (mc_automationEvidenceBlockNumbers raw) [])),
           br_junk = filter (block_test blocks (AFFIRMATIVE_JUNK_CUE cues))
             (normalize (coalesce (mc_junkEvidenceBlockNumbers raw) [])),
           br_business = filter (\<lambda>n. n \<in> set customer)
             (normalize (coalesce (mc_businessRelevantCustomerBlockNumbers raw) [])),
           br_rawAgent = rawAgent,
           br_agent = filter (\<lambda>n. n \<notin> set customer) (normalize rawAgent),
           br_rawUnclear = rawUnclear \<rparr>)"

definition role_checks :: "block_roles \<Rightarrow> int \<Rightarrow> (bool \<times> js_error) list" where
  "role_checks r maxBlock =
     [(list_ex (\<lambda>n. n \<in> set (br_rawUnclear r)) (br_rawCustomer r),
       PlainError ''Customer and unclear speech blocks must not overlap''),
      (list_ex (\<lambda>n. n \<in> set (br_customer r) \<or> n \<in> set (br_unclear r)) (br_voicemail r),
       PlainError ''Voicemail evidence blocks must be separate from customer and unclear speech''),
      (list_ex (\<lambda>n. n < 1 \<or> n > maxBlock) (br_rawAgent r),
       PlainError ''Agent speech blocks must be supplied transcript blocks''),
      (list_ex (\<lambda>n. n \<in> set (br_rawCustomer r) \<or> n \<in> set (br_unclear r) \<or> n \<in> set (br_voicemail r) \<or>
                    n \<in> set (br_automation r) \<or> n \<in> set (br_junk r)) (br_rawAgent r),
       PlainError ''Agent speech blocks must be separate from customer, unclear, and system evidence'')]"

definition ends_of :: "NaturalSpeechBlock list \<Rightarrow> (int \<Rightarrow> bool) \<Rightarrow> int \<Rightarrow> int list" where
  "ends_of blocks p recordedDurationMs =
     map (\<lambda>b. min (bl_endMs b) recordedDurationMs) (filter (\<lambda>b. p (bl_number b)) blocks)"

text \<open>An automation claim beside customer speech is read as a human counterparty.\<close>

definition effective_signals ::
  "ClassificationDecisionSignals option \<Rightarrow> int list \<Rightarrow> ClassificationDecisionSignals option" where
  "effective_signals signals customer =
     (case signals of
        None \<Rightarrow> None
      | Some s \<Rightarrow>
          if ds_counterpartyType s = Some ''interactive_automation'' \<and> customer \<noteq> []
          then Some (s \<lparr> ds_counterpartyType := Some ''human'', ds_automationEvidence := Some ''none'' \<rparr>)
          else Some s)"

definition review_of ::
  "block_roles \<Rightarrow> ReauditCategory \<Rightarrow> ClassificationDecisionSignals option \<Rightarrow> nat \<Rightarrow> bool \<Rightarrow> review_options" where
  "review_of r category signals agentEnds durationMismatch =
     \<lparr> ro_proposedCategory = category, ro_decisionSignals = signals,
       ro_customerBlockCount = length (br_customer r), ro_agentBlockCount = Some agentEnds,
       ro_voicemailEvidenceBlockCount = Some (length (br_voicemail r)),
       ro_automationEvidenceBlockCount = Some (length (br_automation r)),
       ro_junkEvidenceBlockCount = Some (length (br_junk r)),
       ro_durationMismatch = durationMismatch \<rparr>"

definition silence_checks :: "block_roles \<Rightarrow> ReauditCategory \<Rightarrow> (bool \<times> js_error) list" where
  "silence_checks r category =
     [(category = USER_SILENCE \<and> br_customer r \<noteq> [],
       PlainError ''User-silence result cannot contain customer speech''),
      (category = USER_SILENCE \<and> br_agent r = [],
       PlainError ''User-silence result requires positively identified agent speech''),
      (category = INACTIVE_CALL \<and> br_agent r \<noteq> [],
       PlainError ''Inactive-call result cannot contain positively identified agent speech'')]"

definition validated ::
  "RawClassification \<Rightarrow> block_roles \<Rightarrow> ReauditCategory \<Rightarrow> ClassificationDecisionSignals option \<Rightarrow>
   NaturalSpeechBlock list \<Rightarrow> int \<Rightarrow> ModelClassification" where
  "validated raw r category signals blocks recordedDurationMs =
     (let failure = resolveAgentFailureEvidence category blocks (br_customer r) (br_agent r)
                      (case signals of None \<Rightarrow> None | Some s \<Rightarrow> ds_agentFailureMode s)
                      (mc_agentFailureStartBlockNumber raw) recordedDurationMs;
          ends = (\<lambda>p. max_opt (ends_of blocks p recordedDurationMs))
      in \<lparr> mc_model = mc_model raw,
           mc_category = category,
           mc_confidence = mc_confidence raw,
           mc_customerBlockNumbers = br_customer r,
           mc_unclearBlockNumbers = br_unclear r,
           mc_voicemailEvidenceBlockNumbers = Some (br_voicemail r),
           mc_automationEvidenceBlockNumbers = Some (br_automation r),
           mc_junkEvidenceBlockNumbers = Some (br_junk r),
           mc_businessRelevantCustomerBlockNumbers = Some (br_business r),
           mc_customerSpoke = (ends_of blocks (\<lambda>n. n \<in> set (br_customer r)) recordedDurationMs \<noteq> []),
           mc_lastMeaningfulCustomerExchangeMs = ends (\<lambda>n. n \<in> set (br_customer r)),
           mc_lastMeaningfulAgentExchangeMs = ends (\<lambda>n. n \<in> set (br_agent r)),
           mc_firstAgentTurnEndMs = firstAgentTurnEnd blocks (br_agent r) recordedDurationMs,
           mc_lastVoicemailExchangeMs = ends (\<lambda>n. n \<in> set (br_voicemail r)),
           mc_lastBusinessRelevantCustomerExchangeMs = ends (\<lambda>n. n \<in> set (br_business r)),
           mc_lastVerifiedInteractionMs = ends (\<lambda>n. n \<notin> set (br_unclear r)),
           mc_agentBlockNumbers = Some (br_agent r),
           mc_agentFailureStartBlockNumber = fe_blockNumber failure,
           mc_agentFailureMode = fe_mode failure,
           mc_meaningfulServiceBeforeFailure = Some (fe_meaningfulServiceBeforeFailure failure),
           mc_failureStartMs = fe_failureStartMs failure,
           mc_remarks =
             (if counterparty signals = Some ''voicemail'' \<and> category = USER_SILENCE
              then ''Agent speech was identified, but no customer or affirmative voicemail evidence was identified; this is user silence.''
              else utf16_take 2000 (trim (mc_remarks raw))),
           mc_disputeRecommended = mc_disputeRecommended raw,
           mc_decisionSignals = signals \<rparr>)"

definition validateClassification ::
  "cue_tests \<Rightarrow> RawClassification \<Rightarrow> NaturalSpeechBlock list \<Rightarrow> int \<Rightarrow> bool \<Rightarrow> ModelClassification res" where
  "validateClassification cues raw blocks recordedDurationMs durationMismatch =
     (case parse_category (mc_category raw) of
        None \<Rightarrow> Inl (PlainError (''Classifier returned unsupported category: '' @ mc_category raw))
      | Some proposed \<Rightarrow>
          if \<not> decimal_0_1 (mc_confidence raw)
          then Inl (PlainError ''Classifier confidence must be a decimal from 0 to 1'')
          else
            let r = assign_roles cues raw proposed blocks;
                signals = effective_signals (mc_decisionSignals raw) (br_customer r);
                agentEnds = length (ends_of blocks (\<lambda>n. n \<in> set (br_agent r)) recordedDurationMs)
            in rbind (first_error (role_checks r (int (length blocks)))) (\<lambda>_.
               rbind (resolveReviewedCategory (review_of r proposed signals agentEnds durationMismatch)) (\<lambda>category.
               rbind (first_error (silence_checks r category)) (\<lambda>_.
               Inr (validated raw r category signals blocks recordedDurationMs)))))"

section \<open>Repair\<close>

definition repair_numbers :: "NaturalSpeechBlock list \<Rightarrow> int list \<Rightarrow> int list" where
  "repair_numbers blocks values = sort_key (\<lambda>n. n) (filter (\<lambda>v. v \<in> set (map bl_number blocks)) (remdups values))"

definition blockText :: "NaturalSpeechBlock list \<Rightarrow> int \<Rightarrow> string" where
  "blockText blocks n = (case find_block blocks n of None \<Rightarrow> [] | Some b \<Rightarrow> bl_text b)"

fun join_space :: "string list \<Rightarrow> string" where
  "join_space [] = []"
| "join_space [x] = x"
| "join_space (x # y # ys) = x @ CHR '' '' # join_space (y # ys)"

definition evidenceText :: "NaturalSpeechBlock list \<Rightarrow> int list \<Rightarrow> string" where
  "evidenceText blocks values = join_space (map (blockText blocks) values)"

record repaired_roles =
  rr_voicemail :: "int list"
  rr_automation :: "int list"
  rr_customer :: "int list"
  rr_unclear :: "int list"
  rr_junk :: "int list"
  rr_agent :: "int list"

definition repair_roles :: "cue_tests \<Rightarrow> RawClassification \<Rightarrow> NaturalSpeechBlock list \<Rightarrow> repaired_roles" where
  "repair_roles cues raw blocks =
     (let numbers = (\<lambda>v. repair_numbers blocks (coalesce v []));
          cue = (\<lambda>p n. p (blockText blocks n));
          voicemail = filter (cue (AFFIRMATIVE_VOICEMAIL_CUE cues)) (numbers (mc_voicemailEvidenceBlockNumbers raw));
          automation = filter (cue (AFFIRMATIVE_AUTOMATION_CUE cues)) (numbers (mc_automationEvidenceBlockNumbers raw));
          system = set voicemail \<union> set automation;
          customer = filter (\<lambda>n. n \<notin> system) (numbers (Some (mc_customerBlockNumbers raw)));
          unclear = filter (\<lambda>n. n \<notin> set customer \<and> n \<notin> system) (numbers (Some (mc_unclearBlockNumbers raw)));
          junk = filter (cue (AFFIRMATIVE_JUNK_CUE cues)) (numbers (mc_junkEvidenceBlockNumbers raw))
      in \<lparr> rr_voicemail = voicemail, rr_automation = automation, rr_customer = customer,
           rr_unclear = unclear, rr_junk = junk,
           rr_agent = filter (\<lambda>n. n \<notin> set customer \<and> n \<notin> set unclear \<and> n \<notin> system \<and> n \<notin> set junk)
             (numbers (mc_agentBlockNumbers raw)) \<rparr>)"

definition repaired_counterparty :: "repaired_roles \<Rightarrow> string" where
  "repaired_counterparty r =
     (if rr_voicemail r \<noteq> [] then ''voicemail''
      else if rr_automation r \<noteq> [] \<and> rr_agent r \<noteq> [] then ''interactive_automation''
      else if rr_customer r \<noteq> [] then ''human''
      else if rr_agent r \<noteq> [] then ''no_response'' else ''unclear'')"

definition repaired_evidence :: "int list \<Rightarrow> string option \<Rightarrow> string \<Rightarrow> string option" where
  "repaired_evidence blockNumbers claimed inferred =
     Some (if blockNumbers \<noteq> []
           then (if claimed = Some ''none'' \<or> claimed = None then inferred else coalesce claimed [])
           else ''none'')"

definition repair_signals ::
  "cue_tests \<Rightarrow> NaturalSpeechBlock list \<Rightarrow> repaired_roles \<Rightarrow> ClassificationDecisionSignals \<Rightarrow>
   ClassificationDecisionSignals" where
  "repair_signals cues blocks r s =
     (let vt = evidenceText blocks (rr_voicemail r);
          aut = evidenceText blocks (rr_automation r);
          jt = evidenceText blocks (rr_junk r)
      in s \<lparr> ds_counterpartyType := Some (repaired_counterparty r),
             ds_voicemailEvidence := repaired_evidence (rr_voicemail r) (ds_voicemailEvidence s)
               (if beep_cue cues vt then ''beep''
                else if leave_message_cue cues vt then ''leave_message_request''
                else if recording_notice_cue cues vt then ''recording_notice''
                else if mailbox_cue cues vt then ''mailbox_notice'' else ''fixed_greeting''),
             ds_automationEvidence := repaired_evidence (rr_automation r) (ds_automationEvidence s)
               (if virtual_assistant_cue cues aut then ''virtual_assistant_disclosure''
                else if screening_cue cues aut then ''screening_prompt'' else ''menu_prompt''),
             ds_junkEvidence := repaired_evidence (rr_junk r) (ds_junkEvidence s)
               (if test_call_cue cues jt then ''test_call''
                else if spam_cue cues jt then ''spam_or_scam'' else ''prank_or_illegitimate_purpose'') \<rparr>)"

definition repaired_category ::
  "repaired_roles \<Rightarrow> ClassificationDecisionSignals option \<Rightarrow> bool \<Rightarrow> string \<Rightarrow> string" where
  "repaired_category r signals durationMismatch category =
     (let get = (\<lambda>f. case signals of None \<Rightarrow> None | Some s \<Rightarrow> f s) in
      if repaired_counterparty r = ''voicemail'' then ''VOICEMAIL''
      else if repaired_counterparty r = ''interactive_automation'' then ''AI_TO_AI''
      else if repaired_counterparty r = ''no_response'' then ''USER_SILENCE''
      else if repaired_counterparty r = ''unclear'' then ''INACTIVE_CALL''
      else if rr_junk r \<noteq> [] then ''JUNK_CALL''
      else if category \<in> {''USER_SILENCE'', ''VOICEMAIL'', ''AI_TO_AI'', ''INACTIVE_CALL''} \<or>
              (category = ''JUNK_CALL'' \<and> rr_junk r = []) \<or>
              (category = ''INCORRECT_CALL_DURATION'' \<and> \<not> durationMismatch)
      then (if get ds_agentHandling = Some ''failed'' \<or> rr_agent r = [] then ''AGENT_FAILURE''
            else if get ds_conversationOutcome = Some ''successful'' then ''OK''
            else if get ds_durationOutcome = Some ''ended_too_early'' \<or>
                    get ds_durationOutcome = Some ''continued_without_value''
            then ''TIME_DURATION'' else ''CONNECT_NOT_FRUITFUL'')
      else category)"

definition repairClassification ::
  "cue_tests \<Rightarrow> RawClassification \<Rightarrow> NaturalSpeechBlock list \<Rightarrow> bool \<Rightarrow> RawClassification" where
  "repairClassification cues raw blocks durationMismatch =
     (let r = repair_roles cues raw blocks;
          signals = map_option (repair_signals cues blocks r) (mc_decisionSignals raw)
      in raw \<lparr> mc_category := repaired_category r signals durationMismatch (mc_category raw),
               mc_customerBlockNumbers := rr_customer r,
               mc_unclearBlockNumbers := rr_unclear r,
               mc_voicemailEvidenceBlockNumbers := Some (rr_voicemail r),
               mc_automationEvidenceBlockNumbers := Some (rr_automation r),
               mc_junkEvidenceBlockNumbers := Some (rr_junk r),
               mc_agentBlockNumbers := Some (rr_agent r),
               mc_businessRelevantCustomerBlockNumbers := Some (filter (\<lambda>n. n \<in> set (rr_customer r))
                 (repair_numbers blocks (coalesce (mc_businessRelevantCustomerBlockNumbers raw) []))),
               mc_decisionSignals := signals \<rparr>)"

section \<open>Merging loses nothing\<close>

text \<open>The speech of a text: its characters without white space.\<close>

definition speech :: "string \<Rightarrow> string" where
  "speech s = filter (\<lambda>c. \<not> is_ws c) s"

lemma speech_simps [simp]:
  "speech [] = []" "speech (s @ t) = speech s @ speech t"
  "speech (c # s) = (if is_ws c then speech s else c # speech s)"
  by (simp_all add: speech_def)

lemma speech_dropWhile: "speech (dropWhile is_ws s) = speech s"
  by (induction s) simp_all

lemma speech_rev: "speech (rev s) = rev (speech s)"
  by (simp add: speech_def rev_filter)

lemma speech_trim [simp]: "speech (trim s) = speech s"
  by (simp add: trim_def speech_rev speech_dropWhile)

lemma is_ws_space [simp]: "is_ws (CHR '' '')"
  by (simp add: is_ws_def)

definition segment_ok :: "TranscriptSegment \<Rightarrow> bool" where
  "segment_ok s \<longleftrightarrow> 0 \<le> sg_startMs s \<and> sg_startMs s \<le> sg_endMs s \<and> sg_endMs s \<le> MAX_SAFE_INTEGER"

lemma check_segment_ok: "check_segment s = Inr u \<longleftrightarrow> segment_ok s"
  by (auto simp: check_segment_def first_error_Inr safeMs_def isSafeInteger_def segment_ok_def)

lemma merge_ok: "is_ok (merge_loop result current segments) \<longleftrightarrow> list_all segment_ok segments"
  by (induction result current segments rule: merge_loop.induct)
    (auto simp: is_ok_rbind check_segment_ok Let_def split: option.splits)

lemma merge_step:
  assumes "merge_loop result current (segment # rest) = Inr bs"
  shows "segment_ok segment"
    and "(case current of
            None \<Rightarrow> merge_loop result (Some (segment \<lparr> sg_text := trim (sg_text segment) \<rparr>)) rest
          | Some c \<Rightarrow>
              if split_here c (segment \<lparr> sg_text := trim (sg_text segment) \<rparr>)
              then merge_loop (number_block result c) (Some (segment \<lparr> sg_text := trim (sg_text segment) \<rparr>)) rest
              else merge_loop result (Some (extend_block c (segment \<lparr> sg_text := trim (sg_text segment) \<rparr>))) rest) = Inr bs"
  using assms by (auto simp: rbind_Inr_iff check_segment_ok Let_def)

text \<open>What holds of every block: it is one segment, or it respects the merge limits.\<close>

definition block_limits :: "TranscriptSegment list \<Rightarrow> int \<Rightarrow> int \<Rightarrow> string \<Rightarrow> bool" where
  "block_limits segments st en txt \<longleftrightarrow>
     (\<exists>s \<in> set segments. st = sg_startMs s \<and> en = sg_endMs s \<and> txt = trim (sg_text s)) \<or>
     (en - st \<le> MERGE_MAX_BLOCK_MS \<and> utf16_length txt \<le> MERGE_MAX_BLOCK_CHARS)"

lemma merge_invariant:
  assumes "merge_loop result current segments = Inr bs"
    and "map bl_number result = map int [Suc 0..<Suc (length result)]"
    and "list_all (\<lambda>b. block_limits all (bl_startMs b) (bl_endMs b) (bl_text b)) result"
    and "\<And>c. current = Some c \<Longrightarrow> block_limits all (sg_startMs c) (sg_endMs c) (sg_text c)"
    and "set segments \<subseteq> set all"
  shows "map bl_number bs = map int [Suc 0..<Suc (length bs)] \<and>
         list_all (\<lambda>b. block_limits all (bl_startMs b) (bl_endMs b) (bl_text b)) bs \<and>
         speech (concat (map bl_text bs)) =
           speech (concat (map bl_text result) @ (case current of None \<Rightarrow> [] | Some c \<Rightarrow> sg_text c) @
                   concat (map sg_text segments))"
  using assms
proof (induction result current segments rule: merge_loop.induct)
  case (1 result current)
  then show ?case by (auto simp: number_block_def split: option.splits)
next
  case (2 result current segment rest)
  define t where "t = segment \<lparr> sg_text := trim (sg_text segment) \<rparr>"
  note step = merge_step[OF 2(4), folded t_def]
  have st: "block_limits all (sg_startMs t) (sg_endMs t) (sg_text t)" "speech (sg_text t) = speech (sg_text segment)"
    using 2(8) by (auto simp: block_limits_def t_def)
  show ?case
  proof (cases current)
    case None
    then show ?thesis using 2 step st by (simp add: t_def)
  next
    case (Some c)
    note c = 2(7)[OF Some]
    show ?thesis
    proof (cases "split_here c t")
      case True
      then show ?thesis using 2 step st Some c by (simp add: t_def number_block_def)
    next
      case False
      then have "block_limits all (sg_startMs (extend_block c t)) (sg_endMs (extend_block c t)) (sg_text (extend_block c t))"
        by (auto simp: split_here_def extend_block_def block_limits_def)
      moreover have "speech (sg_text (extend_block c t)) = speech (sg_text c) @ speech (sg_text t)"
        by (simp add: extend_block_def)
      ultimately show ?thesis using 2 step st Some False by (simp add: t_def)
    qed
  qed
qed

section \<open>Agent failure fails closed\<close>

lemma max_opt_bounds:
  "max_opt xs = None \<longleftrightarrow> xs = []"
  "max_opt xs = Some m \<Longrightarrow> m \<in> set xs \<and> (\<forall>x \<in> set xs. x \<le> m)"
proof -
  show "max_opt xs = None \<longleftrightarrow> xs = []" by (simp add: max_opt_def split: list.splits)
  have "foldl max x r \<in> set (x # r) \<and> (\<forall>y \<in> set (x # r). y \<le> foldl max x r)" for x and r :: "int list"
  proof (induction r arbitrary: x)
    case (Cons a r)
    from Cons[of "max x a"] show ?case by (auto simp: max_def split: if_splits)
  qed simp
  then show "max_opt xs = Some m \<Longrightarrow> m \<in> set xs \<and> (\<forall>x \<in> set xs. x \<le> m)"
    by (auto simp: max_opt_def split: list.splits)
qed

lemma boundary_within:
  "model_boundary blocks pm pn rec = Some (ms, n) \<Longrightarrow> ms \<le> rec"
  "reply_boundary blocks cs as rec = Some (ms, n) \<Longrightarrow> ms \<le> rec"
  by (auto simp: model_boundary_def reply_boundary_def Let_def split: if_splits option.splits)

lemma resolveAgentFailure_mid:
  assumes "fe_mode (resolveAgentFailureEvidence category blocks cs as pm pn rec) = Some Mid_conversation"
  obtains ms where "category = AGENT_FAILURE"
    "fe_failureStartMs (resolveAgentFailureEvidence category blocks cs as pm pn rec) = Some ms"
    "fe_meaningfulServiceBeforeFailure (resolveAgentFailureEvidence category blocks cs as pm pn rec)"
    "servedBefore blocks cs as ms" "ms \<le> rec"
  using assms that boundary_within
  by (fastforce simp: resolveAgentFailureEvidence_def failure_none_def failedFromStart_def midConversation_def Let_def
      split: if_splits option.splits prod.splits)

lemma resolveAgentFailure_other:
  assumes "fe_mode (resolveAgentFailureEvidence category blocks cs as pm pn rec) \<noteq> Some Mid_conversation"
  shows "fe_failureStartMs (resolveAgentFailureEvidence category blocks cs as pm pn rec) = None"
    and "\<not> fe_meaningfulServiceBeforeFailure (resolveAgentFailureEvidence category blocks cs as pm pn rec)"
  using assms
  by (auto simp: resolveAgentFailureEvidence_def failure_none_def failedFromStart_def midConversation_def Let_def
      split: if_splits option.splits prod.splits)

section \<open>What the validator establishes\<close>

lemma normalizeBlocks_set: "set (normalizeBlocks m vs) = {v \<in> set vs. 1 \<le> v \<and> v \<le> m}"
  by (auto simp: normalizeBlocks_def)

lemma normalizeBlocks_strict: "sorted_wrt (<) (normalizeBlocks m vs)"
proof -
  have "sorted_wrt (\<le>) (normalizeBlocks m vs)"
    using sorted_sort_key[of "\<lambda>n. n"] by (simp add: normalizeBlocks_def)
  moreover have "distinct (normalizeBlocks m vs)" by (simp add: normalizeBlocks_def)
  ultimately show ?thesis by (simp add: strict_sorted_iff)
qed

lemma validateE:
  assumes "validateClassification cues raw blocks rec mismatch = Inr c"
  obtains proposed r signals where
    "parse_category (mc_category raw) = Some proposed" "decimal_0_1 (mc_confidence raw)"
    "r = assign_roles cues raw proposed blocks"
    "signals = effective_signals (mc_decisionSignals raw) (br_customer r)"
    "list_all (\<lambda>c. \<not> fst c) (role_checks r (int (length blocks)))"
    "resolveReviewedCategory (review_of r proposed signals
       (length (ends_of blocks (\<lambda>n. n \<in> set (br_agent r)) rec)) mismatch) = Inr (mc_category c)"
    "list_all (\<lambda>c. \<not> fst c) (silence_checks r (mc_category c))"
    "c = validated raw r (mc_category c) signals blocks rec"
  using assms
  by (auto simp: validateClassification_def Let_def rbind_Inr_iff first_error_Inr validated_def
      split: option.splits if_splits)

definition numbered :: "NaturalSpeechBlock list \<Rightarrow> bool" where
  "numbered blocks \<longleftrightarrow> map bl_number blocks = map int [Suc 0..<Suc (length blocks)]"

lemma numbered_set: "numbered blocks \<Longrightarrow> bl_number ` set blocks = {1..int (length blocks)}"
proof -
  assume "numbered blocks"
  then have "set (map bl_number blocks) = int ` {Suc 0..<Suc (length blocks)}"
    unfolding numbered_def by (simp only: set_map set_upt)
  also have "\<dots> = {1..int (length blocks)}" by (simp add: image_int_atLeastAtMost atLeastLessThanSuc_atLeastAtMost)
  finally show ?thesis by simp
qed

lemma roles_disjoint:
  assumes "r = assign_roles cues raw proposed blocks"
    and "list_all (\<lambda>c. \<not> fst c) (role_checks r (int (length blocks)))"
  shows "set (br_customer r) \<inter> set (br_agent r) = {}"
    and "set (br_customer r) \<inter> set (br_unclear r) = {}"
    and "set (br_agent r) \<inter> set (br_unclear r) = {}"
    and "set (br_voicemail r) \<inter> (set (br_customer r) \<union> set (br_agent r)) = {}"
    and "set (br_customer r) \<union> set (br_agent r) \<union> set (br_voicemail r) \<union> set (br_business r)
          \<subseteq> {1..int (length blocks)}"
    and "set (br_business r) \<subseteq> set (br_customer r)"
proof -
  have a: "set (br_agent r) \<subseteq> set (br_rawAgent r) - set (br_customer r)" "set (br_rawCustomer r) \<subseteq> set (br_customer r)"
    "set (br_unclear r) \<subseteq> set (br_rawUnclear r) - (set (br_customer r) - set (br_rawCustomer r))"
    "set (br_customer r) \<subseteq> {1..int (length blocks)}" "set (br_agent r) \<subseteq> {1..int (length blocks)}"
    "set (br_voicemail r) \<subseteq> {1..int (length blocks)}"
    and b: "set (br_business r) \<subseteq> set (br_customer r)"
    by (auto simp: assms(1) assign_roles_def Let_def normalizeBlocks_set)
  have c: "set (br_rawCustomer r) \<inter> set (br_rawUnclear r) = {}"
    "set (br_voicemail r) \<inter> (set (br_customer r) \<union> set (br_unclear r)) = {}"
    "set (br_rawAgent r) \<inter> (set (br_unclear r) \<union> set (br_voicemail r)) = {}"
    using assms(2) by (auto simp: role_checks_def list_ex_iff)
  show "set (br_customer r) \<inter> set (br_agent r) = {}" using a by blast
  show "set (br_customer r) \<inter> set (br_unclear r) = {}" using a c by blast
  show "set (br_agent r) \<inter> set (br_unclear r) = {}" using a c by blast
  show "set (br_voicemail r) \<inter> (set (br_customer r) \<union> set (br_agent r)) = {}" using a c by blast
  show "set (br_customer r) \<union> set (br_agent r) \<union> set (br_voicemail r) \<union> set (br_business r)
          \<subseteq> {1..int (length blocks)}" using a b by blast
  show "set (br_business r) \<subseteq> set (br_customer r)" by (rule b)
qed

lemma ends_of_Nil_iff:
  assumes "numbered blocks" and "set ns \<subseteq> {1..int (length blocks)}"
  shows "ends_of blocks (\<lambda>n. n \<in> set ns) rec = [] \<longleftrightarrow> ns = []"
proof -
  have "ends_of blocks (\<lambda>n. n \<in> set ns) rec = [] \<longleftrightarrow> bl_number ` set blocks \<inter> set ns = {}"
    by (auto simp: ends_of_def filter_empty_conv)
  also have "\<dots> \<longleftrightarrow> ns = []" using numbered_set[OF assms(1)] assms(2) by (simp add: Int_absorb1)
  finally show ?thesis .
qed

lemma ends_of_bounds: "x \<in> set (ends_of blocks p rec) \<Longrightarrow> x \<le> rec \<and> (\<exists>b \<in> set blocks. p (bl_number b) \<and> x = min (bl_endMs b) rec)"
  by (auto simp: ends_of_def)

lemma firstAgentTurnEnd_cases:
  "firstAgentTurnEnd blocks ns rec = None \<longleftrightarrow> ends_of blocks (\<lambda>n. n \<in> set ns) rec = []"
  "firstAgentTurnEnd blocks ns rec = Some x \<Longrightarrow> \<exists>b \<in> set blocks. x = min (bl_endMs b) rec"
proof -
  define t where "t = filter (\<lambda>b. bl_number b \<in> set ns) blocks"
  have n: "sort_key bl_number t = [] \<longleftrightarrow> t = []"
    by (simp flip: set_empty)
  have f: "firstAgentTurnEnd blocks ns rec =
      (case sort_key bl_number t of [] \<Rightarrow> None | b # _ \<Rightarrow> Some (min (bl_endMs b) rec))"
    by (simp add: firstAgentTurnEnd_def t_def)
  show "firstAgentTurnEnd blocks ns rec = None \<longleftrightarrow> ends_of blocks (\<lambda>n. n \<in> set ns) rec = []"
    using n by (cases "sort_key bl_number t") (simp_all add: f ends_of_def t_def[symmetric])
  have "set (sort_key bl_number t) \<subseteq> set blocks" by (auto simp: t_def)
  then show "firstAgentTurnEnd blocks ns rec = Some x \<Longrightarrow> \<exists>b \<in> set blocks. x = min (bl_endMs b) rec"
    unfolding f by (cases "sort_key bl_number t") auto
qed

section \<open>The reviewed category\<close>

text \<open>With signals, a category that needs a conversation is only given to a call with customer speech.\<close>

lemma reviewed_category_customer:
  assumes "resolveReviewedCategory opts = Inr cat" and "ro_decisionSignals opts = Some s"
    and "ro_agentBlockCount opts = Some n"
    and "cat \<notin> {USER_SILENCE, INACTIVE_CALL, VOICEMAIL, AI_TO_AI, JUNK_CALL}"
  shows "ro_customerBlockCount opts > 0"
  using assms
  by (auto simp: resolveReviewedCategory_def rbind_Inr_iff junk_or_conversation_def no_customer_or_conversation_def Let_def
      split: if_splits)

text \<open>Every endpoint of a validated classification is the end of a block, cut at the recording.\<close>

lemma max_ends: "max_opt (ends_of blocks p rec) = Some x \<Longrightarrow> \<exists>b \<in> set blocks. x = min (bl_endMs b) rec"
  using max_opt_bounds(2) ends_of_bounds by blast

lemma validated_endpoint:
  assumes "Some x \<in> {mc_lastMeaningfulCustomerExchangeMs c, mc_lastMeaningfulAgentExchangeMs c,
                mc_firstAgentTurnEndMs c, mc_lastVoicemailExchangeMs c,
                mc_lastBusinessRelevantCustomerExchangeMs c, mc_lastVerifiedInteractionMs c}"
    and c: "c = validated raw r category signals blocks rec"
  shows "\<exists>b \<in> set blocks. x = min (bl_endMs b) rec"
  using assms(1) max_ends firstAgentTurnEnd_cases(2)
  unfolding c validated_def Let_def by (auto dest!: sym[of "Some x"])

section \<open>A concrete call\<close>

definition demo_cues :: cue_tests where
  "demo_cues =
     \<lparr> AFFIRMATIVE_VOICEMAIL_CUE = (\<lambda>s. s = ''leave a message''), AFFIRMATIVE_AUTOMATION_CUE = (\<lambda>s. s = ''press one''),
       AFFIRMATIVE_JUNK_CUE = (\<lambda>s. s = ''test call''), REPEATED_CUSTOMER_GREETING_CUE = (\<lambda>s. s = ''hello hello''),
       CUSTOMER_LANGUAGE_CHOICE_CUE = (\<lambda>s. s = ''hindi''), beep_cue = (\<lambda>s. False),
       leave_message_cue = (\<lambda>s. s = ''leave a message''), recording_notice_cue = (\<lambda>s. False),
       mailbox_cue = (\<lambda>s. False), virtual_assistant_cue = (\<lambda>s. False), screening_cue = (\<lambda>s. False),
       test_call_cue = (\<lambda>s. True), spam_cue = (\<lambda>s. False) \<rparr>"

definition demo_segments :: "TranscriptSegment list" where
  "demo_segments =
     [\<lparr> sg_startMs = 0, sg_endMs = 4000, sg_text = ''namaste '' \<rparr>,
      \<lparr> sg_startMs = 4500, sg_endMs = 6000, sg_text = ''saanvi here'' \<rparr>,
      \<lparr> sg_startMs = 8000, sg_endMs = 20000, sg_text = ''yes please'' \<rparr>]"

definition demo_blocks :: "NaturalSpeechBlock list" where
  "demo_blocks =
     [\<lparr> bl_number = 1, bl_startMs = 0, bl_endMs = 6000, bl_text = ''namaste saanvi here'' \<rparr>,
      \<lparr> bl_number = 2, bl_startMs = 8000, bl_endMs = 20000, bl_text = ''yes please'' \<rparr>]"

definition demo_signals :: ClassificationDecisionSignals where
  "demo_signals =
     \<lparr> ds_counterpartyType = Some ''human'', ds_agentHandling = Some ''failed'',
       ds_conversationOutcome = Some ''no_outcome'', ds_durationOutcome = Some ''appropriate'',
       ds_stopIntent = Some ''none'', ds_postStopBehavior = Some ''not_applicable'',
       ds_successfulOutcome = Some ''none'', ds_voicemailEvidence = Some ''none'',
       ds_automationEvidence = Some ''none'', ds_junkEvidence = Some ''none'',
       ds_agentFailureMode = Some ''mid_conversation'', ds_meaningfulServiceBeforeFailure = Some True \<rparr>"

definition demo_raw :: RawClassification where
  "demo_raw =
     \<lparr> mc_model = \<lparr> model_provider = ''openai'', model_name = ''m'', model_version = ''1'' \<rparr>,
       mc_category = ''AGENT_FAILURE'', mc_confidence = ''1'', mc_customerBlockNumbers = [2],
       mc_unclearBlockNumbers = [], mc_voicemailEvidenceBlockNumbers = Some [],
       mc_automationEvidenceBlockNumbers = Some [], mc_junkEvidenceBlockNumbers = Some [],
       mc_businessRelevantCustomerBlockNumbers = Some [], mc_customerSpoke = True,
       mc_lastMeaningfulCustomerExchangeMs = None, mc_lastMeaningfulAgentExchangeMs = None,
       mc_firstAgentTurnEndMs = None, mc_lastVoicemailExchangeMs = None,
       mc_lastBusinessRelevantCustomerExchangeMs = None, mc_lastVerifiedInteractionMs = None,
       mc_agentBlockNumbers = Some [1], mc_agentFailureStartBlockNumber = None, mc_agentFailureMode = None,
       mc_meaningfulServiceBeforeFailure = None, mc_failureStartMs = None, mc_remarks = ''went silent'',
       mc_disputeRecommended = False, mc_decisionSignals = Some demo_signals \<rparr>"

lemma demo_signal_fields:
  "ds_counterpartyType demo_signals = Some ''human''" "ds_agentHandling demo_signals = Some ''failed''"
  "ds_conversationOutcome demo_signals = Some ''no_outcome''" "ds_durationOutcome demo_signals = Some ''appropriate''"
  "ds_stopIntent demo_signals = Some ''none''" "ds_postStopBehavior demo_signals = Some ''not_applicable''"
  "ds_successfulOutcome demo_signals = Some ''none''" "ds_voicemailEvidence demo_signals = Some ''none''"
  "ds_automationEvidence demo_signals = Some ''none''" "ds_junkEvidence demo_signals = Some ''none''"
  "ds_agentFailureMode demo_signals = Some ''mid_conversation''"
  by (simp_all add: demo_signals_def)

lemma demo_merge: "mergeTranscriptSegments demo_segments = Inr demo_blocks"
  by (simp add: mergeTranscriptSegments_def demo_segments_def demo_blocks_def check_segment_def safeMs_def
      isSafeInteger_def MAX_SAFE_INTEGER_def Let_def trim_def is_ws_def split_here_def merge_constants
      extend_block_def number_block_def utf16_units_def)

lemma demo_numbered: "numbered demo_blocks"
  by (simp add: numbered_def demo_blocks_def)

lemma demo_roles:
  "assign_roles demo_cues demo_raw AGENT_FAILURE demo_blocks =
     \<lparr> br_rawCustomer = [2], br_customer = [2], br_unclear = [], br_voicemail = [], br_automation = [],
       br_junk = [], br_business = [], br_rawAgent = [1], br_agent = [1], br_rawUnclear = [] \<rparr>"
  by (simp add: assign_roles_def Let_def demo_raw_def demo_blocks_def normalizeBlocks_def
      deterministicCustomerBlockNumbers_def demo_signals_def counterparty_def)

lemma demo_validated:
  "\<exists>c. validateClassification demo_cues demo_raw demo_blocks 30000 False = Inr c \<and>
       mc_category c = AGENT_FAILURE \<and> mc_agentFailureMode c = Some Mid_conversation \<and>
       mc_failureStartMs c = Some 20000 \<and> mc_customerBlockNumbers c = [2] \<and> mc_agentBlockNumbers c = Some [1]"
proof -
  have p: "parse_category (mc_category demo_raw) = Some AGENT_FAILURE"
    by (simp add: parse_category_def REAUDIT_CATEGORIES_def demo_raw_def)
  have d: "decimal_0_1 (mc_confidence demo_raw)"
    by (simp add: decimal_0_1_def decimal_shape_def whole_part_def is_digit_def demo_raw_def)
  have s: "effective_signals (mc_decisionSignals demo_raw) [2] = Some demo_signals"
    by (simp add: effective_signals_def demo_raw_def demo_signals_def)
  have v: "validateDecisionSignals demo_signals = Inr ()"
    by (simp add: validateDecisionSignals_def DECISION_SIGNAL_VALUES_def demo_signal_fields)
  have r: "resolveReviewedCategory \<lparr> ro_proposedCategory = AGENT_FAILURE, ro_decisionSignals = Some demo_signals,
       ro_customerBlockCount = 1, ro_agentBlockCount = Some 1, ro_voicemailEvidenceBlockCount = Some 0,
       ro_automationEvidenceBlockCount = Some 0, ro_junkEvidenceBlockCount = Some 0,
       ro_durationMismatch = False \<rparr> = Inr AGENT_FAILURE"
    by (simp add: resolveReviewedCategory_def v has_counterparty_conflict_def junk_or_conversation_def asserted_def
        no_customer_or_conversation_def conversation_category_def demo_signal_fields)
  have f: "resolveAgentFailureEvidence AGENT_FAILURE demo_blocks [2] [1] (Some ''mid_conversation'') None 30000 =
       midConversation 20000 None"
    by (simp add: resolveAgentFailureEvidence_def model_boundary_def servedBefore_def ends_before_def demo_blocks_def
        isSafeInteger_def MAX_SAFE_INTEGER_def)
  have n: "mc_agentFailureStartBlockNumber demo_raw = None" by (simp add: demo_raw_def)
  show ?thesis
    using p d s r f n
    by (simp add: validateClassification_def Let_def demo_roles role_checks_def review_of_def silence_checks_def
        validated_def ends_of_def demo_signal_fields midConversation_def) (simp add: demo_blocks_def)
qed

section \<open>Properties\<close>

text \<open>
  Merging succeeds exactly on well-formed segments; its blocks are numbered from one, hold all
  the speech of the segments in order, and are single segments or within the merge limits.
\<close>

theorem merge_keeps_all_speech:
  "is_ok (mergeTranscriptSegments segments) = list_all segment_ok segments \<and>
   (\<forall>blocks. mergeTranscriptSegments segments = Inr blocks \<longrightarrow>
     numbered blocks \<and>
     speech (concat (map bl_text blocks)) = speech (concat (map sg_text segments)) \<and>
     list_all (\<lambda>b. block_limits segments (bl_startMs b) (bl_endMs b) (bl_text b)) blocks)"
  using merge_invariant[of "[]" None segments _ segments]
  by (simp add: mergeTranscriptSegments_def merge_ok numbered_def)

theorem merge_keeps_all_speech_witness:
  "is_ok (mergeTranscriptSegments demo_segments) \<and> numbered demo_blocks \<and>
   speech (concat (map bl_text demo_blocks)) = speech (concat (map sg_text demo_segments))"
  using merge_keeps_all_speech[of demo_segments] demo_merge by simp

text \<open>
  A validated classification attributes every block to at most one of customer, agent and
  unclear speech; customer speech is exactly what the customer flag and endpoint report; user
  silence has agent speech and no customer, an inactive call has no agent speech; and no endpoint
  passes the end of the recording.
\<close>

theorem validated_roles_consistent:
  assumes "validateClassification cues raw blocks rec mismatch = Inr c" and "numbered blocks"
  defines "agents \<equiv> coalesce (mc_agentBlockNumbers c) []"
  shows "set (mc_customerBlockNumbers c) \<inter> set agents = {} \<and>
         set (mc_customerBlockNumbers c) \<inter> set (mc_unclearBlockNumbers c) = {} \<and>
         set agents \<inter> set (mc_unclearBlockNumbers c) = {} \<and>
         set (mc_customerBlockNumbers c) \<union> set agents \<subseteq> bl_number ` set blocks \<and>
         mc_customerSpoke c = (mc_customerBlockNumbers c \<noteq> []) \<and>
         (mc_lastMeaningfulCustomerExchangeMs c = None) = (mc_customerBlockNumbers c = []) \<and>
         (mc_category c = USER_SILENCE \<longrightarrow> mc_customerBlockNumbers c = [] \<and> agents \<noteq> []) \<and>
         (mc_category c = INACTIVE_CALL \<longrightarrow> agents = []) \<and>
         (\<forall>x. Some x \<in> {mc_lastMeaningfulCustomerExchangeMs c, mc_lastMeaningfulAgentExchangeMs c,
                mc_firstAgentTurnEndMs c, mc_lastVoicemailExchangeMs c,
                mc_lastBusinessRelevantCustomerExchangeMs c, mc_lastVerifiedInteractionMs c} \<longrightarrow> x \<le> rec)"
proof -
  from assms(1) obtain proposed r signals where r: "r = assign_roles cues raw proposed blocks"
    and checks: "list_all (\<lambda>c. \<not> fst c) (role_checks r (int (length blocks)))"
    and silence: "list_all (\<lambda>c. \<not> fst c) (silence_checks r (mc_category c))"
    and c: "c = validated raw r (mc_category c) signals blocks rec"
    by (rule validateE)
  note d = roles_disjoint[OF r checks]
  have f: "mc_customerBlockNumbers c = br_customer r" "agents = br_agent r" "mc_unclearBlockNumbers c = br_unclear r"
    "mc_customerSpoke c = (ends_of blocks (\<lambda>n. n \<in> set (br_customer r)) rec \<noteq> [])"
    "mc_lastMeaningfulCustomerExchangeMs c = max_opt (ends_of blocks (\<lambda>n. n \<in> set (br_customer r)) rec)"
    unfolding agents_def by (subst c, simp add: validated_def Let_def)+
  have "x \<le> rec" if "Some x \<in> {mc_lastMeaningfulCustomerExchangeMs c, mc_lastMeaningfulAgentExchangeMs c,
                mc_firstAgentTurnEndMs c, mc_lastVoicemailExchangeMs c,
                mc_lastBusinessRelevantCustomerExchangeMs c, mc_lastVerifiedInteractionMs c}" for x
    using validated_endpoint[OF that c] by auto
  then show ?thesis
    using d silence f ends_of_Nil_iff[OF assms(2), of "br_customer r" rec] numbered_set[OF assms(2)]
    by (auto simp: silence_checks_def max_opt_bounds(1))
qed

theorem validated_roles_consistent_witness:
  "\<exists>c. validateClassification demo_cues demo_raw demo_blocks 30000 False = Inr c \<and> mc_customerSpoke c \<and>
       set (mc_customerBlockNumbers c) \<inter> set (coalesce (mc_agentBlockNumbers c) []) = {}"
proof -
  obtain c where c: "validateClassification demo_cues demo_raw demo_blocks 30000 False = Inr c"
    "mc_customerBlockNumbers c = [2]"
    using demo_validated by blast
  with validated_roles_consistent[OF c(1) demo_numbered] show ?thesis by auto
qed



end
