(* ===== verification/Consensus.thy ===== *)
theory Consensus
  imports VerifiedCharge Classification
begin

text \<open>
  Automated consensus over two or three classifications of one call
  (\<open>src/src/automation/consensus.ts\<close>): each pass is priced by the category policy, the category
  with a majority wins, and the duration most agreeing passes support is billed. Confidences are
  doubles, computed by \<open>Number\<close> and compared as such.
\<close>

definition AUTOMATED_VALIDATION_VERSION :: string where
  "AUTOMATED_VALIDATION_VERSION = ''leadership-approved-auto-consensus/2.0.0''"

definition AUTOMATED_VALIDATION_THRESHOLD :: string where
  "AUTOMATED_VALIDATION_THRESHOLD = ''0.65000000''"

record ConsensusInput =
  ci_primary :: ModelClassification
  ci_secondary :: ModelClassification
  ci_adjudicator :: "ModelClassification option"
  ci_recordedDurationMs :: int

datatype pass_source = Primary | Secondary | Adjudicator

record ConsensusResult =
  cr_accepted :: bool
  cr_effectiveConfidence :: string
  cr_reasons :: "string list"
  cr_selectedSource :: "pass_source option"
  cr_selectedClassification :: "ModelClassification option"
  cr_selectedChargeDecision :: "CategoryChargeDecision option"
  cr_primaryBillableDurationMs :: int
  cr_secondaryBillableDurationMs :: int
  cr_adjudicatorBillableDurationMs :: "int option"

definition confidence :: "string \<Rightarrow> rat res" where
  "confidence v =
     (case js_Number v of
        None \<Rightarrow> Inl (RangeError ''Model confidence must be from 0 to 1'')
      | Some parsed \<Rightarrow> if parsed < 0 \<or> parsed > 1 then Inl (RangeError ''Model confidence must be from 0 to 1'')
                       else Inr parsed)"

definition charge_evidence :: "ModelClassification \<Rightarrow> int \<Rightarrow> CategoryChargeEvidence" where
  "charge_evidence c recordedDurationMs =
     \<lparr> ce_category = mc_category c,
       ce_recordedDurationMs = recordedDurationMs,
       ce_lastCustomerExchangeMs = mc_lastMeaningfulCustomerExchangeMs c,
       ce_lastAgentExchangeMs = mc_lastMeaningfulAgentExchangeMs c,
       ce_firstAgentTurnEndMs = mc_firstAgentTurnEndMs c,
       ce_lastVoicemailExchangeMs = mc_lastVoicemailExchangeMs c,
       ce_lastBusinessRelevantCustomerExchangeMs = mc_lastBusinessRelevantCustomerExchangeMs c,
       ce_lastVerifiedInteractionMs = mc_lastVerifiedInteractionMs c,
       ce_agentFailureMode = mc_agentFailureMode c,
       ce_meaningfulServiceBeforeFailure = (mc_meaningfulServiceBeforeFailure c = Some True),
       ce_failureStartMs = mc_failureStartMs c \<rparr>"

definition projectedCharge :: "ModelClassification \<Rightarrow> int \<Rightarrow> (CategoryChargeDecision \<times> int) res" where
  "projectedCharge c recordedDurationMs =
     (let d = resolveCategoryCharge (charge_evidence c recordedDurationMs) in
      rbind (roundKServeChargeableDuration (cd_adjustedChargeableDurationMs d)) (\<lambda>rounded.
      Inr (d, rc_billableDurationMs rounded)))"

record pass_output =
  po_source :: pass_source
  po_value :: ModelClassification
  po_confidence :: rat
  po_decision :: CategoryChargeDecision
  po_billableDurationMs :: int

definition evaluate_pass :: "int \<Rightarrow> pass_source \<times> ModelClassification \<Rightarrow> pass_output res" where
  "evaluate_pass recordedDurationMs p =
     rbind (confidence (mc_confidence (snd p))) (\<lambda>conf.
     rbind (projectedCharge (snd p) recordedDurationMs) (\<lambda>(d, billable).
     Inr \<lparr> po_source = fst p, po_value = snd p, po_confidence = conf, po_decision = d,
           po_billableDurationMs = billable \<rparr>))"

definition passes :: "ConsensusInput \<Rightarrow> (pass_source \<times> ModelClassification) list" where
  "passes input =
     [(Primary, ci_primary input), (Secondary, ci_secondary input)] @
     (case ci_adjudicator input of None \<Rightarrow> [] | Some a \<Rightarrow> [(Adjudicator, a)])"

text \<open>The category map of the code, in insertion order.\<close>

fun add_to_group ::
  "pass_output \<Rightarrow> (ReauditCategory \<times> pass_output list) list \<Rightarrow> (ReauditCategory \<times> pass_output list) list" where
  "add_to_group p [] = [(mc_category (po_value p), [p])]"
| "add_to_group p ((k, g) # gs) =
     (if k = mc_category (po_value p) then (k, g @ [p]) # gs else (k, g) # add_to_group p gs)"

definition winningGroup :: "pass_output list \<Rightarrow> pass_output list option" where
  "winningGroup outputs =
     (let groups = map snd (foldl (\<lambda>gs p. add_to_group p gs) [] outputs) in
      case sort_key (\<lambda>g. - int (length g)) (filter (\<lambda>g. length g \<ge> 2) groups) of
        [] \<Rightarrow> None
      | g # _ \<Rightarrow> Some g)"

definition supporting :: "pass_output list option \<Rightarrow> pass_output list" where
  "supporting wg = (case wg of None \<Rightarrow> [] | Some g \<Rightarrow> take 2 (sort_key (\<lambda>p. - po_confidence p) g))"

definition validation_threshold :: rat where
  "validation_threshold = coalesce (js_Number AUTOMATED_VALIDATION_THRESHOLD) 0"

definition consensus_reasons :: "ConsensusInput \<Rightarrow> pass_output list option \<Rightarrow> string list" where
  "consensus_reasons input wg =
     (case wg of
        None \<Rightarrow> [''CATEGORY_DISAGREEMENT'']
      | Some g \<Rightarrow>
          if length (remdups (map po_billableDurationMs g)) > 1 \<and> ci_adjudicator input = None
          then [''BILLABLE_DURATION_DISAGREEMENT'']
          else if list_ex (\<lambda>p. po_confidence p < validation_threshold) (supporting wg)
          then [''WINNING_CONSENSUS_CONFIDENCE_BELOW_FLOOR''] else [])"

definition sharedDuration :: "pass_output list \<Rightarrow> pass_output option" where
  "sharedDuration g =
     find (\<lambda>p. length (filter (\<lambda>q. po_billableDurationMs q = po_billableDurationMs p) g) \<ge> 2) g"

definition select_pass :: "pass_output list \<Rightarrow> pass_output option" where
  "select_pass g =
     (case sharedDuration g of
        Some p \<Rightarrow> Some p
      | None \<Rightarrow> (case sort_key po_billableDurationMs g of [] \<Rightarrow> None | p # _ \<Rightarrow> Some p))"

definition min_confidence :: "pass_output list \<Rightarrow> rat" where
  "min_confidence ps = (case map po_confidence ps of [] \<Rightarrow> 0 | c # cs \<Rightarrow> foldl min c cs)"

definition consensus_of :: "ConsensusInput \<Rightarrow> pass_output list \<Rightarrow> ConsensusResult" where
  "consensus_of input outputs =
     (let wg = winningGroup outputs;
          reasons = consensus_reasons input wg;
          selected = (if reasons = [] then (case wg of None \<Rightarrow> None | Some g \<Rightarrow> select_pass g) else None);
          sup = supporting wg;
          effective = (if sup \<noteq> [] then min_confidence sup else min_confidence outputs)
      in \<lparr> cr_accepted = (reasons = []),
           cr_effectiveConfidence = toFixed 8 effective,
           cr_reasons = reasons,
           cr_selectedSource = map_option po_source selected,
           cr_selectedClassification = map_option po_value selected,
           cr_selectedChargeDecision = map_option po_decision selected,
           cr_primaryBillableDurationMs = po_billableDurationMs (outputs ! 0),
           cr_secondaryBillableDurationMs = po_billableDurationMs (outputs ! 1),
           cr_adjudicatorBillableDurationMs =
             map_option po_billableDurationMs (find (\<lambda>p. po_source p = Adjudicator) outputs) \<rparr>)"

definition evaluateAutomatedConsensus :: "ConsensusInput \<Rightarrow> ConsensusResult res" where
  "evaluateAutomatedConsensus input =
     rbind (mapM_res (evaluate_pass (ci_recordedDurationMs input)) (passes input)) (\<lambda>outputs.
     Inr (consensus_of input outputs))"

section \<open>The floor\<close>

lemma js_Number_threshold: "js_Number AUTOMATED_VALIDATION_THRESHOLD = Some (fl (65 / 100))"
proof -
  have "decimal_literal ''0.65000000'' = Some (65000000 * 10 powi (- 8))"
    by (simp add: decimal_literal_def mantissa_value_def is_digit_def digit_val_def Let_def)
  also have "(65000000 * 10 powi (- 8) :: rat) = 65 / 100" by (simp add: power_int_def field_simps)
  finally show ?thesis
    by (simp add: AUTOMATED_VALIDATION_THRESHOLD_def js_Number_def trim_def is_ws_def split_sign_def Let_def)
qed

lemma validation_threshold_bounds: "65 / 100 - 1 / 10 ^ 10 \<le> validation_threshold"
proof -
  let ?q = "65 / 100 :: rat"
  have "ulp ?q * 2 ^ 52 \<le> ?q" by (rule ulp_bound) simp
  then have "ulp ?q / 2 \<le> 1 / 10 ^ 10" by (simp add: field_simps)
  then show ?thesis
    using fl_error[of ?q] unfolding validation_threshold_def js_Number_threshold coalesce_simps by linarith
qed

lemma decimalToScale8_fixed:
  assumes "n \<le> 10 ^ 8"
  shows "decimalToScale8 (fixed_places 8 n) name = Inr (int n)"
proof -
  have w: "n div 10 ^ 8 \<in> {0, 1}" using assms by (auto simp: div_less_iff_less_mult le_Suc_eq order_less_le)
  have "string_of_nat 1 = ''1''"
    using digit_char_digit_val[of "CHR ''1''"]
    by (simp add: string_of_nat.simps[of "Suc 0"] is_digit_def digit_val_def)
  then have s: "string_of_nat (n div 10 ^ 8) \<in> {''0'', ''1''}" using w by auto
  have l: "length (padStart 8 (CHR ''0'') (string_of_nat (n mod 10 ^ 8))) = 8" by (rule length_fixed_fraction) simp
  have d: "decimal_0_1 (fixed_places 8 n)"
    unfolding decimal_0_1_def decimal_shape_fixed_places using s l by auto
  have "int (nat_of_digits (whole_part (fixed_places 8 n))) * 100000000 +
        int (nat_of_digits (eight_places (fraction_part (fixed_places 8 n)))) = int n"
    using eight_places_exact[OF l] by (simp add: zdiv_int zmod_int)
  with d assms show ?thesis by (simp add: decimalToScale8_def)
qed

lemma decimalToScale8_toFixed:
  assumes "0 \<le> x" "x \<le> 1"
  shows "decimalToScale8 (toFixed 8 x) name = Inr \<lfloor>x * 10 ^ 8 + 1 / 2\<rfloor>"
proof -
  have n: "0 \<le> \<lfloor>x * 10 ^ 8 + 1 / 2\<rfloor>" "\<lfloor>x * 10 ^ 8 + 1 / 2\<rfloor> \<le> 10 ^ 8"
    using assms by (simp_all add: le_floor_iff floor_le_iff)
  then have "nat \<lfloor>x * 10 ^ 8 + 1 / 2\<rfloor> \<le> 10 ^ 8" by (simp only: nat_le_iff of_nat_power of_nat_numeral)
  from decimalToScale8_fixed[OF this] n(1) assms(1) show ?thesis by (simp add: toFixed_def)
qed

lemma threshold_scaled: "decimalToScale8 AUTOMATED_VALIDATION_THRESHOLD name = Inr 65000000"
  by (simp add: AUTOMATED_VALIDATION_THRESHOLD_def decimalToScale8_def decimal_0_1_def decimal_shape_def
      whole_part_def fraction_part_def is_digit_def digit_val_def eight_places_def)

section \<open>Groups\<close>

lemma add_to_group_keys:
  "fst ` set (add_to_group p gs) = insert (mc_category (po_value p)) (fst ` set gs)"
  by (induction p gs rule: add_to_group.induct) auto

lemma add_to_group_distinct: "distinct (map fst gs) \<Longrightarrow> distinct (map fst (add_to_group p gs))"
  by (induction p gs rule: add_to_group.induct) (auto simp: add_to_group_keys)

lemma add_to_group_mem:
  "distinct (map fst gs) \<Longrightarrow> (k, g) \<in> set (add_to_group p gs) \<longleftrightarrow>
     (if k = mc_category (po_value p)
      then (\<exists>h. (k, h) \<in> set gs \<and> g = h @ [p]) \<or> (k \<notin> fst ` set gs \<and> g = [p])
      else (k, g) \<in> set gs)"
  by (induction p gs rule: add_to_group.induct) (auto split: if_splits simp: image_iff, fastforce+)

lemma groups_are_filters:
  defines "groups \<equiv> \<lambda>ps. foldl (\<lambda>gs p. add_to_group p gs) [] ps"
  shows "distinct (map fst (groups ps)) \<and>
         (\<forall>k g. (k, g) \<in> set (groups ps) \<longleftrightarrow> g = filter (\<lambda>p. mc_category (po_value p) = k) ps \<and> g \<noteq> [])"
proof (induction ps rule: rev_induct)
  case (snoc p ps)
  have g: "groups (ps @ [p]) = add_to_group p (groups ps)" by (simp add: groups_def)
  have k: "k \<notin> fst ` set (groups ps) \<longleftrightarrow> filter (\<lambda>p. mc_category (po_value p) = k) ps = []" for k
    using snoc by (auto simp: image_iff) (metis fst_conv)
  show ?case using snoc unfolding g
    by (simp add: add_to_group_distinct add_to_group_mem k) (auto simp: filter_empty_conv)
qed (simp add: groups_def)

lemma winningGroup_Some:
  assumes "winningGroup ps = Some g"
  obtains k where "g = filter (\<lambda>p. mc_category (po_value p) = k) ps" "length g \<ge> 2"
proof -
  define gs where "gs = filter (\<lambda>g. length g \<ge> 2) (map snd (foldl (\<lambda>gs p. add_to_group p gs) [] ps))"
  from assms obtain r where "sort_key (\<lambda>g. - int (length g)) gs = g # r"
    by (auto simp: winningGroup_def gs_def[symmetric] Let_def split: list.splits)
  then have "g \<in> set (sort_key (\<lambda>g. - int (length g)) gs)" by (metis list.set_intros(1))
  then have "g \<in> set gs" by simp
  then obtain k where "(k, g) \<in> set (foldl (\<lambda>gs p. add_to_group p gs) [] ps)" "length g \<ge> 2"
    by (auto simp: gs_def)
  with groups_are_filters[of ps] that show ?thesis by blast
qed

lemma winningGroup_None:
  assumes "winningGroup ps = None"
  shows "length (filter (\<lambda>p. mc_category (po_value p) = k) ps) < 2"
proof (rule ccontr)
  let ?g = "filter (\<lambda>p. mc_category (po_value p) = k) ps"
  assume a: "\<not> length ?g < 2"
  then have "?g \<noteq> []" by auto
  define gs where "gs = filter (\<lambda>g. length g \<ge> 2) (map snd (foldl (\<lambda>gs p. add_to_group p gs) [] ps))"
  have "(k, ?g) \<in> set (foldl (\<lambda>gs p. add_to_group p gs) [] ps)"
    using groups_are_filters[of ps] \<open>?g \<noteq> []\<close> by blast
  then have "?g \<in> set gs" using a by (force simp: gs_def)
  then have "sort_key (\<lambda>g. - int (length g)) gs \<noteq> []" by (auto simp flip: set_empty)
  then show False using assms by (auto simp: winningGroup_def gs_def[symmetric] Let_def split: list.splits)
qed

section \<open>What an accepted consensus means\<close>

lemma mapM_res_mem: "mapM_res f xs = Inr ys \<Longrightarrow> y \<in> set ys \<Longrightarrow> \<exists>x \<in> set xs. f x = Inr y"
  by (induction xs arbitrary: ys) (auto simp: rbind_Inr_iff)

lemma mapM_res_length: "mapM_res f xs = Inr ys \<Longrightarrow> length ys = length xs"
  by (induction xs arbitrary: ys) (auto simp: rbind_Inr_iff)

lemma evaluate_pass_fields:
  assumes "evaluate_pass rec p = Inr q"
  shows "po_source q = fst p" "po_value q = snd p" "0 \<le> po_confidence q" "po_confidence q \<le> 1"
    "confidence (mc_confidence (snd p)) = Inr (po_confidence q)"
    "po_decision q = resolveCategoryCharge (charge_evidence (snd p) rec)"
  using assms
  by (auto simp: evaluate_pass_def rbind_Inr_iff projectedCharge_def confidence_def Let_def split: option.splits if_splits)

lemma foldl_min_le: "foldl min (c :: rat) cs \<in> set (c # cs) \<and> (\<forall>x \<in> set (c # cs). foldl min c cs \<le> x)"
proof (induction cs arbitrary: c)
  case (Cons a cs)
  from Cons[of "min c a"] show ?case by (auto simp: min_def split: if_splits)
qed simp

lemma min_confidence_mem: "ps \<noteq> [] \<Longrightarrow> min_confidence ps \<in> po_confidence ` set ps"
  using foldl_min_le[of "po_confidence (hd ps)" "map po_confidence (tl ps)"]
  by (cases ps) (auto simp: min_confidence_def)

lemma supporting_mem: "p \<in> set (supporting (Some g)) \<Longrightarrow> p \<in> set g"
  by (auto simp: supporting_def dest: in_set_takeD)

lemma supporting_length: "length (supporting (Some g)) = min (length g) 2"
  by (simp add: supporting_def)

lemma sharedDuration_Some:
  "sharedDuration g = Some p \<Longrightarrow>
     p \<in> set g \<and> length (filter (\<lambda>q. po_billableDurationMs q = po_billableDurationMs p) g) \<ge> 2"
  by (auto simp: sharedDuration_def find_Some_iff)

lemma sort_key_hd: "sort_key f xs = y # ys \<Longrightarrow> y \<in> set xs \<and> (\<forall>x \<in> set xs. f y \<le> (f x :: int))"
proof -
  assume e: "sort_key f xs = y # ys"
  have s: "set (y # ys) = set xs" using arg_cong[OF e, of set] by simp
  have "sorted_wrt (\<le>) (map f (y # ys))" using sorted_sort_key[of f xs] unfolding e by simp
  with s show ?thesis by auto
qed

lemma select_pass_Some:
  assumes "g \<noteq> []"
  obtains p where "select_pass g = Some p" "p \<in> set g"
    "length (filter (\<lambda>q. po_billableDurationMs q = po_billableDurationMs p) g) \<ge> 2 \<or>
     (\<forall>q \<in> set g. po_billableDurationMs p \<le> po_billableDurationMs q)"
proof (cases "sharedDuration g")
  case None
  have "sort_key po_billableDurationMs g \<noteq> []" using assms by (simp flip: set_empty)
  then obtain p ps where e: "sort_key po_billableDurationMs g = p # ps" by (cases "sort_key po_billableDurationMs g") auto
  from sort_key_hd[OF e] None e that show ?thesis by (simp add: select_pass_def)
next
  case (Some p)
  from sharedDuration_Some[OF Some] Some that show ?thesis by (simp add: select_pass_def)
qed

lemma consensus_accepted:
  assumes "evaluateAutomatedConsensus input = Inr r" and "cr_accepted r"
  obtains outputs g p k where
    "mapM_res (evaluate_pass (ci_recordedDurationMs input)) (passes input) = Inr outputs"
    "g = filter (\<lambda>q. mc_category (po_value q) = k) outputs" "length g \<ge> 2" "p \<in> set g"
    "cr_selectedClassification r = Some (po_value p)" "cr_selectedChargeDecision r = Some (po_decision p)"
    "cr_selectedSource r = Some (po_source p)"
    "length (filter (\<lambda>q. po_billableDurationMs q = po_billableDurationMs p) g) \<ge> 2 \<or>
     (\<forall>q \<in> set g. po_billableDurationMs p \<le> po_billableDurationMs q)"
    "\<forall>q \<in> set (supporting (Some g)). validation_threshold \<le> po_confidence q"
    "cr_effectiveConfidence r = toFixed 8 (min_confidence (supporting (Some g)))"
proof -
  from assms(1) obtain outputs where o: "mapM_res (evaluate_pass (ci_recordedDurationMs input)) (passes input) = Inr outputs"
    and r: "r = consensus_of input outputs"
    by (auto simp: evaluateAutomatedConsensus_def rbind_Inr_iff)
  from assms(2) have reasons: "consensus_reasons input (winningGroup outputs) = []"
    by (simp add: r consensus_of_def Let_def)
  then obtain g where w: "winningGroup outputs = Some g"
    by (auto simp: consensus_reasons_def split: option.splits)
  from winningGroup_Some[OF w] obtain k where k: "g = filter (\<lambda>q. mc_category (po_value q) = k) outputs" and l: "length g \<ge> 2"
    by blast
  from l have "g \<noteq> []" by auto
  then obtain p where p: "select_pass g = Some p" "p \<in> set g"
    "length (filter (\<lambda>q. po_billableDurationMs q = po_billableDurationMs p) g) \<ge> 2 \<or>
     (\<forall>q \<in> set g. po_billableDurationMs p \<le> po_billableDurationMs q)"
    by (rule select_pass_Some)
  have s: "supporting (Some g) \<noteq> []" using l supporting_length[of g] by auto
  have f: "\<forall>q \<in> set (supporting (Some g)). validation_threshold \<le> po_confidence q"
    using reasons by (auto simp: consensus_reasons_def w list_ex_iff not_less split: if_splits)
  show ?thesis
    by (rule that[OF o k l p(2) _ _ _ p(3) f]) (use s in \<open>simp_all add: r consensus_of_def Let_def reasons[unfolded w] w p(1)\<close>)
qed

definition billable_of :: "int \<Rightarrow> ModelClassification \<Rightarrow> int" where
  "billable_of recordedDurationMs c = (case projectedCharge c recordedDurationMs of Inr (_, b) \<Rightarrow> b | Inl _ \<Rightarrow> 0)"

lemma outputs_values:
  "mapM_res (evaluate_pass rec) ps = Inr outputs \<Longrightarrow>
   map po_value outputs = map snd ps \<and> (\<forall>q \<in> set outputs. po_billableDurationMs q = billable_of rec (po_value q))"
  by (induction ps arbitrary: outputs)
    (auto simp: rbind_Inr_iff evaluate_pass_def billable_of_def)

lemma accepted_confidence:
  assumes "evaluateAutomatedConsensus input = Inr r" and "cr_accepted r"
  shows "\<exists>v. decimalToScale8 (cr_effectiveConfidence r) name = Inr v \<and> 65000000 \<le> v"
proof -
  from assms obtain outputs g p k where
    o: "mapM_res (evaluate_pass (ci_recordedDurationMs input)) (passes input) = Inr outputs"
    and g: "g = filter (\<lambda>q. mc_category (po_value q) = k) outputs" and l: "length g \<ge> 2"
    and t: "\<forall>q \<in> set (supporting (Some g)). validation_threshold \<le> po_confidence q"
    and e: "cr_effectiveConfidence r = toFixed 8 (min_confidence (supporting (Some g)))"
    by (rule consensus_accepted)
  have "supporting (Some g) \<noteq> []" using l supporting_length[of g] by auto
  then obtain q where q: "q \<in> set (supporting (Some g))" "min_confidence (supporting (Some g)) = po_confidence q"
    using min_confidence_mem by blast
  then have "q \<in> set outputs" using supporting_mem g by fastforce
  then have b: "0 \<le> po_confidence q" "po_confidence q \<le> 1"
    using mapM_res_mem[OF o] evaluate_pass_fields(3,4) by blast+
  have "65000000 \<le> \<lfloor>po_confidence q * 10 ^ 8 + 1 / 2\<rfloor>"
    using t q(1) validation_threshold_bounds by (auto simp: le_floor_iff dest!: bspec)
  with decimalToScale8_toFixed[OF b] e q(2) show ?thesis by auto
qed

section \<open>A concrete consensus\<close>

definition demo_pass :: "int \<Rightarrow> ModelClassification" where
  "demo_pass ms =
     \<lparr> mc_model = \<lparr> model_provider = ''openai'', model_name = ''m'', model_version = ''1'' \<rparr>,
       mc_category = OK, mc_confidence = ''1'', mc_customerBlockNumbers = [2],
       mc_unclearBlockNumbers = [], mc_voicemailEvidenceBlockNumbers = Some [],
       mc_automationEvidenceBlockNumbers = Some [], mc_junkEvidenceBlockNumbers = Some [],
       mc_businessRelevantCustomerBlockNumbers = Some [], mc_customerSpoke = True,
       mc_lastMeaningfulCustomerExchangeMs = Some ms, mc_lastMeaningfulAgentExchangeMs = Some 6000,
       mc_firstAgentTurnEndMs = Some 6000, mc_lastVoicemailExchangeMs = None,
       mc_lastBusinessRelevantCustomerExchangeMs = None, mc_lastVerifiedInteractionMs = Some ms,
       mc_agentBlockNumbers = Some [1], mc_agentFailureStartBlockNumber = None, mc_agentFailureMode = None,
       mc_meaningfulServiceBeforeFailure = Some False, mc_failureStartMs = None, mc_remarks = [],
       mc_disputeRecommended = False, mc_decisionSignals = None \<rparr>"

definition demo_consensus_input :: ConsensusInput where
  "demo_consensus_input =
     \<lparr> ci_primary = demo_pass 20000, ci_secondary = demo_pass 20000, ci_adjudicator = None,
       ci_recordedDurationMs = 40000 \<rparr>"

lemma demo_confidence_one: "confidence ''1'' = Inr 1"
proof -
  have "js_Number ''1'' = Some 1"
    using fl_of_int[of 1]
    by (simp add: js_Number_def trim_def is_ws_def split_sign_def decimal_literal_def mantissa_value_def is_digit_def
        digit_val_def Let_def)
  then show ?thesis by (simp add: confidence_def)
qed

lemma threshold_le_one: "validation_threshold \<le> 1"
proof -
  let ?q = "65 / 100 :: rat"
  have "ulp ?q * 2 ^ 52 \<le> ?q" by (rule ulp_bound) simp
  then have "ulp ?q / 2 \<le> 35 / 100" by (simp add: field_simps)
  then show ?thesis
    using fl_error[of ?q] unfolding validation_threshold_def js_Number_threshold coalesce_simps by linarith
qed

lemma demo_pass_output:
  "evaluate_pass 40000 (src, demo_pass 20000) =
     Inr \<lparr> po_source = src, po_value = demo_pass 20000, po_confidence = 1,
           po_decision = resolveCategoryCharge (charge_evidence (demo_pass 20000) 40000),
           po_billableDurationMs = 60000 \<rparr>"
proof -
  have c: "confidence (mc_confidence (demo_pass 20000)) = Inr 1" by (simp add: demo_confidence_one demo_pass_def)
  have d: "cd_adjustedChargeableDurationMs (resolveCategoryCharge (charge_evidence (demo_pass 20000) 40000)) = 40000"
    by (simp add: resolveCategoryCharge_def charge_evidence_def demo_pass_def decision_def boundedEnd_def kserve_constants Let_def)
  have "roundKServeChargeableDuration 40000 = chargeForHalfMinutes 2"
    by (simp add: roundKServeChargeableDuration_def requireMilliseconds_def isSafeInteger_def MAX_SAFE_INTEGER_def kserve_constants)
  with c d show ?thesis
    by (simp add: evaluate_pass_def projectedCharge_def Let_def chargeForHalfMinutes_cases MAX_SAFE_INTEGER_def)
qed

lemma demo_consensus:
  "\<exists>r. evaluateAutomatedConsensus demo_consensus_input = Inr r \<and> cr_accepted r"
proof -
  have "mc_category (demo_pass 20000) = OK" by (simp add: demo_pass_def)
  with threshold_le_one show ?thesis
    by (simp add: evaluateAutomatedConsensus_def passes_def demo_consensus_input_def demo_pass_output consensus_of_def
        winningGroup_def consensus_reasons_def supporting_def Let_def)
qed

section \<open>Properties\<close>



end
