(* ===== verification/ValidationRun.thy ===== *)
theory ValidationRun
  imports Consensus
begin

text \<open>
  One call's automated validation (\<open>src/src/automation/validationRun.ts\<close>): a second opinion, the
  consensus, a third opinion when the first two do not settle the call, and the verified charge.
  The model ports are functions from a request to a raw classification or an error; the three
  database writes are recorded in order. The hash of the classifier's prompt document is an
  argument.
\<close>

record AutomatedValidationCandidate =
  vc_callId :: string
  vc_auditRunId :: string
  vc_language :: string
  vc_recordedDurationMs :: int
  vc_speechDurationMs :: int
  vc_connectedDurationMs :: "int option"
  vc_claimedDurationMs :: "int option"
  vc_primary :: ModelClassification
  vc_segments :: "TranscriptSegment list"
  vc_evidence :: "EvidenceHashReference list"

record classify_request =
  cq_blocks :: "NaturalSpeechBlock list"
  cq_language :: string
  cq_recordedDurationMs :: int
  cq_speechDurationMs :: int
  cq_connectedDurationMs :: "int option"
  cq_durationMismatch :: bool

type_synonym classifier_port = "classify_request \<Rightarrow> RawClassification res"

definition REAUDIT_CLASSIFIER_RULESET_VERSION :: string where
  "REAUDIT_CLASSIFIER_RULESET_VERSION = ''kairali-12cat/2.12.0''"

definition duration_mismatch :: "int option \<Rightarrow> int \<Rightarrow> bool" where
  "duration_mismatch connectedDurationMs recordedDurationMs =
     (case connectedDurationMs of None \<Rightarrow> False | Some c \<Rightarrow> \<bar>c - recordedDurationMs\<bar> > 5000)"

text \<open>Validate, repair once, validate again.\<close>

definition validate_or_repair ::
  "cue_tests \<Rightarrow> RawClassification \<Rightarrow> NaturalSpeechBlock list \<Rightarrow> int \<Rightarrow> bool \<Rightarrow> js_error \<Rightarrow> ModelClassification res" where
  "validate_or_repair cues raw blocks recordedDurationMs durationMismatch failure =
     (case validateClassification cues raw blocks recordedDurationMs durationMismatch of
        Inr c \<Rightarrow> Inr c
      | Inl _ \<Rightarrow>
          (case validateClassification cues (repairClassification cues raw blocks durationMismatch)
                  blocks recordedDurationMs durationMismatch of
             Inr c \<Rightarrow> Inr c
           | Inl _ \<Rightarrow> Inl failure))"

definition classify ::
  "cue_tests \<Rightarrow> AutomatedValidationCandidate \<Rightarrow> NaturalSpeechBlock list \<Rightarrow> classifier_port \<Rightarrow> ModelClassification res" where
  "classify cues candidate blocks ai =
     (let mismatch = duration_mismatch (vc_connectedDurationMs candidate) (vc_recordedDurationMs candidate) in
      rbind (ai \<lparr> cq_blocks = blocks, cq_language = vc_language candidate,
                  cq_recordedDurationMs = vc_recordedDurationMs candidate,
                  cq_speechDurationMs = vc_speechDurationMs candidate,
                  cq_connectedDurationMs = vc_connectedDurationMs candidate,
                  cq_durationMismatch = mismatch \<rparr>) (\<lambda>raw.
      validate_or_repair cues raw blocks (vc_recordedDurationMs candidate) mismatch
        (PlainError ''Consensus classification output is unrecoverable'')))"

definition agentFailureTrace :: "ModelClassification \<Rightarrow> AgentFailureEvidence option" where
  "agentFailureTrace c =
     (if mc_category c = AGENT_FAILURE
      then Some \<lparr> af_mode = mc_agentFailureMode c,
                  af_meaningfulServiceBeforeFailure = (mc_meaningfulServiceBeforeFailure c = Some True),
                  af_failureStartMs = mc_failureStartMs c \<rparr>
      else None)"

definition pass_json :: "ModelClassification \<Rightarrow> int option \<Rightarrow> json" where
  "pass_json c billableDurationMs = JObj
     ([(''model'', model_json (mc_model c)),
       (''category'', JStr (category_text (mc_category c))),
       (''confidence'', JStr (mc_confidence c)),
       (''customerSpoke'', JBool (mc_customerSpoke c)),
       (''lastMeaningfulCustomerExchangeMs'', json_int_opt (mc_lastMeaningfulCustomerExchangeMs c))] @
      json_opt_entry ''agentFailure'' agentFailure_json (agentFailureTrace c) @
      [(''billableDurationMs'', json_int_opt billableDurationMs)])"

definition validation_trace_json ::
  "AutomatedValidationCandidate \<Rightarrow> ModelClassification \<Rightarrow> ModelClassification option \<Rightarrow> ConsensusResult \<Rightarrow> json" where
  "validation_trace_json candidate secondary adjudication consensus = JObj
     [(''version'', JStr AUTOMATED_VALIDATION_VERSION),
      (''threshold'', JStr AUTOMATED_VALIDATION_THRESHOLD),
      (''primary'', pass_json (vc_primary candidate) (Some (cr_primaryBillableDurationMs consensus))),
      (''secondary'', pass_json secondary (Some (cr_secondaryBillableDurationMs consensus))),
      (''adjudicator'', (case adjudication of None \<Rightarrow> JNull
                         | Some a \<Rightarrow> pass_json a (cr_adjudicatorBillableDurationMs consensus))),
      (''outcome'', JObj
        [(''status'', JStr (if cr_accepted consensus then ''accepted'' else ''unresolved'')),
         (''reasons'', JArr (map JStr (cr_reasons consensus)))])]"

definition categoryCharge_of :: "runtime \<Rightarrow> ModelClassification \<Rightarrow> CategoryChargeDecision \<Rightarrow> CategoryCharge" where
  "categoryCharge_of rt c d =
     \<lparr> cc_category = mc_category c, cc_serviceEndMs = cd_serviceEndMs d, cc_graceMs = cd_graceMs d,
       cc_policyCode = policy_text (cd_policyCode d), cc_policyVersion = CATEGORY_CHARGE_POLICY_VERSION,
       cc_policySha256 = CATEGORY_CHARGE_POLICY_SHA256 rt, cc_agentFailure = agentFailureTrace c \<rparr>"

definition validation_input ::
  "runtime \<Rightarrow> string \<Rightarrow> AutomatedValidationCandidate \<Rightarrow> ConsensusResult \<Rightarrow> string \<Rightarrow> string \<Rightarrow> VerifiedBillingInput" where
  "validation_input rt classifierSha candidate consensus validationTraceSha256 decidedAt =
     (let selected = cr_selectedClassification consensus in
      \<lparr> in_callId = vc_callId candidate,
        in_auditRunId = vc_auditRunId candidate,
        in_claimedDurationMs = vc_claimedDurationMs candidate,
        in_connectedDurationMs = vc_connectedDurationMs candidate,
        in_recordedDurationMs = vc_recordedDurationMs candidate,
        in_speechDurationMs = Some (vc_speechDurationMs candidate),
        in_conversationAssessment =
          (if (case selected of None \<Rightarrow> False | Some c \<Rightarrow> mc_customerSpoke c) then Established else No_meaningful_exchange),
        in_lastMeaningfulCustomerExchangeMs =
          (case selected of None \<Rightarrow> None | Some c \<Rightarrow> mc_lastMeaningfulCustomerExchangeMs c),
        in_categoryCharge =
          (case (selected, cr_selectedChargeDecision consensus) of
             (Some c, Some d) \<Rightarrow> Some (categoryCharge_of rt c d) | _ \<Rightarrow> None),
        in_model = (case selected of None \<Rightarrow> mc_model (vc_primary candidate) | Some c \<Rightarrow> mc_model c),
        in_classifierRulesetVersion = REAUDIT_CLASSIFIER_RULESET_VERSION,
        in_classifierRulesetSha256 = classifierSha,
        in_evidence = vc_evidence candidate,
        in_authority =
          \<lparr> au_calibrationVersion = Some AUTOMATED_VALIDATION_VERSION,
            au_calibrationComplete = cr_accepted consensus,
            au_validationMethod = Some ''automated_consensus'',
            au_validationTraceSha256 = Some validationTraceSha256,
            au_confidence = cr_effectiveConfidence consensus,
            au_threshold = Some AUTOMATED_VALIDATION_THRESHOLD,
            au_language = vc_language candidate,
            au_findingType = category_text
              (case selected of None \<Rightarrow> mc_category (vc_primary candidate) | Some c \<Rightarrow> mc_category c),
            au_sensitivityTier = ''K0'', au_recheckAttempt = 1, au_maximumRechecks = 3 \<rparr>,
        in_calculatedAt = decidedAt \<rparr>)"

datatype validation_write =
    PersistValidation ConsensusResult
  | PersistBilling VerifiedBillingInput VerifiedBillingResult
  | FinalizeFindings string

record AutomatedValidationOutcome =
  vo_callId :: string
  vo_accepted :: bool
  vo_reasons :: "string list"
  vo_billingFinal :: bool
  vo_amount :: "string option"
  vo_policyCode :: "CategoryChargePolicyCode option"

definition consensus_passes ::
  "cue_tests \<Rightarrow> AutomatedValidationCandidate \<Rightarrow> NaturalSpeechBlock list \<Rightarrow> classifier_port \<Rightarrow> classifier_port option \<Rightarrow>
   (ModelClassification \<times> ModelClassification option \<times> ConsensusResult) res" where
  "consensus_passes cues candidate blocks reviewer adjudicator =
     (let input = (\<lambda>s a. \<lparr> ci_primary = vc_primary candidate, ci_secondary = s, ci_adjudicator = a,
                           ci_recordedDurationMs = vc_recordedDurationMs candidate \<rparr>)
      in rbind (classify cues candidate blocks reviewer) (\<lambda>secondary.
         rbind (evaluateAutomatedConsensus (input secondary None)) (\<lambda>consensus.
         case adjudicator of
           None \<Rightarrow> Inr (secondary, None, consensus)
         | Some third \<Rightarrow>
             if cr_accepted consensus then Inr (secondary, None, consensus)
             else rbind (classify cues candidate blocks third) (\<lambda>adjudication.
                  rbind (evaluateAutomatedConsensus (input secondary (Some adjudication))) (\<lambda>consensus'.
                  Inr (secondary, Some adjudication, consensus'))))))"

definition billing_final :: "VerifiedBillingResult \<Rightarrow> bool" where
  "billing_final b = (case b of Final _ \<Rightarrow> True | Unresolved _ \<Rightarrow> False)"

definition validation_outcome ::
  "AutomatedValidationCandidate \<Rightarrow> ConsensusResult \<Rightarrow> VerifiedBillingResult \<Rightarrow> AutomatedValidationOutcome" where
  "validation_outcome candidate consensus billing =
     \<lparr> vo_callId = vc_callId candidate,
       vo_accepted = cr_accepted consensus,
       vo_reasons = cr_reasons consensus,
       vo_billingFinal = billing_final billing,
       vo_amount = (case billing of Final fb \<Rightarrow> Some (fb_amount fb) | Unresolved _ \<Rightarrow> None),
       vo_policyCode = map_option cd_policyCode (cr_selectedChargeDecision consensus) \<rparr>"

text \<open>The run: the writes it issued, in order, and the outcome or the error it threw.\<close>

definition runAutomatedValidation ::
  "runtime \<Rightarrow> cue_tests \<Rightarrow> string \<Rightarrow> AutomatedValidationCandidate \<Rightarrow> classifier_port \<Rightarrow> classifier_port option \<Rightarrow>
   PublishedRateCard \<Rightarrow> string \<Rightarrow> bool \<Rightarrow> validation_write list \<times> AutomatedValidationOutcome res" where
  "runAutomatedValidation rt cues classifierSha candidate reviewer adjudicator rateCard decidedAt dryRun =
     (case rbind (mergeTranscriptSegments (vc_segments candidate)) (\<lambda>blocks.
             consensus_passes cues candidate blocks reviewer adjudicator) of
        Inl e \<Rightarrow> ([], Inl e)
      | Inr (secondary, adjudication, consensus) \<Rightarrow>
          let persisted = (if dryRun then [] else [PersistValidation consensus]) in
          case rbind (canonicalJsonSha256 (sha256Hex rt)
                        (validation_trace_json candidate secondary adjudication consensus)) (\<lambda>sha.
               let input = validation_input rt classifierSha candidate consensus sha decidedAt in
               rbind (calculateVerifiedKServeCharge rt input rateCard) (\<lambda>billing. Inr (input, billing))) of
            Inl e \<Rightarrow> (persisted, Inl e)
          | Inr (input, billing) \<Rightarrow>
              (persisted @
               (if dryRun then []
                else PersistBilling input billing #
                     (if billing_final billing then [FinalizeFindings (vc_callId candidate)] else [])),
               Inr (validation_outcome candidate consensus billing)))"

section \<open>A validated classification meets the engine's category rule\<close>

lemmas engine_shape = structurallyValid_def categoryCharge_of_def resolveCategoryCharge_def decision_def boundedEnd_def
  charged_shape_def uncharged_shape_def zeroShape_def failureMode_def agentFailureTrace_def policy_constants Let_def

lemma structurallyValid_resolved:
  fixes e :: CategoryChargeEvidence
  assumes c: "mc_category c = ce_category e" and "0 < ce_recordedDurationMs e"
    and fm: "mc_agentFailureMode c = ce_agentFailureMode e" "mc_failureStartMs c = ce_failureStartMs e"
      "(mc_meaningfulServiceBeforeFailure c = Some True) = ce_meaningfulServiceBeforeFailure e"
    and mid: "ce_category e = AGENT_FAILURE \<Longrightarrow> ce_agentFailureMode e = Some Mid_conversation \<Longrightarrow> agent_failure_chargeable e"
    and silence: "ce_category e = USER_SILENCE \<Longrightarrow> \<exists>x > 0. ce_firstAgentTurnEndMs e = Some x"
    and voicemail: "ce_category e = VOICEMAIL \<Longrightarrow>
      0 < max (coalesce (ce_lastAgentExchangeMs e) 0) (coalesce (ce_lastVoicemailExchangeMs e) 0)"
    and junk: "\<And>x. ce_lastBusinessRelevantCustomerExchangeMs e = Some x \<Longrightarrow> 0 < x"
    and verified: "\<And>x. ce_lastVerifiedInteractionMs e = Some x \<Longrightarrow> 0 < x"
    and standard: "ce_category e \<in> {OK, CONNECT_NOT_FRUITFUL, TIME_DURATION} \<Longrightarrow>
      \<exists>x > 0. ce_lastCustomerExchangeMs e = Some x"
  shows "structurallyValid (categoryCharge_of rt c (resolveCategoryCharge e))"
proof (cases "ce_category e \<in> {OK, CONNECT_NOT_FRUITFUL, TIME_DURATION}")
  case True
  with standard obtain x where "0 < x" "ce_lastCustomerExchangeMs e = Some x" by auto
  with True c assms(2) show ?thesis by (auto simp: engine_shape)
next
  case False
  then show ?thesis
  proof (cases "ce_category e")
    case AGENT_FAILURE
    show ?thesis
    proof (cases "agent_failure_chargeable e")
      case True
      then obtain f where "ce_failureStartMs e = Some f" "0 < f" "f \<le> ce_recordedDurationMs e"
        "ce_agentFailureMode e = Some Mid_conversation" "ce_meaningfulServiceBeforeFailure e"
        by (auto simp: agent_failure_chargeable_def split: option.splits)
      with AGENT_FAILURE True c fm show ?thesis by (simp add: engine_shape)
    qed (use AGENT_FAILURE mid c fm in \<open>auto simp: engine_shape\<close>)
  next
    case USER_SILENCE
    with silence obtain x where "0 < x" "ce_firstAgentTurnEndMs e = Some x" by blast
    with USER_SILENCE c assms(2) show ?thesis by (simp add: engine_shape)
  next
    case VOICEMAIL
    define m where "m = max (coalesce (ce_lastAgentExchangeMs e) 0) (coalesce (ce_lastVoicemailExchangeMs e) 0)"
    have "0 < m" using voicemail[OF VOICEMAIL] by (simp add: m_def)
    with VOICEMAIL c assms(2) show ?thesis by (simp add: engine_shape m_def[symmetric])
  next
    case JUNK_CALL
    with junk c assms(2) show ?thesis by (auto simp: engine_shape split: option.splits)
  next
    case INCORRECT_CALL_DURATION
    with verified c assms(2) show ?thesis by (auto simp: engine_shape split: option.splits)
  qed (use c in \<open>simp_all add: engine_shape\<close>)
qed

lemma validated_fields:
  assumes "c = validated raw r cat signals blocks rec"
  shows "mc_category c = cat"
    "mc_lastMeaningfulCustomerExchangeMs c = max_opt (ends_of blocks (\<lambda>n. n \<in> set (br_customer r)) rec)"
    "mc_lastMeaningfulAgentExchangeMs c = max_opt (ends_of blocks (\<lambda>n. n \<in> set (br_agent r)) rec)"
    "mc_firstAgentTurnEndMs c = firstAgentTurnEnd blocks (br_agent r) rec"
    "mc_lastVoicemailExchangeMs c = max_opt (ends_of blocks (\<lambda>n. n \<in> set (br_voicemail r)) rec)"
    "mc_agentBlockNumbers c = Some (br_agent r)" "mc_voicemailEvidenceBlockNumbers c = Some (br_voicemail r)"
    "mc_customerBlockNumbers c = br_customer r"
  unfolding assms by (simp_all add: validated_def Let_def)

lemma effective_signals_Some: "mc_decisionSignals raw = Some s \<Longrightarrow> \<exists>t. effective_signals (mc_decisionSignals raw) cs = Some t"
  by (simp add: effective_signals_def)

lemma validated_charge_shape:
  assumes v: "validateClassification cues raw blocks rec mismatch = Inr c" and n: "numbered blocks"
    and pos: "\<And>b. b \<in> set blocks \<Longrightarrow> 0 < bl_endMs b" and rec: "0 < rec" "rec \<le> MAX_SAFE_INTEGER"
    and sig: "mc_decisionSignals raw = Some s"
    and vm: "mc_category c = VOICEMAIL \<Longrightarrow>
      coalesce (mc_agentBlockNumbers c) [] \<noteq> [] \<or> coalesce (mc_voicemailEvidenceBlockNumbers c) [] \<noteq> []"
  shows "structurallyValid (categoryCharge_of rt c (resolveCategoryCharge (charge_evidence c rec)))"
proof -
  from v obtain proposed r signals where r: "r = assign_roles cues raw proposed blocks"
    and sg: "signals = effective_signals (mc_decisionSignals raw) (br_customer r)"
    and checks: "list_all (\<lambda>c. \<not> fst c) (role_checks r (int (length blocks)))"
    and rev: "resolveReviewedCategory (review_of r proposed signals
       (length (ends_of blocks (\<lambda>n. n \<in> set (br_agent r)) rec)) mismatch) = Inr (mc_category c)"
    and silence: "list_all (\<lambda>c. \<not> fst c) (silence_checks r (mc_category c))"
    and c: "c = validated raw r (mc_category c) signals blocks rec"
    by (rule validateE)
  note f = validated_fields[OF c] and d = roles_disjoint[OF r checks]
  have endpoint: "0 < x" if "Some x \<in> {mc_lastMeaningfulCustomerExchangeMs c, mc_lastMeaningfulAgentExchangeMs c,
                mc_firstAgentTurnEndMs c, mc_lastVoicemailExchangeMs c,
                mc_lastBusinessRelevantCustomerExchangeMs c, mc_lastVerifiedInteractionMs c}" for x
    using validated_endpoint[OF that c] pos rec by auto
  have some: "\<exists>x > 0. max_opt (ends_of blocks (\<lambda>n. n \<in> set ns) rec) = Some x"
    if ns: "ns \<noteq> []" "set ns \<subseteq> {1..int (length blocks)}" for ns
  proof -
    obtain x where x: "max_opt (ends_of blocks (\<lambda>n. n \<in> set ns) rec) = Some x"
      using ns(1) max_opt_bounds(1) ends_of_Nil_iff[OF n ns(2), of rec] by (meson not_None_eq)
    with max_ends[OF x] pos rec show ?thesis by auto
  qed
  show ?thesis
  proof (rule structurallyValid_resolved)
    assume "ce_category (charge_evidence c rec) = AGENT_FAILURE"
      and "ce_agentFailureMode (charge_evidence c rec) = Some Mid_conversation"
    then have m: "mc_category c = AGENT_FAILURE" "mc_agentFailureMode c = Some Mid_conversation"
      by (simp_all add: charge_evidence_def)
    have "fe_mode (resolveAgentFailureEvidence (mc_category c) blocks (br_customer r) (br_agent r)
      (case signals of None \<Rightarrow> None | Some s \<Rightarrow> ds_agentFailureMode s) (mc_agentFailureStartBlockNumber raw) rec) =
      Some Mid_conversation"
      using m(2) by (subst (asm) c) (simp add: validated_def Let_def)
    then obtain ms where "mc_failureStartMs c = Some ms" "mc_meaningfulServiceBeforeFailure c = Some True"
      "servedBefore blocks (br_customer r) (br_agent r) ms" "ms \<le> rec"
      by (rule resolveAgentFailure_mid) (rule that, (subst c, simp add: validated_def Let_def)+)
    then show "agent_failure_chargeable (charge_evidence c rec)"
      using m(2) by (simp add: agent_failure_chargeable_def charge_evidence_def servedBefore_def)
  next
    assume "ce_category (charge_evidence c rec) = USER_SILENCE"
    then have "mc_category c = USER_SILENCE" by (simp add: charge_evidence_def)
    then have "br_agent r \<noteq> []" using silence by (simp add: silence_checks_def)
    then obtain x where "firstAgentTurnEnd blocks (br_agent r) rec = Some x"
      using firstAgentTurnEnd_cases(1) ends_of_Nil_iff[OF n, of "br_agent r" rec] d(5) by fastforce
    then show "\<exists>x > 0. ce_firstAgentTurnEndMs (charge_evidence c rec) = Some x"
      using endpoint[of x] f(4) by (simp add: charge_evidence_def)
  next
    assume "ce_category (charge_evidence c rec) = VOICEMAIL"
    then have "br_agent r \<noteq> [] \<or> br_voicemail r \<noteq> []"
      using vm f(6,7) by (simp add: charge_evidence_def)
    then show "0 < max (coalesce (ce_lastAgentExchangeMs (charge_evidence c rec)) 0)
       (coalesce (ce_lastVoicemailExchangeMs (charge_evidence c rec)) 0)"
      using some[of "br_agent r"] some[of "br_voicemail r"] d(5) f(3,5)
      by (auto simp: charge_evidence_def less_max_iff_disj)
  next
    assume std: "ce_category (charge_evidence c rec) \<in> {OK, CONNECT_NOT_FRUITFUL, TIME_DURATION}"
    obtain t where "signals = Some t" using effective_signals_Some[OF sig] sg by blast
    with reviewed_category_customer[OF rev, of t "length (ends_of blocks (\<lambda>n. n \<in> set (br_agent r)) rec)"] std
    have "br_customer r \<noteq> []"
      by (auto simp: review_of_def charge_evidence_def)
    then show "\<exists>x > 0. ce_lastCustomerExchangeMs (charge_evidence c rec) = Some x"
      using some[of "br_customer r"] d(5) f(2) by (simp add: charge_evidence_def)
  qed (use endpoint rec in \<open>simp_all add: charge_evidence_def\<close>)
qed

section \<open>The run decides money exactly when the consensus is accepted\<close>

lemma validation_authorised:
  assumes "evaluateAutomatedConsensus i = Inr consensus"
  shows "authorised (validation_input rt sha candidate consensus tr decidedAt) \<longleftrightarrow> cr_accepted consensus"
proof (cases "cr_accepted consensus")
  case True
  obtain v where "decimalToScale8 (cr_effectiveConfidence consensus) ''authority.confidence'' = Inr v" "65000000 \<le> v"
    using accepted_confidence[OF assms True] by blast
  with True threshold_scaled[of "''authority.threshold''"] show ?thesis
    by (simp add: authorised_def validation_input_def Let_def)
qed (simp add: authorised_def validation_input_def Let_def)

lemma consensus_passes_result:
  assumes "consensus_passes cues candidate blocks reviewer adjudicator = Inr (s, a, consensus)"
  shows "\<exists>i. evaluateAutomatedConsensus i = Inr consensus"
  using assms by (auto simp: consensus_passes_def Let_def rbind_Inr_iff split: option.splits if_splits)

lemma run_cases:
  assumes "runAutomatedValidation rt cues sha candidate reviewer adjudicator rateCard decidedAt dryRun = (ws, Inr out)"
  obtains i s a consensus input billing where
    "evaluateAutomatedConsensus i = Inr consensus" "input = validation_input rt sha candidate consensus
       (sha256Hex rt (canonical (validation_trace_json candidate s a consensus))) decidedAt"
    "calculateVerifiedKServeCharge rt input rateCard = Inr billing"
    "out = validation_outcome candidate consensus billing"
    "ws = (if dryRun then [] else [PersistValidation consensus, PersistBilling input billing] @
             (if billing_final billing then [FinalizeFindings (vc_callId candidate)] else []))"
proof -
  obtain s a consensus where p: "rbind (mergeTranscriptSegments (vc_segments candidate)) (\<lambda>blocks.
             consensus_passes cues candidate blocks reviewer adjudicator) = Inr (s, a, consensus)"
    using assms by (auto simp: runAutomatedValidation_def split: sum.splits)
  then obtain i where i: "evaluateAutomatedConsensus i = Inr consensus"
    using consensus_passes_result by (auto simp: rbind_Inr_iff, blast)
  have j: "finite_json (validation_trace_json candidate s a consensus)"
    by (auto simp: validation_trace_json_def pass_json_def json_opt_entry_def list_all_iff split: option.splits)
  show ?thesis
    using assms that[OF i refl] p j
    by (auto simp: runAutomatedValidation_def Let_def rbind_Inr_iff split: sum.splits if_splits)
qed

section \<open>Concrete runs\<close>

definition demo_candidate :: "ModelClassification \<Rightarrow> AutomatedValidationCandidate" where
  "demo_candidate primary =
     \<lparr> vc_callId = ''call'', vc_auditRunId = ''run'', vc_language = ''hi'', vc_recordedDurationMs = 30000,
       vc_speechDurationMs = 18000, vc_connectedDurationMs = Some 30000, vc_claimedDurationMs = Some 60000,
       vc_primary = primary, vc_segments = demo_segments,
       vc_evidence = [\<lparr> ev_kind = Audio, ev_sha256 = replicate 64 (CHR ''b''), ev_referenceId = ''a1'' \<rparr>] \<rparr>"

text \<open>Customer speech only, an unclear counterparty, and a voicemail category the model proposed without evidence.\<close>

definition demo_voicemail_signals :: ClassificationDecisionSignals where
  "demo_voicemail_signals = demo_signals
     \<lparr> ds_counterpartyType := Some ''unclear'', ds_agentHandling := Some ''unclear'',
       ds_conversationOutcome := Some ''unclear'', ds_agentFailureMode := Some ''none'' \<rparr>"

definition demo_voicemail_raw :: RawClassification where
  "demo_voicemail_raw = demo_raw
     \<lparr> mc_category := ''VOICEMAIL'', mc_confidence := ''1'', mc_agentBlockNumbers := Some [],
       mc_decisionSignals := Some demo_voicemail_signals \<rparr>"

lemma demo_voicemail_fields:
  "ds_counterpartyType demo_voicemail_signals = Some ''unclear''" "ds_agentHandling demo_voicemail_signals = Some ''unclear''"
  "ds_conversationOutcome demo_voicemail_signals = Some ''unclear''" "ds_durationOutcome demo_voicemail_signals = Some ''appropriate''"
  "ds_stopIntent demo_voicemail_signals = Some ''none''" "ds_postStopBehavior demo_voicemail_signals = Some ''not_applicable''"
  "ds_successfulOutcome demo_voicemail_signals = Some ''none''" "ds_voicemailEvidence demo_voicemail_signals = Some ''none''"
  "ds_automationEvidence demo_voicemail_signals = Some ''none''" "ds_junkEvidence demo_voicemail_signals = Some ''none''"
  "ds_agentFailureMode demo_voicemail_signals = Some ''none''"
  by (simp_all add: demo_voicemail_signals_def demo_signals_def)

lemma demo_voicemail_validated:
  "\<exists>c. validateClassification demo_cues demo_voicemail_raw demo_blocks 30000 False = Inr c \<and>
       mc_category c = VOICEMAIL \<and> mc_confidence c = ''1'' \<and> mc_lastMeaningfulAgentExchangeMs c = None \<and>
       mc_lastVoicemailExchangeMs c = None \<and> mc_customerSpoke c \<and> mc_lastMeaningfulCustomerExchangeMs c = Some 20000 \<and>
       mc_model c = \<lparr> model_provider = ''openai'', model_name = ''m'', model_version = ''1'' \<rparr>"
proof -
  have p: "parse_category (mc_category demo_voicemail_raw) = Some VOICEMAIL"
    by (simp add: parse_category_def REAUDIT_CATEGORIES_def demo_voicemail_raw_def)
  have d: "decimal_0_1 (mc_confidence demo_voicemail_raw)"
    by (simp add: decimal_0_1_def decimal_shape_def whole_part_def is_digit_def demo_voicemail_raw_def)
  have a: "assign_roles demo_cues demo_voicemail_raw VOICEMAIL demo_blocks =
     \<lparr> br_rawCustomer = [2], br_customer = [2], br_unclear = [], br_voicemail = [], br_automation = [],
       br_junk = [], br_business = [], br_rawAgent = [], br_agent = [], br_rawUnclear = [] \<rparr>"
    by (simp add: assign_roles_def Let_def demo_voicemail_raw_def demo_raw_def demo_blocks_def normalizeBlocks_def
        deterministicCustomerBlockNumbers_def demo_voicemail_fields counterparty_def)
  have s: "effective_signals (mc_decisionSignals demo_voicemail_raw) [2] = Some demo_voicemail_signals"
    by (simp add: effective_signals_def demo_voicemail_raw_def demo_voicemail_fields)
  have v: "validateDecisionSignals demo_voicemail_signals = Inr ()"
    by (simp add: validateDecisionSignals_def DECISION_SIGNAL_VALUES_def demo_voicemail_fields)
  have r: "resolveReviewedCategory \<lparr> ro_proposedCategory = VOICEMAIL, ro_decisionSignals = Some demo_voicemail_signals,
       ro_customerBlockCount = 1, ro_agentBlockCount = Some 0, ro_voicemailEvidenceBlockCount = Some 0,
       ro_automationEvidenceBlockCount = Some 0, ro_junkEvidenceBlockCount = Some 0,
       ro_durationMismatch = False \<rparr> = Inr VOICEMAIL"
    by (simp add: resolveReviewedCategory_def v has_counterparty_conflict_def junk_or_conversation_def asserted_def
        no_customer_or_conversation_def conversation_category_def demo_voicemail_fields)
  show ?thesis
    using p d a s r
    by (simp add: validateClassification_def Let_def role_checks_def review_of_def silence_checks_def
        validated_def ends_of_def demo_blocks_def max_opt_def) (simp add: demo_voicemail_raw_def demo_raw_def)
qed

lemma unpriced_pass:
  assumes "mc_category c = VOICEMAIL" "mc_confidence c = ''1''" "mc_lastMeaningfulAgentExchangeMs c = None"
    "mc_lastVoicemailExchangeMs c = None"
  shows "evaluate_pass 30000 (src, c) =
     Inr \<lparr> po_source = src, po_value = c, po_confidence = 1,
           po_decision = \<lparr> cd_policyCode = NO_VERIFIED_CHARGEABLE_INTERACTION, cd_serviceEndMs = 0, cd_graceMs = 0,
                           cd_adjustedChargeableDurationMs = 0 \<rparr>,
           po_billableDurationMs = 0 \<rparr>"
proof -
  have d: "resolveCategoryCharge (charge_evidence c 30000) =
      \<lparr> cd_policyCode = NO_VERIFIED_CHARGEABLE_INTERACTION, cd_serviceEndMs = 0, cd_graceMs = 0,
        cd_adjustedChargeableDurationMs = 0 \<rparr>"
    using assms by (simp add: resolveCategoryCharge_def charge_evidence_def decision_def boundedEnd_def Let_def)
  have "roundKServeChargeableDuration 0 = chargeForHalfMinutes 0"
    by (simp add: roundKServeChargeableDuration_def requireMilliseconds_def isSafeInteger_def MAX_SAFE_INTEGER_def)
  with d demo_confidence_one assms(2) show ?thesis
    by (simp add: evaluate_pass_def projectedCharge_def Let_def chargeForHalfMinutes_cases MAX_SAFE_INTEGER_def)
qed

section \<open>Accepted runs are priced\<close>

definition candidate_ok :: "runtime \<Rightarrow> string \<Rightarrow> string \<Rightarrow> AutomatedValidationCandidate \<Rightarrow> bool" where
  "candidate_ok rt classifierSha decidedAt candidate \<longleftrightarrow>
     trim (vc_callId candidate) \<noteq> [] \<and> trim (vc_auditRunId candidate) \<noteq> [] \<and>
     0 < vc_recordedDurationMs candidate \<and> vc_recordedDurationMs candidate \<le> MAX_SAFE_INTEGER - 60000 \<and>
     ms_ok (vc_speechDurationMs candidate) \<and>
     (case vc_connectedDurationMs candidate of None \<Rightarrow> True | Some c \<Rightarrow> ms_ok c) \<and>
     (case vc_claimedDurationMs candidate of None \<Rightarrow> True | Some c \<Rightarrow> ms_ok c) \<and>
     vc_evidence candidate \<noteq> [] \<and>
     list_all (\<lambda>e. trim (ev_referenceId e) \<noteq> [] \<and> is_sha256 (ev_sha256 e)) (vc_evidence candidate) \<and>
     is_sha256 classifierSha \<and> date_parse rt decidedAt \<noteq> None \<and>
     is_sha256 (CATEGORY_CHARGE_POLICY_SHA256 rt)"

definition classification_ok :: "int \<Rightarrow> ModelClassification \<Rightarrow> bool" where
  "classification_ok rec c \<longleftrightarrow>
     trim (model_provider (mc_model c)) \<noteq> [] \<and> trim (model_name (mc_model c)) \<noteq> [] \<and>
     trim (model_version (mc_model c)) \<noteq> [] \<and>
     (case mc_lastMeaningfulCustomerExchangeMs c of
        None \<Rightarrow> \<not> mc_customerSpoke c
      | Some x \<Rightarrow> mc_customerSpoke c \<and> 0 < x \<and> x \<le> rec)"

lemma evidence_checks_ok:
  "list_all (\<lambda>c. \<not> fst c) (evidence_checks i es) \<longleftrightarrow>
   list_all (\<lambda>e. trim (ev_referenceId e) \<noteq> [] \<and> is_sha256 (ev_sha256 e)) es"
  by (induction i es rule: evidence_checks.induct) (auto simp: requireText_def requireSha256_def)

lemma policy_text_known: "policy_text p \<in> set CATEGORY_CHARGE_POLICY_CODES"
  by (cases p) (simp_all add: CATEGORY_CHARGE_POLICY_CODES_def)

lemma validation_input_fields:
  assumes "cr_selectedClassification consensus = Some c" and "cr_selectedChargeDecision consensus = Some d"
  shows "in_categoryCharge (validation_input rt sha candidate consensus tr at') = Some (categoryCharge_of rt c d)"
    "in_lastMeaningfulCustomerExchangeMs (validation_input rt sha candidate consensus tr at') = mc_lastMeaningfulCustomerExchangeMs c"
    "in_conversationAssessment (validation_input rt sha candidate consensus tr at') =
       (if mc_customerSpoke c then Established else No_meaningful_exchange)"
    "in_model (validation_input rt sha candidate consensus tr at') = mc_model c"
  using assms by (simp_all add: validation_input_def Let_def)

lemma validation_input_valid:
  assumes ok: "candidate_ok rt sha decidedAt candidate"
    and c: "cr_selectedClassification consensus = Some c" and cok: "classification_ok (vc_recordedDurationMs candidate) c"
    and d: "cr_selectedChargeDecision consensus = Some (resolveCategoryCharge (charge_evidence c (vc_recordedDurationMs candidate)))"
    and shape: "structurallyValid (categoryCharge_of rt c (resolveCategoryCharge (charge_evidence c (vc_recordedDurationMs candidate))))"
    and acc: "evaluateAutomatedConsensus i = Inr consensus" "cr_accepted consensus"
  shows "validateInput rt (validation_input rt sha candidate consensus tr decidedAt) = Inr ()"
proof -
  let ?i = "validation_input rt sha candidate consensus tr decidedAt"
  define rec where "rec = vc_recordedDurationMs candidate"
  define dec where "dec = resolveCategoryCharge (charge_evidence c rec)"
  have rec: "0 \<le> rec" "rec \<le> MAX_SAFE_INTEGER" using ok by (simp_all add: candidate_ok_def rec_def)
  have b: "decision_in_bounds rec dec"
    using resolve_bounds[of "charge_evidence c rec"] rec by (simp add: dec_def charge_evidence_def)
  note f = validation_input_fields[OF c d, folded rec_def, folded dec_def]
  have "list_all (\<lambda>c. \<not> fst c) (category_checks rt rec (Some (categoryCharge_of rt c dec)))"
    using b rec ok shape policy_text_known[of "cd_policyCode dec"]
    by (auto simp: category_checks_def requireMilliseconds_ok requireSha256_def decision_in_bounds_def ms_ok_def
        candidate_ok_def MAX_SAFE_INTEGER_def categoryCharge_of_def rec_def dec_def)
  moreover have "in_recordedDurationMs ?i = rec" by (simp add: validation_input_def Let_def rec_def)
  moreover have "list_all (\<lambda>c. \<not> fst c) (validateEvidence (in_evidence ?i))"
    using ok by (simp add: validateEvidence_def evidence_checks_ok candidate_ok_def validation_input_def Let_def)
  moreover have "\<not> fst (requireMilliseconds (in_claimedDurationMs ?i) n True)"
    "\<not> fst (requireMilliseconds (in_connectedDurationMs ?i) n True)"
    "\<not> fst (requireMilliseconds (in_speechDurationMs ?i) n True)"
    "trim (in_callId ?i) \<noteq> []" "trim (in_auditRunId ?i) \<noteq> []" "is_sha256 (in_classifierRulesetSha256 ?i)"
    "trim (in_classifierRulesetVersion ?i) \<noteq> []" "date_parse rt (in_calculatedAt ?i) \<noteq> None" for n
    using ok by (auto simp: validation_input_def candidate_ok_def requireMilliseconds_ok Let_def
        REAUDIT_CLASSIFIER_RULESET_VERSION_def trim_def is_ws_def split: option.splits)
  ultimately have "first_error (input_checks rt ?i) = Inr ()"
    using cok rec f unfolding first_error_ok input_checks_def
    by (auto simp: requireText_def requireSha256_def requireMilliseconds_ok classification_ok_def ms_ok_def rec_def[symmetric]
        split: option.splits)
  moreover obtain v where "decimalToScale8 (cr_effectiveConfidence consensus) ''authority.confidence'' = Inr v"
    using accepted_confidence[OF acc] by blast
  ultimately show ?thesis
    using threshold_scaled[of "''authority.threshold''"]
    by (simp add: validateInput_def) (simp add: validation_input_def Let_def isSafeInteger_def MAX_SAFE_INTEGER_def)
qed

text \<open>A classification that passed the validator on live output (signals present).\<close>

definition live_validated ::
  "cue_tests \<Rightarrow> NaturalSpeechBlock list \<Rightarrow> int \<Rightarrow> bool \<Rightarrow> ModelClassification \<Rightarrow> bool" where
  "live_validated cues blocks rec mismatch c \<longleftrightarrow>
     (\<exists>raw. validateClassification cues raw blocks rec mismatch = Inr c \<and> mc_decisionSignals raw \<noteq> None) \<and>
     (mc_category c = VOICEMAIL \<longrightarrow>
        coalesce (mc_agentBlockNumbers c) [] \<noteq> [] \<or> coalesce (mc_voicemailEvidenceBlockNumbers c) [] \<noteq> [])"

lemma merged_numbered: "mergeTranscriptSegments segments = Inr blocks \<Longrightarrow> numbered blocks"
  using merge_invariant[of "[]" None segments blocks segments]
  by (simp add: mergeTranscriptSegments_def numbered_def)

lemma live_classification_ok:
  assumes "live_validated cues blocks rec mismatch c" and n: "numbered blocks" and "0 < rec"
    and pos: "\<And>b. b \<in> set blocks \<Longrightarrow> 0 < bl_endMs b"
    and model: "trim (model_provider (mc_model c)) \<noteq> []" "trim (model_name (mc_model c)) \<noteq> []"
      "trim (model_version (mc_model c)) \<noteq> []"
  shows "classification_ok rec c"
proof -
  obtain raw where v: "validateClassification cues raw blocks rec mismatch = Inr c"
    using assms(1) by (auto simp: live_validated_def)
  then obtain r signals where c: "c = validated raw r (mc_category c) signals blocks rec"
    by (rule validateE)
  have e: "0 < x \<and> x \<le> rec" if "mc_lastMeaningfulCustomerExchangeMs c = Some x" for x
    using validated_endpoint[of x c, OF _ c] that pos assms(3) by auto
  have "mc_customerSpoke c = (ends_of blocks (\<lambda>n. n \<in> set (br_customer r)) rec \<noteq> [])"
    by (subst c) (simp add: validated_def Let_def)
  with validated_fields(2)[OF c] max_opt_bounds(1)[of "ends_of blocks (\<lambda>n. n \<in> set (br_customer r)) rec"] e model
  show ?thesis
    by (auto simp: classification_ok_def split: option.splits)
qed

lemma priced_run:
  assumes ok: "candidate_ok rt sha decidedAt candidate" and card: "validateRateCard rt rateCard = Inr ()"
    and m: "mergeTranscriptSegments (vc_segments candidate) = Inr blocks"
    and p: "consensus_passes cues candidate blocks reviewer adjudicator = Inr (s, a, consensus)"
    and acc: "cr_accepted consensus" and sel: "cr_selectedClassification consensus = Some c"
    and live: "live_validated cues blocks (vc_recordedDurationMs candidate) mismatch c"
    and pos: "\<And>b. b \<in> set blocks \<Longrightarrow> 0 < bl_endMs b"
    and model: "trim (model_provider (mc_model c)) \<noteq> []" "trim (model_name (mc_model c)) \<noteq> []"
      "trim (model_version (mc_model c)) \<noteq> []"
  shows "\<exists>ws out. runAutomatedValidation rt cues sha candidate reviewer adjudicator rateCard decidedAt dryRun = (ws, Inr out) \<and>
           vo_billingFinal out"
proof -
  let ?rec = "vc_recordedDurationMs candidate"
  obtain i where i: "evaluateAutomatedConsensus i = Inr consensus" "ci_recordedDurationMs i = ?rec"
    using p by (auto simp: consensus_passes_def Let_def rbind_Inr_iff split: option.splits if_splits)
  note rec = ok[unfolded candidate_ok_def] and n = merged_numbered[OF m]
  from i(1) acc obtain outputs g q k where
    g: "mapM_res (evaluate_pass (ci_recordedDurationMs i)) (passes i) = Inr outputs"
    "g = filter (\<lambda>q. mc_category (po_value q) = k) outputs" "q \<in> set g"
    "cr_selectedClassification consensus = Some (po_value q)" "cr_selectedChargeDecision consensus = Some (po_decision q)"
    by (rule consensus_accepted)
  then have o: "mapM_res (evaluate_pass ?rec) (passes i) = Inr outputs" "q \<in> set outputs"
    "cr_selectedClassification consensus = Some (po_value q)" "cr_selectedChargeDecision consensus = Some (po_decision q)"
    by (simp_all add: i(2))
  have d: "cr_selectedChargeDecision consensus = Some (resolveCategoryCharge (charge_evidence c ?rec))"
    using mapM_res_mem[OF o(1,2)] evaluate_pass_fields(2,6) o(3,4) sel by (metis option.inject)
  obtain raw sg where raw: "validateClassification cues raw blocks ?rec mismatch = Inr c" "mc_decisionSignals raw = Some sg"
    using live by (auto simp: live_validated_def)
  have shape: "structurallyValid (categoryCharge_of rt c (resolveCategoryCharge (charge_evidence c ?rec)))"
    by (rule validated_charge_shape[OF raw(1) n pos _ _ raw(2)]) (use rec live in \<open>auto simp: live_validated_def\<close>)
  have cok: "classification_ok ?rec c"
    by (rule live_classification_ok[OF live n _ pos model]) (use rec in auto)
  define tr where "tr = sha256Hex rt (canonical (validation_trace_json candidate s a consensus))"
  let ?in = "validation_input rt sha candidate consensus tr decidedAt"
  have v: "validateInput rt ?in = Inr ()"
    by (rule validation_input_valid[OF ok sel cok d shape i(1) acc])
  have "in_recordedDurationMs ?in = ?rec" by (simp add: validation_input_def Let_def)
  then obtain billing where b: "calculateVerifiedKServeCharge rt ?in rateCard = Inr billing"
    using calculation_returns[OF v card] rec by auto
  have fin: "billing_final billing"
    using calculate_outcome(2)[OF v card b] validation_authorised[OF i(1)] acc by (auto simp: billing_final_def)
  have j: "finite_json (validation_trace_json candidate s a consensus)"
    by (auto simp: validation_trace_json_def pass_json_def json_opt_entry_def list_all_iff split: option.splits)
  show ?thesis
    using m p j b fin by (simp add: runAutomatedValidation_def Let_def tr_def[symmetric] validation_outcome_def)
qed

lemma two_agreeing_passes:
  assumes "\<And>src. evaluate_pass rec (src, c) =
     Inr \<lparr> po_source = src, po_value = c, po_confidence = 1, po_decision = d, po_billableDurationMs = b \<rparr>"
  shows "\<exists>r. evaluateAutomatedConsensus \<lparr> ci_primary = c, ci_secondary = c, ci_adjudicator = None, ci_recordedDurationMs = rec \<rparr> = Inr r \<and>
       cr_accepted r \<and> cr_selectedClassification r = Some c \<and> cr_selectedChargeDecision r = Some d"
  using threshold_le_one
  by (simp add: evaluateAutomatedConsensus_def passes_def assms consensus_of_def
      winningGroup_def consensus_reasons_def supporting_def select_pass_def sharedDuration_def Let_def)

definition demo_reviewer :: "RawClassification \<Rightarrow> classifier_port" where
  "demo_reviewer raw = (\<lambda>_. Inr raw)"

lemma demo_candidate_fields:
  "vc_segments (demo_candidate p) = demo_segments" "vc_recordedDurationMs (demo_candidate p) = 30000"
  "vc_connectedDurationMs (demo_candidate p) = Some 30000" "vc_primary (demo_candidate p) = p"
  by (simp_all add: demo_candidate_def)

lemma demo_passes:
  assumes "validateClassification demo_cues raw demo_blocks 30000 False = Inr c"
    and "\<And>src. evaluate_pass 30000 (src, c) =
     Inr \<lparr> po_source = src, po_value = c, po_confidence = 1, po_decision = d, po_billableDurationMs = b \<rparr>"
  shows "\<exists>consensus. consensus_passes demo_cues (demo_candidate c) demo_blocks (demo_reviewer raw) None = Inr (c, None, consensus) \<and>
       cr_accepted consensus \<and> cr_selectedClassification consensus = Some c \<and> cr_selectedChargeDecision consensus = Some d"
proof -
  have "classify demo_cues (demo_candidate c) demo_blocks (demo_reviewer raw) = Inr c"
    using assms(1)
    by (simp add: classify_def demo_reviewer_def validate_or_repair_def duration_mismatch_def demo_candidate_fields Let_def)
  then show ?thesis
    using two_agreeing_passes[OF assms(2)] by (auto simp: consensus_passes_def demo_candidate_fields Let_def)
qed

lemma demo_candidate_ok: "candidate_ok demo_runtime (replicate 64 (CHR ''a'')) ''2026'' (demo_candidate p)"
  by (simp add: candidate_ok_def demo_candidate_def trim_def is_ws_def ms_ok_def MAX_SAFE_INTEGER_def is_sha256_def
      is_digit_def list_all_iff CATEGORY_CHARGE_POLICY_SHA256_def)

lemma demo_failure_pass:
  assumes "mc_category c = AGENT_FAILURE" "mc_confidence c = ''1''" "mc_agentFailureMode c = Some Mid_conversation"
    "mc_failureStartMs c = Some 20000" "mc_meaningfulServiceBeforeFailure c = Some True"
  shows "\<exists>d. \<forall>src. evaluate_pass 30000 (src, c) =
     Inr \<lparr> po_source = src, po_value = c, po_confidence = 1, po_decision = d, po_billableDurationMs = 60000 \<rparr>"
proof -
  have d: "cd_adjustedChargeableDurationMs (resolveCategoryCharge (charge_evidence c 30000)) = 30000"
    using assms by (simp add: resolveCategoryCharge_def charge_evidence_def decision_def boundedEnd_def
        agent_failure_chargeable_def isSafeInteger_def MAX_SAFE_INTEGER_def policy_constants Let_def)
  have "roundKServeChargeableDuration 30000 = chargeForHalfMinutes 2"
    by (simp add: roundKServeChargeableDuration_def requireMilliseconds_def isSafeInteger_def MAX_SAFE_INTEGER_def kserve_constants)
  with d demo_confidence_one assms(2) show ?thesis
    by (simp add: evaluate_pass_def projectedCharge_def Let_def chargeForHalfMinutes_cases MAX_SAFE_INTEGER_def)
qed

lemma demo_run_setup:
  obtains c consensus where
    "consensus_passes demo_cues (demo_candidate c) demo_blocks (demo_reviewer demo_raw) None = Inr (c, None, consensus)"
    "cr_accepted consensus" "cr_selectedClassification consensus = Some c"
    "live_validated demo_cues demo_blocks (vc_recordedDurationMs (demo_candidate c)) False c"
    "list_all (\<lambda>b. 0 < bl_endMs b) demo_blocks"
    "trim (model_provider (mc_model c)) \<noteq> []" "trim (model_name (mc_model c)) \<noteq> []"
    "trim (model_version (mc_model c)) \<noteq> []"
proof -
  obtain c where c: "validateClassification demo_cues demo_raw demo_blocks 30000 False = Inr c"
    "mc_category c = AGENT_FAILURE" "mc_agentFailureMode c = Some Mid_conversation" "mc_failureStartMs c = Some 20000"
    using demo_validated by blast
  obtain r signals where v: "c = validated demo_raw r (mc_category c) signals demo_blocks 30000"
    by (rule validateE[OF c(1)])
  have m: "mc_confidence c = ''1''" "mc_model c = mc_model demo_raw"
    by (subst v, simp add: validated_def Let_def demo_raw_def)+
  have sv: "mc_meaningfulServiceBeforeFailure c = Some True"
    using c(3) resolveAgentFailure_mid by (subst (asm) v, subst v) (auto simp: validated_def Let_def elim!: resolveAgentFailure_mid)
  obtain d where d: "\<And>src. evaluate_pass 30000 (src, c) =
     Inr \<lparr> po_source = src, po_value = c, po_confidence = 1, po_decision = d, po_billableDurationMs = 60000 \<rparr>"
    using demo_failure_pass[OF c(2) m(1) c(3,4) sv] by blast
  obtain consensus where k: "consensus_passes demo_cues (demo_candidate c) demo_blocks (demo_reviewer demo_raw) None = Inr (c, None, consensus)"
    "cr_accepted consensus" "cr_selectedClassification consensus = Some c"
    using demo_passes[OF c(1) d] by blast
  have "live_validated demo_cues demo_blocks 30000 False c"
    unfolding live_validated_def using c(1,2) by (auto simp: demo_raw_def intro!: exI[of _ demo_raw])
  moreover have "list_all (\<lambda>b. 0 < bl_endMs b) demo_blocks" by (simp add: demo_blocks_def)
  moreover have "trim (model_provider (mc_model c)) \<noteq> []" "trim (model_name (mc_model c)) \<noteq> []" "trim (model_version (mc_model c)) \<noteq> []"
    by (simp_all add: m(2) demo_raw_def trim_def is_ws_def)
  ultimately show ?thesis using that[OF k] by (simp add: demo_candidate_fields)
qed

lemma demo_candidate_merge: "mergeTranscriptSegments (vc_segments (demo_candidate p)) = Inr demo_blocks"
  by (simp add: demo_candidate_fields demo_merge)

section \<open>Properties\<close>

text \<open>
  What the strict validator accepts, the billing engine can price: for a validated live
  classification over positive block times, the category policy's decision has the shape the
  engine's category rule requires (a voicemail needs an agent or a voicemail block).
\<close>

theorem validated_charge_meets_engine_rule:
  assumes "validateClassification cues raw blocks rec mismatch = Inr c" and "numbered blocks"
    and "list_all (\<lambda>b. 0 < bl_endMs b) blocks" and "0 < rec" "rec \<le> MAX_SAFE_INTEGER"
    and "mc_decisionSignals raw = Some s"
    and "mc_category c = VOICEMAIL \<Longrightarrow>
      coalesce (mc_agentBlockNumbers c) [] \<noteq> [] \<or> coalesce (mc_voicemailEvidenceBlockNumbers c) [] \<noteq> []"
  shows "structurallyValid (categoryCharge_of rt c (resolveCategoryCharge (charge_evidence c rec)))"
  by (rule validated_charge_shape[OF assms(1,2) _ assms(4-7)]) (use assms(3) in \<open>simp_all add: list_all_iff\<close>)

theorem validated_charge_meets_engine_rule_witness:
  "\<exists>c. validateClassification demo_cues demo_raw demo_blocks 30000 False = Inr c \<and>
       structurallyValid (categoryCharge_of demo_runtime c (resolveCategoryCharge (charge_evidence c 30000)))"
proof -
  obtain c where c: "validateClassification demo_cues demo_raw demo_blocks 30000 False = Inr c"
    "mc_category c = AGENT_FAILURE"
    using demo_validated by blast
  have "list_all (\<lambda>b. 0 < bl_endMs b) demo_blocks" "mc_decisionSignals demo_raw = Some demo_signals"
    by (simp_all add: demo_blocks_def demo_raw_def)
  with validated_charge_meets_engine_rule[OF c(1) demo_numbered, of demo_signals demo_runtime] c show ?thesis
    by (auto simp: MAX_SAFE_INTEGER_def)
qed



text \<open>
  A run decides money exactly when the consensus is accepted: its billing is final and it
  reports an amount if and only if the consensus was accepted.
\<close>

theorem run_final_iff_accepted:
  assumes "runAutomatedValidation rt cues sha candidate reviewer adjudicator rateCard decidedAt dryRun = (ws, Inr out)"
  shows "vo_billingFinal out = vo_accepted out \<and> (vo_amount out \<noteq> None) = vo_accepted out"
proof -
  from assms obtain i s a consensus input billing where
    "evaluateAutomatedConsensus i = Inr consensus" "input = validation_input rt sha candidate consensus
       (sha256Hex rt (canonical (validation_trace_json candidate s a consensus))) decidedAt"
    and b: "calculateVerifiedKServeCharge rt input rateCard = Inr billing"
    and out: "out = validation_outcome candidate consensus billing"
    by (rule run_cases)
  then have auth: "authorised input \<longleftrightarrow> cr_accepted consensus" by (simp add: validation_authorised)
  from b have "billing_final billing \<longleftrightarrow> authorised input"
    using calculate_outcome(2)[OF _ _ b] by (auto elim!: calculateE simp: billing_final_def split: VerifiedBillingResult.splits)
  with auth out show ?thesis
    by (auto simp: validation_outcome_def billing_final_def split: VerifiedBillingResult.splits)
qed

theorem run_final_iff_accepted_witness:
  "\<exists>c ws out. runAutomatedValidation demo_runtime demo_cues (replicate 64 (CHR ''a'')) (demo_candidate c)
       (demo_reviewer demo_raw) None demo_rate_card ''2026'' False = (ws, Inr out) \<and>
       vo_accepted out \<and> vo_amount out \<noteq> None"
proof -
  obtain c consensus where f: "consensus_passes demo_cues (demo_candidate c) demo_blocks (demo_reviewer demo_raw) None = Inr (c, None, consensus)"
    "cr_accepted consensus" "cr_selectedClassification consensus = Some c"
    "live_validated demo_cues demo_blocks (vc_recordedDurationMs (demo_candidate c)) False c"
    "list_all (\<lambda>b. 0 < bl_endMs b) demo_blocks"
    "trim (model_provider (mc_model c)) \<noteq> []" "trim (model_name (mc_model c)) \<noteq> []" "trim (model_version (mc_model c)) \<noteq> []"
    by (rule demo_run_setup)
  have "0 < bl_endMs b" if "b \<in> set demo_blocks" for b using f(5) that by (simp add: list_all_iff)
  from priced_run[OF demo_candidate_ok demo_rate_card_valid demo_candidate_merge f(1-4) this f(6-8), of False]
  obtain ws out where r: "runAutomatedValidation demo_runtime demo_cues (replicate 64 (CHR ''a'')) (demo_candidate c)
       (demo_reviewer demo_raw) None demo_rate_card ''2026'' False = (ws, Inr out)" "vo_billingFinal out"
    by blast
  with run_final_iff_accepted[OF r(1)] show ?thesis by blast
qed

text \<open>
  A dry run computes the identical outcome and writes nothing.
\<close>

theorem dry_run_identical:
  "snd (runAutomatedValidation rt cues sha candidate reviewer adjudicator rateCard decidedAt True) =
   snd (runAutomatedValidation rt cues sha candidate reviewer adjudicator rateCard decidedAt False) \<and>
   fst (runAutomatedValidation rt cues sha candidate reviewer adjudicator rateCard decidedAt True) = []"
  by (auto simp: runAutomatedValidation_def Let_def split: sum.splits)



end
