(* ===== verification/BillingRecords.thy ===== *)
theory BillingRecords
  imports ValidationRun
begin

text \<open>
  The immutable rows a billing decision is stored as (\<open>src/src/billing/records.ts\<close>) and the two
  deterministic fallbacks that produce the same rows at cycle close: the vendor's own claim
  (\<open>acceptedAsBilled.ts\<close>) and this platform's audited duration (\<open>auditedChargeProjection.ts\<close>,
  \<open>auditedProjectionSettlement.ts\<close>).
\<close>

section \<open>Rows\<close>

record BillingCalculationRecord =
  bc_callId :: string
  bc_rateCardVersionId :: string
  bc_auditRunId :: "string option"
  bc_engineVersion :: string
  bc_inputManifestSha256 :: string
  bc_calculationBasis :: string
  bc_claimedDurationMs :: "int option"
  bc_connectedDurationMs :: "int option"
  bc_recordedDurationMs :: "int option"
  bc_speechDurationMs :: "int option"
  bc_conversationEndMs :: "int option"
  bc_wrapUpGraceMs :: "int option"
  bc_adjustedChargeableDurationMs :: "int option"
  bc_billableDurationMs :: int
  bc_oneWayTailMs :: "int option"
  bc_oneWayTailAlert :: "bool option"
  bc_subtotalAmount :: string
  bc_taxAmount :: string
  bc_totalAmount :: string
  bc_rulesetSha256 :: string
  bc_decisionTraceJson :: string
  bc_decisionTraceSha256 :: string
  bc_calculatedAt :: string
  bc_finalizedAt :: string

record BillingComponentRecord =
  bp_ruleCode :: string
  bp_rawQuantity :: string
  bp_rawUnit :: string
  bp_billableQuantity :: string
  bp_billingIncrement :: string
  bp_unitRate :: string
  bp_subtotalAmount :: string
  bp_taxAmount :: string
  bp_totalAmount :: string
  bp_explanationJson :: string

record AutomatedDecisionRecord =
  dr_callId :: string
  dr_auditRunId :: "string option"
  dr_decisionStatus :: string
  dr_reasonCode :: string
  dr_nextAction :: "string option"
  dr_sensitivityTier :: string
  dr_languageCode :: string
  dr_findingType :: string
  dr_decisionEngineVersion :: string
  dr_model :: ModelIdentity
  dr_rulesetVersion :: string
  dr_rulesetSha256 :: string
  dr_classifierRulesetVersion :: string
  dr_classifierRulesetSha256 :: string
  dr_calibrationVersion :: "string option"
  dr_confidence :: string
  dr_confidenceThreshold :: "string option"
  dr_evidenceManifestSha256 :: string
  dr_evidenceRefsJson :: string
  dr_inputManifestSha256 :: string
  dr_decisionOutputJson :: string
  dr_decisionOutputSha256 :: string
  dr_recheckAttempt :: int
  dr_decidedAt :: string

record VerifiedBillingRecords =
  vr_calculation :: "BillingCalculationRecord option"
  vr_component :: "BillingComponentRecord option"
  vr_decision :: AutomatedDecisionRecord

definition zero_tax :: string where
  "zero_tax = ''0.00000000''"

section \<open>Rows of a verified result\<close>

definition millisecondsAsDecimal :: "int \<Rightarrow> string" where
  "millisecondsAsDecimal v = string_of_int v @ ''.00000000''"

fun result_trace :: "VerifiedBillingResult \<Rightarrow> BillingDecisionTrace" where
  "result_trace (Final fb) = fb_trace fb"
| "result_trace (Unresolved ub) = ub_trace ub"

fun result_traceSha256 :: "VerifiedBillingResult \<Rightarrow> string" where
  "result_traceSha256 (Final fb) = fb_traceSha256 fb"
| "result_traceSha256 (Unresolved ub) = ub_traceSha256 ub"

fun result_evidenceManifest :: "VerifiedBillingResult \<Rightarrow> string" where
  "result_evidenceManifest (Final fb) = fb_evidenceManifestSha256 fb"
| "result_evidenceManifest (Unresolved ub) = ub_evidenceManifestSha256 ub"

definition decision_record ::
  "runtime \<Rightarrow> VerifiedBillingInput \<Rightarrow> VerifiedBillingResult \<Rightarrow> string \<Rightarrow> string \<Rightarrow> AutomatedDecisionRecord" where
  "decision_record rt input result decisionOutputJson evidenceRefsJson =
     (let a = in_authority input in
      \<lparr> dr_callId = in_callId input,
        dr_auditRunId = Some (in_auditRunId input),
        dr_decisionStatus = (if billing_final result then ''final'' else ''unresolved''),
        dr_reasonCode = (case result of Final _ \<Rightarrow> ''AUTOMATED_CONFIDENCE_CONFIRMED''
                         | Unresolved ub \<Rightarrow> reason_text (ub_reasonCode ub)),
        dr_nextAction = (case result of Final _ \<Rightarrow> None | Unresolved ub \<Rightarrow> map_option action_text (ub_nextAction ub)),
        dr_sensitivityTier = au_sensitivityTier a,
        dr_languageCode = au_language a,
        dr_findingType = au_findingType a,
        dr_decisionEngineVersion = KSERVE_BILLING_ENGINE_VERSION,
        dr_model = in_model input,
        dr_rulesetVersion = KSERVE_RULESET_VERSION,
        dr_rulesetSha256 = KSERVE_RULESET_SHA256 rt,
        dr_classifierRulesetVersion = in_classifierRulesetVersion input,
        dr_classifierRulesetSha256 = in_classifierRulesetSha256 input,
        dr_calibrationVersion = au_calibrationVersion a,
        dr_confidence = au_confidence a,
        dr_confidenceThreshold = au_threshold a,
        dr_evidenceManifestSha256 = result_evidenceManifest result,
        dr_evidenceRefsJson = evidenceRefsJson,
        dr_inputManifestSha256 = result_inputManifest result,
        dr_decisionOutputJson = decisionOutputJson,
        dr_decisionOutputSha256 = result_traceSha256 result,
        dr_recheckAttempt = au_recheckAttempt a,
        dr_decidedAt = in_calculatedAt input \<rparr>)"

definition calculation_record ::
  "runtime \<Rightarrow> VerifiedBillingInput \<Rightarrow> PublishedRateCard \<Rightarrow> FinalVerifiedBilling \<Rightarrow> string \<Rightarrow> BillingCalculationRecord" where
  "calculation_record rt input rateCard fb decisionOutputJson =
     \<lparr> bc_callId = in_callId input,
       bc_rateCardVersionId = rate_id rateCard,
       bc_auditRunId = Some (in_auditRunId input),
       bc_engineVersion = KSERVE_BILLING_ENGINE_VERSION,
       bc_inputManifestSha256 = fb_inputManifestSha256 fb,
       bc_calculationBasis = (if in_categoryCharge input \<noteq> None then ''independent_category_service_end''
                              else ''independent_conversation_end''),
       bc_claimedDurationMs = in_claimedDurationMs input,
       bc_connectedDurationMs = in_connectedDurationMs input,
       bc_recordedDurationMs = Some (in_recordedDurationMs input),
       bc_speechDurationMs = in_speechDurationMs input,
       bc_conversationEndMs = Some (finalExchangeMs input),
       bc_wrapUpGraceMs = Some (case in_categoryCharge input of
                                  Some c \<Rightarrow> cc_graceMs c | None \<Rightarrow> KSERVE_WRAP_UP_GRACE_MS),
       bc_adjustedChargeableDurationMs = Some (fb_adjustedChargeableDurationMs fb),
       bc_billableDurationMs = fb_billableDurationMs fb,
       bc_oneWayTailMs = Some (fb_oneWayTailMs fb),
       bc_oneWayTailAlert = Some (fb_oneWayTailAlert fb),
       bc_subtotalAmount = fb_amount fb,
       bc_taxAmount = zero_tax,
       bc_totalAmount = fb_amount fb,
       bc_rulesetSha256 = KSERVE_RULESET_SHA256 rt,
       bc_decisionTraceJson = decisionOutputJson,
       bc_decisionTraceSha256 = fb_traceSha256 fb,
       bc_calculatedAt = in_calculatedAt input,
       bc_finalizedAt = in_calculatedAt input \<rparr>"

definition persistedIncrement :: "ChargeRule \<Rightarrow> string" where
  "persistedIncrement ruleCode =
     (if ruleCode = ZERO_DURATION_NOT_BILLED then ''zero''
      else if ruleCode = SHORT_CALL_FLAT then ''0.5_min_flat'' else ''1_min_ceil'')"

definition component_record :: "FinalVerifiedBilling \<Rightarrow> string \<Rightarrow> BillingComponentRecord" where
  "component_record fb explanationJson =
     \<lparr> bp_ruleCode = rule_text (fb_ruleCode fb),
       bp_rawQuantity = millisecondsAsDecimal (fb_adjustedChargeableDurationMs fb),
       bp_rawUnit = ''millisecond'',
       bp_billableQuantity = fb_billableMinutes fb,
       bp_billingIncrement = persistedIncrement (fb_ruleCode fb),
       bp_unitRate = ''9.50000000'',
       bp_subtotalAmount = fb_amount fb,
       bp_taxAmount = zero_tax,
       bp_totalAmount = fb_amount fb,
       bp_explanationJson = explanationJson \<rparr>"

definition buildVerifiedBillingRecords ::
  "runtime \<Rightarrow> VerifiedBillingInput \<Rightarrow> PublishedRateCard \<Rightarrow> VerifiedBillingResult \<Rightarrow> VerifiedBillingRecords res" where
  "buildVerifiedBillingRecords rt input rateCard result =
     (let trace = result_trace result in
      rbind (first_error
        [(tr_callId trace \<noteq> in_callId input \<or> tr_auditRunId trace \<noteq> in_auditRunId input \<or>
          tr_rateCardId trace \<noteq> rate_id rateCard \<or>
          result_inputManifest result \<noteq> tr_inputManifestSha256 trace \<or>
          tr_rulesetSha256 trace \<noteq> KSERVE_RULESET_SHA256 rt,
          PlainError ''Billing result does not match its input/rate-card identity'')]) (\<lambda>_.
      rbind (canonicalJson (trace_json trace)) (\<lambda>decisionOutputJson.
      rbind (canonicalJson (JArr (map evidence_json (tr_evidence trace)))) (\<lambda>evidenceRefsJson.
      let decision = decision_record rt input result decisionOutputJson evidenceRefsJson in
      case result of
        Unresolved _ \<Rightarrow> Inr \<lparr> vr_calculation = None, vr_component = None, vr_decision = decision \<rparr>
      | Final fb \<Rightarrow>
          rbind (canonicalJson (tr_calculation trace)) (\<lambda>explanationJson.
          Inr \<lparr> vr_calculation = Some (calculation_record rt input rateCard fb decisionOutputJson),
                vr_component = Some (component_record fb explanationJson),
                vr_decision = decision \<rparr>)))))"

section \<open>The vendor's claim accepted at cycle close\<close>

definition ACCEPTED_AS_BILLED_RULESET :: json where
  "ACCEPTED_AS_BILLED_RULESET = JObj
     [(''schemaVersion'', JStr ''1''),
      (''rule'', JStr ''cycle_close_unverified_fallback''),
      (''triggers'', JArr (map JStr
        [''no_recording_after_automatic_retry_window'', ''automated_validation_unresolved_at_cycle_close'',
         ''independent_audit_exhausted_at_cycle_close'', ''audited_duration_unavailable_at_cycle_close''])),
      (''amount'', JStr ''zero when no recording exists; otherwise vendor-supplied billed amount when present or vendor billed minutes multiplied by the locked rate''),
      (''authority'', JStr ''cycle-close deterministic fallback; not an independent AI audit'')]"

definition ACCEPTED_AS_BILLED_RULESET_VERSION :: string where
  "ACCEPTED_AS_BILLED_RULESET_VERSION = ''cycle-close-fallback/1.5.0''"

definition ACCEPTED_AS_BILLED_RULESET_SHA256 :: "runtime \<Rightarrow> string" where
  "ACCEPTED_AS_BILLED_RULESET_SHA256 rt = sha256Hex rt (canonical ACCEPTED_AS_BILLED_RULESET)"

datatype AcceptedAsBilledFallbackReason =
    No_recording | Automated_validation_unresolved | Audit_exhausted | Audited_duration_unavailable

fun fallback_text :: "AcceptedAsBilledFallbackReason \<Rightarrow> string" where
  "fallback_text No_recording = ''no_recording''"
| "fallback_text Automated_validation_unresolved = ''automated_validation_unresolved''"
| "fallback_text Audit_exhausted = ''audit_exhausted''"
| "fallback_text Audited_duration_unavailable = ''audited_duration_unavailable''"

fun fallback_reasonCode :: "AcceptedAsBilledFallbackReason \<Rightarrow> string" where
  "fallback_reasonCode Automated_validation_unresolved = ''AUTOMATED_VALIDATION_UNRESOLVED_ACCEPTED_AS_BILLED''"
| "fallback_reasonCode Audit_exhausted = ''INDEPENDENT_AUDIT_EXHAUSTED_ACCEPTED_AS_BILLED''"
| "fallback_reasonCode Audited_duration_unavailable = ''AUDITED_DURATION_UNAVAILABLE_ACCEPTED_AS_BILLED''"
| "fallback_reasonCode No_recording = ''NO_RECORDING_FOUND_ZERO''"

fun fallback_warning :: "AcceptedAsBilledFallbackReason \<Rightarrow> string" where
  "fallback_warning Automated_validation_unresolved = ''Automated validation remained unresolved at cycle close; the KServe claim was accepted without an independently verified duration.''"
| "fallback_warning Audit_exhausted = ''The independent audit exhausted its retry budget and produced no result; the KServe claim was accepted without an independently verified duration.''"
| "fallback_warning Audited_duration_unavailable = ''The independent audit completed but established no chargeable duration, so the KServe claim was accepted rather than an audited amount asserted.''"
| "fallback_warning No_recording = ''No Recording Found''"

fun fallback_findingType :: "AcceptedAsBilledFallbackReason \<Rightarrow> string" where
  "fallback_findingType Automated_validation_unresolved = ''AUTOMATED_VALIDATION_UNRESOLVED''"
| "fallback_findingType Audit_exhausted = ''INDEPENDENT_AUDIT_EXHAUSTED''"
| "fallback_findingType Audited_duration_unavailable = ''AUDITED_DURATION_UNAVAILABLE''"
| "fallback_findingType No_recording = ''NO_RECORDING''"

record AcceptedAsBilledInput =
  ab_callId :: string
  ab_auditRunId :: "string option"
  ab_fallbackReason :: "AcceptedAsBilledFallbackReason option"
  ab_claimedDurationMs :: "int option"
  ab_connectedDurationMs :: "int option"
  ab_vendorBilledMinutes :: string
  ab_vendorBilledAmount :: "string option"
  ab_sourceEvidence :: EvidenceHashReference
  ab_decidedAt :: string

definition decimalScale8 :: "string \<Rightarrow> nat res" where
  "decimalScale8 v =
     (if \<not> decimal_shape None (Some 8) v
      then Inl (TypeError ''vendorBilledMinutes must be a positive scale-8 decimal'')
      else Inr (nat_of_digits (whole_part v) * 10 ^ 8 + nat_of_digits (eight_places (fraction_part v))))"

definition validateFallbackRateCard :: "runtime \<Rightarrow> PublishedRateCard \<Rightarrow> unit res" where
  "validateFallbackRateCard rt rateCard = first_error
     [(rate_status rateCard \<noteq> ''published'' \<or> \<not> truthy_text (rate_approvedBy rateCard) \<or>
       \<not> truthy_text (rate_approvedAt rateCard) \<or> rate_currency rateCard \<noteq> ''INR'' \<or>
       rate_rulesetSha256 rateCard \<noteq> Some (KSERVE_RULESET_SHA256 rt),
       PlainError ''D-03: accepted-as-billed fallback requires the same formally published rate card as independent billing'')]"

text \<open>The amounts of the fallback, in scale 8.\<close>

record fallback_money =
  fm_minuteScale :: nat
  fm_billableDurationMs :: int
  fm_suppliedAmountScale :: "nat option"
  fm_vendorAssertedScale :: nat
  fm_amountScale :: nat
  fm_reason :: AcceptedAsBilledFallbackReason

definition fallback_amounts :: "AcceptedAsBilledInput \<Rightarrow> fallback_money res" where
  "fallback_amounts input =
     rbind (decimalScale8 (ab_vendorBilledMinutes input)) (\<lambda>minuteScale.
     rbind (first_error [(minuteScale mod 50000000 \<noteq> 0,
        PlainError ''Vendor billed minutes must use the locked 0.5-minute increments'')]) (\<lambda>_.
     rbind (case ab_vendorBilledAmount input of
              None \<Rightarrow> Inr None
            | Some a \<Rightarrow> rbind (decimalScale8 a) (\<lambda>s. Inr (Some s))) (\<lambda>supplied.
     let billableDurationMs = int (minuteScale * 60000 div 10 ^ 8);
         rate = nat KSERVE_RATE_PER_MINUTE_PAISE;
         amountPaise = minuteScale * rate div 10 ^ 8;
         reason = coalesce (ab_fallbackReason input) No_recording;
         asserted = coalesce supplied (amountPaise * 1000000)
     in rbind (first_error [(\<not> isSafeInteger billableDurationMs \<or> amountPaise * 10 ^ 8 \<noteq> minuteScale * rate,
          PlainError ''Vendor quantity cannot be represented exactly'')]) (\<lambda>_.
        Inr \<lparr> fm_minuteScale = minuteScale,
              fm_billableDurationMs = (if reason = No_recording then 0 else billableDurationMs),
              fm_suppliedAmountScale = supplied,
              fm_vendorAssertedScale = asserted,
              fm_amountScale = (if reason = No_recording then 0 else asserted),
              fm_reason = reason \<rparr>))))"

definition vendorAmountSource :: "fallback_money \<Rightarrow> string" where
  "vendorAmountSource m =
     (if fm_reason m = No_recording then ''no_recording_zero''
      else if fm_suppliedAmountScale m = None then ''legacy_rate_derived'' else ''vendor_supplied'')"

definition fallback_basis :: "AcceptedAsBilledFallbackReason \<Rightarrow> string" where
  "fallback_basis r = (if r = No_recording then ''no_recording_zero'' else ''accepted_as_billed_unverified'')"

definition fallback_manifest ::
  "runtime \<Rightarrow> AcceptedAsBilledInput \<Rightarrow> fallback_money \<Rightarrow> string \<Rightarrow> json" where
  "fallback_manifest rt input m evidenceManifestSha256 = JObj
     [(''callId'', JStr (ab_callId input)),
      (''vendorBilledMinutes'', JStr (fixed_places 8 (fm_minuteScale m))),
      (''vendorBilledAmount'', JStr (fixed_places 8 (fm_vendorAssertedScale m))),
      (''fallbackAmount'', JStr (fixed_places 8 (fm_amountScale m))),
      (''vendorAmountSource'', JStr (vendorAmountSource m)),
      (''claimedDurationMs'', json_int_opt (ab_claimedDurationMs input)),
      (''connectedDurationMs'', json_int_opt (ab_connectedDurationMs input)),
      (''fallbackReason'', JStr (fallback_text (fm_reason m))),
      (''evidenceManifestSha256'', JStr evidenceManifestSha256),
      (''fallbackRulesetSha256'', JStr (ACCEPTED_AS_BILLED_RULESET_SHA256 rt)),
      (''billingRulesetSha256'', JStr (KSERVE_RULESET_SHA256 rt))]"

definition fallback_trace ::
  "runtime \<Rightarrow> AcceptedAsBilledInput \<Rightarrow> PublishedRateCard \<Rightarrow> fallback_money \<Rightarrow> string \<Rightarrow> string \<Rightarrow> json" where
  "fallback_trace rt input rateCard m evidenceManifestSha256 inputManifestSha256 = JObj
     [(''schemaVersion'', JStr ''1''),
      (''decisionType'', JStr ''verified_call_billing''),
      (''calculationBasis'', JStr (fallback_basis (fm_reason m))),
      (''warning'', JStr (fallback_warning (fm_reason m))),
      (''callId'', JStr (ab_callId input)),
      (''rateCardId'', JStr (rate_id rateCard)),
      (''rateCardVersion'', JStr (rate_version rateCard)),
      (''engineVersion'', JStr KSERVE_BILLING_ENGINE_VERSION),
      (''rulesetVersion'', JStr KSERVE_RULESET_VERSION),
      (''rulesetSha256'', JStr (KSERVE_RULESET_SHA256 rt)),
      (''fallbackRulesetVersion'', JStr ACCEPTED_AS_BILLED_RULESET_VERSION),
      (''fallbackRulesetSha256'', JStr (ACCEPTED_AS_BILLED_RULESET_SHA256 rt)),
      (''evidence'', JArr [evidence_json (ab_sourceEvidence input)]),
      (''evidenceManifestSha256'', JStr evidenceManifestSha256),
      (''inputManifestSha256'', JStr inputManifestSha256),
      (''vendorBilledMinutes'', JStr (fixed_places 8 (fm_minuteScale m))),
      (''vendorBilledAmount'', JStr (fixed_places 8 (fm_vendorAssertedScale m))),
      (''vendorAmountSource'', JStr (vendorAmountSource m)),
      (''billableDurationMs'', JNum (fm_billableDurationMs m)),
      (''amount'', JStr (fixed_places 8 (fm_amountScale m))),
      (''currency'', JStr ''INR''),
      (''outcome'', JObj [(''status'', JStr ''final''), (''reasonCode'', JStr (fallback_reasonCode (fm_reason m)))]),
      (''decidedAt'', JStr (ab_decidedAt input))]"

definition fallback_records ::
  "runtime \<Rightarrow> AcceptedAsBilledInput \<Rightarrow> PublishedRateCard \<Rightarrow> fallback_money \<Rightarrow> string \<Rightarrow> string \<Rightarrow> string \<Rightarrow> string \<Rightarrow> string \<Rightarrow>
   VerifiedBillingRecords" where
  "fallback_records rt input rateCard m evidenceManifest inputManifest traceJson traceSha evidenceJson =
     (let reason = fm_reason m;
          amount = fixed_places 8 (fm_amountScale m);
          none = (reason = No_recording);
          supplied = (fm_suppliedAmountScale m \<noteq> None);
          quantity = (if none then ''0.00000000''
                      else if \<not> supplied then fixed_places 8 (fm_minuteScale m) else amount)
      in \<lparr> vr_calculation = Some
             \<lparr> bc_callId = ab_callId input, bc_rateCardVersionId = rate_id rateCard,
               bc_auditRunId = ab_auditRunId input, bc_engineVersion = KSERVE_BILLING_ENGINE_VERSION,
               bc_inputManifestSha256 = inputManifest, bc_calculationBasis = fallback_basis reason,
               bc_claimedDurationMs = ab_claimedDurationMs input, bc_connectedDurationMs = ab_connectedDurationMs input,
               bc_recordedDurationMs = None, bc_speechDurationMs = None, bc_conversationEndMs = None,
               bc_wrapUpGraceMs = None, bc_adjustedChargeableDurationMs = None,
               bc_billableDurationMs = fm_billableDurationMs m, bc_oneWayTailMs = None, bc_oneWayTailAlert = None,
               bc_subtotalAmount = amount, bc_taxAmount = zero_tax, bc_totalAmount = amount,
               bc_rulesetSha256 = KSERVE_RULESET_SHA256 rt, bc_decisionTraceJson = traceJson,
               bc_decisionTraceSha256 = traceSha, bc_calculatedAt = ab_decidedAt input,
               bc_finalizedAt = ab_decidedAt input \<rparr>,
           vr_component = Some
             \<lparr> bp_ruleCode = (if none then ''NO_RECORDING_ZERO'' else ''ACCEPTED_AS_BILLED_UNVERIFIED''),
               bp_rawQuantity = quantity,
               bp_rawUnit = (if none \<or> supplied then ''INR'' else ''minute''),
               bp_billableQuantity = quantity,
               bp_billingIncrement = (if none then ''no_recording_zero''
                                      else if \<not> supplied then ''vendor_0.5_min'' else ''vendor_amount''),
               bp_unitRate = (if none \<or> supplied then ''1.00000000'' else ''9.50000000''),
               bp_subtotalAmount = amount, bp_taxAmount = zero_tax, bp_totalAmount = amount,
               bp_explanationJson = traceJson \<rparr>,
           vr_decision =
             \<lparr> dr_callId = ab_callId input, dr_auditRunId = ab_auditRunId input, dr_decisionStatus = ''final'',
               dr_reasonCode = fallback_reasonCode reason, dr_nextAction = None, dr_sensitivityTier = ''K0'',
               dr_languageCode = ''unknown'', dr_findingType = fallback_findingType reason,
               dr_decisionEngineVersion = KSERVE_BILLING_ENGINE_VERSION,
               dr_model = \<lparr> model_provider = ''none'', model_name = ''deterministic-cycle-close-fallback'',
                            model_version = ACCEPTED_AS_BILLED_RULESET_VERSION \<rparr>,
               dr_rulesetVersion = KSERVE_RULESET_VERSION, dr_rulesetSha256 = KSERVE_RULESET_SHA256 rt,
               dr_classifierRulesetVersion = ACCEPTED_AS_BILLED_RULESET_VERSION,
               dr_classifierRulesetSha256 = ACCEPTED_AS_BILLED_RULESET_SHA256 rt,
               dr_calibrationVersion = None, dr_confidence = ''1.00000000'',
               dr_confidenceThreshold = Some ''1.00000000'', dr_evidenceManifestSha256 = evidenceManifest,
               dr_evidenceRefsJson = evidenceJson, dr_inputManifestSha256 = inputManifest,
               dr_decisionOutputJson = traceJson, dr_decisionOutputSha256 = traceSha,
               dr_recheckAttempt = (if reason = Automated_validation_unresolved then 3 else 0),
               dr_decidedAt = ab_decidedAt input \<rparr> \<rparr>)"

definition buildAcceptedAsBilledRecords ::
  "runtime \<Rightarrow> AcceptedAsBilledInput \<Rightarrow> PublishedRateCard \<Rightarrow> VerifiedBillingRecords res" where
  "buildAcceptedAsBilledRecords rt input rateCard =
     rbind (validateFallbackRateCard rt rateCard) (\<lambda>_.
     rbind (first_error
       [(trim (ab_callId input) = [], TypeError ''callId is required''),
        (\<not> is_sha256 (ev_sha256 (ab_sourceEvidence input)), TypeError ''source evidence must carry a SHA-256 hash''),
        (date_parse rt (ab_decidedAt input) = None, TypeError ''decidedAt must be an ISO timestamp'')]) (\<lambda>_.
     rbind (fallback_amounts input) (\<lambda>m.
     let evidence = JArr [evidence_json (ab_sourceEvidence input)] in
     rbind (canonicalJsonSha256 (sha256Hex rt) evidence) (\<lambda>evidenceManifest.
     rbind (canonicalJsonSha256 (sha256Hex rt) (fallback_manifest rt input m evidenceManifest)) (\<lambda>inputManifest.
     let trace = fallback_trace rt input rateCard m evidenceManifest inputManifest in
     rbind (canonicalJson trace) (\<lambda>traceJson.
     rbind (canonicalJsonSha256 (sha256Hex rt) trace) (\<lambda>traceSha.
     rbind (canonicalJson evidence) (\<lambda>evidenceJson.
     Inr (fallback_records rt input rateCard m evidenceManifest inputManifest traceJson traceSha evidenceJson)))))))))"

end
