(* ===== verification/AuditedProjection.thy ===== *)
theory AuditedProjection
  imports BillingRecords
begin

text \<open>
  Pricing a call from the audit facts already stored for it: the boundary of old audits and the
  projected charge, capped per call at the vendor's amount (\<open>src/src/billing/auditedChargeProjection.ts\<close>),
  and the rows that settle it (\<open>auditedProjectionSettlement.ts\<close>). The interface every row builder
  keeps is the locale \<open>row_builder\<close>; it is interpreted on all three builders.
\<close>

section \<open>The projected charge\<close>

record AuditedChargeBoundaryInput =
  bi_category :: "string option"
  bi_policyServiceEndMs :: "int option"
  bi_policyGraceMs :: "int option"
  bi_finalCustomerExchangeMs :: "int option"
  bi_finalTranscriptSegmentEndMs :: "int option"

datatype boundary_source = Stored_policy | Legacy_category_fallback

record AuditedChargeBoundary =
  cb_serviceEndMs :: int
  cb_graceMs :: int
  cb_source :: boundary_source

definition validMilliseconds :: "int option \<Rightarrow> bool" where
  "validMilliseconds v = (case v of None \<Rightarrow> False | Some x \<Rightarrow> isSafeInteger x \<and> x \<ge> 0)"

definition legacy_boundary :: "int \<Rightarrow> int \<Rightarrow> AuditedChargeBoundary option" where
  "legacy_boundary serviceEndMs graceMs =
     Some \<lparr> cb_serviceEndMs = serviceEndMs, cb_graceMs = graceMs, cb_source = Legacy_category_fallback \<rparr>"

definition resolveAuditedChargeBoundary :: "AuditedChargeBoundaryInput \<Rightarrow> AuditedChargeBoundary option" where
  "resolveAuditedChargeBoundary input =
     (let category = bi_category input;
          segmentEnd = bi_finalTranscriptSegmentEndMs input;
          customerEnd = bi_finalCustomerExchangeMs input
      in if validMilliseconds (bi_policyServiceEndMs input) \<and> validMilliseconds (bi_policyGraceMs input)
         then Some \<lparr> cb_serviceEndMs = coalesce (bi_policyServiceEndMs input) 0,
                     cb_graceMs = coalesce (bi_policyGraceMs input) 0, cb_source = Stored_policy \<rparr>
         else if category \<in> {Some ''INACTIVE_CALL'', Some ''AGENT_FAILURE'', Some ''AI_CONVERSATION_HANDLING'',
                             Some ''NETWORK_FAILURE_TELECOM''}
         then legacy_boundary 0 0
         else if category = Some ''AI_TO_AI'' then legacy_boundary 0 KSERVE_WRAP_UP_GRACE_MS
         else if category = Some ''USER_SILENCE'' \<and> validMilliseconds segmentEnd
         then legacy_boundary (coalesce segmentEnd 0) KSERVE_WRAP_UP_GRACE_MS
         else if category = Some ''VOICEMAIL'' \<and> validMilliseconds segmentEnd
         then legacy_boundary (coalesce segmentEnd 0) VOICEMAIL_GRACE_MS
         else if category \<in> {Some ''OK'', Some ''CONNECT_NOT_FRUITFUL'', Some ''TIME_DURATION''} \<and>
                 validMilliseconds customerEnd
         then legacy_boundary (coalesce customerEnd 0) KSERVE_WRAP_UP_GRACE_MS
         else None)"

record AuditedChargeProjectionInput =
  pi_recordedDurationMs :: "int option"
  pi_serviceEndMs :: "int option"
  pi_graceMs :: "int option"
  pi_vendorAmount :: "string option"

record AuditedChargeProjection =
  pj_adjustedChargeableDurationMs :: int
  pj_billableDurationMs :: int
  pj_billableMinutes :: string
  pj_unitRate :: string
  pj_amount :: string
  pj_ruleCode :: ChargeRule
  pj_billingIncrement :: string
  pj_rulesetVersion :: string
  pj_cappedByVendorAmount :: bool

definition billingIncrement :: "ChargeRule \<Rightarrow> string" where
  "billingIncrement ruleCode =
     (if ruleCode = ZERO_DURATION_NOT_BILLED then ''none''
      else if ruleCode = SHORT_CALL_FLAT then ''0.5 minute flat'' else ''1 minute ceiling'')"

text \<open>\<open>Inr None\<close> is the \<open>null\<close> the code returns; rounding can still throw.\<close>

definition projectAuditedCharge :: "AuditedChargeProjectionInput \<Rightarrow> AuditedChargeProjection option res" where
  "projectAuditedCharge input =
     (if \<not> validMilliseconds (pi_serviceEndMs input) \<or> \<not> validMilliseconds (pi_graceMs input) \<or>
         (pi_recordedDurationMs input \<noteq> None \<and> \<not> validMilliseconds (pi_recordedDurationMs input))
      then Inr None
      else
        let endpointWithGrace = coalesce (pi_serviceEndMs input) 0 + coalesce (pi_graceMs input) 0 in
        if \<not> isSafeInteger endpointWithGrace then Inr None
        else
          let adjusted = min (coalesce (pi_recordedDurationMs input) endpointWithGrace) endpointWithGrace in
          rbind (roundKServeChargeableDuration adjusted) (\<lambda>rounded.
          case toScaled (Some (rc_amount rounded)) of
            None \<Rightarrow> Inr None
          | Some projectedAmount \<Rightarrow>
              let vendorAmount = toScaled (pi_vendorAmount input);
                  capped = (case vendorAmount of None \<Rightarrow> False | Some v \<Rightarrow> v \<ge> 0 \<and> v < projectedAmount)
              in Inr (Some
                \<lparr> pj_adjustedChargeableDurationMs = adjusted,
                  pj_billableDurationMs = rc_billableDurationMs rounded,
                  pj_billableMinutes = rc_billableMinutes rounded,
                  pj_unitRate = ''9.50000000'',
                  pj_amount = (if capped then fromScaled (coalesce vendorAmount 0) else rc_amount rounded),
                  pj_ruleCode = rc_ruleCode rounded,
                  pj_billingIncrement = billingIncrement (rc_ruleCode rounded),
                  pj_rulesetVersion = KSERVE_RULESET_VERSION,
                  pj_cappedByVendorAmount = capped \<rparr>)))"

section \<open>The rows that settle it\<close>

definition AUDITED_PROJECTION_RULESET :: json where
  "AUDITED_PROJECTION_RULESET = JObj
     [(''schemaVersion'', JStr ''1''),
      (''rule'', JStr ''independent_audited_projection''),
      (''basis'', JStr ''audited chargeable duration priced with the locked KServe ruleset, capped per call at the vendor charge''),
      (''classification'', JStr ''single-pass independent audit; no consensus cross-check was performed''),
      (''authority'', JStr ''deterministic projection over persisted audit facts; not a consensus-validated calculation'')]"

definition AUDITED_PROJECTION_RULESET_VERSION :: string where
  "AUDITED_PROJECTION_RULESET_VERSION = ''audited-projection/1.0.0''"

definition AUDITED_PROJECTION_RULESET_SHA256 :: "runtime \<Rightarrow> string" where
  "AUDITED_PROJECTION_RULESET_SHA256 rt = sha256Hex rt (canonical AUDITED_PROJECTION_RULESET)"

record AuditedProjectionInput =
  ap_callId :: string
  ap_auditRunId :: "string option"
  ap_category :: "string option"
  ap_recordedDurationMs :: "int option"
  ap_speechDurationMs :: "int option"
  ap_serviceEndMs :: "int option"
  ap_graceMs :: "int option"
  ap_claimedDurationMs :: "int option"
  ap_connectedDurationMs :: "int option"
  ap_vendorBilledAmount :: "string option"
  ap_sourceEvidence :: EvidenceHashReference
  ap_decidedAt :: string

text \<open>\<open>/^(-?)(\d+)(?:\.(\d*))?$/\<close> and the fraction padded and cut to eight places.\<close>

definition fixed8 :: "string \<Rightarrow> string res" where
  "fixed8 v =
     (let t = trim v;
          sign = (if t \<noteq> [] \<and> hd t = CHR ''-'' then ''-'' else []);
          body = drop (length sign) t;
          w = fst (break_at (CHR ''.'') body);
          f = coalesce (snd (break_at (CHR ''.'') body)) []
      in if w = [] \<or> \<not> all_digits w \<or> \<not> all_digits f
         then Inl (TypeError ''projected amount is not a decimal'')
         else Inr (sign @ w @ CHR ''.'' # take 8 (padEnd 8 (CHR ''0'') f)))"

definition projection_manifest ::
  "runtime \<Rightarrow> AuditedProjectionInput \<Rightarrow> AuditedChargeProjection \<Rightarrow> string \<Rightarrow> string \<Rightarrow> json" where
  "projection_manifest rt input p amount evidenceManifestSha256 = JObj
     [(''callId'', JStr (ap_callId input)),
      (''category'', json_str_opt (ap_category input)),
      (''recordedDurationMs'', json_int_opt (ap_recordedDurationMs input)),
      (''serviceEndMs'', json_int_opt (ap_serviceEndMs input)),
      (''graceMs'', json_int_opt (ap_graceMs input)),
      (''adjustedChargeableDurationMs'', JNum (pj_adjustedChargeableDurationMs p)),
      (''billableDurationMs'', JNum (pj_billableDurationMs p)),
      (''amount'', JStr amount),
      (''cappedByVendorAmount'', JBool (pj_cappedByVendorAmount p)),
      (''vendorBilledAmount'', json_str_opt (ap_vendorBilledAmount input)),
      (''evidenceManifestSha256'', JStr evidenceManifestSha256),
      (''projectionRulesetSha256'', JStr (AUDITED_PROJECTION_RULESET_SHA256 rt)),
      (''billingRulesetSha256'', JStr (KSERVE_RULESET_SHA256 rt))]"

definition projection_trace ::
  "runtime \<Rightarrow> AuditedProjectionInput \<Rightarrow> PublishedRateCard \<Rightarrow> AuditedChargeProjection \<Rightarrow> string \<Rightarrow> string \<Rightarrow> string \<Rightarrow> json" where
  "projection_trace rt input rateCard p amount evidenceManifestSha256 inputManifestSha256 = JObj
     [(''schemaVersion'', JStr ''1''),
      (''decisionType'', JStr ''verified_call_billing''),
      (''calculationBasis'', JStr ''independent_audited_projection''),
      (''warning'', JStr (''Priced from this platform'' @ [CHR 0x27] @ ''s own audited duration under the locked KServe ruleset, capped at the vendor charge. The classification behind it is single-pass; no consensus cross-check was performed.'')),
      (''callId'', JStr (ap_callId input)),
      (''category'', json_str_opt (ap_category input)),
      (''rateCardId'', JStr (rate_id rateCard)),
      (''rateCardVersion'', JStr (rate_version rateCard)),
      (''engineVersion'', JStr KSERVE_BILLING_ENGINE_VERSION),
      (''rulesetVersion'', JStr KSERVE_RULESET_VERSION),
      (''rulesetSha256'', JStr (KSERVE_RULESET_SHA256 rt)),
      (''projectionRulesetVersion'', JStr AUDITED_PROJECTION_RULESET_VERSION),
      (''projectionRulesetSha256'', JStr (AUDITED_PROJECTION_RULESET_SHA256 rt)),
      (''evidence'', JArr [evidence_json (ap_sourceEvidence input)]),
      (''evidenceManifestSha256'', JStr evidenceManifestSha256),
      (''inputManifestSha256'', JStr inputManifestSha256),
      (''recordedDurationMs'', json_int_opt (ap_recordedDurationMs input)),
      (''serviceEndMs'', json_int_opt (ap_serviceEndMs input)),
      (''wrapUpGraceMs'', json_int_opt (ap_graceMs input)),
      (''adjustedChargeableDurationMs'', JNum (pj_adjustedChargeableDurationMs p)),
      (''billableDurationMs'', JNum (pj_billableDurationMs p)),
      (''billableMinutes'', JStr (pj_billableMinutes p)),
      (''unitRate'', JStr (pj_unitRate p)),
      (''ruleCode'', JStr (rule_text (pj_ruleCode p))),
      (''cappedByVendorAmount'', JBool (pj_cappedByVendorAmount p)),
      (''vendorBilledAmount'', json_str_opt (ap_vendorBilledAmount input)),
      (''amount'', JStr amount),
      (''currency'', JStr ''INR''),
      (''outcome'', JObj [(''status'', JStr ''final''), (''reasonCode'', JStr ''INDEPENDENT_AUDITED_PROJECTION'')]),
      (''decidedAt'', JStr (ap_decidedAt input))]"

definition projection_records ::
  "runtime \<Rightarrow> AuditedProjectionInput \<Rightarrow> PublishedRateCard \<Rightarrow> AuditedChargeProjection \<Rightarrow> string \<Rightarrow> string \<Rightarrow> string \<Rightarrow> string \<Rightarrow>
   string \<Rightarrow> string \<Rightarrow> VerifiedBillingRecords" where
  "projection_records rt input rateCard p amount evidenceManifest inputManifest traceJson traceSha evidenceJson =
     \<lparr> vr_calculation = Some
         \<lparr> bc_callId = ap_callId input, bc_rateCardVersionId = rate_id rateCard,
           bc_auditRunId = ap_auditRunId input, bc_engineVersion = KSERVE_BILLING_ENGINE_VERSION,
           bc_inputManifestSha256 = inputManifest, bc_calculationBasis = ''independent_audited_projection'',
           bc_claimedDurationMs = ap_claimedDurationMs input, bc_connectedDurationMs = ap_connectedDurationMs input,
           bc_recordedDurationMs = ap_recordedDurationMs input, bc_speechDurationMs = ap_speechDurationMs input,
           bc_conversationEndMs = ap_serviceEndMs input, bc_wrapUpGraceMs = ap_graceMs input,
           bc_adjustedChargeableDurationMs = Some (pj_adjustedChargeableDurationMs p),
           bc_billableDurationMs = pj_billableDurationMs p, bc_oneWayTailMs = None, bc_oneWayTailAlert = None,
           bc_subtotalAmount = amount, bc_taxAmount = zero_tax, bc_totalAmount = amount,
           bc_rulesetSha256 = KSERVE_RULESET_SHA256 rt, bc_decisionTraceJson = traceJson,
           bc_decisionTraceSha256 = traceSha, bc_calculatedAt = ap_decidedAt input,
           bc_finalizedAt = ap_decidedAt input \<rparr>,
       vr_component = Some
         \<lparr> bp_ruleCode = rule_text (pj_ruleCode p),
           bp_rawQuantity = millisecondsAsDecimal (pj_adjustedChargeableDurationMs p),
           bp_rawUnit = ''millisecond'', bp_billableQuantity = pj_billableMinutes p,
           bp_billingIncrement = persistedIncrement (pj_ruleCode p), bp_unitRate = pj_unitRate p,
           bp_subtotalAmount = amount, bp_taxAmount = zero_tax, bp_totalAmount = amount,
           bp_explanationJson = traceJson \<rparr>,
       vr_decision =
         \<lparr> dr_callId = ap_callId input, dr_auditRunId = ap_auditRunId input, dr_decisionStatus = ''final'',
           dr_reasonCode = ''INDEPENDENT_AUDITED_PROJECTION'', dr_nextAction = None, dr_sensitivityTier = ''K0'',
           dr_languageCode = ''unknown'', dr_findingType = ''INDEPENDENT_AUDITED_PROJECTION'',
           dr_decisionEngineVersion = KSERVE_BILLING_ENGINE_VERSION,
           dr_model = \<lparr> model_provider = ''none'', model_name = ''deterministic-audited-projection'',
                        model_version = AUDITED_PROJECTION_RULESET_VERSION \<rparr>,
           dr_rulesetVersion = KSERVE_RULESET_VERSION, dr_rulesetSha256 = KSERVE_RULESET_SHA256 rt,
           dr_classifierRulesetVersion = AUDITED_PROJECTION_RULESET_VERSION,
           dr_classifierRulesetSha256 = AUDITED_PROJECTION_RULESET_SHA256 rt,
           dr_calibrationVersion = None, dr_confidence = ''1.00000000'',
           dr_confidenceThreshold = Some ''1.00000000'', dr_evidenceManifestSha256 = evidenceManifest,
           dr_evidenceRefsJson = evidenceJson, dr_inputManifestSha256 = inputManifest,
           dr_decisionOutputJson = traceJson, dr_decisionOutputSha256 = traceSha,
           dr_recheckAttempt = 0, dr_decidedAt = ap_decidedAt input \<rparr> \<rparr>"

definition projection_rows ::
  "runtime \<Rightarrow> AuditedProjectionInput \<Rightarrow> PublishedRateCard \<Rightarrow> AuditedChargeProjection \<Rightarrow> VerifiedBillingRecords res" where
  "projection_rows rt input rateCard p =
     rbind (fixed8 (pj_amount p)) (\<lambda>amount.
     let evidence = JArr [evidence_json (ap_sourceEvidence input)] in
     rbind (canonicalJsonSha256 (sha256Hex rt) evidence) (\<lambda>evidenceManifest.
     rbind (canonicalJsonSha256 (sha256Hex rt) (projection_manifest rt input p amount evidenceManifest)) (\<lambda>inputManifest.
     let trace = projection_trace rt input rateCard p amount evidenceManifest inputManifest in
     rbind (canonicalJson trace) (\<lambda>traceJson.
     rbind (canonicalJsonSha256 (sha256Hex rt) trace) (\<lambda>traceSha.
     rbind (canonicalJson evidence) (\<lambda>evidenceJson.
     Inr (projection_records rt input rateCard p amount evidenceManifest inputManifest traceJson traceSha evidenceJson)))))))"

definition buildAuditedProjectionRecords ::
  "runtime \<Rightarrow> AuditedProjectionInput \<Rightarrow> PublishedRateCard \<Rightarrow> VerifiedBillingRecords option res" where
  "buildAuditedProjectionRecords rt input rateCard =
     rbind (validateFallbackRateCard rt rateCard) (\<lambda>_.
     rbind (first_error
       [(trim (ap_callId input) = [], TypeError ''callId is required''),
        (\<not> is_sha256 (ev_sha256 (ap_sourceEvidence input)), TypeError ''source evidence must carry a SHA-256 hash''),
        (date_parse rt (ap_decidedAt input) = None, TypeError ''decidedAt must be an ISO timestamp'')]) (\<lambda>_.
     rbind (projectAuditedCharge
       \<lparr> pi_recordedDurationMs = ap_recordedDurationMs input, pi_serviceEndMs = ap_serviceEndMs input,
         pi_graceMs = ap_graceMs input, pi_vendorAmount = ap_vendorBilledAmount input \<rparr>) (\<lambda>projection.
     case projection of
       None \<Rightarrow> Inr None
     | Some p \<Rightarrow> rbind (projection_rows rt input rateCard p) (\<lambda>r. Inr (Some r)))))"

section \<open>The interface of the row builders\<close>

definition amount_value :: "string \<Rightarrow> int" where
  "amount_value s = coalesce (toScaled (Some s)) 0"

definition rows_agree :: "runtime \<Rightarrow> BillingCalculationRecord \<Rightarrow> BillingComponentRecord \<Rightarrow> AutomatedDecisionRecord \<Rightarrow> bool" where
  "rows_agree rt c p d \<longleftrightarrow>
     dr_decisionStatus d = ''final'' \<and> bc_callId c = dr_callId d \<and> bc_auditRunId c = dr_auditRunId d \<and>
     bc_totalAmount c = bc_subtotalAmount c \<and> bp_totalAmount p = bc_totalAmount c \<and>
     bp_subtotalAmount p = bc_totalAmount c \<and> bc_taxAmount c = zero_tax \<and> bp_taxAmount p = zero_tax \<and>
     bc_inputManifestSha256 c = dr_inputManifestSha256 d \<and>
     bc_decisionTraceJson c = dr_decisionOutputJson d \<and> bc_decisionTraceSha256 c = dr_decisionOutputSha256 d \<and>
     length (bp_billingIncrement p) \<le> 20 \<and>
     (\<exists>v \<ge> 0. toScaled (Some (bc_totalAmount c)) = Some v)"

definition rows_consistent :: "runtime \<Rightarrow> VerifiedBillingRecords \<Rightarrow> bool" where
  "rows_consistent rt r \<longleftrightarrow>
     dr_decisionOutputSha256 (vr_decision r) = sha256Hex rt (dr_decisionOutputJson (vr_decision r)) \<and>
     (case (vr_calculation r, vr_component r) of
        (None, None) \<Rightarrow> dr_decisionStatus (vr_decision r) = ''unresolved''
      | (Some c, Some p) \<Rightarrow> rows_agree rt c p (vr_decision r)
      | _ \<Rightarrow> False)"

definition calculation_total_value :: "VerifiedBillingRecords \<Rightarrow> int" where
  "calculation_total_value r = (case vr_calculation r of None \<Rightarrow> 0 | Some c \<Rightarrow> amount_value (bc_totalAmount c))"

definition component_total_value :: "VerifiedBillingRecords \<Rightarrow> int" where
  "component_total_value r = (case vr_component r of None \<Rightarrow> 0 | Some p \<Rightarrow> amount_value (bp_totalAmount p))"

locale row_builder =
  fixes rt :: runtime
    and builds :: "'i \<Rightarrow> VerifiedBillingRecords \<Rightarrow> bool"
  assumes consistent: "builds i r \<Longrightarrow> rows_consistent rt r"
begin

lemma totals_agree: "builds i r \<Longrightarrow> calculation_total_value r = component_total_value r"
  using consistent[of i r]
  by (auto simp: rows_consistent_def rows_agree_def calculation_total_value_def component_total_value_def
      split: option.splits)

lemma total_nonneg: "builds i r \<Longrightarrow> 0 \<le> calculation_total_value r"
  using consistent[of i r]
  by (auto simp: rows_consistent_def rows_agree_def calculation_total_value_def amount_value_def split: option.splits)

lemma ledger_balanced:
  assumes "list_all2 builds inputs rs"
  shows "sum_list (map calculation_total_value rs) = sum_list (map component_total_value rs)"
    and "0 \<le> sum_list (map calculation_total_value rs)"
  using assms
proof (induction rule: list_all2_induct)
  case (Cons i inputs r rs)
  case 1 show ?case using Cons by (simp add: totals_agree)
  case 2 show ?case using Cons total_nonneg[OF Cons(1)] by simp
qed simp_all

lemma decision_hash_identifies:
  assumes "builds i r" "builds j s"
    and "dr_decisionOutputSha256 (vr_decision r) = dr_decisionOutputSha256 (vr_decision s)"
  shows "dr_decisionOutputJson (vr_decision r) = dr_decisionOutputJson (vr_decision s) \<or>
         collides (sha256Hex rt) (dr_decisionOutputJson (vr_decision r)) (dr_decisionOutputJson (vr_decision s))"
  using assms consistent[OF assms(1)] consistent[OF assms(2)] by (auto simp: rows_consistent_def collides_def)

end

section \<open>The three builders keep it\<close>

lemma persistedIncrement_length: "length (persistedIncrement r) \<le> 20"
  by (simp add: persistedIncrement_def)

lemma result_trace_digest:
  assumes "calculateVerifiedKServeCharge rt input rateCard = Inr result"
  shows "finite_json (trace_json (result_trace result)) \<and> finite_json (tr_calculation (result_trace result)) \<and>
         result_traceSha256 result = sha256Hex rt (canonical (trace_json (result_trace result)))"
proof -
  from assms obtain a e m where
    "(if \<not> ad_final a then unresolvedResult rt input rateCard e m a
      else finalResult rt input rateCard e m a) = Inr result"
    by (rule calculateE)
  then show ?thesis
    by (auto simp: unresolvedResult_def finalResult_def rbind_Inr_iff Let_def trace_digest createTrace_def split: if_splits)
qed

definition verified_rows :: "runtime \<Rightarrow> VerifiedBillingInput \<times> PublishedRateCard \<Rightarrow> VerifiedBillingRecords \<Rightarrow> bool" where
  "verified_rows rt i r \<longleftrightarrow>
     rbind (calculateVerifiedKServeCharge rt (fst i) (snd i)) (buildVerifiedBillingRecords rt (fst i) (snd i)) = Inr r"

definition fallback_rows :: "runtime \<Rightarrow> AcceptedAsBilledInput \<times> PublishedRateCard \<Rightarrow> VerifiedBillingRecords \<Rightarrow> bool" where
  "fallback_rows rt i r \<longleftrightarrow> buildAcceptedAsBilledRecords rt (fst i) (snd i) = Inr r"

definition audited_rows :: "runtime \<Rightarrow> AuditedProjectionInput \<times> PublishedRateCard \<Rightarrow> VerifiedBillingRecords \<Rightarrow> bool" where
  "audited_rows rt i r \<longleftrightarrow> buildAuditedProjectionRecords rt (fst i) (snd i) = Inr (Some r)"

lemma verified_rows_consistent:
  assumes "verified_rows rt i r"
  shows "rows_consistent rt r"
proof -
  obtain input rateCard where i: "i = (input, rateCard)" by fastforce
  from assms i obtain result where c: "calculateVerifiedKServeCharge rt input rateCard = Inr result"
    and b: "buildVerifiedBillingRecords rt input rateCard result = Inr r"
    by (auto simp: verified_rows_def rbind_Inr_iff)
  note d = result_trace_digest[OF c]
  show ?thesis
  proof (cases result)
    case (Final fb)
    have "0 \<le> fb_amountPaise fb * 10 ^ 6"
      using final_charge_values(1)[OF c[unfolded Final]] verified_half_minutes_bounds(1)
        validateInput_durations c by (auto elim!: calculateE)
    then show ?thesis
      using b d Final final_charge_values(3)[OF c[unfolded Final]] persistedIncrement_length[of "fb_ruleCode fb"]
      by (auto simp: buildVerifiedBillingRecords_def Let_def rbind_Inr_iff rows_consistent_def rows_agree_def
          decision_record_def calculation_record_def component_record_def billing_final_def)
  next
    case (Unresolved ub)
    then show ?thesis using b d
      by (auto simp: buildVerifiedBillingRecords_def Let_def rbind_Inr_iff rows_consistent_def
          decision_record_def billing_final_def)
  qed
qed

lemma fallback_json_finite:
  "finite_json (fallback_manifest rt input m e)" "finite_json (fallback_trace rt input rateCard m e k)"
  by (simp_all add: fallback_manifest_def fallback_trace_def)

lemma fallback_rows_consistent: "fallback_rows rt i r \<Longrightarrow> rows_consistent rt r"
  by (auto simp: fallback_rows_def buildAcceptedAsBilledRecords_def rbind_Inr_iff Let_def fallback_json_finite
      rows_consistent_def rows_agree_def fallback_records_def toScaled_fixed_places)

lemma projection_json_finite:
  "finite_json (projection_manifest rt input p a e)" "finite_json (projection_trace rt input rateCard p a e k)"
  by (simp_all add: projection_manifest_def projection_trace_def)

definition plain_text :: "string \<Rightarrow> string \<Rightarrow> string" where
  "plain_text w f = w @ (if f \<noteq> [] then CHR ''.'' # f else [])"

lemma fixed8_plain:
  assumes "all_digits w" "w \<noteq> []" "all_digits f"
  shows "fixed8 (plain_text w f) = Inr (plain_text w (eight_places f))"
    and "toScaled (Some (plain_text w (eight_places f))) = toScaled (Some (plain_text w f))"
proof -
  have t: "trim (plain_text w f) = plain_text w f"
    using trim_number_text[OF assms, of "[]"] by (simp add: plain_text_def)
  have h: "is_digit (hd (plain_text w f))" using assms by (cases w) (auto simp: plain_text_def)
  then have m: "hd (plain_text w f) \<noteq> CHR ''-''" by auto
  have b: "break_at (CHR ''.'') (plain_text w f) = (w, if f \<noteq> [] then Some f else None)"
    using break_at_digits[OF assms(1)] by (simp add: plain_text_def)
  have "take 8 (padEnd 8 (CHR ''0'') f) = eight_places f"
    by (simp add: padEnd_def eight_places_def)
  moreover have "eight_places f \<noteq> []" using length_eight_places[of f] by (metis length_0_conv zero_neq_numeral)
  moreover have "take 8 (padEnd 8 (CHR ''0'') []) = eight_places []" by (simp add: padEnd_def eight_places_def)
  ultimately show "fixed8 (plain_text w f) = Inr (plain_text w (eight_places f))"
    using t m b assms by (auto simp: fixed8_def Let_def plain_text_def)
  have "eight_places (eight_places f) = eight_places f" by (simp add: eight_places_exact)
  then show "toScaled (Some (plain_text w (eight_places f))) = toScaled (Some (plain_text w f))"
    using toScaled_text[OF assms] toScaled_text[OF assms(1,2), of "eight_places f"] assms(3)
    unfolding plain_text_def by simp
qed

lemma fromScaled_plain:
  assumes "0 \<le> v"
  shows "\<exists>w f. fromScaled v = plain_text w f \<and> all_digits w \<and> w \<noteq> [] \<and> all_digits f"
proof -
  obtain f where "fromScaled v = (if v < 0 then ''-'' else []) @ string_of_nat (nat \<bar>v\<bar> div 10 ^ 8) @
      (if f \<noteq> [] then CHR ''.'' # f else [])" "all_digits f"
    by (rule fromScaled_shape)
  with assms show ?thesis
    by (intro exI[of _ "string_of_nat (nat v div 10 ^ 8)"] exI[of _ f]) (simp add: plain_text_def)
qed

lemma fixed8FromPaise_plain:
  assumes "fixed8FromPaise p = Inr t"
  shows "\<exists>w f. t = plain_text w f \<and> all_digits w \<and> w \<noteq> [] \<and> all_digits f"
proof -
  have p: "0 \<le> p" and t: "t = string_of_int (p div 100) @ CHR ''.'' # padStart 2 (CHR ''0'') (string_of_int (p mod 100)) @ ''000000''"
    using assms by (auto simp: fixed8FromPaise_def split: if_splits)
  have "string_of_int (p div 100) = string_of_nat (nat (p div 100))" "string_of_int (p mod 100) = string_of_nat (nat (p mod 100))"
    using p pos_imp_zdiv_nonneg_iff[of 100 p] by (simp_all add: string_of_int_def)
  then show ?thesis unfolding t
    by (intro exI[of _ "string_of_nat (nat (p div 100))"] exI[of _ "padStart 2 (CHR ''0'') (string_of_nat (nat (p mod 100))) @ ''000000''"])
      (simp add: plain_text_def is_digit_def)
qed

section \<open>The projected amount\<close>

lemma round_ok_amount:
  assumes "ms_ok ms" and "roundKServeChargeableDuration ms = Inr rounded"
  shows "fixed8FromPaise (475 * chargeable_half_minutes ms) = Inr (rc_amount rounded)"
    and "rc_billableDurationMs rounded = 30000 * chargeable_half_minutes ms"
proof -
  have h: "0 \<le> chargeable_half_minutes ms" using assms(1) by (simp add: ms_ok_def chargeable_half_minutes_nonneg)
  show "fixed8FromPaise (475 * chargeable_half_minutes ms) = Inr (rc_amount rounded)"
    and "rc_billableDurationMs rounded = 30000 * chargeable_half_minutes ms"
    using assms(2) h unfolding round_is_rule[OF assms(1)] chargeForHalfMinutes_cases[OF h]
    by (auto simp: fixed8FromPaise_def split: if_splits)
qed

definition capped_scaled :: "string option \<Rightarrow> int \<Rightarrow> int" where
  "capped_scaled vendorAmount own =
     (case toScaled vendorAmount of None \<Rightarrow> own | Some v \<Rightarrow> if v < 0 then own else min v own)"

lemma projection_facts:
  assumes "projectAuditedCharge input = Inr (Some p)"
  defines "own \<equiv> 475 * 10 ^ 6 * chargeable_half_minutes (pj_adjustedChargeableDurationMs p)"
  shows "toScaled (Some (pj_amount p)) = Some (capped_scaled (pi_vendorAmount input) own)"
    and "0 \<le> capped_scaled (pi_vendorAmount input) own"
    and "\<exists>w f. pj_amount p = plain_text w f \<and> all_digits w \<and> w \<noteq> [] \<and> all_digits f"
    and "pj_billableDurationMs p = 30000 * chargeable_half_minutes (pj_adjustedChargeableDurationMs p)"
    and "pj_adjustedChargeableDurationMs p =
          (let e = coalesce (pi_serviceEndMs input) 0 + coalesce (pi_graceMs input) 0
           in min (coalesce (pi_recordedDurationMs input) e) e)"
proof -
  define e where "e = coalesce (pi_serviceEndMs input) 0 + coalesce (pi_graceMs input) 0"
  define adj where "adj = min (coalesce (pi_recordedDurationMs input) e) e"
  from assms(1) have v: "validMilliseconds (pi_serviceEndMs input)" "validMilliseconds (pi_graceMs input)"
    "pi_recordedDurationMs input = None \<or> validMilliseconds (pi_recordedDurationMs input)" "isSafeInteger e"
    by (auto simp: projectAuditedCharge_def e_def Let_def split: if_splits)
  from v have ok: "ms_ok adj"
    by (auto simp: validMilliseconds_def ms_ok_def adj_def e_def isSafeInteger_def split: option.splits)
  have unfolded: "projectAuditedCharge input = rbind (roundKServeChargeableDuration adj) (\<lambda>rounded.
      case toScaled (Some (rc_amount rounded)) of None \<Rightarrow> Inr None
      | Some amt \<Rightarrow> let capped = (case toScaled (pi_vendorAmount input) of None \<Rightarrow> False | Some v \<Rightarrow> v \<ge> 0 \<and> v < amt)
          in Inr (Some
            \<lparr> pj_adjustedChargeableDurationMs = adj, pj_billableDurationMs = rc_billableDurationMs rounded,
              pj_billableMinutes = rc_billableMinutes rounded, pj_unitRate = ''9.50000000'',
              pj_amount = (if capped then fromScaled (coalesce (toScaled (pi_vendorAmount input)) 0) else rc_amount rounded),
              pj_ruleCode = rc_ruleCode rounded, pj_billingIncrement = billingIncrement (rc_ruleCode rounded),
              pj_rulesetVersion = KSERVE_RULESET_VERSION, pj_cappedByVendorAmount = capped \<rparr>))"
  proof -
    have g: "(\<not> validMilliseconds (pi_serviceEndMs input) \<or> \<not> validMilliseconds (pi_graceMs input) \<or>
        pi_recordedDurationMs input \<noteq> None \<and> \<not> validMilliseconds (pi_recordedDurationMs input)) = False"
      using v(1-3) by auto
    show ?thesis using v(4) by (simp only: projectAuditedCharge_def g Let_def e_def[symmetric] adj_def[symmetric] not_True_eq_False if_False)
  qed
  obtain rounded where r: "roundKServeChargeableDuration adj = Inr rounded"
    using assms(1) unfolding unfolded by (cases "roundKServeChargeableDuration adj") auto
  obtain amt where amt: "toScaled (Some (rc_amount rounded)) = Some amt"
    using assms(1) unfolding unfolded r by (cases "toScaled (Some (rc_amount rounded))") auto
  have p: "pj_adjustedChargeableDurationMs p = adj" "pj_billableDurationMs p = rc_billableDurationMs rounded"
      "pj_amount p = (if (case toScaled (pi_vendorAmount input) of None \<Rightarrow> False | Some v \<Rightarrow> v \<ge> 0 \<and> v < amt)
         then fromScaled (coalesce (toScaled (pi_vendorAmount input)) 0) else rc_amount rounded)"
    using assms(1) unfolding unfolded by (auto simp: r amt Let_def)
  have h: "0 \<le> chargeable_half_minutes adj" using ok by (simp add: ms_ok_def chargeable_half_minutes_nonneg)
  have amt_own: "amt = own"
    using fixed8FromPaise_value[of "475 * chargeable_half_minutes adj" "rc_amount rounded"] round_ok_amount(1)[OF ok r] h amt
    by (simp add: own_def p(1))
  have own: "0 \<le> own" using h by (simp add: own_def p(1))
  show "toScaled (Some (pj_amount p)) = Some (capped_scaled (pi_vendorAmount input) own)"
    using amt own unfolding p(3) amt_own capped_scaled_def by (auto simp: toScaled_fromScaled split: option.splits)
  show "0 \<le> capped_scaled (pi_vendorAmount input) own"
    using own by (auto simp: capped_scaled_def split: option.splits)
  show "\<exists>w f. pj_amount p = plain_text w f \<and> all_digits w \<and> w \<noteq> [] \<and> all_digits f"
    using fixed8FromPaise_plain[OF round_ok_amount(1)[OF ok r]] fromScaled_plain unfolding p(3) by (auto split: option.splits)
  show "pj_billableDurationMs p = 30000 * chargeable_half_minutes (pj_adjustedChargeableDurationMs p)"
    using round_ok_amount(2)[OF ok r] p by simp
  show "pj_adjustedChargeableDurationMs p =
          (let e = coalesce (pi_serviceEndMs input) 0 + coalesce (pi_graceMs input) 0
           in min (coalesce (pi_recordedDurationMs input) e) e)"
    by (simp add: p(1) adj_def e_def Let_def)
qed

lemma audited_rows_consistent:
  assumes "audited_rows rt i r"
  shows "rows_consistent rt r"
proof -
  from assms obtain q p where p: "projectAuditedCharge q = Inr (Some p)"
    and rows: "projection_rows rt (fst i) (snd i) p = Inr r"
    by (auto simp: audited_rows_def buildAuditedProjectionRecords_def rbind_Inr_iff split: option.splits)
  obtain w f where a: "pj_amount p = plain_text w f" "all_digits w" "w \<noteq> []" "all_digits f"
    using projection_facts(3)[OF p] by blast
  note val = fixed8_plain[OF a(2-4)] projection_facts(1,2)[OF p, unfolded a(1)]
  show ?thesis
    using rows persistedIncrement_length[of "pj_ruleCode p"] val
    by (auto simp: projection_rows_def a(1) rbind_Inr_iff Let_def projection_json_finite rows_consistent_def rows_agree_def
        projection_records_def)
qed

interpretation verified: row_builder rt "verified_rows rt" for rt
  by unfold_locales (rule verified_rows_consistent)

interpretation accepted: row_builder rt "fallback_rows rt" for rt
  by unfold_locales (rule fallback_rows_consistent)

interpretation audited: row_builder rt "audited_rows rt" for rt
  by unfold_locales (rule audited_rows_consistent)

section \<open>Correctness of the settlement rows\<close>

datatype settlement_job =
    Verified_job VerifiedBillingInput PublishedRateCard
  | Fallback_job AcceptedAsBilledInput PublishedRateCard
  | Audited_job AuditedProjectionInput PublishedRateCard

fun settles :: "runtime \<Rightarrow> settlement_job \<Rightarrow> VerifiedBillingRecords \<Rightarrow> bool" where
  "settles rt (Verified_job i c) r = verified_rows rt (i, c) r"
| "settles rt (Fallback_job i c) r = fallback_rows rt (i, c) r"
| "settles rt (Audited_job i c) r = audited_rows rt (i, c) r"

interpretation settlement: row_builder rt "settles rt" for rt
proof (unfold_locales)
  fix i r assume "settles rt i r"
  then show "rows_consistent rt r"
    by (cases i) (auto intro: verified.consistent accepted.consistent audited.consistent)
qed

text \<open>
  Whatever mix of verified, fallback and audited calls a cycle settles, each call's three rows agree
  with one another (the component carries the calculation's total, tax is zero, the decision stores the
  digest of exactly the trace the calculation stores), no amount is negative, and the ledger of
  calculations and the ledger of components have the same sum.
\<close>
theorem settlement_ledgers_balance:
  assumes "list_all2 (settles rt) jobs rs"
  shows "sum_list (map calculation_total_value rs) = sum_list (map component_total_value rs) \<and>
         0 \<le> sum_list (map calculation_total_value rs) \<and>
         list_all (rows_consistent rt) rs"
  using settlement.ledger_balanced[OF assms] assms
  by (auto simp: list_all_length list_all2_conv_all_nth intro: settlement.consistent)

definition demo_source_evidence :: EvidenceHashReference where
  "demo_source_evidence = \<lparr> ev_kind = Call_manifest, ev_sha256 = replicate 64 (CHR ''c''), ev_referenceId = ''row'' \<rparr>"

definition demo_fallback :: AcceptedAsBilledInput where
  "demo_fallback =
     \<lparr> ab_callId = ''call'', ab_auditRunId = None, ab_fallbackReason = Some Audit_exhausted,
       ab_claimedDurationMs = Some 90000, ab_connectedDurationMs = None, ab_vendorBilledMinutes = ''1.5'',
       ab_vendorBilledAmount = None, ab_sourceEvidence = demo_source_evidence,
       ab_decidedAt = ''2026-08-01T00:00:00Z'' \<rparr>"

definition demo_audited :: AuditedProjectionInput where
  "demo_audited =
     \<lparr> ap_callId = ''call'', ap_auditRunId = None, ap_category = Some ''OK'',
       ap_recordedDurationMs = Some 120000, ap_speechDurationMs = None, ap_serviceEndMs = Some 30000,
       ap_graceMs = Some 60000, ap_claimedDurationMs = None, ap_connectedDurationMs = None,
       ap_vendorBilledAmount = Some ''12.25'', ap_sourceEvidence = demo_source_evidence,
       ap_decidedAt = ''2026-08-01T00:00:00Z'' \<rparr>"

lemma demo_scale8: "decimalScale8 ''1.5'' = Inr 150000000"
  by (simp add: decimalScale8_def decimal_shape_def whole_part_def fraction_part_def
      is_digit_def digit_val_def eight_places_def Let_def)

lemma demo_fallback_rateCard: "validateFallbackRateCard demo_runtime demo_rate_card = Inr ()"
  by (simp add: validateFallbackRateCard_def demo_rate_card_def truthy_text_def KSERVE_RULESET_SHA256_def)

lemma demo_source_ok: "is_sha256 (ev_sha256 demo_source_evidence)"
  by (simp add: demo_source_evidence_def is_sha256_def is_digit_def list_all_iff)

lemma demo_fallback_built: "is_ok (buildAcceptedAsBilledRecords demo_runtime demo_fallback demo_rate_card)"
proof -
  have "is_ok (fallback_amounts demo_fallback)"
    by (simp add: fallback_amounts_def demo_fallback_def demo_scale8 kserve_constants isSafeInteger_def MAX_SAFE_INTEGER_def)
  then obtain m where m: "fallback_amounts demo_fallback = Inr m" by (auto simp: is_ok_iff)
  have "first_error
       [(trim (ab_callId demo_fallback) = [], TypeError ''callId is required''),
        (\<not> is_sha256 (ev_sha256 (ab_sourceEvidence demo_fallback)), TypeError ''source evidence must carry a SHA-256 hash''),
        (date_parse demo_runtime (ab_decidedAt demo_fallback) = None, TypeError ''decidedAt must be an ISO timestamp'')] = Inr ()"
    by (simp add: demo_fallback_def demo_source_ok trim_def is_ws_def)
  then show ?thesis
    by (simp add: buildAcceptedAsBilledRecords_def demo_fallback_rateCard m Let_def fallback_json_finite)
qed

lemma demo_projection:
  "\<exists>p. projectAuditedCharge \<lparr> pi_recordedDurationMs = Some 120000, pi_serviceEndMs = Some 30000,
         pi_graceMs = Some 60000, pi_vendorAmount = v \<rparr> = Inr (Some p)"
proof -
  have c: "chargeable_half_minutes 90000 = 4"
    by (simp add: chargeable_half_minutes_def ceiling_eq_iff)
  have "ms_ok 90000" by (simp add: ms_ok_def MAX_SAFE_INTEGER_def)
  then obtain rounded where r: "roundKServeChargeableDuration 90000 = Inr rounded"
    by (auto simp: round_is_rule c chargeForHalfMinutes_cases MAX_SAFE_INTEGER_def)
  have "toScaled (Some (rc_amount rounded)) = Some (475 * 4 * 10 ^ 6)"
    using round_ok_amount(1)[OF \<open>ms_ok 90000\<close> r] fixed8FromPaise_value[of "475 * 4" "rc_amount rounded"] by (simp add: c)
  then show ?thesis
    by (simp add: projectAuditedCharge_def validMilliseconds_def isSafeInteger_def MAX_SAFE_INTEGER_def r Let_def)
qed

lemma demo_audited_built: "\<exists>r. buildAuditedProjectionRecords demo_runtime demo_audited demo_rate_card = Inr (Some r)"
proof -
  obtain p where p: "projectAuditedCharge \<lparr> pi_recordedDurationMs = Some 120000, pi_serviceEndMs = Some 30000,
         pi_graceMs = Some 60000, pi_vendorAmount = Some ''12.25'' \<rparr> = Inr (Some p)"
    using demo_projection by blast
  obtain w f where "pj_amount p = plain_text w f" "all_digits w" "w \<noteq> []" "all_digits f"
    using projection_facts(3)[OF p] by blast
  then have "\<exists>a. fixed8 (pj_amount p) = Inr a" using fixed8_plain(1) by auto
  then have "is_ok (projection_rows demo_runtime demo_audited demo_rate_card p)"
    by (auto simp: projection_rows_def Let_def projection_json_finite)
  then obtain r where "projection_rows demo_runtime demo_audited demo_rate_card p = Inr r" by (auto simp: is_ok_iff)
  then show ?thesis
    by (auto simp: buildAuditedProjectionRecords_def demo_fallback_rateCard p demo_source_ok trim_def is_ws_def
        demo_audited_def)
qed

lemma result_trace_identity:
  assumes "calculateVerifiedKServeCharge rt input rateCard = Inr result"
  shows "tr_callId (result_trace result) = in_callId input" "tr_auditRunId (result_trace result) = in_auditRunId input"
    "tr_rateCardId (result_trace result) = rate_id rateCard"
    "result_inputManifest result = tr_inputManifestSha256 (result_trace result)"
    "tr_rulesetSha256 (result_trace result) = KSERVE_RULESET_SHA256 rt"
proof -
  from assms obtain a e m where
    "(if \<not> ad_final a then unresolvedResult rt input rateCard e m a
      else finalResult rt input rateCard e m a) = Inr result"
    by (rule calculateE)
  then show "tr_callId (result_trace result) = in_callId input" "tr_auditRunId (result_trace result) = in_auditRunId input"
    "tr_rateCardId (result_trace result) = rate_id rateCard"
    "result_inputManifest result = tr_inputManifestSha256 (result_trace result)"
    "tr_rulesetSha256 (result_trace result) = KSERVE_RULESET_SHA256 rt"
    by (auto simp: unresolvedResult_def finalResult_def rbind_Inr_iff Let_def createTrace_def split: if_splits)
qed

lemma verified_rows_built:
  assumes "calculateVerifiedKServeCharge rt input rateCard = Inr result"
  shows "is_ok (buildVerifiedBillingRecords rt input rateCard result)"
proof -
  have "finite_json (JArr (map evidence_json (tr_evidence (result_trace result))))"
    by (simp add: list_all_iff evidence_json_def)
  with result_trace_identity[OF assms] result_trace_digest[OF assms] show ?thesis
    by (cases result) (simp_all add: buildVerifiedBillingRecords_def Let_def)
qed

lemma demo_verified_built: "\<exists>r. verified_rows demo_runtime (demo_input, demo_rate_card) r"
  using demo_final verified_rows_built[of demo_runtime demo_input demo_rate_card]
  by (fastforce simp: verified_rows_def is_ok_iff)

text \<open>The three builders each settle a call in one ledger.\<close>
theorem settlement_ledgers_balance_witness:
  "\<exists>rs. length rs = 3 \<and>
     list_all2 (settles demo_runtime)
       [Verified_job demo_input demo_rate_card, Fallback_job demo_fallback demo_rate_card,
        Audited_job demo_audited demo_rate_card] rs \<and>
     sum_list (map calculation_total_value rs) = sum_list (map component_total_value rs)"
proof -
  obtain a b c where "settles demo_runtime (Verified_job demo_input demo_rate_card) a"
    "settles demo_runtime (Fallback_job demo_fallback demo_rate_card) b"
    "settles demo_runtime (Audited_job demo_audited demo_rate_card) c"
    using demo_verified_built demo_fallback_built demo_audited_built
    by (auto simp: fallback_rows_def audited_rows_def is_ok_iff)
  then have "list_all2 (settles demo_runtime)
       [Verified_job demo_input demo_rate_card, Fallback_job demo_fallback demo_rate_card,
        Audited_job demo_audited demo_rate_card] [a, b, c]" by simp
  from this settlement_ledgers_balance[OF this] show ?thesis
    by (intro exI[of _ "[a, b, c]"] conjI) simp_all
qed


lemma fallback_facts:
  assumes "buildAcceptedAsBilledRecords rt input rateCard = Inr r"
    and "decimalScale8 (ab_vendorBilledMinutes input) = Inr minutes"
  defines "reason \<equiv> coalesce (ab_fallbackReason input) No_recording"
  shows "minutes mod 50000000 = 0"
    and "reason = No_recording \<Longrightarrow> calculation_total_value r = 0"
    and "reason \<noteq> No_recording \<Longrightarrow> ab_vendorBilledAmount input = Some a \<Longrightarrow> decimalScale8 a = Inr v \<Longrightarrow>
         calculation_total_value r = int v"
    and "reason \<noteq> No_recording \<Longrightarrow> ab_vendorBilledAmount input = None \<Longrightarrow>
         2 * calculation_total_value r = 19 * int minutes"
    and "reason \<noteq> No_recording \<Longrightarrow>
         (case vr_calculation r of None \<Rightarrow> False | Some c \<Rightarrow> 10 ^ 8 * bc_billableDurationMs c = 60000 * int minutes)"
proof -
  from assms(1) obtain m where m: "fallback_amounts input = Inr m"
    and r: "vr_calculation r \<noteq> None" "calculation_total_value r = int (fm_amountScale m)"
      "bc_billableDurationMs (the (vr_calculation r)) = fm_billableDurationMs m"
    by (auto simp: buildAcceptedAsBilledRecords_def rbind_Inr_iff Let_def fallback_json_finite
        fallback_records_def calculation_total_value_def amount_value_def toScaled_fixed_places)
  from m assms(2) show half: "minutes mod 50000000 = 0"
    by (auto simp: fallback_amounts_def rbind_Inr_iff split: if_splits)
  from half obtain k where k: "minutes = 50000000 * k" by (auto simp: mod_eq_0_iff_dvd)
  have exact: "minutes * 60000 div 10 ^ 8 * 10 ^ 8 = minutes * 60000" by (simp add: k)
  show "reason = No_recording \<Longrightarrow> calculation_total_value r = 0"
    using m assms(2) r(2) by (auto simp: fallback_amounts_def rbind_Inr_iff reason_def Let_def)
  show "reason \<noteq> No_recording \<Longrightarrow> ab_vendorBilledAmount input = Some a \<Longrightarrow> decimalScale8 a = Inr v \<Longrightarrow>
         calculation_total_value r = int v"
    using m assms(2) r(2) by (auto simp: fallback_amounts_def rbind_Inr_iff reason_def Let_def)
  show "reason \<noteq> No_recording \<Longrightarrow> ab_vendorBilledAmount input = None \<Longrightarrow>
         2 * calculation_total_value r = 19 * int minutes"
    using m assms(2) r(2) by (auto simp: fallback_amounts_def rbind_Inr_iff reason_def Let_def kserve_constants k)
  show "reason \<noteq> No_recording \<Longrightarrow>
         (case vr_calculation r of None \<Rightarrow> False | Some c \<Rightarrow> 10 ^ 8 * bc_billableDurationMs c = 60000 * int minutes)"
    using m assms(2) r(1,3) exact by (auto simp: fallback_amounts_def rbind_Inr_iff reason_def Let_def)
qed

text \<open>
  A fallback charge is zero when the reason is a missing recording; otherwise it is the vendor's
  amount to eight places when one is supplied, and 9.50 per billed minute, exactly, when not. The billed
  minutes are whole half-minutes and the recorded duration is exactly theirs.
\<close>
theorem fallback_amount_rule:
  assumes "buildAcceptedAsBilledRecords rt input rateCard = Inr r"
    and "decimalScale8 (ab_vendorBilledMinutes input) = Inr minutes"
  defines "reason \<equiv> coalesce (ab_fallbackReason input) No_recording"
  shows "minutes mod 50000000 = 0 \<and>
    (reason = No_recording \<longrightarrow> calculation_total_value r = 0) \<and>
    (reason \<noteq> No_recording \<longrightarrow>
       (\<forall>a v. ab_vendorBilledAmount input = Some a \<and> decimalScale8 a = Inr v \<longrightarrow> calculation_total_value r = int v) \<and>
       (ab_vendorBilledAmount input = None \<longrightarrow> 2 * calculation_total_value r = 19 * int minutes) \<and>
       (case vr_calculation r of None \<Rightarrow> False | Some c \<Rightarrow> 10 ^ 8 * bc_billableDurationMs c = 60000 * int minutes))"
  using fallback_facts[OF assms(1,2)] unfolding reason_def by blast


theorem fallback_amount_rule_witness:
  "\<exists>r. buildAcceptedAsBilledRecords demo_runtime demo_fallback demo_rate_card = Inr r \<and>
       2 * calculation_total_value r = 19 * 150000000"
proof -
  obtain r where r: "buildAcceptedAsBilledRecords demo_runtime demo_fallback demo_rate_card = Inr r"
    using demo_fallback_built by (auto simp: is_ok_iff)
  have "decimalScale8 (ab_vendorBilledMinutes demo_fallback) = Inr 150000000"
    by (simp add: demo_fallback_def demo_scale8)
  from fallback_amount_rule[OF r this] r show ?thesis by (simp add: demo_fallback_def)
qed


lemma audited_projection_facts:
  assumes "buildAuditedProjectionRecords rt input rateCard = Inr (Some r)"
  defines "endpoint \<equiv> coalesce (ap_serviceEndMs input) 0 + coalesce (ap_graceMs input) 0"
  defines "own \<equiv> 475 * 10 ^ 6 * chargeable_half_minutes (min (coalesce (ap_recordedDurationMs input) endpoint) endpoint)"
  shows "calculation_total_value r = capped_scaled (ap_vendorBilledAmount input) own"
    and "calculation_total_value r \<le> own"
    and "toScaled (ap_vendorBilledAmount input) = Some v \<Longrightarrow> 0 \<le> v \<Longrightarrow> calculation_total_value r \<le> v"
proof -
  let ?q = "\<lparr> pi_recordedDurationMs = ap_recordedDurationMs input, pi_serviceEndMs = ap_serviceEndMs input,
         pi_graceMs = ap_graceMs input, pi_vendorAmount = ap_vendorBilledAmount input \<rparr>"
  from assms(1) obtain p where p: "projectAuditedCharge ?q = Inr (Some p)" and rows: "projection_rows rt input rateCard p = Inr r"
    by (auto simp: buildAuditedProjectionRecords_def rbind_Inr_iff split: option.splits)
  obtain w f where a: "pj_amount p = plain_text w f" "all_digits w" "w \<noteq> []" "all_digits f"
    using projection_facts(3)[OF p] by blast
  have "calculation_total_value r = amount_value (pj_amount p)"
    using rows fixed8_plain[OF a(2-4)]
    by (auto simp: projection_rows_def a(1) rbind_Inr_iff Let_def projection_json_finite projection_records_def
        calculation_total_value_def amount_value_def)
  also have "\<dots> = capped_scaled (ap_vendorBilledAmount input) own"
    using projection_facts(1)[OF p] projection_facts(5)[OF p] by (simp add: amount_value_def own_def endpoint_def Let_def)
  finally show total: "calculation_total_value r = capped_scaled (ap_vendorBilledAmount input) own" .
  show "calculation_total_value r \<le> own" by (simp add: total capped_scaled_def split: option.split)
  show "toScaled (ap_vendorBilledAmount input) = Some v \<Longrightarrow> 0 \<le> v \<Longrightarrow> calculation_total_value r \<le> v"
    by (simp add: total capped_scaled_def)
qed

text \<open>
  The audited projection charges the locked rule on the audited duration (the service end plus its
  grace, cut to the recording), and never more than the vendor's own amount when the vendor stated one:
  the stored total is exactly the smaller of the two.
\<close>
theorem audited_projection_amount:
  assumes "buildAuditedProjectionRecords rt input rateCard = Inr (Some r)"
  defines "endpoint \<equiv> coalesce (ap_serviceEndMs input) 0 + coalesce (ap_graceMs input) 0"
  defines "own \<equiv> 475 * 10 ^ 6 * chargeable_half_minutes (min (coalesce (ap_recordedDurationMs input) endpoint) endpoint)"
  shows "calculation_total_value r = capped_scaled (ap_vendorBilledAmount input) own \<and>
         calculation_total_value r \<le> own \<and>
         (\<forall>v. toScaled (ap_vendorBilledAmount input) = Some v \<and> 0 \<le> v \<longrightarrow> calculation_total_value r \<le> v)"
  using audited_projection_facts[OF assms(1)] unfolding own_def endpoint_def by blast


lemma demo_vendor_scaled: "toScaled (Some ''12.25'') = Some 1225000000"
  using toScaled_text(1)[of "''12''" "''25''"]
  by (simp add: is_digit_def digit_val_def eight_places_def)

text \<open>Ninety audited seconds cost 19.00 under the rule; the vendor asked 12.25.\<close>
theorem audited_projection_amount_witness:
  "\<exists>r. buildAuditedProjectionRecords demo_runtime demo_audited demo_rate_card = Inr (Some r) \<and>
       calculation_total_value r = 1225000000"
proof -
  obtain r where r: "buildAuditedProjectionRecords demo_runtime demo_audited demo_rate_card = Inr (Some r)"
    using demo_audited_built by blast
  have "chargeable_half_minutes 90000 = 4" by (simp add: chargeable_half_minutes_def ceiling_eq_iff)
  with audited_projection_amount[OF r] have "calculation_total_value r = 1225000000"
    by (simp add: demo_audited_def capped_scaled_def demo_vendor_scaled)
  with r show ?thesis by blast
qed

lemma stored_decision_facts:
  assumes "0 \<le> ce_recordedDurationMs e" and "ce_recordedDurationMs e + 60000 \<le> MAX_SAFE_INTEGER"
  defines "d \<equiv> resolveCategoryCharge e"
  shows "resolveAuditedChargeBoundary
           \<lparr> bi_category = c, bi_policyServiceEndMs = Some (cd_serviceEndMs d), bi_policyGraceMs = Some (cd_graceMs d),
             bi_finalCustomerExchangeMs = x, bi_finalTranscriptSegmentEndMs = y \<rparr> =
         Some \<lparr> cb_serviceEndMs = cd_serviceEndMs d, cb_graceMs = cd_graceMs d, cb_source = Stored_policy \<rparr>"
    and "\<exists>p. projectAuditedCharge
           \<lparr> pi_recordedDurationMs = Some (ce_recordedDurationMs e), pi_serviceEndMs = Some (cd_serviceEndMs d),
             pi_graceMs = Some (cd_graceMs d), pi_vendorAmount = None \<rparr> = Inr (Some p) \<and>
         pj_adjustedChargeableDurationMs p = cd_adjustedChargeableDurationMs d \<and>
         toScaled (Some (pj_amount p)) =
           Some (475 * 10 ^ 6 * chargeable_half_minutes (cd_adjustedChargeableDurationMs d))"
proof -
  let ?q = "\<lparr> pi_recordedDurationMs = Some (ce_recordedDurationMs e), pi_serviceEndMs = Some (cd_serviceEndMs d),
             pi_graceMs = Some (cd_graceMs d), pi_vendorAmount = None \<rparr>"
  have b: "decision_in_bounds (ce_recordedDurationMs e) d" unfolding d_def by (rule resolve_bounds[OF assms(1)])
  have valid: "validMilliseconds (Some (cd_serviceEndMs d))" "validMilliseconds (Some (cd_graceMs d))"
    "validMilliseconds (Some (ce_recordedDurationMs e))" "isSafeInteger (cd_serviceEndMs d + cd_graceMs d)"
    using b assms by (auto simp: validMilliseconds_def decision_in_bounds_def isSafeInteger_def MAX_SAFE_INTEGER_def)
  have adj: "cd_adjustedChargeableDurationMs d = min (ce_recordedDurationMs e) (cd_serviceEndMs d + cd_graceMs d)"
    using b by (simp add: decision_in_bounds_def)
  have ok: "ms_ok (cd_adjustedChargeableDurationMs d)" "0 \<le> cd_adjustedChargeableDurationMs d"
    "cd_adjustedChargeableDurationMs d \<le> ce_recordedDurationMs e"
    using b assms by (auto simp: ms_ok_def decision_in_bounds_def)
  have h: "0 \<le> chargeable_half_minutes (cd_adjustedChargeableDurationMs d)" by (rule chargeable_half_minutes_nonneg[OF ok(2)])
  have "30000 * chargeable_half_minutes (cd_adjustedChargeableDurationMs d) \<le> MAX_SAFE_INTEGER"
    using chargeable_half_minutes_le[OF ok(2)] ok(3) assms(2) by linarith
  then obtain rounded where r: "roundKServeChargeableDuration (cd_adjustedChargeableDurationMs d) = Inr rounded"
    by (simp add: round_is_rule[OF ok(1)] chargeForHalfMinutes_cases[OF h])
  have amt: "toScaled (Some (rc_amount rounded)) = Some (475 * chargeable_half_minutes (cd_adjustedChargeableDurationMs d) * 10 ^ 6)"
    using fixed8FromPaise_value[OF _ round_ok_amount(1)[OF ok(1) r]] h by simp
  have "\<exists>p. projectAuditedCharge ?q = Inr (Some p)"
    by (simp add: projectAuditedCharge_def valid Let_def adj[symmetric] r amt)
  then obtain p where p: "projectAuditedCharge ?q = Inr (Some p)" ..
  from projection_facts(1,5)[OF p] have "pj_adjustedChargeableDurationMs p = cd_adjustedChargeableDurationMs d"
    "toScaled (Some (pj_amount p)) = Some (475 * 10 ^ 6 * chargeable_half_minutes (cd_adjustedChargeableDurationMs d))"
    by (simp_all add: adj Let_def capped_scaled_def toScaled_def)
  with p show "\<exists>p. projectAuditedCharge ?q = Inr (Some p) \<and>
         pj_adjustedChargeableDurationMs p = cd_adjustedChargeableDurationMs d \<and>
         toScaled (Some (pj_amount p)) = Some (475 * 10 ^ 6 * chargeable_half_minutes (cd_adjustedChargeableDurationMs d))"
    by blast
  show "resolveAuditedChargeBoundary
           \<lparr> bi_category = c, bi_policyServiceEndMs = Some (cd_serviceEndMs d), bi_policyGraceMs = Some (cd_graceMs d),
             bi_finalCustomerExchangeMs = x, bi_finalTranscriptSegmentEndMs = y \<rparr> =
         Some \<lparr> cb_serviceEndMs = cd_serviceEndMs d, cb_graceMs = cd_graceMs d, cb_source = Stored_policy \<rparr>"
    by (simp add: resolveAuditedChargeBoundary_def valid(1,2))
qed

text \<open>
  A category decision that was stored re-projects to itself: from the stored service end and grace
  the projection succeeds, counts the same chargeable milliseconds the category policy counted, and
  charges the locked rule on them.
\<close>
theorem stored_decision_reprojects:
  assumes "0 \<le> ce_recordedDurationMs e" and "ce_recordedDurationMs e + 60000 \<le> MAX_SAFE_INTEGER"
  defines "d \<equiv> resolveCategoryCharge e"
  shows "resolveAuditedChargeBoundary
           \<lparr> bi_category = c, bi_policyServiceEndMs = Some (cd_serviceEndMs d), bi_policyGraceMs = Some (cd_graceMs d),
             bi_finalCustomerExchangeMs = x, bi_finalTranscriptSegmentEndMs = y \<rparr> =
         Some \<lparr> cb_serviceEndMs = cd_serviceEndMs d, cb_graceMs = cd_graceMs d, cb_source = Stored_policy \<rparr> \<and>
         (\<exists>p. projectAuditedCharge
           \<lparr> pi_recordedDurationMs = Some (ce_recordedDurationMs e), pi_serviceEndMs = Some (cd_serviceEndMs d),
             pi_graceMs = Some (cd_graceMs d), pi_vendorAmount = None \<rparr> = Inr (Some p) \<and>
           pj_adjustedChargeableDurationMs p = cd_adjustedChargeableDurationMs d \<and>
           toScaled (Some (pj_amount p)) =
             Some (475 * 10 ^ 6 * chargeable_half_minutes (cd_adjustedChargeableDurationMs d)))"
  using stored_decision_facts[OF assms(1,2)] unfolding d_def by blast


definition demo_charge_evidence :: CategoryChargeEvidence where
  "demo_charge_evidence =
     \<lparr> ce_category = OK, ce_recordedDurationMs = 120000, ce_lastCustomerExchangeMs = Some 30000,
       ce_lastAgentExchangeMs = Some 40000, ce_firstAgentTurnEndMs = Some 5000, ce_lastVoicemailExchangeMs = None,
       ce_lastBusinessRelevantCustomerExchangeMs = None, ce_lastVerifiedInteractionMs = None,
       ce_agentFailureMode = None, ce_meaningfulServiceBeforeFailure = False, ce_failureStartMs = None \<rparr>"

theorem stored_decision_reprojects_witness:
  "cd_adjustedChargeableDurationMs (resolveCategoryCharge demo_charge_evidence) = 90000 \<and>
   (\<exists>p. projectAuditedCharge
      \<lparr> pi_recordedDurationMs = Some 120000, pi_serviceEndMs = Some 30000, pi_graceMs = Some 60000,
        pi_vendorAmount = None \<rparr> = Inr (Some p) \<and> pj_adjustedChargeableDurationMs p = 90000)"
proof -
  have "resolveCategoryCharge demo_charge_evidence =
      \<lparr> cd_policyCode = STANDARD_CUSTOMER_PLUS_GRACE, cd_serviceEndMs = 30000, cd_graceMs = 60000,
        cd_adjustedChargeableDurationMs = 90000 \<rparr>" "ce_recordedDurationMs demo_charge_evidence = 120000"
    by (simp_all add: demo_charge_evidence_def resolveCategoryCharge_def decision_def boundedEnd_def policy_constants)
  then show ?thesis
    using stored_decision_reprojects[of demo_charge_evidence None None None] by (auto simp: MAX_SAFE_INTEGER_def)
qed



definition demo_silent_input :: VerifiedBillingInput where
  "demo_silent_input = demo_input \<lparr> in_conversationAssessment := No_meaningful_exchange, in_lastMeaningfulCustomerExchangeMs := None \<rparr>"

lemma demo_silent_final:
  "\<exists>fb. calculateVerifiedKServeCharge demo_runtime demo_silent_input demo_rate_card = Inr (Final fb)"
proof -
  have v: "validateInput demo_runtime demo_silent_input = Inr ()"
    by (simp add: demo_silent_input_def validateInput_def demo_input_def input_checks_def requireText_def trim_def is_ws_def
      requireSha256_def is_sha256_def is_digit_def list_all_iff requireMilliseconds_def isSafeInteger_def
      MAX_SAFE_INTEGER_def validateEvidence_def category_checks_def demo_confidence demo_authority_def)
  have "adjustedChargeableDurationMs demo_silent_input = 0"
    by (simp add: adjustedChargeableDurationMs_def connectedCapMs_def uncappedChargeableMs_def
        finalExchangeMs_def configuredWrapUpGraceMs_def demo_silent_input_def demo_input_def)
  then have "is_ok (calculateVerifiedKServeCharge demo_runtime demo_silent_input demo_rate_card)"
    using calculate_outcome(1)[OF v demo_rate_card_valid]
    by (simp add: MAX_SAFE_INTEGER_def chargeable_half_minutes_def)
  then obtain r where r: "calculateVerifiedKServeCharge demo_runtime demo_silent_input demo_rate_card = Inr r"
    by (auto simp: is_ok_iff)
  have "authorised demo_silent_input"
    by (simp add: authorised_def demo_silent_input_def demo_input_def demo_authority_def demo_confidence)
  with calculate_outcome(2)[OF v demo_rate_card_valid r] r show ?thesis by auto
qed


end
