(* ===== verification/Lease.thy ===== *)
theory Lease
  imports Prelude
begin

text \<open>
  The contract the inbox and the idempotency store share: a keyed record is leased to one owner at a
  time, bound to the digest of the content it was opened with, and finished at most once. The contract
  is an abstract machine over \<open>lease\<close> (a result goes through \<open>stored\<close>, the form in which it is
  kept); the locale \<open>lease_store\<close> says that a concrete store simulates it,
  and carries its safety properties to every sequence of operations of such a store.
\<close>

section \<open>The abstract lease\<close>

record 'r lease =
  ls_digest :: "string option"
  ls_holder :: "(string option \<times> int option) option"
  ls_result :: "'r option"

datatype lease_outcome = Acquired | Finished | Busy | Conflict

definition held_by_other :: "'r lease \<Rightarrow> string \<Rightarrow> int \<Rightarrow> bool" where
  "held_by_other l owner now =
     (case ls_holder l of
        Some (who, Some expiry) \<Rightarrow> who \<noteq> Some owner \<and> expiry > now
      | _ \<Rightarrow> False)"

definition lease_begin ::
  "string \<Rightarrow> string \<Rightarrow> int \<Rightarrow> int \<Rightarrow> 'r lease option \<Rightarrow> 'r lease option \<times> lease_outcome" where
  "lease_begin owner digest now until l =
     (case l of
        None \<Rightarrow> (Some \<lparr> ls_digest = Some digest, ls_holder = Some (Some owner, Some until), ls_result = None \<rparr>, Acquired)
      | Some r \<Rightarrow>
          if ls_digest r \<noteq> Some digest then (Some r, Conflict)
          else if ls_result r \<noteq> None then (Some r, Finished)
          else if held_by_other r owner now then (Some r, Busy)
          else (Some (r\<lparr> ls_holder := Some (Some owner, Some until) \<rparr>), Acquired))"

definition holds :: "'r lease option \<Rightarrow> string \<Rightarrow> bool" where
  "holds l owner = (case l of None \<Rightarrow> False | Some r \<Rightarrow> (\<exists>e. ls_holder r = Some (Some owner, e)))"

text \<open>\<open>None\<close> is the lost lease: the record is left as it was.\<close>

definition lease_finish :: "string \<Rightarrow> 'r option \<Rightarrow> 'r lease option \<Rightarrow> 'r lease option" where
  "lease_finish owner result l =
     (case l of
        None \<Rightarrow> None
      | Some r \<Rightarrow> if holds l owner then Some (r\<lparr> ls_holder := None, ls_result := result \<rparr>) else None)"

datatype ('k, 'r) lease_event =
    Begin 'k string string int int
  | Finish 'k string 'r
  | Abandon 'k string string

fun event_key :: "('k, 'r) lease_event \<Rightarrow> 'k" where
  "event_key (Begin k _ _ _ _) = k"
| "event_key (Finish k _ _) = k"
| "event_key (Abandon k _ _) = k"

fun event_owner :: "('k, 'r) lease_event \<Rightarrow> string" where
  "event_owner (Begin _ owner _ _ _) = owner"
| "event_owner (Finish _ owner _) = owner"
| "event_owner (Abandon _ owner _) = owner"

fun event_before :: "int \<Rightarrow> ('k, 'r) lease_event \<Rightarrow> bool" where
  "event_before t (Begin _ _ _ now _) = (now < t)"
| "event_before t _ = True"

text \<open>Each event and whether it took effect.\<close>

definition keep :: "'r lease option \<Rightarrow> 'r lease option \<Rightarrow> 'r lease option \<times> bool" where
  "keep l l' = (case l' of None \<Rightarrow> (l, False) | Some r \<Rightarrow> (Some r, True))"

fun lease_step :: "('x \<Rightarrow> 'r) \<Rightarrow> ('k, 'x) lease_event \<Rightarrow> 'r lease option \<Rightarrow> 'r lease option \<times> bool" where
  "lease_step stored (Begin _ owner digest now until) l =
     (let (l', out) = lease_begin owner digest now until l in (l', out = Acquired))"
| "lease_step stored (Finish _ owner result) l = keep l (lease_finish owner (Some (stored result)) l)"
| "lease_step stored (Abandon _ owner _) l = keep l (lease_finish owner None l)"

definition lease_inv :: "'r lease option \<Rightarrow> bool" where
  "lease_inv l = (case l of None \<Rightarrow> True | Some r \<Rightarrow> ls_result r = None \<or> ls_holder r = None)"

lemmas lease_defs = lease_begin_def lease_finish_def holds_def keep_def held_by_other_def

lemma step_inv: "lease_inv l \<Longrightarrow> lease_inv (fst (lease_step stored e l))"
  by (cases e; cases l) (auto simp: lease_defs lease_inv_def Let_def)

lemma step_digest:
  assumes "l = Some r"
  shows "\<exists>r'. fst (lease_step stored e l) = Some r' \<and> ls_digest r' = ls_digest r"
  using assms by (cases e) (auto simp: lease_defs Let_def)

lemma step_finished:
  assumes "lease_inv l" "l = Some r" "ls_result r = Some x"
  shows "lease_step stored e l = (l, False)"
  using assms by (cases e) (auto simp: lease_defs lease_inv_def Let_def)

lemma step_held:
  assumes "l = Some r" "ls_holder r = Some (Some owner, Some t)" "event_owner e \<noteq> owner" "event_before t e"
  shows "lease_step stored e l = (l, False)"
  using assms by (cases e) (auto simp: lease_defs Let_def)

lemma step_finish_result:
  assumes "snd (lease_step stored (Finish k owner x) l)"
  shows "\<exists>r. fst (lease_step stored (Finish k owner x) l) = Some r \<and> ls_result r = Some (stored x)"
  using assms by (cases l) (auto simp: lease_defs split: if_splits)

section \<open>Stores that keep the contract\<close>

fun run :: "('e \<Rightarrow> 's \<Rightarrow> 's \<times> bool) \<Rightarrow> 'e list \<Rightarrow> 's \<Rightarrow> 's" where
  "run f [] s = s"
| "run f (e # es) s = run f es (fst (f e s))"

text \<open>The events of a run that took effect.\<close>

fun effective :: "('e \<Rightarrow> 's \<Rightarrow> 's \<times> bool) \<Rightarrow> 'e list \<Rightarrow> 's \<Rightarrow> 'e list" where
  "effective f [] s = []"
| "effective f (e # es) s = (if snd (f e s) then [e] else []) @ effective f es (fst (f e s))"

lemma run_append: "run f (xs @ ys) s = run f ys (run f xs s)"
  by (induction xs arbitrary: s) simp_all

definition finishes :: "'k \<Rightarrow> ('k, 'r) lease_event list \<Rightarrow> 'r list" where
  "finishes k es = concat (map (\<lambda>e. case e of Finish k' _ x \<Rightarrow> if k' = k then [x] else [] | _ \<Rightarrow> []) es)"

lemma finishes_simps [simp]:
  "finishes k [] = []"
  "finishes k (es @ fs) = finishes k es @ finishes k fs"
  "finishes k [Begin k' a b c d] = []" "finishes k [Abandon k' a b] = []"
  "finishes k [Finish k' a x] = (if k' = k then [x] else [])"
  by (simp_all add: finishes_def)

lemma finishes_Cons: "finishes k (e # es) = finishes k [e] @ finishes k es"
  by (simp add: finishes_def)

locale lease_store =
  fixes exec :: "('k, 'x) lease_event \<Rightarrow> 's \<Rightarrow> 's \<times> bool"
    and view :: "'s \<Rightarrow> 'k \<Rightarrow> 'r lease option"
    and stored :: "'x \<Rightarrow> 'r"
    and admissible :: "('k, 'x) lease_event \<Rightarrow> bool"
  assumes simulates: "admissible e \<Longrightarrow>
    view (fst (exec e s)) = (view s)(event_key e := fst (lease_step stored e (view s (event_key e)))) \<and>
    snd (exec e s) = snd (lease_step stored e (view s (event_key e)))"
begin

definition safe :: "'s \<Rightarrow> bool" where
  "safe s \<longleftrightarrow> (\<forall>k. lease_inv (view s k))"

lemma other_key: "admissible e \<Longrightarrow> event_key e \<noteq> k \<Longrightarrow> view (fst (exec e s)) k = view s k"
  by (simp add: simulates)

lemma same_key: "admissible e \<Longrightarrow> view (fst (exec e s)) (event_key e) = fst (lease_step stored e (view s (event_key e)))"
  by (simp add: simulates)

lemma exec_safe: "admissible e \<Longrightarrow> safe s \<Longrightarrow> safe (fst (exec e s))"
  by (simp add: safe_def simulates step_inv)

lemma run_safe: "list_all admissible es \<Longrightarrow> safe s \<Longrightarrow> safe (run exec es s)"
  by (induction es arbitrary: s) (simp_all add: exec_safe)

lemma run_digest:
  assumes "list_all admissible es" "view s k = Some r"
  shows "\<exists>r'. view (run exec es s) k = Some r' \<and> ls_digest r' = ls_digest r"
  using assms
proof (induction es arbitrary: s r)
  case (Cons e es)
  have "\<exists>r'. view (fst (exec e s)) k = Some r' \<and> ls_digest r' = ls_digest r"
  proof (cases "event_key e = k")
    case True
    then show ?thesis using Cons.prems step_digest[of "view s k" r stored e] same_key[of e s] by auto
  qed (use Cons.prems in \<open>auto simp: other_key\<close>)
  then obtain r1 where "view (fst (exec e s)) k = Some r1" "ls_digest r1 = ls_digest r" by blast
  with Cons.IH[of "fst (exec e s)" r1] Cons.prems show ?case by simp
qed simp

lemma exec_finished:
  assumes "admissible e" "safe s" "view s k = Some r" "ls_result r = Some x"
  shows "view (fst (exec e s)) k = Some r" and "event_key e = k \<Longrightarrow> \<not> snd (exec e s)"
proof -
  have "lease_inv (view s k)" using assms(2) by (simp add: safe_def)
  then have step: "lease_step stored e (view s k) = (view s k, False)" by (rule step_finished[OF _ assms(3,4)])
  show "view (fst (exec e s)) k = Some r"
    using same_key[OF assms(1), of s] other_key[OF assms(1), of k s] step assms(3)
    by (cases "event_key e = k") simp_all
  show "event_key e = k \<Longrightarrow> \<not> snd (exec e s)" using simulates[OF assms(1), of s] step by simp
qed

lemma run_finished:
  assumes "list_all admissible es" "safe s" "view s k = Some r" "ls_result r = Some x"
  shows "view (run exec es s) k = Some r \<and> finishes k (effective exec es s) = []"
  using assms
proof (induction es arbitrary: s)
  case (Cons e es)
  note e = exec_finished[of e s k r x]
  have none: "finishes k (if snd (exec e s) then [e] else []) = []"
    using e(2) Cons.prems by (cases e) auto
  then show ?case using Cons e exec_safe by simp
qed simp

lemma finish_exec:
  assumes "admissible e" "snd (exec e s)" "finishes k [e] = [y]"
  shows "\<exists>r. view (fst (exec e s)) k = Some r \<and> ls_result r = Some (stored y)"
proof -
  from assms(3) obtain owner where e: "e = Finish k owner y" by (cases e) (auto split: if_splits)
  with assms(2) simulates[OF assms(1), of s] have "snd (lease_step stored e (view s k))" by simp
  with step_finish_result[of stored k owner y "view s k"] same_key[OF assms(1), of s] e show ?thesis by simp
qed

lemma finished_once:
  assumes "list_all admissible es" "safe s"
  shows "finishes k (effective exec es s) = [] \<or>
         (\<exists>x r. finishes k (effective exec es s) = [x] \<and> view (run exec es s) k = Some r \<and> ls_result r = Some (stored x))"
  using assms
proof (induction es arbitrary: s)
  case (Cons e es)
  have safe': "safe (fst (exec e s))" and adm: "list_all admissible es" "admissible e"
    using Cons.prems exec_safe by auto
  show ?case
  proof (cases "snd (exec e s) \<and> (\<exists>y. finishes k [e] = [y])")
    case True
    then obtain y where y: "snd (exec e s)" "finishes k [e] = [y]" by blast
    then obtain r where r: "view (fst (exec e s)) k = Some r" "ls_result r = Some (stored y)"
      using finish_exec[OF adm(2)] by blast
    from run_finished[OF adm(1) safe' r] y r(2) show ?thesis
      by (simp add: finishes_Cons[of k e "effective exec es (fst (exec e s))"])
  next
    case False
    then have "finishes k (if snd (exec e s) then [e] else []) = []" by (cases e) auto
    then show ?thesis using Cons.IH[OF adm(1) safe'] by simp
  qed
qed simp

lemma run_held:
  assumes "list_all admissible es" "view s k = Some r" "ls_holder r = Some (Some owner, Some t)"
    and "\<forall>e \<in> set es. event_key e = k \<longrightarrow> event_owner e \<noteq> owner \<and> event_before t e"
  shows "view (run exec es s) k = Some r"
  using assms
proof (induction es arbitrary: s)
  case (Cons e es)
  have "view (fst (exec e s)) k = Some r"
  proof (cases "event_key e = k")
    case True
    then have "lease_step stored e (view s k) = (view s k, False)" using step_held Cons.prems by (metis list.set_intros(1))
    with True Cons.prems show ?thesis by (simp add: same_key flip: True)
  qed (use Cons.prems in \<open>simp add: other_key\<close>)
  with Cons show ?case by simp
qed simp

lemma holder_finishes:
  assumes "list_all admissible es" "admissible (Finish k owner x)"
    and "view s k = Some r" "ls_holder r = Some (Some owner, Some t)"
    and "\<forall>e \<in> set es. event_key e = k \<longrightarrow> event_owner e \<noteq> owner \<and> event_before t e"
  shows "snd (exec (Finish k owner x) (run exec es s))"
  using run_held[OF assms(1,3,4,5)] assms(2,4) by (simp add: simulates lease_defs)

end

end
