(* ===== verification/Inbox.thy ===== *)
theory Inbox
  imports Lease Runtime
begin

text \<open>
  The consumer inbox: the attempt policy (\<open>src/src/messaging/inboxPolicy.ts\<close>) and the repository over
  \<open>kaudit_inbox_message\<close> (\<open>src/src/adapters/mysqlInbox.ts\<close>). The table is a map from its unique key
  (consumer, message id); a transaction is one step, since it holds the row lock from the insert or the
  locking read to the commit. Times are milliseconds. The repository keeps the lease contract.
\<close>

datatype InboxBeginResult = Inbox_acquired | Inbox_duplicate_completed | Inbox_in_progress | Inbox_integrity_conflict

record ExistingInboxState =
  xi_payloadSha256 :: "string option"
  xi_status :: string
  xi_leaseOwner :: "string option"
  xi_leaseExpiresAt :: "int option"

definition classifyInboxAttempt :: "ExistingInboxState option \<Rightarrow> string \<Rightarrow> string \<Rightarrow> int \<Rightarrow> InboxBeginResult" where
  "classifyInboxAttempt existing incomingPayloadSha256 owner now =
     (case existing of
        None \<Rightarrow> Inbox_integrity_conflict
      | Some x \<Rightarrow>
          if xi_payloadSha256 x \<noteq> Some incomingPayloadSha256 then Inbox_integrity_conflict
          else if xi_status x = ''completed'' then Inbox_duplicate_completed
          else if xi_status x = ''processing'' \<and> xi_leaseOwner x \<noteq> Some owner \<and>
                  (case xi_leaseExpiresAt x of None \<Rightarrow> False | Some t \<Rightarrow> t > now)
          then Inbox_in_progress
          else Inbox_acquired)"

record InboxRow = ExistingInboxState +
  ib_result :: "string option"
  ib_processedAt :: "int option"
  ib_errorCode :: "string option"

type_synonym inbox_key = "string \<times> string"
type_synonym inbox = "inbox_key \<rightharpoonup> InboxRow"

definition inbox_begin ::
  "inbox_key \<Rightarrow> string \<Rightarrow> string \<Rightarrow> int \<Rightarrow> int \<Rightarrow> inbox \<Rightarrow> inbox \<times> InboxBeginResult" where
  "inbox_begin k payloadSha256 owner now leaseUntil table =
     (case table k of
        None \<Rightarrow>
          (table(k \<mapsto> \<lparr> xi_payloadSha256 = Some payloadSha256, xi_status = ''processing'',
                         xi_leaseOwner = Some owner, xi_leaseExpiresAt = Some leaseUntil,
                         ib_result = None, ib_processedAt = None, ib_errorCode = None \<rparr>),
           Inbox_acquired)
      | Some row \<Rightarrow>
          let decision = classifyInboxAttempt (Some (ExistingInboxState.truncate row)) payloadSha256 owner now in
          if decision \<noteq> Inbox_acquired then (table, decision)
          else (table(k \<mapsto> row\<lparr> xi_status := ''processing'', xi_leaseOwner := Some owner,
                               xi_leaseExpiresAt := Some leaseUntil, ib_errorCode := None \<rparr>),
                Inbox_acquired))"

text \<open>The guard \<open>status = 'processing' AND lease_owner = ?\<close> of both closing updates.\<close>

definition inbox_leased :: "inbox \<Rightarrow> inbox_key \<Rightarrow> string \<Rightarrow> bool" where
  "inbox_leased table k owner =
     (case table k of None \<Rightarrow> False | Some row \<Rightarrow> xi_status row = ''processing'' \<and> xi_leaseOwner row = Some owner)"

definition inbox_lost :: js_error where
  "inbox_lost = LeaseLostError ''Inbox processing lease no longer belongs to this worker''"

definition inbox_complete :: "inbox_key \<Rightarrow> string \<Rightarrow> json option \<Rightarrow> int \<Rightarrow> inbox \<Rightarrow> inbox res" where
  "inbox_complete k owner result now table =
     rbind (case result of None \<Rightarrow> Inr None | Some v \<Rightarrow> rbind (canonicalJson v) (\<lambda>t. Inr (Some t))) (\<lambda>text.
     if \<not> inbox_leased table k owner then Inl inbox_lost
     else Inr (table(k := map_option
       (\<lambda>row. row\<lparr> xi_status := ''completed'', ib_result := text, ib_processedAt := Some now,
                  xi_leaseOwner := None, xi_leaseExpiresAt := None, ib_errorCode := None \<rparr>) (table k))))"

definition inbox_fail :: "inbox_key \<Rightarrow> string \<Rightarrow> string \<Rightarrow> inbox \<Rightarrow> inbox res" where
  "inbox_fail k owner errorCode table =
     (if \<not> inbox_leased table k owner then Inl inbox_lost
      else Inr (table(k := map_option
        (\<lambda>row. row\<lparr> xi_status := ''failed'', ib_errorCode := Some errorCode,
                   xi_leaseOwner := None, xi_leaseExpiresAt := None \<rparr>) (table k))))"

section \<open>The inbox keeps the lease contract\<close>

definition inbox_lease :: "InboxRow \<Rightarrow> string option lease" where
  "inbox_lease row =
     \<lparr> ls_digest = xi_payloadSha256 row,
       ls_holder = (if xi_status row = ''processing'' then Some (xi_leaseOwner row, xi_leaseExpiresAt row) else None),
       ls_result = (if xi_status row = ''completed'' then Some (ib_result row) else None) \<rparr>"

definition inbox_view :: "inbox \<Rightarrow> inbox_key \<Rightarrow> string option lease option" where
  "inbox_view table k = map_option inbox_lease (table k)"

definition or_same :: "'s \<Rightarrow> 's res \<Rightarrow> 's \<times> bool" where
  "or_same s m = (case m of Inl _ \<Rightarrow> (s, False) | Inr s' \<Rightarrow> (s', True))"

text \<open>One operation of the repository; a completion carries its result and its time.\<close>

fun inbox_exec :: "(inbox_key, json option \<times> int) lease_event \<Rightarrow> inbox \<Rightarrow> inbox \<times> bool" where
  "inbox_exec (Begin k owner digest t until) table =
     (let (table', out) = inbox_begin k digest owner t until table in (table', out = Inbox_acquired))"
| "inbox_exec (Finish k owner (result, now)) table = or_same table (inbox_complete k owner result now table)"
| "inbox_exec (Abandon k owner code) table = or_same table (inbox_fail k owner code table)"

definition stored_text :: "json option \<times> int \<Rightarrow> string option" where
  "stored_text x = map_option canonical (fst x)"

fun finite_event :: "(inbox_key, json option \<times> int) lease_event \<Rightarrow> bool" where
  "finite_event (Finish k owner (Some v, t)) = finite_json v"
| "finite_event _ = True"

lemma inbox_view_upd: "inbox_view (table(k := r)) = (inbox_view table)(k := map_option inbox_lease r)"
  by (auto simp: inbox_view_def)

lemma inbox_begin_simulates:
  "inbox_view (fst (inbox_begin k digest owner t until table)) =
     (inbox_view table)(k := fst (lease_begin owner digest t until (inbox_view table k)))"
  "(snd (inbox_begin k digest owner t until table) = Inbox_acquired) =
     (snd (lease_begin owner digest t until (inbox_view table k)) = Acquired)"
  by (auto simp: inbox_begin_def inbox_view_upd inbox_view_def inbox_lease_def lease_begin_def held_by_other_def
      classifyInboxAttempt_def ExistingInboxState.defs Let_def fun_eq_iff split: option.splits)

lemma inbox_leased_iff: "inbox_leased table k owner = holds (inbox_view table k) owner"
  by (auto simp: inbox_leased_def holds_def inbox_view_def inbox_lease_def split: option.splits)

interpretation inbox: lease_store inbox_exec inbox_view stored_text finite_event
proof (unfold_locales)
  fix e :: "(inbox_key, json option \<times> int) lease_event" and table
  assume fin: "finite_event e"
  have idle: "(inbox_view table)(k := inbox_view table k) = inbox_view table" for k by simp
  show "inbox_view (fst (inbox_exec e table)) =
      (inbox_view table)(event_key e := fst (lease_step stored_text e (inbox_view table (event_key e)))) \<and>
    snd (inbox_exec e table) = snd (lease_step stored_text e (inbox_view table (event_key e)))"
  proof (cases e)
    case (Begin k owner digest t until)
    then show ?thesis using inbox_begin_simulates[of k digest owner t until table] by (simp add: Let_def case_prod_unfold)
  next
    case (Finish k owner x)
    obtain result now where x: "x = (result, now)" by fastforce
    have "(case result of None \<Rightarrow> Inr None | Some v \<Rightarrow> rbind (canonicalJson v) (\<lambda>t. Inr (Some t))) = Inr (stored_text x)"
      using fin Finish x by (cases result) (auto simp: stored_text_def)
    with Finish x show ?thesis
      by (cases "table k") (auto simp: inbox_complete_def inbox_leased_iff or_same_def inbox_view_upd lease_finish_def keep_def
          inbox_view_def inbox_lease_def holds_def)
  next
    case (Abandon k owner code)
    then show ?thesis
      by (cases "table k") (auto simp: inbox_fail_def inbox_leased_iff or_same_def inbox_view_upd lease_finish_def keep_def
          inbox_view_def inbox_lease_def holds_def)
  qed
qed

section \<open>Exactly once\<close>

lemma inbox_empty_safe: "inbox.safe Map.empty"
  by (simp add: inbox.safe_def inbox_view_def lease_inv_def)

lemma inbox_view_result:
  "inbox_view table k = Some r \<Longrightarrow> ls_result r = Some x \<Longrightarrow>
   \<exists>row. table k = Some row \<and> xi_status row = ''completed'' \<and> ib_result row = x"
  by (auto simp: inbox_view_def inbox_lease_def split: if_splits)

lemma inbox_acquired_view:
  assumes "inbox_begin k digest owner t until table = (table', Inbox_acquired)"
  shows "\<exists>r. inbox_view table' k = Some r \<and> ls_holder r = Some (Some owner, Some until)"
proof -
  have "inbox_view table' k = fst (lease_begin owner digest t until (inbox_view table k))"
    "snd (lease_begin owner digest t until (inbox_view table k)) = Acquired"
    using inbox_begin_simulates[of k digest owner t until table] assms by simp_all
  then show ?thesis by (cases "inbox_view table k") (auto simp: lease_begin_def split: if_splits)
qed


definition demo_inbox_events :: "(inbox_key, json option \<times> int) lease_event list" where
  "demo_inbox_events =
     [Begin (''billing'', ''m1'') ''w1'' ''h'' 0 10, Begin (''billing'', ''m1'') ''w2'' ''h'' 5 15,
      Begin (''billing'', ''m1'') ''w2'' ''h'' 11 21, Finish (''billing'', ''m1'') ''w1'' (Some (JStr ''late''), 12),
      Finish (''billing'', ''m1'') ''w2'' (Some (JStr ''paid''), 13), Begin (''billing'', ''m1'') ''w1'' ''h'' 30 40]"


text \<open>
  A worker that acquired a message can complete it: as long as the others act under other owner
  names and begin before its lease expires, nothing they do to the table takes the lease away.
\<close>
theorem inbox_lease_exclusive:
  assumes "inbox_begin k digest owner t until table = (table', Inbox_acquired)"
    and "list_all finite_event es"
    and "\<forall>e \<in> set es. event_key e = k \<longrightarrow> event_owner e \<noteq> owner \<and> event_before until e"
    and "\<forall>v. result = Some v \<longrightarrow> finite_json v"
  shows "\<exists>table''. inbox_complete k owner result now (run inbox_exec es table') = Inr table''"
proof -
  obtain r where r: "inbox_view table' k = Some r" "ls_holder r = Some (Some owner, Some until)"
    using inbox_acquired_view[OF assms(1)] by blast
  have "finite_event (Finish k owner (result, now))" using assms(4) by (cases result) auto
  from inbox.holder_finishes[OF assms(2) this r assms(3)] show ?thesis
    by (auto simp: or_same_def split: sum.splits)
qed

theorem inbox_lease_exclusive_witness:
  "\<exists>table' table''. inbox_begin (''billing'', ''m1'') ''h'' ''w1'' 0 10 Map.empty = (table', Inbox_acquired) \<and>
     inbox_complete (''billing'', ''m1'') ''w1'' None 9
       (run inbox_exec [Begin (''billing'', ''m1'') ''w2'' ''h'' 5 15, Finish (''billing'', ''m1'') ''w2'' (None, 6)] table') = Inr table''"
proof -
  obtain table' where b: "inbox_begin (''billing'', ''m1'') ''h'' ''w1'' 0 10 Map.empty = (table', Inbox_acquired)"
    by (simp add: inbox_begin_def)
  then show ?thesis
    using inbox_lease_exclusive[OF b, of "[Begin (''billing'', ''m1'') ''w2'' ''h'' 5 15, Finish (''billing'', ''m1'') ''w2'' (None, 6)]" None 9]
    by auto
qed

end
