(* ===== verification/Idempotency.thy ===== *)
theory Idempotency
  imports Inbox
begin

text \<open>
  Request idempotency: the attempt policy (\<open>src/src/idempotency/policy.ts\<close>) and the repository over
  \<open>kaudit_idempotency_record\<close> (\<open>src/src/adapters/mysqlIdempotency.ts\<close>), a map from its unique key
  (route, idempotency key). The repository keeps the same lease contract as the inbox; a completed record
  counts as finished when its response can be replayed.
\<close>

record replay =
  rp_responseReference :: string
  rp_httpStatus :: int
  rp_responseHash :: string

datatype IdempotencyBeginResult = Idem_acquired | Idem_replay replay | Idem_conflict | Idem_in_progress

record ExistingIdempotencyState =
  xd_requestHash :: string
  xd_status :: string
  xd_responseReference :: "string option"
  xd_httpStatus :: "int option"
  xd_responseHash :: "string option"
  xd_lockOwner :: "string option"
  xd_lockedUntil :: "int option"

definition replayable :: "ExistingIdempotencyState \<Rightarrow> replay option" where
  "replayable x =
     (if xd_status x = ''completed'' \<and> truthy_text (xd_responseReference x) \<and> xd_httpStatus x \<noteq> None \<and>
         truthy_text (xd_responseHash x)
      then Some \<lparr> rp_responseReference = coalesce (xd_responseReference x) [],
                  rp_httpStatus = coalesce (xd_httpStatus x) 0,
                  rp_responseHash = coalesce (xd_responseHash x) [] \<rparr>
      else None)"

definition classifyIdempotencyAttempt ::
  "ExistingIdempotencyState option \<Rightarrow> string \<Rightarrow> string \<Rightarrow> int \<Rightarrow> IdempotencyBeginResult" where
  "classifyIdempotencyAttempt existing requestHash owner now =
     (case existing of
        None \<Rightarrow> Idem_conflict
      | Some x \<Rightarrow>
          if xd_requestHash x \<noteq> requestHash then Idem_conflict
          else case replayable x of
            Some r \<Rightarrow> Idem_replay r
          | None \<Rightarrow>
              if xd_status x = ''processing'' \<and> xd_lockOwner x \<noteq> Some owner \<and>
                 (case xd_lockedUntil x of None \<Rightarrow> False | Some t \<Rightarrow> t > now)
              then Idem_in_progress
              else Idem_acquired)"

record IdempotencyRow = ExistingIdempotencyState +
  id_expiresAt :: int

type_synonym idem_key = "string \<times> string"
type_synonym idem_store = "idem_key \<rightharpoonup> IdempotencyRow"

definition idem_begin ::
  "idem_key \<Rightarrow> string \<Rightarrow> string \<Rightarrow> int \<Rightarrow> int \<Rightarrow> int \<Rightarrow> idem_store \<Rightarrow> idem_store \<times> IdempotencyBeginResult" where
  "idem_begin k requestHash owner expiresAt lockUntil now table =
     (case table k of
        None \<Rightarrow>
          (table(k \<mapsto> \<lparr> xd_requestHash = requestHash, xd_status = ''processing'', xd_responseReference = None,
                         xd_httpStatus = None, xd_responseHash = None, xd_lockOwner = Some owner,
                         xd_lockedUntil = Some lockUntil, id_expiresAt = expiresAt \<rparr>),
           Idem_acquired)
      | Some row \<Rightarrow>
          let decision = classifyIdempotencyAttempt (Some (ExistingIdempotencyState.truncate row)) requestHash owner now in
          if decision \<noteq> Idem_acquired then (table, decision)
          else (table(k \<mapsto> row\<lparr> xd_status := ''processing'', xd_lockOwner := Some owner,
                               xd_lockedUntil := Some lockUntil, id_expiresAt := expiresAt \<rparr>),
                Idem_acquired))"

definition idem_leased :: "idem_store \<Rightarrow> idem_key \<Rightarrow> string \<Rightarrow> bool" where
  "idem_leased table k owner =
     (case table k of None \<Rightarrow> False | Some row \<Rightarrow> xd_status row = ''processing'' \<and> xd_lockOwner row = Some owner)"

definition idem_lost :: js_error where
  "idem_lost = LeaseLostError ''Idempotency lease no longer belongs to this request''"

definition idem_complete :: "idem_key \<Rightarrow> string \<Rightarrow> replay \<Rightarrow> idem_store \<Rightarrow> idem_store res" where
  "idem_complete k owner response table =
     (if \<not> idem_leased table k owner then Inl idem_lost
      else Inr (table(k := map_option
        (\<lambda>row. row\<lparr> xd_status := ''completed'', xd_responseReference := Some (rp_responseReference response),
                   xd_httpStatus := Some (rp_httpStatus response), xd_responseHash := Some (rp_responseHash response),
                   xd_lockOwner := None, xd_lockedUntil := None \<rparr>) (table k))))"

definition idem_fail :: "idem_key \<Rightarrow> string \<Rightarrow> idem_store \<Rightarrow> idem_store res" where
  "idem_fail k owner table =
     (if \<not> idem_leased table k owner then Inl idem_lost
      else Inr (table(k := map_option
        (\<lambda>row. row\<lparr> xd_status := ''failed'', xd_lockOwner := None, xd_lockedUntil := None \<rparr>) (table k))))"

section \<open>The store keeps the lease contract\<close>

definition idem_lease :: "IdempotencyRow \<Rightarrow> replay lease" where
  "idem_lease row =
     \<lparr> ls_digest = Some (xd_requestHash row),
       ls_holder = (if xd_status row = ''processing'' then Some (xd_lockOwner row, xd_lockedUntil row) else None),
       ls_result = replayable (ExistingIdempotencyState.truncate row) \<rparr>"

definition idem_view :: "idem_store \<Rightarrow> idem_key \<Rightarrow> replay lease option" where
  "idem_view table k = map_option idem_lease (table k)"

text \<open>One operation of the repository. The expiry a beginning stores depends on its time.\<close>

fun idem_exec :: "(int \<Rightarrow> int) \<Rightarrow> (idem_key, replay) lease_event \<Rightarrow> idem_store \<Rightarrow> idem_store \<times> bool" where
  "idem_exec expiry (Begin k owner digest t until) table =
     (let (table', out) = idem_begin k digest owner (expiry t) until t table in (table', out = Idem_acquired))"
| "idem_exec expiry (Finish k owner response) table = or_same table (idem_complete k owner response table)"
| "idem_exec expiry (Abandon k owner code) table = or_same table (idem_fail k owner table)"

text \<open>A response the policy will replay: neither reference nor hash is empty.\<close>

fun replay_event :: "(idem_key, replay) lease_event \<Rightarrow> bool" where
  "replay_event (Finish k owner r) = (rp_responseReference r \<noteq> [] \<and> rp_responseHash r \<noteq> [])"
| "replay_event _ = True"

lemma idem_view_upd: "idem_view (table(k := r)) = (idem_view table)(k := map_option idem_lease r)"
  by (auto simp: idem_view_def)

lemma idem_begin_simulates:
  "idem_view (fst (idem_begin k digest owner x until t table)) =
     (idem_view table)(k := fst (lease_begin owner digest t until (idem_view table k)))"
  "(snd (idem_begin k digest owner x until t table) = Idem_acquired) =
     (snd (lease_begin owner digest t until (idem_view table k)) = Acquired)"
proof (atomize (full), cases "table k")
  case None
  then show "idem_view (fst (idem_begin k digest owner x until t table)) =
     (idem_view table)(k := fst (lease_begin owner digest t until (idem_view table k))) \<and>
    (snd (idem_begin k digest owner x until t table) = Idem_acquired) =
     (snd (lease_begin owner digest t until (idem_view table k)) = Acquired)"
    by (simp add: idem_begin_def idem_view_upd lease_begin_def)
      (simp add: idem_view_def idem_lease_def replayable_def ExistingIdempotencyState.defs)
next
  case (Some row)
  have idle: "idem_view table = (idem_view table)(k \<mapsto> idem_lease row)" using Some by (simp add: idem_view_def fun_eq_iff)
  show "idem_view (fst (idem_begin k digest owner x until t table)) =
     (idem_view table)(k := fst (lease_begin owner digest t until (idem_view table k))) \<and>
    (snd (idem_begin k digest owner x until t table) = Idem_acquired) =
     (snd (lease_begin owner digest t until (idem_view table k)) = Acquired)"
    using Some idle
    by (auto simp: idem_begin_def idem_view_upd lease_begin_def classifyIdempotencyAttempt_def held_by_other_def Let_def
        idem_view_def[of table k] idem_lease_def ExistingIdempotencyState.defs replayable_def
        split: option.splits if_splits)
qed

lemma idem_leased_iff: "idem_leased table k owner = holds (idem_view table k) owner"
  by (auto simp: idem_leased_def holds_def idem_view_def idem_lease_def split: option.splits)

interpretation idem: lease_store "idem_exec expiry" idem_view "\<lambda>r. r" replay_event for expiry
proof (unfold_locales)
  fix e :: "(idem_key, replay) lease_event" and table
  assume adm: "replay_event e"
  show "idem_view (fst (idem_exec expiry e table)) =
      (idem_view table)(event_key e := fst (lease_step (\<lambda>r. r) e (idem_view table (event_key e)))) \<and>
    snd (idem_exec expiry e table) = snd (lease_step (\<lambda>r. r) e (idem_view table (event_key e)))"
  proof (cases e)
    case (Begin k owner digest t until)
    then show ?thesis using idem_begin_simulates[of k digest owner "expiry t" until t table]
      by (simp add: Let_def case_prod_unfold)
  next
    case (Finish k owner r)
    with adm show ?thesis
      by (cases "table k"; cases r) (auto simp: idem_complete_def idem_leased_iff or_same_def idem_view_upd lease_finish_def keep_def
          idem_view_def idem_lease_def holds_def replayable_def ExistingIdempotencyState.defs)
  next
    case (Abandon k owner code)
    then show ?thesis
      by (cases "table k") (auto simp: idem_fail_def idem_leased_iff or_same_def idem_view_upd lease_finish_def keep_def
          idem_view_def idem_lease_def holds_def replayable_def ExistingIdempotencyState.defs)
  qed
qed

section \<open>Replays\<close>

lemma idem_complete_view:
  assumes "idem_complete k owner response table = Inr table'" and "replay_event (Finish k owner response)"
  shows "\<exists>r. idem_view table' k = Some r \<and> ls_result r = Some response"
proof -
  have e: "snd (idem_exec expiry (Finish k owner response) table)" "fst (idem_exec expiry (Finish k owner response) table) = table'"
    for expiry using assms(1) by (simp_all add: or_same_def)
  from idem.finish_exec[OF assms(2) e(1), of k response] e(2) show ?thesis by simp
qed

lemma idem_begin_finished:
  assumes "idem_view table k = Some r" "ls_result r = Some response" "ls_digest r = Some digest"
  shows "idem_begin k h owner x until t table = (table, if h = digest then Idem_replay response else Idem_conflict)"
proof -
  obtain row where row: "table k = Some row" and r: "r = idem_lease row"
    using assms(1) by (auto simp: idem_view_def)
  then have "replayable (ExistingIdempotencyState.truncate row) = Some response" "xd_requestHash row = digest"
    using assms(2,3) by (simp_all add: idem_lease_def)
  moreover have "xd_requestHash (ExistingIdempotencyState.truncate row) = xd_requestHash row"
    by (simp add: ExistingIdempotencyState.defs)
  ultimately show ?thesis by (simp add: idem_begin_def row classifyIdempotencyAttempt_def)
qed

lemma idem_safe: "idem.safe table"
  by (auto simp: idem.safe_def lease_inv_def idem_view_def idem_lease_def replayable_def ExistingIdempotencyState.defs
      split: option.splits)

text \<open>
  Once a request is completed its response is fixed: whatever other requests begin, complete or fail
  afterwards, every retry with the same key and the same request hash gets exactly that response back and
  a retry with a different hash is refused, and neither changes the store.
\<close>
theorem idempotent_replay:
  assumes "idem_complete k owner response table = Inr table'"
    and "rp_responseReference response \<noteq> []" "rp_responseHash response \<noteq> []"
    and "list_all replay_event es"
  shows "\<exists>row. table k = Some row \<and>
         idem_begin k h who x until t (run (idem_exec expiry) es table') =
           (run (idem_exec expiry) es table', if h = xd_requestHash row then Idem_replay response else Idem_conflict)"
proof -
  have adm: "replay_event (Finish k owner response)" using assms(2,3) by simp
  obtain r where r: "idem_view table' k = Some r" "ls_result r = Some response"
    using idem_complete_view[OF assms(1) adm] by blast
  obtain row where row: "table k = Some row"
    using assms(1) by (auto simp: idem_complete_def idem_leased_def split: if_splits option.splits)
  then have "idem_view table k = Some (idem_lease row)" by (simp add: idem_view_def)
  with idem.run_digest[of "[Finish k owner response]" table k "idem_lease row" expiry] adm assms(1) r(1)
  have digest: "ls_digest r = Some (xd_requestHash row)" by (auto simp: or_same_def idem_lease_def)
  have "idem_view (run (idem_exec expiry) es table') k = Some r"
    using idem.run_finished[OF assms(4) idem_safe r, of expiry] by simp
  from idem_begin_finished[OF this r(2) digest] row show ?thesis by blast
qed

definition demo_response :: replay where
  "demo_response = \<lparr> rp_responseReference = ''batch-1'', rp_httpStatus = 201, rp_responseHash = ''h1'' \<rparr>"

theorem idempotent_replay_witness:
  "\<exists>table' table''.
     idem_begin (''/reaudit'', ''key'') ''req'' ''w1'' 100 10 0 Map.empty = (table', Idem_acquired) \<and>
     idem_complete (''/reaudit'', ''key'') ''w1'' demo_response table' = Inr table'' \<and>
     snd (idem_begin (''/reaudit'', ''key'') ''req'' ''w2'' 120 30 20
       (run (idem_exec (\<lambda>t. t)) [Abandon (''/reaudit'', ''key'') ''w1'' ''X''] table'')) = Idem_replay demo_response"
proof -
  obtain table' where b: "idem_begin (''/reaudit'', ''key'') ''req'' ''w1'' 100 10 0 Map.empty = (table', Idem_acquired)"
    and row: "\<exists>row. table' (''/reaudit'', ''key'') = Some row \<and> xd_requestHash row = ''req'' \<and> xd_status row = ''processing'' \<and>
      xd_lockOwner row = Some ''w1''"
    by (simp add: idem_begin_def)
  obtain table'' where c: "idem_complete (''/reaudit'', ''key'') ''w1'' demo_response table' = Inr table''"
    using row by (auto simp: idem_complete_def idem_leased_def)
  from idempotent_replay[OF c, of "[Abandon (''/reaudit'', ''key'') ''w1'' ''X'']" "''req''" "''w2''" 120 30 20 "\<lambda>t. t"] row b c
  show ?thesis by (auto simp: demo_response_def)
qed

end
