(* ===== verification/Outbox.thy ===== *)
theory Outbox
  imports Runtime "HOL-Library.Product_Lexorder"
begin

text \<open>
  The transactional outbox: the writer and the repository over \<open>kaudit_outbox_message\<close>
  (\<open>src/src/adapters/mysqlOutbox.ts\<close>) and the publisher (\<open>src/src/messaging/outboxPublisher.ts\<close>).
  The table is the list of its rows; each statement or transaction is one step. The rows other
  transactions have locked, which \<open>FOR UPDATE SKIP LOCKED\<close> passes over, are an argument of the claim.
  Times are milliseconds; the transport is a parameter.
\<close>

datatype outbox_status = Pending | Retry | Publishing | Published | Dead_letter

datatype payload_column = Text string | Parsed json

record OutboxRow =
  ob_id :: string
  ob_messageId :: "string option"
  ob_aggregateType :: string
  ob_aggregateId :: string
  ob_eventType :: string
  ob_payload :: payload_column
  ob_payloadSha256 :: "string option"
  ob_correlationId :: "string option"
  ob_attempts :: int
  ob_status :: outbox_status
  ob_availableAt :: int
  ob_createdAt :: int
  ob_leaseOwner :: "string option"
  ob_leaseExpiresAt :: "int option"
  ob_lastErrorCode :: "string option"
  ob_publishedAt :: "int option"

type_synonym outbox = "OutboxRow list"

section \<open>The writer\<close>

record NewOutboxMessage =
  nm_messageId :: string
  nm_aggregateType :: string
  nm_aggregateId :: string
  nm_eventType :: string
  nm_payload :: json
  nm_correlationId :: "string option"

datatype enqueue_result = Inserted | Duplicate

definition enqueue :: "runtime \<Rightarrow> string \<Rightarrow> int \<Rightarrow> NewOutboxMessage \<Rightarrow> outbox \<Rightarrow> (outbox \<times> enqueue_result) res" where
  "enqueue rt uuid dbNow msg table =
     rbind (canonicalJson (nm_payload msg)) (\<lambda>payloadJson.
     let payloadSha256 = sha256Hex rt payloadJson in
     if \<not> list_ex (\<lambda>r. ob_id r = uuid \<or> ob_messageId r = Some (nm_messageId msg)) table
     then Inr (table @
       [\<lparr> ob_id = uuid, ob_messageId = Some (nm_messageId msg), ob_aggregateType = nm_aggregateType msg,
          ob_aggregateId = nm_aggregateId msg, ob_eventType = nm_eventType msg, ob_payload = Text payloadJson,
          ob_payloadSha256 = Some payloadSha256, ob_correlationId = nm_correlationId msg, ob_attempts = 0,
          ob_status = Pending, ob_availableAt = dbNow, ob_createdAt = dbNow, ob_leaseOwner = None,
          ob_leaseExpiresAt = None, ob_lastErrorCode = None, ob_publishedAt = None \<rparr>], Inserted)
     else
       case find (\<lambda>r. ob_messageId r = Some (nm_messageId msg)) table of
         None \<Rightarrow> Inl (MessageIntegrityError ''The same outbox message ID was reused with different content'')
       | Some existing \<Rightarrow>
           if ob_aggregateType existing = nm_aggregateType msg \<and> ob_aggregateId existing = nm_aggregateId msg \<and>
              ob_eventType existing = nm_eventType msg \<and> ob_payloadSha256 existing = Some payloadSha256
           then Inr (table, Duplicate)
           else Inl (MessageIntegrityError ''The same outbox message ID was reused with different content''))"

section \<open>The repository\<close>

record ClaimedOutboxMessage =
  cm_id :: string
  cm_messageId :: string
  cm_aggregateType :: string
  cm_aggregateId :: string
  cm_eventType :: string
  cm_payloadJson :: string
  cm_payloadSha256 :: string
  cm_correlationId :: "string option"
  cm_attempts :: int

definition assertLimit :: "int \<Rightarrow> nat res" where
  "assertLimit limit =
     (if limit < 1 \<or> limit > 1000 then Inl (RangeError ''Outbox claim limit must be from 1 to 1000'') else Inr (nat limit))"

definition mapOutbox :: "OutboxRow \<Rightarrow> ClaimedOutboxMessage res" where
  "mapOutbox row =
     rbind (case ob_payload row of Text t \<Rightarrow> Inr t | Parsed v \<Rightarrow> canonicalJson v) (\<lambda>payloadJson.
     Inr \<lparr> cm_id = ob_id row, cm_messageId = coalesce (ob_messageId row) [], cm_aggregateType = ob_aggregateType row,
           cm_aggregateId = ob_aggregateId row, cm_eventType = ob_eventType row, cm_payloadJson = payloadJson,
           cm_payloadSha256 = coalesce (ob_payloadSha256 row) [], cm_correlationId = ob_correlationId row,
           cm_attempts = ob_attempts row \<rparr>)"

definition claimable :: "int \<Rightarrow> OutboxRow \<Rightarrow> bool" where
  "claimable now r =
     ((ob_status r = Pending \<or> ob_status r = Retry) \<and> ob_availableAt r \<le> now \<and>
      (case ob_leaseExpiresAt r of None \<Rightarrow> True | Some t \<Rightarrow> t \<le> now) \<and>
      ob_messageId r \<noteq> None \<and> ob_payloadSha256 r \<noteq> None)"

definition claimed_rows :: "nat \<Rightarrow> int \<Rightarrow> (string \<Rightarrow> bool) \<Rightarrow> outbox \<Rightarrow> OutboxRow list" where
  "claimed_rows limit now locked table =
     take limit (sort_key (\<lambda>r. (ob_availableAt r, ob_createdAt r, ob_id r))
       (filter (\<lambda>r. claimable now r \<and> \<not> locked (ob_id r)) table))"

definition claim ::
  "string \<Rightarrow> int \<Rightarrow> int \<Rightarrow> int \<Rightarrow> (string \<Rightarrow> bool) \<Rightarrow> outbox \<Rightarrow> outbox \<times> ClaimedOutboxMessage list res" where
  "claim owner limit now leaseUntil locked table =
     (case assertLimit limit of
        Inl e \<Rightarrow> (table, Inl e)
      | Inr n \<Rightarrow>
          let rows = claimed_rows n now locked table;
              ids = map ob_id rows
          in (map (\<lambda>r. if ob_id r \<in> set ids
                       then r\<lparr> ob_status := Publishing, ob_leaseOwner := Some owner,
                               ob_leaseExpiresAt := Some leaseUntil, ob_lastErrorCode := None \<rparr>
                       else r) table,
              mapM_res mapOutbox rows))"

text \<open>An update guarded by \<open>id = ? AND status = 'publishing' AND lease_owner = ?\<close>.\<close>

definition leased_row :: "string \<Rightarrow> string \<Rightarrow> OutboxRow \<Rightarrow> bool" where
  "leased_row i owner r = (ob_id r = i \<and> ob_status r = Publishing \<and> ob_leaseOwner r = Some owner)"

definition update_leased ::
  "string \<Rightarrow> string \<Rightarrow> (OutboxRow \<Rightarrow> OutboxRow) \<Rightarrow> string \<Rightarrow> outbox \<Rightarrow> outbox \<times> unit res" where
  "update_leased i owner f lost table =
     (map (\<lambda>r. if leased_row i owner r then f r else r) table,
      if length (filter (leased_row i owner) table) \<noteq> 1 then Inl (LeaseLostError lost) else Inr ())"

definition markPublished :: "string \<Rightarrow> string \<Rightarrow> int \<Rightarrow> outbox \<Rightarrow> outbox \<times> unit res" where
  "markPublished i owner now = update_leased i owner
     (\<lambda>r. r\<lparr> ob_status := Published, ob_publishedAt := Some now, ob_leaseOwner := None,
             ob_leaseExpiresAt := None, ob_lastErrorCode := None \<rparr>)
     ''Outbox publication lease no longer belongs to this worker''"

definition markFailed :: "string \<Rightarrow> string \<Rightarrow> outbox_status \<Rightarrow> int \<Rightarrow> string \<Rightarrow> outbox \<Rightarrow> outbox \<times> unit res" where
  "markFailed i owner nextStatus availableAt errorCode = update_leased i owner
     (\<lambda>r. r\<lparr> ob_status := nextStatus, ob_attempts := ob_attempts r + 1, ob_availableAt := availableAt,
             ob_leaseOwner := None, ob_leaseExpiresAt := None, ob_lastErrorCode := Some errorCode \<rparr>)
     ''Outbox failure lease no longer belongs to this worker''"

section \<open>The publisher\<close>

record PublishSummary =
  ps_claimed :: nat
  ps_published :: nat
  ps_retried :: nat
  ps_deadLettered :: nat
  ps_integrityRejected :: nat

definition retryDelayMs :: "int \<Rightarrow> int" where
  "retryDelayMs attemptsBeforeFailure =
     min (15 * 60000) (1000 * 2 ^ nat (max 0 (min attemptsBeforeFailure 20)))"

text \<open>The \<open>code\<close> property of a thrown error; the other classes of the model carry none a transport throws.\<close>

definition error_code :: "js_error \<Rightarrow> string option" where
  "error_code e =
     (case e of
        TransportError c \<Rightarrow> c
      | LeaseLostError _ \<Rightarrow> Some ''PROCESSING_LEASE_LOST''
      | MessageIntegrityError _ \<Rightarrow> Some ''MESSAGE_INTEGRITY_CONFLICT''
      | ConfigurationError _ \<Rightarrow> Some ''INVALID_CONFIGURATION''
      | UsageCsvError _ \<Rightarrow> Some ''INVALID_USAGE_CSV''
      | KserveSettlementInputError _ _ \<Rightarrow> Some ''INVALID_KSERVE_SETTLEMENT''
      | KserveSettlementConflictError _ _ \<Rightarrow> Some ''KSERVE_SETTLEMENT_CONFLICT''
      | KserveSettlementUnavailableError \<Rightarrow> Some ''KSERVE_SETTLEMENT_UNAVAILABLE''
      | AuditWorkerControlError _ \<Rightarrow> Some ''INVALID_AUDIT_WORKER_CONTROL''
      | AuditScopeError _ \<Rightarrow> Some ''INVALID_AUDIT_SCOPE''
      | CallAuditScoringError _ \<Rightarrow> Some ''INVALID_CALL_AUDIT_SCORES''
      | UnknownDetailedOutcomeError _ \<Rightarrow> Some ''UNKNOWN_DETAILED_OUTCOME''
      | BillingPersistenceIntegrityError _ \<Rightarrow> Some ''BILLING_PERSISTENCE_INTEGRITY''
      | LateRecordingError code _ \<Rightarrow> Some code
      | DriverError code \<Rightarrow> Some code
      | CredentialError code \<Rightarrow> Some code
      | UserAdminError _ code _ \<Rightarrow> Some code
      | LoginError code \<Rightarrow> Some code
      | AuthFailure _ code \<Rightarrow> Some code
      | _ \<Rightarrow> None)"

text \<open>\<open>/^[A-Z0-9_]{1,80}$/\<close>.\<close>

definition bounded_code :: "string \<Rightarrow> bool" where
  "bounded_code c =
     (1 \<le> length c \<and> length c \<le> 80 \<and>
      list_all (\<lambda>x. (CHR ''A'' \<le> x \<and> x \<le> CHR ''Z'') \<or> is_digit x \<or> x = CHR ''_'') c)"

definition safeErrorCode :: "js_error \<Rightarrow> string" where
  "safeErrorCode e =
     (case error_code e of
        Some c \<Rightarrow> if bounded_code c then c else ''TRANSPORT_FAILURE''
      | None \<Rightarrow> ''TRANSPORT_FAILURE'')"

definition publish_one ::
  "runtime \<Rightarrow> (ClaimedOutboxMessage \<Rightarrow> unit res) \<Rightarrow> string \<Rightarrow> int \<Rightarrow> int \<Rightarrow> ClaimedOutboxMessage \<Rightarrow>
   outbox \<Rightarrow> PublishSummary \<Rightarrow> outbox \<times> PublishSummary res" where
  "publish_one rt transport owner now maxAttempts msg table summary =
     (if sha256Hex rt (cm_payloadJson msg) \<noteq> cm_payloadSha256 msg
      then let (table', r) = markFailed (cm_id msg) owner Dead_letter now ''PAYLOAD_HASH_MISMATCH'' table in
           (table', rbind r (\<lambda>_. Inr (summary\<lparr> ps_deadLettered := ps_deadLettered summary + 1,
                                               ps_integrityRejected := ps_integrityRejected summary + 1 \<rparr>)))
      else
        let (table1, sent) = (case transport msg of
               Inl e \<Rightarrow> (table, Inl e)
             | Inr _ \<Rightarrow> markPublished (cm_id msg) owner now table)
        in case sent of
             Inr _ \<Rightarrow> (table1, Inr (summary\<lparr> ps_published := ps_published summary + 1 \<rparr>))
           | Inl e \<Rightarrow>
               let attemptAfterFailure = cm_attempts msg + 1;
                   deadLetter = (attemptAfterFailure \<ge> maxAttempts);
                   (table2, r) = markFailed (cm_id msg) owner (if deadLetter then Dead_letter else Retry)
                                   (now + retryDelayMs attemptAfterFailure) (safeErrorCode e) table1
               in (table2, rbind r (\<lambda>_. Inr
                    (if deadLetter then summary\<lparr> ps_deadLettered := ps_deadLettered summary + 1 \<rparr>
                     else summary\<lparr> ps_retried := ps_retried summary + 1 \<rparr>))))"

fun publish_loop ::
  "runtime \<Rightarrow> (ClaimedOutboxMessage \<Rightarrow> unit res) \<Rightarrow> string \<Rightarrow> int \<Rightarrow> int \<Rightarrow> ClaimedOutboxMessage list \<Rightarrow>
   outbox \<Rightarrow> PublishSummary \<Rightarrow> outbox \<times> PublishSummary res" where
  "publish_loop rt transport owner now maxAttempts [] table summary = (table, Inr summary)"
| "publish_loop rt transport owner now maxAttempts (msg # msgs) table summary =
     (case publish_one rt transport owner now maxAttempts msg table summary of
        (table', Inl e) \<Rightarrow> (table', Inl e)
      | (table', Inr summary') \<Rightarrow> publish_loop rt transport owner now maxAttempts msgs table' summary')"

definition publishOutboxBatch ::
  "runtime \<Rightarrow> (ClaimedOutboxMessage \<Rightarrow> unit res) \<Rightarrow> string \<Rightarrow> int \<Rightarrow> int \<Rightarrow> int \<Rightarrow> int \<Rightarrow> (string \<Rightarrow> bool) \<Rightarrow>
   outbox \<Rightarrow> outbox \<times> PublishSummary res" where
  "publishOutboxBatch rt transport owner limit now leaseMs maxAttempts locked table =
     (case claim owner limit now (now + leaseMs) locked table of
        (table', Inl e) \<Rightarrow> (table', Inl e)
      | (table', Inr claimed) \<Rightarrow>
          publish_loop rt transport owner now maxAttempts claimed table'
            \<lparr> ps_claimed = length claimed, ps_published = 0, ps_retried = 0, ps_deadLettered = 0,
              ps_integrityRejected = 0 \<rparr>)"

section \<open>What one batch does to the table\<close>

definition payload_ok :: "OutboxRow \<Rightarrow> bool" where
  "payload_ok r = (case ob_payload r of Text _ \<Rightarrow> True | Parsed v \<Rightarrow> finite_json v)"

definition payload_text :: "OutboxRow \<Rightarrow> string" where
  "payload_text r = (case ob_payload r of Text t \<Rightarrow> t | Parsed v \<Rightarrow> canonical v)"

definition message_of :: "OutboxRow \<Rightarrow> ClaimedOutboxMessage" where
  "message_of row =
     \<lparr> cm_id = ob_id row, cm_messageId = coalesce (ob_messageId row) [], cm_aggregateType = ob_aggregateType row,
       cm_aggregateId = ob_aggregateId row, cm_eventType = ob_eventType row, cm_payloadJson = payload_text row,
       cm_payloadSha256 = coalesce (ob_payloadSha256 row) [], cm_correlationId = ob_correlationId row,
       cm_attempts = ob_attempts row \<rparr>"

definition intact :: "runtime \<Rightarrow> OutboxRow \<Rightarrow> bool" where
  "intact rt r = (ob_payloadSha256 r = Some (sha256Hex rt (payload_text r)))"

definition failed_row :: "outbox_status \<Rightarrow> int \<Rightarrow> string \<Rightarrow> OutboxRow \<Rightarrow> OutboxRow" where
  "failed_row s availableAt code r =
     r\<lparr> ob_status := s, ob_attempts := ob_attempts r + 1, ob_availableAt := availableAt,
        ob_leaseOwner := None, ob_leaseExpiresAt := None, ob_lastErrorCode := Some code \<rparr>"

text \<open>The specification of the publisher, row by row.\<close>

definition settle_row :: "runtime \<Rightarrow> (ClaimedOutboxMessage \<Rightarrow> unit res) \<Rightarrow> int \<Rightarrow> int \<Rightarrow> OutboxRow \<Rightarrow> OutboxRow" where
  "settle_row rt transport now maxAttempts r =
     (if \<not> intact rt r then failed_row Dead_letter now ''PAYLOAD_HASH_MISMATCH'' r
      else case transport (message_of r) of
        Inr _ \<Rightarrow> r\<lparr> ob_status := Published, ob_publishedAt := Some now, ob_leaseOwner := None,
                    ob_leaseExpiresAt := None, ob_lastErrorCode := None \<rparr>
      | Inl e \<Rightarrow> failed_row (if ob_attempts r + 1 \<ge> maxAttempts then Dead_letter else Retry)
                   (now + retryDelayMs (ob_attempts r + 1)) (safeErrorCode e) r)"

definition tally :: "runtime \<Rightarrow> (ClaimedOutboxMessage \<Rightarrow> unit res) \<Rightarrow> int \<Rightarrow> OutboxRow \<Rightarrow> PublishSummary \<Rightarrow> PublishSummary" where
  "tally rt transport maxAttempts r summary =
     (case ob_status (settle_row rt transport 0 maxAttempts r) of
        Published \<Rightarrow> summary\<lparr> ps_published := ps_published summary + 1 \<rparr>
      | Retry \<Rightarrow> summary\<lparr> ps_retried := ps_retried summary + 1 \<rparr>
      | _ \<Rightarrow> if intact rt r then summary\<lparr> ps_deadLettered := ps_deadLettered summary + 1 \<rparr>
             else summary\<lparr> ps_deadLettered := ps_deadLettered summary + 1,
                           ps_integrityRejected := ps_integrityRejected summary + 1 \<rparr>)"

definition update_row :: "string \<Rightarrow> (OutboxRow \<Rightarrow> OutboxRow) \<Rightarrow> outbox \<Rightarrow> outbox" where
  "update_row i f table = map (\<lambda>r. if ob_id r = i then f r else r) table"

lemma mapOutbox_ok: "payload_ok r \<Longrightarrow> mapOutbox r = Inr (message_of r)"
  by (auto simp: mapOutbox_def message_of_def payload_ok_def payload_text_def split: payload_column.splits)

lemma message_of_simps [simp]:
  "cm_id (message_of r) = ob_id r" "cm_payloadJson (message_of r) = payload_text r"
  "cm_payloadSha256 (message_of r) = coalesce (ob_payloadSha256 r) []" "cm_attempts (message_of r) = ob_attempts r"
  by (simp_all add: message_of_def)

lemma settle_row_id [simp]: "ob_id (settle_row rt tr now m r) = ob_id r"
  by (simp add: settle_row_def failed_row_def split: sum.splits)

lemma filter_unique:
  assumes "distinct (map ob_id table)" "r \<in> set table" "leased_row (ob_id r) owner r"
  shows "filter (leased_row (ob_id r) owner) table = [r]"
  using assms
proof (induction table)
  case (Cons x xs)
  show ?case
  proof (cases "x = r")
    case True
    have "filter (leased_row (ob_id r) owner) xs = []"
      using Cons.prems(1) True by (auto simp: filter_empty_conv leased_row_def image_iff)
    with True Cons.prems show ?thesis by simp
  next
    case False
    then have "r \<in> set xs" "ob_id x \<noteq> ob_id r" using Cons.prems by force+
    then show ?thesis using Cons by (simp add: leased_row_def)
  qed
qed simp

lemma update_leased_row:
  assumes "distinct (map ob_id table)" "r \<in> set table" "leased_row (ob_id r) owner r"
  shows "update_leased (ob_id r) owner f lost table = (update_row (ob_id r) f table, Inr ())"
proof -
  have "x = r" if "x \<in> set table" "ob_id x = ob_id r" for x
    using that assms(1,2) by (auto simp: distinct_map inj_on_def)
  then show ?thesis using assms filter_unique[OF assms]
    by (auto simp: update_leased_def update_row_def leased_row_def)
qed

lemma update_row_cong:
  assumes "distinct (map ob_id table)" "r \<in> set table" "f r = g r"
  shows "update_row (ob_id r) f table = update_row (ob_id r) g table"
proof -
  have "x = r" if "x \<in> set table" "ob_id x = ob_id r" for x
    using that assms(1,2) by (auto simp: distinct_map inj_on_def)
  with assms(3) show ?thesis by (auto simp: update_row_def)
qed

lemma publish_one_settles:
  assumes "distinct (map ob_id table)" "r \<in> set table" "leased_row (ob_id r) owner r" "ob_payloadSha256 r \<noteq> None"
  shows "publish_one rt transport owner now maxAttempts (message_of r) table summary =
    (update_row (ob_id r) (settle_row rt transport now maxAttempts) table, Inr (tally rt transport maxAttempts r summary))"
proof -
  note upd = update_leased_row[OF assms(1-3)]
  have h: "sha256Hex rt (payload_text r) \<noteq> coalesce (ob_payloadSha256 r) [] \<longleftrightarrow> \<not> intact rt r"
    using assms(4) by (auto simp: intact_def)
  note cong = update_row_cong[OF assms(1,2)]
  show ?thesis
  proof (cases "intact rt r")
    case False
    then show ?thesis
      by (auto simp: publish_one_def h markFailed_def upd tally_def settle_row_def failed_row_def
          intro!: cong)
  next
    case True
    then show ?thesis
      by (cases "transport (message_of r)")
        (auto simp: publish_one_def h markFailed_def markPublished_def upd tally_def settle_row_def failed_row_def
          intro!: cong)
  qed
qed


lemma distinct_update_row: "(\<And>r. ob_id (f r) = ob_id r) \<Longrightarrow> map ob_id (update_row i f table) = map ob_id table"
  by (simp add: update_row_def)

lemma publish_loop_settles:
  assumes "distinct (map ob_id table)" "distinct (map ob_id rows)" "set rows \<subseteq> set table"
    and "\<forall>r \<in> set rows. leased_row (ob_id r) owner r \<and> ob_payloadSha256 r \<noteq> None"
  shows "publish_loop rt transport owner now maxAttempts (map message_of rows) table summary =
    (map (\<lambda>r. if ob_id r \<in> ob_id ` set rows then settle_row rt transport now maxAttempts r else r) table,
     Inr (fold (tally rt transport maxAttempts) rows summary))"
  using assms
proof (induction rows arbitrary: table summary)
  case Nil
  then show ?case by simp
next
  case (Cons r rows)
  let ?t = "update_row (ob_id r) (settle_row rt transport now maxAttempts) table"
  have one: "publish_one rt transport owner now maxAttempts (message_of r) table summary =
      (?t, Inr (tally rt transport maxAttempts r summary))"
    using Cons.prems by (intro publish_one_settles) auto
  have sub: "set rows \<subseteq> set ?t"
  proof
    fix x assume "x \<in> set rows"
    then have "x \<in> set table" "ob_id x \<noteq> ob_id r" using Cons.prems by (auto simp: image_iff)
    then show "x \<in> set ?t" by (force simp: update_row_def image_iff)
  qed
  have "publish_loop rt transport owner now maxAttempts (map message_of rows) ?t (tally rt transport maxAttempts r summary) =
    (map (\<lambda>r. if ob_id r \<in> ob_id ` set rows then settle_row rt transport now maxAttempts r else r) ?t,
     Inr (fold (tally rt transport maxAttempts) rows (tally rt transport maxAttempts r summary)))"
    using Cons.prems sub by (intro Cons.IH) (auto simp: distinct_update_row)
  moreover have "ob_id r \<notin> ob_id ` set rows" using Cons.prems(2) by simp
  ultimately show ?case using one by (auto simp: update_row_def)
qed

lemma tally_total:
  "ps_published (fold (tally rt transport m) rows s) + ps_retried (fold (tally rt transport m) rows s) +
   ps_deadLettered (fold (tally rt transport m) rows s) = ps_published s + ps_retried s + ps_deadLettered s + length rows"
  "ps_claimed (fold (tally rt transport m) rows s) = ps_claimed s"
  "ps_published (fold (tally rt transport m) rows s) =
     ps_published s + length (filter (\<lambda>r. intact rt r \<and> is_ok (transport (message_of r))) rows)"
  "ps_integrityRejected (fold (tally rt transport m) rows s) = ps_integrityRejected s + length (filter (\<lambda>r. \<not> intact rt r) rows)"
  by (induction rows arbitrary: s)
    (auto simp: tally_def settle_row_def failed_row_def split: outbox_status.splits sum.splits)

definition lease_to :: "string \<Rightarrow> int \<Rightarrow> OutboxRow \<Rightarrow> OutboxRow" where
  "lease_to owner leaseUntil r = r\<lparr> ob_status := Publishing, ob_leaseOwner := Some owner,
     ob_leaseExpiresAt := Some leaseUntil, ob_lastErrorCode := None \<rparr>"

lemma lease_to_simps [simp]:
  "ob_id (lease_to owner u r) = ob_id r" "message_of (lease_to owner u r) = message_of r"
  "leased_row (ob_id r) owner (lease_to owner u r)" "ob_payloadSha256 (lease_to owner u r) = ob_payloadSha256 r"
  "intact rt (lease_to owner u r) = intact rt r"
  by (simp_all add: lease_to_def message_of_def leased_row_def payload_text_def intact_def)

lemma settle_leased [simp]: "settle_row rt transport now m (lease_to owner u r) = settle_row rt transport now m r"
  by (simp add: settle_row_def failed_row_def split: sum.splits) (simp add: lease_to_def)

lemma claimed_rows_facts:
  assumes "distinct (map ob_id table)"
  shows "distinct (map ob_id (claimed_rows n now locked table))"
    and "set (claimed_rows n now locked table) \<subseteq> {r \<in> set table. claimable now r}"
proof -
  let ?s = "sort_key (\<lambda>r. (ob_availableAt r, ob_createdAt r, ob_id r)) (filter (\<lambda>r. claimable now r \<and> \<not> locked (ob_id r)) table)"
  have set_s: "set ?s = {r \<in> set table. claimable now r \<and> \<not> locked (ob_id r)}" by simp
  then have "distinct (map ob_id ?s)" using assms by (auto simp: distinct_map inj_on_def)
  then show "distinct (map ob_id (claimed_rows n now locked table))"
    by (simp add: claimed_rows_def take_map[symmetric] distinct_take)
  show "set (claimed_rows n now locked table) \<subseteq> {r \<in> set table. claimable now r}"
    using set_take_subset[of n ?s] set_s by (auto simp: claimed_rows_def)
qed

lemma row_by_id:
  assumes "distinct (map ob_id table)" "set rows \<subseteq> set table" "r \<in> set table"
  shows "ob_id r \<in> ob_id ` set rows \<longleftrightarrow> r \<in> set rows"
  using assms by (auto simp: distinct_map inj_on_def image_iff)

lemma batch_table:
  fixes now :: int and locked :: "string \<Rightarrow> bool"
  assumes "distinct (map ob_id table)" "list_all payload_ok table" "1 \<le> limit" "limit \<le> 1000"
  defines "rows \<equiv> claimed_rows (nat limit) now locked table"
  shows "publishOutboxBatch rt transport owner limit now leaseMs maxAttempts locked table =
     (map (\<lambda>r. if r \<in> set rows then settle_row rt transport now maxAttempts r else r) table,
      Inr (fold (tally rt transport maxAttempts) (map (lease_to owner (now + leaseMs)) rows)
        \<lparr> ps_claimed = length rows, ps_published = 0, ps_retried = 0, ps_deadLettered = 0, ps_integrityRejected = 0 \<rparr>))"
proof -
  let ?u = "now + leaseMs"
  let ?leased = "map (\<lambda>r. if ob_id r \<in> set (map ob_id rows) then lease_to owner ?u r else r) table"
  note rows = claimed_rows_facts[OF assms(1), of "nat limit" now locked, folded rows_def]
  have sub: "set rows \<subseteq> set table" using rows(2) by auto
  have "map mapOutbox rows = map Inr (map message_of rows)"
    using sub assms(2) by (auto simp: mapOutbox_ok list_all_iff)
  then have claimed: "claim owner limit now ?u locked table = (?leased, Inr (map message_of rows))"
    using assms(3,4) by (auto simp: claim_def assertLimit_def Let_def rows_def lease_to_def mapM_res_Inr_iff)
  have ids: "map ob_id ?leased = map ob_id table" by simp
  have loop: "publish_loop rt transport owner now maxAttempts (map message_of (map (lease_to owner ?u) rows)) ?leased s =
    (map (\<lambda>r. if ob_id r \<in> ob_id ` set (map (lease_to owner ?u) rows) then settle_row rt transport now maxAttempts r else r) ?leased,
     Inr (fold (tally rt transport maxAttempts) (map (lease_to owner ?u) rows) s))" for s
  proof (intro publish_loop_settles)
    show "distinct (map ob_id ?leased)" unfolding ids by (rule assms(1))
    show "distinct (map ob_id (map (lease_to owner ?u) rows))" using rows(1) by (simp add: comp_def)
    show "set (map (lease_to owner ?u) rows) \<subseteq> set ?leased" using sub by force
    show "\<forall>r \<in> set (map (lease_to owner ?u) rows). leased_row (ob_id r) owner r \<and> ob_payloadSha256 r \<noteq> None"
      using rows(2) by (auto simp: claimable_def)
  qed
  have "ob_id ` set (map (lease_to owner ?u) rows) = ob_id ` set rows" by (auto simp: image_image)
  then have "map (\<lambda>r. if ob_id r \<in> ob_id ` set (map (lease_to owner ?u) rows) then settle_row rt transport now maxAttempts r else r) ?leased =
      map (\<lambda>r. if r \<in> set rows then settle_row rt transport now maxAttempts r else r) table"
    using row_by_id[OF assms(1) sub] by auto
  with claimed loop show ?thesis by (simp add: publishOutboxBatch_def comp_def)
qed

text \<open>
  One batch settles every message it claims: each claimed row ends published, back in retry with the
  backoff of its attempt count, or dead-lettered, exactly as the payload hash, the transport's answer and
  the attempt limit say; every other row is untouched, and the summary counts agree with the rows.
\<close>
theorem outbox_batch_settles:
  fixes now :: int and locked :: "string \<Rightarrow> bool"
  assumes "distinct (map ob_id table)" "list_all payload_ok table" "1 \<le> limit" "limit \<le> 1000"
  defines "rows \<equiv> claimed_rows (nat limit) now locked table"
  shows "\<exists>summary. publishOutboxBatch rt transport owner limit now leaseMs maxAttempts locked table =
      (map (\<lambda>r. if r \<in> set rows then settle_row rt transport now maxAttempts r else r) table, Inr summary) \<and>
     ps_claimed summary = length rows \<and>
     ps_published summary + ps_retried summary + ps_deadLettered summary = length rows \<and>
     ps_published summary = length (filter (\<lambda>r. intact rt r \<and> is_ok (transport (message_of r))) rows) \<and>
     ps_integrityRejected summary = length (filter (\<lambda>r. \<not> intact rt r) rows)"
proof -
  let ?s = "fold (tally rt transport maxAttempts) (map (lease_to owner (now + leaseMs)) rows)
    \<lparr> ps_claimed = length rows, ps_published = 0, ps_retried = 0, ps_deadLettered = 0, ps_integrityRejected = 0 \<rparr>"
  have "ps_claimed ?s = length rows" "ps_published ?s + ps_retried ?s + ps_deadLettered ?s = length rows"
    using tally_total(1,2)[of rt transport maxAttempts "map (lease_to owner (now + leaseMs)) rows"] by simp_all
  moreover have "ps_published ?s = length (filter (\<lambda>r. intact rt r \<and> is_ok (transport (message_of r))) rows)"
    "ps_integrityRejected ?s = length (filter (\<lambda>r. \<not> intact rt r) rows)"
    by (simp_all add: tally_total(3,4) filter_map comp_def)
  ultimately show ?thesis
    using batch_table[OF assms(1-4), of rt transport owner now leaseMs maxAttempts locked] unfolding rows_def by blast
qed


section \<open>Operations in any order\<close>

datatype outbox_op =
    Enqueue string int NewOutboxMessage
  | Claim string int int int "string \<Rightarrow> bool"
  | Mark_published string string int
  | Mark_failed string string outbox_status int string

fun outbox_exec :: "runtime \<Rightarrow> outbox_op \<Rightarrow> outbox \<Rightarrow> outbox" where
  "outbox_exec rt (Enqueue uuid dbNow msg) table =
     (case enqueue rt uuid dbNow msg table of Inl _ \<Rightarrow> table | Inr (table', _) \<Rightarrow> table')"
| "outbox_exec rt (Claim owner limit now leaseUntil locked) table = fst (claim owner limit now leaseUntil locked table)"
| "outbox_exec rt (Mark_published i owner now) table = fst (markPublished i owner now table)"
| "outbox_exec rt (Mark_failed i owner s availableAt code) table = fst (markFailed i owner s availableAt code table)"

fun marks_as :: "string \<Rightarrow> outbox_op \<Rightarrow> bool" where
  "marks_as owner (Mark_published _ o' _) = (o' = owner)"
| "marks_as owner (Mark_failed _ o' _ _ _) = (o' = owner)"
| "marks_as owner _ = False"

definition same_message :: "OutboxRow \<Rightarrow> OutboxRow \<Rightarrow> bool" where
  "same_message r s \<longleftrightarrow>
     ob_id r = ob_id s \<and> ob_messageId r = ob_messageId s \<and> ob_aggregateType r = ob_aggregateType s \<and>
     ob_aggregateId r = ob_aggregateId s \<and> ob_eventType r = ob_eventType s \<and> ob_payload r = ob_payload s \<and>
     ob_payloadSha256 r = ob_payloadSha256 s \<and> ob_correlationId r = ob_correlationId s"

text \<open>Identifiers and message identifiers are unique, as the keys of the table demand.\<close>

definition keys_unique :: "outbox \<Rightarrow> bool" where
  "keys_unique table \<longleftrightarrow> distinct (map ob_id table) \<and>
     (\<forall>r \<in> set table. \<forall>s \<in> set table. ob_messageId r = ob_messageId s \<and> ob_messageId r \<noteq> None \<longrightarrow> r = s)"

lemma exec_shape:
  "\<exists>f new. outbox_exec rt op table = map f table @ new \<and> (\<forall>r. same_message (f r) r) \<and>
     (new = [] \<or> (\<exists>r. new = [r] \<and> (\<forall>s \<in> set table. ob_id s \<noteq> ob_id r \<and> (ob_messageId s \<noteq> ob_messageId r \<or> ob_messageId s = None))))"
proof (cases op)
  case (Enqueue uuid dbNow msg)
  show ?thesis
  proof (cases "outbox_exec rt op table = table")
    case True
    then show ?thesis by (intro exI[of _ id] exI[of _ "[]"]) (simp add: same_message_def)
  next
    case False
    then obtain r where "outbox_exec rt op table = table @ [r]" "ob_id r = uuid" "ob_messageId r = Some (nm_messageId msg)"
      "\<not> list_ex (\<lambda>r. ob_id r = uuid \<or> ob_messageId r = Some (nm_messageId msg)) table"
      using Enqueue
      by (auto simp: enqueue_def Let_def rbind_def split: sum.splits if_splits option.splits)
    then show ?thesis by (intro exI[of _ id] exI[of _ "[r]"]) (auto simp: same_message_def list_ex_iff)
  qed
next
  case (Claim owner limit now leaseUntil locked)
  show ?thesis
  proof (cases "assertLimit limit")
    case (Inl e)
    then show ?thesis using Claim by (intro exI[of _ id] exI[of _ "[]"]) (simp add: same_message_def claim_def)
  next
    case (Inr n)
    then show ?thesis using Claim
      by (intro exI[of _ "\<lambda>r. if ob_id r \<in> set (map ob_id (claimed_rows n now locked table)) then lease_to owner leaseUntil r else r"]
          exI[of _ "[]"]) (auto simp: same_message_def claim_def Let_def lease_to_def)
  qed
next
  case (Mark_published i owner now)
  then show ?thesis
    by (auto simp: markPublished_def update_leased_def same_message_def intro!: exI[of _ "[]"])
next
  case (Mark_failed i owner s availableAt code)
  then show ?thesis
    by (auto simp: markFailed_def update_leased_def same_message_def intro!: exI[of _ "[]"])
qed


lemma exec_keys_unique: "keys_unique table \<Longrightarrow> keys_unique (outbox_exec rt op table)"
proof -
  assume u: "keys_unique table"
  obtain f new where e: "outbox_exec rt op table = map f table @ new" and f: "\<And>r. same_message (f r) r"
    and new: "new = [] \<or> (\<exists>r. new = [r] \<and> (\<forall>s \<in> set table. ob_id s \<noteq> ob_id r \<and> (ob_messageId s \<noteq> ob_messageId r \<or> ob_messageId s = None)))"
    using exec_shape[of rt op table] by blast
  have ids: "ob_id (f r) = ob_id r" "ob_messageId (f r) = ob_messageId r" for r using f[of r] by (simp_all add: same_message_def)
  have "map ob_id (map f table) = map ob_id table" by (simp add: ids)
  then have "distinct (map ob_id (map f table))" using u by (simp only: keys_unique_def)
  then have "distinct (map ob_id (outbox_exec rt op table))" using new by (auto simp: e ids)
  moreover have "r = s" if m: "ob_messageId r = ob_messageId s" "ob_messageId r \<noteq> None"
    and rs: "r \<in> f ` set table \<union> set new" "s \<in> f ` set table \<union> set new" for r s
  proof -
    have old: "r' = s'" if "r' \<in> set table" "s' \<in> set table" "ob_messageId r' = ob_messageId s'" "ob_messageId r' \<noteq> None"
      for r' s' using u that unfolding keys_unique_def by blast
    have fresh: "x \<in> set new \<Longrightarrow> y \<in> set new \<Longrightarrow> x = y"
      "x \<in> set new \<Longrightarrow> y \<in> set table \<Longrightarrow> ob_messageId y \<noteq> ob_messageId x \<or> ob_messageId y = None" for x y
      using new by auto
    from rs consider r' s' where "r = f r'" "s = f s'" "r' \<in> set table" "s' \<in> set table"
      | r' where "r = f r'" "r' \<in> set table" "s \<in> set new" | s' where "s = f s'" "s' \<in> set table" "r \<in> set new"
      | "r \<in> set new" "s \<in> set new" by blast
    then show ?thesis
    proof cases
      case 1 then show ?thesis using old[of r' s'] m ids by simp
    next
      case 2 then show ?thesis using fresh(2)[of s r'] m ids by simp
    next
      case 3 then show ?thesis using fresh(2)[of r s'] m ids by simp
    next
      case 4 then show ?thesis by (rule fresh(1))
    qed
  qed
  ultimately show ?thesis unfolding keys_unique_def by (metis e set_append set_map)
qed

lemma run_keys_unique: "keys_unique table \<Longrightarrow> keys_unique (fold (outbox_exec rt) ops table)"
  by (induction ops arbitrary: table) (simp_all add: exec_keys_unique)

lemma run_keeps_message: "r \<in> set table \<Longrightarrow> \<exists>s \<in> set (fold (outbox_exec rt) ops table). same_message s r"
proof (induction ops arbitrary: table r)
  case (Cons op ops)
  obtain f new where "outbox_exec rt op table = map f table @ new" "\<And>r. same_message (f r) r"
    using exec_shape[of rt op table] by blast
  then have "f r \<in> set (outbox_exec rt op table)" "same_message (f r) r" using Cons.prems by auto
  with Cons.IH[of "f r" "outbox_exec rt op table"] show ?case by (auto simp: same_message_def)
qed (auto simp: same_message_def)

lemma find_message:
  assumes "keys_unique table" "r \<in> set table" "ob_messageId r = Some m"
  shows "find (\<lambda>r. ob_messageId r = Some m) table = Some r"
proof -
  obtain s where s: "find (\<lambda>r. ob_messageId r = Some m) table = Some s"
    using assms(2,3) by (cases "find (\<lambda>r. ob_messageId r = Some m) table") (auto simp: find_None_iff)
  then have "s \<in> set table" "ob_messageId s = Some m" by (auto simp: find_Some_iff)
  with assms s show ?thesis by (auto simp: keys_unique_def)
qed

definition content_matches :: "runtime \<Rightarrow> NewOutboxMessage \<Rightarrow> OutboxRow \<Rightarrow> bool" where
  "content_matches rt msg r \<longleftrightarrow>
     ob_aggregateType r = nm_aggregateType msg \<and> ob_aggregateId r = nm_aggregateId msg \<and>
     ob_eventType r = nm_eventType msg \<and> ob_payloadSha256 r = Some (sha256Hex rt (canonical (nm_payload msg)))"

lemma enqueue_existing:
  assumes "keys_unique table" "r \<in> set table" "ob_messageId r = Some (nm_messageId msg)" "finite_json (nm_payload msg)"
  shows "enqueue rt uuid now msg table =
    (if content_matches rt msg r then Inr (table, Duplicate)
     else Inl (MessageIntegrityError ''The same outbox message ID was reused with different content''))"
proof -
  have "list_ex (\<lambda>r. ob_id r = uuid \<or> ob_messageId r = Some (nm_messageId msg)) table"
    using assms(2,3) by (auto simp: list_ex_iff)
  with find_message[OF assms(1-3)] assms(4) show ?thesis
    by (simp add: enqueue_def Let_def content_matches_def)
qed

lemma enqueue_stores:
  assumes "keys_unique table" "enqueue rt uuid now msg table = Inr (table', res)"
  shows "\<exists>r \<in> set table'. ob_messageId r = Some (nm_messageId msg) \<and> content_matches rt msg r"
    and "finite_json (nm_payload msg)"
proof -
  show fin: "finite_json (nm_payload msg)"
    using assms(2) by (auto simp: enqueue_def rbind_Inr_iff canonicalJson_def split: if_splits)
  show "\<exists>r \<in> set table'. ob_messageId r = Some (nm_messageId msg) \<and> content_matches rt msg r"
    using assms(2) fin by (auto simp: enqueue_def Let_def content_matches_def find_Some_iff split: if_splits option.splits)
qed

text \<open>
  A message is stored once: after an enqueue has succeeded, and after any operations of writers and
  publishers since, enqueueing the message again changes nothing and reports a duplicate, and reusing its
  message id for other content is refused.
\<close>
theorem enqueue_once:
  fixes ops :: "outbox_op list"
  assumes "keys_unique table" and "enqueue rt uuid now msg table = Inr (table', res)"
    and "nm_messageId other = nm_messageId msg" and "finite_json (nm_payload other)"
  defines "later \<equiv> fold (outbox_exec rt) ops table'"
  shows "enqueue rt uuid' now' other later =
    (if nm_aggregateType other = nm_aggregateType msg \<and> nm_aggregateId other = nm_aggregateId msg \<and>
        nm_eventType other = nm_eventType msg \<and>
        sha256Hex rt (canonical (nm_payload other)) = sha256Hex rt (canonical (nm_payload msg))
     then Inr (later, Duplicate)
     else Inl (MessageIntegrityError ''The same outbox message ID was reused with different content''))"
proof -
  have "outbox_exec rt (Enqueue uuid now msg) table = table'" using assms(2) by simp
  then have u: "keys_unique later" unfolding later_def using exec_keys_unique[OF assms(1)] run_keys_unique by metis
  obtain r where r: "r \<in> set table'" "ob_messageId r = Some (nm_messageId msg)" "content_matches rt msg r"
    using enqueue_stores(1)[OF assms(1,2)] by blast
  obtain s where "s \<in> set later" "same_message s r" using run_keeps_message[OF r(1)] unfolding later_def by blast
  then show ?thesis using enqueue_existing[OF u, of s other rt uuid' now'] r assms(3,4)
    by (auto simp: same_message_def content_matches_def)
qed

text \<open>
  C34. A message whose publisher stopped after claiming it is never sent again: the row stays exactly as
  it is, in the state publishing, whatever other workers enqueue, claim or mark and however long its lease has
  expired, because the claim reads only pending and retry rows.
\<close>
theorem publishing_row_never_reclaimed:
  assumes "keys_unique table" and "r \<in> set table" and "ob_status r = Publishing" and "ob_leaseOwner r = Some owner"
    and "list_all (\<lambda>op. \<not> marks_as owner op) ops"
  shows "r \<in> set (fold (outbox_exec rt) ops table)"
  using assms
proof (induction ops arbitrary: table)
  case (Cons op ops)
  have "r \<in> set (outbox_exec rt op table)"
  proof (cases op)
    case (Enqueue uuid dbNow msg)
    then show ?thesis using Cons.prems(2) by (auto simp: enqueue_def Let_def rbind_def split: sum.splits if_splits option.splits)
  next
    case (Claim o' limit now leaseUntil locked)
    have "ob_id r \<notin> ob_id ` set (claimed_rows n now locked table)" for n
    proof
      assume "ob_id r \<in> ob_id ` set (claimed_rows n now locked table)"
      then have "r \<in> set (claimed_rows n now locked table)"
        using row_by_id[of table "claimed_rows n now locked table" r] Cons.prems(1,2) claimed_rows_facts(2)[of table n now locked]
        by (auto simp: keys_unique_def)
      then show False using claimed_rows_facts(2)[of table n now locked] Cons.prems(1,3)
        by (auto simp: keys_unique_def claimable_def)
    qed
    then show ?thesis using Claim Cons.prems(2) by (force simp: claim_def Let_def split: sum.splits)
  qed (use Cons.prems in \<open>force simp: markPublished_def markFailed_def update_leased_def leased_row_def\<close>)+
  then show ?case using Cons exec_keys_unique by simp
qed simp


section \<open>Concrete runs\<close>

definition demo_message :: NewOutboxMessage where
  "demo_message = \<lparr> nm_messageId = ''m1'', nm_aggregateType = ''call'', nm_aggregateId = ''c1'', nm_eventType = ''call.received'',
     nm_payload = JObj [(''callId'', JStr ''c1'')], nm_correlationId = None \<rparr>"

definition demo_outbox_row :: OutboxRow where
  "demo_outbox_row =
     \<lparr> ob_id = ''u1'', ob_messageId = Some ''m1'', ob_aggregateType = ''call'', ob_aggregateId = ''c1'',
       ob_eventType = ''call.received'', ob_payload = Text (canonical (JObj [(''callId'', JStr ''c1'')])),
       ob_payloadSha256 = Some (replicate 64 (CHR ''a'')), ob_correlationId = None, ob_attempts = 0, ob_status = Pending,
       ob_availableAt = 0, ob_createdAt = 0, ob_leaseOwner = None, ob_leaseExpiresAt = None, ob_lastErrorCode = None,
       ob_publishedAt = None \<rparr>"

lemma demo_enqueue: "enqueue demo_runtime ''u1'' 0 demo_message [] = Inr ([demo_outbox_row], Inserted)"
  by (simp add: enqueue_def demo_message_def demo_outbox_row_def Let_def)

lemma demo_outbox_fields:
  "ob_id demo_outbox_row = ''u1''" "payload_ok demo_outbox_row" "ob_attempts demo_outbox_row = 0"
  "intact demo_runtime demo_outbox_row" "claimable 5 demo_outbox_row" "ob_messageId demo_outbox_row = Some ''m1''"
  by (simp_all add: demo_outbox_row_def payload_ok_def intact_def claimable_def)

text \<open>The transport refuses the first attempt: the message is retried two seconds later.\<close>
theorem outbox_batch_settles_witness:
  "\<exists>row summary. publishOutboxBatch demo_runtime (\<lambda>m. Inl (TransportError None)) ''w1'' 10 5 1000 3 (\<lambda>i. False) [demo_outbox_row] =
     ([row], Inr summary) \<and> ps_claimed summary = 1 \<and> ps_published summary = 0 \<and>
   ob_status row = Retry \<and> ob_availableAt row = 2005 \<and> ob_attempts row = 1"
proof -
  have rows: "claimed_rows (nat 10) 5 (\<lambda>i. False) [demo_outbox_row] = [demo_outbox_row]"
    and rows': "claimed_rows 10 5 (\<lambda>i. False) [demo_outbox_row] = [demo_outbox_row]"
    by (simp_all add: claimed_rows_def demo_outbox_fields)
  have "ob_status (settle_row demo_runtime (\<lambda>m. Inl (TransportError None)) 5 3 demo_outbox_row) = Retry"
    "ob_availableAt (settle_row demo_runtime (\<lambda>m. Inl (TransportError None)) 5 3 demo_outbox_row) = 2005"
    "ob_attempts (settle_row demo_runtime (\<lambda>m. Inl (TransportError None)) 5 3 demo_outbox_row) = 1"
    by (simp_all add: settle_row_def demo_outbox_fields failed_row_def retryDelayMs_def)
  then show ?thesis
    using outbox_batch_settles[of "[demo_outbox_row]" 10 demo_runtime "\<lambda>m. Inl (TransportError None)" "''w1''" 5 1000 3 "\<lambda>i. False"]
    by (auto simp: rows rows' demo_outbox_fields)
qed

theorem enqueue_once_witness:
  "enqueue demo_runtime ''u2'' 9 demo_message (fold (outbox_exec demo_runtime) [Claim ''w'' 10 5 15 (\<lambda>i. False)] [demo_outbox_row]) =
   Inr (fold (outbox_exec demo_runtime) [Claim ''w'' 10 5 15 (\<lambda>i. False)] [demo_outbox_row], Duplicate)"
proof -
  have "keys_unique []" "finite_json (nm_payload demo_message)" by (simp_all add: keys_unique_def demo_message_def)
  from enqueue_once[OF this(1) demo_enqueue refl this(2), of "''u2''" 9 "[Claim ''w'' 10 5 15 (\<lambda>i. False)]"] show ?thesis
    by simp
qed

text \<open>A worker claims a message and stops; an hour after its lease another worker finds nothing to claim.\<close>
theorem publishing_row_never_reclaimed_witness:
  "\<exists>r. outbox_exec demo_runtime (Claim ''w1'' 10 5 15 (\<lambda>i. False)) [demo_outbox_row] = [r] \<and>
       r \<in> set (fold (outbox_exec demo_runtime) [Claim ''w2'' 10 3600000 3700000 (\<lambda>i. False)] [r]) \<and> ob_status r = Publishing"
proof -
  have e: "outbox_exec demo_runtime (Claim ''w1'' 10 5 15 (\<lambda>i. False)) [demo_outbox_row] = [lease_to ''w1'' 15 demo_outbox_row]"
    by (simp add: claim_def assertLimit_def claimed_rows_def demo_outbox_fields Let_def lease_to_def)
  have "keys_unique [lease_to ''w1'' 15 demo_outbox_row]" "ob_status (lease_to ''w1'' 15 demo_outbox_row) = Publishing"
    "ob_leaseOwner (lease_to ''w1'' 15 demo_outbox_row) = Some ''w1''" by (simp_all add: keys_unique_def lease_to_def)
  with e publishing_row_never_reclaimed[of "[lease_to ''w1'' 15 demo_outbox_row]" "lease_to ''w1'' 15 demo_outbox_row" "''w1''"
      "[Claim ''w2'' 10 3600000 3700000 (\<lambda>i. False)]" demo_runtime]
  show ?thesis by (intro exI[of _ "lease_to ''w1'' 15 demo_outbox_row"]) simp
qed

end
