(* ===== verification/JsDate.thy ===== *)
theory JsDate
  imports JsText
begin

text \<open>
  Dates of JavaScript as milliseconds since the epoch: the civil date of a day number in the proleptic
  Gregorian calendar, and \<open>Date.prototype.toISOString\<close>.
\<close>

definition civil_from_days :: "int \<Rightarrow> int \<times> int \<times> int" where
  "civil_from_days days =
     (let z = days + 719468;
          era = z div 146097;
          doe = z mod 146097;
          yoe = (doe - doe div 1460 + doe div 36524 - doe div 146096) div 365;
          doy = doe - (365 * yoe + yoe div 4 - yoe div 100);
          mp = (5 * doy + 2) div 153;
          d = doy - (153 * mp + 2) div 5 + 1;
          m = (if mp < 10 then mp + 3 else mp - 9);
          y = yoe + era * 400 + (if m \<le> 2 then 1 else 0)
      in (y, m, d))"

definition two_digits :: "int \<Rightarrow> string" where
  "two_digits n = padStart 2 (CHR ''0'') (string_of_int n)"

text \<open>Years outside 0 to 9999 print with a sign and six digits.\<close>

definition year_text :: "int \<Rightarrow> string" where
  "year_text y =
     (if 0 \<le> y \<and> y \<le> 9999 then padStart 4 (CHR ''0'') (string_of_int y)
      else (if y < 0 then ''-'' else ''+'') @ padStart 6 (CHR ''0'') (string_of_int \<bar>y\<bar>))"

definition toISOString :: "int \<Rightarrow> string" where
  "toISOString ms =
     (let (y, m, d) = civil_from_days (ms div 86400000);
          t = ms mod 86400000
      in year_text y @ ''-'' @ two_digits m @ ''-'' @ two_digits d @ ''T'' @
         two_digits (t div 3600000) @ '':'' @ two_digits (t div 60000 mod 60) @ '':'' @
         two_digits (t div 1000 mod 60) @ ''.'' @ padStart 3 (CHR ''0'') (string_of_int (t mod 1000)) @ ''Z'')"

section \<open>The shape of a timestamp\<close>

definition year_days :: "int \<Rightarrow> int" where
  "year_days doe = doe - doe div 1460 + doe div 36524 - doe div 146096"

definition year_start :: "int \<Rightarrow> int" where
  "year_start y = 365 * y + y div 4 - y div 100"

lemma div_bounds: "0 < k \<Longrightarrow> k * (x div k) \<le> x \<and> x < k * (x div k) + (k::int)"
  using pos_mod_bound[of k x] pos_mod_sign[of k x] mult_div_mod_eq[of k x] by linarith

lemma sub_div_mono: "0 < k \<Longrightarrow> (x::int) \<le> y \<Longrightarrow> x - x div k \<le> y - y div k"
proof -
  assume k: "0 < k" and le: "x \<le> y"
  have "y div k \<le> (x + (y - x) * k) div k"
  proof (rule zdiv_mono1[OF _ k])
    have "(y - x) * 1 \<le> (y - x) * k" using k le by (intro mult_left_mono) auto
    then show "y \<le> x + (y - x) * k" by simp
  qed
  also have "\<dots> = x div k + (y - x)" using k by simp
  finally show ?thesis by simp
qed

lemma year_days_mono: "x \<le> y \<Longrightarrow> year_days x \<le> year_days y"
proof -
  assume le: "x \<le> y"
  have q: "z div 146096 = (z div 36524) div 4" for z :: int using zdiv_zmult2_eq[of 4 z 36524] by simp
  have "x div 36524 \<le> y div 36524" using le by (rule zdiv_mono1) simp
  then have "x div 36524 - x div 146096 \<le> y div 36524 - y div 146096" unfolding q by (rule sub_div_mono[rotated]) simp
  moreover have "x - x div 1460 \<le> y - y div 1460" using le by (intro sub_div_mono) simp_all
  ultimately show ?thesis by (simp add: year_days_def)
qed

lemma year_bounds_table:
  "list_all (\<lambda>y. 365 * y \<le> year_days (year_start y) \<and>
       year_days (year_start (y + 1) - 1) \<le> 365 * y + 364 \<and> year_start (y + 1) - year_start y \<le> 366) [0..399]"
  by code_simp

lemma year_bounds:
  assumes "0 \<le> y" "y < 400"
  shows "365 * y \<le> year_days (year_start y)" and "year_days (year_start (y + 1) - 1) \<le> 365 * y + 364"
    and "year_start (y + 1) - year_start y \<le> 366"
proof -
  have "y \<in> set [0..399]" using assms by simp
  then show "365 * y \<le> year_days (year_start y)" "year_days (year_start (y + 1) - 1) \<le> 365 * y + 364"
    "year_start (y + 1) - year_start y \<le> 366"
    using year_bounds_table unfolding list_all_iff by blast+
qed

lemma day_of_year:
  assumes "0 \<le> doe" "doe < 146097"
  defines "y \<equiv> year_days doe div 365"
  shows "0 \<le> y" "y < 400" "0 \<le> doe - year_start y" "doe - year_start y \<le> 365"
proof -
  have yd: "365 * y \<le> year_days doe" "year_days doe \<le> 365 * y + 364" unfolding y_def by presburger+
  have "year_days 0 \<le> year_days doe" "year_days doe \<le> year_days 146096" using assms by (intro year_days_mono; simp)+
  then have yb: "0 \<le> year_days doe" "year_days doe < 146000" by (simp_all add: year_days_def)
  show y0: "0 \<le> y" using yb by (simp add: y_def pos_imp_zdiv_nonneg_iff)
  show y1: "y < 400" using yd yb by linarith
  note b = year_bounds[OF y0 y1]
  show "0 \<le> doe - year_start y"
  proof (rule ccontr)
    assume "\<not> 0 \<le> doe - year_start y"
    then have lt: "doe \<le> year_start (y - 1 + 1) - 1" by simp
    have "y \<noteq> 0" using lt assms by (auto simp: year_start_def)
    then have "0 \<le> y - 1" "y - 1 < 400" using y0 y1 by simp_all
    from year_bounds(2)[OF this] year_days_mono[OF lt] yd show False by simp
  qed
  show "doe - year_start y \<le> 365"
  proof (rule ccontr)
    assume over: "\<not> doe - year_start y \<le> 365"
    then have ge: "year_start (y + 1) \<le> doe" using b(3) by linarith
    show False
    proof (cases "y + 1 < 400")
      case True
      then have "365 * (y + 1) \<le> year_days (year_start (y + 1))" using y0 by (intro year_bounds(1)) simp_all
      with year_days_mono[OF ge] yd show False by simp
    next
      case False
      then have "y = 399" using y1 by simp
      then have "year_start y = 145731" by (simp add: year_start_def)
      with over assms(2) show False by linarith
    qed
  qed
qed

lemma iso_field:
  assumes "0 \<le> n" "n < 10 ^ k" "0 < k"
  shows "all_digits (padStart k (CHR ''0'') (string_of_int n)) \<and> length (padStart k (CHR ''0'') (string_of_int n)) = k"
proof -
  have "string_of_int n = string_of_nat (nat n)" using assms by (simp add: string_of_int_def)
  moreover have "length (string_of_nat (nat n)) \<le> k" using assms by (intro string_of_nat_length_le) (auto simp: nat_less_iff)
  ultimately show ?thesis by simp
qed

lemma civil_bounds:
  assumes "civil_from_days days = (y, m, d)" "0 \<le> days" "days < 2780000"
  shows "1970 \<le> y + 400 \<and> y < 10000" "1 \<le> m" "m \<le> 12" "1 \<le> d" "d \<le> 31"
proof -
  define z where "z = days + 719468"
  define doe where "doe = z mod 146097"
  define yoe where "yoe = year_days doe div 365"
  define doy where "doy = doe - year_start yoe"
  define mp where "mp = (5 * doy + 2) div 153"
  have doe: "0 \<le> doe" "doe < 146097" by (simp_all add: doe_def)
  note day = day_of_year[OF doe, folded yoe_def, folded doy_def]
  have mp: "0 \<le> mp" "mp \<le> 11" using day(3,4) by (simp_all add: mp_def pos_imp_zdiv_nonneg_iff) 
  have eqs: "m = (if mp < 10 then mp + 3 else mp - 9)" "d = doy - (153 * mp + 2) div 5 + 1"
    "y = yoe + z div 146097 * 400 + (if m \<le> 2 then 1 else 0)"
    using assms(1)[unfolded civil_from_days_def Let_def, folded z_def, folded doe_def, folded year_days_def,
      folded yoe_def, folded year_start_def, folded doy_def, folded mp_def] by auto
  have era: "4 \<le> z div 146097" "z div 146097 \<le> 23" using assms by (simp_all add: z_def)
  show "1 \<le> m" "m \<le> 12" using mp by (auto simp: eqs(1))
  define e where "e = (153 * mp + 2) div 5"
  have "153 * mp \<le> 5 * doy + 2" "5 * doy + 2 \<le> 153 * mp + 152" using div_bounds[of 153 "5 * doy + 2"] unfolding mp_def[symmetric] by simp_all
  moreover have "5 * e \<le> 153 * mp + 2" "153 * mp + 2 \<le> 5 * e + 4" using div_bounds[of 5 "153 * mp + 2"] unfolding e_def[symmetric] by simp_all
  ultimately show "1 \<le> d" "d \<le> 31" unfolding eqs(2) e_def[symmetric] by linarith+
  show "1970 \<le> y + 400 \<and> y < 10000" using era day(1,2) by (auto simp: eqs(3))
qed

text \<open>From 1970 to the year 9500, a timestamp is \<open>YYYY-MM-DDTHH:MM:SS.mmmZ\<close>.\<close>

lemma toISOString_shape:
  assumes "0 \<le> ms" "ms < 2780000 * 86400000"
  obtains y m d h mi s f where
    "toISOString ms = y @ ''-'' @ m @ ''-'' @ d @ ''T'' @ h @ '':'' @ mi @ '':'' @ s @ ''.'' @ f @ ''Z''"
    "list_all all_digits [y, m, d, h, mi, s, f]" "map length [y, m, d, h, mi, s, f] = [4, 2, 2, 2, 2, 2, 3]"
proof -
  obtain y m d where c: "civil_from_days (ms div 86400000) = (y, m, d)" by (cases "civil_from_days (ms div 86400000)") auto
  have "0 \<le> ms div 86400000" "ms div 86400000 < 2780000" using assms by (simp_all add: pos_imp_zdiv_nonneg_iff div_less_iff_less_mult)
  note b = civil_bounds[OF c this]
  define t where "t = ms mod 86400000"
  have t: "0 \<le> t" "t < 86400000" by (simp_all add: t_def)
  have h: "0 \<le> t div 3600000" "t div 3600000 < 24" using t by (simp_all add: pos_imp_zdiv_nonneg_iff div_less_iff_less_mult)
  have y: "0 \<le> y" "y \<le> 9999" using b(1) by linarith+
  show ?thesis
  proof (rule that)
    show "toISOString ms = year_text y @ ''-'' @ two_digits m @ ''-'' @ two_digits d @ ''T'' @
         two_digits (t div 3600000) @ '':'' @ two_digits (t div 60000 mod 60) @ '':'' @
         two_digits (t div 1000 mod 60) @ ''.'' @ padStart 3 (CHR ''0'') (string_of_int (t mod 1000)) @ ''Z''"
      by (simp add: toISOString_def c t_def Let_def)
    have f: "all_digits (year_text y) \<and> length (year_text y) = 4" using iso_field[of y 4] y by (simp add: year_text_def)
    have g: "all_digits (two_digits n) \<and> length (two_digits n) = 2" if "0 \<le> n" "n < 100" for n
      using iso_field[of n 2] that by (simp add: two_digits_def)
    have e: "all_digits (padStart 3 (CHR ''0'') (string_of_int (t mod 1000))) \<and> length (padStart 3 (CHR ''0'') (string_of_int (t mod 1000))) = 3"
      using iso_field[of "t mod 1000" 3] by simp
    have le: "0 \<le> m" "m < 100" "0 \<le> d" "d < 100" "t div 3600000 < 100" using b h by linarith+
    have le60: "0 \<le> k mod 60 \<and> k mod 60 < 100" for k :: int
      using pos_mod_bound[of 60 k] pos_mod_sign[of 60 k] by linarith
    note parts = f e g[OF le(1,2)] g[OF le(3,4)] g[OF h(1) le(5)] g[OF le60[THEN conjunct1] le60[THEN conjunct2]]
    show "list_all all_digits [year_text y, two_digits m, two_digits d, two_digits (t div 3600000), two_digits (t div 60000 mod 60),
      two_digits (t div 1000 mod 60), padStart 3 (CHR ''0'') (string_of_int (t mod 1000))]"
      by (simp only: list.pred_inject list.map parts)
    show "map length [year_text y, two_digits m, two_digits d, two_digits (t div 3600000), two_digits (t div 60000 mod 60),
      two_digits (t div 1000 mod 60), padStart 3 (CHR ''0'') (string_of_int (t mod 1000))] = [4, 2, 2, 2, 2, 2, 3]"
      by (simp only: list.pred_inject list.map parts)
  qed
qed

end
