(* ===== verification/AuditChain.thy ===== *)
theory AuditChain
  imports Runtime JsDate
begin

text \<open>
  The hash-chained security log: the entry hash (\<open>src/src/audit/hashChain.ts\<close>), the writer that appends
  inside the caller's transaction (\<open>transactionalAuditWriter.ts\<close>) and the sink that owns its transaction
  (\<open>src/src/adapters/mysqlAuditSink.ts\<close>). The chain-head row is locked for the whole append, so an
  append is one step on the log and its head.
\<close>

datatype AuditOutcome = Success | Denied | Failure

fun outcome_text :: "AuditOutcome \<Rightarrow> string" where
  "outcome_text Success = ''success''"
| "outcome_text Denied = ''denied''"
| "outcome_text Failure = ''failure''"

record AuditEvent =
  ae_actorUserId :: "string option"
  ae_actorEmail :: "string option"
  ae_action :: string
  ae_resourceType :: string
  ae_resourceId :: "string option"
  ae_outcome :: AuditOutcome
  ae_purpose :: string
  ae_correlationId :: string
  ae_ipAddress :: "string option"
  ae_client :: "string option"
  ae_beforeHash :: "string option"
  ae_afterHash :: "string option"
  ae_occurredAt :: int

definition AUDIT_GENESIS_HASH :: string where
  "AUDIT_GENESIS_HASH = replicate 64 (CHR ''0'')"

text \<open>\<open>JSON.stringify\<close> of an array of texts and nulls is its canonical form.\<close>

definition entry_json :: "string \<Rightarrow> string \<Rightarrow> AuditEvent \<Rightarrow> json" where
  "entry_json i previousHash event = JArr
     [JStr i, JStr previousHash, json_str_opt (ae_actorUserId event), json_str_opt (ae_actorEmail event),
      JStr (ae_action event), JStr (ae_resourceType event), json_str_opt (ae_resourceId event),
      JStr (outcome_text (ae_outcome event)), JStr (ae_purpose event), JStr (ae_correlationId event),
      json_str_opt (ae_ipAddress event), json_str_opt (ae_client event), json_str_opt (ae_beforeHash event),
      json_str_opt (ae_afterHash event), JStr (toISOString (ae_occurredAt event))]"

definition hashAuditEntry :: "runtime \<Rightarrow> string \<Rightarrow> string \<Rightarrow> AuditEvent \<Rightarrow> string" where
  "hashAuditEntry rt i previousHash event = sha256Hex rt (canonical (entry_json i previousHash event))"

section \<open>The log\<close>

text \<open>A row written before migration 0004 has neither hash.\<close>

record AuditRow =
  ar_id :: string
  ar_event :: AuditEvent
  ar_previousHash :: "string option"
  ar_entryHash :: "string option"

record audit_log =
  al_rows :: "AuditRow list"
  al_head :: "(string \<times> string option) option"

datatype AuditWriteMode = Hash_chained | Legacy

definition supportsHashChainedAudit :: "int \<Rightarrow> bool" where
  "supportsHashChainedAudit columns = (columns = 5)"

definition head_hash :: "audit_log \<Rightarrow> string" where
  "head_hash db = (case al_head db of None \<Rightarrow> AUDIT_GENESIS_HASH | Some (h, _) \<Rightarrow> h)"

definition duplicate_id :: js_error where
  "duplicate_id = TransportError (Some ''ER_DUP_ENTRY'')"

definition insert_row :: "AuditRow \<Rightarrow> audit_log \<Rightarrow> audit_log res" where
  "insert_row row db =
     (if list_ex (\<lambda>r. ar_id r = ar_id row) (al_rows db) then Inl duplicate_id
      else Inr (db\<lparr> al_rows := al_rows db @ [row] \<rparr>))"

definition append_chained :: "runtime \<Rightarrow> string \<Rightarrow> AuditEvent \<Rightarrow> audit_log \<Rightarrow> audit_log res" where
  "append_chained rt i event db =
     (let previousHash = head_hash db;
          entryHash = hashAuditEntry rt i previousHash event
      in rbind (insert_row \<lparr> ar_id = i, ar_event = event, ar_previousHash = Some previousHash,
                             ar_entryHash = Some entryHash \<rparr> db) (\<lambda>db'.
         Inr (db'\<lparr> al_head := Some (entryHash, Some i) \<rparr>)))"

definition recordAuditEventInTransaction ::
  "runtime \<Rightarrow> int \<Rightarrow> string \<Rightarrow> AuditEvent \<Rightarrow> audit_log \<Rightarrow> (audit_log \<times> AuditWriteMode) res" where
  "recordAuditEventInTransaction rt columns i event db =
     (if supportsHashChainedAudit columns
      then rbind (append_chained rt i event db) (\<lambda>db'. Inr (db', Hash_chained))
      else rbind (insert_row \<lparr> ar_id = i, ar_event = event, ar_previousHash = None, ar_entryHash = None \<rparr> db)
             (\<lambda>db'. Inr (db', Legacy)))"

text \<open>The sink rolls back and rethrows: the log a failed record leaves is the one it found.\<close>

definition sink_record :: "runtime \<Rightarrow> string \<Rightarrow> AuditEvent \<Rightarrow> audit_log \<Rightarrow> audit_log \<times> unit res" where
  "sink_record rt i event db =
     (case append_chained rt i event db of
        Inl e \<Rightarrow> (db, Inl e)
      | Inr db' \<Rightarrow> (db', Inr ()))"

section \<open>Chains\<close>

text \<open>Following the chain from a hash to a hash.\<close>

fun chain :: "runtime \<Rightarrow> string \<Rightarrow> AuditRow list \<Rightarrow> string \<Rightarrow> bool" where
  "chain rt h [] h' = (h = h')"
| "chain rt h (r # rs) h' =
     (ar_previousHash r = Some h \<and> ar_entryHash r = Some (hashAuditEntry rt (ar_id r) h (ar_event r)) \<and>
      chain rt (hashAuditEntry rt (ar_id r) h (ar_event r)) rs h')"

definition chained_rows :: "audit_log \<Rightarrow> AuditRow list" where
  "chained_rows db = filter (\<lambda>r. ar_entryHash r \<noteq> None) (al_rows db)"

definition chain_intact :: "runtime \<Rightarrow> audit_log \<Rightarrow> bool" where
  "chain_intact rt db \<longleftrightarrow>
     chain rt AUDIT_GENESIS_HASH (chained_rows db) (head_hash db) \<and> distinct (map ar_id (al_rows db))"

datatype audit_op = Sink_record string AuditEvent | Record_in_transaction int string AuditEvent

fun audit_exec :: "runtime \<Rightarrow> audit_op \<Rightarrow> audit_log \<Rightarrow> audit_log" where
  "audit_exec rt (Sink_record i event) db = fst (sink_record rt i event db)"
| "audit_exec rt (Record_in_transaction columns i event) db =
     (case recordAuditEventInTransaction rt columns i event db of Inl _ \<Rightarrow> db | Inr (db', _) \<Rightarrow> db')"

definition empty_log :: audit_log where
  "empty_log = \<lparr> al_rows = [], al_head = None \<rparr>"

lemma chain_snoc:
  "chain rt h (rs @ [r]) h' \<longleftrightarrow>
     (\<exists>g. chain rt h rs g \<and> ar_previousHash r = Some g \<and> ar_entryHash r = Some h' \<and> h' = hashAuditEntry rt (ar_id r) g (ar_event r))"
  by (induction rs arbitrary: h) auto

lemma append_chained_intact:
  assumes "chain_intact rt db" "append_chained rt i event db = Inr db'"
  shows "chain_intact rt db'"
  using assms
  by (auto simp: chain_intact_def append_chained_def insert_row_def Let_def chained_rows_def chain_snoc head_hash_def
      list_ex_iff split: if_splits)

lemma exec_intact: "chain_intact rt db \<Longrightarrow> chain_intact rt (audit_exec rt op db)"
proof (cases op)
  case (Sink_record i event)
  assume "chain_intact rt db"
  then show ?thesis using Sink_record append_chained_intact[of rt db i event]
    by (auto simp: sink_record_def split: sum.splits)
next
  case (Record_in_transaction columns i event)
  assume inv: "chain_intact rt db"
  then show ?thesis using Record_in_transaction append_chained_intact[of rt db i event]
    by (auto simp: recordAuditEventInTransaction_def rbind_Inr_iff insert_row_def chain_intact_def chained_rows_def
        head_hash_def list_ex_iff split: sum.splits if_splits)
qed

lemma run_intact: "chain_intact rt db \<Longrightarrow> chain_intact rt (fold (audit_exec rt) ops db)"
  by (induction ops arbitrary: db) (simp_all add: exec_intact)

lemma empty_intact: "chain_intact rt empty_log"
  by (simp add: chain_intact_def empty_log_def chained_rows_def head_hash_def)

section \<open>Tampering\<close>

text \<open>
  What the hash of a row commits to: every field, the time as its ISO text. A hash is weak on some texts
  when two of them collide or one of them hashes to the genesis hash.
\<close>

definition committed :: "AuditRow \<Rightarrow> json" where
  "committed r = normJson (entry_json (ar_id r) [] (ar_event r))"

definition weak_hash :: "runtime \<Rightarrow> string set \<Rightarrow> bool" where
  "weak_hash rt texts \<longleftrightarrow>
     (\<exists>a \<in> texts. \<exists>b \<in> texts. collides (sha256Hex rt) a b) \<or> (\<exists>a \<in> texts. sha256Hex rt a = AUDIT_GENESIS_HASH)"

text \<open>The texts hashed along a chain.\<close>

fun hashed_texts :: "runtime \<Rightarrow> string \<Rightarrow> AuditRow list \<Rightarrow> string set" where
  "hashed_texts rt h [] = {}"
| "hashed_texts rt h (r # rs) =
     insert (canonical (entry_json (ar_id r) h (ar_event r)))
       (hashed_texts rt (hashAuditEntry rt (ar_id r) h (ar_event r)) rs)"

lemma hashed_texts_snoc:
  "chain rt h rs g \<Longrightarrow> hashed_texts rt h (rs @ [r]) = insert (canonical (entry_json (ar_id r) g (ar_event r))) (hashed_texts rt h rs)"
  by (induction rs arbitrary: h) auto

lemma weak_hash_mono: "weak_hash rt A \<Longrightarrow> A \<subseteq> B \<Longrightarrow> weak_hash rt B"
  unfolding weak_hash_def by blast

lemma entry_json_inject:
  assumes "normJson (entry_json i g e) = normJson (entry_json j h f)"
  shows "g = h" "normJson (entry_json i [] e) = normJson (entry_json j [] f)"
  using assms by (simp_all add: entry_json_def)

lemma hash_inject:
  assumes "hashAuditEntry rt i g e = hashAuditEntry rt j h f" "\<not> weak_hash rt T"
    and "canonical (entry_json i g e) \<in> T" "canonical (entry_json j h f) \<in> T"
  shows "g = h" "normJson (entry_json i [] e) = normJson (entry_json j [] f)"
proof -
  have "finite_json (entry_json i g e)" "finite_json (entry_json j h f)" by (simp_all add: entry_json_def)
  then have "normJson (entry_json i g e) = normJson (entry_json j h f)"
    using assms digest_identifies[of "entry_json i g e" "entry_json j h f" "sha256Hex rt"]
    unfolding hashAuditEntry_def weak_hash_def by blast
  then show "g = h" "normJson (entry_json i [] e) = normJson (entry_json j [] f)" by (rule entry_json_inject)+
qed

lemma chain_determined:
  assumes "chain rt AUDIT_GENESIS_HASH rs h" "chain rt AUDIT_GENESIS_HASH ss h" "\<not> weak_hash rt T"
    and "hashed_texts rt AUDIT_GENESIS_HASH rs \<subseteq> T" "hashed_texts rt AUDIT_GENESIS_HASH ss \<subseteq> T"
  shows "map committed rs = map committed ss"
  using assms
proof (induction rs arbitrary: ss h rule: rev_induct)
  case Nil
  show ?case
  proof (cases ss rule: rev_cases)
    case (snoc ss' s)
    then obtain g where "chain rt AUDIT_GENESIS_HASH ss' g" "AUDIT_GENESIS_HASH = hashAuditEntry rt (ar_id s) g (ar_event s)"
      using Nil.prems by (auto simp: chain_snoc)
    then show ?thesis using Nil.prems(3,5) snoc by (auto simp: hashed_texts_snoc weak_hash_def hashAuditEntry_def)
  qed simp
next
  case (snoc r rs)
  then obtain g where g: "chain rt AUDIT_GENESIS_HASH rs g" "h = hashAuditEntry rt (ar_id r) g (ar_event r)"
    by (auto simp: chain_snoc)
  note t = hashed_texts_snoc[OF g(1), of r]
  show ?case
  proof (cases ss rule: rev_cases)
    case Nil
    then show ?thesis using snoc.prems g(2) t by (auto simp: weak_hash_def hashAuditEntry_def)
  next
    case (snoc ss' s)
    then obtain g' where g': "chain rt AUDIT_GENESIS_HASH ss' g'" "h = hashAuditEntry rt (ar_id s) g' (ar_event s)"
      using snoc.prems(2) by (auto simp: chain_snoc)
    note t' = hashed_texts_snoc[OF g'(1), of s]
    have eq: "hashAuditEntry rt (ar_id r) g (ar_event r) = hashAuditEntry rt (ar_id s) g' (ar_event s)"
      using g(2) g'(2) by simp
    have in_T: "canonical (entry_json (ar_id r) g (ar_event r)) \<in> T" "canonical (entry_json (ar_id s) g' (ar_event s)) \<in> T"
      using snoc.prems(4,5) t t' \<open>ss = ss' @ [s]\<close> by auto
    note same = hash_inject[OF eq snoc.prems(3) in_T]
    have "map committed rs = map committed ss'"
      using snoc.IH[OF g(1), of ss'] g'(1) same(1) snoc.prems(3-5) t t' \<open>ss = ss' @ [s]\<close> by simp
    moreover have "committed r = committed s" using same(2) by (simp add: committed_def)
    ultimately show ?thesis using \<open>ss = ss' @ [s]\<close> by simp
  qed
qed

text \<open>
  C22. Whatever records are written, through the sink or inside callers' transactions, before or after the
  chaining migration and with failing inserts among them, the chained rows form one unbroken chain from
  the genesis hash to the stored head.
\<close>
theorem audit_chain_unbroken:
  "chain_intact rt (fold (audit_exec rt) ops empty_log)"
  by (rule run_intact[OF empty_intact])

text \<open>
  The head commits to the whole log: a list of rows that verifies against the head of a log the
  program wrote agrees with its chained rows in number, order and every hashed field, unless two
  of the texts the two lists hash collide under SHA-256 or one of them hashes to the genesis hash.
\<close>
theorem audit_log_tamper_evident:
  fixes ops :: "audit_op list" and rt :: runtime
  assumes "chain rt AUDIT_GENESIS_HASH presented (head_hash (fold (audit_exec rt) ops empty_log))"
  defines "written \<equiv> chained_rows (fold (audit_exec rt) ops empty_log)"
  shows "map committed presented = map committed written \<or>
         weak_hash rt (hashed_texts rt AUDIT_GENESIS_HASH presented \<union> hashed_texts rt AUDIT_GENESIS_HASH written)"
  using chain_determined[OF assms(1), of written] run_intact[OF empty_intact, of rt ops]
  unfolding written_def chain_intact_def by blast


definition demo_event :: "string \<Rightarrow> AuditEvent" where
  "demo_event action =
     \<lparr> ae_actorUserId = Some ''u1'', ae_actorEmail = None, ae_action = action, ae_resourceType = ''role'',
       ae_resourceId = None, ae_outcome = Success, ae_purpose = ''grant'', ae_correlationId = ''c'',
       ae_ipAddress = None, ae_client = None, ae_beforeHash = None, ae_afterHash = None, ae_occurredAt = 0 \<rparr>"

definition demo_audit_ops :: "audit_op list" where
  "demo_audit_ops = [Sink_record ''e1'' (demo_event ''login''), Record_in_transaction 5 ''e2'' (demo_event ''grant'')]"

text \<open>The rows the program wrote are the only ones that verify.\<close>
theorem audit_log_tamper_evident_witness:
  "length (chained_rows (fold (audit_exec plain_runtime) demo_audit_ops empty_log)) = 2 \<and>
   map committed (chained_rows (fold (audit_exec plain_runtime) demo_audit_ops empty_log)) =
     [normJson (entry_json ''e1'' [] (demo_event ''login'')), normJson (entry_json ''e2'' [] (demo_event ''grant''))] \<and>
   {presented. chain plain_runtime AUDIT_GENESIS_HASH presented
      (head_hash (fold (audit_exec plain_runtime) demo_audit_ops empty_log))} \<subseteq> {presented. length presented = 2}"
proof -
  have two: "chained_rows (fold (audit_exec plain_runtime) demo_audit_ops empty_log) =
      [\<lparr> ar_id = ''e1'', ar_event = demo_event ''login'', ar_previousHash = Some AUDIT_GENESIS_HASH,
         ar_entryHash = Some (hashAuditEntry plain_runtime ''e1'' AUDIT_GENESIS_HASH (demo_event ''login'')) \<rparr>,
       \<lparr> ar_id = ''e2'', ar_event = demo_event ''grant'',
         ar_previousHash = Some (hashAuditEntry plain_runtime ''e1'' AUDIT_GENESIS_HASH (demo_event ''login'')),
         ar_entryHash = Some (hashAuditEntry plain_runtime ''e2''
           (hashAuditEntry plain_runtime ''e1'' AUDIT_GENESIS_HASH (demo_event ''login'')) (demo_event ''grant'')) \<rparr>]"
    by (simp add: demo_audit_ops_def empty_log_def sink_record_def append_chained_def insert_row_def Let_def
        recordAuditEventInTransaction_def supportsHashChainedAudit_def head_hash_def chained_rows_def)
  have "\<not> weak_hash plain_runtime T" for T
    by (auto simp: weak_hash_def plain_runtime_def collides_def AUDIT_GENESIS_HASH_def numeral_eq_Suc)
  then have "length presented = 2"
    if "chain plain_runtime AUDIT_GENESIS_HASH presented (head_hash (fold (audit_exec plain_runtime) demo_audit_ops empty_log))"
    for presented
    using audit_log_tamper_evident[OF that] two by (metis (no_types, lifting) One_nat_def Suc_1 length_Cons length_map list.size(3))
  with two show ?thesis by (auto simp: committed_def)
qed

end
