(* ===== verification/Settlement.thy ===== *)
theory Settlement
  imports Runtime JsDate Decimal
begin

text \<open>
  The monthly KServe settlement: exact money, the validation of a save request and its deterministic
  identity (\<open>src/src/billing/kserveSettlement.ts\<close>), and the append-only versions of a month
  (\<open>src/src/adapters/mysqlKserveSettlement.ts\<close>). A save is one transaction; the unique keys of the table
  are checked by the insert. The key column has a case-insensitive collation.
\<close>

section \<open>Exact money\<close>

definition MAX_FINAL_PAID_SCALED :: int where
  "MAX_FINAL_PAID_SCALED = 9999999999999999999"

definition MAX_AMOUNT_TEXT_LENGTH :: nat where
  "MAX_AMOUNT_TEXT_LENGTH = 32"

text \<open>\<open>/^(-?)(\d{1,12})(?:\.(\d{1,8}))?$/\<close>.\<close>

definition parse_amount_text :: "string \<Rightarrow> string \<Rightarrow> int res" where
  "parse_amount_text field raw =
     (let text = trim raw;
          negative = (text \<noteq> [] \<and> hd text = CHR ''-'');
          body = (if negative then tl text else text)
      in rbind (first_error
           [(text = [], KserveSettlementInputError field ''must not be blank''),
            (length text > MAX_AMOUNT_TEXT_LENGTH, KserveSettlementInputError field ''must be at most 32 characters''),
            (\<not> decimal_shape (Some 12) (Some 8) body,
             KserveSettlementInputError field
               ''must be a plain decimal amount with at most 12 whole digits and 8 decimal places'')]) (\<lambda>_.
         let magnitude = int (nat_of_digits (whole_part body @ padEnd 8 (CHR ''0'') (fraction_part body)))
         in Inr (if negative then - magnitude else magnitude)))"

definition parseExactDecimal :: "js_input \<Rightarrow> string \<Rightarrow> int res" where
  "parseExactDecimal v field =
     (case v of
        Text_in raw \<Rightarrow> parse_amount_text field raw
      | _ \<Rightarrow> Inl (KserveSettlementInputError field ''must be a decimal string''))"

definition formatScaledMoney :: "int \<Rightarrow> string" where
  "formatScaledMoney v =
     (let digits = padStart 9 (CHR ''0'') (string_of_nat (nat \<bar>v\<bar>))
      in (if v < 0 then ''-'' else []) @ but_last 8 digits @ ''.'' @ last_chars 8 digits)"

definition parseFinalPaidAmount :: "js_input \<Rightarrow> string res" where
  "parseFinalPaidAmount v =
     rbind (parseExactDecimal v ''finalPaidAmountInr'') (\<lambda>scaled.
     rbind (first_error
       [(scaled < 0, KserveSettlementInputError ''finalPaidAmountInr''
           ''must not be negative; a refund is a separate approved decision''),
        (scaled > MAX_FINAL_PAID_SCALED, KserveSettlementInputError ''finalPaidAmountInr''
           ''must be at most 99999999999.99999999'')]) (\<lambda>_.
     Inr (formatScaledMoney scaled)))"

definition readStoredDecimal :: "string option \<Rightarrow> string \<Rightarrow> string option res" where
  "readStoredDecimal v field =
     (case v of
        None \<Rightarrow> Inr None
      | Some t \<Rightarrow> rbind (parseExactDecimal (Text_in t) field) (\<lambda>n. Inr (Some (formatScaledMoney n))))"

definition calculateSettlementSavings :: "string option \<Rightarrow> string option \<Rightarrow> string option res" where
  "calculateSettlementSavings vendorBilledChargeInr finalPaidAmountInr =
     (case (vendorBilledChargeInr, finalPaidAmountInr) of
        (Some b, Some p) \<Rightarrow>
          rbind (parseExactDecimal (Text_in b) ''vendorBilledChargeInr'') (\<lambda>billed.
          rbind (parseExactDecimal (Text_in p) ''finalPaidAmountInr'') (\<lambda>paid.
          Inr (Some (formatScaledMoney (billed - paid)))))
      | _ \<Rightarrow> Inr None)"

section \<open>Period and identity\<close>

text \<open>\<open>/^(\d{4})-(\d{2})$/\<close>.\<close>

definition month_shape :: "string \<Rightarrow> bool" where
  "month_shape t = (length t = 7 \<and> all_digits (take 4 t) \<and> t ! 4 = CHR ''-'' \<and> all_digits (drop 5 t))"

definition month_year :: "string \<Rightarrow> nat" where
  "month_year t = nat_of_digits (take 4 t)"

definition month_number :: "string \<Rightarrow> nat" where
  "month_number t = nat_of_digits (drop 5 t)"

definition parseSettlementMonth :: "js_input \<Rightarrow> string res" where
  "parseSettlementMonth v =
     (case v of
        Text_in raw \<Rightarrow>
          let text = trim raw in
          rbind (first_error
            [(\<not> month_shape text, KserveSettlementInputError ''month'' ''must use YYYY-MM''),
             (month_year text < 2000 \<or> month_year text > 2100 \<or> month_number text < 1 \<or> month_number text > 12,
              KserveSettlementInputError ''month'' ''is outside the supported range'')]) (\<lambda>_. Inr text)
      | _ \<Rightarrow> Inl (KserveSettlementInputError ''month'' ''must be a YYYY-MM string''))"

text \<open>\<open>new Date(Date.UTC(year, month, 0)).getUTCDate()\<close>: the last day of the month.\<close>

definition last_day :: "nat \<Rightarrow> nat \<Rightarrow> nat" where
  "last_day y m =
     (if m = 2 then (if y mod 4 = 0 \<and> (y mod 100 \<noteq> 0 \<or> y mod 400 = 0) then 29 else 28)
      else if m \<in> {4, 6, 9, 11} then 30 else 31)"

definition settlementMonthBounds :: "string \<Rightarrow> string \<times> string" where
  "settlementMonthBounds billMonth =
     (billMonth @ ''-01'',
      billMonth @ ''-'' @ padStart 2 (CHR ''0'') (string_of_nat (last_day (month_year billMonth) (month_number billMonth))))"

definition key_char :: "char \<Rightarrow> bool" where
  "key_char c = ((CHR ''A'' \<le> c \<and> c \<le> CHR ''Z'') \<or> (CHR ''a'' \<le> c \<and> c \<le> CHR ''z'') \<or> is_digit c \<or>
                 c = CHR ''_'' \<or> c = CHR ''-'')"

definition parseIdempotencyKey :: "js_input \<Rightarrow> string res" where
  "parseIdempotencyKey v =
     (case v of
        Text_in raw \<Rightarrow>
          let text = trim raw in
          rbind (first_error
            [(length text < 8 \<or> length text > 80,
              KserveSettlementInputError ''idempotencyKey'' ''must be 8 to 80 characters''),
             (\<not> list_all key_char text,
              KserveSettlementInputError ''idempotencyKey'' ''must use letters, digits, hyphen, or underscore only'')])
            (\<lambda>_. Inr text)
      | _ \<Rightarrow> Inl (KserveSettlementInputError ''idempotencyKey'' ''must be a string''))"

definition optionalToken :: "js_input \<Rightarrow> string \<Rightarrow> nat \<Rightarrow> string option res" where
  "optionalToken v field maxLength =
     (case v of
        Missing \<Rightarrow> Inr None
      | Other_in \<Rightarrow> Inl (KserveSettlementInputError field ''must be a string or null'')
      | Text_in raw \<Rightarrow>
          let text = trim raw in
          if text = [] then Inr None
          else if length text > maxLength
          then Inl (KserveSettlementInputError field (''must be at most '' @ string_of_nat maxLength @ '' characters''))
          else Inr (Some text))"

definition KSERVE_SETTLEMENT_CURRENCY :: string where
  "KSERVE_SETTLEMENT_CURRENCY = ''INR''"

record RecordSettlementRequest =
  rq_month :: js_input
  rq_finalPaidAmountInr :: js_input
  rq_idempotencyKey :: js_input
  rq_recordedByUserId :: js_input
  rq_correlationId :: js_input

record ValidatedSettlementRequest =
  vs_billMonth :: string
  vs_periodStart :: string
  vs_periodEnd :: string
  vs_currency :: string
  vs_finalPaidAmountInr :: string
  vs_idempotencyKey :: string
  vs_recordedByUserId :: "string option"
  vs_correlationId :: "string option"
  vs_settlementId :: string
  vs_requestDigest :: string

definition buildSettlementId :: "runtime \<Rightarrow> string \<Rightarrow> string \<Rightarrow> string" where
  "buildSettlementId rt billMonth idempotencyKey =
     ''kms_'' @ take 36 (sha256Hex rt (canonical (JObj
       [(''billMonth'', JStr billMonth), (''idempotencyKey'', JStr idempotencyKey)])))"

definition digest_json :: "string \<Rightarrow> string \<Rightarrow> string \<Rightarrow> string \<Rightarrow> json" where
  "digest_json billMonth currency finalPaidAmountInr idempotencyKey = JObj
     [(''billMonth'', JStr billMonth), (''currency'', JStr currency),
      (''finalPaidAmountInr'', JStr finalPaidAmountInr), (''idempotencyKey'', JStr idempotencyKey)]"

definition buildSettlementRequestDigest :: "runtime \<Rightarrow> string \<Rightarrow> string \<Rightarrow> string \<Rightarrow> string \<Rightarrow> string" where
  "buildSettlementRequestDigest rt billMonth currency finalPaidAmountInr idempotencyKey =
     sha256Hex rt (canonical (digest_json billMonth currency finalPaidAmountInr idempotencyKey))"

definition validateRecordSettlementRequest :: "runtime \<Rightarrow> RecordSettlementRequest \<Rightarrow> ValidatedSettlementRequest res" where
  "validateRecordSettlementRequest rt request =
     rbind (parseSettlementMonth (rq_month request)) (\<lambda>billMonth.
     rbind (parseFinalPaidAmount (rq_finalPaidAmountInr request)) (\<lambda>amount.
     rbind (parseIdempotencyKey (rq_idempotencyKey request)) (\<lambda>idempotencyKey.
     rbind (optionalToken (rq_recordedByUserId request) ''recordedByUserId'' 40) (\<lambda>actor.
     rbind (optionalToken (rq_correlationId request) ''correlationId'' 120) (\<lambda>correlation.
     Inr \<lparr> vs_billMonth = billMonth, vs_periodStart = fst (settlementMonthBounds billMonth),
           vs_periodEnd = snd (settlementMonthBounds billMonth), vs_currency = KSERVE_SETTLEMENT_CURRENCY,
           vs_finalPaidAmountInr = amount, vs_idempotencyKey = idempotencyKey,
           vs_recordedByUserId = actor, vs_correlationId = correlation,
           vs_settlementId = buildSettlementId rt billMonth idempotencyKey,
           vs_requestDigest = buildSettlementRequestDigest rt billMonth KSERVE_SETTLEMENT_CURRENCY amount idempotencyKey \<rparr>)))))"

definition parseHistoryLimit :: "string option \<Rightarrow> nat res" where
  "parseHistoryLimit raw =
     (case raw of
        None \<Rightarrow> Inr 10
      | Some r \<Rightarrow>
          let t = trim r; bad = KserveSettlementInputError ''history'' ''must be an integer between 1 and 50'' in
          if t = [] then Inr 10
          else if \<not> all_digits t \<or> length t > 3 then Inl bad
          else if nat_of_digits t < 1 \<or> nat_of_digits t > 50 then Inl bad
          else Inr (nat_of_digits t))"

section \<open>Versions of a month\<close>

record SettlementRow =
  st_id :: string
  st_billMonth :: string
  st_periodStart :: string
  st_periodEnd :: string
  st_currency :: string
  st_finalPaidAmount :: string
  st_versionNo :: nat
  st_supersedes :: "string option"
  st_idempotencyKey :: string
  st_requestDigest :: string
  st_recordedByUserId :: "string option"
  st_correlationId :: "string option"
  st_recordedAt :: string

type_synonym settlements = "SettlementRow list"

definition settlementTimestampOf :: "int \<Rightarrow> string" where
  "settlementTimestampOf now =
     (let t = toISOString now
      in map (\<lambda>c. if c = CHR ''T'' then CHR '' '' else c) (takeWhile (\<lambda>c. c \<noteq> CHR ''Z'') t) @ ''000'')"

datatype save_outcome = Recorded | Replayed

record RecordSettlementResult =
  rr_versionNo :: nat
  rr_finalPaidAmountInr :: string
  rr_currency :: string
  rr_recordedAt :: string
  rr_outcome :: save_outcome

definition current_of :: "settlements \<Rightarrow> string \<Rightarrow> SettlementRow option" where
  "current_of table month =
     (case filter (\<lambda>r. st_billMonth r = month) table of
        [] \<Rightarrow> None
      | r # rs \<Rightarrow> Some (foldl (\<lambda>a b. if st_versionNo b > st_versionNo a then b else a) r rs))"

text \<open>The unique keys: id, month and version, month and key, superseded version.\<close>

definition violates_unique :: "settlements \<Rightarrow> SettlementRow \<Rightarrow> bool" where
  "violates_unique table row = list_ex (\<lambda>r.
     st_id r = st_id row \<or>
     (st_billMonth r = st_billMonth row \<and> st_versionNo r = st_versionNo row) \<or>
     (st_billMonth r = st_billMonth row \<and> same_key (st_idempotencyKey r) (st_idempotencyKey row)) \<or>
     (st_supersedes row \<noteq> None \<and> st_supersedes r = st_supersedes row)) table"

definition next_row :: "settlements \<Rightarrow> ValidatedSettlementRequest \<Rightarrow> int \<Rightarrow> SettlementRow" where
  "next_row table request now =
     (let current = current_of table (vs_billMonth request) in
      \<lparr> st_id = vs_settlementId request, st_billMonth = vs_billMonth request,
        st_periodStart = vs_periodStart request, st_periodEnd = vs_periodEnd request,
        st_currency = vs_currency request, st_finalPaidAmount = vs_finalPaidAmountInr request,
        st_versionNo = (case current of None \<Rightarrow> 1 | Some r \<Rightarrow> st_versionNo r + 1),
        st_supersedes = map_option st_id current, st_idempotencyKey = vs_idempotencyKey request,
        st_requestDigest = vs_requestDigest request, st_recordedByUserId = vs_recordedByUserId request,
        st_correlationId = vs_correlationId request, st_recordedAt = settlementTimestampOf now \<rparr>)"

definition different_amount :: js_error where
  "different_amount = KserveSettlementConflictError ''idempotencyKey''
     ''has already recorded a different amount for this month; a correction needs its own save''"

definition same_time :: js_error where
  "same_time = KserveSettlementConflictError ''month''
     ''another settlement version for this month was recorded at the same time; re-read the current version and save again''"

text \<open>The refusals that leave the module: any other failure becomes the bounded one.\<close>

definition asSafeSettlementError :: "js_error \<Rightarrow> js_error" where
  "asSafeSettlementError e =
     (case e of
        KserveSettlementInputError _ _ \<Rightarrow> e
      | KserveSettlementConflictError _ _ \<Rightarrow> e
      | KserveSettlementUnavailableError \<Rightarrow> e
      | _ \<Rightarrow> KserveSettlementUnavailableError)"

text \<open>The prefix \<open>/^(\d{4}-\d{2}-\d{2})[ T](\d{2}:\d{2}:\d{2})(?:\.(\d{1,6}))?/\<close> of a stored timestamp.\<close>

definition naive_datetime :: "string \<Rightarrow> bool" where
  "naive_datetime t =
     (length t \<ge> 19 \<and> t ! 4 = CHR ''-'' \<and> t ! 7 = CHR ''-'' \<and> (t ! 10 = CHR '' '' \<or> t ! 10 = CHR ''T'') \<and>
      t ! 13 = CHR '':'' \<and> t ! 16 = CHR '':'' \<and>
      list_all (\<lambda>i. is_digit (t ! i)) [0, 1, 2, 3, 5, 6, 8, 9, 11, 12, 14, 15, 17, 18])"

definition fraction_digits :: "string \<Rightarrow> string" where
  "fraction_digits t = (case t of c # r \<Rightarrow> if c = CHR ''.'' then take 6 (takeWhile is_digit r) else [] | [] \<Rightarrow> [])"

definition readSettlementTimestamp :: "string \<Rightarrow> string res" where
  "readSettlementTimestamp v =
     (let t = trim v in
      if \<not> naive_datetime t then Inl (PlainError ''settlement timestamp is unreadable'')
      else Inr (take 10 t @ '' '' @ take 8 (drop 11 t) @ ''.'' @ padEnd 6 (CHR ''0'') (fraction_digits (drop 19 t))))"

record KserveSettlementVersion =
  sv_versionNo :: nat
  sv_finalPaidAmountInr :: string
  sv_currency :: string
  sv_recordedAt :: string
  sv_isCurrent :: bool

definition toSettlementVersion :: "SettlementRow \<Rightarrow> bool \<Rightarrow> KserveSettlementVersion res" where
  "toSettlementVersion row isCurrent =
     rbind (readStoredDecimal (Some (st_finalPaidAmount row)) ''finalPaidAmountInr'') (\<lambda>amount.
     case amount of
       None \<Rightarrow> Inl (PlainError ''settlement amount is missing'')
     | Some a \<Rightarrow>
         rbind (readSettlementTimestamp (st_recordedAt row)) (\<lambda>recordedAt.
         Inr \<lparr> sv_versionNo = st_versionNo row, sv_finalPaidAmountInr = a, sv_currency = st_currency row,
               sv_recordedAt = recordedAt, sv_isCurrent = isCurrent \<rparr>))"

text \<open>One save: replay or insert. Only an insert changes the table.\<close>

definition write_settlement ::
  "ValidatedSettlementRequest \<Rightarrow> int \<Rightarrow> settlements \<Rightarrow> settlements \<times> RecordSettlementResult res" where
  "write_settlement request now table =
     (case find (\<lambda>r. st_billMonth r = vs_billMonth request \<and> same_key (st_idempotencyKey r) (vs_idempotencyKey request)) table of
        Some replay \<Rightarrow>
          (table,
           if st_requestDigest replay \<noteq> vs_requestDigest request then Inl different_amount
           else rbind (toSettlementVersion replay False) (\<lambda>version.
             Inr \<lparr> rr_versionNo = sv_versionNo version, rr_finalPaidAmountInr = sv_finalPaidAmountInr version,
                   rr_currency = sv_currency version, rr_recordedAt = sv_recordedAt version,
                   rr_outcome = Replayed \<rparr>))
      | None \<Rightarrow>
          let row = next_row table request now in
          if violates_unique table row then (table, Inl same_time)
          else (table @ [row],
                Inr \<lparr> rr_versionNo = st_versionNo row, rr_finalPaidAmountInr = st_finalPaidAmount row,
                      rr_currency = st_currency row, rr_recordedAt = st_recordedAt row, rr_outcome = Recorded \<rparr>))"

definition safe_error :: "'a res \<Rightarrow> 'a res" where
  "safe_error m = (case m of Inl e \<Rightarrow> Inl (asSafeSettlementError e) | Inr x \<Rightarrow> Inr x)"

definition recordSettlement ::
  "runtime \<Rightarrow> RecordSettlementRequest \<Rightarrow> int \<Rightarrow> settlements \<Rightarrow> settlements \<times> RecordSettlementResult res" where
  "recordSettlement rt request now table =
     (case validateRecordSettlementRequest rt request of
        Inl e \<Rightarrow> (table, Inl e)
      | Inr validated \<Rightarrow> (let (table', r) = write_settlement validated now table in (table', safe_error r)))"

record KserveSettlementHistory =
  sh_versions :: "KserveSettlementVersion list"
  sh_truncated :: bool

definition history_rows :: "string \<Rightarrow> settlements \<Rightarrow> SettlementRow list" where
  "history_rows billMonth table =
     sort_key (\<lambda>r. - int (st_versionNo r)) (filter (\<lambda>r. st_billMonth r = billMonth) table)"

definition readHistory :: "string \<Rightarrow> int \<Rightarrow> settlements \<Rightarrow> KserveSettlementHistory res" where
  "readHistory billMonth limit table =
     (let bounded = nat (min (max limit 1) 50);
          rows = take (bounded + 1) (history_rows billMonth table);
          window = take bounded rows
      in safe_error (rbind (mapM_res (\<lambda>(i, r). toSettlementVersion r (i = 0)) (zip [0 ..< length window] window)) (\<lambda>versions.
         Inr \<lparr> sh_versions = versions, sh_truncated = (length rows > bounded) \<rparr>)))"

section \<open>Amounts are exact\<close>

lemma formatScaledMoney_fixed: "formatScaledMoney v = (if v < 0 then ''-'' else []) @ fixed_places 8 (nat \<bar>v\<bar>)"
proof -
  let ?n = "nat \<bar>v\<bar>"
  have "?n = ?n div 10 ^ 8 * 10 ^ 8 + ?n mod 10 ^ 8" by simp
  from padded_split[OF this, simplified] show ?thesis
    by (simp add: formatScaledMoney_def fixed_places_def Let_def)
qed

lemma fixed_fraction_nonempty: "padStart 8 (CHR ''0'') (string_of_nat (n mod 10 ^ 8)) \<noteq> []"
  using length_fixed_fraction[of 8 n] by (metis length_0_conv zero_less_numeral zero_neq_numeral)

lemma fixed_places_parts:
  "fixed_places 8 n = string_of_nat (n div 10 ^ 8) @
     (if padStart 8 (CHR ''0'') (string_of_nat (n mod 10 ^ 8)) \<noteq> []
      then CHR ''.'' # padStart 8 (CHR ''0'') (string_of_nat (n mod 10 ^ 8)) else [])"
  unfolding fixed_places_def by (simp only: fixed_fraction_nonempty if_True not_False_eq_True)

lemma toScaled_format: "toScaled (Some (formatScaledMoney v)) = Some v"
proof -
  let ?w = "string_of_nat (nat \<bar>v\<bar> div 10 ^ 8)" and ?f = "padStart 8 (CHR ''0'') (string_of_nat (nat \<bar>v\<bar> mod 10 ^ 8))"
  note t = toScaled_text[of ?w ?f] nat_of_fixed8[of "nat \<bar>v\<bar>"] fixed_places_parts[of "nat \<bar>v\<bar>"]
  show ?thesis
  proof (cases "v < 0")
    case True
    with t show ?thesis by (simp add: formatScaledMoney_fixed)
  next
    case False
    with t show ?thesis by (simp add: formatScaledMoney_fixed)
  qed
qed

lemma parse_amount_scaled:
  assumes "parse_amount_text field raw = Inr n"
  shows "toScaled (Some raw) = Some n" and "\<bar>n\<bar> < 10 ^ 20"
proof -
  define t where "t = trim raw"
  define body where "body = (if t \<noteq> [] \<and> hd t = CHR ''-'' then tl t else t)"
  have "parse_amount_text field raw = rbind (first_error
       [(t = [], KserveSettlementInputError field ''must not be blank''),
        (length t > MAX_AMOUNT_TEXT_LENGTH, KserveSettlementInputError field ''must be at most 32 characters''),
        (\<not> decimal_shape (Some 12) (Some 8) body, KserveSettlementInputError field
           ''must be a plain decimal amount with at most 12 whole digits and 8 decimal places'')]) (\<lambda>_.
     Inr (if t \<noteq> [] \<and> hd t = CHR ''-'' then - int (nat_of_digits (whole_part body @ padEnd 8 (CHR ''0'') (fraction_part body)))
          else int (nat_of_digits (whole_part body @ padEnd 8 (CHR ''0'') (fraction_part body)))))"
    by (simp only: parse_amount_text_def Let_def t_def body_def)
  with assms have ne: "t \<noteq> []" and shape: "decimal_shape (Some 12) (Some 8) body"
    and n: "n = (if hd t = CHR ''-'' then - int (nat_of_digits (whole_part body @ padEnd 8 (CHR ''0'') (fraction_part body)))
        else int (nat_of_digits (whole_part body @ padEnd 8 (CHR ''0'') (fraction_part body))))"
    by (auto simp: rbind_Inr_iff first_error_Inr simp del: first_error.simps split: if_splits)
  have w: "whole_part body \<noteq> []" "all_digits (whole_part body)" "length (whole_part body) \<le> 12"
    and f: "all_digits (fraction_part body)" "length (fraction_part body) \<le> 8"
    using shape by (auto simp: decimal_shape_def whole_part_def fraction_part_def split: prod.splits option.splits)
  have e8: "padEnd 8 (CHR ''0'') (fraction_part body) = eight_places (fraction_part body)"
    using eight_places_short[OF f(2)] by simp
  have wide: "decimal_shape None None body"
    using shape by (auto simp: decimal_shape_def split: prod.splits option.splits)
  have "hd t \<noteq> CHR ''+''"
  proof
    assume plus: "hd t = CHR ''+''"
    then have "body = t" by (simp add: body_def)
    with ne plus obtain r where "body = CHR ''+'' # r" by (cases t) auto
    then have "hd (whole_part body) = CHR ''+''" by (simp add: whole_part_def split: prod.splits)
    with w show False by (cases "whole_part body") auto
  qed
  then have "strip_sign t = body" using ne by (cases t) (auto simp: strip_sign_def body_def)
  with ne wide n e8 show "toScaled (Some raw) = Some n"
    by (simp add: toScaled_def Let_def t_def[symmetric])
  let ?d = "whole_part body @ padEnd 8 (CHR ''0'') (fraction_part body)"
  have "nat_of_digits ?d < 10 ^ length ?d" using w f by (intro nat_of_digits_less) simp
  also have "\<dots> \<le> 10 ^ 20" using w f by (intro power_increasing) simp_all
  finally show "\<bar>n\<bar> < 10 ^ 20" unfolding n by auto
qed

lemma parse_fixed:
  assumes "m < 10 ^ 20"
  shows "parse_amount_text field (fixed_places 8 m) = Inr (int m)"
    and "parse_amount_text field (CHR ''-'' # fixed_places 8 m) = Inr (- int m)"
proof -
  let ?w = "string_of_nat (m div 10 ^ 8)" and ?f = "padStart 8 (CHR ''0'') (string_of_nat (m mod 10 ^ 8))"
  have lf: "length ?f = 8" by (rule length_fixed_fraction) simp
  have "m div 10 ^ 8 < 10 ^ 12" using assms by (simp add: div_less_iff_less_mult)
  then have lw: "length ?w \<le> 12" by (rule string_of_nat_length_le) simp
  have parts: "decimal_shape (Some 12) (Some 8) (fixed_places 8 m)"
    unfolding decimal_shape_fixed_places within_simps using lf lw by simp
  have trim: "trim (fixed_places 8 m) = fixed_places 8 m" "trim (CHR ''-'' # fixed_places 8 m) = CHR ''-'' # fixed_places 8 m"
    using trim_number_text[of ?w ?f "[]"] trim_number_text[of ?w ?f "''-''"] fixed_places_parts[of m] by simp_all
  have hd: "hd (fixed_places 8 m) \<noteq> CHR ''-''" using hd_string_of_nat[of "m div 10 ^ 8"]
    by (cases ?w) (auto simp: fixed_places_def)
  have ne: "fixed_places 8 m \<noteq> []" by (simp add: fixed_places_def)
  have "length (fixed_places 8 m) = length ?w + 1 + length ?f" by (simp add: fixed_places_def)
  with lf lw have len: "length (fixed_places 8 m) \<le> 21" by linarith
  have val: "nat_of_digits (whole_part (fixed_places 8 m) @ padEnd 8 (CHR ''0'') (fraction_part (fixed_places 8 m))) = m"
    using nat_of_fixed8[of m] eight_places_exact[OF lf] eight_places_short[of ?f] lf
    by (simp only: whole_fixed_places fraction_fixed_places)
  show "parse_amount_text field (fixed_places 8 m) = Inr (int m)"
    using trim(1) parts hd ne len val by (simp add: parse_amount_text_def Let_def MAX_AMOUNT_TEXT_LENGTH_def)
  show "parse_amount_text field (CHR ''-'' # fixed_places 8 m) = Inr (- int m)"
    using trim(2) parts hd ne len val by (simp add: parse_amount_text_def Let_def MAX_AMOUNT_TEXT_LENGTH_def)
qed

lemma parse_format:
  assumes "\<bar>v\<bar> < 10 ^ 20"
  shows "parse_amount_text field (formatScaledMoney v) = Inr v"
proof -
  have m: "nat \<bar>v\<bar> < 10 ^ 20" using assms by (simp add: nat_less_iff)
  show ?thesis using parse_fixed[OF m, of field] by (cases "v < 0") (simp_all add: formatScaledMoney_fixed)
qed

text \<open>
  Savings are exact: for any two amounts the parser accepts, the savings text denotes the billed
  amount minus the paid one, sign included, and agrees with the subtraction the dashboard shows; with
  either side missing there are no savings at all.
\<close>
theorem savings_exact:
  assumes "parseExactDecimal (Text_in b) ''vendorBilledChargeInr'' = Inr billed"
    and "parseExactDecimal (Text_in p) ''finalPaidAmountInr'' = Inr paid"
  shows "\<exists>s. calculateSettlementSavings (Some b) (Some p) = Inr (Some s) \<and> toScaled (Some s) = Some (billed - paid) \<and>
         toScaled (subtract (Some b) (Some p)) = toScaled (Some s) \<and>
         calculateSettlementSavings None (Some p) = Inr None \<and> calculateSettlementSavings (Some b) None = Inr None"
proof -
  have "toScaled (Some b) = Some billed" "toScaled (Some p) = Some paid"
    using assms parse_amount_scaled(1) by (auto simp: parseExactDecimal_def)
  then have "toScaled (subtract (Some b) (Some p)) = Some (billed - paid)" by (rule subtract_scaled)
  with assms toScaled_format[of "billed - paid"] show ?thesis by (simp add: calculateSettlementSavings_def)
qed

lemma demo_amounts:
  "parseExactDecimal (Text_in ''100.5'') f = Inr 10050000000" "parseExactDecimal (Text_in ''120'') f = Inr 12000000000"
  by (simp_all add: parseExactDecimal_def parse_amount_text_def trim_def is_ws_def MAX_AMOUNT_TEXT_LENGTH_def decimal_shape_def
      is_digit_def whole_part_def fraction_part_def digit_val_def padEnd_def Let_def)

text \<open>Paying 120 for a bill of 100.5 is a saving of minus 19.5.\<close>
theorem savings_exact_witness:
  "\<exists>s. calculateSettlementSavings (Some ''100.5'') (Some ''120'') = Inr (Some s) \<and> toScaled (Some s) = Some (- 1950000000)"
  using savings_exact[OF demo_amounts] by auto

lemma paid_amount_facts:
  assumes "parseFinalPaidAmount v = Inr t"
  shows "\<exists>n. 0 \<le> n \<and> n \<le> MAX_FINAL_PAID_SCALED \<and> t = fixed_places 8 (nat n) \<and> toScaled (Some t) = Some n \<and>
         parseFinalPaidAmount (Text_in t) = Inr t \<and> readStoredDecimal (Some t) field = Inr (Some t)"
proof -
  from assms obtain n where n: "parseExactDecimal v ''finalPaidAmountInr'' = Inr n" "0 \<le> n" "n \<le> MAX_FINAL_PAID_SCALED"
    and t: "t = formatScaledMoney n"
    by (auto simp: parseFinalPaidAmount_def rbind_Inr_iff first_error_Inr not_less simp del: first_error.simps)
  have "\<bar>n\<bar> < 10 ^ 20" using n(2,3) by (simp add: MAX_FINAL_PAID_SCALED_def)
  then have p: "parseExactDecimal (Text_in t) g = Inr n" for g using parse_format[of n g] by (simp add: parseExactDecimal_def t)
  have "parseFinalPaidAmount (Text_in t) = Inr t" using n(2,3) by (simp add: parseFinalPaidAmount_def p) (simp add: t)
  moreover have "readStoredDecimal (Some t) field = Inr (Some t)" by (simp add: readStoredDecimal_def p) (simp add: t)
  moreover have "t = fixed_places 8 (nat n)" using n(2) by (simp add: t formatScaledMoney_fixed)
  moreover have "toScaled (Some t) = Some n" by (simp add: t toScaled_format)
  ultimately show ?thesis using n(2,3) by blast
qed

text \<open>
  A payment the form accepts is an amount between 0 and 99999999999.99999999 rupees, stored with
  exactly eight places; reading the stored text back, or submitting it again, gives the same text.
\<close>
theorem paid_amount_canonical:
  assumes "parseFinalPaidAmount v = Inr t"
  shows "\<exists>n. 0 \<le> n \<and> n \<le> MAX_FINAL_PAID_SCALED \<and> t = fixed_places 8 (nat n) \<and> toScaled (Some t) = Some n \<and>
         parseFinalPaidAmount (Text_in t) = Inr t \<and> readStoredDecimal (Some t) field = Inr (Some t)"
  using paid_amount_facts[OF assms] .

theorem paid_amount_canonical_witness:
  "\<exists>t. parseFinalPaidAmount (Text_in ''120'') = Inr t \<and> parseFinalPaidAmount (Text_in t) = Inr t \<and> toScaled (Some t) \<noteq> None"
proof -
  have "is_ok (parseFinalPaidAmount (Text_in ''120''))" by (simp add: parseFinalPaidAmount_def demo_amounts MAX_FINAL_PAID_SCALED_def)
  then obtain t where "parseFinalPaidAmount (Text_in ''120'') = Inr t" by (auto simp: is_ok_iff)
  with paid_amount_canonical[OF this] show ?thesis by auto
qed

section \<open>The versions of a month\<close>

fun saves :: "runtime \<Rightarrow> (RecordSettlementRequest \<times> int) list \<Rightarrow> settlements \<Rightarrow> settlements" where
  "saves rt [] table = table"
| "saves rt ((request, now) # rest) table = saves rt rest (fst (recordSettlement rt request now table))"

definition month_rows :: "string \<Rightarrow> settlements \<Rightarrow> SettlementRow list" where
  "month_rows month table = filter (\<lambda>r. st_billMonth r = month) table"

text \<open>Versions count up from the first and each supersedes the one before it.\<close>

fun chained :: "nat \<Rightarrow> string option \<Rightarrow> SettlementRow list \<Rightarrow> bool" where
  "chained n prev [] = True"
| "chained n prev (r # rs) = (st_versionNo r = n \<and> st_supersedes r = prev \<and> chained (Suc n) (Some (st_id r)) rs)"

lemma chained_snoc:
  "chained n prev (rs @ [r]) \<longleftrightarrow> chained n prev rs \<and> st_versionNo r = n + length rs \<and>
     st_supersedes r = (if rs = [] then prev else Some (st_id (last rs)))"
  by (induction rs arbitrary: n prev) auto

lemma foldl_newest:
  "chained (Suc (st_versionNo r)) prev rs \<Longrightarrow>
   foldl (\<lambda>a b. if st_versionNo b > st_versionNo a then b else a) r rs = last (r # rs)"
  by (induction rs arbitrary: r prev) auto

lemma current_of_last:
  assumes "chained 1 None (month_rows month table)"
  shows "current_of table month = (if month_rows month table = [] then None else Some (last (month_rows month table)))"
proof (cases "month_rows month table")
  case (Cons r rs)
  with assms foldl_newest[of r "Some (st_id r)" rs] show ?thesis by (auto simp: current_of_def month_rows_def)
qed (simp add: current_of_def month_rows_def)

lemma chained_last: "chained n prev rs \<Longrightarrow> rs \<noteq> [] \<Longrightarrow> Suc (st_versionNo (last rs)) = n + length rs"
proof (induction rs arbitrary: n prev)
  case (Cons r rs)
  then show ?case using Cons.IH[of "Suc n" "Some (st_id r)"] by (cases rs) auto
qed simp

definition settlements_ok :: "settlements \<Rightarrow> bool" where
  "settlements_ok table = (distinct (map st_id table) \<and>
     (\<forall>month. chained 1 None (month_rows month table) \<and>
        distinct (map (\<lambda>r. map fold_char (st_idempotencyKey r)) (month_rows month table))))"

lemma next_row_fields [simp]:
  "st_billMonth (next_row table q now) = vs_billMonth q" "st_id (next_row table q now) = vs_settlementId q"
  "st_idempotencyKey (next_row table q now) = vs_idempotencyKey q"
  "st_requestDigest (next_row table q now) = vs_requestDigest q"
  "st_finalPaidAmount (next_row table q now) = vs_finalPaidAmountInr q" "st_currency (next_row table q now) = vs_currency q"
  "st_recordedAt (next_row table q now) = settlementTimestampOf now"
  by (simp_all add: next_row_def Let_def)

lemma next_row_chained:
  assumes "chained 1 None (month_rows (vs_billMonth q) table)"
  shows "chained 1 None (month_rows (vs_billMonth q) table @ [next_row table q now])"
  using assms chained_last[OF assms] unfolding chained_snoc
  by (auto simp: next_row_def Let_def current_of_last[OF assms])

text \<open>A save leaves the table alone or appends the next version of its month.\<close>

lemma write_settlement_table:
  "fst (write_settlement q now table) = table \<or>
   fst (write_settlement q now table) = table @ [next_row table q now] \<and> \<not> violates_unique table (next_row table q now)"
  by (auto simp: write_settlement_def Let_def split: option.splits)

lemma month_rows_append [simp]: "month_rows m (a @ b) = month_rows m a @ month_rows m b"
  by (simp add: month_rows_def)

lemma month_rows_single [simp]: "month_rows m [r] = (if st_billMonth r = m then [r] else [])"
  by (simp add: month_rows_def)

lemma settlements_ok_insert:
  assumes ok: "settlements_ok table" and new: "\<not> violates_unique table (next_row table q now)"
  shows "settlements_ok (table @ [next_row table q now])"
proof -
  let ?r = "next_row table q now"
  have "st_id ?r \<notin> st_id ` set table"
    using new by (auto simp: violates_unique_def list_ex_iff)
  moreover have "map fold_char (st_idempotencyKey ?r) \<notin>
      (\<lambda>r. map fold_char (st_idempotencyKey r)) ` set (month_rows (vs_billMonth q) table)"
    using new by (auto simp: violates_unique_def list_ex_iff same_key_def month_rows_def)
  ultimately show ?thesis
    using ok next_row_chained[of q table now] by (auto simp: settlements_ok_def)
qed

lemma recordSettlement_table:
  "fst (recordSettlement rt request now table) =
     (case validateRecordSettlementRequest rt request of Inl e \<Rightarrow> table | Inr q \<Rightarrow> fst (write_settlement q now table))"
  by (simp add: recordSettlement_def split: sum.splits prod.splits)

lemma recordSettlement_cases:
  obtains "fst (recordSettlement rt request now table) = table"
  | q where "fst (recordSettlement rt request now table) = table @ [next_row table q now]"
      "\<not> violates_unique table (next_row table q now)"
  by (cases "validateRecordSettlementRequest rt request")
    (use write_settlement_table[of _ now table] in \<open>fastforce simp: recordSettlement_table\<close>)+

lemma settlements_ok_record: "settlements_ok table \<Longrightarrow> settlements_ok (fst (recordSettlement rt request now table))"
  by (rule recordSettlement_cases[of rt request now table]) (simp_all add: settlements_ok_insert)

lemma recordSettlement_appends: "\<exists>new. fst (recordSettlement rt request now table) = table @ new"
  by (rule recordSettlement_cases[of rt request now table]) auto

lemma saves_ok: "settlements_ok table \<Longrightarrow> settlements_ok (saves rt qs table)"
  by (induction rt qs table rule: saves.induct) (auto simp: settlements_ok_record)

lemma saves_appends: "\<exists>new. saves rt qs table = table @ new"
  by (induction rt qs table rule: saves.induct) (auto, metis append_assoc recordSettlement_appends)

lemma saves_append: "saves rt (as @ bs) table = saves rt bs (saves rt as table)"
  by (induction rt as table rule: saves.induct) auto

lemma settlements_ok_empty: "settlements_ok []"
  by (simp add: settlements_ok_def month_rows_def)

text \<open>
  C11. Whatever is saved, in whatever order, the versions of every month are 1, 2, 3 and so on, each
  superseding the one before it; the current version is the last one recorded; identifiers are unique
  in the table and keys, up to letter case, in a month; and no later save changes or removes a recorded version.
\<close>
theorem settlement_versions_linear:
  fixes rt qs more month
  defines "table \<equiv> saves rt qs []"
  shows "chained 1 None (month_rows month table) \<and>
         current_of table month = (if month_rows month table = [] then None else Some (last (month_rows month table))) \<and>
         distinct (map st_id table) \<and>
         distinct (map (\<lambda>r. map fold_char (st_idempotencyKey r)) (month_rows month table)) \<and>
         (\<exists>new. saves rt (qs @ more) [] = table @ new)"
proof -
  have ok: "settlements_ok table" unfolding table_def by (intro saves_ok settlements_ok_empty)
  then have "chained 1 None (month_rows month table)" by (simp add: settlements_ok_def)
  moreover have "\<exists>new. saves rt (qs @ more) [] = table @ new" by (simp add: saves_append table_def saves_appends)
  ultimately show ?thesis using ok current_of_last[of month table] by (simp add: settlements_ok_def)
qed

section \<open>Retries\<close>

lemma timestamp_readback:
  assumes "0 \<le> now" "now < 2780000 * 86400000"
  shows "readSettlementTimestamp (settlementTimestampOf now) = Inr (settlementTimestampOf now)"
proof (rule toISOString_shape[OF assms])
  fix y m d h mi s f
  assume iso: "toISOString now = y @ ''-'' @ m @ ''-'' @ d @ ''T'' @ h @ '':'' @ mi @ '':'' @ s @ ''.'' @ f @ ''Z''"
    and digits: "list_all all_digits [y, m, d, h, mi, s, f]" and lens: "map length [y, m, d, h, mi, s, f] = [4, 2, 2, 2, 2, 2, 3]"
  have plain: "takeWhile (\<lambda>c. c \<noteq> CHR ''Z'') (a @ b) = a @ takeWhile (\<lambda>c. c \<noteq> CHR ''Z'') b"
      "map (\<lambda>c. if c = CHR ''T'' then CHR '' '' else c) a = a" if "all_digits a" for a b
    using that by (induction a) (auto simp: is_digit_def)
  have ts: "settlementTimestampOf now = y @ ''-'' @ m @ ''-'' @ d @ '' '' @ h @ '':'' @ mi @ '':'' @ s @ ''.'' @ f @ ''000''"
    using digits by (simp add: settlementTimestampOf_def iso Let_def plain)
  have e: "length y = 4" "length m = 2" "length d = 2" "length h = 2" "length mi = 2" "length s = 2" "length f = 3"
    using lens by simp_all
  have "\<forall>c. is_digit c \<longrightarrow> \<not> is_ws c" by (simp add: digit_not_ws)
  with e digits show ?thesis unfolding ts
    by (auto simp: numeral_eq_Suc length_Suc_conv readSettlementTimestamp_def naive_datetime_def trim_def fraction_digits_def
        Let_def padEnd_def)
qed

lemma saved_row_found:
  assumes ok: "settlements_ok table" and r: "r \<in> set table" "st_billMonth r = month" "same_key (st_idempotencyKey r) k"
  shows "find (\<lambda>x. st_billMonth x = month \<and> same_key (st_idempotencyKey x) k) table = Some r"
proof -
  let ?P = "\<lambda>x. st_billMonth x = month \<and> same_key (st_idempotencyKey x) k"
  have "find ?P table \<noteq> None" using r by (auto simp: find_None_iff)
  then obtain x where x: "find ?P table = Some x" by blast
  then have "x \<in> set table" "?P x" by (auto simp: find_Some_iff)
  then have "x \<in> set (month_rows month table)" "r \<in> set (month_rows month table)"
    "map fold_char (st_idempotencyKey x) = map fold_char (st_idempotencyKey r)"
    using r by (auto simp: month_rows_def same_key_def)
  with ok have "x = r" by (auto simp: settlements_ok_def distinct_map dest: inj_onD)
  with x show ?thesis by simp
qed

lemma validated_amount:
  "validateRecordSettlementRequest rt request = Inr q \<Longrightarrow>
   readStoredDecimal (Some (vs_finalPaidAmountInr q)) field = Inr (Some (vs_finalPaidAmountInr q))"
  using paid_amount_facts by (fastforce simp: validateRecordSettlementRequest_def rbind_Inr_iff)

lemma recorded_row:
  assumes "recordSettlement rt request now table = (table', Inr result)" "rr_outcome result = Recorded"
    and "validateRecordSettlementRequest rt request = Inr q"
  shows "table' = table @ [next_row table q now]"
    and "result = \<lparr> rr_versionNo = st_versionNo (next_row table q now), rr_finalPaidAmountInr = vs_finalPaidAmountInr q,
           rr_currency = vs_currency q, rr_recordedAt = settlementTimestampOf now, rr_outcome = Recorded \<rparr>"
  using assms
  by (auto simp: recordSettlement_def write_settlement_def safe_error_def Let_def rbind_Inr_iff
      split: option.splits if_splits sum.splits)

lemma digest_determines:
  assumes "validateRecordSettlementRequest rt a = Inr p" "validateRecordSettlementRequest rt b = Inr q"
    and "vs_requestDigest p = vs_requestDigest q"
  shows "vs_finalPaidAmountInr p = vs_finalPaidAmountInr q \<and> vs_idempotencyKey p = vs_idempotencyKey q \<or>
         (\<exists>x y. collides (sha256Hex rt) x y)"
proof -
  let ?j = "\<lambda>v. digest_json (vs_billMonth v) KSERVE_SETTLEMENT_CURRENCY (vs_finalPaidAmountInr v) (vs_idempotencyKey v)"
  have "sha256Hex rt (canonical (?j p)) = sha256Hex rt (canonical (?j q))"
    using assms by (auto simp: validateRecordSettlementRequest_def rbind_Inr_iff buildSettlementRequestDigest_def)
  moreover have "finite_json (?j p)" "finite_json (?j q)" by (simp_all add: digest_json_def)
  ultimately have "normJson (?j p) = normJson (?j q) \<or> (\<exists>x y. collides (sha256Hex rt) x y)" by (metis digest_identifies)
  then show ?thesis
    using normJson_field[of _ _ "''finalPaidAmountInr''"] normJson_field[of _ _ "''idempotencyKey''"] by (fastforce simp: digest_json_def)
qed


definition demo_save :: "string \<Rightarrow> RecordSettlementRequest" where
  "demo_save amount = \<lparr> rq_month = Text_in ''2026-01'', rq_finalPaidAmountInr = Text_in amount,
     rq_idempotencyKey = Text_in ''save-0001'', rq_recordedByUserId = Missing, rq_correlationId = Missing \<rparr>"

definition demo_validated :: "string \<Rightarrow> ValidatedSettlementRequest" where
  "demo_validated amount = \<lparr> vs_billMonth = ''2026-01'', vs_periodStart = ''2026-01-01'', vs_periodEnd = ''2026-01-31'',
     vs_currency = ''INR'', vs_finalPaidAmountInr = amount, vs_idempotencyKey = ''save-0001'', vs_recordedByUserId = None,
     vs_correlationId = None, vs_settlementId = buildSettlementId plain_runtime ''2026-01'' ''save-0001'',
     vs_requestDigest = buildSettlementRequestDigest plain_runtime ''2026-01'' ''INR'' amount ''save-0001'' \<rparr>"

lemma demo_paid:
  "parseFinalPaidAmount (Text_in ''120'') = Inr ''120.00000000''" "parseFinalPaidAmount (Text_in ''121'') = Inr ''121.00000000''"
proof -
  have "parseExactDecimal (Text_in ''120'') f = Inr 12000000000" "parseExactDecimal (Text_in ''121'') f = Inr 12100000000" for f
    by (simp_all add: parseExactDecimal_def parse_amount_text_def trim_def is_ws_def MAX_AMOUNT_TEXT_LENGTH_def
      decimal_shape_def is_digit_def whole_part_def fraction_part_def digit_val_def padEnd_def Let_def)
  moreover have "formatScaledMoney 12000000000 = ''120.00000000''" "formatScaledMoney 12100000000 = ''121.00000000''"
    by (simp_all add: formatScaledMoney_fixed fixed_places_def string_of_nat.simps digit_char_def padStart_def, code_simp+)
  ultimately show "parseFinalPaidAmount (Text_in ''120'') = Inr ''120.00000000''" "parseFinalPaidAmount (Text_in ''121'') = Inr ''121.00000000''"
    by (simp_all add: parseFinalPaidAmount_def MAX_FINAL_PAID_SCALED_def)
qed

lemma demo_month:
  "parseSettlementMonth (Text_in ''2026-01'') = Inr ''2026-01''" "settlementMonthBounds ''2026-01'' = (''2026-01-01'', ''2026-01-31'')"
  "parseIdempotencyKey (Text_in ''save-0001'') = Inr ''save-0001''"
  by code_simp+

lemma demo_save_valid:
  "validateRecordSettlementRequest plain_runtime (demo_save ''120'') = Inr (demo_validated ''120.00000000'')"
  "validateRecordSettlementRequest plain_runtime (demo_save ''121'') = Inr (demo_validated ''121.00000000'')"
  by (simp_all add: validateRecordSettlementRequest_def demo_save_def demo_validated_def demo_paid demo_month optionalToken_def
      KSERVE_SETTLEMENT_CURRENCY_def)


end
