(* ===== verification/ReauditCall.thy ===== *)
theory ReauditCall
  imports AuditedProjection ValidationRun
begin

text \<open>
  The independent audit of one call (\<open>src/src/reaudit/core.ts\<close>, from \<open>speechByRole\<close> on, with the guard on
  vendor addresses of \<open>src/src/security/urlSafety.ts\<close>): fetch the recording, compare its hash with the
  baseline, transcribe or reuse a transcript, classify, and project the charge. URL parsing, the
  fetcher, the two models and the transcript cache are one record of functions; each use of them is an
  event of a log, so that what was fetched and paid for is part of the result.
\<close>

section \<open>Vendor addresses\<close>

text \<open>\<open>new URL(text)\<close> as the protocol and the host name, or \<open>None\<close> where it throws.\<close>

type_synonym url_parser = "string \<Rightarrow> (string \<times> string) option"

definition unbracket :: "string \<Rightarrow> string" where
  "unbracket s =
     (let t = (if s \<noteq> [] \<and> hd s = CHR ''['' then tl s else s)
      in if t \<noteq> [] \<and> last t = CHR '']'' then butlast t else t)"

text \<open>The second octet of \<open>/^172\.(1[6-9]|2\d|3[0-1])\./\<close>.\<close>

definition private_172 :: "string \<Rightarrow> bool" where
  "private_172 host =
     (startsWith host ''172.'' \<and> length host \<ge> 7 \<and> host ! 6 = CHR ''.'' \<and>
      ((host ! 4 = CHR ''1'' \<and> host ! 5 \<in> {CHR ''6'', CHR ''7'', CHR ''8'', CHR ''9''}) \<or>
       (host ! 4 = CHR ''2'' \<and> is_digit (host ! 5)) \<or>
       (host ! 4 = CHR ''3'' \<and> host ! 5 \<in> {CHR ''0'', CHR ''1''})))"

definition private_ipv4 :: "string \<Rightarrow> bool" where
  "private_ipv4 host =
     (startsWith host ''127.'' \<or> startsWith host ''10.'' \<or> startsWith host ''192.168.'' \<or>
      startsWith host ''169.254.'' \<or> private_172 host \<or> startsWith host ''0.'')"

definition private_ipv6 :: "string \<Rightarrow> bool" where
  "private_ipv6 host =
     (host = ''::1'' \<or> startsWith host ''fe80:'' \<or> startsWith host ''fc'' \<or> startsWith host ''fd'')"

definition host_allowed :: "string \<Rightarrow> string list \<Rightarrow> bool" where
  "host_allowed host allowedHosts =
     list_ex (\<lambda>h. host = toLowerCase h \<or> endsWith host (CHR ''.'' # toLowerCase h)) allowedHosts"

text \<open>\<open>None\<close> is safe, otherwise the reason it is not.\<close>

definition isSafeVendorUrl :: "url_parser \<Rightarrow> string \<Rightarrow> string list \<Rightarrow> string option" where
  "isSafeVendorUrl parse rawUrl allowedHosts =
     (case parse rawUrl of
        None \<Rightarrow> Some ''unparseable_url''
      | Some (protocol, hostname) \<Rightarrow>
          let host = unbracket (toLowerCase hostname) in
          if protocol \<noteq> ''https:'' then Some ''not_https''
          else if host = ''localhost'' \<or> endsWith host ''.localhost'' then Some ''loopback''
          else if private_ipv4 host then Some ''private_ip''
          else if private_ipv6 host then Some ''private_ipv6''
          else if \<not> host_allowed host allowedHosts then Some ''host_not_allowlisted''
          else None)"

section \<open>Data\<close>

record manual_request =
  mr_requestId :: string
  mr_itemId :: string
  mr_baselineAuditRunId :: string

record ReauditCandidate =
  ra_callId :: string
  ra_artifactId :: string
  ra_sourceUrl :: string
  ra_baselineSha256 :: "string option"
  ra_claimedDurationMs :: "int option"
  ra_connectedDurationMs :: "int option"
  ra_vendorBilledMinutes :: "string option"
  ra_manualRequest :: "manual_request option"

record AiUsage =
  us_inputTokens :: "int option"
  us_outputTokens :: "int option"
  us_totalTokens :: "int option"
  us_audioSeconds :: "int option"
  us_requestId :: "string option"

record TranscriptionResult =
  ts_model :: ModelIdentity
  ts_language :: string
  ts_durationMs :: int
  ts_speechMs :: int
  ts_text :: string
  ts_segments :: "TranscriptSegment list"
  ts_usage :: "AiUsage option"

record TranscriptCacheKey =
  ck_artifactId :: string
  ck_evidenceSha256 :: string
  ck_provider :: string
  ck_modelName :: string
  ck_modelVersion :: string

record ReauditAnalysis =
  an_category :: ReauditCategory
  an_confidence :: string
  an_language :: string
  an_recordedDurationMs :: int
  an_speechDurationMs :: int
  an_conversationAssessment :: ConversationAssessment
  an_lastMeaningfulCustomerExchangeMs :: "int option"
  an_customerSpeechMs :: int
  an_agentSpeechMs :: int
  an_chargeableServiceEndMs :: int
  an_appliedBillingGraceMs :: int
  an_categoryChargePolicyCode :: CategoryChargePolicyCode
  an_durationMismatch :: bool
  an_evidenceSha256 :: string
  an_remarks :: string
  an_disputeRecommended :: bool

record ReauditProjection =
  vp_amount :: string
  vp_amountPaise :: int
  vp_billableMinutes :: string
  vp_billableDurationMs :: int
  vp_adjustedChargeableDurationMs :: int
  vp_oneWayTailMs :: int
  vp_oneWayTailAlert :: bool
  vp_categoryChargePolicyCode :: CategoryChargePolicyCode
  vp_ruleCode :: ChargeRule

datatype reaudit_outcome =
    Projected | Source_missing | Evidence_altered | Unsafe_url
  | Transcription_failed | Classification_failed | Spend_state_unknown

record ReauditItemResult =
  ir_callId :: string
  ir_artifactId :: string
  ir_outcome :: reaudit_outcome
  ir_analysis :: "ReauditAnalysis option"
  ir_transcription :: "TranscriptionResult option"
  ir_classification :: "ModelClassification option"
  ir_projection :: "ReauditProjection option"
  ir_reusedTranscriptId :: "string option"
  ir_errorCode :: "string option"

definition item_result :: "ReauditCandidate \<Rightarrow> reaudit_outcome \<Rightarrow> string \<Rightarrow> ReauditItemResult" where
  "item_result candidate outcome errorCode =
     \<lparr> ir_callId = ra_callId candidate, ir_artifactId = ra_artifactId candidate, ir_outcome = outcome,
       ir_analysis = None, ir_transcription = None, ir_classification = None, ir_projection = None,
       ir_reusedTranscriptId = None, ir_errorCode = Some errorCode \<rparr>"

section \<open>Provider failures\<close>

text \<open>
  What a thrown value shows of itself: \<open>Number(status)\<close>, where \<open>None\<close> is \<open>NaN\<close>, and the \<open>code\<close> and
  \<open>name\<close> texts, empty when absent.
\<close>

record provider_error =
  pe_status :: "int option"
  pe_code :: string
  pe_name :: string

datatype provider_phase = TRANSCRIPTION | CLASSIFICATION

fun phase_text :: "provider_phase \<Rightarrow> string" where
  "phase_text TRANSCRIPTION = ''TRANSCRIPTION''"
| "phase_text CLASSIFICATION = ''CLASSIFICATION''"

definition connection_codes :: "string list" where
  "connection_codes =
     [''ETIMEDOUT'', ''ECONNRESET'', ''ECONNREFUSED'', ''EAI_AGAIN'', ''ENETUNREACH'',
      ''APIConnectionError'', ''APIConnectionTimeoutError'']"

definition status_in :: "provider_error \<Rightarrow> (int \<Rightarrow> bool) \<Rightarrow> bool" where
  "status_in e P = (case pe_status e of None \<Rightarrow> False | Some s \<Rightarrow> P s)"

text \<open>\<open>None\<close> is a thrown value that is not an object.\<close>

definition providerFailureCode :: "provider_phase \<Rightarrow> provider_error option \<Rightarrow> string option" where
  "providerFailureCode phase err =
     (case err of None \<Rightarrow> None
      | Some e \<Rightarrow>
        let p = phase_text phase; code = pe_code e in
        if status_in e (\<lambda>s. s = 429)
        then Some (p @ (if code = ''insufficient_quota'' then ''_PROVIDER_QUOTA_EXHAUSTED''
                        else if code = ''rate_limit_exceeded'' then ''_PROVIDER_RATE_LIMITED''
                        else ''_PROVIDER_HTTP_429''))
        else if status_in e (\<lambda>s. s = 408) then Some (p @ ''_PROVIDER_TIMEOUT'')
        else if status_in e (\<lambda>s. s = 409) then Some (p @ ''_PROVIDER_CONFLICT'')
        else if status_in e (\<lambda>s. s \<ge> 500) then Some (p @ ''_PROVIDER_SERVER_ERROR'')
        else if code \<in> set connection_codes then Some (p @ ''_PROVIDER_CONNECTION_ERROR'')
        else if pe_name e = ''TimeoutError'' \<or> pe_name e = ''AbortError'' then Some (p @ ''_PROVIDER_TIMEOUT'')
        else if status_in e (\<lambda>s. s = 401 \<or> s = 403) then Some (p @ ''_PROVIDER_ACCESS_DENIED'')
        else if status_in e (\<lambda>s. s \<ge> 400 \<and> s < 500) then Some (p @ ''_HTTP_'' @ string_of_int (coalesce (pe_status e) 0))
        else if code = ''AUDIO_UNDECODABLE'' then Some (p @ ''_AUDIO_UNDECODABLE'')
        else None)"

section \<open>The audit of one call\<close>

datatype fetch_result = Fetch_ok string "string option" | Fetch_failed string

datatype audit_event =
    Fetched string
  | Cache_read TranscriptCacheKey
  | Transcribed string string
  | Cache_write TranscriptCacheKey TranscriptionResult
  | Classified classify_request

text \<open>
  The ports. A transcription or classification that throws is \<open>Inl\<close> of what was thrown; a cache that
  throws on reading is a miss, exactly as the code treats it.
\<close>

record audit_ports =
  po_url :: url_parser
  po_fetch :: "string \<Rightarrow> fetch_result res"
  po_model :: ModelIdentity
  po_cached :: "TranscriptCacheKey \<Rightarrow> TranscriptionResult option"
  po_transcribe :: "string \<Rightarrow> string \<Rightarrow> provider_error option + TranscriptionResult"
  po_classify :: "classify_request \<Rightarrow> provider_error option + RawClassification"

definition REAUDIT_ENGINE_VERSION :: string where
  "REAUDIT_ENGINE_VERSION = ''kairali-independent-reaudit/2.9.0''"

definition block_ms :: "NaturalSpeechBlock \<Rightarrow> int" where
  "block_ms b = max 0 (bl_endMs b - bl_startMs b)"

definition speechByRole :: "NaturalSpeechBlock list \<Rightarrow> ModelClassification \<Rightarrow> int \<times> int" where
  "speechByRole blocks c =
     foldl (\<lambda>(customerMs, agentMs) b.
       if bl_number b \<in> set (mc_customerBlockNumbers c) then (customerMs + block_ms b, agentMs)
       else if bl_number b \<in> set (coalesce (mc_agentBlockNumbers c) []) then (customerMs, agentMs + block_ms b)
       else (customerMs, agentMs)) (0, 0) blocks"

definition projectVerifiedCharge :: "ReauditAnalysis \<Rightarrow> ReauditProjection res" where
  "projectVerifiedCharge a =
     (let adjusted = an_chargeableServiceEndMs a + an_appliedBillingGraceMs a;
          boundedAdjusted = min (an_recordedDurationMs a) adjusted
      in rbind (roundKServeChargeableDuration boundedAdjusted) (\<lambda>rounded.
         let oneWayTailMs = max 0 (an_recordedDurationMs a - boundedAdjusted)
         in Inr \<lparr> vp_amount = rc_amount rounded, vp_amountPaise = rc_amountPaise rounded,
                  vp_billableMinutes = rc_billableMinutes rounded, vp_billableDurationMs = rc_billableDurationMs rounded,
                  vp_adjustedChargeableDurationMs = boundedAdjusted, vp_oneWayTailMs = oneWayTailMs,
                  vp_oneWayTailAlert = (oneWayTailMs > KSERVE_ONE_WAY_TAIL_ALERT_MS),
                  vp_categoryChargePolicyCode = an_categoryChargePolicyCode a, vp_ruleCode = rc_ruleCode rounded \<rparr>))"

definition no_speech :: "TranscriptionResult \<Rightarrow> bool" where
  "no_speech t = (ts_segments t = [] \<or> trim (ts_text t) = [])"

definition language_of :: "TranscriptionResult \<Rightarrow> string" where
  "language_of t = (if ts_language t = [] then ''unknown'' else ts_language t)"

definition silent_evidence :: "TranscriptionResult \<Rightarrow> CategoryChargeEvidence" where
  "silent_evidence t =
     \<lparr> ce_category = INACTIVE_CALL, ce_recordedDurationMs = ts_durationMs t, ce_lastCustomerExchangeMs = None,
       ce_lastAgentExchangeMs = None, ce_firstAgentTurnEndMs = None, ce_lastVoicemailExchangeMs = None,
       ce_lastBusinessRelevantCustomerExchangeMs = None, ce_lastVerifiedInteractionMs = None,
       ce_agentFailureMode = None, ce_meaningfulServiceBeforeFailure = False, ce_failureStartMs = None \<rparr>"

definition classified_evidence :: "TranscriptionResult \<Rightarrow> ModelClassification \<Rightarrow> CategoryChargeEvidence" where
  "classified_evidence t c =
     \<lparr> ce_category = mc_category c, ce_recordedDurationMs = ts_durationMs t,
       ce_lastCustomerExchangeMs = mc_lastMeaningfulCustomerExchangeMs c,
       ce_lastAgentExchangeMs = mc_lastMeaningfulAgentExchangeMs c,
       ce_firstAgentTurnEndMs = mc_firstAgentTurnEndMs c,
       ce_lastVoicemailExchangeMs = mc_lastVoicemailExchangeMs c,
       ce_lastBusinessRelevantCustomerExchangeMs = mc_lastBusinessRelevantCustomerExchangeMs c,
       ce_lastVerifiedInteractionMs = mc_lastVerifiedInteractionMs c,
       ce_agentFailureMode = mc_agentFailureMode c,
       ce_meaningfulServiceBeforeFailure = (mc_meaningfulServiceBeforeFailure c = Some True),
       ce_failureStartMs = mc_failureStartMs c \<rparr>"

text \<open>The fields of an analysis that the charge decision fixes.\<close>

definition charged_analysis ::
  "TranscriptionResult \<Rightarrow> bool \<Rightarrow> string \<Rightarrow> CategoryChargeDecision \<Rightarrow> ReauditCategory \<Rightarrow> ReauditAnalysis" where
  "charged_analysis t durationMismatch evidenceSha256 d category =
     \<lparr> an_category = category, an_confidence = ''1.00000000'', an_language = language_of t,
       an_recordedDurationMs = ts_durationMs t, an_speechDurationMs = ts_speechMs t,
       an_conversationAssessment = No_meaningful_exchange, an_lastMeaningfulCustomerExchangeMs = None,
       an_customerSpeechMs = 0, an_agentSpeechMs = 0,
       an_chargeableServiceEndMs = cd_serviceEndMs d, an_appliedBillingGraceMs = cd_graceMs d,
       an_categoryChargePolicyCode = cd_policyCode d, an_durationMismatch = durationMismatch,
       an_evidenceSha256 = evidenceSha256,
       an_remarks = ''No detectable speech; no independently verified conversation.'',
       an_disputeRecommended = False \<rparr>"

definition silent_analysis :: "ReauditCandidate \<Rightarrow> TranscriptionResult \<Rightarrow> bool \<Rightarrow> string \<Rightarrow> ReauditAnalysis" where
  "silent_analysis candidate t durationMismatch evidenceSha256 =
     (charged_analysis t durationMismatch evidenceSha256 (resolveCategoryCharge (silent_evidence t)) INACTIVE_CALL)
     \<lparr> an_disputeRecommended :=
         coalesce (ra_connectedDurationMs candidate) (coalesce (ra_claimedDurationMs candidate) 0) > 0 \<rparr>"

definition classified_analysis ::
  "TranscriptionResult \<Rightarrow> NaturalSpeechBlock list \<Rightarrow> ModelClassification \<Rightarrow> bool \<Rightarrow> string \<Rightarrow> ReauditAnalysis" where
  "classified_analysis t blocks c durationMismatch evidenceSha256 =
     (charged_analysis t durationMismatch evidenceSha256 (resolveCategoryCharge (classified_evidence t c)) (mc_category c))
     \<lparr> an_confidence := mc_confidence c,
       an_conversationAssessment := (if mc_customerSpoke c then Established else No_meaningful_exchange),
       an_lastMeaningfulCustomerExchangeMs := mc_lastMeaningfulCustomerExchangeMs c,
       an_customerSpeechMs := fst (speechByRole blocks c), an_agentSpeechMs := snd (speechByRole blocks c),
       an_remarks := mc_remarks c, an_disputeRecommended := mc_disputeRecommended c \<rparr>"

definition silent_classification :: "ReauditAnalysis \<Rightarrow> ModelClassification" where
  "silent_classification a =
     \<lparr> mc_model = \<lparr> model_provider = ''openai'', model_name = ''deterministic-no-speech'',
                     model_version = REAUDIT_ENGINE_VERSION \<rparr>,
       mc_category = INACTIVE_CALL, mc_confidence = ''1.00000000'',
       mc_customerBlockNumbers = [], mc_unclearBlockNumbers = [], mc_voicemailEvidenceBlockNumbers = None,
       mc_automationEvidenceBlockNumbers = None, mc_junkEvidenceBlockNumbers = None,
       mc_businessRelevantCustomerBlockNumbers = None, mc_customerSpoke = False,
       mc_lastMeaningfulCustomerExchangeMs = None, mc_lastMeaningfulAgentExchangeMs = None,
       mc_firstAgentTurnEndMs = None, mc_lastVoicemailExchangeMs = None,
       mc_lastBusinessRelevantCustomerExchangeMs = None, mc_lastVerifiedInteractionMs = None,
       mc_agentBlockNumbers = Some [], mc_agentFailureStartBlockNumber = None, mc_agentFailureMode = None,
       mc_meaningfulServiceBeforeFailure = None, mc_failureStartMs = None, mc_remarks = an_remarks a,
       mc_disputeRecommended = an_disputeRecommended a, mc_decisionSignals = None \<rparr>"

definition projected_result ::
  "ReauditCandidate \<Rightarrow> TranscriptionResult \<Rightarrow> string option \<Rightarrow> ReauditAnalysis \<Rightarrow> ModelClassification \<Rightarrow> ReauditItemResult res" where
  "projected_result candidate t reusedTranscriptId a c =
     rbind (projectVerifiedCharge a) (\<lambda>projection.
     Inr \<lparr> ir_callId = ra_callId candidate, ir_artifactId = ra_artifactId candidate, ir_outcome = Projected,
           ir_analysis = Some a, ir_transcription = Some t, ir_classification = Some c,
           ir_projection = Some projection,
           ir_reusedTranscriptId = (if reusedTranscriptId = Some [] then None else reusedTranscriptId),
           ir_errorCode = None \<rparr>)"

definition classify_transcript ::
  "ReauditCandidate \<Rightarrow> TranscriptionResult \<Rightarrow> NaturalSpeechBlock list \<Rightarrow> bool \<Rightarrow> classify_request" where
  "classify_transcript candidate t blocks durationMismatch =
     \<lparr> cq_blocks = blocks, cq_language = language_of t, cq_recordedDurationMs = ts_durationMs t,
       cq_speechDurationMs = ts_speechMs t, cq_connectedDurationMs = ra_connectedDurationMs candidate,
       cq_durationMismatch = durationMismatch \<rparr>"

definition auditTranscriptEvidence ::
  "cue_tests \<Rightarrow> audit_ports \<Rightarrow> ReauditCandidate \<Rightarrow> TranscriptionResult \<Rightarrow> string \<Rightarrow> string option \<Rightarrow>
   audit_event list \<times> ReauditItemResult res" where
  "auditTranscriptEvidence cues ports candidate t evidenceSha256 reusedTranscriptId =
     (let durationMismatch = duration_mismatch (ra_connectedDurationMs candidate) (ts_durationMs t) in
      if no_speech t
      then (let a = silent_analysis candidate t durationMismatch evidenceSha256
            in ([], projected_result candidate t reusedTranscriptId a (silent_classification a)))
      else
        (case mergeTranscriptSegments (ts_segments t) of
           Inl e \<Rightarrow> ([], Inl e)
         | Inr blocks \<Rightarrow>
             let request = classify_transcript candidate t blocks durationMismatch in
             ([Classified request],
              case po_classify ports request of
                Inl err \<Rightarrow> Inr (item_result candidate Classification_failed
                              (coalesce (providerFailureCode CLASSIFICATION err) ''CLASSIFICATION_MODEL_FAILED''))
              | Inr raw \<Rightarrow>
                  (case validate_or_repair cues raw blocks (ts_durationMs t) durationMismatch (PlainError []) of
                     Inl _ \<Rightarrow> Inr (item_result candidate Classification_failed ''CLASSIFICATION_OUTPUT_UNRECOVERABLE'')
                   | Inr c \<Rightarrow> projected_result candidate t reusedTranscriptId
                       (classified_analysis t blocks c durationMismatch evidenceSha256) c))))"

definition cache_key :: "audit_ports \<Rightarrow> ReauditCandidate \<Rightarrow> string \<Rightarrow> TranscriptCacheKey" where
  "cache_key ports candidate evidenceSha256 =
     \<lparr> ck_artifactId = ra_artifactId candidate, ck_evidenceSha256 = evidenceSha256,
       ck_provider = model_provider (po_model ports), ck_modelName = model_name (po_model ports),
       ck_modelVersion = model_version (po_model ports) \<rparr>"

definition altered :: "ReauditCandidate \<Rightarrow> string \<Rightarrow> bool" where
  "altered candidate evidenceSha256 =
     (case ra_baselineSha256 candidate of None \<Rightarrow> False | Some b \<Rightarrow> b \<noteq> [] \<and> b \<noteq> evidenceSha256)"

text \<open>The transcript of the bytes: from the cache, or transcribed and written to it.\<close>

definition obtain_transcript ::
  "audit_ports \<Rightarrow> TranscriptCacheKey \<Rightarrow> string \<Rightarrow> string \<Rightarrow> audit_event list \<times> (provider_error option + TranscriptionResult)" where
  "obtain_transcript ports ck bytes contentType =
     (case po_cached ports ck of
        Some t \<Rightarrow> ([Cache_read ck], Inr t)
      | None \<Rightarrow>
          (case po_transcribe ports bytes contentType of
             Inl err \<Rightarrow> ([Cache_read ck, Transcribed bytes contentType], Inl err)
           | Inr t \<Rightarrow> ([Cache_read ck, Transcribed bytes contentType, Cache_write ck t], Inr t)))"

definition content_type :: "string option \<Rightarrow> string" where
  "content_type c = (case c of None \<Rightarrow> ''audio/ogg'' | Some t \<Rightarrow> if t = [] then ''audio/ogg'' else t)"

definition audit_bytes ::
  "runtime \<Rightarrow> cue_tests \<Rightarrow> audit_ports \<Rightarrow> ReauditCandidate \<Rightarrow> string \<Rightarrow> string option \<Rightarrow>
   audit_event list \<times> ReauditItemResult res" where
  "audit_bytes rt cues ports candidate bytes contentType =
     (let evidenceSha256 = sha256Hex rt bytes in
      if altered candidate evidenceSha256
      then ([], Inr (item_result candidate Evidence_altered ''sha256_mismatch''))
      else
        (case obtain_transcript ports (cache_key ports candidate evidenceSha256) bytes (content_type contentType) of
           (evs, Inl err) \<Rightarrow>
             (evs, Inr (item_result candidate Transcription_failed
                     (coalesce (providerFailureCode TRANSCRIPTION err) ''TRANSCRIPTION_FAILED'')))
         | (evs, Inr t) \<Rightarrow>
             let (evs', r) = auditTranscriptEvidence cues ports candidate t evidenceSha256 None in (evs @ evs', r)))"

definition auditOneCall ::
  "runtime \<Rightarrow> cue_tests \<Rightarrow> audit_ports \<Rightarrow> string list \<Rightarrow> ReauditCandidate \<Rightarrow> audit_event list \<times> ReauditItemResult res" where
  "auditOneCall rt cues ports allowedHosts candidate =
     (case isSafeVendorUrl (po_url ports) (ra_sourceUrl candidate) allowedHosts of
        Some reason \<Rightarrow> ([], Inr (item_result candidate Unsafe_url reason))
      | None \<Rightarrow>
          (case po_fetch ports (ra_sourceUrl candidate) of
             Inl e \<Rightarrow> ([Fetched (ra_sourceUrl candidate)], Inl e)
           | Inr (Fetch_failed err) \<Rightarrow>
               ([Fetched (ra_sourceUrl candidate)], Inr (item_result candidate Source_missing err))
           | Inr (Fetch_ok bytes contentType) \<Rightarrow>
               let (evs, r) = audit_bytes rt cues ports candidate bytes contentType
               in (Fetched (ra_sourceUrl candidate) # evs, r)))"

section \<open>What is audited is what was fetched\<close>

definition is_transcription :: "audit_event \<Rightarrow> bool" where
  "is_transcription e = (case e of Transcribed _ _ \<Rightarrow> True | _ \<Rightarrow> False)"

definition is_model_call :: "audit_event \<Rightarrow> bool" where
  "is_model_call e = (case e of Transcribed _ _ \<Rightarrow> True | Classified _ \<Rightarrow> True | _ \<Rightarrow> False)"

lemma obtain_transcript_facts:
  assumes "obtain_transcript ports ck bytes ct = (evs, r)"
  shows "length (filter is_transcription evs) \<le> 1"
    and "Transcribed b c \<in> set evs \<Longrightarrow> b = bytes \<and> c = ct \<and> po_cached ports ck = None"
    and "r = Inr t \<Longrightarrow> po_cached ports ck = Some t \<or> po_cached ports ck = None \<and> po_transcribe ports bytes ct = Inr t"
    and "Classified q \<notin> set evs"
  using assms by (auto simp: obtain_transcript_def is_transcription_def split: option.splits sum.splits)

lemma projected_result_facts:
  assumes "projected_result candidate t reused a c = Inr res"
  shows "ir_outcome res = Projected" "ir_analysis res = Some a" "ir_transcription res = Some t" "ir_classification res = Some c"
    and "projectVerifiedCharge a = Inr p \<Longrightarrow> ir_projection res = Some p"
    and "\<exists>p. projectVerifiedCharge a = Inr p"
  using assms by (auto simp: projected_result_def rbind_Inr_iff)

lemma item_result_not_projected [simp]: "ir_outcome (item_result candidate oc code) = oc"
  by (simp add: item_result_def)

definition evidence_of :: "TranscriptionResult \<Rightarrow> ModelClassification \<Rightarrow> CategoryChargeEvidence" where
  "evidence_of t c = (if no_speech t then silent_evidence t else classified_evidence t c)"

lemma charged_fields [simp]:
  "an_recordedDurationMs (charged_analysis t m s d cat) = ts_durationMs t"
  "an_chargeableServiceEndMs (charged_analysis t m s d cat) = cd_serviceEndMs d"
  "an_appliedBillingGraceMs (charged_analysis t m s d cat) = cd_graceMs d"
  "an_evidenceSha256 (charged_analysis t m s d cat) = s"
  "an_customerSpeechMs (charged_analysis t m s d cat) = 0" "an_agentSpeechMs (charged_analysis t m s d cat) = 0"
  "an_category (charged_analysis t m s d cat) = cat"
  by (simp_all add: charged_analysis_def)

lemma evidence_category: "ce_category (evidence_of t c) = (if no_speech t then INACTIVE_CALL else mc_category c)"
  "ce_recordedDurationMs (evidence_of t c) = ts_durationMs t"
  by (simp_all add: evidence_of_def silent_evidence_def classified_evidence_def)

text \<open>A projected result charges the decision of the category policy on its own evidence.\<close>

lemma auditTranscriptEvidence_projected:
  assumes "auditTranscriptEvidence cues ports candidate t sha reused = (evs, Inr res)" and "ir_outcome res = Projected"
  obtains a c p where "ir_analysis res = Some a" "ir_transcription res = Some t" "ir_classification res = Some c"
    "ir_projection res = Some p" "projectVerifiedCharge a = Inr p"
    "an_recordedDurationMs a = ts_durationMs t" "an_evidenceSha256 a = sha" "an_category a = mc_category c"
    "an_chargeableServiceEndMs a = cd_serviceEndMs (resolveCategoryCharge (evidence_of t c))"
    "an_appliedBillingGraceMs a = cd_graceMs (resolveCategoryCharge (evidence_of t c))"
proof (cases "no_speech t")
  case True
  then have "projected_result candidate t reused (silent_analysis candidate t (duration_mismatch (ra_connectedDurationMs candidate) (ts_durationMs t)) sha)
      (silent_classification (silent_analysis candidate t (duration_mismatch (ra_connectedDurationMs candidate) (ts_durationMs t)) sha)) = Inr res"
    using assms(1) by (simp add: auditTranscriptEvidence_def Let_def)
  note f = projected_result_facts[OF this]
  from f(6) obtain p where "projectVerifiedCharge (silent_analysis candidate t (duration_mismatch (ra_connectedDurationMs candidate) (ts_durationMs t)) sha) = Inr p" by blast
  with f that True show ?thesis by (simp add: silent_analysis_def silent_classification_def evidence_of_def)
next
  case False
  with assms obtain blocks c where
    "projected_result candidate t reused (classified_analysis t blocks c (duration_mismatch (ra_connectedDurationMs candidate) (ts_durationMs t)) sha) c = Inr res"
    by (auto simp: auditTranscriptEvidence_def Let_def split: sum.splits)
  note f = projected_result_facts[OF this]
  from f(6) obtain p where "projectVerifiedCharge (classified_analysis t blocks c (duration_mismatch (ra_connectedDurationMs candidate) (ts_durationMs t)) sha) = Inr p" by blast
  with f that False show ?thesis by (simp add: classified_analysis_def evidence_of_def)
qed

lemma auditTranscriptEvidence_events:
  assumes "auditTranscriptEvidence cues ports candidate t sha reused = (evs, r)"
  shows "filter is_transcription evs = []" "Transcribed b ct \<notin> set evs"
  using assms by (auto simp: auditTranscriptEvidence_def is_transcription_def Let_def split: sum.splits if_splits)

lemma audit_bytes_facts:
  assumes "audit_bytes rt cues ports candidate bytes ct = (evs, r)"
  shows "altered candidate (sha256Hex rt bytes) \<Longrightarrow> evs = [] \<and> r = Inr (item_result candidate Evidence_altered ''sha256_mismatch'')"
    and "length (filter is_transcription evs) \<le> 1"
    and "Transcribed b c \<in> set evs \<Longrightarrow> b = bytes \<and> po_cached ports (cache_key ports candidate (sha256Hex rt bytes)) = None"
    and "r = Inr res \<Longrightarrow> ir_outcome res = Projected \<Longrightarrow> \<exists>a t. ir_analysis res = Some a \<and> ir_transcription res = Some t \<and>
          an_evidenceSha256 a = sha256Hex rt bytes \<and>
          (po_cached ports (cache_key ports candidate (sha256Hex rt bytes)) = Some t \<or>
           po_transcribe ports bytes (content_type ct) = Inr t)"
proof -
  let ?sha = "sha256Hex rt bytes"
  show "altered candidate ?sha \<Longrightarrow> evs = [] \<and> r = Inr (item_result candidate Evidence_altered ''sha256_mismatch'')"
    using assms by (simp add: audit_bytes_def Let_def)
  obtain evs1 o1 where o: "obtain_transcript ports (cache_key ports candidate ?sha) bytes (content_type ct) = (evs1, o1)" by fastforce
  note of = obtain_transcript_facts[OF o]
  show "length (filter is_transcription evs) \<le> 1"
    using assms o of(1) auditTranscriptEvidence_events(1)
    by (auto simp: audit_bytes_def Let_def split: if_splits sum.splits prod.splits)
  show "Transcribed b c \<in> set evs \<Longrightarrow> b = bytes \<and> po_cached ports (cache_key ports candidate ?sha) = None"
    using assms o of(2) auditTranscriptEvidence_events(2)
    by (fastforce simp: audit_bytes_def Let_def split: if_splits sum.splits prod.splits)
  show "\<exists>a t. ir_analysis res = Some a \<and> ir_transcription res = Some t \<and> an_evidenceSha256 a = ?sha \<and>
          (po_cached ports (cache_key ports candidate ?sha) = Some t \<or> po_transcribe ports bytes (content_type ct) = Inr t)"
    if "r = Inr res" "ir_outcome res = Projected"
  proof -
    from assms that o obtain t evs2 where t: "o1 = Inr t" "auditTranscriptEvidence cues ports candidate t ?sha None = (evs2, Inr res)"
      by (auto simp: audit_bytes_def Let_def split: if_splits sum.splits prod.splits)
    from auditTranscriptEvidence_projected[OF t(2) that(2)] of(3)[OF t(1)] show ?thesis by metis
  qed
qed

text \<open>
  C10. A model is called, or a charge projected, only for a recording that was fetched from a safe address
  and whose hash matches the baseline; the recording is transcribed at most once, only when no transcript
  of these exact bytes is cached, and the projected analysis carries the hash of the fetched bytes. An
  unsafe address is never fetched.
\<close>
theorem audited_evidence_is_fetched:
  assumes "auditOneCall rt cues ports allowedHosts candidate = (evs, r)"
  shows "(if isSafeVendorUrl (po_url ports) (ra_sourceUrl candidate) allowedHosts \<noteq> None then evs = []
          else length (filter is_transcription evs) \<le> 1 \<and>
            (list_ex is_model_call evs \<or> (\<exists>res. r = Inr res \<and> ir_outcome res = Projected) \<longrightarrow>
              (\<exists>bytes ct. po_fetch ports (ra_sourceUrl candidate) = Inr (Fetch_ok bytes ct) \<and>
                \<not> altered candidate (sha256Hex rt bytes) \<and>
                (\<forall>b c. Transcribed b c \<in> set evs \<longrightarrow> b = bytes \<and>
                   po_cached ports (cache_key ports candidate (sha256Hex rt bytes)) = None) \<and>
                (\<forall>res. r = Inr res \<and> ir_outcome res = Projected \<longrightarrow>
                  (\<exists>a t. ir_analysis res = Some a \<and> ir_transcription res = Some t \<and>
                     an_evidenceSha256 a = sha256Hex rt bytes \<and>
                     (po_cached ports (cache_key ports candidate (sha256Hex rt bytes)) = Some t \<or>
                      po_transcribe ports bytes (content_type ct) = Inr t))))))"
proof (cases "isSafeVendorUrl (po_url ports) (ra_sourceUrl candidate) allowedHosts")
  case (Some reason)
  with assms show ?thesis by (simp add: auditOneCall_def)
next
  case None
  show ?thesis
  proof (cases "\<exists>bytes ct. po_fetch ports (ra_sourceUrl candidate) = Inr (Fetch_ok bytes ct)")
    case True
    then obtain bytes ct where f: "po_fetch ports (ra_sourceUrl candidate) = Inr (Fetch_ok bytes ct)" by blast
    obtain evs' where a: "audit_bytes rt cues ports candidate bytes ct = (evs', r)" "evs = Fetched (ra_sourceUrl candidate) # evs'"
      using assms None f by (auto simp: auditOneCall_def split: prod.splits)
    note b = audit_bytes_facts[OF a(1)]
    have "length (filter is_transcription evs) \<le> 1" using b(2) by (simp add: a(2) is_transcription_def)
    moreover have "\<not> altered candidate (sha256Hex rt bytes)"
      if "list_ex is_model_call evs \<or> (\<exists>res. r = Inr res \<and> ir_outcome res = Projected)"
      using that b(1) by (auto simp: a(2) is_model_call_def)
    ultimately show ?thesis using None f b(3,4) by (auto simp: a(2))
  next
    case False
    with assms None have "evs = [Fetched (ra_sourceUrl candidate)] \<and> \<not> (\<exists>res. r = Inr res \<and> ir_outcome res = Projected)"
      by (auto simp: auditOneCall_def split: sum.splits fetch_result.splits)
    with None show ?thesis by (auto simp: is_transcription_def is_model_call_def)
  qed
qed

section \<open>The projected charge\<close>

text \<open>Customer blocks count first: a block named in both lists is customer speech.\<close>

lemma role_fold:
  "foldl (\<lambda>(cu, ag) b. if P b then (cu + f b, ag) else if Q b then (cu, ag + f b) else (cu, ag)) (x, y) bs =
     (x + (\<Sum>b\<leftarrow>filter P bs. f b), y + (\<Sum>b\<leftarrow>filter (\<lambda>b. \<not> P b \<and> Q b) bs. f b))" for f :: "'a \<Rightarrow> int"
  by (induction bs arbitrary: x y) auto

lemma speechByRole_sums:
  "speechByRole blocks c =
     ((\<Sum>b\<leftarrow>filter (\<lambda>b. bl_number b \<in> set (mc_customerBlockNumbers c)) blocks. block_ms b),
      (\<Sum>b\<leftarrow>filter (\<lambda>b. bl_number b \<notin> set (mc_customerBlockNumbers c) \<and>
                       bl_number b \<in> set (coalesce (mc_agentBlockNumbers c) [])) blocks. block_ms b))"
  unfolding speechByRole_def role_fold by simp

lemma projectVerifiedCharge_facts:
  assumes "projectVerifiedCharge a = Inr p" and "0 \<le> an_chargeableServiceEndMs a" "0 \<le> an_appliedBillingGraceMs a"
    and "ms_ok (an_recordedDurationMs a)"
  defines "adjusted \<equiv> min (an_recordedDurationMs a) (an_chargeableServiceEndMs a + an_appliedBillingGraceMs a)"
  shows "vp_adjustedChargeableDurationMs p = adjusted" "0 \<le> adjusted" "adjusted \<le> an_recordedDurationMs a"
    and "vp_amountPaise p = 475 * chargeable_half_minutes adjusted"
    and "vp_billableDurationMs p = 30000 * chargeable_half_minutes adjusted"
    and "vp_oneWayTailMs p = an_recordedDurationMs a - adjusted"
proof -
  have ok: "ms_ok adjusted" using assms(2-4) by (auto simp: adjusted_def ms_ok_def)
  have h: "0 \<le> chargeable_half_minutes adjusted" using ok by (simp add: ms_ok_def chargeable_half_minutes_nonneg)
  show "0 \<le> adjusted" "adjusted \<le> an_recordedDurationMs a" using ok by (simp_all add: ms_ok_def adjusted_def)
  from assms(1) obtain rounded where r: "roundKServeChargeableDuration adjusted = Inr rounded"
    and p: "vp_adjustedChargeableDurationMs p = adjusted" "vp_amountPaise p = rc_amountPaise rounded"
      "vp_billableDurationMs p = rc_billableDurationMs rounded" "vp_oneWayTailMs p = max 0 (an_recordedDurationMs a - adjusted)"
    by (auto simp: projectVerifiedCharge_def Let_def rbind_Inr_iff adjusted_def)
  show "vp_adjustedChargeableDurationMs p = adjusted" "vp_oneWayTailMs p = an_recordedDurationMs a - adjusted"
    using p by (simp_all add: adjusted_def)
  show "vp_amountPaise p = 475 * chargeable_half_minutes adjusted" "vp_billableDurationMs p = 30000 * chargeable_half_minutes adjusted"
    using r p unfolding round_is_rule[OF ok] chargeForHalfMinutes_cases[OF h] by (auto split: if_splits)
qed

text \<open>
  C33. The audit never charges beyond its evidence: a projected charge covers at least nothing and at most
  the whole recording, is exactly the category policy's chargeable duration priced at 475 paise per half
  minute, and the rest of the recording is the reported one-way tail.
\<close>
theorem audit_projection_bounded:
  assumes "auditTranscriptEvidence cues ports candidate t sha reused = (evs, Inr res)" and "ir_outcome res = Projected"
    and "ms_ok (ts_durationMs t)"
  shows "\<exists>a c p. ir_analysis res = Some a \<and> ir_classification res = Some c \<and> ir_projection res = Some p \<and>
         an_category a = mc_category c \<and>
         vp_adjustedChargeableDurationMs p = cd_adjustedChargeableDurationMs (resolveCategoryCharge (evidence_of t c)) \<and>
         0 \<le> vp_adjustedChargeableDurationMs p \<and> vp_adjustedChargeableDurationMs p \<le> ts_durationMs t \<and>
         vp_amountPaise p = 475 * chargeable_half_minutes (vp_adjustedChargeableDurationMs p) \<and>
         vp_oneWayTailMs p = ts_durationMs t - vp_adjustedChargeableDurationMs p"
proof -
  from auditTranscriptEvidence_projected[OF assms(1,2)] obtain a c p where
    r: "ir_analysis res = Some a" "ir_classification res = Some c" "ir_projection res = Some p" "projectVerifiedCharge a = Inr p"
    and a: "an_recordedDurationMs a = ts_durationMs t" "an_category a = mc_category c"
      "an_chargeableServiceEndMs a = cd_serviceEndMs (resolveCategoryCharge (evidence_of t c))"
      "an_appliedBillingGraceMs a = cd_graceMs (resolveCategoryCharge (evidence_of t c))" by metis
  have "decision_in_bounds (ts_durationMs t) (resolveCategoryCharge (evidence_of t c))"
    using resolve_bounds[of "evidence_of t c"] assms(3) by (simp add: evidence_category ms_ok_def)
  then have d: "0 \<le> an_chargeableServiceEndMs a" "0 \<le> an_appliedBillingGraceMs a"
    "cd_adjustedChargeableDurationMs (resolveCategoryCharge (evidence_of t c)) =
       min (an_recordedDurationMs a) (an_chargeableServiceEndMs a + an_appliedBillingGraceMs a)"
    unfolding decision_in_bounds_def a by auto
  note f = projectVerifiedCharge_facts[OF r(4) d(1,2)]
  have "ms_ok (an_recordedDurationMs a)" using assms(3) by (simp add: a(1))
  with r a(1,2) d(3) f show ?thesis by (intro exI[of _ a] exI[of _ c] exI[of _ p]) simp
qed

section \<open>A worked call\<close>

definition demo_transcript :: TranscriptionResult where
  "demo_transcript =
     \<lparr> ts_model = \<lparr> model_provider = ''p'', model_name = ''n'', model_version = ''v'' \<rparr>, ts_language = ''en'',
       ts_durationMs = 30000, ts_speechMs = 10000, ts_text = ''hello'', ts_segments = demo_segments, ts_usage = None \<rparr>"

definition demo_call :: ReauditCandidate where
  "demo_call =
     \<lparr> ra_callId = ''c1'', ra_artifactId = ''a1'', ra_sourceUrl = ''https://rec.vendor.example/1'', ra_baselineSha256 = None,
       ra_claimedDurationMs = None, ra_connectedDurationMs = Some 30000, ra_vendorBilledMinutes = None, ra_manualRequest = None \<rparr>"

definition demo_ports :: "(provider_error option + RawClassification) \<Rightarrow> audit_ports" where
  "demo_ports answer =
     \<lparr> po_url = (\<lambda>_. Some (''https:'', ''rec.vendor.example'')),
       po_fetch = (\<lambda>_. Inr (Fetch_ok ''audio'' None)),
       po_model = \<lparr> model_provider = ''p'', model_name = ''n'', model_version = ''v'' \<rparr>,
       po_cached = (\<lambda>_. None), po_transcribe = (\<lambda>_ _. Inr demo_transcript), po_classify = (\<lambda>_. answer) \<rparr>"

lemma demo_url: "isSafeVendorUrl (po_url (demo_ports answer)) u [''vendor.example''] = None"
  by (simp add: demo_ports_def) code_simp

lemma demo_audit:
  "\<exists>evs r. auditOneCall demo_runtime demo_cues (demo_ports answer) [''vendor.example''] demo_call =
     (Fetched ''https://rec.vendor.example/1'' # Cache_read (cache_key (demo_ports answer) demo_call (sha256Hex demo_runtime ''audio'')) #
      Transcribed ''audio'' ''audio/ogg'' #
      Cache_write (cache_key (demo_ports answer) demo_call (sha256Hex demo_runtime ''audio'')) demo_transcript # evs, r) \<and>
     auditTranscriptEvidence demo_cues (demo_ports answer) demo_call demo_transcript (sha256Hex demo_runtime ''audio'') None = (evs, r)"
proof -
  let ?ck = "cache_key (demo_ports answer) demo_call (sha256Hex demo_runtime ''audio'')"
  obtain evs r where e: "auditTranscriptEvidence demo_cues (demo_ports answer) demo_call demo_transcript (sha256Hex demo_runtime ''audio'') None = (evs, r)"
    by fastforce
  have o: "obtain_transcript (demo_ports answer) ?ck ''audio'' ''audio/ogg'' =
      ([Cache_read ?ck, Transcribed ''audio'' ''audio/ogg'', Cache_write ?ck demo_transcript], Inr demo_transcript)"
    by (simp add: obtain_transcript_def demo_ports_def)
  have "audit_bytes demo_runtime demo_cues (demo_ports answer) demo_call ''audio'' None =
      ([Cache_read ?ck, Transcribed ''audio'' ''audio/ogg'', Cache_write ?ck demo_transcript] @ evs, r)"
    unfolding audit_bytes_def Let_def using o e by (simp add: altered_def demo_call_def content_type_def)
  moreover have "po_fetch (demo_ports answer) (ra_sourceUrl demo_call) = Inr (Fetch_ok ''audio'' None)" by (simp add: demo_ports_def)
  moreover have "ra_sourceUrl demo_call = ''https://rec.vendor.example/1''" by (simp add: demo_call_def)
  ultimately show ?thesis using demo_url[of answer] e by (simp add: auditOneCall_def)
qed

lemma demo_projected:
  "\<exists>evs res. auditTranscriptEvidence demo_cues (demo_ports (Inr demo_raw)) demo_call demo_transcript sha None = (evs, Inr res) \<and>
     ir_outcome res = Projected"
proof -
  obtain c where c: "validateClassification demo_cues demo_raw demo_blocks 30000 False = Inr c" using demo_validated by blast
  let ?a = "classified_analysis demo_transcript demo_blocks c False sha"
  have ns: "\<not> no_speech demo_transcript"
    by (simp add: no_speech_def demo_transcript_def demo_segments_def trim_def is_ws_def)
  have d: "decision_in_bounds 30000 (resolveCategoryCharge (classified_evidence demo_transcript c))"
    using resolve_bounds[of "classified_evidence demo_transcript c"] by (simp add: classified_evidence_def demo_transcript_def)
  have ok: "is_ok (projectVerifiedCharge ?a)"
  proof -
    let ?x = "min (an_recordedDurationMs ?a) (an_chargeableServiceEndMs ?a + an_appliedBillingGraceMs ?a)"
    have x: "0 \<le> ?x" "?x \<le> 30000"
      using d by (auto simp: classified_analysis_def demo_transcript_def decision_in_bounds_def)
    then have "ms_ok ?x" by (simp add: ms_ok_def MAX_SAFE_INTEGER_def)
    moreover have "0 \<le> chargeable_half_minutes ?x" "chargeable_half_minutes ?x \<le> 2"
      using x chargeable_half_minutes_nonneg by (auto simp: chargeable_half_minutes_def ceiling_le_iff)
    ultimately have "is_ok (roundKServeChargeableDuration ?x)"
      by (simp add: round_is_rule chargeForHalfMinutes_cases MAX_SAFE_INTEGER_def is_ok_def)
    then show ?thesis by (auto simp: projectVerifiedCharge_def Let_def is_ok_iff)
  qed
  then obtain res where "projected_result demo_call demo_transcript None ?a c = Inr res" "ir_outcome res = Projected"
    by (auto simp: projected_result_def is_ok_iff)
  moreover have "auditTranscriptEvidence demo_cues (demo_ports (Inr demo_raw)) demo_call demo_transcript sha None =
      ([Classified (classify_transcript demo_call demo_transcript demo_blocks False)], projected_result demo_call demo_transcript None ?a c)"
    using ns demo_merge c
    by (simp add: auditTranscriptEvidence_def Let_def demo_transcript_def demo_call_def duration_mismatch_def
        demo_ports_def validate_or_repair_def)
  ultimately show ?thesis by auto
qed

theorem audited_evidence_is_fetched_witness:
  "\<exists>evs res a. auditOneCall demo_runtime demo_cues (demo_ports (Inr demo_raw)) [''vendor.example''] demo_call = (evs, Inr res) \<and>
     Transcribed ''audio'' ''audio/ogg'' \<in> set evs \<and> ir_analysis res = Some a \<and>
     an_evidenceSha256 a = sha256Hex demo_runtime ''audio''"
proof -
  obtain evs res where r: "auditOneCall demo_runtime demo_cues (demo_ports (Inr demo_raw)) [''vendor.example''] demo_call = (evs, Inr res)"
    "Transcribed ''audio'' ''audio/ogg'' \<in> set evs" "ir_outcome res = Projected"
    using demo_audit[of "Inr demo_raw"] demo_projected[of "sha256Hex demo_runtime ''audio''"] by auto
  have "po_fetch (demo_ports (Inr demo_raw)) (ra_sourceUrl demo_call) = Inr (Fetch_ok ''audio'' None)" by (simp add: demo_ports_def)
  with audited_evidence_is_fetched[OF r(1)] demo_url[of "Inr demo_raw"] r show ?thesis by fastforce
qed

theorem audit_projection_bounded_witness:
  "\<exists>evs res p. auditTranscriptEvidence demo_cues (demo_ports (Inr demo_raw)) demo_call demo_transcript [] None = (evs, Inr res) \<and>
     ir_projection res = Some p \<and> vp_adjustedChargeableDurationMs p \<le> 30000"
proof -
  obtain evs res where r: "auditTranscriptEvidence demo_cues (demo_ports (Inr demo_raw)) demo_call demo_transcript [] None = (evs, Inr res)"
    "ir_outcome res = Projected" using demo_projected by blast
  have "ms_ok (ts_durationMs demo_transcript)" by (simp add: demo_transcript_def ms_ok_def MAX_SAFE_INTEGER_def)
  from audit_projection_bounded[OF r this] r show ?thesis by (auto simp: demo_transcript_def)
qed

end
