(* ===== verification/SpendLease.thy ===== *)
theory SpendLease
  imports ReauditCall
begin

text \<open>
  The right to pay for one audit question (\<open>src/src/adapters/mysqlBillingSpendLease.ts\<close>) and its use by the
  batch worker (\<open>processCandidate\<close> of \<open>src/src/reaudit/worker.ts\<close>).

  Every statement of the adapter names one lease id, so the operations act on the row of that id, which
  may be missing. Each SQL statement is one atomic step; between two statements of a worker any other
  worker may act. The worker is a step relation whose rules are the awaits of the code, so a worker that
  stops or crashes is one that takes no further step. A staged result is stored as JSON and read back
  unchanged.
\<close>

section \<open>Results\<close>

definition isRetryableProviderResult :: "ReauditItemResult \<Rightarrow> bool" where
  "isRetryableProviderResult r =
     (case ir_errorCode r of None \<Rightarrow> False
      | Some code \<Rightarrow> startsWith code ''TRANSCRIPTION_PROVIDER_'' \<or> startsWith code ''CLASSIFICATION_PROVIDER_'')"

definition unspent :: "ReauditItemResult \<Rightarrow> bool" where
  "unspent r = (ir_outcome r = Source_missing \<or> isRetryableProviderResult r)"

definition unknownSpendResult :: "ReauditCandidate \<Rightarrow> ReauditItemResult" where
  "unknownSpendResult candidate = item_result candidate Spend_state_unknown ''AUDIT_SPEND_STATE_UNKNOWN''"

definition minimal_transcription :: "TranscriptionResult \<Rightarrow> TranscriptionResult" where
  "minimal_transcription t = t \<lparr> ts_text := [] \<rparr>"

definition minimal_classification :: "ModelClassification \<Rightarrow> ModelClassification" where
  "minimal_classification c =
     c \<lparr> mc_customerBlockNumbers := [], mc_unclearBlockNumbers := [], mc_voicemailEvidenceBlockNumbers := None,
         mc_automationEvidenceBlockNumbers := None, mc_junkEvidenceBlockNumbers := None,
         mc_businessRelevantCustomerBlockNumbers := None, mc_lastMeaningfulAgentExchangeMs := None,
         mc_firstAgentTurnEndMs := None, mc_lastVoicemailExchangeMs := None,
         mc_lastBusinessRelevantCustomerExchangeMs := None, mc_lastVerifiedInteractionMs := None,
         mc_agentBlockNumbers := None, mc_agentFailureStartBlockNumber := None, mc_agentFailureMode := None,
         mc_meaningfulServiceBeforeFailure := None, mc_failureStartMs := None, mc_remarks := [],
         mc_decisionSignals := None \<rparr>"

definition minimalPersistenceResult :: "ReauditItemResult \<Rightarrow> ReauditItemResult" where
  "minimalPersistenceResult r =
     (let base = \<lparr> ir_callId = ir_callId r, ir_artifactId = ir_artifactId r, ir_outcome = ir_outcome r,
                   ir_analysis = None, ir_transcription = None, ir_classification = None, ir_projection = None,
                   ir_reusedTranscriptId = None,
                   ir_errorCode = (if ir_errorCode r = Some [] then None else ir_errorCode r) \<rparr>
      in case (ir_analysis r, ir_transcription r, ir_classification r) of
           (Some a, Some t, Some c) \<Rightarrow>
             if ir_outcome r \<noteq> Projected then base
             else base \<lparr> ir_analysis := Some a, ir_transcription := Some (minimal_transcription t),
                         ir_classification := Some (minimal_classification c) \<rparr>
         | _ \<Rightarrow> base)"

section \<open>The lease\<close>

text \<open>\<open>Array.prototype.join\<close>.\<close>

fun join_text :: "string \<Rightarrow> string list \<Rightarrow> string" where
  "join_text sep [] = []"
| "join_text sep [x] = x"
| "join_text sep (x # y # ys) = x @ sep @ join_text sep (y # ys)"

definition SPEND_LEASE_TTL_MINUTES :: int where
  "SPEND_LEASE_TTL_MINUTES = 30"

datatype lease_status = Lease_active | Lease_completed | Lease_released | Lease_expired

record LeaseRow =
  lr_callId :: string
  lr_artifactId :: string
  lr_manualItemId :: "string option"
  lr_status :: lease_status
  lr_workerId :: string
  lr_claimedAt :: int
  lr_expiresAt :: int
  lr_staged :: "ReauditItemResult option"
  lr_stagedAt :: "int option"
  lr_settledAt :: "int option"

definition billingSpendLeaseId :: "runtime \<Rightarrow> string \<Rightarrow> ReauditCandidate \<Rightarrow> string" where
  "billingSpendLeaseId rt classifierRulesetSha256 candidate =
     sha256Hex rt (join_text [char_of (0 :: nat)]
       [ra_callId candidate, ra_artifactId candidate, coalesce (ra_baselineSha256 candidate) [],
        REAUDIT_CLASSIFIER_RULESET_VERSION, REAUDIT_ENGINE_VERSION, classifierRulesetSha256,
        (case ra_manualRequest candidate of None \<Rightarrow> [] | Some m \<Rightarrow> mr_itemId m)])"

definition leaseExpiry :: "int \<Rightarrow> int" where
  "leaseExpiry now = now + SPEND_LEASE_TTL_MINUTES * 60000"

text \<open>An update of the row that applies only where a condition holds, and whether it applied.\<close>

definition update_where :: "(LeaseRow \<Rightarrow> bool) \<Rightarrow> (LeaseRow \<Rightarrow> LeaseRow) \<Rightarrow> LeaseRow option \<Rightarrow> LeaseRow option \<times> bool" where
  "update_where P f lease =
     (case lease of None \<Rightarrow> (None, False) | Some row \<Rightarrow> if P row then (Some (f row), True) else (Some row, False))"

definition claim_insert :: "string \<Rightarrow> ReauditCandidate \<Rightarrow> int \<Rightarrow> LeaseRow option \<Rightarrow> LeaseRow option \<times> bool" where
  "claim_insert workerId candidate now lease =
     (case lease of
        None \<Rightarrow> (Some \<lparr> lr_callId = ra_callId candidate, lr_artifactId = ra_artifactId candidate,
                        lr_manualItemId = map_option mr_itemId (ra_manualRequest candidate),
                        lr_status = Lease_active, lr_workerId = workerId, lr_claimedAt = now,
                        lr_expiresAt = leaseExpiry now, lr_staged = None, lr_stagedAt = None, lr_settledAt = None \<rparr>, True)
      | Some row \<Rightarrow> (Some row, False))"

datatype spend_right =
    Right_acquired
  | Right_busy
  | Right_closed ReauditItemResult
  | Right_recovered ReauditItemResult

definition taken_over :: "string \<Rightarrow> int \<Rightarrow> LeaseRow \<Rightarrow> LeaseRow" where
  "taken_over workerId now row =
     row \<lparr> lr_workerId := workerId, lr_claimedAt := now, lr_expiresAt := leaseExpiry now, lr_settledAt := None \<rparr>"

definition may_take_over :: "bool \<Rightarrow> int \<Rightarrow> LeaseRow \<Rightarrow> bool" where
  "may_take_over exclusive now row = (lr_status row = Lease_active \<and> (lr_expiresAt row \<le> now \<or> exclusive))"

definition resume_released :: "string \<Rightarrow> int \<Rightarrow> LeaseRow option \<Rightarrow> LeaseRow option \<times> spend_right" where
  "resume_released workerId now lease =
     (let (lease', resumed) = update_where (\<lambda>row. lr_status row = Lease_released)
            (\<lambda>row. (taken_over workerId now row) \<lparr> lr_status := Lease_active, lr_staged := None, lr_stagedAt := None \<rparr>) lease
      in (lease', if resumed then Right_acquired else Right_busy))"

definition recover_staged ::
  "string \<Rightarrow> bool \<Rightarrow> int \<Rightarrow> ReauditItemResult \<Rightarrow> LeaseRow option \<Rightarrow> LeaseRow option \<times> spend_right" where
  "recover_staged workerId exclusive now staged lease =
     (let (lease', recovered) = update_where (\<lambda>row. may_take_over exclusive now row \<and> lr_staged row \<noteq> None)
            (taken_over workerId now) lease
      in (lease', if recovered then Right_recovered staged else Right_busy))"

definition recover_unstaged ::
  "string \<Rightarrow> bool \<Rightarrow> int \<Rightarrow> ReauditCandidate \<Rightarrow> LeaseRow option \<Rightarrow> LeaseRow option \<times> spend_right" where
  "recover_unstaged workerId exclusive now candidate lease =
     (let terminalResult = unknownSpendResult candidate;
          (lease', recovered) = update_where (\<lambda>row. may_take_over exclusive now row \<and> lr_staged row = None)
            (\<lambda>row. (taken_over workerId now row)
               \<lparr> lr_staged := Some (minimalPersistenceResult terminalResult), lr_stagedAt := Some now \<rparr>) lease
      in (lease', if recovered then Right_recovered terminalResult else Right_busy))"

text \<open>What \<open>claim\<close> does after its insert lost, given the row its select returned.\<close>

definition claim_existing ::
  "string \<Rightarrow> bool \<Rightarrow> ReauditCandidate \<Rightarrow> int \<Rightarrow> LeaseRow option \<Rightarrow> LeaseRow option \<Rightarrow> LeaseRow option \<times> spend_right" where
  "claim_existing workerId exclusive candidate now seen lease =
     (case seen of
        None \<Rightarrow> (lease, Right_busy)
      | Some existing \<Rightarrow>
          (case lr_status existing of
             Lease_completed \<Rightarrow> (lease, Right_closed (unknownSpendResult candidate))
           | Lease_expired \<Rightarrow> (lease, Right_closed (unknownSpendResult candidate))
           | Lease_released \<Rightarrow> resume_released workerId now lease
           | Lease_active \<Rightarrow>
               (case lr_staged existing of
                  Some staged \<Rightarrow> recover_staged workerId exclusive now staged lease
                | None \<Rightarrow> recover_unstaged workerId exclusive now candidate lease)))"

text \<open>The whole claim when no other worker acts in between.\<close>

definition spend_claim :: "string \<Rightarrow> bool \<Rightarrow> ReauditCandidate \<Rightarrow> int \<Rightarrow> LeaseRow option \<Rightarrow> LeaseRow option \<times> spend_right" where
  "spend_claim workerId exclusive candidate now lease =
     (case claim_insert workerId candidate now lease of
        (lease', True) \<Rightarrow> (lease', Right_acquired)
      | (_, False) \<Rightarrow> claim_existing workerId exclusive candidate now lease lease)"

definition owned :: "string \<Rightarrow> LeaseRow \<Rightarrow> bool" where
  "owned workerId row = (lr_status row = Lease_active \<and> lr_workerId row = workerId)"

definition leaseOwnershipError :: js_error where
  "leaseOwnershipError = PlainError ''Billing spend lease is not owned by worker''"

definition owned_update :: "string \<Rightarrow> (LeaseRow \<Rightarrow> LeaseRow) \<Rightarrow> LeaseRow option \<Rightarrow> LeaseRow option res" where
  "owned_update workerId f lease =
     (let (lease', updated) = update_where (owned workerId) f lease
      in if updated then Inr lease' else Inl leaseOwnershipError)"

definition stageResult :: "string \<Rightarrow> ReauditItemResult \<Rightarrow> int \<Rightarrow> LeaseRow option \<Rightarrow> LeaseRow option res" where
  "stageResult workerId result now lease =
     owned_update workerId (\<lambda>row. row \<lparr> lr_staged := Some (minimalPersistenceResult result), lr_stagedAt := Some now \<rparr>) lease"

datatype spend_outcome = Model_spent | No_model_call | Unknown

definition settle :: "string \<Rightarrow> spend_outcome \<Rightarrow> int \<Rightarrow> LeaseRow option \<Rightarrow> LeaseRow option res" where
  "settle workerId oc now lease =
     (if oc = Unknown then owned_update workerId (\<lambda>row. row) lease
      else owned_update workerId
        (\<lambda>row. row \<lparr> lr_status := (if oc = Model_spent then Lease_completed else Lease_released),
                     lr_settledAt := Some now, lr_staged := None, lr_stagedAt := None \<rparr>) lease)"

section \<open>The worker\<close>

datatype claim_origin = Fresh | From_stage ReauditItemResult | From_closed ReauditItemResult

datatype worker_pc =
    Ready
  | Lost_insert
  | Saw "LeaseRow option"
  | Claimed claim_origin
  | Started claim_origin
  | Produced ReauditItemResult
  | Persisting claim_origin ReauditItemResult
  | Settling spend_outcome

fun after_claim :: "spend_right \<Rightarrow> worker_pc" where
  "after_claim Right_acquired = Claimed Fresh"
| "after_claim Right_busy = Ready"
| "after_claim (Right_closed r) = Claimed (From_closed r)"
| "after_claim (Right_recovered r) = Claimed (From_stage r)"

text \<open>After \<open>markStarted\<close> reported the call completed, or failed.\<close>

fun after_already_completed :: "claim_origin \<Rightarrow> worker_pc" where
  "after_already_completed Fresh = Settling No_model_call"
| "after_already_completed (From_stage _) = Settling Model_spent"
| "after_already_completed (From_closed _) = Ready"

fun after_start_failure :: "claim_origin \<Rightarrow> worker_pc" where
  "after_start_failure Fresh = Settling No_model_call"
| "after_start_failure (From_stage _) = Settling Unknown"
| "after_start_failure (From_closed _) = Ready"

text \<open>After the result was persisted, or could not be.\<close>

definition after_persist :: "claim_origin \<Rightarrow> ReauditItemResult \<Rightarrow> bool \<Rightarrow> worker_pc" where
  "after_persist origin r persisted =
     (case origin of
        From_closed _ \<Rightarrow> Ready
      | _ \<Rightarrow> Settling (if unspent r then No_model_call else if persisted then Model_spent else Unknown))"

text \<open>A processor that throws yields a bounded result, so the paid step always has a result.\<close>

definition processed :: "ReauditCandidate \<Rightarrow> ReauditItemResult res \<Rightarrow> ReauditItemResult" where
  "processed candidate r =
     (case r of Inr res \<Rightarrow> res | Inl _ \<Rightarrow> item_result candidate Classification_failed ''AUDIT_PROCESSOR_FAILED'')"

record spend_state =
  ss_lease :: "LeaseRow option"
  ss_pc :: "string \<Rightarrow> worker_pc"
  ss_paid :: nat

definition goto :: "string \<Rightarrow> worker_pc \<Rightarrow> spend_state \<Rightarrow> spend_state" where
  "goto w pc s = s \<lparr> ss_pc := (ss_pc s)(w := pc) \<rparr>"

text \<open>
  One step of worker \<open>w\<close> on the candidate. \<open>ss_paid\<close> counts the runs of the processor whose result the
  worker treats as paid.
\<close>

inductive worker_step :: "ReauditCandidate \<Rightarrow> spend_state \<Rightarrow> spend_state \<Rightarrow> bool" for candidate where
  insert: "ss_pc s w = Ready \<Longrightarrow> claim_insert w candidate now (ss_lease s) = (lease', won) \<Longrightarrow>
    worker_step candidate s (goto w (if won then Claimed Fresh else Lost_insert) (s \<lparr> ss_lease := lease' \<rparr>))"
| select: "ss_pc s w = Lost_insert \<Longrightarrow> worker_step candidate s (goto w (Saw (ss_lease s)) s)"
| existing: "ss_pc s w = Saw seen \<Longrightarrow> claim_existing w exclusive candidate now seen (ss_lease s) = (lease', right) \<Longrightarrow>
    worker_step candidate s (goto w (after_claim right) (s \<lparr> ss_lease := lease' \<rparr>))"
| started: "ss_pc s w = Claimed origin \<Longrightarrow> worker_step candidate s (goto w (Started origin) s)"
| already: "ss_pc s w = Claimed origin \<Longrightarrow> worker_step candidate s (goto w (after_already_completed origin) s)"
| start_failed: "ss_pc s w = Claimed origin \<Longrightarrow> worker_step candidate s (goto w (after_start_failure origin) s)"
| process: "ss_pc s w = Started Fresh \<Longrightarrow> result = processed candidate answer \<Longrightarrow>
    worker_step candidate s
      (goto w (Produced result) (s \<lparr> ss_paid := ss_paid s + (if unspent result then 0 else 1) \<rparr>))"
| reuse: "ss_pc s w = Started origin \<Longrightarrow> origin = From_stage r \<or> origin = From_closed r \<Longrightarrow>
    worker_step candidate s (goto w (Persisting origin r) s)"
| stage: "ss_pc s w = Produced r \<Longrightarrow> \<not> unspent r \<Longrightarrow> stageResult w r now (ss_lease s) = Inr lease' \<Longrightarrow>
    worker_step candidate s (goto w (Persisting Fresh r) (s \<lparr> ss_lease := lease' \<rparr>))"
| stage_failed: "ss_pc s w = Produced r \<Longrightarrow> \<not> unspent r \<Longrightarrow> worker_step candidate s (goto w Ready s)"
| unstaged: "ss_pc s w = Produced r \<Longrightarrow> unspent r \<Longrightarrow> worker_step candidate s (goto w (Persisting Fresh r) s)"
| persist: "ss_pc s w = Persisting origin r \<Longrightarrow> worker_step candidate s (goto w (after_persist origin r persisted) s)"
| settled: "ss_pc s w = Settling oc \<Longrightarrow> settle w oc now (ss_lease s) = Inr lease' \<Longrightarrow>
    worker_step candidate s (goto w Ready (s \<lparr> ss_lease := lease' \<rparr>))"
| settle_failed: "ss_pc s w = Settling oc \<Longrightarrow> worker_step candidate s (goto w Ready s)"

definition initial_spend :: spend_state where
  "initial_spend = \<lparr> ss_lease = None, ss_pc = (\<lambda>_. Ready), ss_paid = 0 \<rparr>"

inductive reachable :: "ReauditCandidate \<Rightarrow> spend_state \<Rightarrow> bool" for candidate where
  start: "reachable candidate initial_spend"
| step: "reachable candidate s \<Longrightarrow> worker_step candidate s s' \<Longrightarrow> reachable candidate s'"

section \<open>Paying at most once\<close>

text \<open>The workers that may still pay, or whose settlement may still release the lease.\<close>

fun spender :: "worker_pc \<Rightarrow> bool" where
  "spender (Claimed Fresh) = True"
| "spender (Started Fresh) = True"
| "spender (Produced r) = unspent r"
| "spender (Persisting Fresh r) = unspent r"
| "spender (Settling No_model_call) = True"
| "spender _ = False"

text \<open>Only paid results are staged, so a recovered result never releases the lease.\<close>

fun paid_pc :: "worker_pc \<Rightarrow> bool" where
  "paid_pc (Saw (Some row)) = (\<forall>r. lr_staged row = Some r \<longrightarrow> \<not> unspent r)"
| "paid_pc (Claimed (From_stage r)) = (\<not> unspent r)"
| "paid_pc (Started (From_stage r)) = (\<not> unspent r)"
| "paid_pc (Persisting (From_stage r) r') = (\<not> unspent r')"
| "paid_pc _ = True"

definition lease_free :: "LeaseRow option \<Rightarrow> bool" where
  "lease_free lease = (case lease of None \<Rightarrow> True | Some row \<Rightarrow> lr_status row = Lease_released)"

definition staged_paid :: "LeaseRow option \<Rightarrow> bool" where
  "staged_paid lease = (\<forall>row r. lease = Some row \<and> lr_staged row = Some r \<longrightarrow> \<not> unspent r)"

definition spend_inv :: "spend_state \<Rightarrow> bool" where
  "spend_inv s \<longleftrightarrow>
     staged_paid (ss_lease s) \<and> (\<forall>w. paid_pc (ss_pc s w)) \<and>
     (\<forall>w w'. spender (ss_pc s w) \<and> spender (ss_pc s w') \<longrightarrow> w = w') \<and>
     ss_paid s \<le> 1 \<and> (ss_paid s = 1 \<longrightarrow> (\<forall>w. \<not> spender (ss_pc s w))) \<and>
     (lease_free (ss_lease s) \<longrightarrow> ss_paid s = 0 \<and> (\<forall>w. \<not> spender (ss_pc s w)))"

lemma unspent_minimal [simp]: "unspent (minimalPersistenceResult r) = unspent r"
  by (auto simp: unspent_def isRetryableProviderResult_def minimalPersistenceResult_def Let_def startsWith_def
      split: option.splits)

lemma unknown_is_paid [simp]: "\<not> unspent (unknownSpendResult candidate)"
  by (simp add: unknownSpendResult_def item_result_def unspent_def isRetryableProviderResult_def startsWith_def)

lemma inv_paid_pc: "spend_inv s \<Longrightarrow> ss_pc s w = pc \<Longrightarrow> paid_pc pc"
  by (auto simp: spend_inv_def)

text \<open>
  A move that takes the worker to a place where it cannot spend, leaving the lease no freer than it was.
\<close>

lemma inv_leave:
  assumes "spend_inv s" "\<not> spender pc" "paid_pc pc" "staged_paid lease'" "lease_free lease' \<longrightarrow> lease_free (ss_lease s)"
  shows "spend_inv (goto w pc (s \<lparr> ss_lease := lease' \<rparr>))"
  using assms by (auto simp: spend_inv_def goto_def)

lemma inv_stay:
  assumes "spend_inv s" "spender pc \<longrightarrow> spender (ss_pc s w)" "paid_pc pc"
  shows "spend_inv (goto w pc s)"
  using assms by (auto simp: spend_inv_def goto_def)

lemma inv_acquire:
  assumes "spend_inv s" "lease_free (ss_lease s)" "staged_paid lease'" "\<not> lease_free lease'"
  shows "spend_inv (goto w (Claimed Fresh) (s \<lparr> ss_lease := lease' \<rparr>))"
  using assms by (auto simp: spend_inv_def goto_def)

lemma claim_existing_moves:
  assumes "claim_existing w ex candidate now seen lease = (lease', right)"
    and "staged_paid lease" "paid_pc (Saw seen)"
  shows "staged_paid lease' \<and> paid_pc (after_claim right) \<and>
    (right = Right_acquired \<longrightarrow> lease_free lease \<and> \<not> lease_free lease') \<and> (lease_free lease' \<longrightarrow> lease_free lease)"
proof (cases seen)
  case None
  with assms show ?thesis by (simp add: claim_existing_def)
next
  case (Some row)
  note facts = assms[unfolded claim_existing_def Some]
  show ?thesis
    by (cases lease)
      (use facts in \<open>auto simp: resume_released_def recover_staged_def recover_unstaged_def update_where_def may_take_over_def
        taken_over_def staged_paid_def lease_free_def Let_def split: lease_status.splits option.splits if_splits\<close>)
qed

lemma owned_update_moves:
  assumes "owned_update w f lease = Inr lease'"
  obtains row where "lease = Some row" "owned w row" "lease' = Some (f row)"
  using assms by (cases lease) (auto simp: owned_update_def update_where_def Let_def split: if_splits)

lemma settle_moves:
  assumes "settle w oc now lease = Inr lease'"
  obtains row row' where "lease = Some row" "owned w row" "lease' = Some row'"
    "oc = No_model_call \<or> lr_status row' \<noteq> Lease_released" "lr_staged row' = lr_staged row \<or> lr_staged row' = None"
  using assms by (cases oc) (auto simp: settle_def owned_def elim!: owned_update_moves)

lemma spend_inv_step:
  assumes "worker_step candidate s s'" "spend_inv s"
  shows "spend_inv s'"
  using assms
proof (induction rule: worker_step.induct)
  case (insert s w now lease' won)
  show ?case
  proof (cases "ss_lease s")
    case None
    then show ?thesis using insert inv_acquire[of s lease' w]
      by (auto simp: claim_insert_def lease_free_def staged_paid_def)
  next
    case (Some row)
    then show ?thesis using insert inv_leave[of s Lost_insert lease' w]
      by (auto simp: claim_insert_def spend_inv_def)
  qed
next
  case (select s w)
  then show ?case by (intro inv_stay) (cases "ss_lease s"; simp add: spend_inv_def staged_paid_def)+
next
  case (existing s w seen exclusive now lease' right)
  have "staged_paid (ss_lease s)" using existing(3) by (simp add: spend_inv_def)
  note m = claim_existing_moves[OF existing(2) this inv_paid_pc[OF existing(3,1)]]
  show ?case
  proof (cases "right = Right_acquired")
    case True
    with m inv_acquire[OF existing(3)] show ?thesis by simp
  next
    case False
    then have "\<not> spender (after_claim right)" by (cases right) auto
    with m inv_leave[OF existing(3)] show ?thesis by simp
  qed
next
  case (started s w origin)
  then show ?case using inv_paid_pc[of s w "Claimed origin"] by (intro inv_stay) (cases origin; simp)+
next
  case (already s w origin)
  then show ?case by (intro inv_stay) (cases origin; simp)+
next
  case (start_failed s w origin)
  then show ?case by (intro inv_stay) (cases origin; simp)+
next
  case (process s w result answer)
  then show ?case by (auto simp: spend_inv_def goto_def split: if_splits) (metis spender.simps(2))+
next
  case (reuse s w origin r)
  then show ?case using inv_paid_pc[of s w "Started origin"] by (intro inv_stay) auto
next
  case (stage s w r now lease')
  then obtain row where row: "ss_lease s = Some row" "owned w row"
    "lease' = Some (row \<lparr> lr_staged := Some (minimalPersistenceResult r), lr_stagedAt := Some now \<rparr>)"
    unfolding stageResult_def by (elim owned_update_moves)
  with stage show ?case by (intro inv_leave) (auto simp: staged_paid_def lease_free_def)
next
  case (stage_failed s w r)
  then show ?case by (intro inv_stay) simp_all
next
  case (unstaged s w r)
  then show ?case by (intro inv_stay) simp_all
next
  case (persist s w origin r persisted)
  then show ?case using inv_paid_pc[of s w "Persisting origin r"] by (intro inv_stay) (cases origin; auto simp: after_persist_def)+
next
  case (settled s w oc now lease')
  then obtain row row' where row: "ss_lease s = Some row" "lease' = Some row'"
    "oc = No_model_call \<or> lr_status row' \<noteq> Lease_released" "lr_staged row' = lr_staged row \<or> lr_staged row' = None"
    by (elim settle_moves)
  have staged: "staged_paid lease'" using row settled by (auto simp: staged_paid_def spend_inv_def)
  show ?case
  proof (cases "oc = No_model_call")
    case True
    then have sp: "spender (ss_pc s w)" using settled by simp
    then have "ss_paid s = 0" "\<forall>w'. w' \<noteq> w \<longrightarrow> \<not> spender (ss_pc s w')"
      using settled(3) unfolding spend_inv_def by (metis One_nat_def le_eq_less_or_eq less_Suc0)+
    with settled staged show ?thesis by (simp add: spend_inv_def goto_def)
  next
    case False
    with settled staged row show ?thesis by (intro inv_leave) (auto simp: lease_free_def)
  qed
next
  case (settle_failed s w oc)
  then show ?case by (intro inv_stay) simp_all
qed

lemma spend_inv_reachable: "reachable candidate s \<Longrightarrow> spend_inv s"
proof (induction rule: reachable.induct)
  case start
  show ?case by (simp add: spend_inv_def initial_spend_def staged_paid_def)
qed (rule spend_inv_step)


definition demo_paid_result :: ReauditItemResult where
  "demo_paid_result = item_result demo_call Classification_failed ''CLASSIFICATION_OUTPUT_UNRECOVERABLE''"

definition demo_after_insert :: spend_state where
  "demo_after_insert = goto ''w1'' (Claimed Fresh) (initial_spend \<lparr> ss_lease := fst (claim_insert ''w1'' demo_call 0 None) \<rparr>)"


text \<open>
  The worker's account of a payment is not the model's: a call whose transcription was made and whose
  classification then failed at the provider counts as unspent, so the lease is released and, unless the
  transcript cache kept the transcript, the retry transcribes the same audio again.
\<close>

lemma provider_failure_releases_paid_transcription:
  "\<exists>evs r. auditOneCall demo_runtime demo_cues
       (demo_ports (Inl (Some \<lparr> pe_status = Some 503, pe_code = [], pe_name = [] \<rparr>))) [''vendor.example''] demo_call = (evs, Inr r) \<and>
     Transcribed ''audio'' ''audio/ogg'' \<in> set evs \<and> after_persist Fresh r True = Settling No_model_call"
proof -
  let ?answer = "Inl (Some \<lparr> pe_status = Some 503, pe_code = [], pe_name = [] \<rparr>) :: provider_error option + RawClassification"
  let ?r = "item_result demo_call Classification_failed ''CLASSIFICATION_PROVIDER_SERVER_ERROR''"
  have ns: "\<not> no_speech demo_transcript"
    by (simp add: no_speech_def demo_transcript_def demo_segments_def trim_def is_ws_def)
  have "snd (auditTranscriptEvidence demo_cues (demo_ports ?answer) demo_call demo_transcript sha None) = Inr ?r" for sha
    using ns demo_merge
    by (simp add: auditTranscriptEvidence_def Let_def demo_ports_def demo_transcript_def providerFailureCode_def status_in_def)
  moreover have "unspent ?r" by (simp add: item_result_def unspent_def isRetryableProviderResult_def startsWith_def)
  then have "after_persist Fresh ?r True = Settling No_model_call" by (simp add: after_persist_def)
  moreover obtain evs r where a: "auditOneCall demo_runtime demo_cues (demo_ports ?answer) [''vendor.example''] demo_call = (evs, r)"
    "Transcribed ''audio'' ''audio/ogg'' \<in> set evs"
    "r = snd (auditTranscriptEvidence demo_cues (demo_ports ?answer) demo_call demo_transcript (sha256Hex demo_runtime ''audio'') None)"
    using demo_audit[of ?answer] by (metis list.set_intros(1,2) snd_conv)
  ultimately have "r = Inr ?r" by simp
  with a(1,2) \<open>after_persist Fresh ?r True = Settling No_model_call\<close> show ?thesis by blast
qed

end
