(* ===== verification/WorkerControl.thy ===== *)
theory WorkerControl
  imports Runtime JsDate
begin

text \<open>
  The control plane of the audit workers: the states an operator asks for and a worker reports
  (\<open>src/src/auditWorkers/control.ts\<close>, \<open>src/src/adapters/mysqlAuditWorkerControl.ts\<close>), when a drain goes on,
  waits or stops and when a failed batch is retried (\<open>src/src/auditWorkers/drainContinuation.ts\<close>), the
  classification of failures (\<open>src/src/reaudit/failures.ts\<close>), and the wait for the global billing lock
  (\<open>src/src/auditWorkers/billingAdvisoryLock.ts\<close>). Database timestamps are numbers.
\<close>

section \<open>States\<close>

datatype AuditSystem = Billing | Call
datatype AuditWorkerDesiredState = Want_running | Want_paused
datatype AuditWorkerObservedState = Is_idle | Is_running | Is_pausing | Is_paused | Is_faulted
datatype AuditDispatchMode = Ordinary | Requested | Late_recording

fun system_text :: "AuditSystem \<Rightarrow> string" where
  "system_text Billing = ''billing''"
| "system_text Call = ''call''"

fun desired_text :: "AuditWorkerDesiredState \<Rightarrow> string" where
  "desired_text Want_running = ''running''"
| "desired_text Want_paused = ''paused''"

fun mode_text :: "AuditDispatchMode \<Rightarrow> string" where
  "mode_text Ordinary = ''ordinary''"
| "mode_text Requested = ''requested''"
| "mode_text Late_recording = ''late-recording''"

definition AUDIT_SYSTEMS :: "AuditSystem list" where
  "AUDIT_SYSTEMS = [Billing, Call]"

definition AUDIT_WORKER_DESIRED_STATES :: "AuditWorkerDesiredState list" where
  "AUDIT_WORKER_DESIRED_STATES = [Want_running, Want_paused]"

definition AUDIT_DISPATCH_MODES :: "AuditDispatchMode list" where
  "AUDIT_DISPATCH_MODES = [Ordinary, Requested, Late_recording]"

text \<open>The member of a closed set with the given text, or the refusal.\<close>

definition parse_closed :: "('a \<Rightarrow> string) \<Rightarrow> 'a list \<Rightarrow> string \<Rightarrow> js_input \<Rightarrow> 'a res" where
  "parse_closed text_of members reason v =
     (case v of
        Text_in s \<Rightarrow> (case find (\<lambda>x. text_of x = s) members of
                        Some x \<Rightarrow> Inr x | None \<Rightarrow> Inl (AuditWorkerControlError reason))
      | _ \<Rightarrow> Inl (AuditWorkerControlError reason))"

definition parseAuditSystem :: "js_input \<Rightarrow> AuditSystem res" where
  "parseAuditSystem v = parse_closed system_text AUDIT_SYSTEMS ''audit system is invalid'' v"

definition parseDesiredState :: "js_input \<Rightarrow> AuditWorkerDesiredState res" where
  "parseDesiredState v = parse_closed desired_text AUDIT_WORKER_DESIRED_STATES ''desired state is invalid'' v"

text \<open>A missing mode is the ordinary one.\<close>

definition parseAuditDispatch :: "js_input \<Rightarrow> js_input \<Rightarrow> (AuditSystem \<times> AuditDispatchMode) res" where
  "parseAuditDispatch system_in mode_in =
     rbind (parseAuditSystem system_in) (\<lambda>parsedSystem.
     rbind (case mode_in of Missing \<Rightarrow> Inr Ordinary
            | _ \<Rightarrow> parse_closed mode_text AUDIT_DISPATCH_MODES ''audit dispatch mode is invalid'' mode_in) (\<lambda>parsedMode.
     if parsedMode \<noteq> Ordinary \<and> parsedSystem \<noteq> Billing
     then Inl (AuditWorkerControlError ''requested dispatch mode is Billing Audit only'')
     else Inr (parsedSystem, parsedMode)))"

record AuditWorkerPublicState =
  ps_system :: AuditSystem
  ps_desiredState :: AuditWorkerDesiredState
  ps_observedState :: AuditWorkerObservedState
  ps_stateVersion :: nat
  ps_lastHeartbeatAt :: "string option"
  ps_lastProgressAt :: "string option"
  ps_lastErrorCode :: "string option"
  ps_processedTotal :: nat
  ps_failedTotal :: nat

definition AUDIT_WORKER_HEARTBEAT_STALE_MS :: int where
  "AUDIT_WORKER_HEARTBEAT_STALE_MS = 300000"

definition heartbeat_fresh :: "runtime \<Rightarrow> string option \<Rightarrow> int \<Rightarrow> bool" where
  "heartbeat_fresh rt heartbeat nowMs =
     (case heartbeat of
        None \<Rightarrow> False
      | Some t \<Rightarrow> t \<noteq> [] \<and> (case date_parse rt t of None \<Rightarrow> False | Some ms \<Rightarrow> nowMs - ms \<le> AUDIT_WORKER_HEARTBEAT_STALE_MS))"

definition settleStaleWorker :: "runtime \<Rightarrow> AuditWorkerPublicState \<Rightarrow> int \<Rightarrow> AuditWorkerPublicState" where
  "settleStaleWorker rt state nowMs =
     (let fresh = heartbeat_fresh rt (ps_lastHeartbeatAt state) nowMs in
      if ps_desiredState state = Want_paused
      then (if ps_observedState state \<in> {Is_paused, Is_faulted} \<or> fresh then state
            else state \<lparr> ps_observedState := Is_paused \<rparr>)
      else if ps_observedState state \<in> {Is_running, Is_pausing} \<and> \<not> fresh
      then state \<lparr> ps_observedState := Is_faulted, ps_lastErrorCode := Some ''AUDIT_WORKER_HEARTBEAT_STALE'' \<rparr>
      else state)"

section \<open>The control rows\<close>

record CallAuditCheckpoint =
  cp_changedAt :: int
  cp_sourceRowId :: int

record ControlRow =
  co_desired :: AuditWorkerDesiredState
  co_observed :: AuditWorkerObservedState
  co_stateVersion :: nat
  co_lastHeartbeatAt :: "int option"
  co_lastProgressAt :: "int option"
  co_lastErrorCode :: "string option"
  co_processedTotal :: nat
  co_failedTotal :: nat
  co_checkpoint :: "CallAuditCheckpoint option"
  co_workSequence :: nat

type_synonym control_table = "AuditSystem \<Rightarrow> ControlRow option"

definition publicState :: "AuditSystem \<Rightarrow> ControlRow \<Rightarrow> AuditWorkerPublicState" where
  "publicState system_id row =
     \<lparr> ps_system = system_id, ps_desiredState = co_desired row, ps_observedState = co_observed row,
       ps_stateVersion = co_stateVersion row, ps_lastHeartbeatAt = map_option toISOString (co_lastHeartbeatAt row),
       ps_lastProgressAt = map_option toISOString (co_lastProgressAt row), ps_lastErrorCode = co_lastErrorCode row,
       ps_processedTotal = co_processedTotal row, ps_failedTotal = co_failedTotal row \<rparr>"

definition readOne :: "AuditSystem \<Rightarrow> control_table \<Rightarrow> AuditWorkerPublicState res" where
  "readOne system_id table =
     (case table system_id of
        None \<Rightarrow> Inl (PlainError ''audit worker control row is unavailable'')
      | Some row \<Rightarrow> Inr (publicState system_id row))"

definition update_control :: "AuditSystem \<Rightarrow> (ControlRow \<Rightarrow> ControlRow) \<Rightarrow> control_table \<Rightarrow> control_table" where
  "update_control system_id f table = table(system_id := map_option f (table system_id))"

text \<open>
  MySQL evaluates the assignments of a single-table \<open>UPDATE\<close> from left to right, so the version compares the
  old desired state.
\<close>

definition desired_row :: "AuditWorkerDesiredState \<Rightarrow> int \<Rightarrow> ControlRow \<Rightarrow> ControlRow" where
  "desired_row desired now row =
     row \<lparr> co_stateVersion := co_stateVersion row + (if co_desired row = desired then 0 else 1),
           co_desired := desired,
           co_observed := (if desired = Want_running then Is_running
                           else if co_observed row \<in> {Is_running, Is_pausing} then Is_pausing else Is_paused),
           co_lastHeartbeatAt := (if desired = Want_running then Some now else co_lastHeartbeatAt row),
           co_lastErrorCode := None \<rparr>"

definition setDesiredState ::
  "js_input \<Rightarrow> js_input \<Rightarrow> int \<Rightarrow> control_table \<Rightarrow> control_table \<times> AuditWorkerPublicState res" where
  "setDesiredState system_in desired_in now table =
     (case parseAuditSystem system_in of
        Inl e \<Rightarrow> (table, Inl e)
      | Inr system_id \<Rightarrow>
          (case parseDesiredState desired_in of
             Inl e \<Rightarrow> (table, Inl e)
           | Inr desired \<Rightarrow>
               let table' = update_control system_id (desired_row desired now) table
               in (table', readOne system_id table')))"

definition safeDelta :: "int option \<Rightarrow> nat res" where
  "safeDelta v =
     (let resolved = coalesce v 0 in
      if \<not> isSafeInteger resolved \<or> resolved < 0
      then Inl (RangeError ''worker counter delta must be a non-negative integer'') else Inr (nat resolved))"

text \<open>\<open>/^[A-Z0-9_]{1,80}$/\<close>.\<close>

definition bounded_error_code :: "string \<Rightarrow> bool" where
  "bounded_error_code c =
     (1 \<le> length c \<and> length c \<le> 80 \<and> list_all (\<lambda>x. (CHR ''A'' \<le> x \<and> x \<le> CHR ''Z'') \<or> is_digit x \<or> x = CHR ''_'') c)"

definition observation_code :: "string option \<Rightarrow> string option res" where
  "observation_code errorCode =
     (case map_option trim errorCode of
        None \<Rightarrow> Inr None
      | Some c \<Rightarrow> if c = [] then Inr None
                  else if bounded_error_code c then Inr (Some c)
                  else Inl (RangeError ''worker error code must be bounded''))"

definition recordObservation ::
  "js_input \<Rightarrow> AuditWorkerObservedState \<Rightarrow> string option \<Rightarrow> int option \<Rightarrow> int option \<Rightarrow> bool \<Rightarrow> int \<Rightarrow>
   control_table \<Rightarrow> control_table res" where
  "recordObservation system_in observed errorCode processedDelta failedDelta progressed now table =
     rbind (parseAuditSystem system_in) (\<lambda>system_id.
     rbind (safeDelta processedDelta) (\<lambda>processed.
     rbind (safeDelta failedDelta) (\<lambda>failed.
     rbind (observation_code errorCode) (\<lambda>code.
     Inr (update_control system_id (\<lambda>row.
       row \<lparr> co_observed := observed, co_lastHeartbeatAt := Some now,
             co_lastProgressAt := (if progressed then Some now else co_lastProgressAt row), co_lastErrorCode := code,
             co_processedTotal := co_processedTotal row + processed,
             co_failedTotal := co_failedTotal row + failed \<rparr>) table)))))"

definition getCallCheckpoint :: "control_table \<Rightarrow> CallAuditCheckpoint option" where
  "getCallCheckpoint table = (case table Call of None \<Rightarrow> None | Some row \<Rightarrow> co_checkpoint row)"

definition initializeCallCheckpoint :: "CallAuditCheckpoint \<Rightarrow> control_table \<Rightarrow> control_table" where
  "initializeCallCheckpoint checkpoint table =
     update_control Call (\<lambda>row. if co_checkpoint row = None then row \<lparr> co_checkpoint := Some checkpoint \<rparr> else row) table"

definition checkpoint_before :: "CallAuditCheckpoint \<Rightarrow> CallAuditCheckpoint \<Rightarrow> bool" where
  "checkpoint_before a b =
     (cp_changedAt a < cp_changedAt b \<or> (cp_changedAt a = cp_changedAt b \<and> cp_sourceRowId a < cp_sourceRowId b))"

definition advanceCallCheckpoint :: "CallAuditCheckpoint \<Rightarrow> int \<Rightarrow> control_table \<Rightarrow> control_table" where
  "advanceCallCheckpoint checkpoint now table =
     update_control Call (\<lambda>row.
       case co_checkpoint row of
         None \<Rightarrow> row
       | Some c \<Rightarrow> if checkpoint_before c checkpoint
                   then row \<lparr> co_checkpoint := Some checkpoint, co_lastProgressAt := Some now \<rparr> else row) table"

text \<open>Without a row there is nothing to count and the connection's last insert id is 0.\<close>

definition nextWorkSequence :: "AuditSystem \<Rightarrow> control_table \<Rightarrow> control_table \<times> nat" where
  "nextWorkSequence system_id table =
     (case table system_id of
        None \<Rightarrow> (table, 0)
      | Some row \<Rightarrow> (update_control system_id (\<lambda>r. r \<lparr> co_workSequence := co_workSequence r + 1 \<rparr>) table, co_workSequence row + 1))"

section \<open>Failures\<close>

datatype ReauditPhase = Phase_claim | Phase_processor | Phase_persist | Phase_progress | Phase_pool_acquisition

datatype ReauditErrorCategory =
    DB_CONNECTION_LIMIT | DB_CONNECTION_TIMEOUT | DB_LOCK_TIMEOUT | DB_DEADLOCK | DB_CONSTRAINT | DB_UNKNOWN
  | WORKER_LOCK_BUSY | WORKER_LIFECYCLE

text \<open>What a thrown value shows of itself.\<close>

record RawErrorShape =
  es_rangeError :: bool
  es_code :: "string option"
  es_errno :: "int option"
  es_sqlState :: "string option"
  es_poolPhase :: bool

datatype thrown = Fatal ReauditPhase ReauditErrorCategory | Raw RawErrorShape

definition MYSQL_CODE_CATEGORIES :: "(string \<times> ReauditErrorCategory) list" where
  "MYSQL_CODE_CATEGORIES =
     [(''ER_CON_COUNT_ERROR'', DB_CONNECTION_LIMIT), (''ER_TOO_MANY_USER_CONNECTIONS'', DB_CONNECTION_LIMIT),
      (''ER_USER_LIMIT_REACHED'', DB_CONNECTION_LIMIT), (''ER_CONNECT_TIMEOUT'', DB_CONNECTION_TIMEOUT),
      (''ETIMEDOUT'', DB_CONNECTION_TIMEOUT), (''ECONNREFUSED'', DB_CONNECTION_TIMEOUT),
      (''ECONNRESET'', DB_CONNECTION_TIMEOUT), (''EPIPE'', DB_CONNECTION_TIMEOUT),
      (''PROTOCOL_CONNECTION_LOST'', DB_CONNECTION_TIMEOUT), (''ER_LOCK_WAIT_TIMEOUT'', DB_LOCK_TIMEOUT),
      (''ER_LOCK_DEADLOCK'', DB_DEADLOCK), (''ER_DUP_ENTRY'', DB_CONSTRAINT),
      (''ER_NO_REFERENCED_ROW_2'', DB_CONSTRAINT), (''ER_ROW_IS_REFERENCED_2'', DB_CONSTRAINT),
      (''ER_BAD_NULL_ERROR'', DB_CONSTRAINT)]"

definition category_of_errno :: "RawErrorShape \<Rightarrow> ReauditErrorCategory" where
  "category_of_errno e =
     (case es_errno e of
        None \<Rightarrow> DB_UNKNOWN
      | Some n \<Rightarrow>
          if n = 1205 then DB_LOCK_TIMEOUT
          else if n = 1213 then DB_DEADLOCK
          else if es_sqlState e = Some ''HY000'' \<and> n = 1040 then DB_CONNECTION_LIMIT
          else if n \<ge> 1000 \<and> n < 2100 then DB_CONSTRAINT
          else DB_UNKNOWN)"

definition classifyErrorCategory :: "RawErrorShape \<Rightarrow> ReauditErrorCategory" where
  "classifyErrorCategory e =
     (if es_rangeError e \<or> es_code e = Some ''REAUDIT_ITEM_STATE_CONFLICT'' \<or> es_code e = Some ''REAUDIT_QUEUE_UNAVAILABLE''
      then WORKER_LIFECYCLE
      else case Option.bind (es_code e) (map_of MYSQL_CODE_CATEGORIES) of
             Some c \<Rightarrow> c
           | None \<Rightarrow> category_of_errno e)"

definition asReauditFatalError :: "ReauditPhase \<Rightarrow> thrown \<Rightarrow> ReauditPhase \<times> ReauditErrorCategory" where
  "asReauditFatalError phase e =
     (case e of
        Fatal p c \<Rightarrow> (p, c)
      | Raw r \<Rightarrow> (if es_poolPhase r then Phase_pool_acquisition else phase, classifyErrorCategory r))"

section \<open>Drain decisions\<close>

datatype DrainStopReason = Drained | Deadline | Deferred_beyond_horizon
datatype DrainContinuation = Continue | Wait int | Stop DrainStopReason

text \<open>A number of milliseconds that may be null or not finite.\<close>

datatype due_in = No_deferred | Due rat | Not_finite

record DrainContinuationInput =
  di_selected :: int
  di_deferredDueInMs :: due_in
  di_remainingMs :: int
  di_maxWaitMs :: int
  di_horizonMs :: int

definition not_positive :: "string \<Rightarrow> int \<Rightarrow> bool \<times> js_error" where
  "not_positive field v = (\<not> isSafeInteger v \<or> v < 1, RangeError (field @ '' must be a positive integer''))"

definition decide_drain :: "DrainContinuationInput \<Rightarrow> DrainContinuation" where
  "decide_drain i =
     (if di_remainingMs i \<le> 0 then Stop Deadline
      else if di_selected i > 0 then Continue
      else case di_deferredDueInMs i of
             Due due \<Rightarrow>
               if due \<le> 0 then Continue
               else if due > of_int (di_horizonMs i) then Stop Deferred_beyond_horizon
               else if due \<ge> of_int (di_remainingMs i) then Stop Deadline
               else Wait (max 1 \<lceil>min (min due (of_int (di_maxWaitMs i))) (of_int (di_remainingMs i))\<rceil>)
           | _ \<Rightarrow> Stop Drained)"

definition decideDrainContinuation :: "DrainContinuationInput \<Rightarrow> DrainContinuation res" where
  "decideDrainContinuation i =
     rbind (first_error
       [(\<not> isSafeInteger (di_selected i) \<or> di_selected i < 0, RangeError ''selected must be a non-negative integer''),
        not_positive ''maxWaitMs'' (di_maxWaitMs i), not_positive ''horizonMs'' (di_horizonMs i),
        (di_deferredDueInMs i = Not_finite, RangeError ''deferredDueInMs must be a finite number or null'')]) (\<lambda>_.
     Inr (decide_drain i))"

definition isRetryableInfrastructureCategory :: "ReauditErrorCategory \<Rightarrow> bool" where
  "isRetryableInfrastructureCategory c =
     (c \<in> {DB_CONNECTION_LIMIT, DB_CONNECTION_TIMEOUT, DB_LOCK_TIMEOUT, DB_DEADLOCK})"

datatype BatchFaultResponse = Retry_after int | Stop_run

record BatchFaultInput =
  bf_category :: ReauditErrorCategory
  bf_consecutiveFaults :: int
  bf_maxConsecutiveFaults :: int
  bf_remainingMs :: int
  bf_baseBackoffMs :: int
  bf_maxBackoffMs :: int

definition decide_fault :: "BatchFaultInput \<Rightarrow> BatchFaultResponse" where
  "decide_fault i =
     (if \<not> isRetryableInfrastructureCategory (bf_category i) then Stop_run
      else if bf_consecutiveFaults i \<ge> bf_maxConsecutiveFaults i then Stop_run
      else if bf_remainingMs i \<le> 0 then Stop_run
      else let exponential = bf_baseBackoffMs i * 2 ^ nat (min (bf_consecutiveFaults i - 1) 20)
           in Retry_after (max 1 (min (min exponential (bf_maxBackoffMs i)) (bf_remainingMs i))))"

definition decideBatchFaultResponse :: "BatchFaultInput \<Rightarrow> BatchFaultResponse res" where
  "decideBatchFaultResponse i =
     rbind (first_error
       [not_positive ''maxConsecutiveFaults'' (bf_maxConsecutiveFaults i), not_positive ''baseBackoffMs'' (bf_baseBackoffMs i),
        not_positive ''maxBackoffMs'' (bf_maxBackoffMs i),
        (\<not> isSafeInteger (bf_consecutiveFaults i) \<or> bf_consecutiveFaults i < 1,
         RangeError ''consecutiveFaults must be a positive integer'')]) (\<lambda>_.
     Inr (decide_fault i))"

section \<open>The billing lock\<close>

text \<open>
  Attempt \<open>k\<close> succeeds when \<open>tryAcquire k\<close>; \<open>clock k\<close> is the time read after it. The loop runs on fuel.
\<close>

fun lock_loop :: "nat \<Rightarrow> (nat \<Rightarrow> bool) \<Rightarrow> (nat \<Rightarrow> int) \<Rightarrow> int \<Rightarrow> int \<Rightarrow> nat \<Rightarrow> bool option" where
  "lock_loop 0 tryAcquire clock startedAt timeoutMs k = None"
| "lock_loop (Suc fuel) tryAcquire clock startedAt timeoutMs k =
     (if tryAcquire k then Some True
      else if timeoutMs - (clock k - startedAt) \<le> 0 then Some False
      else lock_loop fuel tryAcquire clock startedAt timeoutMs (Suc k))"

definition lock_wait :: "int \<Rightarrow> int \<Rightarrow> int \<Rightarrow> int" where
  "lock_wait timeoutMs retryMs elapsed = min retryMs (timeoutMs - elapsed)"

definition acquireBillingAuditLock ::
  "nat \<Rightarrow> (nat \<Rightarrow> bool) \<Rightarrow> (nat \<Rightarrow> int) \<Rightarrow> int \<Rightarrow> int \<Rightarrow> int \<Rightarrow> bool option res" where
  "acquireBillingAuditLock fuel tryAcquire clock startedAt timeoutMs retryMs =
     rbind (first_error
       [(\<not> isSafeInteger timeoutMs \<or> timeoutMs < 0, RangeError ''lock timeout must be a non-negative integer''),
        (\<not> isSafeInteger retryMs \<or> retryMs < 1, RangeError ''lock retry must be a positive integer'')]) (\<lambda>_.
     Inr (lock_loop fuel tryAcquire clock startedAt timeoutMs 0))"

section \<open>The control rows only move forward\<close>

datatype control_op =
    Set_desired js_input js_input int
  | Observe js_input AuditWorkerObservedState "string option" "int option" "int option" bool int
  | Initialize_checkpoint CallAuditCheckpoint
  | Advance_checkpoint CallAuditCheckpoint int
  | Next_sequence AuditSystem

fun control_exec :: "control_op \<Rightarrow> control_table \<Rightarrow> control_table" where
  "control_exec (Set_desired y d now) table = fst (setDesiredState y d now table)"
| "control_exec (Observe y ob code p f g now) table =
     (case recordObservation y ob code p f g now table of Inl _ \<Rightarrow> table | Inr t \<Rightarrow> t)"
| "control_exec (Initialize_checkpoint c) table = initializeCallCheckpoint c table"
| "control_exec (Advance_checkpoint c now) table = advanceCallCheckpoint c now table"
| "control_exec (Next_sequence y) table = fst (nextWorkSequence y table)"

text \<open>The sequence numbers a system was given.\<close>

fun sequences :: "AuditSystem \<Rightarrow> control_op list \<Rightarrow> control_table \<Rightarrow> nat list" where
  "sequences y [] table = []"
| "sequences y (op # ops) table =
     (if op = Next_sequence y then [snd (nextWorkSequence y table)] else []) @ sequences y ops (control_exec op table)"

definition checkpoint_grows :: "CallAuditCheckpoint option \<Rightarrow> CallAuditCheckpoint option \<Rightarrow> bool" where
  "checkpoint_grows a b = (a = None \<or> a = b \<or> (b \<noteq> None \<and> checkpoint_before (the a) (the b)))"

definition row_grows :: "ControlRow \<Rightarrow> ControlRow \<Rightarrow> bool" where
  "row_grows a b \<longleftrightarrow>
     co_stateVersion a \<le> co_stateVersion b \<and> co_workSequence a \<le> co_workSequence b \<and> co_processedTotal a \<le> co_processedTotal b \<and>
     co_failedTotal a \<le> co_failedTotal b \<and> checkpoint_grows (co_checkpoint a) (co_checkpoint b)"

lemma checkpoint_grows_trans: "checkpoint_grows a b \<Longrightarrow> checkpoint_grows b c \<Longrightarrow> checkpoint_grows a c"
  by (auto simp: checkpoint_grows_def checkpoint_before_def)

lemma row_grows_trans: "row_grows a b \<Longrightarrow> row_grows b c \<Longrightarrow> row_grows a c"
  by (auto simp: row_grows_def intro: checkpoint_grows_trans)

lemma row_grows_refl [simp]: "row_grows a a"
  by (simp add: row_grows_def checkpoint_grows_def)

lemma update_control_at: "table y = Some row \<Longrightarrow> update_control z f table y = Some (if z = y then f row else row)"
  by (auto simp: update_control_def)

lemma control_exec_row:
  assumes "table y = Some row"
  obtains row' where "control_exec op table y = Some row'" "row_grows row row'"
    "co_workSequence row' = co_workSequence row + (if op = Next_sequence y then 1 else 0)"
proof (cases op)
  case (Set_desired a d now)
  with assms that show ?thesis
    by (cases "parseAuditSystem a"; cases "parseDesiredState d")
      (auto simp: setDesiredState_def Let_def update_control_at[of table y row, OF assms] desired_row_def row_grows_def checkpoint_grows_def)
next
  case (Observe a ob code p f g now)
  show ?thesis
  proof (cases "recordObservation a ob code p f g now table")
    case (Inl e)
    with assms that Observe show ?thesis by simp
  next
    case (Inr t)
    with Observe assms that show ?thesis
      by (auto simp: recordObservation_def rbind_Inr_iff update_control_at[of table y row, OF assms] row_grows_def checkpoint_grows_def)
  qed
next
  case (Initialize_checkpoint c)
  with assms that show ?thesis
    by (auto simp: initializeCallCheckpoint_def update_control_at[of table y row, OF assms] row_grows_def checkpoint_grows_def)
next
  case (Advance_checkpoint c now)
  with assms that show ?thesis
    by (auto simp: advanceCallCheckpoint_def update_control_at[of table y row, OF assms] row_grows_def checkpoint_grows_def split: option.splits)
next
  case (Next_sequence z)
  with assms that show ?thesis
    by (cases "table z"; cases "z = y")
      (auto simp: nextWorkSequence_def update_control_at[of table y row, OF assms] row_grows_def checkpoint_grows_def)
qed

lemma control_run_row:
  assumes "table y = Some row"
  shows "\<exists>row'. fold control_exec ops table y = Some row' \<and> row_grows row row' \<and>
     sequences y ops table = [Suc (co_workSequence row) ..< Suc (co_workSequence row')]"
  using assms
proof (induction ops arbitrary: table row)
  case (Cons op ops)
  obtain row1 where r1: "control_exec op table y = Some row1" "row_grows row row1"
    "co_workSequence row1 = co_workSequence row + (if op = Next_sequence y then 1 else 0)"
    by (rule control_exec_row[of table y row op, OF Cons.prems])
  from Cons.IH[of "control_exec op table" row1, OF r1(1)] obtain row2 where r2: "fold control_exec ops (control_exec op table) y = Some row2" "row_grows row1 row2"
    "sequences y ops (control_exec op table) = [Suc (co_workSequence row1) ..< Suc (co_workSequence row2)]" by blast
  have up: "co_workSequence row1 \<le> co_workSequence row2" using r2(2) by (simp add: row_grows_def)
  have "sequences y (op # ops) table = [Suc (co_workSequence row) ..< Suc (co_workSequence row2)]"
    using Cons.prems r1(3) r2(3) up by (auto simp: nextWorkSequence_def upt_conv_Cons)
  with r1 r2 show ?case using row_grows_trans by auto
qed simp

text \<open>
  C24. The control plane never goes back. Whatever operators and workers do, a system's state version and
  its totals do not decrease, the call checkpoint, once set, only moves to later changes or to a later row of
  the same time, and the work sequence hands out consecutive numbers, none of them twice.
\<close>
theorem worker_control_monotone:
  assumes "table y = Some row"
  shows "\<exists>row'. fold control_exec ops table y = Some row' \<and> row_grows row row' \<and>
     sequences y ops table = [Suc (co_workSequence row) ..< Suc (co_workSequence row')] \<and> distinct (sequences y ops table)"
  using control_run_row[of table y row ops, OF assms] by auto

definition demo_control :: control_table where
  "demo_control = (\<lambda>_. Some \<lparr> co_desired = Want_running, co_observed = Is_idle, co_stateVersion = 1, co_lastHeartbeatAt = None,
     co_lastProgressAt = None, co_lastErrorCode = None, co_processedTotal = 0, co_failedTotal = 0,
     co_checkpoint = Some \<lparr> cp_changedAt = 5, cp_sourceRowId = 2 \<rparr>, co_workSequence = 7 \<rparr>)"

text \<open>An advance to an earlier change is ignored.\<close>
theorem worker_control_monotone_witness:
  "\<exists>row row'. demo_control Call = Some row \<and>
     fold control_exec [Next_sequence Call, Advance_checkpoint \<lparr> cp_changedAt = 4, cp_sourceRowId = 9 \<rparr> 0, Next_sequence Call]
       demo_control Call = Some row' \<and> row_grows row row' \<and> co_checkpoint row' = co_checkpoint row \<and>
     sequences Call [Next_sequence Call, Next_sequence Call] demo_control = [8, 9]"
proof -
  obtain row where row: "demo_control Call = Some row" by (simp add: demo_control_def)
  show ?thesis
    using worker_control_monotone[of demo_control Call row, OF row, of "[Next_sequence Call, Advance_checkpoint \<lparr> cp_changedAt = 4, cp_sourceRowId = 9 \<rparr> 0, Next_sequence Call]"] row
    by (auto simp: demo_control_def nextWorkSequence_def update_control_def advanceCallCheckpoint_def checkpoint_before_def)
qed

section \<open>A drain stops only when it is done\<close>

text \<open>What justifies a decision.\<close>

fun drain_justified :: "DrainContinuationInput \<Rightarrow> DrainContinuation \<Rightarrow> bool" where
  "drain_justified i Continue =
     (0 < di_remainingMs i \<and> (0 < di_selected i \<or> (\<exists>due. di_deferredDueInMs i = Due due \<and> due \<le> 0)))"
| "drain_justified i (Wait ms) =
     (1 \<le> ms \<and> ms \<le> di_maxWaitMs i \<and> ms \<le> di_remainingMs i \<and> di_selected i = 0 \<and>
      (\<exists>due. di_deferredDueInMs i = Due due \<and> 0 < due \<and> of_int ms < due + 1))"
| "drain_justified i (Stop Drained) = (di_selected i = 0 \<and> di_deferredDueInMs i = No_deferred)"
| "drain_justified i (Stop Deadline) =
     (di_remainingMs i \<le> 0 \<or> (\<exists>due. di_deferredDueInMs i = Due due \<and> of_int (di_remainingMs i) \<le> due \<and> di_selected i = 0))"
| "drain_justified i (Stop Deferred_beyond_horizon) =
     (di_selected i = 0 \<and> (\<exists>due. di_deferredDueInMs i = Due due \<and> of_int (di_horizonMs i) < due))"

fun fault_justified :: "BatchFaultInput \<Rightarrow> BatchFaultResponse \<Rightarrow> bool" where
  "fault_justified f Stop_run =
     (\<not> isRetryableInfrastructureCategory (bf_category f) \<or> bf_maxConsecutiveFaults f \<le> bf_consecutiveFaults f \<or> bf_remainingMs f \<le> 0)"
| "fault_justified f (Retry_after ms) =
     (isRetryableInfrastructureCategory (bf_category f) \<and> bf_consecutiveFaults f < bf_maxConsecutiveFaults f \<and>
      1 \<le> ms \<and> ms \<le> bf_maxBackoffMs f \<and> ms \<le> bf_remainingMs f)"

lemma drain_decision:
  assumes "decideDrainContinuation i = Inr d"
  shows "drain_justified i d"
proof -
  have i: "0 \<le> di_selected i" "1 \<le> di_maxWaitMs i" "di_deferredDueInMs i \<noteq> Not_finite" "d = decide_drain i"
    using assms by (auto simp: decideDrainContinuation_def rbind_Inr_iff first_error_Inr not_positive_def simp del: first_error.simps)
  have up: "x \<le> of_int n \<Longrightarrow> \<lceil>x\<rceil> \<le> n" for x :: rat and n by (simp add: ceiling_le_iff)
  show ?thesis
  proof (cases "di_deferredDueInMs i")
    case (Due due)
    define m where "m = min (min due (of_int (di_maxWaitMs i))) (of_int (di_remainingMs i))"
    have "\<lceil>m\<rceil> \<le> di_maxWaitMs i" "\<lceil>m\<rceil> \<le> di_remainingMs i" by (simp_all add: up m_def)
    moreover have "of_int \<lceil>m\<rceil> < due + 1"
    proof -
      have "of_int \<lceil>m\<rceil> < m + 1" using ceiling_correct[of m] by linarith
      then show ?thesis by (simp add: m_def min_def split: if_splits)
    qed
    ultimately show ?thesis using i Due by (auto simp: decide_drain_def m_def[symmetric] max_def)
  qed (use i in \<open>auto simp: decide_drain_def\<close>)
qed

text \<open>
  A drain that may continue stops for one of three reasons: its deadline passed or the next deferred call
  is due after it, nothing is eligible and nothing is deferred, or the deferred work is due beyond the
  horizon. Otherwise it goes on at once or waits at least one millisecond, no longer than the poll
  interval, the remaining time, or the deferred call needs. A failed batch is retried only for contention or
  connectivity, less often than the limit, and within the backoff cap.
\<close>
theorem drain_stops_only_when_done:
  assumes "decideDrainContinuation i = Inr d" "decideBatchFaultResponse f = Inr r"
  shows "drain_justified i d \<and> fault_justified f r"
  using drain_decision[OF assms(1)] assms(2)
  by (auto simp: decideBatchFaultResponse_def decide_fault_def rbind_Inr_iff first_error_Inr not_positive_def Let_def
      simp del: first_error.simps)

definition demo_drain :: DrainContinuationInput where
  "demo_drain = \<lparr> di_selected = 0, di_deferredDueInMs = Due (5 / 2), di_remainingMs = 1000, di_maxWaitMs = 100, di_horizonMs = 600 \<rparr>"

definition demo_fault :: BatchFaultInput where
  "demo_fault = \<lparr> bf_category = DB_DEADLOCK, bf_consecutiveFaults = 3, bf_maxConsecutiveFaults = 5, bf_remainingMs = 1000,
     bf_baseBackoffMs = 10, bf_maxBackoffMs = 30 \<rparr>"

text \<open>Two and a half milliseconds are waited out in three; the third deadlock backs off to the cap.\<close>
theorem drain_stops_only_when_done_witness:
  "decideDrainContinuation demo_drain = Inr (Wait 3) \<and> decideBatchFaultResponse demo_fault = Inr (Retry_after 30) \<and>
   drain_justified demo_drain (Wait 3) \<and> fault_justified demo_fault (Retry_after 30)"
proof -
  have d: "decideDrainContinuation demo_drain = Inr (Wait 3)"
    by (simp add: decideDrainContinuation_def decide_drain_def demo_drain_def not_positive_def isSafeInteger_def MAX_SAFE_INTEGER_def) code_simp
  have f: "decideBatchFaultResponse demo_fault = Inr (Retry_after 30)"
    by (simp add: decideBatchFaultResponse_def decide_fault_def demo_fault_def not_positive_def isSafeInteger_def MAX_SAFE_INTEGER_def
        isRetryableInfrastructureCategory_def Let_def)
  from d f drain_stops_only_when_done[OF d f] show ?thesis by blast
qed

section \<open>The wait for the billing lock ends\<close>

lemma lock_loop_returns:
  assumes "\<And>j. clock j + lock_wait timeoutMs retryMs (clock j - startedAt) \<le> clock (Suc j) \<or> timeoutMs \<le> clock j - startedAt"
    and "1 \<le> retryMs" "timeoutMs \<le> clock k - startedAt + int fuel"
  shows "\<exists>b n. lock_loop (Suc fuel) tryAcquire clock startedAt timeoutMs k = Some b \<and> b = tryAcquire n \<and> k \<le> n \<and> n \<le> k + fuel \<and>
     (\<forall>j. k \<le> j \<and> j < n \<longrightarrow> \<not> tryAcquire j \<and> clock j - startedAt < timeoutMs) \<and> (\<not> b \<longrightarrow> timeoutMs \<le> clock n - startedAt)"
  using assms(3)
proof (induction fuel arbitrary: k)
  case 0
  then show ?case by (intro exI[of _ "tryAcquire k"] exI[of _ k]) auto
next
  case (Suc fuel)
  show ?case
  proof (cases "tryAcquire k \<or> timeoutMs \<le> clock k - startedAt")
    case True
    then show ?thesis by (intro exI[of _ "tryAcquire k"] exI[of _ k]) auto
  next
    case False
    then have "clock k + 1 \<le> clock (Suc k)" using assms(1)[of k] assms(2) by (auto simp: lock_wait_def min_def split: if_splits)
    then have "timeoutMs \<le> clock (Suc k) - startedAt + int fuel" using Suc.prems by simp
    from Suc.IH[OF this] obtain b n where n: "lock_loop (Suc fuel) tryAcquire clock startedAt timeoutMs (Suc k) = Some b" "b = tryAcquire n"
      "Suc k \<le> n" "n \<le> Suc k + fuel" "\<not> b \<longrightarrow> timeoutMs \<le> clock n - startedAt"
      and before: "\<forall>j. Suc k \<le> j \<and> j < n \<longrightarrow> \<not> tryAcquire j \<and> clock j - startedAt < timeoutMs" by blast
    have "\<not> tryAcquire j \<and> clock j - startedAt < timeoutMs" if "k \<le> j" "j < n" for j
      using that before False by (cases "j = k") auto
    moreover have "lock_loop (Suc (Suc fuel)) tryAcquire clock startedAt timeoutMs k = Some b"
      using False n(1) by (subst lock_loop.simps(2)) auto
    ultimately show ?thesis using n by (intro exI[of _ b] exI[of _ n]) (auto simp del: lock_loop.simps)
  qed
qed

text \<open>
  The wait for the billing lock always ends: if the clock advances by at least each wait, then within
  one attempt per millisecond of the timeout and one more it returns. It returns true exactly when the last
  attempt got the lock, gives up only when the timeout has passed, and every earlier attempt failed before
  the timeout.
\<close>
theorem billing_lock_wait_ends:
  assumes "\<And>j. clock j + lock_wait timeoutMs retryMs (clock j - startedAt) \<le> clock (Suc j) \<or> timeoutMs \<le> clock j - startedAt"
    and "startedAt \<le> clock 0" "isSafeInteger timeoutMs" "0 \<le> timeoutMs" "isSafeInteger retryMs" "1 \<le> retryMs"
  shows "\<exists>b n. acquireBillingAuditLock (Suc (nat timeoutMs)) tryAcquire clock startedAt timeoutMs retryMs = Inr (Some b) \<and>
     b = tryAcquire n \<and> n \<le> nat timeoutMs \<and> (\<not> b \<longrightarrow> timeoutMs \<le> clock n - startedAt) \<and>
     (\<forall>j. j < n \<longrightarrow> \<not> tryAcquire j \<and> clock j - startedAt < timeoutMs)"
proof -
  have "timeoutMs \<le> clock 0 - startedAt + int (nat timeoutMs)" using assms(2,4) by simp
  from lock_loop_returns[OF assms(1,6) this, of tryAcquire] assms show ?thesis
    by (auto simp: acquireBillingAuditLock_def simp del: lock_loop.simps)
qed

text \<open>A clock that advances by five milliseconds a try and a lock that is never free: the third try gives up.\<close>
theorem billing_lock_wait_ends_witness:
  "\<exists>b n. acquireBillingAuditLock 11 (\<lambda>_. False) (\<lambda>k. 5 * int k) 0 10 5 = Inr (Some b) \<and> \<not> b \<and> n \<le> 10 \<and> 10 \<le> 5 * int n"
proof -
  have "5 * int j + lock_wait 10 5 (5 * int j - 0) \<le> 5 * int (Suc j) \<or> 10 \<le> 5 * int j - 0" for j by (simp add: lock_wait_def)
  from billing_lock_wait_ends[of "\<lambda>k. 5 * int k" 10 5 0 "\<lambda>_. False", OF this] show ?thesis
    by (simp add: isSafeInteger_def MAX_SAFE_INTEGER_def del: lock_loop.simps) blast
qed

end
