(* ===== verification/CallScore.thy ===== *)
theory CallScore
  imports Runtime "HOL-Library.Multiset"
begin

text \<open>
  The domain of the transcript-based call audit: which calls can be assessed, intents, metric scores and the
  weighted overall score, the Task ID and the outcome taxonomy (\<open>types.ts\<close>, \<open>eligibility.ts\<close>,
  \<open>intent.ts\<close>, \<open>metricScore.ts\<close>, \<open>rubric.ts\<close>, \<open>overallScore.ts\<close>, \<open>taskId.ts\<close>, \<open>display.ts\<close> and \<open>outcomes.ts\<close>
  under \<open>src/src/callaudit\<close>). An untrusted value is a JSON value; a number that is not an integer is no score
  and is not represented.
\<close>

section \<open>Eligibility, intent and display\<close>

datatype CallAuditEligibility = Content_auditable | Operational_only

definition hasAuditableTranscript :: "string option \<Rightarrow> bool" where
  "hasAuditableTranscript transcript = (case transcript of None \<Rightarrow> False | Some t \<Rightarrow> trim t \<noteq> [])"

definition classifyEligibility :: "string option \<Rightarrow> CallAuditEligibility" where
  "classifyEligibility transcript = (if hasAuditableTranscript transcript then Content_auditable else Operational_only)"

datatype CallIntent = HIGH | WARM | LOW | NONE

fun intent_text :: "CallIntent \<Rightarrow> string" where
  "intent_text HIGH = ''HIGH''"
| "intent_text WARM = ''WARM''"
| "intent_text LOW = ''LOW''"
| "intent_text NONE = ''NONE''"

definition CALL_INTENTS :: "CallIntent list" where
  "CALL_INTENTS = [HIGH, WARM, LOW, NONE]"

definition toUpperCase :: "string \<Rightarrow> string" where
  "toUpperCase s = map (\<lambda>c. if CHR ''a'' \<le> c \<and> c \<le> CHR ''z'' then char_of ((of_char c :: nat) - 32) else c) s"

definition parseCallIntent :: "json \<Rightarrow> CallIntent option" where
  "parseCallIntent v =
     (case v of JStr s \<Rightarrow> find (\<lambda>i. intent_text i = toUpperCase (trim s)) CALL_INTENTS | _ \<Rightarrow> None)"

definition extractTaskId :: "string option \<Rightarrow> string option" where
  "extractTaskId leadId =
     (case leadId of
        None \<Rightarrow> None
      | Some l \<Rightarrow>
          if trim l = [] then None
          else let taskId = trim (rev (takeWhile (\<lambda>c. c \<noteq> CHR ''-'') (rev (trim l))))
               in if taskId = [] then None else Some taskId)"

record CallAuditSourceRow =
  sr_callId :: string
  sr_leadId :: "string option"
  sr_calledAt :: "string option"
  sr_durationSeconds :: "int option"
  sr_clientName :: "string option"
  sr_mobile :: "string option"
  sr_email :: "string option"
  sr_transcriptionViewUrl :: "string option"
  sr_transcript :: "string option"

record CallAuditDisplay =
  dy_callId :: string
  dy_calledAt :: "string option"
  dy_durationSeconds :: "int option"
  dy_taskId :: "string option"
  dy_caller :: string
  dy_eligibility :: CallAuditEligibility
  dy_hasTranscript :: bool

definition KSERVE_AI_CALLER_NAME :: string where
  "KSERVE_AI_CALLER_NAME = ''Saanvi''"

definition toCallAuditDisplay :: "CallAuditSourceRow \<Rightarrow> CallAuditDisplay" where
  "toCallAuditDisplay row =
     \<lparr> dy_callId = sr_callId row, dy_calledAt = sr_calledAt row, dy_durationSeconds = sr_durationSeconds row,
       dy_taskId = extractTaskId (sr_leadId row), dy_caller = KSERVE_AI_CALLER_NAME,
       dy_eligibility = classifyEligibility (sr_transcript row), dy_hasTranscript = hasAuditableTranscript (sr_transcript row) \<rparr>"

section \<open>Metric scores and the rubric\<close>

datatype MetricScore = NA | Score nat

definition isMetricScore :: "json \<Rightarrow> bool" where
  "isMetricScore v = (case v of JStr s \<Rightarrow> s = ''NA'' | JNum n \<Rightarrow> n \<in> {1, 2, 3, 4, 5} | _ \<Rightarrow> False)"

definition metric_score :: "json \<Rightarrow> MetricScore option" where
  "metric_score v =
     (if isMetricScore v then (case v of JNum n \<Rightarrow> Some (Score (nat n)) | _ \<Rightarrow> Some NA) else None)"

text \<open>Text is accepted here too: \<open>/^[1-5]$/\<close> or \<open>NA\<close> in any letter case, after trimming.\<close>

definition parseMetricScore :: "json \<Rightarrow> MetricScore option" where
  "parseMetricScore v =
     (case v of
        JNum n \<Rightarrow> metric_score v
      | JStr s \<Rightarrow>
          let trimmed = trim s in
          if trimmed = [] then None
          else if toUpperCase trimmed = ''NA'' then Some NA
          else if length trimmed = 1 \<and> CHR ''1'' \<le> hd trimmed \<and> hd trimmed \<le> CHR ''5''
          then Some (Score (nat_of_digits trimmed)) else None
      | _ \<Rightarrow> None)"

datatype CallAuditMetricCode =
    PRODUCT_SERVICE_KNOWLEDGE | CUSTOMER_UNDERSTANDING | COMMUNICATION_CLARITY | OBJECTION_CALLBACK_HANDLING
  | CLOSING_NEXT_STEP | PROFESSIONALISM | QUALIFICATION_COMPLETENESS | COMPLIANCE_PRIVACY

fun metric_text :: "CallAuditMetricCode \<Rightarrow> string" where
  "metric_text PRODUCT_SERVICE_KNOWLEDGE = ''PRODUCT_SERVICE_KNOWLEDGE''"
| "metric_text CUSTOMER_UNDERSTANDING = ''CUSTOMER_UNDERSTANDING''"
| "metric_text COMMUNICATION_CLARITY = ''COMMUNICATION_CLARITY''"
| "metric_text OBJECTION_CALLBACK_HANDLING = ''OBJECTION_CALLBACK_HANDLING''"
| "metric_text CLOSING_NEXT_STEP = ''CLOSING_NEXT_STEP''"
| "metric_text PROFESSIONALISM = ''PROFESSIONALISM''"
| "metric_text QUALIFICATION_COMPLETENESS = ''QUALIFICATION_COMPLETENESS''"
| "metric_text COMPLIANCE_PRIVACY = ''COMPLIANCE_PRIVACY''"

definition CALL_AUDIT_METRIC_CODES :: "CallAuditMetricCode list" where
  "CALL_AUDIT_METRIC_CODES =
     [PRODUCT_SERVICE_KNOWLEDGE, CUSTOMER_UNDERSTANDING, COMMUNICATION_CLARITY, OBJECTION_CALLBACK_HANDLING,
      CLOSING_NEXT_STEP, PROFESSIONALISM, QUALIFICATION_COMPLETENESS, COMPLIANCE_PRIVACY]"

record CallAuditMetricDefinition =
  md_code :: CallAuditMetricCode
  md_weight :: nat
  md_naAllowedWhenCustomerSpoke :: bool
  md_naReason :: "string option"

definition CALL_AUDIT_RUBRIC :: "CallAuditMetricDefinition list" where
  "CALL_AUDIT_RUBRIC =
     [\<lparr> md_code = PRODUCT_SERVICE_KNOWLEDGE, md_weight = 15, md_naAllowedWhenCustomerSpoke = True,
        md_naReason = Some ''no product or service explanation occurred'' \<rparr>,
      \<lparr> md_code = CUSTOMER_UNDERSTANDING, md_weight = 20, md_naAllowedWhenCustomerSpoke = False, md_naReason = None \<rparr>,
      \<lparr> md_code = COMMUNICATION_CLARITY, md_weight = 15, md_naAllowedWhenCustomerSpoke = False, md_naReason = None \<rparr>,
      \<lparr> md_code = OBJECTION_CALLBACK_HANDLING, md_weight = 10, md_naAllowedWhenCustomerSpoke = True,
        md_naReason = Some ''no objection or callback request occurred'' \<rparr>,
      \<lparr> md_code = CLOSING_NEXT_STEP, md_weight = 10, md_naAllowedWhenCustomerSpoke = False, md_naReason = None \<rparr>,
      \<lparr> md_code = PROFESSIONALISM, md_weight = 10, md_naAllowedWhenCustomerSpoke = False, md_naReason = None \<rparr>,
      \<lparr> md_code = QUALIFICATION_COMPLETENESS, md_weight = 15, md_naAllowedWhenCustomerSpoke = False, md_naReason = None \<rparr>,
      \<lparr> md_code = COMPLIANCE_PRIVACY, md_weight = 5, md_naAllowedWhenCustomerSpoke = False, md_naReason = None \<rparr>]"

definition metricWeight :: "CallAuditMetricCode \<Rightarrow> nat" where
  "metricWeight code = coalesce (map_of (map (\<lambda>m. (md_code m, md_weight m)) CALL_AUDIT_RUBRIC) code) 0"

definition metric_code :: "json \<Rightarrow> CallAuditMetricCode option" where
  "metric_code v = (case v of JStr s \<Rightarrow> find (\<lambda>c. metric_text c = s) CALL_AUDIT_METRIC_CODES | _ \<Rightarrow> None)"

section \<open>The overall score\<close>

definition divideHalfUpScaled :: "int \<Rightarrow> int \<Rightarrow> int res" where
  "divideHalfUpScaled numerator denominator =
     (if denominator \<le> 0 then Inl (CallAuditScoringError ''Applicable weight total must be positive'')
      else let scaled = numerator * 1000; quotient = scaled div denominator; remainder = scaled mod denominator
           in Inr (if remainder * 2 \<ge> denominator then quotient + 1 else quotient))"

definition formatScaled :: "int \<Rightarrow> string" where
  "formatScaled scaled =
     string_of_int (scaled div 1000) @ ''.'' @ padStart 3 (CHR ''0'') (string_of_int (scaled mod 1000))"

definition weightedPercentageDecimal :: "int \<Rightarrow> int \<Rightarrow> string res" where
  "weightedPercentageDecimal weightedScoreTotal applicableWeightTotal =
     (if weightedScoreTotal < 0 then Inl (CallAuditScoringError ''Weighted score total must not be negative'')
      else rbind (divideHalfUpScaled (weightedScoreTotal * 20) applicableWeightTotal) (\<lambda>k. Inr (formatScaled k)))"

text \<open>One entry: an object with exactly the two keys, a known metric and a valid score.\<close>

definition parse_entry :: "CallAuditMetricCode list \<Rightarrow> json \<Rightarrow> (CallAuditMetricCode \<times> MetricScore) res" where
  "parse_entry seen entry =
     (case entry of
        JObj kvs \<Rightarrow>
          if sort_key (\<lambda>k. k) (map fst kvs) \<noteq> [''metric'', ''score'']
          then Inl (CallAuditScoringError ''Each metric score must have exactly the keys metric and score'')
          else
            (case metric_code (coalesce (map_of kvs ''metric'') JNull) of
               None \<Rightarrow> Inl (CallAuditScoringError ''Unknown metric code'')
             | Some code \<Rightarrow>
                 if code \<in> set seen then Inl (CallAuditScoringError (''Duplicate score for metric '' @ metric_text code))
                 else
                   (case metric_score (coalesce (map_of kvs ''score'') JNull) of
                      None \<Rightarrow> Inl (CallAuditScoringError
                                (''Score for metric '' @ metric_text code @ '' must be an integer 1-5 or NA''))
                    | Some score \<Rightarrow> Inr (code, score)))
      | _ \<Rightarrow> Inl (CallAuditScoringError ''Each metric score must be an object''))"

fun collect_scores ::
  "(CallAuditMetricCode \<times> MetricScore) list \<Rightarrow> json list \<Rightarrow> (CallAuditMetricCode \<times> MetricScore) list res" where
  "collect_scores scores [] = Inr scores"
| "collect_scores scores (entry # rest) =
     rbind (parse_entry (map fst scores) entry) (\<lambda>s. collect_scores (scores @ [s]) rest)"

definition normalizeMetricScoreSet :: "json \<Rightarrow> (CallAuditMetricCode \<times> MetricScore) list res" where
  "normalizeMetricScoreSet entries =
     (case entries of
        JArr es \<Rightarrow>
          if length es \<noteq> length CALL_AUDIT_METRIC_CODES
          then Inl (CallAuditScoringError (''Expected exactly '' @ string_of_nat (length CALL_AUDIT_METRIC_CODES) @
                 '' metric scores, received '' @ string_of_nat (length es)))
          else rbind (collect_scores [] es) (\<lambda>scores.
            case find (\<lambda>code. code \<notin> fst ` set scores) CALL_AUDIT_METRIC_CODES of
              Some code \<Rightarrow> Inl (CallAuditScoringError (''Missing score for metric '' @ metric_text code))
            | None \<Rightarrow> Inr scores)
      | _ \<Rightarrow> Inl (CallAuditScoringError ''Metric scores must be an array''))"

text \<open>The two running totals over the applicable metrics.\<close>

fun score_totals :: "(CallAuditMetricCode \<times> MetricScore) list \<Rightarrow> nat \<times> nat" where
  "score_totals [] = (0, 0)"
| "score_totals ((code, NA) # rest) = score_totals rest"
| "score_totals ((code, Score n) # rest) =
     (let (t, w) = score_totals rest in (t + n * metricWeight code, w + metricWeight code))"

definition calculateOverallScore :: "json \<Rightarrow> string option res" where
  "calculateOverallScore entries =
     rbind (normalizeMetricScoreSet entries) (\<lambda>scores.
     let (weightedScoreTotal, applicableWeightTotal) = score_totals scores in
     if applicableWeightTotal = 0 then Inr None
     else rbind (weightedPercentageDecimal (int weightedScoreTotal) (int applicableWeightTotal)) (\<lambda>s. Inr (Some s)))"

definition deriveOverallScore :: "CallAuditEligibility \<Rightarrow> json \<Rightarrow> string option res" where
  "deriveOverallScore eligibility metricScores =
     (if eligibility = Operational_only then Inr None else calculateOverallScore metricScores)"

section \<open>Outcomes\<close>

datatype OutcomeGroup =
    PRODUCTS_COMMERCE | RESORT_HEALING | CONSULTATION_TREATMENT | TRAINING | PARTNERSHIP_B2B | FOLLOW_UP_ACTION
  | NOT_CONNECTED | NOT_INTERESTED_NO_ENQUIRY | EXISTING_DUPLICATE_DNC | TECHNICAL_LANGUAGE | EMPLOYMENT_MISC | OTHER_GROUP

text \<open>Label, description and group, in the vendor's order and spelling.\<close>

definition DETAILED_OUTCOME_DEFINITIONS :: "(string \<times> string \<times> OutcomeGroup) list" where
  "DETAILED_OUTCOME_DEFINITIONS =
     [
      (''Product Distributor'', ''Interested in becoming an authorized product distributor.'', PARTNERSHIP_B2B),
      (''Product Stockists'', ''Interested in stocking Kairali products for wholesale/resale.'', PARTNERSHIP_B2B),
      (''Individual Products Buying'', ''Customer wants to purchase products for personal use.'', PRODUCTS_COMMERCE),
      (''Order Status Enquiry'', ''Customer is checking the status of an existing order.'', PRODUCTS_COMMERCE),
      (''Individual Resort Booking'', ''Enquiry for booking a resort stay for an individual/family.'', RESORT_HEALING),
      (''Group Resort Booking'', ''Enquiry for group, corporate, or family resort bookings.'', RESORT_HEALING),
      (''Treatment Package for Resort'', ''Interested in wellness/treatment packages at the resort.'', RESORT_HEALING),
      (''Single Therapy for Individual'', ''Interested in a single therapy/session instead of a package.'', CONSULTATION_TREATMENT),
      (''Treatment Package for Kairali Centres'', ''Interested in treatment packages at Kairali wellness centres.'', CONSULTATION_TREATMENT),
      (''Franchise'', ''Enquiry about opening or owning a Kairali franchise.'', PARTNERSHIP_B2B),
      (''Jobs Enquiry'', ''Job or career-related enquiry.'', EMPLOYMENT_MISC),
      (''Sanitizers Enquiry'', ''Enquiry about sanitizer products.'', PRODUCTS_COMMERCE),
      (''Ayurveda Training'', ''Interested in Ayurveda training courses.'', TRAINING),
      (''Yoga Training'', ''Interested in Yoga training courses.'', TRAINING),
      (''Ayurveda and Yoga Training'', ''Interested in both Ayurveda and Yoga training.'', TRAINING),
      (''Other/Misc Enquiry'', ''Enquiry doesn't fit any predefined category.'', EMPLOYMENT_MISC),
      (''Did not Enquire'', ''Caller contacted but did not ask for any information.'', NOT_INTERESTED_NO_ENQUIRY),
      (''Not Connected'', ''Call could not be connected.'', NOT_CONNECTED),
      (''Junk'', ''Spam, fake, or irrelevant lead.'', OTHER_GROUP),
      (''Other Cases'', ''Special case that doesn't match existing dispositions.'', OTHER_GROUP),
      (''Not Interested'', ''Customer is not interested in the offering.'', NOT_INTERESTED_NO_ENQUIRY),
      (''Contract Manufacturing'', ''Interested in third-party or contract manufacturing services.'', PARTNERSHIP_B2B),
      (''Not Reachable'', ''Customer could not be reached after attempts.'', NOT_CONNECTED),
      (''Cold'', ''Customer has low interest and no immediate requirement.'', NOT_INTERESTED_NO_ENQUIRY),
      (''Language Issue'', ''Communication could not continue due to language barrier.'', TECHNICAL_LANGUAGE),
      (''Reverify'', ''Information needs verification before proceeding.'', FOLLOW_UP_ACTION),
      (''Expert Required'', ''Customer requires assistance from a domain expert/specialist.'', FOLLOW_UP_ACTION),
      (''Already Spoken'', ''Customer has already been contacted regarding this enquiry.'', EXISTING_DUPLICATE_DNC),
      (''Prevention_Rejuvenation'', ''Interested in preventive health or rejuvenation programs.'', CONSULTATION_TREATMENT),
      (''Doctor Consultation Required'', ''Customer needs consultation with an Ayurvedic doctor.'', CONSULTATION_TREATMENT),
      (''Duplicate Lead'', ''Lead already exists in the CRM.'', EXISTING_DUPLICATE_DNC),
      (''Ayurvedic Doctor_Panchakarma Center'', ''Enquiry for Ayurvedic doctor consultation or Panchakarma centre.'', CONSULTATION_TREATMENT),
      (''Group Resort Booking_yoga retreat'', ''Enquiry for group Yoga Retreat booking at the resort.'', RESORT_HEALING),
      (''Prevention_rejuvenation'', ''Interested in prevention or rejuvenation therapies.'', CONSULTATION_TREATMENT),
      (''Pharmacy_retail'', ''Retail pharmacy-related enquiry.'', PRODUCTS_COMMERCE),
      (''Online Sales'', ''Interested in purchasing products through online channels.'', PRODUCTS_COMMERCE),
      (''Export_Import'', ''Enquiry regarding export or import of products.'', PARTNERSHIP_B2B),
      (''Treatment package for resort AHV'', ''Treatment package enquiry for AHV resort.'', RESORT_HEALING),
      (''Prevention_rejuvenation AHV'', ''Prevention/Rejuvenation program enquiry for AHV.'', CONSULTATION_TREATMENT),
      (''Group resort booking AHV yoga retreat'', ''Group Yoga Retreat booking enquiry for AHV.'', RESORT_HEALING),
      (''Ayurvedic Training AHV'', ''Ayurveda training enquiry under AHV.'', TRAINING),
      (''Yoga training AHV'', ''Yoga training enquiry under AHV.'', TRAINING),
      (''Not interested AHV'', ''Customer not interested in AHV offerings.'', NOT_INTERESTED_NO_ENQUIRY),
      (''Outreach Stopped'', ''No further follow-up should be made.'', EXISTING_DUPLICATE_DNC),
      (''No Answer'', ''Call rang but was not answered.'', NOT_CONNECTED),
      (''Busy'', ''Customer was busy during the call.'', NOT_CONNECTED),
      (''Technical Error'', ''Call failed due to a technical issue.'', TECHNICAL_LANGUAGE),
      (''Callback Required'', ''Customer requested a callback at a later time.'', FOLLOW_UP_ACTION),
      (''Assign To MR'', ''Assign the lead to the Medical Representative (MR) for follow-up.'', FOLLOW_UP_ACTION),
      (''Travel Agent'', ''Enquiry from or regarding a travel agent/partner.'', PARTNERSHIP_B2B),
      (''Panchkarma Training'', ''Interested in Panchakarma training program.'', TRAINING),
      (''Wants details over Email'', ''Customer requested information via email instead of a call.'', FOLLOW_UP_ACTION),
      (''DNC Client : Don't Call Furthur'', ''Customer requested not to receive any further calls (Do Not Call).'', EXISTING_DUPLICATE_DNC)
     ]"

definition DETAILED_OUTCOMES :: "string list" where
  "DETAILED_OUTCOMES = map fst DETAILED_OUTCOME_DEFINITIONS"

definition isDetailedOutcome :: "string \<Rightarrow> bool" where
  "isDetailedOutcome v = (v \<in> set DETAILED_OUTCOMES)"

definition NO_CONTACT_OUTCOMES :: "string list" where
  "NO_CONTACT_OUTCOMES = [''Outreach Stopped'', ''DNC Client : Don't Call Furthur'']"

definition isNoContactOutcome :: "string \<Rightarrow> bool" where
  "isNoContactOutcome v = (v \<in> set NO_CONTACT_OUTCOMES)"

definition groupForDetailedOutcome :: "string \<Rightarrow> OutcomeGroup option" where
  "groupForDetailedOutcome outcome = map_option snd (map_of DETAILED_OUTCOME_DEFINITIONS outcome)"

definition describeDetailedOutcome :: "string \<Rightarrow> string res" where
  "describeDetailedOutcome outcome =
     (case map_of DETAILED_OUTCOME_DEFINITIONS outcome of
        None \<Rightarrow> Inl (UnknownDetailedOutcomeError ''outcome is not an approved KServe label'')
      | Some (description, _) \<Rightarrow> Inr description)"

section \<open>The overall score is the exact weighted percentage\<close>

text \<open>An entry on its own, without the check for duplicates.\<close>

definition entry_value :: "json \<Rightarrow> (CallAuditMetricCode \<times> MetricScore) option" where
  "entry_value e = (case parse_entry [] e of Inl _ \<Rightarrow> None | Inr s \<Rightarrow> Some s)"

lemma parse_entry_iff: "parse_entry seen e = Inr s \<longleftrightarrow> entry_value e = Some s \<and> fst s \<notin> set seen"
  by (auto simp: entry_value_def parse_entry_def split: json.splits option.splits if_splits)

lemma collect_scores_iff:
  "distinct (map fst scores) \<Longrightarrow>
   collect_scores scores es = Inr out \<longleftrightarrow>
     (\<exists>ss. map entry_value es = map Some ss \<and> out = scores @ ss \<and> distinct (map fst out))"
proof (induction es arbitrary: scores)
  case (Cons e es)
  show ?case
  proof
    assume "collect_scores scores (e # es) = Inr out"
    then obtain s where s: "entry_value e = Some s" "fst s \<notin> set (map fst scores)" "collect_scores (scores @ [s]) es = Inr out"
      by (auto simp: rbind_Inr_iff parse_entry_iff)
    moreover have "distinct (map fst (scores @ [s]))" using Cons.prems s(2) by simp
    ultimately show "\<exists>ss. map entry_value (e # es) = map Some ss \<and> out = scores @ ss \<and> distinct (map fst out)"
      using Cons.IH[of "scores @ [s]"] by (auto intro: exI[of _ "s # ss" for ss])
  next
    assume "\<exists>ss. map entry_value (e # es) = map Some ss \<and> out = scores @ ss \<and> distinct (map fst out)"
    then obtain s ss where s: "entry_value e = Some s" "map entry_value es = map Some ss" "out = scores @ s # ss" "distinct (map fst out)"
      by (auto simp: Cons_eq_map_conv)
    then have "collect_scores (scores @ [s]) es = Inr out" using Cons.IH[of "scores @ [s]"] by auto
    moreover have "parse_entry (map fst scores) e = Inr s" using s by (auto simp: parse_entry_iff)
    ultimately show "collect_scores scores (e # es) = Inr out" by simp
  qed
qed auto

definition score_set :: "json list \<Rightarrow> (CallAuditMetricCode \<times> MetricScore) list \<Rightarrow> bool" where
  "score_set es ss \<longleftrightarrow> map entry_value es = map Some ss \<and> distinct (map fst ss) \<and> length ss = 8 \<and>
     set (map fst ss) = set CALL_AUDIT_METRIC_CODES"

lemma all_metrics: "length CALL_AUDIT_METRIC_CODES = 8" "c \<in> set CALL_AUDIT_METRIC_CODES"
  by (simp add: CALL_AUDIT_METRIC_CODES_def) (cases c; simp add: CALL_AUDIT_METRIC_CODES_def)

lemma normalize_iff: "normalizeMetricScoreSet (JArr es) = Inr ss \<longleftrightarrow> score_set es ss"
proof -
  have "normalizeMetricScoreSet (JArr es) = Inr ss \<longleftrightarrow>
      length es = 8 \<and> collect_scores [] es = Inr ss \<and> (\<forall>c. c \<in> fst ` set ss)"
  proof -
    have none: "find (\<lambda>code. code \<notin> fst ` set x) CALL_AUDIT_METRIC_CODES = None \<longleftrightarrow> (\<forall>c. c \<in> fst ` set x)"
      for x :: "(CallAuditMetricCode \<times> MetricScore) list" by (simp add: find_None_iff all_metrics(2) image_iff)
    have missing: "(case f of None \<Rightarrow> Inr x | Some c \<Rightarrow> Inl (err c)) = Inr y \<longleftrightarrow> f = None \<and> x = y"
      for f :: "CallAuditMetricCode option" and x y :: "(CallAuditMetricCode \<times> MetricScore) list" and err by (cases f) auto
    show ?thesis by (auto simp: normalizeMetricScoreSet_def all_metrics(1) rbind_Inr_iff missing none)
  qed
  also have "\<dots> \<longleftrightarrow> score_set es ss"
    using all_metrics(2) by (auto simp: collect_scores_iff score_set_def dest: map_eq_imp_length_eq)
  finally show ?thesis .
qed

lemma score_set_perm:
  assumes "score_set es ss" "mset es' = mset es"
  obtains ss' where "score_set es' ss'" "mset ss' = mset ss"
proof -
  have "mset (map entry_value es') = mset (map entry_value es)" using assms(2) by simp
  moreover have "map entry_value es = map Some ss" using assms(1) by (simp add: score_set_def)
  ultimately have "mset (map entry_value es') = mset (map Some ss)" by (simp only:)
  have each: "\<forall>x \<in> set (map entry_value es'). \<exists>y. x = Some y"
    using mset_eq_setD[OF \<open>mset (map entry_value es') = mset (map Some ss)\<close>] by auto
  define ss' where "ss' = map (\<lambda>e. the (entry_value e)) es'"
  have ss': "map entry_value es' = map Some ss'" using each by (auto simp: ss'_def)
  have "image_mset the (mset (map Some ss')) = image_mset the (mset (map Some ss))"
    using \<open>mset (map entry_value es') = mset (map Some ss)\<close> ss' by simp
  then have m: "mset ss' = mset ss" by (simp add: image_mset.compositionality comp_def flip: mset_map)
  have "mset (map fst ss') = mset (map fst ss)" using m by simp
  then have "distinct (map fst ss') = distinct (map fst ss)" "set (map fst ss') = set (map fst ss)" "length ss' = length ss"
    using m by (metis mset_eq_imp_distinct_iff, metis mset_eq_setD, metis mset_eq_length)
  with assms(1) ss' m that show ?thesis by (simp add: score_set_def)
qed

text \<open>The exact weighted mean of the applicable scores, as a percentage of the top score.\<close>

definition applicable :: "(CallAuditMetricCode \<times> MetricScore) list \<Rightarrow> (CallAuditMetricCode \<times> nat) list" where
  "applicable ss = concat (map (\<lambda>(c, s). case s of NA \<Rightarrow> [] | Score n \<Rightarrow> [(c, n)]) ss)"

definition weighted_percentage :: "(CallAuditMetricCode \<times> MetricScore) list \<Rightarrow> rat" where
  "weighted_percentage ss =
     20 * of_nat (\<Sum>(c, n)\<leftarrow>applicable ss. n * metricWeight c) / of_nat (\<Sum>(c, n)\<leftarrow>applicable ss. metricWeight c)"

lemma score_totals_sums:
  "score_totals ss = ((\<Sum>(c, n)\<leftarrow>applicable ss. n * metricWeight c), (\<Sum>(c, n)\<leftarrow>applicable ss. metricWeight c))"
  by (induction ss rule: score_totals.induct) (auto simp: applicable_def)

lemma weight_pos: "0 < metricWeight c"
  by (cases c) (simp_all add: metricWeight_def CALL_AUDIT_RUBRIC_def coalesce_def)

lemma half_up:
  assumes "0 < d"
  shows "divideHalfUpScaled n d = Inr \<lfloor>of_int (n * 1000) / of_int d + 1 / (2 :: rat)\<rfloor>"
proof -
  let ?q = "n * 1000 div d" and ?r = "n * 1000 mod d"
  have e: "(of_int (n * 1000) :: rat) / of_int d = of_int ?q + of_int ?r / of_int d"
    using assms by (metis (no_types, opaque_lifting) add_divide_distrib div_mult_mod_eq less_irrefl nonzero_mult_div_cancel_right of_int_0_eq_iff of_int_add of_int_mult)
  have r: "0 \<le> ?r" "?r < d" using assms by simp_all
  have "\<lfloor>(of_int ?r / of_int d :: rat) + 1 / 2\<rfloor> = (if ?r * 2 \<ge> d then 1 else 0)"
  proof (cases "?r * 2 \<ge> d")
    case True
    then have "(1 :: rat) \<le> of_int ?r / of_int d + 1 / 2" using assms by (simp add: field_simps flip: of_int_mult of_int_add)
    moreover have "of_int ?r / of_int d + 1 / 2 < (2 :: rat)"
    proof -
      have "of_int ?r / of_int d < (1 :: rat)" using r assms by (simp add: divide_less_eq)
      then show ?thesis by linarith
    qed
    ultimately show ?thesis using True by (simp add: floor_eq_iff)
  next
    case False
    then have "of_int ?r / of_int d < (1 / 2 :: rat)" using assms by (simp add: divide_less_eq)
    moreover have "0 \<le> of_int ?r / (of_int d :: rat)" using r assms by simp
    ultimately have "\<lfloor>(of_int ?r / of_int d :: rat) + 1 / 2\<rfloor> = 0" by (intro floor_unique) linarith+
    then show ?thesis using False by simp
  qed
  then have "\<lfloor>(of_int (n * 1000) / of_int d :: rat) + 1 / 2\<rfloor> = (if ?r * 2 \<ge> d then ?q + 1 else ?q)"
    unfolding e by (simp add: add.assoc)
  with assms show ?thesis by (simp add: divideHalfUpScaled_def Let_def)
qed

lemma entry_score_range:
  assumes "entry_value e = Some (c, Score n)"
  shows "1 \<le> n \<and> n \<le> 5"
proof -
  from assms obtain v where "metric_score v = Some (Score n)"
    by (auto simp: entry_value_def parse_entry_def split: json.splits option.splits if_splits)
  then show ?thesis by (auto simp: metric_score_def isMetricScore_def split: if_splits json.splits)
qed

lemma score_set_range:
  assumes "score_set es ss" "(c, Score n) \<in> set ss"
  shows "1 \<le> n \<and> n \<le> 5"
proof -
  have "Some (c, Score n) \<in> set (map entry_value es)" using assms by (auto simp: score_set_def)
  then obtain e where "entry_value e = Some (c, Score n)" by (metis imageE set_map)
  then show ?thesis by (rule entry_score_range)
qed

lemma applicable_mem: "(c, n) \<in> set (applicable ss) \<longleftrightarrow> (c, Score n) \<in> set ss"
  by (auto simp: applicable_def split: MetricScore.splits)

text \<open>The mean of scores from 1 to 5 is between 20 and 100 percent.\<close>

lemma weighted_bounds:
  assumes "score_set es ss"
  defines "t \<equiv> (\<Sum>(c, n)\<leftarrow>applicable ss. n * metricWeight c)" and "w \<equiv> (\<Sum>(c, n)\<leftarrow>applicable ss. metricWeight c)"
  shows "w \<le> t \<and> t \<le> 5 * w"
proof -
  have "(\<Sum>(c, n)\<leftarrow>xs. metricWeight c) \<le> (\<Sum>(c, n)\<leftarrow>xs. n * metricWeight c) \<and>
      (\<Sum>(c, n)\<leftarrow>xs. n * metricWeight c) \<le> 5 * (\<Sum>(c, n)\<leftarrow>xs. metricWeight c)"
    if "\<forall>(c, n) \<in> set xs. 1 \<le> n \<and> n \<le> 5" for xs :: "(CallAuditMetricCode \<times> nat) list"
    using that
  proof (induction xs)
    case (Cons x xs)
    obtain c n where x: "x = (c, n)" by fastforce
    then have n: "1 \<le> n" "n \<le> 5" using Cons.prems by auto
    have "metricWeight c \<le> n * metricWeight c" "n * metricWeight c \<le> 5 * metricWeight c" using n by simp_all
    moreover have "\<forall>(c, n) \<in> set xs. 1 \<le> n \<and> n \<le> 5" using Cons.prems by simp
    ultimately show ?case using Cons.IH by (simp only: x list.map sum_list.Cons prod.case distrib_left) linarith
  qed simp
  moreover have "\<forall>(c, n) \<in> set (applicable ss). 1 \<le> n \<and> n \<le> 5"
    using score_set_range[OF assms(1)] by (auto simp: applicable_mem)
  ultimately show ?thesis unfolding t_def w_def by blast
qed

lemma applicable_weight_zero: "(\<Sum>(c, n)\<leftarrow>applicable ss. metricWeight c) = 0 \<longleftrightarrow> (\<forall>c n. (c, Score n) \<notin> set ss)"
proof -
  have "(\<Sum>(c, n)\<leftarrow>xs. metricWeight c) = 0 \<longleftrightarrow> xs = []" for xs :: "(CallAuditMetricCode \<times> nat) list"
    using weight_pos by (cases xs) (auto split: prod.splits)
  moreover have "applicable ss = [] \<longleftrightarrow> (\<forall>c n. (c, Score n) \<notin> set ss)"
    using applicable_mem by (metis list.set_cases list.set_intros(1) neq_Nil_conv surj_pair)
  ultimately show ?thesis by simp
qed

lemma sum_list_perm: "mset xs = mset ys \<Longrightarrow> sum_list (map g xs) = sum_list (map g ys)" for g :: "'a \<Rightarrow> 'b::comm_monoid_add"
proof -
  assume "mset xs = mset ys"
  then have "mset (map g xs) = mset (map g ys)" by simp
  then show ?thesis by (metis sum_mset_sum_list)
qed

lemma applicable_mset: "mset ss' = mset ss \<Longrightarrow> mset (applicable ss') = mset (applicable ss)"
  unfolding applicable_def mset_concat map_map by (rule sum_list_perm)

lemma score_totals_mset: "mset ss' = mset ss \<Longrightarrow> score_totals ss' = score_totals ss"
  using sum_list_perm[OF applicable_mset] unfolding score_totals_sums by blast

lemma calculateOverallScore_set:
  "score_set es ss \<Longrightarrow> calculateOverallScore (JArr es) =
     (let (t, w) = score_totals ss in if w = 0 then Inr None
      else rbind (weightedPercentageDecimal (int t) (int w)) (\<lambda>s. Inr (Some s)))"
  using normalize_iff[of es ss] by (simp add: calculateOverallScore_def)

text \<open>
  C23. The overall score of a valid score set is its exact weighted percentage over the metrics that apply,
  rounded half up to three places, between 20.000 and 100.000; it is missing exactly when every metric is
  NA, and it does not depend on the order of the entries.
\<close>
theorem overall_score_exact:
  assumes "calculateOverallScore (JArr es) = Inr r" "mset es' = mset es"
  shows "\<exists>ss. normalizeMetricScoreSet (JArr es) = Inr ss \<and> calculateOverallScore (JArr es') = Inr r \<and>
     (if \<forall>c n. (c, Score n) \<notin> set ss then r = None
      else \<exists>k. r = Some (formatScaled k) \<and> k = \<lfloor>1000 * weighted_percentage ss + 1 / 2\<rfloor> \<and> 20000 \<le> k \<and> k \<le> 100000)"
proof -
  obtain ss where n: "normalizeMetricScoreSet (JArr es) = Inr ss" using assms(1) by (auto simp: calculateOverallScore_def rbind_Inr_iff)
  then have ss: "score_set es ss" by (simp add: normalize_iff)
  obtain ss' where ss': "score_set es' ss'" "mset ss' = mset ss" by (rule score_set_perm[OF ss assms(2)])
  have same: "calculateOverallScore (JArr es') = Inr r"
    using calculateOverallScore_set[OF ss] calculateOverallScore_set[OF ss'(1)] score_totals_mset[OF ss'(2)] assms(1) by simp
  define t where "t = (\<Sum>(c, n)\<leftarrow>applicable ss. n * metricWeight c)"
  define w where "w = (\<Sum>(c, n)\<leftarrow>applicable ss. metricWeight c)"
  have b: "w \<le> t" "t \<le> 5 * w" using weighted_bounds[OF ss] by (simp_all add: t_def w_def)
  have tw: "score_totals ss = (t, w)" by (simp add: score_totals_sums t_def w_def)
  show ?thesis
  proof (cases "w = 0")
    case True
    then show ?thesis using n same assms(1) calculateOverallScore_set[OF ss] tw applicable_weight_zero[of ss]
      by (intro exI[of _ ss]) (simp add: w_def)
  next
    case False
    then have w: "0 < w" by simp
    let ?k = "\<lfloor>1000 * weighted_percentage ss + 1 / 2\<rfloor>"
    have p: "1000 * weighted_percentage ss = of_int (int t * 20 * 1000) / of_int (int w)"
      by (simp add: weighted_percentage_def t_def w_def)
    have "r = Some (formatScaled ?k)"
      using assms(1) w calculateOverallScore_set[OF ss] half_up[of "int w" "int t * 20"]
      by (simp add: tw weightedPercentageDecimal_def p)
    moreover have "20000 \<le> ?k" "?k \<le> 100000"
    proof -
      have "20000 \<le> 1000 * weighted_percentage ss" "1000 * weighted_percentage ss \<le> 100000"
        unfolding p using w b by (simp_all add: field_simps flip: of_nat_mult)
      then show "20000 \<le> ?k" "?k \<le> 100000" by (simp_all add: le_floor_iff floor_le_iff)
    qed
    ultimately show ?thesis using n same False applicable_weight_zero[of ss] by (intro exI[of _ ss]) (auto simp: w_def)
  qed
qed

definition demo_entries :: "json list" where
  "demo_entries = map (\<lambda>c. JObj [(''metric'', JStr (metric_text c)),
     (''score'', if c = PROFESSIONALISM then JStr ''NA'' else if c = COMPLIANCE_PRIVACY then JNum 1 else JNum 4)]) CALL_AUDIT_METRIC_CODES"

lemma demo_entry_keys: "sort_key (\<lambda>k. k) [''metric'', ''score''] = [''metric'', ''score'']"
  by code_simp

lemma demo_overall: "\<exists>s. calculateOverallScore (JArr demo_entries) = Inr (Some s)"
  by (simp add: calculateOverallScore_def normalizeMetricScoreSet_def demo_entries_def CALL_AUDIT_METRIC_CODES_def parse_entry_def
      demo_entry_keys metric_code_def metric_score_def isMetricScore_def
      coalesce_def metricWeight_def CALL_AUDIT_RUBRIC_def weightedPercentageDecimal_def divideHalfUpScaled_def Let_def)

theorem overall_score_exact_witness:
  "\<exists>k. calculateOverallScore (JArr (rev demo_entries)) = Inr (Some (formatScaled k)) \<and> 20000 \<le> k \<and> k \<le> 100000"
proof -
  obtain s where s: "calculateOverallScore (JArr demo_entries) = Inr (Some s)" using demo_overall by blast
  from overall_score_exact[OF s, of "rev demo_entries"] s show ?thesis by (auto split: if_splits)
qed

end
