(* ===== verification/CycleReadiness.thy ===== *)
theory CycleReadiness
  imports JsNumber
begin

text \<open>
  When a billing month may be closed and how much of it may settle on the vendor's word:
  \<open>cycleReadiness.ts\<close>, \<open>monthCloseReadiness.ts\<close> and \<open>vendorAssertedBound.ts\<close> under \<open>src/src/billing\<close>. Counts
  are integers; the coverage percentage and the vendor share are doubles. The sum of two safe counts is
  compared with a safe count only, so its rounding above the safe range cannot show.
\<close>

section \<open>The billing cycle\<close>

datatype BillingCycleStatus =
    No_data | Audit_pending | Calibration_pending | Rate_card_pending | Calculation_pending | Cycle_ready

record BillingCycleCounts =
  bc_periodStart :: "string option"
  bc_periodEnd :: "string option"
  bc_totalCalls :: int
  bc_recordingAvailableCalls :: int
  bc_completedAuditCalls :: int
  bc_acceptedAsBilledCalls :: int
  bc_finalCalculationCalls :: "int option"
  bc_unresolvedDecisionCalls :: "int option"
  bc_processingFailureCalls :: int

record BillingCycleReadiness = BillingCycleCounts +
  br_resolvedAuditCalls :: int
  br_auditPendingCalls :: int
  br_auditCoveragePercent :: string
  br_rateCardApproved :: bool
  br_calibrationComplete :: bool
  br_status :: BillingCycleStatus
  br_billGenerated :: bool

definition bad_count :: "int \<Rightarrow> string \<Rightarrow> bool \<times> js_error" where
  "bad_count v name = (\<not> isSafeInteger v \<or> v < 0, RangeError (name @ '' must be a non-negative safe integer''))"

definition bad_count_opt :: "int option \<Rightarrow> string \<Rightarrow> bool \<times> js_error" where
  "bad_count_opt v name = (case v of None \<Rightarrow> (False, RangeError name) | Some n \<Rightarrow> bad_count n name)"

definition resolvedAuditCalls :: "BillingCycleCounts \<Rightarrow> int" where
  "resolvedAuditCalls c = min (bc_totalCalls c) (bc_completedAuditCalls c + bc_acceptedAsBilledCalls c)"

definition auditPendingCalls :: "BillingCycleCounts \<Rightarrow> int" where
  "auditPendingCalls c = max 0 (bc_totalCalls c - resolvedAuditCalls c)"

definition cycle_status :: "BillingCycleCounts \<Rightarrow> bool \<Rightarrow> bool \<Rightarrow> BillingCycleStatus" where
  "cycle_status c rateCardApproved calibrationComplete =
     (if bc_totalCalls c = 0 then No_data
      else if auditPendingCalls c > 0 \<or> (case bc_unresolvedDecisionCalls c of None \<Rightarrow> False | Some u \<Rightarrow> u > 0) then Audit_pending
      else if \<not> calibrationComplete then Calibration_pending
      else if \<not> rateCardApproved then Rate_card_pending
      else if bc_finalCalculationCalls c = None \<or> bc_unresolvedDecisionCalls c = None \<or>
              bc_finalCalculationCalls c \<noteq> Some (bc_totalCalls c) then Calculation_pending
      else Cycle_ready)"

definition coverage_percent :: "int \<Rightarrow> int \<Rightarrow> string" where
  "coverage_percent resolved calls =
     (if calls = 0 then ''0.00'' else toFixed 2 (js_mul (js_div (of_int resolved) (of_int calls)) 100))"

definition assessBillingCycleReadiness :: "BillingCycleCounts \<Rightarrow> bool \<Rightarrow> bool \<Rightarrow> BillingCycleReadiness res" where
  "assessBillingCycleReadiness c rateCardApproved calibrationComplete =
     rbind (first_error
       [bad_count (bc_totalCalls c) ''totalCalls'', bad_count (bc_recordingAvailableCalls c) ''recordingAvailableCalls'',
        bad_count (bc_completedAuditCalls c) ''completedAuditCalls'',
        bad_count (bc_acceptedAsBilledCalls c) ''acceptedAsBilledCalls'',
        bad_count (bc_processingFailureCalls c) ''processingFailureCalls'',
        bad_count_opt (bc_finalCalculationCalls c) ''finalCalculationCalls'',
        bad_count_opt (bc_unresolvedDecisionCalls c) ''unresolvedDecisionCalls'']) (\<lambda>_.
     let status = cycle_status c rateCardApproved calibrationComplete in
     Inr (BillingCycleCounts.extend c
       \<lparr> br_resolvedAuditCalls = resolvedAuditCalls c, br_auditPendingCalls = auditPendingCalls c,
         br_auditCoveragePercent = coverage_percent (resolvedAuditCalls c) (bc_totalCalls c),
         br_rateCardApproved = rateCardApproved, br_calibrationComplete = calibrationComplete,
         br_status = status, br_billGenerated = (status = Cycle_ready) \<rparr>))"

section \<open>Closing a month\<close>

definition DEFAULT_INGEST_QUIET_PERIOD_MS :: int where
  "DEFAULT_INGEST_QUIET_PERIOD_MS = 48 * 60 * 60 * 1000"

datatype month_close_reason = Close_ready | No_calls_loaded | Ingest_in_progress | Audit_incomplete

record MonthCloseReadinessInput =
  mi_totalCalls :: int
  mi_recordingBackedAwaitingAudit :: int
  mi_millisecondsSinceNewestCall :: "int option"
  mi_quietPeriodMs :: "int option"

record MonthCloseReadiness =
  mo_ready :: bool
  mo_reason :: month_close_reason
  mo_totalCalls :: int
  mo_recordingBackedAwaitingAudit :: int
  mo_millisecondsSinceNewestCall :: "int option"
  mo_quietPeriodMs :: int

definition decideMonthCloseReadiness :: "MonthCloseReadinessInput \<Rightarrow> MonthCloseReadiness" where
  "decideMonthCloseReadiness i =
     (let quietPeriodMs = coalesce (mi_quietPeriodMs i) DEFAULT_INGEST_QUIET_PERIOD_MS;
          reason = (if mi_totalCalls i \<le> 0 then No_calls_loaded
                    else if (case mi_millisecondsSinceNewestCall i of None \<Rightarrow> True | Some ms \<Rightarrow> ms < quietPeriodMs)
                    then Ingest_in_progress
                    else if mi_recordingBackedAwaitingAudit i > 0 then Audit_incomplete
                    else Close_ready)
      in \<lparr> mo_ready = (reason = Close_ready), mo_reason = reason, mo_totalCalls = mi_totalCalls i,
           mo_recordingBackedAwaitingAudit = mi_recordingBackedAwaitingAudit i,
           mo_millisecondsSinceNewestCall = mi_millisecondsSinceNewestCall i, mo_quietPeriodMs = quietPeriodMs \<rparr>)"

section \<open>The vendor's word\<close>

text \<open>The literal \<open>0.02\<close> is the nearest double.\<close>

definition DEFAULT_MAX_VENDOR_ASSERTED_SHARE :: rat where
  "DEFAULT_MAX_VENDOR_ASSERTED_SHARE = fl (2 / 100)"

definition DEFAULT_VENDOR_ASSERTED_FLOOR :: int where
  "DEFAULT_VENDOR_ASSERTED_FLOOR = 25"

datatype vendor_bound_reason = Within_bound | Nothing_to_settle | Exceeds_bound | Population_unknown

record VendorAssertedBoundInput =
  vi_exhaustedCandidates :: int
  vi_recordingBackedCalls :: int
  vi_maxShare :: "rat option"
  vi_floor :: "int option"

record VendorAssertedBound =
  vb_permitted :: bool
  vb_exhaustedCandidates :: int
  vb_recordingBackedCalls :: int
  vb_share :: "rat option"
  vb_allowance :: int
  vb_reason :: vendor_bound_reason

definition decideVendorAssertedBound :: "VendorAssertedBoundInput \<Rightarrow> VendorAssertedBound" where
  "decideVendorAssertedBound i =
     (let maxShare = coalesce (vi_maxShare i) DEFAULT_MAX_VENDOR_ASSERTED_SHARE;
          floor_calls = coalesce (vi_floor i) DEFAULT_VENDOR_ASSERTED_FLOOR;
          exhausted = vi_exhaustedCandidates i;
          backed = vi_recordingBackedCalls i;
          share = (if backed > 0 then Some (js_div (of_int exhausted) (of_int backed)) else None);
          allowance = max floor_calls \<lceil>js_mul maxShare (of_int (max backed 0))\<rceil>;
          bound = (\<lambda>permitted allowed reason.
            \<lparr> vb_permitted = permitted, vb_exhaustedCandidates = exhausted, vb_recordingBackedCalls = backed,
              vb_share = share, vb_allowance = allowed, vb_reason = reason \<rparr>)
      in if exhausted \<le> 0 then bound True allowance Nothing_to_settle
         else if backed \<le> 0
         then bound (exhausted \<le> floor_calls) floor_calls (if exhausted \<le> floor_calls then Within_bound else Population_unknown)
         else bound (exhausted \<le> allowance) allowance (if exhausted \<le> allowance then Within_bound else Exceeds_bound))"

section \<open>A bill is generated only for a finished month\<close>

lemma coverage_full: "0 < n \<Longrightarrow> coverage_percent n n = ''100.00''"
proof -
  assume "0 < n"
  then have "js_mul (js_div (of_int n) (of_int n)) 100 = (100 :: rat)"
    using fl_of_int[of 1] fl_of_int[of 100] by (simp add: js_mul_def js_div_def)
  moreover have "fixed_places 2 10000 = ''100.00''"
    by (simp add: fixed_places_def string_of_nat.simps digit_char_def padStart_def, code_simp)
  moreover have "\<lfloor>20001 / 2 :: rat\<rfloor> = 10000" by (rule floor_unique) simp_all
  ultimately show ?thesis using \<open>0 < n\<close> by (simp add: coverage_percent_def toFixed_def)
qed

text \<open>
  A bill is generated exactly for a month that has calls, all of them audited or accepted as billed, no
  decision unresolved, a complete calibration, an approved rate card and a final calculation for every call;
  its coverage then reads 100.00, and in every case resolved and pending calls add up to all calls.
\<close>
theorem bill_generated_iff:
  assumes "assessBillingCycleReadiness c rateCardApproved calibrationComplete = Inr r"
  shows "(br_billGenerated r \<longleftrightarrow>
           0 < bc_totalCalls c \<and> bc_totalCalls c \<le> bc_completedAuditCalls c + bc_acceptedAsBilledCalls c \<and>
           bc_unresolvedDecisionCalls c = Some 0 \<and> bc_finalCalculationCalls c = Some (bc_totalCalls c) \<and>
           calibrationComplete \<and> rateCardApproved) \<and>
         (if br_billGenerated r then br_auditCoveragePercent r = ''100.00'' else br_status r \<noteq> Cycle_ready) \<and>
         br_resolvedAuditCalls r + br_auditPendingCalls r = bc_totalCalls c \<and> 0 \<le> br_auditPendingCalls r"
proof -
  have n: "0 \<le> bc_totalCalls c" "0 \<le> bc_completedAuditCalls c + bc_acceptedAsBilledCalls c"
    "bc_unresolvedDecisionCalls c = Some u \<Longrightarrow> 0 \<le> u" for u
    using assms by (auto simp: assessBillingCycleReadiness_def rbind_Inr_iff first_error_Inr bad_count_def bad_count_opt_def Let_def
        simp del: first_error.simps)
  have r: "br_billGenerated r = (cycle_status c rateCardApproved calibrationComplete = Cycle_ready)"
    "br_status r = cycle_status c rateCardApproved calibrationComplete"
    "br_auditCoveragePercent r = coverage_percent (resolvedAuditCalls c) (bc_totalCalls c)"
    "br_resolvedAuditCalls r = resolvedAuditCalls c" "br_auditPendingCalls r = auditPendingCalls c"
    using assms by (auto simp: assessBillingCycleReadiness_def rbind_Inr_iff Let_def BillingCycleCounts.defs simp del: first_error.simps)
  have status: "cycle_status c rateCardApproved calibrationComplete = Cycle_ready \<longleftrightarrow>
      0 < bc_totalCalls c \<and> bc_totalCalls c \<le> bc_completedAuditCalls c + bc_acceptedAsBilledCalls c \<and>
      bc_unresolvedDecisionCalls c = Some 0 \<and> bc_finalCalculationCalls c = Some (bc_totalCalls c) \<and> calibrationComplete \<and> rateCardApproved"
    using n(1,2) n(3) by (auto simp: cycle_status_def auditPendingCalls_def resolvedAuditCalls_def split: option.splits)
  have "coverage_percent (resolvedAuditCalls c) (bc_totalCalls c) = ''100.00''"
    if "0 < bc_totalCalls c" "bc_totalCalls c \<le> bc_completedAuditCalls c + bc_acceptedAsBilledCalls c"
    using that coverage_full[of "bc_totalCalls c"] by (simp add: resolvedAuditCalls_def)
  moreover have "resolvedAuditCalls c + auditPendingCalls c = bc_totalCalls c" "0 \<le> auditPendingCalls c"
    using n by (auto simp: resolvedAuditCalls_def auditPendingCalls_def)
  ultimately show ?thesis using r status by simp
qed

definition demo_cycle :: BillingCycleCounts where
  "demo_cycle = \<lparr> bc_periodStart = None, bc_periodEnd = None, bc_totalCalls = 3, bc_recordingAvailableCalls = 3,
     bc_completedAuditCalls = 2, bc_acceptedAsBilledCalls = 1, bc_finalCalculationCalls = Some 3,
     bc_unresolvedDecisionCalls = Some 0, bc_processingFailureCalls = 0 \<rparr>"

theorem bill_generated_iff_witness:
  "\<exists>r. assessBillingCycleReadiness demo_cycle True True = Inr r \<and> br_billGenerated r \<and> br_auditCoveragePercent r = ''100.00''"
proof -
  obtain r where r: "assessBillingCycleReadiness demo_cycle True True = Inr r"
    by (simp add: assessBillingCycleReadiness_def demo_cycle_def bad_count_def bad_count_opt_def isSafeInteger_def MAX_SAFE_INTEGER_def Let_def)
  from bill_generated_iff[OF r] r show ?thesis by (auto simp: demo_cycle_def)
qed

text \<open>The unattended close waits unless the month has calls, is quiet and fully audited.\<close>

lemma month_close_ready_iff:
  "mo_ready (decideMonthCloseReadiness i) \<longleftrightarrow>
     0 < mi_totalCalls i \<and> mi_recordingBackedAwaitingAudit i \<le> 0 \<and>
     (\<exists>ms. mi_millisecondsSinceNewestCall i = Some ms \<and> coalesce (mi_quietPeriodMs i) DEFAULT_INGEST_QUIET_PERIOD_MS \<le> ms)"
  by (auto simp: decideMonthCloseReadiness_def Let_def split: option.splits)

text \<open>What settles on the vendor's word never exceeds the allowance, nor the floor when the month could not be counted.\<close>

lemma vendor_bound_permits:
  assumes "vb_permitted (decideVendorAssertedBound i)" "0 < vi_exhaustedCandidates i"
  shows "vi_exhaustedCandidates i \<le> vb_allowance (decideVendorAssertedBound i)"
    and "vi_recordingBackedCalls i \<le> 0 \<Longrightarrow> vi_exhaustedCandidates i \<le> coalesce (vi_floor i) DEFAULT_VENDOR_ASSERTED_FLOOR"
  using assms by (auto simp: decideVendorAssertedBound_def Let_def split: if_splits)

end
