(* ===== verification/RecordingUrl.thy ===== *)
theory RecordingUrl
  imports ReauditCall "HOL-Library.Option_ord"
begin

text \<open>
  Where a call's recording lives: the stable object address a submitted, signed or proxy-wrapped URL is
  reduced to (\<open>src/src/backfill/normalizeRecordingUrl.ts\<close>), and the backfill that writes it onto recording
  artifacts (\<open>backfillSourceUrl.ts\<close>, \<open>src/src/adapters/mysqlBackfillRepo.ts\<close>). The URL parser is a parameter.
\<close>

section \<open>Normalisation\<close>

text \<open>\<open>new URL(text)\<close> with the components the code reads; the last is \<open>searchParams.get('url')\<close>.\<close>

record parsed_url =
  url_protocol :: string
  url_hostname :: string
  url_pathname :: string
  url_origin :: string
  url_inner :: "string option"

datatype NormalizeReason = Too_many_wrappers | Unparseable | Not_https | Empty_path | Unrecognized_host

fun reason_text :: "NormalizeReason \<Rightarrow> string" where
  "reason_text Too_many_wrappers = ''too_many_wrappers''"
| "reason_text Unparseable = ''unparseable''"
| "reason_text Not_https = ''not_https''"
| "reason_text Empty_path = ''empty_path''"
| "reason_text Unrecognized_host = ''unrecognized_host''"

type_synonym NormalizeResult = "NormalizeReason + string"

definition isAllowedS3 :: "string \<Rightarrow> string list \<Rightarrow> bool" where
  "isAllowedS3 host allowedHosts =
     list_ex (\<lambda>h. host = toLowerCase h \<or> endsWith host (''.'' @ toLowerCase h)) allowedHosts"

definition normalize_plain :: "string list \<Rightarrow> parsed_url \<Rightarrow> NormalizeResult" where
  "normalize_plain allowedHosts u =
     (if isAllowedS3 (toLowerCase (url_hostname u)) allowedHosts
      then if url_protocol u \<noteq> ''https:'' then Inl Not_https
           else if url_pathname u = [] \<or> url_pathname u = ''/'' then Inl Empty_path
           else Inr (url_origin u @ url_pathname u)
      else Inl Unrecognized_host)"

function normalizeRecordingUrl ::
  "(string \<Rightarrow> parsed_url option) \<Rightarrow> string \<Rightarrow> string list \<Rightarrow> nat \<Rightarrow> NormalizeResult" where
  "normalizeRecordingUrl parse raw allowedHosts depth =
     (if depth > 2 then Inl Too_many_wrappers
      else case parse raw of
        None \<Rightarrow> Inl Unparseable
      | Some u \<Rightarrow>
          (case url_inner u of
             Some inner \<Rightarrow> if inner \<noteq> [] then normalizeRecordingUrl parse inner allowedHosts (depth + 1)
                           else normalize_plain allowedHosts u
           | None \<Rightarrow> normalize_plain allowedHosts u))"
  by pat_completeness auto
termination by (relation "measure (\<lambda>(_, _, _, depth). 3 - depth)") auto

declare normalizeRecordingUrl.simps [simp del]

text \<open>An address that is kept names an object on an allowed host over HTTPS, and is not itself a wrapper.\<close>

lemma normalized_address:
  assumes "normalizeRecordingUrl parse raw allowedHosts depth = Inr url"
  obtains t u where "parse t = Some u" "\<not> truthy_text (url_inner u)" "url = url_origin u @ url_pathname u"
    "url_protocol u = ''https:''" "url_pathname u \<notin> {[], ''/''}" "isAllowedS3 (toLowerCase (url_hostname u)) allowedHosts"
  using assms
proof (induction parse raw allowedHosts depth arbitrary: thesis rule: normalizeRecordingUrl.induct)
  case (1 parse raw allowedHosts depth)
  from "1.prems"(2) obtain u where u: "\<not> depth > 2" "parse raw = Some u"
    by (subst (asm) normalizeRecordingUrl.simps) (auto split: if_splits option.splits)
  show ?case
  proof (cases "truthy_text (url_inner u)")
    case True
    then obtain inner where i: "url_inner u = Some inner" "inner \<noteq> []" by (cases "url_inner u") auto
    with u "1.prems"(2) have "normalizeRecordingUrl parse inner allowedHosts (depth + 1) = Inr url"
      by (subst (asm) normalizeRecordingUrl.simps) simp
    with "1.IH"[OF u i] "1.prems"(1) show ?thesis by blast
  next
    case False
    with u "1.prems"(2) have "normalize_plain allowedHosts u = Inr url"
      by (subst (asm) normalizeRecordingUrl.simps) (auto split: option.splits if_splits)
    with u False "1.prems"(1) show ?thesis by (auto simp: normalize_plain_def split: if_splits)
  qed
qed

text \<open>
  If the parser reads a bare object address back as it was written, an address that is kept normalises to
  itself, however it was signed or wrapped before.
\<close>

lemma normalize_idempotent:
  assumes kept: "normalizeRecordingUrl parse raw allowedHosts depth = Inr url"
    and bare: "\<And>t u. parse t = Some u \<Longrightarrow> url_pathname u \<notin> {[], ''/''} \<Longrightarrow>
                 parse (url_origin u @ url_pathname u) = Some (u\<lparr> url_inner := None \<rparr>)"
  shows "normalizeRecordingUrl parse url allowedHosts 0 = Inr url"
proof -
  obtain t u where "parse t = Some u" "url = url_origin u @ url_pathname u" "url_protocol u = ''https:''"
    "url_pathname u \<notin> {[], ''/''}" "isAllowedS3 (toLowerCase (url_hostname u)) allowedHosts"
    using normalized_address[OF kept] by metis
  with bare show ?thesis
    by (subst normalizeRecordingUrl.simps) (simp add: normalize_plain_def)
qed

section \<open>Recording artifacts\<close>

record CallArtifact =
  ca_id :: string
  ca_callId :: string
  ca_artifactType :: string
  ca_isFinal :: bool
  ca_sourceUrl :: "string option"
  ca_sha256 :: "string option"
  ca_audioProcessingStatus :: "string option"
  ca_audioAttemptCount :: "nat option"
  ca_audioLastAttemptAt :: "int option"
  ca_audioNextAttemptAt :: "int option"
  ca_audioLastError :: "string option"

record CallRow =
  call_id :: string
  call_logicalCallKey :: string
  call_sourceStartedAt :: "int option"
  call_billingPeriodDate :: string
  call_externalReferences :: "(string \<times> string) list"

section \<open>The backfill\<close>

record BackfillCandidate =
  bf_callArtifactId :: string
  bf_callId :: string
  bf_logicalCallKey :: string
  bf_existingSourceUrl :: "string option"

datatype BackfillOutcome = Backfilled | Already_present | Raw_missing | Call_not_in_export | No_recording_url | Unrecognized_url

record BackfillResult =
  br_id :: string
  br_outcome :: BackfillOutcome
  br_s3Url :: "string option"
  br_reason :: "NormalizeReason option"

definition listBackfillCandidates :: "nat \<Rightarrow> CallRow list \<Rightarrow> CallArtifact list \<Rightarrow> BackfillCandidate list" where
  "listBackfillCandidates limit calls artifacts =
     take limit (map (\<lambda>(a, c). \<lparr> bf_callArtifactId = ca_id a, bf_callId = call_id c,
                                 bf_logicalCallKey = call_logicalCallKey c, bf_existingSourceUrl = ca_sourceUrl a \<rparr>)
       (sort_key (\<lambda>(a, c). call_sourceStartedAt c)
         [(a, c). a \<leftarrow> artifacts, c \<leftarrow> calls, call_id c = ca_callId a \<and> ca_artifactType a = ''recording'' \<and>
                  ca_sourceUrl a = None]))"

definition setSourceUrl :: "string \<Rightarrow> string \<Rightarrow> CallArtifact list \<Rightarrow> CallArtifact list" where
  "setSourceUrl callArtifactId s3Url artifacts =
     map (\<lambda>a. if ca_id a = callArtifactId then a\<lparr> ca_sourceUrl := Some s3Url \<rparr> else a) artifacts"

text \<open>The artifact table and the issues written to the audit log: artifact, action and detail.\<close>

type_synonym backfill_state = "CallArtifact list \<times> (string \<times> string \<times> string) list"

definition recordIssue :: "string \<Rightarrow> string \<Rightarrow> string \<Rightarrow> backfill_state \<Rightarrow> backfill_state" where
  "recordIssue callArtifactId issueCode detail st =
     (fst st, snd st @ [(callArtifactId, ''backfill_'' @ issueCode, take 120 detail)])"

definition pickCallRecord :: "json \<Rightarrow> string \<Rightarrow> (string \<times> json) list option" where
  "pickCallRecord doc k =
     (case doc of
        JObj entries \<Rightarrow> (case map_of entries k of Some (JObj inner) \<Rightarrow> Some inner | _ \<Rightarrow> Some entries)
      | _ \<Rightarrow> None)"

definition recording_url :: "(string \<times> json) list \<Rightarrow> string option" where
  "recording_url entries =
     (case map_of entries ''recordingUrl'' of Some (JStr t) \<Rightarrow> if t \<noteq> [] then Some t else None | _ \<Rightarrow> None)"

definition backfill_result :: "BackfillCandidate \<Rightarrow> BackfillOutcome \<Rightarrow> BackfillResult" where
  "backfill_result c outcome = \<lparr> br_id = bf_callArtifactId c, br_outcome = outcome, br_s3Url = None, br_reason = None \<rparr>"

definition backfillSourceUrl ::
  "(string \<Rightarrow> parsed_url option) \<Rightarrow> (string \<Rightarrow> json option) \<Rightarrow> bool \<Rightarrow> string list \<Rightarrow> BackfillCandidate \<Rightarrow> backfill_state \<Rightarrow>
   backfill_state \<times> BackfillResult" where
  "backfillSourceUrl parse readByTaskId dryRun allowedHosts c st =
     (let issue = (\<lambda>issueCode detail. if dryRun then st else recordIssue (bf_callArtifactId c) issueCode detail st) in
      if truthy_text (bf_existingSourceUrl c) then (st, backfill_result c Already_present)
      else case readByTaskId (bf_logicalCallKey c) of
        None \<Rightarrow> (issue ''raw_missing'' (''taskId '' @ bf_logicalCallKey c), backfill_result c Raw_missing)
      | Some doc \<Rightarrow>
          (case pickCallRecord doc (bf_logicalCallKey c) of
             None \<Rightarrow> (issue ''call_not_in_export'' (bf_logicalCallKey c), backfill_result c Call_not_in_export)
           | Some entries \<Rightarrow>
               (case recording_url entries of
                  None \<Rightarrow> (st, backfill_result c No_recording_url)
                | Some rawUrl \<Rightarrow>
                    (case normalizeRecordingUrl parse rawUrl allowedHosts 0 of
                       Inl reason \<Rightarrow> (issue ''unrecognized_url'' (reason_text reason),
                                      (backfill_result c Unrecognized_url)\<lparr> br_reason := Some reason \<rparr>)
                     | Inr s3Url \<Rightarrow>
                         (if dryRun then st else (setSourceUrl (bf_callArtifactId c) s3Url (fst st), snd st),
                          (backfill_result c Backfilled)\<lparr> br_s3Url := Some s3Url \<rparr>)))))"

record BackfillSummary =
  bs_total :: nat
  bs_backfilled :: nat
  bs_alreadyPresent :: nat
  bs_rawMissing :: nat
  bs_callNotInExport :: nat
  bs_noRecordingUrl :: nat
  bs_unrecognizedUrl :: nat
  bs_results :: "BackfillResult list"

fun backfill_all ::
  "(string \<Rightarrow> parsed_url option) \<Rightarrow> (string \<Rightarrow> json option) \<Rightarrow> bool \<Rightarrow> string list \<Rightarrow> BackfillCandidate list \<Rightarrow>
   backfill_state \<Rightarrow> backfill_state \<times> BackfillResult list" where
  "backfill_all parse readByTaskId dryRun allowedHosts [] st = (st, [])"
| "backfill_all parse readByTaskId dryRun allowedHosts (c # cs) st =
     (let (st1, r) = backfillSourceUrl parse readByTaskId dryRun allowedHosts c st;
          (st2, rs) = backfill_all parse readByTaskId dryRun allowedHosts cs st1
      in (st2, r # rs))"

definition backfillBatch ::
  "(string \<Rightarrow> parsed_url option) \<Rightarrow> (string \<Rightarrow> json option) \<Rightarrow> bool \<Rightarrow> string list \<Rightarrow> BackfillCandidate list \<Rightarrow>
   backfill_state \<Rightarrow> backfill_state \<times> BackfillSummary" where
  "backfillBatch parse readByTaskId dryRun allowedHosts candidates st =
     (let (st', results) = backfill_all parse readByTaskId dryRun allowedHosts candidates st;
          n = (\<lambda>outcome. length (filter (\<lambda>r. br_outcome r = outcome) results))
      in (st', \<lparr> bs_total = length results, bs_backfilled = n Backfilled, bs_alreadyPresent = n Already_present,
                 bs_rawMissing = n Raw_missing, bs_callNotInExport = n Call_not_in_export,
                 bs_noRecordingUrl = n No_recording_url, bs_unrecognizedUrl = n Unrecognized_url,
                 bs_results = results \<rparr>))"

lemma outcome_partition:
  "length rs = length (filter (\<lambda>r. br_outcome r = Backfilled) rs) + length (filter (\<lambda>r. br_outcome r = Already_present) rs) +
     length (filter (\<lambda>r. br_outcome r = Raw_missing) rs) + length (filter (\<lambda>r. br_outcome r = Call_not_in_export) rs) +
     length (filter (\<lambda>r. br_outcome r = No_recording_url) rs) + length (filter (\<lambda>r. br_outcome r = Unrecognized_url) rs)"
proof (induction rs)
  case (Cons r rs)
  then show ?case by (cases "br_outcome r") auto
qed simp

text \<open>A batch answers every candidate, in order, and its counts add up; a dry run writes nothing.\<close>

lemma backfill_batch_accounts:
  assumes "backfillBatch parse readByTaskId dryRun allowedHosts cs st = (st', s)"
  shows "map br_id (bs_results s) = map bf_callArtifactId cs"
    and "bs_total s = bs_backfilled s + bs_alreadyPresent s + bs_rawMissing s + bs_callNotInExport s +
           bs_noRecordingUrl s + bs_unrecognizedUrl s"
    and "dryRun \<Longrightarrow> st' = st"
proof -
  have one: "br_id (snd (backfillSourceUrl parse readByTaskId dryRun allowedHosts c st)) = bf_callArtifactId c"
    "fst (backfillSourceUrl parse readByTaskId True allowedHosts c st) = st" for c st
    by (simp_all add: backfillSourceUrl_def backfill_result_def Let_def split: option.splits sum.splits)
  have ids: "map br_id (snd (backfill_all parse readByTaskId dryRun allowedHosts cs st)) = map bf_callArtifactId cs" for cs st
    by (induction cs arbitrary: st) (simp_all add: Let_def case_prod_beta one(1))
  have dry: "dryRun \<Longrightarrow> fst (backfill_all parse readByTaskId dryRun allowedHosts cs st) = st" for cs st
    by (induction cs arbitrary: st) (simp_all add: Let_def case_prod_beta one(2))
  show "map br_id (bs_results s) = map bf_callArtifactId cs" "dryRun \<Longrightarrow> st' = st"
    using assms ids[of cs st] dry[of cs st] by (auto simp: backfillBatch_def Let_def split: prod.splits)
  show "bs_total s = bs_backfilled s + bs_alreadyPresent s + bs_rawMissing s + bs_callNotInExport s +
           bs_noRecordingUrl s + bs_unrecognizedUrl s"
    using assms outcome_partition by (auto simp: backfillBatch_def Let_def split: prod.splits)
qed

end
