(* ===== verification/LateRecording.thy ===== *)
theory LateRecording
  imports RecordingUrl Settlement "HOL-Library.AList"
begin

text \<open>
  The rules of the late-recording workflow that need no database: the two-column upload, the address each
  row is reduced to, identities, fixed-precision totals (\<open>src/src/lateRecording/corrections.ts\<close>), and whether
  one row may attach a recording (\<open>src/src/lateRecording/eligibility.ts\<close>). Texts are byte sequences, so the
  length bounds count bytes and an upload is taken to be valid UTF-8.
\<close>

section \<open>Vocabulary\<close>

datatype LateRecordingRejectionCode =
    TASK_ID_REQUIRED | TASK_ID_DUPLICATE | TASK_ID_TOO_LONG | RECORDING_URL_REQUIRED | RECORDING_URL_TOO_LONG
  | URL_UNPARSEABLE | URL_NOT_HTTPS | URL_NOT_ALLOWLISTED
  | TASK_NOT_FOUND | TASK_AMBIGUOUS | INVOICE_MISSING
  | CALL_STATE_INELIGIBLE | RECORDING_ARTIFACT_MISSING | RECORDING_URL_ALREADY_PRESENT | AUDIT_ALREADY_COMPLETED
  | RATE_CARD_UNAVAILABLE

datatype LateRecordingRowDecision =
    Row_accepted (decision_row: nat)
  | Row_duplicate_replay (decision_row: nat)
  | Row_rejected (decision_row: nat) (decision_code: LateRecordingRejectionCode)

definition MAX_LATE_RECORDING_ROWS :: nat where
  "MAX_LATE_RECORDING_ROWS = 100"

definition MAX_LATE_RECORDING_FILE_BYTES :: nat where
  "MAX_LATE_RECORDING_FILE_BYTES = 256 * 1024"

definition MAX_TASK_ID_LENGTH :: nat where
  "MAX_TASK_ID_LENGTH = 191"

definition MAX_URL_LENGTH :: nat where
  "MAX_URL_LENGTH = 2048"

section \<open>The CSV reader\<close>

function csv_loop :: "string \<Rightarrow> bool \<Rightarrow> string \<Rightarrow> string list \<Rightarrow> string list list \<Rightarrow> string list list res" where
  "csv_loop [] quoted field row rows =
     (if quoted then Inl (LateRecordingError ''LATE_RECORDING_CSV_UNTERMINATED_QUOTE'' 400)
      else Inr (if field \<noteq> [] \<or> row \<noteq> [] then rows @ [row @ [trim field]] else rows))"
| "csv_loop (c # rest) quoted field row rows =
     (if quoted then
        if c = CHR 0x22 \<and> rest \<noteq> [] \<and> hd rest = CHR 0x22 then csv_loop (tl rest) True (field @ [CHR 0x22]) row rows
        else if c = CHR 0x22 then csv_loop rest False field row rows
        else csv_loop rest True (field @ [c]) row rows
      else if c = CHR 0x22 \<and> field = [] then csv_loop rest True field row rows
      else if c = CHR '','' then csv_loop rest False [] (row @ [trim field]) rows
      else if c = CHR 0x0A then csv_loop rest False [] [] (rows @ [row @ [trim field]])
      else if c \<noteq> CHR 0x0D then csv_loop rest False (field @ [c]) row rows
      else csv_loop rest False field row rows)"
  by pat_completeness auto
termination by (relation "measure (\<lambda>(s, _). length s)") auto

definition parseCsvGrid :: "string \<Rightarrow> string list list res" where
  "parseCsvGrid input =
     rbind (csv_loop input False [] [] []) (\<lambda>rows. Inr (filter (list_ex (\<lambda>cell. cell \<noteq> [])) rows))"

section \<open>The upload\<close>

record LateRecordingCsvRow =
  lr_rowNumber :: nat
  lr_taskId :: string
  lr_submittedUrl :: string

record parsed_upload =
  up_rows :: "LateRecordingCsvRow list"
  up_rejections :: "(nat \<times> LateRecordingRejectionCode) list"

definition header_index :: "string list \<Rightarrow> string \<Rightarrow> nat option" where
  "header_index headers = map_of (rev (zip headers [0..<length headers]))"

definition csv_cell :: "string list \<Rightarrow> nat option \<Rightarrow> string" where
  "csv_cell cells position =
     (case position of None \<Rightarrow> [] | Some i \<Rightarrow> if i < length cells then trim (cells ! i) else [])"

text \<open>What is wrong with one row, given the Task IDs already taken.\<close>

definition row_rejection :: "string list \<Rightarrow> string \<Rightarrow> string \<Rightarrow> LateRecordingRejectionCode option" where
  "row_rejection seen taskId submittedUrl =
     (if taskId = [] then Some TASK_ID_REQUIRED
      else if length taskId > MAX_TASK_ID_LENGTH \<or> has_control_character taskId then Some TASK_ID_TOO_LONG
      else if taskId \<in> set seen then Some TASK_ID_DUPLICATE
      else if submittedUrl = [] then Some RECORDING_URL_REQUIRED
      else if length submittedUrl > MAX_URL_LENGTH \<or> has_control_character submittedUrl then Some RECORDING_URL_TOO_LONG
      else None)"

fun upload_rows :: "(string \<Rightarrow> nat option) \<Rightarrow> string list list \<Rightarrow> nat \<Rightarrow> parsed_upload \<Rightarrow> parsed_upload" where
  "upload_rows index [] rowNumber up = up"
| "upload_rows index (cells # grid) rowNumber up =
     (let taskId = csv_cell cells (index ''Task ID'');
          submittedUrl = csv_cell cells (index ''Recording URL'')
      in upload_rows index grid (rowNumber + 1)
           (case row_rejection (map lr_taskId (up_rows up)) taskId submittedUrl of
              Some code \<Rightarrow> up\<lparr> up_rejections := up_rejections up @ [(rowNumber, code)] \<rparr>
            | None \<Rightarrow> up\<lparr> up_rows := up_rows up @
                [\<lparr> lr_rowNumber = rowNumber, lr_taskId = taskId, lr_submittedUrl = submittedUrl \<rparr>] \<rparr>))"

definition strip_bom :: "string \<Rightarrow> string" where
  "strip_bom s = (if take 3 s = [CHR 0xEF, CHR 0xBB, CHR 0xBF] then drop 3 s else s)"

definition parseLateRecordingCsv :: "string \<Rightarrow> parsed_upload res" where
  "parseLateRecordingCsv bytes =
     (if length bytes > MAX_LATE_RECORDING_FILE_BYTES then Inl (LateRecordingError ''LATE_RECORDING_FILE_TOO_LARGE'' 413)
      else rbind (parseCsvGrid (strip_bom bytes)) (\<lambda>grid.
        case grid of
          [] \<Rightarrow> Inl (LateRecordingError ''LATE_RECORDING_CSV_EMPTY'' 400)
        | headers # data \<Rightarrow>
            let index = header_index headers in
            rbind (first_error
              [(list_ex (\<lambda>h. index h = None) [''Task ID'', ''Recording URL''],
                LateRecordingError ''LATE_RECORDING_CSV_HEADERS_INVALID'' 400),
               (length data > MAX_LATE_RECORDING_ROWS, LateRecordingError ''LATE_RECORDING_BATCH_TOO_LARGE'' 400),
               (data = [], LateRecordingError ''LATE_RECORDING_CSV_EMPTY'' 400)]) (\<lambda>_.
            Inr (upload_rows index data 2 \<lparr> up_rows = [], up_rejections = [] \<rparr>))))"

section \<open>Identities\<close>

definition canonicalizeLateRecordingUrl ::
  "(string \<Rightarrow> parsed_url option) \<Rightarrow> string \<Rightarrow> string list \<Rightarrow> LateRecordingRejectionCode + string" where
  "canonicalizeLateRecordingUrl parse submittedUrl allowedHosts =
     (case normalizeRecordingUrl parse submittedUrl allowedHosts 0 of
        Inr s3Url \<Rightarrow> Inr s3Url
      | Inl reason \<Rightarrow>
          if reason = Not_https then Inl URL_NOT_HTTPS
          else if reason \<in> {Unparseable, Empty_path, Too_many_wrappers} then Inl URL_UNPARSEABLE
          else Inl URL_NOT_ALLOWLISTED)"

definition canonicalUrlSha256 :: "runtime \<Rightarrow> string \<Rightarrow> string" where
  "canonicalUrlSha256 rt canonicalUrl = sha256Hex rt canonicalUrl"

definition lateRecordingBatchDigest :: "runtime \<Rightarrow> string \<Rightarrow> (string \<times> string) list \<Rightarrow> string" where
  "lateRecordingBatchDigest rt billMonth items =
     sha256Hex rt (canonical (JObj
       [(''billMonth'', JStr billMonth),
        (''items'', JArr (map (\<lambda>(taskId, urlSha256). JObj [(''taskId'', JStr taskId), (''canonicalUrlSha256'', JStr urlSha256)])
           (Sorting_Algorithms.sort (key fst (localeCompare rt)) items)))]))"

text \<open>\<open>/^[A-Z][A-Z0-9_]{2,63}$/\<close>.\<close>

definition safe_failure_shape :: "string \<Rightarrow> bool" where
  "safe_failure_shape s =
     (3 \<le> length s \<and> length s \<le> 64 \<and> CHR ''A'' \<le> hd s \<and> hd s \<le> CHR ''Z'' \<and>
      list_all (\<lambda>c. (CHR ''A'' \<le> c \<and> c \<le> CHR ''Z'') \<or> is_digit c \<or> c = CHR ''_'') s)"

definition safeLateRecordingFailureCode :: "js_input \<Rightarrow> string" where
  "safeLateRecordingFailureCode v =
     (case v of
        Text_in s \<Rightarrow> if safe_failure_shape s then s else ''LATE_RECORDING_ITEM_FAILED''
      | _ \<Rightarrow> ''LATE_RECORDING_ITEM_FAILED'')"

text \<open>\<open>/^\d{4}-(?:0[1-9]|1[0-2])$/\<close> and \<open>/^[A-Za-z0-9._:-]{16,80}$/\<close>.\<close>

definition bill_month_shape :: "string \<Rightarrow> bool" where
  "bill_month_shape t = (month_shape t \<and> 1 \<le> month_number t \<and> month_number t \<le> 12)"

definition retry_key_shape :: "string \<Rightarrow> bool" where
  "retry_key_shape t =
     (16 \<le> length t \<and> length t \<le> 80 \<and> list_all (\<lambda>c. key_char c \<or> c = CHR ''.'' \<or> c = CHR '':'') t)"

definition invalid_request :: js_error where
  "invalid_request = LateRecordingError ''INVALID_LATE_RECORDING_REQUEST'' 400"

definition parseLateRecordingSubmission :: "js_input \<Rightarrow> js_input \<Rightarrow> (string \<times> string) res" where
  "parseLateRecordingSubmission month idempotencyKey =
     (let billMonth = (case month of Text_in t \<Rightarrow> trim t | _ \<Rightarrow> []);
          retryKey = (case idempotencyKey of Text_in t \<Rightarrow> t | _ \<Rightarrow> [])
      in rbind (first_error [(\<not> bill_month_shape billMonth, invalid_request), (\<not> retry_key_shape retryKey, invalid_request)])
           (\<lambda>_. Inr (billMonth, retryKey)))"

section \<open>Money\<close>

definition late_fixed8 :: "string \<Rightarrow> string res" where
  "late_fixed8 v =
     (case toScaled (Some v) of
        None \<Rightarrow> Inl (TypeError ''late recording amount is not a decimal'')
      | Some scaled \<Rightarrow>
          let absolute = padStart 9 (CHR ''0'') (string_of_nat (nat \<bar>scaled\<bar>))
          in Inr ((if scaled < 0 then ''-'' else []) @ but_last 8 absolute @ ''.'' @ last_chars 8 absolute))"

fun sum_scaled :: "string list \<Rightarrow> int \<Rightarrow> int res" where
  "sum_scaled [] acc = Inr acc"
| "sum_scaled (v # vs) acc =
     (case toScaled (Some v) of
        None \<Rightarrow> Inl (TypeError ''late recording amount is not a decimal'')
      | Some scaled \<Rightarrow> sum_scaled vs (acc + scaled))"

definition sumFixed8 :: "string list \<Rightarrow> string res" where
  "sumFixed8 vs = rbind (sum_scaled vs 0) (\<lambda>acc. late_fixed8 (fromScaled acc))"

record LateRecordingCorrectionTotals =
  ct_previousVerifiedTotal :: string
  ct_revisedVerifiedTotal :: string
  ct_deltaAmount :: string
  ct_correctedCount :: int

definition lateRecordingCorrectionTotals :: "string \<Rightarrow> string \<Rightarrow> int \<Rightarrow> LateRecordingCorrectionTotals res" where
  "lateRecordingCorrectionTotals previousVerifiedTotal revisedVerifiedTotal correctedCount =
     (if correctedCount < 0 then Inl (TypeError ''correctedCount must be a non-negative integer'')
      else case (toScaled (Some previousVerifiedTotal), toScaled (Some revisedVerifiedTotal)) of
        (Some previous, Some revised) \<Rightarrow>
          rbind (late_fixed8 previousVerifiedTotal) (\<lambda>p.
          rbind (late_fixed8 revisedVerifiedTotal) (\<lambda>r.
          rbind (late_fixed8 (fromScaled (revised - previous))) (\<lambda>d.
          Inr \<lparr> ct_previousVerifiedTotal = p, ct_revisedVerifiedTotal = r, ct_deltaAmount = d,
                ct_correctedCount = correctedCount \<rparr>)))
      | _ \<Rightarrow> Inl (TypeError ''late recording totals must be decimals''))"

datatype settlement_action = Proposed_finance_adjustment | No_settlement_recorded

record FinanceAdjustment =
  fa_deltaAmount :: string
  fa_revisedVariance :: "string option"
  fa_settlementAction :: settlement_action

definition proposedFinanceAdjustment :: "string \<Rightarrow> string \<Rightarrow> string option \<Rightarrow> FinanceAdjustment res" where
  "proposedFinanceAdjustment previousVerifiedTotal revisedVerifiedTotal actualPaidAmount =
     (case (toScaled (Some previousVerifiedTotal), toScaled (Some revisedVerifiedTotal)) of
        (Some previous, Some revised) \<Rightarrow>
          rbind (late_fixed8 (fromScaled (revised - previous))) (\<lambda>d.
          case toScaled (Some (coalesce actualPaidAmount [])) of
            None \<Rightarrow> Inr \<lparr> fa_deltaAmount = d, fa_revisedVariance = None, fa_settlementAction = No_settlement_recorded \<rparr>
          | Some paid \<Rightarrow>
              rbind (late_fixed8 (fromScaled (paid - revised))) (\<lambda>v.
              Inr \<lparr> fa_deltaAmount = d, fa_revisedVariance = Some v,
                    fa_settlementAction = Proposed_finance_adjustment \<rparr>))
      | _ \<Rightarrow> Inl (TypeError ''late recording totals must be decimals''))"

section \<open>Eligibility\<close>

record LateRecordingCallFacts =
  cf_callId :: string
  cf_artifactId :: "string option"
  cf_existingUrlSha256 :: "string option"
  cf_evidenceHashRecorded :: bool
  cf_invoicePresent :: bool
  cf_auditCompleted :: bool
  cf_liveCalculationId :: "string option"
  cf_liveCalculationBasis :: "string option"
  cf_liveTotalAmount :: "string option"

record LateRecordingRowFacts =
  rf_rowNumber :: nat
  rf_taskId :: string
  rf_canonicalUrlSha256 :: string
  rf_matches :: "LateRecordingCallFacts list"

record LateRecordingRowOutcome =
  ro_decision :: LateRecordingRowDecision
  ro_callId :: "string option"
  ro_artifactId :: "string option"
  ro_previousAmount :: "string option"
  ro_supersededCalculationId :: "string option"

definition bare_outcome :: "LateRecordingRowDecision \<Rightarrow> LateRecordingRowOutcome" where
  "bare_outcome d = \<lparr> ro_decision = d, ro_callId = None, ro_artifactId = None, ro_previousAmount = None,
                      ro_supersededCalculationId = None \<rparr>"

definition decideLateRecordingRow :: "LateRecordingRowFacts \<Rightarrow> bool \<Rightarrow> LateRecordingRowOutcome" where
  "decideLateRecordingRow row rateCardAvailable =
     (let reject = (\<lambda>code. bare_outcome (Row_rejected (rf_rowNumber row) code));
          callIds = remdups (map cf_callId (rf_matches row));
          call = hd (rf_matches row)
      in if \<not> rateCardAvailable then reject RATE_CARD_UNAVAILABLE
         else if length callIds = 0 then reject TASK_NOT_FOUND
         else if length callIds > 1 then reject TASK_AMBIGUOUS
         else if \<not> cf_invoicePresent call then reject INVOICE_MISSING
         else if cf_auditCompleted call then reject AUDIT_ALREADY_COMPLETED
         else if cf_liveCalculationBasis call \<noteq> None \<and> cf_liveCalculationBasis call \<noteq> Some ''no_recording_zero''
         then reject CALL_STATE_INELIGIBLE
         else if \<not> truthy_text (cf_artifactId call) then reject RECORDING_ARTIFACT_MISSING
         else if cf_existingUrlSha256 call \<noteq> None
         then if cf_existingUrlSha256 call = Some (rf_canonicalUrlSha256 row)
              then bare_outcome (Row_duplicate_replay (rf_rowNumber row))
              else reject RECORDING_URL_ALREADY_PRESENT
         else if cf_evidenceHashRecorded call then reject RECORDING_URL_ALREADY_PRESENT
         else \<lparr> ro_decision = Row_accepted (rf_rowNumber row), ro_callId = Some (cf_callId call),
                ro_artifactId = cf_artifactId call, ro_previousAmount = cf_liveTotalAmount call,
                ro_supersededCalculationId = cf_liveCalculationId call \<rparr>)"

record LateRecordingPreview =
  lp_decisions :: "LateRecordingRowDecision list"
  lp_submittedCount :: nat
  lp_acceptedCount :: nat
  lp_duplicateCount :: nat
  lp_rejectedCount :: nat
  lp_rejectionCounts :: "LateRecordingRejectionCode \<rightharpoonup> nat"

fun count_decision :: "LateRecordingRowDecision \<Rightarrow> LateRecordingPreview \<Rightarrow> LateRecordingPreview" where
  "count_decision (Row_accepted _) p = p\<lparr> lp_acceptedCount := lp_acceptedCount p + 1 \<rparr>"
| "count_decision (Row_duplicate_replay _) p = p\<lparr> lp_duplicateCount := lp_duplicateCount p + 1 \<rparr>"
| "count_decision (Row_rejected _ code) p =
     p\<lparr> lp_rejectedCount := lp_rejectedCount p + 1,
        lp_rejectionCounts := (lp_rejectionCounts p)(code \<mapsto> coalesce (lp_rejectionCounts p code) 0 + 1) \<rparr>"

definition summarizeLateRecordingDecisions :: "LateRecordingRowDecision list \<Rightarrow> nat \<Rightarrow> LateRecordingPreview" where
  "summarizeLateRecordingDecisions decisions submittedCount =
     fold count_decision decisions
       \<lparr> lp_decisions = sort_key decision_row decisions, lp_submittedCount = submittedCount, lp_acceptedCount = 0,
         lp_duplicateCount = 0, lp_rejectedCount = 0, lp_rejectionCounts = Map.empty \<rparr>"

datatype LateRecordingOutcome = Audited_projection | Accepted_as_billed_unverified | In_flight

definition decideLateRecordingOutcome :: "bool \<Rightarrow> bool \<Rightarrow> LateRecordingOutcome" where
  "decideLateRecordingOutcome auditCompleted auditExhausted =
     (if auditCompleted then Audited_projection
      else if auditExhausted then Accepted_as_billed_unverified
      else In_flight)"

section \<open>Reading back what a spreadsheet writes\<close>

definition print_cell :: "string \<Rightarrow> string" where
  "print_cell f = CHR 0x22 # concat (map (\<lambda>c. if c = CHR 0x22 then [c, c] else [c]) f) @ [CHR 0x22]"

definition print_row :: "string list \<Rightarrow> string" where
  "print_row cells = join_comma (map print_cell cells) @ [CHR 0x0A]"

definition print_csv :: "string list list \<Rightarrow> string" where
  "print_csv grid = concat (map print_row grid)"

definition not_quote :: "string \<Rightarrow> bool" where
  "not_quote rest \<longleftrightarrow> rest = [] \<or> hd rest \<noteq> CHR 0x22"

lemma csv_quoted_body:
  "not_quote rest \<Longrightarrow>
   csv_loop (concat (map (\<lambda>c. if c = CHR 0x22 then [c, c] else [c]) f) @ CHR 0x22 # rest) True acc row rows =
   csv_loop rest False (acc @ f) row rows"
proof (induction f arbitrary: acc)
  case Nil
  then show ?case by (cases rest) (auto simp: not_quote_def)
next
  case (Cons c f)
  then show ?case by (cases "c = CHR 0x22") simp_all
qed

lemma csv_cell_read:
  "not_quote rest \<Longrightarrow> csv_loop (print_cell f @ rest) False [] row rows = csv_loop rest False f row rows"
  using csv_quoted_body[of rest f "[]" row rows] by (simp add: print_cell_def)

lemma csv_row_read:
  "cells \<noteq> [] \<Longrightarrow>
   csv_loop (join_comma (map print_cell cells) @ CHR 0x0A # rest) False [] row rows =
   csv_loop rest False [] [] (rows @ [row @ map trim cells])"
proof (induction cells arbitrary: row rule: induct_list012)
  case (2 f)
  then show ?case by (simp add: csv_cell_read not_quote_def)
next
  case (3 f g cells)
  then show ?case by (simp add: csv_cell_read not_quote_def)
qed simp

lemma csv_grid_read:
  "csv_loop (print_csv grid) False [] [] rows =
   Inr (rows @ map (\<lambda>cells. if cells = [] then [[]] else map trim cells) grid)"
proof (induction grid arbitrary: rows)
  case (Cons cells grid)
  show ?case
  proof (cases "cells = []")
    case True
    with Cons[of "rows @ [[[]]]"] show ?thesis by (simp add: print_csv_def print_row_def)
  next
    case False
    with Cons[of "rows @ [map trim cells]"] csv_row_read[OF False, of "print_csv grid" "[]" rows]
    show ?thesis by (simp add: print_csv_def print_row_def)
  qed
qed (simp add: print_csv_def)

text \<open>
  Whatever cells a grid holds, commas, quotes, line breaks and all, writing it as quoted CSV and reading it
  back yields its cells trimmed, in order, without the rows that have no text at all.
\<close>
theorem csv_round_trip:
  "parseCsvGrid (print_csv grid) = Inr (filter (list_ex (\<lambda>cell. cell \<noteq> [])) (map (map trim) grid))"
proof -
  have "filter (list_ex (\<lambda>cell. cell \<noteq> [])) (map (\<lambda>cells. if cells = [] then [[]] else map trim cells) grid) =
        filter (list_ex (\<lambda>cell. cell \<noteq> [])) (map (map trim) grid)"
    by (induction grid) auto
  then show ?thesis by (simp add: parseCsvGrid_def csv_grid_read)
qed

section \<open>Every uploaded row is answered once\<close>

definition row_admissible :: "LateRecordingCsvRow \<Rightarrow> bool" where
  "row_admissible r \<longleftrightarrow> lr_taskId r \<noteq> [] \<and> length (lr_taskId r) \<le> MAX_TASK_ID_LENGTH \<and>
     \<not> has_control_character (lr_taskId r) \<and> lr_submittedUrl r \<noteq> [] \<and> length (lr_submittedUrl r) \<le> MAX_URL_LENGTH \<and>
     \<not> has_control_character (lr_submittedUrl r)"

definition upload_ok :: "nat \<Rightarrow> parsed_upload \<Rightarrow> bool" where
  "upload_ok next up \<longleftrightarrow> mset (map lr_rowNumber (up_rows up) @ map fst (up_rejections up)) = mset [2..<next] \<and>
     distinct (map lr_taskId (up_rows up)) \<and> list_all row_admissible (up_rows up)"

lemma upload_rows_ok: "upload_ok n up \<Longrightarrow> 2 \<le> n \<Longrightarrow> upload_ok (n + length grid) (upload_rows index grid n up)"
proof (induction grid arbitrary: n up)
  case (Cons cells grid)
  define t u where "t = csv_cell cells (index ''Task ID'')" and "u = csv_cell cells (index ''Recording URL'')"
  define up' where "up' = (case row_rejection (map lr_taskId (up_rows up)) t u of
      Some code \<Rightarrow> up\<lparr> up_rejections := up_rejections up @ [(n, code)] \<rparr>
    | None \<Rightarrow> up\<lparr> up_rows := up_rows up @ [\<lparr> lr_rowNumber = n, lr_taskId = t, lr_submittedUrl = u \<rparr>] \<rparr>)"
  have "upload_ok (n + 1) up'" using Cons.prems
    by (auto simp: up'_def upload_ok_def row_admissible_def row_rejection_def split: option.splits if_splits)
  moreover have "upload_rows index (cells # grid) n up = upload_rows index grid (n + 1) up'"
    unfolding up'_def t_def u_def by (simp add: Let_def)
  ultimately show ?case using Cons.IH[of "n + 1" up'] Cons.prems(2) by simp
qed simp

text \<open>
  An upload that is read has between one and a hundred data rows; each of them, under its spreadsheet row
  number, is either kept or rejected with one code, never both and never twice, and the rows kept have
  distinct Task IDs within the bounds on length and characters.
\<close>
theorem upload_rows_answered_once:
  assumes "parseLateRecordingCsv bytes = Inr up"
  shows "\<exists>n. 1 \<le> n \<and> n \<le> MAX_LATE_RECORDING_ROWS \<and>
           mset (map lr_rowNumber (up_rows up) @ map fst (up_rejections up)) = mset [2..<n + 2] \<and>
           distinct (map lr_taskId (up_rows up)) \<and> list_all row_admissible (up_rows up)"
proof -
  obtain index data where "up = upload_rows index data 2 \<lparr> up_rows = [], up_rejections = [] \<rparr>"
    and n: "1 \<le> length data" "length data \<le> MAX_LATE_RECORDING_ROWS"
  proof -
    obtain grid where "parseCsvGrid (strip_bom bytes) = Inr grid"
      using assms by (auto simp: parseLateRecordingCsv_def rbind_Inr_iff split: if_splits)
    with assms that show thesis
      by (cases grid) (auto simp: parseLateRecordingCsv_def rbind_Inr_iff first_error_Inr Let_def Suc_le_eq split: if_splits)
  qed
  moreover have "upload_ok 2 \<lparr> up_rows = [], up_rejections = [] \<rparr>" by (simp add: upload_ok_def)
  ultimately have "upload_ok (2 + length data) up" using upload_rows_ok by blast
  with n show ?thesis by (intro exI[of _ "length data"]) (simp add: upload_ok_def add.commute)
qed

definition demo_grid :: "string list list" where
  "demo_grid = [[''Task ID'', ''Recording URL''], [''T'', ''u''], [''T'', ''v'']]"

lemma demo_upload_grid: "parseCsvGrid (strip_bom (print_csv demo_grid)) = Inr demo_grid"
proof -
  have "strip_bom (print_csv demo_grid) = print_csv demo_grid"
    by (simp add: strip_bom_def print_csv_def print_row_def print_cell_def demo_grid_def)
  moreover have "map (map trim) demo_grid = demo_grid" by (simp add: demo_grid_def trim_def is_ws_def)
  ultimately show ?thesis by (simp add: csv_round_trip) (simp add: demo_grid_def)
qed

lemma demo_upload_read:
  "parseLateRecordingCsv (print_csv demo_grid) = Inr
     \<lparr> up_rows = [\<lparr> lr_rowNumber = 2, lr_taskId = ''T'', lr_submittedUrl = ''u'' \<rparr>],
       up_rejections = [(3, TASK_ID_DUPLICATE)] \<rparr>"
proof -
  have "length (print_csv demo_grid) \<le> MAX_LATE_RECORDING_FILE_BYTES"
    by (simp add: print_csv_def print_row_def print_cell_def demo_grid_def MAX_LATE_RECORDING_FILE_BYTES_def)
  then show ?thesis unfolding parseLateRecordingCsv_def demo_upload_grid
    by (simp add: demo_grid_def header_index_def csv_cell_def row_rejection_def has_control_character_def Let_def
        MAX_LATE_RECORDING_ROWS_def MAX_TASK_ID_LENGTH_def MAX_URL_LENGTH_def trim_def is_ws_def numeral_2_eq_2)
qed

theorem upload_rows_answered_once_witness:
  "\<exists>up n. parseLateRecordingCsv (print_csv demo_grid) = Inr up \<and> up_rejections up = [(3, TASK_ID_DUPLICATE)] \<and>
     mset (map lr_rowNumber (up_rows up) @ map fst (up_rejections up)) = mset [2..<n + 2]"
proof -
  obtain up where r: "parseLateRecordingCsv (print_csv demo_grid) = Inr up" "up_rejections up = [(3, TASK_ID_DUPLICATE)]"
    using demo_upload_read by simp
  from upload_rows_answered_once[OF r(1)] r show ?thesis by blast
qed

section \<open>Which rows may attach a recording\<close>

definition single_call :: "LateRecordingRowFacts \<Rightarrow> bool" where
  "single_call row \<longleftrightarrow> rf_matches row \<noteq> [] \<and>
     list_all (\<lambda>m. cf_callId m = cf_callId (hd (rf_matches row))) (rf_matches row)"

lemma one_call_id:
  "length (remdups (map cf_callId (rf_matches row))) = 1 \<longleftrightarrow> single_call row"
proof (cases "rf_matches row")
  case (Cons a as)
  have "length (remdups (map cf_callId (rf_matches row))) = card (cf_callId ` set (rf_matches row))"
    by (simp add: length_remdups_card_conv)
  also have "\<dots> = 1 \<longleftrightarrow> (\<exists>c. cf_callId ` set (rf_matches row) = {c})" by (simp add: card_1_singleton_iff)
  also have "\<dots> \<longleftrightarrow> single_call row" using Cons by (force simp: single_call_def list_all_iff)
  finally show ?thesis .
qed (simp add: single_call_def)

text \<open>The call a row names: the only one its Task ID resolved to, in a state this workflow may correct.\<close>

definition correctable :: "LateRecordingRowFacts \<Rightarrow> bool \<Rightarrow> bool" where
  "correctable row rateCardAvailable \<longleftrightarrow>
     rateCardAvailable \<and> single_call row \<and>
     (let call = hd (rf_matches row) in
      cf_invoicePresent call \<and> \<not> cf_auditCompleted call \<and>
      cf_liveCalculationBasis call \<in> {None, Some ''no_recording_zero''} \<and> truthy_text (cf_artifactId call))"

text \<open>
  A row is accepted exactly when its Task ID names one call with an invoice, no completed audit and no
  bill but the no-recording zero, whose recording artifact has neither an address nor an evidence hash; it is
  a replay exactly when that artifact already has the submitted address. Otherwise it is rejected. An accepted
  row carries that call, its artifact, its amount and its calculation.
\<close>
theorem late_row_decision:
  "(\<exists>n. ro_decision (decideLateRecordingRow row rateCard) = Row_accepted n) =
     (correctable row rateCard \<and> cf_existingUrlSha256 (hd (rf_matches row)) = None \<and>
      \<not> cf_evidenceHashRecorded (hd (rf_matches row))) \<and>
   (\<exists>n. ro_decision (decideLateRecordingRow row rateCard) = Row_duplicate_replay n) =
     (correctable row rateCard \<and> cf_existingUrlSha256 (hd (rf_matches row)) = Some (rf_canonicalUrlSha256 row)) \<and>
   decision_row (ro_decision (decideLateRecordingRow row rateCard)) = rf_rowNumber row \<and>
   ((\<exists>n. ro_decision (decideLateRecordingRow row rateCard) = Row_accepted n) =
    (ro_callId (decideLateRecordingRow row rateCard) \<noteq> None)) \<and>
   (ro_callId (decideLateRecordingRow row rateCard) = None \<or>
    decideLateRecordingRow row rateCard =
      \<lparr> ro_decision = Row_accepted (rf_rowNumber row), ro_callId = Some (cf_callId (hd (rf_matches row))),
        ro_artifactId = cf_artifactId (hd (rf_matches row)), ro_previousAmount = cf_liveTotalAmount (hd (rf_matches row)),
        ro_supersededCalculationId = cf_liveCalculationId (hd (rf_matches row)) \<rparr>)"
proof -
  let ?n = "length (remdups (map cf_callId (rf_matches row)))"
  show ?thesis
  proof (cases "single_call row")
    case True
    then have n: "?n = 1" by (simp only: one_call_id)
    show ?thesis
      unfolding decideLateRecordingRow_def Let_def correctable_def bare_outcome_def n using True by simp
  next
    case False
    then have "?n = 0 \<or> ?n > 1" using one_call_id[of row] by linarith
    then show ?thesis
      unfolding decideLateRecordingRow_def Let_def bare_outcome_def correctable_def using False by auto
  qed
qed

lemma accepted_row_facts:
  assumes "ro_decision (decideLateRecordingRow row rateCard) = Row_accepted n"
  shows "n = rf_rowNumber row" and "rateCard"
    and "ro_callId (decideLateRecordingRow row rateCard) = Some (cf_callId (hd (rf_matches row)))"
    and "\<exists>a. ro_artifactId (decideLateRecordingRow row rateCard) = Some a \<and> cf_artifactId (hd (rf_matches row)) = Some a"
    and "rf_matches row \<noteq> []"
  using assms
  by (auto simp: decideLateRecordingRow_def bare_outcome_def Let_def truthy_text_def split: if_splits option.splits)

section \<open>The summary\<close>

lemma count_decisions:
  "lp_acceptedCount (fold count_decision ds p) + lp_duplicateCount (fold count_decision ds p) +
     lp_rejectedCount (fold count_decision ds p) =
   lp_acceptedCount p + lp_duplicateCount p + lp_rejectedCount p + length ds"
  "lp_acceptedCount (fold count_decision ds p) = lp_acceptedCount p + length (filter is_Row_accepted ds)"
  "lp_rejectedCount (fold count_decision ds p) = lp_rejectedCount p + length (filter is_Row_rejected ds)"
  "coalesce (lp_rejectionCounts (fold count_decision ds p) c) 0 =
     coalesce (lp_rejectionCounts p c) 0 + length (filter (\<lambda>d. is_Row_rejected d \<and> decision_code d = c) ds)"
  "lp_decisions (fold count_decision ds p) = lp_decisions p"
  "lp_submittedCount (fold count_decision ds p) = lp_submittedCount p"
proof (induction ds arbitrary: p)
  case (Cons d ds)
  { case 1 show ?case using Cons(1) by (cases d) simp_all }
  { case 2 show ?case using Cons(2) by (cases d) simp_all }
  { case 3 show ?case using Cons(3) by (cases d) simp_all }
  { case 4 show ?case using Cons(4) by (cases d) simp_all }
  { case 5 show ?case using Cons(5) by (cases d) simp_all }
  { case 6 show ?case using Cons(6) by (cases d) simp_all }
qed simp_all

lemma summary_counts:
  "lp_acceptedCount (summarizeLateRecordingDecisions ds n) = length (filter is_Row_accepted ds)"
  "lp_rejectedCount (summarizeLateRecordingDecisions ds n) = length (filter is_Row_rejected ds)"
  "lp_acceptedCount (summarizeLateRecordingDecisions ds n) + lp_duplicateCount (summarizeLateRecordingDecisions ds n) +
     lp_rejectedCount (summarizeLateRecordingDecisions ds n) = length ds"
  "coalesce (lp_rejectionCounts (summarizeLateRecordingDecisions ds n) c) 0 =
     length (filter (\<lambda>d. is_Row_rejected d \<and> decision_code d = c) ds)"
  "lp_decisions (summarizeLateRecordingDecisions ds n) = sort_key decision_row ds"
  "lp_submittedCount (summarizeLateRecordingDecisions ds n) = n"
proof -
  show "lp_acceptedCount (summarizeLateRecordingDecisions ds n) + lp_duplicateCount (summarizeLateRecordingDecisions ds n) +
     lp_rejectedCount (summarizeLateRecordingDecisions ds n) = length ds"
    unfolding summarizeLateRecordingDecisions_def count_decisions(1) by simp
qed (simp_all add: summarizeLateRecordingDecisions_def count_decisions(2-6))

section \<open>Exact totals\<close>

lemma late_fixed8_scaled:
  "late_fixed8 v = (case toScaled (Some v) of
     None \<Rightarrow> Inl (TypeError ''late recording amount is not a decimal'') | Some s \<Rightarrow> Inr (formatScaledMoney s))"
  by (simp add: late_fixed8_def formatScaledMoney_def Let_def split: option.splits)

lemma late_fixed8_fromScaled [simp]: "late_fixed8 (fromScaled s) = Inr (formatScaledMoney s)"
  by (simp add: late_fixed8_scaled toScaled_fromScaled)

lemma late_fixed8_value: "late_fixed8 v = Inr t \<Longrightarrow> toScaled (Some t) = toScaled (Some v)"
  by (auto simp: late_fixed8_scaled toScaled_format split: option.splits)

lemma sum_scaled_value:
  "sum_scaled vs acc = (if list_all (\<lambda>v. toScaled (Some v) \<noteq> None) vs
     then Inr (acc + sum_list (map (\<lambda>v. coalesce (toScaled (Some v)) 0) vs))
     else Inl (TypeError ''late recording amount is not a decimal''))"
  by (induction vs arbitrary: acc) (auto split: option.splits)

lemma correction_totals_exact:
  assumes "toScaled (Some p) = Some x" "toScaled (Some r) = Some y" "0 \<le> n"
  shows "lateRecordingCorrectionTotals p r n = Inr
           \<lparr> ct_previousVerifiedTotal = formatScaledMoney x, ct_revisedVerifiedTotal = formatScaledMoney y,
             ct_deltaAmount = formatScaledMoney (y - x), ct_correctedCount = n \<rparr>"
  using assms by (simp add: lateRecordingCorrectionTotals_def late_fixed8_scaled toScaled_fromScaled)

end
