(* ===== verification/BillingLedger.thy ===== *)
theory BillingLedger
  imports AuditedProjection Outbox "HOL-Library.Option_ord" "HOL-Library.Sublist"
begin

text \<open>
  The ledger of billing decisions (\<open>src/src/adapters/mysqlVerifiedBilling.ts\<close>): one transaction stores the
  calculation, its component, the decision that explains it and the outbox message that announces it, or
  stores nothing. A transaction is one step on the tables it touches; its random ids are arguments and the
  unique keys of the tables are checked by the inserts. Instants are what \<open>Date.parse\<close> reads.
\<close>

section \<open>Tables\<close>

record RateCardRow =
  rc_id :: string
  rc_version :: string
  rc_status :: string
  rc_currency :: string
  rc_rulesetSha256 :: "string option"
  rc_approvedBy :: "string option"
  rc_approvedAt :: "string option"
  rc_effectiveFrom :: string
  rc_effectiveTo :: "string option"

record CalculationRow =
  cl_id :: string
  cl_row :: BillingCalculationRecord
  cl_calculatedAt :: "int option"
  cl_finalizedAt :: "int option"
  cl_supersedes :: "string option"

record ComponentRow =
  cp_id :: string
  cp_calculationId :: string
  cp_row :: BillingComponentRecord

record DecisionRow =
  dn_id :: string
  dn_row :: AutomatedDecisionRecord
  dn_calculationId :: "string option"
  dn_decidedAt :: "int option"
  dn_supersedes :: "string option"

record billing_db =
  db_rateCards :: "RateCardRow list"
  db_calculations :: "CalculationRow list"
  db_components :: "ComponentRow list"
  db_decisions :: "DecisionRow list"
  db_outbox :: outbox

definition cl_call :: "CalculationRow \<Rightarrow> string" where
  "cl_call r = bc_callId (cl_row r)"

definition dn_call :: "DecisionRow \<Rightarrow> string" where
  "dn_call r = dr_callId (dn_row r)"

section \<open>Probes\<close>

definition lockAndValidateRateCard :: "PublishedRateCard \<Rightarrow> RateCardRow list \<Rightarrow> unit res" where
  "lockAndValidateRateCard rateCard cards =
     (case find (\<lambda>r. rc_id r = rate_id rateCard) cards of
        Some row \<Rightarrow>
          if rc_version row \<noteq> rate_version rateCard \<or> rc_status row \<noteq> ''published'' \<or>
             rc_currency row \<noteq> rate_currency rateCard \<or> rc_rulesetSha256 row \<noteq> rate_rulesetSha256 rateCard \<or>
             rc_approvedBy row \<noteq> rate_approvedBy rateCard \<or> rc_approvedAt row = None
          then Inl (BillingPersistenceIntegrityError ''Rate card changed or is not formally published; billing write aborted'')
          else Inr ()
      | None \<Rightarrow> Inl (BillingPersistenceIntegrityError ''Rate card changed or is not formally published; billing write aborted''))"

text \<open>The manifest key of a decision; every decision of this table part is a \<open>verified_call_billing\<close> one.\<close>

definition same_decision :: "AutomatedDecisionRecord \<Rightarrow> DecisionRow \<Rightarrow> bool" where
  "same_decision d r =
     (dn_call r = dr_callId d \<and> dr_inputManifestSha256 (dn_row r) = dr_inputManifestSha256 d \<and>
      dr_rulesetSha256 (dn_row r) = dr_rulesetSha256 d)"

definition findExistingDecision :: "AutomatedDecisionRecord \<Rightarrow> DecisionRow list \<Rightarrow> DecisionRow option" where
  "findExistingDecision d rows = find (same_decision d) rows"

definition same_calculation :: "BillingCalculationRecord \<Rightarrow> CalculationRow \<Rightarrow> bool" where
  "same_calculation c r =
     (cl_call r = bc_callId c \<and> bc_rateCardVersionId (cl_row r) = bc_rateCardVersionId c \<and>
      bc_engineVersion (cl_row r) = bc_engineVersion c \<and> bc_inputManifestSha256 (cl_row r) = bc_inputManifestSha256 c)"

text \<open>\<open>ORDER BY instant DESC, id DESC LIMIT 1\<close>; a missing instant sorts last.\<close>

definition newest :: "('r \<Rightarrow> int option) \<Rightarrow> ('r \<Rightarrow> string) \<Rightarrow> 'r list \<Rightarrow> string option" where
  "newest instant ident rows =
     (case rev (sort_key (\<lambda>r. (instant r, ident r)) rows) of [] \<Rightarrow> None | r # _ \<Rightarrow> Some (ident r))"

definition live_calculations :: "CalculationRow list \<Rightarrow> CalculationRow list" where
  "live_calculations rows = filter (\<lambda>r. \<not> list_ex (\<lambda>n. cl_supersedes n = Some (cl_id r)) rows) rows"

definition live_decisions :: "DecisionRow list \<Rightarrow> DecisionRow list" where
  "live_decisions rows = filter (\<lambda>r. \<not> list_ex (\<lambda>n. dn_supersedes n = Some (dn_id r)) rows) rows"

definition findCurrentCalculation :: "string \<Rightarrow> CalculationRow list \<Rightarrow> string option" where
  "findCurrentCalculation callId rows =
     newest cl_calculatedAt cl_id (filter (\<lambda>r. cl_call r = callId) (live_calculations rows))"

definition findPreviousDecision :: "string \<Rightarrow> DecisionRow list \<Rightarrow> string option" where
  "findPreviousDecision callId rows =
     newest dn_decidedAt dn_id (filter (\<lambda>r. dn_call r = callId) (live_decisions rows))"

section \<open>The transaction\<close>

record fresh_ids =
  id_calculation :: string
  id_component :: string
  id_decision :: string
  id_outbox :: string

datatype persist_outcome = Persist_inserted | Persist_duplicate

record PersistVerifiedBillingResult =
  pr_outcome :: persist_outcome
  pr_decisionId :: string
  pr_billingCalculationId :: "string option"

definition isDuplicateKey :: "js_error \<Rightarrow> bool" where
  "isDuplicateKey e = (e = DriverError ''ER_DUP_ENTRY'')"

definition insert_calculation :: "CalculationRow \<Rightarrow> CalculationRow list \<Rightarrow> CalculationRow list res" where
  "insert_calculation row rows =
     (if list_ex (\<lambda>r. cl_id r = cl_id row \<or> same_calculation (cl_row row) r) rows
      then Inl (DriverError ''ER_DUP_ENTRY'') else Inr (rows @ [row]))"

definition insert_component :: "ComponentRow \<Rightarrow> ComponentRow list \<Rightarrow> ComponentRow list res" where
  "insert_component row rows =
     (if list_ex (\<lambda>r. cp_id r = cp_id row) rows then Inl (DriverError ''ER_DUP_ENTRY'') else Inr (rows @ [row]))"

definition insert_decision :: "DecisionRow \<Rightarrow> DecisionRow list \<Rightarrow> DecisionRow list res" where
  "insert_decision row rows =
     (if list_ex (\<lambda>r. dn_id r = dn_id row \<or> same_decision (dn_row row) r) rows
      then Inl (DriverError ''ER_DUP_ENTRY'') else Inr (rows @ [row]))"

definition calculation_row :: "runtime \<Rightarrow> fresh_ids \<Rightarrow> BillingCalculationRecord \<Rightarrow> string option \<Rightarrow> CalculationRow" where
  "calculation_row rt ids c supersedes =
     \<lparr> cl_id = id_calculation ids, cl_row = c, cl_calculatedAt = date_parse rt (bc_calculatedAt c),
       cl_finalizedAt = date_parse rt (bc_finalizedAt c), cl_supersedes = supersedes \<rparr>"

text \<open>The calculation and its component: an exact row is reused, another is appended.\<close>

definition store_calculation ::
  "runtime \<Rightarrow> fresh_ids \<Rightarrow> bool \<Rightarrow> BillingCalculationRecord \<Rightarrow> BillingComponentRecord \<Rightarrow> billing_db \<Rightarrow>
   (billing_db \<times> string) res" where
  "store_calculation rt ids firstSettlement c p db =
     (case (if firstSettlement then None else find (same_calculation c) (db_calculations db)) of
        Some exact \<Rightarrow>
          if bc_decisionTraceSha256 (cl_row exact) \<noteq> bc_decisionTraceSha256 c
          then Inl (BillingPersistenceIntegrityError ''The same billing manifest produced a different calculation trace'')
          else Inr (db, cl_id exact)
      | None \<Rightarrow>
          let supersedes = (if firstSettlement then None
                            else findCurrentCalculation (bc_callId c) (db_calculations db)) in
          rbind (insert_calculation (calculation_row rt ids c supersedes) (db_calculations db)) (\<lambda>calculations.
          rbind (insert_component \<lparr> cp_id = id_component ids, cp_calculationId = id_calculation ids, cp_row = p \<rparr>
                   (db_components db)) (\<lambda>components.
          Inr (db\<lparr> db_calculations := calculations, db_components := components \<rparr>, id_calculation ids))))"

definition billing_message ::
  "AutomatedDecisionRecord \<Rightarrow> string \<Rightarrow> string option \<Rightarrow> string option \<Rightarrow> NewOutboxMessage" where
  "billing_message d decisionId billingCalculationId correlationId =
     \<lparr> nm_messageId = ''verified-billing:'' @ dr_inputManifestSha256 d @ '':'' @ dr_rulesetSha256 d,
       nm_aggregateType = ''call'', nm_aggregateId = dr_callId d,
       nm_eventType = (if dr_decisionStatus d = ''final'' then ''billing.calculation_finalized''
                       else ''billing.decision_unresolved''),
       nm_payload = JObj
         [(''callId'', JStr (dr_callId d)), (''decisionId'', JStr decisionId),
          (''billingCalculationId'', json_str_opt billingCalculationId), (''status'', JStr (dr_decisionStatus d)),
          (''reasonCode'', JStr (dr_reasonCode d)), (''nextAction'', json_str_opt (dr_nextAction d)),
          (''inputManifestSha256'', JStr (dr_inputManifestSha256 d)), (''rulesetSha256'', JStr (dr_rulesetSha256 d)),
          (''decisionOutputSha256'', JStr (dr_decisionOutputSha256 d))],
       nm_correlationId = correlationId \<rparr>"

definition store_decision ::
  "runtime \<Rightarrow> fresh_ids \<Rightarrow> int \<Rightarrow> bool \<Rightarrow> AutomatedDecisionRecord \<Rightarrow> string option \<Rightarrow> string option \<Rightarrow> billing_db \<Rightarrow>
   (billing_db \<times> PersistVerifiedBillingResult) res" where
  "store_decision rt ids dbNow firstSettlement d billingCalculationId correlationId db =
     (let supersedes = (if firstSettlement then None else findPreviousDecision (dr_callId d) (db_decisions db)) in
      rbind (insert_decision \<lparr> dn_id = id_decision ids, dn_row = d, dn_calculationId = billingCalculationId,
                               dn_decidedAt = date_parse rt (dr_decidedAt d), dn_supersedes = supersedes \<rparr>
               (db_decisions db)) (\<lambda>decisions.
      rbind (enqueue rt (id_outbox ids) dbNow
               (billing_message d (id_decision ids) billingCalculationId correlationId) (db_outbox db)) (\<lambda>(outbox, _).
      Inr (db\<lparr> db_decisions := decisions, db_outbox := outbox \<rparr>,
           \<lparr> pr_outcome = Persist_inserted, pr_decisionId = id_decision ids,
             pr_billingCalculationId = billingCalculationId \<rparr>))))"

definition persist_transaction ::
  "runtime \<Rightarrow> fresh_ids \<Rightarrow> int \<Rightarrow> bool \<Rightarrow> VerifiedBillingRecords \<Rightarrow> PublishedRateCard \<Rightarrow> string option \<Rightarrow> billing_db \<Rightarrow>
   (billing_db \<times> PersistVerifiedBillingResult) res" where
  "persist_transaction rt ids dbNow firstSettlement records rateCard correlationId db =
     rbind (lockAndValidateRateCard rateCard (db_rateCards db)) (\<lambda>_.
     let d = vr_decision records in
     case (if firstSettlement then None else findExistingDecision d (db_decisions db)) of
       Some duplicate \<Rightarrow>
         if dr_decisionOutputSha256 (dn_row duplicate) \<noteq> dr_decisionOutputSha256 d
         then Inl (BillingPersistenceIntegrityError ''The same billing manifest/ruleset produced different decision bytes'')
         else Inr (db, \<lparr> pr_outcome = Persist_duplicate, pr_decisionId = dn_id duplicate,
                         pr_billingCalculationId = dn_calculationId duplicate \<rparr>)
     | None \<Rightarrow>
         rbind (case (vr_calculation records, vr_component records) of
                  (Some c, Some p) \<Rightarrow>
                    rbind (store_calculation rt ids firstSettlement c p db) (\<lambda>(db', i). Inr (db', Some i))
                | _ \<Rightarrow> Inr (db, None)) (\<lambda>(db', billingCalculationId).
         store_decision rt ids dbNow firstSettlement d billingCalculationId correlationId db'))"

text \<open>A failure rolls the transaction back; on the first settlement a duplicate key is the duplicate answer.\<close>

definition persistVerifiedBillingRecords ::
  "runtime \<Rightarrow> fresh_ids \<Rightarrow> int \<Rightarrow> bool \<Rightarrow> VerifiedBillingRecords \<Rightarrow> PublishedRateCard \<Rightarrow> string option \<Rightarrow> billing_db \<Rightarrow>
   billing_db \<times> PersistVerifiedBillingResult res" where
  "persistVerifiedBillingRecords rt ids dbNow firstSettlement records rateCard correlationId db =
     (case persist_transaction rt ids dbNow firstSettlement records rateCard correlationId db of
        Inr (db', r) \<Rightarrow> (db', Inr r)
      | Inl e \<Rightarrow>
          (db, if firstSettlement \<and> isDuplicateKey e
               then Inr \<lparr> pr_outcome = Persist_duplicate,
                          pr_decisionId = dr_inputManifestSha256 (vr_decision records),
                          pr_billingCalculationId = None \<rparr>
               else Inl e))"

definition persistVerifiedBillingDecision ::
  "runtime \<Rightarrow> fresh_ids \<Rightarrow> int \<Rightarrow> VerifiedBillingInput \<Rightarrow> PublishedRateCard \<Rightarrow> VerifiedBillingResult \<Rightarrow>
   string option \<Rightarrow> billing_db \<Rightarrow> billing_db \<times> PersistVerifiedBillingResult res" where
  "persistVerifiedBillingDecision rt ids dbNow input rateCard result correlationId db =
     (case buildVerifiedBillingRecords rt input rateCard result of
        Inl e \<Rightarrow> (db, Inl e)
      | Inr records \<Rightarrow> persistVerifiedBillingRecords rt ids dbNow False records rateCard correlationId db)"

section \<open>The month's total\<close>

text \<open>\<open>readVerifiedMonthTotal\<close>: the sum over the live final calculations of the calls of a month, as scaled integers.\<close>

definition verified_total :: "(string \<Rightarrow> bool) \<Rightarrow> billing_db \<Rightarrow> int" where
  "verified_total inMonth db =
     sum_list (map (\<lambda>r. amount_value (bc_totalAmount (cl_row r)))
       (filter (\<lambda>r. inMonth (cl_call r)) (live_calculations (db_calculations db))))"

section \<open>The chain of a call's calculations\<close>

definition rows_of :: "string \<Rightarrow> CalculationRow list \<Rightarrow> CalculationRow list" where
  "rows_of callId rows = filter (\<lambda>r. cl_call r = callId) rows"

definition predecessor :: "CalculationRow list \<Rightarrow> string option" where
  "predecessor rows = (if rows = [] then None else Some (cl_id (last rows)))"

fun linked_after :: "CalculationRow list \<Rightarrow> CalculationRow list \<Rightarrow> bool" where
  "linked_after before [] = True"
| "linked_after before (r # rs) = (cl_supersedes r = predecessor before \<and> linked_after (before @ [r]) rs)"

definition linked :: "CalculationRow list \<Rightarrow> bool" where
  "linked rows = linked_after [] rows"

lemma linked_after_snoc:
  "linked_after before (rs @ [r]) \<longleftrightarrow> linked_after before rs \<and> cl_supersedes r = predecessor (before @ rs)"
  by (induction rs arbitrary: before) auto

lemma linked_simps [simp]:
  "linked []" "linked (rs @ [r]) \<longleftrightarrow> linked rs \<and> cl_supersedes r = predecessor rs"
  by (simp_all add: linked_def linked_after_snoc)

lemma rows_of_simps [simp]:
  "rows_of c [] = []"
  "rows_of c (rows @ [r]) = (if cl_call r = c then rows_of c rows @ [r] else rows_of c rows)"
  "set (rows_of c rows) = {r \<in> set rows. cl_call r = c}"
  by (auto simp: rows_of_def)

lemma linked_superseded:
  "linked rs \<Longrightarrow> (\<exists>n \<in> set rs. cl_supersedes n = Some i) \<longleftrightarrow> i \<in> cl_id ` set (butlast rs)"
proof (induction rs rule: rev_induct)
  case (snoc r rs)
  then have ih: "(\<exists>n \<in> set rs. cl_supersedes n = Some i) \<longleftrightarrow> i \<in> cl_id ` set (butlast rs)"
    and r: "cl_supersedes r = predecessor rs" by simp_all
  have "(\<exists>n \<in> set (rs @ [r]). cl_supersedes n = Some i) \<longleftrightarrow> predecessor rs = Some i \<or> i \<in> cl_id ` set (butlast rs)"
    using ih r by auto
  also have "\<dots> \<longleftrightarrow> i \<in> cl_id ` set rs"
    by (cases rs rule: rev_cases) (auto simp: predecessor_def)
  finally show ?case by simp
qed simp

lemma linked_nth:
  "linked rs \<Longrightarrow> Suc i < length rs \<Longrightarrow> cl_supersedes (rs ! Suc i) = Some (cl_id (rs ! i))"
proof (induction rs rule: rev_induct)
  case (snoc r rs)
  show ?case
  proof (cases "Suc i < length rs")
    case True
    then show ?thesis using snoc by (simp add: nth_append)
  next
    case False
    then have l: "length rs = Suc i" using snoc.prems(2) by simp
    then have "rs \<noteq> []" by auto
    with l show ?thesis using snoc.prems(1)
      by (simp add: nth_append predecessor_def last_conv_nth)
  qed
qed simp

lemma filter_not_butlast:
  "distinct (map f xs) \<Longrightarrow> filter (\<lambda>r. f r \<notin> f ` set (butlast xs)) xs = (if xs = [] then [] else [last xs])"
  by (cases xs rule: rev_cases) (auto simp: filter_empty_conv)

definition well_linked :: "CalculationRow list \<Rightarrow> bool" where
  "well_linked rows \<longleftrightarrow> distinct (map cl_id rows) \<and> (\<forall>c. linked (rows_of c rows))"

lemma well_linked_superseded:
  assumes "well_linked rows" "r \<in> set rows"
  shows "(\<exists>n \<in> set rows. cl_supersedes n = Some (cl_id r)) \<longleftrightarrow>
         cl_id r \<in> cl_id ` set (butlast (rows_of (cl_call r) rows))"
proof
  assume "\<exists>n \<in> set rows. cl_supersedes n = Some (cl_id r)"
  then obtain n where n: "n \<in> set rows" "cl_supersedes n = Some (cl_id r)" by blast
  have "n \<in> set (rows_of (cl_call n) rows)" using n(1) by simp
  then have i: "cl_id r \<in> cl_id ` set (butlast (rows_of (cl_call n) rows))"
    using assms(1) n(2) linked_superseded[of "rows_of (cl_call n) rows" "cl_id r"]
    by (auto simp: well_linked_def)
  then obtain q where q: "q \<in> set (rows_of (cl_call n) rows)" "cl_id q = cl_id r" by (force dest: in_set_butlastD)
  then have "q = r" using assms by (auto simp: well_linked_def distinct_map inj_on_def)
  with q i show "cl_id r \<in> cl_id ` set (butlast (rows_of (cl_call r) rows))" by simp
next
  assume "cl_id r \<in> cl_id ` set (butlast (rows_of (cl_call r) rows))"
  then have "\<exists>n \<in> set (rows_of (cl_call r) rows). cl_supersedes n = Some (cl_id r)"
    using assms(1) linked_superseded[of "rows_of (cl_call r) rows" "cl_id r"] unfolding well_linked_def by blast
  then show "\<exists>n \<in> set rows. cl_supersedes n = Some (cl_id r)" by auto
qed

lemma live_of_call:
  assumes "well_linked rows"
  shows "filter (\<lambda>r. cl_call r = c) (live_calculations rows) =
         (if rows_of c rows = [] then [] else [last (rows_of c rows)])"
proof -
  let ?xs = "rows_of c rows"
  have "filter (\<lambda>r. cl_call r = c) (live_calculations rows) =
        filter (\<lambda>r. \<not> (\<exists>n \<in> set rows. cl_supersedes n = Some (cl_id r))) ?xs"
    by (simp add: live_calculations_def rows_of_def list_ex_iff conj_commute)
  also have "\<dots> = filter (\<lambda>r. cl_id r \<notin> cl_id ` set (butlast ?xs)) ?xs"
    by (rule filter_cong[OF refl]) (use well_linked_superseded[OF assms] in auto)
  also have "\<dots> = (if ?xs = [] then [] else [last ?xs])"
    using assms by (intro filter_not_butlast) (simp add: well_linked_def rows_of_def distinct_map_filter)
  finally show ?thesis .
qed

lemma newest_simps [simp]: "newest f g [] = None" "newest f g [r] = Some (g r)"
  by (simp_all add: newest_def)

lemma findCurrentCalculation_last:
  "well_linked rows \<Longrightarrow> findCurrentCalculation c rows = predecessor (rows_of c rows)"
  by (simp add: findCurrentCalculation_def live_of_call predecessor_def)

lemma well_linked_snoc:
  "well_linked rows \<Longrightarrow> cl_id r \<notin> cl_id ` set rows \<Longrightarrow> cl_supersedes r = predecessor (rows_of (cl_call r) rows) \<Longrightarrow>
   well_linked (rows @ [r])"
  by (auto simp: well_linked_def)

section \<open>What every transaction keeps\<close>

definition decision_key :: "DecisionRow \<Rightarrow> string \<times> string \<times> string" where
  "decision_key r = (dn_call r, dr_inputManifestSha256 (dn_row r), dr_rulesetSha256 (dn_row r))"

text \<open>A component row belongs to a calculation row and carries its total.\<close>

definition component_of :: "CalculationRow \<Rightarrow> ComponentRow \<Rightarrow> bool" where
  "component_of c p \<longleftrightarrow> cp_calculationId p = cl_id c \<and> bp_totalAmount (cp_row p) = bc_totalAmount (cl_row c)"

definition ledger_ok :: "billing_db \<Rightarrow> bool" where
  "ledger_ok db \<longleftrightarrow> well_linked (db_calculations db) \<and>
     list_all2 component_of (db_calculations db) (db_components db) \<and>
     distinct (map decision_key (db_decisions db))"

definition extends :: "billing_db \<Rightarrow> billing_db \<Rightarrow> bool" where
  "extends db db' \<longleftrightarrow> prefix (db_calculations db) (db_calculations db') \<and>
     prefix (db_components db) (db_components db') \<and> prefix (db_decisions db) (db_decisions db')"

lemma extends_refl [simp]: "extends db db"
  by (simp add: extends_def)

lemma extends_trans [trans]: "extends a b \<Longrightarrow> extends b c \<Longrightarrow> extends a c"
  by (auto simp: extends_def intro: prefix_order.trans)

lemma same_decision_key:
  "same_decision d q \<longleftrightarrow> decision_key q = (dr_callId d, dr_inputManifestSha256 d, dr_rulesetSha256 d)"
  by (auto simp: same_decision_def decision_key_def)

text \<open>The stored decision a result names.\<close>

definition recorded :: "AutomatedDecisionRecord \<Rightarrow> PersistVerifiedBillingResult \<Rightarrow> DecisionRow list \<Rightarrow> bool" where
  "recorded d r rows \<longleftrightarrow> (\<exists>q \<in> set rows. same_decision d q \<and>
     dr_decisionOutputSha256 (dn_row q) = dr_decisionOutputSha256 d \<and> dn_id q = pr_decisionId r \<and>
     dn_calculationId q = pr_billingCalculationId r)"

lemma store_calculation_cases:
  assumes "store_calculation rt ids first c p db = Inr (db', i)"
  obtains (reused) "db' = db" | (appended) "db' = db\<lparr> db_calculations := db_calculations db @
        [calculation_row rt ids c (if first then None else findCurrentCalculation (bc_callId c) (db_calculations db))],
      db_components := db_components db @
        [\<lparr> cp_id = id_component ids, cp_calculationId = id_calculation ids, cp_row = p \<rparr>] \<rparr>"
      "id_calculation ids \<notin> cl_id ` set (db_calculations db)"
proof (cases "if first then None else find (same_calculation c) (db_calculations db)")
  case None
  let ?row = "calculation_row rt ids c (if first then None else findCurrentCalculation (bc_callId c) (db_calculations db))"
  have "db' = db\<lparr> db_calculations := db_calculations db @ [?row], db_components := db_components db @
        [\<lparr> cp_id = id_component ids, cp_calculationId = id_calculation ids, cp_row = p \<rparr>] \<rparr>"
    and "\<not> list_ex (\<lambda>r. cl_id r = cl_id ?row) (db_calculations db)"
    using assms None
    by (auto simp: store_calculation_def insert_calculation_def insert_component_def Let_def rbind_Inr_iff
        list_ex_iff split: if_splits)
  then show thesis by (intro that(2)) (auto simp: list_ex_iff calculation_row_def)
next
  case (Some exact)
  with assms that(1) show thesis by (simp add: store_calculation_def split: if_splits)
qed

lemma store_calculation_keeps:
  assumes "store_calculation rt ids first c p db = Inr (db', i)" and "ledger_ok db"
    and "first \<Longrightarrow> rows_of (bc_callId c) (db_calculations db) = []"
    and "bp_totalAmount p = bc_totalAmount c"
  shows "ledger_ok db'" and "extends db db'" and "db_decisions db' = db_decisions db"
    and "db_outbox db' = db_outbox db" and "db_rateCards db' = db_rateCards db"
proof -
  let ?row = "calculation_row rt ids c
      (if first then None else findCurrentCalculation (bc_callId c) (db_calculations db))"
  have call: "cl_call ?row = bc_callId c" by (simp add: calculation_row_def cl_call_def)
  have pre: "cl_supersedes ?row = predecessor (rows_of (cl_call ?row) (db_calculations db))"
    using assms(2,3) call
    by (auto simp: calculation_row_def findCurrentCalculation_last ledger_ok_def predecessor_def)
  from assms(1) have "ledger_ok db' \<and> extends db db' \<and> db_decisions db' = db_decisions db \<and>
    db_outbox db' = db_outbox db \<and> db_rateCards db' = db_rateCards db"
  proof (cases rule: store_calculation_cases)
    case appended
    have "well_linked (db_calculations db @ [?row])"
      using appended(2) pre assms(2) by (intro well_linked_snoc) (auto simp: ledger_ok_def calculation_row_def)
    with appended(1) show ?thesis using assms(2,4)
      by (auto simp: ledger_ok_def extends_def component_of_def calculation_row_def intro!: list_all2_appendI)
  qed (use assms(2) in simp)
  then show "ledger_ok db'" "extends db db'" "db_decisions db' = db_decisions db"
    "db_outbox db' = db_outbox db" "db_rateCards db' = db_rateCards db" by simp_all
qed

lemma store_decision_keeps:
  assumes "store_decision rt ids now first d bid corr db = Inr (db', r)" and "ledger_ok db"
  shows "ledger_ok db'" and "extends db db'"
    and "recorded d r (db_decisions db')"
proof -
  from assms(1) obtain row out where db': "db' = db\<lparr> db_decisions := db_decisions db @ [row], db_outbox := out \<rparr>"
    and row: "dn_row row = d" "dn_id row = pr_decisionId r" "dn_calculationId row = pr_billingCalculationId r"
    and fresh: "\<forall>q \<in> set (db_decisions db). \<not> same_decision d q"
    by (auto simp: store_decision_def insert_decision_def Let_def rbind_Inr_iff list_ex_iff split: if_splits prod.splits)
  have "decision_key row \<notin> decision_key ` set (db_decisions db)"
    using fresh row(1) by (auto simp: same_decision_key decision_key_def dn_call_def)
  then show "ledger_ok db'" using assms(2) db' by (simp add: ledger_ok_def)
  show "extends db db'" by (simp add: db' extends_def)
  show "recorded d r (db_decisions db')" using row by (auto simp: db' recorded_def same_decision_def dn_call_def)
qed

lemma persist_transaction_keeps:
  assumes t: "persist_transaction rt ids now first records rateCard corr db = Inr (db', r)" and "ledger_ok db"
    and "rows_consistent rt records"
    and "first \<Longrightarrow> rows_of (dr_callId (vr_decision records)) (db_calculations db) = []"
  shows "ledger_ok db'" and "extends db db'"
    and "recorded (vr_decision records) r (db_decisions db')"
proof -
  let ?d = "vr_decision records"
  consider (duplicate) "db' = db" "recorded ?d r (db_decisions db)"
    | (unpriced) "store_decision rt ids now first ?d None corr db = Inr (db', r)"
    | (priced) c p db1 i where "vr_calculation records = Some c" "vr_component records = Some p"
      "store_calculation rt ids first c p db = Inr (db1, i)"
      "store_decision rt ids now first ?d (Some i) corr db1 = Inr (db', r)"
  proof (cases "if first then None else findExistingDecision ?d (db_decisions db)")
    case None
    with t that(2,3) show thesis
      by (auto simp: persist_transaction_def Let_def rbind_Inr_iff split: option.splits if_splits)
  next
    case (Some q)
    then have "q \<in> set (db_decisions db)" "same_decision ?d q"
      by (auto simp: findExistingDecision_def find_Some_iff split: if_splits)
    with Some t have "db' = db" "recorded ?d r (db_decisions db)"
      by (auto simp: persist_transaction_def Let_def rbind_Inr_iff recorded_def split: if_splits)
    then show thesis by (rule that(1))
  qed
  then have "ledger_ok db' \<and> extends db db' \<and> recorded ?d r (db_decisions db')"
  proof (cases)
    case duplicate
    then show ?thesis using assms(2) by simp
  next
    case unpriced
    from store_decision_keeps[OF this assms(2)] show ?thesis by simp
  next
    case priced
    have agree: "bc_callId c = dr_callId ?d" "bp_totalAmount p = bc_totalAmount c"
      using assms(3) priced(1,2) by (auto simp: rows_consistent_def rows_agree_def)
    note k = store_calculation_keeps[OF priced(3) assms(2) _ agree(2), unfolded agree(1), OF assms(4)]
    from store_decision_keeps[OF priced(4) k(1)] show ?thesis
      using k(2) by (auto intro: extends_trans)
  qed
  then show "ledger_ok db'" "extends db db'" "recorded ?d r (db_decisions db')" by simp_all
qed

section \<open>Histories of the ledger\<close>

text \<open>
  A step is one attempted billing write, or another component's change of the outbox or of the rate cards.
  A first settlement is attempted only for a call without a calculation, as its callers establish.
\<close>

inductive ledger_step :: "runtime \<Rightarrow> billing_db \<Rightarrow> billing_db \<Rightarrow> bool" for rt where
  attempted: "\<lbrakk> rows_consistent rt records; first \<longrightarrow> rows_of (dr_callId (vr_decision records)) (db_calculations db) = [] \<rbrakk> \<Longrightarrow>
    ledger_step rt db (fst (persistVerifiedBillingRecords rt ids now first records rateCard corr db))"
| outbox_moves: "ledger_step rt db (db\<lparr> db_outbox := outbox \<rparr>)"
| rate_cards: "ledger_step rt db (db\<lparr> db_rateCards := cards \<rparr>)"

inductive_cases ledger_stepE: "ledger_step rt db db'"

definition empty_ledger :: "RateCardRow list \<Rightarrow> outbox \<Rightarrow> billing_db" where
  "empty_ledger cards outbox =
     \<lparr> db_rateCards = cards, db_calculations = [], db_components = [], db_decisions = [], db_outbox = outbox \<rparr>"

lemma empty_ledger_ok [simp]: "ledger_ok (empty_ledger cards outbox)"
  by (simp add: empty_ledger_def ledger_ok_def well_linked_def)

lemma persist_keeps:
  assumes "ledger_ok db" "rows_consistent rt records"
    and "first \<Longrightarrow> rows_of (dr_callId (vr_decision records)) (db_calculations db) = []"
    and "db' = fst (persistVerifiedBillingRecords rt ids now first records rateCard corr db)"
  shows "ledger_ok db'" "extends db db'"
  using persist_transaction_keeps[OF _ assms(1,2,3)] assms(1,4)
  by (auto simp: persistVerifiedBillingRecords_def split: sum.splits prod.splits)

lemma ledger_step_keeps: "ledger_step rt db db' \<Longrightarrow> ledger_ok db \<Longrightarrow> ledger_ok db' \<and> extends db db'"
proof (induction rule: ledger_step.induct)
  case (attempted records first db ids now rateCard corr)
  then show ?case using persist_keeps[OF attempted(3,1) _ refl] by blast
qed (auto simp: ledger_ok_def extends_def)

interpretation ledger: monotone_system "ledger_step rt" ledger_ok extends for rt
  by unfold_locales (auto intro: extends_trans dest: ledger_step_keeps)

lemma component_totals:
  "list_all2 component_of cs ps \<Longrightarrow> map (bp_totalAmount \<circ> cp_row) ps = map (bc_totalAmount \<circ> cl_row) cs"
  by (induction rule: list_all2_induct) (auto simp: component_of_def)


lemma recorded_unique:
  assumes "ledger_ok db" "recorded d r (db_decisions db)" "findExistingDecision d (db_decisions db) = Some q"
  shows "dn_id q = pr_decisionId r" "dn_calculationId q = pr_billingCalculationId r"
    "dr_decisionOutputSha256 (dn_row q) = dr_decisionOutputSha256 d"
proof -
  obtain p where p: "p \<in> set (db_decisions db)" "same_decision d p" "dn_id p = pr_decisionId r"
      "dn_calculationId p = pr_billingCalculationId r" "dr_decisionOutputSha256 (dn_row p) = dr_decisionOutputSha256 d"
    using assms(2) by (auto simp: recorded_def)
  have "q \<in> set (db_decisions db)" "same_decision d q"
    using assms(3) by (auto simp: findExistingDecision_def find_Some_iff)
  then have "q = p" using p(1,2) assms(1)
    by (auto simp: ledger_ok_def distinct_map inj_on_def same_decision_key)
  with p show "dn_id q = pr_decisionId r" "dn_calculationId q = pr_billingCalculationId r"
    "dr_decisionOutputSha256 (dn_row q) = dr_decisionOutputSha256 d" by simp_all
qed

lemma recorded_later: "recorded d r (db_decisions db) \<Longrightarrow> extends db db' \<Longrightarrow> recorded d r (db_decisions db')"
  by (auto simp: recorded_def extends_def dest: set_mono_prefix)

text \<open>
  Once a decision has been written or recognised, every later write of the same records, whatever was
  written in between, changes nothing and names the same decision and calculation, as long as the rate card
  is still the published one.
\<close>
theorem billing_write_idempotent:
  assumes "(ledger_step rt)\<^sup>*\<^sup>* (empty_ledger cards outbox) db"
    and "rows_consistent rt records"
    and "persistVerifiedBillingRecords rt ids now False records rateCard corr db = (db1, Inr r)"
    and "(ledger_step rt)\<^sup>*\<^sup>* db1 db2"
    and "lockAndValidateRateCard rateCard (db_rateCards db2) = Inr ()"
  shows "persistVerifiedBillingRecords rt ids' now' False records rateCard corr' db2 =
           (db2, Inr (r\<lparr> pr_outcome := Persist_duplicate \<rparr>))"
proof -
  let ?d = "vr_decision records"
  have ok: "ledger_ok db" using ledger.run_ok[OF assms(1)] by simp
  have t: "persist_transaction rt ids now False records rateCard corr db = Inr (db1, r)"
    using assms(3) by (auto simp: persistVerifiedBillingRecords_def split: sum.splits prod.splits)
  note k = persist_transaction_keeps[OF t ok assms(2)]
  have ok2: "ledger_ok db2" and rec: "recorded ?d r (db_decisions db2)"
    using ledger.run_keeps[OF assms(4)] k by (auto intro: recorded_later)
  then obtain q where q: "findExistingDecision ?d (db_decisions db2) = Some q"
    by (cases "findExistingDecision ?d (db_decisions db2)")
      (auto simp: recorded_def findExistingDecision_def find_None_iff)
  show ?thesis using recorded_unique[OF ok2 rec q]
    by (simp add: persistVerifiedBillingRecords_def persist_transaction_def assms(5) q)
qed

section \<open>A write that succeeds\<close>

definition fresh_for :: "fresh_ids \<Rightarrow> VerifiedBillingRecords \<Rightarrow> billing_db \<Rightarrow> bool" where
  "fresh_for ids records db \<longleftrightarrow>
     id_calculation ids \<notin> cl_id ` set (db_calculations db) \<and> id_component ids \<notin> cp_id ` set (db_components db) \<and>
     id_decision ids \<notin> dn_id ` set (db_decisions db) \<and>
     list_all (\<lambda>r. \<not> same_decision (vr_decision records) r) (db_decisions db) \<and>
     (case vr_calculation records of None \<Rightarrow> True | Some c \<Rightarrow> list_all (\<lambda>r. \<not> same_calculation c r) (db_calculations db)) \<and>
     list_all (\<lambda>r. ob_id r \<noteq> id_outbox ids \<and> ob_messageId r \<noteq>
       Some (''verified-billing:'' @ dr_inputManifestSha256 (vr_decision records) @ '':'' @
             dr_rulesetSha256 (vr_decision records))) (db_outbox db)"

lemma find_none_all: "list_all (\<lambda>r. \<not> P r) xs \<Longrightarrow> find P xs = None"
  by (simp add: find_None_iff list_all_iff)

lemma message_finite: "finite_json (nm_payload (billing_message d i b corr))"
  by (simp add: billing_message_def)

lemma store_decision_succeeds:
  assumes "id_decision ids \<notin> dn_id ` set (db_decisions db)" "list_all (\<lambda>r. \<not> same_decision d r) (db_decisions db)"
    and "list_all (\<lambda>r. ob_id r \<noteq> id_outbox ids \<and> ob_messageId r \<noteq>
       Some (''verified-billing:'' @ dr_inputManifestSha256 d @ '':'' @ dr_rulesetSha256 d)) (db_outbox db)"
  obtains db' where "store_decision rt ids now first d b corr db = Inr (db',
      \<lparr> pr_outcome = Persist_inserted, pr_decisionId = id_decision ids, pr_billingCalculationId = b \<rparr>)"
    "db_calculations db' = db_calculations db" "db_rateCards db' = db_rateCards db"
proof -
  have n: "nm_messageId (billing_message d i b corr) = ''verified-billing:'' @ dr_inputManifestSha256 d @ '':'' @ dr_rulesetSha256 d" for i
    by (simp add: billing_message_def)
  have e: "\<not> list_ex (\<lambda>r. ob_id r = id_outbox ids \<or>
      ob_messageId r = Some (nm_messageId (billing_message d (id_decision ids) b corr))) (db_outbox db)"
    using assms(3) unfolding n by (auto simp: list_all_iff list_ex_iff)
  have "\<exists>out x. enqueue rt (id_outbox ids) now (billing_message d (id_decision ids) b corr) (db_outbox db) = Inr (out, x)"
    unfolding enqueue_def canonicalJson_finite[OF message_finite] using e by (simp add: Let_def)
  then obtain out x where q: "enqueue rt (id_outbox ids) now (billing_message d (id_decision ids) b corr) (db_outbox db) = Inr (out, x)"
    by blast
  have "\<not> list_ex (\<lambda>r. dn_id r = id_decision ids \<or> same_decision d r) (db_decisions db)"
    using assms(1,2) by (force simp: list_all_iff list_ex_iff)
  then show thesis
    using that by (auto simp: store_decision_def insert_decision_def Let_def q)
qed

lemma store_calculation_succeeds:
  assumes "id_calculation ids \<notin> cl_id ` set (db_calculations db)" "id_component ids \<notin> cp_id ` set (db_components db)"
    and "list_all (\<lambda>r. \<not> same_calculation c r) (db_calculations db)"
  obtains s where "store_calculation rt ids first c p db = Inr (db\<lparr>
      db_calculations := db_calculations db @ [calculation_row rt ids c s],
      db_components := db_components db @
        [\<lparr> cp_id = id_component ids, cp_calculationId = id_calculation ids, cp_row = p \<rparr>] \<rparr>, id_calculation ids)"
proof -
  have "\<not> list_ex (\<lambda>r. cl_id r = id_calculation ids \<or> same_calculation c r) (db_calculations db)"
    "\<not> list_ex (\<lambda>r. cp_id r = id_component ids) (db_components db)"
    using assms by (force simp: list_all_iff list_ex_iff)+
  then show thesis using find_none_all[OF assms(3)]
    by (intro that[of "if first then None else findCurrentCalculation (bc_callId c) (db_calculations db)"])
      (simp add: store_calculation_def insert_calculation_def insert_component_def calculation_row_def)
qed

lemma persist_succeeds:
  assumes card: "lockAndValidateRateCard rateCard (db_rateCards db) = Inr ()" and fresh: "fresh_for ids records db"
    and "vr_calculation records = Some c" "vr_component records = Some p"
  obtains db' s where "persistVerifiedBillingRecords rt ids now first records rateCard corr db = (db', Inr
      \<lparr> pr_outcome = Persist_inserted, pr_decisionId = id_decision ids, pr_billingCalculationId = Some (id_calculation ids) \<rparr>)"
    "db_calculations db' = db_calculations db @ [calculation_row rt ids c s]" "db_rateCards db' = db_rateCards db"
proof -
  let ?d = "vr_decision records"
  let ?r = "\<lparr> pr_outcome = Persist_inserted, pr_decisionId = id_decision ids,
             pr_billingCalculationId = Some (id_calculation ids) \<rparr>"
  let ?db = "\<lambda>s. db\<lparr> db_calculations := db_calculations db @ [calculation_row rt ids c s],
      db_components := db_components db @
        [\<lparr> cp_id = id_component ids, cp_calculationId = id_calculation ids, cp_row = p \<rparr>] \<rparr>"
  have f: "id_calculation ids \<notin> cl_id ` set (db_calculations db)" "id_component ids \<notin> cp_id ` set (db_components db)"
    "list_all (\<lambda>r. \<not> same_calculation c r) (db_calculations db)"
    using fresh assms(3) by (simp_all add: fresh_for_def)
  obtain s where s: "store_calculation rt ids first c p db = Inr (?db s, id_calculation ids)"
    by (rule store_calculation_succeeds[OF f])
  have g: "id_decision ids \<notin> dn_id ` set (db_decisions (?db s))"
    "list_all (\<lambda>r. \<not> same_decision ?d r) (db_decisions (?db s))"
    "list_all (\<lambda>r. ob_id r \<noteq> id_outbox ids \<and> ob_messageId r \<noteq>
       Some (''verified-billing:'' @ dr_inputManifestSha256 ?d @ '':'' @ dr_rulesetSha256 ?d)) (db_outbox (?db s))"
    using fresh by (simp_all add: fresh_for_def)
  obtain db' where d: "store_decision rt ids now first ?d (Some (id_calculation ids)) corr (?db s) = Inr (db', ?r)"
    "db_calculations db' = db_calculations (?db s)" "db_rateCards db' = db_rateCards (?db s)"
    by (rule store_decision_succeeds[OF g])
  have "findExistingDecision (vr_decision records) (db_decisions db) = None"
    using fresh by (auto simp: fresh_for_def findExistingDecision_def find_none_all)
  then have "persist_transaction rt ids now first records rateCard corr db = Inr (db', ?r)"
    unfolding persist_transaction_def card rbind_simps Let_def assms(3,4) using s d(1) by (cases first) simp_all
  then have "persistVerifiedBillingRecords rt ids now first records rateCard corr db = (db', Inr ?r)"
    by (simp add: persistVerifiedBillingRecords_def)
  then show thesis using d(2,3) that by simp
qed

section \<open>The month's total moves by the difference\<close>

lemma live_snoc:
  assumes "well_linked rows" "cl_id r \<notin> cl_id ` set rows" "cl_supersedes r \<noteq> Some (cl_id r)"
  shows "live_calculations (rows @ [r]) = filter (\<lambda>q. cl_supersedes r \<noteq> Some (cl_id q)) (live_calculations rows) @ [r]"
proof -
  have "cl_supersedes n \<noteq> Some (cl_id r)" if "n \<in> set rows" for n
  proof
    assume n: "cl_supersedes n = Some (cl_id r)"
    have "linked (rows_of (cl_call n) rows)" using assms(1) by (simp add: well_linked_def)
    from linked_superseded[OF this, of "cl_id r"] n that
    have "cl_id r \<in> cl_id ` set (butlast (rows_of (cl_call n) rows))" by auto
    then have "cl_id r \<in> cl_id ` set (rows_of (cl_call n) rows)" by (auto dest: in_set_butlastD)
    then show False using assms(2) by auto
  qed
  then show ?thesis using assms(3)
    by (auto simp: live_calculations_def list_ex_iff intro!: filter_cong)
qed

definition live_amount :: "string \<Rightarrow> billing_db \<Rightarrow> int" where
  "live_amount callId db = verified_total (\<lambda>c. c = callId) db"

lemma sum_list_filter_split:
  "sum_list (map f (filter P xs)) = sum_list (map f xs) - sum_list (map f (filter (\<lambda>x. \<not> P x) xs))"
  for f :: "'a \<Rightarrow> int"
  by (induction xs) auto

lemma verified_total_snoc:
  assumes wl: "well_linked (db_calculations db)" and fresh: "cl_id r \<notin> cl_id ` set (db_calculations db)"
    and pre: "cl_supersedes r = predecessor (rows_of (cl_call r) (db_calculations db))"
    and db': "db_calculations db' = db_calculations db @ [r]"
  shows "verified_total inMonth db' = verified_total inMonth db +
           (if inMonth (cl_call r) then amount_value (bc_totalAmount (cl_row r)) - live_amount (cl_call r) db else 0)"
proof -
  let ?rows = "db_calculations db" let ?xs = "rows_of (cl_call r) ?rows" let ?amt = "\<lambda>q. amount_value (bc_totalAmount (cl_row q))"
  have live: "filter (\<lambda>q. cl_call q = cl_call r) (live_calculations ?rows) = (if ?xs = [] then [] else [last ?xs])"
    by (rule live_of_call[OF wl])
  have last_in: "last ?xs \<in> set ?rows" "cl_call (last ?xs) = cl_call r" if "?xs \<noteq> []"
    using last_in_set[OF that] by auto
  have self: "cl_supersedes r \<noteq> Some (cl_id r)"
    using pre fresh last_in(1) by (force simp: predecessor_def split: if_splits)
  have iff: "cl_supersedes r = Some (cl_id q) \<longleftrightarrow> cl_call q = cl_call r" if "q \<in> set (live_calculations ?rows)" for q
  proof
    assume "cl_supersedes r = Some (cl_id q)"
    then have "?xs \<noteq> []" "cl_id q = cl_id (last ?xs)" using pre by (auto simp: predecessor_def split: if_splits)
    moreover have "q \<in> set ?rows" using that by (simp add: live_calculations_def)
    ultimately have "q = last ?xs" using wl last_in by (auto simp: well_linked_def distinct_map inj_on_def)
    then show "cl_call q = cl_call r" using last_in \<open>?xs \<noteq> []\<close> by simp
  next
    assume "cl_call q = cl_call r"
    then have "q \<in> set (filter (\<lambda>q. cl_call q = cl_call r) (live_calculations ?rows))" using that by simp
    then have "?xs \<noteq> [] \<and> q = last ?xs" unfolding live by (auto split: if_splits)
    then show "cl_supersedes r = Some (cl_id q)" using pre by (simp add: predecessor_def)
  qed
  have "filter (\<lambda>q. cl_supersedes r \<noteq> Some (cl_id q)) (live_calculations ?rows) =
        filter (\<lambda>q. \<not> cl_call q = cl_call r) (live_calculations ?rows)"
    by (rule filter_cong[OF refl]) (simp add: iff)
  then have "live_calculations (db_calculations db') =
      filter (\<lambda>q. \<not> cl_call q = cl_call r) (live_calculations ?rows) @ [r]"
    using live_snoc[OF wl fresh self] db' by simp
  moreover have "filter (\<lambda>q. inMonth (cl_call q)) (filter (\<lambda>q. \<not> cl_call q = cl_call r) (live_calculations ?rows)) =
      filter (\<lambda>q. \<not> cl_call q = cl_call r) (filter (\<lambda>q. inMonth (cl_call q)) (live_calculations ?rows))"
    by (simp add: conj_commute)
  moreover have "filter (\<lambda>q. cl_call q = cl_call r) (filter (\<lambda>q. inMonth (cl_call q)) (live_calculations ?rows)) =
      (if inMonth (cl_call r) then filter (\<lambda>q. cl_call q = cl_call r) (live_calculations ?rows) else [])"
    by (auto intro!: filter_cong simp: filter_empty_conv)
  ultimately show ?thesis
    by (simp add: verified_total_def live_amount_def sum_list_filter_split[of ?amt "\<lambda>q. \<not> cl_call q = cl_call r"] del: filter_filter)
qed

text \<open>
  A first settlement supersedes no decision, so a decision that was live before it stays live beside the
  new one.
\<close>
lemma first_settlement_keeps_prior_decision:
  assumes "persistVerifiedBillingRecords rt ids now True records rateCard corr db = (db', Inr r)"
    and "q \<in> set (live_decisions (db_decisions db))"
  shows "q \<in> set (live_decisions (db_decisions db'))"
proof -
  have "\<exists>more. db_decisions db' = db_decisions db @ more \<and> list_all (\<lambda>d. dn_supersedes d = None) more"
  proof (cases "persist_transaction rt ids now True records rateCard corr db")
    case (Inl e)
    then show ?thesis using assms(1) by (auto simp: persistVerifiedBillingRecords_def split: if_splits)
  next
    case (Inr x)
    then have "persist_transaction rt ids now True records rateCard corr db = Inr (db', r)"
      using assms(1) by (auto simp: persistVerifiedBillingRecords_def split: prod.splits)
    then obtain db1 b where "store_decision rt ids now True (vr_decision records) b corr db1 = Inr (db', r)"
      and "db_decisions db1 = db_decisions db"
      by (auto simp: persist_transaction_def store_calculation_def Let_def rbind_Inr_iff split: option.splits)
    then show ?thesis
      by (auto simp: store_decision_def insert_decision_def Let_def rbind_Inr_iff split: if_splits)
  qed
  with assms(2) show ?thesis by (auto simp: live_decisions_def list_ex_iff list_all_iff)
qed

section \<open>Witnesses\<close>

definition demo_card_row :: RateCardRow where
  "demo_card_row = \<lparr> rc_id = rate_id demo_rate_card, rc_version = rate_version demo_rate_card, rc_status = ''published'',
     rc_currency = rate_currency demo_rate_card, rc_rulesetSha256 = rate_rulesetSha256 demo_rate_card,
     rc_approvedBy = rate_approvedBy demo_rate_card, rc_approvedAt = Some ''2026-01-01'',
     rc_effectiveFrom = ''2026-01-01'', rc_effectiveTo = None \<rparr>"

definition demo_ids :: fresh_ids where
  "demo_ids = \<lparr> id_calculation = ''calc-1'', id_component = ''comp-1'', id_decision = ''dec-1'', id_outbox = ''out-1'' \<rparr>"

abbreviation demo_ledger :: billing_db where
  "demo_ledger \<equiv> empty_ledger [demo_card_row] []"

lemma demo_card_valid: "lockAndValidateRateCard demo_rate_card [demo_card_row] = Inr ()"
  by (simp add: lockAndValidateRateCard_def demo_card_row_def)

lemma demo_fresh: "fresh_for ids records demo_ledger"
  by (simp add: fresh_for_def empty_ledger_def split: option.splits)

lemma demo_write:
  obtains records db c where "rows_consistent demo_runtime records" "vr_calculation records = Some c"
    "persistVerifiedBillingRecords demo_runtime demo_ids 0 False records demo_rate_card None demo_ledger =
       (db, Inr \<lparr> pr_outcome = Persist_inserted, pr_decisionId = ''dec-1'', pr_billingCalculationId = Some ''calc-1'' \<rparr>)"
    "length (db_calculations db) = 1" "db_rateCards db = [demo_card_row]"
proof -
  obtain records where built: "buildAcceptedAsBilledRecords demo_runtime demo_fallback demo_rate_card = Inr records"
    using demo_fallback_built by (auto simp: is_ok_iff)
  then have rc: "rows_consistent demo_runtime records"
    using fallback_rows_consistent[of demo_runtime "(demo_fallback, demo_rate_card)"] by (simp add: fallback_rows_def)
  obtain c p where cp: "vr_calculation records = Some c" "vr_component records = Some p"
    using built by (auto simp: buildAcceptedAsBilledRecords_def fallback_records_def rbind_Inr_iff Let_def)
  have "lockAndValidateRateCard demo_rate_card (db_rateCards demo_ledger) = Inr ()"
    using demo_card_valid by (simp add: empty_ledger_def)
  from this demo_fresh cp obtain db s where
    w: "persistVerifiedBillingRecords demo_runtime demo_ids 0 False records demo_rate_card None demo_ledger = (db, Inr
      \<lparr> pr_outcome = Persist_inserted, pr_decisionId = id_decision demo_ids,
        pr_billingCalculationId = Some (id_calculation demo_ids) \<rparr>)"
    "db_calculations db = db_calculations demo_ledger @ [calculation_row demo_runtime demo_ids c s]"
    "db_rateCards db = db_rateCards demo_ledger"
    by (rule persist_succeeds)
  then have "length (db_calculations db) = 1" "db_rateCards db = [demo_card_row]" by (simp_all add: empty_ledger_def)
  then show thesis using that rc cp(1) w(1) by (simp add: demo_ids_def)
qed

lemma demo_run:
  "rows_consistent demo_runtime records \<Longrightarrow>
   persistVerifiedBillingRecords demo_runtime demo_ids 0 False records demo_rate_card None demo_ledger = (db, r) \<Longrightarrow>
   (ledger_step demo_runtime)\<^sup>*\<^sup>* demo_ledger db"
  using ledger_step.attempted[of demo_runtime records False demo_ledger demo_ids 0 demo_rate_card None]
  by (metis fst_conv r_into_rtranclp)


theorem billing_write_idempotent_witness:
  "\<exists>records db r. rows_consistent demo_runtime records \<and>
     persistVerifiedBillingRecords demo_runtime demo_ids 0 False records demo_rate_card None demo_ledger = (db, Inr r) \<and>
     pr_outcome r = Persist_inserted \<and>
     persistVerifiedBillingRecords demo_runtime demo_ids 5 False records demo_rate_card None db =
       (db, Inr (r\<lparr> pr_outcome := Persist_duplicate \<rparr>))"
proof -
  obtain records db c where w: "rows_consistent demo_runtime records"
    "persistVerifiedBillingRecords demo_runtime demo_ids 0 False records demo_rate_card None demo_ledger =
       (db, Inr \<lparr> pr_outcome = Persist_inserted, pr_decisionId = ''dec-1'', pr_billingCalculationId = Some ''calc-1'' \<rparr>)"
    "db_rateCards db = [demo_card_row]"
    by (rule demo_write)
  have "lockAndValidateRateCard demo_rate_card (db_rateCards db) = Inr ()" using demo_card_valid w(3) by simp
  with billing_write_idempotent[OF rtranclp.rtrancl_refl w(1,2) rtranclp.rtrancl_refl] w(1,2) show ?thesis by fastforce
qed

end
