(* ===== verification/LateRecordingBatch.thy ===== *)
theory LateRecordingBatch
  imports LateRecording BillingLedger
begin

text \<open>
  The durable late-recording workflow (\<open>src/src/adapters/mysqlLateRecordingCorrections.ts\<close>): committing an
  upload, claiming its items, settling them, and closing the month's correction, over the tables they read
  and write. A transaction is one step. What a commit decides is read before its transaction begins, so the
  state it was read in is an argument of its own. Random ids are arguments; unique keys and check constraints
  of migration 0020 are enforced by the inserts. Amount columns are decimal text.
\<close>

section \<open>Tables\<close>

record BillingMonthScope =
  bm_month :: string
  bm_start :: string
  bm_end :: string

datatype LateRecordingBatchStatus = Batch_accepted | Batch_running | Batch_completed | Batch_completed_with_failures

datatype LateRecordingItemState = Item_accepted | Item_auditing | Item_corrected | Item_failed

record BatchRow =
  lb_id :: string
  lb_billMonth :: string
  lb_periodStart :: string
  lb_periodEnd :: string
  lb_sourceFileSha256 :: string
  lb_requestDigest :: string
  lb_idempotencyKey :: string
  lb_requestedByUserId :: "string option"
  lb_correlationId :: string
  lb_rulesetVersion :: string
  lb_rateCardVersionId :: string
  lb_status :: LateRecordingBatchStatus
  lb_submittedCount :: nat
  lb_acceptedCount :: nat
  lb_rejectedCount :: nat
  lb_correctedCount :: nat
  lb_failedCount :: nat
  lb_baselineVerifiedTotal :: "string option"
  lb_baselineCapturedAt :: "int option"
  lb_requestedAt :: int
  lb_startedAt :: "int option"
  lb_completedAt :: "int option"

record ItemRow =
  li_id :: string
  li_batchId :: string
  li_callId :: string
  li_artifactId :: string
  li_taskReference :: string
  li_rowNumber :: nat
  li_canonicalUrlSha256 :: string
  li_state :: LateRecordingItemState
  li_attemptCount :: nat
  li_previousAmount :: "string option"
  li_revisedAmount :: "string option"
  li_supersededCalculationId :: "string option"
  li_lastErrorCode :: "string option"
  li_createdAt :: int
  li_startedAt :: "int option"
  li_completedAt :: "int option"

record CorrectionRecordRow =
  mx_id :: string
  mx_batchId :: string
  mx_billMonth :: string
  mx_currency :: string
  mx_previousVerifiedTotal :: string
  mx_revisedVerifiedTotal :: string
  mx_deltaAmount :: string
  mx_actualPaidAmount :: "string option"
  mx_revisedVariance :: "string option"
  mx_correctedCount :: nat
  mx_failedCount :: nat
  mx_completedAt :: int

record InvoiceRow =
  iv_periodStart :: string
  iv_periodEnd :: string
  iv_status :: string

record late_db =
  ld_calls :: "CallRow list"
  ld_artifacts :: "CallArtifact list"
  ld_invoices :: "InvoiceRow list"
  ld_auditRuns :: "(string \<times> string) list"
  ld_ledger :: billing_db
  ld_settlements :: settlements
  ld_batches :: "BatchRow list"
  ld_items :: "ItemRow list"
  ld_corrections :: "CorrectionRecordRow list"

definition asSafeLateRecordingError :: "js_error \<Rightarrow> js_error" where
  "asSafeLateRecordingError e =
     (case e of LateRecordingError _ _ \<Rightarrow> e | _ \<Rightarrow> LateRecordingError ''LATE_RECORDING_UNAVAILABLE'' 503)"

section \<open>Resolving an upload\<close>

definition applicableRateCardId :: "runtime \<Rightarrow> BillingMonthScope \<Rightarrow> late_db \<Rightarrow> string option" where
  "applicableRateCardId rt period db =
     (case rev (sort_key (\<lambda>card. (rc_effectiveFrom card, rc_approvedAt card, rc_id card))
        (filter (\<lambda>card. rc_status card = ''published'' \<and> rc_currency card = ''INR'' \<and> rc_approvedBy card \<noteq> None \<and>
                   rc_approvedAt card \<noteq> None \<and> rc_rulesetSha256 card = Some (KSERVE_RULESET_SHA256 rt) \<and>
                   rc_effectiveFrom card \<le> bm_start period \<and>
                   (case rc_effectiveTo card of None \<Rightarrow> True | Some t \<Rightarrow> bm_end period \<le> t))
           (db_rateCards (ld_ledger db)))) of
        [] \<Rightarrow> None
      | newestCard # _ \<Rightarrow> Some (rc_id newestCard))"

record ResolvedRow =
  rv_taskReference :: string
  rv_callId :: string
  rv_artifactId :: "string option"
  rv_sourceUrl :: "string option"
  rv_evidenceSha256 :: "string option"
  rv_invoicePresent :: bool
  rv_auditCompleted :: bool
  rv_liveCalculationId :: "string option"
  rv_liveCalculationBasis :: "string option"
  rv_liveTotalAmount :: "string option"

definition live_calculation :: "string \<Rightarrow> CalculationRow list \<Rightarrow> CalculationRow option" where
  "live_calculation callId rows =
     (case rev (sort_key (\<lambda>r. (cl_calculatedAt r, cl_id r))
        (filter (\<lambda>r. cl_call r = callId) (live_calculations rows))) of
        [] \<Rightarrow> None
      | r # _ \<Rightarrow> Some r)"

definition invoice_present :: "CallRow \<Rightarrow> InvoiceRow list \<Rightarrow> bool" where
  "invoice_present c invoices =
     list_ex (\<lambda>i. iv_periodStart i \<le> call_billingPeriodDate c \<and> call_billingPeriodDate c \<le> iv_periodEnd i \<and>
                  iv_status i \<in> {''received'', ''matched'', ''approved''}) invoices"

definition final_recording :: "string \<Rightarrow> CallArtifact \<Rightarrow> bool" where
  "final_recording callId a = (ca_callId a = callId \<and> ca_artifactType a = ''recording'' \<and> ca_isFinal a)"

definition resolved_row :: "late_db \<Rightarrow> string \<Rightarrow> CallRow \<Rightarrow> CallArtifact option \<Rightarrow> ResolvedRow" where
  "resolved_row db reference c artifact =
     (let live = live_calculation (call_id c) (db_calculations (ld_ledger db)) in
      \<lparr> rv_taskReference = reference, rv_callId = call_id c,
        rv_artifactId = map_option ca_id artifact,
        rv_sourceUrl = Option.bind artifact ca_sourceUrl,
        rv_evidenceSha256 = Option.bind artifact ca_sha256,
        rv_invoicePresent = invoice_present c (ld_invoices db),
        rv_auditCompleted = list_ex (\<lambda>(callId, status). callId = call_id c \<and> status = ''completed'') (ld_auditRuns db),
        rv_liveCalculationId = map_option cl_id live,
        rv_liveCalculationBasis = map_option (bc_calculationBasis \<circ> cl_row) live,
        rv_liveTotalAmount = map_option (bc_totalAmount \<circ> cl_row) live \<rparr>)"

definition resolved_rows :: "late_db \<Rightarrow> string \<Rightarrow> CallRow \<Rightarrow> ResolvedRow list" where
  "resolved_rows db reference c =
     (case filter (final_recording (call_id c)) (ld_artifacts db) of
        [] \<Rightarrow> [resolved_row db reference c None]
      | artifacts \<Rightarrow> map (\<lambda>a. resolved_row db reference c (Some a)) artifacts)"

definition in_period :: "BillingMonthScope \<Rightarrow> CallRow \<Rightarrow> bool" where
  "in_period period c = (bm_start period \<le> call_billingPeriodDate c \<and> call_billingPeriodDate c \<le> bm_end period)"

definition resolveUploadedTasks :: "BillingMonthScope \<Rightarrow> string list \<Rightarrow> late_db \<Rightarrow> ResolvedRow list" where
  "resolveUploadedTasks period taskIds db =
     (let calls = filter (in_period period) (ld_calls db) in
      remdups
        (concat [resolved_rows db (call_logicalCallKey c) c. c \<leftarrow> calls, call_logicalCallKey c \<in> set taskIds] @
         concat [resolved_rows db reference c. c \<leftarrow> calls, (kind, reference) \<leftarrow> call_externalReferences c,
                 kind \<in> {''task_id'', ''taskId'', ''task''} \<and> reference \<in> set taskIds]))"

definition call_facts :: "runtime \<Rightarrow> ResolvedRow \<Rightarrow> LateRecordingCallFacts res" where
  "call_facts rt row =
     rbind (case rv_liveTotalAmount row of
              None \<Rightarrow> Inr None
            | Some amount \<Rightarrow> rbind (late_fixed8 amount) (\<lambda>a. Inr (Some a))) (\<lambda>liveTotal.
     Inr \<lparr> cf_callId = rv_callId row, cf_artifactId = rv_artifactId row,
           cf_existingUrlSha256 = (if truthy_text (rv_sourceUrl row)
                                   then map_option (canonicalUrlSha256 rt) (rv_sourceUrl row) else None),
           cf_evidenceHashRecorded = (rv_evidenceSha256 row \<noteq> None),
           cf_invoicePresent = rv_invoicePresent row, cf_auditCompleted = rv_auditCompleted row,
           cf_liveCalculationId = rv_liveCalculationId row, cf_liveCalculationBasis = rv_liveCalculationBasis row,
           cf_liveTotalAmount = liveTotal \<rparr>)"

definition populated :: "LateRecordingCallFacts \<Rightarrow> bool" where
  "populated facts = (cf_existingUrlSha256 facts \<noteq> None \<or> cf_evidenceHashRecorded facts)"

text \<open>Both levels are JavaScript maps: a key keeps the place of its first insertion.\<close>

definition add_facts ::
  "string \<times> LateRecordingCallFacts \<Rightarrow> (string \<times> (string \<times> LateRecordingCallFacts) list) list \<Rightarrow>
   (string \<times> (string \<times> LateRecordingCallFacts) list) list" where
  "add_facts rf byReference =
     (let (reference, candidate) = rf;
          calls = coalesce (map_of byReference reference) [];
          calls' = (case map_of calls (cf_callId candidate) of
                      None \<Rightarrow> AList.update (cf_callId candidate) candidate calls
                    | Some existing \<Rightarrow> if \<not> populated existing \<and> populated candidate
                                       then AList.update (cf_callId candidate) candidate calls else calls)
      in AList.update reference calls' byReference)"

definition factsByReference :: "runtime \<Rightarrow> ResolvedRow list \<Rightarrow> (string \<Rightarrow> LateRecordingCallFacts list) res" where
  "factsByReference rt rows =
     rbind (mapM_res (\<lambda>row. rbind (call_facts rt row) (\<lambda>f. Inr (rv_taskReference row, f))) rows) (\<lambda>fs.
     let byReference = fold add_facts fs []
     in Inr (\<lambda>reference. map snd (coalesce (map_of byReference reference) [])))"

record AcceptedRow =
  aw_rowNumber :: nat
  aw_taskId :: string
  aw_callId :: string
  aw_artifactId :: string
  aw_canonicalUrl :: string
  aw_canonicalUrlSha256 :: string
  aw_previousAmount :: "string option"
  aw_supersededCalculationId :: "string option"

text \<open>An uploaded row with its canonical address.\<close>

type_synonym canonical_row = "LateRecordingCsvRow \<times> string"

record resolved_batch =
  rb_preview :: LateRecordingPreview
  rb_accepted :: "AcceptedRow list"
  rb_rateCardVersionId :: "string option"

definition row_outcome ::
  "runtime \<Rightarrow> bool \<Rightarrow> (string \<Rightarrow> LateRecordingCallFacts list) \<Rightarrow> canonical_row \<Rightarrow> LateRecordingRowOutcome" where
  "row_outcome rt rateCardAvailable facts row =
     decideLateRecordingRow
       \<lparr> rf_rowNumber = lr_rowNumber (fst row), rf_taskId = lr_taskId (fst row),
         rf_canonicalUrlSha256 = canonicalUrlSha256 rt (snd row), rf_matches = facts (lr_taskId (fst row)) \<rparr>
       rateCardAvailable"

definition accepted_row :: "runtime \<Rightarrow> canonical_row \<Rightarrow> LateRecordingRowOutcome \<Rightarrow> AcceptedRow" where
  "accepted_row rt row outcome =
     \<lparr> aw_rowNumber = lr_rowNumber (fst row), aw_taskId = lr_taskId (fst row),
       aw_callId = coalesce (ro_callId outcome) [], aw_artifactId = coalesce (ro_artifactId outcome) [],
       aw_canonicalUrl = snd row, aw_canonicalUrlSha256 = canonicalUrlSha256 rt (snd row),
       aw_previousAmount = ro_previousAmount outcome,
       aw_supersededCalculationId = ro_supersededCalculationId outcome \<rparr>"

definition resolveBatch ::
  "runtime \<Rightarrow> BillingMonthScope \<Rightarrow> canonical_row list \<Rightarrow> LateRecordingRowDecision list \<Rightarrow> late_db \<Rightarrow> resolved_batch res" where
  "resolveBatch rt period rows carriedRejections db =
     (if length rows > MAX_LATE_RECORDING_ROWS then Inl (LateRecordingError ''LATE_RECORDING_BATCH_TOO_LARGE'' 400)
      else
        let rateCardVersionId = applicableRateCardId rt period db in
        rbind (if rows = [] then Inr (\<lambda>_. [])
               else factsByReference rt (resolveUploadedTasks period (map (lr_taskId \<circ> fst) rows) db)) (\<lambda>facts.
        let outcomes = map (\<lambda>row. (row, row_outcome rt (rateCardVersionId \<noteq> None) facts row)) rows;
            decisions = carriedRejections @ map (ro_decision \<circ> snd) outcomes
        in Inr \<lparr> rb_preview = summarizeLateRecordingDecisions decisions (length decisions),
                 rb_accepted = map (\<lambda>(row, outcome). accepted_row rt row outcome)
                   (filter (is_Row_accepted \<circ> ro_decision \<circ> snd) outcomes),
                 rb_rateCardVersionId = rateCardVersionId \<rparr>))"

definition previewLateRecordingBatch ::
  "runtime \<Rightarrow> BillingMonthScope \<Rightarrow> canonical_row list \<Rightarrow> LateRecordingRowDecision list \<Rightarrow> late_db \<Rightarrow>
   (string \<times> LateRecordingPreview) res" where
  "previewLateRecordingBatch rt period rows carriedRejections db =
     (case resolveBatch rt period rows carriedRejections db of
        Inl e \<Rightarrow> Inl (asSafeLateRecordingError e)
      | Inr b \<Rightarrow> Inr (bm_month period, rb_preview b))"

section \<open>Committing an upload\<close>

record commit_input =
  ci_period :: BillingMonthScope
  ci_rows :: "canonical_row list"
  ci_carriedRejections :: "LateRecordingRowDecision list"
  ci_sourceFileSha256 :: string
  ci_idempotencyKey :: string
  ci_requestedByUserId :: "string option"
  ci_correlationId :: string
  ci_requestedAt :: int

record late_ids =
  id_batch :: string
  id_item :: "nat \<Rightarrow> string"

datatype commit_outcome = Commit_accepted | Commit_replayed | Commit_nothing_to_do

record LateRecordingCommitReceipt =
  cx_billMonth :: string
  cx_preview :: LateRecordingPreview
  cx_batchId :: "string option"
  cx_outcome :: commit_outcome
  cx_status :: "LateRecordingBatchStatus option"

definition request_digest :: "runtime \<Rightarrow> commit_input \<Rightarrow> string" where
  "request_digest rt input =
     lateRecordingBatchDigest rt (bm_month (ci_period input))
       (map (\<lambda>row. (lr_taskId (fst row), canonicalUrlSha256 rt (snd row))) (ci_rows input))"

text \<open>The one-way transition, with its predicate.\<close>

definition attachable :: "AcceptedRow \<Rightarrow> CallArtifact \<Rightarrow> bool" where
  "attachable row a =
     (ca_id a = aw_artifactId row \<and> final_recording (aw_callId row) a \<and> ca_sourceUrl a = None \<and> ca_sha256 a = None)"

definition attach :: "AcceptedRow \<Rightarrow> CallArtifact list \<Rightarrow> CallArtifact list" where
  "attach row artifacts =
     map (\<lambda>a. if attachable row a
              then a\<lparr> ca_sourceUrl := Some (aw_canonicalUrl row), ca_audioProcessingStatus := Some ''pending'',
                      ca_audioAttemptCount := Some 0, ca_audioLastAttemptAt := None, ca_audioNextAttemptAt := None,
                      ca_audioLastError := None \<rparr>
              else a) artifacts"

fun attach_rows ::
  "AcceptedRow list \<Rightarrow> CallArtifact list \<Rightarrow> CallArtifact list \<times> AcceptedRow list \<times> AcceptedRow list" where
  "attach_rows [] artifacts = (artifacts, [], [])"
| "attach_rows (row # rows) artifacts =
     (let affected = length (filter (attachable row) artifacts);
          (artifacts', attached, lost) = attach_rows rows (attach row artifacts)
      in if affected = 1 then (artifacts', row # attached, lost) else (artifacts', attached, row # lost))"

definition settled_decisions :: "LateRecordingRowDecision list \<Rightarrow> AcceptedRow list \<Rightarrow> LateRecordingRowDecision list" where
  "settled_decisions decisions lost =
     filter (\<lambda>d. \<not> list_ex (\<lambda>l. aw_rowNumber l = decision_row d) lost) decisions @
     map (\<lambda>l. Row_rejected (aw_rowNumber l) RECORDING_URL_ALREADY_PRESENT) lost"

definition batch_row :: "runtime \<Rightarrow> late_ids \<Rightarrow> commit_input \<Rightarrow> string \<Rightarrow> LateRecordingPreview \<Rightarrow> nat \<Rightarrow> BatchRow" where
  "batch_row rt ids input rateCardVersionId settled attachedCount =
     \<lparr> lb_id = id_batch ids, lb_billMonth = bm_month (ci_period input), lb_periodStart = bm_start (ci_period input),
       lb_periodEnd = bm_end (ci_period input), lb_sourceFileSha256 = ci_sourceFileSha256 input,
       lb_requestDigest = request_digest rt input, lb_idempotencyKey = ci_idempotencyKey input,
       lb_requestedByUserId = ci_requestedByUserId input, lb_correlationId = ci_correlationId input,
       lb_rulesetVersion = REAUDIT_CLASSIFIER_RULESET_VERSION, lb_rateCardVersionId = rateCardVersionId,
       lb_status = Batch_accepted, lb_submittedCount = lp_submittedCount settled, lb_acceptedCount = attachedCount,
       lb_rejectedCount = lp_rejectedCount settled, lb_correctedCount = 0, lb_failedCount = 0,
       lb_baselineVerifiedTotal = None, lb_baselineCapturedAt = None, lb_requestedAt = ci_requestedAt input,
       lb_startedAt = None, lb_completedAt = None \<rparr>"

definition insert_batch :: "BatchRow \<Rightarrow> BatchRow list \<Rightarrow> BatchRow list res" where
  "insert_batch row rows =
     (if list_ex (\<lambda>b. lb_id b = lb_id row \<or> same_key (lb_idempotencyKey b) (lb_idempotencyKey row)) rows
      then Inl (DriverError ''ER_DUP_ENTRY'')
      else if \<not> (1 \<le> lb_submittedCount row \<and> lb_submittedCount row \<le> 100 \<and> lb_acceptedCount row \<le> lb_submittedCount row)
      then Inl (DriverError ''ER_CHECK_CONSTRAINT_VIOLATED'')
      else Inr (rows @ [row]))"

definition item_active :: "ItemRow \<Rightarrow> bool" where
  "item_active i = (li_state i = Item_accepted \<or> li_state i = Item_auditing)"

text \<open>The check constraints on an item's amounts.\<close>

definition amounts_ok :: "ItemRow \<Rightarrow> bool" where
  "amounts_ok i =
     list_all (\<lambda>v. case v of None \<Rightarrow> True | Some t \<Rightarrow> (case toScaled (Some t) of None \<Rightarrow> False | Some n \<Rightarrow> 0 \<le> n))
       [li_previousAmount i, li_revisedAmount i]"

definition insert_item :: "ItemRow \<Rightarrow> ItemRow list \<Rightarrow> ItemRow list res" where
  "insert_item row rows =
     (if list_ex (\<lambda>i. li_id i = li_id row \<or> (li_batchId i = li_batchId row \<and> li_callId i = li_callId row) \<or>
                      (item_active i \<and> item_active row \<and> li_callId i = li_callId row)) rows
      then Inl (DriverError ''ER_DUP_ENTRY'')
      else if \<not> amounts_ok row then Inl (DriverError ''ER_CHECK_CONSTRAINT_VIOLATED'')
      else Inr (rows @ [row]))"

definition item_row :: "late_ids \<Rightarrow> commit_input \<Rightarrow> nat \<Rightarrow> AcceptedRow \<Rightarrow> ItemRow" where
  "item_row ids input k row =
     \<lparr> li_id = id_item ids k, li_batchId = id_batch ids, li_callId = aw_callId row, li_artifactId = aw_artifactId row,
       li_taskReference = aw_taskId row, li_rowNumber = aw_rowNumber row,
       li_canonicalUrlSha256 = aw_canonicalUrlSha256 row, li_state = Item_accepted, li_attemptCount = 0,
       li_previousAmount = aw_previousAmount row, li_revisedAmount = None,
       li_supersededCalculationId = aw_supersededCalculationId row, li_lastErrorCode = None,
       li_createdAt = ci_requestedAt input, li_startedAt = None, li_completedAt = None \<rparr>"

fun insert_items :: "late_ids \<Rightarrow> commit_input \<Rightarrow> nat \<Rightarrow> AcceptedRow list \<Rightarrow> ItemRow list \<Rightarrow> ItemRow list res" where
  "insert_items ids input k [] items = Inr items"
| "insert_items ids input k (row # rows) items =
     rbind (insert_item (item_row ids input k row) items) (\<lambda>items'. insert_items ids input (Suc k) rows items')"

definition commit_receipt ::
  "commit_input \<Rightarrow> LateRecordingPreview \<Rightarrow> string option \<Rightarrow> commit_outcome \<Rightarrow> LateRecordingBatchStatus option \<Rightarrow>
   LateRecordingCommitReceipt" where
  "commit_receipt input preview batchId outcome status =
     \<lparr> cx_billMonth = bm_month (ci_period input), cx_preview = preview, cx_batchId = batchId, cx_outcome = outcome,
       cx_status = status \<rparr>"

definition commit_transaction ::
  "runtime \<Rightarrow> late_ids \<Rightarrow> commit_input \<Rightarrow> resolved_batch \<Rightarrow> late_db \<Rightarrow> (late_db \<times> LateRecordingCommitReceipt) res" where
  "commit_transaction rt ids input resolved db =
     (let preview = rb_preview resolved; accepted = rb_accepted resolved in
      case find (\<lambda>b. same_key (lb_idempotencyKey b) (ci_idempotencyKey input)) (ld_batches db) of
        Some replay \<Rightarrow>
          if lb_requestDigest replay \<noteq> request_digest rt input \<or> lb_billMonth replay \<noteq> bm_month (ci_period input)
          then Inl (LateRecordingError ''LATE_RECORDING_REQUEST_CONFLICT'' 409)
          else Inr (db, commit_receipt input preview (Some (lb_id replay)) Commit_replayed (Some (lb_status replay)))
      | None \<Rightarrow>
          if accepted = [] then Inr (db, commit_receipt input preview None Commit_nothing_to_do None)
          else case rb_rateCardVersionId resolved of
            None \<Rightarrow> Inl (LateRecordingError ''LATE_RECORDING_RATE_CARD_CHANGED'' 409)
          | Some rateCardVersionId \<Rightarrow>
              let (artifacts, attached, lost) = attach_rows accepted (ld_artifacts db);
                  settled = summarizeLateRecordingDecisions (settled_decisions (lp_decisions preview) lost)
                              (lp_submittedCount preview)
              in if attached = []
                 then Inr (db\<lparr> ld_artifacts := artifacts \<rparr>, commit_receipt input settled None Commit_nothing_to_do None)
                 else
                   rbind (insert_batch (batch_row rt ids input rateCardVersionId settled (length attached))
                            (ld_batches db)) (\<lambda>batches.
                   rbind (insert_items ids input 0 attached (ld_items db)) (\<lambda>items.
                   Inr (db\<lparr> ld_artifacts := artifacts, ld_batches := batches, ld_items := items \<rparr>,
                        commit_receipt input settled (Some (id_batch ids)) Commit_accepted (Some Batch_accepted)))))"

text \<open>The whole commit: whether the advisory lock was obtained, the state the upload was resolved in, the state of the transaction.\<close>

definition commitLateRecordingBatch ::
  "runtime \<Rightarrow> late_ids \<Rightarrow> bool \<Rightarrow> commit_input \<Rightarrow> late_db \<Rightarrow> late_db \<Rightarrow> late_db \<times> LateRecordingCommitReceipt res" where
  "commitLateRecordingBatch rt ids held input read db =
     (if \<not> held then (db, Inl (LateRecordingError ''LATE_RECORDING_BUSY'' 409))
      else case rbind (resolveBatch rt (ci_period input) (ci_rows input) (ci_carriedRejections input) read) (\<lambda>resolved.
                  commit_transaction rt ids input resolved db) of
        Inl e \<Rightarrow> (db, Inl (asSafeLateRecordingError e))
      | Inr (db', receipt) \<Rightarrow> (db', Inr receipt))"

section \<open>The worker's claim\<close>

definition run_completed :: "string \<Rightarrow> late_db \<Rightarrow> bool" where
  "run_completed callId db = list_ex (\<lambda>(c, status). c = callId \<and> status = ''completed'') (ld_auditRuns db)"

definition RECLAIMABLE_EXHAUSTED_ERRORS :: "string list" where
  "RECLAIMABLE_EXHAUSTED_ERRORS = [''CLASSIFICATION_VALIDATION_FAILED'', ''AUDIT_SPEND_STATE_UNKNOWN'']"

definition MAX_AUDIO_ATTEMPTS :: nat where
  "MAX_AUDIO_ATTEMPTS = 8"

text \<open>An audit that can still be resumed: attempts left, no completed run, and due or reclaimable.\<close>

definition resumable :: "int \<Rightarrow> ItemRow \<Rightarrow> CallArtifact \<Rightarrow> late_db \<Rightarrow> bool" where
  "resumable now item a db =
     (li_state item = Item_auditing \<and> li_attemptCount item = 1 \<and>
      coalesce (ca_audioAttemptCount a) 0 < MAX_AUDIO_ATTEMPTS \<and> \<not> run_completed (li_callId item) db \<and>
      ((coalesce (ca_audioProcessingStatus a) ''pending'' \<notin> {''completed'', ''exhausted''} \<and>
        (case ca_audioNextAttemptAt a of None \<Rightarrow> True | Some t \<Rightarrow> t \<le> now)) \<or>
       (ca_audioProcessingStatus a = Some ''exhausted'' \<and>
        (case ca_audioLastError a of None \<Rightarrow> False | Some e \<Rightarrow> e \<in> set RECLAIMABLE_EXHAUSTED_ERRORS))))"

definition claimable_item :: "int \<Rightarrow> ItemRow \<Rightarrow> CallArtifact \<Rightarrow> late_db \<Rightarrow> bool" where
  "claimable_item now item a db =
     (ca_id a = li_artifactId item \<and> ca_sourceUrl a \<noteq> None \<and>
      ((li_state item = Item_accepted \<and> li_attemptCount item = 0) \<or> resumable now item a db))"

definition claimed_items :: "string \<Rightarrow> int \<Rightarrow> int \<Rightarrow> late_db \<Rightarrow> (ItemRow \<times> CallArtifact) list" where
  "claimed_items batchId limit now db =
     take (nat (min (max 1 limit) (int MAX_LATE_RECORDING_ROWS)))
       (sort_key (\<lambda>(item, a). (li_rowNumber item, li_id item))
         [(item, a). item \<leftarrow> ld_items db, a \<leftarrow> ld_artifacts db, li_batchId item = batchId \<and> claimable_item now item a db])"

definition start_item :: "int \<Rightarrow> ItemRow \<Rightarrow> ItemRow" where
  "start_item now i =
     i\<lparr> li_state := Item_auditing, li_attemptCount := li_attemptCount i + 1, li_startedAt := Some now,
        li_lastErrorCode := None \<rparr>"

definition startable :: "string \<Rightarrow> ItemRow \<Rightarrow> bool" where
  "startable itemId i = (li_id i = itemId \<and> li_state i = Item_accepted \<and> li_attemptCount i = 0)"

definition start_claimed :: "int \<Rightarrow> (ItemRow \<times> CallArtifact) list \<Rightarrow> ItemRow list \<Rightarrow> ItemRow list" where
  "start_claimed now claimed items =
     map (\<lambda>i. if list_ex (\<lambda>(c, _). li_state c \<noteq> Item_auditing \<and> startable (li_id c) i) claimed then start_item now i else i) items"

definition start_batch :: "string \<Rightarrow> int \<Rightarrow> BatchRow list \<Rightarrow> BatchRow list" where
  "start_batch batchId now batches =
     map (\<lambda>b. if lb_id b = batchId \<and> lb_status b = Batch_accepted
              then b\<lparr> lb_status := Batch_running, lb_startedAt := Some (coalesce (lb_startedAt b) now) \<rparr> else b) batches"

record CostRow =
  co_claimedDurationMs :: "int option"
  co_connectedDurationMs :: "int option"
  co_vendorBilledMinutes :: "string option"

definition nullableMs :: "int option \<Rightarrow> int option" where
  "nullableMs v = (case v of None \<Rightarrow> None | Some ms \<Rightarrow> if 0 \<le> ms then Some ms else None)"

definition late_candidate :: "(string \<Rightarrow> CostRow option) \<Rightarrow> ItemRow \<times> CallArtifact \<Rightarrow> ReauditCandidate" where
  "late_candidate costs ia =
     (let cost = costs (li_callId (fst ia)) in
      \<lparr> ra_callId = li_callId (fst ia), ra_artifactId = li_artifactId (fst ia),
        ra_sourceUrl = coalesce (ca_sourceUrl (snd ia)) [], ra_baselineSha256 = ca_sha256 (snd ia),
        ra_claimedDurationMs = nullableMs (Option.bind cost co_claimedDurationMs),
        ra_connectedDurationMs = nullableMs (Option.bind cost co_connectedDurationMs),
        ra_vendorBilledMinutes = Option.bind cost co_vendorBilledMinutes, ra_manualRequest = None \<rparr>)"

definition listCandidates ::
  "(string \<Rightarrow> CostRow option) \<Rightarrow> string \<Rightarrow> int \<Rightarrow> int \<Rightarrow> late_db \<Rightarrow> late_db \<times> ReauditCandidate list" where
  "listCandidates costs batchId limit now db =
     (let claimed = claimed_items batchId limit now db;
          kept = filter (\<lambda>(c, _). li_state c = Item_auditing \<or> length (filter (startable (li_id c)) (ld_items db)) = 1) claimed
      in (db\<lparr> ld_items := start_claimed now claimed (ld_items db), ld_batches := start_batch batchId now (ld_batches db) \<rparr>,
          map (late_candidate costs) kept))"

text \<open>Milliseconds until the earliest deferred attempt; instants are milliseconds here.\<close>

definition deferredWorkDueInMs :: "string \<Rightarrow> int \<Rightarrow> late_db \<Rightarrow> int option" where
  "deferredWorkDueInMs batchId now db =
     (case [t. item \<leftarrow> ld_items db, a \<leftarrow> ld_artifacts db, t \<leftarrow> (case ca_audioNextAttemptAt a of None \<Rightarrow> [] | Some t \<Rightarrow> [t]),
               li_batchId item = batchId \<and> ca_id a = li_artifactId item \<and> ca_sourceUrl a \<noteq> None \<and>
               li_state item = Item_auditing \<and> li_attemptCount item = 1 \<and>
               coalesce (ca_audioAttemptCount a) 0 < MAX_AUDIO_ATTEMPTS \<and>
               coalesce (ca_audioProcessingStatus a) ''pending'' \<notin> {''completed'', ''exhausted''} \<and> t > now \<and>
               \<not> run_completed (li_callId item) db] of
        [] \<Rightarrow> None
      | t # ts \<Rightarrow> Some (max 0 (foldl min t ts - now)))"

section \<open>Settling an item\<close>

record settle_input =
  se_batchId :: string
  se_itemId :: string
  se_corrected :: bool
  se_errorCode :: js_input
  se_previousAmount :: "string option"
  se_revisedAmount :: "string option"
  se_supersededCalculationId :: "string option"
  se_at :: int

definition fixed8_opt :: "string option \<Rightarrow> string option res" where
  "fixed8_opt v = (case v of None \<Rightarrow> Inr None | Some t \<Rightarrow> rbind (late_fixed8 t) (\<lambda>a. Inr (Some a)))"

definition settleable :: "settle_input \<Rightarrow> ItemRow \<Rightarrow> bool" where
  "settleable input i = (li_id i = se_itemId input \<and> li_batchId i = se_batchId input \<and> li_state i = Item_auditing)"

definition settled_item :: "settle_input \<Rightarrow> string option \<Rightarrow> string option \<Rightarrow> ItemRow \<Rightarrow> ItemRow" where
  "settled_item input previous revised i =
     i\<lparr> li_state := (if se_corrected input then Item_corrected else Item_failed), li_completedAt := Some (se_at input),
        li_lastErrorCode := (if se_corrected input then None else Some (safeLateRecordingFailureCode (se_errorCode input))),
        li_previousAmount := (if previous = None then li_previousAmount i else previous),
        li_revisedAmount := (if revised = None then li_revisedAmount i else revised),
        li_supersededCalculationId := (if se_supersededCalculationId input = None then li_supersededCalculationId i
                                       else se_supersededCalculationId input) \<rparr>"

definition count_state :: "string \<Rightarrow> LateRecordingItemState \<Rightarrow> ItemRow list \<Rightarrow> nat" where
  "count_state batchId s items = length (filter (\<lambda>i. li_batchId i = batchId \<and> li_state i = s) items)"

text \<open>The first statement, conditional on the item being in flight; the second recounts its batch.\<close>

definition settle_item :: "settle_input \<Rightarrow> late_db \<Rightarrow> late_db \<times> unit res" where
  "settle_item input db =
     (case rbind (fixed8_opt (se_previousAmount input)) (\<lambda>previous.
             rbind (fixed8_opt (se_revisedAmount input)) (\<lambda>revised. Inr (previous, revised))) of
        Inl e \<Rightarrow> (db, Inl e)
      | Inr (previous, revised) \<Rightarrow>
          if list_ex (\<lambda>i. settleable input i \<and> \<not> amounts_ok (settled_item input previous revised i)) (ld_items db)
          then (db, Inl (DriverError ''ER_CHECK_CONSTRAINT_VIOLATED''))
          else
          (db\<lparr> ld_items := map (\<lambda>i. if settleable input i then settled_item input previous revised i else i) (ld_items db) \<rparr>,
           if length (filter (settleable input) (ld_items db)) \<noteq> 1
           then Inl (LateRecordingError ''LATE_RECORDING_ITEM_STATE_CONFLICT'' 500) else Inr ()))"

definition recount_batch :: "string \<Rightarrow> late_db \<Rightarrow> late_db" where
  "recount_batch batchId db =
     db\<lparr> ld_batches := map (\<lambda>b. if lb_id b = batchId
        then b\<lparr> lb_correctedCount := count_state batchId Item_corrected (ld_items db),
                lb_failedCount := count_state batchId Item_failed (ld_items db),
                lb_status := Batch_running, lb_completedAt := None \<rparr>
        else b) (ld_batches db) \<rparr>"

definition settleLateRecordingItem :: "settle_input \<Rightarrow> late_db \<Rightarrow> late_db \<times> unit res" where
  "settleLateRecordingItem input db =
     (case settle_item input db of
        (db', Inl e) \<Rightarrow> (db', Inl e)
      | (db', Inr _) \<Rightarrow> (recount_batch (se_batchId input) db', Inr ()))"

section \<open>The month's correction\<close>

definition call_in_period :: "BillingMonthScope \<Rightarrow> late_db \<Rightarrow> string \<Rightarrow> bool" where
  "call_in_period period db callId = list_ex (\<lambda>c. call_id c = callId \<and> in_period period c) (ld_calls db)"

definition readVerifiedMonthTotal :: "BillingMonthScope \<Rightarrow> late_db \<Rightarrow> string res" where
  "readVerifiedMonthTotal period db =
     late_fixed8 (formatScaledMoney (verified_total (call_in_period period db) (ld_ledger db)))"

definition readActualPaidAmount :: "string \<Rightarrow> late_db \<Rightarrow> string option" where
  "readActualPaidAmount month db =
     (case current_of (ld_settlements db) month of
        None \<Rightarrow> None
      | Some r \<Rightarrow> (case late_fixed8 (st_finalPaidAmount r) of Inl _ \<Rightarrow> None | Inr a \<Rightarrow> Some a))"

record LateRecordingBatchPreparation =
  bp_rateCardVersionId :: string
  bp_previousVerifiedTotal :: string
  bp_finalized :: bool

definition find_batch :: "string \<Rightarrow> late_db \<Rightarrow> BatchRow option" where
  "find_batch batchId db = find (\<lambda>b. lb_id b = batchId) (ld_batches db)"

definition find_correction :: "string \<Rightarrow> late_db \<Rightarrow> CorrectionRecordRow option" where
  "find_correction batchId db = find (\<lambda>c. mx_batchId c = batchId) (ld_corrections db)"

definition update_batch :: "string \<Rightarrow> (BatchRow \<Rightarrow> BatchRow) \<Rightarrow> late_db \<Rightarrow> late_db" where
  "update_batch batchId f db = db\<lparr> ld_batches := map (\<lambda>b. if lb_id b = batchId then f b else b) (ld_batches db) \<rparr>"

definition capture_baseline :: "string \<Rightarrow> int \<Rightarrow> BatchRow \<Rightarrow> BatchRow" where
  "capture_baseline total_text at_time b =
     b\<lparr> lb_baselineVerifiedTotal := Some total_text, lb_baselineCapturedAt := Some at_time, lb_status := Batch_running,
        lb_startedAt := Some (coalesce (lb_startedAt b) at_time) \<rparr>"

definition prepare_transaction ::
  "string \<Rightarrow> BillingMonthScope \<Rightarrow> int \<Rightarrow> late_db \<Rightarrow> (late_db \<times> LateRecordingBatchPreparation option) res" where
  "prepare_transaction batchId period at_time db =
     (case find_batch batchId db of
        None \<Rightarrow> Inr (db, None)
      | Some batch \<Rightarrow>
          rbind (case lb_baselineVerifiedTotal batch of
                   None \<Rightarrow>
                     rbind (readVerifiedMonthTotal period db) (\<lambda>t.
                     if (case toScaled (Some t) of None \<Rightarrow> True | Some v \<Rightarrow> v < 0)
                     then Inl (DriverError ''ER_CHECK_CONSTRAINT_VIOLATED'')
                     else Inr (update_batch batchId (capture_baseline t at_time) db, t))
                 | Some t \<Rightarrow>
                     Inr (if lb_status batch = Batch_accepted
                          then update_batch batchId (\<lambda>b. b\<lparr> lb_status := Batch_running,
                                 lb_startedAt := Some (coalesce (lb_startedAt b) at_time) \<rparr>) db
                          else db, t)) (\<lambda>(db', previous).
          rbind (late_fixed8 previous) (\<lambda>previous8.
          Inr (db', Some \<lparr> bp_rateCardVersionId = lb_rateCardVersionId batch, bp_previousVerifiedTotal = previous8,
                           bp_finalized = (find_correction batchId db \<noteq> None) \<rparr>))))"

definition prepareLateRecordingBatch ::
  "string \<Rightarrow> BillingMonthScope \<Rightarrow> int \<Rightarrow> late_db \<Rightarrow> late_db \<times> LateRecordingBatchPreparation option res" where
  "prepareLateRecordingBatch batchId period at_time db =
     (case prepare_transaction batchId period at_time db of
        Inl e \<Rightarrow> (db, Inl (asSafeLateRecordingError e))
      | Inr (db', p) \<Rightarrow> (db', Inr p))"

record finalize_input =
  fi_batchId :: string
  fi_billMonth :: string
  fi_revisedVerifiedTotal :: string
  fi_actualPaidAmount :: "string option"
  fi_revisedVariance :: "string option"

datatype finalize_outcome = Correction_recorded | Correction_replayed | Correction_in_flight

record LateRecordingFinalizationResult =
  fr_outcome :: finalize_outcome
  fr_previousVerifiedTotal :: string
  fr_revisedVerifiedTotal :: "string option"
  fr_deltaAmount :: "string option"
  fr_correctedCount :: nat
  fr_failedCount :: nat

definition items_of :: "string \<Rightarrow> late_db \<Rightarrow> ItemRow list" where
  "items_of batchId db = filter (\<lambda>i. li_batchId i = batchId) (ld_items db)"

definition latest_completion :: "ItemRow list \<Rightarrow> int option" where
  "latest_completion items =
     (case [t. i \<leftarrow> items, t \<leftarrow> (case li_completedAt i of None \<Rightarrow> [] | Some t \<Rightarrow> [t])] of
        [] \<Rightarrow> None
      | t # ts \<Rightarrow> Some (foldl max t ts))"

definition correctionMatches :: "CorrectionRecordRow \<Rightarrow> CorrectionRecordRow \<Rightarrow> bool res" where
  "correctionMatches row payload =
     (if mx_billMonth row \<noteq> mx_billMonth payload \<or> mx_currency row \<noteq> ''INR'' then Inr False
      else rbind (late_fixed8 (mx_previousVerifiedTotal row)) (\<lambda>p.
      if p \<noteq> mx_previousVerifiedTotal payload then Inr False
      else rbind (late_fixed8 (mx_revisedVerifiedTotal row)) (\<lambda>r.
      if r \<noteq> mx_revisedVerifiedTotal payload then Inr False
      else rbind (late_fixed8 (mx_deltaAmount row)) (\<lambda>d.
      if d \<noteq> mx_deltaAmount payload then Inr False
      else rbind (fixed8_opt (mx_actualPaidAmount row)) (\<lambda>a.
      if a \<noteq> mx_actualPaidAmount payload then Inr False
      else rbind (fixed8_opt (mx_revisedVariance row)) (\<lambda>v.
      Inr (v = mx_revisedVariance payload \<and> mx_correctedCount row = mx_correctedCount payload \<and>
           mx_failedCount row = mx_failedCount payload \<and> mx_completedAt row = mx_completedAt payload)))))))"

definition correction_conflict :: js_error where
  "correction_conflict = LateRecordingError ''LATE_RECORDING_CORRECTION_CONFLICT'' 409"

definition finalization_conflict :: js_error where
  "finalization_conflict = LateRecordingError ''LATE_RECORDING_FINALIZATION_CONFLICT'' 409"

definition nonneg_amount :: "string \<Rightarrow> bool" where
  "nonneg_amount t = (case toScaled (Some t) of None \<Rightarrow> False | Some v \<Rightarrow> 0 \<le> v)"

text \<open>Append the correction, or recognise it; a clash of ids finds no row of this batch and is a conflict.\<close>

definition record_correction ::
  "CorrectionRecordRow \<Rightarrow> late_db \<Rightarrow> (late_db \<times> finalize_outcome) res" where
  "record_correction payload db =
     (case find_correction (mx_batchId payload) db of
        Some existing \<Rightarrow>
          rbind (correctionMatches existing payload) (\<lambda>same.
          if same then Inr (db, Correction_replayed) else Inl correction_conflict)
      | None \<Rightarrow>
          if list_ex (\<lambda>c. mx_id c = mx_id payload) (ld_corrections db) then Inl correction_conflict
          else if \<not> (nonneg_amount (mx_previousVerifiedTotal payload) \<and> nonneg_amount (mx_revisedVerifiedTotal payload))
          then Inl (DriverError ''ER_CHECK_CONSTRAINT_VIOLATED'')
          else Inr (db\<lparr> ld_corrections := ld_corrections db @ [payload] \<rparr>, Correction_recorded))"

definition close_batch :: "nat \<Rightarrow> nat \<Rightarrow> int \<Rightarrow> BatchRow \<Rightarrow> BatchRow" where
  "close_batch corrected failed completedAt b =
     b\<lparr> lb_correctedCount := corrected, lb_failedCount := failed,
        lb_status := (if failed > 0 then Batch_completed_with_failures else Batch_completed),
        lb_completedAt := Some completedAt \<rparr>"

definition finalize_transaction ::
  "string \<Rightarrow> finalize_input \<Rightarrow> late_db \<Rightarrow> (late_db \<times> LateRecordingFinalizationResult) res" where
  "finalize_transaction correctionId input db =
     (case find_batch (fi_batchId input) db of
        None \<Rightarrow> Inl finalization_conflict
      | Some batch \<Rightarrow>
          (case lb_baselineVerifiedTotal batch of
             None \<Rightarrow> Inl finalization_conflict
           | Some baseline \<Rightarrow>
               if lb_billMonth batch \<noteq> fi_billMonth input then Inl finalization_conflict
               else
                 let items = items_of (fi_batchId input) db;
                     corrected = count_state (fi_batchId input) Item_corrected (ld_items db);
                     failed = count_state (fi_batchId input) Item_failed (ld_items db)
                 in if list_ex item_active items
                    then rbind (late_fixed8 baseline) (\<lambda>previous.
                         Inr (db, \<lparr> fr_outcome = Correction_in_flight, fr_previousVerifiedTotal = previous,
                                    fr_revisedVerifiedTotal = None, fr_deltaAmount = None,
                                    fr_correctedCount = corrected, fr_failedCount = failed \<rparr>))
                    else case latest_completion items of
                      None \<Rightarrow> Inl finalization_conflict
                    | Some completedAt \<Rightarrow>
                        if corrected + failed \<noteq> lb_acceptedCount batch then Inl finalization_conflict
                        else
                          rbind (lateRecordingCorrectionTotals baseline (fi_revisedVerifiedTotal input) (int corrected)) (\<lambda>totals.
                          rbind (fixed8_opt (fi_actualPaidAmount input)) (\<lambda>paid.
                          rbind (fixed8_opt (fi_revisedVariance input)) (\<lambda>variance.
                          let payload = \<lparr> mx_id = correctionId, mx_batchId = fi_batchId input, mx_billMonth = fi_billMonth input,
                                mx_currency = ''INR'', mx_previousVerifiedTotal = ct_previousVerifiedTotal totals,
                                mx_revisedVerifiedTotal = ct_revisedVerifiedTotal totals,
                                mx_deltaAmount = ct_deltaAmount totals, mx_actualPaidAmount = paid,
                                mx_revisedVariance = variance, mx_correctedCount = corrected, mx_failedCount = failed,
                                mx_completedAt = completedAt \<rparr>
                          in rbind (record_correction payload db) (\<lambda>(db', outcome).
                             Inr (update_batch (fi_batchId input) (close_batch corrected failed completedAt) db',
                                  \<lparr> fr_outcome = outcome, fr_previousVerifiedTotal = mx_previousVerifiedTotal payload,
                                    fr_revisedVerifiedTotal = Some (mx_revisedVerifiedTotal payload),
                                    fr_deltaAmount = Some (mx_deltaAmount payload),
                                    fr_correctedCount = corrected, fr_failedCount = failed \<rparr>)))))))"

definition finalizeLateRecordingBatch ::
  "string \<Rightarrow> finalize_input \<Rightarrow> late_db \<Rightarrow> late_db \<times> LateRecordingFinalizationResult res" where
  "finalizeLateRecordingBatch correctionId input db =
     (case finalize_transaction correctionId input db of
        Inl e \<Rightarrow> (db, Inl (asSafeLateRecordingError e))
      | Inr (db', r) \<Rightarrow> (db', Inr r))"

section \<open>Reads\<close>

record progress_item =
  pg_taskReference :: string
  pg_rowNumber :: nat
  pg_state :: LateRecordingItemState
  pg_previousAmount :: "string option"
  pg_revisedAmount :: "string option"
  pg_failureCode :: "string option"
  pg_completedAt :: "string option"

record LateRecordingBatchProgress =
  pb_batchId :: string
  pb_billMonth :: string
  pb_status :: LateRecordingBatchStatus
  pb_submitted :: nat
  pb_accepted :: nat
  pb_rejected :: nat
  pb_queued :: nat
  pb_auditing :: nat
  pb_completed :: nat
  pb_failed :: nat
  pb_finalized :: bool
  pb_previousVerifiedTotal :: "string option"
  pb_revisedVerifiedTotal :: "string option"
  pb_totalAdjustment :: "string option"
  pb_items :: "progress_item list"

definition progress_of_item :: "ItemRow \<Rightarrow> progress_item res" where
  "progress_of_item i =
     rbind (fixed8_opt (li_previousAmount i)) (\<lambda>previous.
     rbind (fixed8_opt (li_revisedAmount i)) (\<lambda>revised.
     Inr \<lparr> pg_taskReference = li_taskReference i, pg_rowNumber = li_rowNumber i, pg_state = li_state i,
           pg_previousAmount = previous, pg_revisedAmount = revised,
           pg_failureCode = (if li_state i = Item_failed
             then Some (safeLateRecordingFailureCode (case li_lastErrorCode i of None \<Rightarrow> Missing | Some t \<Rightarrow> Text_in t))
             else None),
           pg_completedAt = map_option toISOString (li_completedAt i) \<rparr>))"

definition progress_read :: "string \<Rightarrow> late_db \<Rightarrow> LateRecordingBatchProgress option res" where
  "progress_read batchId db =
     (case find_batch batchId db of
        None \<Rightarrow> Inr None
      | Some batch \<Rightarrow>
          let items = sort_key (\<lambda>i. (li_rowNumber i, li_id i)) (items_of batchId db);
              correction = find_correction batchId db;
              counted = (\<lambda>s. length (filter (\<lambda>i. li_state i = s) items))
          in rbind (fixed8_opt (map_option mx_previousVerifiedTotal correction)) (\<lambda>previous.
             rbind (fixed8_opt (map_option mx_revisedVerifiedTotal correction)) (\<lambda>revised.
             rbind (fixed8_opt (map_option mx_deltaAmount correction)) (\<lambda>delta.
             rbind (mapM_res progress_of_item items) (\<lambda>shown.
             Inr (Some \<lparr> pb_batchId = lb_id batch, pb_billMonth = lb_billMonth batch, pb_status = lb_status batch,
                         pb_submitted = lb_submittedCount batch, pb_accepted = lb_acceptedCount batch,
                         pb_rejected = lb_rejectedCount batch, pb_queued = counted Item_accepted,
                         pb_auditing = counted Item_auditing, pb_completed = counted Item_corrected,
                         pb_failed = counted Item_failed, pb_finalized = (correction \<noteq> None),
                         pb_previousVerifiedTotal = previous, pb_revisedVerifiedTotal = revised,
                         pb_totalAdjustment = delta, pb_items = shown \<rparr>))))))"

definition readLateRecordingBatchProgress :: "string \<Rightarrow> late_db \<Rightarrow> LateRecordingBatchProgress option res" where
  "readLateRecordingBatchProgress batchId db =
     (case progress_read batchId db of Inl e \<Rightarrow> Inl (asSafeLateRecordingError e) | Inr p \<Rightarrow> Inr p)"

definition listUnfinishedLateRecordingBatchIds :: "int \<Rightarrow> late_db \<Rightarrow> string list" where
  "listUnfinishedLateRecordingBatchIds limit db =
     map lb_id (take (nat (min (max 1 limit) 50))
       (sort_key lb_requestedAt (filter (\<lambda>b. find_correction (lb_id b) db = None) (ld_batches db))))"

definition listLateRecordingItemsAwaitingCorrection :: "string \<Rightarrow> late_db \<Rightarrow> (string \<times> string \<times> string) list" where
  "listLateRecordingItemsAwaitingCorrection batchId db =
     map (\<lambda>i. (li_id i, li_callId i, li_taskReference i))
       (take MAX_LATE_RECORDING_ROWS (sort_key (\<lambda>i. (li_rowNumber i, li_id i))
         (filter (\<lambda>i. li_state i = Item_auditing) (items_of batchId db))))"

section \<open>What every step keeps\<close>

definition artifact_at :: "CallArtifact list \<Rightarrow> string \<Rightarrow> CallArtifact option" where
  "artifact_at artifacts i = find (\<lambda>a. ca_id a = i) artifacts"

text \<open>Artifacts may be added and worked on, but one that has an address keeps it.\<close>

definition artifacts_keep :: "CallArtifact list \<Rightarrow> CallArtifact list \<Rightarrow> bool" where
  "artifacts_keep artifacts artifacts' \<longleftrightarrow> distinct (map ca_id artifacts') \<and>
     (\<forall>i a. artifact_at artifacts i = Some a \<longrightarrow>
        (\<exists>a'. artifact_at artifacts' i = Some a' \<and> ca_callId a' = ca_callId a \<and>
              (\<forall>u. ca_sourceUrl a = Some u \<longrightarrow> ca_sourceUrl a' = Some u)))"

definition item_ident :: "ItemRow \<Rightarrow> string \<times> string \<times> string \<times> string \<times> string \<times> nat \<times> string" where
  "item_ident i = (li_id i, li_batchId i, li_callId i, li_artifactId i, li_taskReference i, li_rowNumber i, li_canonicalUrlSha256 i)"

definition item_shape :: "ItemRow \<Rightarrow> bool" where
  "item_shape i \<longleftrightarrow> (case li_state i of
     Item_accepted \<Rightarrow> li_attemptCount i = 0 \<and> li_completedAt i = None
   | Item_auditing \<Rightarrow> li_attemptCount i = 1 \<and> li_completedAt i = None
   | _ \<Rightarrow> li_attemptCount i = 1 \<and> li_completedAt i \<noteq> None)"

text \<open>The address an item was accepted with is on the artifact it names, which belongs to its call.\<close>

definition evidenced :: "runtime \<Rightarrow> CallArtifact list \<Rightarrow> ItemRow \<Rightarrow> bool" where
  "evidenced rt artifacts i \<longleftrightarrow> (\<exists>a u. artifact_at artifacts (li_artifactId i) = Some a \<and> ca_callId a = li_callId i \<and>
     ca_sourceUrl a = Some u \<and> li_canonicalUrlSha256 i = canonicalUrlSha256 rt u)"

definition batch_closed :: "BatchRow \<Rightarrow> bool" where
  "batch_closed b \<longleftrightarrow> lb_status b = Batch_completed \<or> lb_status b = Batch_completed_with_failures"

definition batch_ident :: "BatchRow \<Rightarrow> string \<times> string \<times> string \<times> string \<times> string \<times> nat \<times> nat" where
  "batch_ident b = (lb_id b, lb_billMonth b, lb_requestDigest b, lb_idempotencyKey b, lb_rateCardVersionId b,
     lb_submittedCount b, lb_acceptedCount b)"

text \<open>A correction row explains its batch: nothing in flight, the batch closed on the same counts, the exact difference.\<close>

definition explains :: "ItemRow list \<Rightarrow> BatchRow \<Rightarrow> CorrectionRecordRow \<Rightarrow> bool" where
  "explains items b c \<longleftrightarrow>
     (\<forall>i \<in> set items. li_batchId i = lb_id b \<longrightarrow> \<not> item_active i) \<and> mx_billMonth c = lb_billMonth b \<and>
     mx_correctedCount c = count_state (lb_id b) Item_corrected items \<and> mx_failedCount c = count_state (lb_id b) Item_failed items \<and>
     mx_correctedCount c + mx_failedCount c = lb_acceptedCount b \<and>
     lb_correctedCount b = mx_correctedCount c \<and> lb_failedCount b = mx_failedCount c \<and>
     lb_completedAt b = Some (mx_completedAt c) \<and>
     lb_status b = (if mx_failedCount c > 0 then Batch_completed_with_failures else Batch_completed) \<and>
     (\<exists>baseline previous revised. lb_baselineVerifiedTotal b = Some baseline \<and> toScaled (Some baseline) = Some previous \<and>
        mx_previousVerifiedTotal c = formatScaledMoney previous \<and> mx_revisedVerifiedTotal c = formatScaledMoney revised \<and>
        mx_deltaAmount c = formatScaledMoney (revised - previous))"

definition batch_key :: "BatchRow \<Rightarrow> string" where
  "batch_key b = map fold_char (lb_idempotencyKey b)"

definition batches_ok :: "BatchRow list \<Rightarrow> ItemRow list \<Rightarrow> CorrectionRecordRow list \<Rightarrow> bool" where
  "batches_ok batches items corrections \<longleftrightarrow>
     distinct (map lb_id batches) \<and> distinct (map batch_key batches) \<and> distinct (map mx_batchId corrections) \<and>
     (\<forall>i \<in> set items. li_batchId i \<in> lb_id ` set batches) \<and>
     (\<forall>b \<in> set batches. length (filter (\<lambda>i. li_batchId i = lb_id b) items) = lb_acceptedCount b) \<and>
     (\<forall>b \<in> set batches. batch_closed b \<longrightarrow> lb_id b \<in> mx_batchId ` set corrections) \<and>
     (\<forall>c \<in> set corrections. \<exists>b \<in> set batches. lb_id b = mx_batchId c \<and> explains items b c)"

definition items_ok :: "ItemRow list \<Rightarrow> bool" where
  "items_ok items \<longleftrightarrow> distinct (map li_id items) \<and> distinct (map li_callId (filter item_active items)) \<and>
     (\<forall>i \<in> set items. item_shape i)"

definition late_ok :: "runtime \<Rightarrow> late_db \<Rightarrow> bool" where
  "late_ok rt db \<longleftrightarrow> distinct (map ca_id (ld_artifacts db)) \<and> items_ok (ld_items db) \<and>
     (\<forall>i \<in> set (ld_items db). evidenced rt (ld_artifacts db) i) \<and>
     batches_ok (ld_batches db) (ld_items db) (ld_corrections db)"

definition items_keep :: "ItemRow list \<Rightarrow> ItemRow list \<Rightarrow> bool" where
  "items_keep items items' \<longleftrightarrow> (\<forall>i \<in> set items. \<exists>i' \<in> set items'. item_ident i' = item_ident i \<and>
     (li_state i' = Item_accepted \<longrightarrow> li_state i = Item_accepted) \<and> (\<not> item_active i \<longrightarrow> i' = i))"

definition batches_keep :: "BatchRow list \<Rightarrow> BatchRow list \<Rightarrow> bool" where
  "batches_keep batches batches' \<longleftrightarrow> (\<forall>b \<in> set batches. \<exists>b' \<in> set batches'. batch_ident b' = batch_ident b \<and>
     (lb_baselineVerifiedTotal b \<noteq> None \<longrightarrow> lb_baselineVerifiedTotal b' = lb_baselineVerifiedTotal b) \<and>
     (batch_closed b \<longrightarrow> b' = b))"

definition late_grows :: "late_db \<Rightarrow> late_db \<Rightarrow> bool" where
  "late_grows db db' \<longleftrightarrow> (distinct (map ca_id (ld_artifacts db)) \<longrightarrow> artifacts_keep (ld_artifacts db) (ld_artifacts db')) \<and>
     items_keep (ld_items db) (ld_items db') \<and> batches_keep (ld_batches db) (ld_batches db') \<and>
     prefix (ld_corrections db) (ld_corrections db')"

lemma artifacts_keep_refl: "distinct (map ca_id as) \<Longrightarrow> artifacts_keep as as"
  by (auto simp: artifacts_keep_def)

lemma artifacts_keep_trans: "artifacts_keep a b \<Longrightarrow> artifacts_keep b c \<Longrightarrow> artifacts_keep a c"
proof -
  assume ab: "artifacts_keep a b" and bc: "artifacts_keep b c"
  have "\<exists>z. artifact_at c i = Some z \<and> ca_callId z = ca_callId x \<and> (\<forall>u. ca_sourceUrl x = Some u \<longrightarrow> ca_sourceUrl z = Some u)"
    if "artifact_at a i = Some x" for i x
  proof -
    from ab that obtain y where y: "artifact_at b i = Some y" "ca_callId y = ca_callId x"
      "\<forall>u. ca_sourceUrl x = Some u \<longrightarrow> ca_sourceUrl y = Some u" unfolding artifacts_keep_def by blast
    from bc y(1) obtain z where "artifact_at c i = Some z" "ca_callId z = ca_callId y"
      "\<forall>u. ca_sourceUrl y = Some u \<longrightarrow> ca_sourceUrl z = Some u" unfolding artifacts_keep_def by blast
    with y show ?thesis by auto
  qed
  with bc show ?thesis unfolding artifacts_keep_def by blast
qed

lemma items_keep_refl [simp]: "items_keep is is"
  by (auto simp: items_keep_def)

lemma items_keep_trans: "items_keep a b \<Longrightarrow> items_keep b c \<Longrightarrow> items_keep a c"
proof -
  assume ab: "items_keep a b" and bc: "items_keep b c"
  have "\<exists>z \<in> set c. item_ident z = item_ident x \<and> (li_state z = Item_accepted \<longrightarrow> li_state x = Item_accepted) \<and>
      (\<not> item_active x \<longrightarrow> z = x)" if "x \<in> set a" for x
  proof -
    from ab that obtain y where y: "y \<in> set b" "item_ident y = item_ident x" "li_state y = Item_accepted \<longrightarrow> li_state x = Item_accepted"
      "\<not> item_active x \<longrightarrow> y = x" unfolding items_keep_def by blast
    from bc y(1) obtain z where z: "z \<in> set c" "item_ident z = item_ident y" "li_state z = Item_accepted \<longrightarrow> li_state y = Item_accepted"
      "\<not> item_active y \<longrightarrow> z = y" unfolding items_keep_def by blast
    have "\<not> item_active x \<longrightarrow> z = x" using y(4) z(4) by blast
    with y z show ?thesis by (intro bexI[of _ z]) auto
  qed
  then show ?thesis unfolding items_keep_def by blast
qed

lemma batches_keep_refl [simp]: "batches_keep bs bs"
  by (auto simp: batches_keep_def)

lemma batches_keep_trans: "batches_keep a b \<Longrightarrow> batches_keep b c \<Longrightarrow> batches_keep a c"
proof -
  assume ab: "batches_keep a b" and bc: "batches_keep b c"
  have "\<exists>z \<in> set c. batch_ident z = batch_ident x \<and>
      (lb_baselineVerifiedTotal x \<noteq> None \<longrightarrow> lb_baselineVerifiedTotal z = lb_baselineVerifiedTotal x) \<and>
      (batch_closed x \<longrightarrow> z = x)" if "x \<in> set a" for x
  proof -
    from ab that obtain y where y: "y \<in> set b" "batch_ident y = batch_ident x" "batch_closed x \<longrightarrow> y = x"
      "lb_baselineVerifiedTotal x \<noteq> None \<longrightarrow> lb_baselineVerifiedTotal y = lb_baselineVerifiedTotal x"
      unfolding batches_keep_def by blast
    from bc y(1) obtain z where z: "z \<in> set c" "batch_ident z = batch_ident y" "batch_closed y \<longrightarrow> z = y"
      "lb_baselineVerifiedTotal y \<noteq> None \<longrightarrow> lb_baselineVerifiedTotal z = lb_baselineVerifiedTotal y"
      unfolding batches_keep_def by blast
    have "batch_closed x \<longrightarrow> z = x" using y(3) z(3) by blast
    with y z show ?thesis by (intro bexI[of _ z]) simp_all
  qed
  then show ?thesis unfolding batches_keep_def by blast
qed

lemma late_grows_refl: "late_grows db db"
  by (simp add: late_grows_def artifacts_keep_refl)

lemma late_grows_trans: "late_grows a b \<Longrightarrow> late_grows b c \<Longrightarrow> late_grows a c"
  unfolding late_grows_def
  using artifacts_keep_trans items_keep_trans batches_keep_trans prefix_order.trans artifacts_keep_def by blast

lemma evidenced_keep: "artifacts_keep as as' \<Longrightarrow> evidenced rt as i \<Longrightarrow> evidenced rt as' i"
  unfolding artifacts_keep_def evidenced_def by (metis (no_types, lifting))

lemma evidenced_ident: "item_ident i = item_ident j \<Longrightarrow> evidenced rt as i = evidenced rt as j"
  by (simp add: item_ident_def evidenced_def)

section \<open>Working on items and batches\<close>

text \<open>What a claim or a settle does to one item.\<close>

definition item_progress :: "ItemRow \<Rightarrow> ItemRow \<Rightarrow> bool" where
  "item_progress i j \<longleftrightarrow> item_ident j = item_ident i \<and> (item_active j \<longrightarrow> item_active i) \<and> item_shape j \<and>
     (li_state j = Item_accepted \<longrightarrow> li_state i = Item_accepted) \<and> (\<not> item_active i \<longrightarrow> j = i)"

lemma item_progressD:
  assumes "item_progress i j"
  shows "li_id j = li_id i" "li_batchId j = li_batchId i" "li_callId j = li_callId i" "item_active j \<Longrightarrow> item_active i" "item_shape j"
  using assms by (simp_all add: item_progress_def item_ident_def)

lemma items_ok_map:
  assumes "items_ok items" "\<And>i. i \<in> set items \<Longrightarrow> item_progress i (f i)"
  shows "items_ok (map f items)" "items_keep items (map f items)"
proof -
  have ids: "map li_id (map f items) = map li_id items"
    using item_progressD(1)[OF assms(2)] by simp
  have calls: "distinct (map li_callId (filter item_active (map f items)))"
    using assms
  proof (induction items)
    case (Cons i items)
    have act: "li_callId k = li_callId (f k)" "item_active (f k) \<Longrightarrow> item_active k" if "k \<in> set (i # items)" for k
      using item_progressD(3,4)[OF Cons.prems(2)[OF that]] by simp_all
    have sub: "li_callId j \<notin> li_callId ` set (filter item_active (map f items))"
      if "j = f i" "item_active j" for j
    proof
      assume "li_callId j \<in> li_callId ` set (filter item_active (map f items))"
      then obtain k where k: "k \<in> set items" "item_active (f k)" "li_callId (f k) = li_callId j" by auto
      from k that act[of k] act[of i] have "item_active k" "li_callId k = li_callId i" "item_active i" by simp_all
      moreover have "li_callId i \<notin> li_callId ` set (filter item_active items)"
        using Cons.prems(1) \<open>item_active i\<close> by (simp add: items_ok_def)
      moreover have "li_callId k \<in> li_callId ` set (filter item_active items)"
        using k(1) \<open>item_active k\<close> by simp
      ultimately show False by simp
    qed
    have "items_ok items" using Cons.prems(1) by (auto simp: items_ok_def split: if_splits)
    then have "distinct (map li_callId (filter item_active (map f items)))"
      by (rule Cons.IH) (simp add: Cons.prems(2))
    with sub[OF refl] show ?case by simp
  qed simp
  have shapes: "\<forall>j \<in> set (map f items). item_shape j" using item_progressD(5)[OF assms(2)] by simp
  have "distinct (map li_id items)" using assms(1) by (simp add: items_ok_def)
  with shapes calls show "items_ok (map f items)" unfolding items_ok_def ids by blast
  show "items_keep items (map f items)"
    unfolding items_keep_def using assms(2) by (metis item_progress_def image_eqI set_map)
qed

lemma count_state_map:
  assumes "\<And>i. i \<in> set items \<Longrightarrow> item_progress i (f i)" "\<And>i. i \<in> set items \<Longrightarrow> li_batchId i = b \<Longrightarrow> \<not> item_active i"
  shows "count_state b s (map f items) = count_state b s items"
proof -
  have "(li_batchId (f i) = b \<and> li_state (f i) = s) = (li_batchId i = b \<and> li_state i = s)" if i: "i \<in> set items" for i
  proof (cases "li_batchId i = b")
    case True
    then have "f i = i" using assms(1)[OF i] assms(2)[OF i] unfolding item_progress_def by blast
    then show ?thesis by simp
  next
    case False
    then show ?thesis using assms(1)[OF i] by (simp add: item_progress_def item_ident_def)
  qed
  then have "filter (\<lambda>i. li_batchId i = b \<and> li_state i = s) (map f items) =
        map f (filter (\<lambda>i. li_batchId i = b \<and> li_state i = s) items)"
    unfolding filter_map comp_def by (intro arg_cong[of _ _ "map f"] filter_cong refl)
  then show ?thesis by (simp add: count_state_def)
qed

text \<open>What a claim, a settle or a preparation does to one batch.\<close>

definition batch_progress :: "BatchRow \<Rightarrow> BatchRow \<Rightarrow> bool" where
  "batch_progress b b' \<longleftrightarrow> batch_ident b' = batch_ident b \<and> (batch_closed b' \<longrightarrow> batch_closed b) \<and> (batch_closed b \<longrightarrow> b' = b) \<and>
     (lb_baselineVerifiedTotal b \<noteq> None \<longrightarrow> lb_baselineVerifiedTotal b' = lb_baselineVerifiedTotal b)"

lemma batches_ok_map:
  assumes ok: "batches_ok batches items corrections"
    and f: "\<And>i. i \<in> set items \<Longrightarrow> item_progress i (f i)"
    and g: "\<And>b. b \<in> set batches \<Longrightarrow> batch_progress b (g b)"
  shows "batches_ok (map g batches) (map f items) corrections" "batches_keep batches (map g batches)"
proof -
  have gid: "lb_id (g b) = lb_id b" "lb_acceptedCount (g b) = lb_acceptedCount b" "batch_key (g b) = batch_key b"
    if "b \<in> set batches" for b
    using g[OF that] by (auto simp: batch_progress_def batch_ident_def batch_key_def)
  have fid: "li_batchId (f i) = li_batchId i" if "i \<in> set items" for i
    using item_progressD(2)[OF f[OF that]] .
  have gids: "map lb_id (map g batches) = map lb_id batches" using gid(1) by simp
  have gkeys: "map batch_key (map g batches) = map batch_key batches" using gid(3) by simp
  have cnt: "length (filter (\<lambda>i. li_batchId i = k) (map f items)) = length (filter (\<lambda>i. li_batchId i = k) items)" for k
  proof -
    have "filter (\<lambda>i. li_batchId i = k) (map f items) = map f (filter (\<lambda>i. li_batchId i = k) items)"
      unfolding filter_map comp_def by (intro arg_cong[of _ _ "map f"] filter_cong refl) (simp add: fid)
    then show ?thesis by simp
  qed
  have ex: "\<exists>b' \<in> set (map g batches). lb_id b' = mx_batchId c \<and> explains (map f items) b' c"
    if c: "c \<in> set corrections" for c
  proof -
    obtain b where b: "b \<in> set batches" "lb_id b = mx_batchId c" "explains items b c"
      using ok c by (auto simp: batches_ok_def)
    then have closed: "batch_closed b" by (auto simp: explains_def batch_closed_def)
    then have "g b = b" using g[OF b(1)] by (auto simp: batch_progress_def)
    moreover have none: "\<And>i. i \<in> set items \<Longrightarrow> li_batchId i = lb_id b \<Longrightarrow> \<not> item_active i"
      using b(3) by (auto simp: explains_def)
    moreover have "count_state (lb_id b) s (map f items) = count_state (lb_id b) s items" for s
      by (rule count_state_map[OF f none])
    moreover have "\<not> item_active (f i)" if "i \<in> set items" "li_batchId (f i) = lb_id b" for i
      using f[OF that(1)] none[OF that(1)] fid[OF that(1)] that(2) by (auto simp: item_progress_def)
    ultimately have "explains (map f items) (g b) c" using b(3) by (auto simp: explains_def)
    then show ?thesis using b \<open>g b = b\<close> by force
  qed
  have "\<forall>i \<in> set (map f items). li_batchId i \<in> lb_id ` set (map g batches)"
    using ok fid gid by (auto simp: batches_ok_def image_iff)
  moreover have "\<forall>b \<in> set (map g batches). length (filter (\<lambda>i. li_batchId i = lb_id b) (map f items)) = lb_acceptedCount b"
    using ok cnt gid(1,2) by (auto simp: batches_ok_def simp del: length_map)
  moreover have "\<forall>b \<in> set (map g batches). batch_closed b \<longrightarrow> lb_id b \<in> mx_batchId ` set corrections"
  proof (intro ballI impI)
    fix b' assume "b' \<in> set (map g batches)" and c: "batch_closed b'"
    then obtain b where b: "b \<in> set batches" "b' = g b" by auto
    with c g have "batch_closed b" unfolding batch_progress_def by blast
    with ok b(1) have "lb_id b \<in> mx_batchId ` set corrections" unfolding batches_ok_def by blast
    then show "lb_id b' \<in> mx_batchId ` set corrections" by (simp add: b gid)
  qed
  ultimately show "batches_ok (map g batches) (map f items) corrections"
    using ok ex unfolding batches_ok_def gids gkeys by blast
  show "batches_keep batches (map g batches)"
    unfolding batches_keep_def using g by (metis batch_progress_def image_eqI set_map)
qed

lemma progress_refl: "item_shape i \<Longrightarrow> item_progress i i" "batch_progress b b"
  by (auto simp: item_progress_def batch_progress_def)

lemma late_progress:
  assumes ok: "late_ok rt db"
    and f: "\<And>i. i \<in> set (ld_items db) \<Longrightarrow> item_progress i (f i)"
    and g: "\<And>b. b \<in> set (ld_batches db) \<Longrightarrow> batch_progress b (g b)"
    and db': "db' = db\<lparr> ld_items := map f (ld_items db), ld_batches := map g (ld_batches db) \<rparr>"
  shows "late_ok rt db' \<and> late_grows db db'"
proof -
  have e: "evidenced rt (ld_artifacts db) (f i)" if "i \<in> set (ld_items db)" for i
    using ok f[OF that] that evidenced_ident[of "f i" i] unfolding late_ok_def item_progress_def by blast
  have "items_ok (ld_items db)" "batches_ok (ld_batches db) (ld_items db) (ld_corrections db)"
    and d: "distinct (map ca_id (ld_artifacts db))" using ok by (simp_all add: late_ok_def)
  note i = items_ok_map[OF this(1) f] and b = batches_ok_map[OF this(2) f g]
  show ?thesis using d e i b
    by (simp add: late_ok_def late_grows_def db' artifacts_keep_refl)
qed

lemma late_okD:
  assumes "late_ok rt db"
  shows "distinct (map ca_id (ld_artifacts db))" "items_ok (ld_items db)"
    "\<And>i. i \<in> set (ld_items db) \<Longrightarrow> item_shape i" "\<And>i. i \<in> set (ld_items db) \<Longrightarrow> evidenced rt (ld_artifacts db) i"
    "batches_ok (ld_batches db) (ld_items db) (ld_corrections db)"
  using assms by (simp_all add: late_ok_def items_ok_def)

lemma closed_explained:
  assumes "batches_ok batches items corrections" "b \<in> set batches" "batch_closed b"
  obtains c where "c \<in> set corrections" "mx_batchId c = lb_id b" "explains items b c"
proof -
  obtain c where c: "c \<in> set corrections" "mx_batchId c = lb_id b"
    using assms unfolding batches_ok_def by (metis (no_types, lifting) imageE)
  then obtain b' where b': "b' \<in> set batches" "lb_id b' = mx_batchId c" "explains items b' c"
    using assms(1) unfolding batches_ok_def by blast
  have "b' = b" using assms(1,2) b'(1,2) c(2) by (auto simp: batches_ok_def distinct_map inj_on_def)
  with b' c that show thesis by blast
qed

lemma closed_settled:
  assumes "batches_ok batches items corrections" "b \<in> set batches" "batch_closed b" "i \<in> set items" "li_batchId i = lb_id b"
  shows "\<not> item_active i"
  using closed_explained[OF assms(1-3)] assms(4,5) unfolding explains_def by metis

lemma closed_baseline:
  assumes "batches_ok batches items corrections" "b \<in> set batches" "batch_closed b"
  shows "lb_baselineVerifiedTotal b \<noteq> None"
  using closed_explained[OF assms] unfolding explains_def by (metis option.distinct(1))

section \<open>Claiming\<close>

lemma claim_keeps: "late_ok rt db \<Longrightarrow> late_ok rt (fst (listCandidates costs batchId limit now db)) \<and>
    late_grows db (fst (listCandidates costs batchId limit now db))"
proof (rule late_progress[where f="\<lambda>i. if list_ex (\<lambda>(c, _). li_state c \<noteq> Item_auditing \<and> startable (li_id c) i)
          (claimed_items batchId limit now db) then start_item now i else i"
      and g="\<lambda>b. if lb_id b = batchId \<and> lb_status b = Batch_accepted
        then b\<lparr> lb_status := Batch_running, lb_startedAt := Some (coalesce (lb_startedAt b) now) \<rparr> else b"])
  assume ok: "late_ok rt db"
  then show "late_ok rt db" .
  show "item_progress i (if list_ex (\<lambda>(c, _). li_state c \<noteq> Item_auditing \<and> startable (li_id c) i)
          (claimed_items batchId limit now db) then start_item now i else i)" if "i \<in> set (ld_items db)" for i
    using late_okD(3)[OF ok that]
    by (auto simp: item_progress_def item_ident_def item_shape_def start_item_def startable_def item_active_def list_ex_iff)
  show "batch_progress b (if lb_id b = batchId \<and> lb_status b = Batch_accepted
        then b\<lparr> lb_status := Batch_running, lb_startedAt := Some (coalesce (lb_startedAt b) now) \<rparr> else b)" for b
    by (auto simp: batch_progress_def batch_ident_def batch_closed_def)
qed (simp add: listCandidates_def Let_def start_claimed_def start_batch_def)

section \<open>Settling\<close>

definition settle_map :: "settle_input \<Rightarrow> string option \<Rightarrow> string option \<Rightarrow> ItemRow \<Rightarrow> ItemRow" where
  "settle_map input previous revised i = (if settleable input i then settled_item input previous revised i else i)"

lemma settle_progress: "item_shape i \<Longrightarrow> item_progress i (settle_map input previous revised i)"
  by (auto simp: settle_map_def item_progress_def item_ident_def item_shape_def settled_item_def settleable_def item_active_def)

lemma settle_item_cases:
  obtains (refused) e where "settle_item input db = (db, Inl e)"
  | (applied) previous revised where
      "fst (settle_item input db) = db\<lparr> ld_items := map (settle_map input previous revised) (ld_items db) \<rparr>"
      "snd (settle_item input db) = Inr () \<Longrightarrow> length (filter (settleable input) (ld_items db)) = 1"
proof (cases "rbind (fixed8_opt (se_previousAmount input)) (\<lambda>previous.
             rbind (fixed8_opt (se_revisedAmount input)) (\<lambda>revised. Inr (previous, revised)))")
  case (Inl e)
  then show thesis using refused by (simp add: settle_item_def)
next
  case (Inr pr)
  obtain previous revised where pr: "pr = (previous, revised)" by (cases pr)
  show thesis
  proof (cases "list_ex (\<lambda>i. settleable input i \<and> \<not> amounts_ok (settled_item input previous revised i)) (ld_items db)")
    case True
    then show thesis using refused Inr pr by (simp add: settle_item_def)
  next
    case False
    then have s: "settle_item input db = (db\<lparr> ld_items := map (\<lambda>i. if settleable input i then settled_item input previous revised i else i) (ld_items db) \<rparr>,
           if length (filter (settleable input) (ld_items db)) \<noteq> 1
           then Inl (LateRecordingError ''LATE_RECORDING_ITEM_STATE_CONFLICT'' 500) else Inr ())"
      using Inr pr by (simp add: settle_item_def)
    show thesis
    proof (rule applied)
      show "fst (settle_item input db) = db\<lparr> ld_items := map (settle_map input previous revised) (ld_items db) \<rparr>"
        unfolding s fst_conv settle_map_def[abs_def] ..
      show "length (filter (settleable input) (ld_items db)) = 1" if "snd (settle_item input db) = Inr ()"
        using that unfolding s by (simp split: if_splits)
    qed
  qed
qed

lemma settle_item_keeps: "late_ok rt db \<Longrightarrow> late_ok rt (fst (settle_item input db)) \<and> late_grows db (fst (settle_item input db))"
proof (cases rule: settle_item_cases[of input db])
  case (applied previous revised)
  assume ok: "late_ok rt db"
  show ?thesis
    by (rule late_progress[OF ok, where f="settle_map input previous revised" and g="\<lambda>b. b"])
      (use applied(1) settle_progress[OF late_okD(3)[OF ok]] progress_refl(2) in simp_all)
qed (simp add: late_grows_refl)

lemma settle_keeps:
  assumes ok: "late_ok rt db"
  shows "late_ok rt (fst (settleLateRecordingItem input db)) \<and> late_grows db (fst (settleLateRecordingItem input db))"
proof (cases "snd (settle_item input db)")
  case (Inl e)
  then have "fst (settleLateRecordingItem input db) = fst (settle_item input db)"
    by (cases "settle_item input db") (simp add: settleLateRecordingItem_def)
  then show ?thesis using settle_item_keeps[OF ok] by simp
next
  case (Inr u)
  then have s: "fst (settleLateRecordingItem input db) = recount_batch (se_batchId input) (fst (settle_item input db))"
    by (cases "settle_item input db") (simp add: settleLateRecordingItem_def)
  show ?thesis
  proof (cases rule: settle_item_cases[of input db])
    case (refused e)
    then show ?thesis using Inr by simp
  next
    case (applied previous revised)
    let ?items = "map (settle_map input previous revised) (ld_items db)"
    have "length (filter (settleable input) (ld_items db)) = 1" using applied(2) Inr by simp
    then have "filter (settleable input) (ld_items db) \<noteq> []" by auto
    then obtain i where i: "i \<in> set (ld_items db)" "settleable input i" by (auto simp: filter_empty_conv)
    have "\<not> batch_closed b" if "b \<in> set (ld_batches db)" "lb_id b = se_batchId input" for b
      using closed_settled[OF late_okD(5)[OF ok] that(1) _ i(1)] i(2) that(2) by (auto simp: settleable_def item_active_def)
    then have g: "batch_progress b (if lb_id b = se_batchId input
        then b\<lparr> lb_correctedCount := count_state (se_batchId input) Item_corrected ?items,
                lb_failedCount := count_state (se_batchId input) Item_failed ?items,
                lb_status := Batch_running, lb_completedAt := None \<rparr> else b)" if "b \<in> set (ld_batches db)" for b
      using that by (auto simp: batch_progress_def batch_ident_def batch_closed_def)
    show ?thesis unfolding s
      by (rule late_progress[OF ok settle_progress[OF late_okD(3)[OF ok], where input=input and previous=previous and revised=revised] g])
        (simp_all add: applied(1) recount_batch_def cong: if_cong)
  qed
qed

section \<open>Preparing\<close>

lemma find_batch_Some:
  assumes "late_ok rt db" "find_batch i db = Some b"
  shows "b \<in> set (ld_batches db)" "lb_id b = i" "\<And>b'. b' \<in> set (ld_batches db) \<Longrightarrow> lb_id b' = i \<Longrightarrow> b' = b"
proof -
  show b: "b \<in> set (ld_batches db)" "lb_id b = i" using assms(2) by (auto simp: find_batch_def find_Some_iff)
  show "b' = b" if "b' \<in> set (ld_batches db)" "lb_id b' = i" for b'
    using late_okD(5)[OF assms(1)] b that by (auto simp: batches_ok_def distinct_map inj_on_def)
qed

lemma update_batch_keeps:
  assumes ok: "late_ok rt db" and "find_batch i db = Some b" "batch_progress b (f b)"
  shows "late_ok rt (update_batch i f db) \<and> late_grows db (update_batch i f db)"
proof (rule late_progress[OF ok, where f="\<lambda>x. x" and g="\<lambda>b. if lb_id b = i then f b else b"])
  show "batch_progress b' (if lb_id b' = i then f b' else b')" if "b' \<in> set (ld_batches db)" for b'
    using find_batch_Some(3)[OF ok assms(2) that] assms(3) progress_refl(2) by auto
  show "item_progress x x" if "x \<in> set (ld_items db)" for x
    using progress_refl(1)[OF late_okD(3)[OF ok that]] .
qed (simp add: update_batch_def)

lemma prepare_keeps:
  assumes ok: "late_ok rt db"
  shows "late_ok rt (fst (prepareLateRecordingBatch batchId period at_time db)) \<and>
         late_grows db (fst (prepareLateRecordingBatch batchId period at_time db))"
proof (cases "prepare_transaction batchId period at_time db")
  case (Inl e)
  then show ?thesis using ok by (simp add: prepareLateRecordingBatch_def late_grows_refl)
next
  case (Inr x)
  obtain db' p where x: "x = (db', p)" by (cases x)
  have s: "fst (prepareLateRecordingBatch batchId period at_time db) = db'" using Inr x by (simp add: prepareLateRecordingBatch_def)
  show ?thesis
  proof (cases "find_batch batchId db")
    case None
    then show ?thesis using Inr x ok s by (simp add: prepare_transaction_def late_grows_refl)
  next
    case (Some b)
    consider (same) "db' = db"
      | (captured) t where "lb_baselineVerifiedTotal b = None" "db' = update_batch batchId (capture_baseline t at_time) db"
      | (started) "lb_status b = Batch_accepted" "db' = update_batch batchId (\<lambda>b. b\<lparr> lb_status := Batch_running,
                                 lb_startedAt := Some (coalesce (lb_startedAt b) at_time) \<rparr>) db"
      using Inr x Some by (auto simp: prepare_transaction_def rbind_Inr_iff split: option.splits if_splits)
    then show ?thesis
    proof cases
      case same
      then show ?thesis using ok s by (simp add: late_grows_refl)
    next
      case captured
      have "\<not> batch_closed b" using captured(1) closed_baseline[OF late_okD(5)[OF ok]] find_batch_Some(1)[OF ok Some] by blast
      then have "batch_progress b (capture_baseline t at_time b)"
        using captured(1) by (auto simp: batch_progress_def batch_ident_def capture_baseline_def batch_closed_def)
      then show ?thesis using update_batch_keeps[OF ok Some] s captured(2) by simp
    next
      case started
      then have "batch_progress b (b\<lparr> lb_status := Batch_running, lb_startedAt := Some (coalesce (lb_startedAt b) at_time) \<rparr>)"
        by (auto simp: batch_progress_def batch_ident_def batch_closed_def)
      then show ?thesis using update_batch_keeps[OF ok Some, where f="\<lambda>b. b\<lparr> lb_status := Batch_running,
                                 lb_startedAt := Some (coalesce (lb_startedAt b) at_time) \<rparr>"] s started(2) by simp
    qed
  qed
qed

section \<open>Closing a batch\<close>

lemma totals_Inr:
  assumes "lateRecordingCorrectionTotals p r n = Inr t"
  obtains x y where "toScaled (Some p) = Some x" "toScaled (Some r) = Some y"
    "ct_previousVerifiedTotal t = formatScaledMoney x" "ct_revisedVerifiedTotal t = formatScaledMoney y"
    "ct_deltaAmount t = formatScaledMoney (y - x)"
proof -
  obtain x y where xy: "toScaled (Some p) = Some x" "toScaled (Some r) = Some y" "0 \<le> n"
    using assms by (auto simp: lateRecordingCorrectionTotals_def split: if_splits option.splits)
  have t: "t = \<lparr> ct_previousVerifiedTotal = formatScaledMoney x, ct_revisedVerifiedTotal = formatScaledMoney y,
      ct_deltaAmount = formatScaledMoney (y - x), ct_correctedCount = n \<rparr>"
    using assms correction_totals_exact[OF xy] by simp
  show thesis by (rule that[OF xy(1,2)]) (simp_all add: t)
qed

text \<open>What a finalization that is not refused has established, and what it does.\<close>

lemma finalize_cases:
  assumes "finalize_transaction cid input db = Inr (db', r)"
  obtains (in_flight) "db' = db" "fr_outcome r = Correction_in_flight"
  | (closed) b baseline x y completedAt payload db1 where
      "find_batch (fi_batchId input) db = Some b" "lb_billMonth b = fi_billMonth input"
      "lb_baselineVerifiedTotal b = Some baseline" "toScaled (Some baseline) = Some x"
      "\<forall>i \<in> set (ld_items db). li_batchId i = fi_batchId input \<longrightarrow> \<not> item_active i"
      "latest_completion (items_of (fi_batchId input) db) = Some completedAt"
      "mx_batchId payload = fi_batchId input" "mx_billMonth payload = fi_billMonth input"
      "mx_correctedCount payload = count_state (fi_batchId input) Item_corrected (ld_items db)"
      "mx_failedCount payload = count_state (fi_batchId input) Item_failed (ld_items db)"
      "mx_correctedCount payload + mx_failedCount payload = lb_acceptedCount b" "mx_completedAt payload = completedAt"
      "mx_previousVerifiedTotal payload = formatScaledMoney x" "mx_revisedVerifiedTotal payload = formatScaledMoney y"
      "mx_deltaAmount payload = formatScaledMoney (y - x)"
      "record_correction payload db = Inr (db1, fr_outcome r)"
      "db' = update_batch (fi_batchId input) (close_batch (mx_correctedCount payload) (mx_failedCount payload) completedAt) db1"
      "fr_deltaAmount r = Some (mx_deltaAmount payload)"
proof -
  obtain b where b: "find_batch (fi_batchId input) db = Some b"
    using assms by (cases "find_batch (fi_batchId input) db") (simp_all add: finalize_transaction_def)
  obtain baseline where bl: "lb_baselineVerifiedTotal b = Some baseline"
    using assms b by (cases "lb_baselineVerifiedTotal b") (simp_all add: finalize_transaction_def)
  have month: "lb_billMonth b = fi_billMonth input"
    using assms b bl by (simp add: finalize_transaction_def split: if_splits)
  show thesis
  proof (cases "list_ex item_active (items_of (fi_batchId input) db)")
    case True
    then show thesis using in_flight assms b bl month by (auto simp: finalize_transaction_def Let_def rbind_Inr_iff)
  next
    case False
    then have settled: "\<forall>i \<in> set (ld_items db). li_batchId i = fi_batchId input \<longrightarrow> \<not> item_active i"
      by (auto simp: items_of_def list_ex_iff)
    obtain completedAt where ca: "latest_completion (items_of (fi_batchId input) db) = Some completedAt"
      using assms b bl month False
      by (cases "latest_completion (items_of (fi_batchId input) db)") (simp_all add: finalize_transaction_def Let_def)
    let ?c = "count_state (fi_batchId input) Item_corrected (ld_items db)"
    let ?f = "count_state (fi_batchId input) Item_failed (ld_items db)"
    have acc: "?c + ?f = lb_acceptedCount b"
      using assms b bl month False ca by (simp add: finalize_transaction_def Let_def split: if_splits)
    from assms b bl month False ca acc obtain totals paid variance db1 where
      t: "lateRecordingCorrectionTotals baseline (fi_revisedVerifiedTotal input) (int ?c) = Inr totals"
      and rec: "record_correction \<lparr> mx_id = cid, mx_batchId = fi_batchId input, mx_billMonth = fi_billMonth input,
          mx_currency = ''INR'', mx_previousVerifiedTotal = ct_previousVerifiedTotal totals,
          mx_revisedVerifiedTotal = ct_revisedVerifiedTotal totals, mx_deltaAmount = ct_deltaAmount totals,
          mx_actualPaidAmount = paid, mx_revisedVariance = variance, mx_correctedCount = ?c, mx_failedCount = ?f,
          mx_completedAt = completedAt \<rparr> db = Inr (db1, fr_outcome r)"
      and db': "db' = update_batch (fi_batchId input) (close_batch ?c ?f completedAt) db1"
      and delta: "fr_deltaAmount r = Some (ct_deltaAmount totals)"
      by (auto simp: finalize_transaction_def Let_def rbind_Inr_iff)
    obtain x y where xy: "toScaled (Some baseline) = Some x" "toScaled (Some (fi_revisedVerifiedTotal input)) = Some y"
      "ct_previousVerifiedTotal totals = formatScaledMoney x" "ct_revisedVerifiedTotal totals = formatScaledMoney y"
      "ct_deltaAmount totals = formatScaledMoney (y - x)"
      by (rule totals_Inr[OF t])
    show thesis
      by (rule closed[OF b month bl xy(1) settled ca _ _ _ _ _ _ _ _ _ rec]) (simp_all add: xy acc db' delta)
  qed
qed

lemma record_correction_cases:
  assumes "record_correction payload db = Inr (db1, outcome)"
  obtains (replayed) existing where "db1 = db" "find_correction (mx_batchId payload) db = Some existing"
      "mx_completedAt existing = mx_completedAt payload" "outcome = Correction_replayed"
  | (recorded) "db1 = db\<lparr> ld_corrections := ld_corrections db @ [payload] \<rparr>" "find_correction (mx_batchId payload) db = None"
      "outcome = Correction_recorded"
proof (cases "find_correction (mx_batchId payload) db")
  case None
  then show thesis using recorded assms by (auto simp: record_correction_def split: if_splits)
next
  case (Some existing)
  then have "db1 = db" "outcome = Correction_replayed" "correctionMatches existing payload = Inr True"
    using assms by (auto simp: record_correction_def rbind_Inr_iff split: if_splits)
  moreover from this(3) have "mx_completedAt existing = mx_completedAt payload"
    by (auto simp: correctionMatches_def rbind_Inr_iff split: if_splits)
  ultimately show thesis using replayed Some by blast
qed

lemma find_correction_None: "find_correction i db = None \<longleftrightarrow> i \<notin> mx_batchId ` set (ld_corrections db)"
  by (auto simp: find_correction_def find_None_iff)

lemma batches_ok_close:
  assumes ok: "batches_ok batches items corrections" and b: "b \<in> set batches"
    and new: "mx_batchId payload = lb_id b" "lb_id b \<notin> mx_batchId ` set corrections"
    and f: "batch_ident (f b) = batch_ident b" "lb_baselineVerifiedTotal (f b) = lb_baselineVerifiedTotal b"
    and ex: "explains items (f b) payload"
  shows "batches_ok (map (\<lambda>x. if lb_id x = lb_id b then f x else x) batches) items (corrections @ [payload])"
    and "batches_keep batches (map (\<lambda>x. if lb_id x = lb_id b then f x else x) batches)"
proof -
  let ?g = "\<lambda>x. if lb_id x = lb_id b then f x else x"
  have uniq: "x = b" if "x \<in> set batches" "lb_id x = lb_id b" for x
    using ok b that by (auto simp: batches_ok_def distinct_map inj_on_def)
  have gid: "lb_id (?g x) = lb_id x" "lb_acceptedCount (?g x) = lb_acceptedCount x" "batch_key (?g x) = batch_key x"
    if "x \<in> set batches" for x
    using uniq[OF that] f(1) by (auto simp: batch_ident_def batch_key_def)
  have gids: "map lb_id (map ?g batches) = map lb_id batches" using gid(1) by simp
  have gkeys: "map batch_key (map ?g batches) = map batch_key batches" using gid(3) by simp
  have ids: "lb_id ` set (map ?g batches) = lb_id ` set batches" using gids by (metis set_map)
  have gb: "?g b \<in> set (map ?g batches)" unfolding set_map using b by (rule imageI)
  have old: "\<exists>x \<in> set (map ?g batches). lb_id x = mx_batchId c \<and> explains items x c" if c: "c \<in> set corrections" for c
  proof -
    obtain x where x: "x \<in> set batches" "lb_id x = mx_batchId c" "explains items x c"
      using ok c unfolding batches_ok_def by blast
    have "lb_id x \<noteq> lb_id b" using x(2) c new(2) by (metis image_eqI)
    then have "?g x = x" by simp
    then have "x \<in> set (map ?g batches)" unfolding set_map using x(1) by (rule image_eqI[OF sym])
    then show ?thesis using x by blast
  qed
  have "batch_closed x \<longrightarrow> lb_id x \<in> mx_batchId ` set (corrections @ [payload])" if x': "x \<in> set (map ?g batches)" for x
  proof
    assume cl: "batch_closed x"
    obtain y where y: "y \<in> set batches" "x = ?g y" using x' by auto
    show "lb_id x \<in> mx_batchId ` set (corrections @ [payload])"
    proof (cases "lb_id y = lb_id b")
      case True
      then show ?thesis using gid(1)[OF y(1)] y(2) new(1) by simp
    next
      case False
      then have "x = y" using y(2) by simp
      then have "lb_id x \<in> mx_batchId ` set corrections" using ok y(1) cl unfolding batches_ok_def by blast
      then show ?thesis by auto
    qed
  qed
  moreover have fresh: "\<exists>x \<in> set (map ?g batches). lb_id x = mx_batchId payload \<and> explains items x payload"
    using gb gid(1)[OF b] ex new(1) by (intro bexI[of _ "?g b"]) simp_all
  moreover have "\<forall>x \<in> set (map ?g batches). length (filter (\<lambda>i. li_batchId i = lb_id x) items) = lb_acceptedCount x"
  proof
    fix x assume "x \<in> set (map ?g batches)"
    then obtain y where y: "y \<in> set batches" "x = ?g y" by auto
    then show "length (filter (\<lambda>i. li_batchId i = lb_id x) items) = lb_acceptedCount x"
      using ok gid[OF y(1)] unfolding batches_ok_def y(2) by simp
  qed
  moreover have "distinct (map mx_batchId (corrections @ [payload]))"
    using ok new by (simp add: batches_ok_def)
  moreover have "\<forall>c \<in> set (corrections @ [payload]). \<exists>x \<in> set (map ?g batches). lb_id x = mx_batchId c \<and> explains items x c"
    using old fresh unfolding set_append by (simp only: ball_Un list.set ball_simps) blast
  ultimately show "batches_ok (map ?g batches) items (corrections @ [payload])"
    using ok unfolding batches_ok_def gids gkeys ids by blast
  show "batches_keep batches (map ?g batches)"
    unfolding batches_keep_def
  proof
    fix x assume x: "x \<in> set batches"
    have "batch_ident (?g x) = batch_ident x \<and> lb_baselineVerifiedTotal (?g x) = lb_baselineVerifiedTotal x \<and> (batch_closed x \<longrightarrow> ?g x = x)"
    proof (cases "lb_id x = lb_id b")
      case True
      then have "x = b" by (rule uniq[OF x])
      moreover have "\<not> batch_closed b" using ok b new(2) unfolding batches_ok_def by blast
      ultimately show ?thesis using f by simp
    qed simp
    then show "\<exists>b' \<in> set (map ?g batches). batch_ident b' = batch_ident x \<and>
      (lb_baselineVerifiedTotal x \<noteq> None \<longrightarrow> lb_baselineVerifiedTotal b' = lb_baselineVerifiedTotal x) \<and> (batch_closed x \<longrightarrow> b' = x)"
      using x by (intro bexI[of _ "?g x"]) auto
  qed
qed

lemma finalize_keeps:
  assumes ok: "late_ok rt db"
  shows "late_ok rt (fst (finalizeLateRecordingBatch cid input db)) \<and>
         late_grows db (fst (finalizeLateRecordingBatch cid input db))"
proof (cases "finalize_transaction cid input db")
  case (Inl e)
  then show ?thesis using ok by (simp add: finalizeLateRecordingBatch_def late_grows_refl)
next
  case (Inr x)
  obtain db' r where x: "x = (db', r)" by (cases x)
  have s: "fst (finalizeLateRecordingBatch cid input db) = db'" using Inr x by (simp add: finalizeLateRecordingBatch_def)
  from Inr x have "finalize_transaction cid input db = Inr (db', r)" by simp
  then have "late_ok rt db' \<and> late_grows db db'"
  proof (cases rule: finalize_cases)
    case in_flight
    then show ?thesis using ok by (simp add: late_grows_refl)
  next
    case (closed b baseline sx sy completedAt payload db1)
    note fb = find_batch_Some[OF ok closed(1)]
    let ?close = "close_batch (mx_correctedCount payload) (mx_failedCount payload) completedAt"
    from closed(16) show ?thesis
    proof (cases rule: record_correction_cases)
      case (replayed existing)
      have e: "existing \<in> set (ld_corrections db)" "mx_batchId existing = lb_id b"
        using replayed(2) closed(7) fb(2) by (auto simp: find_correction_def find_Some_iff)
      then obtain b' where b': "b' \<in> set (ld_batches db)" "lb_id b' = mx_batchId existing" "explains (ld_items db) b' existing"
        using late_okD(5)[OF ok] unfolding batches_ok_def by blast
      have "b' = b" using fb(3)[OF b'(1)] b'(2) e(2) fb(2) by simp
      then have "?close b = b"
        using b'(3) replayed(3) closed(9,10,12) fb(2) by (simp add: close_batch_def explains_def)
      then show ?thesis using update_batch_keeps[OF ok closed(1), where f="?close"] progress_refl(2) closed(17) replayed(1) by simp
    next
      case recorded
      have ex: "explains (ld_items db) (?close b) payload"
        using closed(2-15) fb(2) unfolding explains_def close_batch_def by auto
      have new: "lb_id b \<notin> mx_batchId ` set (ld_corrections db)" using recorded(2) closed(7) fb(2) by (simp add: find_correction_None)
      have pid: "mx_batchId payload = lb_id b" using closed(7) fb(2) by simp
      have ident: "batch_ident (?close b) = batch_ident b" "lb_baselineVerifiedTotal (?close b) = lb_baselineVerifiedTotal b"
        by (simp_all add: batch_ident_def close_batch_def)
      note k = batches_ok_close[where f="?close", OF late_okD(5)[OF ok] fb(1) pid new ident ex]
      have db': "db' = db\<lparr> ld_corrections := ld_corrections db @ [payload],
          ld_batches := map (\<lambda>x. if lb_id x = lb_id b then ?close x else x) (ld_batches db) \<rparr>"
        using closed(17) recorded(1) fb(2) by (simp add: update_batch_def)
      show ?thesis using ok k
        by (simp add: db' late_ok_def late_grows_def artifacts_keep_refl)
    qed
  qed
  then show ?thesis by (simp only: s)
qed

section \<open>Committing\<close>

lemma artifact_at_map:
  assumes "\<And>a. ca_id (f a) = ca_id a"
  shows "artifact_at (map f artifacts) i = map_option f (artifact_at artifacts i)"
  unfolding artifact_at_def by (induction artifacts) (simp_all add: assms)

lemma attach_keeps:
  assumes d: "distinct (map ca_id artifacts)"
  shows "artifacts_keep artifacts (attach row artifacts)"
proof -
  let ?f = "\<lambda>a. if attachable row a
              then a\<lparr> ca_sourceUrl := Some (aw_canonicalUrl row), ca_audioProcessingStatus := Some ''pending'',
                      ca_audioAttemptCount := Some 0, ca_audioLastAttemptAt := None, ca_audioNextAttemptAt := None,
                      ca_audioLastError := None \<rparr>
              else a"
  have at: "artifact_at (map ?f artifacts) i = map_option ?f (artifact_at artifacts i)" for i
    by (rule artifact_at_map) simp
  have ids: "map ca_id (map ?f artifacts) = map ca_id artifacts" by simp
  have "ca_callId (?f a) = ca_callId a" "ca_sourceUrl a = Some u \<Longrightarrow> ca_sourceUrl (?f a) = Some u" for a u
    by (simp_all add: attachable_def)
  with d show ?thesis unfolding artifacts_keep_def attach_def at ids by simp
qed

lemma artifact_at_member:
  "distinct (map ca_id artifacts) \<Longrightarrow> a \<in> set artifacts \<Longrightarrow> artifact_at artifacts (ca_id a) = Some a"
  unfolding artifact_at_def by (induction artifacts) auto

text \<open>The artifact of a row that was attached holds the row's address from then on.\<close>

definition holds_row :: "CallArtifact list \<Rightarrow> AcceptedRow \<Rightarrow> bool" where
  "holds_row artifacts row \<longleftrightarrow> (\<exists>a. artifact_at artifacts (aw_artifactId row) = Some a \<and> ca_callId a = aw_callId row \<and>
     ca_sourceUrl a = Some (aw_canonicalUrl row))"

lemma holds_row_keep: "artifacts_keep as as' \<Longrightarrow> holds_row as row \<Longrightarrow> holds_row as' row"
  unfolding artifacts_keep_def holds_row_def by (metis (no_types, lifting))

lemma attach_holds:
  assumes d: "distinct (map ca_id artifacts)" and one: "length (filter (attachable row) artifacts) = 1"
  shows "holds_row (attach row artifacts) row"
proof -
  let ?new = "\<lambda>a. a\<lparr> ca_sourceUrl := Some (aw_canonicalUrl row), ca_audioProcessingStatus := Some ''pending'',
                      ca_audioAttemptCount := Some 0, ca_audioLastAttemptAt := None, ca_audioNextAttemptAt := None,
                      ca_audioLastError := None \<rparr>"
  have "filter (attachable row) artifacts \<noteq> []" using one by auto
  then obtain a where a: "a \<in> set artifacts" "attachable row a" by (auto simp: filter_empty_conv)
  then have i: "ca_id a = aw_artifactId row" by (simp add: attachable_def)
  have "artifact_at (attach row artifacts) (ca_id a) = map_option (\<lambda>a. if attachable row a then ?new a else a) (artifact_at artifacts (ca_id a))"
    unfolding attach_def by (rule artifact_at_map) simp
  also have "\<dots> = Some (?new a)" using artifact_at_member[OF d a(1)] a(2) by simp
  finally have "artifact_at (attach row artifacts) (aw_artifactId row) = Some (?new a)" unfolding i .
  then show ?thesis using a(2) by (simp add: holds_row_def attachable_def final_recording_def)
qed

lemma attach_rows_keeps:
  assumes "distinct (map ca_id artifacts)" "attach_rows rows artifacts = (artifacts', attached, lost)"
  shows "artifacts_keep artifacts artifacts' \<and> (\<forall>row \<in> set attached. row \<in> set rows \<and> holds_row artifacts' row)"
  using assms
proof (induction rows arbitrary: artifacts artifacts' attached lost)
  case Nil
  then show ?case by (simp add: artifacts_keep_refl)
next
  case (Cons row rows)
  obtain as1 at1 lo1 where r: "attach_rows rows (attach row artifacts) = (as1, at1, lo1)"
    by (cases "attach_rows rows (attach row artifacts)")
  have k: "artifacts_keep artifacts (attach row artifacts)" by (rule attach_keeps[OF Cons.prems(1)])
  then have "distinct (map ca_id (attach row artifacts))" by (simp add: artifacts_keep_def)
  note ih = Cons.IH[OF this r]
  have a': "artifacts' = as1" using Cons.prems(2) r by (simp add: Let_def split: if_splits)
  have att: "set attached \<subseteq> insert row (set at1)"
    using Cons.prems(2) r by (auto simp: Let_def split: if_splits)
  have hold: "holds_row artifacts' x" if "x \<in> set attached" for x
  proof (cases "x \<in> set at1")
    case True
    then show ?thesis using ih a' by blast
  next
    case False
    then have "x = row" "length (filter (attachable row) artifacts) = 1"
      using that Cons.prems(2) r by (auto simp: Let_def split: if_splits)
    then show ?thesis using holds_row_keep[of "attach row artifacts" as1] ih a' attach_holds[OF Cons.prems(1)] by blast
  qed
  show ?case using artifacts_keep_trans[OF k] ih a' att hold by auto
qed

lemma insert_item_ok:
  assumes "insert_item row items = Inr items'" "items_ok items" "item_shape row"
  shows "items' = items @ [row]" "items_ok items'"
proof -
  show items': "items' = items @ [row]" using assms(1) by (simp add: insert_item_def split: if_splits)
  have "\<not> list_ex (\<lambda>i. li_id i = li_id row \<or> (li_batchId i = li_batchId row \<and> li_callId i = li_callId row) \<or>
                      (item_active i \<and> item_active row \<and> li_callId i = li_callId row)) items"
    using assms(1) by (simp add: insert_item_def split: if_splits)
  then have "li_id row \<notin> set (map li_id items)"
    and "item_active row \<Longrightarrow> li_callId row \<notin> set (map li_callId (filter item_active items))"
    by (auto simp: list_ex_iff)
  then show "items_ok items'" using assms(2,3) unfolding items_ok_def items' by auto
qed

lemma insert_items_ok:
  assumes "insert_items ids input k rows items = Inr items'" "items_ok items"
  shows "items_ok items' \<and> (\<exists>new. items' = items @ new \<and> length new = length rows \<and>
           (\<forall>i \<in> set new. \<exists>n. \<exists>row \<in> set rows. i = item_row ids input n row))"
  using assms
proof (induction rows arbitrary: k items)
  case Nil
  then show ?case by simp
next
  case (Cons row rows)
  obtain items1 where i1: "insert_item (item_row ids input k row) items = Inr items1" "insert_items ids input (Suc k) rows items1 = Inr items'"
    using Cons.prems(1) by (auto simp: rbind_Inr_iff)
  have "item_shape (item_row ids input k row)" by (simp add: item_shape_def item_row_def)
  note ii = insert_item_ok[OF i1(1) Cons.prems(2) this]
  from Cons.IH[OF i1(2) ii(2)] obtain new where new: "items_ok items'" "items' = items1 @ new" "length new = length rows"
    "\<forall>i \<in> set new. \<exists>n. \<exists>row \<in> set rows. i = item_row ids input n row" by blast
  show ?case
  proof (intro conjI exI[of _ "item_row ids input k row # new"])
    show "\<forall>i \<in> set (item_row ids input k row # new). \<exists>n. \<exists>r \<in> set (row # rows). i = item_row ids input n r"
      using new(4) by (metis list.set_intros set_ConsD)
  qed (use new ii in simp_all)
qed

lemma explains_append:
  assumes "explains items b c" "\<And>i. i \<in> set new \<Longrightarrow> li_batchId i \<noteq> lb_id b"
  shows "explains (items @ new) b c"
proof -
  have "filter (\<lambda>i. li_batchId i = lb_id b \<and> li_state i = s) new = []" for s
    using assms(2) by (auto simp: filter_empty_conv)
  then have "count_state (lb_id b) s (items @ new) = count_state (lb_id b) s items" for s by (simp add: count_state_def)
  then show ?thesis using assms unfolding explains_def by auto
qed

lemma batches_ok_append:
  assumes ok: "batches_ok batches items corrections"
    and fresh: "lb_id b \<notin> lb_id ` set batches" "batch_key b \<notin> batch_key ` set batches" and open_batch: "\<not> batch_closed b"
    and new: "\<And>i. i \<in> set new \<Longrightarrow> li_batchId i = lb_id b" "length new = lb_acceptedCount b"
  shows "batches_ok (batches @ [b]) (items @ new) corrections"
proof -
  have old: "lb_id b' \<noteq> lb_id b" if "b' \<in> set batches" for b' using fresh(1) that by (metis imageI)
  have none: "filter (\<lambda>i. li_batchId i = lb_id b') new = []" if "b' \<in> set batches" for b'
    using new(1) old[OF that] by (auto simp: filter_empty_conv)
  have "filter (\<lambda>i. li_batchId i = lb_id b) items = []"
    using ok fresh(1) unfolding batches_ok_def filter_empty_conv by metis
  moreover have "filter (\<lambda>i. li_batchId i = lb_id b) new = new" using new(1) by simp
  ultimately have cnt: "\<forall>b' \<in> set (batches @ [b]). length (filter (\<lambda>i. li_batchId i = lb_id b') (items @ new)) = lb_acceptedCount b'"
    using ok none new(2) unfolding batches_ok_def by simp
  have ex: "\<exists>b' \<in> set (batches @ [b]). lb_id b' = mx_batchId c \<and> explains (items @ new) b' c" if "c \<in> set corrections" for c
  proof -
    obtain b' where b': "b' \<in> set batches" "lb_id b' = mx_batchId c" "explains items b' c"
      using ok \<open>c \<in> set corrections\<close> unfolding batches_ok_def by blast
    have "li_batchId i \<noteq> lb_id b'" if "i \<in> set new" for i using new(1)[OF that] old[OF b'(1)] by simp
    then have "explains (items @ new) b' c" by (rule explains_append[OF b'(3)])
    then show ?thesis using b' by auto
  qed
  have parents: "\<forall>i \<in> set (items @ new). li_batchId i \<in> lb_id ` set (batches @ [b])"
    using ok new(1) unfolding batches_ok_def by auto
  have closed: "\<forall>b' \<in> set (batches @ [b]). batch_closed b' \<longrightarrow> lb_id b' \<in> mx_batchId ` set corrections"
    using ok open_batch unfolding batches_ok_def by auto
  have "distinct (map lb_id (batches @ [b]))" "distinct (map batch_key (batches @ [b]))" "distinct (map mx_batchId corrections)"
    using ok fresh unfolding batches_ok_def by simp_all
  with cnt ex parents closed show ?thesis unfolding batches_ok_def by blast
qed

lemma resolved_digest:
  assumes "resolveBatch rt period rows carried db = Inr resolved" "row \<in> set (rb_accepted resolved)"
  shows "aw_canonicalUrlSha256 row = canonicalUrlSha256 rt (aw_canonicalUrl row)"
  using assms by (auto simp: resolveBatch_def Let_def rbind_Inr_iff accepted_row_def split: if_splits)

lemma late_grows_append:
  assumes "artifacts_keep (ld_artifacts db) artifacts"
  shows "late_grows db (db\<lparr> ld_artifacts := artifacts, ld_batches := ld_batches db @ bs, ld_items := ld_items db @ is \<rparr>)"
  using assms unfolding late_grows_def items_keep_def batches_keep_def by auto

lemma commit_cases:
  assumes "commit_transaction rt ids input resolved db = Inr (db', receipt)"
  obtains (same) "db' = db" "cx_outcome receipt \<noteq> Commit_accepted"
  | (unattached) artifacts lost where "attach_rows (rb_accepted resolved) (ld_artifacts db) = (artifacts, [], lost)"
      "db' = db\<lparr> ld_artifacts := artifacts \<rparr>" "cx_outcome receipt \<noteq> Commit_accepted"
  | (accepted) artifacts attached lost b items card settled where
      "attach_rows (rb_accepted resolved) (ld_artifacts db) = (artifacts, attached, lost)"
      "b = batch_row rt ids input card settled (length attached)"
      "lb_id b \<notin> lb_id ` set (ld_batches db)" "batch_key b \<notin> batch_key ` set (ld_batches db)"
      "insert_items ids input 0 attached (ld_items db) = Inr items"
      "db' = db\<lparr> ld_artifacts := artifacts, ld_batches := ld_batches db @ [b], ld_items := items \<rparr>"
      "receipt = commit_receipt input settled (Some (id_batch ids)) Commit_accepted (Some Batch_accepted)"
proof (cases "find (\<lambda>b. same_key (lb_idempotencyKey b) (ci_idempotencyKey input)) (ld_batches db)")
  case (Some replay)
  then show thesis using same assms by (auto simp: commit_transaction_def Let_def commit_receipt_def split: if_splits)
next
  case None
  show thesis
  proof (cases "rb_accepted resolved = []")
    case True
    then show thesis using same assms None by (auto simp: commit_transaction_def Let_def commit_receipt_def)
  next
    case False
    obtain card where rc: "rb_rateCardVersionId resolved = Some card"
      using assms None False by (cases "rb_rateCardVersionId resolved") (simp_all add: commit_transaction_def Let_def)
    obtain artifacts attached lost where at: "attach_rows (rb_accepted resolved) (ld_artifacts db) = (artifacts, attached, lost)"
      by (cases "attach_rows (rb_accepted resolved) (ld_artifacts db)")
    show thesis
    proof (cases "attached = []")
      case True
      then have "db' = db\<lparr> ld_artifacts := artifacts \<rparr>" "cx_outcome receipt \<noteq> Commit_accepted"
        using at assms None False rc by (auto simp: commit_transaction_def Let_def commit_receipt_def)
      with True at unattached show thesis by blast
    next
      case nonempty: False
      define settled where "settled = summarizeLateRecordingDecisions
         (settled_decisions (lp_decisions (rb_preview resolved)) lost) (lp_submittedCount (rb_preview resolved))"
      define b where "b = batch_row rt ids input card settled (length attached)"
      from assms None False rc at nonempty obtain batches items where
        ins: "insert_batch b (ld_batches db) = Inr batches" "insert_items ids input 0 attached (ld_items db) = Inr items"
        and db': "db' = db\<lparr> ld_artifacts := artifacts, ld_batches := batches, ld_items := items \<rparr>"
        and r: "receipt = commit_receipt input settled (Some (id_batch ids)) Commit_accepted (Some Batch_accepted)"
        by (auto simp: commit_transaction_def Let_def rbind_Inr_iff b_def settled_def)
      have "batches = ld_batches db @ [b]" "lb_id b \<notin> lb_id ` set (ld_batches db)" "batch_key b \<notin> batch_key ` set (ld_batches db)"
        using ins(1) by (auto simp: insert_batch_def list_ex_iff same_key_def batch_key_def split: if_splits)
      then show thesis using accepted[OF at b_def] ins(2) db' r by blast
    qed
  qed
qed

lemma commit_transaction_keeps:
  assumes ok: "late_ok rt db" and res: "resolveBatch rt period rows carried read = Inr resolved"
    and c: "commit_transaction rt ids input resolved db = Inr (db', receipt)"
  shows "late_ok rt db' \<and> late_grows db db'"
  using c
proof (cases rule: commit_cases)
  case same
  then show ?thesis using ok by (simp add: late_grows_refl)
next
  case (unattached artifacts lost)
  note k = attach_rows_keeps[OF late_okD(1)[OF ok] unattached(1)]
  have "late_grows db (db\<lparr> ld_artifacts := artifacts \<rparr>)" using late_grows_append[of db artifacts "[]" "[]"] k by simp
  moreover have "distinct (map ca_id artifacts)" using k unfolding artifacts_keep_def by blast
  ultimately show ?thesis using ok k evidenced_keep unfolding late_ok_def unattached(2) by auto
next
  case (accepted artifacts attached lost b items card settled)
  note k = attach_rows_keeps[OF late_okD(1)[OF ok] accepted(1)]
  obtain new where new: "items_ok items" "items = ld_items db @ new" "length new = length attached"
    "\<forall>i \<in> set new. \<exists>n. \<exists>row \<in> set attached. i = item_row ids input n row"
    using insert_items_ok[OF accepted(5) late_okD(2)[OF ok]] by blast
  have "batches_ok (ld_batches db @ [b]) (ld_items db @ new) (ld_corrections db)"
  proof (rule batches_ok_append[OF late_okD(5)[OF ok] accepted(3,4)])
    show "\<not> batch_closed b" using accepted(2) by (simp add: batch_closed_def batch_row_def)
    show "li_batchId i = lb_id b" if "i \<in> set new" for i using new(4) that accepted(2) by (auto simp: item_row_def batch_row_def)
    show "length new = lb_acceptedCount b" using new(3) accepted(2) by (simp add: batch_row_def)
  qed
  moreover have "evidenced rt artifacts i" if "i \<in> set (ld_items db)" for i
    using evidenced_keep[of "ld_artifacts db"] k late_okD(4)[OF ok that] by blast
  moreover have "evidenced rt artifacts i" if i: "i \<in> set new" for i
  proof -
    from i new(4) obtain n row where row: "row \<in> set attached" "i = item_row ids input n row" by blast
    have "holds_row artifacts row" "row \<in> set (rb_accepted resolved)" using k row(1) by blast+
    then show ?thesis using resolved_digest[OF res] row(2) by (auto simp: evidenced_def holds_row_def item_row_def)
  qed
  moreover have "distinct (map ca_id artifacts)" using k unfolding artifacts_keep_def by blast
  ultimately have "late_ok rt db'" using new(1) unfolding late_ok_def accepted(6) new(2) by auto
  moreover have "late_grows db db'" unfolding accepted(6) new(2) by (rule late_grows_append) (use k in blast)
  ultimately show ?thesis by blast
qed

lemma commit_keeps:
  assumes ok: "late_ok rt db"
  shows "late_ok rt (fst (commitLateRecordingBatch rt ids held input read db)) \<and>
         late_grows db (fst (commitLateRecordingBatch rt ids held input read db))"
proof (cases "held \<and> (\<exists>x. rbind (resolveBatch rt (ci_period input) (ci_rows input) (ci_carriedRejections input) read) (\<lambda>resolved.
                  commit_transaction rt ids input resolved db) = Inr x)")
  case True
  then obtain resolved db' receipt where r: "resolveBatch rt (ci_period input) (ci_rows input) (ci_carriedRejections input) read = Inr resolved"
    "commit_transaction rt ids input resolved db = Inr (db', receipt)" by (auto simp: rbind_Inr_iff)
  then have "fst (commitLateRecordingBatch rt ids held input read db) = db'"
    using True by (simp add: commitLateRecordingBatch_def)
  then show ?thesis using commit_transaction_keeps[OF ok r] by simp
next
  case False
  then have "fst (commitLateRecordingBatch rt ids held input read db) = db"
    by (auto simp: commitLateRecordingBatch_def split: sum.splits)
  then show ?thesis using ok by (simp add: late_grows_refl)
qed

end
