(* ===== verification/LateCorrection.thy ===== *)
theory LateCorrection
  imports LateRecordingBatch
begin

text \<open>
  Pricing one late-recording item from durable audit state (\<open>src/src/lateRecording/correctItem.ts\<close>, with the
  facts it reads from \<open>src/src/adapters/mysqlLateRecordingCorrections.ts\<close>): the consensus first, then the
  audited projection, then the vendor's claim. The money goes to the billing ledger, the outcome to the item.
\<close>

section \<open>Correcting an item\<close>

text \<open>
  The audit and cost columns of the correction read (\<open>listLateRecordingCorrectionFacts\<close>), joined from tables of
  the audit pipeline and the usage import; the rest of the row comes from the item, its batch and the ledger.
\<close>

record audit_columns =
  ac_audioProcessingStatus :: "string option"
  ac_audioAttemptCount :: "nat option"
  ac_audioLastError :: "string option"
  ac_auditRunId :: "string option"
  ac_category :: "string option"
  ac_recordedDurationMs :: "int option"
  ac_speechMs :: "int option"
  ac_serviceEndMs :: "int option"
  ac_graceMs :: "int option"
  ac_vendorBilledMinutes :: "string option"
  ac_vendorBilledAmount :: "string option"
  ac_claimedDurationMs :: "int option"
  ac_connectedDurationMs :: "int option"
  ac_evidenceObjectId :: "string option"
  ac_evidenceSha256 :: "string option"

record LateRecordingCorrectionFacts =
  lf_itemId :: string
  lf_callId :: string
  lf_taskReference :: string
  lf_state :: LateRecordingItemState
  lf_auditCompleted :: bool
  lf_auditExhausted :: bool
  lf_auditRunId :: "string option"
  lf_category :: "string option"
  lf_recordedDurationMs :: "int option"
  lf_speechDurationMs :: "int option"
  lf_serviceEndMs :: "int option"
  lf_graceMs :: "int option"
  lf_vendorBilledMinutes :: "string option"
  lf_vendorBilledAmount :: "string option"
  lf_claimedDurationMs :: "int option"
  lf_connectedDurationMs :: "int option"
  lf_evidenceObjectId :: "string option"
  lf_evidenceSha256 :: "string option"
  lf_baselineCalculationId :: "string option"
  lf_baselineTotalAmount :: "string option"
  lf_persistedRevisedAmount :: "string option"

text \<open>A revised calculation written before an interrupted settle: live, of the bound rate card, superseding the baseline.\<close>

definition persisted_revision :: "BatchRow \<Rightarrow> ItemRow \<Rightarrow> CalculationRow option \<Rightarrow> string option res" where
  "persisted_revision batch item current =
     (case current of
        None \<Rightarrow> Inr None
      | Some c \<Rightarrow>
          if Some (cl_id c) \<noteq> li_supersededCalculationId item \<and>
             bc_rateCardVersionId (cl_row c) = lb_rateCardVersionId batch \<and>
             cl_supersedes c = li_supersededCalculationId item
          then rbind (late_fixed8 (bc_totalAmount (cl_row c))) (\<lambda>a. Inr (Some a))
          else Inr None)"

definition correction_facts :: "late_db \<Rightarrow> BatchRow \<Rightarrow> audit_columns \<Rightarrow> ItemRow \<Rightarrow> LateRecordingCorrectionFacts res" where
  "correction_facts db batch row item =
     (let current = live_calculation (li_callId item) (db_calculations (ld_ledger db)) in
      rbind (fixed8_opt (li_previousAmount item)) (\<lambda>baseline.
      rbind (persisted_revision batch item current) (\<lambda>persisted.
      Inr \<lparr> lf_itemId = li_id item, lf_callId = li_callId item, lf_taskReference = li_taskReference item,
            lf_state = li_state item,
            lf_auditCompleted = (ac_recordedDurationMs row \<noteq> None \<and> ac_category row \<noteq> None),
            lf_auditExhausted = (ac_audioProcessingStatus row = Some ''exhausted'' \<and>
              \<not> (coalesce (ac_audioLastError row) [] \<in> set RECLAIMABLE_EXHAUSTED_ERRORS \<and>
                 coalesce (ac_audioAttemptCount row) 0 < MAX_AUDIO_ATTEMPTS)),
            lf_auditRunId = ac_auditRunId row, lf_category = ac_category row,
            lf_recordedDurationMs = nullableMs (ac_recordedDurationMs row), lf_speechDurationMs = nullableMs (ac_speechMs row),
            lf_serviceEndMs = nullableMs (ac_serviceEndMs row), lf_graceMs = nullableMs (ac_graceMs row),
            lf_vendorBilledMinutes = ac_vendorBilledMinutes row, lf_vendorBilledAmount = ac_vendorBilledAmount row,
            lf_claimedDurationMs = nullableMs (ac_claimedDurationMs row),
            lf_connectedDurationMs = nullableMs (ac_connectedDurationMs row),
            lf_evidenceObjectId = ac_evidenceObjectId row, lf_evidenceSha256 = ac_evidenceSha256 row,
            lf_baselineCalculationId = li_supersededCalculationId item, lf_baselineTotalAmount = baseline,
            lf_persistedRevisedAmount = persisted \<rparr>)))"

definition listLateRecordingCorrectionFacts ::
  "(ItemRow \<Rightarrow> audit_columns) \<Rightarrow> string \<Rightarrow> late_db \<Rightarrow> LateRecordingCorrectionFacts list res" where
  "listLateRecordingCorrectionFacts audit batchId db =
     (case find_batch batchId db of
        None \<Rightarrow> Inr []
      | Some batch \<Rightarrow>
          (case mapM_res (\<lambda>item. correction_facts db batch (audit item) item)
                  (take MAX_LATE_RECORDING_ROWS (sort_key (\<lambda>i. (li_rowNumber i, li_id i))
                    (filter (\<lambda>i. li_state i = Item_auditing) (items_of batchId db)))) of
             Inl e \<Rightarrow> Inl (asSafeLateRecordingError e)
           | Inr fs \<Rightarrow> Inr fs))"

record correct_options =
  co_batchId :: string
  co_rateCard :: PublishedRateCard
  co_decidedAt :: string
  co_correlationId :: string
  co_now :: int
  co_ids :: fresh_ids

text \<open>
  The consensus on one call (\<open>validateCorrectedCall\<close>): the candidate read is a parameter, and of its writes the
  billing decision goes to the ledger.
\<close>

fun apply_billing_write ::
  "runtime \<Rightarrow> correct_options \<Rightarrow> validation_write \<Rightarrow> billing_db \<Rightarrow> billing_db \<times> unit res" where
  "apply_billing_write rt opts (PersistBilling input result) ledger =
     (case persistVerifiedBillingDecision rt (co_ids opts) (co_now opts) input (co_rateCard opts) result
             (Some (co_correlationId opts)) ledger of
        (ledger', Inl e) \<Rightarrow> (ledger', Inl e)
      | (ledger', Inr _) \<Rightarrow> (ledger', Inr ()))"
| "apply_billing_write rt opts _ ledger = (ledger, Inr ())"

fun apply_billing_writes ::
  "runtime \<Rightarrow> correct_options \<Rightarrow> validation_write list \<Rightarrow> billing_db \<Rightarrow> billing_db \<times> unit res" where
  "apply_billing_writes rt opts [] ledger = (ledger, Inr ())"
| "apply_billing_writes rt opts (w # ws) ledger =
     (case apply_billing_write rt opts w ledger of
        (ledger', Inl e) \<Rightarrow> (ledger', Inl e)
      | (ledger', Inr _) \<Rightarrow> apply_billing_writes rt opts ws ledger')"

record validation_ports =
  vp_cues :: cue_tests
  vp_classifierSha :: string
  vp_candidate :: "string \<Rightarrow> AutomatedValidationCandidate option"
  vp_reviewer :: classifier_port
  vp_adjudicator :: classifier_port

definition validateCorrectedCall ::
  "runtime \<Rightarrow> validation_ports \<Rightarrow> correct_options \<Rightarrow> string \<Rightarrow> late_db \<Rightarrow>
   late_db \<times> (bool \<times> string option) option res" where
  "validateCorrectedCall rt ports opts callId db =
     (case vp_candidate ports callId of
        None \<Rightarrow> (db, Inr None)
      | Some candidate \<Rightarrow>
          let (ws, out) = runAutomatedValidation rt (vp_cues ports) (vp_classifierSha ports) candidate
                            (vp_reviewer ports) (Some (vp_adjudicator ports)) (co_rateCard opts) (co_decidedAt opts) False;
              (ledger, written) = apply_billing_writes rt opts ws (ld_ledger db);
              db' = db\<lparr> ld_ledger := ledger \<rparr>
          in case written of
               Inl e \<Rightarrow> (db', Inl e)
             | Inr _ \<Rightarrow> (db', rbind out (\<lambda>o'. Inr (Some (vo_billingFinal o', vo_amount o')))))"

datatype correct_result = Item_was_corrected | Item_was_failed | Item_in_flight

definition corrected_input :: "correct_options \<Rightarrow> LateRecordingCorrectionFacts \<Rightarrow> string \<Rightarrow> settle_input" where
  "corrected_input opts facts revised =
     \<lparr> se_batchId = co_batchId opts, se_itemId = lf_itemId facts, se_corrected = True, se_errorCode = Missing,
       se_previousAmount = Some (coalesce (lf_baselineTotalAmount facts) ''0''), se_revisedAmount = Some revised,
       se_supersededCalculationId = lf_baselineCalculationId facts, se_at = co_now opts \<rparr>"

definition failed_input :: "correct_options \<Rightarrow> LateRecordingCorrectionFacts \<Rightarrow> string \<Rightarrow> settle_input" where
  "failed_input opts facts errorCode =
     \<lparr> se_batchId = co_batchId opts, se_itemId = lf_itemId facts, se_corrected = False, se_errorCode = Text_in errorCode,
       se_previousAmount = None, se_revisedAmount = None, se_supersededCalculationId = None, se_at = co_now opts \<rparr>"

definition settle_as :: "correct_result \<Rightarrow> settle_input \<Rightarrow> late_db \<Rightarrow> late_db \<times> correct_result res" where
  "settle_as r input db =
     (case settleLateRecordingItem input db of (db', Inl e) \<Rightarrow> (db', Inl e) | (db', Inr _) \<Rightarrow> (db', Inr r))"

definition late_projection_input :: "correct_options \<Rightarrow> LateRecordingCorrectionFacts \<Rightarrow> EvidenceHashReference \<Rightarrow> AuditedProjectionInput" where
  "late_projection_input opts facts sourceEvidence =
     \<lparr> ap_callId = lf_callId facts, ap_auditRunId = lf_auditRunId facts, ap_category = lf_category facts,
       ap_recordedDurationMs = lf_recordedDurationMs facts, ap_speechDurationMs = lf_speechDurationMs facts,
       ap_serviceEndMs = lf_serviceEndMs facts, ap_graceMs = lf_graceMs facts,
       ap_claimedDurationMs = lf_claimedDurationMs facts, ap_connectedDurationMs = lf_connectedDurationMs facts,
       ap_vendorBilledAmount = lf_vendorBilledAmount facts, ap_sourceEvidence = sourceEvidence,
       ap_decidedAt = co_decidedAt opts \<rparr>"

definition late_fallback_input ::
  "correct_options \<Rightarrow> LateRecordingCorrectionFacts \<Rightarrow> LateRecordingOutcome \<Rightarrow> EvidenceHashReference \<Rightarrow> string \<Rightarrow> AcceptedAsBilledInput" where
  "late_fallback_input opts facts outcome sourceEvidence minutes =
     \<lparr> ab_callId = lf_callId facts, ab_auditRunId = lf_auditRunId facts,
       ab_fallbackReason = Some (if outcome = Accepted_as_billed_unverified then Audit_exhausted else Audited_duration_unavailable),
       ab_claimedDurationMs = lf_claimedDurationMs facts, ab_connectedDurationMs = lf_connectedDurationMs facts,
       ab_vendorBilledMinutes = minutes, ab_vendorBilledAmount = lf_vendorBilledAmount facts,
       ab_sourceEvidence = sourceEvidence, ab_decidedAt = co_decidedAt opts \<rparr>"

text \<open>The rows that price the item: the audited projection, else the vendor's claim, else none.\<close>

definition late_settlement ::
  "runtime \<Rightarrow> correct_options \<Rightarrow> LateRecordingCorrectionFacts \<Rightarrow> LateRecordingOutcome \<Rightarrow> EvidenceHashReference \<Rightarrow>
   VerifiedBillingRecords option res" where
  "late_settlement rt opts facts outcome sourceEvidence =
     rbind (if outcome = Audited_projection
            then buildAuditedProjectionRecords rt (late_projection_input opts facts sourceEvidence) (co_rateCard opts)
            else Inr None) (\<lambda>records.
     case records of
       Some r \<Rightarrow> Inr (Some r)
     | None \<Rightarrow>
         (case lf_vendorBilledMinutes facts of
            None \<Rightarrow> Inr None
          | Some minutes \<Rightarrow>
              rbind (buildAcceptedAsBilledRecords rt (late_fallback_input opts facts outcome sourceEvidence minutes)
                       (co_rateCard opts)) (\<lambda>r. Inr (Some r))))"

definition price_item ::
  "runtime \<Rightarrow> correct_options \<Rightarrow> LateRecordingCorrectionFacts \<Rightarrow> LateRecordingOutcome \<Rightarrow> late_db \<Rightarrow>
   late_db \<times> correct_result res" where
  "price_item rt opts facts outcome db =
     (if \<not> truthy_text (lf_evidenceObjectId facts) \<or> \<not> truthy_text (lf_evidenceSha256 facts)
      then settle_as Item_was_failed (failed_input opts facts ''LATE_RECORDING_EVIDENCE_MANIFEST_MISSING'') db
      else
        case late_settlement rt opts facts outcome
               \<lparr> ev_kind = Call_manifest, ev_sha256 = coalesce (lf_evidenceSha256 facts) [],
                 ev_referenceId = coalesce (lf_evidenceObjectId facts) [] \<rparr> of
          Inl e \<Rightarrow> (db, Inl e)
        | Inr settlement \<Rightarrow>
            (case Option.bind settlement (\<lambda>s. map_option (Pair s) (vr_calculation s)) of
               None \<Rightarrow> settle_as Item_was_failed (failed_input opts facts ''LATE_RECORDING_VENDOR_QUANTITY_MISSING'') db
             | Some (records, calculation) \<Rightarrow>
                 (case persistVerifiedBillingRecords rt (co_ids opts) (co_now opts) False records (co_rateCard opts)
                         (Some (co_correlationId opts)) (ld_ledger db) of
                    (ledger, Inl e) \<Rightarrow> (db\<lparr> ld_ledger := ledger \<rparr>, Inl e)
                  | (ledger, Inr _) \<Rightarrow>
                      settle_as Item_was_corrected (corrected_input opts facts (bc_totalAmount calculation))
                        (db\<lparr> ld_ledger := ledger \<rparr>))))"

definition correctLateRecordingItem ::
  "runtime \<Rightarrow> validation_ports \<Rightarrow> correct_options \<Rightarrow> LateRecordingCorrectionFacts \<Rightarrow> late_db \<Rightarrow>
   late_db \<times> correct_result res" where
  "correctLateRecordingItem rt ports opts facts db =
     (case lf_persistedRevisedAmount facts of
        Some persisted \<Rightarrow> settle_as Item_was_corrected (corrected_input opts facts persisted) db
      | None \<Rightarrow>
          let outcome = decideLateRecordingOutcome (lf_auditCompleted facts) (lf_auditExhausted facts) in
          if outcome = In_flight then (db, Inr Item_in_flight)
          else if outcome = Audited_projection
          then case validateCorrectedCall rt ports opts (lf_callId facts) db of
                 (db', Inl e) \<Rightarrow> (db', Inl e)
               | (db', Inr verdict) \<Rightarrow>
                   (case verdict of
                      Some (True, Some amount) \<Rightarrow>
                        if amount \<noteq> [] then settle_as Item_was_corrected (corrected_input opts facts amount) db'
                        else price_item rt opts facts outcome db'
                    | _ \<Rightarrow> price_item rt opts facts outcome db')
          else price_item rt opts facts outcome db)"

section \<open>Steps of the workflow\<close>

lemma ledger_keeps: "late_ok rt db \<Longrightarrow> late_ok rt (db\<lparr> ld_ledger := ledger \<rparr>) \<and> late_grows db (db\<lparr> ld_ledger := ledger \<rparr>)"
  by (simp add: late_ok_def late_grows_def artifacts_keep_refl)

text \<open>Money goes to the ledger, then the outcome to the item: a correction is a ledger change followed by at most one settle.\<close>

definition corrected_by :: "late_db \<Rightarrow> late_db \<Rightarrow> bool" where
  "corrected_by db db' \<longleftrightarrow> (\<exists>ledger. db' = db\<lparr> ld_ledger := ledger \<rparr> \<or>
     (\<exists>input. db' = fst (settleLateRecordingItem input (db\<lparr> ld_ledger := ledger \<rparr>))))"

lemma corrected_by_keeps: "corrected_by db db' \<Longrightarrow> late_ok rt db \<Longrightarrow> late_ok rt db' \<and> late_grows db db'"
  unfolding corrected_by_def using ledger_keeps settle_keeps late_grows_trans by metis

lemma corrected_by_intros:
  "corrected_by db db" "corrected_by db (db\<lparr> ld_ledger := ledger \<rparr>)"
  "corrected_by db (fst (settle_as r input (db\<lparr> ld_ledger := ledger \<rparr>)))" "corrected_by db (fst (settle_as r input db))"
proof -
  have s: "fst (settle_as r input d) = fst (settleLateRecordingItem input d)" for d
    by (simp add: settle_as_def split: prod.splits sum.splits)
  have same: "db\<lparr> ld_ledger := ld_ledger db \<rparr> = db" by simp
  show "corrected_by db db" unfolding corrected_by_def using same by metis
  show "corrected_by db (db\<lparr> ld_ledger := ledger \<rparr>)" unfolding corrected_by_def by blast
  show "corrected_by db (fst (settle_as r input (db\<lparr> ld_ledger := ledger \<rparr>)))" unfolding corrected_by_def s by blast
  show "corrected_by db (fst (settle_as r input db))" unfolding corrected_by_def s using same by metis
qed

lemma price_item_shape: "corrected_by db (fst (price_item rt opts facts outcome db))"
  by (auto simp: price_item_def corrected_by_intros split: sum.splits option.splits prod.splits)

lemma corrected_by_ledger: "corrected_by (db\<lparr> ld_ledger := ledger \<rparr>) db' \<Longrightarrow> corrected_by db db'"
  unfolding corrected_by_def by auto

lemma validate_shape: "\<exists>ledger. fst (validateCorrectedCall rt ports opts callId db) = db\<lparr> ld_ledger := ledger \<rparr>"
proof (cases "vp_candidate ports callId")
  case None
  have "db = db\<lparr> ld_ledger := ld_ledger db \<rparr>" by simp
  with None show ?thesis by (simp only: validateCorrectedCall_def option.case fst_conv) metis
qed (auto simp: validateCorrectedCall_def Let_def split: prod.splits sum.splits)

lemma correct_shape: "corrected_by db (fst (correctLateRecordingItem rt ports opts facts db))"
proof -
  obtain ledger where v: "fst (validateCorrectedCall rt ports opts (lf_callId facts) db) = db\<lparr> ld_ledger := ledger \<rparr>"
    using validate_shape by blast
  then have p: "corrected_by db (fst (price_item rt opts facts o' (fst (validateCorrectedCall rt ports opts (lf_callId facts) db))))" for o'
    using corrected_by_ledger price_item_shape by metis
  show ?thesis
    using v p price_item_shape[of db] corrected_by_intros
    by (auto simp: correctLateRecordingItem_def Let_def split: option.splits prod.splits sum.splits bool.splits)
qed

text \<open>
  One step: a commit decided on any earlier state, a claim, a correction or a settle with any facts, one cut short
  after its first statement, a preparation, a finalization, or other parts of the platform at work. Those may
  change every other table, and add artifacts and work on them, as long as an address once recorded stays.
\<close>

inductive late_step :: "runtime \<Rightarrow> late_db \<Rightarrow> late_db \<Rightarrow> bool" for rt where
  commit: "late_step rt db (fst (commitLateRecordingBatch rt ids held input read db))"
| claim: "late_step rt db (fst (listCandidates costs batchId limit now db))"
| correct: "late_step rt db (fst (correctLateRecordingItem rt ports opts facts db))"
| settle: "late_step rt db (fst (settleLateRecordingItem input db))"
| interrupted: "late_step rt db (fst (settle_item input db))"
| prepare: "late_step rt db (fst (prepareLateRecordingBatch batchId period now db))"
| finalize: "late_step rt db (fst (finalizeLateRecordingBatch cid input db))"
| elsewhere: "artifacts_keep (ld_artifacts db) artifacts \<Longrightarrow>
    late_step rt db (db\<lparr> ld_calls := calls, ld_artifacts := artifacts, ld_invoices := invoices, ld_auditRuns := runs,
                         ld_ledger := ledger, ld_settlements := settlements \<rparr>)"

inductive_cases late_stepE: "late_step rt db db'"

lemma late_step_keeps: "late_step rt db db' \<Longrightarrow> late_ok rt db \<Longrightarrow> late_ok rt db' \<and> late_grows db db'"
proof (induction rule: late_step.induct)
  case (elsewhere db artifacts)
  then have "distinct (map ca_id artifacts)" by (simp add: artifacts_keep_def)
  with elsewhere show ?case using evidenced_keep[OF elsewhere(1)] unfolding late_ok_def late_grows_def by simp
qed (simp_all only: commit_keeps claim_keeps corrected_by_keeps[OF correct_shape] settle_keeps settle_item_keeps prepare_keeps finalize_keeps)

interpretation late: monotone_system "late_step rt" "late_ok rt" late_grows for rt
  by unfold_locales (auto intro: late_grows_refl late_grows_trans dest: late_step_keeps)

text \<open>Before the first upload.\<close>

definition no_uploads :: "late_db \<Rightarrow> bool" where
  "no_uploads db = (distinct (map ca_id (ld_artifacts db)) \<and> ld_batches db = [] \<and> ld_items db = [] \<and> ld_corrections db = [])"

lemma no_uploads_ok: "no_uploads db \<Longrightarrow> late_ok rt db"
  by (simp add: no_uploads_def late_ok_def items_ok_def batches_ok_def)

lemma item_shape_attempts: "item_shape i \<Longrightarrow> li_attemptCount i \<le> 1"
  by (auto simp: item_shape_def split: LateRecordingItemState.splits)

text \<open>
  Evidence is written once. Whatever uploads, claims, corrections and closings happen, in whatever order, each
  accepted item names an artifact of its call that holds the very address the item was accepted with; that
  address, the item's identity and its outcome once settled never change again; no call has two items in
  flight; and no item is started twice.
\<close>
theorem late_evidence_written_once:
  assumes "no_uploads db0" "(late_step rt)\<^sup>*\<^sup>* db0 db" "i \<in> set (ld_items db)"
  shows "\<exists>a u. artifact_at (ld_artifacts db) (li_artifactId i) = Some a \<and> ca_callId a = li_callId i \<and> ca_sourceUrl a = Some u \<and>
           li_canonicalUrlSha256 i = canonicalUrlSha256 rt u \<and> li_attemptCount i \<le> 1 \<and>
           (\<forall>j \<in> set (ld_items db). item_active i \<and> item_active j \<and> li_callId j = li_callId i \<longrightarrow> j = i) \<and>
           (\<forall>db'. (late_step rt)\<^sup>*\<^sup>* db db' \<longrightarrow>
              (\<exists>a' i'. artifact_at (ld_artifacts db') (li_artifactId i) = Some a' \<and> ca_callId a' = li_callId i \<and>
                 ca_sourceUrl a' = Some u \<and> i' \<in> set (ld_items db') \<and> item_ident i' = item_ident i \<and>
                 (\<not> item_active i \<longrightarrow> i' = i)))"
proof -
  have ok: "late_ok rt db" using late.run_ok[OF assms(2) no_uploads_ok[OF assms(1)]] .
  obtain a u where a: "artifact_at (ld_artifacts db) (li_artifactId i) = Some a" "ca_callId a = li_callId i"
    "ca_sourceUrl a = Some u" "li_canonicalUrlSha256 i = canonicalUrlSha256 rt u"
    using late_okD(4)[OF ok assms(3)] unfolding evidenced_def by blast
  have later: "\<exists>a' i'. artifact_at (ld_artifacts db') (li_artifactId i) = Some a' \<and> ca_callId a' = li_callId i \<and>
       ca_sourceUrl a' = Some u \<and> i' \<in> set (ld_items db') \<and> item_ident i' = item_ident i \<and> (\<not> item_active i \<longrightarrow> i' = i)"
    if run: "(late_step rt)\<^sup>*\<^sup>* db db'" for db'
  proof -
    have g: "artifacts_keep (ld_artifacts db) (ld_artifacts db')" "items_keep (ld_items db) (ld_items db')"
      using late.run_grows[OF run ok] late_okD(1)[OF ok] unfolding late_grows_def by blast+
    obtain i' where "i' \<in> set (ld_items db')" "item_ident i' = item_ident i" "\<not> item_active i \<longrightarrow> i' = i"
      using g(2) assms(3) unfolding items_keep_def by blast
    moreover obtain a' where "artifact_at (ld_artifacts db') (li_artifactId i) = Some a'" "ca_callId a' = ca_callId a" "ca_sourceUrl a' = Some u"
      using g(1) a(1,3) unfolding artifacts_keep_def by blast
    ultimately show ?thesis using a(2) by auto
  qed
  have "distinct (map li_callId (filter item_active (ld_items db)))" using late_okD(2)[OF ok] by (simp add: items_ok_def)
  then have "j = i" if "j \<in> set (ld_items db)" "item_active i" "item_active j" "li_callId j = li_callId i" for j
    using that assms(3) by (auto simp: distinct_map inj_on_def)
  with a later item_shape_attempts[OF late_okD(3)[OF ok assms(3)]] show ?thesis by blast
qed


text \<open>
  A commit is idempotent under its key. After an accepted commit, however much work follows, committing
  again under the same key changes nothing: the same upload for the same month is answered with the batch it
  created, anything else is refused as a conflict.
\<close>
theorem late_commit_retry:
  assumes "no_uploads db0" "(late_step rt)\<^sup>*\<^sup>* db0 db"
    and "commitLateRecordingBatch rt ids True input read db = (db1, Inr receipt)" "cx_outcome receipt = Commit_accepted"
    and "(late_step rt)\<^sup>*\<^sup>* db1 db2" "same_key (ci_idempotencyKey input') (ci_idempotencyKey input)"
    and "resolveBatch rt (ci_period input') (ci_rows input') (ci_carriedRejections input') read' = Inr resolved"
  shows "\<exists>b \<in> set (ld_batches db2). cx_batchId receipt = Some (lb_id b) \<and>
           commitLateRecordingBatch rt ids' True input' read' db2 =
             (db2, if request_digest rt input' = request_digest rt input \<and> bm_month (ci_period input') = bm_month (ci_period input)
                   then Inr (commit_receipt input' (rb_preview resolved) (Some (lb_id b)) Commit_replayed (Some (lb_status b)))
                   else Inl (LateRecordingError ''LATE_RECORDING_REQUEST_CONFLICT'' 409))"
proof -
  have ok: "late_ok rt db" using late.run_ok[OF assms(2) no_uploads_ok[OF assms(1)]] .
  obtain resolved0 where t: "resolveBatch rt (ci_period input) (ci_rows input) (ci_carriedRejections input) read = Inr resolved0"
    "commit_transaction rt ids input resolved0 db = Inr (db1, receipt)"
    using assms(3) by (auto simp: commitLateRecordingBatch_def rbind_Inr_iff split: sum.splits prod.splits)
  from t(2) have "\<exists>b. b \<in> set (ld_batches db1) \<and> lb_id b = id_batch ids \<and> lb_requestDigest b = request_digest rt input \<and>
    lb_billMonth b = bm_month (ci_period input) \<and> lb_idempotencyKey b = ci_idempotencyKey input \<and> cx_batchId receipt = Some (id_batch ids)"
  proof (cases rule: commit_cases)
    case (accepted artifacts attached lost b items card settled)
    then show ?thesis by (intro exI[of _ b]) (simp add: batch_row_def commit_receipt_def)
  qed (use assms(4) in simp_all)
  then obtain b where b: "b \<in> set (ld_batches db1)" "lb_id b = id_batch ids" "lb_requestDigest b = request_digest rt input"
    "lb_billMonth b = bm_month (ci_period input)" "lb_idempotencyKey b = ci_idempotencyKey input" "cx_batchId receipt = Some (id_batch ids)"
    by blast
  have ok1: "late_ok rt db1" using commit_transaction_keeps[OF ok t] by blast
  have ok2: "late_ok rt db2" using late.run_ok[OF assms(5) ok1] .
  have "batches_keep (ld_batches db1) (ld_batches db2)" using late.run_grows[OF assms(5) ok1] unfolding late_grows_def by blast
  then obtain b2 where b2: "b2 \<in> set (ld_batches db2)" "batch_ident b2 = batch_ident b" using b(1) unfolding batches_keep_def by blast
  have ident: "lb_requestDigest b2 = request_digest rt input" "lb_billMonth b2 = bm_month (ci_period input)" "lb_id b2 = id_batch ids"
    using b2(2) b(2-4) by (simp_all add: batch_ident_def)
  have "same_key (lb_idempotencyKey b2) (ci_idempotencyKey input')"
    using b2(2) b(5) assms(6) by (simp add: batch_ident_def same_key_def)
  moreover have "distinct (map batch_key (ld_batches db2))" using late_okD(5)[OF ok2] by (simp add: batches_ok_def)
  ultimately have "find (\<lambda>x. same_key (lb_idempotencyKey x) (ci_idempotencyKey input')) (ld_batches db2) = Some b2"
    using b2(1) find_distinct_key[of batch_key "ld_batches db2" b2] by (simp add: same_key_def batch_key_def)
  then have "commit_transaction rt ids' input' resolved db2 =
      (if request_digest rt input' = request_digest rt input \<and> bm_month (ci_period input') = bm_month (ci_period input)
       then Inr (db2, commit_receipt input' (rb_preview resolved) (Some (lb_id b2)) Commit_replayed (Some (lb_status b2)))
       else Inl (LateRecordingError ''LATE_RECORDING_REQUEST_CONFLICT'' 409))"
    using ident by (simp add: commit_transaction_def)
  then show ?thesis using b(6) ident(3) assms(7)
    by (intro bexI[OF _ b2(1)]) (simp add: commitLateRecordingBatch_def asSafeLateRecordingError_def)
qed

section \<open>A workflow on concrete rows\<close>

definition demo_period :: BillingMonthScope where
  "demo_period = \<lparr> bm_month = ''2026-07'', bm_start = ''2026-07-01'', bm_end = ''2026-07-31'' \<rparr>"

definition demo_late :: late_db where
  "demo_late =
     \<lparr> ld_calls = [\<lparr> call_id = ''call-1'', call_logicalCallKey = ''T1'', call_sourceStartedAt = None,
                     call_billingPeriodDate = ''2026-07-05'', call_externalReferences = [] \<rparr>],
       ld_artifacts = [\<lparr> ca_id = ''art-1'', ca_callId = ''call-1'', ca_artifactType = ''recording'', ca_isFinal = True,
                         ca_sourceUrl = None, ca_sha256 = None, ca_audioProcessingStatus = None, ca_audioAttemptCount = None,
                         ca_audioLastAttemptAt = None, ca_audioNextAttemptAt = None, ca_audioLastError = None \<rparr>],
       ld_invoices = [\<lparr> iv_periodStart = ''2026-07-01'', iv_periodEnd = ''2026-07-31'', iv_status = ''approved'' \<rparr>],
       ld_auditRuns = [],
       ld_ledger = empty_ledger [demo_card_row\<lparr> rc_effectiveFrom := ''2026-01-01'', rc_effectiveTo := None \<rparr>] [],
       ld_settlements = [], ld_batches = [], ld_items = [], ld_corrections = [] \<rparr>"

definition demo_upload :: commit_input where
  "demo_upload =
     \<lparr> ci_period = demo_period,
       ci_rows = [(\<lparr> lr_rowNumber = 2, lr_taskId = ''T1'', lr_submittedUrl = ''https://x/r.mp3'' \<rparr>, ''https://x/r.mp3'')],
       ci_carriedRejections = [], ci_sourceFileSha256 = [], ci_idempotencyKey = ''key-1'', ci_requestedByUserId = None,
       ci_correlationId = ''c'', ci_requestedAt = 1 \<rparr>"

definition demo_late_ids :: late_ids where
  "demo_late_ids = \<lparr> id_batch = ''b1'', id_item = (\<lambda>_. ''i1'') \<rparr>"

definition demo_committed :: late_db where
  "demo_committed = fst (commitLateRecordingBatch demo_runtime demo_late_ids True demo_upload demo_late demo_late)"

definition demo_prepared :: late_db where
  "demo_prepared = fst (prepareLateRecordingBatch ''b1'' demo_period 2 demo_committed)"

definition demo_claimed :: late_db where
  "demo_claimed = fst (listCandidates (\<lambda>_. None) ''b1'' 10 3 demo_prepared)"

definition demo_settle :: settle_input where
  "demo_settle =
     \<lparr> se_batchId = ''b1'', se_itemId = ''i1'', se_corrected = True, se_errorCode = Missing, se_previousAmount = None,
       se_revisedAmount = Some (formatScaledMoney 1250000000), se_supersededCalculationId = None, se_at = 4 \<rparr>"

definition demo_settled :: late_db where
  "demo_settled = fst (settleLateRecordingItem demo_settle demo_claimed)"

definition demo_final :: finalize_input where
  "demo_final =
     \<lparr> fi_batchId = ''b1'', fi_billMonth = ''2026-07'', fi_revisedVerifiedTotal = formatScaledMoney 1250000000, fi_actualPaidAmount = None,
       fi_revisedVariance = None \<rparr>"

definition demo_closed :: late_db where
  "demo_closed = fst (finalizeLateRecordingBatch ''c1'' demo_final demo_settled)"

lemma demo_late_fresh: "no_uploads demo_late"
  by (simp add: no_uploads_def demo_late_def)

lemma demo_rate_card_id: "applicableRateCardId demo_runtime demo_period demo_late = Some ''rc''"
  by (simp add: applicableRateCardId_def demo_late_def demo_period_def demo_card_row_def demo_rate_card_def KSERVE_RULESET_SHA256_def
      empty_ledger_def less_char_def)

lemma demo_tasks: "resolveUploadedTasks demo_period [''T1''] demo_late =
   [resolved_row demo_late ''T1'' (hd (ld_calls demo_late)) (Some (hd (ld_artifacts demo_late)))]"
  by (simp add: resolveUploadedTasks_def demo_late_def demo_period_def in_period_def resolved_rows_def final_recording_def
     less_char_def)

lemma demo_row: "resolved_row demo_late ''T1'' (hd (ld_calls demo_late)) (Some (hd (ld_artifacts demo_late))) =
   \<lparr> rv_taskReference = ''T1'', rv_callId = ''call-1'', rv_artifactId = Some ''art-1'', rv_sourceUrl = None, rv_evidenceSha256 = None,
     rv_invoicePresent = True, rv_auditCompleted = False, rv_liveCalculationId = None, rv_liveCalculationBasis = None,
     rv_liveTotalAmount = None \<rparr>"
  by (simp add: resolved_row_def demo_late_def live_calculation_def live_calculations_def empty_ledger_def invoice_present_def
     less_char_def)

definition demo_preview :: LateRecordingPreview where
  "demo_preview = summarizeLateRecordingDecisions [Row_accepted 2] 1"

definition demo_accepted :: AcceptedRow where
  "demo_accepted =
     \<lparr> aw_rowNumber = 2, aw_taskId = ''T1'', aw_callId = ''call-1'', aw_artifactId = ''art-1'', aw_canonicalUrl = ''https://x/r.mp3'',
       aw_canonicalUrlSha256 = canonicalUrlSha256 demo_runtime ''https://x/r.mp3'', aw_previousAmount = None,
       aw_supersededCalculationId = None \<rparr>"

lemma demo_resolved: "resolveBatch demo_runtime (ci_period demo_upload) (ci_rows demo_upload) (ci_carriedRejections demo_upload) demo_late =
   Inr \<lparr> rb_preview = demo_preview, rb_accepted = [demo_accepted], rb_rateCardVersionId = Some ''rc'' \<rparr>"
  by (simp add: resolveBatch_def demo_upload_def MAX_LATE_RECORDING_ROWS_def demo_rate_card_id demo_tasks demo_row
      factsByReference_def call_facts_def rbind_def add_facts_def Let_def coalesce_def row_outcome_def truthy_text_def
      decideLateRecordingRow_def demo_preview_def demo_accepted_def accepted_row_def)

definition demo_batch :: BatchRow where
  "demo_batch = batch_row demo_runtime demo_late_ids demo_upload ''rc'' demo_preview 1"

definition demo_item :: ItemRow where
  "demo_item = item_row demo_late_ids demo_upload 0 demo_accepted"

lemma demo_preview_counts: "lp_submittedCount demo_preview = 1" "lp_decisions demo_preview = [Row_accepted 2]"
  by (simp_all add: demo_preview_def summarizeLateRecordingDecisions_def)

lemma demo_settled_preview: "summarizeLateRecordingDecisions (settled_decisions [Row_accepted 2] []) (Suc 0) = demo_preview"
  by (simp add: settled_decisions_def demo_preview_def)

lemma demo_commit:
  "commitLateRecordingBatch demo_runtime demo_late_ids True demo_upload demo_late demo_late =
     (demo_late\<lparr> ld_artifacts := attach demo_accepted (ld_artifacts demo_late), ld_batches := [demo_batch], ld_items := [demo_item] \<rparr>,
      Inr (commit_receipt demo_upload demo_preview (Some ''b1'') Commit_accepted (Some Batch_accepted)))"
proof -
  have a: "attach_rows [demo_accepted] (ld_artifacts demo_late) = (attach demo_accepted (ld_artifacts demo_late), [demo_accepted], [])"
    by (simp add: demo_late_def attachable_def demo_accepted_def final_recording_def)
  have b: "insert_batch demo_batch [] = Inr [demo_batch]"
    by (simp add: insert_batch_def demo_batch_def batch_row_def demo_preview_counts)
  have i: "insert_items demo_late_ids demo_upload 0 [demo_accepted] [] = Inr [demo_item]"
    by (simp add: insert_item_def demo_item_def amounts_ok_def item_row_def demo_accepted_def)
  have e: "ld_batches demo_late = []" "ld_items demo_late = []" by (simp_all add: demo_late_def)
  show ?thesis
    using a b i by (simp add: commitLateRecordingBatch_def demo_resolved commit_transaction_def e demo_preview_counts
        demo_settled_preview demo_batch_def demo_late_ids_def Let_def del: attach_rows.simps insert_items.simps)
qed

lemma demo_committed_rows:
  "ld_items demo_committed = [demo_item]" "ld_batches demo_committed = [demo_batch]" "ld_corrections demo_committed = []"
  "map (\<lambda>a. (ca_id a, ca_sourceUrl a)) (ld_artifacts demo_committed) = [(''art-1'', Some ''https://x/r.mp3'')]"
  "ld_ledger demo_committed = ld_ledger demo_late"
  by (simp_all add: demo_committed_def demo_commit) (simp_all add: demo_late_def attach_def attachable_def demo_accepted_def final_recording_def)

lemma demo_verified_total: "verified_total p (ld_ledger demo_late) = 0"
  by (simp add: verified_total_def live_calculations_def demo_late_def empty_ledger_def)

lemma demo_prepared_rows: "demo_prepared = demo_committed\<lparr> ld_batches := [capture_baseline (formatScaledMoney 0) 2 demo_batch] \<rparr>"
  by (simp add: demo_prepared_def prepareLateRecordingBatch_def prepare_transaction_def find_batch_def demo_committed_rows
      readVerifiedMonthTotal_def demo_verified_total late_fixed8_scaled toScaled_format update_batch_def
      demo_batch_def batch_row_def demo_late_ids_def find_correction_def)

lemma demo_claimed_rows:
  "ld_items demo_claimed = [start_item 3 demo_item]" "ld_batches demo_claimed = ld_batches demo_prepared" "ld_corrections demo_claimed = []"
proof -
  obtain a where a: "ld_artifacts demo_committed = [a]" "ca_id a = ''art-1''" "ca_sourceUrl a \<noteq> None"
    using demo_committed_rows(4) by (cases "ld_artifacts demo_committed") auto
  have c: "claimed_items ''b1'' 10 3 demo_prepared = [(demo_item, a)]"
    by (simp add: claimed_items_def demo_prepared_rows demo_committed_rows a claimable_item_def demo_item_def item_row_def demo_late_ids_def
        demo_accepted_def MAX_LATE_RECORDING_ROWS_def)
  have d: "demo_claimed = demo_prepared\<lparr> ld_items := start_claimed 3 [(demo_item, a)] (ld_items demo_prepared),
      ld_batches := start_batch ''b1'' 3 (ld_batches demo_prepared) \<rparr>"
    by (simp add: demo_claimed_def listCandidates_def c Let_def)
  show "ld_items demo_claimed = [start_item 3 demo_item]" "ld_batches demo_claimed = ld_batches demo_prepared" "ld_corrections demo_claimed = []"
    by (simp_all add: d start_claimed_def start_batch_def demo_prepared_rows demo_committed_rows
        startable_def demo_item_def item_row_def capture_baseline_def)
qed

lemma demo_settled_rows:
  "ld_items demo_settled = [settled_item demo_settle None (Some (formatScaledMoney 1250000000)) (start_item 3 demo_item)]"
  "map (\<lambda>b. (lb_id b, lb_baselineVerifiedTotal b, lb_billMonth b, lb_acceptedCount b)) (ld_batches demo_settled) =
     [(''b1'', Some (formatScaledMoney 0), ''2026-07'', 1)]"
  "ld_corrections demo_settled = []"
proof -
  have i: "settleable demo_settle (start_item 3 demo_item)"
    "amounts_ok (settled_item demo_settle None (Some (formatScaledMoney 1250000000)) (start_item 3 demo_item))"
    by (simp_all add: settleable_def demo_settle_def start_item_def demo_item_def item_row_def demo_late_ids_def settled_item_def
        amounts_ok_def demo_accepted_def toScaled_format)
  have amt: "fixed8_opt (se_previousAmount demo_settle) = Inr None"
    "fixed8_opt (se_revisedAmount demo_settle) = Inr (Some (formatScaledMoney 1250000000))"
    by (simp_all add: demo_settle_def fixed8_opt_def late_fixed8_scaled toScaled_format)
  have "settle_item demo_settle demo_claimed =
      (demo_claimed\<lparr> ld_items := [settled_item demo_settle None (Some (formatScaledMoney 1250000000)) (start_item 3 demo_item)] \<rparr>, Inr ())"
    using i amt by (simp add: settle_item_def demo_claimed_rows)
  then have s: "demo_settled = recount_batch ''b1'' (demo_claimed\<lparr> ld_items := [settled_item demo_settle None (Some (formatScaledMoney 1250000000)) (start_item 3 demo_item)] \<rparr>)"
    by (simp add: demo_settled_def settleLateRecordingItem_def) (simp add: demo_settle_def)
  show "ld_items demo_settled = [settled_item demo_settle None (Some (formatScaledMoney 1250000000)) (start_item 3 demo_item)]"
    "ld_corrections demo_settled = []"
    by (simp_all add: s recount_batch_def demo_claimed_rows)
  show "map (\<lambda>b. (lb_id b, lb_baselineVerifiedTotal b, lb_billMonth b, lb_acceptedCount b)) (ld_batches demo_settled) =
     [(''b1'', Some (formatScaledMoney 0), ''2026-07'', 1)]"
    by (simp add: s recount_batch_def demo_claimed_rows demo_prepared_rows capture_baseline_def demo_batch_def batch_row_def demo_late_ids_def
        demo_upload_def demo_period_def)
qed

lemma demo_closed_rows:
  "length (ld_batches demo_closed) = 1" "batch_closed (hd (ld_batches demo_closed))"
  "map mx_deltaAmount (ld_corrections demo_closed) = [formatScaledMoney 1250000000]"
proof -
  obtain b where b: "ld_batches demo_settled = [b]" "lb_id b = ''b1''" "lb_baselineVerifiedTotal b = Some (formatScaledMoney 0)"
    "lb_billMonth b = ''2026-07''" "lb_acceptedCount b = 1"
    using demo_settled_rows(2) by (cases "ld_batches demo_settled") auto
  obtain i where i: "ld_items demo_settled = [i]" "li_batchId i = ''b1''" "li_state i = Item_corrected" "li_completedAt i = Some 4"
    using demo_settled_rows(1) by (auto simp: settled_item_def demo_settle_def start_item_def demo_item_def item_row_def demo_late_ids_def)
  note totals = correction_totals_exact[OF toScaled_format toScaled_format, of 1 0 1250000000]
  have c: "finalize_transaction ''c1'' demo_final demo_settled \<noteq> Inl e" for e
    using totals by (simp add: finalize_transaction_def demo_final_def find_batch_def b i items_of_def item_active_def latest_completion_def
      count_state_def fixed8_opt_def rbind_def record_correction_def find_correction_def demo_settled_rows nonneg_amount_def toScaled_format Let_def)
  then obtain db r where f: "finalize_transaction ''c1'' demo_final demo_settled = Inr (db, r)"
    by (metis prod.exhaust sum.exhaust)
  then have d: "demo_closed = db" by (simp add: demo_closed_def finalizeLateRecordingBatch_def)
  have "length (ld_batches db) = 1 \<and> batch_closed (hd (ld_batches db)) \<and> map mx_deltaAmount (ld_corrections db) = [formatScaledMoney 1250000000]"
    using f totals by (auto simp: finalize_transaction_def demo_final_def find_batch_def b i items_of_def item_active_def latest_completion_def
      count_state_def fixed8_opt_def rbind_def record_correction_def find_correction_def demo_settled_rows nonneg_amount_def toScaled_format Let_def
      update_batch_def close_batch_def batch_closed_def)
  then show "length (ld_batches demo_closed) = 1" "batch_closed (hd (ld_batches demo_closed))"
    "map mx_deltaAmount (ld_corrections demo_closed) = [formatScaledMoney 1250000000]" unfolding d by blast+
qed

lemma demo_workflow: "(late_step demo_runtime)\<^sup>*\<^sup>* demo_late demo_committed" "(late_step demo_runtime)\<^sup>*\<^sup>* demo_committed demo_closed"
proof -
  show "(late_step demo_runtime)\<^sup>*\<^sup>* demo_late demo_committed"
    unfolding demo_committed_def by (intro r_into_rtranclp late_step.commit)
  have "late_step demo_runtime demo_committed demo_prepared" "late_step demo_runtime demo_prepared demo_claimed"
    "late_step demo_runtime demo_claimed demo_settled" "late_step demo_runtime demo_settled demo_closed"
    unfolding demo_prepared_def demo_claimed_def demo_settled_def demo_closed_def by (rule late_step.intros)+
  then show "(late_step demo_runtime)\<^sup>*\<^sup>* demo_committed demo_closed" by (meson converse_rtranclp_into_rtranclp r_into_rtranclp)
qed

theorem late_evidence_written_once_witness:
  "\<exists>a. artifact_at (ld_artifacts demo_closed) ''art-1'' = Some a \<and> ca_sourceUrl a = Some ''https://x/r.mp3''"
proof -
  have i: "demo_item \<in> set (ld_items demo_committed)" "li_artifactId demo_item = ''art-1''"
    by (simp_all add: demo_committed_rows demo_item_def item_row_def demo_accepted_def)
  obtain a u where "artifact_at (ld_artifacts demo_committed) ''art-1'' = Some a" "ca_sourceUrl a = Some u"
    "\<exists>a'. artifact_at (ld_artifacts demo_closed) ''art-1'' = Some a' \<and> ca_sourceUrl a' = Some u"
    using late_evidence_written_once[OF demo_late_fresh demo_workflow(1) i(1)] demo_workflow(2) unfolding i(2) by blast
  moreover have "u = ''https://x/r.mp3''" using calculation(1,2) demo_committed_rows(4)
    by (cases "ld_artifacts demo_committed") (auto simp: artifact_at_def split: if_splits)
  ultimately show ?thesis by blast
qed


theorem late_commit_retry_witness:
  "\<exists>b \<in> set (ld_batches demo_closed).
     commitLateRecordingBatch demo_runtime demo_late_ids True demo_upload demo_late demo_closed =
       (demo_closed, Inr (commit_receipt demo_upload demo_preview (Some (lb_id b)) Commit_replayed (Some (lb_status b))))"
proof -
  have c: "commitLateRecordingBatch demo_runtime demo_late_ids True demo_upload demo_late demo_late =
      (demo_committed, Inr (commit_receipt demo_upload demo_preview (Some ''b1'') Commit_accepted (Some Batch_accepted)))"
    unfolding demo_committed_def demo_commit by simp
  have "same_key (ci_idempotencyKey demo_upload) (ci_idempotencyKey demo_upload)" by (simp add: same_key_def)
  from late_commit_retry[OF demo_late_fresh rtranclp.rtrancl_refl c _ demo_workflow(2) this demo_resolved]
  show ?thesis by (auto simp: commit_receipt_def)
qed

end
