(* ===== verification/Credentials.thy ===== *)
theory Credentials
  imports Runtime
begin

text \<open>
  Login handles, password hashes and sessions (\<open>src/src/auth/credentialIdentity.ts\<close>, \<open>passwordHash.ts\<close>,
  \<open>userSession.ts\<close>, \<open>credentialTypes.ts\<close>). Buffers are byte strings and base64url is written out; scrypt, the
  keyed hash HMAC-SHA256 and \<open>JSON.parse\<close> are parameters. Lengths are those of ASCII text.
\<close>

section \<open>base64url\<close>

definition b64_char :: "nat \<Rightarrow> char" where
  "b64_char n =
     (if n < 26 then char_of (65 + n) else if n < 52 then char_of (71 + n) else if n < 62 then char_of (n - 4)
      else if n = 62 then CHR ''-'' else CHR ''_'')"

definition b64_val :: "char \<Rightarrow> nat" where
  "b64_val c =
     (let n = of_char c in
      if 65 \<le> n \<and> n \<le> 90 then n - 65 else if 97 \<le> n \<and> n \<le> 122 then n - 71
      else if 48 \<le> n \<and> n \<le> 57 then n + 4 else if n = 45 then 62 else 63)"

definition b64url_char :: "char \<Rightarrow> bool" where
  "b64url_char c =
     ((CHR ''A'' \<le> c \<and> c \<le> CHR ''Z'') \<or> (CHR ''a'' \<le> c \<and> c \<le> CHR ''z'') \<or> is_digit c \<or> c = CHR ''-'' \<or> c = CHR ''_'')"

fun base64url :: "string \<Rightarrow> string" where
  "base64url (a # b # c # r) =
     (let n = of_char a * 65536 + of_char b * 256 + of_char c
      in b64_char (n div 262144) # b64_char (n div 4096 mod 64) # b64_char (n div 64 mod 64) # b64_char (n mod 64) # base64url r)"
| "base64url [a, b] =
     (let n = of_char a * 1024 + of_char b * 4
      in [b64_char (n div 4096), b64_char (n div 64 mod 64), b64_char (n mod 64)])"
| "base64url [a] = (let n = of_char a * 16 in [b64_char (n div 64), b64_char (n mod 64)])"
| "base64url [] = []"

text \<open>Decoding a text of the alphabet; bits beyond the last whole byte are dropped.\<close>

fun from_base64url :: "string \<Rightarrow> string" where
  "from_base64url (w # x # y # z # r) =
     (let n = b64_val w * 262144 + b64_val x * 4096 + b64_val y * 64 + b64_val z
      in char_of (n div 65536) # char_of (n div 256 mod 256) # char_of (n mod 256) # from_base64url r)"
| "from_base64url [w, x, y] =
     (let n = b64_val w * 4096 + b64_val x * 64 + b64_val y in [char_of (n div 1024), char_of (n div 4 mod 256)])"
| "from_base64url [w, x] = (let n = b64_val w * 64 + b64_val x in [char_of (n div 16)])"
| "from_base64url _ = []"

section \<open>Login handles\<close>

definition USERNAME_MIN_LENGTH :: nat where
  "USERNAME_MIN_LENGTH = 3"

definition USERNAME_MAX_LENGTH :: nat where
  "USERNAME_MAX_LENGTH = 64"

definition EMAIL_MAX_LENGTH :: nat where
  "EMAIL_MAX_LENGTH = 255"

definition LOGIN_MAX_LENGTH :: nat where
  "LOGIN_MAX_LENGTH = EMAIL_MAX_LENGTH"

definition prepare :: "js_input \<Rightarrow> string option" where
  "prepare v =
     (case v of
        Text_in s \<Rightarrow>
          if utf16_length s > LOGIN_MAX_LENGTH then None
          else let trimmed = trim s in
               if trimmed = [] \<or> has_control_character trimmed then None else Some (toLowerCase trimmed)
      | _ \<Rightarrow> None)"

definition alnum :: "char \<Rightarrow> bool" where
  "alnum c = ((CHR ''a'' \<le> c \<and> c \<le> CHR ''z'') \<or> is_digit c)"

text \<open>\<open>/^[a-z0-9](?:[a-z0-9._-]*[a-z0-9])$/\<close>.\<close>

definition username_pattern :: "string \<Rightarrow> bool" where
  "username_pattern s =
     (2 \<le> length s \<and> alnum (hd s) \<and> alnum (last s) \<and>
      list_all (\<lambda>c. alnum c \<or> c \<in> {CHR ''.'', CHR ''_'', CHR ''-''}) s)"

definition isUsernameShape :: "string \<Rightarrow> bool" where
  "isUsernameShape s = (USERNAME_MIN_LENGTH \<le> length s \<and> length s \<le> USERNAME_MAX_LENGTH \<and> username_pattern s)"

text \<open>\<open>/^[^@\s]+@[^@\s]+\.[^@\s]+$/\<close>: one \<open>@\<close>, no white space, and a dot inside the domain.\<close>

definition email_pattern :: "string \<Rightarrow> bool" where
  "email_pattern s =
     (\<not> list_ex is_ws s \<and>
      (case split_text (CHR ''@'') s of
         [name, domain] \<Rightarrow> name \<noteq> [] \<and> CHR ''.'' \<in> set (butlast (tl domain))
       | _ \<Rightarrow> False))"

definition isEmailShape :: "string \<Rightarrow> bool" where
  "isEmailShape s = (utf16_length s \<le> EMAIL_MAX_LENGTH \<and> email_pattern s)"

definition normalizeUsername :: "js_input \<Rightarrow> string res" where
  "normalizeUsername v =
     (case prepare v of
        Some s \<Rightarrow> if isUsernameShape s then Inr s else Inl (CredentialError ''USERNAME_MALFORMED'')
      | None \<Rightarrow> Inl (CredentialError ''USERNAME_MALFORMED''))"

definition normalizeEmail :: "js_input \<Rightarrow> string res" where
  "normalizeEmail v =
     (case prepare v of
        Some s \<Rightarrow> if isEmailShape s then Inr s else Inl (CredentialError ''EMAIL_MALFORMED'')
      | None \<Rightarrow> Inl (CredentialError ''EMAIL_MALFORMED''))"

definition looksLikeEmail :: "string \<Rightarrow> bool" where
  "looksLikeEmail s = (CHR ''@'' \<in> set s)"

definition normalizeLogin :: "js_input \<Rightarrow> string option" where
  "normalizeLogin v =
     (case prepare v of
        None \<Rightarrow> None
      | Some s \<Rightarrow>
          if looksLikeEmail s then (if isEmailShape s then Some s else None)
          else if isUsernameShape s then Some s else None)"

section \<open>Password policy\<close>

definition PASSWORD_MIN_LENGTH :: nat where
  "PASSWORD_MIN_LENGTH = 12"

definition PASSWORD_MAX_LENGTH :: nat where
  "PASSWORD_MAX_LENGTH = 256"

definition PASSWORD_MAX_BYTES :: nat where
  "PASSWORD_MAX_BYTES = 1024"

datatype PasswordPolicyViolation =
    TOO_SHORT | TOO_LONG | MISSING_LOWERCASE | MISSING_UPPERCASE | MISSING_DIGIT | MISSING_SYMBOL
  | CONTAINS_CONTROL_CHARACTER | CONTAINS_IDENTITY

fun violation_text :: "PasswordPolicyViolation \<Rightarrow> string" where
  "violation_text TOO_SHORT = ''TOO_SHORT''"
| "violation_text TOO_LONG = ''TOO_LONG''"
| "violation_text MISSING_LOWERCASE = ''MISSING_LOWERCASE''"
| "violation_text MISSING_UPPERCASE = ''MISSING_UPPERCASE''"
| "violation_text MISSING_DIGIT = ''MISSING_DIGIT''"
| "violation_text MISSING_SYMBOL = ''MISSING_SYMBOL''"
| "violation_text CONTAINS_CONTROL_CHARACTER = ''CONTAINS_CONTROL_CHARACTER''"
| "violation_text CONTAINS_IDENTITY = ''CONTAINS_IDENTITY''"

record PasswordIdentityContext =
  pi_username :: "string option"
  pi_email :: "string option"

definition no_identity :: PasswordIdentityContext where
  "no_identity = \<lparr> pi_username = None, pi_email = None \<rparr>"

definition lower_letter :: "char \<Rightarrow> bool" where
  "lower_letter c = (CHR ''a'' \<le> c \<and> c \<le> CHR ''z'')"

definition upper_letter :: "char \<Rightarrow> bool" where
  "upper_letter c = (CHR ''A'' \<le> c \<and> c \<le> CHR ''Z'')"

definition contains_identity :: "string \<Rightarrow> PasswordIdentityContext \<Rightarrow> bool" where
  "contains_identity password identity =
     list_ex (\<lambda>part. case part of
                None \<Rightarrow> False
              | Some p \<Rightarrow> 3 \<le> length p \<and> includes_text (toLowerCase password) (toLowerCase p))
       [pi_username identity, map_option (takeWhile (\<lambda>c. c \<noteq> CHR ''@'')) (pi_email identity)]"

definition checkPasswordPolicy :: "js_input \<Rightarrow> PasswordIdentityContext \<Rightarrow> PasswordPolicyViolation list" where
  "checkPasswordPolicy v identity =
     (case v of
        Text_in password \<Rightarrow>
          concat [if utf16_length password < PASSWORD_MIN_LENGTH then [TOO_SHORT] else [],
                  if utf16_length password > PASSWORD_MAX_LENGTH \<or> length password > PASSWORD_MAX_BYTES then [TOO_LONG] else [],
                  if list_ex lower_letter password then [] else [MISSING_LOWERCASE],
                  if list_ex upper_letter password then [] else [MISSING_UPPERCASE],
                  if list_ex is_digit password then [] else [MISSING_DIGIT],
                  if list_ex (\<lambda>c. \<not> (lower_letter c \<or> upper_letter c \<or> is_digit c)) password then [] else [MISSING_SYMBOL],
                  if has_control_character password then [CONTAINS_CONTROL_CHARACTER] else [],
                  if contains_identity password identity then [CONTAINS_IDENTITY] else []]
      | _ \<Rightarrow> [TOO_SHORT])"

section \<open>Stored hashes\<close>

record ScryptParameters =
  sp_cost :: nat
  sp_blockSize :: nat
  sp_parallelization :: nat

text \<open>\<open>scrypt(password, salt, 32, parameters)\<close>, or \<open>None\<close> where it reports an error.\<close>

type_synonym scrypt = "string \<Rightarrow> string \<Rightarrow> ScryptParameters \<Rightarrow> string option"

definition KEY_LENGTH :: nat where
  "KEY_LENGTH = 32"

definition default_parameters :: ScryptParameters where
  "default_parameters = \<lparr> sp_cost = 16384, sp_blockSize = 8, sp_parallelization = 1 \<rparr>"

definition MAX_VERIFY_MEMORY_BYTES :: nat where
  "MAX_VERIFY_MEMORY_BYTES = 64 * 1024 * 1024"

definition MAX_VERIFY_WORK_UNITS :: nat where
  "MAX_VERIFY_WORK_UNITS = 4 * 16384 * 8 * 1"

definition MAX_COST :: nat where
  "MAX_COST = 131072"

definition MAX_BLOCK_SIZE :: nat where
  "MAX_BLOCK_SIZE = 16"

definition MAX_PARALLELIZATION :: nat where
  "MAX_PARALLELIZATION = 4"

definition derive :: "scrypt \<Rightarrow> string \<Rightarrow> string \<Rightarrow> ScryptParameters \<Rightarrow> string res" where
  "derive kdf password salt parameters =
     (case kdf password salt parameters of None \<Rightarrow> Inl (CredentialError ''HASHING_FAILED'') | Some d \<Rightarrow> Inr d)"

definition parameter_text :: "ScryptParameters \<Rightarrow> string" where
  "parameter_text p =
     ''N='' @ string_of_nat (sp_cost p) @ '',r='' @ string_of_nat (sp_blockSize p) @ '',p='' @ string_of_nat (sp_parallelization p)"

definition encode_hash :: "ScryptParameters \<Rightarrow> string \<Rightarrow> string \<Rightarrow> string" where
  "encode_hash parameters salt digest =
     ''scrypt$'' @ parameter_text parameters @ ''$'' @ base64url salt @ ''$'' @ base64url digest"

definition hashPassword :: "scrypt \<Rightarrow> string \<Rightarrow> string \<Rightarrow> PasswordIdentityContext \<Rightarrow> string res" where
  "hashPassword kdf salt password identity =
     (if checkPasswordPolicy (Text_in password) identity \<noteq> [] then Inl (CredentialError ''PASSWORD_POLICY'')
      else rbind (derive kdf password salt default_parameters) (\<lambda>digest.
           Inr (encode_hash default_parameters salt digest)))"

definition isPowerOfTwo :: "nat \<Rightarrow> bool" where
  "isPowerOfTwo n = (n > 1 \<and> and n (n - 1) = 0)"

text \<open>One of \<open>N=(\d{1,7})\<close>, \<open>r=(\d{1,3})\<close>, \<open>p=(\d{1,3})\<close>.\<close>

definition parameter_value :: "char \<Rightarrow> nat \<Rightarrow> string \<Rightarrow> nat option" where
  "parameter_value name most s =
     (case s of
        c # e # ds \<Rightarrow>
          if c = name \<and> e = CHR ''='' \<and> ds \<noteq> [] \<and> length ds \<le> most \<and> all_digits ds then Some (nat_of_digits ds) else None
      | _ \<Rightarrow> None)"

definition parse_parameters :: "string \<Rightarrow> ScryptParameters option" where
  "parse_parameters s =
     (case split_text (CHR '','') s of
        [n, r, p] \<Rightarrow>
          (case (parameter_value (CHR ''N'') 7 n, parameter_value (CHR ''r'') 3 r, parameter_value (CHR ''p'') 3 p) of
             (Some cost, Some blockSize, Some parallelization) \<Rightarrow>
               Some \<lparr> sp_cost = cost, sp_blockSize = blockSize, sp_parallelization = parallelization \<rparr>
           | _ \<Rightarrow> None)
      | _ \<Rightarrow> None)"

definition affordable :: "ScryptParameters \<Rightarrow> bool" where
  "affordable p =
     (isPowerOfTwo (sp_cost p) \<and> sp_cost p \<le> MAX_COST \<and> 1 \<le> sp_blockSize p \<and> sp_blockSize p \<le> MAX_BLOCK_SIZE \<and>
      1 \<le> sp_parallelization p \<and> sp_parallelization p \<le> MAX_PARALLELIZATION \<and>
      128 * sp_cost p * sp_blockSize p \<le> MAX_VERIFY_MEMORY_BYTES \<and>
      sp_cost p * sp_blockSize p * sp_parallelization p \<le> MAX_VERIFY_WORK_UNITS)"

definition decodeBase64Url :: "string \<Rightarrow> string option" where
  "decodeBase64Url s = (if s \<noteq> [] \<and> list_all b64url_char s then Some (from_base64url s) else None)"

record ParsedHash =
  ph_parameters :: ScryptParameters
  ph_salt :: string
  ph_digest :: string

definition parseStoredPasswordHash :: "string \<Rightarrow> ParsedHash option" where
  "parseStoredPasswordHash storedHash =
     (if length storedHash > 512 then None
      else case split_text (CHR ''$'') storedHash of
        [algorithm, parameterText, saltText, digestText] \<Rightarrow>
          if algorithm \<noteq> ''scrypt'' then None
          else Option.bind (parse_parameters parameterText) (\<lambda>parameters.
               if \<not> affordable parameters then None
               else Option.bind (decodeBase64Url saltText) (\<lambda>salt.
                    Option.bind (decodeBase64Url digestText) (\<lambda>digest.
                    if length salt < 8 \<or> length salt > 64 \<or> length digest \<noteq> KEY_LENGTH then None
                    else Some \<lparr> ph_parameters = parameters, ph_salt = salt, ph_digest = digest \<rparr>)))
      | _ \<Rightarrow> None)"

definition isStoredPasswordHashValid :: "string \<Rightarrow> bool" where
  "isStoredPasswordHashValid storedHash = (parseStoredPasswordHash storedHash \<noteq> None)"

definition verifyPassword :: "scrypt \<Rightarrow> js_input \<Rightarrow> string \<Rightarrow> bool" where
  "verifyPassword kdf v storedHash =
     (case v of
        Text_in password \<Rightarrow>
          if password = [] \<or> utf16_length password > PASSWORD_MAX_LENGTH \<or> length password > PASSWORD_MAX_BYTES then False
          else (case parseStoredPasswordHash storedHash of
                  None \<Rightarrow> False
                | Some parsed \<Rightarrow>
                    (case derive kdf password (ph_salt parsed) (ph_parameters parsed) of
                       Inl _ \<Rightarrow> False
                     | Inr candidate \<Rightarrow> candidate = ph_digest parsed))
      | _ \<Rightarrow> False)"

section \<open>Sessions\<close>

definition SESSION_MIN_SECRET_LENGTH :: nat where
  "SESSION_MIN_SECRET_LENGTH = 32"

definition SESSION_MAX_TTL_SECONDS :: int where
  "SESSION_MAX_TTL_SECONDS = 12 * 60 * 60"

definition SESSION_MAX_TOKEN_LENGTH :: nat where
  "SESSION_MAX_TOKEN_LENGTH = 1024"

definition CLOCK_SKEW_SECONDS :: int where
  "CLOCK_SKEW_SECONDS = 60"

definition MAX_USER_ID_LENGTH :: nat where
  "MAX_USER_ID_LENGTH = 40"

record UserSessionClaims =
  sc_v :: int
  sc_sub :: string
  sc_sv :: int
  sc_iat :: int
  sc_exp :: int

record CredentialSessionState =
  cs_id :: string
  cs_status :: string
  cs_credentialStatus :: string
  cs_sessionVersion :: int

text \<open>HMAC-SHA256 of a text under a key, as bytes, and \<open>JSON.parse\<close>.\<close>

record session_platform =
  hmac_sha256 :: "string \<Rightarrow> string \<Rightarrow> string"
  json_parse :: "string \<Rightarrow> json option"

definition signature :: "session_platform \<Rightarrow> string \<Rightarrow> string \<Rightarrow> string" where
  "signature sp payload secret = base64url (hmac_sha256 sp secret payload)"

definition isUserId :: "string \<Rightarrow> bool" where
  "isUserId s = (s \<noteq> [] \<and> length s \<le> MAX_USER_ID_LENGTH \<and> list_all b64url_char s)"

definition isSessionVersion :: "int \<Rightarrow> bool" where
  "isSessionVersion v = (1 \<le> v)"

definition claims_json :: "UserSessionClaims \<Rightarrow> json" where
  "claims_json c =
     JObj [(''v'', JNum (sc_v c)), (''sub'', JStr (sc_sub c)), (''sv'', JNum (sc_sv c)), (''iat'', JNum (sc_iat c)),
           (''exp'', JNum (sc_exp c))]"

definition assertSecret :: "string \<Rightarrow> unit res" where
  "assertSecret secret =
     (if length secret < SESSION_MIN_SECRET_LENGTH then Inl (CredentialError ''SESSION_SECRET_WEAK'') else Inr ())"

definition session_claims :: "string \<Rightarrow> int \<Rightarrow> int \<Rightarrow> int \<Rightarrow> UserSessionClaims" where
  "session_claims userId sessionVersion ttlSeconds nowMs =
     (let issuedAt = nowMs div 1000 in
      \<lparr> sc_v = 1, sc_sub = userId, sc_sv = sessionVersion, sc_iat = issuedAt, sc_exp = issuedAt + ttlSeconds \<rparr>)"

definition issueUserSession ::
  "session_platform \<Rightarrow> string \<Rightarrow> int \<Rightarrow> string \<Rightarrow> int \<Rightarrow> int \<Rightarrow> string res" where
  "issueUserSession sp userId sessionVersion secret ttlSeconds nowMs =
     rbind (assertSecret secret) (\<lambda>_.
     if ttlSeconds < 1 \<or> ttlSeconds > SESSION_MAX_TTL_SECONDS then Inl (CredentialError ''SESSION_TTL_OUT_OF_RANGE'')
     else if \<not> isUserId userId \<or> \<not> isSessionVersion sessionVersion then Inl (CredentialError ''SESSION_INVALID'')
     else let body = base64url (render (claims_json (session_claims userId sessionVersion ttlSeconds nowMs)))
          in Inr (body @ ''.'' @ signature sp body secret))"

text \<open>The last entry of a key counts, as in the object \<open>JSON.parse\<close> builds.\<close>

definition json_field :: "string \<Rightarrow> json \<Rightarrow> json option" where
  "json_field k j = (case j of JObj es \<Rightarrow> map_of (rev es) k | _ \<Rightarrow> None)"

definition json_int :: "string \<Rightarrow> json \<Rightarrow> int option" where
  "json_int k j = (case json_field k j of Some (JNum n) \<Rightarrow> Some n | _ \<Rightarrow> None)"

definition read_claims :: "json \<Rightarrow> UserSessionClaims option" where
  "read_claims j =
     (case (json_int ''v'' j, json_field ''sub'' j, json_int ''sv'' j, json_int ''iat'' j, json_int ''exp'' j) of
        (Some v, Some (JStr sub), Some sv, Some iat, Some expiry) \<Rightarrow>
          if v = 1 \<and> isUserId sub \<and> isSessionVersion sv
          then Some \<lparr> sc_v = 1, sc_sub = sub, sc_sv = sv, sc_iat = iat, sc_exp = expiry \<rparr> else None
      | _ \<Rightarrow> None)"

definition claims_current :: "int \<Rightarrow> UserSessionClaims \<Rightarrow> bool" where
  "claims_current nowSeconds c =
     (\<not> sc_exp c \<le> nowSeconds \<and> \<not> sc_iat c > nowSeconds + CLOCK_SKEW_SECONDS \<and> \<not> sc_exp c \<le> sc_iat c \<and>
      \<not> sc_exp c - sc_iat c > SESSION_MAX_TTL_SECONDS)"

definition verifyUserSession :: "session_platform \<Rightarrow> js_input \<Rightarrow> string \<Rightarrow> int \<Rightarrow> UserSessionClaims option res" where
  "verifyUserSession sp v secret nowMs =
     rbind (assertSecret secret) (\<lambda>_.
     Inr (case v of
            Text_in token \<Rightarrow>
              if token = [] \<or> length token > SESSION_MAX_TOKEN_LENGTH then None
              else (case split_text (CHR ''.'') token of
                      [body, supplied] \<Rightarrow>
                        if body = [] \<or> supplied = [] \<or> supplied \<noteq> signature sp body secret then None
                        else Option.bind (json_parse sp (from_base64url body)) (\<lambda>parsed.
                             Option.bind (read_claims parsed) (\<lambda>c.
                             if claims_current (nowMs div 1000) c then Some c else None))
                    | _ \<Rightarrow> None)
          | _ \<Rightarrow> None))"

definition isSessionCurrent :: "UserSessionClaims option \<Rightarrow> CredentialSessionState option \<Rightarrow> bool" where
  "isSessionCurrent claims state =
     (case (claims, state) of
        (Some c, Some s) \<Rightarrow>
          sc_sub c = cs_id s \<and> sc_sv c = cs_sessionVersion s \<and> cs_status s = ''active'' \<and> cs_credentialStatus s = ''active''
      | _ \<Rightarrow> False)"

section \<open>Decoding what was encoded\<close>

lemma b64_val_char [simp]: "n < 64 \<Longrightarrow> b64_val (b64_char n) = n"
  by (auto simp: b64_val_def b64_char_def Let_def)

lemma b64url_of_char: "b64url_char c \<longleftrightarrow>
   (let n = of_char c :: nat in (65 \<le> n \<and> n \<le> 90) \<or> (97 \<le> n \<and> n \<le> 122) \<or> (48 \<le> n \<and> n \<le> 57) \<or> n = 45 \<or> n = 95)"
proof -
  have e: "c = CHR ''-'' \<longleftrightarrow> of_char c = (45 :: nat)" "c = CHR ''_'' \<longleftrightarrow> of_char c = (95 :: nat)"
    using of_char_eq_iff[of c "CHR ''-''", where ?'a = nat] of_char_eq_iff[of c "CHR ''_''", where ?'a = nat] by simp_all
  show ?thesis unfolding b64url_char_def is_digit_def less_eq_char_def e by (simp add: Let_def)
qed

lemma b64_char_alphabet [simp]: "n < 64 \<Longrightarrow> b64url_char (b64_char n)"
  unfolding b64url_of_char by (auto simp: b64_char_def Let_def)

lemma base64url_alphabet: "list_all b64url_char (base64url s)"
proof (induction s rule: base64url.induct)
  case (1 a b c r)
  let ?n = "of_char a * 65536 + of_char b * 256 + of_char c :: nat"
  have "?n div 262144 < 64" using nat_of_char_less_256[of a] nat_of_char_less_256[of b] nat_of_char_less_256[of c] by linarith
  with 1 show ?case by (simp add: Let_def b64_char_alphabet)
next
  case (2 a b)
  have "(of_char a * 1024 + of_char b * 4) div 4096 < (64 :: nat)" using nat_of_char_less_256[of a] nat_of_char_less_256[of b] by linarith
  then show ?case by (simp add: Let_def b64_char_alphabet)
next
  case (3 a)
  have "of_char a * 16 div 64 < (64 :: nat)" using nat_of_char_less_256[of a] by linarith
  then show ?case by (simp add: Let_def b64_char_alphabet)
qed simp


lemma split64: "m = m div 64 * 64 + m mod (64 :: nat)"
  by simp

lemma byte_parts: "z < 256 \<Longrightarrow> (k * 256 + z) mod 256 = z \<and> (k * 256 + z) div 256 = (k :: nat)"
  by simp

lemma from_base64url_base64url [simp]: "from_base64url (base64url s) = s"
proof (induction s rule: base64url.induct)
  case (1 a b c r)
  define x y z where xyz: "x = (of_char a :: nat)" "y = (of_char b :: nat)" "z = (of_char c :: nat)"
  have b: "x < 256" "y < 256" "z < 256" by (simp_all add: xyz)
  define n where "n = x * 65536 + y * 256 + z"
  have "n div 64 div 64 = n div 4096" "n div 4096 div 64 = n div 262144" by (simp_all add: div_mult2_eq[symmetric])
  then have n: "n div 262144 * 262144 + n div 4096 mod 64 * 4096 + n div 64 mod 64 * 64 + n mod 64 = n"
    using split64[of n] split64[of "n div 64"] split64[of "n div 4096"] by linarith
  have l: "n div 262144 < 64" using b by (simp add: n_def less_mult_imp_div_less)
  have n': "n = (x * 256 + y) * 256 + z" by (simp add: n_def)
  have d: "n div 65536 = x" using b by (simp add: n_def)
  have "n mod 256 = z" "n div 256 = x * 256 + y" using byte_parts[OF b(3), of "x * 256 + y"] n' by simp_all
  then have d2: "n div 256 mod 256 = y" "n mod 256 = z" using b by simp_all
  have "char_of x = a" "char_of (n div 256 mod 256) = b" "char_of (n mod 256) = c" unfolding d2 by (simp_all add: xyz)
  with 1 l show ?case by (simp add: Let_def xyz[symmetric] n_def[symmetric] n d)
next
  case (2 a b)
  define x y where xy: "x = (of_char a :: nat)" "y = (of_char b :: nat)"
  have b: "x < 256" "y < 256" by (simp_all add: xy)
  define n where "n = x * 1024 + y * 4"
  have n4: "n div 4 = x * 256 + y" by (simp add: n_def)
  have q: "n div 64 div 64 = n div 4096" "n div 4 div 256 = n div 1024" by (simp_all add: div_mult2_eq[symmetric])
  then have n: "n div 4096 * 4096 + n div 64 mod 64 * 64 + n mod 64 = n"
    using split64[of n] split64[of "n div 64"] by linarith
  have d: "n div 1024 = x" using q(2) byte_parts[OF b(2), of x] unfolding n4 by simp
  have l: "n div 4096 < 64" using b by (simp add: n_def less_mult_imp_div_less)
  have "n div 4 mod 256 = y" using byte_parts[OF b(2), of x] n4 by simp
  then have "char_of x = a" "char_of (n div 4 mod 256) = b" by (simp_all only:) (simp_all add: xy)
  with l show ?case by (simp add: Let_def xy[symmetric] n_def[symmetric] n d)
next
  case (3 a)
  define x where x: "x = (of_char a :: nat)"
  have b: "x < 256" by (simp add: x)
  define n where "n = x * 16"
  have l: "n div 64 < 64" using b by (simp add: n_def less_mult_imp_div_less)
  have "n div 16 = x" by (simp add: n_def)
  then have "char_of (n div 16) = a" by (simp only:) (simp add: x)
  with l show ?case by (simp add: Let_def x[symmetric] n_def[symmetric] split64[symmetric])
qed simp

lemma base64url_plain: "c \<in> set (base64url s) \<Longrightarrow> b64url_char c"
  using base64url_alphabet[of s] by (simp add: list_all_iff)

lemma base64url_Nil [simp]: "base64url s = [] \<longleftrightarrow> s = []"
  by (cases s rule: base64url.cases) (auto simp: Let_def)

lemma separators_not_alphabet: "\<not> b64url_char (CHR ''.'')" "\<not> b64url_char (CHR ''$'')"
  by (simp_all add: b64url_of_char Let_def)

lemma base64url_no_separator: "CHR ''.'' \<notin> set (base64url s)" "CHR ''$'' \<notin> set (base64url s)"
  using base64url_plain separators_not_alphabet by blast+

section \<open>Sessions\<close>

lemma length_base64url: "length (base64url s) \<le> 4 * length s div 3 + 2"
  by (induction s rule: base64url.induct) (auto simp: Let_def)

lemma read_claims_json: "isUserId (sc_sub c) \<Longrightarrow> isSessionVersion (sc_sv c) \<Longrightarrow> sc_v c = 1 \<Longrightarrow> read_claims (claims_json c) = Some c"
  by (simp add: read_claims_def claims_json_def json_int_def json_field_def)

text \<open>
  An issued session verifies, under the same secret, to exactly the claims it was issued with until the
  second it expires, and never after, when HMAC yields a digest and \<open>JSON.parse\<close> reads the claims back.
\<close>
theorem session_round_trip:
  assumes "issueUserSession sp userId version secret ttl issuedMs = Inr token"
    and "\<And>t. hmac_sha256 sp secret t \<noteq> []"
    and "json_parse sp (render (claims_json (session_claims userId version ttl issuedMs))) =
           Some (claims_json (session_claims userId version ttl issuedMs))"
    and "length token \<le> SESSION_MAX_TOKEN_LENGTH"
    and "issuedMs div 1000 \<le> nowMs div 1000 + CLOCK_SKEW_SECONDS"
  shows "verifyUserSession sp (Text_in token) secret nowMs =
           Inr (if nowMs div 1000 < issuedMs div 1000 + ttl then Some (session_claims userId version ttl issuedMs) else None)"
proof -
  let ?c = "session_claims userId version ttl issuedMs"
  let ?body = "base64url (render (claims_json ?c))"
  have secret: "assertSecret secret = Inr ()" and ttl: "1 \<le> ttl" "ttl \<le> SESSION_MAX_TTL_SECONDS" and ids: "isUserId userId" "isSessionVersion version"
    and token: "token = ?body @ ''.'' @ signature sp ?body secret"
    using assms(1) by (auto simp: issueUserSession_def rbind_Inr_iff Let_def split: if_splits)
  have "split_text (CHR ''.'') token = [?body, signature sp ?body secret]"
    unfolding token signature_def using base64url_no_separator(1) by (simp add: split_text_append split_text_plain)
  moreover have "json_parse sp (from_base64url ?body) = Some (claims_json ?c)"
    using assms(3) by simp
  moreover have "read_claims (claims_json ?c) = Some ?c" using ids by (intro read_claims_json) (simp_all add: session_claims_def Let_def)
  moreover have "claims_current (nowMs div 1000) ?c \<longleftrightarrow> nowMs div 1000 < issuedMs div 1000 + ttl"
    using ttl assms(5) by (auto simp: claims_current_def session_claims_def Let_def)
  moreover have "?body \<noteq> []" by (simp add: claims_json_def)
  moreover have "signature sp ?body secret \<noteq> []" using assms(2) by (simp add: signature_def)
  ultimately show ?thesis using assms(4) secret token by (simp add: verifyUserSession_def)
qed

definition demo_sessions :: session_platform where
  "demo_sessions = \<lparr> hmac_sha256 = (\<lambda>key t. take 32 (key @ t)), json_parse = (\<lambda>_. Some (claims_json (session_claims ''u1'' 3 600 5000))) \<rparr>"

definition demo_secret :: string where
  "demo_secret = replicate 32 (CHR ''k'')"

lemma demo_issue: obtains token where "issueUserSession demo_sessions ''u1'' 3 demo_secret 600 5000 = Inr token"
    "length token \<le> SESSION_MAX_TOKEN_LENGTH"
proof -
  let ?body = "base64url (render (claims_json (session_claims ''u1'' 3 600 5000)))"
  have i: "issueUserSession demo_sessions ''u1'' 3 demo_secret 600 5000 = Inr (?body @ ''.'' @ signature demo_sessions ?body demo_secret)"
    by (simp add: issueUserSession_def assertSecret_def demo_secret_def SESSION_MIN_SECRET_LENGTH_def SESSION_MAX_TTL_SECONDS_def
        isUserId_def MAX_USER_ID_LENGTH_def b64url_of_char Let_def isSessionVersion_def)
  have "render (claims_json (session_claims ''u1'' 3 600 5000)) = CHR ''{'' # quote ''v'' @ '':1,'' @ quote ''sub'' @ '':'' @ quote ''u1'' @ '','' @
      quote ''sv'' @ '':3,'' @ quote ''iat'' @ '':5,'' @ quote ''exp'' @ '':605}''"
    by code_simp
  then have "length (render (claims_json (session_claims ''u1'' 3 600 5000))) \<le> 60"
    by (simp add: quote_def escape_char_def escape_table_def)
  then have "length ?body \<le> 82" using length_base64url[of "render (claims_json (session_claims ''u1'' 3 600 5000))"] by linarith
  moreover have "length (signature demo_sessions ?body demo_secret) \<le> 44"
    using length_base64url[of "hmac_sha256 demo_sessions demo_secret ?body"] by (simp add: signature_def demo_sessions_def demo_secret_def)
  ultimately show thesis using that[OF i] by (simp add: SESSION_MAX_TOKEN_LENGTH_def)
qed

theorem session_round_trip_witness:
  "\<exists>token. issueUserSession demo_sessions ''u1'' 3 demo_secret 600 5000 = Inr token \<and>
     verifyUserSession demo_sessions (Text_in token) demo_secret 604000 = Inr (Some (session_claims ''u1'' 3 600 5000)) \<and>
     verifyUserSession demo_sessions (Text_in token) demo_secret 605000 = Inr None"
proof -
  obtain token where t: "issueUserSession demo_sessions ''u1'' 3 demo_secret 600 5000 = Inr token" "length token \<le> SESSION_MAX_TOKEN_LENGTH"
    by (rule demo_issue)
  have h: "hmac_sha256 demo_sessions demo_secret s \<noteq> []" for s by (simp add: demo_sessions_def demo_secret_def)
  have j: "json_parse demo_sessions (render (claims_json (session_claims ''u1'' 3 600 5000))) = Some (claims_json (session_claims ''u1'' 3 600 5000))"
    by (simp add: demo_sessions_def)
  show ?thesis using t(1) session_round_trip[OF t(1) h j t(2), of 604000] session_round_trip[OF t(1) h j t(2), of 605000]
    by (simp add: CLOCK_SKEW_SECONDS_def)
qed

section \<open>Passwords\<close>

lemma default_parameter_text: "parameter_text default_parameters = ''N=16384,r=8,p=1''"
  by (simp add: parameter_text_def default_parameters_def string_of_nat.simps digit_char_def char_of_def bit_Suc_0_iff)

lemma default_parameters_parse: "parse_parameters (parameter_text default_parameters) = Some default_parameters"
  unfolding default_parameter_text
  by (simp add: parse_parameters_def default_parameters_def parameter_value_def all_digits_def is_digit_def nat_of_digits_def digit_val_def)

lemma default_affordable: "affordable default_parameters"
  by (simp add: affordable_def default_parameters_def isPowerOfTwo_def MAX_COST_def MAX_BLOCK_SIZE_def MAX_PARALLELIZATION_def
      MAX_VERIFY_MEMORY_BYTES_def MAX_VERIFY_WORK_UNITS_def)

lemma parameter_text_plain: "CHR ''$'' \<notin> set (parameter_text default_parameters)" "length (parameter_text default_parameters) = 15"
  unfolding default_parameter_text by simp_all

lemma parse_encode_hash:
  assumes "8 \<le> length salt" "length salt \<le> 64" "length digest = KEY_LENGTH"
  shows "parseStoredPasswordHash (encode_hash default_parameters salt digest) =
           Some \<lparr> ph_parameters = default_parameters, ph_salt = salt, ph_digest = digest \<rparr>"
proof -
  let ?h = "encode_hash default_parameters salt digest"
  have h: "?h = ''scrypt'' @ CHR ''$'' # parameter_text default_parameters @ CHR ''$'' # base64url salt @ CHR ''$'' # base64url digest"
    by (simp add: encode_hash_def)
  have p: "CHR ''$'' \<notin> set ''scrypt''" by simp
  have "split_text (CHR ''$'') ?h = [''scrypt'', parameter_text default_parameters, base64url salt, base64url digest]"
    unfolding h split_text_append[OF p] split_text_append[OF parameter_text_plain(1)] split_text_append[OF base64url_no_separator(2)]
      split_text_plain[OF base64url_no_separator(2)] ..
  moreover have "length (base64url salt) \<le> 87" "length (base64url digest) \<le> 44"
    using length_base64url[of salt] length_base64url[of digest] assms by (auto simp: KEY_LENGTH_def)
  then have "length ?h \<le> 512" using parameter_text_plain(2) by (simp add: h)
  moreover have "salt \<noteq> []" "digest \<noteq> []" using assms by (auto simp: KEY_LENGTH_def)
  ultimately show ?thesis
    using assms default_affordable base64url_alphabet
    by (simp add: parseStoredPasswordHash_def default_parameters_parse decodeBase64Url_def)
qed

text \<open>
  C32. A stored hash accepts exactly what it was made from: after hashing, a candidate within the size bounds is
  verified if and only if scrypt derives from it, under the salt and cost of the hash, the digest it derived
  from the password itself.
\<close>
theorem stored_hash_accepts:
  assumes "hashPassword kdf salt password identity = Inr h" "8 \<le> length salt" "length salt \<le> 64"
    and "\<And>d. kdf password salt default_parameters = Some d \<Longrightarrow> length d = KEY_LENGTH"
  shows "verifyPassword kdf (Text_in candidate) h \<longleftrightarrow>
           candidate \<noteq> [] \<and> utf16_length candidate \<le> PASSWORD_MAX_LENGTH \<and> length candidate \<le> PASSWORD_MAX_BYTES \<and>
           kdf candidate salt default_parameters = kdf password salt default_parameters"
proof -
  obtain d where d: "kdf password salt default_parameters = Some d" "h = encode_hash default_parameters salt d"
    using assms(1) by (auto simp: hashPassword_def derive_def rbind_Inr_iff split: if_splits option.splits)
  have "parseStoredPasswordHash h = Some \<lparr> ph_parameters = default_parameters, ph_salt = salt, ph_digest = d \<rparr>"
    unfolding d(2) by (rule parse_encode_hash[OF assms(2,3) assms(4)[OF d(1)]])
  then show ?thesis using d(1)
    by (auto simp: verifyPassword_def derive_def split: option.splits)
qed

definition demo_scrypt :: scrypt where
  "demo_scrypt password salt parameters = Some (take 32 (password @ replicate 32 (CHR ''x'')))"

definition demo_password :: string where
  "demo_password = ''Correct-Horse-9''"

lemma demo_password_accepted: "checkPasswordPolicy (Text_in demo_password) no_identity = []"
  by (simp add: checkPasswordPolicy_def demo_password_def no_identity_def PASSWORD_MIN_LENGTH_def PASSWORD_MAX_LENGTH_def PASSWORD_MAX_BYTES_def utf16_units_def
      lower_letter_def upper_letter_def is_digit_def has_control_character_def contains_identity_def)

theorem stored_hash_accepts_witness:
  "\<exists>h. hashPassword demo_scrypt (replicate 16 (CHR ''s'')) demo_password no_identity = Inr h \<and>
     verifyPassword demo_scrypt (Text_in demo_password) h \<and> \<not> verifyPassword demo_scrypt (Text_in ''wrong'') h"
proof -
  obtain h where h: "hashPassword demo_scrypt (replicate 16 (CHR ''s'')) demo_password no_identity = Inr h"
    by (simp add: hashPassword_def demo_password_accepted derive_def demo_scrypt_def)
  have "length d = KEY_LENGTH" if "demo_scrypt demo_password (replicate 16 (CHR ''s'')) default_parameters = Some d" for d
    using that by (auto simp: demo_scrypt_def KEY_LENGTH_def)
  note a = stored_hash_accepts[OF h _ _ this]
  have "verifyPassword demo_scrypt (Text_in demo_password) h" "\<not> verifyPassword demo_scrypt (Text_in ''wrong'') h"
    unfolding a[simplified] by (simp_all add: demo_password_def PASSWORD_MAX_LENGTH_def PASSWORD_MAX_BYTES_def demo_scrypt_def utf16_units_def)
  with h show ?thesis by blast
qed

text \<open>No verification is bought beyond the envelope, whatever the row says.\<close>

lemma parsed_affordable: "parseStoredPasswordHash h = Some p \<Longrightarrow> affordable (ph_parameters p)"
  by (auto simp: parseStoredPasswordHash_def bind_eq_Some_conv split: if_splits list.splits)

lemma two_parts_unparseable: "CHR ''$'' \<notin> set a \<Longrightarrow> CHR ''$'' \<notin> set b \<Longrightarrow> parseStoredPasswordHash (a @ CHR ''$'' # b) = None"
  by (simp add: parseStoredPasswordHash_def split_text_append split_text_plain)

section \<open>Handles\<close>

lemma normalizeUsername_no_at: "normalizeUsername v = Inr s \<Longrightarrow> CHR ''@'' \<notin> set s \<and> isUsernameShape s"
  by (auto simp: normalizeUsername_def isUsernameShape_def username_pattern_def list_all_iff alnum_def is_digit_def less_eq_char_def
      split: option.splits if_splits)

end
