(* ===== verification/KeyedTable.thy ===== *)
theory KeyedTable
  imports JsText
begin

text \<open>
  Tables keyed by a text column that is compared without letter case (\<open>utf8mb4_general_ci\<close>): the row under a
  key, a table with one row rewritten, unique keys, and how lookups see inserts and updates.
\<close>

lemma same_key_sym: "same_key a b \<longleftrightarrow> same_key b a"
  by (auto simp: same_key_def)

lemma same_key_trans: "same_key a b \<Longrightarrow> same_key b c \<Longrightarrow> same_key a c"
  by (simp add: same_key_def)

lemma same_key_cong: "same_key a b \<Longrightarrow> same_key a = same_key b"
  by (auto simp: same_key_def)

text \<open>The key as the collation compares it.\<close>

definition fold_key :: "string \<Rightarrow> string" where
  "fold_key s = map fold_char s"

lemma same_key_fold: "same_key a b \<longleftrightarrow> fold_key a = fold_key b"
  by (simp add: same_key_def fold_key_def)

text \<open>The row under a key, and the table with that row rewritten.\<close>

definition row_at :: "('r \<Rightarrow> string) \<Rightarrow> string \<Rightarrow> 'r list \<Rightarrow> 'r option" where
  "row_at k i rows = find (\<lambda>r. same_key (k r) i) rows"

definition change_at :: "('r \<Rightarrow> string) \<Rightarrow> string \<Rightarrow> ('r \<Rightarrow> 'r) \<Rightarrow> 'r list \<Rightarrow> 'r list" where
  "change_at k t f rows = map (\<lambda>r. if same_key (k r) t then f r else r) rows"

definition unique_keys :: "('r \<Rightarrow> string) \<Rightarrow> 'r list \<Rightarrow> bool" where
  "unique_keys k rows = distinct (map (fold_key \<circ> k) rows)"

lemma row_at_cong: "same_key i j \<Longrightarrow> row_at k i rows = row_at k j rows"
  by (simp add: row_at_def same_key_def)

lemma row_at_Some: "row_at k i rows = Some r \<Longrightarrow> r \<in> set rows \<and> same_key (k r) i"
  by (auto simp: row_at_def find_Some_iff)

lemma row_at_None: "row_at k i rows = None \<longleftrightarrow> (\<forall>r \<in> set rows. \<not> same_key (k r) i)"
  by (auto simp: row_at_def find_None_iff)

lemma row_at_member: "unique_keys k rows \<Longrightarrow> r \<in> set rows \<Longrightarrow> same_key (k r) i \<Longrightarrow> row_at k i rows = Some r"
  using find_distinct_key[of "fold_key \<circ> k" rows r] row_at_cong[of "k r" i k rows]
  by (simp add: unique_keys_def row_at_def same_key_fold)

lemma row_at_append: "row_at k i (rows @ [r]) = (case row_at k i rows of Some x \<Rightarrow> Some x | None \<Rightarrow> if same_key (k r) i then Some r else None)"
  by (induction rows) (auto simp: row_at_def)

lemma row_at_change:
  assumes "\<And>r. k (f r) = k r"
  shows "row_at k i (change_at k t f rows) = (if same_key i t then map_option f (row_at k i rows) else row_at k i rows)"
  by (induction rows) (auto simp: row_at_def change_at_def assms same_key_fold)

lemma unique_keys_change: "(\<And>r. k (f r) = k r) \<Longrightarrow> unique_keys k (change_at k t f rows) = unique_keys k rows"
  by (simp add: unique_keys_def change_at_def o_def if_distrib[of k] if_distrib[of fold_key] cong: if_cong)

lemma unique_keys_append: "unique_keys k (rows @ [r]) \<longleftrightarrow> unique_keys k rows \<and> row_at k (k r) rows = None"
  by (auto simp: unique_keys_def row_at_None same_key_fold image_iff)

end
