(* ===== verification/UserAdministration.thy ===== *)
theory UserAdministration
  imports Credentials AuditChain KeyedTable
begin

text \<open>
  User administration (\<open>src/src/identity/userAdministration.ts\<close> and \<open>src/src/adapters/mysqlUserAdministration.ts\<close>) over
  the user, credential and role tables and the audit log. A transaction is one function: it either returns the
  new tables or an error, and then the tables stay. User ids and emails are compared without letter case, as
  their columns are; user names and the fixed vocabularies exactly. Ids, clocks, random bytes and the password
  hasher are arguments.
\<close>

section \<open>Errors\<close>

definition inputError :: "string \<Rightarrow> PasswordPolicyViolation list \<Rightarrow> js_error" where
  "inputError code violations = UserAdminError ''input'' code (map violation_text violations)"

definition refusal :: "string \<Rightarrow> js_error" where
  "refusal code = UserAdminError ''refusal'' code []"

definition fault :: "string \<Rightarrow> js_error" where
  "fault code = UserAdminError ''fault'' code []"

definition asUserAdminError :: "js_error \<Rightarrow> js_error" where
  "asUserAdminError e = (case e of UserAdminError _ _ _ \<Rightarrow> e | _ \<Rightarrow> fault ''USER_ADMIN_UNEXPECTED_FAILURE'')"

section \<open>Input\<close>

definition require_id :: "string \<Rightarrow> js_input \<Rightarrow> string res" where
  "require_id code v = (case v of Text_in s \<Rightarrow> if isUserId s then Inr s else Inl (inputError code []) | _ \<Rightarrow> Inl (inputError code []))"

definition requireActorUserId :: "js_input \<Rightarrow> string res" where
  "requireActorUserId v = require_id ''USER_ADMIN_ACTOR_INVALID'' v"

definition requireTargetUserId :: "js_input \<Rightarrow> string res" where
  "requireTargetUserId v = require_id ''USER_ADMIN_TARGET_INVALID'' v"

definition ASSIGNABLE_ROLES :: "string list" where
  "ASSIGNABLE_ROLES = [''admin'', ''user'']"

definition requireAssignableRole :: "js_input \<Rightarrow> string res" where
  "requireAssignableRole v =
     (case v of
        Text_in s \<Rightarrow> if s \<in> set ASSIGNABLE_ROLES then Inr s else Inl (inputError ''USER_ADMIN_ROLE_INVALID'' [])
      | _ \<Rightarrow> Inl (inputError ''USER_ADMIN_ROLE_INVALID'' []))"

definition mapCredentialError :: "js_error \<Rightarrow> string \<Rightarrow> js_error" where
  "mapCredentialError e code =
     (case e of CredentialError _ \<Rightarrow> inputError code [] | _ \<Rightarrow> fault ''USER_ADMIN_UNEXPECTED_FAILURE'')"

definition requireUsername :: "js_input \<Rightarrow> string res" where
  "requireUsername v =
     (case normalizeUsername v of Inr s \<Rightarrow> Inr s | Inl e \<Rightarrow> Inl (mapCredentialError e ''USER_ADMIN_USERNAME_MALFORMED''))"

definition requireEmail :: "js_input \<Rightarrow> string res" where
  "requireEmail v =
     (case normalizeEmail v of Inr s \<Rightarrow> Inr s | Inl e \<Rightarrow> Inl (mapCredentialError e ''USER_ADMIN_EMAIL_MALFORMED''))"

definition requireAcceptablePassword :: "js_input \<Rightarrow> PasswordIdentityContext \<Rightarrow> string res" where
  "requireAcceptablePassword v identity =
     (let violations = checkPasswordPolicy v identity in
      case v of
        Text_in password \<Rightarrow>
          if violations \<noteq> [] then Inl (inputError ''USER_ADMIN_PASSWORD_POLICY'' violations) else Inr password
      | _ \<Rightarrow> Inl (inputError ''USER_ADMIN_PASSWORD_POLICY'' violations))"

text \<open>A paging value: absent, an integer, or something else.\<close>

datatype number_input = No_number | Integer_in int | Not_integer

definition USER_LIST_DEFAULT_LIMIT :: int where
  "USER_LIST_DEFAULT_LIMIT = 50"

definition USER_LIST_MAX_LIMIT :: int where
  "USER_LIST_MAX_LIMIT = 200"

definition USER_LIST_MAX_OFFSET :: int where
  "USER_LIST_MAX_OFFSET = 100000"

definition requireListWindow :: "number_input \<Rightarrow> number_input \<Rightarrow> (int \<times> int) res" where
  "requireListWindow limit offset =
     (case (if limit = No_number then Integer_in USER_LIST_DEFAULT_LIMIT else limit,
            if offset = No_number then Integer_in 0 else offset) of
        (Integer_in l, Integer_in k) \<Rightarrow>
          if l < 1 \<or> l > USER_LIST_MAX_LIMIT \<or> k < 0 \<or> k > USER_LIST_MAX_OFFSET
          then Inl (inputError ''USER_ADMIN_LIST_WINDOW_INVALID'' []) else Inr (l, k)
      | _ \<Rightarrow> Inl (inputError ''USER_ADMIN_LIST_WINDOW_INVALID'' []))"

text \<open>\<open>None\<close> stands for a value that is not a boolean.\<close>

definition requireActivationFlag :: "bool option \<Rightarrow> bool res" where
  "requireActivationFlag v =
     (case v of None \<Rightarrow> Inl (inputError ''USER_ADMIN_ACTIVATION_FLAG_INVALID'' []) | Some b \<Rightarrow> Inr b)"

definition MAX_SESSION_VERSION :: int where
  "MAX_SESSION_VERSION = 4294967295"

definition requireSessionVersion :: "int \<Rightarrow> int res" where
  "requireSessionVersion v =
     (if v < 1 \<or> v > MAX_SESSION_VERSION then Inl (fault ''USER_ADMIN_STATE_MALFORMED'') else Inr v)"

definition nextSessionVersion :: "int \<Rightarrow> int res" where
  "nextSessionVersion current =
     (if current \<ge> MAX_SESSION_VERSION then Inl (refusal ''USER_ADMIN_SESSION_VERSION_EXHAUSTED'') else Inr (current + 1))"

section \<open>Tables\<close>

record UserRow =
  us_id :: string
  us_kind :: string
  us_email :: "string option"
  us_oidcIssuer :: "string option"
  us_oidcSubject :: "string option"
  us_displayName :: "string option"
  us_maxSensitivityTier :: string
  us_status :: string
  us_lastLoginAt :: "int option"
  us_createdAt :: int

record CredentialRow =
  cr_userId :: string
  cr_username :: string
  cr_passwordHash :: string
  cr_sessionVersion :: int
  cr_status :: string
  cr_passwordChangedAt :: int
  cr_disabledAt :: "int option"

record RoleRow =
  rl_id :: string
  rl_userId :: string
  rl_roleCode :: string
  rl_grantedBy :: "string option"

record user_db =
  ud_users :: "UserRow list"
  ud_credentials :: "CredentialRow list"
  ud_roles :: "RoleRow list"
  ud_audit :: audit_log

definition user_at :: "user_db \<Rightarrow> string \<Rightarrow> UserRow option" where
  "user_at db i = row_at us_id i (ud_users db)"

definition credential_at :: "user_db \<Rightarrow> string \<Rightarrow> CredentialRow option" where
  "credential_at db i = row_at cr_userId i (ud_credentials db)"

definition roles_at :: "user_db \<Rightarrow> string \<Rightarrow> RoleRow list" where
  "roles_at db i = filter (\<lambda>r. same_key (rl_userId r) i) (ud_roles db)"

text \<open>\<open>sort()\<close> on an array of strings, and \<open>ORDER BY role_code\<close>.\<close>

definition sorted_text :: "string list \<Rightarrow> string list" where
  "sorted_text xs = sort_key (\<lambda>x. x) xs"

section \<open>The locked state\<close>

record ManagedAccount =
  ma_userId :: string
  ma_kind :: string
  ma_userStatus :: string
  ma_email :: "string option"
  ma_username :: "string option"
  ma_credentialStatus :: "string option"
  ma_sessionVersion :: "int option"
  ma_roles :: "string list"

definition isActiveAdmin :: "ManagedAccount \<Rightarrow> bool" where
  "isActiveAdmin a =
     (ma_kind a = ''user'' \<and> ma_userStatus a = ''active'' \<and> ma_credentialStatus a = Some ''active'' \<and> ''admin'' \<in> set (ma_roles a))"

definition isTombstoned :: "ManagedAccount \<Rightarrow> bool" where
  "isTombstoned a = (ma_userStatus a = ''tombstoned'' \<or> ma_credentialStatus a = Some ''tombstoned'')"

definition requireManageableAccount :: "ManagedAccount option \<Rightarrow> ManagedAccount res" where
  "requireManageableAccount account =
     (case account of
        None \<Rightarrow> Inl (refusal ''USER_ADMIN_USER_NOT_FOUND'')
      | Some a \<Rightarrow>
          if ma_kind a \<noteq> ''user'' then Inl (refusal ''USER_ADMIN_USER_NOT_MANAGEABLE'')
          else if ma_credentialStatus a = None then Inl (refusal ''USER_ADMIN_CREDENTIAL_NOT_FOUND'')
          else if isTombstoned a then Inl (refusal ''USER_ADMIN_ACCOUNT_TOMBSTONED'')
          else Inr a)"

definition refuseSelfTarget :: "string \<Rightarrow> string \<Rightarrow> string \<Rightarrow> unit res" where
  "refuseSelfTarget actorUserId targetUserId code = (if actorUserId = targetUserId then Inl (refusal code) else Inr ())"

definition refuseLastActiveAdmin :: "ManagedAccount \<Rightarrow> nat \<Rightarrow> unit res" where
  "refuseLastActiveAdmin account otherActiveAdmins =
     (if isActiveAdmin account \<and> otherActiveAdmins < 1 then Inl (refusal ''USER_ADMIN_LAST_ACTIVE_ADMIN'') else Inr ())"

definition removesAdminRole :: "ManagedAccount \<Rightarrow> string \<Rightarrow> bool" where
  "removesAdminRole account nextRole = (''admin'' \<in> set (ma_roles account) \<and> nextRole \<noteq> ''admin'')"

definition managed_account :: "UserRow \<Rightarrow> CredentialRow option \<Rightarrow> string list \<Rightarrow> ManagedAccount" where
  "managed_account u c roles =
     \<lparr> ma_userId = us_id u, ma_kind = us_kind u, ma_userStatus = us_status u, ma_email = us_email u,
       ma_username = map_option cr_username c, ma_credentialStatus = map_option cr_status c,
       ma_sessionVersion = map_option cr_sessionVersion c, ma_roles = roles \<rparr>"

definition readAccount :: "user_db \<Rightarrow> string \<Rightarrow> ManagedAccount option res" where
  "readAccount db targetUserId =
     (case user_at db targetUserId of
        None \<Rightarrow> Inr None
      | Some u \<Rightarrow>
          let c = credential_at db (us_id u);
              a = managed_account u c (sorted_text (map rl_roleCode (roles_at db targetUserId)))
          in rbind (case c of None \<Rightarrow> Inr () | Some c \<Rightarrow> rbind (requireSessionVersion (cr_sessionVersion c)) (\<lambda>_. Inr ()))
               (\<lambda>_. Inr (Some a)))"

definition countOtherActiveAdmins :: "user_db \<Rightarrow> string \<Rightarrow> nat" where
  "countOtherActiveAdmins db targetUserId =
     length [r. u \<leftarrow> ud_users db, c \<leftarrow> ud_credentials db, r \<leftarrow> ud_roles db,
                same_key (cr_userId c) (us_id u) \<and> same_key (rl_userId r) (us_id u) \<and> us_kind u = ''user'' \<and>
                us_status u = ''active'' \<and> cr_status c = ''active'' \<and> rl_roleCode r = ''admin'' \<and>
                \<not> same_key (us_id u) targetUserId]"

section \<open>Hashes, sentinels and the audit event\<close>

definition MIN_PASSWORD_HASH_LENGTH :: nat where
  "MIN_PASSWORD_HASH_LENGTH = 40"

definition MAX_PASSWORD_HASH_LENGTH :: nat where
  "MAX_PASSWORD_HASH_LENGTH = 255"

definition requireStorablePasswordHash :: "string \<Rightarrow> string res" where
  "requireStorablePasswordHash h =
     (if length h < MIN_PASSWORD_HASH_LENGTH \<or> length h > MAX_PASSWORD_HASH_LENGTH
      then Inl (fault ''USER_ADMIN_HASH_UNUSABLE'') else Inr h)"

definition buildRevokedPasswordSentinel :: "string \<Rightarrow> string res" where
  "buildRevokedPasswordSentinel random = requireStorablePasswordHash (''revoked$'' @ base64url random)"

type_synonym PasswordHasher = "string \<Rightarrow> PasswordIdentityContext \<Rightarrow> string res"

definition hashForStorage :: "PasswordHasher \<Rightarrow> string \<Rightarrow> PasswordIdentityContext \<Rightarrow> string res" where
  "hashForStorage hasher password identity =
     (case hasher password identity of
        Inl e \<Rightarrow> Inl (if e = CredentialError ''PASSWORD_POLICY'' then inputError ''USER_ADMIN_PASSWORD_POLICY'' []
                     else fault ''USER_ADMIN_HASHING_FAILED'')
      | Inr hashed \<Rightarrow> requireStorablePasswordHash hashed)"

record UserLifecycleFacts =
  lf_userId :: string
  lf_userStatus :: string
  lf_credentialStatus :: string
  lf_roles :: "string list"
  lf_sessionVersion :: int

definition userLifecycleHash :: "runtime \<Rightarrow> UserLifecycleFacts \<Rightarrow> string" where
  "userLifecycleHash rt f =
     sha256Hex rt (render (JArr [JStr ''kaudit-user-lifecycle'', JStr (lf_userId f), JStr (lf_userStatus f),
       JStr (lf_credentialStatus f), JArr (map JStr (sorted_text (lf_roles f))), JNum (lf_sessionVersion f)]))"

definition accountLifecycleFacts :: "ManagedAccount \<Rightarrow> UserLifecycleFacts" where
  "accountLifecycleFacts a =
     \<lparr> lf_userId = ma_userId a, lf_userStatus = ma_userStatus a,
       lf_credentialStatus = coalesce (ma_credentialStatus a) ''none'', lf_roles = ma_roles a,
       lf_sessionVersion = coalesce (ma_sessionVersion a) 0 \<rparr>"

definition buildUserAdministrationAuditEvent ::
  "string \<Rightarrow> string \<Rightarrow> string \<Rightarrow> string option \<Rightarrow> string \<Rightarrow> string \<Rightarrow> int \<Rightarrow> AuditEvent" where
  "buildUserAdministrationAuditEvent action actorUserId targetUserId beforeHash afterHash correlationId occurredAt =
     \<lparr> ae_actorUserId = Some actorUserId, ae_actorEmail = None, ae_action = action, ae_resourceType = ''kaudit_user'',
       ae_resourceId = Some targetUserId, ae_outcome = Success, ae_purpose = ''user_administration'',
       ae_correlationId = correlationId, ae_ipAddress = None, ae_client = Some ''admin:user-administration'',
       ae_beforeHash = beforeHash, ae_afterHash = Some afterHash, ae_occurredAt = occurredAt \<rparr>"

section \<open>Guarded writes\<close>

text \<open>One guarded update, with the rows it matched counted.\<close>

definition write_rows :: "nat \<Rightarrow> ('a \<Rightarrow> bool) \<Rightarrow> ('a \<Rightarrow> 'a) \<Rightarrow> 'a list \<Rightarrow> 'a list res" where
  "write_rows expected p f rows =
     (if length (filter p rows) \<noteq> expected then Inl (fault ''USER_ADMIN_WRITE_COUNT_UNEXPECTED'')
      else Inr (map (\<lambda>r. if p r then f r else r) rows))"

definition identifier_conflict :: js_error where
  "identifier_conflict = refusal ''USER_ADMIN_IDENTIFIER_CONFLICT''"

definition same_email :: "string option \<Rightarrow> string \<Rightarrow> bool" where
  "same_email stored email = (case stored of None \<Rightarrow> False | Some e \<Rightarrow> same_key e email)"

definition insertUser :: "string \<Rightarrow> string \<Rightarrow> int \<Rightarrow> user_db \<Rightarrow> user_db res" where
  "insertUser userId email now db =
     (if list_ex (\<lambda>u. same_key (us_id u) userId \<or> same_email (us_email u) email) (ud_users db) then Inl identifier_conflict
      else Inr (db\<lparr> ud_users := ud_users db @
        [\<lparr> us_id = userId, us_kind = ''user'', us_email = Some email, us_oidcIssuer = None, us_oidcSubject = None,
           us_displayName = None, us_maxSensitivityTier = ''K1'',
           us_status = ''active'', us_lastLoginAt = None, us_createdAt = now \<rparr>] \<rparr>))"

definition insertCredential :: "string \<Rightarrow> string \<Rightarrow> string \<Rightarrow> int \<Rightarrow> user_db \<Rightarrow> user_db res" where
  "insertCredential userId username passwordHash now db =
     (if list_ex (\<lambda>c. same_key (cr_userId c) userId \<or> cr_username c = username) (ud_credentials db)
      then Inl identifier_conflict
      else Inr (db\<lparr> ud_credentials := ud_credentials db @
        [\<lparr> cr_userId = userId, cr_username = username, cr_passwordHash = passwordHash, cr_sessionVersion = 1,
           cr_status = ''active'', cr_passwordChangedAt = now, cr_disabledAt = None \<rparr>] \<rparr>))"

definition insertRole :: "string \<Rightarrow> string \<Rightarrow> string \<Rightarrow> string \<Rightarrow> user_db \<Rightarrow> user_db res" where
  "insertRole roleId userId role grantedBy db =
     (if list_ex (\<lambda>r. same_key (rl_id r) roleId \<or> (same_key (rl_userId r) userId \<and> rl_roleCode r = role)) (ud_roles db)
      then Inl identifier_conflict
      else Inr (db\<lparr> ud_roles := ud_roles db @
        [\<lparr> rl_id = roleId, rl_userId = userId, rl_roleCode = role, rl_grantedBy = Some grantedBy \<rparr>] \<rparr>))"

definition deleteRoles :: "string \<Rightarrow> nat \<Rightarrow> user_db \<Rightarrow> user_db res" where
  "deleteRoles userId expected db =
     (if length (roles_at db userId) \<noteq> expected then Inl (fault ''USER_ADMIN_WRITE_COUNT_UNEXPECTED'')
      else Inr (db\<lparr> ud_roles := filter (\<lambda>r. \<not> same_key (rl_userId r) userId) (ud_roles db) \<rparr>))"

definition open_user :: "string \<Rightarrow> UserRow \<Rightarrow> bool" where
  "open_user userId u = (same_key (us_id u) userId \<and> us_kind u = ''user'' \<and> us_status u \<noteq> ''tombstoned'')"

definition open_credential :: "string \<Rightarrow> CredentialRow \<Rightarrow> bool" where
  "open_credential userId c = (same_key (cr_userId c) userId \<and> cr_status c \<noteq> ''tombstoned'')"

definition write_user :: "string \<Rightarrow> (UserRow \<Rightarrow> UserRow) \<Rightarrow> user_db \<Rightarrow> user_db res" where
  "write_user userId f db =
     rbind (write_rows 1 (open_user userId) f (ud_users db)) (\<lambda>rows. Inr (db\<lparr> ud_users := rows \<rparr>))"

definition write_credential :: "string \<Rightarrow> (CredentialRow \<Rightarrow> CredentialRow) \<Rightarrow> user_db \<Rightarrow> user_db res" where
  "write_credential userId f db =
     rbind (write_rows 1 (open_credential userId) f (ud_credentials db)) (\<lambda>rows. Inr (db\<lparr> ud_credentials := rows \<rparr>))"

definition updateUsername :: "string \<Rightarrow> string \<Rightarrow> string option \<Rightarrow> user_db \<Rightarrow> user_db res" where
  "updateUsername username userId previous db =
     (if list_ex (\<lambda>c. cr_username c = username \<and> \<not> same_key (cr_userId c) userId) (ud_credentials db) then Inl identifier_conflict
      else rbind (write_rows 1 (\<lambda>c. open_credential userId c \<and> Some (cr_username c) = previous)
                    (\<lambda>c. c\<lparr> cr_username := username \<rparr>) (ud_credentials db)) (\<lambda>rows.
           Inr (db\<lparr> ud_credentials := rows \<rparr>)))"

definition updateEmail :: "string \<Rightarrow> string \<Rightarrow> user_db \<Rightarrow> user_db res" where
  "updateEmail email userId db =
     (if list_ex (\<lambda>u. same_email (us_email u) email \<and> \<not> same_key (us_id u) userId) (ud_users db) then Inl identifier_conflict
      else write_user userId (\<lambda>u. u\<lparr> us_email := Some email \<rparr>) db)"

definition disable_row :: "string \<Rightarrow> int \<Rightarrow> CredentialRow \<Rightarrow> CredentialRow" where
  "disable_row status now c =
     c\<lparr> cr_status := status, cr_disabledAt := Some (coalesce (cr_disabledAt c) now), cr_sessionVersion := cr_sessionVersion c + 1 \<rparr>"

definition enable_row :: "CredentialRow \<Rightarrow> CredentialRow" where
  "enable_row c = c\<lparr> cr_status := ''active'', cr_disabledAt := None, cr_sessionVersion := cr_sessionVersion c + 1 \<rparr>"

definition reset_row :: "string \<Rightarrow> int \<Rightarrow> CredentialRow \<Rightarrow> CredentialRow" where
  "reset_row passwordHash now c =
     c\<lparr> cr_passwordHash := passwordHash, cr_passwordChangedAt := now, cr_sessionVersion := cr_sessionVersion c + 1 \<rparr>"

definition tombstone_row :: "string \<Rightarrow> int \<Rightarrow> CredentialRow \<Rightarrow> CredentialRow" where
  "tombstone_row sentinel now c = (disable_row ''tombstoned'' now c)\<lparr> cr_passwordHash := sentinel \<rparr>"

section \<open>The operations\<close>

text \<open>What one call draws on: the audit columns present, the clock, fresh ids, random bytes, the hasher.\<close>

record admin_env =
  en_columns :: int
  en_now :: int
  en_userId :: string
  en_roleId :: string
  en_correlationId :: string
  en_eventId :: string
  en_random :: string
  en_hasher :: PasswordHasher

record UserAdminChangeResult =
  uc_userId :: string
  uc_action :: string
  uc_changed :: bool
  uc_sessionVersion :: int
  uc_auditMode :: "AuditWriteMode option"

definition appendAudit :: "runtime \<Rightarrow> admin_env \<Rightarrow> AuditEvent \<Rightarrow> user_db \<Rightarrow> (user_db \<times> AuditWriteMode) res" where
  "appendAudit rt env event db =
     (case recordAuditEventInTransaction rt (en_columns env) (en_eventId env) event (ud_audit db) of
        Inl _ \<Rightarrow> Inl (fault ''USER_ADMIN_AUDIT_FAILED'')
      | Inr (al, mode) \<Rightarrow> Inr (db\<lparr> ud_audit := al \<rparr>, mode))"

definition inTransaction :: "(user_db \<Rightarrow> (bool \<times> user_db \<times> 'a) res) \<Rightarrow> user_db \<Rightarrow> user_db \<times> 'a res" where
  "inTransaction body db =
     (case body db of
        Inl e \<Rightarrow> (db, Inl (asUserAdminError e))
      | Inr (commit, db', v) \<Rightarrow> (if commit then db' else db, Inr v))"

text \<open>The audit row of a change to a locked account, and what the caller is told.\<close>

definition audited_change ::
  "runtime \<Rightarrow> admin_env \<Rightarrow> string \<Rightarrow> string \<Rightarrow> string \<Rightarrow> UserLifecycleFacts option \<Rightarrow> UserLifecycleFacts \<Rightarrow> bool \<Rightarrow> user_db \<Rightarrow>
   (bool \<times> user_db \<times> UserAdminChangeResult) res" where
  "audited_change rt env action actorUserId targetUserId before after changed db =
     rbind (appendAudit rt env
              (buildUserAdministrationAuditEvent action actorUserId targetUserId (map_option (userLifecycleHash rt) before)
                 (userLifecycleHash rt after) (en_correlationId env) (en_now env)) db) (\<lambda>(db', mode).
     Inr (True, db', \<lparr> uc_userId = targetUserId, uc_action = action, uc_changed = changed,
                       uc_sessionVersion = lf_sessionVersion after, uc_auditMode = Some mode \<rparr>))"

definition create_transaction ::
  "runtime \<Rightarrow> admin_env \<Rightarrow> string \<Rightarrow> string \<Rightarrow> string \<Rightarrow> string \<Rightarrow> string \<Rightarrow> user_db \<Rightarrow>
   (bool \<times> user_db \<times> UserAdminChangeResult) res" where
  "create_transaction rt env actorUserId username email role password db =
     (if list_ex (\<lambda>c. cr_username c = username) (ud_credentials db) then Inl (refusal ''USER_ADMIN_USERNAME_TAKEN'')
      else if list_ex (\<lambda>u. same_email (us_email u) email) (ud_users db) then Inl (refusal ''USER_ADMIN_EMAIL_TAKEN'')
      else
        rbind (hashForStorage (en_hasher env) password \<lparr> pi_username = Some username, pi_email = Some email \<rparr>) (\<lambda>hash.
        rbind (insertUser (en_userId env) email (en_now env) db) (\<lambda>db1.
        rbind (insertCredential (en_userId env) username hash (en_now env) db1) (\<lambda>db2.
        rbind (insertRole (en_roleId env) (en_userId env) role actorUserId db2) (\<lambda>db3.
        audited_change rt env ''USER_ACCOUNT_CREATED'' actorUserId (en_userId env) None
          \<lparr> lf_userId = en_userId env, lf_userStatus = ''active'', lf_credentialStatus = ''active'', lf_roles = [role],
            lf_sessionVersion = 1 \<rparr> True db3)))))"

definition createUser ::
  "runtime \<Rightarrow> admin_env \<Rightarrow> js_input \<Rightarrow> js_input \<Rightarrow> js_input \<Rightarrow> js_input \<Rightarrow> js_input \<Rightarrow> user_db \<Rightarrow>
   user_db \<times> UserAdminChangeResult res" where
  "createUser rt env actor username email password role db =
     (case rbind (requireActorUserId actor) (\<lambda>actorUserId.
           rbind (requireUsername username) (\<lambda>username.
           rbind (requireEmail email) (\<lambda>email.
           rbind (requireAssignableRole role) (\<lambda>role.
           rbind (requireAcceptablePassword password \<lparr> pi_username = Some username, pi_email = Some email \<rparr>) (\<lambda>password.
           Inr (actorUserId, username, email, role, password)))))) of
        Inl e \<Rightarrow> (db, Inl e)
      | Inr (actorUserId, username, email, role, password) \<Rightarrow>
          inTransaction (create_transaction rt env actorUserId username email role password) db)"

definition locked_account :: "user_db \<Rightarrow> string \<Rightarrow> ManagedAccount res" where
  "locked_account db targetUserId = rbind (readAccount db targetUserId) requireManageableAccount"

definition apply_username :: "string \<Rightarrow> string \<Rightarrow> ManagedAccount \<Rightarrow> user_db \<Rightarrow> user_db res" where
  "apply_username username targetUserId account db =
     (if Some username = ma_username account then Inr db
      else case find (\<lambda>c. cr_username c = username) (ud_credentials db) of
             Some owner \<Rightarrow> if cr_userId owner \<noteq> targetUserId then Inl (refusal ''USER_ADMIN_USERNAME_TAKEN'')
                          else updateUsername username targetUserId (ma_username account) db
           | None \<Rightarrow> updateUsername username targetUserId (ma_username account) db)"

definition apply_email :: "string \<Rightarrow> string \<Rightarrow> ManagedAccount \<Rightarrow> user_db \<Rightarrow> user_db res" where
  "apply_email email targetUserId account db =
     (if Some email = ma_email account then Inr db
      else case find (\<lambda>u. same_email (us_email u) email) (ud_users db) of
             Some owner \<Rightarrow> if us_id owner \<noteq> targetUserId then Inl (refusal ''USER_ADMIN_EMAIL_TAKEN'')
                          else updateEmail email targetUserId db
           | None \<Rightarrow> updateEmail email targetUserId db)"

definition apply_role :: "admin_env \<Rightarrow> string \<Rightarrow> string \<Rightarrow> string \<Rightarrow> ManagedAccount \<Rightarrow> user_db \<Rightarrow> user_db res" where
  "apply_role env actorUserId role targetUserId account db =
     (if ma_roles account = [role] then Inr db
      else rbind (deleteRoles targetUserId (length (ma_roles account)) db) (\<lambda>db'.
           insertRole (en_roleId env) targetUserId role actorUserId db'))"

definition update_transaction ::
  "runtime \<Rightarrow> admin_env \<Rightarrow> string \<Rightarrow> string \<Rightarrow> string \<Rightarrow> string \<Rightarrow> string \<Rightarrow> user_db \<Rightarrow>
   (bool \<times> user_db \<times> UserAdminChangeResult) res" where
  "update_transaction rt env actorUserId targetUserId username email role db =
     rbind (locked_account db targetUserId) (\<lambda>account.
     rbind (if removesAdminRole account role
            then rbind (refuseSelfTarget actorUserId targetUserId ''USER_ADMIN_SELF_DEMOTE_FORBIDDEN'') (\<lambda>_.
                 refuseLastActiveAdmin account (countOtherActiveAdmins db targetUserId))
            else Inr ()) (\<lambda>_.
     rbind (apply_username username targetUserId account db) (\<lambda>db1.
     rbind (apply_email email targetUserId account db1) (\<lambda>db2.
     rbind (apply_role env actorUserId role targetUserId account db2) (\<lambda>db3.
     let before = accountLifecycleFacts account in
     audited_change rt env ''USER_ACCOUNT_UPDATED'' actorUserId targetUserId (Some before) (before\<lparr> lf_roles := [role] \<rparr>)
       (Some username \<noteq> ma_username account \<or> Some email \<noteq> ma_email account \<or> ma_roles account \<noteq> [role]) db3)))))"

definition updateUser ::
  "runtime \<Rightarrow> admin_env \<Rightarrow> js_input \<Rightarrow> js_input \<Rightarrow> js_input \<Rightarrow> js_input \<Rightarrow> js_input \<Rightarrow> user_db \<Rightarrow>
   user_db \<times> UserAdminChangeResult res" where
  "updateUser rt env actor target username email role db =
     (case rbind (requireActorUserId actor) (\<lambda>actorUserId.
           rbind (requireTargetUserId target) (\<lambda>targetUserId.
           rbind (requireUsername username) (\<lambda>username.
           rbind (requireEmail email) (\<lambda>email.
           rbind (requireAssignableRole role) (\<lambda>role.
           Inr (actorUserId, targetUserId, username, email, role)))))) of
        Inl e \<Rightarrow> (db, Inl e)
      | Inr (actorUserId, targetUserId, username, email, role) \<Rightarrow>
          inTransaction (update_transaction rt env actorUserId targetUserId username email role) db)"

definition account_version :: "ManagedAccount \<Rightarrow> int res" where
  "account_version account = requireSessionVersion (coalesce (ma_sessionVersion account) 0)"

definition activation_transaction ::
  "runtime \<Rightarrow> admin_env \<Rightarrow> string \<Rightarrow> string \<Rightarrow> bool \<Rightarrow> user_db \<Rightarrow> (bool \<times> user_db \<times> UserAdminChangeResult) res" where
  "activation_transaction rt env actorUserId targetUserId active db =
     (let desired = (if active then ''active'' else ''disabled'');
          action = (if active then ''USER_ACCOUNT_ACTIVATED'' else ''USER_ACCOUNT_DEACTIVATED'')
      in rbind (locked_account db targetUserId) (\<lambda>account.
         rbind (if active then Inr ()
                else rbind (refuseSelfTarget actorUserId targetUserId ''USER_ADMIN_SELF_DEACTIVATE_FORBIDDEN'') (\<lambda>_.
                     refuseLastActiveAdmin account (countOtherActiveAdmins db targetUserId))) (\<lambda>_.
         rbind (account_version account) (\<lambda>currentVersion.
         if ma_userStatus account = desired \<and> ma_credentialStatus account = Some desired
         then Inr (False, db, \<lparr> uc_userId = targetUserId, uc_action = action, uc_changed = False,
                                uc_sessionVersion = currentVersion, uc_auditMode = None \<rparr>)
         else
           rbind (nextSessionVersion currentVersion) (\<lambda>resultingVersion.
           rbind (write_credential targetUserId (if active then enable_row else disable_row ''disabled'' (en_now env)) db) (\<lambda>db1.
           rbind (if ma_userStatus account \<noteq> desired
                  then write_user targetUserId (\<lambda>u. u\<lparr> us_status := desired \<rparr>) db1 else Inr db1) (\<lambda>db2.
           let before = accountLifecycleFacts account in
           audited_change rt env action actorUserId targetUserId (Some before)
             (before\<lparr> lf_userStatus := desired, lf_credentialStatus := desired, lf_sessionVersion := resultingVersion \<rparr>) True db2)))))))"

definition setUserActivation ::
  "runtime \<Rightarrow> admin_env \<Rightarrow> js_input \<Rightarrow> js_input \<Rightarrow> bool option \<Rightarrow> user_db \<Rightarrow> user_db \<times> UserAdminChangeResult res" where
  "setUserActivation rt env actor target active db =
     (case rbind (requireActorUserId actor) (\<lambda>actorUserId.
           rbind (requireTargetUserId target) (\<lambda>targetUserId.
           rbind (requireActivationFlag active) (\<lambda>active. Inr (actorUserId, targetUserId, active)))) of
        Inl e \<Rightarrow> (db, Inl e)
      | Inr (actorUserId, targetUserId, active) \<Rightarrow>
          inTransaction (activation_transaction rt env actorUserId targetUserId active) db)"

definition reset_transaction ::
  "runtime \<Rightarrow> admin_env \<Rightarrow> string \<Rightarrow> string \<Rightarrow> js_input \<Rightarrow> user_db \<Rightarrow> (bool \<times> user_db \<times> UserAdminChangeResult) res" where
  "reset_transaction rt env actorUserId targetUserId password db =
     rbind (locked_account db targetUserId) (\<lambda>account.
     let identity = \<lparr> pi_username = ma_username account, pi_email = ma_email account \<rparr> in
     rbind (requireAcceptablePassword password identity) (\<lambda>password.
     rbind (account_version account) (\<lambda>currentVersion.
     rbind (nextSessionVersion currentVersion) (\<lambda>resultingVersion.
     rbind (hashForStorage (en_hasher env) password identity) (\<lambda>hash.
     rbind (write_credential targetUserId (reset_row hash (en_now env)) db) (\<lambda>db1.
     let before = accountLifecycleFacts account in
     audited_change rt env ''USER_ACCOUNT_PASSWORD_RESET'' actorUserId targetUserId (Some before)
       (before\<lparr> lf_sessionVersion := resultingVersion \<rparr>) True db1))))))"

definition resetUserPassword ::
  "runtime \<Rightarrow> admin_env \<Rightarrow> js_input \<Rightarrow> js_input \<Rightarrow> js_input \<Rightarrow> user_db \<Rightarrow> user_db \<times> UserAdminChangeResult res" where
  "resetUserPassword rt env actor target password db =
     (case rbind (requireActorUserId actor) (\<lambda>actorUserId.
           rbind (requireTargetUserId target) (\<lambda>targetUserId.
           rbind (requireAcceptablePassword password no_identity) (\<lambda>_. Inr (actorUserId, targetUserId)))) of
        Inl e \<Rightarrow> (db, Inl e)
      | Inr (actorUserId, targetUserId) \<Rightarrow> inTransaction (reset_transaction rt env actorUserId targetUserId password) db)"

definition tombstone_transaction ::
  "runtime \<Rightarrow> admin_env \<Rightarrow> string \<Rightarrow> string \<Rightarrow> user_db \<Rightarrow> (bool \<times> user_db \<times> UserAdminChangeResult) res" where
  "tombstone_transaction rt env actorUserId targetUserId db =
     rbind (locked_account db targetUserId) (\<lambda>account.
     rbind (refuseSelfTarget actorUserId targetUserId ''USER_ADMIN_SELF_TOMBSTONE_FORBIDDEN'') (\<lambda>_.
     rbind (refuseLastActiveAdmin account (countOtherActiveAdmins db targetUserId)) (\<lambda>_.
     rbind (account_version account) (\<lambda>currentVersion.
     rbind (nextSessionVersion currentVersion) (\<lambda>resultingVersion.
     rbind (buildRevokedPasswordSentinel (en_random env)) (\<lambda>sentinel.
     rbind (write_credential targetUserId (tombstone_row sentinel (en_now env)) db) (\<lambda>db1.
     rbind (write_user targetUserId (\<lambda>u. u\<lparr> us_status := ''tombstoned'' \<rparr>) db1) (\<lambda>db2.
     let before = accountLifecycleFacts account in
     audited_change rt env ''USER_ACCOUNT_TOMBSTONED'' actorUserId targetUserId (Some before)
       (before\<lparr> lf_userStatus := ''tombstoned'', lf_credentialStatus := ''tombstoned'', lf_sessionVersion := resultingVersion \<rparr>)
       True db2))))))))"

definition tombstoneUser ::
  "runtime \<Rightarrow> admin_env \<Rightarrow> js_input \<Rightarrow> js_input \<Rightarrow> user_db \<Rightarrow> user_db \<times> UserAdminChangeResult res" where
  "tombstoneUser rt env actor target db =
     (case rbind (requireActorUserId actor) (\<lambda>actorUserId.
           rbind (requireTargetUserId target) (\<lambda>targetUserId. Inr (actorUserId, targetUserId))) of
        Inl e \<Rightarrow> (db, Inl e)
      | Inr (actorUserId, targetUserId) \<Rightarrow> inTransaction (tombstone_transaction rt env actorUserId targetUserId) db)"

record UserAdminListItem =
  ul_id :: string
  ul_username :: string
  ul_email :: "string option"
  ul_displayName :: "string option"
  ul_userStatus :: string
  ul_credentialStatus :: string
  ul_roles :: "string list"
  ul_maxSensitivityTier :: string
  ul_lastLoginAt :: "int option"
  ul_passwordChangedAt :: int
  ul_disabledAt :: "int option"
  ul_createdAt :: int

definition list_item :: "user_db \<Rightarrow> UserRow \<Rightarrow> CredentialRow \<Rightarrow> UserAdminListItem" where
  "list_item db u c =
     \<lparr> ul_id = us_id u, ul_username = cr_username c, ul_email = us_email u, ul_displayName = us_displayName u,
       ul_userStatus = us_status u, ul_credentialStatus = cr_status c,
       ul_roles = remdups (sorted_text (map rl_roleCode (roles_at db (us_id u)))), ul_maxSensitivityTier = us_maxSensitivityTier u,
       ul_lastLoginAt = us_lastLoginAt u, ul_passwordChangedAt = cr_passwordChangedAt c, ul_disabledAt = cr_disabledAt c,
       ul_createdAt = us_createdAt u \<rparr>"

record UserAdminListPage =
  up_users :: "UserAdminListItem list"
  up_limit :: int
  up_offset :: int

definition listUsers :: "js_input \<Rightarrow> number_input \<Rightarrow> number_input \<Rightarrow> user_db \<Rightarrow> UserAdminListPage res" where
  "listUsers actor limit offset db =
     rbind (requireActorUserId actor) (\<lambda>_.
     rbind (requireListWindow limit offset) (\<lambda>(l, k).
     let found = sort_key ul_username
           [list_item db u c. u \<leftarrow> ud_users db, c \<leftarrow> ud_credentials db, same_key (cr_userId c) (us_id u) \<and> us_kind u = ''user'']
     in Inr \<lparr> up_users = take (nat l) (drop (nat k) found), up_limit = l, up_offset = k \<rparr>))"

end
