(* ===== verification/CredentialRepository.thy ===== *)
theory CredentialRepository
  imports UserAdministration
begin

text \<open>
  The read side of login (\<open>src/src/adapters/mysqlUserCredentialRepo.ts\<close>): the account behind a login handle and the
  state a session is checked against, over the tables of \<open>UserAdministration\<close>. A row whose id or session version is
  not of the production shape maps to nothing.
\<close>

record CredentialUser =
  cu_id :: string
  cu_usernameNormalized :: string
  cu_email :: "string option"
  cu_status :: string
  cu_credentialStatus :: string
  cu_passwordHash :: string
  cu_sessionVersion :: int
  cu_maxSensitivityTier :: string
  cu_roles :: "string list"

definition toSessionVersion :: "int \<Rightarrow> int option" where
  "toSessionVersion v = (if 1 \<le> v \<and> v \<le> MAX_SESSION_VERSION then Some v else None)"

text \<open>The person a row of the join belongs to, and the join itself.\<close>

definition login_join :: "user_db \<Rightarrow> (UserRow \<times> CredentialRow) list" where
  "login_join db = [(u, c). u \<leftarrow> ud_users db, c \<leftarrow> ud_credentials db, same_key (cr_userId c) (us_id u) \<and> us_kind u = ''user'']"

definition mapCredential :: "user_db \<Rightarrow> (UserRow \<times> CredentialRow) option \<Rightarrow> CredentialUser option" where
  "mapCredential db row =
     Option.bind row (\<lambda>(u, c). Option.bind (toSessionVersion (cr_sessionVersion c)) (\<lambda>sessionVersion.
       if \<not> isUserId (us_id u) then None
       else Some \<lparr> cu_id = us_id u, cu_usernameNormalized = cr_username c, cu_email = us_email u, cu_status = us_status u,
         cu_credentialStatus = cr_status c, cu_passwordHash = cr_passwordHash c, cu_sessionVersion = sessionVersion,
         cu_maxSensitivityTier = us_maxSensitivityTier u,
         cu_roles = remdups (sorted_text (map rl_roleCode (roles_at db (us_id u)))) \<rparr>))"

definition mapSessionState :: "(UserRow \<times> CredentialRow) option \<Rightarrow> CredentialSessionState option" where
  "mapSessionState row =
     Option.bind row (\<lambda>(u, c). Option.bind (toSessionVersion (cr_sessionVersion c)) (\<lambda>sessionVersion.
       if \<not> isUserId (us_id u) then None
       else Some \<lparr> cs_id = us_id u, cs_status = us_status u, cs_credentialStatus = cr_status c,
         cs_sessionVersion = sessionVersion \<rparr>))"

definition findByLogin :: "user_db \<Rightarrow> js_input \<Rightarrow> CredentialUser option" where
  "findByLogin db login =
     Option.bind (normalizeLogin login) (\<lambda>normalized.
       mapCredential db (find (\<lambda>(u, c). cr_username c = normalized \<or> same_email (us_email u) normalized) (login_join db)))"

definition getSessionState :: "user_db \<Rightarrow> string \<Rightarrow> CredentialSessionState option" where
  "getSessionState db userId =
     (if \<not> isUserId userId then None
      else mapSessionState (find (\<lambda>(u, c). same_key (us_id u) userId) (login_join db)))"

text \<open>With unique keys the join holds the two rows of a person.\<close>

lemma login_join_member: "(u, c) \<in> set (login_join db) \<longleftrightarrow>
    u \<in> set (ud_users db) \<and> c \<in> set (ud_credentials db) \<and> same_key (cr_userId c) (us_id u) \<and> us_kind u = ''user''"
  by (auto simp: login_join_def)

lemma session_row:
  assumes "getSessionState db i = Some s"
  shows "\<exists>u c. u \<in> set (ud_users db) \<and> c \<in> set (ud_credentials db) \<and> same_key (us_id u) i \<and> same_key (cr_userId c) i \<and>
           us_kind u = ''user'' \<and> cs_id s = us_id u \<and> cs_status s = us_status u \<and> cs_credentialStatus s = cr_status c \<and>
           cs_sessionVersion s = cr_sessionVersion c"
proof -
  obtain u c where "find (\<lambda>(u, c). same_key (us_id u) i) (login_join db) = Some (u, c)" "mapSessionState (Some (u, c)) = Some s"
    using assms by (auto simp: getSessionState_def mapSessionState_def bind_eq_Some_conv split: if_splits)
  then have "(u, c) \<in> set (login_join db)" "same_key (us_id u) i"
    "cs_id s = us_id u \<and> cs_status s = us_status u \<and> cs_credentialStatus s = cr_status c \<and> cs_sessionVersion s = cr_sessionVersion c"
    by (auto simp: find_Some_iff in_set_conv_nth mapSessionState_def toSessionVersion_def split: if_splits)
  then show ?thesis using same_key_trans[of "cr_userId c" "us_id u" i] unfolding login_join_member by blast
qed

end
