(* ===== verification/UserLifecycle.thy ===== *)
theory UserLifecycle
  imports CredentialRepository
begin

text \<open>
  What administration promises of an account: an abstract life cycle (created, updated, activated, deactivated,
  reset, tombstoned), the proof that every committed transaction of \<open>UserAdministration\<close> is one step of it for one
  account and leaves the others alone, and what follows for histories of operations.
\<close>

section \<open>Accounts in the tables\<close>

definition tables_ok :: "user_db \<Rightarrow> bool" where
  "tables_ok db \<longleftrightarrow>
     unique_keys us_id (ud_users db) \<and> unique_keys cr_userId (ud_credentials db) \<and>
     distinct (map cr_username (ud_credentials db)) \<and>
     (\<forall>r \<in> set (ud_roles db). user_at db (rl_userId r) \<noteq> None) \<and>
     (\<forall>c \<in> set (ud_credentials db). user_at db (cr_userId c) \<noteq> None)"

definition account_at :: "user_db \<Rightarrow> string \<Rightarrow> ManagedAccount option" where
  "account_at db i =
     map_option (\<lambda>u. managed_account u (credential_at db i) (sorted_text (map rl_roleCode (roles_at db i)))) (user_at db i)"

text \<open>A transaction on one account leaves the rows of every other account as they were.\<close>

definition others_kept :: "string \<Rightarrow> user_db \<Rightarrow> user_db \<Rightarrow> bool" where
  "others_kept t db db' \<longleftrightarrow>
     (\<forall>i. \<not> same_key i t \<longrightarrow>
        user_at db' i = user_at db i \<and> credential_at db' i = credential_at db i \<and> roles_at db' i = roles_at db i)"

lemmas view_defs = user_at_def credential_at_def roles_at_def

lemma others_kept_refl [simp]: "others_kept t db db"
  by (simp add: others_kept_def)

lemma others_kept_trans [trans]: "others_kept t a b \<Longrightarrow> others_kept t b c \<Longrightarrow> others_kept t a c"
  by (simp add: others_kept_def)

lemma account_kept: "others_kept t db db' \<Longrightarrow> \<not> same_key i t \<Longrightarrow> account_at db' i = account_at db i"
  by (simp add: others_kept_def account_at_def)

lemma roles_at_cong: "same_key i j \<Longrightarrow> roles_at db i = roles_at db j"
  by (simp add: roles_at_def same_key_def)

lemma account_at_cong: "same_key i j \<Longrightarrow> account_at db i = account_at db j"
  using roles_at_cong[of i j db] row_at_cong[of i j us_id "ud_users db"] row_at_cong[of i j cr_userId "ud_credentials db"]
  by (simp add: account_at_def user_at_def credential_at_def)

definition manageable :: "ManagedAccount \<Rightarrow> bool" where
  "manageable a \<longleftrightarrow>
     ma_kind a = ''user'' \<and> ma_credentialStatus a \<noteq> None \<and> \<not> isTombstoned a \<and>
     (\<exists>v. ma_sessionVersion a = Some v \<and> 1 \<le> v \<and> v \<le> MAX_SESSION_VERSION)"

lemma read_account:
  assumes "readAccount db t = Inr found"
  shows "account_at db t = found \<and> (\<forall>a v. found = Some a \<longrightarrow> ma_sessionVersion a = Some v \<longrightarrow> 1 \<le> v \<and> v \<le> MAX_SESSION_VERSION)"
proof (cases "user_at db t")
  case None
  then show ?thesis using assms by (simp add: readAccount_def account_at_def)
next
  case (Some u)
  then have "credential_at db (us_id u) = credential_at db t"
    by (metis credential_at_def row_at_Some row_at_cong user_at_def)
  then show ?thesis using assms Some
    by (auto simp: readAccount_def account_at_def Let_def rbind_Inr_iff managed_account_def requireSessionVersion_def
        split: option.splits if_splits)
qed

lemma locked_account_iff:
  assumes "locked_account db t = Inr a"
  shows "account_at db t = Some a" "manageable a"
proof -
  from assms obtain found where found: "readAccount db t = Inr found" "requireManageableAccount found = Inr a"
    by (auto simp: locked_account_def rbind_Inr_iff)
  then show a: "account_at db t = Some a"
    using read_account[OF found(1)] by (auto simp: requireManageableAccount_def split: option.splits if_splits)
  show "manageable a"
    using found(2) read_account[OF found(1)] a
    by (auto simp: requireManageableAccount_def manageable_def account_at_def managed_account_def
        split: option.splits if_splits)
qed

section \<open>Guarded writes\<close>

lemma write_rows_at:
  assumes "write_rows 1 p f rows = Inr rows'" "unique_keys k rows" "\<And>r. p r \<Longrightarrow> same_key (k r) t"
  shows "rows' = change_at k t f rows" "\<exists>r. row_at k t rows = Some r \<and> p r"
proof -
  have "length (filter p rows) = 1" and rows': "rows' = map (\<lambda>r. if p r then f r else r) rows"
    using assms(1) by (auto simp: write_rows_def split: if_splits)
  then obtain r where "filter p rows = [r]" by (auto simp: length_Suc_conv)
  then have "r \<in> set (filter p rows)" by simp
  then have r: "r \<in> set rows" "p r" by simp_all
  then have at: "row_at k t rows = Some r" using assms(2,3) by (simp add: row_at_member)
  then show "\<exists>r. row_at k t rows = Some r \<and> p r" using r(2) by blast
  have "p x \<longleftrightarrow> same_key (k x) t" if "x \<in> set rows" for x
    using row_at_member[OF assms(2) that] at r(2) assms(3)[of x] by auto
  then show "rows' = change_at k t f rows" by (simp add: rows' change_at_def)
qed

text \<open>What a chain of guarded writes does to the rows of the account it locks.\<close>

definition rewritten ::
  "string \<Rightarrow> (UserRow \<Rightarrow> UserRow) \<Rightarrow> (CredentialRow \<Rightarrow> CredentialRow) \<Rightarrow> (string list \<Rightarrow> string list) \<Rightarrow> user_db \<Rightarrow> user_db \<Rightarrow> bool" where
  "rewritten t f g h db db' \<longleftrightarrow>
     tables_ok db' \<and> others_kept t db db' \<and> ud_audit db' = ud_audit db \<and>
     user_at db' t = map_option f (user_at db t) \<and> credential_at db' t = map_option g (credential_at db t) \<and>
     map rl_roleCode (roles_at db' t) = h (map rl_roleCode (roles_at db t))"

lemma rewritten_nothing: "tables_ok db \<Longrightarrow> rewritten t (\<lambda>u. u) (\<lambda>c. c) (\<lambda>r. r) db db"
  by (simp add: rewritten_def option.map_ident)

lemma rewritten_then:
  "rewritten t f g h db db1 \<Longrightarrow> rewritten t f' g' h' db1 db2 \<Longrightarrow> rewritten t (f' \<circ> f) (g' \<circ> g) (h' \<circ> h) db db2"
  by (auto simp: rewritten_def option.map_comp intro: others_kept_trans)

lemma rewritten_account:
  assumes "rewritten t f g h db db'"
  shows "account_at db' t = map_option (\<lambda>u. managed_account (f u) (map_option g (credential_at db t))
           (sorted_text (h (map rl_roleCode (roles_at db t))))) (user_at db t)"
  using assms by (simp add: rewritten_def account_at_def option.map_comp o_def)

lemma user_exists_change: "(\<And>u. us_id (f u) = us_id u) \<Longrightarrow>
    row_at us_id i (change_at us_id t f rows) = None \<longleftrightarrow> row_at us_id i rows = None"
  by (simp add: row_at_change)

lemma write_user_rewritten:
  assumes "write_user t f db = Inr db'" "tables_ok db" "\<And>u. us_id (f u) = us_id u"
  shows "rewritten t f (\<lambda>c. c) (\<lambda>r. r) db db'"
proof -
  obtain rows where rows: "write_rows 1 (open_user t) f (ud_users db) = Inr rows" "db' = db\<lparr> ud_users := rows \<rparr>"
    using assms(1) by (auto simp: write_user_def rbind_Inr_iff)
  have "rows = change_at us_id t f (ud_users db)"
    using write_rows_at(1)[OF rows(1), where k = us_id and t = t] assms(2) by (simp add: tables_ok_def open_user_def)
  then show ?thesis using assms(2,3) rows(2)
    by (auto simp: rewritten_def tables_ok_def others_kept_def view_defs row_at_change unique_keys_change option.map_ident)
qed

lemma write_credential_rewritten:
  assumes "write_rows 1 p g (ud_credentials db) = Inr rows" "db' = db\<lparr> ud_credentials := rows \<rparr>" "tables_ok db"
    and "\<And>c. p c \<Longrightarrow> same_key (cr_userId c) t" "\<And>c. cr_userId (g c) = cr_userId c"
    and "distinct (map cr_username (change_at cr_userId t g (ud_credentials db)))"
  shows "rewritten t (\<lambda>u. u) g (\<lambda>r. r) db db'"
proof -
  have "rows = change_at cr_userId t g (ud_credentials db)"
    using write_rows_at(1)[OF assms(1), where k = cr_userId and t = t] assms(3,4) by (simp add: tables_ok_def)
  moreover have "\<forall>c \<in> set (change_at cr_userId t g (ud_credentials db)). row_at us_id (cr_userId c) (ud_users db) \<noteq> None"
    using assms(3,5) by (auto simp: change_at_def tables_ok_def user_at_def)
  ultimately show ?thesis using assms(2,3,5,6)
    by (auto simp: rewritten_def tables_ok_def others_kept_def view_defs row_at_change unique_keys_change option.map_ident)
qed

lemma write_credential_keeps_name:
  assumes "write_credential t g db = Inr db'" "tables_ok db"
    and "\<And>c. cr_userId (g c) = cr_userId c" "\<And>c. cr_username (g c) = cr_username c"
  shows "rewritten t (\<lambda>u. u) g (\<lambda>r. r) db db'"
proof -
  obtain rows where "write_rows 1 (open_credential t) g (ud_credentials db) = Inr rows" "db' = db\<lparr> ud_credentials := rows \<rparr>"
    using assms(1) by (auto simp: write_credential_def rbind_Inr_iff)
  moreover have "map cr_username (change_at cr_userId t g (ud_credentials db)) = map cr_username (ud_credentials db)"
    using assms(4) by (simp add: change_at_def)
  ultimately show ?thesis
    using write_credential_rewritten[of "open_credential t"] assms(2,3) by (simp add: tables_ok_def open_credential_def)
qed

lemma renamed_distinct:
  assumes "unique_keys cr_userId rows" "distinct (map cr_username rows)"
    and "\<forall>c \<in> set rows. cr_username c = n \<longrightarrow> same_key (cr_userId c) t"
  shows "distinct (map cr_username (change_at cr_userId t (\<lambda>c. c\<lparr> cr_username := n \<rparr>) rows))"
  using assms
proof (induction rows)
  case (Cons c rows)
  have others: "\<not> same_key (cr_userId d) t" if "d \<in> set rows" "same_key (cr_userId c) t" for d
    using Cons.prems(1) that by (force simp: unique_keys_def same_key_fold)
  have kept: "change_at cr_userId t (\<lambda>c. c\<lparr> cr_username := n \<rparr>) rows = rows" if "same_key (cr_userId c) t"
    using others[OF _ that] by (auto simp: change_at_def intro: map_idI)
  have "cr_username d \<noteq> n" if "d \<in> set rows" "same_key (cr_userId c) t" for d
    using others[OF that] Cons.prems(3) that(1) by auto
  then show ?case using Cons kept
    by (cases "same_key (cr_userId c) t") (force simp: change_at_def unique_keys_def)+
qed (simp add: change_at_def)

lemma updateUsername_rewritten:
  assumes "updateUsername n t previous db = Inr db'" "tables_ok db"
  shows "rewritten t (\<lambda>u. u) (\<lambda>c. c\<lparr> cr_username := n \<rparr>) (\<lambda>r. r) db db'"
proof -
  obtain rows where free: "\<forall>c \<in> set (ud_credentials db). cr_username c = n \<longrightarrow> same_key (cr_userId c) t"
    and rows: "write_rows 1 (\<lambda>c. open_credential t c \<and> Some (cr_username c) = previous) (\<lambda>c. c\<lparr> cr_username := n \<rparr>)
      (ud_credentials db) = Inr rows" "db' = db\<lparr> ud_credentials := rows \<rparr>"
    using assms(1) by (auto simp: updateUsername_def rbind_Inr_iff list_ex_iff split: if_splits)
  show ?thesis
    by (rule write_credential_rewritten[OF rows assms(2)])
      (use free assms(2) in \<open>auto simp: open_credential_def tables_ok_def intro!: renamed_distinct\<close>)
qed

lemma apply_username_rewritten:
  assumes "apply_username n t a db = Inr db'" "tables_ok db" "account_at db t = Some a"
  shows "rewritten t (\<lambda>u. u) (\<lambda>c. c\<lparr> cr_username := n \<rparr>) (\<lambda>r. r) db db'"
proof (cases "Some n = ma_username a")
  case True
  then have "map_option (\<lambda>c. c\<lparr> cr_username := n \<rparr>) (credential_at db t) = credential_at db t"
    using assms(3) by (cases "credential_at db t") (auto simp: account_at_def managed_account_def)
  then show ?thesis using rewritten_nothing[OF assms(2), of t] True assms(1)
    by (simp add: apply_username_def rewritten_def option.map_ident)
next
  case False
  then show ?thesis using assms(1,2) updateUsername_rewritten
    by (auto simp: apply_username_def split: option.splits if_splits)
qed

lemma apply_email_rewritten:
  assumes "apply_email m t a db = Inr db'" "tables_ok db" "map_option us_email (user_at db t) = Some (ma_email a)"
  shows "rewritten t (\<lambda>u. u\<lparr> us_email := Some m \<rparr>) (\<lambda>c. c) (\<lambda>r. r) db db'"
proof (cases "Some m = ma_email a")
  case True
  then have "map_option (\<lambda>u. u\<lparr> us_email := Some m \<rparr>) (user_at db t) = user_at db t"
    using assms(3) by (auto simp: account_at_def managed_account_def)
  then show ?thesis using rewritten_nothing[OF assms(2), of t] True assms(1)
    by (simp add: apply_email_def rewritten_def option.map_ident)
next
  case False
  then show ?thesis using assms(1,2) write_user_rewritten[of t "\<lambda>u. u\<lparr> us_email := Some m \<rparr>" db db']
    by (auto simp: apply_email_def updateEmail_def split: option.splits if_splits)
qed

lemma sorted_text_single: "sorted_text rs = [r] \<longleftrightarrow> rs = [r]"
proof
  assume "sorted_text rs = [r]"
  moreover have "length (sorted_text rs) = length rs" by (simp add: sorted_text_def)
  ultimately have "length rs = Suc 0" by simp
  then obtain x where "rs = [x]" by (auto simp: length_Suc_conv)
  then show "rs = [r]" using \<open>sorted_text rs = [r]\<close> by (simp add: sorted_text_def)
qed (simp add: sorted_text_def)

lemma roles_at_filter:
  "filter (\<lambda>r. same_key (rl_userId r) i) (filter (\<lambda>r. \<not> same_key (rl_userId r) t) rows) =
     (if same_key i t then [] else filter (\<lambda>r. same_key (rl_userId r) i) rows)"
  by (auto simp: filter_empty_conv same_key_fold intro!: filter_cong)

lemma apply_role_rewritten:
  assumes "apply_role env actor role t a db = Inr db'" "tables_ok db"
    and "sorted_text (map rl_roleCode (roles_at db t)) = ma_roles a" "user_at db t \<noteq> None"
  shows "rewritten t (\<lambda>u. u) (\<lambda>c. c) (\<lambda>_. [role]) db db'"
proof (cases "ma_roles a = [role]")
  case True
  then have "map rl_roleCode (roles_at db t) = [role]" using assms(3) by (simp add: sorted_text_single)
  then show ?thesis using rewritten_nothing[OF assms(2), of t] True assms(1) by (simp add: apply_role_def rewritten_def)
next
  case False
  then have "db' = db\<lparr> ud_roles := filter (\<lambda>r. \<not> same_key (rl_userId r) t) (ud_roles db) @
      [\<lparr> rl_id = en_roleId env, rl_userId = t, rl_roleCode = role, rl_grantedBy = Some actor \<rparr>] \<rparr>"
    using assms(1) by (auto simp: apply_role_def deleteRoles_def insertRole_def rbind_Inr_iff split: if_splits)
  moreover have "\<not> same_key t i" if "\<not> same_key i t" for i using that by (simp add: same_key_sym)
  ultimately show ?thesis using assms(2,4)
    by (auto simp: rewritten_def tables_ok_def others_kept_def view_defs roles_at_filter option.map_ident
        simp del: filter_filter)
qed

section \<open>The life cycle of an account\<close>

definition other_admin :: "user_db \<Rightarrow> string \<Rightarrow> bool" where
  "other_admin db t \<longleftrightarrow> (\<exists>i a. \<not> same_key i t \<and> account_at db i = Some a \<and> isActiveAdmin a)"

definition new_account :: "string \<Rightarrow> string \<Rightarrow> string \<Rightarrow> string \<Rightarrow> ManagedAccount" where
  "new_account i username email role =
     \<lparr> ma_userId = i, ma_kind = ''user'', ma_userStatus = ''active'', ma_email = Some email, ma_username = Some username,
       ma_credentialStatus = Some ''active'', ma_sessionVersion = Some 1, ma_roles = [role] \<rparr>"

definition with_status :: "string \<Rightarrow> ManagedAccount \<Rightarrow> ManagedAccount" where
  "with_status status a = a\<lparr> ma_userStatus := status, ma_credentialStatus := Some status \<rparr>"

text \<open>
  The life cycle. Its parameter says whether another active administrator exists when the step is taken; a version
  only ever moves up by one.
\<close>

inductive lifecycle :: "bool \<Rightarrow> string \<Rightarrow> ManagedAccount option \<Rightarrow> ManagedAccount \<Rightarrow> bool" for others where
  created: "role \<in> set ASSIGNABLE_ROLES \<Longrightarrow> lifecycle others ''USER_ACCOUNT_CREATED'' None (new_account i username email role)"
| updated: "\<lbrakk> manageable a; role \<in> set ASSIGNABLE_ROLES; isActiveAdmin a \<Longrightarrow> role = ''admin'' \<or> others \<rbrakk> \<Longrightarrow>
    lifecycle others ''USER_ACCOUNT_UPDATED'' (Some a) (a\<lparr> ma_username := Some username, ma_email := Some email, ma_roles := [role] \<rparr>)"
| activated: "\<lbrakk> manageable a; ma_sessionVersion a = Some v; v < MAX_SESSION_VERSION \<rbrakk> \<Longrightarrow>
    lifecycle others ''USER_ACCOUNT_ACTIVATED'' (Some a) (with_status ''active'' a\<lparr> ma_sessionVersion := Some (v + 1) \<rparr>)"
| deactivated: "\<lbrakk> manageable a; ma_sessionVersion a = Some v; v < MAX_SESSION_VERSION; isActiveAdmin a \<Longrightarrow> others \<rbrakk> \<Longrightarrow>
    lifecycle others ''USER_ACCOUNT_DEACTIVATED'' (Some a) (with_status ''disabled'' a\<lparr> ma_sessionVersion := Some (v + 1) \<rparr>)"
| password_reset: "\<lbrakk> manageable a; ma_sessionVersion a = Some v; v < MAX_SESSION_VERSION \<rbrakk> \<Longrightarrow>
    lifecycle others ''USER_ACCOUNT_PASSWORD_RESET'' (Some a) (a\<lparr> ma_sessionVersion := Some (v + 1) \<rparr>)"
| tombstoned: "\<lbrakk> manageable a; ma_sessionVersion a = Some v; v < MAX_SESSION_VERSION; isActiveAdmin a \<Longrightarrow> others \<rbrakk> \<Longrightarrow>
    lifecycle others ''USER_ACCOUNT_TOMBSTONED'' (Some a) (with_status ''tombstoned'' a\<lparr> ma_sessionVersion := Some (v + 1) \<rparr>)"

inductive_cases lifecycle_createE: "lifecycle others action None a'"
inductive_cases lifecycle_changeE: "lifecycle others action (Some a) a'"

definition account_hash :: "runtime \<Rightarrow> user_db \<Rightarrow> string \<Rightarrow> string option" where
  "account_hash rt db i = map_option (userLifecycleHash rt \<circ> accountLifecycleFacts) (account_at db i)"

definition account_event :: "runtime \<Rightarrow> admin_env \<Rightarrow> string \<Rightarrow> string \<Rightarrow> string \<Rightarrow> user_db \<Rightarrow> user_db \<Rightarrow> AuditEvent" where
  "account_event rt env action actorUserId t db db' =
     buildUserAdministrationAuditEvent action actorUserId t (account_hash rt db t) (coalesce (account_hash rt db' t) [])
       (en_correlationId env) (en_now env)"

definition revoked_at :: "user_db \<Rightarrow> string \<Rightarrow> bool" where
  "revoked_at db i \<longleftrightarrow>
     (\<forall>c. credential_at db i = Some c \<longrightarrow> cr_status c = ''tombstoned'' \<longrightarrow> parseStoredPasswordHash (cr_passwordHash c) = None)"

text \<open>A session version never goes back, and stands for one password hash.\<close>

definition credential_advances :: "CredentialRow \<Rightarrow> CredentialRow \<Rightarrow> bool" where
  "credential_advances c c' \<longleftrightarrow>
     cr_sessionVersion c \<le> cr_sessionVersion c' \<and>
     (cr_sessionVersion c = cr_sessionVersion c' \<longrightarrow> cr_passwordHash c = cr_passwordHash c')"

text \<open>The identity of an external provider a row is bound to; a new row is bound to none.\<close>

definition oidc_identity :: "UserRow \<Rightarrow> string option \<times> string option" where
  "oidc_identity u = (us_oidcIssuer u, us_oidcSubject u)"

definition identity_kept :: "user_db \<Rightarrow> user_db \<Rightarrow> string \<Rightarrow> bool" where
  "identity_kept db db' i \<longleftrightarrow>
     (case user_at db i of
        Some u \<Rightarrow> map_option oidc_identity (user_at db' i) = Some (oidc_identity u)
      | None \<Rightarrow> map_option oidc_identity (user_at db' i) \<in> {None, Some (None, None)})"

text \<open>A committed change: one step of one account's life cycle, the others kept, and one true audit record.\<close>

definition committed_change :: "runtime \<Rightarrow> admin_env \<Rightarrow> string \<Rightarrow> string \<Rightarrow> string \<Rightarrow> user_db \<Rightarrow> user_db \<Rightarrow> bool" where
  "committed_change rt env action actorUserId t db db' \<longleftrightarrow>
     tables_ok db' \<and> others_kept t db db' \<and> revoked_at db' t \<and> identity_kept db db' t \<and>
     (\<forall>c. credential_at db t = Some c \<longrightarrow> (\<exists>c'. credential_at db' t = Some c' \<and> credential_advances c c')) \<and>
     (\<exists>a'. account_at db' t = Some a' \<and> lifecycle (other_admin db t) action (account_at db t) a') \<and>
     (\<exists>mode. recordAuditEventInTransaction rt (en_columns env) (en_eventId env)
        (account_event rt env action actorUserId t db db') (ud_audit db) = Inr (ud_audit db', mode))"

lemma counted_admin:
  assumes "tables_ok db" "countOtherActiveAdmins db t \<ge> 1"
  shows "other_admin db t"
proof -
  have "[r. u \<leftarrow> ud_users db, c \<leftarrow> ud_credentials db, r \<leftarrow> ud_roles db,
           same_key (cr_userId c) (us_id u) \<and> same_key (rl_userId r) (us_id u) \<and> us_kind u = ''user'' \<and>
           us_status u = ''active'' \<and> cr_status c = ''active'' \<and> rl_roleCode r = ''admin'' \<and> \<not> same_key (us_id u) t] \<noteq> []"
    using assms(2) unfolding countOtherActiveAdmins_def by (metis length_0_conv not_one_le_zero)
  then obtain u c r where ucr: "u \<in> set (ud_users db)" "c \<in> set (ud_credentials db)" "r \<in> set (ud_roles db)"
      "same_key (cr_userId c) (us_id u)" "same_key (rl_userId r) (us_id u)" "us_kind u = ''user''" "us_status u = ''active''"
      "cr_status c = ''active''" "rl_roleCode r = ''admin''" "\<not> same_key (us_id u) t"
    by (auto simp: concat_eq_Nil_conv split: if_splits)
  then have "user_at db (us_id u) = Some u" "credential_at db (us_id u) = Some c" "r \<in> set (roles_at db (us_id u))"
    using assms(1) by (simp_all add: view_defs row_at_member tables_ok_def)
  then have "account_at db (us_id u) \<noteq> None" "\<forall>a. account_at db (us_id u) = Some a \<longrightarrow> isActiveAdmin a"
    using ucr by (force simp: account_at_def managed_account_def isActiveAdmin_def sorted_text_def)+
  then show ?thesis using ucr(10) unfolding other_admin_def by auto
qed

lemma others_remain:
  assumes "refuseLastActiveAdmin a (countOtherActiveAdmins db t) = Inr u" "tables_ok db" "isActiveAdmin a"
  shows "other_admin db t"
  using assms counted_admin[of db t] by (auto simp: refuseLastActiveAdmin_def not_less split: if_splits)

lemma audited_views:
  assumes "audited_change rt env action actor t before after changed db = Inr (commit, db', r)"
  shows "commit" "uc_action r = action" "uc_userId r = t" "uc_changed r = changed" "uc_sessionVersion r = lf_sessionVersion after"
    "user_at db' = user_at db" "credential_at db' = credential_at db" "roles_at db' = roles_at db" "account_at db' = account_at db"
    "tables_ok db' = tables_ok db"
    "\<exists>mode. recordAuditEventInTransaction rt (en_columns env) (en_eventId env)
       (buildUserAdministrationAuditEvent action actor t (map_option (userLifecycleHash rt) before) (userLifecycleHash rt after)
          (en_correlationId env) (en_now env)) (ud_audit db) = Inr (ud_audit db', mode)"
  using assms
  by (auto simp: audited_change_def appendAudit_def rbind_Inr_iff fun_eq_iff view_defs account_at_def tables_ok_def split: sum.splits)

section \<open>Every transaction is a step\<close>

lemmas row_changes = disable_row_def enable_row_def reset_row_def tombstone_row_def

lemma locked_rows:
  assumes "locked_account db t = Inr a"
  obtains u c where "user_at db t = Some u" "credential_at db t = Some c"
    "a = managed_account u (Some c) (sorted_text (map rl_roleCode (roles_at db t)))"
    "cr_status c \<noteq> ''tombstoned''" "manageable a" "account_at db t = Some a"
proof -
  note l = locked_account_iff[OF assms]
  then obtain u where u: "user_at db t = Some u" "a = managed_account u (credential_at db t) (sorted_text (map rl_roleCode (roles_at db t)))"
    by (auto simp: account_at_def)
  then obtain c where "credential_at db t = Some c" "cr_status c \<noteq> ''tombstoned''"
    using l(2) by (auto simp: manageable_def managed_account_def isTombstoned_def)
  then show thesis using that l u by auto
qed

lemma change_committed:
  assumes rw: "rewritten t f g h db db1" and a: "locked_account db t = Inr a"
    and aud: "audited_change rt env action actor t (Some (accountLifecycleFacts a)) after changed db1 = Inr (commit, db', r)"
    and a': "account_at db1 t = Some a'" "accountLifecycleFacts a' = after"
    and step: "lifecycle (other_admin db t) action (Some a) a'" and rev: "revoked_at db1 t"
    and g: "\<And>c. credential_advances c (g c)" and f: "\<And>u. oidc_identity (f u) = oidc_identity u"
  shows "commit \<and> uc_action r = action \<and> uc_userId r = t \<and> committed_change rt env action actor t db db'"
proof -
  note v = audited_views[OF aud]
  have "account_at db t = Some a" using locked_account_iff(1)[OF a] .
  moreover have "others_kept t db db'" "tables_ok db'" "ud_audit db1 = ud_audit db"
    using rw v(6-8,10) by (auto simp: rewritten_def others_kept_def)
  moreover have "revoked_at db' t" using rev v(7) by (simp add: revoked_at_def)
  moreover have "\<exists>c'. credential_at db' t = Some c' \<and> credential_advances c c'" if "credential_at db t = Some c" for c
    using that rw v(7) g by (simp add: rewritten_def)
  moreover have "identity_kept db db' t"
    by (rule locked_rows[OF a]) (use rw v(6) f in \<open>simp add: identity_kept_def rewritten_def\<close>)
  ultimately show ?thesis
    using v a' step by (auto simp: committed_change_def account_event_def account_hash_def)
qed

lemma update_committed:
  assumes "update_transaction rt env actor t username email role db = Inr (commit, db', r)" "tables_ok db"
    and "role \<in> set ASSIGNABLE_ROLES"
  shows "commit \<and> uc_action r = ''USER_ACCOUNT_UPDATED'' \<and> uc_userId r = t \<and>
         committed_change rt env ''USER_ACCOUNT_UPDATED'' actor t db db'"
proof -
  from assms(1) obtain a db1 db2 db3 where a: "locked_account db t = Inr a"
    and guard: "removesAdminRole a role \<Longrightarrow> \<exists>u. refuseLastActiveAdmin a (countOtherActiveAdmins db t) = Inr u"
    and w: "apply_username username t a db = Inr db1" "apply_email email t a db1 = Inr db2"
      "apply_role env actor role t a db2 = Inr db3"
    and aud: "audited_change rt env ''USER_ACCOUNT_UPDATED'' actor t (Some (accountLifecycleFacts a))
      (accountLifecycleFacts a\<lparr> lf_roles := [role] \<rparr>)
      (Some username \<noteq> ma_username a \<or> Some email \<noteq> ma_email a \<or> ma_roles a \<noteq> [role]) db3 = Inr (commit, db', r)"
    unfolding update_transaction_def by (auto simp: rbind_Inr_iff Let_def split: if_splits)
  obtain u c where rows: "user_at db t = Some u" "credential_at db t = Some c"
      "a = managed_account u (Some c) (sorted_text (map rl_roleCode (roles_at db t)))"
      "cr_status c \<noteq> ''tombstoned''" "manageable a" "account_at db t = Some a" by (rule locked_rows[OF a])
  have r1: "rewritten t (\<lambda>u. u) (\<lambda>c. c\<lparr> cr_username := username \<rparr>) (\<lambda>r. r) db db1"
    by (rule apply_username_rewritten[OF w(1) assms(2) rows(6)])
  then have r2: "rewritten t (\<lambda>u. u\<lparr> us_email := Some email \<rparr>) (\<lambda>c. c) (\<lambda>r. r) db1 db2"
    using rows by (intro apply_email_rewritten[OF w(2)]) (auto simp: rewritten_def managed_account_def)
  have "rewritten t (\<lambda>u. u) (\<lambda>c. c) (\<lambda>_. [role]) db2 db3"
    using r1 r2 rows by (intro apply_role_rewritten[OF w(3)]) (auto simp: rewritten_def managed_account_def)
  note rw = rewritten_then[OF rewritten_then[OF r1 r2] this]
  let ?a' = "a\<lparr> ma_username := Some username, ma_email := Some email, ma_roles := [role] \<rparr>"
  have "account_at db3 t = Some ?a'"
    using rewritten_account[OF rw] rows(1-3) by (simp add: managed_account_def sorted_text_def)
  moreover have "revoked_at db3 t" using rw rows(2,4) by (auto simp: rewritten_def revoked_at_def)
  moreover have "lifecycle (other_admin db t) ''USER_ACCOUNT_UPDATED'' (Some a) ?a'"
    using guard others_remain[OF _ assms(2)]
    by (intro lifecycle.updated[OF rows(5) assms(3)]) (auto simp: removesAdminRole_def isActiveAdmin_def)
  ultimately show ?thesis using change_committed[OF rw a aud, of ?a']
    by (simp add: credential_advances_def oidc_identity_def row_changes accountLifecycleFacts_def)
qed

lemma account_version_at:
  assumes "account_version a = Inr v" "nextSessionVersion v = Inr w" "manageable a"
  shows "ma_sessionVersion a = Some v" "v < MAX_SESSION_VERSION" "w = v + 1"
  using assms by (auto simp: account_version_def requireSessionVersion_def nextSessionVersion_def manageable_def split: if_splits)

lemma status_written:
  assumes "(if old \<noteq> desired then write_user t (\<lambda>u. u\<lparr> us_status := desired \<rparr>) db else Inr db) = Inr db'" "tables_ok db"
    and "map_option us_status (user_at db t) = Some old"
  shows "rewritten t (\<lambda>u. u\<lparr> us_status := desired \<rparr>) (\<lambda>c. c) (\<lambda>r. r) db db'"
proof (cases "old = desired")
  case True
  then have "map_option (\<lambda>u. u\<lparr> us_status := desired \<rparr>) (user_at db t) = user_at db t" using assms(3) by auto
  then show ?thesis using rewritten_nothing[OF assms(2), of t] True assms(1) by (simp add: rewritten_def option.map_ident)
next
  case False
  then show ?thesis using assms(1,2) by (intro write_user_rewritten) simp_all
qed

lemma not_committed: "(if p then Inr (False, x) else m) = Inr (True, y) \<longleftrightarrow> \<not> p \<and> m = Inr (True, y)"
  by simp

lemma activation_committed:
  assumes "activation_transaction rt env actor t active db = Inr (commit, db', r)" "tables_ok db" "commit"
  shows "uc_action r = (if active then ''USER_ACCOUNT_ACTIVATED'' else ''USER_ACCOUNT_DEACTIVATED'') \<and> uc_userId r = t \<and>
         committed_change rt env (uc_action r) actor t db db'"
proof -
  let ?desired = "if active then ''active'' else ''disabled''"
  let ?action = "if active then ''USER_ACCOUNT_ACTIVATED'' else ''USER_ACCOUNT_DEACTIVATED''"
  let ?g = "if active then enable_row else disable_row ''disabled'' (en_now env)"
  have "activation_transaction rt env actor t active db = Inr (True, db', r)" using assms(1,3) by simp
  then obtain a v w db1 db2 where a: "locked_account db t = Inr a"
    and checked: "\<exists>u. (if active then Inr () else rbind (refuseSelfTarget actor t ''USER_ADMIN_SELF_DEACTIVATE_FORBIDDEN'')
      (\<lambda>_. refuseLastActiveAdmin a (countOtherActiveAdmins db t))) = Inr u"
    and vw: "account_version a = Inr v" "nextSessionVersion v = Inr w"
    and wr: "write_credential t ?g db = Inr db1"
      "(if ma_userStatus a \<noteq> ?desired then write_user t (\<lambda>u. u\<lparr> us_status := ?desired \<rparr>) db1 else Inr db1) = Inr db2"
    and aud: "audited_change rt env ?action actor t (Some (accountLifecycleFacts a))
      (accountLifecycleFacts a\<lparr> lf_userStatus := ?desired, lf_credentialStatus := ?desired, lf_sessionVersion := w \<rparr>) True db2 =
      Inr (True, db', r)"
    unfolding activation_transaction_def Let_def rbind_Inr_iff not_committed by blast
  have guard: "\<exists>u. refuseLastActiveAdmin a (countOtherActiveAdmins db t) = Inr u" if "\<not> active"
    using checked that by (auto simp: rbind_Inr_iff)
  obtain u c where rows: "user_at db t = Some u" "credential_at db t = Some c"
      "a = managed_account u (Some c) (sorted_text (map rl_roleCode (roles_at db t)))"
      "cr_status c \<noteq> ''tombstoned''" "manageable a" "account_at db t = Some a" by (rule locked_rows[OF a])
  note ver = account_version_at[OF vw rows(5)]
  have r1: "rewritten t (\<lambda>u. u) ?g (\<lambda>r. r) db db1"
    by (rule write_credential_keeps_name[OF wr(1) assms(2)]) (simp_all add: row_changes)
  then have "rewritten t (\<lambda>u. u\<lparr> us_status := ?desired \<rparr>) (\<lambda>c. c) (\<lambda>r. r) db1 db2"
    using rows by (intro status_written[OF wr(2)]) (auto simp: rewritten_def managed_account_def)
  note rw = rewritten_then[OF r1 this]
  let ?a' = "with_status ?desired a\<lparr> ma_sessionVersion := Some w \<rparr>"
  have "account_at db2 t = Some ?a'"
    using rewritten_account[OF rw] rows(1-3) ver by (simp add: managed_account_def with_status_def row_changes)
  moreover have "revoked_at db2 t" using rw rows(2,4) by (auto simp: rewritten_def revoked_at_def row_changes)
  moreover have "lifecycle (other_admin db t) ?action (Some a) ?a'"
    using guard others_remain[OF _ assms(2)] lifecycle.activated[OF rows(5) ver(1,2)] lifecycle.deactivated[OF rows(5) ver(1,2)]
    by (auto simp: ver(3))
  ultimately show ?thesis using change_committed[OF rw a aud, of ?a']
    by (simp add: credential_advances_def oidc_identity_def row_changes accountLifecycleFacts_def with_status_def)
qed

lemma activation_unchanged: "activation_transaction rt env actor t active db = Inr (commit, db', r) \<Longrightarrow> \<not> commit \<Longrightarrow> \<not> uc_changed r"
  unfolding activation_transaction_def Let_def by (auto simp: rbind_Inr_iff dest: audited_views(1) split: if_splits)

lemma reset_committed:
  assumes "reset_transaction rt env actor t password db = Inr (commit, db', r)" "tables_ok db"
  shows "commit \<and> uc_action r = ''USER_ACCOUNT_PASSWORD_RESET'' \<and> uc_userId r = t \<and>
         committed_change rt env ''USER_ACCOUNT_PASSWORD_RESET'' actor t db db'"
proof -
  from assms(1) obtain a v w hash db1 where a: "locked_account db t = Inr a"
    and vw: "account_version a = Inr v" "nextSessionVersion v = Inr w"
    and wr: "write_credential t (reset_row hash (en_now env)) db = Inr db1"
    and aud: "audited_change rt env ''USER_ACCOUNT_PASSWORD_RESET'' actor t (Some (accountLifecycleFacts a))
      (accountLifecycleFacts a\<lparr> lf_sessionVersion := w \<rparr>) True db1 = Inr (commit, db', r)"
    unfolding reset_transaction_def by (auto simp: rbind_Inr_iff Let_def)
  obtain u c where rows: "user_at db t = Some u" "credential_at db t = Some c"
      "a = managed_account u (Some c) (sorted_text (map rl_roleCode (roles_at db t)))"
      "cr_status c \<noteq> ''tombstoned''" "manageable a" "account_at db t = Some a" by (rule locked_rows[OF a])
  note ver = account_version_at[OF vw rows(5)]
  have rw: "rewritten t (\<lambda>u. u) (reset_row hash (en_now env)) (\<lambda>r. r) db db1"
    by (rule write_credential_keeps_name[OF wr assms(2)]) (simp_all add: row_changes)
  let ?a' = "a\<lparr> ma_sessionVersion := Some w \<rparr>"
  have "account_at db1 t = Some ?a'"
    using rewritten_account[OF rw] rows(1-3) ver by (simp add: managed_account_def row_changes)
  moreover have "revoked_at db1 t" using rw rows(2,4) by (auto simp: rewritten_def revoked_at_def row_changes)
  moreover have "lifecycle (other_admin db t) ''USER_ACCOUNT_PASSWORD_RESET'' (Some a) ?a'"
    using lifecycle.password_reset[OF rows(5) ver(1,2)] by (simp add: ver(3))
  ultimately show ?thesis using change_committed[OF rw a aud, of ?a']
    by (simp add: credential_advances_def oidc_identity_def row_changes accountLifecycleFacts_def)
qed

lemma sentinel_revoked: "buildRevokedPasswordSentinel random = Inr h \<Longrightarrow> parseStoredPasswordHash h = None"
  using two_parts_unparseable[of "''revoked''" "base64url random"] base64url_no_separator(2)[of random]
  by (auto simp: buildRevokedPasswordSentinel_def requireStorablePasswordHash_def split: if_splits)

lemma tombstone_committed:
  assumes "tombstone_transaction rt env actor t db = Inr (commit, db', r)" "tables_ok db"
  shows "commit \<and> uc_action r = ''USER_ACCOUNT_TOMBSTONED'' \<and> uc_userId r = t \<and>
         committed_change rt env ''USER_ACCOUNT_TOMBSTONED'' actor t db db'"
proof -
  from assms(1) obtain a u0 v w sentinel db1 db2 where a: "locked_account db t = Inr a"
    and guard: "refuseLastActiveAdmin a (countOtherActiveAdmins db t) = Inr u0"
    and vw: "account_version a = Inr v" "nextSessionVersion v = Inr w"
    and sentinel: "buildRevokedPasswordSentinel (en_random env) = Inr sentinel"
    and wr: "write_credential t (tombstone_row sentinel (en_now env)) db = Inr db1"
      "write_user t (\<lambda>u. u\<lparr> us_status := ''tombstoned'' \<rparr>) db1 = Inr db2"
    and aud: "audited_change rt env ''USER_ACCOUNT_TOMBSTONED'' actor t (Some (accountLifecycleFacts a))
      (accountLifecycleFacts a\<lparr> lf_userStatus := ''tombstoned'', lf_credentialStatus := ''tombstoned'', lf_sessionVersion := w \<rparr>)
      True db2 = Inr (commit, db', r)"
    unfolding tombstone_transaction_def by (auto simp: rbind_Inr_iff Let_def)
  obtain u c where rows: "user_at db t = Some u" "credential_at db t = Some c"
      "a = managed_account u (Some c) (sorted_text (map rl_roleCode (roles_at db t)))"
      "cr_status c \<noteq> ''tombstoned''" "manageable a" "account_at db t = Some a" by (rule locked_rows[OF a])
  note ver = account_version_at[OF vw rows(5)]
  have r1: "rewritten t (\<lambda>u. u) (tombstone_row sentinel (en_now env)) (\<lambda>r. r) db db1"
    by (rule write_credential_keeps_name[OF wr(1) assms(2)]) (simp_all add: row_changes)
  have "rewritten t (\<lambda>u. u\<lparr> us_status := ''tombstoned'' \<rparr>) (\<lambda>c. c) (\<lambda>r. r) db1 db2"
    using r1 by (intro write_user_rewritten[OF wr(2)]) (auto simp: rewritten_def)
  note rw = rewritten_then[OF r1 this]
  let ?a' = "with_status ''tombstoned'' a\<lparr> ma_sessionVersion := Some w \<rparr>"
  have "account_at db2 t = Some ?a'"
    using rewritten_account[OF rw] rows(1-3) ver by (simp add: managed_account_def with_status_def row_changes)
  moreover have "revoked_at db2 t"
    using rw rows(2) sentinel_revoked[OF sentinel] by (auto simp: rewritten_def revoked_at_def row_changes)
  moreover have "lifecycle (other_admin db t) ''USER_ACCOUNT_TOMBSTONED'' (Some a) ?a'"
    using others_remain[OF guard assms(2)] lifecycle.tombstoned[OF rows(5) ver(1,2)] by (simp add: ver(3))
  ultimately show ?thesis using change_committed[OF rw a aud, of ?a']
    by (simp add: credential_advances_def oidc_identity_def row_changes accountLifecycleFacts_def with_status_def)
qed

lemma create_committed:
  assumes "create_transaction rt env actor username email role password db = Inr (commit, db', r)" "tables_ok db"
    and "role \<in> set ASSIGNABLE_ROLES"
  shows "commit \<and> uc_action r = ''USER_ACCOUNT_CREATED'' \<and> uc_userId r = en_userId env \<and>
         committed_change rt env ''USER_ACCOUNT_CREATED'' actor (en_userId env) db db'"
proof -
  let ?t = "en_userId env"
  from assms(1) obtain hash db1 db2 db3 where w: "insertUser ?t email (en_now env) db = Inr db1"
      "insertCredential ?t username hash (en_now env) db1 = Inr db2" "insertRole (en_roleId env) ?t role actor db2 = Inr db3"
    and aud: "audited_change rt env ''USER_ACCOUNT_CREATED'' actor ?t None
      \<lparr> lf_userId = ?t, lf_userStatus = ''active'', lf_credentialStatus = ''active'', lf_roles = [role], lf_sessionVersion = 1 \<rparr>
      True db3 = Inr (commit, db', r)"
    unfolding create_transaction_def by (auto simp: rbind_Inr_iff split: if_splits)
  have new: "user_at db ?t = None" "credential_at db ?t = None" "username \<notin> cr_username ` set (ud_credentials db)"
    using w(1,2) by (auto simp: insertUser_def insertCredential_def view_defs row_at_None list_ex_iff split: if_splits)
  obtain u c rl where db3: "db3 = db\<lparr> ud_users := ud_users db @ [u], ud_credentials := ud_credentials db @ [c], ud_roles := ud_roles db @ [rl] \<rparr>"
    and u: "us_id u = ?t" "us_kind u = ''user''" "us_status u = ''active''" "us_email u = Some email" "oidc_identity u = (None, None)"
    and c: "cr_userId c = ?t" "cr_username c = username" "cr_status c = ''active''" "cr_sessionVersion c = 1"
    and rl: "rl_userId rl = ?t" "rl_roleCode rl = role"
    using w by (auto simp: insertUser_def insertCredential_def insertRole_def oidc_identity_def split: if_splits)
  have roles: "roles_at db ?t = []"
    unfolding roles_at_def filter_empty_conv
  proof (intro ballI notI)
    fix x assume "x \<in> set (ud_roles db)" "same_key (rl_userId x) ?t"
    then show False
      using assms(2) new(1) row_at_cong[of "rl_userId x" ?t us_id "ud_users db"] by (fastforce simp: tables_ok_def user_at_def)
  qed
  have at: "user_at db3 i = (if same_key i ?t then Some u else user_at db i)"
      "credential_at db3 i = (if same_key i ?t then Some c else credential_at db i)"
      "roles_at db3 i = (if same_key i ?t then [rl] else roles_at db i)" for i
  proof -
    have "same_key ?t i \<longleftrightarrow> same_key i ?t" by (rule same_key_sym)
    then show "user_at db3 i = (if same_key i ?t then Some u else user_at db i)"
        "credential_at db3 i = (if same_key i ?t then Some c else credential_at db i)"
        "roles_at db3 i = (if same_key i ?t then [rl] else roles_at db i)"
      using new(1,2) roles roles_at_cong[of i ?t db] row_at_cong[of i ?t us_id "ud_users db"] row_at_cong[of i ?t cr_userId "ud_credentials db"]
      by (cases "same_key i ?t"; simp add: db3 view_defs row_at_append u(1) c(1) rl(1) split: option.splits)+
  qed
  have "tables_ok db3"
    using assms(2) new by (auto simp: tables_ok_def at(1) db3 unique_keys_append u(1) c(1,2) rl(1) view_defs row_at_append split: option.splits)
  moreover have "others_kept ?t db db3" by (simp add: others_kept_def at)
  moreover have a: "account_at db ?t = None" "account_at db3 ?t = Some (new_account ?t username email role)"
    using new(1) by (simp_all add: account_at_def at new_account_def managed_account_def u c rl sorted_text_def)
  moreover have "revoked_at db3 ?t" "identity_kept db db3 ?t" using new(1) by (simp_all add: revoked_at_def identity_kept_def at c u)
  moreover have "ud_audit db3 = ud_audit db" by (simp add: db3)
  ultimately show ?thesis
    using audited_views[OF aud] lifecycle.created[OF assms(3)]
    by (auto simp: committed_change_def new(1,2) others_kept_def revoked_at_def identity_kept_def account_event_def account_hash_def accountLifecycleFacts_def new_account_def)
qed

section \<open>Histories of operations\<close>

datatype admin_op =
    Create_user admin_env js_input js_input js_input js_input js_input
  | Update_user admin_env js_input js_input js_input js_input js_input
  | Set_activation admin_env js_input js_input "bool option"
  | Reset_password admin_env js_input js_input js_input
  | Tombstone_user admin_env js_input js_input

fun admin_exec :: "runtime \<Rightarrow> admin_op \<Rightarrow> user_db \<Rightarrow> user_db \<times> UserAdminChangeResult res" where
  "admin_exec rt (Create_user env actor username email password role) db = createUser rt env actor username email password role db"
| "admin_exec rt (Update_user env actor target username email role) db = updateUser rt env actor target username email role db"
| "admin_exec rt (Set_activation env actor target active) db = setUserActivation rt env actor target active db"
| "admin_exec rt (Reset_password env actor target password) db = resetUserPassword rt env actor target password db"
| "admin_exec rt (Tombstone_user env actor target) db = tombstoneUser rt env actor target db"

fun op_env :: "admin_op \<Rightarrow> admin_env" where
  "op_env (Create_user env _ _ _ _ _) = env"
| "op_env (Update_user env _ _ _ _ _) = env"
| "op_env (Set_activation env _ _ _) = env"
| "op_env (Reset_password env _ _ _) = env"
| "op_env (Tombstone_user env _ _) = env"

lemma assignable: "requireAssignableRole v = Inr role \<Longrightarrow> role \<in> set ASSIGNABLE_ROLES"
  by (auto simp: requireAssignableRole_def split: js_input.splits if_splits)

lemma admin_op_effect:
  assumes "admin_exec rt op db = (db', out)" "tables_ok db"
  shows "(db' = db \<and> (\<forall>r. out = Inr r \<longrightarrow> \<not> uc_changed r)) \<or>
    (\<exists>r actor. out = Inr r \<and> committed_change rt (op_env op) (uc_action r) actor (uc_userId r) db db')"
proof (cases op)
  case (Create_user env actor username email password role)
  consider e where "db' = db" "out = Inl e" | a n m p q commit x v where "requireAssignableRole role = Inr q" "create_transaction rt env a n m q p db = Inr (commit, x, v)"
      "db' = (if commit then x else db)" "out = Inr v"
    using assms(1) Create_user by (auto simp: createUser_def rbind_Inr_iff inTransaction_def split: sum.splits prod.splits if_splits)
  then show ?thesis
  proof cases
    case 2
    then show ?thesis using create_committed[OF 2(2) assms(2) assignable[OF 2(1)]] 2(3,4) Create_user by auto
  qed simp
next
  case (Update_user env actor target username email role)
  consider e where "db' = db" "out = Inl e" | a t n m q commit x v where "requireAssignableRole role = Inr q" "update_transaction rt env a t n m q db = Inr (commit, x, v)"
      "db' = (if commit then x else db)" "out = Inr v"
    using assms(1) Update_user by (auto simp: updateUser_def rbind_Inr_iff inTransaction_def split: sum.splits prod.splits if_splits)
  then show ?thesis
  proof cases
    case 2
    then show ?thesis using update_committed[OF 2(2) assms(2) assignable[OF 2(1)]] 2(3,4) Update_user by auto
  qed simp
next
  case (Set_activation env actor target active)
  consider e where "db' = db" "out = Inl e" | a t f commit x v where "activation_transaction rt env a t f db = Inr (commit, x, v)"
      "db' = (if commit then x else db)" "out = Inr v"
    using assms(1) Set_activation by (auto simp: setUserActivation_def rbind_Inr_iff inTransaction_def split: sum.splits prod.splits if_splits)
  then show ?thesis
  proof cases
    case 2
    then show ?thesis using activation_committed[OF 2(1) assms(2)] activation_unchanged[OF 2(1)] 2(2,3) Set_activation by (cases commit) auto
  qed simp
next
  case (Reset_password env actor target password)
  consider e where "db' = db" "out = Inl e" | a t commit x v where "reset_transaction rt env a t password db = Inr (commit, x, v)"
      "db' = (if commit then x else db)" "out = Inr v"
    using assms(1) Reset_password by (auto simp: resetUserPassword_def rbind_Inr_iff inTransaction_def split: sum.splits prod.splits if_splits)
  then show ?thesis
  proof cases
    case 2
    then show ?thesis using reset_committed[OF 2(1) assms(2)] 2(2,3) Reset_password by auto
  qed simp
next
  case (Tombstone_user env actor target)
  consider e where "db' = db" "out = Inl e" | a t commit x v where "tombstone_transaction rt env a t db = Inr (commit, x, v)"
      "db' = (if commit then x else db)" "out = Inr v"
    using assms(1) Tombstone_user by (auto simp: tombstoneUser_def rbind_Inr_iff inTransaction_def split: sum.splits prod.splits if_splits)
  then show ?thesis
  proof cases
    case 2
    then show ?thesis using tombstone_committed[OF 2(1) assms(2)] 2(2,3) Tombstone_user by auto
  qed simp
qed

definition has_admin :: "user_db \<Rightarrow> bool" where
  "has_admin db \<longleftrightarrow> (\<exists>i a. account_at db i = Some a \<and> isActiveAdmin a)"

text \<open>The unique key over issuer and subject; a row without either is exempt.\<close>

definition same_identity :: "UserRow \<Rightarrow> UserRow \<Rightarrow> bool" where
  "same_identity u w \<longleftrightarrow>
     (case (oidc_identity u, oidc_identity w) of
        ((Some a, Some b), (Some c, Some d)) \<Rightarrow> same_key a c \<and> same_key b d
      | _ \<Rightarrow> False)"

definition unique_identities :: "user_db \<Rightarrow> bool" where
  "unique_identities db \<longleftrightarrow> (\<forall>u \<in> set (ud_users db). \<forall>w \<in> set (ud_users db). same_identity u w \<longrightarrow> same_key (us_id u) (us_id w))"

definition users_ok :: "runtime \<Rightarrow> user_db \<Rightarrow> bool" where
  "users_ok rt db \<longleftrightarrow>
     tables_ok db \<and> chain_intact rt (ud_audit db) \<and> unique_identities db \<and>
     (\<forall>c \<in> set (ud_credentials db). cr_status c = ''tombstoned'' \<longrightarrow> parseStoredPasswordHash (cr_passwordHash c) = None)"

text \<open>How an account may differ after a history.\<close>

definition advances :: "ManagedAccount \<Rightarrow> ManagedAccount \<Rightarrow> bool" where
  "advances a a' \<longleftrightarrow>
     ma_userId a' = ma_userId a \<and> ma_kind a' = ma_kind a \<and> (isTombstoned a \<longrightarrow> a' = a) \<and>
     (\<forall>v. ma_sessionVersion a = Some v \<longrightarrow> (\<exists>v' \<ge> v. ma_sessionVersion a' = Some v'))"

definition accounts_grow :: "user_db \<Rightarrow> user_db \<Rightarrow> bool" where
  "accounts_grow db db' \<longleftrightarrow>
     (\<forall>i a. account_at db i = Some a \<longrightarrow>
        (\<exists>a'. account_at db' i = Some a' \<and> advances a a') \<and> (isTombstoned a \<longrightarrow> credential_at db' i = credential_at db i)) \<and>
     (\<forall>i c. credential_at db i = Some c \<longrightarrow> (\<exists>c'. credential_at db' i = Some c' \<and> credential_advances c c')) \<and>
     (\<forall>i u. user_at db i = Some u \<longrightarrow> oidc_identity u \<noteq> (None, None) \<longrightarrow>
        map_option oidc_identity (user_at db' i) = Some (oidc_identity u)) \<and>
     (has_admin db \<longrightarrow> has_admin db') \<and>
     (\<exists>rows. al_rows (ud_audit db') = al_rows (ud_audit db) @ rows)"

lemma advances_refl [simp]: "advances a a"
  by (auto simp: advances_def)

lemma advances_trans: "advances a b \<Longrightarrow> advances b c \<Longrightarrow> advances a c"
  unfolding advances_def by (metis order_trans)

lemma accounts_grow_refl [simp]: "accounts_grow db db"
  by (auto simp: accounts_grow_def credential_advances_def)

lemma credential_advances_trans: "credential_advances a b \<Longrightarrow> credential_advances b c \<Longrightarrow> credential_advances a c"
  by (auto simp: credential_advances_def)

lemma accounts_grow_trans:
  assumes "accounts_grow x y" "accounts_grow y z"
  shows "accounts_grow x z"
proof -
  have "(\<exists>a'. account_at z i = Some a' \<and> advances a a') \<and> (isTombstoned a \<longrightarrow> credential_at z i = credential_at x i)"
    if a: "account_at x i = Some a" for i a
  proof -
    from assms(1) a obtain b where b: "account_at y i = Some b" "advances a b"
      "isTombstoned a \<longrightarrow> credential_at y i = credential_at x i" unfolding accounts_grow_def by blast
    from assms(2) b(1) obtain c where c: "account_at z i = Some c" "advances b c"
      "isTombstoned b \<longrightarrow> credential_at z i = credential_at y i" unfolding accounts_grow_def by blast
    have "isTombstoned a \<longrightarrow> b = a" using b(2) by (simp add: advances_def)
    with b c show ?thesis using advances_trans by auto
  qed
  moreover have "\<exists>c'. credential_at z i = Some c' \<and> credential_advances c c'" if "credential_at x i = Some c" for i c
    using that assms credential_advances_trans unfolding accounts_grow_def by meson
  moreover have "map_option oidc_identity (user_at z i) = Some (oidc_identity u)" if u: "user_at x i = Some u" "oidc_identity u \<noteq> (None, None)" for i u
  proof -
    have "map_option oidc_identity (user_at y i) = Some (oidc_identity u)" using assms(1) u unfolding accounts_grow_def by blast
    then obtain w where "user_at y i = Some w" "oidc_identity w = oidc_identity u" by auto
    moreover from this have "map_option oidc_identity (user_at z i) = Some (oidc_identity w)"
      using assms(2) u(2) unfolding accounts_grow_def by metis
    ultimately show ?thesis by simp
  qed
  moreover have "\<exists>rows. al_rows (ud_audit z) = al_rows (ud_audit x) @ rows"
    using assms unfolding accounts_grow_def by (metis append.assoc)
  ultimately show ?thesis using assms unfolding accounts_grow_def by blast
qed

lemma lifecycle_advances: "lifecycle others action (Some a) a' \<Longrightarrow> advances a a' \<and> \<not> isTombstoned a"
  by (erule lifecycle_changeE) (auto simp: advances_def manageable_def with_status_def)

lemma lifecycle_raises:
  assumes "lifecycle others action before a'" "action \<notin> {''USER_ACCOUNT_CREATED'', ''USER_ACCOUNT_UPDATED''}"
  shows "\<exists>a v. before = Some a \<and> ma_sessionVersion a = Some v \<and> ma_sessionVersion a' = Some (v + 1)"
  using assms by (cases rule: lifecycle.cases) auto

lemma lifecycle_admin:
  "lifecycle others action (Some a) a' \<Longrightarrow> isActiveAdmin a \<Longrightarrow> isActiveAdmin a' \<or> others"
  by (erule lifecycle_changeE) (auto simp: isActiveAdmin_def with_status_def)

lemma audit_row_appended:
  assumes "recordAuditEventInTransaction rt columns i event l = Inr (l', mode)"
  shows "\<exists>row. al_rows l' = al_rows l @ [row] \<and> ar_event row = event \<and> ar_id row = i"
  using assms
  by (auto simp: recordAuditEventInTransaction_def append_chained_def insert_row_def Let_def rbind_Inr_iff split: if_splits)

lemma admin_kept:
  assumes "committed_change rt env action actor t db db'" "has_admin db"
  shows "has_admin db'"
proof -
  from assms(2) obtain i a where a: "account_at db i = Some a" "isActiveAdmin a" unfolding has_admin_def by blast
  from assms(1) obtain a' where step: "account_at db' t = Some a'" "lifecycle (other_admin db t) action (account_at db t) a'"
    and kept: "others_kept t db db'" unfolding committed_change_def by blast
  have others: "has_admin db'" if "other_admin db t"
    using that account_kept[OF kept] unfolding other_admin_def has_admin_def by metis
  show ?thesis
  proof (cases "same_key i t")
    case True
    then have "account_at db t = Some a" using a(1) account_at_cong[of i t db] by simp
    then show ?thesis using lifecycle_admin[of "other_admin db t" action a a'] step a(2) others unfolding has_admin_def by auto
  next
    case False
    then show ?thesis using a account_kept[OF kept False] unfolding has_admin_def by auto
  qed
qed

lemma account_grows:
  assumes "committed_change rt env action actor t db db'" "account_at db i = Some a"
  shows "\<exists>a'. account_at db' i = Some a' \<and> advances a a'" "isTombstoned a \<longrightarrow> credential_at db' i = credential_at db i"
proof -
  from assms(1) obtain a' where step: "account_at db' t = Some a'" "lifecycle (other_admin db t) action (account_at db t) a'"
    and kept: "others_kept t db db'" unfolding committed_change_def by blast
  have same: "account_at db' i = Some a'" "advances a a'" "\<not> isTombstoned a" if "same_key i t"
    using that assms(2) step account_at_cong[of i t] lifecycle_advances[of "other_admin db t" action a a'] by simp_all
  have other: "account_at db' i = Some a" "credential_at db' i = credential_at db i" if "\<not> same_key i t"
    using that assms(2) account_kept[OF kept that] kept by (simp_all add: others_kept_def)
  show "\<exists>a'. account_at db' i = Some a' \<and> advances a a'" using same other by (cases "same_key i t") auto
  show "isTombstoned a \<longrightarrow> credential_at db' i = credential_at db i" using same other by (cases "same_key i t") auto
qed

lemma credential_grows:
  assumes "committed_change rt env action actor t db db'" "credential_at db i = Some c"
  shows "\<exists>c'. credential_at db' i = Some c' \<and> credential_advances c c'"
proof (cases "same_key i t")
  case True
  then show ?thesis using assms row_at_cong[OF True, of cr_userId "ud_credentials db"] row_at_cong[OF True, of cr_userId "ud_credentials db'"]
    by (simp add: committed_change_def credential_at_def)
next
  case False
  then show ?thesis using assms by (auto simp: committed_change_def others_kept_def credential_advances_def)
qed

lemma revoked_everywhere:
  assumes "tables_ok db"
  shows "(\<forall>i. revoked_at db i) \<longleftrightarrow>
    (\<forall>c \<in> set (ud_credentials db). cr_status c = ''tombstoned'' \<longrightarrow> parseStoredPasswordHash (cr_passwordHash c) = None)"
proof -
  have "credential_at db (cr_userId c) = Some c" if "c \<in> set (ud_credentials db)" for c
    using that assms by (simp add: tables_ok_def credential_at_def row_at_member)
  then show ?thesis by (auto simp: revoked_at_def credential_at_def dest: row_at_Some)
qed

lemma unique_identities_views:
  assumes "unique_keys us_id (ud_users db)"
  shows "unique_identities db \<longleftrightarrow> (\<forall>i j u w. user_at db i = Some u \<longrightarrow> user_at db j = Some w \<longrightarrow> same_identity u w \<longrightarrow> same_key i j)"
proof
  assume unique: "unique_identities db"
  show "\<forall>i j u w. user_at db i = Some u \<longrightarrow> user_at db j = Some w \<longrightarrow> same_identity u w \<longrightarrow> same_key i j"
  proof (intro allI impI)
    fix i j u w assume "user_at db i = Some u" "user_at db j = Some w" "same_identity u w"
    then show "same_key i j"
      using unique row_at_Some[of us_id i "ud_users db" u] row_at_Some[of us_id j "ud_users db" w]
      by (auto simp: unique_identities_def user_at_def same_key_def)
  qed
next
  assume "\<forall>i j u w. user_at db i = Some u \<longrightarrow> user_at db j = Some w \<longrightarrow> same_identity u w \<longrightarrow> same_key i j"
  then show "unique_identities db"
    using assms by (auto simp: unique_identities_def user_at_def row_at_member)
qed

lemma identity_kept_unique:
  assumes "\<And>i. identity_kept db db' i" "tables_ok db" "tables_ok db'" "unique_identities db"
  shows "unique_identities db'"
proof -
  have before: "\<exists>u. user_at db i = Some u \<and> oidc_identity u = oidc_identity u'"
    if "user_at db' i = Some u'" "oidc_identity u' \<noteq> (None, None)" for i u'
    using assms(1)[of i] that by (auto simp: identity_kept_def split: option.splits)
  have keys: "unique_keys us_id (ud_users db)" "unique_keys us_id (ud_users db')" using assms(2,3) by (simp_all add: tables_ok_def)
  have "same_key i j" if rows: "user_at db' i = Some u'" "user_at db' j = Some w'" "same_identity u' w'" for i j u' w'
  proof -
    have bound: "oidc_identity u' \<noteq> (None, None)" "oidc_identity w' \<noteq> (None, None)"
      using rows(3) by (auto simp: same_identity_def split: prod.splits option.splits)
    obtain u where u: "user_at db i = Some u" "oidc_identity u = oidc_identity u'" using before[OF rows(1) bound(1)] by blast
    obtain w where w: "user_at db j = Some w" "oidc_identity w = oidc_identity w'" using before[OF rows(2) bound(2)] by blast
    have "same_identity u w" using u(2) w(2) rows(3) by (simp add: same_identity_def)
    then show ?thesis using u(1) w(1) assms(4) unfolding unique_identities_views[OF keys(1)] by blast
  qed
  then show ?thesis unfolding unique_identities_views[OF keys(2)] by blast
qed

lemma identity_grows:
  assumes "committed_change rt env action actor t db db'"
  shows "identity_kept db db' i"
proof (cases "same_key i t")
  case True
  then show ?thesis
    using assms row_at_cong[OF True, of us_id "ud_users db"] row_at_cong[OF True, of us_id "ud_users db'"]
    by (simp add: committed_change_def identity_kept_def user_at_def cong: option.case_cong)
next
  case False
  then show ?thesis using assms by (auto simp: committed_change_def others_kept_def identity_kept_def split: option.splits)
qed

lemma committed_keeps:
  assumes "committed_change rt env action actor t db db'" "users_ok rt db"
  shows "users_ok rt db' \<and> accounts_grow db db'"
proof -
  from assms(1) obtain mode where t: "tables_ok db'" "others_kept t db db'" "revoked_at db' t"
    and rec: "recordAuditEventInTransaction rt (en_columns env) (en_eventId env) (account_event rt env action actor t db db') (ud_audit db) =
      Inr (ud_audit db', mode)" unfolding committed_change_def by blast
  have "chain_intact rt (ud_audit db')"
    using exec_intact[of rt "ud_audit db" "Record_in_transaction (en_columns env) (en_eventId env) (account_event rt env action actor t db db')"]
      assms(2) rec by (simp add: users_ok_def)
  moreover have "revoked_at db' i" for i
  proof (cases "same_key i t")
    case True
    then show ?thesis using t(3) row_at_cong[OF True, of cr_userId "ud_credentials db'"] by (simp add: revoked_at_def credential_at_def)
  next
    case False
    then show ?thesis using t(2) assms(2) revoked_everywhere[of db] by (simp add: users_ok_def others_kept_def revoked_at_def)
  qed
  moreover have "unique_identities db'"
    using identity_kept_unique[of db db'] identity_grows[OF assms(1)] t(1) assms(2) by (simp add: users_ok_def)
  moreover have "map_option oidc_identity (user_at db' i) = Some (oidc_identity u)" if "user_at db i = Some u" for i u
    using identity_grows[OF assms(1), of i] that by (simp add: identity_kept_def)
  ultimately show ?thesis
    using t(1) revoked_everywhere[OF t(1)] account_grows[OF assms(1)] credential_grows[OF assms(1)] admin_kept[OF assms(1)] audit_row_appended[OF rec]
    unfolding users_ok_def accounts_grow_def by blast
qed

inductive admin_step :: "runtime \<Rightarrow> user_db \<Rightarrow> user_db \<Rightarrow> bool" for rt where
  administered: "admin_step rt db (fst (admin_exec rt op db))"

inductive_cases admin_stepE: "admin_step rt db db'"

lemma admin_step_keeps: "admin_step rt db db' \<Longrightarrow> users_ok rt db \<Longrightarrow> users_ok rt db' \<and> accounts_grow db db'"
proof (erule admin_stepE)
  fix op assume ok: "users_ok rt db" and db': "db' = fst (admin_exec rt op db)"
  have "tables_ok db" "admin_exec rt op db = (db', snd (admin_exec rt op db))" using ok db' by (simp_all add: users_ok_def)
  then show ?thesis using admin_op_effect committed_keeps[OF _ ok] ok by (metis accounts_grow_refl)
qed

interpretation admin: monotone_system "admin_step rt" "users_ok rt" accounts_grow for rt
  by unfold_locales (auto intro: accounts_grow_trans dest: admin_step_keeps)

lemma session_account:
  assumes "getSessionState db i = Some s" "tables_ok db"
  shows "\<exists>a. account_at db i = Some a \<and> ma_sessionVersion a = Some (cs_sessionVersion s)"
proof -
  obtain u c where "u \<in> set (ud_users db)" "c \<in> set (ud_credentials db)" "same_key (us_id u) i" "same_key (cr_userId c) i"
      "cs_sessionVersion s = cr_sessionVersion c" using session_row[OF assms(1)] by blast
  then show ?thesis using assms(2)
    by (auto simp: account_at_def user_at_def credential_at_def tables_ok_def row_at_member managed_account_def)
qed

lemma revocation_raises:
  assumes "users_ok rt db" "admin_exec rt op db = (db1, Inr r)" "uc_changed r"
    and "uc_action r \<notin> {''USER_ACCOUNT_CREATED'', ''USER_ACCOUNT_UPDATED''}" "credential_at db (uc_userId r) = Some c"
  shows "users_ok rt db1" "\<exists>a. account_at db1 (uc_userId r) = Some a \<and> ma_sessionVersion a = Some (cr_sessionVersion c + 1)"
proof -
  have t: "tables_ok db" using assms(1) by (simp add: users_ok_def)
  obtain actor where c: "committed_change rt (op_env op) (uc_action r) actor (uc_userId r) db db1"
    using admin_op_effect[OF assms(2) t] assms(3) by auto
  then show "users_ok rt db1" using committed_keeps[OF c assms(1)] by simp
  from c obtain a' a v where "account_at db1 (uc_userId r) = Some a'" "ma_sessionVersion a' = Some (v + 1)"
      "account_at db (uc_userId r) = Some a" "ma_sessionVersion a = Some v"
    using lifecycle_raises[OF _ assms(4)] unfolding committed_change_def by blast
  then show "\<exists>a. account_at db1 (uc_userId r) = Some a \<and> ma_sessionVersion a = Some (cr_sessionVersion c + 1)"
    using assms(5) by (auto simp: account_at_def managed_account_def)
qed

text \<open>A session of an earlier version is not current, however far the history has gone on.\<close>

lemma outdated_session:
  assumes "users_ok rt db2" "accounts_grow db1 db2" "account_at db1 i = Some a" "ma_sessionVersion a = Some v"
    and "sc_sv claims < v" "same_key (sc_sub claims) i"
  shows "\<not> isSessionCurrent (Some claims) (getSessionState db2 (sc_sub claims))"
proof -
  have "account_at db1 (sc_sub claims) = Some a" using assms(3) account_at_cong[OF assms(6)] by simp
  then obtain a2 where "account_at db2 (sc_sub claims) = Some a2" "advances a a2" using assms(2) unfolding accounts_grow_def by blast
  then have "v \<le> cs_sessionVersion s" if "getSessionState db2 (sc_sub claims) = Some s" for s
    using session_account[OF that] assms(1,4) by (auto simp: users_ok_def advances_def)
  then show ?thesis using assms(5) by (force simp: isSessionCurrent_def split: option.splits)
qed

section \<open>Properties\<close>

text \<open>
  C15. Every administrative operation either leaves the database as it was and reports no change, or is one step of the life cycle of one
  account: the rows of every other account stay, exactly one audit row is appended, its hashes are those of the
  account as it was before and as it is now, and the chain stays intact.
\<close>
theorem administration_refines_lifecycle:
  assumes "users_ok rt db" "admin_exec rt op db = (db', out)"
  shows "(db' = db \<and> (\<forall>r. out = Inr r \<longrightarrow> \<not> uc_changed r)) \<or>
    (\<exists>r actor a' row. out = Inr r \<and> others_kept (uc_userId r) db db' \<and> account_at db' (uc_userId r) = Some a' \<and>
       lifecycle (other_admin db (uc_userId r)) (uc_action r) (account_at db (uc_userId r)) a' \<and>
       al_rows (ud_audit db') = al_rows (ud_audit db) @ [row] \<and>
       ar_event row = account_event rt (op_env op) (uc_action r) actor (uc_userId r) db db' \<and> users_ok rt db')"
proof -
  have "tables_ok db" using assms(1) by (simp add: users_ok_def)
  from admin_op_effect[OF assms(2) this] show ?thesis
  proof
    assume "\<exists>r actor. out = Inr r \<and> committed_change rt (op_env op) (uc_action r) actor (uc_userId r) db db'"
    then obtain r actor where out: "out = Inr r" and c: "committed_change rt (op_env op) (uc_action r) actor (uc_userId r) db db'"
      by blast
    with committed_keeps[OF c assms(1)] show ?thesis unfolding committed_change_def by (metis audit_row_appended)
  qed blast
qed

text \<open>
  C14. Whatever sequence of administrative operations is run, by whomever, an active administrator remains.
\<close>
theorem active_admin_never_lost:
  assumes "users_ok rt db" "has_admin db" "(admin_step rt)\<^sup>*\<^sup>* db db'"
  shows "has_admin db'"
  using admin.run_grows[OF assms(3,1)] assms(2) by (simp add: accounts_grow_def)

lemma username_held:
  assumes "users_ok rt db" "credential_at db i = Some c" "d \<in> set (ud_credentials db)" "cr_username d = cr_username c"
  shows "d = c"
  using assms row_at_Some[of cr_userId i "ud_credentials db" c]
  by (auto simp: users_ok_def tables_ok_def credential_at_def distinct_map dest: inj_onD)

text \<open>
  A closed account stays closed: no later administration changes its row or its credential, no password is
  accepted for it any more, and its user name is never given to anyone else.
\<close>
theorem tombstoned_account_closed:
  assumes "users_ok rt db" "account_at db i = Some a" "ma_credentialStatus a = Some ''tombstoned''" "(admin_step rt)\<^sup>*\<^sup>* db db'"
  shows "account_at db' i = Some a \<and>
    (\<exists>c. credential_at db i = Some c \<and> credential_at db' i = Some c \<and>
       (\<forall>kdf password. \<not> verifyPassword kdf password (cr_passwordHash c)) \<and>
       (\<forall>d \<in> set (ud_credentials db'). cr_username d = cr_username c \<longrightarrow> d = c))"
proof -
  have ok: "users_ok rt db'" "accounts_grow db db'" using admin.run_keeps[OF assms(4,1)] by simp_all
  have tomb: "isTombstoned a" using assms(3) by (simp add: isTombstoned_def)
  then have a: "account_at db' i = Some a" "credential_at db' i = credential_at db i"
    using ok(2) assms(2) unfolding accounts_grow_def advances_def by metis+
  obtain c where c: "credential_at db i = Some c" "cr_status c = ''tombstoned''"
    using assms(2,3) by (auto simp: account_at_def managed_account_def)
  have "c \<in> set (ud_credentials db)" using c(1) row_at_Some[of cr_userId i "ud_credentials db" c] by (simp add: credential_at_def)
  then have "parseStoredPasswordHash (cr_passwordHash c) = None" using assms(1) c(2) by (simp add: users_ok_def)
  then have "\<not> verifyPassword kdf password (cr_passwordHash c)" for kdf password
    by (auto simp: verifyPassword_def split: js_input.splits)
  then show ?thesis using a c username_held[OF ok(1)] by simp
qed

lemma one_open_row:
  assumes "unique_keys k rows" "row_at k t rows = Some r" "p r" "\<And>x. p x \<Longrightarrow> same_key (k x) t"
  shows "length (filter p rows) = 1"
proof -
  have "p x \<longleftrightarrow> fold_key (k x) = fold_key (k r)" if "x \<in> set rows" for x
    using that assms row_at_member[OF assms(1) that] row_at_Some[OF assms(2)] by (auto simp: same_key_fold)
  then have "filter p rows = filter (\<lambda>x. (fold_key \<circ> k) x = (fold_key \<circ> k) r) rows" by (auto intro: filter_cong)
  also have "\<dots> = [r]"
    using distinct_key_filter[of "fold_key \<circ> k" rows r] assms(1) row_at_Some[OF assms(2)] by (simp add: unique_keys_def)
  finally show ?thesis by simp
qed

lemma sentinel_built:
  assumes "32 \<le> length random" "length random \<le> 128"
  shows "\<exists>h. buildRevokedPasswordSentinel random = Inr h"
proof -
  have "length s \<le> length (base64url s)" for s by (induction s rule: base64url.induct) (auto simp: Let_def)
  then have "32 \<le> length (base64url random)" using assms(1) order_trans by blast
  then show ?thesis using assms(2) length_base64url[of random]
    by (simp add: buildRevokedPasswordSentinel_def requireStorablePasswordHash_def MIN_PASSWORD_HASH_LENGTH_def MAX_PASSWORD_HASH_LENGTH_def)
qed

lemma audited_fresh:
  assumes "en_eventId env \<notin> ar_id ` set (al_rows (ud_audit db))" "lf_sessionVersion after = v"
  shows "\<exists>db' r. audited_change rt env action actor t before after True db = Inr (True, db', r) \<and> uc_changed r \<and> uc_sessionVersion r = v"
proof -
  have "\<not> list_ex (\<lambda>r. ar_id r = en_eventId env) (al_rows (ud_audit db))" using assms(1) by (simp add: list_ex_iff image_iff) metis
  then show ?thesis using assms(2)
    by (simp add: audited_change_def appendAudit_def recordAuditEventInTransaction_def append_chained_def insert_row_def Let_def)
qed

text \<open>Nothing but its guards stands in the way of closing an account.\<close>

lemma tombstone_succeeds:
  assumes "tables_ok db" "locked_account db t = Inr a" "actor \<noteq> t" "isActiveAdmin a \<longrightarrow> 1 \<le> countOtherActiveAdmins db t"
    and "ma_sessionVersion a = Some v" "v < MAX_SESSION_VERSION" "length (en_random env) = 32"
    and "en_eventId env \<notin> ar_id ` set (al_rows (ud_audit db))"
  shows "\<exists>db' r. tombstone_transaction rt env actor t db = Inr (True, db', r) \<and> uc_changed r \<and> uc_sessionVersion r = v + 1"
proof -
  obtain u c where rows: "user_at db t = Some u" "credential_at db t = Some c"
      "a = managed_account u (Some c) (sorted_text (map rl_roleCode (roles_at db t)))"
      "cr_status c \<noteq> ''tombstoned''" "manageable a" "account_at db t = Some a" by (rule locked_rows[OF assms(2)])
  obtain h where h: "buildRevokedPasswordSentinel (en_random env) = Inr h" using sentinel_built[of "en_random env"] assms(7) by auto
  have "open_user t u" "open_credential t c"
    using rows row_at_Some[of us_id t "ud_users db" u] row_at_Some[of cr_userId t "ud_credentials db" c]
    by (auto simp: open_user_def open_credential_def manageable_def managed_account_def isTombstoned_def user_at_def credential_at_def)
  then have "length (filter (open_user t) (ud_users db)) = 1" "length (filter (open_credential t) (ud_credentials db)) = 1"
    using one_open_row[of us_id "ud_users db" t u "open_user t"] one_open_row[of cr_userId "ud_credentials db" t c "open_credential t"]
      rows(1,2) assms(1) by (auto simp: open_user_def open_credential_def tables_ok_def user_at_def credential_at_def)
  moreover have "account_version a = Inr v" "nextSessionVersion v = Inr (v + 1)"
    using assms(5,6) rows(5) by (auto simp: account_version_def requireSessionVersion_def nextSessionVersion_def manageable_def)
  moreover have "refuseLastActiveAdmin a (countOtherActiveAdmins db t) = Inr ()"
    using assms(4) by (auto simp: refuseLastActiveAdmin_def)
  ultimately show ?thesis
    using assms(2,3,8) h
    by (simp add: tombstone_transaction_def refuseSelfTarget_def write_user_def write_credential_def write_rows_def Let_def)
      (rule audited_fresh; simp)
qed

section \<open>A small directory\<close>

definition demo_user :: "string \<Rightarrow> UserRow" where
  "demo_user i = \<lparr> us_id = i, us_kind = ''user'', us_email = None, us_oidcIssuer = None, us_oidcSubject = None, us_displayName = None, us_maxSensitivityTier = ''K1'',
     us_status = ''active'', us_lastLoginAt = None, us_createdAt = 0 \<rparr>"

definition demo_credential :: "string \<Rightarrow> string \<Rightarrow> CredentialRow" where
  "demo_credential i name = \<lparr> cr_userId = i, cr_username = name, cr_passwordHash = ''h'', cr_sessionVersion = 3,
     cr_status = ''active'', cr_passwordChangedAt = 0, cr_disabledAt = None \<rparr>"

definition demo_role :: "string \<Rightarrow> RoleRow" where
  "demo_role i = \<lparr> rl_id = i, rl_userId = i, rl_roleCode = ''admin'', rl_grantedBy = None \<rparr>"

definition demo_users :: user_db where
  "demo_users = \<lparr> ud_users = [demo_user ''a1'', demo_user ''b1''],
     ud_credentials = [demo_credential ''a1'' ''ann'', demo_credential ''b1'' ''bob''],
     ud_roles = [demo_role ''a1'', demo_role ''b1''], ud_audit = empty_log \<rparr>"

definition demo_env :: "string \<Rightarrow> admin_env" where
  "demo_env i = \<lparr> en_columns = 5, en_now = 0, en_userId = ''n1'', en_roleId = ''r1'', en_correlationId = ''c'', en_eventId = i,
     en_random = replicate 32 (CHR ''x''), en_hasher = (\<lambda>_ _. Inr (replicate 40 (CHR ''h''))) \<rparr>"

definition demo_closing :: admin_op where
  "demo_closing = Tombstone_user (demo_env ''e1'') (Text_in ''a1'') (Text_in ''b1'')"

lemma demo_users_ok: "users_ok plain_runtime demo_users" "has_admin demo_users"
proof -
  show "users_ok plain_runtime demo_users" by code_simp
  have "case account_at demo_users ''a1'' of None \<Rightarrow> False | Some a \<Rightarrow> isActiveAdmin a" by code_simp
  then show "has_admin demo_users" unfolding has_admin_def by (auto split: option.splits)
qed

lemma demo_closed:
  assumes "t \<in> {''b1'', ''A1''}"
  obtains db' r where "tombstone_transaction rt (demo_env e) ''a1'' t demo_users = Inr (True, db', r)" "uc_changed r"
    "uc_userId r = t" "uc_action r = ''USER_ACCOUNT_TOMBSTONED''" "map_option ma_credentialStatus (account_at db' t) = Some (Some ''tombstoned'')"
    "map_option ma_userStatus (account_at db' t) = Some ''tombstoned''"
proof -
  have t: "tables_ok demo_users" using demo_users_ok(1) by (simp add: users_ok_def)
  have "case locked_account demo_users t of Inl _ \<Rightarrow> False | Inr a \<Rightarrow> ma_sessionVersion a = Some 3" "1 \<le> countOtherActiveAdmins demo_users t"
    using assms by (elim insertE; simp; code_simp)+
  then obtain a where a: "locked_account demo_users t = Inr a" "ma_sessionVersion a = Some 3" "1 \<le> countOtherActiveAdmins demo_users t"
    by (auto split: sum.splits)
  have "length (en_random (demo_env e)) = 32" "(3 :: int) < MAX_SESSION_VERSION" by (simp_all add: demo_env_def MAX_SESSION_VERSION_def)
  then obtain db' r where run: "tombstone_transaction rt (demo_env e) ''a1'' t demo_users = Inr (True, db', r)" "uc_changed r"
    using tombstone_succeeds[OF t a(1), of "''a1''" 3 "demo_env e" rt] a assms by (auto simp: demo_users_def empty_log_def)
  note c = tombstone_committed[OF run(1) t]
  then obtain x a' where "account_at db' t = Some a'" "lifecycle x ''USER_ACCOUNT_TOMBSTONED'' (account_at demo_users t) a'"
    unfolding committed_change_def by blast
  moreover from this(2) have "ma_credentialStatus a' = Some ''tombstoned''" "ma_userStatus a' = ''tombstoned''"
    by (cases rule: lifecycle.cases; simp add: with_status_def)+
  ultimately show thesis using that run c by auto
qed

lemma demo_ids: "isUserId ''a1''" "isUserId ''b1''" "isUserId ''A1''"
  by code_simp+

lemma demo_tombstone:
  assumes "t \<in> {''b1'', ''A1''}"
  obtains db' r where "tombstoneUser rt (demo_env e) (Text_in ''a1'') (Text_in t) demo_users = (db', Inr r)" "uc_changed r"
    "uc_userId r = t" "uc_action r = ''USER_ACCOUNT_TOMBSTONED''" "map_option ma_credentialStatus (account_at db' t) = Some (Some ''tombstoned'')"
    "map_option ma_userStatus (account_at db' t) = Some ''tombstoned''"
proof -
  have "isUserId t" using assms demo_ids by auto
  then have run: "tombstoneUser rt (demo_env e) (Text_in ''a1'') (Text_in t) demo_users =
      inTransaction (tombstone_transaction rt (demo_env e) ''a1'' t) demo_users"
    using demo_ids(1) by (simp add: tombstoneUser_def requireActorUserId_def requireTargetUserId_def require_id_def)
  show thesis
    by (rule demo_closed[OF assms, of rt e], rule that) (simp_all add: run inTransaction_def)
qed

lemma demo_closing_done:
  obtains db' r where "admin_exec plain_runtime demo_closing demo_users = (db', Inr r)" "uc_changed r" "uc_userId r = ''b1''"
    "uc_action r = ''USER_ACCOUNT_TOMBSTONED''" "map_option ma_credentialStatus (account_at db' ''b1'') = Some (Some ''tombstoned'')"
  using demo_tombstone[of "''b1''" plain_runtime "''e1''"] that by (auto simp: demo_closing_def)

text \<open>Closing one of two administrators is one life-cycle step, recorded once.\<close>
theorem administration_refines_lifecycle_witness:
  "users_ok plain_runtime demo_users \<and>
   (\<exists>db' r row. admin_exec plain_runtime demo_closing demo_users = (db', Inr r) \<and>
      al_rows (ud_audit db') = [row] \<and> ae_resourceId (ar_event row) = Some ''b1'' \<and>
      lifecycle (other_admin demo_users ''b1'') ''USER_ACCOUNT_TOMBSTONED'' (account_at demo_users ''b1'') (the (account_at db' ''b1'')))"
proof -
  obtain db' r where c: "admin_exec plain_runtime demo_closing demo_users = (db', Inr r)" "uc_changed r" "uc_userId r = ''b1''"
    "uc_action r = ''USER_ACCOUNT_TOMBSTONED''" by (rule demo_closing_done)
  have "al_rows (ud_audit demo_users) = []" by (simp add: demo_users_def empty_log_def)
  then show ?thesis using administration_refines_lifecycle[OF demo_users_ok(1) c(1)] c demo_users_ok(1)
    by (auto simp: account_event_def buildUserAdministrationAuditEvent_def)
qed

text \<open>One administrator closes the other; closing the last one is refused.\<close>
theorem active_admin_never_lost_witness:
  "\<exists>db' db''. (admin_step plain_runtime)\<^sup>*\<^sup>* demo_users db'' \<and> has_admin db'' \<and>
     db' = fst (admin_exec plain_runtime demo_closing demo_users) \<and>
     db'' = fst (admin_exec plain_runtime (Tombstone_user (demo_env ''e2'') (Text_in ''b1'') (Text_in ''a1'')) db')"
proof -
  let ?op = "Tombstone_user (demo_env ''e2'') (Text_in ''b1'') (Text_in ''a1'')"
  let ?db' = "fst (admin_exec plain_runtime demo_closing demo_users)"
  have "(admin_step plain_runtime)\<^sup>*\<^sup>* demo_users (fst (admin_exec plain_runtime ?op ?db'))"
    by (meson administered r_into_rtranclp rtranclp.rtrancl_into_rtrancl)
  then show ?thesis using active_admin_never_lost[OF demo_users_ok] by blast
qed

text \<open>The closed account refuses every password.\<close>
theorem tombstoned_account_closed_witness:
  "\<exists>c. credential_at (fst (admin_exec plain_runtime demo_closing demo_users)) ''b1'' = Some c \<and>
     (\<forall>kdf password. \<not> verifyPassword kdf password (cr_passwordHash c))"
proof -
  obtain db' r where c: "admin_exec plain_runtime demo_closing demo_users = (db', Inr r)"
    "map_option ma_credentialStatus (account_at db' ''b1'') = Some (Some ''tombstoned'')" by (rule demo_closing_done)
  then obtain a where a: "account_at db' ''b1'' = Some a" "ma_credentialStatus a = Some ''tombstoned''" by auto
  have "admin_step plain_runtime demo_users db'" using c(1) administered[of plain_runtime demo_users demo_closing] by simp
  then have ok: "users_ok plain_runtime db'" using admin_step_keeps demo_users_ok(1) by blast
  then show ?thesis using tombstoned_account_closed[OF ok a rtranclp.rtrancl_refl] c(1) by auto
qed


end
