(* ===== verification/LoginService.thy ===== *)
theory LoginService
  imports UserLifecycle
begin

text \<open>
  Database login (\<open>src/src/auth/loginService.ts\<close> and \<open>src/src/adapters/mysqlLoginService.ts\<close>): bounds, the two throttling
  guards, the lookup and its single password verification, and the transaction that completes a login. An attempt
  decides on what it reads and writes in a later transaction, so it is two functions, \<open>decide_login\<close> and
  \<open>finish_login\<close>, between which anything else may commit. Instants are milliseconds; HMAC, the raw SHA-256 digest and the
  password verifier are arguments; the reason of a denial is the value its sink receives.
\<close>

section \<open>Policy\<close>

datatype LoginGuardScope = Login_scope | Source_scope

fun scope_text :: "LoginGuardScope \<Rightarrow> string" where
  "scope_text Login_scope = ''login''"
| "scope_text Source_scope = ''source''"

definition CLIENT_SOURCE_MAX_LENGTH :: nat where
  "CLIENT_SOURCE_MAX_LENGTH = 100"

definition LOGIN_FAILURE_WINDOW_SECONDS :: int where
  "LOGIN_FAILURE_WINDOW_SECONDS = 15 * 60"

fun LOGIN_FAILURE_THRESHOLDS :: "LoginGuardScope \<Rightarrow> int" where
  "LOGIN_FAILURE_THRESHOLDS Login_scope = 5"
| "LOGIN_FAILURE_THRESHOLDS Source_scope = 50"

definition LOGIN_BLOCK_SECONDS :: int where
  "LOGIN_BLOCK_SECONDS = 15 * 60"

definition LOGIN_GUARD_RETENTION_SECONDS :: int where
  "LOGIN_GUARD_RETENTION_SECONDS = 24 * 60 * 60"

definition LOGIN_GUARD_MAX_FAILURE_COUNT :: int where
  "LOGIN_GUARD_MAX_FAILURE_COUNT = 1000000"

datatype LoginDenialReason =
    Login_oversize | Password_missing | Password_oversize | Client_source_invalid | Login_malformed
  | Login_throttled | Source_throttled | Account_unknown | Password_mismatch | Account_inactive
  | Credential_disabled | Credential_tombstoned | Credential_unusable | State_changed

definition loginFault :: "string \<Rightarrow> js_error" where
  "loginFault code = LoginError code"

section \<open>Input bounds\<close>

record LoginRequest =
  lr_login :: js_input
  lr_password :: js_input
  lr_clientSource :: js_input

record BoundedLoginAttempt =
  ba_normalizedLogin :: "string option"
  ba_password :: string
  ba_clientSource :: string

text \<open>\<open>/^[\x21-\x7e]{1,100}$/\<close>.\<close>

definition client_source_pattern :: "string \<Rightarrow> bool" where
  "client_source_pattern s = (1 \<le> length s \<and> length s \<le> 100 \<and> list_all (\<lambda>c. CHR 0x21 \<le> c \<and> c \<le> CHR 0x7E) s)"

definition boundLoginAttempt :: "LoginRequest \<Rightarrow> LoginDenialReason + BoundedLoginAttempt" where
  "boundLoginAttempt request =
     (case lr_password request of
        Text_in password \<Rightarrow>
          if password = [] then Inl Password_missing
          else if utf16_length password > PASSWORD_MAX_LENGTH \<or> length password > PASSWORD_MAX_BYTES then Inl Password_oversize
          else (case lr_clientSource request of
                  Text_in source \<Rightarrow>
                    if length source > CLIENT_SOURCE_MAX_LENGTH \<or> \<not> client_source_pattern source then Inl Client_source_invalid
                    else (case lr_login request of
                            Text_in login \<Rightarrow>
                              if utf16_length login > LOGIN_MAX_LENGTH then Inl Login_oversize
                              else Inr \<lparr> ba_normalizedLogin = normalizeLogin (Text_in login), ba_password = password,
                                         ba_clientSource = source \<rparr>
                          | _ \<Rightarrow> Inl Login_oversize)
                | _ \<Rightarrow> Inl Client_source_invalid)
      | _ \<Rightarrow> Inl Password_missing)"

section \<open>Guards\<close>

text \<open>What the service draws on: HMAC and SHA-256 as bytes, and the password verifier.\<close>

record login_platform =
  lp_hmac :: "string \<Rightarrow> string \<Rightarrow> string"
  lp_sha256 :: "string \<Rightarrow> string"
  lp_verify :: "string \<Rightarrow> string \<Rightarrow> bool"

definition hex_digest :: "string \<Rightarrow> string" where
  "hex_digest bytes = concat (map (\<lambda>b. [hex_char (of_char b div 16), hex_char (of_char b mod 16)]) bytes)"

definition GUARD_KEY_CONTEXT :: string where
  "GUARD_KEY_CONTEXT = ''kaudit.login-guard.v1.key''"

definition GUARD_DIGEST_CONTEXT :: string where
  "GUARD_DIGEST_CONTEXT = ''kaudit.login-guard.v1.digest''"

definition FIELD_SEPARATOR :: char where
  "FIELD_SEPARATOR = CHR 0x1F"

definition deriveLoginGuardSecret :: "login_platform \<Rightarrow> js_input \<Rightarrow> string res" where
  "deriveLoginGuardSecret lp sessionSecret =
     (case sessionSecret of
        Text_in secret \<Rightarrow>
          if utf16_length secret < SESSION_MIN_SECRET_LENGTH then Inl (loginFault ''AUTH_CONFIG_INVALID'')
          else Inr (lp_hmac lp secret GUARD_KEY_CONTEXT)
      | _ \<Rightarrow> Inl (loginFault ''AUTH_CONFIG_INVALID''))"

definition guard_message :: "LoginGuardScope \<Rightarrow> string \<Rightarrow> string" where
  "guard_message scope v = GUARD_DIGEST_CONTEXT @ FIELD_SEPARATOR # scope_text scope @ FIELD_SEPARATOR # v"

definition deriveLoginGuardDigest :: "login_platform \<Rightarrow> LoginGuardScope \<Rightarrow> string \<Rightarrow> string \<Rightarrow> string" where
  "deriveLoginGuardDigest lp scope v guardSecret = hex_digest (lp_hmac lp guardSecret (guard_message scope v))"

record LoginGuardState =
  gs_scope :: LoginGuardScope
  gs_failureCount :: int
  gs_blockedUntil :: "int option"

definition isGuardBlocked :: "LoginGuardState \<Rightarrow> int \<Rightarrow> bool" where
  "isGuardBlocked state now = (case gs_blockedUntil state of None \<Rightarrow> False | Some blocked \<Rightarrow> blocked > now)"

fun guardDenialReason :: "LoginGuardScope \<Rightarrow> LoginDenialReason" where
  "guardDenialReason Login_scope = Login_throttled"
| "guardDenialReason Source_scope = Source_throttled"

definition guardWindowCutoff :: "int \<Rightarrow> int" where
  "guardWindowCutoff now = now - LOGIN_FAILURE_WINDOW_SECONDS * 1000"

definition guardBlockedUntil :: "int \<Rightarrow> int" where
  "guardBlockedUntil now = now + LOGIN_BLOCK_SECONDS * 1000"

definition guardExpiresAt :: "int \<Rightarrow> int" where
  "guardExpiresAt now = now + LOGIN_GUARD_RETENTION_SECONDS * 1000"

text \<open>The range of a \<open>Date\<close>; \<open>None\<close> is a clock that throws or answers with something else.\<close>

definition MAX_TIME_MS :: int where
  "MAX_TIME_MS = 8640000000000000"

definition representable :: "int \<Rightarrow> bool" where
  "representable t = (- MAX_TIME_MS \<le> t \<and> t \<le> MAX_TIME_MS)"

definition trustedLoginInstant :: "int option \<Rightarrow> int res" where
  "trustedLoginInstant v =
     (case v of
        None \<Rightarrow> Inl (loginFault ''AUTH_CONFIG_INVALID'')
      | Some t \<Rightarrow>
          if \<not> representable t then Inl (loginFault ''AUTH_CONFIG_INVALID'')
          else if \<not> list_all representable [guardWindowCutoff t, guardBlockedUntil t, guardExpiresAt t]
          then Inl (loginFault ''AUTH_CONFIG_INVALID'')
          else Inr t)"

definition syntheticSegment :: "login_platform \<Rightarrow> string \<Rightarrow> nat \<Rightarrow> string" where
  "syntheticSegment lp label bytes = base64url (take bytes (lp_sha256 lp label))"

definition SYNTHETIC_PASSWORD_HASH :: "login_platform \<Rightarrow> string" where
  "SYNTHETIC_PASSWORD_HASH lp =
     ''scrypt$N=16384,r=8,p=1$'' @ syntheticSegment lp ''kaudit.login.synthetic.salt.v1'' 16 @ ''$'' @
     syntheticSegment lp ''kaudit.login.synthetic.digest.v1'' 32"

definition accountStateReason :: "string \<Rightarrow> string \<Rightarrow> LoginDenialReason option" where
  "accountStateReason status credentialStatus =
     (if credentialStatus = ''tombstoned'' then Some Credential_tombstoned
      else if credentialStatus = ''disabled'' then Some Credential_disabled
      else if status \<noteq> ''active'' \<or> credentialStatus \<noteq> ''active'' then Some Account_inactive
      else None)"

section \<open>Results and the audit event\<close>

record LoginAuthorization =
  la_userId :: string
  la_sessionVersion :: int
  la_roles :: "string list"
  la_maxSensitivityTier :: string

text \<open>A denial carries one public code; its reason goes to the operator's sink.\<close>

datatype LoginResult = Login_ok LoginAuthorization | Login_denied

record LoginControlFacts =
  lc_userId :: string
  lc_userStatus :: string
  lc_credentialStatus :: string
  lc_roles :: "string list"
  lc_sessionVersion :: int

definition loginControlHash :: "runtime \<Rightarrow> LoginControlFacts \<Rightarrow> string" where
  "loginControlHash rt f =
     sha256Hex rt (render (JArr [JStr ''kaudit-login-control'', JStr (lc_userId f), JStr (lc_userStatus f),
       JStr (lc_credentialStatus f), JArr (map JStr (sorted_text (lc_roles f))), JNum (lc_sessionVersion f)]))"

definition buildLoginAuditEvent :: "string \<Rightarrow> string \<Rightarrow> string \<Rightarrow> int \<Rightarrow> AuditEvent" where
  "buildLoginAuditEvent userId controlHash correlationId occurredAt =
     \<lparr> ae_actorUserId = Some userId, ae_actorEmail = None, ae_action = ''auth.login'', ae_resourceType = ''kaudit_user'',
       ae_resourceId = Some userId, ae_outcome = Success, ae_purpose = ''authentication'', ae_correlationId = correlationId,
       ae_ipAddress = None, ae_client = Some ''auth:database-login'', ae_beforeHash = None, ae_afterHash = Some controlHash,
       ae_occurredAt = occurredAt \<rparr>"

section \<open>The guard table\<close>

record GuardRow =
  gr_scope :: LoginGuardScope
  gr_digest :: string
  gr_failureCount :: int
  gr_windowStartedAt :: int
  gr_lastFailureAt :: int
  gr_blockedUntil :: "int option"
  gr_expiresAt :: int

record login_db =
  ld_guards :: "GuardRow list"
  ld_users :: user_db

text \<open>\<open>None\<close> for a login that is in size but not of a login's shape.\<close>

record GuardKeys =
  gk_login :: "string option"
  gk_source :: string

definition guardPairs :: "GuardKeys \<Rightarrow> (LoginGuardScope \<times> string) list" where
  "guardPairs keys =
     (case gk_login keys of None \<Rightarrow> [] | Some digest \<Rightarrow> if digest = [] then [] else [(Login_scope, digest)]) @
     [(Source_scope, gk_source keys)]"

definition guard_key :: "GuardRow \<Rightarrow> LoginGuardScope \<times> string" where
  "guard_key r = (gr_scope r, gr_digest r)"

definition toFailureCount :: "int \<Rightarrow> int option" where
  "toFailureCount v = (if 0 \<le> v \<and> v \<le> LOGIN_GUARD_MAX_FAILURE_COUNT then Some v else None)"

fun guard_states :: "LoginGuardScope list \<Rightarrow> GuardRow list \<Rightarrow> LoginGuardState list res" where
  "guard_states seen [] = Inr []"
| "guard_states seen (r # rs) =
     (if gr_scope r \<in> set seen then Inl (loginFault ''AUTH_GUARD_STATE_MALFORMED'')
      else case toFailureCount (gr_failureCount r) of
             None \<Rightarrow> Inl (loginFault ''AUTH_GUARD_STATE_MALFORMED'')
           | Some n \<Rightarrow> rbind (guard_states (gr_scope r # seen) rs) (\<lambda>states.
               Inr (\<lparr> gs_scope = gr_scope r, gs_failureCount = n, gs_blockedUntil = gr_blockedUntil r \<rparr> # states)))"

definition readGuards :: "GuardKeys \<Rightarrow> login_db \<Rightarrow> LoginGuardState list res" where
  "readGuards keys db = guard_states [] (filter (\<lambda>r. guard_key r \<in> set (guardPairs keys)) (ld_guards db))"

text \<open>One failure: the insert, and the update of a row that is there.\<close>

definition new_guard :: "LoginGuardScope \<Rightarrow> string \<Rightarrow> int \<Rightarrow> GuardRow" where
  "new_guard scope digest now =
     \<lparr> gr_scope = scope, gr_digest = digest, gr_failureCount = 1, gr_windowStartedAt = now, gr_lastFailureAt = now,
       gr_blockedUntil = None, gr_expiresAt = guardExpiresAt now \<rparr>"

definition count_failure :: "int \<Rightarrow> GuardRow \<Rightarrow> GuardRow" where
  "count_failure now r =
     (let expired = gr_windowStartedAt r \<le> guardWindowCutoff now;
          reached = (if expired then 1 else gr_failureCount r + 1)
      in r\<lparr> gr_blockedUntil := (if reached \<ge> LOGIN_FAILURE_THRESHOLDS (gr_scope r) then Some (guardBlockedUntil now) else gr_blockedUntil r),
            gr_failureCount := (if expired then 1 else min (gr_failureCount r + 1) LOGIN_GUARD_MAX_FAILURE_COUNT),
            gr_windowStartedAt := (if expired then now else gr_windowStartedAt r),
            gr_lastFailureAt := now, gr_expiresAt := guardExpiresAt now \<rparr>)"

definition upsertGuard :: "int \<Rightarrow> LoginGuardScope \<times> string \<Rightarrow> GuardRow list \<Rightarrow> GuardRow list" where
  "upsertGuard now pair rows =
     (if list_ex (\<lambda>r. guard_key r = pair) rows
      then map (\<lambda>r. if guard_key r = pair then count_failure now r else r) rows
      else rows @ [new_guard (fst pair) (snd pair) now])"

definition recordFailure :: "GuardKeys \<Rightarrow> int \<Rightarrow> login_db \<Rightarrow> login_db" where
  "recordFailure keys now db = db\<lparr> ld_guards := fold (upsertGuard now) (guardPairs keys) (ld_guards db) \<rparr>"

definition deleteGuards :: "GuardKeys \<Rightarrow> GuardRow list \<Rightarrow> GuardRow list" where
  "deleteGuards keys rows = filter (\<lambda>r. guard_key r \<notin> set (guardPairs keys)) rows"

section \<open>An attempt\<close>

definition guard_keys :: "login_platform \<Rightarrow> string \<Rightarrow> BoundedLoginAttempt \<Rightarrow> GuardKeys" where
  "guard_keys lp guardSecret attempt =
     \<lparr> gk_login = map_option (\<lambda>l. deriveLoginGuardDigest lp Login_scope l guardSecret) (ba_normalizedLogin attempt),
       gk_source = deriveLoginGuardDigest lp Source_scope (ba_clientSource attempt) guardSecret \<rparr>"

text \<open>What an attempt decides on its reads: a denial, a denial to be counted, or a login to complete.\<close>

datatype login_plan =
    Plan_deny LoginDenialReason
  | Plan_failure GuardKeys LoginDenialReason
  | Plan_complete CredentialUser GuardKeys

text \<open>The plan, and the hashes verified on the way.\<close>

definition judge_account :: "login_platform \<Rightarrow> BoundedLoginAttempt \<Rightarrow> GuardKeys \<Rightarrow> CredentialUser option \<Rightarrow> login_plan \<times> string list" where
  "judge_account lp attempt keys account =
     (let storedHash = Option.bind account (\<lambda>a. if isStoredPasswordHashValid (cu_passwordHash a) then Some (cu_passwordHash a) else None);
          checked = coalesce storedHash (SYNTHETIC_PASSWORD_HASH lp);
          verified = lp_verify lp (ba_password attempt) checked
      in (case account of
            None \<Rightarrow> Plan_failure keys (if ba_normalizedLogin attempt \<noteq> None then Account_unknown else Login_malformed)
          | Some a \<Rightarrow>
              let stateReason = accountStateReason (cu_status a) (cu_credentialStatus a) in
              if storedHash = None then Plan_failure keys (coalesce stateReason Credential_unusable)
              else if \<not> verified then Plan_failure keys Password_mismatch
              else (case stateReason of Some reason \<Rightarrow> Plan_failure keys reason | None \<Rightarrow> Plan_complete a keys),
          [checked]))"

definition decide_login :: "login_platform \<Rightarrow> string \<Rightarrow> int \<Rightarrow> LoginRequest \<Rightarrow> login_db \<Rightarrow> (login_plan \<times> string list) res" where
  "decide_login lp guardSecret now request db =
     (case boundLoginAttempt request of
        Inl reason \<Rightarrow> Inr (Plan_deny reason, [])
      | Inr attempt \<Rightarrow>
          let keys = guard_keys lp guardSecret attempt in
          rbind (readGuards keys db) (\<lambda>states.
          case find (\<lambda>s. isGuardBlocked s now) states of
            Some blocked \<Rightarrow> Inr (Plan_deny (guardDenialReason (gs_scope blocked)), [])
          | None \<Rightarrow>
              Inr (judge_account lp attempt keys
                (Option.bind (ba_normalizedLogin attempt) (\<lambda>login. findByLogin (ld_users db) (Text_in login))))))"

record login_env =
  le_columns :: int
  le_correlationId :: string
  le_eventId :: string

definition lock_account :: "user_db \<Rightarrow> string \<Rightarrow> (UserRow \<times> CredentialRow) option" where
  "lock_account db userId = find (\<lambda>(u, c). same_key (us_id u) userId) (login_join db)"

definition updateLastLogin :: "string \<Rightarrow> int \<Rightarrow> user_db \<Rightarrow> user_db res" where
  "updateLastLogin userId now db =
     (let p = (\<lambda>u. same_key (us_id u) userId \<and> us_kind u = ''user'' \<and> us_status u = ''active'') in
      if length (filter p (ud_users db)) \<noteq> 1 then Inl (loginFault ''AUTH_WRITE_COUNT_UNEXPECTED'')
      else Inr (db\<lparr> ud_users := map (\<lambda>u. if p u then u\<lparr> us_lastLoginAt := Some now \<rparr> else u) (ud_users db) \<rparr>))"

definition login_event :: "runtime \<Rightarrow> login_env \<Rightarrow> string \<Rightarrow> UserRow \<Rightarrow> CredentialRow \<Rightarrow> string list \<Rightarrow> int \<Rightarrow> AuditEvent" where
  "login_event rt env userId u c roles now =
     buildLoginAuditEvent userId
       (loginControlHash rt \<lparr> lc_userId = userId, lc_userStatus = us_status u, lc_credentialStatus = cr_status c,
          lc_roles = roles, lc_sessionVersion = cr_sessionVersion c \<rparr>) (le_correlationId env) now"

text \<open>The success transaction: the new database, or a denial with nothing kept.\<close>

definition complete_transaction ::
  "runtime \<Rightarrow> login_env \<Rightarrow> CredentialUser \<Rightarrow> GuardKeys \<Rightarrow> int \<Rightarrow> login_db \<Rightarrow> (login_db \<times> LoginAuthorization) option res" where
  "complete_transaction rt env account keys now db =
     (case lock_account (ld_users db) (cu_id account) of
        None \<Rightarrow> Inr None
      | Some (u, c) \<Rightarrow>
          (case toSessionVersion (cr_sessionVersion c) of
             None \<Rightarrow> Inl (loginFault ''AUTH_STATE_MALFORMED'')
           | Some sessionVersion \<Rightarrow>
               if accountStateReason (us_status u) (cr_status c) \<noteq> None \<or> sessionVersion \<noteq> cu_sessionVersion account then Inr None
               else
                 let roles = sorted_text (map rl_roleCode (roles_at (ld_users db) (cu_id account))) in
                 rbind (updateLastLogin (cu_id account) now (ld_users db)) (\<lambda>users.
                 case recordAuditEventInTransaction rt (le_columns env) (le_eventId env)
                        (login_event rt env (cu_id account) u c roles now) (ud_audit users) of
                   Inl _ \<Rightarrow> Inl (loginFault ''AUTH_AUDIT_FAILED'')
                 | Inr (al, _) \<Rightarrow>
                     Inr (Some (db\<lparr> ld_guards := deleteGuards keys (ld_guards db), ld_users := users\<lparr> ud_audit := al \<rparr> \<rparr>,
                       \<lparr> la_userId = cu_id account, la_sessionVersion = sessionVersion, la_roles = roles,
                         la_maxSensitivityTier = us_maxSensitivityTier u \<rparr>)))))"

definition asLoginError :: "js_error \<Rightarrow> js_error" where
  "asLoginError e = (case e of LoginError _ \<Rightarrow> e | _ \<Rightarrow> loginFault ''AUTH_UNEXPECTED_FAILURE'')"

definition completeLogin ::
  "runtime \<Rightarrow> login_env \<Rightarrow> CredentialUser \<Rightarrow> GuardKeys \<Rightarrow> int \<Rightarrow> login_db \<Rightarrow> login_db \<times> (LoginResult \<times> LoginDenialReason option) res" where
  "completeLogin rt env account keys now db =
     (case complete_transaction rt env account keys now db of
        Inl e \<Rightarrow> (db, Inl (asLoginError e))
      | Inr None \<Rightarrow> (db, Inr (Login_denied, Some State_changed))
      | Inr (Some (db', authorization)) \<Rightarrow> (db', Inr (Login_ok authorization, None)))"

fun finish_login ::
  "runtime \<Rightarrow> login_env \<Rightarrow> int \<Rightarrow> login_plan \<Rightarrow> login_db \<Rightarrow> login_db \<times> (LoginResult \<times> LoginDenialReason option) res" where
  "finish_login rt env now (Plan_deny reason) db = (db, Inr (Login_denied, Some reason))"
| "finish_login rt env now (Plan_failure keys reason) db = (recordFailure keys now db, Inr (Login_denied, Some reason))"
| "finish_login rt env now (Plan_complete account keys) db = completeLogin rt env account keys now db"

text \<open>The service, and an attempt nothing interleaves with.\<close>

definition createMysqlLoginService :: "login_platform \<Rightarrow> int option \<Rightarrow> js_input \<Rightarrow> string res" where
  "createMysqlLoginService lp clock sessionSecret =
     rbind (trustedLoginInstant clock) (\<lambda>_. deriveLoginGuardSecret lp sessionSecret)"

definition authenticate ::
  "runtime \<Rightarrow> login_platform \<Rightarrow> string \<Rightarrow> login_env \<Rightarrow> int option \<Rightarrow> LoginRequest \<Rightarrow> login_db \<Rightarrow>
   login_db \<times> (LoginResult \<times> LoginDenialReason option) res" where
  "authenticate rt lp guardSecret env clock request db =
     (case rbind (trustedLoginInstant clock) (\<lambda>now. rbind (decide_login lp guardSecret now request db) (\<lambda>(plan, _). Inr (now, plan))) of
        Inl e \<Rightarrow> (db, Inl e)
      | Inr (now, plan) \<Rightarrow> finish_login rt env now plan db)"

section \<open>The locked rows\<close>

lemma lock_account_iff:
  assumes "tables_ok db"
  shows "lock_account db i = Some (u, c) \<longleftrightarrow> user_at db i = Some u \<and> credential_at db i = Some c \<and> us_kind u = ''user''"
proof -
  have found: "user_at db i = Some u \<and> credential_at db i = Some c \<and> us_kind u = ''user''"
    if "lock_account db i = Some (u, c)" for u c
  proof -
    have "(u, c) \<in> set (login_join db)" "same_key (us_id u) i"
      using that by (auto simp: lock_account_def find_Some_iff in_set_conv_nth)
    then show ?thesis using assms same_key_trans[of "cr_userId c" "us_id u" i]
      by (auto simp: login_join_member view_defs row_at_member tables_ok_def)
  qed
  moreover have "lock_account db i = Some (u, c)" if "user_at db i = Some u" "credential_at db i = Some c" "us_kind u = ''user''"
  proof -
    have "u \<in> set (ud_users db)" "c \<in> set (ud_credentials db)" "same_key (us_id u) i" "same_key (cr_userId c) i"
      using that row_at_Some[of us_id i "ud_users db" u] row_at_Some[of cr_userId i "ud_credentials db" c] by (auto simp: view_defs)
    then have "(u, c) \<in> set (login_join db)" "same_key (us_id u) i"
      using that(3) by (auto simp: login_join_member same_key_def)
    then have "lock_account db i \<noteq> None" by (auto simp del: not_None_eq simp: lock_account_def find_None_iff)
    then obtain u' c' where "lock_account db i = Some (u', c')" by auto
    with found[OF this] that show ?thesis by simp
  qed
  ultimately show ?thesis by blast
qed

lemma session_state_at:
  assumes "tables_ok db" "user_at db i = Some u" "credential_at db i = Some c" "us_kind u = ''user''"
    and "isUserId i" "isUserId (us_id u)" "toSessionVersion (cr_sessionVersion c) = Some v"
  shows "getSessionState db i = Some \<lparr> cs_id = us_id u, cs_status = us_status u, cs_credentialStatus = cr_status c, cs_sessionVersion = v \<rparr>"
proof -
  have "lock_account db i = Some (u, c)" using lock_account_iff[OF assms(1)] assms(2-4) by simp
  then show ?thesis using assms(5-7) by (simp add: getSessionState_def mapSessionState_def lock_account_def)
qed

lemma found_account:
  assumes "findByLogin db login = Some a" "tables_ok db"
  obtains u c where "user_at db (cu_id a) = Some u" "credential_at db (cu_id a) = Some c" "us_kind u = ''user''"
    "cu_id a = us_id u" "isUserId (cu_id a)" "cu_passwordHash a = cr_passwordHash c" "cu_sessionVersion a = cr_sessionVersion c"
    "toSessionVersion (cr_sessionVersion c) = Some (cu_sessionVersion a)"
proof -
  obtain n u c where row: "find (\<lambda>(u, c). cr_username c = n \<or> same_email (us_email u) n) (login_join db) = Some (u, c)"
    and map: "mapCredential db (Some (u, c)) = Some a"
    using assms(1) by (auto simp: findByLogin_def mapCredential_def bind_eq_Some_conv)
  have "(u, c) \<in> set (login_join db)" using row by (auto simp: find_Some_iff in_set_conv_nth)
  then have "u \<in> set (ud_users db)" "c \<in> set (ud_credentials db)" "same_key (cr_userId c) (us_id u)" "us_kind u = ''user''"
    by (simp_all add: login_join_member)
  moreover have "cu_id a = us_id u" "isUserId (cu_id a)" "cu_passwordHash a = cr_passwordHash c" "cu_sessionVersion a = cr_sessionVersion c"
      "toSessionVersion (cr_sessionVersion c) = Some (cu_sessionVersion a)"
    using map by (auto simp: mapCredential_def bind_eq_Some_conv toSessionVersion_def split: if_splits)
  ultimately show thesis using that[of u c] assms(2) by (simp add: view_defs row_at_member tables_ok_def)
qed

section \<open>Completing a login\<close>

lemma row_at_map: "(\<And>r. k (g r) = k r) \<Longrightarrow> row_at k i (map g rows) = map_option g (row_at k i rows)"
  by (induction rows) (auto simp: row_at_def)

lemma unique_keys_map: "(\<And>r. k (g r) = k r) \<Longrightarrow> unique_keys k (map g rows) = unique_keys k rows"
  by (simp add: unique_keys_def o_def)

definition stamped :: "string \<Rightarrow> int \<Rightarrow> UserRow \<Rightarrow> UserRow" where
  "stamped i now u = (if same_key (us_id u) i \<and> us_kind u = ''user'' \<and> us_status u = ''active'' then u\<lparr> us_lastLoginAt := Some now \<rparr> else u)"

lemma stamped_fields [simp]:
  "us_id (stamped i now u) = us_id u" "us_kind (stamped i now u) = us_kind u" "us_status (stamped i now u) = us_status u"
  "us_email (stamped i now u) = us_email u" "oidc_identity (stamped i now u) = oidc_identity u" "managed_account (stamped i now u) c rs = managed_account u c rs"
  by (simp_all add: stamped_def managed_account_def oidc_identity_def)

lemma last_login_views:
  assumes "updateLastLogin i now db = Inr db'"
  shows "user_at db' j = map_option (stamped i now) (user_at db j)" "credential_at db' = credential_at db" "roles_at db' = roles_at db"
    "account_at db' = account_at db" "ud_audit db' = ud_audit db" "tables_ok db' = tables_ok db" "ud_credentials db' = ud_credentials db"
    "unique_identities db' = unique_identities db"
proof -
  have db': "db' = db\<lparr> ud_users := map (stamped i now) (ud_users db) \<rparr>"
    using assms by (auto simp: updateLastLogin_def Let_def stamped_def[abs_def] split: if_splits)
  show at: "user_at db' j = map_option (stamped i now) (user_at db j)" for j by (simp add: db' user_at_def row_at_map)
  show c: "credential_at db' = credential_at db" and r: "roles_at db' = roles_at db" and "ud_audit db' = ud_audit db"
      "ud_credentials db' = ud_credentials db"
    by (simp_all add: db' fun_eq_iff view_defs)
  show "account_at db' = account_at db" by (simp add: fun_eq_iff account_at_def at c r option.map_comp o_def)
  have "same_identity (stamped i now u) (stamped i now w) = same_identity u w" for u w
    by (simp only: same_identity_def stamped_fields)
  then show "unique_identities db' = unique_identities db" by (simp add: db' unique_identities_def)
  show "tables_ok db' = tables_ok db" unfolding tables_ok_def at by (simp add: db' unique_keys_map)
qed

lemma completed:
  assumes "complete_transaction rt env account keys now db = Inr (Some (db', auth))"
  obtains u c users mode where "lock_account (ld_users db) (cu_id account) = Some (u, c)" "us_status u = ''active''" "cr_status c = ''active''"
    "toSessionVersion (cr_sessionVersion c) = Some (cu_sessionVersion account)"
    "updateLastLogin (cu_id account) now (ld_users db) = Inr users"
    "recordAuditEventInTransaction rt (le_columns env) (le_eventId env) (login_event rt env (cu_id account) u c (la_roles auth) now)
       (ud_audit users) = Inr (ud_audit (ld_users db'), mode)"
    "ld_users db' = users\<lparr> ud_audit := ud_audit (ld_users db') \<rparr>" "ld_guards db' = deleteGuards keys (ld_guards db)"
    "auth = \<lparr> la_userId = cu_id account, la_sessionVersion = cu_sessionVersion account,
       la_roles = sorted_text (map rl_roleCode (roles_at (ld_users db) (cu_id account))), la_maxSensitivityTier = us_maxSensitivityTier u \<rparr>"
  using assms
  by (auto simp: complete_transaction_def Let_def rbind_Inr_iff accountStateReason_def split: option.splits prod.splits if_splits sum.splits)

section \<open>Histories\<close>

text \<open>
  Administrative operations and the writes of attempts, in any order. A plan may have been made on any earlier
  state, so every plan is admitted.
\<close>

inductive login_step :: "runtime \<Rightarrow> login_db \<Rightarrow> login_db \<Rightarrow> bool" for rt where
  administers: "admin_step rt (ld_users db) users \<Longrightarrow> login_step rt db (db\<lparr> ld_users := users \<rparr>)"
| finishes: "login_step rt db (fst (finish_login rt env now plan db))"

inductive_cases login_stepE: "login_step rt db db'"

lemma login_audited:
  assumes "chain_intact rt l" "recordAuditEventInTransaction rt columns i event l = Inr (l', mode)"
  shows "chain_intact rt l'" "\<exists>row. al_rows l' = al_rows l @ [row] \<and> ar_event row = event"
  using exec_intact[OF assms(1), of "Record_in_transaction columns i event"] audit_row_appended[OF assms(2)] assms(2) by auto

lemma audit_views:
  "account_at (users\<lparr> ud_audit := l \<rparr>) = account_at users" "credential_at (users\<lparr> ud_audit := l \<rparr>) = credential_at users"
  "user_at (users\<lparr> ud_audit := l \<rparr>) = user_at users" "roles_at (users\<lparr> ud_audit := l \<rparr>) = roles_at users"
  "tables_ok (users\<lparr> ud_audit := l \<rparr>) = tables_ok users" "has_admin (users\<lparr> ud_audit := l \<rparr>) = has_admin users"
  "unique_identities (users\<lparr> ud_audit := l \<rparr>) = unique_identities users"
  by (simp_all add: fun_eq_iff unique_identities_def account_at_def view_defs tables_ok_def has_admin_def)

lemma complete_keeps:
  assumes "complete_transaction rt env account keys now db = Inr (Some (db', auth))" "users_ok rt (ld_users db)"
  shows "users_ok rt (ld_users db') \<and> accounts_grow (ld_users db) (ld_users db')"
proof -
  obtain u c users mode where stamp: "updateLastLogin (cu_id account) now (ld_users db) = Inr users"
    and rec: "recordAuditEventInTransaction rt (le_columns env) (le_eventId env) (login_event rt env (cu_id account) u c (la_roles auth) now)
       (ud_audit users) = Inr (ud_audit (ld_users db'), mode)"
    and db': "ld_users db' = users\<lparr> ud_audit := ud_audit (ld_users db') \<rparr>"
    by (rule completed[OF assms(1)]) blast
  note v = last_login_views[OF stamp]
  have "chain_intact rt (ud_audit users)" using assms(2) v(5) by (simp add: users_ok_def)
  note l = login_audited[OF this rec]
  have "users_ok rt (users\<lparr> ud_audit := ud_audit (ld_users db') \<rparr>)"
    using assms(2) l(1) v(6-8) by (simp add: users_ok_def audit_views)
  moreover have "accounts_grow (ld_users db) (users\<lparr> ud_audit := ud_audit (ld_users db') \<rparr>)"
    using l(2) v by (auto simp: accounts_grow_def audit_views has_admin_def credential_advances_def option.map_comp o_def)
  ultimately show ?thesis using db' by metis
qed

lemma finish_keeps:
  "users_ok rt (ld_users db) \<Longrightarrow>
   users_ok rt (ld_users (fst (finish_login rt env now plan db))) \<and>
   accounts_grow (ld_users db) (ld_users (fst (finish_login rt env now plan db)))"
  using complete_keeps by (cases plan) (auto simp: recordFailure_def completeLogin_def split: sum.splits option.splits)

lemma login_step_keeps:
  "login_step rt db db' \<Longrightarrow> users_ok rt (ld_users db) \<Longrightarrow> users_ok rt (ld_users db') \<and> accounts_grow (ld_users db) (ld_users db')"
  by (erule login_stepE) (auto simp: finish_keeps dest: admin_step_keeps)

interpretation login: monotone_system "login_step rt" "\<lambda>db. users_ok rt (ld_users db)"
    "\<lambda>a b. accounts_grow (ld_users a) (ld_users b)" for rt
  by unfold_locales (auto intro: accounts_grow_trans dest: login_step_keeps)

lemma planned_completion:
  assumes "decide_login lp guardSecret now request db = Inr (Plan_complete account keys, hashes)"
  obtains password login where "lr_password request = Text_in password" "findByLogin (ld_users db) (Text_in login) = Some account"
    "lp_verify lp password (cu_passwordHash account)" "hashes = [cu_passwordHash account]"
proof -
  obtain attempt where attempt: "boundLoginAttempt request = Inr attempt"
    and judged: "judge_account lp attempt (guard_keys lp guardSecret attempt)
      (Option.bind (ba_normalizedLogin attempt) (\<lambda>login. findByLogin (ld_users db) (Text_in login))) = (Plan_complete account keys, hashes)"
    using assms by (auto simp: decide_login_def Let_def rbind_Inr_iff split: sum.splits option.splits)
  have "lr_password request = Text_in (ba_password attempt)"
    using attempt by (auto simp: boundLoginAttempt_def split: js_input.splits if_splits)
  then show thesis using judged that
    by (auto simp: judge_account_def Let_def bind_eq_Some_conv split: option.splits if_splits)
qed

lemma completed_account:
  assumes "complete_transaction rt env account keys now db1 = Inr (Some (db2, auth))" "users_ok rt (ld_users db1)" "isUserId (cu_id account)"
  obtains u c row where "user_at (ld_users db1) (cu_id account) = Some u" "us_kind u = ''user''" "us_status u = ''active''"
    "credential_at (ld_users db1) (cu_id account) = Some c" "cr_status c = ''active''" "cr_sessionVersion c = cu_sessionVersion account"
    "la_userId auth = cu_id account" "la_roles auth = sorted_text (map rl_roleCode (roles_at (ld_users db1) (cu_id account)))"
    "al_rows (ud_audit (ld_users db2)) = al_rows (ud_audit (ld_users db1)) @ [row]"
    "ae_action (ar_event row) = ''auth.login''" "ae_actorUserId (ar_event row) = Some (cu_id account)"
    "us_id u = cu_id account \<Longrightarrow> isSessionCurrent (Some (session_claims (la_userId auth) (la_sessionVersion auth) ttl now))
      (getSessionState (ld_users db2) (la_userId auth))"
proof -
  let ?i = "cu_id account"
  have t1: "tables_ok (ld_users db1)" using assms(2) by (simp add: users_ok_def)
  obtain u c users mode where r: "lock_account (ld_users db1) ?i = Some (u, c)" "us_status u = ''active''" "cr_status c = ''active''"
      "toSessionVersion (cr_sessionVersion c) = Some (cu_sessionVersion account)"
    and stamp: "updateLastLogin ?i now (ld_users db1) = Inr users"
    and rec: "recordAuditEventInTransaction rt (le_columns env) (le_eventId env) (login_event rt env ?i u c (la_roles auth) now)
       (ud_audit users) = Inr (ud_audit (ld_users db2), mode)"
    and db2: "ld_users db2 = users\<lparr> ud_audit := ud_audit (ld_users db2) \<rparr>"
    and auth: "auth = \<lparr> la_userId = ?i, la_sessionVersion = cu_sessionVersion account,
       la_roles = sorted_text (map rl_roleCode (roles_at (ld_users db1) ?i)), la_maxSensitivityTier = us_maxSensitivityTier u \<rparr>"
    by (rule completed[OF assms(1)]) blast
  note v = last_login_views[OF stamp]
  have at: "user_at (ld_users db1) ?i = Some u" "credential_at (ld_users db1) ?i = Some c" "us_kind u = ''user''"
    using r(1) lock_account_iff[OF t1] by simp_all
  have ver: "cr_sessionVersion c = cu_sessionVersion account" using r(4) by (simp add: toSessionVersion_def split: if_splits)
  obtain row where row: "al_rows (ud_audit (ld_users db2)) = al_rows (ud_audit (ld_users db1)) @ [row]"
      "ar_event row = login_event rt env ?i u c (la_roles auth) now"
    using audit_row_appended[OF rec] v(5) by auto
  have "isSessionCurrent (Some (session_claims (la_userId auth) (la_sessionVersion auth) ttl now)) (getSessionState (ld_users db2) (la_userId auth))"
    if id: "us_id u = ?i"
  proof -
    have "getSessionState users ?i = Some \<lparr> cs_id = us_id u, cs_status = us_status u, cs_credentialStatus = cr_status c,
        cs_sessionVersion = cu_sessionVersion account \<rparr>"
      using session_state_at[of users ?i "stamped ?i now u" c] at v t1 r(4) assms(3) id by simp
    moreover have "getSessionState (users\<lparr> ud_audit := l \<rparr>) ?i = getSessionState users ?i" for l
      by (simp add: getSessionState_def login_join_def)
    ultimately have "getSessionState (ld_users db2) ?i = Some \<lparr> cs_id = us_id u, cs_status = us_status u, cs_credentialStatus = cr_status c,
        cs_sessionVersion = cu_sessionVersion account \<rparr>" using db2 by metis
    then show ?thesis using r(2,3) id by (simp add: auth isSessionCurrent_def session_claims_def Let_def)
  qed
  then show thesis using that[OF at(1,3) r(2) at(2) r(3) ver] auth row by (simp add: login_event_def buildLoginAuditEvent_def)
qed


section \<open>Throttling\<close>

definition guard_at :: "LoginGuardScope \<times> string \<Rightarrow> GuardRow list \<Rightarrow> GuardRow option" where
  "guard_at pair rows = find (\<lambda>r. guard_key r = pair) rows"

definition guards_ok :: "GuardRow list \<Rightarrow> bool" where
  "guards_ok rows \<longleftrightarrow>
     distinct (map guard_key rows) \<and> (\<forall>r \<in> set rows. 0 \<le> gr_failureCount r \<and> gr_failureCount r \<le> LOGIN_GUARD_MAX_FAILURE_COUNT)"

lemma count_failure_key [simp]: "guard_key (count_failure now r) = guard_key r"
  by (simp add: guard_key_def count_failure_def Let_def)

lemma new_guard_key [simp]: "guard_key (new_guard (fst pair) (snd pair) now) = pair"
  by (simp add: guard_key_def new_guard_def)

lemma guard_at_map: "(\<And>r. guard_key (g r) = guard_key r) \<Longrightarrow> guard_at p (map g rows) = map_option g (guard_at p rows)"
  by (induction rows) (auto simp: guard_at_def)

lemma guard_at_key: "guard_at p rows = Some r \<Longrightarrow> guard_key r = p \<and> r \<in> set rows"
  by (auto simp: guard_at_def find_Some_iff)

lemma guard_at_None: "guard_at p rows = None \<longleftrightarrow> \<not> list_ex (\<lambda>r. guard_key r = p) rows"
  by (simp add: guard_at_def find_None_iff list_ex_iff) blast

lemma guard_at_append: "guard_at p (rows @ [r]) = (case guard_at p rows of Some x \<Rightarrow> Some x | None \<Rightarrow> if guard_key r = p then Some r else None)"
  by (induction rows) (auto simp: guard_at_def)

lemma guard_at_upsert:
  "guard_at p (upsertGuard now q rows) =
     (if p = q then Some (case guard_at p rows of None \<Rightarrow> new_guard (fst p) (snd p) now | Some r \<Rightarrow> count_failure now r)
      else guard_at p rows)"
proof (cases "list_ex (\<lambda>r. guard_key r = q) rows")
  case True
  then have "upsertGuard now q rows = map (\<lambda>r. if guard_key r = q then count_failure now r else r) rows" by (simp add: upsertGuard_def)
  moreover have "guard_at q rows \<noteq> None" using True by (simp add: guard_at_None)
  ultimately show ?thesis
    by (cases "guard_at p rows") (auto simp: guard_at_map dest: guard_at_key)
next
  case False
  then have "guard_at q rows = None" by (simp add: guard_at_None)
  with False show ?thesis by (auto simp: upsertGuard_def guard_at_append split: option.splits)
qed

lemma guard_counts:
  "0 \<le> gr_failureCount r \<Longrightarrow> 0 \<le> gr_failureCount (count_failure now r) \<and> gr_failureCount (count_failure now r) \<le> LOGIN_GUARD_MAX_FAILURE_COUNT"
  "gr_failureCount (new_guard scope digest now) = 1"
  by (simp_all add: count_failure_def new_guard_def Let_def LOGIN_GUARD_MAX_FAILURE_COUNT_def)

lemma guards_ok_upsert:
  assumes "guards_ok rows"
  shows "guards_ok (upsertGuard now q rows)"
proof (cases "list_ex (\<lambda>r. guard_key r = q) rows")
  case True
  have "guard_key \<circ> (\<lambda>r. if guard_key r = q then count_failure now r else r) = guard_key" by auto
  with True assms show ?thesis unfolding guards_ok_def upsertGuard_def by (auto simp: guard_counts)
next
  case False
  then show ?thesis using assms by (auto simp: guards_ok_def upsertGuard_def list_ex_iff guard_counts LOGIN_GUARD_MAX_FAILURE_COUNT_def)
qed

lemma guard_at_failure:
  "guard_at p (ld_guards (recordFailure keys now db)) =
     (if p \<in> set (guardPairs keys)
      then Some (case guard_at p (ld_guards db) of None \<Rightarrow> new_guard (fst p) (snd p) now | Some r \<Rightarrow> count_failure now r)
      else guard_at p (ld_guards db))"
  by (auto simp: recordFailure_def guardPairs_def guard_at_upsert split: option.splits)

lemma guards_ok_failure: "guards_ok (ld_guards db) \<Longrightarrow> guards_ok (ld_guards (recordFailure keys now db))"
  by (auto simp: recordFailure_def guardPairs_def guards_ok_upsert split: option.splits)

lemma guard_at_delete: "guard_at p (deleteGuards keys rows) = (if p \<in> set (guardPairs keys) then None else guard_at p rows)"
  by (induction rows) (auto simp: guard_at_def deleteGuards_def)

lemma guards_ok_delete: "guards_ok rows \<Longrightarrow> guards_ok (deleteGuards keys rows)"
  by (auto simp: guards_ok_def deleteGuards_def distinct_map intro: inj_on_subset)

lemma guards_ok_finish: "guards_ok (ld_guards db) \<Longrightarrow> guards_ok (ld_guards (fst (finish_login rt env now plan db)))"
  by (cases plan)
    (auto simp: guards_ok_failure completeLogin_def guards_ok_delete split: sum.splits option.splits elim!: completed)

text \<open>The writes of attempts, and the failures among them that a guard counts.\<close>

type_synonym attempt_write = "login_env \<times> int \<times> login_plan"

definition attempt_writes :: "runtime \<Rightarrow> attempt_write list \<Rightarrow> login_db \<Rightarrow> login_db" where
  "attempt_writes rt ws db = fold (\<lambda>(env, now, plan) db. fst (finish_login rt env now plan db)) ws db"

fun failure_times :: "LoginGuardScope \<times> string \<Rightarrow> attempt_write list \<Rightarrow> int list" where
  "failure_times pair [] = []"
| "failure_times pair ((env, now, Plan_failure keys reason) # ws) =
     (if pair \<in> set (guardPairs keys) then [now] else []) @ failure_times pair ws"
| "failure_times pair (_ # ws) = failure_times pair ws"

fun completes :: "LoginGuardScope \<times> string \<Rightarrow> attempt_write \<Rightarrow> bool" where
  "completes pair (env, now, Plan_complete account keys) = (pair \<in> set (guardPairs keys))"
| "completes pair _ = False"

lemma failure_times_append [simp]: "failure_times pair (xs @ ys) = failure_times pair xs @ failure_times pair ys"
  by (induction xs rule: failure_times.induct) auto

lemma attempt_writes_ok: "guards_ok (ld_guards db) \<Longrightarrow> guards_ok (ld_guards (attempt_writes rt ws db))"
  unfolding attempt_writes_def by (induction ws arbitrary: db) (auto simp: guards_ok_finish)

text \<open>The row of a guard whose failures all fall into one window.\<close>

definition counted :: "LoginGuardScope \<times> string \<Rightarrow> int list \<Rightarrow> GuardRow option \<Rightarrow> bool" where
  "counted pair ts row \<longleftrightarrow>
     (case row of
        None \<Rightarrow> ts = []
      | Some r \<Rightarrow> ts \<noteq> [] \<and> guard_key r = pair \<and> gr_windowStartedAt r = hd ts \<and>
                  gr_failureCount r = min (int (length ts)) LOGIN_GUARD_MAX_FAILURE_COUNT \<and>
                  gr_blockedUntil r =
                    (if LOGIN_FAILURE_THRESHOLDS (fst pair) \<le> int (length ts) then Some (guardBlockedUntil (last ts)) else None))"

lemma thresholds: "2 \<le> LOGIN_FAILURE_THRESHOLDS s \<and> LOGIN_FAILURE_THRESHOLDS s \<le> LOGIN_GUARD_MAX_FAILURE_COUNT"
  by (cases s) (simp_all add: LOGIN_GUARD_MAX_FAILURE_COUNT_def)

lemma counted_more:
  assumes "counted pair ts row" "\<And>t. t \<in> set (ts @ [now]) \<Longrightarrow> guardWindowCutoff t < hd (ts @ [now])"
  shows "counted pair (ts @ [now]) (Some (case row of None \<Rightarrow> new_guard (fst pair) (snd pair) now | Some r \<Rightarrow> count_failure now r))"
proof (cases row)
  case None
  then show ?thesis using assms(1) thresholds[of "fst pair"]
    by (auto simp: counted_def new_guard_def guard_key_def LOGIN_GUARD_MAX_FAILURE_COUNT_def)
next
  case (Some r)
  have r: "ts \<noteq> []" "guard_key r = pair" "gr_windowStartedAt r = hd ts"
    "gr_failureCount r = min (int (length ts)) LOGIN_GUARD_MAX_FAILURE_COUNT"
    "gr_blockedUntil r = (if LOGIN_FAILURE_THRESHOLDS (fst pair) \<le> int (length ts) then Some (guardBlockedUntil (last ts)) else None)"
    using assms(1) Some by (auto simp: counted_def)
  have "gr_scope r = fst pair" using r(2) by (auto simp: guard_key_def)
  moreover have "\<not> gr_windowStartedAt r \<le> guardWindowCutoff now" using assms(2)[of now] r(1,3) by simp
  ultimately show ?thesis using r thresholds[of "fst pair"] Some
    by (auto simp: counted_def count_failure_def Let_def guard_key_def)
qed

lemma finish_other_guard:
  assumes "\<not> completes pair (env, now, plan)" "failure_times pair [(env, now, plan)] = []"
  shows "guard_at pair (ld_guards (fst (finish_login rt env now plan db))) = guard_at pair (ld_guards db)"
  using assms
  by (cases plan) (auto simp: guard_at_failure completeLogin_def guard_at_delete split: sum.splits option.splits if_splits elim!: completed)

lemma counted_writes:
  assumes "ld_guards db = []" "\<And>w. w \<in> set ws \<Longrightarrow> \<not> completes pair w"
    and "\<And>t. t \<in> set (failure_times pair ws) \<Longrightarrow> guardWindowCutoff t < hd (failure_times pair ws)"
  shows "counted pair (failure_times pair ws) (guard_at pair (ld_guards (attempt_writes rt ws db)))"
  using assms(2,3)
proof (induction ws rule: rev_induct)
  case Nil
  show ?case using assms(1) by (simp add: counted_def attempt_writes_def guard_at_def)
next
  case (snoc w ws)
  obtain env now plan where w: "w = (env, now, plan)" by (cases w)
  let ?db = "attempt_writes rt ws db"
  have run: "attempt_writes rt (ws @ [w]) db = fst (finish_login rt env now plan ?db)" by (simp add: attempt_writes_def w)
  have "guardWindowCutoff t < hd (failure_times pair ws)" if "t \<in> set (failure_times pair ws)" for t
    using snoc.prems(2)[of t] that by (cases "failure_times pair ws") auto
  then have IH: "counted pair (failure_times pair ws) (guard_at pair (ld_guards ?db))" using snoc.IH snoc.prems(1) by auto
  show ?case
  proof (cases "failure_times pair [w]")
    case Nil
    have "\<not> completes pair (env, now, plan)" using snoc.prems(1)[of w] by (simp add: w)
    then show ?thesis using IH finish_other_guard[of pair env now plan] Nil unfolding run by (simp add: w)
  next
    case (Cons t ts)
    then obtain keys reason where plan: "plan = Plan_failure keys reason" "pair \<in> set (guardPairs keys)" "failure_times pair [w] = [now]"
      by (cases plan) (auto simp: w split: if_splits)
    then show ?thesis using counted_more[OF IH, of now] snoc.prems(2) unfolding run by (simp add: guard_at_failure)
  qed
qed

lemma guard_states_ok:
  assumes "distinct (map gr_scope rs)" "\<forall>r \<in> set rs. gr_scope r \<notin> set seen"
    and "\<forall>r \<in> set rs. 0 \<le> gr_failureCount r \<and> gr_failureCount r \<le> LOGIN_GUARD_MAX_FAILURE_COUNT"
  shows "guard_states seen rs =
    Inr (map (\<lambda>r. \<lparr> gs_scope = gr_scope r, gs_failureCount = gr_failureCount r, gs_blockedUntil = gr_blockedUntil r \<rparr>) rs)"
  using assms
proof (induction rs arbitrary: seen)
  case (Cons r rs)
  have "\<forall>x \<in> set rs. gr_scope x \<notin> set (gr_scope r # seen)" using Cons.prems(1,2) by (force simp: image_iff)
  then show ?case using Cons.IH[of "gr_scope r # seen"] Cons.prems by (simp add: toFailureCount_def)
qed simp

lemma readGuards_ok:
  assumes "guards_ok (ld_guards db)"
  shows "readGuards keys db = Inr (map (\<lambda>r. \<lparr> gs_scope = gr_scope r, gs_failureCount = gr_failureCount r, gs_blockedUntil = gr_blockedUntil r \<rparr>)
    (filter (\<lambda>r. guard_key r \<in> set (guardPairs keys)) (ld_guards db)))"
proof -
  let ?rs = "filter (\<lambda>r. guard_key r \<in> set (guardPairs keys)) (ld_guards db)"
  have "guard_key r = guard_key r'" if "r \<in> set ?rs" "r' \<in> set ?rs" "gr_scope r = gr_scope r'" for r r'
    using that by (cases "gk_login keys") (auto simp: guard_key_def guardPairs_def split: if_splits)
  then have "inj_on gr_scope (set ?rs)"
    using assms by (intro inj_onI) (auto simp: guards_ok_def distinct_map dest: inj_onD)
  then have "distinct (map gr_scope ?rs)" using assms by (simp add: guards_ok_def distinct_map)
  then show ?thesis unfolding readGuards_def using assms by (intro guard_states_ok) (auto simp: guards_ok_def)
qed

lemma blocked_denies:
  assumes "guards_ok (ld_guards db)" "boundLoginAttempt request = Inr attempt" "pair \<in> set (guardPairs (guard_keys lp guardSecret attempt))"
    and "guard_at pair (ld_guards db) = Some r" "gr_blockedUntil r = Some blocked" "now < blocked"
  shows "\<exists>reason \<in> {Login_throttled, Source_throttled}. decide_login lp guardSecret now request db = Inr (Plan_deny reason, [])"
proof -
  let ?keys = "guard_keys lp guardSecret attempt"
  let ?states = "map (\<lambda>r. \<lparr> gs_scope = gr_scope r, gs_failureCount = gr_failureCount r, gs_blockedUntil = gr_blockedUntil r \<rparr>)
    (filter (\<lambda>r. guard_key r \<in> set (guardPairs ?keys)) (ld_guards db))"
  have "\<exists>s \<in> set ?states. isGuardBlocked s now"
    using guard_at_key[OF assms(4)] assms(3,5,6) by (force simp: isGuardBlocked_def)
  then obtain s where "find (\<lambda>s. isGuardBlocked s now) ?states = Some s"
    by (metis (no_types, lifting) find_None_iff option.exhaust)
  moreover have "guardDenialReason (gs_scope s) \<in> {Login_throttled, Source_throttled}" by (cases "gs_scope s") auto
  ultimately show ?thesis using assms(2) readGuards_ok[OF assms(1), of ?keys] by (auto simp: decide_login_def Let_def)
qed


text \<open>Every attempt that is not refused outright buys exactly one verification, known account or not.\<close>

lemma one_verification:
  "decide_login lp guardSecret now request db = Inr (plan, hashes) \<Longrightarrow> (\<exists>reason. plan = Plan_deny reason) = (hashes = []) \<and> length hashes \<le> 1"
  by (auto simp: decide_login_def judge_account_def Let_def rbind_Inr_iff split: sum.splits option.splits if_splits)

text \<open>
  A success starts the count of its network source over, whoever made the failures counted there: the next
  failure from that source, under any login, is counted as the first.
\<close>
theorem success_resets_shared_source:
  assumes "finish_login rt env now (Plan_complete account keys) db = (db', Inr (Login_ok auth, sink))" "gk_source keys' = gk_source keys"
  shows "guard_at (Source_scope, gk_source keys) (ld_guards db') = None \<and>
    guard_at (Source_scope, gk_source keys) (ld_guards (recordFailure keys' later db')) = Some (new_guard Source_scope (gk_source keys) later)"
proof -
  have "complete_transaction rt env account keys now db = Inr (Some (db', auth))"
    using assms(1) by (auto simp: completeLogin_def split: sum.splits option.splits)
  then have "ld_guards db' = deleteGuards keys (ld_guards db)" by (rule completed)
  then have "guard_at (Source_scope, gk_source keys) (ld_guards db') = None" by (simp add: guard_at_delete guardPairs_def)
  then show ?thesis using assms(2) by (simp add: guard_at_failure guardPairs_def)
qed

section \<open>A small installation\<close>

definition demo_hash :: string where
  "demo_hash = encode_hash default_parameters (replicate 16 (CHR ''s'')) (replicate 32 (CHR ''d''))"

definition demo_login_users :: user_db where
  "demo_login_users = \<lparr> ud_users = [demo_user ''a1''],
     ud_credentials = [demo_credential ''a1'' ''ann''\<lparr> cr_passwordHash := demo_hash \<rparr>], ud_roles = [demo_role ''a1''], ud_audit = empty_log \<rparr>"

definition demo_login_db :: login_db where
  "demo_login_db = \<lparr> ld_guards = [], ld_users = demo_login_users \<rparr>"

definition demo_platform :: login_platform where
  "demo_platform = \<lparr> lp_hmac = (\<lambda>k m. m), lp_sha256 = (\<lambda>s. s), lp_verify = (\<lambda>p h. p = ''pw'') \<rparr>"

definition demo_request :: "string \<Rightarrow> LoginRequest" where
  "demo_request password = \<lparr> lr_login = Text_in ''ann'', lr_password = Text_in password, lr_clientSource = Text_in ''10.0.0.1'' \<rparr>"

definition demo_attempt :: "string \<Rightarrow> BoundedLoginAttempt" where
  "demo_attempt password = \<lparr> ba_normalizedLogin = Some ''ann'', ba_password = password, ba_clientSource = ''10.0.0.1'' \<rparr>"

definition demo_login_account :: CredentialUser where
  "demo_login_account = \<lparr> cu_id = ''a1'', cu_usernameNormalized = ''ann'', cu_email = None, cu_status = ''active'',
     cu_credentialStatus = ''active'', cu_passwordHash = demo_hash, cu_sessionVersion = 3, cu_maxSensitivityTier = ''K1'', cu_roles = [''admin''] \<rparr>"

definition demo_keys :: GuardKeys where
  "demo_keys = guard_keys demo_platform [] (demo_attempt ''pw'')"

definition demo_login_env :: login_env where
  "demo_login_env = \<lparr> le_columns = 5, le_correlationId = ''c'', le_eventId = ''e1'' \<rparr>"

lemma demo_login_users_ok: "users_ok plain_runtime (ld_users demo_login_db)"
  by (simp add: demo_login_db_def demo_login_users_def users_ok_def tables_ok_def unique_keys_def user_at_def row_at_def demo_user_def
      demo_credential_def demo_role_def empty_intact unique_identities_def)

lemma demo_normalized: "normalizeLogin (Text_in ''ann'') = Some ''ann''"
  by code_simp

lemma demo_bound: "boundLoginAttempt (demo_request ''pw'') = Inr (demo_attempt ''pw'')" "boundLoginAttempt (demo_request ''no'') = Inr (demo_attempt ''no'')"
  by (simp_all add: boundLoginAttempt_def demo_request_def demo_attempt_def demo_normalized client_source_pattern_def less_eq_char_def
      PASSWORD_MAX_LENGTH_def PASSWORD_MAX_BYTES_def CLIENT_SOURCE_MAX_LENGTH_def LOGIN_MAX_LENGTH_def EMAIL_MAX_LENGTH_def utf16_units_def)

lemma demo_found: "findByLogin demo_login_users (Text_in ''ann'') = Some demo_login_account"
proof -
  have "isUserId ''a1''" by (rule demo_ids)
  then show ?thesis
    by (simp add: findByLogin_def demo_normalized login_join_def demo_login_users_def demo_user_def demo_credential_def demo_role_def mapCredential_def
        toSessionVersion_def MAX_SESSION_VERSION_def demo_login_account_def roles_at_def sorted_text_def)
qed

lemma demo_decided: "decide_login demo_platform [] now (demo_request ''pw'') demo_login_db = Inr (Plan_complete demo_login_account demo_keys, [demo_hash])"
proof -
  have "isStoredPasswordHashValid demo_hash"
    using parse_encode_hash[of "replicate 16 (CHR ''s'')" "replicate 32 (CHR ''d'')"]
    by (simp add: isStoredPasswordHashValid_def demo_hash_def KEY_LENGTH_def)
  then show ?thesis
    using demo_found
    by (simp add: decide_login_def demo_bound readGuards_def demo_login_db_def Let_def demo_attempt_def judge_account_def demo_keys_def
        demo_login_account_def accountStateReason_def demo_platform_def)
qed

lemma demo_completed:
  obtains db' auth where "finish_login plain_runtime demo_login_env now (Plan_complete demo_login_account demo_keys) demo_login_db =
    (db', Inr (Login_ok auth, None))" "la_userId auth = ''a1''"
proof -
  have "lock_account demo_login_users ''a1'' = Some (demo_user ''a1'', demo_credential ''a1'' ''ann''\<lparr> cr_passwordHash := demo_hash \<rparr>)"
    by (simp add: lock_account_def login_join_def demo_login_users_def demo_user_def demo_credential_def)
  then show thesis using that
    by (simp add: completeLogin_def complete_transaction_def demo_login_db_def demo_login_account_def demo_user_def demo_credential_def
        toSessionVersion_def MAX_SESSION_VERSION_def accountStateReason_def updateLastLogin_def demo_login_users_def
        recordAuditEventInTransaction_def supportsHashChainedAudit_def append_chained_def insert_row_def Let_def demo_login_env_def empty_log_def)
qed


definition demo_pair :: "LoginGuardScope \<times> string" where
  "demo_pair = (Login_scope, deriveLoginGuardDigest demo_platform Login_scope ''ann'' [])"

definition demo_failures :: "attempt_write list" where
  "demo_failures = map (\<lambda>t. (demo_login_env, t, Plan_failure demo_keys Password_mismatch)) [1000, 2000, 3000, 4000, 5000]"

lemma demo_pair_guarded: "demo_pair \<in> set (guardPairs (guard_keys demo_platform [] (demo_attempt password)))" "demo_pair \<in> set (guardPairs demo_keys)"
proof -
  have "deriveLoginGuardDigest demo_platform Login_scope ''ann'' [] \<noteq> []"
    by (simp add: deriveLoginGuardDigest_def hex_digest_def demo_platform_def guard_message_def)
  then show "demo_pair \<in> set (guardPairs (guard_keys demo_platform [] (demo_attempt password)))" "demo_pair \<in> set (guardPairs demo_keys)"
    by (simp_all add: demo_pair_def guardPairs_def guard_keys_def demo_attempt_def demo_keys_def)
qed


text \<open>The next failure from the source, without a login of its own, is counted as the first.\<close>
theorem success_resets_shared_source_witness:
  "\<exists>db auth. finish_login plain_runtime demo_login_env 7000 (Plan_complete demo_login_account demo_keys) demo_login_db =
      (db, Inr (Login_ok auth, None)) \<and>
    guard_at (Source_scope, gk_source demo_keys) (ld_guards (recordFailure (demo_keys\<lparr> gk_login := None \<rparr>) 8000 db)) =
      Some (new_guard Source_scope (gk_source demo_keys) 8000)"
proof -
  obtain db auth where run: "finish_login plain_runtime demo_login_env 7000 (Plan_complete demo_login_account demo_keys) demo_login_db =
      (db, Inr (Login_ok auth, None))" by (rule demo_completed)
  then show ?thesis using success_resets_shared_source[OF run, of "demo_keys\<lparr> gk_login := None \<rparr>" 8000] by auto
qed

end
