(* ===== verification/Access.thy ===== *)
theory Access
  imports LoginService
begin

text \<open>
  What a request may do: the permission rules (\<open>src/src/identity/access.ts\<close>), the access repository
  (\<open>src/src/adapters/mysqlAccessRepo.ts\<close>), bearer tokens and identities (\<open>src/src/auth/authenticate.ts\<close>), the sessions of a
  development machine (\<open>src/src/auth/localSession.ts\<close>) and the server's \<open>authenticate\<close>
  (\<open>src/src/http/enterpriseDashboardServer.ts\<close>). The token verifier and \<open>decodeURIComponent\<close> are arguments.
\<close>

section \<open>Permissions\<close>

definition USER_PERMISSIONS :: "string list" where
  "USER_PERMISSIONS =
     [''call:read'', ''call:review'', ''finding:confirm'', ''invoice:reconcile'', ''cluster:confirm'', ''action:route'', ''metrics:read'',
      ''snapshot:read'']"

definition ADMIN_ONLY_PERMISSIONS :: "string list" where
  "ADMIN_ONLY_PERMISSIONS =
     [''user:manage'', ''config:manage'', ''connection:manage'', ''import:write'', ''sensitivity:grant'', ''billing:approve'',
      ''reconciliation:close'', ''dispute:approve'', ''retention:manage'', ''access:review'', ''legalhold:manage'', ''policy:publish'',
      ''audit:inspect'', ''audit:control'']"

definition can :: "string list \<Rightarrow> string \<Rightarrow> bool" where
  "can roles permission =
     (if ''admin'' \<in> set roles then True
      else if ''user'' \<in> set roles then permission \<in> set USER_PERMISSIONS
      else False)"

definition canGrantSensitivity :: "string list \<Rightarrow> bool" where
  "canGrantSensitivity roles = can roles ''sensitivity:grant''"

definition SENSITIVITY_ORDER :: "string list" where
  "SENSITIVITY_ORDER = [''K0'', ''K1'', ''K2'', ''K3'']"

text \<open>\<open>indexOf\<close>, \<open>-1\<close> for an absent element.\<close>

fun indexOf :: "'a list \<Rightarrow> 'a \<Rightarrow> int" where
  "indexOf [] x = -1"
| "indexOf (y # ys) x = (if y = x then 0 else let i = indexOf ys x in if i < 0 then -1 else i + 1)"

definition canViewCallContent :: "string \<Rightarrow> string \<Rightarrow> bool" where
  "canViewCallContent maxSensitivityTier callTier =
     (if callTier = ''K4'' then False
      else let ceiling = indexOf SENSITIVITY_ORDER maxSensitivityTier; need = indexOf SENSITIVITY_ORDER callTier in
           if ceiling < 0 \<or> need < 0 then False else ceiling \<ge> need)"

section \<open>The access repository\<close>

record AccessUser =
  au_id :: string
  au_email :: "string option"
  au_status :: string
  au_maxSensitivityTier :: string
  au_roles :: "string list"

definition mapUser :: "user_db \<Rightarrow> UserRow option \<Rightarrow> AccessUser option" where
  "mapUser db row =
     map_option (\<lambda>u. \<lparr> au_id = us_id u, au_email = us_email u, au_status = us_status u, au_maxSensitivityTier = us_maxSensitivityTier u,
       au_roles = remdups (sorted_text (map rl_roleCode (roles_at db (us_id u)))) \<rparr>) row"

definition oidc_matches :: "string \<Rightarrow> string \<Rightarrow> UserRow \<Rightarrow> bool" where
  "oidc_matches issuer subject u =
     (case oidc_identity u of (Some i, Some s) \<Rightarrow> same_key i issuer \<and> same_key s subject | _ \<Rightarrow> False)"

definition findByOidc :: "user_db \<Rightarrow> string \<Rightarrow> string \<Rightarrow> AccessUser option" where
  "findByOidc db issuer subject = mapUser db (find (\<lambda>u. us_kind u = ''user'' \<and> oidc_matches issuer subject u) (ud_users db))"

definition findByEmail :: "user_db \<Rightarrow> string \<Rightarrow> AccessUser option" where
  "findByEmail db email = mapUser db (find (\<lambda>u. us_kind u = ''user'' \<and> same_email (us_email u) email) (ud_users db))"

definition findById :: "user_db \<Rightarrow> string \<Rightarrow> AccessUser option" where
  "findById db userId = mapUser db (find (\<lambda>u. us_kind u = ''user'' \<and> same_key (us_id u) userId) (ud_users db))"

section \<open>Tokens and identities\<close>

record VerifiedIdentity =
  vi_issuer :: string
  vi_subject :: string
  vi_email :: "string option"

record AuthContext =
  ac_user :: AccessUser
  ac_issuer :: string
  ac_subject :: string

definition AUTH_REQUIRED :: js_error where
  "AUTH_REQUIRED = AuthFailure 401 ''AUTH_REQUIRED''"

definition AUTH_INVALID :: js_error where
  "AUTH_INVALID = AuthFailure 401 ''AUTH_INVALID''"

text \<open>\<open>None\<close> is a malformed escape, which \<open>decodeURIComponent\<close> refuses.\<close>

fun cookie_parts :: "(string \<Rightarrow> string option) \<Rightarrow> string \<Rightarrow> string list \<Rightarrow> string option" where
  "cookie_parts decode name [] = None"
| "cookie_parts decode name (part # parts) =
     (let k = takeWhile (\<lambda>c. c \<noteq> CHR ''='') part in
      if length k = length part \<or> k = [] \<or> trim k \<noteq> name then cookie_parts decode name parts
      else decode (trim (drop (length k + 1) part)))"

definition parseCookie :: "(string \<Rightarrow> string option) \<Rightarrow> string option \<Rightarrow> string \<Rightarrow> string option" where
  "parseCookie decode header name =
     (case header of None \<Rightarrow> None | Some h \<Rightarrow> if h = [] then None else cookie_parts decode name (split_text (CHR '';'') h))"

definition token_char :: "char \<Rightarrow> bool" where
  "token_char c = (b64url_char c \<or> c = CHR ''.'' \<or> c = CHR ''~'')"

definition extractBearerToken ::
  "(string \<Rightarrow> string option) \<Rightarrow> string option \<Rightarrow> string option \<Rightarrow> string option \<Rightarrow> string option" where
  "extractBearerToken decode authorization cookieHeader tokenCookie =
     (if truthy_text authorization
      then (let h = trim (coalesce authorization []); t = drop 7 h in
            if startsWith h ''Bearer '' \<and> t \<noteq> [] \<and> list_all token_char t then Some t else None)
      else if truthy_text tokenCookie then parseCookie decode cookieHeader (coalesce tokenCookie []) else None)"

definition active_context :: "AccessUser option \<Rightarrow> string \<Rightarrow> string \<Rightarrow> AuthContext res" where
  "active_context found issuer subject =
     (case found of
        None \<Rightarrow> Inl (AuthFailure 403 ''USER_NOT_PROVISIONED'')
      | Some user \<Rightarrow>
          if au_status user \<noteq> ''active'' then Inl (AuthFailure 403 ''USER_DISABLED'')
          else Inr \<lparr> ac_user = user, ac_issuer = issuer, ac_subject = subject \<rparr>)"

text \<open>The verifier answers \<open>None\<close> where it throws.\<close>

definition authenticateOidc :: "(string \<Rightarrow> VerifiedIdentity option) \<Rightarrow> string option \<Rightarrow> user_db \<Rightarrow> AuthContext res" where
  "authenticateOidc verifier token db =
     (if \<not> truthy_text token then Inl AUTH_REQUIRED
      else case verifier (coalesce token []) of
             None \<Rightarrow> Inl AUTH_INVALID
           | Some identity \<Rightarrow>
               active_context (findByOidc db (vi_issuer identity) (vi_subject identity)) (vi_issuer identity) (vi_subject identity))"

definition authenticateLocal :: "string \<Rightarrow> user_db \<Rightarrow> AuthContext res" where
  "authenticateLocal email db =
     (let found = findByEmail db (toLowerCase email) in
      active_context found ''local-development'' (case found of None \<Rightarrow> [] | Some user \<Rightarrow> coalesce (au_email user) []))"

definition requirePermission :: "AuthContext \<Rightarrow> string \<Rightarrow> unit res" where
  "requirePermission context permission =
     (if \<not> can (au_roles (ac_user context)) permission then Inl (AuthFailure 403 ''PERMISSION_DENIED'') else Inr ())"

section \<open>Sessions of a development machine\<close>

definition local_json :: "string \<Rightarrow> int \<Rightarrow> json" where
  "local_json email expiry = JObj [(''v'', JNum 1), (''email'', JStr email), (''exp'', JNum expiry)]"

definition issueLocalSession :: "session_platform \<Rightarrow> string \<Rightarrow> string \<Rightarrow> int \<Rightarrow> int \<Rightarrow> string" where
  "issueLocalSession sp email secret ttlSeconds nowMs =
     (let body = base64url (render (local_json (toLowerCase email) (nowMs div 1000 + ttlSeconds)))
      in body @ ''.'' @ signature sp body secret)"

definition read_local :: "json \<Rightarrow> string \<Rightarrow> int \<Rightarrow> string option" where
  "read_local payload expectedEmail nowSeconds =
     (case (json_int ''v'' payload, json_field ''email'' payload, json_int ''exp'' payload) of
        (Some v, Some (JStr email), Some expiry) \<Rightarrow>
          if v \<noteq> 1 \<or> toLowerCase email \<noteq> toLowerCase expectedEmail \<or> expiry \<le> nowSeconds then None
          else Some (toLowerCase email)
      | _ \<Rightarrow> None)"

definition verifyLocalSession :: "session_platform \<Rightarrow> string option \<Rightarrow> string \<Rightarrow> string \<Rightarrow> int \<Rightarrow> string option" where
  "verifyLocalSession sp token secret expectedEmail nowMs =
     (if \<not> truthy_text token \<or> utf16_length (coalesce token []) > 4096 then None
      else case split_text (CHR ''.'') (coalesce token []) of
             [body, supplied] \<Rightarrow>
               if body = [] \<or> supplied = [] \<or> supplied \<noteq> signature sp body secret then None
               else Option.bind (json_parse sp (from_base64url body)) (\<lambda>payload. read_local payload expectedEmail (nowMs div 1000))
           | _ \<Rightarrow> None)"

section \<open>A request\<close>

datatype auth_mode =
    Preview
  | Local_mode string string string
  | Database_mode string string
  | Oidc_mode "string option"

record auth_dependencies =
  ad_mode :: auth_mode
  ad_credentials :: bool
  ad_verifier :: "(string \<Rightarrow> VerifiedIdentity option) option"
  ad_sessions :: session_platform
  ad_decode :: "string \<Rightarrow> string option"

definition preview_context :: AuthContext where
  "preview_context =
     \<lparr> ac_user = \<lparr> au_id = ''local-preview'', au_email = Some ''local-preview@kaudit.invalid'', au_status = ''active'',
         au_maxSensitivityTier = ''K0'', au_roles = [''user''] \<rparr>,
       ac_issuer = ''local-preview'', ac_subject = ''local-preview'' \<rparr>"

definition database_context :: "auth_dependencies \<Rightarrow> UserSessionClaims option \<Rightarrow> user_db \<Rightarrow> AuthContext res" where
  "database_context deps claims db =
     (case claims of
        None \<Rightarrow> Inl AUTH_REQUIRED
      | Some c \<Rightarrow>
          if \<not> ad_credentials deps then Inl AUTH_REQUIRED
          else if \<not> isSessionCurrent claims (getSessionState db (sc_sub c)) then Inl AUTH_INVALID
          else (case findById db (sc_sub c) of
                  None \<Rightarrow> Inl AUTH_INVALID
                | Some user \<Rightarrow>
                    if au_id user \<noteq> sc_sub c \<or> au_status user \<noteq> ''active'' then Inl AUTH_INVALID
                    else Inr \<lparr> ac_user = user, ac_issuer = ''kaudit-database'', ac_subject = au_id user \<rparr>))"

definition authenticate_request ::
  "auth_dependencies \<Rightarrow> string option \<Rightarrow> string option \<Rightarrow> int \<Rightarrow> user_db \<Rightarrow> AuthContext res" where
  "authenticate_request deps authorization cookie nowMs db =
     (case ad_mode deps of
        Preview \<Rightarrow> Inr preview_context
      | Local_mode sessionSecret sessionCookie email \<Rightarrow>
          (case verifyLocalSession (ad_sessions deps) (extractBearerToken (ad_decode deps) None cookie (Some sessionCookie)) sessionSecret email nowMs of
             None \<Rightarrow> Inl AUTH_REQUIRED
           | Some verified \<Rightarrow> if verified = [] then Inl AUTH_REQUIRED else authenticateLocal verified db)
      | Database_mode sessionSecret sessionCookie \<Rightarrow>
          rbind (verifyUserSession (ad_sessions deps)
                   (case parseCookie (ad_decode deps) cookie sessionCookie of None \<Rightarrow> Missing | Some t \<Rightarrow> Text_in t) sessionSecret nowMs)
            (\<lambda>claims. database_context deps claims db)
      | Oidc_mode tokenCookie \<Rightarrow>
          (case ad_verifier deps of
             None \<Rightarrow> Inl (PlainError ''OIDC verifier is unavailable'')
           | Some verifier \<Rightarrow> authenticateOidc verifier (extractBearerToken (ad_decode deps) authorization cookie tokenCookie) db))"

section \<open>Rules\<close>

lemma admin_only: "can roles p \<Longrightarrow> p \<in> set ADMIN_ONLY_PERMISSIONS \<Longrightarrow> ''admin'' \<in> set roles"
  by (auto simp: can_def USER_PERMISSIONS_def ADMIN_ONLY_PERMISSIONS_def split: if_splits)

lemma indexOf_present: "0 \<le> indexOf xs x \<longleftrightarrow> x \<in> set xs"
  by (induction xs) (auto simp: Let_def)

text \<open>The gate on content: no one sees K4, and what a ceiling opens a higher one opens too.\<close>

lemma content_gate:
  "\<not> canViewCallContent tier ''K4''"
  "canViewCallContent tier callTier \<Longrightarrow> tier \<in> set SENSITIVITY_ORDER \<and> callTier \<in> set SENSITIVITY_ORDER"
  "canViewCallContent tier callTier \<Longrightarrow> canViewCallContent higher tier \<Longrightarrow> canViewCallContent higher callTier"
  using indexOf_present[of SENSITIVITY_ORDER]
  by (auto simp: canViewCallContent_def Let_def not_less split: if_splits)

section \<open>Requests in database mode\<close>

definition request_claims :: "auth_dependencies \<Rightarrow> string \<Rightarrow> string \<Rightarrow> string option \<Rightarrow> int \<Rightarrow> UserSessionClaims option res" where
  "request_claims deps sessionSecret sessionCookie cookie nowMs =
     verifyUserSession (ad_sessions deps) (case parseCookie (ad_decode deps) cookie sessionCookie of None \<Rightarrow> Missing | Some t \<Rightarrow> Text_in t)
       sessionSecret nowMs"

lemma database_request:
  assumes "ad_mode deps = Database_mode sessionSecret sessionCookie"
  shows "authenticate_request deps authorization cookie nowMs db =
    rbind (request_claims deps sessionSecret sessionCookie cookie nowMs) (\<lambda>claims. database_context deps claims db)"
  by (simp add: authenticate_request_def assms request_claims_def)

lemma database_context_ok:
  assumes "database_context deps found db = Inr ctx"
  obtains claims s user where "found = Some claims" "getSessionState db (sc_sub claims) = Some s" "isSessionCurrent (Some claims) (Some s)"
    "findById db (sc_sub claims) = Some user" "au_id user = sc_sub claims"
    "ctx = \<lparr> ac_user = user, ac_issuer = ''kaudit-database'', ac_subject = sc_sub claims \<rparr>"
proof -
  obtain claims where found: "found = Some claims" using assms by (cases found) (simp_all add: database_context_def)
  have current: "isSessionCurrent (Some claims) (getSessionState db (sc_sub claims))"
    using assms by (auto simp: found database_context_def split: if_splits)
  then obtain s where "getSessionState db (sc_sub claims) = Some s"
    by (cases "getSessionState db (sc_sub claims)") (simp_all add: isSessionCurrent_def)
  moreover obtain user where "findById db (sc_sub claims) = Some user" "au_id user = sc_sub claims"
      "ctx = \<lparr> ac_user = user, ac_issuer = ''kaudit-database'', ac_subject = sc_sub claims \<rparr>"
    using assms current by (auto simp: found database_context_def split: if_splits option.splits)
  ultimately show thesis using that found current by simp
qed

lemma found_user:
  assumes "findById db i = Some user" "tables_ok db"
  obtains u where "user_at db i = Some u" "us_kind u = ''user''" "au_id user = us_id u" "au_status user = us_status u"
    "set (au_roles user) = rl_roleCode ` set (roles_at db i)"
proof -
  obtain u where "find (\<lambda>u. us_kind u = ''user'' \<and> same_key (us_id u) i) (ud_users db) = Some u" and user: "mapUser db (Some u) = Some user"
    using assms(1) by (auto simp: findById_def mapUser_def)
  then have u: "u \<in> set (ud_users db)" "us_kind u = ''user''" "same_key (us_id u) i" by (auto simp: find_Some_iff)
  then have "user_at db i = Some u" using assms(2) by (simp add: user_at_def row_at_member tables_ok_def)
  moreover have "set (au_roles user) = rl_roleCode ` set (roles_at db i)"
    using user roles_at_cong[OF u(3), of db] by (auto simp: mapUser_def sorted_text_def)
  ultimately show thesis using that u user by (auto simp: mapUser_def)
qed


text \<open>
  C16. Deactivating, activating, resetting or closing an account cuts off every request that carries a session of it
  issued so far: whatever logins and administration follow, such a request is answered 401.
\<close>
theorem revoked_requests_refused:
  assumes "users_ok rt (ld_users db)" "admin_exec rt op (ld_users db) = (users1, Inr r)" "uc_changed r"
    and "uc_action r \<notin> {''USER_ACCOUNT_CREATED'', ''USER_ACCOUNT_UPDATED''}" "credential_at (ld_users db) (uc_userId r) = Some c"
    and "(login_step rt)\<^sup>*\<^sup>* (db\<lparr> ld_users := users1 \<rparr>) db2" "ad_mode deps = Database_mode sessionSecret sessionCookie"
    and "request_claims deps sessionSecret sessionCookie cookie nowMs = Inr (Some claims)"
    and "same_key (sc_sub claims) (uc_userId r)" "sc_sv claims \<le> cr_sessionVersion c"
  shows "\<exists>code. authenticate_request deps authorization cookie nowMs (ld_users db2) = Inl (AuthFailure 401 code)"
proof -
  note raised = revocation_raises[OF assms(1-5)]
  then obtain a where a: "account_at users1 (uc_userId r) = Some a" "ma_sessionVersion a = Some (cr_sessionVersion c + 1)" by blast
  have "users_ok rt (ld_users db2)" "accounts_grow users1 (ld_users db2)"
    using login.run_keeps[OF assms(6)] raised(1) by simp_all
  then have "\<not> isSessionCurrent (Some claims) (getSessionState (ld_users db2) (sc_sub claims))"
    using outdated_session[OF _ _ a] assms(9,10) by simp
  then show ?thesis
    by (simp add: database_request[OF assms(7)] assms(8) database_context_def AUTH_REQUIRED_def AUTH_INVALID_def)
qed

section \<open>External identities\<close>

lemma bound_user:
  assumes "users_ok rt db" "u \<in> set (ud_users db)" "us_kind u = ''user''" "oidc_matches issuer subject u"
  shows "find (\<lambda>u. us_kind u = ''user'' \<and> oidc_matches issuer subject u) (ud_users db) = Some u"
proof -
  have "find (\<lambda>u. us_kind u = ''user'' \<and> oidc_matches issuer subject u) (ud_users db) \<noteq> None"
    using assms(2-4) by (auto simp del: not_None_eq simp: find_None_iff)
  then obtain w where w: "find (\<lambda>u. us_kind u = ''user'' \<and> oidc_matches issuer subject u) (ud_users db) = Some w" by auto
  then have m: "w \<in> set (ud_users db)" "oidc_matches issuer subject w" by (auto simp: find_Some_iff)
  have "same_identity w u"
    using m(2) assms(4) by (auto simp: same_identity_def oidc_matches_def same_key_def split: prod.splits option.splits)
  then have "same_key (us_id w) (us_id u)" using assms(1,2) m(1) by (simp add: users_ok_def unique_identities_def)
  then have "w = u"
    using assms(1,2) m(1) row_at_member[of us_id "ud_users db" w "us_id u"] row_at_member[of us_id "ud_users db" u "us_id u"]
    by (simp add: users_ok_def tables_ok_def)
  then show ?thesis using w by simp
qed

text \<open>
  C38. The subject of a verified token is looked up without letter case: an identity whose subject differs from a bound
  one in letter case alone is signed in as the bound user.
\<close>
theorem oidc_subject_case_confused:
  assumes "users_ok rt db" "u \<in> set (ud_users db)" "us_kind u = ''user''" "us_status u = ''active''"
    and "oidc_identity u = (Some issuer, Some bound)" "same_key bound subject" "token \<noteq> []"
    and "verifier token = Some \<lparr> vi_issuer = issuer, vi_subject = subject, vi_email = email \<rparr>"
  shows "\<exists>ctx. authenticateOidc verifier (Some token) db = Inr ctx \<and> au_id (ac_user ctx) = us_id u \<and> ac_subject ctx = subject"
proof -
  have "oidc_matches issuer subject u" using assms(5,6) by (simp add: oidc_matches_def)
  from bound_user[OF assms(1-3) this] show ?thesis
    using assms(4,7,8) by (simp add: authenticateOidc_def findByOidc_def mapUser_def active_context_def)
qed

section \<open>Requests on the small directory\<close>

definition demo_deps :: "string \<Rightarrow> auth_dependencies" where
  "demo_deps i = \<lparr> ad_mode = Database_mode demo_secret ''s'', ad_credentials = True, ad_verifier = None,
     ad_sessions = \<lparr> hmac_sha256 = (\<lambda>_ _. ''x''), json_parse = (\<lambda>_. Some (claims_json (session_claims i 3 600 5000))) \<rparr>, ad_decode = Some \<rparr>"

lemma demo_request_claims:
  "request_claims (demo_deps ''a1'') demo_secret ''s'' (Some ''s=b.eA'') 6000 = Inr (Some (session_claims ''a1'' 3 600 5000))"
  "request_claims (demo_deps ''b1'') demo_secret ''s'' (Some ''s=b.eA'') 6000 = Inr (Some (session_claims ''b1'' 3 600 5000))"
  by code_simp+


text \<open>The requests of a closed account are refused.\<close>
theorem revoked_requests_refused_witness:
  "\<exists>users1 r code. admin_exec plain_runtime demo_closing demo_users = (users1, Inr r) \<and>
     authenticate_request (demo_deps ''b1'') None (Some ''s=b.eA'') 6000 users1 = Inl (AuthFailure 401 code)"
proof -
  let ?db = "\<lparr> ld_guards = [], ld_users = demo_users \<rparr>"
  obtain users1 r where run: "admin_exec plain_runtime demo_closing demo_users = (users1, Inr r)" "uc_changed r" "uc_userId r = ''b1''"
    "uc_action r = ''USER_ACCOUNT_TOMBSTONED''" by (rule demo_closing_done)
  have mode: "ad_mode (demo_deps ''b1'') = Database_mode demo_secret ''s''" by (simp add: demo_deps_def)
  have row: "credential_at demo_users ''b1'' = Some (demo_credential ''b1'' ''bob'')" by code_simp
  show ?thesis
    using revoked_requests_refused[of plain_runtime ?db demo_closing users1 r "demo_credential ''b1'' ''bob''" "?db\<lparr> ld_users := users1 \<rparr>"
        "demo_deps ''b1''" demo_secret "''s''" "Some ''s=b.eA''" 6000 "session_claims ''b1'' 3 600 5000" None]
      run mode row demo_users_ok(1) demo_request_claims(2)
    by (auto simp: session_claims_def Let_def demo_credential_def)
qed

text \<open>A token for \<open>ABC\<close> signs in the user bound to \<open>abc\<close>.\<close>
theorem oidc_subject_case_confused_witness:
  "\<exists>ctx. authenticateOidc (\<lambda>_. Some \<lparr> vi_issuer = ''i'', vi_subject = ''ABC'', vi_email = None \<rparr>) (Some ''t'')
     \<lparr> ud_users = [demo_user ''a1''\<lparr> us_oidcIssuer := Some ''i'', us_oidcSubject := Some ''abc'' \<rparr>], ud_credentials = [], ud_roles = [],
       ud_audit = empty_log \<rparr> = Inr ctx \<and> au_id (ac_user ctx) = ''a1'' \<and> ac_subject ctx = ''ABC''"
proof -
  let ?u = "demo_user ''a1''\<lparr> us_oidcIssuer := Some ''i'', us_oidcSubject := Some ''abc'' \<rparr>"
  let ?db = "\<lparr> ud_users = [?u], ud_credentials = [], ud_roles = [], ud_audit = empty_log \<rparr>"
  have ok: "users_ok plain_runtime ?db" by code_simp
  have "same_key ''abc'' ''ABC''" by code_simp
  then show ?thesis
    using oidc_subject_case_confused[OF ok, of ?u "''i''" "''abc''" "''ABC''" "''t''" "\<lambda>_. Some \<lparr> vi_issuer = ''i'', vi_subject = ''ABC'', vi_email = None \<rparr>" None]
    by (simp add: demo_user_def oidc_identity_def)
qed

end
