(* ===== verification/OidcBinding.thy ===== *)
theory OidcBinding
  imports Access
begin

text \<open>
  The operator commands that change who may sign in: binding a user to an external identity
  (\<open>src/src/identity/oidcBinding.ts\<close>, \<open>src/src/adapters/mysqlOidcBinding.ts\<close>) and granting the administrator role
  (\<open>src/src/identity/adminGrant.ts\<close>, \<open>src/src/cli/run-admin-grant.ts\<close>), over the tables of \<open>UserAdministration\<close>. The URL
  parser is an argument; the unique keys of the tables are checked by the writes.
\<close>

section \<open>Input\<close>

text \<open>What \<open>new URL\<close> yields of an issuer, as far as it is checked.\<close>

record issuer_url =
  iu_protocol :: string
  iu_username :: string
  iu_password :: string
  iu_hash :: string
  iu_search :: string
  iu_hostname :: string

record NormalizedOidcBinding =
  nb_email :: string
  nb_issuer :: string
  nb_subject :: string

definition MAX_EMAIL_LENGTH :: nat where
  "MAX_EMAIL_LENGTH = 255"

definition MAX_ISSUER_LENGTH :: nat where
  "MAX_ISSUER_LENGTH = 255"

definition MAX_SUBJECT_LENGTH :: nat where
  "MAX_SUBJECT_LENGTH = 255"

text \<open>\<open>/^[a-z0-9.!#$%&'*+/=?^_`{|}~-]+@kairali\.com$/\<close>.\<close>

definition mailbox_char :: "char \<Rightarrow> bool" where
  "mailbox_char c = (lower_letter c \<or> is_digit c \<or> c \<in> set ''.!#$%&*+/=?^_`{|}~-'' \<or> c = CHR 0x27)"

definition kairali_pattern :: "string \<Rightarrow> bool" where
  "kairali_pattern s =
     (let n = length s - length ''@kairali.com'' in 0 < n \<and> list_all mailbox_char (take n s) \<and> drop n s = ''@kairali.com'')"

definition normalizeKairaliEmail :: "string \<Rightarrow> string res" where
  "normalizeKairaliEmail s =
     (let email = toLowerCase (trim s) in
      if utf16_length email > 255 \<or> \<not> kairali_pattern email
      then Inl (PlainError ''Administrator email must be a valid @kairali.com address'') else Inr email)"

definition bind_input_error :: "string \<Rightarrow> string \<Rightarrow> js_error" where
  "bind_input_error code field = OidcBindingInputError code field"

definition requiredValue :: "string option \<Rightarrow> string \<Rightarrow> string res" where
  "requiredValue v field =
     (case map_option trim v of
        None \<Rightarrow> Inl (bind_input_error ''OIDC_BIND_MISSING_INPUT'' field)
      | Some t \<Rightarrow> if t = [] then Inl (bind_input_error ''OIDC_BIND_MISSING_INPUT'' field) else Inr t)"

definition bind_email :: "string \<Rightarrow> string res" where
  "bind_email v =
     (case normalizeKairaliEmail v of
        Inl _ \<Rightarrow> Inl (bind_input_error ''OIDC_BIND_INVALID_EMAIL'' ''KAUDIT_OIDC_BIND_EMAIL'')
      | Inr email \<Rightarrow>
          if utf16_length email > MAX_EMAIL_LENGTH then Inl (bind_input_error ''OIDC_BIND_INVALID_EMAIL'' ''KAUDIT_OIDC_BIND_EMAIL'')
          else Inr email)"

definition normalizeIssuer :: "(string \<Rightarrow> issuer_url option) \<Rightarrow> string \<Rightarrow> string res" where
  "normalizeIssuer newURL v =
     (let bad = Inl (bind_input_error ''OIDC_BIND_INVALID_ISSUER'' ''KAUDIT_OIDC_BIND_ISSUER'') in
      if utf16_length v > MAX_ISSUER_LENGTH \<or> list_ex is_ws v then bad
      else (case newURL v of
              None \<Rightarrow> bad
            | Some url \<Rightarrow>
                if iu_protocol url \<noteq> ''https:'' \<or> iu_username url \<noteq> [] \<or> iu_password url \<noteq> [] \<or> iu_hash url \<noteq> [] \<or>
                   iu_search url \<noteq> [] \<or> iu_hostname url = [] then bad
                else Inr v))"

definition printable :: "char \<Rightarrow> bool" where
  "printable c = (0x21 \<le> (of_char c :: nat) \<and> (of_char c :: nat) \<le> 0x7e)"

definition normalizeSubject :: "string \<Rightarrow> string \<Rightarrow> string res" where
  "normalizeSubject v email =
     (if utf16_length v > MAX_SUBJECT_LENGTH \<or> v = [] \<or> \<not> list_all printable v
      then Inl (bind_input_error ''OIDC_BIND_INVALID_SUBJECT'' ''KAUDIT_OIDC_BIND_SUBJECT'')
      else if CHR ''@'' \<in> set v \<or> toLowerCase v = email
      then Inl (bind_input_error ''OIDC_BIND_SUBJECT_LOOKS_DERIVED'' ''KAUDIT_OIDC_BIND_SUBJECT'')
      else Inr v)"

definition normalizeOidcBinding ::
  "(string \<Rightarrow> issuer_url option) \<Rightarrow> string option \<Rightarrow> string option \<Rightarrow> string option \<Rightarrow> NormalizedOidcBinding res" where
  "normalizeOidcBinding newURL email issuer subject =
     rbind (rbind (requiredValue email ''KAUDIT_OIDC_BIND_EMAIL'') bind_email) (\<lambda>email.
     rbind (rbind (requiredValue issuer ''KAUDIT_OIDC_BIND_ISSUER'') (normalizeIssuer newURL)) (\<lambda>issuer.
     rbind (rbind (requiredValue subject ''KAUDIT_OIDC_BIND_SUBJECT'') (\<lambda>v. normalizeSubject v email)) (\<lambda>subject.
     Inr \<lparr> nb_email = email, nb_issuer = issuer, nb_subject = subject \<rparr>)))"

section \<open>The decision\<close>

record OidcBindingTargetUser =
  bt_id :: string
  bt_kind :: string
  bt_status :: string
  bt_oidcIssuer :: "string option"
  bt_oidcSubject :: "string option"

datatype OidcBindingPlan = Plan_bind string | Plan_noop string | Plan_refuse string "string option"

definition planOidcBinding :: "NormalizedOidcBinding \<Rightarrow> OidcBindingTargetUser option \<Rightarrow> string option \<Rightarrow> OidcBindingPlan" where
  "planOidcBinding request user identityOwnerUserId =
     (case user of
        None \<Rightarrow> Plan_refuse ''OIDC_BIND_USER_NOT_FOUND'' None
      | Some u \<Rightarrow>
          if bt_kind u \<noteq> ''user'' then Plan_refuse ''OIDC_BIND_USER_NOT_BINDABLE'' (Some (bt_id u))
          else
            let takenByAnother = (identityOwnerUserId \<noteq> None \<and> identityOwnerUserId \<noteq> Some (bt_id u)) in
            if bt_oidcIssuer u = Some (nb_issuer request) \<and> bt_oidcSubject u = Some (nb_subject request) then
              (if takenByAnother then Plan_refuse ''OIDC_BIND_IDENTITY_TAKEN'' (Some (bt_id u)) else Plan_noop (bt_id u))
            else if bt_oidcIssuer u \<noteq> None \<or> bt_oidcSubject u \<noteq> None then
              Plan_refuse ''OIDC_BIND_USER_ALREADY_BOUND'' (Some (bt_id u))
            else if takenByAnother then Plan_refuse ''OIDC_BIND_IDENTITY_TAKEN'' (Some (bt_id u))
            else Plan_bind (bt_id u))"

definition oidcBindingHash :: "runtime \<Rightarrow> NormalizedOidcBinding \<Rightarrow> string" where
  "oidcBindingHash rt request =
     sha256Hex rt (render (JArr [JStr ''oidc-binding'', JStr (nb_issuer request), JStr (nb_subject request)]))"

definition buildOidcBindingAuditEvent :: "string \<Rightarrow> string \<Rightarrow> string \<Rightarrow> int \<Rightarrow> AuditEvent" where
  "buildOidcBindingAuditEvent targetUserId bindingHash correlationId occurredAt =
     \<lparr> ae_actorUserId = None, ae_actorEmail = None, ae_action = ''USER_OIDC_IDENTITY_BOUND'', ae_resourceType = ''kaudit_user'',
       ae_resourceId = Some targetUserId, ae_outcome = Success, ae_purpose = ''identity_provisioning'',
       ae_correlationId = correlationId, ae_ipAddress = None, ae_client = Some ''w1:bind-oidc'',
       ae_beforeHash = None, ae_afterHash = Some bindingHash, ae_occurredAt = occurredAt \<rparr>"

section \<open>The binding transaction\<close>

record binding_env =
  be_columns :: int
  be_correlationId :: string
  be_eventId :: string
  be_now :: int

datatype binding_outcome = Outcome_bind | Outcome_noop | Outcome_refused

record OidcBindingResult =
  ob_execute :: bool
  ob_outcome :: binding_outcome
  ob_refusalCode :: "string option"
  ob_userFound :: bool
  ob_userActive :: bool
  ob_userHasRole :: bool
  ob_bindingWritten :: bool
  ob_auditMode :: "AuditWriteMode option"

definition binding_target :: "user_db \<Rightarrow> string \<Rightarrow> OidcBindingTargetUser option" where
  "binding_target db email =
     map_option (\<lambda>u. \<lparr> bt_id = us_id u, bt_kind = us_kind u, bt_status = us_status u, bt_oidcIssuer = us_oidcIssuer u,
       bt_oidcSubject = us_oidcSubject u \<rparr>) (find (\<lambda>u. same_email (us_email u) email) (ud_users db))"

definition identity_owner :: "user_db \<Rightarrow> string \<Rightarrow> string \<Rightarrow> string option" where
  "identity_owner db issuer subject = map_option us_id (find (oidc_matches issuer subject) (ud_users db))"

definition unbound_row :: "string \<Rightarrow> string \<Rightarrow> UserRow \<Rightarrow> bool" where
  "unbound_row userId email u =
     (same_key (us_id u) userId \<and> same_email (us_email u) email \<and> us_kind u = ''user'' \<and> us_oidcIssuer u = None \<and> us_oidcSubject u = None)"

definition bound_to :: "NormalizedOidcBinding \<Rightarrow> UserRow \<Rightarrow> UserRow" where
  "bound_to request u = u\<lparr> us_oidcIssuer := Some (nb_issuer request), us_oidcSubject := Some (nb_subject request) \<rparr>"

text \<open>The guarded update and the rows it matched; \<open>None\<close> is the duplicate-entry error of the identity's unique key.\<close>

definition guardedUpdate :: "NormalizedOidcBinding \<Rightarrow> string \<Rightarrow> user_db \<Rightarrow> (user_db \<times> nat) option" where
  "guardedUpdate request userId db =
     (let p = unbound_row userId (nb_email request); n = length (filter p (ud_users db)) in
      if n \<noteq> 0 \<and> list_ex (oidc_matches (nb_issuer request) (nb_subject request)) (ud_users db) then None
      else Some (db\<lparr> ud_users := map (\<lambda>u. if p u then bound_to request u else u) (ud_users db) \<rparr>, n))"

definition binding_event :: "runtime \<Rightarrow> binding_env \<Rightarrow> NormalizedOidcBinding \<Rightarrow> string \<Rightarrow> AuditEvent" where
  "binding_event rt env request userId =
     buildOidcBindingAuditEvent userId (oidcBindingHash rt request) (be_correlationId env) (be_now env)"

definition bindOidcIdentity ::
  "runtime \<Rightarrow> binding_env \<Rightarrow> NormalizedOidcBinding \<Rightarrow> bool \<Rightarrow> user_db \<Rightarrow> user_db \<times> OidcBindingResult res" where
  "bindOidcIdentity rt env request execute db =
     (let user = binding_target db (nb_email request);
          owner = identity_owner db (nb_issuer request) (nb_subject request);
          answer = (\<lambda>outcome refusalCode written mode.
            \<lparr> ob_execute = execute, ob_outcome = outcome, ob_refusalCode = refusalCode, ob_userFound = (user \<noteq> None),
              ob_userActive = (map_option bt_status user = Some ''active''),
              ob_userHasRole = (case user of None \<Rightarrow> False | Some u \<Rightarrow> roles_at db (bt_id u) \<noteq> []),
              ob_bindingWritten = written, ob_auditMode = mode \<rparr>)
      in (case planOidcBinding request user owner of
            Plan_refuse code _ \<Rightarrow> (db, Inr (answer Outcome_refused (Some code) False None))
          | Plan_noop _ \<Rightarrow> (db, Inr (answer Outcome_noop None False None))
          | Plan_bind userId \<Rightarrow>
              if \<not> execute then (db, Inr (answer Outcome_bind None False None))
              else (case guardedUpdate request userId db of
                      None \<Rightarrow> (db, Inr (answer Outcome_refused (Some ''OIDC_BIND_IDENTITY_TAKEN'') False None))
                    | Some (db1, n) \<Rightarrow>
                        if n \<noteq> 1 then (db, Inr (answer Outcome_refused (Some ''OIDC_BIND_UPDATE_GUARD_FAILED'') False None))
                        else (case recordAuditEventInTransaction rt (be_columns env) (be_eventId env) (binding_event rt env request userId)
                                     (ud_audit db1) of
                                Inl _ \<Rightarrow> (db, Inl (OidcBindingWriteError ''OIDC_BIND_AUDIT_FAILED''))
                              | Inr (al, mode) \<Rightarrow> (db1\<lparr> ud_audit := al \<rparr>, Inr (answer Outcome_bind None True (Some mode)))))))"

section \<open>Granting the administrator role\<close>

definition FULL_ACCESS_ROLE :: string where
  "FULL_ACCESS_ROLE = ''admin''"

definition FULL_ACCESS_SENSITIVITY_TIER :: string where
  "FULL_ACCESS_SENSITIVITY_TIER = ''K3''"

record ExistingAdminIdentity =
  ei_id :: string
  ei_email :: "string option"
  ei_status :: string
  ei_maxSensitivityTier :: string
  ei_roles :: "string list"

record AdminGrantPlan =
  ap_email :: string
  ap_userExists :: bool
  ap_activateUser :: bool
  ap_grantAdminRole :: bool
  ap_raiseSensitivityToK3 :: bool
  ap_alreadyFullyAuthorized :: bool

record AdminAccessState =
  as_email :: string
  as_status :: string
  as_maxSensitivityTier :: string
  as_roles :: "string list"

definition planAdminGrant :: "string \<Rightarrow> ExistingAdminIdentity option \<Rightarrow> AdminGrantPlan res" where
  "planAdminGrant emailInput current =
     rbind (normalizeKairaliEmail emailInput) (\<lambda>email.
     let activateUser = (case current of None \<Rightarrow> False | Some c \<Rightarrow> ei_status c \<noteq> ''active'');
         grantAdminRole = (case current of None \<Rightarrow> True | Some c \<Rightarrow> FULL_ACCESS_ROLE \<notin> set (ei_roles c));
         raise = (case current of None \<Rightarrow> True | Some c \<Rightarrow> ei_maxSensitivityTier c \<noteq> FULL_ACCESS_SENSITIVITY_TIER)
     in Inr \<lparr> ap_email = email, ap_userExists = (current \<noteq> None), ap_activateUser = activateUser, ap_grantAdminRole = grantAdminRole,
              ap_raiseSensitivityToK3 = raise,
              ap_alreadyFullyAuthorized = (current \<noteq> None \<and> \<not> activateUser \<and> \<not> grantAdminRole \<and> \<not> raise) \<rparr>)"

definition targetAdminAccessState :: "string \<Rightarrow> string list \<Rightarrow> AdminAccessState res" where
  "targetAdminAccessState emailInput currentRoles =
     rbind (normalizeKairaliEmail emailInput) (\<lambda>email.
     Inr \<lparr> as_email = email, as_status = ''active'', as_maxSensitivityTier = FULL_ACCESS_SENSITIVITY_TIER,
           as_roles = sorted_text (remdups (currentRoles @ [FULL_ACCESS_ROLE])) \<rparr>)"

definition loadIdentity :: "user_db \<Rightarrow> string \<Rightarrow> ExistingAdminIdentity option" where
  "loadIdentity db email =
     map_option (\<lambda>u. \<lparr> ei_id = us_id u, ei_email = us_email u, ei_status = us_status u, ei_maxSensitivityTier = us_maxSensitivityTier u,
       ei_roles = sorted_text (map rl_roleCode (roles_at db (us_id u))) \<rparr>) (find (\<lambda>u. same_email (us_email u) email) (ud_users db))"

definition existing_json :: "ExistingAdminIdentity \<Rightarrow> json" where
  "existing_json c =
     JObj [(''id'', JStr (ei_id c)), (''email'', case ei_email c of None \<Rightarrow> JNull | Some e \<Rightarrow> JStr e), (''status'', JStr (ei_status c)),
       (''maxSensitivityTier'', JStr (ei_maxSensitivityTier c)), (''roles'', JArr (map JStr (ei_roles c)))]"

definition access_json :: "AdminAccessState \<Rightarrow> json" where
  "access_json t =
     JObj [(''email'', JStr (as_email t)), (''status'', JStr (as_status t)), (''maxSensitivityTier'', JStr (as_maxSensitivityTier t)),
       (''roles'', JArr (map JStr (as_roles t)))]"

definition stateHash :: "runtime \<Rightarrow> json \<Rightarrow> string" where
  "stateHash rt v = sha256Hex rt (render v)"

record grant_env =
  ge_columns :: int
  ge_userId :: string
  ge_roleId :: string
  ge_correlationId :: string
  ge_eventId :: string
  ge_now :: int

text \<open>The row of an account an operator's grant has been run on.\<close>

definition reopened :: "UserRow \<Rightarrow> UserRow" where
  "reopened u = u\<lparr> us_kind := ''user'', us_status := ''active'', us_maxSensitivityTier := ''K3'' \<rparr>"

definition grant_user :: "grant_env \<Rightarrow> string \<Rightarrow> ExistingAdminIdentity option \<Rightarrow> user_db \<Rightarrow> user_db res" where
  "grant_user env email current db =
     (case current of
        None \<Rightarrow>
          if list_ex (\<lambda>u. same_key (us_id u) (ge_userId env) \<or> same_email (us_email u) email) (ud_users db)
          then Inl (DriverError ''ER_DUP_ENTRY'')
          else Inr (db\<lparr> ud_users := ud_users db @
            [\<lparr> us_id = ge_userId env, us_kind = ''user'', us_email = Some email, us_oidcIssuer = None, us_oidcSubject = None,
               us_displayName = None, us_maxSensitivityTier = ''K3'', us_status = ''active'', us_lastLoginAt = None,
               us_createdAt = ge_now env \<rparr>] \<rparr>)
      | Some c \<Rightarrow>
          Inr (db\<lparr> ud_users := change_at us_id (ei_id c) reopened (ud_users db) \<rparr>))"

definition grant_role :: "grant_env \<Rightarrow> string \<Rightarrow> string \<Rightarrow> user_db \<Rightarrow> user_db" where
  "grant_role env userId grantedBy db =
     (let same_id = (\<lambda>r. same_key (rl_id r) (ge_roleId env));
          p = (if list_ex same_id (ud_roles db) then same_id else (\<lambda>r. same_key (rl_userId r) userId \<and> rl_roleCode r = ''admin'')) in
      db\<lparr> ud_roles :=
        (if list_ex p (ud_roles db) then map (\<lambda>r. if p r then r\<lparr> rl_grantedBy := Some grantedBy \<rparr> else r) (ud_roles db)
         else ud_roles db @ [\<lparr> rl_id = ge_roleId env, rl_userId = userId, rl_roleCode = ''admin'', rl_grantedBy = Some grantedBy \<rparr>]) \<rparr>)"

definition grant_event :: "runtime \<Rightarrow> grant_env \<Rightarrow> string \<Rightarrow> string \<Rightarrow> ExistingAdminIdentity option \<Rightarrow> AdminAccessState \<Rightarrow> AuditEvent" where
  "grant_event rt env userId email current target =
     \<lparr> ae_actorUserId = Some userId, ae_actorEmail = Some email, ae_action = ''USER_ADMIN_ACCESS_GRANTED'',
       ae_resourceType = ''kaudit_user'', ae_resourceId = Some userId, ae_outcome = Success,
       ae_purpose = ''identity_provisioning'', ae_correlationId = ge_correlationId env, ae_ipAddress = None,
       ae_client = Some ''w1:grant-admin'', ae_beforeHash = map_option (stateHash rt \<circ> existing_json) current,
       ae_afterHash = Some (stateHash rt (access_json target)), ae_occurredAt = ge_now env \<rparr>"

datatype grant_answer = Grant_dry_run | Grant_noop string | Granted string

text \<open>The command after its environment is read: a transaction that keeps the tables on every other branch.\<close>

definition run_admin_grant :: "runtime \<Rightarrow> grant_env \<Rightarrow> bool \<Rightarrow> string \<Rightarrow> user_db \<Rightarrow> user_db \<times> grant_answer res" where
  "run_admin_grant rt env execute emailInput db =
     (let current = loadIdentity db (toLowerCase (trim emailInput)) in
      case rbind (planAdminGrant emailInput current) (\<lambda>plan.
           rbind (targetAdminAccessState (ap_email plan) (case current of None \<Rightarrow> [] | Some c \<Rightarrow> ei_roles c)) (\<lambda>target.
           Inr (plan, target))) of
        Inl e \<Rightarrow> (db, Inl e)
      | Inr (plan, target) \<Rightarrow>
          let userId = (case current of None \<Rightarrow> ge_userId env | Some c \<Rightarrow> ei_id c) in
          if \<not> execute then (db, Inr Grant_dry_run)
          else if ap_alreadyFullyAuthorized plan then (db, Inr (Grant_noop userId))
          else (case rbind (grant_user env (ap_email plan) current db) (\<lambda>db1.
                     let db2 = grant_role env userId (''bootstrap:'' @ ap_email plan) db1 in
                     rbind (recordAuditEventInTransaction rt (ge_columns env) (ge_eventId env)
                              (grant_event rt env userId (ap_email plan) current target) (ud_audit db2)) (\<lambda>(al, mode).
                     Inr (db2\<lparr> ud_audit := al \<rparr>))) of
                  Inl e \<Rightarrow> (db, Inl e)
                | Inr db' \<Rightarrow> (db', Inr (Granted userId))))"

section \<open>What a binding writes\<close>

lemma bound_to_fields [simp]:
  "us_id (bound_to request u) = us_id u" "us_kind (bound_to request u) = us_kind u" "managed_account (bound_to request u) c rs = managed_account u c rs"
  "oidc_identity (bound_to request u) = (Some (nb_issuer request), Some (nb_subject request))"
  by (simp_all add: bound_to_def managed_account_def oidc_identity_def)

definition email_row :: "user_db \<Rightarrow> string \<Rightarrow> UserRow option" where
  "email_row db email = find (\<lambda>u. same_email (us_email u) email) (ud_users db)"

lemma email_row_member: "email_row db email = Some u \<Longrightarrow> u \<in> set (ud_users db) \<and> same_email (us_email u) email"
  by (auto simp: email_row_def find_Some_iff)

lemma email_row_at: "tables_ok db \<Longrightarrow> email_row db email = Some u \<Longrightarrow> same_key (us_id u) i \<Longrightarrow> user_at db i = Some u"
  using email_row_member[of db email u] row_at_member[of us_id "ud_users db" u i] by (simp add: user_at_def tables_ok_def)

lemma unwritten_binding:
  "fst (bindOidcIdentity rt env request execute db) = db \<or>
   (\<exists>r. snd (bindOidcIdentity rt env request execute db) = Inr r \<and> ob_bindingWritten r)"
  by (simp add: bindOidcIdentity_def Let_def split: OidcBindingPlan.splits option.splits prod.splits sum.splits)

lemma written_binding:
  assumes "bindOidcIdentity rt env request execute db = (db', Inr r)" "ob_bindingWritten r" "users_ok rt db"
  obtains u mode where "email_row db (nb_email request) = Some u" "us_kind u = ''user''" "oidc_identity u = (None, None)"
    "db' = db\<lparr> ud_users := change_at us_id (us_id u) (bound_to request) (ud_users db), ud_audit := ud_audit db' \<rparr>"
    "recordAuditEventInTransaction rt (be_columns env) (be_eventId env) (binding_event rt env request (us_id u)) (ud_audit db) = Inr (ud_audit db', mode)"
    "\<not> list_ex (oidc_matches (nb_issuer request) (nb_subject request)) (ud_users db)"
proof -
  obtain i db1 n al mode where plan: "planOidcBinding request (binding_target db (nb_email request)) (identity_owner db (nb_issuer request) (nb_subject request)) = Plan_bind i"
    and upd: "guardedUpdate request i db = Some (db1, 1)"
    and rec: "recordAuditEventInTransaction rt (be_columns env) (be_eventId env) (binding_event rt env request i) (ud_audit db1) = Inr (al, mode)"
    and db': "db' = db1\<lparr> ud_audit := al \<rparr>"
    using assms(1,2) by (auto simp: bindOidcIdentity_def Let_def split: OidcBindingPlan.splits option.splits prod.splits sum.splits if_splits)
  obtain u where u: "email_row db (nb_email request) = Some u" "us_kind u = ''user''" "oidc_identity u = (None, None)" "i = us_id u"
    using plan by (auto simp: planOidcBinding_def binding_target_def email_row_def oidc_identity_def Let_def split: option.splits if_splits)
  have "unbound_row i (nb_email request) w \<longleftrightarrow> same_key (us_id w) i" if "w \<in> set (ud_users db)" for w
  proof
    assume "same_key (us_id w) i"
    then have "user_at db i = Some w" "user_at db i = Some u"
      using assms(3) that u(4) email_row_at[OF _ u(1), of i] row_at_member[of us_id "ud_users db" w i]
      by (simp_all add: users_ok_def tables_ok_def user_at_def)
    then show "unbound_row i (nb_email request) w"
      using u email_row_member[OF u(1)] by (simp add: unbound_row_def oidc_identity_def)
  qed (simp add: unbound_row_def)
  then have rows: "map (\<lambda>u. if unbound_row i (nb_email request) u then bound_to request u else u) (ud_users db) =
      change_at us_id (us_id u) (bound_to request) (ud_users db)"
    by (simp add: change_at_def u(4))
  then have "db1 = db\<lparr> ud_users := change_at us_id (us_id u) (bound_to request) (ud_users db) \<rparr>"
    "\<not> list_ex (oidc_matches (nb_issuer request) (nb_subject request)) (ud_users db)"
    using upd by (auto simp: guardedUpdate_def Let_def split: if_splits)
  then show thesis using that[OF u(1-3)] rec db' u(4) by simp
qed

lemma bound_unique:
  assumes "unique_identities db" "\<not> list_ex (oidc_matches (nb_issuer request) (nb_subject request)) (ud_users db)"
  shows "unique_identities (db\<lparr> ud_users := change_at us_id i (bound_to request) (ud_users db) \<rparr>)"
proof -
  have free: "\<not> same_identity (bound_to request u) w \<and> \<not> same_identity w (bound_to request u)" if "w \<in> set (ud_users db)" for u w
    using assms(2) that by (fastforce simp: same_identity_def oidc_matches_def list_ex_iff same_key_def split: prod.splits option.splits)
  show ?thesis using assms(1) free
    by (auto simp: unique_identities_def change_at_def same_key_fold)
qed

lemma binding_views:
  assumes "db' = db\<lparr> ud_users := change_at us_id i (bound_to request) (ud_users db), ud_audit := l \<rparr>"
  shows "user_at db' j = (if same_key j i then map_option (bound_to request) (user_at db j) else user_at db j)"
    "credential_at db' = credential_at db" "roles_at db' = roles_at db" "account_at db' = account_at db"
    "tables_ok db' = tables_ok db"
proof -
  show at: "user_at db' j = (if same_key j i then map_option (bound_to request) (user_at db j) else user_at db j)" for j
    by (simp add: assms user_at_def row_at_change)
  show c: "credential_at db' = credential_at db" and r: "roles_at db' = roles_at db"
    by (simp_all add: assms fun_eq_iff view_defs)
  show "account_at db' = account_at db" by (simp add: fun_eq_iff account_at_def at c r option.map_comp o_def)
  show "tables_ok db' = tables_ok db" unfolding tables_ok_def at by (simp add: assms unique_keys_change)
qed

lemma binding_keeps:
  assumes "users_ok rt db"
  shows "users_ok rt (fst (bindOidcIdentity rt env request execute db)) \<and> accounts_grow db (fst (bindOidcIdentity rt env request execute db))"
proof (cases "fst (bindOidcIdentity rt env request execute db) = db")
  case False
  then obtain db' r where run: "bindOidcIdentity rt env request execute db = (db', Inr r)" "ob_bindingWritten r"
    using unwritten_binding[of rt env request execute db] by (metis prod.collapse)
  obtain u mode where w: "email_row db (nb_email request) = Some u" "oidc_identity u = (None, None)"
    "db' = db\<lparr> ud_users := change_at us_id (us_id u) (bound_to request) (ud_users db), ud_audit := ud_audit db' \<rparr>"
    "recordAuditEventInTransaction rt (be_columns env) (be_eventId env) (binding_event rt env request (us_id u)) (ud_audit db) = Inr (ud_audit db', mode)"
    "\<not> list_ex (oidc_matches (nb_issuer request) (nb_subject request)) (ud_users db)"
    by (rule written_binding[OF run assms]) blast
  note v = binding_views[OF w(3)]
  have chain: "chain_intact rt (ud_audit db)" and t: "tables_ok db" using assms by (simp_all add: users_ok_def)
  note l = login_audited[OF chain w(4)]
  have c: "ud_credentials db' = ud_credentials db" by (subst w(3)) simp
  have "unique_identities db'" using bound_unique[OF _ w(5), of "us_id u"] assms
    by (subst w(3)) (simp add: users_ok_def unique_identities_def)
  then have "users_ok rt db'" using assms l(1) v(5) c by (simp add: users_ok_def)
  moreover have "user_at db j = Some u" if "same_key j (us_id u)" for j
    using email_row_at[OF t w(1)] that by (simp add: same_key_sym)
  then have "accounts_grow db db'"
    using l(2) v w(2) by (auto simp: accounts_grow_def has_admin_def credential_advances_def)
  ultimately show ?thesis using run by simp
qed (use assms in simp)

section \<open>Histories with bindings\<close>

inductive identity_step :: "runtime \<Rightarrow> login_db \<Rightarrow> login_db \<Rightarrow> bool" for rt where
  signs_in: "login_step rt db db' \<Longrightarrow> identity_step rt db db'"
| binds: "identity_step rt db (db\<lparr> ld_users := fst (bindOidcIdentity rt env request execute (ld_users db)) \<rparr>)"

inductive_cases identity_stepE: "identity_step rt db db'"

lemma identity_step_keeps:
  "identity_step rt db db' \<Longrightarrow> users_ok rt (ld_users db) \<Longrightarrow> users_ok rt (ld_users db') \<and> accounts_grow (ld_users db) (ld_users db')"
  by (erule identity_stepE) (auto simp: binding_keeps dest: login_step_keeps)

interpretation directory: monotone_system "identity_step rt" "\<lambda>db. users_ok rt (ld_users db)"
    "\<lambda>a b. accounts_grow (ld_users a) (ld_users b)" for rt
  by unfold_locales (auto intro: accounts_grow_trans dest: identity_step_keeps)


section \<open>What a grant writes\<close>

lemma grant_role_views:
  "ud_users (grant_role env i grantor db) = ud_users db" "ud_credentials (grant_role env i grantor db) = ud_credentials db"
  "ud_audit (grant_role env i grantor db) = ud_audit db" "ud_roles (grant_role env i grantor (db\<lparr> ud_users := rows \<rparr>)) = ud_roles (grant_role env i grantor db)"
  by (simp_all add: grant_role_def Let_def)

lemma grant_role_users:
  "r \<in> set (ud_roles (grant_role env i grantor db)) \<Longrightarrow> rl_userId r = i \<or> rl_userId r \<in> rl_userId ` set (ud_roles db)"
  by (auto simp: grant_role_def Let_def split: if_splits)

lemma granted_role:
  assumes "\<not> list_ex (\<lambda>r. same_key (rl_id r) (ge_roleId env)) (ud_roles db)"
  shows "''admin'' \<in> rl_roleCode ` set (roles_at (grant_role env i grantor db) i)"
proof (cases "list_ex (\<lambda>r. same_key (rl_userId r) i \<and> rl_roleCode r = ''admin'') (ud_roles db)")
  case True
  then obtain r where "r \<in> set (ud_roles db)" "same_key (rl_userId r) i" "rl_roleCode r = ''admin''" by (auto simp: list_ex_iff)
  then have "r\<lparr> rl_grantedBy := Some grantor \<rparr> \<in> set (roles_at (grant_role env i grantor db) i)"
    using True assms by (auto simp: grant_role_def roles_at_def)
  then show ?thesis using \<open>rl_roleCode r = ''admin''\<close> by force
qed (use assms in \<open>auto simp: grant_role_def roles_at_def\<close>)

lemma reopened_fields [simp]: "us_id (reopened u) = us_id u" "oidc_identity (reopened u) = oidc_identity u"
  by (simp_all add: reopened_def oidc_identity_def)

lemma grant_run:
  assumes "run_admin_grant rt env True emailInput db = (db', Inr (Granted i))" "email_row db (toLowerCase (trim emailInput)) = Some u"
  obtains email grantor current target mode where "i = us_id u"
    "ud_users db' = change_at us_id (us_id u) reopened (ud_users db)" "ud_credentials db' = ud_credentials db"
    "ud_roles db' = ud_roles (grant_role env (us_id u) grantor db)"
    "recordAuditEventInTransaction rt (ge_columns env) (ge_eventId env) (grant_event rt env (us_id u) email current target) (ud_audit db) = Inr (ud_audit db', mode)"
proof -
  let ?c = "\<lparr> ei_id = us_id u, ei_email = us_email u, ei_status = us_status u, ei_maxSensitivityTier = us_maxSensitivityTier u,
    ei_roles = sorted_text (map rl_roleCode (roles_at db (us_id u))) \<rparr>"
  have "loadIdentity db (toLowerCase (trim emailInput)) = Some ?c" using assms(2) by (simp add: loadIdentity_def email_row_def)
  then obtain email grantor target l mode where "i = us_id u"
    "db' = (grant_role env (us_id u) grantor (db\<lparr> ud_users := change_at us_id (us_id u) reopened (ud_users db) \<rparr>))\<lparr> ud_audit := l \<rparr>"
    "recordAuditEventInTransaction rt (ge_columns env) (ge_eventId env) (grant_event rt env (us_id u) email (Some ?c) target) (ud_audit db) = Inr (l, mode)"
    using assms(1) by (auto simp: run_admin_grant_def Let_def grant_user_def grant_role_views rbind_Inr_iff split: sum.splits if_splits)
  then show thesis using that[of grantor email "Some ?c" target mode] by (simp add: grant_role_views)
qed

lemma grant_keeps_ok:
  assumes "run_admin_grant rt env True emailInput db = (db', Inr (Granted i))" "email_row db (toLowerCase (trim emailInput)) = Some u" "users_ok rt db"
  shows "users_ok rt db'"
proof -
  obtain email grantor current target mode where g: "ud_users db' = change_at us_id (us_id u) reopened (ud_users db)" "ud_credentials db' = ud_credentials db"
    "ud_roles db' = ud_roles (grant_role env (us_id u) grantor db)"
    "recordAuditEventInTransaction rt (ge_columns env) (ge_eventId env) (grant_event rt env (us_id u) email current target) (ud_audit db) = Inr (ud_audit db', mode)"
    by (rule grant_run[OF assms(1,2)])
  have t: "tables_ok db" and chain: "chain_intact rt (ud_audit db)" using assms(3) by (simp_all add: users_ok_def)
  have at: "user_at db' j = None \<longleftrightarrow> user_at db j = None" for j by (simp add: user_at_def g(1) user_exists_change)
  have "user_at db (us_id u) \<noteq> None" using email_row_at[OF t assms(2), of "us_id u"] by simp
  then have "\<forall>r \<in> set (ud_roles db'). user_at db (rl_userId r) \<noteq> None"
    using t grant_role_users unfolding g(3) tables_ok_def by (metis imageE)
  then have "tables_ok db'" using t by (simp add: tables_ok_def at g(1,2) unique_keys_change)
  moreover have "same_identity (reopened x) y = same_identity x y" "same_identity x (reopened y) = same_identity x y" for x y
    by (simp_all only: same_identity_def reopened_fields)
  then have "unique_identities db'" using assms(3) by (auto simp: users_ok_def unique_identities_def g(1) change_at_def)
  ultimately show ?thesis using assms(3) login_audited(1)[OF chain g(4)] by (simp add: users_ok_def g(2))
qed

text \<open>
  C39. The grant command revives a closed account: run for the email of a tombstoned user whose external identity is
  still bound, it sets the user active, and a token of that identity is then admitted with every permission.
\<close>
theorem grant_revives_tombstoned:
  assumes "users_ok rt db" "email_row db (toLowerCase (trim emailInput)) = Some u" "us_status u = ''tombstoned''"
    and "oidc_identity u = (Some issuer, Some subject)" "run_admin_grant rt env True emailInput db = (db', Inr (Granted i))"
    and "\<not> list_ex (\<lambda>r. same_key (rl_id r) (ge_roleId env)) (ud_roles db)" "token \<noteq> []"
    and "verifier token = Some \<lparr> vi_issuer = issuer, vi_subject = subject, vi_email = email \<rparr>"
  shows "\<exists>ctx. authenticateOidc verifier (Some token) db' = Inr ctx \<and> au_id (ac_user ctx) = us_id u \<and>
    (\<forall>permission. requirePermission ctx permission = Inr ())"
proof -
  obtain grantor where g: "ud_users db' = change_at us_id (us_id u) reopened (ud_users db)"
    "ud_roles db' = ud_roles (grant_role env (us_id u) grantor db)"
    by (rule grant_run[OF assms(5,2)]) blast
  note ok = grant_keeps_ok[OF assms(5,2,1)]
  have "reopened u \<in> set (ud_users db')"
    using email_row_member[OF assms(2)] by (force simp: g(1) change_at_def)
  moreover have "oidc_matches issuer subject (reopened u)" using assms(4) by (simp add: oidc_matches_def)
  ultimately have found: "findByOidc db' issuer subject = mapUser db' (Some (reopened u))"
    using bound_user[OF ok, of "reopened u"] by (simp add: findByOidc_def reopened_def)
  have "roles_at db' (us_id u) = roles_at (grant_role env (us_id u) grantor db) (us_id u)" by (simp add: roles_at_def g(2))
  then have "''admin'' \<in> set (remdups (sorted_text (map rl_roleCode (roles_at db' (us_id u)))))"
    using granted_role[OF assms(6)] by (simp add: sorted_text_def)
  then show ?thesis using found assms(7,8)
    by (simp add: authenticateOidc_def mapUser_def active_context_def requirePermission_def can_def reopened_def)
qed

section \<open>A small directory\<close>

definition demo_bound_user :: "string \<Rightarrow> UserRow" where
  "demo_bound_user status =
     \<lparr> us_id = ''a1'', us_kind = ''user'', us_email = Some ''ann@kairali.com'', us_oidcIssuer = None, us_oidcSubject = None,
       us_displayName = None, us_maxSensitivityTier = ''K1'', us_status = status, us_lastLoginAt = None, us_createdAt = 0 \<rparr>"

definition demo_directory :: "UserRow \<Rightarrow> user_db" where
  "demo_directory u = \<lparr> ud_users = [u], ud_credentials = [], ud_roles = [], ud_audit = empty_log \<rparr>"

definition demo_binding :: NormalizedOidcBinding where
  "demo_binding = \<lparr> nb_email = ''ann@kairali.com'', nb_issuer = ''https://i'', nb_subject = ''42'' \<rparr>"

definition demo_binding_env :: binding_env where
  "demo_binding_env = \<lparr> be_columns = 7, be_correlationId = ''c'', be_eventId = ''e'', be_now = 0 \<rparr>"

definition demo_grant_env :: grant_env where
  "demo_grant_env = \<lparr> ge_columns = 7, ge_userId = ''n'', ge_roleId = ''r'', ge_correlationId = ''c'', ge_eventId = ''e'', ge_now = 0 \<rparr>"

text \<open>The operator's texts are accepted; a subject typed from the address is not.\<close>
lemma demo_normalized_binding:
  "normalizeOidcBinding (\<lambda>_. Some \<lparr> iu_protocol = ''https:'', iu_username = [], iu_password = [], iu_hash = [], iu_search = [], iu_hostname = ''i'' \<rparr>)
     (Some '' Ann@kairali.com'') (Some ''https://i'') (Some ''42'') = Inr demo_binding"
  "normalizeSubject ''ann@kairali.com'' ''ann@kairali.com'' = Inl (OidcBindingInputError ''OIDC_BIND_SUBJECT_LOOKS_DERIVED'' ''KAUDIT_OIDC_BIND_SUBJECT'')"
  by code_simp+


text \<open>A closed user granted the administrator role again.\<close>
theorem grant_revives_tombstoned_witness:
  "\<exists>db' i ctx. run_admin_grant plain_runtime demo_grant_env True ''ann@kairali.com'' (demo_directory (bound_to demo_binding (demo_bound_user ''tombstoned''))) = (db', Inr (Granted i)) \<and>
     authenticateOidc (\<lambda>_. Some \<lparr> vi_issuer = ''https://i'', vi_subject = ''42'', vi_email = None \<rparr>) (Some ''t'') db' = Inr ctx \<and>
     requirePermission ctx ''user:manage'' = Inr ()"
proof -
  let ?u = "bound_to demo_binding (demo_bound_user ''tombstoned'')"
  have ok: "users_ok plain_runtime (demo_directory ?u)" by code_simp
  have row: "email_row (demo_directory ?u) (toLowerCase (trim ''ann@kairali.com'')) = Some ?u" by code_simp
  have "case run_admin_grant plain_runtime demo_grant_env True ''ann@kairali.com'' (demo_directory ?u) of (_, Inr (Granted _)) \<Rightarrow> True | _ \<Rightarrow> False"
    by code_simp
  then obtain db' i where run: "run_admin_grant plain_runtime demo_grant_env True ''ann@kairali.com'' (demo_directory ?u) = (db', Inr (Granted i))"
    by (auto split: prod.splits sum.splits grant_answer.splits)
  show ?thesis
    using grant_revives_tombstoned[OF ok row _ _ run, of "''https://i''" "''42''" "''t''" "\<lambda>_. Some \<lparr> vi_issuer = ''https://i'', vi_subject = ''42'', vi_email = None \<rparr>" None] run
    by (auto simp: demo_binding_def demo_bound_user_def bound_to_def oidc_identity_def demo_directory_def)
qed

end
