(* ===== verification/ManualQueue.thy ===== *)
theory ManualQueue
  imports LateRecordingBatch SpendLease KeyedTable
begin

text \<open>
  Re-audits an administrator asks for (\<open>src/src/reaudit/manualRequests.ts\<close>) and the queue behind them
  (\<open>src/src/adapters/mysqlManualReauditQueue.ts\<close>): the exact request, its items with the audit run each saw, the
  claim, and the settlement of an item that rolls its request forward. Each transaction is one function over
  the tables; identifiers, clocks and the answer of the database lock are arguments. The retry key and the
  displayed references are compared without letter case, as their columns are.
\<close>

section \<open>Requests\<close>

definition MAX_MANUAL_REAUDIT_CALLS :: nat where
  "MAX_MANUAL_REAUDIT_CALLS = 100"

definition MAX_MANUAL_REAUDIT_ATTEMPTS :: nat where
  "MAX_MANUAL_REAUDIT_ATTEMPTS = 1"

definition MANUAL_REAUDIT_CLAIM_TIMEOUT_MINUTES :: int where
  "MANUAL_REAUDIT_CLAIM_TIMEOUT_MINUTES = 30"

definition MAX_REFERENCE_LENGTH :: nat where
  "MAX_REFERENCE_LENGTH = 191"

definition invalid_request :: js_error where
  "invalid_request = ManualReauditError ''INVALID_REAUDIT_REQUEST'' 400"

datatype ManualReauditRequestStatus = Request_queued | Request_running | Request_completed | Request_with_failures

datatype ManualReauditItemStatus = Queued | Processing | Completed | Skipped | Failed

record ManualReauditRequestInput =
  mi_callReferences :: "string list"
  mi_idempotencyKey :: string

text \<open>\<open>/^[A-Za-z0-9._:-]{16,80}$/\<close>.\<close>

definition key_char :: "char \<Rightarrow> bool" where
  "key_char c = ((CHR ''a'' \<le> c \<and> c \<le> CHR ''z'') \<or> (CHR ''A'' \<le> c \<and> c \<le> CHR ''Z'') \<or> is_digit c \<or> c \<in> set ''._:-'')"

definition idempotency_key :: "string \<Rightarrow> bool" where
  "idempotency_key s = (16 \<le> length s \<and> length s \<le> 80 \<and> list_all key_char s)"

fun call_reference :: "json \<Rightarrow> string res" where
  "call_reference (JStr raw) =
     (let reference = trim raw in
      if has_control_character raw \<or> reference = [] \<or> utf16_length reference > MAX_REFERENCE_LENGTH then Inl invalid_request
      else Inr reference)"
| "call_reference _ = Inl invalid_request"

text \<open>The entries of the submitted object, none when it is not one.\<close>

fun body_fields :: "json \<Rightarrow> (string \<times> json) list" where
  "body_fields (JObj entries) = entries"
| "body_fields _ = []"

definition parseManualReauditRequest :: "json \<Rightarrow> ManualReauditRequestInput res" where
  "parseManualReauditRequest body =
     (case map_of (body_fields body) ''callReferences'' of
        Some (JArr raws) \<Rightarrow>
          if length raws < 1 \<or> length raws > MAX_MANUAL_REAUDIT_CALLS then Inl invalid_request
          else rbind (mapM_res call_reference raws) (\<lambda>callReferences.
            if \<not> distinct callReferences then Inl invalid_request
            else (case map_of (body_fields body) ''idempotencyKey'' of
                    Some (JStr k) \<Rightarrow>
                      if idempotency_key k then Inr \<lparr> mi_callReferences = callReferences, mi_idempotencyKey = k \<rparr>
                      else Inl invalid_request
                  | _ \<Rightarrow> Inl invalid_request))
      | _ \<Rightarrow> Inl invalid_request)"

definition manualReauditDigest :: "runtime \<Rightarrow> string list \<Rightarrow> string" where
  "manualReauditDigest rt callReferences =
     sha256Hex rt (canonical (JObj [(''callReferences'', JArr (map JStr (sort_key (\<lambda>x. x) callReferences)))]))"

datatype baseline_decision = Proceed | Skip_baseline_changed

definition manualReauditBaselineDecision :: "string \<Rightarrow> string option \<Rightarrow> baseline_decision" where
  "manualReauditBaselineDecision baselineAuditRunId latestAuditRunId =
     (if latestAuditRunId = Some baselineAuditRunId then Proceed else Skip_baseline_changed)"

definition manualReauditOutboxMessageId :: "string \<Rightarrow> string \<Rightarrow> string" where
  "manualReauditOutboxMessageId itemId inputManifestSha256 = ''audit-completed:manual:'' @ itemId @ '':'' @ inputManifestSha256"

text \<open>\<open>/^[A-Z][A-Z0-9_]{2,63}$/\<close>.\<close>

definition error_code_shape :: "string \<Rightarrow> bool" where
  "error_code_shape s =
     (3 \<le> length s \<and> length s \<le> 64 \<and> CHR ''A'' \<le> hd s \<and> hd s \<le> CHR ''Z'' \<and>
      list_all (\<lambda>c. (CHR ''A'' \<le> c \<and> c \<le> CHR ''Z'') \<or> is_digit c \<or> c = CHR ''_'') s)"

definition safeManualReauditErrorCode :: "string option \<Rightarrow> string" where
  "safeManualReauditErrorCode v =
     (case v of None \<Rightarrow> ''REAUDIT_ITEM_FAILED'' | Some s \<Rightarrow> if error_code_shape s then s else ''REAUDIT_ITEM_FAILED'')"

section \<open>The scope file of a targeted worker\<close>

text \<open>\<open>src/src/reaudit/scope.ts\<close>; the parsed file is an argument, \<open>None\<close> when it is not JSON.\<close>

definition MAX_SCOPE_TASK_IDS :: nat where
  "MAX_SCOPE_TASK_IDS = 10000"

definition scope_task_id :: "nat \<times> json \<Rightarrow> string res" where
  "scope_task_id entry =
     (case entry of
        (n, JStr raw) \<Rightarrow>
          let taskId = trim raw in
          if taskId = [] \<or> utf16_length taskId > 191 \<or> has_control_character taskId
          then Inl (AuditScopeError (''Audit scope task ID '' @ string_of_nat (n + 1) @ '' is empty, too long, or contains control characters''))
          else Inr taskId
      | (n, _) \<Rightarrow> Inl (AuditScopeError (''Audit scope task ID '' @ string_of_nat (n + 1) @ '' must be a string'')))"

definition normalizeTaskIdScope :: "json list \<Rightarrow> string list res" where
  "normalizeTaskIdScope entries =
     (if entries = [] then Inl (AuditScopeError ''Audit scope must contain at least one task ID'')
      else if length entries > MAX_SCOPE_TASK_IDS then Inl (AuditScopeError ''Audit scope cannot contain more than 10,000 task IDs'')
      else rbind (mapM_res scope_task_id (enumerate 0 entries)) (\<lambda>normalized.
        if \<not> distinct normalized then Inl (AuditScopeError ''Audit scope contains duplicate task IDs'') else Inr normalized))"

definition parseRecordingBackedTaskIds :: "json option \<Rightarrow> string list res" where
  "parseRecordingBackedTaskIds parsed =
     (let entries_of = (\<lambda>v. case v of JObj es \<Rightarrow> Some es | JArr _ \<Rightarrow> Some [] | _ \<Rightarrow> None);
          missing_target = Inl (AuditScopeError ''Audit scope file is missing target'');
          missing_ids = Inl (AuditScopeError ''Audit scope file is missing target.recordingBackedTaskIds'') in
      case parsed of
        None \<Rightarrow> Inl (AuditScopeError ''Audit scope file is not valid JSON'')
      | Some v \<Rightarrow>
          (case entries_of v of
             None \<Rightarrow> Inl (AuditScopeError ''Audit scope file must contain a JSON object'')
           | Some es \<Rightarrow>
               (case Option.bind (map_of es ''target'') entries_of of
                  None \<Rightarrow> missing_target
                | Some target \<Rightarrow>
                    (case map_of target ''recordingBackedTaskIds'' of Some (JArr ids) \<Rightarrow> normalizeTaskIdScope ids | _ \<Rightarrow> missing_ids))))"

lemma scope_task_id_ok: "scope_task_id (n, v) = Inr taskId \<Longrightarrow> \<exists>raw. v = JStr raw \<and> taskId = trim raw \<and> taskId \<noteq> [] \<and> utf16_length taskId \<le> 191 \<and> \<not> has_control_character taskId"
  by (cases v) (auto simp: scope_task_id_def Let_def split: if_splits)

text \<open>An accepted scope is the trimmed list itself, in order, without duplicates and within its bounds.\<close>

lemma accepted_scope:
  assumes "normalizeTaskIdScope entries = Inr ids"
  shows "length ids = length entries \<and> distinct ids \<and> ids \<noteq> [] \<and> length ids \<le> MAX_SCOPE_TASK_IDS \<and>
    (\<forall>taskId \<in> set ids. taskId \<noteq> [] \<and> utf16_length taskId \<le> 191 \<and> \<not> has_control_character taskId)"
proof -
  have m: "map scope_task_id (enumerate 0 entries) = map Inr ids" and d: "distinct ids" "entries \<noteq> []" "length entries \<le> MAX_SCOPE_TASK_IDS"
    using assms by (auto simp: normalizeTaskIdScope_def rbind_Inr_iff mapM_res_Inr_iff split: if_splits)
  from arg_cong[OF m, of length] have len: "length ids = length entries" by simp
  have "taskId \<noteq> [] \<and> utf16_length taskId \<le> 191 \<and> \<not> has_control_character taskId" if "taskId \<in> set ids" for taskId
  proof -
    have "Inr taskId \<in> set (map scope_task_id (enumerate 0 entries))" using that unfolding m by simp
    then obtain x where "scope_task_id x = Inr taskId" by auto
    then show ?thesis using scope_task_id_ok[of "fst x" "snd x" taskId] by auto
  qed
  then show ?thesis using d len by auto
qed

section \<open>Tables\<close>

record RequestRow =
  rq_id :: string
  rq_idempotencyKey :: string
  rq_requestDigest :: string
  rq_requestedByUserId :: "string option"
  rq_correlationId :: string
  rq_rulesetVersion :: string
  rq_status :: ManualReauditRequestStatus
  rq_requestedCount :: nat
  rq_completedCount :: nat
  rq_failedCount :: nat
  rq_skippedCount :: nat
  rq_requestedAt :: int
  rq_startedAt :: "int option"
  rq_completedAt :: "int option"

record ManualItemRow =
  it_id :: string
  it_requestId :: string
  it_callId :: string
  it_baselineAuditRunId :: string
  it_status :: ManualReauditItemStatus
  it_attemptCount :: nat
  it_lastErrorCode :: "string option"
  it_createdAt :: int
  it_startedAt :: "int option"
  it_completedAt :: "int option"

record AuditedCall = CallRow +
  cx_latestAuditRunId :: "string option"
  cx_processingStatus :: string
  cx_canonicalOutcomeCode :: "string option"
  cx_outcomeTaxonomyVersion :: "string option"
  cx_updatedAt :: "int option"

record StoredArtifact = CallArtifact +
  ax_createdAt :: int
  ax_lastVerifiedAt :: "int option"
  ax_fetchStatus :: "string option"
  ax_fetchError :: "string option"

record AuditRunRow =
  rn_id :: string
  rn_callId :: string
  rn_engineVersion :: string
  rn_inputManifestSha256 :: string
  rn_status :: string
  rn_startedAt :: int
  rn_completedAt :: int

record queue_db =
  qd_requests :: "RequestRow list"
  qd_items :: "ManualItemRow list"
  qd_calls :: "AuditedCall list"
  qd_runs :: "AuditRunRow list"
  qd_artifacts :: "StoredArtifact list"
  qd_invoices :: "InvoiceRow list"
  qd_leases :: "LeaseRow list"

text \<open>The generated column \<open>active_call_id\<close>.\<close>

definition live :: "ManualItemRow \<Rightarrow> bool" where
  "live i = (it_status i = Queued \<or> it_status i = Processing)"

definition active_call_id :: "ManualItemRow \<Rightarrow> string option" where
  "active_call_id i = (if live i then Some (it_callId i) else None)"

definition items_of :: "string \<Rightarrow> ManualItemRow list \<Rightarrow> ManualItemRow list" where
  "items_of requestId items = filter (\<lambda>i. it_requestId i = requestId) items"

definition asSafeQueueError :: "js_error \<Rightarrow> js_error" where
  "asSafeQueueError e =
     (case e of ManualReauditError _ _ \<Rightarrow> e | _ \<Rightarrow> ManualReauditError ''REAUDIT_QUEUE_UNAVAILABLE'' 503)"

definition loadRequest :: "queue_db \<Rightarrow> string \<Rightarrow> RequestRow option" where
  "loadRequest db idempotencyKey = find (\<lambda>r. same_key (rq_idempotencyKey r) idempotencyKey) (qd_requests db)"

definition itemCount :: "queue_db \<Rightarrow> string \<Rightarrow> nat" where
  "itemCount db requestId = length (items_of requestId (qd_items db))"

section \<open>Settling an item\<close>

definition count_status :: "ManualReauditItemStatus \<Rightarrow> ManualItemRow list \<Rightarrow> nat" where
  "count_status s items = length (filter (\<lambda>i. it_status i = s) items)"

definition rolled_status :: "ManualItemRow list \<Rightarrow> ManualReauditRequestStatus" where
  "rolled_status items =
     (if list_ex live items then Request_running
      else if list_ex (\<lambda>i. it_status i = Failed) items then Request_with_failures else Request_completed)"

definition roll_up :: "ManualItemRow list \<Rightarrow> int \<Rightarrow> RequestRow \<Rightarrow> RequestRow" where
  "roll_up items now r =
     r\<lparr> rq_completedCount := count_status Completed items, rq_failedCount := count_status Failed items,
        rq_skippedCount := count_status Skipped items, rq_status := rolled_status items,
        rq_completedAt := (if list_ex live items then None else Some now) \<rparr>"

definition settled :: "ManualReauditItemStatus \<Rightarrow> string option \<Rightarrow> int \<Rightarrow> ManualItemRow \<Rightarrow> ManualItemRow" where
  "settled outcome errorCode now i =
     i\<lparr> it_status := outcome, it_completedAt := Some now,
        it_lastErrorCode := (if outcome = Failed then Some (safeManualReauditErrorCode errorCode) else None) \<rparr>"

definition state_conflict :: js_error where
  "state_conflict = ManualReauditError ''REAUDIT_ITEM_STATE_CONFLICT'' 500"

definition settleManualReauditItem ::
  "string \<Rightarrow> string \<Rightarrow> ManualReauditItemStatus \<Rightarrow> string option \<Rightarrow> int \<Rightarrow> queue_db \<Rightarrow> queue_db res" where
  "settleManualReauditItem requestId itemId outcome errorCode now db =
     (let p = (\<lambda>i. it_id i = itemId \<and> it_status i = Processing);
          items = map (\<lambda>i. if p i then settled outcome errorCode now i else i) (qd_items db) in
      if length (filter p (qd_items db)) \<noteq> 1 then Inl state_conflict
      else Inr (db\<lparr> qd_items := items,
                    qd_requests := map (\<lambda>r. if rq_id r = requestId then roll_up (items_of requestId items) now r else r) (qd_requests db) \<rparr>))"

section \<open>Interrupted claims\<close>

definition staged_lease :: "LeaseRow list \<Rightarrow> ManualItemRow \<Rightarrow> bool" where
  "staged_lease leases i =
     list_ex (\<lambda>l. lr_manualItemId l = Some (it_id i) \<and> lr_status l = Lease_active \<and> lr_staged l \<noteq> None) leases"

definition timed_out :: "int \<Rightarrow> ManualItemRow \<Rightarrow> bool" where
  "timed_out dbNow i =
     (case it_startedAt i of None \<Rightarrow> False | Some t \<Rightarrow> t < dbNow - MANUAL_REAUDIT_CLAIM_TIMEOUT_MINUTES * 60000)"

definition queue_order :: "ManualItemRow list \<Rightarrow> ManualItemRow list" where
  "queue_order items = sort_key (\<lambda>i. (it_createdAt i, it_id i)) items"

definition interrupted :: "int \<Rightarrow> string list option \<Rightarrow> bool \<Rightarrow> string option \<Rightarrow> queue_db \<Rightarrow> ManualItemRow list" where
  "interrupted dbNow callIds recoverAllProcessing requestId db =
     take 100 (queue_order (filter (\<lambda>i.
       it_status i = Processing \<and> \<not> staged_lease (qd_leases db) i \<and> (recoverAllProcessing \<or> timed_out dbNow i) \<and>
       (case callIds of None \<Rightarrow> True | Some cs \<Rightarrow> it_callId i \<in> set cs) \<and>
       (case requestId of None \<Rightarrow> True | Some r \<Rightarrow> it_requestId i = r)) (qd_items db)))"

fun settle_all :: "int \<Rightarrow> ManualItemRow list \<Rightarrow> queue_db \<Rightarrow> queue_db res" where
  "settle_all now [] db = Inr db"
| "settle_all now (i # is) db =
     rbind (settleManualReauditItem (it_requestId i) (it_id i) Failed (Some ''REAUDIT_WORKER_INTERRUPTED'') now db) (settle_all now is)"

definition expireInterruptedClaims ::
  "int \<Rightarrow> int \<Rightarrow> string list option \<Rightarrow> bool \<Rightarrow> string option \<Rightarrow> queue_db \<Rightarrow> queue_db res" where
  "expireInterruptedClaims dbNow now callIds recoverAllProcessing requestId db =
     (if callIds = Some [] then Inr db else settle_all now (interrupted dbNow callIds recoverAllProcessing requestId db) db)"

section \<open>Accepting a request\<close>

record ResolvedCallRow =
  rs_callReference :: string
  rs_callId :: string
  rs_baselineAuditRunId :: string

definition REFERENCE_TYPES :: "string list" where
  "REFERENCE_TYPES = [''task_id'', ''taskId'', ''task'']"

definition in_list :: "string list \<Rightarrow> string \<Rightarrow> bool" where
  "in_list keys s = list_ex (\<lambda>k. same_key k s) keys"

definition invoiced :: "queue_db \<Rightarrow> string \<Rightarrow> bool" where
  "invoiced db date =
     list_ex (\<lambda>v. iv_periodStart v \<le> date \<and> date \<le> iv_periodEnd v \<and> iv_status v \<in> {''received'', ''matched'', ''approved''}) (qd_invoices db)"

definition final_recording :: "string \<Rightarrow> StoredArtifact \<Rightarrow> bool" where
  "final_recording callId a = (ca_callId a = callId \<and> ca_artifactType a = ''recording'' \<and> ca_isFinal a \<and> ca_sourceUrl a \<noteq> None)"

text \<open>A call with a completed current audit run, an invoice of its month and a recording.\<close>

definition auditable :: "queue_db \<Rightarrow> (string \<times> string) option \<Rightarrow> AuditedCall \<Rightarrow> string option" where
  "auditable db period c =
     (case cx_latestAuditRunId c of
        None \<Rightarrow> None
      | Some r \<Rightarrow>
          if list_ex (\<lambda>run. rn_id run = r \<and> rn_status run = ''completed'') (qd_runs db) \<and>
             (case period of None \<Rightarrow> True | Some (s, e) \<Rightarrow> s \<le> call_billingPeriodDate c \<and> call_billingPeriodDate c \<le> e) \<and>
             invoiced db (call_billingPeriodDate c) \<and> list_ex (final_recording (call_id c)) (qd_artifacts db)
          then Some r else None)"

text \<open>\<open>UNION\<close> keeps the first of rows its collation holds equal.\<close>

definition same_row :: "ResolvedCallRow \<Rightarrow> ResolvedCallRow \<Rightarrow> bool" where
  "same_row x y =
     (same_key (rs_callReference x) (rs_callReference y) \<and> rs_callId x = rs_callId y \<and> rs_baselineAuditRunId x = rs_baselineAuditRunId y)"

definition union_rows :: "ResolvedCallRow list \<Rightarrow> ResolvedCallRow list" where
  "union_rows rows = foldl (\<lambda>kept r. if list_ex (same_row r) kept then kept else kept @ [r]) [] rows"

definition resolveSelection :: "queue_db \<Rightarrow> string list \<Rightarrow> (string \<times> string) option \<Rightarrow> ResolvedCallRow list" where
  "resolveSelection db callReferences period =
     union_rows [\<lparr> rs_callReference = ref, rs_callId = call_id c, rs_baselineAuditRunId = r \<rparr>.
       c \<leftarrow> qd_calls db, r \<leftarrow> (case auditable db period c of None \<Rightarrow> [] | Some r \<Rightarrow> [r]),
       ref \<leftarrow> (if in_list callReferences (call_logicalCallKey c) then [call_logicalCallKey c] else []) @
         map snd (filter (\<lambda>(t, x). in_list REFERENCE_TYPES t \<and> in_list callReferences x) (call_externalReferences c))]"

definition calls_by_reference :: "string \<Rightarrow> ResolvedCallRow list \<Rightarrow> (string \<times> string) list" where
  "calls_by_reference reference resolved =
     fold (\<lambda>row. AList.update (rs_callId row) (rs_baselineAuditRunId row)) (filter (\<lambda>row. rs_callReference row = reference) resolved) []"

fun select_calls :: "ResolvedCallRow list \<Rightarrow> string list \<Rightarrow> (string \<times> string) list \<Rightarrow> (string \<times> string) list res" where
  "select_calls resolved [] selection = Inr selection"
| "select_calls resolved (reference # refs) selection =
     (case calls_by_reference reference resolved of
        [(callId, baseline)] \<Rightarrow> select_calls resolved refs (AList.update callId baseline selection)
      | _ \<Rightarrow> Inl (ManualReauditError ''REAUDIT_SELECTION_INVALID'' 400))"

definition selectedCalls :: "string list \<Rightarrow> ResolvedCallRow list \<Rightarrow> (string \<times> string) list res" where
  "selectedCalls callReferences resolved = select_calls resolved callReferences []"

record ManualReauditEnqueueInput =
  qi_callReferences :: "string list"
  qi_idempotencyKey :: string
  qi_requestedByUserId :: "string option"
  qi_correlationId :: string
  qi_requestedAt :: int

datatype enqueue_outcome = Accepted | Replayed | Already_queued

record ManualReauditReceipt =
  rc_requestId :: "string option"
  rc_outcome :: enqueue_outcome
  rc_status :: "ManualReauditRequestStatus option"
  rc_acceptedCount :: nat
  rc_alreadyQueuedCount :: nat

record enqueue_env =
  qe_lockHeld :: bool
  qe_dbNow :: int
  qe_now :: int
  qe_requestId :: string
  qe_itemId :: "nat \<Rightarrow> string"

definition duplicate_entry :: js_error where
  "duplicate_entry = DriverError ''ER_DUP_ENTRY''"

definition insert_request :: "RequestRow \<Rightarrow> queue_db \<Rightarrow> queue_db res" where
  "insert_request r db =
     (if list_ex (\<lambda>x. rq_id x = rq_id r \<or> same_key (rq_idempotencyKey x) (rq_idempotencyKey r)) (qd_requests db) then Inl duplicate_entry
      else if rq_requestedCount r < 1 \<or> rq_requestedCount r > 100 then Inl (DriverError ''ER_CHECK_CONSTRAINT_VIOLATED'')
      else Inr (db\<lparr> qd_requests := qd_requests db @ [r] \<rparr>))"

definition insert_item :: "ManualItemRow \<Rightarrow> queue_db \<Rightarrow> queue_db res" where
  "insert_item i db =
     (if list_ex (\<lambda>x. it_id x = it_id i \<or> (it_requestId x = it_requestId i \<and> it_callId x = it_callId i) \<or>
                      (active_call_id x \<noteq> None \<and> active_call_id x = active_call_id i)) (qd_items db) then Inl duplicate_entry
      else Inr (db\<lparr> qd_items := qd_items db @ [i] \<rparr>))"

definition new_request :: "runtime \<Rightarrow> enqueue_env \<Rightarrow> ManualReauditEnqueueInput \<Rightarrow> nat \<Rightarrow> RequestRow" where
  "new_request rt env input n =
     \<lparr> rq_id = qe_requestId env, rq_idempotencyKey = qi_idempotencyKey input, rq_requestDigest = manualReauditDigest rt (qi_callReferences input),
       rq_requestedByUserId = qi_requestedByUserId input, rq_correlationId = qi_correlationId input,
       rq_rulesetVersion = REAUDIT_CLASSIFIER_RULESET_VERSION, rq_status = Request_queued, rq_requestedCount = n, rq_completedCount = 0,
       rq_failedCount = 0, rq_skippedCount = 0, rq_requestedAt = qi_requestedAt input, rq_startedAt = None, rq_completedAt = None \<rparr>"

definition new_item :: "enqueue_env \<Rightarrow> ManualReauditEnqueueInput \<Rightarrow> nat \<Rightarrow> string \<times> string \<Rightarrow> ManualItemRow" where
  "new_item env input n call =
     \<lparr> it_id = qe_itemId env n, it_requestId = qe_requestId env, it_callId = fst call, it_baselineAuditRunId = snd call, it_status = Queued,
       it_attemptCount = 0, it_lastErrorCode = None, it_createdAt = qi_requestedAt input, it_startedAt = None, it_completedAt = None \<rparr>"

fun insert_items :: "enqueue_env \<Rightarrow> ManualReauditEnqueueInput \<Rightarrow> nat \<Rightarrow> (string \<times> string) list \<Rightarrow> queue_db \<Rightarrow> queue_db res" where
  "insert_items env input n [] db = Inr db"
| "insert_items env input n (call # calls) db =
     rbind (insert_item (new_item env input n call) db) (insert_items env input (Suc n) calls)"

definition enqueue_transaction ::
  "runtime \<Rightarrow> enqueue_env \<Rightarrow> (string \<times> string) option \<Rightarrow> ManualReauditEnqueueInput \<Rightarrow> queue_db \<Rightarrow> (queue_db \<times> ManualReauditReceipt) res" where
  "enqueue_transaction rt env period input db =
     (case loadRequest db (qi_idempotencyKey input) of
        Some replay \<Rightarrow>
          if rq_requestDigest replay \<noteq> manualReauditDigest rt (qi_callReferences input)
          then Inl (ManualReauditError ''REAUDIT_REQUEST_CONFLICT'' 409)
          else Inr (db, \<lparr> rc_requestId = Some (rq_id replay), rc_outcome = Replayed, rc_status = Some (rq_status replay),
                          rc_acceptedCount = itemCount db (rq_id replay), rc_alreadyQueuedCount = 0 \<rparr>)
      | None \<Rightarrow>
          rbind (selectedCalls (qi_callReferences input) (resolveSelection db (qi_callReferences input) period)) (\<lambda>calls.
          rbind (expireInterruptedClaims (qe_dbNow env) (qe_now env) (Some (map fst calls)) False None db) (\<lambda>db1.
          let busy = remdups [it_callId i. i \<leftarrow> qd_items db1, live i \<and> it_callId i \<in> fst ` set calls];
              accepted = filter (\<lambda>c. fst c \<notin> set busy) calls in
          if accepted = [] then
            Inr (db1, \<lparr> rc_requestId = None, rc_outcome = Already_queued, rc_status = None, rc_acceptedCount = 0,
                        rc_alreadyQueuedCount = length busy \<rparr>)
          else
            rbind (insert_request (new_request rt env input (length accepted)) db1) (\<lambda>db2.
            rbind (insert_items env input 0 accepted db2) (\<lambda>db3.
            Inr (db3, \<lparr> rc_requestId = Some (qe_requestId env), rc_outcome = Accepted, rc_status = Some Request_queued,
                        rc_acceptedCount = length accepted, rc_alreadyQueuedCount = length busy \<rparr>))))))"

definition enqueue ::
  "runtime \<Rightarrow> enqueue_env \<Rightarrow> (string \<times> string) option \<Rightarrow> ManualReauditEnqueueInput \<Rightarrow> queue_db \<Rightarrow> queue_db \<times> ManualReauditReceipt res" where
  "enqueue rt env period input db =
     (if \<not> qe_lockHeld env then (db, Inl (ManualReauditError ''REAUDIT_QUEUE_BUSY'' 409))
      else (case enqueue_transaction rt env period input db of
              Inl e \<Rightarrow> (db, Inl (asSafeQueueError e))
            | Inr (db', receipt) \<Rightarrow> (db', Inr receipt)))"

section \<open>The worker's claim\<close>

record claim_options =
  cp_includePreviouslyClassified :: bool
  cp_limit :: nat
  cp_recoverInterruptedClaims :: bool
  cp_requestId :: "string option"
  cp_dbNow :: int
  cp_now :: int

definition select_items :: "claim_options \<Rightarrow> queue_db \<Rightarrow> ManualItemRow list" where
  "select_items opts db =
     take (cp_limit opts) (queue_order (filter (\<lambda>i.
       ((it_status i = Queued \<and> it_attemptCount i < MAX_MANUAL_REAUDIT_ATTEMPTS) \<or>
        (cp_recoverInterruptedClaims opts \<and> it_status i = Processing)) \<and>
       (case cp_requestId opts of None \<Rightarrow> True | Some r \<Rightarrow> it_requestId i = r)) (qd_items db)))"

definition newest_artifact :: "queue_db \<Rightarrow> string \<Rightarrow> StoredArtifact option" where
  "newest_artifact db callId =
     (case rev (sort_key (\<lambda>a. (ax_createdAt a, ca_id a)) (filter (final_recording callId) (qd_artifacts db))) of
        [] \<Rightarrow> None | a # _ \<Rightarrow> Some a)"

definition claimed :: "int \<Rightarrow> ManualItemRow \<Rightarrow> ManualItemRow" where
  "claimed now i =
     i\<lparr> it_status := Processing, it_attemptCount := it_attemptCount i + 1, it_startedAt := Some now, it_lastErrorCode := None \<rparr>"

definition claim_item :: "string \<Rightarrow> int \<Rightarrow> queue_db \<Rightarrow> queue_db \<times> nat" where
  "claim_item itemId now db =
     (let p = (\<lambda>i. it_id i = itemId \<and> it_status i = Queued \<and> it_attemptCount i < 1) in
      (db\<lparr> qd_items := map (\<lambda>i. if p i then claimed now i else i) (qd_items db) \<rparr>, length (filter p (qd_items db))))"

definition manual_candidate :: "(string \<Rightarrow> CostRow option) \<Rightarrow> ManualItemRow \<Rightarrow> StoredArtifact \<Rightarrow> ReauditCandidate" where
  "manual_candidate costs i a =
     (let cost = costs (it_callId i) in
      \<lparr> ra_callId = it_callId i, ra_artifactId = ca_id a, ra_sourceUrl = coalesce (ca_sourceUrl a) [], ra_baselineSha256 = ca_sha256 a,
        ra_claimedDurationMs = nullableMs (Option.bind cost co_claimedDurationMs),
        ra_connectedDurationMs = nullableMs (Option.bind cost co_connectedDurationMs),
        ra_vendorBilledMinutes = Option.bind cost co_vendorBilledMinutes,
        ra_manualRequest = Some \<lparr> mr_requestId = it_requestId i, mr_itemId = it_id i, mr_baselineAuditRunId = it_baselineAuditRunId i \<rparr> \<rparr>)"

definition settle_unavailable :: "claim_options \<Rightarrow> ManualItemRow \<Rightarrow> queue_db \<Rightarrow> queue_db res" where
  "settle_unavailable opts i db =
     settleManualReauditItem (it_requestId i) (it_id i) Failed (Some ''REAUDIT_RECORDING_UNAVAILABLE'') (cp_now opts)
       (fst (claim_item (it_id i) (cp_dbNow opts) db))"

text \<open>Every settlement is a transaction of its own, so those before a failing one stay. The recordings were read once before.\<close>

fun enrich :: "(string \<Rightarrow> CostRow option) \<Rightarrow> (string \<Rightarrow> StoredArtifact option) \<Rightarrow> claim_options \<Rightarrow> ManualItemRow list \<Rightarrow> ReauditCandidate list \<Rightarrow>
    queue_db \<Rightarrow> queue_db \<times> ReauditCandidate list res" where
  "enrich costs artifact opts [] candidates db = (db, Inr candidates)"
| "enrich costs artifact opts (i # is) candidates db =
     (case artifact (it_callId i) of
        Some a \<Rightarrow> enrich costs artifact opts is (candidates @ [manual_candidate costs i a]) db
      | None \<Rightarrow>
          (case settle_unavailable opts i db of
             Inl e \<Rightarrow> (db, Inl (asSafeQueueError e))
           | Inr db' \<Rightarrow> enrich costs artifact opts is candidates db'))"

definition listCandidates ::
  "(string \<Rightarrow> CostRow option) \<Rightarrow> claim_options \<Rightarrow> queue_db \<Rightarrow> queue_db \<times> ReauditCandidate list res" where
  "listCandidates costs opts db =
     (if \<not> cp_includePreviouslyClassified opts then (db, Inl (ManualReauditError ''REAUDIT_WORKER_MODE_INVALID'' 500))
      else (case (if cp_recoverInterruptedClaims opts then Inr db
                  else expireInterruptedClaims (cp_dbNow opts) (cp_now opts) None False (cp_requestId opts) db) of
              Inl e \<Rightarrow> (db, Inl (asSafeQueueError e))
            | Inr db1 \<Rightarrow> enrich costs (newest_artifact db1) opts (select_items opts db1) [] db1))"

definition manualReauditLatestAuditRunId :: "queue_db \<Rightarrow> string \<Rightarrow> string option" where
  "manualReauditLatestAuditRunId db callId =
     Option.bind (find (\<lambda>c. call_id c = callId) (qd_calls db)) cx_latestAuditRunId"

section \<open>What the monitor shows\<close>

record ManualReauditRowLifecycle =
  lc_status :: ManualReauditItemStatus
  lc_completedAt :: "int option"
  lc_failureCode :: "string option"

definition item_lifecycle :: "ManualItemRow \<Rightarrow> ManualReauditRowLifecycle option" where
  "item_lifecycle i =
     (if it_status i = Skipped then None
      else Some \<lparr> lc_status = it_status i,
        lc_completedAt = (if it_status i = Completed \<or> it_status i = Failed then it_completedAt i else None),
        lc_failureCode = (if it_status i = Failed then Some (safeManualReauditErrorCode (it_lastErrorCode i)) else None) \<rparr>)"

definition manualReauditRowLifecycle :: "ManualItemRow list \<Rightarrow> ManualReauditRowLifecycle option" where
  "manualReauditRowLifecycle items =
     (case sort_key (\<lambda>i. - it_createdAt i) items of [] \<Rightarrow> None | i # _ \<Rightarrow> item_lifecycle i)"

definition newest_of_call :: "ManualItemRow list \<Rightarrow> ManualItemRow \<Rightarrow> bool" where
  "newest_of_call items i =
     (\<not> list_ex (\<lambda>n. it_callId n = it_callId i \<and>
        (it_createdAt i < it_createdAt n \<or> (it_createdAt n = it_createdAt i \<and> it_id i < it_id n))) items)"

definition shown :: "int \<Rightarrow> ManualItemRow list \<Rightarrow> ManualItemRow \<Rightarrow> bool" where
  "shown dbNow items i =
     (it_status i \<noteq> Skipped \<and> newest_of_call items i \<and>
      (it_status i \<noteq> Processing \<or>
       (case it_startedAt i of None \<Rightarrow> False | Some t \<Rightarrow> dbNow - MANUAL_REAUDIT_CLAIM_TIMEOUT_MINUTES * 60000 \<le> t)))"

definition readManualReauditRowStatuses :: "int \<Rightarrow> queue_db \<Rightarrow> string list \<Rightarrow> string \<Rightarrow> ManualReauditRowLifecycle option" where
  "readManualReauditRowStatuses dbNow db callIds callId =
     (if callId \<notin> set callIds then None
      else manualReauditRowLifecycle (filter (\<lambda>i. it_callId i = callId \<and> shown dbNow (qd_items db) i) (qd_items db)))"

section \<open>Consistent tables\<close>

text \<open>What a request row says of its items: the counts, and the status they imply.\<close>

definition request_status :: "ManualItemRow list \<Rightarrow> ManualReauditRequestStatus" where
  "request_status own = (if list_all (\<lambda>i. it_status i = Queued) own then Request_queued else rolled_status own)"

definition summary_ok :: "ManualItemRow list \<Rightarrow> RequestRow \<Rightarrow> bool" where
  "summary_ok items r \<longleftrightarrow>
     (let own = items_of (rq_id r) items in
      rq_completedCount r = count_status Completed own \<and> rq_failedCount r = count_status Failed own \<and>
      rq_skippedCount r = count_status Skipped own \<and> rq_status r = request_status own)"

definition item_ok :: "ManualItemRow \<Rightarrow> bool" where
  "item_ok i \<longleftrightarrow> it_attemptCount i = (if it_status i = Queued then 0 else 1)"

text \<open>One live item per call, every item claimed at most once and part of a request.\<close>

definition rows_ok :: "queue_db \<Rightarrow> bool" where
  "rows_ok db \<longleftrightarrow>
     distinct (map it_id (qd_items db)) \<and> distinct (map rq_id (qd_requests db)) \<and> unique_keys rq_idempotencyKey (qd_requests db) \<and>
     distinct (map it_callId (filter live (qd_items db))) \<and>
     (\<forall>i \<in> set (qd_items db). item_ok i \<and> it_requestId i \<in> rq_id ` set (qd_requests db))"

definition sized_ok :: "ManualItemRow list \<Rightarrow> RequestRow \<Rightarrow> bool" where
  "sized_ok items r \<longleftrightarrow>
     rq_requestedCount r = length (items_of (rq_id r) items) \<and> 1 \<le> rq_requestedCount r \<and> rq_requestedCount r \<le> 100"

definition queue_ok :: "queue_db \<Rightarrow> bool" where
  "queue_ok db \<longleftrightarrow>
     rows_ok db \<and> (\<forall>r \<in> set (qd_requests db). sized_ok (qd_items db) r \<and> summary_ok (qd_items db) r)"

text \<open>How an item may change: forward only, and not at all once it is settled.\<close>

definition item_moves :: "ManualItemRow \<Rightarrow> ManualItemRow \<Rightarrow> bool" where
  "item_moves i i' \<longleftrightarrow>
     it_id i' = it_id i \<and> it_requestId i' = it_requestId i \<and> it_callId i' = it_callId i \<and>
     it_baselineAuditRunId i' = it_baselineAuditRunId i \<and> (live i' \<longrightarrow> live i) \<and>
     (it_status i' = Queued \<longrightarrow> it_status i = Queued) \<and> (\<not> live i \<longrightarrow> i' = i)"

definition request_kept :: "RequestRow \<Rightarrow> RequestRow \<Rightarrow> bool" where
  "request_kept r r' \<longleftrightarrow>
     rq_id r' = rq_id r \<and> rq_idempotencyKey r' = rq_idempotencyKey r \<and> rq_requestDigest r' = rq_requestDigest r \<and>
     rq_requestedCount r' = rq_requestedCount r"

definition queue_grows :: "queue_db \<Rightarrow> queue_db \<Rightarrow> bool" where
  "queue_grows db db' \<longleftrightarrow>
     (\<exists>rows added. qd_items db' = rows @ added \<and> list_all2 item_moves (qd_items db) rows) \<and>
     (\<exists>rows added. qd_requests db' = rows @ added \<and> list_all2 request_kept (qd_requests db) rows)"

lemma item_moves_refl [simp]: "item_moves i i"
  by (simp add: item_moves_def)

lemma item_moves_trans: "item_moves a b \<Longrightarrow> item_moves b c \<Longrightarrow> item_moves a c"
  unfolding item_moves_def by metis

lemma request_kept_refl [simp]: "request_kept r r"
  by (simp add: request_kept_def)

lemma request_kept_trans: "request_kept a b \<Longrightarrow> request_kept b c \<Longrightarrow> request_kept a c"
  by (simp add: request_kept_def)

lemma list_all2_extends:
  assumes "\<And>a b c. R a b \<Longrightarrow> R b c \<Longrightarrow> R a c" "ys = rows @ added" "list_all2 R xs rows" "zs = rows' @ added'" "list_all2 R ys rows'"
  shows "\<exists>rows added. zs = rows @ added \<and> list_all2 R xs rows"
proof -
  obtain us vs where "rows' = us @ vs" "list_all2 R rows us" using assms(2,5) by (auto simp: list_all2_append1)
  then show ?thesis using assms list_all2_trans[of R R R xs rows us] by (intro exI[of _ us] exI[of _ "vs @ added'"]) auto
qed

lemma queue_grows_refl [simp]: "queue_grows db db"
  unfolding queue_grows_def by (metis append_Nil2 item_moves_refl list.rel_refl request_kept_refl)

lemma queue_grows_trans:
  assumes "queue_grows a b" "queue_grows b c"
  shows "queue_grows a c"
proof -
  obtain i1 x1 i2 x2 where "qd_items b = i1 @ x1" "list_all2 item_moves (qd_items a) i1" "qd_items c = i2 @ x2" "list_all2 item_moves (qd_items b) i2"
    using assms by (auto simp: queue_grows_def)
  note items = list_all2_extends[of item_moves, OF item_moves_trans this]
  obtain r1 y1 r2 y2 where "qd_requests b = r1 @ y1" "list_all2 request_kept (qd_requests a) r1" "qd_requests c = r2 @ y2" "list_all2 request_kept (qd_requests b) r2"
    using assms by (auto simp: queue_grows_def)
  note requests = list_all2_extends[of request_kept, OF request_kept_trans this]
  from items requests show ?thesis by (simp add: queue_grows_def)
qed

lemma queue_grows_item:
  assumes "queue_grows db db'" "i \<in> set (qd_items db)"
  shows "\<exists>i' \<in> set (qd_items db'). item_moves i i'"
proof -
  obtain rows added where "qd_items db' = rows @ added" "list_all2 item_moves (qd_items db) rows"
    using assms(1) by (auto simp: queue_grows_def)
  then show ?thesis using assms(2) by (auto simp: list_all2_conv_all_nth in_set_conv_nth Bex_def)
qed

lemma list_all2_map_eq: "list_all2 R xs ys \<Longrightarrow> (\<And>x y. R x y \<Longrightarrow> f y = f x) \<Longrightarrow> map f ys = map f xs"
  by (induction rule: list_all2_induct) auto

lemma list_all2_filter_length:
  "list_all2 R xs ys \<Longrightarrow> (\<And>x y. R x y \<Longrightarrow> P y = P x) \<Longrightarrow> length (filter P ys) = length (filter P xs)"
  by (induction rule: list_all2_induct) auto

lemma live_calls_shrink:
  assumes "list_all2 item_moves xs ys" "distinct (map it_callId (filter live xs))"
  shows "distinct (map it_callId (filter live ys)) \<and> it_callId ` set (filter live ys) \<subseteq> it_callId ` set (filter live xs)"
  using assms
proof (induction rule: list_all2_induct)
  case (Cons x xs y ys)
  have m: "live y \<Longrightarrow> live x" "it_callId y = it_callId x" using Cons(1) by (simp_all add: item_moves_def)
  have ih: "distinct (map it_callId (filter live ys))" "it_callId ` set (filter live ys) \<subseteq> it_callId ` set (filter live xs)"
    using Cons by (auto split: if_splits)
  have "live x \<Longrightarrow> it_callId x \<notin> it_callId ` set (filter live xs)" using Cons.prems by simp
  then show ?case using m ih by (auto simp del: set_filter)
qed simp

text \<open>Rows that move forward one by one stay consistent.\<close>

lemma rows_ok_moves:
  assumes "rows_ok db" "list_all2 item_moves (qd_items db) (qd_items db')" "list_all2 request_kept (qd_requests db) (qd_requests db')"
    and "\<forall>i \<in> set (qd_items db'). item_ok i"
  shows "rows_ok db'"
proof -
  have ids: "map it_id (qd_items db') = map it_id (qd_items db)" "map it_requestId (qd_items db') = map it_requestId (qd_items db)"
    using assms(2) by (auto intro!: list_all2_map_eq simp: item_moves_def)
  have reqs: "map rq_id (qd_requests db') = map rq_id (qd_requests db)"
      "map rq_idempotencyKey (qd_requests db') = map rq_idempotencyKey (qd_requests db)"
    using assms(3) by (auto intro!: list_all2_map_eq simp: request_kept_def)
  have "it_requestId ` set (qd_items db') = it_requestId ` set (qd_items db)" "rq_id ` set (qd_requests db') = rq_id ` set (qd_requests db)"
    using ids(2) reqs(1) by (metis set_map)+
  then have "\<forall>i \<in> set (qd_items db'). it_requestId i \<in> rq_id ` set (qd_requests db')"
    using assms(1) unfolding rows_ok_def by (metis (no_types, lifting) image_iff)
  moreover have "unique_keys rq_idempotencyKey (qd_requests db')"
    using assms(1) reqs(2) by (simp add: rows_ok_def unique_keys_def flip: map_map)
  ultimately show ?thesis
    using assms(1,4) ids(1) reqs(1) live_calls_shrink[OF assms(2)] by (simp add: rows_ok_def)
qed

lemma sized_ok_moves:
  "list_all2 item_moves items items' \<Longrightarrow> request_kept r r' \<Longrightarrow> sized_ok items r \<Longrightarrow> sized_ok items' r'"
  using list_all2_filter_length[of item_moves items items' "\<lambda>i. it_requestId i = rq_id r"]
  by (simp add: sized_ok_def request_kept_def items_of_def item_moves_def)

section \<open>Settling keeps the tables consistent\<close>

definition known_item :: "queue_db \<Rightarrow> string \<Rightarrow> string \<Rightarrow> bool" where
  "known_item db t q \<longleftrightarrow> (\<exists>i \<in> set (qd_items db). it_id i = t \<and> it_requestId i = q)"

lemma distinct_item: "distinct (map it_id items) \<Longrightarrow> i \<in> set items \<Longrightarrow> j \<in> set items \<Longrightarrow> it_id i = it_id j \<Longrightarrow> i = j"
  by (auto simp: distinct_map inj_on_def)

lemma items_of_map:
  assumes "\<And>i. it_requestId (g i) = it_requestId i" "\<And>i. i \<in> set items \<Longrightarrow> it_requestId i = q \<Longrightarrow> g i = i"
  shows "items_of q (map g items) = items_of q items"
  using assms by (induction items) (auto simp: items_of_def)

lemma settled_fields [simp]:
  "it_id (settled oc code now i) = it_id i" "it_requestId (settled oc code now i) = it_requestId i"
  "it_callId (settled oc code now i) = it_callId i" "it_status (settled oc code now i) = oc"
  "it_attemptCount (settled oc code now i) = it_attemptCount i"
  by (simp_all add: settled_def)

lemma roll_up_kept [simp]: "request_kept r (roll_up own now r)"
  by (simp add: request_kept_def roll_up_def)

lemma settle_run:
  assumes "settleManualReauditItem q t oc code now db = Inr db'" "rows_ok db" "known_item db t q"
  obtains i where "i \<in> set (qd_items db)" "it_id i = t" "it_requestId i = q" "it_status i = Processing"
    "qd_items db' = map (\<lambda>j. if it_id j = t then settled oc code now j else j) (qd_items db)"
    "qd_requests db' = map (\<lambda>r. if rq_id r = q then roll_up (items_of q (qd_items db')) now r else r) (qd_requests db)"
    "db' = db\<lparr> qd_items := qd_items db', qd_requests := qd_requests db' \<rparr>"
proof -
  let ?p = "\<lambda>i. it_id i = t \<and> it_status i = Processing"
  obtain i where i: "i \<in> set (qd_items db)" "it_id i = t" "it_requestId i = q" using assms(3) by (auto simp: known_item_def)
  have one: "length (filter ?p (qd_items db)) = 1" using assms(1) by (auto simp: settleManualReauditItem_def Let_def split: if_splits)
  then obtain j where "filter ?p (qd_items db) = [j]" by (auto simp: length_Suc_conv)
  then have "j \<in> set (filter ?p (qd_items db))" by simp
  then have j: "j \<in> set (qd_items db)" "?p j" by simp_all
  have d: "distinct (map it_id (qd_items db))" using assms(2) by (simp add: rows_ok_def)
  have "j = i" using distinct_item[OF d] i j by simp
  then have same: "?p k \<longleftrightarrow> it_id k = t" if "k \<in> set (qd_items db)" for k
    using distinct_item[OF d that i(1)] i(2) j(2) by auto
  then have eq: "map (\<lambda>k. if ?p k then settled oc code now k else k) (qd_items db) = map (\<lambda>k. if it_id k = t then settled oc code now k else k) (qd_items db)"
    by (intro map_cong) auto
  have "db' = db\<lparr> qd_items := map (\<lambda>k. if it_id k = t then settled oc code now k else k) (qd_items db),
      qd_requests := map (\<lambda>r. if rq_id r = q then roll_up (items_of q (map (\<lambda>k. if it_id k = t then settled oc code now k else k) (qd_items db))) now r else r) (qd_requests db) \<rparr>"
    using assms(1) one unfolding settleManualReauditItem_def Let_def eq by simp
  then show thesis using that[OF i] \<open>j = i\<close> j(2) by simp
qed

lemma item_settled_keeps:
  assumes "settleManualReauditItem q t oc code now db = Inr db'" "rows_ok db" "known_item db t q" "oc \<noteq> Queued" "oc \<noteq> Processing"
    and "\<forall>r \<in> set (qd_requests db). sized_ok (qd_items db) r \<and> (rq_id r \<noteq> q \<longrightarrow> summary_ok (qd_items db) r)"
  shows "queue_ok db' \<and> queue_grows db db'"
proof -
  obtain i where i: "i \<in> set (qd_items db)" "it_id i = t" "it_requestId i = q" "it_status i = Processing"
    and items: "qd_items db' = map (\<lambda>j. if it_id j = t then settled oc code now j else j) (qd_items db)" (is "_ = map ?g _")
    and reqs: "qd_requests db' = map (\<lambda>r. if rq_id r = q then roll_up (items_of q (qd_items db')) now r else r) (qd_requests db)"
    by (rule settle_run[OF assms(1-3)]) blast
  have only: "j = i" if "j \<in> set (qd_items db)" "it_id j = t" for j
    using assms(2) distinct_item[of "qd_items db" j i] that i(1,2) by (simp add: rows_ok_def)
  have moves: "list_all2 item_moves (qd_items db) (qd_items db')"
    using only i(4) assms(4,5) by (auto simp: items list_all2_conv_all_nth item_moves_def live_def settled_def in_set_conv_nth)
  have kept: "list_all2 request_kept (qd_requests db) (qd_requests db')"
    by (subst reqs) (simp add: list_all2_conv_all_nth)
  have "\<forall>j \<in> set (qd_items db'). item_ok j"
    using only i(4) assms(2,4) by (auto simp: items rows_ok_def item_ok_def)
  then have rows: "rows_ok db'" using rows_ok_moves[OF assms(2) moves kept] by simp
  have other: "items_of x (qd_items db') = items_of x (qd_items db)" if "x \<noteq> q" for x
    unfolding items by (rule items_of_map) (use only i(3) that in auto)
  have "?g i \<in> set (items_of q (qd_items db'))" using i by (auto simp: items_of_def items)
  then have touched: "request_status (items_of q (qd_items db')) = rolled_status (items_of q (qd_items db'))"
    using i(2) assms(4) by (auto simp: request_status_def list_all_iff)
  have "sized_ok (qd_items db') r' \<and> summary_ok (qd_items db') r'" if r': "r' \<in> set (qd_requests db')" for r'
  proof -
    obtain r where r: "r \<in> set (qd_requests db)" "r' = (if rq_id r = q then roll_up (items_of q (qd_items db')) now r else r)"
      using r' by (subst (asm) reqs) auto
    then have "sized_ok (qd_items db') r'" using sized_ok_moves[OF moves, of r r'] assms(6) by auto
    moreover have "summary_ok (qd_items db') r'"
      using r assms(6) other touched by (auto simp: summary_ok_def roll_up_def Let_def)
    ultimately show ?thesis by simp
  qed
  then show ?thesis using rows moves kept by (force simp: queue_ok_def queue_grows_def)
qed

lemma settle_keeps_ok:
  assumes "settleManualReauditItem q t oc code now db = Inr db'" "queue_ok db" "known_item db t q" "oc \<noteq> Queued" "oc \<noteq> Processing"
  shows "queue_ok db' \<and> queue_grows db db'"
  by (rule item_settled_keeps[OF assms(1)]) (use assms(2-5) in \<open>auto simp: queue_ok_def\<close>)

lemma known_item_grows: "queue_grows db db' \<Longrightarrow> known_item db t q \<Longrightarrow> known_item db' t q"
  unfolding known_item_def using queue_grows_item[of db db'] by (metis item_moves_def)

lemma settle_all_keeps:
  "settle_all now is db = Inr db' \<Longrightarrow> queue_ok db \<Longrightarrow> \<forall>i \<in> set is. known_item db (it_id i) (it_requestId i) \<Longrightarrow> queue_ok db' \<and> queue_grows db db'"
proof (induction "is" arbitrary: db)
  case (Cons i "is")
  obtain db1 where s: "settleManualReauditItem (it_requestId i) (it_id i) Failed (Some ''REAUDIT_WORKER_INTERRUPTED'') now db = Inr db1"
      "settle_all now is db1 = Inr db'" using Cons.prems(1) by (auto simp: rbind_Inr_iff)
  have one: "queue_ok db1 \<and> queue_grows db db1" using settle_keeps_ok[OF s(1)] Cons.prems by simp
  then have "queue_ok db' \<and> queue_grows db1 db'" using Cons.IH[OF s(2)] Cons.prems(3) known_item_grows[of db db1] by auto
  then show ?case using one queue_grows_trans by blast
qed simp

lemma expire_keeps:
  assumes "expireInterruptedClaims dbNow now callIds recoverAll requestId db = Inr db'" "queue_ok db"
  shows "queue_ok db' \<and> queue_grows db db'"
proof (cases "callIds = Some []")
  case False
  have "known_item db (it_id i) (it_requestId i)" if "i \<in> set (interrupted dbNow callIds recoverAll requestId db)" for i
    using that by (auto simp: interrupted_def known_item_def queue_order_def dest!: in_set_takeD)
  then show ?thesis using settle_all_keeps assms False by (auto simp: expireInterruptedClaims_def)
qed (use assms in \<open>simp add: expireInterruptedClaims_def\<close>)

section \<open>Claiming keeps the tables consistent\<close>

lemma claimed_fields [simp]:
  "it_id (claimed now i) = it_id i" "it_requestId (claimed now i) = it_requestId i" "it_callId (claimed now i) = it_callId i"
  "it_status (claimed now i) = Processing" "it_attemptCount (claimed now i) = Suc (it_attemptCount i)"
  by (simp_all add: claimed_def)

lemma grows_of_moves:
  "list_all2 item_moves (qd_items db) (qd_items db') \<Longrightarrow> list_all2 request_kept (qd_requests db) (qd_requests db') \<Longrightarrow> queue_grows db db'"
  unfolding queue_grows_def by (metis append_Nil2)

lemma claim_moves:
  assumes "rows_ok db"
  shows "list_all2 item_moves (qd_items db) (qd_items (fst (claim_item t now db)))" "rows_ok (fst (claim_item t now db))"
    "qd_requests (fst (claim_item t now db)) = qd_requests db"
proof -
  show m: "list_all2 item_moves (qd_items db) (qd_items (fst (claim_item t now db)))"
    by (auto simp: claim_item_def Let_def list_all2_conv_all_nth item_moves_def live_def claimed_def)
  show r: "qd_requests (fst (claim_item t now db)) = qd_requests db" by (simp add: claim_item_def Let_def)
  have "\<forall>i \<in> set (qd_items (fst (claim_item t now db))). item_ok i"
    using assms by (auto simp: claim_item_def Let_def rows_ok_def item_ok_def)
  then show "rows_ok (fst (claim_item t now db))" using rows_ok_moves[OF assms m] by (simp add: r list_all2_same)
qed

lemma claim_other:
  assumes "rows_ok db" "known_item db t q" "x \<noteq> q"
  shows "items_of x (qd_items (fst (claim_item t now db))) = items_of x (qd_items db)"
proof -
  obtain i where i: "i \<in> set (qd_items db)" "it_id i = t" "it_requestId i = q" using assms(2) by (auto simp: known_item_def)
  have "it_requestId j = q" if "j \<in> set (qd_items db)" "it_id j = t" for j
    using assms(1) distinct_item[of "qd_items db" j i] that i by (simp add: rows_ok_def)
  then show ?thesis unfolding claim_item_def Let_def by (auto intro!: items_of_map simp: assms(3))
qed

lemma settle_unavailable_keeps:
  assumes "settle_unavailable opts i db = Inr db'" "queue_ok db" "known_item db (it_id i) (it_requestId i)"
  shows "queue_ok db' \<and> queue_grows db db'"
proof -
  let ?db = "fst (claim_item (it_id i) (cp_dbNow opts) db)"
  have ok: "rows_ok db" using assms(2) by (simp add: queue_ok_def)
  note m = claim_moves[OF ok, of "it_id i" "cp_dbNow opts"]
  have grows: "queue_grows db ?db" using grows_of_moves[OF m(1)] m(3) by (simp add: list_all2_same)
  have "sized_ok (qd_items ?db) r \<and> (rq_id r \<noteq> it_requestId i \<longrightarrow> summary_ok (qd_items ?db) r)" if "r \<in> set (qd_requests ?db)" for r
    using that assms(2) sized_ok_moves[OF m(1), of r r] claim_other[OF ok assms(3)] m(3) by (simp add: queue_ok_def summary_ok_def)
  then have "queue_ok db' \<and> queue_grows ?db db'"
    using item_settled_keeps[OF assms(1)[unfolded settle_unavailable_def] m(2) known_item_grows[OF grows assms(3)]] by simp
  then show ?thesis using queue_grows_trans[OF grows] by blast
qed

lemma enrich_keeps:
  "queue_ok db \<Longrightarrow> \<forall>i \<in> set is. known_item db (it_id i) (it_requestId i) \<Longrightarrow>
   queue_ok (fst (enrich costs artifact opts is candidates db)) \<and> queue_grows db (fst (enrich costs artifact opts is candidates db))"
proof (induction "is" arbitrary: candidates db)
  case (Cons i "is")
  show ?case
  proof (cases "artifact (it_callId i)")
    case None
    show ?thesis
    proof (cases "settle_unavailable opts i db")
      case (Inr db1)
      then have one: "queue_ok db1 \<and> queue_grows db db1" using settle_unavailable_keeps[OF Inr] Cons.prems by simp
      then have "\<forall>j \<in> set is. known_item db1 (it_id j) (it_requestId j)" using Cons.prems(2) known_item_grows[of db db1] by simp
      then show ?thesis using Cons.IH[of db1 candidates] one None Inr queue_grows_trans[of db db1] by simp
    qed (use Cons.prems None in simp)
  qed (use Cons in simp)
qed simp

lemma listCandidates_keeps:
  assumes "queue_ok db"
  shows "queue_ok (fst (listCandidates costs opts db)) \<and> queue_grows db (fst (listCandidates costs opts db))"
proof -
  have run: "queue_ok (fst (enrich costs (newest_artifact db1) opts (select_items opts db1) [] db1)) \<and>
      queue_grows db1 (fst (enrich costs (newest_artifact db1) opts (select_items opts db1) [] db1))" if "queue_ok db1" for db1
    by (rule enrich_keeps[OF that]) (auto simp: select_items_def queue_order_def known_item_def dest!: in_set_takeD)
  show ?thesis
  proof (cases "if cp_recoverInterruptedClaims opts then Inr db else expireInterruptedClaims (cp_dbNow opts) (cp_now opts) None False (cp_requestId opts) db")
    case (Inr db1)
    then have "queue_ok db1 \<and> queue_grows db db1" using expire_keeps assms by (auto split: if_splits)
    then show ?thesis using run[of db1] queue_grows_trans[of db db1] assms Inr by (auto simp: listCandidates_def)
  qed (use assms in \<open>auto simp: listCandidates_def\<close>)
qed

section \<open>Accepting keeps the tables consistent\<close>

lemma reaudit_item_inserted:
  assumes "insert_item i db = Inr db'" "rows_ok db" "item_ok i" "it_requestId i \<in> rq_id ` set (qd_requests db)"
  shows "rows_ok db'" "db' = db\<lparr> qd_items := qd_items db @ [i] \<rparr>"
proof -
  have free: "\<not> list_ex (\<lambda>x. it_id x = it_id i \<or> (it_requestId x = it_requestId i \<and> it_callId x = it_callId i) \<or>
      (active_call_id x \<noteq> None \<and> active_call_id x = active_call_id i)) (qd_items db)" and db': "db' = db\<lparr> qd_items := qd_items db @ [i] \<rparr>"
    using assms(1) by (auto simp: insert_item_def split: if_splits)
  show "db' = db\<lparr> qd_items := qd_items db @ [i] \<rparr>" by (rule db')
  have "it_id i \<notin> it_id ` set (qd_items db)" using free by (auto simp: list_ex_iff)
  moreover have "live i \<Longrightarrow> it_callId i \<notin> it_callId ` set (filter live (qd_items db))"
    using free by (auto simp: list_ex_iff active_call_id_def)
  ultimately show "rows_ok db'" using assms(2-4) by (auto simp: db' rows_ok_def)
qed

lemma reaudit_items_inserted:
  assumes "insert_items env input n calls db = Inr db'" "rows_ok db" "qe_requestId env \<in> rq_id ` set (qd_requests db)"
  shows "rows_ok db' \<and> db' = db\<lparr> qd_items := qd_items db @ map (\<lambda>(k, c). new_item env input k c) (enumerate n calls) \<rparr>"
  using assms
proof (induction calls arbitrary: n db)
  case (Cons c calls)
  obtain db1 where one: "insert_item (new_item env input n c) db = Inr db1" and rest: "insert_items env input (Suc n) calls db1 = Inr db'"
    using Cons.prems(1) by (auto simp: rbind_Inr_iff)
  have "item_ok (new_item env input n c)" "it_requestId (new_item env input n c) \<in> rq_id ` set (qd_requests db)"
    using Cons.prems(3) by (simp_all add: item_ok_def new_item_def)
  note ins = reaudit_item_inserted[OF one Cons.prems(2) this]
  have "qe_requestId env \<in> rq_id ` set (qd_requests db1)" using Cons.prems(3) ins(2) by simp
  then show ?case using Cons.IH[OF rest ins(1)] ins(2) by auto
qed simp

lemma items_of_append: "items_of q (xs @ ys) = items_of q xs @ items_of q ys"
  by (simp add: items_of_def)

lemma insert_request_ok:
  assumes "insert_request r db = Inr db'" "rows_ok db"
  shows "rows_ok db'" "db' = db\<lparr> qd_requests := qd_requests db @ [r] \<rparr>" "rq_id r \<notin> rq_id ` set (qd_requests db)"
    "1 \<le> rq_requestedCount r" "rq_requestedCount r \<le> 100"
proof -
  have free: "\<not> list_ex (\<lambda>x. rq_id x = rq_id r \<or> same_key (rq_idempotencyKey x) (rq_idempotencyKey r)) (qd_requests db)"
    and db': "db' = db\<lparr> qd_requests := qd_requests db @ [r] \<rparr>" and "1 \<le> rq_requestedCount r" "rq_requestedCount r \<le> 100"
    using assms(1) by (auto simp: insert_request_def split: if_splits)
  then show "db' = db\<lparr> qd_requests := qd_requests db @ [r] \<rparr>" "1 \<le> rq_requestedCount r" "rq_requestedCount r \<le> 100" by simp_all
  show fresh: "rq_id r \<notin> rq_id ` set (qd_requests db)" using free by (auto simp: list_ex_iff)
  have "row_at rq_idempotencyKey (rq_idempotencyKey r) (qd_requests db) = None" using free by (simp add: row_at_None list_ex_iff)
  then show "rows_ok db'" using assms(2) fresh by (auto simp: db' rows_ok_def unique_keys_append)
qed

lemma new_items_summary:
  assumes "rq_id r = qe_requestId env" "rq_requestedCount r = length calls" "rq_completedCount r = 0" "rq_failedCount r = 0" "rq_skippedCount r = 0"
    and "rq_status r = Request_queued" "items_of (qe_requestId env) items = []" "1 \<le> rq_requestedCount r" "rq_requestedCount r \<le> 100"
  shows "sized_ok (items @ map (\<lambda>(k, c). new_item env input k c) (enumerate n calls)) r \<and>
    summary_ok (items @ map (\<lambda>(k, c). new_item env input k c) (enumerate n calls)) r"
proof -
  let ?new = "map (\<lambda>(k, c). new_item env input k c) (enumerate n calls)"
  have "\<forall>i \<in> set ?new. it_requestId i = qe_requestId env \<and> it_status i = Queued" by (auto simp: new_item_def)
  then have "items_of (qe_requestId env) ?new = ?new" "count_status s ?new = (if s = Queued then length ?new else 0)"
      "list_all (\<lambda>i. it_status i = Queued) ?new" for s
    by (auto simp: items_of_def count_status_def filter_empty_conv list_all_iff)
  then show ?thesis using assms by (simp add: sized_ok_def summary_ok_def items_of_append request_status_def)
qed

lemma accept_keeps:
  assumes "queue_ok db" "insert_request (new_request rt env input (length calls)) db = Inr db2" "insert_items env input 0 calls db2 = Inr db3"
  shows "queue_ok db3 \<and> queue_grows db db3"
proof -
  let ?r = "new_request rt env input (length calls)"
  let ?new = "map (\<lambda>(k, c). new_item env input k c) (enumerate 0 calls)"
  have rows: "rows_ok db" using assms(1) by (simp add: queue_ok_def)
  note req = insert_request_ok[OF assms(2) rows]
  have id: "rq_id ?r = qe_requestId env" by (simp add: new_request_def)
  then have "qe_requestId env \<in> rq_id ` set (qd_requests db2)" using req(2) by simp
  note ins = reaudit_items_inserted[OF assms(3) req(1) this]
  have db3: "qd_items db3 = qd_items db @ ?new" "qd_requests db3 = qd_requests db @ [?r]" using ins req(2) by simp_all
  have "items_of (qe_requestId env) (qd_items db) = []"
    using rows req(3) unfolding id items_of_def filter_empty_conv rows_ok_def by metis
  then have "sized_ok (qd_items db3) ?r \<and> summary_ok (qd_items db3) ?r"
    unfolding db3(1) by (intro new_items_summary) (use req(4,5) in \<open>simp_all add: new_request_def\<close>)
  moreover have "items_of (rq_id r) ?new = []" if "r \<in> set (qd_requests db)" for r
    using req(3) id that by (auto simp: items_of_def filter_empty_conv new_item_def)
  then have "sized_ok (qd_items db3) r \<and> summary_ok (qd_items db3) r" if "r \<in> set (qd_requests db)" for r
    using assms(1) that by (auto simp: queue_ok_def sized_ok_def summary_ok_def db3(1) items_of_append)
  moreover have "queue_grows db db3" unfolding queue_grows_def db3 by (metis item_moves_refl list.rel_refl request_kept_refl)
  ultimately show ?thesis using ins db3(2) by (auto simp: queue_ok_def)
qed

lemma enqueue_keeps:
  assumes "queue_ok db"
  shows "queue_ok (fst (enqueue rt env period input db)) \<and> queue_grows db (fst (enqueue rt env period input db))"
proof -
  have "queue_ok db' \<and> queue_grows db db'" if run: "enqueue_transaction rt env period input db = Inr (db', receipt)" for db' receipt
  proof (cases "loadRequest db (qi_idempotencyKey input)")
    case None
    let ?accepted = "\<lambda>calls db1. filter (\<lambda>c. fst c \<notin> set (remdups [it_callId i. i \<leftarrow> qd_items db1, live i \<and> it_callId i \<in> fst ` set calls])) calls"
    from None obtain calls db1 where e: "expireInterruptedClaims (qe_dbNow env) (qe_now env) (Some (map fst calls)) False None db = Inr db1"
      and "db' = db1 \<or> (\<exists>db2. insert_request (new_request rt env input (length (?accepted calls db1))) db1 = Inr db2 \<and>
         insert_items env input 0 (?accepted calls db1) db2 = Inr db')"
      using run unfolding enqueue_transaction_def Let_def
      by (auto simp: rbind_Inr_iff simp del: set_remdups set_concat split: if_splits)
    then have rest: "db' = db1 \<or> (\<exists>accepted db2. insert_request (new_request rt env input (length accepted)) db1 = Inr db2 \<and>
         insert_items env input 0 accepted db2 = Inr db')" by blast
    note one = expire_keeps[OF e assms]
    then have "queue_ok db' \<and> queue_grows db1 db'" using rest accept_keeps[of db1 rt env input] by auto
    then show ?thesis using one queue_grows_trans[of db db1 db'] by blast
  qed (use run assms in \<open>auto simp: enqueue_transaction_def split: if_splits\<close>)
  then show ?thesis using assms by (auto simp: enqueue_def split: sum.splits)
qed

section \<open>The other tables\<close>

text \<open>The queue's operations write its own two tables only.\<close>

definition same_evidence :: "queue_db \<Rightarrow> queue_db \<Rightarrow> bool" where
  "same_evidence db db' \<longleftrightarrow>
     qd_calls db' = qd_calls db \<and> qd_runs db' = qd_runs db \<and> qd_artifacts db' = qd_artifacts db \<and>
     qd_invoices db' = qd_invoices db \<and> qd_leases db' = qd_leases db"

lemma same_evidence_refl [simp]: "same_evidence db db"
  by (simp add: same_evidence_def)

lemma same_evidence_trans: "same_evidence a b \<Longrightarrow> same_evidence b c \<Longrightarrow> same_evidence a c"
  by (simp add: same_evidence_def)

lemma settle_evidence: "settleManualReauditItem q t oc code now db = Inr db' \<Longrightarrow> same_evidence db db'"
  by (auto simp: settleManualReauditItem_def Let_def same_evidence_def split: if_splits)

lemma claim_evidence [simp]: "same_evidence db (fst (claim_item t now db))"
  by (simp add: claim_item_def Let_def same_evidence_def)

lemma settle_all_evidence: "settle_all now is db = Inr db' \<Longrightarrow> same_evidence db db'"
  by (induction "is" arbitrary: db) (auto simp: rbind_Inr_iff dest: settle_evidence intro: same_evidence_trans)

lemma expire_evidence: "expireInterruptedClaims dbNow now callIds recoverAll requestId db = Inr db' \<Longrightarrow> same_evidence db db'"
  by (auto simp: expireInterruptedClaims_def dest: settle_all_evidence split: if_splits)

lemma enrich_evidence: "same_evidence db (fst (enrich costs artifact opts is candidates db))"
proof (induction "is" arbitrary: candidates db)
  case (Cons i "is")
  have "same_evidence db db1" if "settle_unavailable opts i db = Inr db1" for db1
    using that settle_evidence claim_evidence same_evidence_trans unfolding settle_unavailable_def by blast
  then show ?case using Cons.IH same_evidence_trans[OF _ Cons.IH] by (auto split: option.splits sum.splits)
qed simp

lemma listCandidates_evidence: "same_evidence db (fst (listCandidates costs opts db))"
proof (cases "if cp_recoverInterruptedClaims opts then Inr db else expireInterruptedClaims (cp_dbNow opts) (cp_now opts) None False (cp_requestId opts) db")
  case (Inr db1)
  then have "same_evidence db db1" using expire_evidence by (auto split: if_splits)
  then show ?thesis using Inr same_evidence_trans[OF _ enrich_evidence] by (simp add: listCandidates_def)
qed (simp add: listCandidates_def)

lemma insert_items_evidence: "insert_items env input n calls db = Inr db' \<Longrightarrow> same_evidence db db'"
proof (induction calls arbitrary: n db)
  case (Cons c calls)
  then obtain db1 where one: "insert_item (new_item env input n c) db = Inr db1" and rest: "insert_items env input (Suc n) calls db1 = Inr db'"
    by (auto simp: rbind_Inr_iff)
  have "same_evidence db db1" using one by (auto simp: insert_item_def same_evidence_def split: if_splits)
  then show ?case using Cons.IH[OF rest] same_evidence_trans by blast
qed simp

lemma insert_request_evidence: "insert_request r db = Inr db' \<Longrightarrow> same_evidence db db'"
  by (auto simp: insert_request_def same_evidence_def split: if_splits)

lemma enqueue_evidence: "same_evidence db (fst (enqueue rt env period input db))"
proof -
  have "same_evidence db db'" if "enqueue_transaction rt env period input db = Inr (db', receipt)" for db' receipt
    using that expire_evidence insert_request_evidence insert_items_evidence
    by (auto simp: enqueue_transaction_def rbind_Inr_iff Let_def split: option.splits if_splits) (meson same_evidence_trans)+
  then show ?thesis by (auto simp: enqueue_def split: sum.splits)
qed

end
