(* ===== verification/AuditWriter.thy ===== *)
theory AuditWriter
  imports ManualQueue Outbox
begin

text \<open>
  The writer of audit results (\<open>src/src/adapters/mysqlReauditWriteRepo.ts\<close>, with \<open>src/src/adapters/mysqlAiUsage.ts\<close>): the claim of
  a call before a model is paid and the transaction that stores what came of it, in the three modes of the
  code (ordinary intake, targeted re-audit, a re-audit an administrator asked for). A transaction that fails
  leaves the tables as they were. New identifiers and the clock of the database are arguments; a canonical
  JSON column holds the canonical text.
\<close>

section \<open>Tables\<close>

record FindingRow =
  fn_id :: string
  fn_auditRunId :: string
  fn_callId :: string
  fn_findingCode :: string
  fn_severity :: string
  fn_origin :: string
  fn_confidence :: "string option"
  fn_confirmationStatus :: string
  fn_evidenceRefsJson :: string
  fn_signalValuesJson :: string
  fn_billingRelevance :: string
  fn_explanation :: string

record MediaAnalysisRow =
  ma_id :: string
  ma_callArtifactId :: string
  ma_inputSha256 :: string
  ma_analyzerVersion :: string
  ma_configVersion :: string
  ma_status :: string
  ma_decodedDurationMs :: int
  ma_speechMs :: int
  ma_customerSpeechMs :: int
  ma_agentSpeechMs :: int
  ma_conversationEndMs :: "int option"
  ma_classificationStatus :: string
  ma_metricsJson :: string

record TranscriptRow =
  tp_id :: string
  tp_callId :: string
  tp_callArtifactId :: string
  tp_model :: ModelIdentity
  tp_language :: string
  tp_status :: string
  tp_inputSha256 :: string

record SegmentRow =
  sr_id :: string
  sr_transcriptId :: string
  sr_segment :: TranscriptSegment
  sr_language :: string

record UsageRow =
  ur_id :: string
  ur_auditRunId :: string
  ur_callId :: string
  ur_operation :: string
  ur_passName :: string
  ur_model :: ModelIdentity
  ur_inputTokens :: "int option"
  ur_outputTokens :: "int option"
  ur_totalTokens :: "int option"
  ur_audioSeconds :: "string option"
  ur_requestId :: "string option"
  ur_recordedAt :: int

record audit_db =
  ad_queue :: queue_db
  ad_findings :: "FindingRow list"
  ad_media :: "MediaAnalysisRow list"
  ad_transcripts :: "TranscriptRow list"
  ad_segments :: "SegmentRow list"
  ad_usage :: "UsageRow list"
  ad_outbox :: outbox

section \<open>Model usage\<close>

definition nonNegativeInteger :: "int option \<Rightarrow> string \<Rightarrow> int option res" where
  "nonNegativeInteger v name =
     (case v of None \<Rightarrow> Inr None
      | Some n \<Rightarrow> if \<not> isSafeInteger n \<or> n < 0 then Inl (RangeError (name @ '' must be a non-negative safe integer'')) else Inr (Some n))"

definition audioSeconds :: "int option \<Rightarrow> string option res" where
  "audioSeconds v =
     (case v of None \<Rightarrow> Inr None
      | Some n \<Rightarrow> if n < 0 then Inl (RangeError ''audioSeconds must be non-negative'') else Inr (Some (toFixed 3 (of_int n))))"

definition insertAiUsageEvent ::
  "string \<Rightarrow> string \<Rightarrow> string \<Rightarrow> string \<Rightarrow> string \<Rightarrow> ModelIdentity \<Rightarrow> AiUsage \<Rightarrow> int \<Rightarrow> UsageRow list \<Rightarrow> UsageRow list res" where
  "insertAiUsageEvent uuid auditRunId callId operation passName model usage now rows =
     rbind (nonNegativeInteger (us_inputTokens usage) ''inputTokens'') (\<lambda>inputTokens.
     rbind (nonNegativeInteger (us_outputTokens usage) ''outputTokens'') (\<lambda>outputTokens.
     rbind (nonNegativeInteger (us_totalTokens usage) ''totalTokens'') (\<lambda>totalTokens.
     if operation = ''classification'' \<and>
        (case (totalTokens, inputTokens, outputTokens) of (Some t, Some i, Some k) \<Rightarrow> t < i + k | _ \<Rightarrow> False)
     then Inl (RangeError ''totalTokens cannot be less than inputTokens + outputTokens'')
     else rbind (audioSeconds (us_audioSeconds usage)) (\<lambda>seconds.
       if list_ex (\<lambda>r. ur_id r = uuid \<or> (ur_auditRunId r = auditRunId \<and> ur_operation r = operation \<and> ur_passName r = passName)) rows
       then Inr rows
       else Inr (rows @ [\<lparr> ur_id = uuid, ur_auditRunId = auditRunId, ur_callId = callId, ur_operation = operation, ur_passName = passName,
              ur_model = model, ur_inputTokens = inputTokens, ur_outputTokens = outputTokens, ur_totalTokens = totalTokens,
              ur_audioSeconds = seconds, ur_requestId = us_requestId usage, ur_recordedAt = now \<rparr>])))))"

section \<open>Codes\<close>

definition MAX_ATTEMPTS :: nat where
  "MAX_ATTEMPTS = 8"

definition retryDelayMs :: "nat \<Rightarrow> int" where
  "retryDelayMs attempt = min (6 * 60 * 60000) (60000 * 2 ^ (attempt - 1))"

fun failureStatus :: "reaudit_outcome \<Rightarrow> string" where
  "failureStatus Source_missing = ''fetch_failed''"
| "failureStatus Transcription_failed = ''transcribe_failed''"
| "failureStatus Classification_failed = ''classify_failed''"
| "failureStatus _ = ''exhausted''"

definition retryableProviderError :: "string option \<Rightarrow> bool" where
  "retryableProviderError errorCode =
     (case errorCode of None \<Rightarrow> False
      | Some code \<Rightarrow> startsWith code ''TRANSCRIPTION_PROVIDER_'' \<or> startsWith code ''CLASSIFICATION_PROVIDER_'')"

fun failureFinding :: "reaudit_outcome \<Rightarrow> string" where
  "failureFinding Source_missing = ''SOURCE_MISSING''"
| "failureFinding Evidence_altered = ''EVIDENCE_ALTERED''"
| "failureFinding Unsafe_url = ''UNSAFE_SOURCE_URL''"
| "failureFinding Transcription_failed = ''TRANSCRIPTION_FAILED''"
| "failureFinding Spend_state_unknown = ''SPEND_STATE_UNKNOWN''"
| "failureFinding _ = ''CLASSIFICATION_FAILED''"

fun reaudit_outcome_text :: "reaudit_outcome \<Rightarrow> string" where
  "reaudit_outcome_text Projected = ''projected''"
| "reaudit_outcome_text Source_missing = ''source_missing''"
| "reaudit_outcome_text Evidence_altered = ''evidence_altered''"
| "reaudit_outcome_text Unsafe_url = ''unsafe_url''"
| "reaudit_outcome_text Transcription_failed = ''transcription_failed''"
| "reaudit_outcome_text Classification_failed = ''classification_failed''"
| "reaudit_outcome_text Spend_state_unknown = ''spend_state_unknown''"

definition terminal_failure :: "ReauditItemResult \<Rightarrow> nat \<Rightarrow> bool" where
  "terminal_failure result attempt =
     (ir_outcome result = Evidence_altered \<or> ir_outcome result = Unsafe_url \<or>
      (ir_outcome result = Transcription_failed \<and> \<not> retryableProviderError (ir_errorCode result)) \<or>
      (ir_outcome result = Classification_failed \<and> \<not> retryableProviderError (ir_errorCode result)) \<or>
      ir_outcome result = Spend_state_unknown \<or> attempt \<ge> MAX_ATTEMPTS)"

section \<open>The claim\<close>

record writer_options =
  wo_allowCompletedReaudit :: bool
  wo_manualRequest :: bool

definition allow_completed :: "writer_options \<Rightarrow> bool" where
  "allow_completed opts = (wo_allowCompletedReaudit opts \<or> wo_manualRequest opts)"

definition manualRequestOf :: "ReauditCandidate \<Rightarrow> manual_request res" where
  "manualRequestOf candidate =
     (case ra_manualRequest candidate of
        None \<Rightarrow> Inl (ManualReauditError ''REAUDIT_ITEM_UNCLAIMED'' 500) | Some m \<Rightarrow> Inr m)"

datatype start_result = Acquired | Start_already_completed

definition manual_item :: "queue_db \<Rightarrow> manual_request \<Rightarrow> string \<Rightarrow> ManualItemRow option" where
  "manual_item db request callId =
     find (\<lambda>i. it_id i = mr_itemId request \<and> it_requestId i = mr_requestId request \<and> it_callId i = callId) (qd_items db)"

definition start_request :: "string \<Rightarrow> int \<Rightarrow> queue_db \<Rightarrow> queue_db" where
  "start_request requestId now db =
     db\<lparr> qd_requests := map (\<lambda>r. if rq_id r = requestId \<and> rq_status r = Request_queued
            then r\<lparr> rq_status := Request_running, rq_startedAt := Some (coalesce (rq_startedAt r) now) \<rparr> else r) (qd_requests db) \<rparr>"

definition baseline_decision_of :: "queue_db \<Rightarrow> manual_request \<Rightarrow> string \<Rightarrow> baseline_decision" where
  "baseline_decision_of db request callId =
     manualReauditBaselineDecision (mr_baselineAuditRunId request) (manualReauditLatestAuditRunId db callId)"

definition start_manual :: "ReauditCandidate \<Rightarrow> int \<Rightarrow> queue_db \<Rightarrow> (queue_db \<times> start_result) res" where
  "start_manual candidate now db =
     rbind (manualRequestOf candidate) (\<lambda>request.
     case manual_item db request (ra_callId candidate) of
       None \<Rightarrow> Inr (db, Start_already_completed)
     | Some i \<Rightarrow>
         if \<not> live i then Inr (db, Start_already_completed)
         else
           let (db1, n) = (if it_status i = Queued then claim_item (mr_itemId request) now db else (db, 1)) in
           if n \<noteq> 1 then Inr (db1, Start_already_completed)
           else
             let db2 = (if it_status i = Queued then start_request (mr_requestId request) now db1 else db1) in
             if baseline_decision_of db request (ra_callId candidate) = Skip_baseline_changed then
               rbind (settleManualReauditItem (mr_requestId request) (mr_itemId request) Skipped None now db2) (\<lambda>db3.
               Inr (db3, Start_already_completed))
             else Inr (db2, Acquired))"

definition completed_run :: "queue_db \<Rightarrow> string \<Rightarrow> bool" where
  "completed_run db callId = list_ex (\<lambda>r. rn_callId r = callId \<and> rn_status r = ''completed'') (qd_runs db)"

text \<open>The current run of the call is completed and under the deployed rules.\<close>

definition current_under_rules :: "queue_db \<Rightarrow> string \<Rightarrow> bool" where
  "current_under_rules db callId =
     list_ex (\<lambda>c. call_id c = callId \<and> cx_outcomeTaxonomyVersion c = Some REAUDIT_CLASSIFIER_RULESET_VERSION \<and>
       (case cx_latestAuditRunId c of None \<Rightarrow> False
        | Some i \<Rightarrow> list_ex (\<lambda>r. rn_id r = i \<and> rn_status r = ''completed'') (qd_runs db))) (qd_calls db)"

definition already_audited :: "audit_db \<Rightarrow> ReauditCandidate \<Rightarrow> bool" where
  "already_audited db candidate =
     (completed_run (ad_queue db) (ra_callId candidate) \<or>
      (list_ex (\<lambda>c. call_id c = ra_callId candidate \<and> cx_canonicalOutcomeCode c \<noteq> None) (qd_calls (ad_queue db)) \<and>
       list_ex (\<lambda>m. ma_callArtifactId m = ra_artifactId candidate \<and> ma_status m = ''completed'' \<and> ma_classificationStatus m = ''completed'') (ad_media db) \<and>
       list_ex (\<lambda>t. tp_callId t = ra_callId candidate \<and> tp_callArtifactId t = ra_artifactId candidate \<and> tp_status t = ''completed'') (ad_transcripts db)))"

definition startable_artifact :: "ReauditCandidate \<Rightarrow> StoredArtifact \<Rightarrow> bool" where
  "startable_artifact candidate a =
     (ca_id a = ra_artifactId candidate \<and> final_recording (ra_callId candidate) a \<and>
      (coalesce (ca_audioProcessingStatus a) ''pending'' \<notin> {''completed'', ''exhausted''} \<or>
       (ca_audioProcessingStatus a = Some ''exhausted'' \<and>
        ca_audioLastError a \<in> {Some ''CLASSIFICATION_VALIDATION_FAILED'', Some ''AUDIT_SPEND_STATE_UNKNOWN''} \<and>
        coalesce (ca_audioAttemptCount a) 0 < 8)))"

definition started_artifact :: "int \<Rightarrow> StoredArtifact \<Rightarrow> StoredArtifact" where
  "started_artifact now a =
     a\<lparr> ca_audioProcessingStatus := Some ''processing'', ca_audioAttemptCount := Some (coalesce (ca_audioAttemptCount a) 0 + 1),
        ca_audioLastAttemptAt := Some now, ca_audioNextAttemptAt := None, ca_audioLastError := None \<rparr>"

definition start_intake :: "ReauditCandidate \<Rightarrow> int \<Rightarrow> queue_db \<Rightarrow> queue_db \<times> start_result" where
  "start_intake candidate now db =
     (db\<lparr> qd_artifacts := map (\<lambda>a. if startable_artifact candidate a then started_artifact now a else a) (qd_artifacts db) \<rparr>,
      if length (filter (startable_artifact candidate) (qd_artifacts db)) = 1 then Acquired else Start_already_completed)"

definition markStarted :: "writer_options \<Rightarrow> ReauditCandidate \<Rightarrow> int \<Rightarrow> audit_db \<Rightarrow> audit_db \<times> start_result res" where
  "markStarted opts candidate now db =
     (if wo_manualRequest opts then
        (case start_manual candidate now (ad_queue db) of
           Inl e \<Rightarrow> (db, Inl e)
         | Inr (q, r) \<Rightarrow> (db\<lparr> ad_queue := q \<rparr>, Inr r))
      else if (if allow_completed opts then current_under_rules (ad_queue db) (ra_callId candidate) else already_audited db candidate)
      then (db, Inr Start_already_completed)
      else if allow_completed opts then (db, Inr Acquired)
      else (case start_intake candidate now (ad_queue db) of (q, r) \<Rightarrow> (db\<lparr> ad_queue := q \<rparr>, Inr r)))"

section \<open>The rows of a result\<close>

record persist_env =
  pe_auditRunId :: string
  pe_mediaAnalysisId :: string
  pe_transcriptId :: string
  pe_findingId :: string
  pe_segmentId :: "nat \<Rightarrow> string"
  pe_asrUsageId :: string
  pe_classifierUsageId :: string
  pe_outboxId :: string
  pe_dbNow :: int
  pe_rulesetSha256 :: string

definition json_bool_opt :: "bool option \<Rightarrow> json" where
  "json_bool_opt b = (case b of None \<Rightarrow> JNull | Some x \<Rightarrow> JBool x)"

definition json_blocks :: "int list \<Rightarrow> json" where
  "json_blocks ns = JArr (map JNum ns)"

definition decisionSignalsJson :: "ClassificationDecisionSignals option \<Rightarrow> json" where
  "decisionSignalsJson signals =
     (case signals of
        None \<Rightarrow> JNull
      | Some s \<Rightarrow> JObj
          [(''counterpartyType'', json_str_opt (ds_counterpartyType s)), (''agentHandling'', json_str_opt (ds_agentHandling s)),
           (''conversationOutcome'', json_str_opt (ds_conversationOutcome s)), (''durationOutcome'', json_str_opt (ds_durationOutcome s)),
           (''stopIntent'', json_str_opt (ds_stopIntent s)), (''postStopBehavior'', json_str_opt (ds_postStopBehavior s)),
           (''successfulOutcome'', json_str_opt (ds_successfulOutcome s)), (''voicemailEvidence'', json_str_opt (ds_voicemailEvidence s)),
           (''automationEvidence'', json_str_opt (ds_automationEvidence s)), (''junkEvidence'', json_str_opt (ds_junkEvidence s)),
           (''agentFailureMode'', json_str_opt (ds_agentFailureMode s)),
           (''meaningfulServiceBeforeFailure'', json_bool_opt (ds_meaningfulServiceBeforeFailure s))])"

definition input_manifest :: "persist_env \<Rightarrow> ReauditCandidate \<Rightarrow> ReauditItemResult \<Rightarrow> json" where
  "input_manifest env candidate result =
     JObj [(''schemaVersion'', JStr ''1''), (''callId'', JStr (ra_callId candidate)), (''artifactId'', JStr (ra_artifactId candidate)),
       (''sourceEvidenceSha256'', case ir_analysis result of Some a \<Rightarrow> JStr (an_evidenceSha256 a) | None \<Rightarrow> json_str_opt (ra_baselineSha256 candidate)),
       (''engineVersion'', JStr REAUDIT_ENGINE_VERSION), (''classifierRulesetVersion'', JStr REAUDIT_CLASSIFIER_RULESET_VERSION),
       (''classifierRulesetSha256'', JStr (pe_rulesetSha256 env))]"

definition audit_run :: "persist_env \<Rightarrow> ReauditCandidate \<Rightarrow> string \<Rightarrow> string \<Rightarrow> int \<Rightarrow> AuditRunRow" where
  "audit_run env candidate manifest status now =
     \<lparr> rn_id = pe_auditRunId env, rn_callId = ra_callId candidate, rn_engineVersion = REAUDIT_ENGINE_VERSION,
       rn_inputManifestSha256 = manifest, rn_status = status, rn_startedAt = now, rn_completedAt = now \<rparr>"

definition insert_row :: "('r \<Rightarrow> bool) \<Rightarrow> 'r \<Rightarrow> 'r list \<Rightarrow> 'r list res" where
  "insert_row conflict r rows = (if list_ex conflict rows then Inl duplicate_entry else Inr (rows @ [r]))"

definition insert_run :: "AuditRunRow \<Rightarrow> queue_db \<Rightarrow> queue_db res" where
  "insert_run r db = rbind (insert_row (\<lambda>x. rn_id x = rn_id r) r (qd_runs db)) (\<lambda>runs. Inr (db\<lparr> qd_runs := runs \<rparr>))"

definition failure_explanation :: "writer_options \<Rightarrow> string" where
  "failure_explanation opts =
     (if wo_manualRequest opts then ''Requested re-audit could not complete; the prior completed audit remains current.''
      else if allow_completed opts then ''Targeted re-audit could not complete; the prior completed audit remains current.''
      else ''Automated audit could not complete; the call remains unresolved.'')"

definition failure_finding_row :: "writer_options \<Rightarrow> persist_env \<Rightarrow> ReauditCandidate \<Rightarrow> ReauditItemResult \<Rightarrow> nat \<Rightarrow> FindingRow" where
  "failure_finding_row opts env candidate result attempt =
     \<lparr> fn_id = pe_findingId env, fn_auditRunId = pe_auditRunId env, fn_callId = ra_callId candidate,
       fn_findingCode = failureFinding (ir_outcome result), fn_severity = ''high'', fn_origin = ''rule'', fn_confidence = None,
       fn_confirmationStatus = ''system_observed'',
       fn_evidenceRefsJson = canonical (JObj [(''artifactId'', JStr (ra_artifactId candidate)), (''baselineSha256'', json_str_opt (ra_baselineSha256 candidate))]),
       fn_signalValuesJson = canonical (JObj [(''errorCode'', JStr (coalesce (ir_errorCode result) ''unknown'')), (''attempt'', JNum (int attempt))]),
       fn_billingRelevance = ''blocks_close'', fn_explanation = failure_explanation opts \<rparr>"

definition metrics_json :: "runtime \<Rightarrow> persist_env \<Rightarrow> ReauditAnalysis \<Rightarrow> ModelClassification \<Rightarrow> json" where
  "metrics_json rt env analysis classification =
     JObj [(''durationMismatch'', JBool (an_durationMismatch analysis)), (''disputeRecommended'', JBool (an_disputeRecommended analysis)),
       (''classifierRulesetVersion'', JStr REAUDIT_CLASSIFIER_RULESET_VERSION), (''classifierRulesetSha256'', JStr (pe_rulesetSha256 env)),
       (''categoryChargePolicyVersion'', JStr CATEGORY_CHARGE_POLICY_VERSION), (''categoryChargePolicySha256'', JStr (CATEGORY_CHARGE_POLICY_SHA256 rt)),
       (''categoryChargePolicyCode'', JStr (policy_text (an_categoryChargePolicyCode analysis))),
       (''chargeableServiceEndMs'', JNum (an_chargeableServiceEndMs analysis)), (''appliedBillingGraceMs'', JNum (an_appliedBillingGraceMs analysis)),
       (''agentBlockNumbers'', json_blocks (coalesce (mc_agentBlockNumbers classification) [])),
       (''agentFailureMode'', mode_json (mc_agentFailureMode classification)),
       (''meaningfulServiceBeforeFailure'', JBool (mc_meaningfulServiceBeforeFailure classification = Some True)),
       (''failureStartMs'', json_int_opt (mc_failureStartMs classification)),
       (''agentFailureStartBlockNumber'', json_int_opt (mc_agentFailureStartBlockNumber classification))]"

definition media_row :: "runtime \<Rightarrow> persist_env \<Rightarrow> ReauditCandidate \<Rightarrow> ReauditAnalysis \<Rightarrow> ModelClassification \<Rightarrow> MediaAnalysisRow" where
  "media_row rt env candidate analysis classification =
     \<lparr> ma_id = pe_mediaAnalysisId env, ma_callArtifactId = ra_artifactId candidate, ma_inputSha256 = an_evidenceSha256 analysis,
       ma_analyzerVersion = REAUDIT_ENGINE_VERSION, ma_configVersion = ''2:'' @ pe_auditRunId env, ma_status = ''completed'',
       ma_decodedDurationMs = an_recordedDurationMs analysis, ma_speechMs = an_speechDurationMs analysis,
       ma_customerSpeechMs = an_customerSpeechMs analysis, ma_agentSpeechMs = an_agentSpeechMs analysis,
       ma_conversationEndMs = an_lastMeaningfulCustomerExchangeMs analysis, ma_classificationStatus = ''completed'',
       ma_metricsJson = canonical (metrics_json rt env analysis classification) \<rparr>"

definition transcript_row :: "string \<Rightarrow> ReauditCandidate \<Rightarrow> ReauditAnalysis \<Rightarrow> TranscriptionResult \<Rightarrow> TranscriptRow" where
  "transcript_row transcriptId candidate analysis transcript =
     \<lparr> tp_id = transcriptId, tp_callId = ra_callId candidate, tp_callArtifactId = ra_artifactId candidate, tp_model = ts_model transcript,
       tp_language = ts_language transcript, tp_status = ''completed'', tp_inputSha256 = an_evidenceSha256 analysis \<rparr>"

definition segment_rows :: "persist_env \<Rightarrow> string \<Rightarrow> TranscriptionResult \<Rightarrow> SegmentRow list" where
  "segment_rows env transcriptId transcript =
     map (\<lambda>(k, s). \<lparr> sr_id = pe_segmentId env k, sr_transcriptId = transcriptId, sr_segment = s, sr_language = ts_language transcript \<rparr>)
       (enumerate 0 (ts_segments transcript))"

definition signals_json :: "runtime \<Rightarrow> persist_env \<Rightarrow> ReauditAnalysis \<Rightarrow> ModelClassification \<Rightarrow> json" where
  "signals_json rt env analysis classification =
     JObj [(''model'', model_json (mc_model classification)), (''rulesetVersion'', JStr REAUDIT_CLASSIFIER_RULESET_VERSION),
       (''rulesetSha256'', JStr (pe_rulesetSha256 env)), (''decisionSignals'', decisionSignalsJson (mc_decisionSignals classification)),
       (''customerBlockNumbers'', json_blocks (mc_customerBlockNumbers classification)),
       (''unclearBlockNumbers'', json_blocks (mc_unclearBlockNumbers classification)),
       (''voicemailEvidenceBlockNumbers'', json_blocks (coalesce (mc_voicemailEvidenceBlockNumbers classification) [])),
       (''automationEvidenceBlockNumbers'', json_blocks (coalesce (mc_automationEvidenceBlockNumbers classification) [])),
       (''junkEvidenceBlockNumbers'', json_blocks (coalesce (mc_junkEvidenceBlockNumbers classification) [])),
       (''agentBlockNumbers'', json_blocks (coalesce (mc_agentBlockNumbers classification) [])),
       (''agentFailureMode'', mode_json (mc_agentFailureMode classification)),
       (''meaningfulServiceBeforeFailure'', JBool (mc_meaningfulServiceBeforeFailure classification = Some True)),
       (''failureStartMs'', json_int_opt (mc_failureStartMs classification)),
       (''agentFailureStartBlockNumber'', json_int_opt (mc_agentFailureStartBlockNumber classification)),
       (''recordedDurationMs'', JNum (an_recordedDurationMs analysis)), (''speechDurationMs'', JNum (an_speechDurationMs analysis)),
       (''conversationEndMs'', json_int_opt (an_lastMeaningfulCustomerExchangeMs analysis)),
       (''chargeableServiceEndMs'', JNum (an_chargeableServiceEndMs analysis)), (''appliedBillingGraceMs'', JNum (an_appliedBillingGraceMs analysis)),
       (''categoryChargePolicyVersion'', JStr CATEGORY_CHARGE_POLICY_VERSION), (''categoryChargePolicySha256'', JStr (CATEGORY_CHARGE_POLICY_SHA256 rt)),
       (''categoryChargePolicyCode'', JStr (policy_text (an_categoryChargePolicyCode analysis))),
       (''durationMismatch'', JBool (an_durationMismatch analysis)), (''disputeRecommended'', JBool (an_disputeRecommended analysis))]"

definition result_finding_row ::
  "runtime \<Rightarrow> persist_env \<Rightarrow> string \<Rightarrow> ReauditCandidate \<Rightarrow> ReauditAnalysis \<Rightarrow> ModelClassification \<Rightarrow> FindingRow" where
  "result_finding_row rt env transcriptId candidate analysis classification =
     \<lparr> fn_id = pe_findingId env, fn_auditRunId = pe_auditRunId env, fn_callId = ra_callId candidate,
       fn_findingCode = category_text (an_category analysis), fn_severity = ''medium'', fn_origin = ''model'',
       fn_confidence = Some (an_confidence analysis), fn_confirmationStatus = ''model_output'',
       fn_evidenceRefsJson = canonical (JObj [(''artifactId'', JStr (ra_artifactId candidate)), (''audioSha256'', JStr (an_evidenceSha256 analysis)),
         (''transcriptId'', JStr transcriptId), (''mediaAnalysisId'', JStr (pe_mediaAnalysisId env))]),
       fn_signalValuesJson = canonical (signals_json rt env analysis classification),
       fn_billingRelevance = ''duration_input'', fn_explanation = an_remarks analysis \<rparr>"

definition verified_artifact :: "ReauditAnalysis \<Rightarrow> int \<Rightarrow> StoredArtifact \<Rightarrow> StoredArtifact" where
  "verified_artifact analysis now a =
     a\<lparr> ca_sha256 := Some (coalesce (ca_sha256 a) (an_evidenceSha256 analysis)), ca_audioProcessingStatus := Some ''completed'',
        ca_audioNextAttemptAt := None, ca_audioLastError := None, ax_lastVerifiedAt := Some now, ax_fetchStatus := Some ''fetched'',
        ax_fetchError := None \<rparr>"

definition audited_call :: "persist_env \<Rightarrow> ReauditAnalysis \<Rightarrow> int \<Rightarrow> AuditedCall \<Rightarrow> AuditedCall" where
  "audited_call env analysis now c =
     c\<lparr> cx_processingStatus := ''audited'', cx_canonicalOutcomeCode := Some (category_text (an_category analysis)),
        cx_outcomeTaxonomyVersion := Some REAUDIT_CLASSIFIER_RULESET_VERSION, cx_latestAuditRunId := Some (pe_auditRunId env),
        cx_updatedAt := Some now \<rparr>"

definition completed_message :: "writer_options \<Rightarrow> persist_env \<Rightarrow> ReauditCandidate \<Rightarrow> string \<Rightarrow> ReauditAnalysis \<Rightarrow> NewOutboxMessage" where
  "completed_message opts env candidate manifest analysis =
     \<lparr> nm_messageId = (case ra_manualRequest candidate of
           Some m \<Rightarrow> if wo_manualRequest opts then manualReauditOutboxMessageId (mr_itemId m) manifest else ''audit-completed:'' @ manifest
         | None \<Rightarrow> ''audit-completed:'' @ manifest),
       nm_aggregateType = ''call'', nm_aggregateId = ra_callId candidate, nm_eventType = ''call.audit_completed'',
       nm_payload = JObj [(''callId'', JStr (ra_callId candidate)), (''auditRunId'', JStr (pe_auditRunId env)),
         (''artifactId'', JStr (ra_artifactId candidate)), (''inputManifestSha256'', JStr manifest),
         (''evidenceSha256'', JStr (an_evidenceSha256 analysis)), (''category'', JStr (category_text (an_category analysis))),
         (''confidence'', JStr (an_confidence analysis)), (''engineVersion'', JStr REAUDIT_ENGINE_VERSION)],
       nm_correlationId = None \<rparr>"

section \<open>Storing a result\<close>

datatype persist_result = Persist_completed | Persist_already_completed | Persist_terminal_failure | Persist_retry_scheduled

text \<open>The gate: go on, or answer \<open>already_completed\<close> with these tables.\<close>

definition persist_gate :: "writer_options \<Rightarrow> ReauditCandidate \<Rightarrow> int \<Rightarrow> queue_db \<Rightarrow> queue_db option res" where
  "persist_gate opts candidate now db =
     (if wo_manualRequest opts then
        rbind (manualRequestOf candidate) (\<lambda>request.
        if map_option it_status (manual_item db request (ra_callId candidate)) \<noteq> Some Processing then Inr (Some db)
        else if baseline_decision_of db request (ra_callId candidate) = Skip_baseline_changed then
          rbind (settleManualReauditItem (mr_requestId request) (mr_itemId request) Skipped None now db) (\<lambda>db'. Inr (Some db'))
        else Inr None)
      else if (if allow_completed opts then current_under_rules db (ra_callId candidate) else completed_run db (ra_callId candidate))
      then Inr (Some db) else Inr None)"

definition settle_manual ::
  "writer_options \<Rightarrow> ReauditCandidate \<Rightarrow> ManualReauditItemStatus \<Rightarrow> string option \<Rightarrow> int \<Rightarrow> queue_db \<Rightarrow> queue_db res" where
  "settle_manual opts candidate outcome errorCode now db =
     (if \<not> wo_manualRequest opts then Inr db
      else rbind (manualRequestOf candidate) (\<lambda>request.
        settleManualReauditItem (mr_requestId request) (mr_itemId request) outcome errorCode now db))"

definition attempt_of :: "writer_options \<Rightarrow> ReauditCandidate \<Rightarrow> queue_db \<Rightarrow> nat" where
  "attempt_of opts candidate db =
     (if wo_manualRequest opts then 1
      else (case find (\<lambda>a. ca_id a = ra_artifactId candidate) (qd_artifacts db) of
              None \<Rightarrow> 1
            | Some a \<Rightarrow> let n = coalesce (ca_audioAttemptCount a) 0 in if n = 0 then 1 else n))"

definition failed_artifact :: "ReauditItemResult \<Rightarrow> bool \<Rightarrow> nat \<Rightarrow> int \<Rightarrow> StoredArtifact \<Rightarrow> StoredArtifact" where
  "failed_artifact result terminal attempt now a =
     a\<lparr> ca_audioProcessingStatus := Some (if terminal then ''exhausted'' else failureStatus (ir_outcome result)),
        ca_audioNextAttemptAt := (if terminal then None else Some (now + retryDelayMs attempt)),
        ca_audioLastError := Some (utf16_take 1000 (coalesce (ir_errorCode result) (reaudit_outcome_text (ir_outcome result)))) \<rparr>"

definition failed_call :: "bool \<Rightarrow> int \<Rightarrow> AuditedCall \<Rightarrow> AuditedCall" where
  "failed_call terminal now c =
     c\<lparr> cx_processingStatus := (if terminal then ''audit_failed'' else ''audit_retry''), cx_updatedAt := Some now \<rparr>"

definition persist_failure ::
  "writer_options \<Rightarrow> persist_env \<Rightarrow> ReauditCandidate \<Rightarrow> ReauditItemResult \<Rightarrow> string \<Rightarrow> int \<Rightarrow> audit_db \<Rightarrow> (audit_db \<times> persist_result) res" where
  "persist_failure opts env candidate result manifest now db =
     (let attempt = attempt_of opts candidate (ad_queue db); terminal = terminal_failure result attempt in
      rbind (insert_run (audit_run env candidate manifest ''failed'' now) (ad_queue db)) (\<lambda>q1.
      rbind (insert_row (\<lambda>f. fn_id f = pe_findingId env) (failure_finding_row opts env candidate result attempt) (ad_findings db)) (\<lambda>findings.
      if wo_manualRequest opts then
        rbind (settle_manual opts candidate Failed (Some (coalesce (ir_errorCode result) (failureFinding (ir_outcome result)))) now q1) (\<lambda>q2.
        Inr (db\<lparr> ad_queue := q2, ad_findings := findings \<rparr>, Persist_terminal_failure))
      else if allow_completed opts then Inr (db\<lparr> ad_queue := q1, ad_findings := findings \<rparr>, Persist_terminal_failure)
      else
        let q2 = q1\<lparr> qd_artifacts := map (\<lambda>a. if ca_id a = ra_artifactId candidate then failed_artifact result terminal attempt now a else a) (qd_artifacts q1),
                     qd_calls := map (\<lambda>c. if call_id c = ra_callId candidate then failed_call terminal now c else c) (qd_calls q1) \<rparr>
        in Inr (db\<lparr> ad_queue := q2, ad_findings := findings \<rparr>, if terminal then Persist_terminal_failure else Persist_retry_scheduled))))"

definition persist_usage ::
  "persist_env \<Rightarrow> ReauditCandidate \<Rightarrow> ReauditItemResult \<Rightarrow> TranscriptionResult \<Rightarrow> AiUsage option \<Rightarrow> ModelClassification \<Rightarrow> int \<Rightarrow> UsageRow list \<Rightarrow> UsageRow list res" where
  "persist_usage env candidate result transcript classifierUsage classification now rows =
     rbind (case ts_usage transcript of
              Some u \<Rightarrow> if ir_reusedTranscriptId result \<in> {None, Some []}
                then insertAiUsageEvent (pe_asrUsageId env) (pe_auditRunId env) (ra_callId candidate) ''transcription'' ''primary_asr'' (ts_model transcript) u now rows
                else Inr rows
            | None \<Rightarrow> Inr rows) (\<lambda>rows1.
     case classifierUsage of
       None \<Rightarrow> Inr rows1
     | Some u \<Rightarrow> insertAiUsageEvent (pe_classifierUsageId env) (pe_auditRunId env) (ra_callId candidate) ''classification'' ''primary_classifier'' (mc_model classification) u now rows1)"

definition persist_transcript ::
  "persist_env \<Rightarrow> string \<Rightarrow> ReauditCandidate \<Rightarrow> ReauditAnalysis \<Rightarrow> TranscriptionResult \<Rightarrow> audit_db \<Rightarrow> audit_db res" where
  "persist_transcript env transcriptId candidate analysis transcript db =
     rbind (insert_row (\<lambda>t. tp_id t = transcriptId) (transcript_row transcriptId candidate analysis transcript) (ad_transcripts db)) (\<lambda>transcripts.
     let new = segment_rows env transcriptId transcript in
     if list_ex (\<lambda>s. list_ex (\<lambda>n. sr_id s = sr_id n) new) (ad_segments db) \<or> \<not> distinct (map sr_id new) then Inl duplicate_entry
     else Inr (db\<lparr> ad_transcripts := transcripts, ad_segments := ad_segments db @ new \<rparr>))"

definition persist_success ::
  "runtime \<Rightarrow> writer_options \<Rightarrow> persist_env \<Rightarrow> ReauditCandidate \<Rightarrow> ReauditItemResult \<Rightarrow> ReauditAnalysis \<Rightarrow> TranscriptionResult \<Rightarrow> ModelClassification \<Rightarrow>
   AiUsage option \<Rightarrow> string \<Rightarrow> int \<Rightarrow> audit_db \<Rightarrow> (audit_db \<times> persist_result) res" where
  "persist_success rt opts env candidate result analysis transcript classification classifierUsage manifest now db =
     (let reused = (ir_reusedTranscriptId result \<notin> {None, Some []});
          transcriptId = coalesce (ir_reusedTranscriptId result) (pe_transcriptId env) in
      rbind (insert_run (audit_run env candidate manifest ''completed'' now) (ad_queue db)) (\<lambda>q1.
      rbind (persist_usage env candidate result transcript classifierUsage classification now (ad_usage db)) (\<lambda>usage.
      rbind (insert_row (\<lambda>m. ma_id m = pe_mediaAnalysisId env \<or>
                (ma_callArtifactId m = ra_artifactId candidate \<and> ma_inputSha256 m = an_evidenceSha256 analysis \<and>
                 ma_analyzerVersion m = REAUDIT_ENGINE_VERSION \<and> ma_configVersion m = ''2:'' @ pe_auditRunId env))
              (media_row rt env candidate analysis classification) (ad_media db)) (\<lambda>media.
      rbind (if reused then Inr db else persist_transcript env transcriptId candidate analysis transcript db) (\<lambda>db1.
      rbind (insert_row (\<lambda>f. fn_id f = pe_findingId env) (result_finding_row rt env transcriptId candidate analysis classification) (ad_findings db)) (\<lambda>findings.
      let q2 = q1\<lparr> qd_artifacts := map (\<lambda>a. if ca_id a = ra_artifactId candidate then verified_artifact analysis now a else a) (qd_artifacts q1),
                   qd_calls := map (\<lambda>c. if call_id c = ra_callId candidate then audited_call env analysis now c else c) (qd_calls q1) \<rparr> in
      rbind (settle_manual opts candidate Completed None now q2) (\<lambda>q3.
      rbind (Outbox.enqueue rt (pe_outboxId env) (pe_dbNow env) (completed_message opts env candidate manifest analysis) (ad_outbox db)) (\<lambda>(ob, _).
      Inr (db1\<lparr> ad_queue := q3, ad_usage := usage, ad_media := media, ad_findings := findings, ad_outbox := ob \<rparr>, Persist_completed)))))))))"

definition persist_transaction ::
  "runtime \<Rightarrow> writer_options \<Rightarrow> persist_env \<Rightarrow> ReauditCandidate \<Rightarrow> ReauditItemResult \<Rightarrow> AiUsage option \<Rightarrow> int \<Rightarrow> audit_db \<Rightarrow> (audit_db \<times> persist_result) res" where
  "persist_transaction rt opts env candidate result classifierUsage now db =
     rbind (persist_gate opts candidate now (ad_queue db)) (\<lambda>gate.
     case gate of
       Some q \<Rightarrow> Inr (db\<lparr> ad_queue := q \<rparr>, Persist_already_completed)
     | None \<Rightarrow>
         let manifest = sha256Hex rt (canonical (input_manifest env candidate result)) in
         (case (ir_outcome result, ir_analysis result, ir_transcription result, ir_classification result) of
            (Projected, Some analysis, Some transcript, Some classification) \<Rightarrow>
              persist_success rt opts env candidate result analysis transcript classification classifierUsage manifest now db
          | _ \<Rightarrow> persist_failure opts env candidate result manifest now db))"

definition persist ::
  "runtime \<Rightarrow> writer_options \<Rightarrow> persist_env \<Rightarrow> ReauditCandidate \<Rightarrow> ReauditItemResult \<Rightarrow> AiUsage option \<Rightarrow> int \<Rightarrow> audit_db \<Rightarrow> audit_db \<times> persist_result res" where
  "persist rt opts env candidate result classifierUsage now db =
     (case persist_transaction rt opts env candidate result classifierUsage now db of
        Inl e \<Rightarrow> (db, Inl e) | Inr (db', r) \<Rightarrow> (db', Inr r))"

section \<open>The claim keeps the queue consistent\<close>

lemma filter_single_key: "distinct (map f xs) \<Longrightarrow> x \<in> set xs \<Longrightarrow> P x \<Longrightarrow> filter (\<lambda>y. f y = f x \<and> P y) xs = [x]"
proof (induction xs)
  case (Cons a xs)
  show ?case
  proof (cases "f a = f x")
    case True
    then have "x \<notin> set xs" "\<forall>y \<in> set xs. f y \<noteq> f x" using Cons.prems(1) by (auto simp: image_iff)
    then show ?thesis using Cons.prems True by (auto simp: filter_empty_conv)
  qed (use Cons in auto)
qed simp

lemma queue_ok_cong: "qd_requests a = qd_requests b \<Longrightarrow> qd_items a = qd_items b \<Longrightarrow> queue_ok a = queue_ok b"
  by (simp add: queue_ok_def rows_ok_def)

lemma queue_grows_cong:
  "qd_requests a = qd_requests a' \<Longrightarrow> qd_items a = qd_items a' \<Longrightarrow> qd_requests b = qd_requests b' \<Longrightarrow> qd_items b = qd_items b' \<Longrightarrow>
   queue_grows a b = queue_grows a' b'"
  by (simp add: queue_grows_def)

lemma claim_counts:
  assumes "s \<noteq> Queued" "s \<noteq> Processing"
  shows "count_status s (items_of q (qd_items (fst (claim_item t now db)))) = count_status s (items_of q (qd_items db))"
proof -
  let ?g = "\<lambda>i. if it_id i = t \<and> it_status i = Queued \<and> it_attemptCount i < 1 then claimed now i else i"
  have "count_status s (items_of q (map ?g items)) = count_status s (items_of q items)" for items
    using assms by (induction items) (auto simp: count_status_def items_of_def)
  then show ?thesis by (simp add: claim_item_def Let_def)
qed

lemma start_request_kept: "list_all2 request_kept (qd_requests db) (qd_requests (start_request q now db))"
  by (auto simp: start_request_def list_all2_conv_all_nth request_kept_def)

lemma claim_started_keeps:
  assumes "queue_ok db" "i \<in> set (qd_items db)" "it_status i = Queued"
  shows "snd (claim_item (it_id i) now db) = 1"
    "queue_ok (start_request (it_requestId i) tm (fst (claim_item (it_id i) now db)))" (is "queue_ok ?db2")
    "queue_grows db (start_request (it_requestId i) tm (fst (claim_item (it_id i) now db)))"
proof -
  let ?db1 = "fst (claim_item (it_id i) now db)" let ?q = "it_requestId i"
  have rows: "rows_ok db" and ids: "distinct (map it_id (qd_items db))" and fresh: "it_attemptCount i < 1"
    using assms by (auto simp: queue_ok_def rows_ok_def item_ok_def)
  show "snd (claim_item (it_id i) now db) = 1"
    using filter_single_key[OF ids assms(2), of "\<lambda>j. it_status j = Queued \<and> it_attemptCount j < 1"] assms(3) fresh
    by (simp add: claim_item_def Let_def)
  note m = claim_moves[OF rows, of "it_id i" now]
  have items: "qd_items ?db2 = qd_items ?db1" by (simp add: start_request_def)
  have kept: "list_all2 request_kept (qd_requests db) (qd_requests ?db2)" using start_request_kept[of ?db1 ?q tm] m(3) by simp
  show "queue_grows db ?db2" by (rule grows_of_moves) (use m(1) kept items in simp_all)
  have "rows_ok ?db2" by (rule rows_ok_moves[OF rows]) (use m kept items in \<open>simp_all add: rows_ok_def\<close>)
  moreover have "sized_ok (qd_items ?db2) r' \<and> summary_ok (qd_items ?db2) r'" if r': "r' \<in> set (qd_requests ?db2)" for r'
  proof -
    obtain r where r: "r \<in> set (qd_requests db)"
        "r' = (if rq_id r = ?q \<and> rq_status r = Request_queued then r\<lparr> rq_status := Request_running, rq_startedAt := Some (coalesce (rq_startedAt r) tm) \<rparr> else r)"
      using r' m(3) by (auto simp: start_request_def)
    have old: "sized_ok (qd_items db) r" "summary_ok (qd_items db) r" using assms(1) r(1) by (simp_all add: queue_ok_def)
    have "request_kept r r'" using r(2) by (simp add: request_kept_def)
    then have "sized_ok (qd_items ?db2) r'" using sized_ok_moves[OF m(1) _ old(1)] items by simp
    moreover have "summary_ok (qd_items ?db2) r'"
    proof (cases "rq_id r = ?q")
      case True
      have "i \<in> set (items_of ?q (qd_items db))" using assms(2) by (simp add: items_of_def)
      then have "list_ex live (items_of ?q (qd_items db))" using assms(3) by (auto simp: list_ex_iff live_def)
      then have "rq_status r' = Request_running" using r(2) old(2) True by (auto simp: summary_ok_def request_status_def rolled_status_def Let_def)
      moreover have "claimed now i \<in> set (items_of ?q (qd_items ?db1))"
        using assms(2,3) fresh by (force simp: items_of_def claim_item_def Let_def)
      then have "request_status (items_of ?q (qd_items ?db1)) = Request_running"
        by (auto simp: request_status_def rolled_status_def list_all_iff list_ex_iff live_def intro!: bexI[of _ "claimed now i"])
      ultimately show ?thesis using old(2) r(2) True items by (auto simp: summary_ok_def claim_counts Let_def)
    next
      case False
      have "known_item db (it_id i) ?q" using assms(2) by (auto simp: known_item_def)
      then show ?thesis using claim_other[OF rows _ False] old(2) r(2) False items by (simp add: summary_ok_def Let_def)
    qed
    ultimately show ?thesis by simp
  qed
  ultimately show "queue_ok ?db2" by (simp add: queue_ok_def)
qed

lemma manual_item_found:
  "manual_item db request callId = Some i \<Longrightarrow>
   i \<in> set (qd_items db) \<and> it_id i = mr_itemId request \<and> it_requestId i = mr_requestId request \<and> it_callId i = callId"
  by (auto simp: manual_item_def find_Some_iff in_set_conv_nth)

lemma start_request_evidence [simp]: "same_evidence db (start_request q now db)"
  by (simp add: start_request_def same_evidence_def)

lemma start_manual_keeps:
  assumes "start_manual candidate now db = Inr (db', r)" "queue_ok db"
  shows "queue_ok db' \<and> queue_grows db db' \<and> same_evidence db db'"
proof -
  obtain request where q: "manualRequestOf candidate = Inr request" using assms(1) by (auto simp: start_manual_def rbind_Inr_iff)
  show ?thesis
  proof (cases "\<exists>i. manual_item db request (ra_callId candidate) = Some i \<and> live i")
    case True
    then obtain i where i: "manual_item db request (ra_callId candidate) = Some i" "live i" by blast
    note f = manual_item_found[OF i(1)]
    let ?claim = "claim_item (it_id i) now db"
    define db2 where "db2 = (if it_status i = Queued then start_request (it_requestId i) now (fst ?claim) else db)"
    note start = claim_started_keeps[OF assms(2) conjunct1[OF f], of now]
    have two: "queue_ok db2" "queue_grows db db2" "same_evidence db db2"
      using start(2,3) assms(2) same_evidence_trans[OF claim_evidence start_request_evidence] by (simp_all add: db2_def)
    obtain db1 n where c: "?claim = (db1, n)" by fastforce
    have "it_status i = Queued \<Longrightarrow> n = 1" using start(1) c by simp
    then have "db' = db2 \<or> settleManualReauditItem (it_requestId i) (it_id i) Skipped None now db2 = Inr db'"
      using assms(1) q i(1,2) f c by (auto simp: start_manual_def db2_def rbind_Inr_iff Let_def split: if_splits)
    moreover have "known_item db (it_id i) (it_requestId i)" using f by (auto simp: known_item_def)
    ultimately show ?thesis
      using two settle_keeps_ok[of _ _ Skipped None now db2 db'] settle_evidence[of _ _ Skipped None now db2 db']
        known_item_grows[OF two(2)] queue_grows_trans[OF two(2)] same_evidence_trans[OF two(3)] by auto
  qed (use assms q in \<open>auto simp: start_manual_def split: option.splits\<close>)
qed

section \<open>What a transaction stores\<close>

text \<open>The queue's tables after a result is stored and before the item is settled.\<close>

definition audited_queue :: "persist_env \<Rightarrow> ReauditCandidate \<Rightarrow> ReauditAnalysis \<Rightarrow> string \<Rightarrow> int \<Rightarrow> queue_db \<Rightarrow> queue_db" where
  "audited_queue env candidate analysis manifest now q =
     q\<lparr> qd_runs := qd_runs q @ [audit_run env candidate manifest ''completed'' now],
        qd_artifacts := map (\<lambda>a. if ca_id a = ra_artifactId candidate then verified_artifact analysis now a else a) (qd_artifacts q),
        qd_calls := map (\<lambda>c. if call_id c = ra_callId candidate then audited_call env analysis now c else c) (qd_calls q) \<rparr>"

lemma insert_run_Inr:
  "insert_run r db = Inr db' \<longleftrightarrow> rn_id r \<notin> rn_id ` set (qd_runs db) \<and> db' = db\<lparr> qd_runs := qd_runs db @ [r] \<rparr>"
proof -
  have "list_ex (\<lambda>x. rn_id x = rn_id r) (qd_runs db) \<longleftrightarrow> rn_id r \<in> rn_id ` set (qd_runs db)" by (auto simp: list_ex_iff) (metis imageI)
  then show ?thesis by (auto simp: insert_run_def insert_row_def)
qed

lemma insert_row_Inr: "insert_row conflict r rows = Inr rows' \<longleftrightarrow> \<not> list_ex conflict rows \<and> rows' = rows @ [r]"
  by (auto simp: insert_row_def)

lemma persist_transcript_frame:
  "persist_transcript env transcriptId candidate analysis transcript db = Inr db' \<Longrightarrow>
   db' = db\<lparr> ad_transcripts := ad_transcripts db', ad_segments := ad_segments db' \<rparr>"
  by (auto simp: persist_transcript_def rbind_Inr_iff Let_def split: if_splits)

lemma persist_success_run:
  assumes "persist_success rt opts env candidate result analysis transcript classification usage manifest now db = Inr (db', r)"
  shows "r = Persist_completed" "pe_auditRunId env \<notin> rn_id ` set (qd_runs (ad_queue db))"
    "settle_manual opts candidate Completed None now (audited_queue env candidate analysis manifest now (ad_queue db)) = Inr (ad_queue db')"
    "ad_media db' = ad_media db @ [media_row rt env candidate analysis classification]"
    "\<exists>transcriptId. ad_findings db' = ad_findings db @ [result_finding_row rt env transcriptId candidate analysis classification]"
    "\<exists>res. Outbox.enqueue rt (pe_outboxId env) (pe_dbNow env) (completed_message opts env candidate manifest analysis) (ad_outbox db) = Inr (ad_outbox db', res)"
  using assms
  by (auto simp: persist_success_def rbind_Inr_iff Let_def insert_run_Inr insert_row_Inr audited_queue_def audit_run_def)

text \<open>The tables after a failed attempt; requested and targeted re-audits leave calls and recordings alone.\<close>

definition failed_queue :: "writer_options \<Rightarrow> persist_env \<Rightarrow> ReauditCandidate \<Rightarrow> ReauditItemResult \<Rightarrow> string \<Rightarrow> int \<Rightarrow> queue_db \<Rightarrow> queue_db" where
  "failed_queue opts env candidate result manifest now q =
     (let attempt = attempt_of opts candidate q; terminal = terminal_failure result attempt;
          q1 = q\<lparr> qd_runs := qd_runs q @ [audit_run env candidate manifest ''failed'' now] \<rparr> in
      if allow_completed opts then q1
      else q1\<lparr> qd_artifacts := map (\<lambda>a. if ca_id a = ra_artifactId candidate then failed_artifact result terminal attempt now a else a) (qd_artifacts q),
               qd_calls := map (\<lambda>c. if call_id c = ra_callId candidate then failed_call terminal now c else c) (qd_calls q) \<rparr>)"

lemma persist_failure_run:
  assumes "persist_failure opts env candidate result manifest now db = Inr (db', r)"
  shows "r \<in> {Persist_terminal_failure, Persist_retry_scheduled}" "allow_completed opts \<Longrightarrow> r = Persist_terminal_failure"
    "pe_auditRunId env \<notin> rn_id ` set (qd_runs (ad_queue db))"
    "settle_manual opts candidate Failed (Some (coalesce (ir_errorCode result) (failureFinding (ir_outcome result)))) now
       (failed_queue opts env candidate result manifest now (ad_queue db)) = Inr (ad_queue db')"
    "db' = db\<lparr> ad_queue := ad_queue db',
       ad_findings := ad_findings db @ [failure_finding_row opts env candidate result (attempt_of opts candidate (ad_queue db))] \<rparr>"
  using assms
  by (auto simp: persist_failure_def rbind_Inr_iff Let_def insert_run_Inr insert_row_Inr failed_queue_def allow_completed_def settle_manual_def audit_run_def
      split: if_splits)

lemma settle_manual_keeps:
  assumes "settle_manual opts candidate oc code now q = Inr q'" "queue_ok q" "oc \<noteq> Queued" "oc \<noteq> Processing"
    and "\<And>request. wo_manualRequest opts \<Longrightarrow> manualRequestOf candidate = Inr request \<Longrightarrow> known_item q (mr_itemId request) (mr_requestId request)"
  shows "queue_ok q' \<and> queue_grows q q' \<and> same_evidence q q'"
proof (cases "wo_manualRequest opts")
  case True
  then obtain request where "manualRequestOf candidate = Inr request" "settleManualReauditItem (mr_requestId request) (mr_itemId request) oc code now q = Inr q'"
    using assms(1) by (auto simp: settle_manual_def rbind_Inr_iff)
  then show ?thesis using assms settle_keeps_ok settle_evidence True by blast
qed (use assms in \<open>auto simp: settle_manual_def\<close>)

text \<open>A requested re-audit passes the gate only while its item is claimed and the call's run is the one it saw.\<close>

lemma gate_open:
  assumes "persist_gate opts candidate now db = Inr None" "wo_manualRequest opts"
  obtains request i where "manualRequestOf candidate = Inr request" "manual_item db request (ra_callId candidate) = Some i" "it_status i = Processing"
    "manualReauditLatestAuditRunId db (ra_callId candidate) = Some (mr_baselineAuditRunId request)"
  using assms by (auto simp: persist_gate_def rbind_Inr_iff baseline_decision_of_def manualReauditBaselineDecision_def split: if_splits)

lemma gate_closed:
  assumes "persist_gate opts candidate now db = Inr (Some q)"
  shows "q = db \<or> (\<exists>request i. wo_manualRequest opts \<and> manualRequestOf candidate = Inr request \<and>
     manual_item db request (ra_callId candidate) = Some i \<and> it_status i = Processing \<and>
     manualReauditLatestAuditRunId db (ra_callId candidate) \<noteq> Some (mr_baselineAuditRunId request) \<and>
     settleManualReauditItem (mr_requestId request) (mr_itemId request) Skipped None now db = Inr q)"
  using assms by (auto simp: persist_gate_def rbind_Inr_iff baseline_decision_of_def manualReauditBaselineDecision_def split: if_splits)

lemma known_manual_item: "manual_item db request callId = Some i \<Longrightarrow> known_item db (mr_itemId request) (mr_requestId request)"
  using manual_item_found by (fastforce simp: known_item_def)

section \<open>Consistent audit tables\<close>

text \<open>Run identifiers are unique and a call's current run is a completed run of that call.\<close>

definition current_run_of :: "AuditRunRow list \<Rightarrow> AuditedCall \<Rightarrow> bool" where
  "current_run_of runs c \<longleftrightarrow>
     (case cx_latestAuditRunId c of None \<Rightarrow> True
      | Some r \<Rightarrow> list_ex (\<lambda>run. rn_id run = r \<and> rn_callId run = call_id c \<and> rn_status run = ''completed'') runs)"

definition runs_ok :: "queue_db \<Rightarrow> bool" where
  "runs_ok db \<longleftrightarrow> distinct (map rn_id (qd_runs db)) \<and> list_all (current_run_of (qd_runs db)) (qd_calls db)"

definition audit_ok :: "audit_db \<Rightarrow> bool" where
  "audit_ok db \<longleftrightarrow> queue_ok (ad_queue db) \<and> runs_ok (ad_queue db)"

definition audit_grows :: "audit_db \<Rightarrow> audit_db \<Rightarrow> bool" where
  "audit_grows db db' \<longleftrightarrow>
     queue_grows (ad_queue db) (ad_queue db') \<and> (\<exists>new. qd_runs (ad_queue db') = qd_runs (ad_queue db) @ new)"

lemma audit_grows_refl [simp]: "audit_grows db db"
  by (simp add: audit_grows_def)

lemma audit_grows_trans: "audit_grows a b \<Longrightarrow> audit_grows b c \<Longrightarrow> audit_grows a c"
  unfolding audit_grows_def by (metis append_assoc queue_grows_trans)

lemma current_run_append: "current_run_of runs c \<Longrightarrow> current_run_of (runs @ new) c"
  by (auto simp: current_run_of_def split: option.splits)

lemma runs_ok_step:
  assumes "runs_ok db" "qd_runs db' = qd_runs db @ [run]" "rn_id run \<notin> rn_id ` set (qd_runs db)"
    and "qd_calls db' = map g (qd_calls db)"
    and "\<And>c. call_id (g c) = call_id c \<and> (cx_latestAuditRunId (g c) = cx_latestAuditRunId c \<or>
           (cx_latestAuditRunId (g c) = Some (rn_id run) \<and> rn_callId run = call_id c \<and> rn_status run = ''completed''))"
  shows "runs_ok db'"
proof -
  have "current_run_of (qd_runs db @ [run]) (g c)" if "c \<in> set (qd_calls db)" for c
  proof (cases "cx_latestAuditRunId (g c) = cx_latestAuditRunId c")
    case True
    have "current_run_of (qd_runs db @ [run]) c" using assms(1) that by (auto simp: runs_ok_def list_all_iff intro: current_run_append)
    then show ?thesis using True assms(5)[of c] by (auto simp: current_run_of_def split: option.splits)
  qed (use assms(5)[of c] in \<open>simp add: current_run_of_def\<close>)
  then show ?thesis using assms(1-4) by (simp add: runs_ok_def list_all_iff)
qed

lemma audited_queue_ok:
  assumes "queue_ok q" "runs_ok q" "pe_auditRunId env \<notin> rn_id ` set (qd_runs q)"
  shows "queue_ok (audited_queue env candidate analysis manifest now q)" "runs_ok (audited_queue env candidate analysis manifest now q)"
    "queue_grows q (audited_queue env candidate analysis manifest now q)"
proof -
  let ?q = "audited_queue env candidate analysis manifest now q"
  show "queue_ok ?q" using queue_ok_cong[of ?q q] assms(1) by (simp add: audited_queue_def)
  show "queue_grows q ?q" using queue_grows_cong[of q q ?q q] by (simp add: audited_queue_def)
  have "qd_calls ?q = map (\<lambda>c. if call_id c = ra_callId candidate then audited_call env analysis now c else c) (qd_calls q)"
    by (simp add: audited_queue_def)
  then show "runs_ok ?q"
    by (rule runs_ok_step[OF assms(2), rotated 2]) (use assms(3) in \<open>auto simp: audited_queue_def audit_run_def audited_call_def\<close>)
qed

lemma failed_queue_ok:
  assumes "queue_ok q" "runs_ok q" "pe_auditRunId env \<notin> rn_id ` set (qd_runs q)"
  shows "queue_ok (failed_queue opts env candidate result manifest now q)" "runs_ok (failed_queue opts env candidate result manifest now q)"
    "queue_grows q (failed_queue opts env candidate result manifest now q)"
proof -
  let ?q = "failed_queue opts env candidate result manifest now q"
  have same: "qd_requests ?q = qd_requests q" "qd_items ?q = qd_items q" by (simp_all add: failed_queue_def Let_def)
  show "queue_ok ?q" using queue_ok_cong[OF same] assms(1) by simp
  show "queue_grows q ?q" using queue_grows_cong[of q q ?q q] same by simp
  let ?g = "\<lambda>c. if \<not> allow_completed opts \<and> call_id c = ra_callId candidate then failed_call (terminal_failure result (attempt_of opts candidate q)) now c else c"
  have "qd_calls ?q = map ?g (qd_calls q)" by (simp add: failed_queue_def Let_def)
  then show "runs_ok ?q"
    by (rule runs_ok_step[OF assms(2), rotated 2]) (use assms(3) in \<open>auto simp: failed_queue_def audit_run_def failed_call_def Let_def\<close>)
qed

lemma same_evidence_runs: "same_evidence db db' \<Longrightarrow> runs_ok db \<Longrightarrow> runs_ok db' \<and> qd_runs db' = qd_runs db"
  by (simp add: same_evidence_def runs_ok_def)

lemma persist_transaction_cases:
  assumes "persist_transaction rt opts env candidate result usage now db = Inr (db', r)"
  obtains (closed) q where "persist_gate opts candidate now (ad_queue db) = Inr (Some q)" "db' = db\<lparr> ad_queue := q \<rparr>" "r = Persist_already_completed"
  | (stored) analysis transcript classification where "persist_gate opts candidate now (ad_queue db) = Inr None"
      "persist_success rt opts env candidate result analysis transcript classification usage
         (sha256Hex rt (canonical (input_manifest env candidate result))) now db = Inr (db', r)"
  | (failed) "persist_gate opts candidate now (ad_queue db) = Inr None"
      "persist_failure opts env candidate result (sha256Hex rt (canonical (input_manifest env candidate result))) now db = Inr (db', r)"
proof -
  obtain gate where g: "persist_gate opts candidate now (ad_queue db) = Inr gate" using assms by (auto simp: persist_transaction_def rbind_Inr_iff)
  show thesis
  proof (cases gate)
    case None
    then show thesis using assms g stored failed by (auto simp: persist_transaction_def Let_def split: option.splits reaudit_outcome.splits)
  next
    case (Some q)
    then show thesis using assms g closed by (auto simp: persist_transaction_def)
  qed
qed

lemma storing_keeps:
  assumes "persist_transaction rt opts env candidate result usage now db = Inr (db', r)" "audit_ok db"
  shows "audit_ok db' \<and> audit_grows db db'"
proof -
  let ?q = "ad_queue db"
  have ok: "queue_ok ?q" "runs_ok ?q" using assms(2) by (simp_all add: audit_ok_def)
  have finish: "audit_ok db' \<and> audit_grows db db'"
    if "settle_manual opts candidate oc code now q = Inr (ad_queue db')" "oc \<noteq> Queued" "oc \<noteq> Processing" "persist_gate opts candidate now ?q = Inr None"
      "queue_ok q" "runs_ok q" "queue_grows ?q q" "\<exists>new. qd_runs q = qd_runs ?q @ new" for oc code q
  proof -
    have "known_item q (mr_itemId request) (mr_requestId request)" if "wo_manualRequest opts" "manualRequestOf candidate = Inr request" for request
      by (rule gate_open[OF \<open>persist_gate opts candidate now ?q = Inr None\<close> that(1)])
        (use that(2) known_manual_item known_item_grows[OF \<open>queue_grows ?q q\<close>] in auto)
    then have "queue_ok (ad_queue db') \<and> queue_grows q (ad_queue db') \<and> same_evidence q (ad_queue db')" using settle_manual_keeps that by blast
    then show ?thesis using that(6-8) queue_grows_trans[OF that(7)] same_evidence_runs[of q "ad_queue db'"] by (auto simp: audit_ok_def audit_grows_def)
  qed
  show ?thesis using assms(1)
  proof (cases rule: persist_transaction_cases)
    case (stored analysis transcript classification)
    note s = persist_success_run[OF stored(2)]
    show ?thesis by (rule finish[OF s(3)]) (use audited_queue_ok[OF ok s(2)] stored(1) in \<open>auto simp: audited_queue_def\<close>)
  next
    case failed
    note f = persist_failure_run[OF failed(2)]
    show ?thesis by (rule finish[OF f(4)]) (use failed_queue_ok[OF ok f(3)] failed(1) in \<open>auto simp: failed_queue_def Let_def\<close>)
  next
    case (closed q)
    have "queue_ok q \<and> queue_grows ?q q \<and> same_evidence ?q q"
      using gate_closed[OF closed(1)] ok(1) settle_keeps_ok settle_evidence known_manual_item by (elim disjE exE conjE) (simp, blast)
    then show ?thesis using same_evidence_runs[of ?q q] ok(2) by (simp add: closed(2) audit_ok_def audit_grows_def)
  qed
qed

section \<open>Histories\<close>

definition no_tables :: audit_db where
  "no_tables =
     \<lparr> ad_queue = \<lparr> qd_requests = [], qd_items = [], qd_calls = [], qd_runs = [], qd_artifacts = [], qd_invoices = [], qd_leases = [] \<rparr>,
       ad_findings = [], ad_media = [], ad_transcripts = [], ad_segments = [], ad_usage = [], ad_outbox = [] \<rparr>"

text \<open>
  The rest of the system: it imports calls without a current run and changes every other table, but writes neither
  requests, items nor runs and never moves a call's current run.
\<close>

definition elsewhere :: "audit_db \<Rightarrow> audit_db \<Rightarrow> bool" where
  "elsewhere db db' \<longleftrightarrow>
     qd_requests (ad_queue db') = qd_requests (ad_queue db) \<and> qd_items (ad_queue db') = qd_items (ad_queue db) \<and>
     qd_runs (ad_queue db') = qd_runs (ad_queue db) \<and>
     list_all (\<lambda>c. cx_latestAuditRunId c = None \<or>
       list_ex (\<lambda>b. call_id b = call_id c \<and> cx_latestAuditRunId b = cx_latestAuditRunId c) (qd_calls (ad_queue db))) (qd_calls (ad_queue db'))"

inductive audit_step :: "runtime \<Rightarrow> audit_db \<Rightarrow> audit_db \<Rightarrow> bool" for rt where
  asks: "audit_step rt db (db\<lparr> ad_queue := fst (ManualQueue.enqueue rt env period input (ad_queue db)) \<rparr>)"
| claims: "audit_step rt db (db\<lparr> ad_queue := fst (ManualQueue.listCandidates costs opts (ad_queue db)) \<rparr>)"
| starts: "audit_step rt db (fst (markStarted wopts candidate now db))"
| persists: "audit_step rt db (fst (persist rt wopts env' candidate result usage now db))"
| others: "elsewhere db db' \<Longrightarrow> audit_step rt db db'"

inductive_cases audit_stepE: "audit_step rt db db'"

lemma no_tables_ok: "audit_ok no_tables"
  by (simp add: audit_ok_def no_tables_def queue_ok_def rows_ok_def runs_ok_def unique_keys_def)

lemma queue_step_keeps:
  assumes "audit_ok db" "queue_ok q" "queue_grows (ad_queue db) q" "same_evidence (ad_queue db) q"
  shows "audit_ok (db\<lparr> ad_queue := q \<rparr>) \<and> audit_grows db (db\<lparr> ad_queue := q \<rparr>)"
  using assms same_evidence_runs[OF assms(4)] by (simp add: audit_ok_def audit_grows_def)

lemma markStarted_keeps:
  assumes "audit_ok db"
  shows "audit_ok (fst (markStarted opts candidate now db)) \<and> audit_grows db (fst (markStarted opts candidate now db))"
proof (cases "wo_manualRequest opts")
  case True
  then show ?thesis
    using assms start_manual_keeps[of candidate now "ad_queue db"] queue_step_keeps[OF assms]
    by (auto simp: markStarted_def audit_ok_def split: sum.splits)
next
  case False
  have "audit_ok (db\<lparr> ad_queue := fst (start_intake candidate now (ad_queue db)) \<rparr>) \<and> audit_grows db (db\<lparr> ad_queue := fst (start_intake candidate now (ad_queue db)) \<rparr>)"
    using assms by (simp add: start_intake_def audit_ok_def audit_grows_def queue_ok_def rows_ok_def runs_ok_def queue_grows_cong[of "ad_queue db" "ad_queue db" _ "ad_queue db"])
  then show ?thesis using assms False by (auto simp: markStarted_def split: prod.splits)
qed

lemma elsewhere_keeps:
  assumes "elsewhere db db'" "audit_ok db"
  shows "audit_ok db' \<and> audit_grows db db'"
proof -
  let ?q = "ad_queue db" let ?q' = "ad_queue db'"
  have "current_run_of (qd_runs ?q') c" if c: "c \<in> set (qd_calls ?q')" for c
  proof (cases "cx_latestAuditRunId c")
    case (Some r)
    then obtain b where "b \<in> set (qd_calls ?q)" "call_id b = call_id c" "cx_latestAuditRunId b = Some r"
      using assms(1) c by (fastforce simp: elsewhere_def list_all_iff list_ex_iff)
    then show ?thesis using assms Some by (auto simp: elsewhere_def audit_ok_def runs_ok_def list_all_iff current_run_of_def)
  qed (simp add: current_run_of_def)
  moreover have "queue_ok ?q'" "queue_grows ?q ?q'"
    using assms queue_ok_cong[of ?q' ?q] queue_grows_cong[of ?q ?q ?q' ?q] by (simp_all add: elsewhere_def audit_ok_def)
  ultimately show ?thesis using assms by (simp add: audit_ok_def audit_grows_def runs_ok_def list_all_iff elsewhere_def)
qed

lemma stored_result_keeps:
  assumes "audit_ok db"
  shows "audit_ok (fst (persist rt opts env candidate result usage now db)) \<and> audit_grows db (fst (persist rt opts env candidate result usage now db))"
proof (cases "persist_transaction rt opts env candidate result usage now db")
  case (Inr x)
  then show ?thesis using storing_keeps[of rt opts env candidate result usage now db "fst x" "snd x"] assms
    by (auto simp: persist_def split: prod.splits)
qed (use assms in \<open>simp add: persist_def\<close>)

lemma audit_step_keeps: "audit_step rt db db' \<Longrightarrow> audit_ok db \<Longrightarrow> audit_ok db' \<and> audit_grows db db'"
proof (induction rule: audit_step.induct)
  case (asks db env period input)
  then show ?case using queue_step_keeps[OF asks] enqueue_keeps[of "ad_queue db"] enqueue_evidence by (simp add: audit_ok_def)
next
  case (claims db costs opts)
  then show ?case using queue_step_keeps[OF claims] listCandidates_keeps[of "ad_queue db"] listCandidates_evidence by (simp add: audit_ok_def)
qed (simp_all add: markStarted_keeps stored_result_keeps elsewhere_keeps)

interpretation audits: monotone_system "audit_step rt" audit_ok audit_grows for rt
  by unfold_locales (auto dest: audit_step_keeps intro: audit_grows_trans)

lemma reachable_ok: "(audit_step rt)\<^sup>*\<^sup>* no_tables db \<Longrightarrow> audit_ok db"
  using audits.run_ok no_tables_ok by blast

section \<open>What histories guarantee\<close>

lemma counts_partition:
  "length own = count_status Completed own + count_status Failed own + count_status Skipped own + length (filter live own)"
proof (induction own)
  case (Cons i own)
  then show ?case by (cases "it_status i") (simp_all add: count_status_def live_def)
qed (simp add: count_status_def)

lemma request_row_ok:
  assumes "sized_ok items r" "summary_ok items r"
  shows "rq_requestedCount r = rq_completedCount r + rq_failedCount r + rq_skippedCount r + length (filter live (items_of (rq_id r) items))"
    "rq_status r \<in> {Request_completed, Request_with_failures} \<longleftrightarrow> \<not> list_ex live (items_of (rq_id r) items)"
proof -
  let ?own = "items_of (rq_id r) items"
  show "rq_requestedCount r = rq_completedCount r + rq_failedCount r + rq_skippedCount r + length (filter live ?own)"
    using assms counts_partition[of ?own] by (simp add: sized_ok_def summary_ok_def Let_def)
  have "list_all (\<lambda>i. it_status i = Queued) ?own \<Longrightarrow> list_ex live ?own"
    using assms(1) by (cases ?own) (auto simp: sized_ok_def live_def)
  then show "rq_status r \<in> {Request_completed, Request_with_failures} \<longleftrightarrow> \<not> list_ex live ?own"
    using assms(2) by (auto simp: summary_ok_def request_status_def rolled_status_def Let_def)
qed


lemma manual_item_settled:
  assumes "rows_ok db" "i \<in> set (qd_items db)" "\<not> live i" "mr_itemId request = it_id i" "manual_item db request callId = Some j"
  shows "\<not> live j"
proof -
  have "distinct (map it_id (qd_items db))" using assms(1) by (simp add: rows_ok_def)
  then have "i = j" using distinct_item[of "qd_items db" i j] manual_item_found[OF assms(5)] assms(2,4) by metis
  then show ?thesis using assms(3) by simp
qed

text \<open>
  C6. A settled item stays as it is through any later history, and no worker that still holds its candidate can start it
  or store a result for it again: both answer that it is already completed and change nothing.
\<close>

theorem settled_item_not_repeated:
  assumes "(audit_step rt)\<^sup>*\<^sup>* no_tables db" "(audit_step rt)\<^sup>*\<^sup>* db db'" "i \<in> set (qd_items (ad_queue db))" "\<not> live i"
    and "wo_manualRequest opts" "ra_manualRequest candidate = Some request" "mr_itemId request = it_id i"
  shows "i \<in> set (qd_items (ad_queue db')) \<and>
    markStarted opts candidate now db' = (db', Inr Start_already_completed) \<and>
    persist rt opts env candidate result usage now db' = (db', Inr Persist_already_completed)"
proof -
  have ok: "audit_ok db'" "audit_grows db db'" using audits.run_keeps[OF assms(2) reachable_ok[OF assms(1)]] by simp_all
  then obtain i' where "i' \<in> set (qd_items (ad_queue db'))" "item_moves i i'"
    using queue_grows_item[of "ad_queue db" "ad_queue db'" i] assms(3) by (auto simp: audit_grows_def)
  then have i: "i \<in> set (qd_items (ad_queue db'))" using assms(4) by (simp add: item_moves_def)
  have dead: "\<not> live j" if "manual_item (ad_queue db') request callId = Some j" for callId j
    using manual_item_settled[OF _ i assms(4,7) that] ok(1) by (simp add: audit_ok_def queue_ok_def)
  then have "start_manual candidate now (ad_queue db') = Inr (ad_queue db', Start_already_completed)"
    using assms(6) by (auto simp: start_manual_def manualRequestOf_def split: option.splits)
  moreover have "persist_gate opts candidate now (ad_queue db') = Inr (Some (ad_queue db'))"
    using assms(5,6) dead by (auto simp: persist_gate_def manualRequestOf_def live_def)
  ultimately show ?thesis using i assms(5) by (simp add: markStarted_def persist_def persist_transaction_def)
qed

section \<open>Storing a requested re-audit\<close>

definition item_status :: "queue_db \<Rightarrow> string \<Rightarrow> ManualReauditItemStatus option" where
  "item_status db itemId = map_option it_status (find (\<lambda>i. it_id i = itemId) (qd_items db))"

lemma item_status_member: "distinct (map it_id (qd_items db)) \<Longrightarrow> i \<in> set (qd_items db) \<Longrightarrow> item_status db (it_id i) = Some (it_status i)"
  using find_distinct_key[of it_id "qd_items db" i] by (simp add: item_status_def)

lemma settle_item_status:
  assumes "settleManualReauditItem q t oc code now db = Inr db'" "rows_ok db" "known_item db t q"
  shows "item_status db' t = Some oc"
proof -
  obtain i where i: "i \<in> set (qd_items db)" "it_id i = t"
    and items: "qd_items db' = map (\<lambda>j. if it_id j = t then settled oc code now j else j) (qd_items db)"
    by (rule settle_run[OF assms]) blast
  have "find (\<lambda>i. it_id i = t) (map (\<lambda>j. if it_id j = t then settled oc code now j else j) xs) = map_option (settled oc code now) (find (\<lambda>i. it_id i = t) xs)" for xs
    by (induction xs) auto
  moreover have "find (\<lambda>i. it_id i = t) (qd_items db) \<noteq> None" using i by (auto simp: find_None_iff)
  ultimately show ?thesis unfolding item_status_def items by auto
qed

lemma settle_manual_status:
  assumes "settle_manual opts candidate oc code now q = Inr q'" "wo_manualRequest opts" "manualRequestOf candidate = Inr request"
    and "queue_ok q" "known_item q (mr_itemId request) (mr_requestId request)"
  shows "item_status q' (mr_itemId request) = Some oc"
  using assms settle_item_status by (auto simp: settle_manual_def queue_ok_def)

lemma latest_run_moves:
  assumes "manualReauditLatestAuditRunId q callId = Some k" "ra_callId candidate = callId"
  shows "manualReauditLatestAuditRunId (audited_queue env candidate analysis manifest now q) callId = Some (pe_auditRunId env)"
proof -
  have "find (\<lambda>c. call_id c = callId) (map (\<lambda>c. if call_id c = callId then audited_call env analysis now c else c) cs) =
      map_option (audited_call env analysis now) (find (\<lambda>c. call_id c = callId) cs)" for cs
    by (induction cs) (auto simp: audited_call_def)
  then show ?thesis
    using assms by (auto simp: manualReauditLatestAuditRunId_def audited_queue_def audited_call_def bind_eq_Some_conv)
qed

lemma same_evidence_latest: "same_evidence a b \<Longrightarrow> manualReauditLatestAuditRunId b = manualReauditLatestAuditRunId a"
  by (rule ext) (simp add: same_evidence_def manualReauditLatestAuditRunId_def)

lemma enqueue_present:
  "Outbox.enqueue rt uuid dbNow msg table = Inr (table', res) \<Longrightarrow>
   \<exists>row \<in> set table'. ob_messageId row = Some (nm_messageId msg) \<and> ob_aggregateId row = nm_aggregateId msg \<and> ob_eventType row = nm_eventType msg"
  by (auto simp: Outbox.enqueue_def rbind_Inr_iff Let_def find_Some_iff split: if_splits option.splits)

text \<open>A claimed item that passed the gate, and its request in the tables the writer settles.\<close>

lemma open_item:
  assumes "persist_gate opts candidate now q = Inr None" "wo_manualRequest opts" "manualRequestOf candidate = Inr request" "queue_ok q" "queue_grows q q1"
  shows "item_status q (mr_itemId request) = Some Processing" "known_item q1 (mr_itemId request) (mr_requestId request)"
    "manualReauditLatestAuditRunId q (ra_callId candidate) = Some (mr_baselineAuditRunId request)"
proof -
  obtain i where i: "manual_item q request (ra_callId candidate) = Some i" "it_status i = Processing"
    and "manualReauditLatestAuditRunId q (ra_callId candidate) = Some (mr_baselineAuditRunId request)"
    using gate_open[OF assms(1,2)] assms(3) by auto
  then show "manualReauditLatestAuditRunId q (ra_callId candidate) = Some (mr_baselineAuditRunId request)" by simp
  have "distinct (map it_id (qd_items q))" using assms(4) by (simp add: queue_ok_def rows_ok_def)
  then show "item_status q (mr_itemId request) = Some Processing" using item_status_member manual_item_found[OF i(1)] i(2) by metis
  show "known_item q1 (mr_itemId request) (mr_requestId request)" by (rule known_item_grows[OF assms(5) known_manual_item[OF i(1)]])
qed

lemma requested_success:
  assumes "persist_gate opts candidate now (ad_queue db) = Inr None" "wo_manualRequest opts" "ra_manualRequest candidate = Some request" "audit_ok db"
    and "persist_success rt opts env candidate result analysis transcript classification usage manifest now db = Inr (db', r)"
  shows "item_status (ad_queue db') (mr_itemId request) = Some Completed"
    "manualReauditLatestAuditRunId (ad_queue db') (ra_callId candidate) = Some (pe_auditRunId env)"
    "qd_runs (ad_queue db') = qd_runs (ad_queue db) @ [audit_run env candidate manifest ''completed'' now]"
    "\<exists>row \<in> set (ad_outbox db'). ob_messageId row = Some (manualReauditOutboxMessageId (mr_itemId request) manifest) \<and>
       ob_aggregateId row = ra_callId candidate \<and> ob_eventType row = ''call.audit_completed''"
proof -
  let ?q = "audited_queue env candidate analysis manifest now (ad_queue db)"
  note s = persist_success_run[OF assms(5)]
  have ok: "queue_ok (ad_queue db)" "runs_ok (ad_queue db)" using assms(4) by (simp_all add: audit_ok_def)
  have req: "manualRequestOf candidate = Inr request" using assms(3) by (simp add: manualRequestOf_def)
  note a = audited_queue_ok[OF ok s(2), of candidate analysis manifest now] and i = open_item[OF assms(1,2) req ok(1)]
  have ev: "same_evidence ?q (ad_queue db')" using settle_manual_keeps[OF s(3) a(1)] req i(2)[OF a(3)] by auto
  then show "qd_runs (ad_queue db') = qd_runs (ad_queue db) @ [audit_run env candidate manifest ''completed'' now]"
    by (simp add: same_evidence_def audited_queue_def)
  show "item_status (ad_queue db') (mr_itemId request) = Some Completed" by (rule settle_manual_status[OF s(3) assms(2) req a(1) i(2)[OF a(3)]])
  show "manualReauditLatestAuditRunId (ad_queue db') (ra_callId candidate) = Some (pe_auditRunId env)"
    using latest_run_moves[OF i(3)[OF a(3)], of candidate] same_evidence_latest[OF ev] by simp
  obtain res where "Outbox.enqueue rt (pe_outboxId env) (pe_dbNow env) (completed_message opts env candidate manifest analysis) (ad_outbox db) = Inr (ad_outbox db', res)"
    using s(6) by blast
  note enqueue_present[OF this]
  then show "\<exists>row \<in> set (ad_outbox db'). ob_messageId row = Some (manualReauditOutboxMessageId (mr_itemId request) manifest) \<and>
       ob_aggregateId row = ra_callId candidate \<and> ob_eventType row = ''call.audit_completed''"
    using assms(2,3) by (simp add: completed_message_def)
qed

lemma requested_failure:
  assumes "persist_gate opts candidate now (ad_queue db) = Inr None" "wo_manualRequest opts" "ra_manualRequest candidate = Some request" "audit_ok db"
    and "persist_failure opts env candidate result manifest now db = Inr (db', r)"
  shows "item_status (ad_queue db') (mr_itemId request) = Some Failed" "ad_outbox db' = ad_outbox db"
    "qd_runs (ad_queue db') = qd_runs (ad_queue db) @ [audit_run env candidate manifest ''failed'' now]"
    "qd_calls (ad_queue db') = qd_calls (ad_queue db)" "qd_artifacts (ad_queue db') = qd_artifacts (ad_queue db)" "r = Persist_terminal_failure"
proof -
  let ?q = "failed_queue opts env candidate result manifest now (ad_queue db)"
  have allow: "allow_completed opts" using assms(2) by (simp add: allow_completed_def)
  note f = persist_failure_run[OF assms(5)]
  have ok: "queue_ok (ad_queue db)" "runs_ok (ad_queue db)" using assms(4) by (simp_all add: audit_ok_def)
  have req: "manualRequestOf candidate = Inr request" using assms(3) by (simp add: manualRequestOf_def)
  note a = failed_queue_ok[OF ok f(3), of opts candidate result manifest now] and i = open_item[OF assms(1,2) req ok(1)]
  have ev: "same_evidence ?q (ad_queue db')" using settle_manual_keeps[OF f(4) a(1)] req i(2)[OF a(3)] by auto
  show "item_status (ad_queue db') (mr_itemId request) = Some Failed" by (rule settle_manual_status[OF f(4) assms(2) req a(1) i(2)[OF a(3)]])
  show "ad_outbox db' = ad_outbox db" by (subst f(5)) simp
  show "r = Persist_terminal_failure" by (rule f(2)[OF allow])
  show "qd_runs (ad_queue db') = qd_runs (ad_queue db) @ [audit_run env candidate manifest ''failed'' now]"
    "qd_calls (ad_queue db') = qd_calls (ad_queue db)" "qd_artifacts (ad_queue db') = qd_artifacts (ad_queue db)"
    using ev allow by (simp_all add: same_evidence_def failed_queue_def Let_def)
qed

text \<open>
  C5. Storing the result of a requested re-audit is all or nothing. It completes only while its item is claimed and the
  call still shows the run the administrator saw: then one completed run is added, the call shows it, the item is
  completed and the event is in the outbox. A failed attempt adds one failed run, leaves calls and recordings
  alone and fails the item. Otherwise no evidence changes, and an item whose call moved on is skipped. An error
  changes nothing and no retry is ever scheduled.
\<close>

theorem requested_reaudit_atomic:
  assumes "(audit_step rt)\<^sup>*\<^sup>* no_tables db" "wo_manualRequest opts" "ra_manualRequest candidate = Some request"
    and "persist rt opts env candidate result usage now db = (db', answer)"
  shows "case answer of
      Inl e \<Rightarrow> db' = db
    | Inr Persist_completed \<Rightarrow>
        item_status (ad_queue db) (mr_itemId request) = Some Processing \<and> item_status (ad_queue db') (mr_itemId request) = Some Completed \<and>
        manualReauditLatestAuditRunId (ad_queue db) (ra_callId candidate) = Some (mr_baselineAuditRunId request) \<and>
        manualReauditLatestAuditRunId (ad_queue db') (ra_callId candidate) = Some (pe_auditRunId env) \<and>
        (\<exists>run. qd_runs (ad_queue db') = qd_runs (ad_queue db) @ [run] \<and> rn_id run = pe_auditRunId env \<and>
           rn_callId run = ra_callId candidate \<and> rn_status run = ''completed'' \<and>
           (\<exists>row \<in> set (ad_outbox db'). ob_messageId row = Some (manualReauditOutboxMessageId (mr_itemId request) (rn_inputManifestSha256 run)) \<and>
              ob_aggregateId row = ra_callId candidate \<and> ob_eventType row = ''call.audit_completed''))
    | Inr Persist_already_completed \<Rightarrow>
        same_evidence (ad_queue db) (ad_queue db') \<and> ad_findings db' = ad_findings db \<and> ad_media db' = ad_media db \<and> ad_outbox db' = ad_outbox db \<and>
        (db' \<noteq> db \<longrightarrow> item_status (ad_queue db') (mr_itemId request) = Some Skipped \<and>
           manualReauditLatestAuditRunId (ad_queue db) (ra_callId candidate) \<noteq> Some (mr_baselineAuditRunId request))
    | Inr Persist_terminal_failure \<Rightarrow>
        item_status (ad_queue db) (mr_itemId request) = Some Processing \<and> item_status (ad_queue db') (mr_itemId request) = Some Failed \<and>
        qd_calls (ad_queue db') = qd_calls (ad_queue db) \<and> qd_artifacts (ad_queue db') = qd_artifacts (ad_queue db) \<and> ad_outbox db' = ad_outbox db \<and>
        (\<exists>run. qd_runs (ad_queue db') = qd_runs (ad_queue db) @ [run] \<and> rn_callId run = ra_callId candidate \<and> rn_status run = ''failed'')
    | Inr Persist_retry_scheduled \<Rightarrow> False"
proof -
  let ?q = "ad_queue db"
  have ok: "audit_ok db" "queue_ok ?q" using reachable_ok[OF assms(1)] by (simp_all add: audit_ok_def)
  have req: "manualRequestOf candidate = Inr request" using assms(3) by (simp add: manualRequestOf_def)
  show ?thesis
  proof (cases "persist_transaction rt opts env candidate result usage now db")
    case (Inr x)
    then have run: "persist_transaction rt opts env candidate result usage now db = Inr (db', snd x)" and answer: "answer = Inr (snd x)"
      using assms(4) by (auto simp: persist_def split: prod.splits)
    from run show ?thesis
    proof (cases rule: persist_transaction_cases)
      case (closed q)
      have "rows_ok ?q" using ok(2) by (simp add: queue_ok_def)
      then have "q = ?q \<or> (same_evidence ?q q \<and> item_status q (mr_itemId request) = Some Skipped \<and>
          manualReauditLatestAuditRunId ?q (ra_callId candidate) \<noteq> Some (mr_baselineAuditRunId request))"
        using gate_closed[OF closed(1)] req by (auto dest: settle_evidence settle_item_status known_manual_item)
      then show ?thesis using closed(2,3) answer by auto
    next
      case (stored analysis transcript classification)
      note i = open_item[OF stored(1) assms(2) req ok(2) queue_grows_refl] and s = requested_success[OF stored(1) assms(2,3) ok(1) stored(2)]
      have "answer = Inr Persist_completed" using persist_success_run(1)[OF stored(2)] answer by simp
      then show ?thesis using i(1,3) s by (auto simp: audit_run_def)
    next
      case failed
      note i = open_item[OF failed(1) assms(2) req ok(2) queue_grows_refl] and f = requested_failure[OF failed(1) assms(2,3) ok(1) failed(2)]
      show ?thesis using i(1) f answer by (simp add: audit_run_def)
    qed
  qed (use assms(4) in \<open>auto simp: persist_def\<close>)
qed

section \<open>Asking again\<close>

lemma insert_items_requests: "insert_items env input n calls db = Inr db' \<Longrightarrow> qd_requests db' = qd_requests db"
proof (induction calls arbitrary: n db)
  case (Cons c calls)
  then obtain db1 where "insert_item (new_item env input n c) db = Inr db1" "insert_items env input (Suc n) calls db1 = Inr db'"
    by (auto simp: rbind_Inr_iff)
  then show ?case using Cons.IH[of "Suc n" db1] by (auto simp: insert_item_def split: if_splits)
qed simp

lemma accepted_request:
  assumes "ManualQueue.enqueue rt env period input db = (db', Inr receipt)" "rc_outcome receipt = Accepted"
  shows "\<exists>r \<in> set (qd_requests db'). rc_requestId receipt = Some (rq_id r) \<and> rq_idempotencyKey r = qi_idempotencyKey input \<and>
    rq_requestDigest r = manualReauditDigest rt (qi_callReferences input) \<and> rq_requestedCount r = rc_acceptedCount receipt"
proof -
  have run: "enqueue_transaction rt env period input db = Inr (db', receipt)"
    using assms(1) by (auto simp: ManualQueue.enqueue_def split: if_splits sum.splits)
  then obtain n db1 db2 calls where "insert_request (new_request rt env input n) db1 = Inr db2" "insert_items env input 0 calls db2 = Inr db'"
      "rc_requestId receipt = Some (qe_requestId env)" "rc_acceptedCount receipt = n"
    using assms(2) unfolding enqueue_transaction_def Let_def
    by (auto simp: rbind_Inr_iff simp del: set_remdups set_concat split: if_splits option.splits)
  then show ?thesis
    using insert_items_requests[of env input 0 calls db2 db']
    by (auto simp: insert_request_def new_request_def split: if_splits intro!: bexI[of _ "new_request rt env input n"])
qed

lemma digest_permuted: "mset refs = mset refs' \<Longrightarrow> manualReauditDigest rt refs = manualReauditDigest rt refs'"
  using properties_for_sort[of "sort_key (\<lambda>x. x) refs'" refs] by (simp add: manualReauditDigest_def)

lemma request_found:
  assumes "queue_ok db" "queue_grows db0 db" "r \<in> set (qd_requests db0)"
  shows "\<exists>r' \<in> set (qd_requests db). request_kept r r' \<and> loadRequest db (rq_idempotencyKey r) = Some r' \<and> itemCount db (rq_id r) = rq_requestedCount r"
proof -
  obtain rows added where rows: "qd_requests db = rows @ added" "list_all2 request_kept (qd_requests db0) rows" using assms(2) by (auto simp: queue_grows_def)
  then have "\<exists>r' \<in> set rows. request_kept r r'" using assms(3) by (auto simp: list_all2_conv_all_nth in_set_conv_nth Bex_def)
  then obtain r' where r': "r' \<in> set (qd_requests db)" "request_kept r r'" using rows(1) by auto
  have "row_at rq_idempotencyKey (rq_idempotencyKey r) (qd_requests db) = Some r'"
    by (rule row_at_member) (use assms(1) r' in \<open>simp_all add: queue_ok_def rows_ok_def request_kept_def same_key_def\<close>)
  moreover have "sized_ok (qd_items db) r'" using assms(1) r'(1) by (simp add: queue_ok_def)
  then have "itemCount db (rq_id r) = rq_requestedCount r" using r'(2) unfolding sized_ok_def itemCount_def request_kept_def by metis
  ultimately show ?thesis using r' by (auto simp: loadRequest_def row_at_def)
qed

text \<open>
  An accepted request is answered the same way for ever: whatever happened since, the same retry key with the same
  selection in any order is a replay of that request with its item count and present status, the key with
  another selection is a conflict, and neither changes a table.
\<close>

theorem request_replayed:
  assumes "(audit_step rt)\<^sup>*\<^sup>* no_tables db" "ManualQueue.enqueue rt env period input (ad_queue db) = (q, Inr receipt)" "rc_outcome receipt = Accepted"
    and "(audit_step rt)\<^sup>*\<^sup>* (db\<lparr> ad_queue := q \<rparr>) db'" "qe_lockHeld env'" "qi_idempotencyKey input' = qi_idempotencyKey input"
  shows "(mset (qi_callReferences input') = mset (qi_callReferences input) \<longrightarrow>
      manualReauditDigest rt (qi_callReferences input') = manualReauditDigest rt (qi_callReferences input)) \<and>
    (\<exists>r \<in> set (qd_requests (ad_queue db')). rc_requestId receipt = Some (rq_id r) \<and>
      ManualQueue.enqueue rt env' period' input' (ad_queue db') =
        (ad_queue db',
         if manualReauditDigest rt (qi_callReferences input') = manualReauditDigest rt (qi_callReferences input)
         then Inr \<lparr> rc_requestId = rc_requestId receipt, rc_outcome = Replayed, rc_status = Some (rq_status r),
                    rc_acceptedCount = rc_acceptedCount receipt, rc_alreadyQueuedCount = 0 \<rparr>
         else Inl (ManualReauditError ''REAUDIT_REQUEST_CONFLICT'' 409)))"
proof -
  have "audit_step rt db (db\<lparr> ad_queue := q \<rparr>)" using audit_step.asks[of rt db env period input] assms(2) by simp
  then have "audit_ok (db\<lparr> ad_queue := q \<rparr>)" using audit_step_keeps reachable_ok[OF assms(1)] by blast
  then have ok: "queue_ok (ad_queue db')" "queue_grows q (ad_queue db')"
    using audits.run_keeps[OF assms(4)] by (simp_all add: audit_ok_def audit_grows_def)
  obtain r where r: "r \<in> set (qd_requests q)" "rc_requestId receipt = Some (rq_id r)" "rq_idempotencyKey r = qi_idempotencyKey input"
      "rq_requestDigest r = manualReauditDigest rt (qi_callReferences input)" "rq_requestedCount r = rc_acceptedCount receipt"
    using accepted_request[OF assms(2,3)] by blast
  obtain r' where r': "r' \<in> set (qd_requests (ad_queue db'))" "request_kept r r'" "loadRequest (ad_queue db') (rq_idempotencyKey r) = Some r'"
      "itemCount (ad_queue db') (rq_id r) = rq_requestedCount r"
    using request_found[OF ok r(1)] by blast
  then have kept: "rq_id r' = rq_id r" "rq_requestDigest r' = manualReauditDigest rt (qi_callReferences input)" using r(4) by (simp_all add: request_kept_def)
  have "ManualQueue.enqueue rt env' period' input' (ad_queue db') =
        (ad_queue db',
         if manualReauditDigest rt (qi_callReferences input') = manualReauditDigest rt (qi_callReferences input)
         then Inr \<lparr> rc_requestId = rc_requestId receipt, rc_outcome = Replayed, rc_status = Some (rq_status r'),
                    rc_acceptedCount = rc_acceptedCount receipt, rc_alreadyQueuedCount = 0 \<rparr>
         else Inl (ManualReauditError ''REAUDIT_REQUEST_CONFLICT'' 409))"
    using r(2,3,5) r'(3,4) kept assms(5,6) by (simp add: ManualQueue.enqueue_def enqueue_transaction_def asSafeQueueError_def)
  moreover have "rc_requestId receipt = Some (rq_id r')" using r(2) kept(1) by simp
  ultimately show ?thesis using digest_permuted[of "qi_callReferences input'" "qi_callReferences input" rt] r'(1) by blast
qed

section \<open>A concrete history\<close>

definition recheck_model :: ModelIdentity where
  "recheck_model = \<lparr> model_provider = ''p'', model_name = ''n'', model_version = ''v'' \<rparr>"

definition recheck_analysis :: ReauditAnalysis where
  "recheck_analysis =
     \<lparr> an_category = OK, an_confidence = ''1'', an_language = ''en'', an_recordedDurationMs = 30000, an_speechDurationMs = 10000,
       an_conversationAssessment = Established, an_lastMeaningfulCustomerExchangeMs = Some 20000, an_customerSpeechMs = 4000,
       an_agentSpeechMs = 6000, an_chargeableServiceEndMs = 20000, an_appliedBillingGraceMs = 30000,
       an_categoryChargePolicyCode = STANDARD_CUSTOMER_PLUS_GRACE, an_durationMismatch = False, an_evidenceSha256 = ''e1'',
       an_remarks = ''fine'', an_disputeRecommended = False \<rparr>"

definition recheck_classification :: ModelClassification where
  "recheck_classification =
     \<lparr> mc_model = recheck_model, mc_category = OK, mc_confidence = ''1'', mc_customerBlockNumbers = [2], mc_unclearBlockNumbers = [],
       mc_voicemailEvidenceBlockNumbers = Some [], mc_automationEvidenceBlockNumbers = Some [], mc_junkEvidenceBlockNumbers = Some [],
       mc_businessRelevantCustomerBlockNumbers = Some [], mc_customerSpoke = True, mc_lastMeaningfulCustomerExchangeMs = None,
       mc_lastMeaningfulAgentExchangeMs = None, mc_firstAgentTurnEndMs = None, mc_lastVoicemailExchangeMs = None,
       mc_lastBusinessRelevantCustomerExchangeMs = None, mc_lastVerifiedInteractionMs = None, mc_agentBlockNumbers = Some [1],
       mc_agentFailureStartBlockNumber = None, mc_agentFailureMode = None, mc_meaningfulServiceBeforeFailure = None, mc_failureStartMs = None,
       mc_remarks = ''fine'', mc_disputeRecommended = False, mc_decisionSignals = None \<rparr>"

definition recheck_result :: "string option \<Rightarrow> ReauditItemResult" where
  "recheck_result reused =
     \<lparr> ir_callId = ''c1'', ir_artifactId = ''a1'', ir_outcome = Projected, ir_analysis = Some recheck_analysis,
       ir_transcription = Some demo_transcript, ir_classification = Some recheck_classification, ir_projection = None,
       ir_reusedTranscriptId = reused, ir_errorCode = None \<rparr>"

definition recheck_env :: "string \<Rightarrow> persist_env" where
  "recheck_env k =
     \<lparr> pe_auditRunId = ''run'' @ k, pe_mediaAnalysisId = ''media'' @ k, pe_transcriptId = ''text'' @ k, pe_findingId = ''finding'' @ k,
       pe_segmentId = (\<lambda>n. replicate n (CHR ''s'') @ k), pe_asrUsageId = ''asr'' @ k, pe_classifierUsageId = ''llm'' @ k, pe_outboxId = ''out'' @ k,
       pe_dbNow = 0, pe_rulesetSha256 = ''rules'' \<rparr>"

definition recheck_intake :: writer_options where
  "recheck_intake = \<lparr> wo_allowCompletedReaudit = False, wo_manualRequest = False \<rparr>"

definition recheck_manual :: writer_options where
  "recheck_manual = \<lparr> wo_allowCompletedReaudit = False, wo_manualRequest = True \<rparr>"

definition recheck_call :: AuditedCall where
  "recheck_call =
     \<lparr> call_id = ''c1'', call_logicalCallKey = ''T1'', call_sourceStartedAt = None, call_billingPeriodDate = ''2026-07-05'',
       call_externalReferences = [], cx_latestAuditRunId = None, cx_processingStatus = ''pending'', cx_canonicalOutcomeCode = None,
       cx_outcomeTaxonomyVersion = None, cx_updatedAt = None \<rparr>"

definition recheck_artifact :: StoredArtifact where
  "recheck_artifact =
     \<lparr> ca_id = ''a1'', ca_callId = ''c1'', ca_artifactType = ''recording'', ca_isFinal = True, ca_sourceUrl = Some ''u'', ca_sha256 = None,
       ca_audioProcessingStatus = None, ca_audioAttemptCount = None, ca_audioLastAttemptAt = None, ca_audioNextAttemptAt = None,
       ca_audioLastError = None, ax_createdAt = 0, ax_lastVerifiedAt = None, ax_fetchStatus = None, ax_fetchError = None \<rparr>"

definition recheck_imported :: audit_db where
  "recheck_imported =
     no_tables\<lparr> ad_queue := (ad_queue no_tables)\<lparr> qd_calls := [recheck_call], qd_artifacts := [recheck_artifact],
       qd_invoices := [\<lparr> iv_periodStart = ''2026-07-01'', iv_periodEnd = ''2026-07-31'', iv_status = ''approved'' \<rparr>] \<rparr> \<rparr>"

definition recheck_audited :: audit_db where
  "recheck_audited = fst (persist demo_runtime recheck_intake (recheck_env ''1'') demo_call (recheck_result None) None 1 recheck_imported)"

definition recheck_input :: ManualReauditEnqueueInput where
  "recheck_input =
     \<lparr> qi_callReferences = [''T1''], qi_idempotencyKey = ''recheck-key-0001'', qi_requestedByUserId = None, qi_correlationId = ''x'', qi_requestedAt = 2 \<rparr>"

definition recheck_asked :: "queue_db \<times> ManualReauditReceipt res" where
  "recheck_asked =
     ManualQueue.enqueue demo_runtime \<lparr> qe_lockHeld = True, qe_dbNow = 2, qe_now = 2, qe_requestId = ''q1'', qe_itemId = (\<lambda>_. ''i1'') \<rparr> None
       recheck_input (ad_queue recheck_audited)"

definition recheck_queued :: audit_db where
  "recheck_queued = recheck_audited\<lparr> ad_queue := fst recheck_asked \<rparr>"

definition recheck_request :: manual_request where
  "recheck_request = \<lparr> mr_requestId = ''q1'', mr_itemId = ''i1'', mr_baselineAuditRunId = ''run1'' \<rparr>"

definition recheck_candidate :: ReauditCandidate where
  "recheck_candidate = demo_call\<lparr> ra_manualRequest := Some recheck_request \<rparr>"

definition recheck_started :: audit_db where
  "recheck_started = fst (markStarted recheck_manual recheck_candidate 3 recheck_queued)"

definition recheck_done :: "audit_db \<times> persist_result res" where
  "recheck_done = persist demo_runtime recheck_manual (recheck_env ''2'') recheck_candidate (recheck_result (Some ''text1'')) None 4 recheck_started"

lemmas recheck_data =
  recheck_imported_def recheck_call_def recheck_artifact_def no_tables_def recheck_env_def recheck_result_def recheck_intake_def recheck_manual_def
  recheck_input_def recheck_request_def recheck_candidate_def demo_call_def

lemmas recheck_persist =
  persist_def persist_transaction_def persist_gate_def allow_completed_def completed_run_def persist_success_def insert_run_def insert_row_def
  persist_usage_def demo_transcript_def persist_transcript_def segment_rows_def demo_segments_def Let_def settle_manual_def Outbox.enqueue_def
  completed_message_def audit_run_def

lemma recheck_audited_tables:
  "ad_queue recheck_audited = audited_queue (recheck_env ''1'') demo_call recheck_analysis (sha256Hex demo_runtime []) 1 (ad_queue recheck_imported)"
  "ad_media recheck_audited = [media_row demo_runtime (recheck_env ''1'') demo_call recheck_analysis recheck_classification]"
  "ad_findings recheck_audited = [result_finding_row demo_runtime (recheck_env ''1'') ''text1'' demo_call recheck_analysis recheck_classification]"
  "map ob_id (ad_outbox recheck_audited) = [''out1'']" "ad_usage recheck_audited = []"
  "map ob_messageId (ad_outbox recheck_audited) = [Some (''audit-completed:'' @ sha256Hex demo_runtime [])]"
  by (simp_all add: recheck_audited_def recheck_persist audited_queue_def recheck_data)

lemma recheck_audited_calls:
  "qd_calls (ad_queue recheck_audited) = [audited_call (recheck_env ''1'') recheck_analysis 1 recheck_call]"
  "qd_runs (ad_queue recheck_audited) = [audit_run (recheck_env ''1'') demo_call (sha256Hex demo_runtime []) ''completed'' 1]"
  "qd_items (ad_queue recheck_audited) = []" "qd_requests (ad_queue recheck_audited) = []"
  "qd_artifacts (ad_queue recheck_audited) = [verified_artifact recheck_analysis 1 recheck_artifact]"
  "qd_invoices (ad_queue recheck_audited) = qd_invoices (ad_queue recheck_imported)"
  by (simp_all add: recheck_audited_tables audited_queue_def recheck_data)

definition recheck_item :: ManualItemRow where
  "recheck_item =
     \<lparr> it_id = ''i1'', it_requestId = ''q1'', it_callId = ''c1'', it_baselineAuditRunId = ''run1'', it_status = Queued, it_attemptCount = 0,
       it_lastErrorCode = None, it_createdAt = 2, it_startedAt = None, it_completedAt = None \<rparr>"

lemma recheck_asked_row:
  "snd recheck_asked = Inr \<lparr> rc_requestId = Some ''q1'', rc_outcome = Accepted, rc_status = Some Request_queued, rc_acceptedCount = 1, rc_alreadyQueuedCount = 0 \<rparr>"
  "qd_items (fst recheck_asked) = [recheck_item]" "qd_calls (fst recheck_asked) = qd_calls (ad_queue recheck_audited)"
  "qd_runs (fst recheck_asked) = qd_runs (ad_queue recheck_audited)" "qd_artifacts (fst recheck_asked) = qd_artifacts (ad_queue recheck_audited)"
  by (simp_all add: recheck_asked_def ManualQueue.enqueue_def enqueue_transaction_def loadRequest_def selectedCalls_def resolveSelection_def auditable_def
      recheck_audited_calls audited_call_def audit_run_def invoiced_def final_recording_def verified_artifact_def union_rows_def in_list_def same_key_def
      calls_by_reference_def expireInterruptedClaims_def interrupted_def queue_order_def Let_def insert_request_def new_request_def insert_item_def
      new_item_def recheck_item_def recheck_data)

lemma recheck_started_tables:
  "qd_items (ad_queue recheck_started) = [claimed 3 recheck_item]"
  "qd_calls (ad_queue recheck_started) = qd_calls (ad_queue recheck_audited)" "qd_runs (ad_queue recheck_started) = qd_runs (ad_queue recheck_audited)"
  "ad_media recheck_started = ad_media recheck_audited" "ad_findings recheck_started = ad_findings recheck_audited"
  "ad_usage recheck_started = []" "ad_outbox recheck_started = ad_outbox recheck_audited"
  by (simp_all add: recheck_started_def markStarted_def start_manual_def manualRequestOf_def manual_item_def live_def claim_item_def Let_def start_request_def
      baseline_decision_of_def manualReauditBaselineDecision_def manualReauditLatestAuditRunId_def recheck_queued_def recheck_asked_row
      recheck_audited_calls recheck_audited_tables(2-6) audited_call_def recheck_item_def recheck_data)

lemma recheck_outbox: "\<exists>row. ad_outbox recheck_audited = [row] \<and> ob_id row = ''out1'' \<and> ob_messageId row = Some (''audit-completed:'' @ sha256Hex demo_runtime [])"
  using recheck_audited_tables(4,6) by (auto simp: map_eq_Cons_conv)

lemma recheck_completed:
  "snd recheck_done = Inr Persist_completed" "qd_items (ad_queue (fst recheck_done)) = [settled Completed None 4 (claimed 3 recheck_item)]"
proof -
  obtain row where "ad_outbox recheck_audited = [row]" "ob_id row = ''out1''" "ob_messageId row = Some (''audit-completed:'' @ sha256Hex demo_runtime [])"
    using recheck_outbox by blast
  then show "snd recheck_done = Inr Persist_completed" "qd_items (ad_queue (fst recheck_done)) = [settled Completed None 4 (claimed 3 recheck_item)]"
    by (simp_all add: recheck_done_def recheck_persist recheck_started_tables recheck_audited_calls recheck_audited_tables(2-6) manualRequestOf_def manual_item_def
        baseline_decision_of_def manualReauditBaselineDecision_def manualReauditLatestAuditRunId_def audited_call_def settleManualReauditItem_def
        media_row_def result_finding_row_def manualReauditOutboxMessageId_def recheck_item_def claimed_def recheck_data)
qed

lemma recheck_reached:
  "(audit_step demo_runtime)\<^sup>*\<^sup>* no_tables recheck_audited" "(audit_step demo_runtime)\<^sup>*\<^sup>* no_tables recheck_started"
  "(audit_step demo_runtime)\<^sup>*\<^sup>* no_tables (fst recheck_done)" "(audit_step demo_runtime)\<^sup>*\<^sup>* recheck_queued (fst recheck_done)"
proof -
  have "elsewhere no_tables recheck_imported" by (simp add: elsewhere_def recheck_data)
  then have one: "audit_step demo_runtime no_tables recheck_imported" by (rule audit_step.others)
  have two: "audit_step demo_runtime recheck_imported recheck_audited" unfolding recheck_audited_def by (rule audit_step.persists)
  have three: "audit_step demo_runtime recheck_audited recheck_queued" unfolding recheck_queued_def recheck_asked_def by (rule audit_step.asks)
  have four: "audit_step demo_runtime recheck_queued recheck_started" unfolding recheck_started_def by (rule audit_step.starts)
  have five: "audit_step demo_runtime recheck_started (fst recheck_done)" unfolding recheck_done_def by (rule audit_step.persists)
  show audited: "(audit_step demo_runtime)\<^sup>*\<^sup>* no_tables recheck_audited" using one two by (meson rtranclp.simps)
  show started: "(audit_step demo_runtime)\<^sup>*\<^sup>* no_tables recheck_started" using audited three four by (meson rtranclp.rtrancl_into_rtrancl)
  show "(audit_step demo_runtime)\<^sup>*\<^sup>* no_tables (fst recheck_done)" using started five by (rule rtranclp.rtrancl_into_rtrancl)
  show "(audit_step demo_runtime)\<^sup>*\<^sup>* recheck_queued (fst recheck_done)" using four five by (meson r_into_rtranclp rtranclp.rtrancl_into_rtrancl)
qed


theorem requested_reaudit_atomic_witness:
  "snd recheck_done = Inr Persist_completed \<and> item_status (ad_queue (fst recheck_done)) ''i1'' = Some Completed \<and>
   manualReauditLatestAuditRunId (ad_queue recheck_started) ''c1'' = Some ''run1'' \<and>
   manualReauditLatestAuditRunId (ad_queue (fst recheck_done)) ''c1'' = Some ''run2''"
  using requested_reaudit_atomic[OF recheck_reached(2), of recheck_manual recheck_candidate recheck_request "recheck_env ''2''" "recheck_result (Some ''text1'')"
      None 4 "fst recheck_done" "snd recheck_done"] recheck_completed
  by (simp add: recheck_done_def recheck_data)

theorem settled_item_not_repeated_witness:
  "settled Completed None 4 (claimed 3 recheck_item) \<in> set (qd_items (ad_queue (fst recheck_done))) \<and>
   markStarted recheck_manual recheck_candidate 5 (fst recheck_done) = (fst recheck_done, Inr Start_already_completed) \<and>
   persist demo_runtime recheck_manual (recheck_env ''3'') recheck_candidate (recheck_result None) None 5 (fst recheck_done) =
     (fst recheck_done, Inr Persist_already_completed)"
  by (rule settled_item_not_repeated[OF recheck_reached(3) rtranclp.rtrancl_refl, where request = recheck_request])
    (simp_all add: recheck_completed(2) live_def recheck_manual_def recheck_candidate_def recheck_request_def recheck_item_def)

theorem request_replayed_witness:
  "\<exists>status. ManualQueue.enqueue demo_runtime \<lparr> qe_lockHeld = True, qe_dbNow = 9, qe_now = 9, qe_requestId = ''q2'', qe_itemId = (\<lambda>_. ''i2'') \<rparr> None
       recheck_input (ad_queue (fst recheck_done)) =
     (ad_queue (fst recheck_done),
      Inr \<lparr> rc_requestId = Some ''q1'', rc_outcome = Replayed, rc_status = Some status, rc_acceptedCount = 1, rc_alreadyQueuedCount = 0 \<rparr>)"
proof -
  obtain receipt where r: "snd recheck_asked = Inr receipt" and receipt: "rc_requestId receipt = Some ''q1''" "rc_outcome receipt = Accepted"
      "rc_acceptedCount receipt = 1"
    using recheck_asked_row(1) by simp
  then obtain q where asked: "recheck_asked = (q, Inr receipt)" by (metis prod.collapse)
  have later: "(audit_step demo_runtime)\<^sup>*\<^sup>* (recheck_audited\<lparr> ad_queue := q \<rparr>) (fst recheck_done)"
    using recheck_reached(4) unfolding recheck_queued_def asked fst_conv .
  show ?thesis
    using request_replayed[OF recheck_reached(1) asked[unfolded recheck_asked_def] receipt(2) later,
        of "\<lparr> qe_lockHeld = True, qe_dbNow = 9, qe_now = 9, qe_requestId = ''q2'', qe_itemId = (\<lambda>_. ''i2'') \<rparr>" recheck_input None] receipt
    by auto
qed

end
