(* ===== verification/UsageImport.thy ===== *)
theory UsageImport
  imports LateRecording SpendLease
begin

text \<open>
  The vendor's monthly files before they reach the database: the usage CSV (\<open>src/src/imports/csv.ts\<close>), what an importer is
  shown of a file (\<open>src/src/imports/analysis.ts\<close>), and the checks and conversions of the importing service
  (\<open>src/src/adapters/mysqlCycleImport.ts\<close>, up to \<open>prepareUsageRows\<close>). \<open>new URL\<close> is an argument, as are the identifiers drawn at random.
\<close>

section \<open>Rows of the usage file\<close>

definition REQUIRED_USAGE_HEADERS :: "string list" where
  "REQUIRED_USAGE_HEADERS =
     [''Task ID'', ''Destination Number'', ''Call Start Time'', ''Call Connected Time'', ''Call End Time'',
      ''Duration (Seconds) With Ringing'', ''Duration (Seconds) Without Ringing'', ''Duration (Minutes) - Actual Billing Mins'',
      ''Actual Billing Amount'', ''Recording URL'']"

record UsageRow =
  ug_taskId :: string
  ug_destinationNumber :: string
  ug_callStartTime :: string
  ug_callConnectedTime :: string
  ug_callEndTime :: string
  ug_durationWithRingingSec :: string
  ug_durationWithoutRingingSec :: string
  ug_durationMinutes :: string
  ug_billedAmount :: "string option"
  ug_recordingUrl :: "string option"

text \<open>The row index, the field and the code of an issue.\<close>

type_synonym UsageRowIssue = "nat \<times> string \<times> string"

definition MAX_REPORTED_USAGE_ROW_ISSUES :: nat where
  "MAX_REPORTED_USAGE_ROW_ISSUES = 1000"

function rows_loop :: "string \<Rightarrow> bool \<Rightarrow> string \<Rightarrow> string list \<Rightarrow> string list list \<Rightarrow> string list list res" where
  "rows_loop [] quoted field row rows =
     (if quoted then Inl (UsageCsvError ''CSV contains an unterminated quoted value'')
      else Inr (if field \<noteq> [] \<or> row \<noteq> [] then rows @ [row @ [trim field]] else rows))"
| "rows_loop (c # rest) quoted field row rows =
     (if quoted then
        if c = CHR 0x22 \<and> rest \<noteq> [] \<and> hd rest = CHR 0x22 then rows_loop (tl rest) True (field @ [CHR 0x22]) row rows
        else if c = CHR 0x22 then rows_loop rest False field row rows
        else rows_loop rest True (field @ [c]) row rows
      else if c = CHR 0x22 \<and> field = [] then rows_loop rest True field row rows
      else if c = CHR '','' then rows_loop rest False [] (row @ [trim field]) rows
      else if c = CHR 0x0A then rows_loop rest False [] [] (rows @ [row @ [trim field]])
      else if c \<noteq> CHR 0x0D then rows_loop rest False (field @ [c]) row rows
      else rows_loop rest False field row rows)"
  by pat_completeness auto
termination by (relation "measure (\<lambda>(s, _). length s)") auto

definition parseRows :: "string \<Rightarrow> string list list res" where
  "parseRows input =
     rbind (rows_loop input False [] [] []) (\<lambda>rows. Inr (filter (list_ex (\<lambda>cell. cell \<noteq> [])) rows))"

text \<open>The head both readers share: the position of every header, and the data rows.\<close>

definition usage_grid :: "string \<Rightarrow> ((string \<Rightarrow> nat option) \<times> string list list) res" where
  "usage_grid bytes =
     rbind (parseRows (strip_bom bytes)) (\<lambda>rows.
     case rows of
       [] \<Rightarrow> Inl (UsageCsvError ''CSV is empty'')
     | headers # data \<Rightarrow>
         let index = header_index headers; missing = filter (\<lambda>h. index h = None) REQUIRED_USAGE_HEADERS in
         if missing \<noteq> [] then Inl (UsageCsvError (''Missing required columns: '' @ join_text '', '' missing)) else Inr (index, data))"

text \<open>\<open>values[index.get(header)]?.trim() || ''\<close> is \<open>csv_cell\<close>.\<close>

definition usage_value :: "(string \<Rightarrow> nat option) \<Rightarrow> string list \<Rightarrow> string \<Rightarrow> string" where
  "usage_value index cells header = csv_cell cells (index header)"

definition duration_columns :: "(string \<times> string) list" where
  "duration_columns =
     [(''Duration (Seconds) With Ringing'', ''durationWithRingingSec''),
      (''Duration (Seconds) Without Ringing'', ''durationWithoutRingingSec''),
      (''Duration (Minutes) - Actual Billing Mins'', ''durationMinutes'')]"

text \<open>\<open>/^\d+(?:\.\d+)?$/\<close> and \<open>/^\d+(?:\.\d{1,8})?$/\<close>.\<close>

definition duration_text :: "string \<Rightarrow> bool" where
  "duration_text s = decimal_shape None None s"

definition amount_text :: "string \<Rightarrow> bool" where
  "amount_text s = decimal_shape None (Some 8) s"

definition text_or_null :: "string \<Rightarrow> string option" where
  "text_or_null s = (if s = [] then None else Some s)"

definition usage_row :: "(string \<Rightarrow> string) \<Rightarrow> UsageRow" where
  "usage_row cell =
     \<lparr> ug_taskId = cell ''Task ID'', ug_destinationNumber = cell ''Destination Number'', ug_callStartTime = cell ''Call Start Time'',
       ug_callConnectedTime = cell ''Call Connected Time'', ug_callEndTime = cell ''Call End Time'',
       ug_durationWithRingingSec = cell ''Duration (Seconds) With Ringing'',
       ug_durationWithoutRingingSec = cell ''Duration (Seconds) Without Ringing'',
       ug_durationMinutes = cell ''Duration (Minutes) - Actual Billing Mins'',
       ug_billedAmount = text_or_null (cell ''Actual Billing Amount''), ug_recordingUrl = text_or_null (cell ''Recording URL'') \<rparr>"

section \<open>The scan that reports every bad row\<close>

definition task_issues :: "nat \<Rightarrow> string list \<Rightarrow> string \<Rightarrow> UsageRowIssue list" where
  "task_issues rowIndex seen taskId =
     (if taskId = [] then [(rowIndex, ''taskId'', ''TASK_ID_REQUIRED'')]
      else if taskId \<in> set seen then [(rowIndex, ''taskId'', ''TASK_ID_DUPLICATE'')] else [])"

definition row_issues :: "nat \<Rightarrow> string list \<Rightarrow> (string \<Rightarrow> string) \<Rightarrow> UsageRowIssue list" where
  "row_issues rowIndex seen cell =
     task_issues rowIndex seen (cell ''Task ID'') @
     map (\<lambda>(_, field). (rowIndex, field, ''DURATION_INVALID'')) (filter (\<lambda>(header, _). \<not> duration_text (cell header)) duration_columns) @
     (if cell ''Actual Billing Amount'' \<noteq> [] \<and> \<not> amount_text (cell ''Actual Billing Amount'')
      then [(rowIndex, ''billedAmount'', ''AMOUNT_INVALID'')] else [])"

definition seen_after :: "string list \<Rightarrow> string \<Rightarrow> string list" where
  "seen_after seen taskId = (if taskId = [] \<or> taskId \<in> set seen then seen else taskId # seen)"

fun scan_rows :: "(string \<Rightarrow> nat option) \<Rightarrow> nat \<Rightarrow> string list \<Rightarrow> string list list \<Rightarrow> (nat \<times> UsageRow option) list \<times> UsageRowIssue list" where
  "scan_rows index rowIndex seen [] = ([], [])"
| "scan_rows index rowIndex seen (cells # data) =
     (let cell = usage_value index cells; issues = row_issues rowIndex seen cell;
          (entries, more) = scan_rows index (rowIndex + 1) (seen_after seen (cell ''Task ID'')) data in
      ((rowIndex, if issues = [] then Some (usage_row cell) else None) # entries, issues @ more))"

definition scanUsageCsv :: "string \<Rightarrow> ((nat \<times> UsageRow option) list \<times> UsageRowIssue list) res" where
  "scanUsageCsv bytes = rbind (usage_grid bytes) (\<lambda>(index, data). Inr (scan_rows index 0 [] data))"

section \<open>The reader that stops at the first bad row\<close>

definition row_error :: "nat \<Rightarrow> string \<Rightarrow> js_error" where
  "row_error rowIndex what = UsageCsvError (''Row '' @ string_of_nat (rowIndex + 2) @ '': '' @ what)"

definition check_row :: "nat \<Rightarrow> string list \<Rightarrow> (string \<Rightarrow> string) \<Rightarrow> unit res" where
  "check_row rowIndex seen cell =
     first_error
       ([(cell ''Task ID'' = [], row_error rowIndex ''Task ID is required''),
         (cell ''Task ID'' \<in> set seen, row_error rowIndex ''duplicate Task ID'')] @
        map (\<lambda>(header, _). (\<not> duration_text (cell header), row_error rowIndex (header @ '' must be a non-negative number''))) duration_columns @
        [(cell ''Actual Billing Amount'' \<noteq> [] \<and> \<not> amount_text (cell ''Actual Billing Amount''),
          row_error rowIndex ''Actual Billing Amount must be a non-negative decimal with at most 8 decimal places'')])"

fun parse_rows :: "(string \<Rightarrow> nat option) \<Rightarrow> nat \<Rightarrow> string list \<Rightarrow> string list list \<Rightarrow> UsageRow list res" where
  "parse_rows index rowIndex seen [] = Inr []"
| "parse_rows index rowIndex seen (cells # data) =
     (let cell = usage_value index cells in
      rbind (check_row rowIndex seen cell) (\<lambda>_.
      rbind (parse_rows index (rowIndex + 1) (cell ''Task ID'' # seen) data) (\<lambda>rows. Inr (usage_row cell # rows))))"

definition parseUsageCsv :: "string \<Rightarrow> UsageRow list res" where
  "parseUsageCsv bytes = rbind (usage_grid bytes) (\<lambda>(index, data). parse_rows index 0 [] data)"

section \<open>Dates and times\<close>

record usage_time =
  ut_year :: string
  ut_month :: string
  ut_day :: string
  ut_hour :: string
  ut_minute :: string
  ut_second :: "string option"

text \<open>The clock after the date, with the seconds when they follow; what is left is returned too.\<close>

definition clock :: "nat \<Rightarrow> string \<Rightarrow> (string \<times> string \<times> string option \<times> string) option" where
  "clock lo s =
     Option.bind (after_separator '' T'' lo 2 s) (\<lambda>(hour, r1).
     Option.bind (after_separator '':'' 2 2 r1) (\<lambda>(minute, r2).
     case after_separator '':'' 2 2 r2 of
       Some (second, r3) \<Rightarrow> Some (hour, minute, Some second, r3)
     | None \<Rightarrow> Some (hour, minute, None, r2)))"

definition iso_match :: "string \<Rightarrow> (usage_time \<times> string) option" where
  "iso_match s =
     Option.bind (digit_run 4 4 s) (\<lambda>(y, r1). Option.bind (after_separator ''-'' 2 2 r1) (\<lambda>(mo, r2).
     Option.bind (after_separator ''-'' 2 2 r2) (\<lambda>(d, r3). Option.bind (clock 2 r3) (\<lambda>(h, mi, sec, r).
     Some (\<lparr> ut_year = y, ut_month = mo, ut_day = d, ut_hour = h, ut_minute = mi, ut_second = sec \<rparr>, r)))))"

definition indian_match :: "string \<Rightarrow> (usage_time \<times> string) option" where
  "indian_match s =
     Option.bind (digit_run 1 2 s) (\<lambda>(d, r1). Option.bind (after_separator ''/'' 1 2 r1) (\<lambda>(mo, r2).
     Option.bind (after_separator ''/'' 4 4 r2) (\<lambda>(y, r3). Option.bind (clock 1 r3) (\<lambda>(h, mi, sec, r).
     Some (\<lparr> ut_year = y, ut_month = mo, ut_day = d, ut_hour = h, ut_minute = mi, ut_second = sec \<rparr>, r)))))"

definition whole_match :: "('a \<times> string) option \<Rightarrow> 'a option" where
  "whole_match m = (case m of Some (x, []) \<Rightarrow> Some x | _ \<Rightarrow> None)"

definition days_of_month :: "nat \<Rightarrow> nat \<Rightarrow> nat" where
  "days_of_month year month =
     (let leap = (year mod 4 = 0 \<and> (year mod 100 \<noteq> 0 \<or> year mod 400 = 0));
          days = [31, if leap then 29 else 28, 31, 30, 31, 30, 31, 31, 30, 31, 30, 31] in
      if month - 1 < length days then days ! (month - 1) else 0)"

definition isRealDateParts :: "usage_time \<Rightarrow> bool" where
  "isRealDateParts t =
     (let year = nat_of_digits (ut_year t); month = nat_of_digits (ut_month t); day = nat_of_digits (ut_day t);
          hour = nat_of_digits (ut_hour t); minute = nat_of_digits (ut_minute t); second = nat_of_digits (coalesce (ut_second t) ''0'') in
      \<not> (year < 1000 \<or> year > 9999 \<or> month < 1 \<or> month > 12 \<or> hour > 23 \<or> minute > 59 \<or> second > 59) \<and>
      1 \<le> day \<and> day \<le> days_of_month year month)"

definition isRealUsageDateTime :: "string \<Rightarrow> bool" where
  "isRealUsageDateTime s =
     (case whole_match (iso_match s) of
        Some t \<Rightarrow> isRealDateParts t
      | None \<Rightarrow> (case whole_match (indian_match s) of None \<Rightarrow> False | Some t \<Rightarrow> isRealDateParts t))"

definition sqlDateTime :: "string \<Rightarrow> string \<Rightarrow> string option res" where
  "sqlDateTime v name =
     (let trimmed = trim v in
      if trimmed = [] then Inr None
      else (case iso_match trimmed of
        Some (t, _) \<Rightarrow> Inr (Some (ut_year t @ ''-'' @ ut_month t @ ''-'' @ ut_day t @ '' '' @ ut_hour t @ '':'' @ ut_minute t @ '':'' @ coalesce (ut_second t) ''00''))
      | None \<Rightarrow>
          (case indian_match trimmed of
             Some (t, _) \<Rightarrow> Inr (Some (ut_year t @ ''-'' @ padStart 2 (CHR ''0'') (ut_month t) @ ''-'' @ padStart 2 (CHR ''0'') (ut_day t) @ '' '' @
               padStart 2 (CHR ''0'') (ut_hour t) @ '':'' @ ut_minute t @ '':'' @ coalesce (ut_second t) ''00''))
           | None \<Rightarrow> Inl (ImportInputError (name @ '' must be YYYY-MM-DD HH:mm:ss or DD/MM/YYYY HH:mm:ss'')))))"

section \<open>The checks before anything is stored\<close>

definition first_issue :: "(string \<times> string) option list \<Rightarrow> (string \<times> string) option" where
  "first_issue issues = (case List.filter (\<lambda>i. i \<noteq> None) issues of [] \<Rightarrow> None | i # _ \<Rightarrow> i)"

definition time_issue :: "string \<Rightarrow> string \<Rightarrow> (string \<times> string) option" where
  "time_issue field raw =
     (let trimmed = trim raw in if trimmed = [] \<or> isRealUsageDateTime trimmed then None else Some (field, ''DATETIME_INVALID''))"

text \<open>The address a row is stored under; \<open>None\<close> where the canonical form is refused or empty.\<close>

definition stored_url :: "(string \<Rightarrow> parsed_url option) \<Rightarrow> string list \<Rightarrow> string \<Rightarrow> string option" where
  "stored_url parse hosts url =
     (case normalizeRecordingUrl parse url hosts 0 of Inl _ \<Rightarrow> None | Inr s3Url \<Rightarrow> text_or_null s3Url)"

definition deepValidateUsageRow :: "(string \<Rightarrow> parsed_url option) \<Rightarrow> string list \<Rightarrow> UsageRow \<Rightarrow> (string \<times> string) option" where
  "deepValidateUsageRow parse hosts row =
     first_issue
       [time_issue ''callStartTime'' (ug_callStartTime row), time_issue ''callConnectedTime'' (ug_callConnectedTime row),
        time_issue ''callEndTime'' (ug_callEndTime row),
        (case ug_recordingUrl row of None \<Rightarrow> None
         | Some url \<Rightarrow> if stored_url parse hosts url = None then Some (''recordingUrl'', ''RECORDING_URL_INVALID'') else None)]"

definition deep_issues :: "(string \<Rightarrow> parsed_url option) \<Rightarrow> string list \<Rightarrow> (nat \<times> UsageRow option) list \<Rightarrow> UsageRowIssue list" where
  "deep_issues parse hosts entries =
     [(rowIndex, issue). (rowIndex, entry) \<leftarrow> entries, row \<leftarrow> (case entry of None \<Rightarrow> [] | Some row \<Rightarrow> [row]),
        issue \<leftarrow> (case deepValidateUsageRow parse hosts row of None \<Rightarrow> [] | Some issue \<Rightarrow> [issue])]"

definition prevalidateUsageRows :: "(string \<Rightarrow> parsed_url option) \<Rightarrow> string list \<Rightarrow> string \<Rightarrow> UsageRow list res" where
  "prevalidateUsageRows parse hosts bytes =
     rbind (scanUsageCsv bytes) (\<lambda>(entries, found).
     let issues = found @ deep_issues parse hosts entries in
     if length issues > MAX_REPORTED_USAGE_ROW_ISSUES then Inl (UsageImportValidationError (take MAX_REPORTED_USAGE_ROW_ISSUES issues))
     else if issues \<noteq> [] then Inl (UsageImportValidationError issues)
     else parseUsageCsv bytes)"

record PreparedUsageRow =
  pp_row :: UsageRow
  pp_callId :: string
  pp_legId :: string
  pp_artifactId :: string
  pp_startedAt :: "string option"
  pp_connectedAt :: "string option"
  pp_endedAt :: "string option"
  pp_sourceUrl :: "string option"

record row_ids =
  ri_callId :: string
  ri_legId :: string
  ri_artifactId :: string

definition prepare_row :: "(string \<Rightarrow> parsed_url option) \<Rightarrow> string list \<Rightarrow> row_ids \<times> UsageRow \<Rightarrow> PreparedUsageRow res" where
  "prepare_row parse hosts entry =
     (case entry of (ids, row) \<Rightarrow>
      rbind (case ug_recordingUrl row of None \<Rightarrow> Inr None
             | Some url \<Rightarrow> (case stored_url parse hosts url of
                  None \<Rightarrow> Inl (ImportInputError ''A recording URL is not an approved canonical source'') | Some s3Url \<Rightarrow> Inr (Some s3Url))) (\<lambda>sourceUrl.
      rbind (sqlDateTime (ug_callStartTime row) ''Call Start Time'') (\<lambda>startedAt.
      rbind (sqlDateTime (ug_callConnectedTime row) ''Call Connected Time'') (\<lambda>connectedAt.
      rbind (sqlDateTime (ug_callEndTime row) ''Call End Time'') (\<lambda>endedAt.
      Inr \<lparr> pp_row = row, pp_callId = ri_callId ids, pp_legId = ri_legId ids, pp_artifactId = ri_artifactId ids, pp_startedAt = startedAt,
            pp_connectedAt = connectedAt, pp_endedAt = endedAt, pp_sourceUrl = sourceUrl \<rparr>)))))"

definition prepareUsageRows ::
  "(string \<Rightarrow> parsed_url option) \<Rightarrow> string list \<Rightarrow> (nat \<Rightarrow> row_ids) \<Rightarrow> UsageRow list \<Rightarrow> PreparedUsageRow list res" where
  "prepareUsageRows parse hosts ids rows = mapM_res (prepare_row parse hosts) (map (\<lambda>(k, row). (ids k, row)) (enumerate 0 rows))"

text \<open>\<open>/^\d{4}-\d{2}-\d{2}$/\<close>.\<close>

definition date_text :: "string \<Rightarrow> bool" where
  "date_text s =
     (case Option.bind (digit_run 4 4 s) (\<lambda>(_, r1). Option.bind (after_separator ''-'' 2 2 r1) (\<lambda>(_, r2). after_separator ''-'' 2 2 r2)) of
        Some (_, []) \<Rightarrow> True | _ \<Rightarrow> False)"

definition dateOnly :: "string \<Rightarrow> string \<Rightarrow> string res" where
  "dateOnly v name = (if date_text v then Inr v else Inl (ImportInputError (name @ '' must use YYYY-MM-DD'')))"

text \<open>\<open>Number(text).toFixed(k)\<close> of a decimal; the text of a double from \<open>10 ^ 21\<close> on is an argument.\<close>

definition number_fixed :: "(rat \<Rightarrow> string) \<Rightarrow> nat \<Rightarrow> string \<Rightarrow> string" where
  "number_fixed large k s = (let x = coalesce (js_Number s) 0 in if x \<ge> 10 ^ 21 then large x else toFixed k x)"

definition money :: "(rat \<Rightarrow> string) \<Rightarrow> string \<Rightarrow> string \<Rightarrow> string res" where
  "money large v name =
     (if amount_text v then Inr (number_fixed large 8 v) else Inl (ImportInputError (name @ '' must be a non-negative decimal'')))"

section \<open>What the importer is shown\<close>

record UsageImportPreview =
  up_periodStart :: string
  up_periodEnd :: string
  up_rowCount :: nat
  up_recordingUrlCount :: nat
  up_missingRecordingUrlCount :: nat
  up_recognizedColumns :: "string list"
  up_warnings :: "string list"

definition datePart :: "string \<Rightarrow> string option" where
  "datePart v =
     (case Option.bind (digit_run 4 4 v) (\<lambda>(y, r1). Option.bind (after_separator ''-'' 2 2 r1) (\<lambda>(mo, r2).
           Option.bind (after_separator ''-'' 2 2 r2) (\<lambda>(d, _). Some (y @ ''-'' @ mo @ ''-'' @ d)))) of
        Some s \<Rightarrow> Some s
      | None \<Rightarrow> Option.bind (digit_run 1 2 v) (\<lambda>(d, r1). Option.bind (after_separator ''/'' 1 2 r1) (\<lambda>(mo, r2).
           Option.bind (after_separator ''/'' 4 4 r2) (\<lambda>(y, _). Some (y @ ''-'' @ padStart 2 (CHR ''0'') mo @ ''-'' @ padStart 2 (CHR ''0'') d)))))"

definition analyzeUsageCsv :: "string \<Rightarrow> UsageImportPreview res" where
  "analyzeUsageCsv bytes =
     rbind (parseUsageCsv bytes) (\<lambda>rows.
     if rows = [] then Inl (PlainError ''Usage CSV contains no call rows'')
     else
       let dates = sort_key (\<lambda>d. d) (List.map_filter (\<lambda>row. datePart (ug_callStartTime row)) rows);
           recordingUrlCount = length (filter (\<lambda>row. ug_recordingUrl row \<noteq> None) rows) in
       if dates = [] then Inl (PlainError ''Usage CSV does not contain a recognizable Call Start Time'')
       else Inr \<lparr> up_periodStart = hd dates, up_periodEnd = List.last dates, up_rowCount = length rows, up_recordingUrlCount = recordingUrlCount,
         up_missingRecordingUrlCount = length rows - recordingUrlCount, up_recognizedColumns = REQUIRED_USAGE_HEADERS,
         up_warnings =
           (if length dates \<noteq> length rows then [string_of_nat (length rows - length dates) @
              '' rows have an unrecognized Call Start Time; verify the period before submitting.''] else []) @
           (if recordingUrlCount \<noteq> length rows then [string_of_nat (length rows - recordingUrlCount) @
              '' rows have no recording URL and will remain explicitly unaudited.''] else []) \<rparr>)"

record InvoiceExtraction =
  ix_invoice_number :: "string option"
  ix_invoice_date :: "string option"
  ix_period_start :: "string option"
  ix_period_end :: "string option"
  ix_subtotal_amount :: "string option"
  ix_tax_amount :: "string option"
  ix_total_amount :: "string option"
  ix_confidence :: "rat option"
  ix_warnings :: "string list"

record InvoiceImportPreview =
  ip_model :: string
  ip_invoiceNumber :: string
  ip_invoiceDate :: string
  ip_periodStart :: string
  ip_periodEnd :: string
  ip_subtotalAmount :: string
  ip_taxAmount :: string
  ip_totalAmount :: string
  ip_confidence :: string
  ip_warnings :: "string list"

definition cleanDate :: "string option \<Rightarrow> string" where
  "cleanDate v = (case v of None \<Rightarrow> [] | Some s \<Rightarrow> if date_text s then s else [])"

definition cleanMoney :: "(rat \<Rightarrow> string) \<Rightarrow> string option \<Rightarrow> string" where
  "cleanMoney large v =
     (case v of None \<Rightarrow> [] | Some s \<Rightarrow> if decimal_shape None (Some 2) s then number_fixed large 2 s else [])"

text \<open>A confidence that is not a finite number is \<open>None\<close>.\<close>

definition normalizeInvoiceExtraction :: "(rat \<Rightarrow> string) \<Rightarrow> string \<Rightarrow> InvoiceExtraction \<Rightarrow> InvoiceImportPreview res" where
  "normalizeInvoiceExtraction large model v =
     (case ix_confidence v of
        None \<Rightarrow> Inl (PlainError ''Invoice extraction returned invalid confidence'')
      | Some p \<Rightarrow>
          if p < 0 \<or> p > 1 then Inl (PlainError ''Invoice extraction returned invalid confidence'')
          else Inr \<lparr> ip_model = model, ip_invoiceNumber = trim (coalesce (ix_invoice_number v) []), ip_invoiceDate = cleanDate (ix_invoice_date v),
            ip_periodStart = cleanDate (ix_period_start v), ip_periodEnd = cleanDate (ix_period_end v),
            ip_subtotalAmount = cleanMoney large (ix_subtotal_amount v), ip_taxAmount = cleanMoney large (ix_tax_amount v),
            ip_totalAmount = cleanMoney large (ix_total_amount v), ip_confidence = toFixed 4 p,
            ip_warnings = filter (\<lambda>w. w \<noteq> []) (map trim (ix_warnings v)) \<rparr>)"

text \<open>The service: the extraction by the model service is an argument, \<open>None\<close> when it returned no output.\<close>

definition analyzeInvoice ::
  "(rat \<Rightarrow> string) \<Rightarrow> string \<Rightarrow> bool \<Rightarrow> (string \<Rightarrow> InvoiceExtraction option) \<Rightarrow> string \<Rightarrow> InvoiceImportPreview res" where
  "analyzeInvoice large model configured extract bytes =
     (if \<not> configured then Inl (ConfigurationError ''OPENAI_API_KEY is required for invoice analysis'')
      else if take 5 bytes \<noteq> ''%PDF-'' then Inl (PlainError ''Invoice upload is not a valid PDF'')
      else (case extract bytes of
              None \<Rightarrow> Inl (PlainError ''OpenAI invoice extraction returned no output'')
            | Some v \<Rightarrow> normalizeInvoiceExtraction large model v))"

section \<open>Both readers agree\<close>

lemma row_issues_index: "(r, f, c) \<in> set (row_issues k seen cell) \<Longrightarrow> r = k"
  by (auto simp: row_issues_def task_issues_def split: if_splits)

lemma check_row_ok: "row_issues k seen cell = [] \<longleftrightarrow> check_row k seen cell = Inr ()"
  by (auto simp: row_issues_def task_issues_def check_row_def duration_columns_def)

lemma check_row_error: "check_row k seen cell = Inl e \<Longrightarrow> \<exists>what. e = row_error k what"
  by (auto simp: check_row_def duration_columns_def split: if_splits)

lemma check_row_seen: "check_row k seen cell = Inr () \<Longrightarrow> seen_after seen (cell ''Task ID'') = cell ''Task ID'' # seen"
  by (auto simp: check_row_def seen_after_def split: if_splits)

lemma parse_clean_scan:
  "snd (scan_rows index k seen data) = [] \<Longrightarrow>
   parse_rows index k seen data = Inr (map (the \<circ> snd) (fst (scan_rows index k seen data))) \<and>
   list_all (\<lambda>e. snd e \<noteq> None) (fst (scan_rows index k seen data))"
proof (induction index k seen data rule: scan_rows.induct)
  case (2 index k seen cells data)
  let ?cell = "usage_value index cells"
  obtain entries further where rest: "scan_rows index (k + 1) (seen_after seen (?cell ''Task ID'')) data = (entries, further)" by fastforce
  have clean: "row_issues k seen ?cell = []" "further = []" using "2.prems" rest by (simp_all add: Let_def)
  then have check: "check_row k seen ?cell = Inr ()" by (simp add: check_row_ok)
  then show ?case using "2.IH"[OF refl refl] rest clean check_row_seen[OF check] by (simp add: Let_def)
qed simp

lemma parse_issue_scan:
  "snd (scan_rows index k seen data) = (r, f, c) # further \<Longrightarrow> \<exists>what. parse_rows index k seen data = Inl (row_error r what)"
proof (induction index k seen data rule: scan_rows.induct)
  case (2 index k seen cells data)
  let ?cell = "usage_value index cells"
  obtain entries later where rest: "scan_rows index (k + 1) (seen_after seen (?cell ''Task ID'')) data = (entries, later)" by fastforce
  show ?case
  proof (cases "check_row k seen ?cell")
    case (Inl e)
    then have "row_issues k seen ?cell \<noteq> []" using check_row_ok[of k seen ?cell] by auto
    then have "(r, f, c) \<in> set (row_issues k seen ?cell)" using "2.prems" rest by (cases "row_issues k seen ?cell") (auto simp: Let_def)
    then show ?thesis using row_issues_index check_row_error[OF Inl] Inl by (fastforce simp: Let_def)
  next
    case (Inr u)
    then have check: "check_row k seen ?cell = Inr ()" by simp
    then have "row_issues k seen ?cell = []" by (simp add: check_row_ok)
    then have "snd (scan_rows index (k + 1) (seen_after seen (?cell ''Task ID'')) data) = (r, f, c) # further" using "2.prems" rest by (simp add: Let_def)
    then show ?thesis using "2.IH"[OF refl refl] check check_row_seen[OF check] by (auto simp: Let_def)
  qed
qed simp

text \<open>
  C31. The scan that reports every bad row and the reader that stops at the first agree on every file: the same files are
  unreadable for the same reason; a file without issues is read as exactly the scanned rows, in order; and
  where there are issues the reader refuses the file at the row of the first of them.
\<close>

theorem scan_and_reader_agree:
  "case scanUsageCsv bytes of
     Inl e \<Rightarrow> parseUsageCsv bytes = Inl e
   | Inr (entries, []) \<Rightarrow> parseUsageCsv bytes = Inr (map (the \<circ> snd) entries) \<and> list_all (\<lambda>e. snd e \<noteq> None) entries
   | Inr (entries, (rowIndex, _) # _) \<Rightarrow>
       \<exists>what. parseUsageCsv bytes = Inl (UsageCsvError (''Row '' @ string_of_nat (rowIndex + 2) @ '': '' @ what))"
proof (cases "usage_grid bytes")
  case (Inr g)
  obtain index data entries issues where g: "g = (index, data)" and scan: "scan_rows index 0 [] data = (entries, issues)" by (cases g) fastforce
  show ?thesis
  proof (cases issues)
    case Nil
    then show ?thesis using parse_clean_scan[of index 0 "[]" data] Inr g scan by (simp add: scanUsageCsv_def parseUsageCsv_def)
  next
    case (Cons i further)
    obtain r f c where i: "i = (r, f, c)" by (cases i)
    show ?thesis using parse_issue_scan[of index 0 "[]" data r f c further] Inr g scan Cons i
      by (auto simp: scanUsageCsv_def parseUsageCsv_def row_error_def)
  qed
qed (simp add: scanUsageCsv_def parseUsageCsv_def)

section \<open>Amounts\<close>

lemma amount_parts:
  assumes "amount_text v"
  obtains w f where "break_at (CHR ''.'') v = (w, f)" "w \<noteq> []" "all_digits w" "all_digits (coalesce f [])" "length (coalesce f []) \<le> 8" "set v \<subseteq> set w \<union> set (coalesce f []) \<union> {CHR ''.''}"
proof -
  obtain w f where b: "break_at (CHR ''.'') v = (w, f)" by fastforce
  have "set v \<subseteq> set (fst (break_at (CHR ''.'') v)) \<union> set (coalesce (snd (break_at (CHR ''.'') v)) []) \<union> {CHR ''.''}"
    by (induction v) (auto split: prod.splits if_splits)
  then show thesis using that b assms by (cases f) (auto simp: amount_text_def decimal_shape_def all_digits_def)
qed

lemma digit_plain: "is_digit c \<or> c = CHR ''.'' \<Longrightarrow> \<not> is_ws c \<and> c \<notin> set ''eExXoObB+-''"
  by (auto simp: is_digit_def is_ws_def less_eq_char_def)

lemma amount_plain:
  assumes "amount_text v" "c \<in> set v"
  shows "\<not> is_ws c \<and> c \<notin> set ''eExXoObB+-''"
proof -
  obtain w f where "all_digits w" "all_digits (coalesce f [])" "set v \<subseteq> set w \<union> set (coalesce f []) \<union> {CHR ''.''}" by (rule amount_parts[OF assms(1)])
  then have "is_digit c \<or> c = CHR ''.''" using assms(2) by (auto simp: all_digits_def list_all_iff)
  then show ?thesis by (rule digit_plain)
qed

lemma trim_plain: "\<forall>c \<in> set s. \<not> is_ws c \<Longrightarrow> trim s = s"
proof -
  assume plain: "\<forall>c \<in> set s. \<not> is_ws c"
  then have "dropWhile is_ws s = s" by (cases s) auto
  moreover have "dropWhile is_ws (rev s) = rev s" using plain by (cases s rule: rev_cases) auto
  ultimately show ?thesis by (simp add: trim_def)
qed

lemma js_Number_amount:
  assumes "amount_text v"
  shows "js_Number v = Some (fl (of_nat (nat_of_digits (whole_part v @ fraction_part v)) / 10 ^ length (fraction_part v)))"
proof -
  obtain w f where b: "break_at (CHR ''.'') v = (w, f)" and d: "w \<noteq> []" "all_digits w" "all_digits (coalesce f [])" "length (coalesce f []) \<le> 8"
    and sub: "set v \<subseteq> set w \<union> set (coalesce f []) \<union> {CHR ''.''}" by (rule amount_parts[OF assms])
  note plain = amount_plain[OF assms]
  then have t: "trim v = v" by (intro trim_plain) auto
  have ne: "v \<noteq> []" using b d(1) by auto
  then obtain c r where v: "v = c # r" by (cases v) auto
  have pre: "take 2 v \<notin> {''0x'', ''0X'', ''0o'', ''0O'', ''0b'', ''0B''}"
    using plain by (cases r) (auto simp: v)
  have tw: "takeWhile (\<lambda>c. c \<noteq> CHR ''e'' \<and> c \<noteq> CHR ''E'') v = v" using plain by (auto simp: takeWhile_eq_all_conv)
  have "decimal_literal v = Some (of_nat (nat_of_digits (w @ coalesce f [])) * 10 powi (- int (length (coalesce f []))))"
    unfolding decimal_literal_def Let_def tw using b d by (simp add: mantissa_value_def Let_def)
  moreover have "split_sign v = (False, v)" using plain[of c] by (simp add: v split_sign_def)
  ultimately show ?thesis
    using t ne pre b by (simp add: js_Number_def whole_part_def fraction_part_def power_int_minus field_simps)
qed

lemma toScaled_amount:
  assumes "amount_text v"
  shows "toScaled (Some v) = Some (int (nat_of_digits (whole_part v @ fraction_part v) * 10 ^ (8 - length (fraction_part v))))"
    "length (fraction_part v) \<le> 8"
proof -
  obtain w f where b: "break_at (CHR ''.'') v = (w, f)" and d: "w \<noteq> []" "all_digits w" "all_digits (coalesce f [])" "length (coalesce f []) \<le> 8"
    and sub: "set v \<subseteq> set w \<union> set (coalesce f []) \<union> {CHR ''.''}" by (rule amount_parts[OF assms])
  note plain = amount_plain[OF assms]
  show len: "length (fraction_part v) \<le> 8" using b d(4) by (simp add: fraction_part_def)
  have t: "trim v = v" using plain by (intro trim_plain) auto
  obtain c r where v: "v = c # r" using b d(1) by (cases v) auto
  have shape: "decimal_shape None None v" using assms by (auto simp: amount_text_def decimal_shape_def split: prod.splits option.splits)
  have "nat_of_digits (whole_part v @ eight_places (fraction_part v)) = nat_of_digits (whole_part v @ fraction_part v) * 10 ^ (8 - length (fraction_part v))"
    using len by (simp add: nat_of_digits_append eight_places_short nat_of_digits_padEnd max_def algebra_simps flip: power_add)
  then show "toScaled (Some v) = Some (int (nat_of_digits (whole_part v @ fraction_part v) * 10 ^ (8 - length (fraction_part v))))"
    using t shape plain[of c] by (simp add: toScaled_def strip_sign_def v Let_def)
qed

lemma fl_close:
  assumes "0 \<le> q" "q < 2 ^ 26"
  shows "0 \<le> fl q" "\<bar>fl q - q\<bar> * 10 ^ 8 < 1 / 2" "fl q < 10 ^ 21"
proof -
  have "0 \<le> fl q \<and> \<bar>fl q - q\<bar> * 10 ^ 8 < 1 / 2 \<and> fl q < 10 ^ 21"
  proof (cases "q = 0")
    case False
    then have q: "0 < q" using assms(1) by simp
    have "binary_exponent q < 26"
    proof (rule ccontr)
      assume "\<not> binary_exponent q < 26"
      then have "(2 :: rat) powi 26 \<le> 2 powi binary_exponent q" by (intro power_int_increasing) auto
      then show False using binary_exponent_le[OF q] assms(2) by simp
    qed
    then have "(2 :: rat) powi (binary_exponent q - 52) \<le> 2 powi (- 27)" by (intro power_int_increasing) auto
    moreover have "(2 :: rat) powi (- 27) = 1 / 2 ^ 27" by (simp add: power_int_minus)
    ultimately have u: "ulp q \<le> 1 / 2 ^ 27" by (simp only: ulp_def)
    have "\<bar>fl q - q\<bar> \<le> ulp q / 2" by (rule fl_error[OF q])
    moreover have "ulp q / 2 \<le> q" using ulp_bound[OF q] ulp_pos[of q] by simp
    ultimately have "\<bar>fl q - q\<bar> \<le> q" "\<bar>fl q - q\<bar> \<le> 1 / 2 ^ 28" using u by simp_all
    then have "0 \<le> fl q" "fl q \<le> 2 * q" "\<bar>fl q - q\<bar> * 10 ^ 8 \<le> 1 / 2 ^ 28 * 10 ^ 8" by (auto simp: abs_le_iff)
    then show ?thesis using assms(2) by simp
  qed simp
  then show "0 \<le> fl q" "\<bar>fl q - q\<bar> * 10 ^ 8 < 1 / 2" "fl q < 10 ^ 21" by simp_all
qed

text \<open>
  An invoice amount below 67108864 (two to the twenty-sixth) is stored exactly, whatever number of its eight places it uses: going
  through a double and back loses nothing.
\<close>

theorem invoice_amount_exact:
  assumes "amount_text v" "toScaled (Some v) = Some a" "a < 67108864 * 10 ^ 8"
  shows "\<exists>s. money large v name = Inr s \<and> toScaled (Some s) = Some a"
proof -
  let ?n = "nat_of_digits (whole_part v @ fraction_part v)" let ?k = "length (fraction_part v)"
  let ?q = "of_nat ?n / 10 ^ ?k :: rat"
  note sc = toScaled_amount[OF assms(1)]
  have a: "a = int (?n * 10 ^ (8 - ?k))" using sc(1) assms(2) by simp
  have "(10 :: rat) ^ 8 = 10 ^ ?k * 10 ^ (8 - ?k)" using sc(2) by (simp flip: power_add)
  then have "?q * 10 ^ 8 = of_nat ?n / 10 ^ ?k * (10 ^ ?k * 10 ^ (8 - ?k))" by (simp only:)
  then have q: "?q * 10 ^ 8 = of_int a" by (simp add: a)
  moreover have "(of_int a :: rat) < of_int (67108864 * 10 ^ 8)" using assms(3) by (simp only: of_int_less_iff)
  ultimately have "?q * 10 ^ 8 < 2 ^ 26 * 10 ^ 8" by simp
  then have "?q < 2 ^ 26" by (simp only: mult_less_cancel_right) simp
  note close = fl_close[OF _ this]
  have "\<bar>fl ?q * 10 ^ 8 - of_int a\<bar> < 1 / 2" using close(2) unfolding q[symmetric] left_diff_distrib[symmetric] abs_mult by simp
  then have "\<lfloor>fl ?q * 10 ^ 8 + 1 / 2\<rfloor> = a" unfolding floor_eq_iff abs_less_iff by linarith
  then show ?thesis
    using assms(1) close(1,3) js_Number_amount[OF assms(1)] toScaled_toFixed8[of "fl ?q"] by (simp add: money_def number_fixed_def Let_def not_le)
qed

lemma ten_crore_double: "fl (10000000010 / 100) = 6710886406710886 / 67108864"
  by code_simp


section \<open>Reading back a written file\<close>

definition usage_cells :: "UsageRow \<Rightarrow> string list" where
  "usage_cells row =
     [ug_taskId row, ug_destinationNumber row, ug_callStartTime row, ug_callConnectedTime row, ug_callEndTime row, ug_durationWithRingingSec row,
      ug_durationWithoutRingingSec row, ug_durationMinutes row, coalesce (ug_billedAmount row) [], coalesce (ug_recordingUrl row) []]"

definition print_usage :: "UsageRow list \<Rightarrow> string" where
  "print_usage rows = print_csv (REQUIRED_USAGE_HEADERS # map usage_cells rows)"

definition usage_row_ok :: "UsageRow \<Rightarrow> bool" where
  "usage_row_ok row =
     (list_all (\<lambda>c. trim c = c) (usage_cells row) \<and> ug_taskId row \<noteq> [] \<and> ug_billedAmount row \<noteq> Some [] \<and> ug_recordingUrl row \<noteq> Some [] \<and>
      duration_text (ug_durationWithRingingSec row) \<and> duration_text (ug_durationWithoutRingingSec row) \<and> duration_text (ug_durationMinutes row) \<and>
      (case ug_billedAmount row of None \<Rightarrow> True | Some a \<Rightarrow> amount_text a))"

lemma rows_loop_csv:
  "rows_loop s quoted field row rows =
   (case csv_loop s quoted field row rows of
      Inl _ \<Rightarrow> Inl (UsageCsvError ''CSV contains an unterminated quoted value'') | Inr grid \<Rightarrow> Inr grid)"
proof (induction s quoted field row rows rule: rows_loop.induct)
  case (2 c rest quoted field row rows)
  show ?case
  proof (cases quoted)
    case True
    then show ?thesis
      using "2.IH"(1-3) by (cases "c = CHR 0x22 \<and> rest \<noteq> [] \<and> hd rest = CHR 0x22"; cases "c = CHR 0x22") (auto simp del: rows_loop.simps(1) csv_loop.simps(1))
  next
    case False
    consider "c = CHR 0x22 \<and> field = []" | "\<not> (c = CHR 0x22 \<and> field = [])" "c = CHR '',''" | "c = CHR 0x0A" | "c = CHR 0x0D"
      | "\<not> (c = CHR 0x22 \<and> field = [])" "c \<noteq> CHR '',''" "c \<noteq> CHR 0x0A" "c \<noteq> CHR 0x0D" by blast
    then show ?thesis using False "2.IH"(4-8) by cases auto
  qed
qed simp

lemma parseRows_printed: "parseRows (print_csv grid) = Inr (filter (list_ex (\<lambda>cell. cell \<noteq> [])) (map (map trim) grid))"
  using csv_round_trip[of grid] by (simp add: parseRows_def rows_loop_csv parseCsvGrid_def rbind_Inr_iff split: sum.splits) (auto simp: rbind_def split: sum.splits)

lemma strip_bom_printed: "strip_bom (print_usage rows) = print_usage rows"
  by (simp add: print_usage_def print_csv_def print_row_def REQUIRED_USAGE_HEADERS_def print_cell_def strip_bom_def)

lemma header_positions:
  "header_index REQUIRED_USAGE_HEADERS ''Task ID'' = Some 0" "header_index REQUIRED_USAGE_HEADERS ''Destination Number'' = Some 1"
  "header_index REQUIRED_USAGE_HEADERS ''Call Start Time'' = Some 2" "header_index REQUIRED_USAGE_HEADERS ''Call Connected Time'' = Some 3"
  "header_index REQUIRED_USAGE_HEADERS ''Call End Time'' = Some 4" "header_index REQUIRED_USAGE_HEADERS ''Duration (Seconds) With Ringing'' = Some 5"
  "header_index REQUIRED_USAGE_HEADERS ''Duration (Seconds) Without Ringing'' = Some 6"
  "header_index REQUIRED_USAGE_HEADERS ''Duration (Minutes) - Actual Billing Mins'' = Some 7"
  "header_index REQUIRED_USAGE_HEADERS ''Actual Billing Amount'' = Some 8" "header_index REQUIRED_USAGE_HEADERS ''Recording URL'' = Some 9"
  by code_simp+

lemma usage_row_cells:
  assumes "usage_row_ok row"
  shows "usage_row (usage_value (header_index REQUIRED_USAGE_HEADERS) (usage_cells row)) = row"
    "usage_value (header_index REQUIRED_USAGE_HEADERS) (usage_cells row) ''Task ID'' = ug_taskId row"
    "ug_taskId row \<notin> set seen \<Longrightarrow> check_row k seen (usage_value (header_index REQUIRED_USAGE_HEADERS) (usage_cells row)) = Inr ()"
proof -
  let ?cell = "usage_value (header_index REQUIRED_USAGE_HEADERS) (usage_cells row)"
  have cells: "?cell ''Task ID'' = ug_taskId row" "?cell ''Destination Number'' = ug_destinationNumber row" "?cell ''Call Start Time'' = ug_callStartTime row"
    "?cell ''Call Connected Time'' = ug_callConnectedTime row" "?cell ''Call End Time'' = ug_callEndTime row"
    "?cell ''Duration (Seconds) With Ringing'' = ug_durationWithRingingSec row"
    "?cell ''Duration (Seconds) Without Ringing'' = ug_durationWithoutRingingSec row"
    "?cell ''Duration (Minutes) - Actual Billing Mins'' = ug_durationMinutes row"
    "?cell ''Actual Billing Amount'' = coalesce (ug_billedAmount row) []" "?cell ''Recording URL'' = coalesce (ug_recordingUrl row) []"
    using assms by (simp_all add: usage_value_def csv_cell_def header_positions usage_row_ok_def usage_cells_def)
  show "?cell ''Task ID'' = ug_taskId row" by (rule cells(1))
  show "usage_row ?cell = row"
    using assms by (cases "ug_billedAmount row"; cases "ug_recordingUrl row") (auto simp: usage_row_def cells text_or_null_def usage_row_ok_def)
  show "ug_taskId row \<notin> set seen \<Longrightarrow> check_row k seen ?cell = Inr ()"
    using assms by (auto simp: check_row_def cells duration_columns_def usage_row_ok_def split: option.splits)
qed

lemma parse_printed_rows:
  "list_all usage_row_ok rows \<Longrightarrow> distinct (map ug_taskId rows) \<Longrightarrow> set (map ug_taskId rows) \<inter> set seen = {} \<Longrightarrow>
   parse_rows (header_index REQUIRED_USAGE_HEADERS) k seen (map usage_cells rows) = Inr rows"
proof (induction rows arbitrary: k seen)
  case (Cons row rows)
  then have ok: "usage_row_ok row" by simp
  show ?case using Cons usage_row_cells[OF ok] by (auto simp: Let_def)
qed simp

lemma usage_grid_printed:
  assumes "list_all usage_row_ok rows"
  shows "usage_grid (print_usage rows) = Inr (header_index REQUIRED_USAGE_HEADERS, map usage_cells rows)"
proof -
  let ?h = "REQUIRED_USAGE_HEADERS"
  have "map trim ?h = ?h" "list_ex (\<lambda>cell. cell \<noteq> []) ?h" by code_simp+
  moreover have "map trim (usage_cells row) = usage_cells row \<and> list_ex (\<lambda>cell. cell \<noteq> []) (usage_cells row)" if "row \<in> set rows" for row
    using assms that by (auto simp: list_all_iff usage_row_ok_def usage_cells_def)
  ultimately have "filter (list_ex (\<lambda>cell. cell \<noteq> [])) (map (map trim) (?h # map usage_cells rows)) = ?h # map usage_cells rows"
    by (auto simp: filter_id_conv map_idI)
  then have "parseRows (strip_bom (print_usage rows)) = Inr (?h # map usage_cells rows)"
    unfolding strip_bom_printed unfolding print_usage_def parseRows_printed by simp
  moreover have "filter (\<lambda>h. header_index ?h h = None) ?h = []"
    by code_simp
  ultimately show ?thesis by (simp add: usage_grid_def Let_def)
qed

text \<open>
  Rows with trimmed cells, distinct Task IDs and well-formed numbers, written as quoted CSV under the required headers,
  are read back as exactly these rows, commas, quotes and line breaks in the cells included.
\<close>

theorem usage_file_round_trip:
  assumes "list_all usage_row_ok rows" "distinct (map ug_taskId rows)"
  shows "parseUsageCsv (print_usage rows) = Inr rows"
  using usage_grid_printed[OF assms(1)] parse_printed_rows[OF assms, of "[]" 0] by (simp add: parseUsageCsv_def)

section \<open>Checked rows can be stored\<close>

lemma clock_Some:
  assumes "clock lo s = Some (h, mi, sec, r)"
  shows "lo \<le> length h \<and> length h \<le> 2 \<and> length mi = 2 \<and> length (coalesce sec ''00'') = 2"
proof -
  obtain r1 r2 where a: "after_separator '' T'' lo 2 s = Some (h, r1)" "after_separator '':'' 2 2 r1 = Some (mi, r2)"
    using assms by (auto simp: clock_def bind_eq_Some_conv split: option.split_asm prod.split_asm)
  then have "sec = None \<or> (\<exists>d r3. sec = Some d \<and> after_separator '':'' 2 2 r2 = Some (d, r3))"
    using assms by (auto simp: clock_def split: option.split_asm prod.split_asm)
  then have "length (coalesce sec ''00'') = 2" by (auto dest: after_separator_Some)
  then show ?thesis using after_separator_Some[OF a(1)] after_separator_Some[OF a(2)] by simp
qed

lemma iso_match_lengths:
  "iso_match s = Some (t, r) \<Longrightarrow>
   length (ut_year t) = 4 \<and> length (ut_month t) = 2 \<and> length (ut_day t) = 2 \<and> length (ut_hour t) = 2 \<and> length (ut_minute t) = 2 \<and>
   length (coalesce (ut_second t) ''00'') = 2"
  by (auto simp: iso_match_def bind_eq_Some_conv dest!: after_separator_Some digit_run_Some clock_Some)

lemma indian_match_lengths:
  "indian_match s = Some (t, r) \<Longrightarrow>
   length (ut_year t) = 4 \<and> length (ut_month t) \<le> 2 \<and> length (ut_day t) \<le> 2 \<and> length (ut_hour t) \<le> 2 \<and> length (ut_minute t) = 2 \<and>
   length (coalesce (ut_second t) ''00'') = 2"
  by (auto simp: indian_match_def bind_eq_Some_conv dest!: after_separator_Some digit_run_Some clock_Some)

lemma sqlDateTime_length: "sqlDateTime v name = Inr (Some s) \<Longrightarrow> length s = 19"
  by (auto simp: sqlDateTime_def Let_def max_def split: if_splits option.splits dest!: iso_match_lengths indian_match_lengths)

lemma sqlDateTime_shape: "sqlDateTime v name = Inr t \<Longrightarrow> t = None \<or> length (the t) = 19"
  using sqlDateTime_length by (cases t) auto

lemma whole_match_Some: "whole_match m = Some t \<Longrightarrow> m = Some (t, [])"
  by (auto simp: whole_match_def split: option.splits prod.splits list.splits)

lemma checked_time_stored: "time_issue field raw = None \<Longrightarrow> \<exists>t. sqlDateTime raw name = Inr t"
  by (auto simp: time_issue_def sqlDateTime_def Let_def isRealUsageDateTime_def split: if_splits option.splits dest!: whole_match_Some)

lemma first_issue_None: "first_issue issues = None \<longleftrightarrow> (\<forall>i \<in> set issues. i = None)"
proof (induction issues)
  case (Cons i issues)
  then show ?case by (cases i) (simp_all add: first_issue_def)
qed (simp add: first_issue_def)

lemma checked_row_prepares:
  assumes "deepValidateUsageRow parse hosts row = None"
  shows "\<exists>p. prepare_row parse hosts (ids, row) = Inr p"
proof -
  have none: "time_issue ''callStartTime'' (ug_callStartTime row) = None" "time_issue ''callConnectedTime'' (ug_callConnectedTime row) = None"
    "time_issue ''callEndTime'' (ug_callEndTime row) = None"
    "ug_recordingUrl row = Some url \<Longrightarrow> stored_url parse hosts url \<noteq> None" for url
    using assms by (auto simp: deepValidateUsageRow_def first_issue_None split: option.splits if_splits)
  obtain a b c where "sqlDateTime (ug_callStartTime row) ''Call Start Time'' = Inr a"
    "sqlDateTime (ug_callConnectedTime row) ''Call Connected Time'' = Inr b" "sqlDateTime (ug_callEndTime row) ''Call End Time'' = Inr c"
    using checked_time_stored[OF none(1)] checked_time_stored[OF none(2)] checked_time_stored[OF none(3)] by metis
  then show ?thesis using none(4) by (auto simp: prepare_row_def split: option.splits)
qed

lemma mapM_res_total: "\<forall>x \<in> set xs. \<exists>y. f x = Inr y \<Longrightarrow> \<exists>ys. mapM_res f xs = Inr ys"
  by (induction xs) auto

lemma deep_issues_None:
  "deep_issues parse hosts entries = [] \<Longrightarrow> (k, Some row) \<in> set entries \<Longrightarrow> deepValidateUsageRow parse hosts row = None"
  by (fastforce simp: deep_issues_def split: option.splits)

lemma prepared_row:
  "prepare_row parse hosts (ids, row) = Inr p \<Longrightarrow>
   pp_row p = row \<and> pp_callId p = ri_callId ids \<and> pp_legId p = ri_legId ids \<and> pp_artifactId p = ri_artifactId ids \<and>
   (pp_sourceUrl p = None \<longleftrightarrow> ug_recordingUrl row = None) \<and>
   (\<forall>t \<in> {pp_startedAt p, pp_connectedAt p, pp_endedAt p}. t = None \<or> length (the t) = 19)"
  by (auto simp: prepare_row_def rbind_Inr_iff dest!: sqlDateTime_shape split: option.splits)

lemma prevalidated:
  assumes "prevalidateUsageRows parse hosts bytes = Inr rows"
  obtains entries where "scanUsageCsv bytes = Inr (entries, [])" "deep_issues parse hosts entries = []" "rows = map (the \<circ> snd) entries"
    "list_all (\<lambda>e. snd e \<noteq> None) entries" "parseUsageCsv bytes = Inr rows"
proof -
  obtain entries found where scan: "scanUsageCsv bytes = Inr (entries, found)" "found @ deep_issues parse hosts entries = []" "parseUsageCsv bytes = Inr rows"
    using assms by (auto simp: prevalidateUsageRows_def rbind_Inr_iff Let_def split: if_splits)
  moreover obtain index data where "usage_grid bytes = Inr (index, data)" "scan_rows index 0 [] data = (entries, [])"
    using scan by (auto simp: scanUsageCsv_def rbind_Inr_iff)
  ultimately show thesis using that parse_clean_scan[of index 0 "[]" data] by (simp add: parseUsageCsv_def)
qed

lemma prepareUsageRows_rows:
  assumes "prepareUsageRows parse hosts ids rows = Inr prepared"
  shows "map pp_row prepared = rows"
    "\<forall>p \<in> set prepared. (pp_sourceUrl p = None \<longleftrightarrow> ug_recordingUrl (pp_row p) = None) \<and>
       (\<forall>t \<in> {pp_startedAt p, pp_connectedAt p, pp_endedAt p}. t = None \<or> length (the t) = 19)"
proof -
  let ?xs = "map (\<lambda>(k, row). (ids k, row)) (enumerate 0 rows)"
  have m: "map (prepare_row parse hosts) ?xs = map Inr prepared" using assms by (simp add: prepareUsageRows_def mapM_res_Inr_iff)
  have each: "list_all2 (\<lambda>x q. prepare_row parse hosts x = Inr q) ?xs prepared" using m by (simp add: list_all2_conv_all_nth list_eq_iff_nth_eq)
  then have "list_all2 (\<lambda>x q. pp_row q = snd x) ?xs prepared" by (rule list_all2_mono) (use prepared_row in \<open>auto split: prod.splits\<close>)
  then have "map pp_row prepared = map snd ?xs" by (simp add: list_all2_conv_all_nth list_eq_iff_nth_eq)
  also have "map snd ?xs = rows" by (simp add: comp_def case_prod_beta)
  finally show "map pp_row prepared = rows" .
  show "\<forall>p \<in> set prepared. (pp_sourceUrl p = None \<longleftrightarrow> ug_recordingUrl (pp_row p) = None) \<and>
       (\<forall>t \<in> {pp_startedAt p, pp_connectedAt p, pp_endedAt p}. t = None \<or> length (the t) = 19)"
  proof
    fix q assume "q \<in> set prepared"
    then have "Inr q \<in> set (map (prepare_row parse hosts) ?xs)" unfolding m by simp
    then obtain x where "prepare_row parse hosts (fst x, snd x) = Inr q" by auto
    from prepared_row[OF this] show "(pp_sourceUrl q = None \<longleftrightarrow> ug_recordingUrl (pp_row q) = None) \<and>
       (\<forall>t \<in> {pp_startedAt q, pp_connectedAt q, pp_endedAt q}. t = None \<or> length (the t) = 19)" by simp
  qed
qed

lemma parse_rows_distinct: "parse_rows index k seen data = Inr rows \<Longrightarrow> distinct (map ug_taskId rows) \<and> set (map ug_taskId rows) \<inter> set seen = {}"
proof (induction index k seen data arbitrary: rows rule: parse_rows.induct)
  case (2 index k seen cells data)
  let ?cell = "usage_value index cells"
  obtain later where later: "check_row k seen ?cell = Inr ()" "parse_rows index (k + 1) (?cell ''Task ID'' # seen) data = Inr later" "rows = usage_row ?cell # later"
    using "2.prems" by (auto simp: Let_def rbind_Inr_iff)
  have "?cell ''Task ID'' \<notin> set seen" using later(1) by (auto simp: check_row_def split: if_splits)
  moreover have "ug_taskId (usage_row ?cell) = ?cell ''Task ID''" by (simp add: usage_row_def)
  ultimately show ?case using "2.IH"[OF refl later(2)] later(3) by auto
qed simp

lemma parseUsageCsv_distinct: "parseUsageCsv bytes = Inr rows \<Longrightarrow> distinct (map ug_taskId rows)"
  by (auto simp: parseUsageCsv_def rbind_Inr_iff dest: parse_rows_distinct)

lemma clean_scan:
  assumes "parseUsageCsv bytes = Inr rows"
  obtains entries where "scanUsageCsv bytes = Inr (entries, [])" "rows = map (the \<circ> snd) entries" "list_all (\<lambda>e. snd e \<noteq> None) entries"
proof -
  obtain index data where grid: "usage_grid bytes = Inr (index, data)" "parse_rows index 0 [] data = Inr rows"
    using assms by (auto simp: parseUsageCsv_def rbind_Inr_iff)
  obtain entries issues where scan: "scan_rows index 0 [] data = (entries, issues)" by fastforce
  have "issues = []"
  proof (cases issues)
    case (Cons i further)
    then show ?thesis using parse_issue_scan[of index 0 "[]" data "fst i" "fst (snd i)" "snd (snd i)" further] scan grid(2) by auto
  qed
  then show thesis using that[of entries] parse_clean_scan[of index 0 "[]" data] scan grid by (simp add: scanUsageCsv_def)
qed

lemma prevalidate_clean:
  assumes "parseUsageCsv bytes = Inr rows" "list_all (\<lambda>row. deepValidateUsageRow parse hosts row = None) rows"
  shows "prevalidateUsageRows parse hosts bytes = Inr rows"
proof -
  obtain entries where scan: "scanUsageCsv bytes = Inr (entries, [])" "rows = map (the \<circ> snd) entries" "list_all (\<lambda>e. snd e \<noteq> None) entries"
    by (rule clean_scan[OF assms(1)])
  have "deep_issues parse hosts entries = []" using assms(2) scan(2,3) by (force simp: deep_issues_def list_all_iff split: option.splits)
  then show ?thesis using scan(1) assms(1) by (simp add: prevalidateUsageRows_def MAX_REPORTED_USAGE_ROW_ISSUES_def)
qed

lemma prepareUsageRows_total:
  assumes "prevalidateUsageRows parse hosts bytes = Inr rows"
  shows "\<exists>prepared. prepareUsageRows parse hosts ids rows = Inr prepared"
proof -
  let ?xs = "map (\<lambda>(k, row). (ids k, row)) (enumerate 0 rows)"
  obtain entries where e: "deep_issues parse hosts entries = []" "rows = map (the \<circ> snd) entries" "list_all (\<lambda>e. snd e \<noteq> None) entries"
    by (rule prevalidated[OF assms])
  have "deepValidateUsageRow parse hosts row = None" if "row \<in> set rows" for row
    using that e deep_issues_None[OF e(1)] by (fastforce simp: list_all_iff)
  then have "\<exists>p. prepare_row parse hosts x = Inr p" if "x \<in> set ?xs" for x
    using that checked_row_prepares by (auto simp: in_set_enumerate_eq)
  then show ?thesis unfolding prepareUsageRows_def using mapM_res_total[of ?xs] by metis
qed

text \<open>
  A file that passes the checks can always be prepared for storing: one prepared row for each row of the file, in order, with the
  stored address exactly where the row has a recording and every time either absent or a full date and time of nineteen characters.
\<close>

theorem checked_file_prepares:
  assumes "prevalidateUsageRows parse hosts bytes = Inr rows"
  shows "\<exists>prepared. prepareUsageRows parse hosts ids rows = Inr prepared \<and> map pp_row prepared = rows \<and>
    (\<forall>p \<in> set prepared. (pp_sourceUrl p = None \<longleftrightarrow> ug_recordingUrl (pp_row p) = None) \<and>
       (\<forall>t \<in> {pp_startedAt p, pp_connectedAt p, pp_endedAt p}. t = None \<or> length (the t) = 19))"
  using prepareUsageRows_total[OF assms] prepareUsageRows_rows by metis

definition demo_usage :: "UsageRow list" where
  "demo_usage =
     [\<lparr> ug_taskId = ''T-1'', ug_destinationNumber = ''98765'', ug_callStartTime = ''2026-07-01 09:30:00'', ug_callConnectedTime = [],
        ug_callEndTime = ''1/7/2026 9:31'', ug_durationWithRingingSec = ''60'', ug_durationWithoutRingingSec = ''45.5'', ug_durationMinutes = ''1'',
        ug_billedAmount = Some ''2.50'', ug_recordingUrl = None \<rparr>,
      \<lparr> ug_taskId = ''T-2'', ug_destinationNumber = ''a, b'', ug_callStartTime = [], ug_callConnectedTime = [], ug_callEndTime = [],
        ug_durationWithRingingSec = ''0'', ug_durationWithoutRingingSec = ''0'', ug_durationMinutes = ''0'', ug_billedAmount = None,
        ug_recordingUrl = None \<rparr>]"

theorem invoice_amount_exact_witness: "\<exists>s. money (\<lambda>_. []) ''1250.75'' ''totalAmount'' = Inr s \<and> toScaled (Some s) = Some 125075000000"
proof -
  have shape: "amount_text ''1250.75''" by code_simp
  have "whole_part ''1250.75'' = ''1250''" "fraction_part ''1250.75'' = ''75''" by code_simp+
  then have "toScaled (Some ''1250.75'') = Some 125075000000" using toScaled_amount(1)[OF shape] by (simp add: digit_val_def)
  from invoice_amount_exact[OF shape this] show ?thesis by simp
qed

theorem usage_file_round_trip_witness: "parseUsageCsv (print_usage demo_usage) = Inr demo_usage"
proof -
  have "list_all usage_row_ok demo_usage" "distinct (map ug_taskId demo_usage)" by code_simp+
  then show ?thesis by (rule usage_file_round_trip)
qed

lemma demo_times:
  "trim ''2026-07-01 09:30:00'' = ''2026-07-01 09:30:00''" "trim ''1/7/2026 9:31'' = ''1/7/2026 9:31''"
  "isRealUsageDateTime ''2026-07-01 09:30:00''" "isRealUsageDateTime ''1/7/2026 9:31''"
proof -
  have m: "whole_match (iso_match ''2026-07-01 09:30:00'') =
      Some \<lparr> ut_year = ''2026'', ut_month = ''07'', ut_day = ''01'', ut_hour = ''09'', ut_minute = ''30'', ut_second = Some ''00'' \<rparr>"
    "whole_match (iso_match ''1/7/2026 9:31'') = None"
    "whole_match (indian_match ''1/7/2026 9:31'') =
      Some \<lparr> ut_year = ''2026'', ut_month = ''7'', ut_day = ''1'', ut_hour = ''9'', ut_minute = ''31'', ut_second = None \<rparr>"
    by code_simp+
  show "isRealUsageDateTime ''2026-07-01 09:30:00''" "isRealUsageDateTime ''1/7/2026 9:31''"
    by (simp_all add: isRealUsageDateTime_def m isRealDateParts_def days_of_month_def nat_of_digits_def digit_val_def)
qed code_simp+

lemma trim_empty: "trim [] = []"
  by code_simp

lemma demo_usage_checked: "prevalidateUsageRows (\<lambda>_. None) [] (print_usage demo_usage) = Inr demo_usage"
proof -
  have ok: "list_all usage_row_ok demo_usage" "distinct (map ug_taskId demo_usage)" by code_simp+
  have "parseUsageCsv (print_usage demo_usage) = Inr demo_usage"
    using usage_grid_printed[OF ok(1)] parse_printed_rows[OF ok, of "[]" 0] by (simp add: parseUsageCsv_def)
  moreover have "list_all (\<lambda>row. deepValidateUsageRow (\<lambda>_. None) [] row = None) demo_usage"
    using demo_times by (simp add: demo_usage_def deepValidateUsageRow_def time_issue_def first_issue_def trim_empty)
  ultimately show ?thesis by (rule prevalidate_clean)
qed

theorem checked_file_prepares_witness:
  "\<exists>prepared. prepareUsageRows (\<lambda>_. None) [] (\<lambda>k. \<lparr> ri_callId = ''call'', ri_legId = ''leg'', ri_artifactId = ''artifact'' \<rparr>) demo_usage = Inr prepared \<and>
     map pp_row prepared = demo_usage"
  using checked_file_prepares[OF demo_usage_checked] by blast

end
