(* ===== verification/CycleImport.thy ===== *)
theory CycleImport
  imports UsageImport Outbox "HOL-Library.Sublist"
begin

text \<open>
  The import of the vendor's monthly files (\<open>src/src/adapters/mysqlCycleImport.ts\<close>) over the tables it reads and writes, each a list of
  rows, and the signature of the unattended upload (\<open>src/src/imports/gasImportAuth.ts\<close>). A transaction is one step: an error anywhere leaves
  the tables as they were. The object store is an argument, and so is what the schema of these tables refuses, which the repository
  does not hold; it is consulted after every statement. Key columns compare without letter case.
\<close>

section \<open>Tables\<close>

record SourceConnection =
  sc_id :: string
  sc_vendorAccountId :: string
  sc_status :: string
  sc_adapterCode :: string
  sc_sourceType :: string
  sc_createdAt :: int

record IngestionBatch =
  ib_id :: string
  ib_sourceConnectionId :: string
  ib_batchType :: string
  ib_periodStart :: string
  ib_periodEnd :: string
  ib_status :: string
  ib_receivedCount :: nat
  ib_acceptedCount :: "nat option"
  ib_duplicateCount :: "nat option"
  ib_completedAt :: "int option"

record EvidenceObject =
  eo_id :: string
  eo_batchId :: "string option"
  eo_sourceConnectionId :: string
  eo_evidenceType :: string
  eo_objectBucket :: string
  eo_objectKey :: string
  eo_sha256 :: string
  eo_sizeBytes :: nat
  eo_mediaType :: string
  eo_sourceUriRedacted :: string
  eo_sourceEventId :: string
  eo_retentionClass :: string

record SourceEnvelope =
  se_id :: string
  se_evidenceObjectId :: string
  se_sourceConnectionId :: string
  se_externalEventId :: string
  se_eventType :: string
  se_idempotencyKey :: string
  se_normalizedAt :: "int option"
  se_normalizationStatus :: string

record ImportedCall =
  ic_id :: string
  ic_vendorAccountId :: string
  ic_logicalCallKey :: string
  ic_sourceStartedAt :: "string option"
  ic_sourceEndedAt :: "string option"
  ic_billingPeriodDate :: string
  ic_processingStatus :: string

record ExternalReference =
  er_id :: string
  er_callId :: string
  er_providerName :: string
  er_referenceType :: string
  er_externalId :: string
  er_evidenceObjectId :: string

record CallLeg =
  cl_id :: string
  cl_callId :: string
  cl_externalLegId :: string
  cl_initiatedAt :: "string option"
  cl_answeredAt :: "string option"
  cl_endedAt :: "string option"

record ProviderCost =
  co_id :: string
  co_callId :: string
  co_callLegId :: string
  co_evidenceObjectId :: string
  co_providerSku :: string
  co_quantity :: string
  co_quantityUnit :: string
  co_minutes :: "string option"
  co_occurredAt :: "string option"
  co_sourceCostId :: string
  co_rawJson :: string

record ImportedArtifact =
  ia_id :: string
  ia_callId :: string
  ia_callLegId :: string
  ia_providerArtifactId :: string
  ia_providerStatus :: string
  ia_fetchStatus :: string
  ia_sourceUrl :: "string option"

record ImportedInvoice =
  iv_id :: string
  iv_vendorAccountId :: string
  iv_invoiceNumber :: string
  iv_invoiceDate :: string
  iv_periodStart :: string
  iv_periodEnd :: string
  iv_subtotal :: string
  iv_tax :: string
  iv_total :: string
  iv_evidenceObjectId :: string

record import_db =
  im_sources :: "SourceConnection list"
  im_batches :: "IngestionBatch list"
  im_evidence :: "EvidenceObject list"
  im_envelopes :: "SourceEnvelope list"
  im_calls :: "ImportedCall list"
  im_references :: "ExternalReference list"
  im_legs :: "CallLeg list"
  im_costs :: "ProviderCost list"
  im_artifacts :: "ImportedArtifact list"
  im_outbox :: outbox
  im_invoices :: "ImportedInvoice list"

section \<open>Requests and results\<close>

record UsageImportRequest =
  ur_bytes :: string
  ur_filename :: string
  ur_periodStart :: string
  ur_periodEnd :: string
  ur_correlationId :: string

record InvoiceImportRequest =
  vr_bytes :: string
  vr_filename :: string
  vr_invoiceNumber :: string
  vr_invoiceDate :: string
  vr_periodStart :: string
  vr_periodEnd :: string
  vr_subtotalAmount :: string
  vr_taxAmount :: string
  vr_totalAmount :: string

datatype import_outcome = Imported | Duplicate_file

record ImportResult =
  iu_outcome :: import_outcome
  iu_referenceId :: string
  iu_received :: nat
  iu_accepted :: nat
  iu_duplicates :: nat
  iu_auditJobsQueued :: nat
  iu_missingRecordingUrls :: nat

record PreservedImportObject =
  po_objectBucket :: string
  po_objectKey :: string
  po_sha256 :: string

text \<open>
  The surroundings of one import: the platform, the parser of addresses, the configuration, the object store, the identifiers drawn (per
  row of the file; per table and Task ID or header row), the clock, the text of very large doubles and the refusals of the schema.
\<close>

record import_env =
  ie_runtime :: runtime
  ie_parse :: "string \<Rightarrow> parsed_url option"
  ie_allowedRecordingHosts :: "string list"
  ie_sourceConnectionId :: "string option"
  ie_preserve :: "string \<Rightarrow> string \<Rightarrow> string \<Rightarrow> PreservedImportObject res"
  ie_rowIds :: "nat \<Rightarrow> row_ids"
  ie_uuid :: "string \<Rightarrow> string \<Rightarrow> string"
  ie_now :: int
  ie_large :: "rat \<Rightarrow> string"
  ie_refuses :: "import_db \<Rightarrow> js_error option"

definition USAGE_IMPORT_WRITE_BATCH_SIZE :: nat where
  "USAGE_IMPORT_WRITE_BATCH_SIZE = 500"

text \<open>\<open>path.basename\<close>, and the replacement of every other UTF-16 unit by an underscore.\<close>

definition basename :: "string \<Rightarrow> string" where
  "basename s = List.last (split_text (CHR ''/'') (rev (dropWhile (\<lambda>c. c = CHR ''/'') (rev s))))"

definition filename_char :: "char \<Rightarrow> bool" where
  "filename_char c = (is_digit c \<or> (CHR ''A'' \<le> c \<and> c \<le> CHR ''Z'') \<or> (CHR ''a'' \<le> c \<and> c \<le> CHR ''z'') \<or> c \<in> set ''._-'')"

definition safeImportFilename :: "string \<Rightarrow> string" where
  "safeImportFilename filename =
     take 120 (concat (map (\<lambda>c. if filename_char c then [c] else replicate (utf16_units c) (CHR ''_'')) (basename filename)))"

record cost_claim =
  cc_providerSku :: string
  cc_quantity :: string
  cc_quantityUnit :: string
  cc_minutes :: "string option"

definition usageProviderCostClaims :: "UsageRow \<Rightarrow> cost_claim list" where
  "usageProviderCostClaims row =
     [\<lparr> cc_providerSku = ''duration_with_ringing_sec'', cc_quantity = ug_durationWithRingingSec row, cc_quantityUnit = ''second'', cc_minutes = None \<rparr>,
      \<lparr> cc_providerSku = ''duration_without_ringing_sec'', cc_quantity = ug_durationWithoutRingingSec row, cc_quantityUnit = ''second'', cc_minutes = None \<rparr>,
      \<lparr> cc_providerSku = ''vendor_asserted_billed_minutes'', cc_quantity = ug_durationMinutes row, cc_quantityUnit = ''minute'', cc_minutes = Some (ug_durationMinutes row) \<rparr>] @
     (case ug_billedAmount row of None \<Rightarrow> []
      | Some a \<Rightarrow> [\<lparr> cc_providerSku = ''vendor_asserted_billed_amount'', cc_quantity = a, cc_quantityUnit = ''currency'', cc_minutes = None \<rparr>])"

text \<open>The size is the positive constant above; nothing is cut into pieces of size zero.\<close>

function chunks :: "'a list \<Rightarrow> nat \<Rightarrow> 'a list list" where
  "chunks xs k = (if xs = [] \<or> k = 0 then [] else take k xs # chunks (drop k xs) k)"
  by pat_completeness auto
termination by (relation "measure (\<lambda>(xs, _). length xs)") auto

declare chunks.simps [simp del]

section \<open>The source and the duplicate check\<close>

definition kserve_source :: "SourceConnection \<Rightarrow> bool" where
  "kserve_source s =
     (includes_text (toLowerCase (sc_adapterCode s)) ''kserve'' \<or> includes_text (toLowerCase (sc_sourceType s)) ''kserve'' \<or>
      includes_text (toLowerCase (sc_adapterCode s)) ''gas'')"

definition active_source :: "SourceConnection \<Rightarrow> bool" where
  "active_source s = same_key (sc_status s) ''active''"

definition ranked_sources :: "SourceConnection list \<Rightarrow> SourceConnection list" where
  "ranked_sources sources =
     take 2 (sort_key (\<lambda>s. (if kserve_source s then 0 else 1 :: nat, sc_createdAt s, sc_id s)) (filter active_source sources))"

definition resolveSource :: "string option \<Rightarrow> SourceConnection list \<Rightarrow> SourceConnection res" where
  "resolveSource configuredId sources =
     (if truthy_text configuredId then
        (case filter (\<lambda>s. same_key (sc_id s) (the configuredId) \<and> active_source s) sources of
           s # _ \<Rightarrow> Inr s
         | [] \<Rightarrow> Inl (PlainError ''Configured KServe source connection is not active''))
      else
        (case ranked_sources sources of
           [s] \<Rightarrow> Inr s
         | _ \<Rightarrow> Inl (PlainError ''Set KAUDIT_KSERVE_SOURCE_CONNECTION_ID because the active source connection is ambiguous'')))"

definition envelope_of :: "string \<Rightarrow> string \<Rightarrow> SourceEnvelope \<Rightarrow> bool" where
  "envelope_of sourceId idempotencyKey e = (same_key (se_sourceConnectionId e) sourceId \<and> same_key (se_idempotencyKey e) idempotencyKey)"

definition findDuplicate :: "SourceEnvelope list \<Rightarrow> string \<Rightarrow> string \<Rightarrow> string option" where
  "findDuplicate envelopes sourceId idempotencyKey =
     map_option se_evidenceObjectId (find (envelope_of sourceId idempotencyKey) envelopes)"

section \<open>The rows of one prepared call\<close>

abbreviation task_of :: "PreparedUsageRow \<Rightarrow> string" where
  "task_of \<equiv> \<lambda>item. ug_taskId (pp_row item)"

definition call_row :: "SourceConnection \<Rightarrow> string \<Rightarrow> PreparedUsageRow \<Rightarrow> ImportedCall" where
  "call_row source periodStart item =
     \<lparr> ic_id = pp_callId item, ic_vendorAccountId = sc_vendorAccountId source, ic_logicalCallKey = ''kserve-task:'' @ ug_taskId (pp_row item),
       ic_sourceStartedAt = pp_startedAt item, ic_sourceEndedAt = pp_endedAt item, ic_billingPeriodDate = periodStart,
       ic_processingStatus = ''ingested'' \<rparr>"

definition reference_row :: "import_env \<Rightarrow> string \<Rightarrow> PreparedUsageRow \<Rightarrow> ExternalReference" where
  "reference_row env evidenceId item =
     \<lparr> er_id = ie_uuid env ''kaudit_call_external_reference'' (ug_taskId (pp_row item)), er_callId = pp_callId item, er_providerName = ''kserve'',
       er_referenceType = ''task_id'', er_externalId = ug_taskId (pp_row item), er_evidenceObjectId = evidenceId \<rparr>"

definition leg_row :: "PreparedUsageRow \<Rightarrow> CallLeg" where
  "leg_row item =
     \<lparr> cl_id = pp_legId item, cl_callId = pp_callId item, cl_externalLegId = ug_taskId (pp_row item), cl_initiatedAt = pp_startedAt item,
       cl_answeredAt = pp_connectedAt item, cl_endedAt = pp_endedAt item \<rparr>"

definition cost_row :: "import_env \<Rightarrow> string \<Rightarrow> PreparedUsageRow \<Rightarrow> cost_claim \<Rightarrow> ProviderCost" where
  "cost_row env evidenceId item cost =
     \<lparr> co_id = ie_uuid env (''kaudit_provider_cost:'' @ cc_providerSku cost) (ug_taskId (pp_row item)), co_callId = pp_callId item,
       co_callLegId = pp_legId item, co_evidenceObjectId = evidenceId, co_providerSku = cc_providerSku cost, co_quantity = cc_quantity cost,
       co_quantityUnit = cc_quantityUnit cost, co_minutes = cc_minutes cost, co_occurredAt = pp_startedAt item,
       co_sourceCostId = ug_taskId (pp_row item) @ '':'' @ cc_providerSku cost,
       co_rawJson = canonical (JObj [(''source'', JStr ''monthly_usage_csv''), (''taskId'', JStr (ug_taskId (pp_row item))), (''providerSku'', JStr (cc_providerSku cost))]) \<rparr>"

definition cost_rows :: "import_env \<Rightarrow> string \<Rightarrow> PreparedUsageRow \<Rightarrow> ProviderCost list" where
  "cost_rows env evidenceId item = map (cost_row env evidenceId item) (usageProviderCostClaims (pp_row item))"

definition artifact_row :: "PreparedUsageRow \<Rightarrow> ImportedArtifact" where
  "artifact_row item =
     \<lparr> ia_id = pp_artifactId item, ia_callId = pp_callId item, ia_callLegId = pp_legId item, ia_providerArtifactId = ug_taskId (pp_row item),
       ia_providerStatus = (if pp_sourceUrl item \<noteq> None then ''available'' else ''not_provided''),
       ia_fetchStatus = (if pp_sourceUrl item \<noteq> None then ''pending'' else ''unavailable''), ia_sourceUrl = pp_sourceUrl item \<rparr>"

definition outbox_row :: "import_env \<Rightarrow> string \<Rightarrow> string \<Rightarrow> string \<Rightarrow> PreparedUsageRow \<Rightarrow> OutboxRow" where
  "outbox_row env correlationId envelopeId sha256 item =
     (let payloadJson = canonical (JObj [(''callId'', JStr (pp_callId item)), (''artifactId'', JStr (pp_artifactId item)),
            (''sourceEnvelopeId'', JStr envelopeId), (''sourceEvidenceSha256'', JStr sha256)]) in
      \<lparr> ob_id = ie_uuid env ''kaudit_outbox_message'' (ug_taskId (pp_row item)), ob_messageId = Some (''audit-requested:'' @ pp_callId item @ '':'' @ sha256),
        ob_aggregateType = ''call'', ob_aggregateId = pp_callId item, ob_eventType = ''call.audit_requested'', ob_payload = Text payloadJson,
        ob_payloadSha256 = Some (sha256Hex (ie_runtime env) payloadJson), ob_correlationId = Some correlationId, ob_attempts = 0,
        ob_status = Pending, ob_availableAt = ie_now env, ob_createdAt = ie_now env, ob_leaseOwner = None, ob_leaseExpiresAt = None,
        ob_lastErrorCode = None, ob_publishedAt = None \<rparr>)"

section \<open>Importing usage\<close>

definition statement :: "import_env \<Rightarrow> import_db \<Rightarrow> import_db res" where
  "statement env db = (case ie_refuses env db of Some e \<Rightarrow> Inl e | None \<Rightarrow> Inr db)"

text \<open>\<open>bulkInsert\<close>: without rows no statement is executed.\<close>

definition bulkInsert :: "import_env \<Rightarrow> ('r list \<Rightarrow> import_db \<Rightarrow> import_db) \<Rightarrow> 'r list \<Rightarrow> import_db \<Rightarrow> import_db res" where
  "bulkInsert env add_rows rows db = (if rows = [] then Inr db else statement env (add_rows rows db))"

definition task_reference :: "ExternalReference \<Rightarrow> bool" where
  "task_reference r = (same_key (er_providerName r) ''kserve'' \<and> same_key (er_referenceType r) ''task_id'')"

definition existing_ids :: "ExternalReference list \<Rightarrow> string list \<Rightarrow> string list" where
  "existing_ids references taskIds =
     map er_externalId (filter (\<lambda>r. task_reference r \<and> list_ex (same_key (er_externalId r)) taskIds) references)"

definition pending_rows :: "ExternalReference list \<Rightarrow> PreparedUsageRow list \<Rightarrow> PreparedUsageRow list" where
  "pending_rows references batch =
     (let existingIds = existing_ids references (map task_of batch) in
      filter (\<lambda>item. ug_taskId (pp_row item) \<notin> set existingIds) batch)"

record import_context =
  cx_source :: SourceConnection
  cx_periodStart :: string
  cx_correlationId :: string
  cx_evidenceId :: string
  cx_envelopeId :: string
  cx_sha256 :: string

record import_counts =
  in_accepted :: nat
  in_duplicates :: nat
  in_queued :: nat
  in_missing :: nat

definition auditable_rows :: "PreparedUsageRow list \<Rightarrow> PreparedUsageRow list" where
  "auditable_rows pending = filter (\<lambda>item. pp_sourceUrl item \<noteq> None) pending"

definition insert_pending :: "import_env \<Rightarrow> import_context \<Rightarrow> PreparedUsageRow list \<Rightarrow> import_db \<Rightarrow> import_db res" where
  "insert_pending env ctx pending db =
     rbind (bulkInsert env (\<lambda>rows d. d\<lparr> im_calls := im_calls d @ rows \<rparr>) (map (call_row (cx_source ctx) (cx_periodStart ctx)) pending) db) (\<lambda>db.
     rbind (bulkInsert env (\<lambda>rows d. d\<lparr> im_references := im_references d @ rows \<rparr>) (map (reference_row env (cx_evidenceId ctx)) pending) db) (\<lambda>db.
     rbind (bulkInsert env (\<lambda>rows d. d\<lparr> im_legs := im_legs d @ rows \<rparr>) (map leg_row pending) db) (\<lambda>db.
     rbind (bulkInsert env (\<lambda>rows d. d\<lparr> im_costs := im_costs d @ rows \<rparr>) (concat (map (cost_rows env (cx_evidenceId ctx)) pending)) db) (\<lambda>db.
     rbind (bulkInsert env (\<lambda>rows d. d\<lparr> im_artifacts := im_artifacts d @ rows \<rparr>) (map artifact_row pending) db) (\<lambda>db.
     bulkInsert env (\<lambda>rows d. d\<lparr> im_outbox := im_outbox d @ rows \<rparr>)
       (map (outbox_row env (cx_correlationId ctx) (cx_envelopeId ctx) (cx_sha256 ctx)) (auditable_rows pending)) db)))))"

fun import_chunks ::
  "import_env \<Rightarrow> import_context \<Rightarrow> PreparedUsageRow list list \<Rightarrow> import_db \<Rightarrow> import_counts \<Rightarrow> (import_db \<times> import_counts) res" where
  "import_chunks env ctx [] db n = Inr (db, n)"
| "import_chunks env ctx (batch # batches) db n =
     (let pending = pending_rows (im_references db) batch; auditable = auditable_rows pending;
          n = n\<lparr> in_duplicates := in_duplicates n + (length batch - length pending) \<rparr> in
      if pending = [] then import_chunks env ctx batches db n
      else rbind (insert_pending env ctx pending db) (\<lambda>db.
        import_chunks env ctx batches db
          (n\<lparr> in_accepted := in_accepted n + length pending, in_queued := in_queued n + length auditable,
              in_missing := in_missing n + (length pending - length auditable) \<rparr>)))"

definition usage_headers :: "import_env \<Rightarrow> UsageImportRequest \<Rightarrow> SourceConnection \<Rightarrow> PreservedImportObject \<Rightarrow> nat \<Rightarrow> import_db \<Rightarrow> import_db res" where
  "usage_headers env request source preserved received db =
     (let batchId = ie_uuid env ''kaudit_ingestion_batch'' []; evidenceId = ie_uuid env ''kaudit_evidence_object'' [] in
      rbind (statement env (db\<lparr> im_batches := im_batches db @
        [\<lparr> ib_id = batchId, ib_sourceConnectionId = sc_id source, ib_batchType = ''call_export'', ib_periodStart = ur_periodStart request,
           ib_periodEnd = ur_periodEnd request, ib_status = ''running'', ib_receivedCount = received, ib_acceptedCount = None,
           ib_duplicateCount = None, ib_completedAt = None \<rparr>] \<rparr>)) (\<lambda>db.
      rbind (statement env (db\<lparr> im_evidence := im_evidence db @
        [\<lparr> eo_id = evidenceId, eo_batchId = Some batchId, eo_sourceConnectionId = sc_id source, eo_evidenceType = ''call_export'',
           eo_objectBucket = po_objectBucket preserved, eo_objectKey = po_objectKey preserved, eo_sha256 = po_sha256 preserved,
           eo_sizeBytes = length (ur_bytes request), eo_mediaType = ''text/csv'', eo_sourceUriRedacted = safeImportFilename (ur_filename request),
           eo_sourceEventId = po_sha256 preserved, eo_retentionClass = ''vendor_billing_evidence'' \<rparr>] \<rparr>)) (\<lambda>db.
      statement env (db\<lparr> im_envelopes := im_envelopes db @
        [\<lparr> se_id = ie_uuid env ''kaudit_source_envelope'' [], se_evidenceObjectId = evidenceId, se_sourceConnectionId = sc_id source,
           se_externalEventId = po_sha256 preserved, se_eventType = ''monthly_usage_export'', se_idempotencyKey = ''usage-file:'' @ po_sha256 preserved,
           se_normalizedAt = None, se_normalizationStatus = ''processing'' \<rparr>] \<rparr>))))"

definition finish_usage :: "import_env \<Rightarrow> import_counts \<Rightarrow> import_db \<Rightarrow> import_db res" where
  "finish_usage env n db =
     rbind (statement env (db\<lparr> im_envelopes := map (\<lambda>e. if same_key (se_id e) (ie_uuid env ''kaudit_source_envelope'' [])
       then e\<lparr> se_normalizedAt := Some (ie_now env), se_normalizationStatus := ''completed'' \<rparr> else e) (im_envelopes db) \<rparr>)) (\<lambda>db.
     statement env (db\<lparr> im_batches := map (\<lambda>b. if same_key (ib_id b) (ie_uuid env ''kaudit_ingestion_batch'' [])
       then b\<lparr> ib_status := ''completed'', ib_acceptedCount := Some (in_accepted n), ib_duplicateCount := Some (in_duplicates n),
               ib_completedAt := Some (ie_now env) \<rparr> else b) (im_batches db) \<rparr>))"

definition no_counts :: import_counts where
  "no_counts = \<lparr> in_accepted = 0, in_duplicates = 0, in_queued = 0, in_missing = 0 \<rparr>"

definition usage_context :: "import_env \<Rightarrow> UsageImportRequest \<Rightarrow> SourceConnection \<Rightarrow> PreservedImportObject \<Rightarrow> import_context" where
  "usage_context env request source preserved =
     \<lparr> cx_source = source, cx_periodStart = ur_periodStart request, cx_correlationId = ur_correlationId request,
       cx_evidenceId = ie_uuid env ''kaudit_evidence_object'' [], cx_envelopeId = ie_uuid env ''kaudit_source_envelope'' [],
       cx_sha256 = po_sha256 preserved \<rparr>"

definition usage_transaction ::
  "import_env \<Rightarrow> UsageImportRequest \<Rightarrow> SourceConnection \<Rightarrow> PreservedImportObject \<Rightarrow> PreparedUsageRow list \<Rightarrow> import_db \<Rightarrow> (import_db \<times> ImportResult) res" where
  "usage_transaction env request source preserved prepared db =
     (let duplicate = findDuplicate (im_envelopes db) (sc_id source) (''usage-file:'' @ po_sha256 preserved) in
      if truthy_text duplicate then
        Inr (db, \<lparr> iu_outcome = Duplicate_file, iu_referenceId = the duplicate, iu_received = length prepared, iu_accepted = 0,
                   iu_duplicates = length prepared, iu_auditJobsQueued = 0, iu_missingRecordingUrls = 0 \<rparr>)
      else
        rbind (usage_headers env request source preserved (length prepared) db) (\<lambda>db.
        rbind (import_chunks env (usage_context env request source preserved) (chunks prepared USAGE_IMPORT_WRITE_BATCH_SIZE) db no_counts) (\<lambda>(db, n).
        rbind (finish_usage env n db) (\<lambda>db.
        Inr (db, \<lparr> iu_outcome = Imported, iu_referenceId = ie_uuid env ''kaudit_ingestion_batch'' [], iu_received = length prepared,
                   iu_accepted = in_accepted n, iu_duplicates = in_duplicates n, iu_auditJobsQueued = in_queued n,
                   iu_missingRecordingUrls = in_missing n \<rparr>)))))"

text \<open>A transaction that fails is rolled back.\<close>

definition transaction :: "import_db \<Rightarrow> (import_db \<times> ImportResult) res \<Rightarrow> import_db \<times> ImportResult res" where
  "transaction db r = (case r of Inl e \<Rightarrow> (db, Inl e) | Inr (db', result) \<Rightarrow> (db', Inr result))"

definition importUsage :: "import_env \<Rightarrow> UsageImportRequest \<Rightarrow> import_db \<Rightarrow> import_db \<times> ImportResult res" where
  "importUsage env request db =
     transaction db
       (rbind (dateOnly (ur_periodStart request) ''periodStart'') (\<lambda>_.
        rbind (dateOnly (ur_periodEnd request) ''periodEnd'') (\<lambda>_.
        rbind (prevalidateUsageRows (ie_parse env) (ie_allowedRecordingHosts env) (ur_bytes request)) (\<lambda>rows.
        rbind (prepareUsageRows (ie_parse env) (ie_allowedRecordingHosts env) (ie_rowIds env) rows) (\<lambda>prepared.
        rbind (ie_preserve env (ur_bytes request) (ur_filename request) ''text/csv'') (\<lambda>preserved.
        rbind (resolveSource (ie_sourceConnectionId env) (im_sources db)) (\<lambda>source.
        usage_transaction env request source preserved prepared db)))))))"

section \<open>Importing an invoice\<close>

definition invoice_transaction ::
  "import_env \<Rightarrow> InvoiceImportRequest \<Rightarrow> SourceConnection \<Rightarrow> PreservedImportObject \<Rightarrow> string \<Rightarrow> string \<Rightarrow> string \<Rightarrow> import_db \<Rightarrow> (import_db \<times> ImportResult) res" where
  "invoice_transaction env request source preserved subtotal tax totalAmount db =
     (let idempotencyKey = ''invoice-file:'' @ po_sha256 preserved; duplicate = findDuplicate (im_envelopes db) (sc_id source) idempotencyKey;
          evidenceId = ie_uuid env ''kaudit_evidence_object'' []; invoiceId = ie_uuid env ''kaudit_invoice'' [] in
      if truthy_text duplicate then
        Inr (db, \<lparr> iu_outcome = Duplicate_file, iu_referenceId = the duplicate, iu_received = 1, iu_accepted = 0, iu_duplicates = 1,
                   iu_auditJobsQueued = 0, iu_missingRecordingUrls = 0 \<rparr>)
      else
        rbind (statement env (db\<lparr> im_evidence := im_evidence db @
          [\<lparr> eo_id = evidenceId, eo_batchId = None, eo_sourceConnectionId = sc_id source, eo_evidenceType = ''invoice'',
             eo_objectBucket = po_objectBucket preserved, eo_objectKey = po_objectKey preserved, eo_sha256 = po_sha256 preserved,
             eo_sizeBytes = length (vr_bytes request), eo_mediaType = ''application/pdf'', eo_sourceUriRedacted = safeImportFilename (vr_filename request),
             eo_sourceEventId = vr_invoiceNumber request, eo_retentionClass = ''finance_record'' \<rparr>] \<rparr>)) (\<lambda>db.
        rbind (statement env (db\<lparr> im_envelopes := im_envelopes db @
          [\<lparr> se_id = ie_uuid env ''kaudit_source_envelope'' [], se_evidenceObjectId = evidenceId, se_sourceConnectionId = sc_id source,
             se_externalEventId = vr_invoiceNumber request, se_eventType = ''monthly_invoice'', se_idempotencyKey = idempotencyKey,
             se_normalizedAt = Some (ie_now env), se_normalizationStatus = ''completed'' \<rparr>] \<rparr>)) (\<lambda>db.
        rbind (statement env (db\<lparr> im_invoices := im_invoices db @
          [\<lparr> iv_id = invoiceId, iv_vendorAccountId = sc_vendorAccountId source, iv_invoiceNumber = vr_invoiceNumber request,
             iv_invoiceDate = vr_invoiceDate request, iv_periodStart = vr_periodStart request, iv_periodEnd = vr_periodEnd request,
             iv_subtotal = subtotal, iv_tax = tax, iv_total = totalAmount, iv_evidenceObjectId = evidenceId \<rparr>] \<rparr>)) (\<lambda>db.
        Inr (db, \<lparr> iu_outcome = Imported, iu_referenceId = invoiceId, iu_received = 1, iu_accepted = 1, iu_duplicates = 0,
                   iu_auditJobsQueued = 0, iu_missingRecordingUrls = 0 \<rparr>)))))"

definition importInvoice :: "import_env \<Rightarrow> InvoiceImportRequest \<Rightarrow> import_db \<Rightarrow> import_db \<times> ImportResult res" where
  "importInvoice env request db =
     transaction db
       (if \<not> endsWith (toLowerCase (vr_filename request)) ''.pdf'' then Inl (ImportInputError ''Invoice must be a PDF'')
        else if take 5 (vr_bytes request) \<noteq> ''%PDF-'' then Inl (ImportInputError ''Invoice bytes are not a PDF'')
        else
          rbind (dateOnly (vr_invoiceDate request) ''invoiceDate'') (\<lambda>_.
          rbind (dateOnly (vr_periodStart request) ''periodStart'') (\<lambda>_.
          rbind (dateOnly (vr_periodEnd request) ''periodEnd'') (\<lambda>_.
          rbind (money (ie_large env) (vr_subtotalAmount request) ''subtotalAmount'') (\<lambda>subtotal.
          rbind (money (ie_large env) (vr_taxAmount request) ''taxAmount'') (\<lambda>tax.
          rbind (money (ie_large env) (vr_totalAmount request) ''totalAmount'') (\<lambda>totalAmount.
          rbind (ie_preserve env (vr_bytes request) (vr_filename request) ''application/pdf'') (\<lambda>preserved.
          rbind (resolveSource (ie_sourceConnectionId env) (im_sources db)) (\<lambda>source.
          invoice_transaction env request source preserved subtotal tax totalAmount db)))))))))"

section \<open>Writing in chunks is writing at once\<close>

text \<open>The Task IDs the references already hold, and the tables with the rows of all given calls added.\<close>

definition stored_tasks :: "ExternalReference list \<Rightarrow> string set" where
  "stored_tasks references = er_externalId ` set (filter task_reference references)"

definition unstored :: "ExternalReference list \<Rightarrow> PreparedUsageRow list \<Rightarrow> PreparedUsageRow list" where
  "unstored references items = filter (\<lambda>item. ug_taskId (pp_row item) \<notin> stored_tasks references) items"

definition with_calls :: "import_env \<Rightarrow> import_context \<Rightarrow> PreparedUsageRow list \<Rightarrow> import_db \<Rightarrow> import_db" where
  "with_calls env ctx items db =
     db\<lparr> im_calls := im_calls db @ map (call_row (cx_source ctx) (cx_periodStart ctx)) items,
         im_references := im_references db @ map (reference_row env (cx_evidenceId ctx)) items, im_legs := im_legs db @ map leg_row items,
         im_costs := im_costs db @ concat (map (cost_rows env (cx_evidenceId ctx)) items), im_artifacts := im_artifacts db @ map artifact_row items,
         im_outbox := im_outbox db @ map (outbox_row env (cx_correlationId ctx) (cx_envelopeId ctx) (cx_sha256 ctx)) (auditable_rows items) \<rparr>"

definition tallied :: "PreparedUsageRow list \<Rightarrow> nat \<Rightarrow> import_counts \<Rightarrow> import_counts" where
  "tallied items received n =
     \<lparr> in_accepted = in_accepted n + length items, in_duplicates = in_duplicates n + (received - length items),
       in_queued = in_queued n + length (auditable_rows items), in_missing = in_missing n + (length items - length (auditable_rows items)) \<rparr>"

lemma statement_Inr: "statement env db = Inr db' \<longleftrightarrow> db' = db \<and> ie_refuses env db = None"
  by (auto simp: statement_def split: option.splits)

lemma bulkInsert_Inr: "bulkInsert env add_rows rows db = Inr db' \<Longrightarrow> add_rows [] db = db \<Longrightarrow> db' = add_rows rows db"
  by (auto simp: bulkInsert_def statement_Inr split: if_splits)

lemma insert_pending_Inr: "insert_pending env ctx pending db = Inr db' \<Longrightarrow> db' = with_calls env ctx pending db"
  by (auto simp: insert_pending_def rbind_Inr_iff with_calls_def dest!: bulkInsert_Inr)

lemma pending_rows_unstored: "pending_rows references batch = unstored references batch"
proof -
  have "ug_taskId (pp_row item) \<in> set (existing_ids references (map task_of batch)) \<longleftrightarrow> ug_taskId (pp_row item) \<in> stored_tasks references"
    if "item \<in> set batch" for item
    using that by (force simp: existing_ids_def stored_tasks_def list_ex_iff)
  then show ?thesis by (auto simp: pending_rows_def unstored_def Let_def intro!: filter_cong)
qed

lemma with_calls_Nil [simp]: "with_calls env ctx [] db = db"
  by (simp add: with_calls_def auditable_rows_def)

lemma with_calls_append: "with_calls env ctx ys (with_calls env ctx xs db) = with_calls env ctx (xs @ ys) db"
  by (simp add: with_calls_def auditable_rows_def)

lemma with_calls_references: "im_references (with_calls env ctx xs db) = im_references db @ map (reference_row env (cx_evidenceId ctx)) xs"
  by (simp add: with_calls_def)

lemma stored_tasks_append: "stored_tasks (refs @ map (reference_row env e) xs) = stored_tasks refs \<union> task_of ` set xs"
proof -
  have "task_reference (reference_row env e x)" for x by (simp add: reference_row_def task_reference_def)
  then show ?thesis by (auto simp: stored_tasks_def image_Un filter_True image_image reference_row_def)
qed

lemma unstored_append: "unstored refs (xs @ ys) = unstored refs xs @ unstored refs ys"
  by (simp add: unstored_def)

lemma unstored_after:
  assumes "distinct (map task_of (xs @ ys))"
  shows "unstored (refs @ map (reference_row env e) (unstored refs xs)) ys = unstored refs ys"
  using assms unfolding unstored_def stored_tasks_append by (intro filter_cong) (auto simp: image_iff)

lemma auditable_rows_append: "auditable_rows (xs @ ys) = auditable_rows xs @ auditable_rows ys"
  by (simp add: auditable_rows_def)

lemma auditable_rows_le: "length (auditable_rows xs) \<le> length xs"
  by (simp add: auditable_rows_def)

lemma tallied_step: "length xs \<le> a \<Longrightarrow> length ys \<le> b \<Longrightarrow> tallied ys b (tallied xs a n) = tallied (xs @ ys) (a + b) n"
  using auditable_rows_le[of xs] auditable_rows_le[of ys] by (simp add: tallied_def auditable_rows_append add.assoc)

lemma tallied_update:
  "n\<lparr> in_duplicates := in_duplicates n + (received - length items), in_accepted := in_accepted n + length items,
     in_queued := in_queued n + length (auditable_rows items), in_missing := in_missing n + (length items - length (auditable_rows items)) \<rparr> = tallied items received n"
  by (cases n) (simp add: tallied_def)

lemma tallied_none: "n\<lparr> in_duplicates := in_duplicates n + received \<rparr> = tallied [] received n"
  by (cases n) (simp add: tallied_def auditable_rows_def)

lemma import_chunks_Inr:
  "import_chunks env ctx batches db n = Inr (db', n') \<Longrightarrow> distinct (map task_of (concat batches)) \<Longrightarrow>
   db' = with_calls env ctx (unstored (im_references db) (concat batches)) db \<and>
   n' = tallied (unstored (im_references db) (concat batches)) (length (concat batches)) n"
proof (induction batches arbitrary: db n)
  case Nil
  then show ?case by (simp add: tallied_def unstored_def auditable_rows_def)
next
  case (Cons batch batches)
  let ?p = "unstored (im_references db) batch" let ?q = "unstored (im_references db) (concat batches)"
  have len: "length ?p \<le> length batch" "length ?q \<le> length (concat batches)" by (simp_all add: unstored_def)
  have d: "distinct (map task_of (concat batches))" "distinct (map task_of (batch @ concat batches))" using Cons.prems(2) by simp_all
  have rest: "import_chunks env ctx batches (with_calls env ctx ?p db) (tallied ?p (length batch) n) = Inr (db', n')"
  proof (cases "?p = []")
    case True
    then show ?thesis using Cons.prems(1) tallied_none[of n "length batch"] by (simp add: pending_rows_unstored)
  next
    case False
    then show ?thesis using Cons.prems(1) unfolding tallied_update[symmetric]
      by (simp add: pending_rows_unstored Let_def rbind_Inr_iff) (blast dest: insert_pending_Inr)
  qed
  have "unstored (im_references (with_calls env ctx ?p db)) (concat batches) = ?q" unfolding with_calls_references by (rule unstored_after[OF d(2)])
  then show ?case using Cons.IH[OF rest d(1)] len by (simp add: with_calls_append unstored_append tallied_step)
qed

lemma concat_chunks: "0 < k \<Longrightarrow> concat (chunks xs k) = xs"
proof (induction xs k rule: chunks.induct)
  case (1 xs k)
  then show ?case by (subst chunks.simps) (cases "xs = []"; simp)
qed

section \<open>What an import does\<close>

lemma importUsage_Inr:
  assumes "importUsage env request db = (db', Inr r)"
  obtains rows prepared preserved source where
    "parseUsageCsv (ur_bytes request) = Inr rows" "prevalidateUsageRows (ie_parse env) (ie_allowedRecordingHosts env) (ur_bytes request) = Inr rows"
    "prepareUsageRows (ie_parse env) (ie_allowedRecordingHosts env) (ie_rowIds env) rows = Inr prepared"
    "ie_preserve env (ur_bytes request) (ur_filename request) ''text/csv'' = Inr preserved"
    "resolveSource (ie_sourceConnectionId env) (im_sources db) = Inr source"
    "usage_transaction env request source preserved prepared db = Inr (db', r)"
  using assms that prevalidated by (fastforce simp: importUsage_def transaction_def rbind_Inr_iff split: sum.splits prod.splits)

lemma importUsage_Inl: "importUsage env request db = (db', Inl e) \<Longrightarrow> db' = db"
  by (simp add: importUsage_def transaction_def split: sum.splits prod.splits)

lemma importInvoice_Inr:
  assumes "importInvoice env request db = (db', Inr r)"
  obtains preserved source subtotal tax totalAmount where
    "money (ie_large env) (vr_subtotalAmount request) ''subtotalAmount'' = Inr subtotal" "money (ie_large env) (vr_taxAmount request) ''taxAmount'' = Inr tax"
    "money (ie_large env) (vr_totalAmount request) ''totalAmount'' = Inr totalAmount"
    "ie_preserve env (vr_bytes request) (vr_filename request) ''application/pdf'' = Inr preserved"
    "resolveSource (ie_sourceConnectionId env) (im_sources db) = Inr source"
    "invoice_transaction env request source preserved subtotal tax totalAmount db = Inr (db', r)"
  using assms that by (fastforce simp: importInvoice_def transaction_def rbind_Inr_iff split: sum.splits prod.splits if_splits)

lemma importInvoice_Inl: "importInvoice env request db = (db', Inl e) \<Longrightarrow> db' = db"
  by (simp add: importInvoice_def transaction_def split: sum.splits prod.splits)

definition envelope_key :: "SourceEnvelope \<Rightarrow> string \<times> string \<times> string" where
  "envelope_key e = (se_sourceConnectionId e, se_idempotencyKey e, se_evidenceObjectId e)"

lemma usage_headers_Inr:
  assumes "usage_headers env request source preserved received db = Inr db'"
  shows "im_sources db' = im_sources db" "im_calls db' = im_calls db" "im_references db' = im_references db" "im_legs db' = im_legs db"
    "im_costs db' = im_costs db" "im_artifacts db' = im_artifacts db" "im_outbox db' = im_outbox db" "im_invoices db' = im_invoices db"
    "map envelope_key (im_envelopes db') = map envelope_key (im_envelopes db) @ [(sc_id source, ''usage-file:'' @ po_sha256 preserved, ie_uuid env ''kaudit_evidence_object'' [])]"
  using assms by (auto simp: usage_headers_def Let_def rbind_Inr_iff statement_Inr envelope_key_def)

lemma finish_usage_Inr:
  assumes "finish_usage env n db = Inr db'"
  shows "im_sources db' = im_sources db" "im_calls db' = im_calls db" "im_references db' = im_references db" "im_legs db' = im_legs db"
    "im_costs db' = im_costs db" "im_artifacts db' = im_artifacts db" "im_outbox db' = im_outbox db" "im_invoices db' = im_invoices db"
    "map envelope_key (im_envelopes db') = map envelope_key (im_envelopes db)"
  using assms by (auto simp: finish_usage_def rbind_Inr_iff statement_Inr envelope_key_def)

lemma with_calls_others:
  "im_sources (with_calls env ctx items db) = im_sources db" "im_envelopes (with_calls env ctx items db) = im_envelopes db"
  "im_invoices (with_calls env ctx items db) = im_invoices db"
  by (simp_all add: with_calls_def)

text \<open>What a transaction that stored a file has done to the tables of the calls.\<close>

definition stored_calls :: "import_env \<Rightarrow> import_context \<Rightarrow> PreparedUsageRow list \<Rightarrow> import_db \<Rightarrow> import_db \<Rightarrow> bool" where
  "stored_calls env ctx items db db' \<longleftrightarrow>
     im_calls db' = im_calls db @ map (call_row (cx_source ctx) (cx_periodStart ctx)) items \<and>
     im_references db' = im_references db @ map (reference_row env (cx_evidenceId ctx)) items \<and>
     im_legs db' = im_legs db @ map leg_row items \<and>
     im_costs db' = im_costs db @ concat (map (cost_rows env (cx_evidenceId ctx)) items) \<and>
     im_artifacts db' = im_artifacts db @ map artifact_row items \<and>
     im_outbox db' = im_outbox db @ map (outbox_row env (cx_correlationId ctx) (cx_envelopeId ctx) (cx_sha256 ctx)) (auditable_rows items) \<and>
     im_invoices db' = im_invoices db \<and> im_sources db' = im_sources db"

lemma usage_transaction_Inr:
  assumes "usage_transaction env request source preserved prepared db = Inr (db', r)" "distinct (map task_of prepared)"
  defines "duplicate \<equiv> findDuplicate (im_envelopes db) (sc_id source) (''usage-file:'' @ po_sha256 preserved)"
    and "fresh \<equiv> unstored (im_references db) prepared"
  shows "if truthy_text duplicate
    then db' = db \<and> iu_outcome r = Duplicate_file \<and> iu_referenceId r = the duplicate \<and> iu_received r = length prepared \<and> iu_accepted r = 0 \<and>
      iu_duplicates r = length prepared
    else stored_calls env (usage_context env request source preserved) fresh db db' \<and>
      map envelope_key (im_envelopes db') = map envelope_key (im_envelopes db) @ [(sc_id source, ''usage-file:'' @ po_sha256 preserved, ie_uuid env ''kaudit_evidence_object'' [])] \<and>
      iu_outcome r = Imported \<and> iu_received r = length prepared \<and> iu_accepted r = length fresh \<and> iu_duplicates r = length prepared - length fresh \<and>
      iu_auditJobsQueued r = length (auditable_rows fresh) \<and> iu_missingRecordingUrls r = length fresh - length (auditable_rows fresh)"
proof (cases "truthy_text duplicate")
  case False
  let ?ctx = "usage_context env request source preserved"
  obtain db1 db2 n db3 where steps: "usage_headers env request source preserved (length prepared) db = Inr db1"
    "import_chunks env ?ctx (chunks prepared USAGE_IMPORT_WRITE_BATCH_SIZE) db1 no_counts = Inr (db2, n)" "finish_usage env n db2 = Inr db3" "db' = db3"
    and r: "r = \<lparr> iu_outcome = Imported, iu_referenceId = ie_uuid env ''kaudit_ingestion_batch'' [], iu_received = length prepared,
       iu_accepted = in_accepted n, iu_duplicates = in_duplicates n, iu_auditJobsQueued = in_queued n, iu_missingRecordingUrls = in_missing n \<rparr>"
    using assms(1) False unfolding duplicate_def by (auto simp: usage_transaction_def rbind_Inr_iff)
  have "concat (chunks prepared USAGE_IMPORT_WRITE_BATCH_SIZE) = prepared" by (rule concat_chunks) (simp add: USAGE_IMPORT_WRITE_BATCH_SIZE_def)
  then have "db2 = with_calls env ?ctx fresh db1 \<and> n = tallied fresh (length prepared) no_counts"
    using import_chunks_Inr[OF steps(2)] assms(2) by (simp add: fresh_def usage_headers_Inr[OF steps(1)])
  then show ?thesis using False r steps(4)
    by (simp add: stored_calls_def finish_usage_Inr[OF steps(3)] with_calls_others usage_headers_Inr[OF steps(1)] tallied_def no_counts_def)
      (simp add: with_calls_def usage_headers_Inr[OF steps(1)])
qed (use assms(1) in \<open>auto simp: usage_transaction_def duplicate_def\<close>)

text \<open>
  C29. Importing a usage file in chunks of five hundred rows has the effect of one write of the whole file: the rows whose Task ID no
  KServe reference holds yet, in the order of the file, each get a call, a reference, a leg, the cost claims of the row and an artifact, and an audit
  request exactly where the row has a recording; received is accepted plus duplicates and accepted is queued plus missing.
\<close>

theorem usage_import_refines:
  assumes "importUsage env request db = (db', Inr r)" "iu_outcome r = Imported"
  shows "\<exists>rows prepared source preserved. parseUsageCsv (ur_bytes request) = Inr rows \<and> map pp_row prepared = rows \<and>
    (let fresh = unstored (im_references db) prepared in
      stored_calls env (usage_context env request source preserved) fresh db db' \<and>
      iu_received r = length rows \<and> iu_accepted r = length fresh \<and> iu_received r = iu_accepted r + iu_duplicates r \<and>
      iu_auditJobsQueued r = length (filter (\<lambda>item. ug_recordingUrl (pp_row item) \<noteq> None) fresh) \<and>
      iu_accepted r = iu_auditJobsQueued r + iu_missingRecordingUrls r)"
proof -
  obtain rows prepared preserved source where f: "parseUsageCsv (ur_bytes request) = Inr rows"
    "prepareUsageRows (ie_parse env) (ie_allowedRecordingHosts env) (ie_rowIds env) rows = Inr prepared"
    "usage_transaction env request source preserved prepared db = Inr (db', r)" by (rule importUsage_Inr[OF assms(1)])
  have rows: "map pp_row prepared = rows" by (rule prepareUsageRows_rows[OF f(2)])
  then have "distinct (map task_of prepared)" using parseUsageCsv_distinct[OF f(1)] by (auto simp: comp_def)
  note t = usage_transaction_Inr[OF f(3) this]
  let ?fresh = "unstored (im_references db) prepared"
  have "filter (\<lambda>item. ug_recordingUrl (pp_row item) \<noteq> None) ?fresh = auditable_rows ?fresh"
    unfolding auditable_rows_def using prepareUsageRows_rows(2)[OF f(2)] by (intro filter_cong) (auto simp: unstored_def)
  moreover have "length ?fresh \<le> length prepared" by (simp add: unstored_def)
  moreover have "length prepared = length rows" using rows by auto
  ultimately show ?thesis using t assms(2) f(1) rows auditable_rows_le[of ?fresh]
    by (intro exI[of _ rows] exI[of _ prepared] exI[of _ source] exI[of _ preserved]) (auto simp: Let_def split: if_splits)
qed

section \<open>Histories of imports\<close>

text \<open>The audit requests in the outbox, which other parts of the system write to as well.\<close>

definition audit_requests :: "outbox \<Rightarrow> OutboxRow list" where
  "audit_requests table = filter (\<lambda>m. ob_eventType m = ''call.audit_requested'') table"

definition import_ok :: "import_db \<Rightarrow> bool" where
  "import_ok db \<longleftrightarrow>
     list_all task_reference (im_references db) \<and> distinct (map er_externalId (im_references db)) \<and>
     map ic_logicalCallKey (im_calls db) = map (\<lambda>x. ''kserve-task:'' @ er_externalId x) (im_references db) \<and>
     map er_callId (im_references db) = map ic_id (im_calls db) \<and> map cl_callId (im_legs db) = map ic_id (im_calls db) \<and>
     map ia_callId (im_artifacts db) = map ic_id (im_calls db) \<and> list_all (\<lambda>c. co_callId c \<in> ic_id ` set (im_calls db)) (im_costs db) \<and>
     map ob_aggregateId (audit_requests (im_outbox db)) = map ia_callId (filter (\<lambda>a. ia_sourceUrl a \<noteq> None) (im_artifacts db))"

definition tables_grow :: "import_db \<Rightarrow> import_db \<Rightarrow> bool" where
  "tables_grow db db' \<longleftrightarrow>
     prefix (im_calls db) (im_calls db') \<and> prefix (im_references db) (im_references db') \<and> prefix (im_legs db) (im_legs db') \<and>
     prefix (im_costs db) (im_costs db') \<and> prefix (im_artifacts db) (im_artifacts db') \<and> prefix (im_outbox db) (im_outbox db') \<and>
     prefix (im_invoices db) (im_invoices db') \<and> prefix (map envelope_key (im_envelopes db)) (map envelope_key (im_envelopes db')) \<and>
     im_sources db' = im_sources db"

inductive import_step :: "import_db \<Rightarrow> import_db \<Rightarrow> bool" where
  Usage: "importUsage env request db = (db', result) \<Longrightarrow> import_step db db'"
| Invoice: "importInvoice env bill db = (db', result) \<Longrightarrow> import_step db db'"

inductive_cases import_stepE: "import_step db db'"

lemma tables_grow_refl: "tables_grow db db"
  by (simp add: tables_grow_def)

lemma tables_grow_trans: "tables_grow a b \<Longrightarrow> tables_grow b c \<Longrightarrow> tables_grow a c"
  unfolding tables_grow_def by (intro conjI; (elim conjE)?; metis prefix_order.trans)

lemma distinct_unstored: "distinct (map task_of items) \<Longrightarrow> distinct (map task_of (unstored refs items))"
  by (simp add: unstored_def distinct_map_filter)

lemma audit_requests_append:
  "audit_requests (table @ map (outbox_row env corr envl sha) items) = audit_requests table @ map (outbox_row env corr envl sha) items"
  by (simp add: audit_requests_def outbox_row_def Let_def filter_map comp_def)

lemma costs_of_items: "c \<in> set (concat (map (cost_rows env e) items)) \<Longrightarrow> co_callId c \<in> pp_callId ` set items"
  by (auto simp: cost_rows_def cost_row_def)

lemma stored_calls_ok:
  assumes "stored_calls env ctx (unstored (im_references db) items) db db'" "distinct (map task_of items)" "import_ok db"
  shows "import_ok db'"
proof -
  let ?fresh = "unstored (im_references db) items"
  have refs: "im_references db' = im_references db @ map (reference_row env (cx_evidenceId ctx)) ?fresh"
    and calls: "im_calls db' = im_calls db @ map (call_row (cx_source ctx) (cx_periodStart ctx)) ?fresh"
    and tabs: "im_legs db' = im_legs db @ map leg_row ?fresh" "im_artifacts db' = im_artifacts db @ map artifact_row ?fresh"
      "im_costs db' = im_costs db @ concat (map (cost_rows env (cx_evidenceId ctx)) ?fresh)"
      "im_outbox db' = im_outbox db @ map (outbox_row env (cx_correlationId ctx) (cx_envelopeId ctx) (cx_sha256 ctx)) (auditable_rows ?fresh)"
    using assms(1) by (simp_all add: stored_calls_def)
  have ok: "list_all task_reference (im_references db)" using assms(3) by (simp add: import_ok_def)
  then have "stored_tasks (im_references db) = er_externalId ` set (im_references db)" by (simp add: stored_tasks_def list_all_iff filter_True)
  then have "distinct (map er_externalId (im_references db'))"
    using assms(3) distinct_unstored[OF assms(2), of "im_references db"] by (auto simp: import_ok_def refs reference_row_def comp_def unstored_def image_iff)
  moreover have "list_all (\<lambda>c. co_callId c \<in> ic_id ` set (im_calls db')) (im_costs db')"
    using assms(3) costs_of_items[of _ env "cx_evidenceId ctx" ?fresh]
    by (fastforce simp: import_ok_def tabs calls list_all_iff call_row_def image_Un image_image)
  moreover have "map ob_aggregateId (audit_requests (im_outbox db')) = map ia_callId (filter (\<lambda>a. ia_sourceUrl a \<noteq> None) (im_artifacts db'))"
    using assms(3) unfolding tabs audit_requests_append
    by (simp add: import_ok_def auditable_rows_def filter_map comp_def outbox_row_def artifact_row_def Let_def)
  moreover have "list_all task_reference (im_references db')" using ok by (auto simp: refs list_all_iff reference_row_def task_reference_def)
  ultimately show ?thesis using assms(3)
    by (simp add: import_ok_def refs calls tabs comp_def reference_row_def call_row_def leg_row_def artifact_row_def)
qed

lemma stored_calls_grow:
  "stored_calls env ctx items db db' \<Longrightarrow> map envelope_key (im_envelopes db') = map envelope_key (im_envelopes db) @ [k] \<Longrightarrow> tables_grow db db'"
  by (simp add: stored_calls_def tables_grow_def)

lemma importUsage_keeps:
  assumes "importUsage env request db = (db', result)"
  shows "tables_grow db db' \<and> (import_ok db \<longrightarrow> import_ok db')"
proof (cases result)
  case (Inl e)
  then show ?thesis using importUsage_Inl assms tables_grow_refl by metis
next
  case (Inr r)
  obtain rows prepared preserved source where f: "parseUsageCsv (ur_bytes request) = Inr rows"
    "prepareUsageRows (ie_parse env) (ie_allowedRecordingHosts env) (ie_rowIds env) rows = Inr prepared"
    "usage_transaction env request source preserved prepared db = Inr (db', r)" by (rule importUsage_Inr[OF assms[unfolded Inr]])
  have d: "distinct (map task_of prepared)" using parseUsageCsv_distinct[OF f(1)] prepareUsageRows_rows(1)[OF f(2)] by (auto simp: comp_def)
  show ?thesis using usage_transaction_Inr[OF f(3) d] stored_calls_ok[OF _ d] stored_calls_grow tables_grow_refl by (auto split: if_splits)
qed

lemma invoice_transaction_keeps:
  assumes "invoice_transaction env request source preserved subtotal tax totalAmount db = Inr (db', r)"
  shows "tables_grow db db' \<and> (import_ok db \<longrightarrow> import_ok db')"
  using assms by (auto simp: invoice_transaction_def Let_def rbind_Inr_iff statement_Inr tables_grow_def import_ok_def envelope_key_def split: if_splits)

lemma importInvoice_keeps: "importInvoice env request db = (db', result) \<Longrightarrow> tables_grow db db' \<and> (import_ok db \<longrightarrow> import_ok db')"
  by (cases result) (metis importInvoice_Inl tables_grow_refl, metis importInvoice_Inr invoice_transaction_keeps)

lemma import_step_keeps: "import_step db db' \<Longrightarrow> tables_grow db db' \<and> (import_ok db \<longrightarrow> import_ok db')"
  by (erule import_stepE) (simp_all add: importUsage_keeps importInvoice_keeps)

interpretation clean_imports: monotone_system import_step import_ok tables_grow
  by unfold_locales (auto intro: tables_grow_refl tables_grow_trans dest: import_step_keeps)

interpretation any_imports: monotone_system import_step "\<lambda>_. True" tables_grow
  by unfold_locales (auto intro: tables_grow_refl tables_grow_trans dest: import_step_keeps)


lemma find_prefix: "prefix xs ys \<Longrightarrow> find P xs = Some x \<Longrightarrow> find P ys = Some x"
proof -
  assume "prefix xs ys" "find P xs = Some x"
  moreover have "find P (xs @ zs) = Some x" if "find P xs = Some x" for zs using that by (induction xs) (auto split: if_splits)
  ultimately show ?thesis by (auto elim!: prefixE)
qed

lemma findDuplicate_keys:
  "findDuplicate envelopes s k = map_option (\<lambda>(_, _, e). e) (find (\<lambda>(a, b, _). same_key a s \<and> same_key b k) (map envelope_key envelopes))"
  by (induction envelopes) (auto simp: findDuplicate_def envelope_of_def envelope_key_def)

lemma findDuplicate_grows: "tables_grow db db' \<Longrightarrow> findDuplicate (im_envelopes db) s k = Some e \<Longrightarrow> findDuplicate (im_envelopes db') s k = Some e"
  by (auto simp: findDuplicate_keys tables_grow_def dest: find_prefix)

lemma find_snoc: "find P (xs @ [x]) = (case find P xs of Some y \<Rightarrow> Some y | None \<Rightarrow> if P x then Some x else None)"
  by (induction xs) auto

lemma findDuplicate_named:
  "findDuplicate envelopes s k = Some e \<Longrightarrow> list_all (\<lambda>x. se_evidenceObjectId x \<noteq> []) envelopes \<Longrightarrow> e \<noteq> []"
  by (auto simp: findDuplicate_def find_Some_iff list_all_length)

lemma imported_file_found:
  assumes "importUsage env request db = (db1, Inr r)" "list_all (\<lambda>e. se_evidenceObjectId e \<noteq> []) (im_envelopes db)"
    "ie_uuid env ''kaudit_evidence_object'' [] \<noteq> []"
  obtains preserved source e where "ie_preserve env (ur_bytes request) (ur_filename request) ''text/csv'' = Inr preserved"
    "resolveSource (ie_sourceConnectionId env) (im_sources db1) = Inr source" "e \<noteq> []"
    "findDuplicate (im_envelopes db1) (sc_id source) (''usage-file:'' @ po_sha256 preserved) = Some e"
proof -
  obtain rows prepared preserved source where f: "parseUsageCsv (ur_bytes request) = Inr rows"
    "prepareUsageRows (ie_parse env) (ie_allowedRecordingHosts env) (ie_rowIds env) rows = Inr prepared"
    "ie_preserve env (ur_bytes request) (ur_filename request) ''text/csv'' = Inr preserved"
    "resolveSource (ie_sourceConnectionId env) (im_sources db) = Inr source"
    "usage_transaction env request source preserved prepared db = Inr (db1, r)" by (rule importUsage_Inr[OF assms(1)])
  let ?dup = "findDuplicate (im_envelopes db) (sc_id source) (''usage-file:'' @ po_sha256 preserved)"
  have d: "distinct (map task_of prepared)" using parseUsageCsv_distinct[OF f(1)] prepareUsageRows_rows(1)[OF f(2)] by (auto simp: comp_def)
  note t = usage_transaction_Inr[OF f(5) d]
  have "\<exists>e. e \<noteq> [] \<and> findDuplicate (im_envelopes db1) (sc_id source) (''usage-file:'' @ po_sha256 preserved) = Some e"
  proof (cases ?dup)
    case None
    then have "map envelope_key (im_envelopes db1) = map envelope_key (im_envelopes db) @ [(sc_id source, ''usage-file:'' @ po_sha256 preserved, ie_uuid env ''kaudit_evidence_object'' [])]"
      using t by simp
    then show ?thesis using None assms(3) by (simp add: findDuplicate_keys find_snoc)
  next
    case (Some e)
    then show ?thesis using t findDuplicate_named[OF Some assms(2)] by simp
  qed
  moreover have "im_sources db1 = im_sources db" using importUsage_keeps[OF assms(1)] by (simp add: tables_grow_def)
  ultimately show thesis using that f(3,4) by metis
qed

text \<open>
  C28. Once a usage file has been imported, its bytes are recognised for good: whatever was imported in between and whatever the file
  is called, importing it again from the same source changes no table, and the answer, where there is one, says that every row is a duplicate.
\<close>

theorem reimport_changes_nothing:
  assumes "importUsage env request db = (db1, Inr r)" "list_all (\<lambda>e. se_evidenceObjectId e \<noteq> []) (im_envelopes db)"
    "ie_uuid env ''kaudit_evidence_object'' [] \<noteq> []" "import_step\<^sup>*\<^sup>* db1 db2"
    "ur_bytes again = ur_bytes request" "ie_sourceConnectionId later = ie_sourceConnectionId env"
    and store: "\<And>bytes name media p. ie_preserve env bytes name media = Inr p \<Longrightarrow> po_sha256 p = sha256Hex rt bytes"
      "\<And>bytes name media p. ie_preserve later bytes name media = Inr p \<Longrightarrow> po_sha256 p = sha256Hex rt bytes"
  shows "fst (importUsage later again db2) = db2 \<and>
    (case snd (importUsage later again db2) of Inl _ \<Rightarrow> True
     | Inr s \<Rightarrow> iu_outcome s = Duplicate_file \<and> iu_accepted s = 0 \<and> iu_duplicates s = iu_received s)"
proof (cases "snd (importUsage later again db2)")
  case (Inl e)
  then show ?thesis using importUsage_Inl[of later again db2 "fst (importUsage later again db2)" e] by (simp add: prod_eq_iff)
next
  case (Inr s)
  then have run: "importUsage later again db2 = (fst (importUsage later again db2), Inr s)" by (simp add: prod_eq_iff)
  obtain p source e where first: "ie_preserve env (ur_bytes request) (ur_filename request) ''text/csv'' = Inr p"
    "resolveSource (ie_sourceConnectionId env) (im_sources db1) = Inr source" "e \<noteq> []"
    "findDuplicate (im_envelopes db1) (sc_id source) (''usage-file:'' @ po_sha256 p) = Some e" by (rule imported_file_found[OF assms(1-3)])
  have grow: "tables_grow db1 db2" by (rule any_imports.run_grows[OF assms(4) TrueI])
  obtain rows prepared q origin where f: "parseUsageCsv (ur_bytes again) = Inr rows"
    "prepareUsageRows (ie_parse later) (ie_allowedRecordingHosts later) (ie_rowIds later) rows = Inr prepared"
    "ie_preserve later (ur_bytes again) (ur_filename again) ''text/csv'' = Inr q" "resolveSource (ie_sourceConnectionId later) (im_sources db2) = Inr origin"
    "usage_transaction later again origin q prepared db2 = Inr (fst (importUsage later again db2), s)" by (rule importUsage_Inr[OF run])
  have d: "distinct (map task_of prepared)" using parseUsageCsv_distinct[OF f(1)] prepareUsageRows_rows(1)[OF f(2)] by (auto simp: comp_def)
  have "origin = source" "po_sha256 q = po_sha256 p"
    using first(1,2) f(3,4) assms(5,6) store grow by (auto simp: tables_grow_def)
  then show ?thesis using usage_transaction_Inr[OF f(5) d] findDuplicate_grows[OF grow first(4)] first(3) Inr by simp
qed

section \<open>An import that goes through\<close>

lemma insert_pending_total: "ie_refuses env = (\<lambda>_. None) \<Longrightarrow> \<exists>db'. insert_pending env ctx items db = Inr db'"
  by (simp add: insert_pending_def bulkInsert_def statement_def)

lemma import_chunks_total: "ie_refuses env = (\<lambda>_. None) \<Longrightarrow> \<exists>db' n'. import_chunks env ctx batches db n = Inr (db', n')"
proof (induction batches arbitrary: db n)
  case (Cons batch batches)
  then show ?case using insert_pending_total[OF Cons.prems, of ctx "pending_rows (im_references db) batch" db] by (auto simp: Let_def)
qed simp

lemma usage_transaction_total:
  assumes "ie_refuses env = (\<lambda>_. None)"
  shows "\<exists>db' r. usage_transaction env request source preserved prepared db = Inr (db', r)"
proof -
  obtain db1 where "usage_headers env request source preserved (length prepared) db = Inr db1"
    using assms by (simp add: usage_headers_def statement_def Let_def)
  moreover obtain db2 n where "import_chunks env (usage_context env request source preserved) (chunks prepared USAGE_IMPORT_WRITE_BATCH_SIZE) db1 no_counts = Inr (db2, n)"
    using import_chunks_total[OF assms] by blast
  moreover obtain db3 where "finish_usage env n db2 = Inr db3" using assms by (simp add: finish_usage_def statement_def)
  ultimately show ?thesis by (simp add: usage_transaction_def Let_def)
qed

lemma importUsage_total:
  assumes "ie_refuses env = (\<lambda>_. None)" "date_text (ur_periodStart request)" "date_text (ur_periodEnd request)"
    "prevalidateUsageRows (ie_parse env) (ie_allowedRecordingHosts env) (ur_bytes request) = Inr rows"
    "ie_preserve env (ur_bytes request) (ur_filename request) ''text/csv'' = Inr preserved"
    "resolveSource (ie_sourceConnectionId env) (im_sources db) = Inr source"
  shows "\<exists>db' r. importUsage env request db = (db', Inr r)"
proof -
  obtain prepared where "prepareUsageRows (ie_parse env) (ie_allowedRecordingHosts env) (ie_rowIds env) rows = Inr prepared"
    using prepareUsageRows_total[OF assms(4)] by blast
  then show ?thesis using assms usage_transaction_total[OF assms(1), of request source preserved prepared db]
    by (auto simp: importUsage_def dateOnly_def transaction_def)
qed

definition demo_source :: SourceConnection where
  "demo_source = \<lparr> sc_id = ''source-1'', sc_vendorAccountId = ''vendor-1'', sc_status = ''active'', sc_adapterCode = ''kserve-gas'', sc_sourceType = ''sheet'', sc_createdAt = 0 \<rparr>"

definition demo_tables :: import_db where
  "demo_tables =
     \<lparr> im_sources = [demo_source], im_batches = [], im_evidence = [], im_envelopes = [], im_calls = [], im_references = [], im_legs = [], im_costs = [],
       im_artifacts = [], im_outbox = [], im_invoices = [] \<rparr>"

definition demo_import :: import_env where
  "demo_import =
     \<lparr> ie_runtime = demo_runtime, ie_parse = (\<lambda>_. None), ie_allowedRecordingHosts = [], ie_sourceConnectionId = None,
       ie_preserve = (\<lambda>bytes _ _. Inr \<lparr> po_objectBucket = ''imports'', po_objectKey = ''key'', po_sha256 = sha256Hex demo_runtime bytes \<rparr>),
       ie_rowIds = (\<lambda>k. \<lparr> ri_callId = ''call-'' @ string_of_nat k, ri_legId = ''leg-'' @ string_of_nat k, ri_artifactId = ''artifact-'' @ string_of_nat k \<rparr>),
       ie_uuid = (\<lambda>table key. table @ '':'' @ key), ie_now = 0, ie_large = (\<lambda>_. []), ie_refuses = (\<lambda>_. None) \<rparr>"

definition july_request :: "string \<Rightarrow> UsageImportRequest" where
  "july_request name =
     \<lparr> ur_bytes = print_usage demo_usage, ur_filename = name, ur_periodStart = ''2026-07-01'', ur_periodEnd = ''2026-07-31'', ur_correlationId = ''c-1'' \<rparr>"

definition demo_after :: import_db where
  "demo_after = fst (importUsage demo_import (july_request ''july.csv'') demo_tables)"

lemma demo_resolves: "resolveSource None [demo_source] = Inr demo_source"
  by code_simp

lemma demo_dates: "date_text ''2026-07-01''" "date_text ''2026-07-31''"
  by code_simp+

lemma demo_runs:
  assumes "im_sources db = [demo_source]"
  shows "\<exists>db' r. importUsage demo_import (july_request name) db = (db', Inr r)"
  by (rule importUsage_total[where rows = demo_usage and source = demo_source])
    (simp_all add: assms demo_import_def july_request_def demo_dates demo_usage_checked demo_resolves)

lemma demo_first: "\<exists>r. importUsage demo_import (july_request ''july.csv'') demo_tables = (demo_after, Inr r) \<and> iu_outcome r = Imported"
proof -
  obtain db' r where run: "importUsage demo_import (july_request ''july.csv'') demo_tables = (db', Inr r)"
    using demo_runs[of demo_tables "''july.csv''"] by (auto simp: demo_tables_def)
  obtain rows prepared preserved source where f: "parseUsageCsv (ur_bytes (july_request ''july.csv'')) = Inr rows"
    "prepareUsageRows (ie_parse demo_import) (ie_allowedRecordingHosts demo_import) (ie_rowIds demo_import) rows = Inr prepared"
    "usage_transaction demo_import (july_request ''july.csv'') source preserved prepared demo_tables = Inr (db', r)" by (rule importUsage_Inr[OF run])
  have d: "distinct (map task_of prepared)" using parseUsageCsv_distinct[OF f(1)] prepareUsageRows_rows(1)[OF f(2)] by (auto simp: comp_def)
  show ?thesis using usage_transaction_Inr[OF f(3) d] run by (simp add: demo_after_def demo_tables_def findDuplicate_def)
qed

theorem usage_import_refines_witness:
  "\<exists>r. importUsage demo_import (july_request ''july.csv'') demo_tables = (demo_after, Inr r) \<and> iu_received r = 2 \<and> iu_accepted r = 2 \<and> length (im_calls demo_after) = 2"
proof -
  obtain r where r: "importUsage demo_import (july_request ''july.csv'') demo_tables = (demo_after, Inr r)" "iu_outcome r = Imported" using demo_first by blast
  have "parseUsageCsv (ur_bytes (july_request ''july.csv'')) = Inr demo_usage"
    by (rule prevalidated[OF demo_usage_checked]) (simp add: july_request_def)
  moreover have "length demo_usage = 2" by (simp add: demo_usage_def)
  moreover have "unstored (im_references demo_tables) items = items" for items by (simp add: unstored_def stored_tasks_def demo_tables_def)
  ultimately show ?thesis using usage_import_refines[OF r] r(1) by (auto simp: Let_def stored_calls_def demo_tables_def dest: arg_cong[where f = length])
qed


theorem reimport_changes_nothing_witness:
  "\<exists>s. importUsage demo_import (july_request ''renamed.csv'') demo_after = (demo_after, Inr s) \<and> iu_outcome s = Duplicate_file \<and> iu_accepted s = 0"
proof -
  obtain r where r: "importUsage demo_import (july_request ''july.csv'') demo_tables = (demo_after, Inr r)" using demo_first by blast
  have "im_sources demo_after = [demo_source]" using importUsage_keeps[OF r] by (simp add: tables_grow_def demo_tables_def)
  then obtain db' s where s: "importUsage demo_import (july_request ''renamed.csv'') demo_after = (db', Inr s)" using demo_runs by blast
  have "fst (importUsage demo_import (july_request ''renamed.csv'') demo_after) = demo_after \<and>
    (case snd (importUsage demo_import (july_request ''renamed.csv'') demo_after) of Inl _ \<Rightarrow> True
     | Inr s \<Rightarrow> iu_outcome s = Duplicate_file \<and> iu_accepted s = 0 \<and> iu_duplicates s = iu_received s)"
    by (rule reimport_changes_nothing[OF r, where rt = demo_runtime]) (auto simp: demo_tables_def demo_import_def july_request_def)
  then show ?thesis using s by simp
qed

end
