(* ===== verification/Spec2Isabelle.thy ===== *)
theory Spec2Isabelle
  imports ValidationRun AuditedProjection Idempotency Inbox Outbox AuditChain Settlement SpendLease
    WorkerControl CallScore CycleReadiness LateCorrection OidcBinding AuditWriter CycleImport
begin

text \<open>
  \<^bold>\<open>A verification development of the audit platform for AI voice-call bills.\<close>

  \<^bold>\<open>The program.\<close> A vendor (KServe) bills calls of a voice bot by the minute. The platform fetches each
  recording, transcribes and classifies it, derives the chargeable duration from the category, computes a
  verified charge, and settles each call on the verified, the audited or the vendor's own figure. A batch
  worker runs the audits under a pre-payment lease and a control plane; a consensus of model opinions
  validates classifications; months are closed and their payments recorded; messages, idempotent requests
  and an audit log support all of it. A second, transcript-based audit scores calls.

  \<^bold>\<open>Theories and sources\<close> (paths under \<open>src/src\<close>; every definition keeps the name of its source).

  \<^item> \<open>Prelude\<close>, \<open>JsText\<close>, \<open>JsNumber\<close>, \<open>JsDate\<close>, \<open>Runtime\<close>: JavaScript errors as a datatype and results as a sum,
    strings as byte lists, decimal text, safe integers, doubles with round-to-nearest-even, the ISO form of
    a date, and a record of what the platform supplies (SHA-256, \<open>Date.parse\<close>, \<open>localeCompare\<close>).
  \<^item> \<open>Decimal\<close>, \<open>CanonicalJson\<close>: \<open>ui/decimal.ts\<close> and \<open>messaging/canonicalJson.ts\<close>; canonical text is prefix free, so a digest
    identifies its value up to a hash collision.
  \<^item> \<open>KserveRules\<close>, \<open>CategoryPolicy\<close>, \<open>BillingTypes\<close>, \<open>VerifiedCharge\<close>: \<open>billing/kserveRules.ts\<close>, \<open>categoryChargePolicy.ts\<close>,
    \<open>types.ts\<close>, \<open>calculateVerifiedCharge.ts\<close>. The charge refines the published rule, respects both caps, is final
    exactly when authorised, is defined on every valid input, and its manifest identifies the input and ignores
    the order of the evidence.
  \<^item> \<open>Classification\<close>: \<open>reaudit/core.ts\<close> up to \<open>repairClassification\<close>. Merging keeps all speech; accepted roles are
    disjoint and inside the recording; a mid-conversation failure needs confirmed service.
  \<^item> \<open>Consensus\<close>, \<open>ValidationRun\<close>: \<open>automation/consensus.ts\<close> and \<open>validationRun.ts\<close>. An accepted consensus bills a majority above
    the floor; an accepted run is priced; a dry run computes the same; one accepted voicemail case cannot be billed.
  \<^item> \<open>BillingRecords\<close>, \<open>AuditedProjection\<close>: \<open>billing/records.ts\<close>, \<open>acceptedAsBilled.ts\<close>, \<open>auditedChargeProjection.ts\<close>,
    \<open>auditedProjectionSettlement.ts\<close>. The locale \<open>row_builder\<close> states what the three settlement builders promise and is
    interpreted on each; the ledgers balance over any mix of them.
  \<^item> \<open>BillingLedger\<close>: \<open>adapters/mysqlVerifiedBilling.ts\<close> over its tables. Every call has one live calculation, the newest of an
    unbroken chain; a repeated write changes nothing.
  \<^item> \<open>ReauditCall\<close>: \<open>reaudit/core.ts\<close> from \<open>speechByRole\<close> on and \<open>security/urlSafety.ts\<close>. Only a recording fetched from a safe
    address with the expected hash is transcribed, classified or charged, and never beyond its length.
  \<^item> \<open>RecordingUrl\<close>: \<open>backfill\<close> and \<open>adapters/mysqlBackfillRepo.ts\<close>.
  \<^item> \<open>LateRecording\<close>, \<open>LateRecordingBatch\<close>, \<open>LateCorrection\<close>: \<open>lateRecording\<close> and \<open>adapters/mysqlLateRecordingCorrections.ts\<close>, from the uploaded
    text to the month's correction. The locale \<open>monotone_system\<close> (a store whose steps keep an invariant and only
    extend what is recorded) is interpreted on the ledger and on this workflow: evidence is written once, a batch
    is closed exactly when its correction is on record, commits replay.
  \<^item> \<open>SpendLease\<close>: \<open>adapters/mysqlBillingSpendLease.ts\<close> and \<open>processCandidate\<close> of \<open>reaudit/worker.ts\<close> as a step relation over
    any number of workers; at most one paid result per question.
  \<^item> \<open>WorkerControl\<close>: \<open>auditWorkers/control.ts\<close>, \<open>drainContinuation.ts\<close>, \<open>billingAdvisoryLock.ts\<close>, \<open>reaudit/failures.ts\<close>,
    \<open>adapters/mysqlAuditWorkerControl.ts\<close>. Control rows move forward only; drains stop for a reason; the lock wait ends.
  \<^item> \<open>Settlement\<close>: \<open>billing/kserveSettlement.ts\<close> and \<open>adapters/mysqlKserveSettlement.ts\<close>. Versions of a month are linear and
    immutable, retries replay, amounts are exact.
  \<^item> \<open>CycleReadiness\<close>: \<open>billing/cycleReadiness.ts\<close>, \<open>monthCloseReadiness.ts\<close>, \<open>vendorAssertedBound.ts\<close>.
  \<^item> \<open>Lease\<close>, \<open>Inbox\<close>, \<open>Idempotency\<close>: an abstract lease machine (locale \<open>lease_store\<close>) and its two implementations,
    \<open>messaging/inboxPolicy.ts\<close> with \<open>adapters/mysqlInbox.ts\<close> and \<open>idempotency/policy.ts\<close> with \<open>adapters/mysqlIdempotency.ts\<close>;
    exactly-once completion and replay are proved once in the locale.
  \<^item> \<open>Outbox\<close>: \<open>adapters/mysqlOutbox.ts\<close> and \<open>messaging/outboxPublisher.ts\<close>. A batch settles every message it claimed; a
    message is enqueued once; a message left in publishing is never claimed again.
  \<^item> \<open>AuditChain\<close>: \<open>audit/hashChain.ts\<close>, \<open>audit/transactionalAuditWriter.ts\<close>, \<open>adapters/mysqlAuditSink.ts\<close>. The chain is unbroken
    and tamper evident.
  \<^item> \<open>Credentials\<close>: \<open>auth/credentialIdentity.ts\<close>, \<open>passwordHash.ts\<close>, \<open>userSession.ts\<close>. A stored hash accepts exactly the passwords with its
    digest; a session token verifies to what it was issued with.
  \<^item> \<open>KeyedTable\<close>, \<open>UserAdministration\<close>, \<open>CredentialRepository\<close>, \<open>UserLifecycle\<close>: \<open>identity/userAdministration.ts\<close>,
    \<open>adapters/mysqlUserAdministration.ts\<close> and \<open>mysqlUserCredentialRepo.ts\<close>. Every committed operation is one step of an abstract
    life cycle of one account with one true audit record; an active administrator always remains and
    closed accounts stay closed; \<open>monotone_system\<close> is interpreted on it too.
  \<^item> \<open>LoginService\<close>: \<open>auth/loginService.ts\<close> and \<open>adapters/mysqlLoginService.ts\<close>. A login succeeds only on what the locked re-read
    confirms; enough failures block a login or a source, and a success resets a source for everyone behind it.
  \<^item> \<open>Access\<close>: \<open>identity/access.ts\<close>, \<open>adapters/mysqlAccessRepo.ts\<close>, \<open>auth/authenticate.ts\<close>, \<open>localSession.ts\<close> and the authentication
    of a request in \<open>http/enterpriseDashboardServer.ts\<close>. An administrator gate admits active administrators with a live
    session only; a revoked session is refused from then on.
  \<^item> \<open>OidcBinding\<close>: \<open>identity/oidcBinding.ts\<close>, \<open>adminGrant.ts\<close>, \<open>adapters/mysqlOidcBinding.ts\<close>, \<open>cli/run-admin-grant.ts\<close>. A written
    binding is for good; a grant revives a closed account.
  \<^item> \<open>ManualQueue\<close>: \<open>reaudit/manualRequests.ts\<close>, \<open>reaudit/scope.ts\<close>, \<open>adapters/mysqlManualReauditQueue.ts\<close>. Re-audits an administrator asks for:
    requests, items, claims, interruptions and settlement. Every operation keeps the two tables consistent and moves items forward only.
  \<^item> \<open>AuditWriter\<close>: \<open>adapters/mysqlReauditWriteRepo.ts\<close>, \<open>adapters/mysqlAiUsage.ts\<close>. The claim of a call and the transaction that stores an audit
    result, over the queue's tables and the outbox. In every history a call has one live re-audit at most, request counts are those of the
    items and a current run is a completed run of its call; a requested re-audit is stored whole or not at all, never twice, and its
    request can be replayed for ever.
  \<^item> \<open>UsageImport\<close>: \<open>imports/csv.ts\<close>, \<open>imports/analysis.ts\<close> and the checks of \<open>adapters/mysqlCycleImport.ts\<close>. The scan that reports every bad
    row and the reader that stops at the first agree; written files read back; checked rows can be stored; amounts below
    two to the twenty-sixth survive their detour through a double and larger ones need not.
  \<^item> \<open>CycleImport\<close>: the import transactions of \<open>adapters/mysqlCycleImport.ts\<close> and \<open>imports/objectStore.ts\<close>. Writing in chunks has the effect of one
    write; in every history Task IDs are unique, the tables of the calls stay aligned and nothing stored is lost
    (\<open>monotone_system\<close> again); an imported file is recognised for good.
  \<^item> \<open>CallScore\<close>: scoring, eligibility, Task ID and outcome taxonomy of \<open>callaudit\<close>. The overall score is the exact weighted
    percentage.

  \<^bold>\<open>How the code is modelled.\<close> A thrown error is \<open>Inl\<close> of an error value and every early return is a branch. A
  database table is a list or a map of records and a transaction is one state-passing function; where the
  code runs several statements without a transaction (the spend lease) each statement is a step of its own.
  Unique keys are checked by the insert. Keys of the inbox, idempotency and outbox tables are compared exactly;
  the settlement key, user ids and emails are compared without letter case, as their column collation does. Clocks, random
  identifiers and model answers are arguments. Text beyond ASCII is handled as UTF-8 bytes; trimming and case
  folding are those of ASCII text.

  \<^bold>\<open>Parameters.\<close> SHA-256, HMAC, scrypt, \<open>JSON.parse\<close> of a token, \<open>Date.parse\<close>, \<open>localeCompare\<close>, \<open>new URL\<close>, the recording fetcher, the object store of imports, the schema of the base tables imports write to, the model services, the transcript
  cache, the message transport and the cue regular expressions are arguments; statements that rest on
  SHA-256 name the collision that would refute them.

  \<^bold>\<open>Bounds and fuel.\<close> The only loop on fuel is the lock wait, and one unit per millisecond of the timeout plus one is
  proved enough. Timestamps are shown well formed from 1970 to the year 9500. Exponents of doubles are
  unbounded, which no modelled quantity comes near.

  \<^bold>\<open>Not modelled.\<close> Call audit processing, persistence and reporting, the OIDC browser login,
  spreadsheet synchronisation and reconciliation, the batch loops around
  \<open>processCandidate\<close> and around late recordings, reports and dashboards, the HTTP server, configuration, command line tools and the clients of
  third-party services. The reporting adapters are SQL read models and the last four groups are wiring or
  presentation; the others carry rules of their own and are the plan for extending this development, in that
  order.
\<close>

end
